(* ===== verification/Prelude.thy ===== *)
theory Prelude
  imports Main "HOL-Library.Word" "HOL-Library.Multiset" "HOL-Library.AList"
begin

text \<open>
  What every component shares: the machine types of the Rust source, the wrap-around of
  \<open>as i32\<close>, decimal printing, the ASCII part of the string library, the interface of
  \<open>std::collections::HashMap\<close> as a locale together with its association-list model,
  and the generic facts on stable sorting and \<open>Vec::dedup\<close> the components rest on.
\<close>

section \<open>Types of the source\<close>

text \<open>
  A \<open>Uuid\<close> is 128 bits; fresh ids (\<open>Uuid::new_v4\<close>) are arguments of the operations
  that draw them. A \<open>DateTime<Utc>\<close> is a number of nanoseconds since the epoch; the
  clock (\<open>Utc::now\<close>) is an argument too. An \<open>i32\<close> is an \<open>int\<close> whose conversions
  wrap explicitly, a \<open>u8\<close> and a \<open>u16\<close> are words.
\<close>

type_synonym uuid = "128 word"
type_synonym timestamp = int
type_synonym i32 = int
type_synonym u8 = "8 word"
type_synonym u16 = "16 word"

definition uuid_nil :: uuid where
  "uuid_nil = 0"

text \<open>The facts a group of component proofs shares are collected here.\<close>

named_theorems lookup_simps "HashMap lookups after an update"
named_theorems frame_simps "fields an operation leaves alone"

section \<open>Errors\<close>

text \<open>
  \<open>ApiError\<close> carries an HTTP status and a message. The constructors are the ones the
  modelled code uses (\<open>bad_request\<close>, \<open>forbidden\<close>, \<open>not_found\<close>, \<open>conflict\<close>,
  \<open>internal_error\<close>).
\<close>

datatype ApiError =
    BadRequest string | Forbidden string | NotFound string | Conflict string | InternalError string

section \<open>Integers\<close>

definition i32_wrap :: "int \<Rightarrow> i32" where
  \<comment> \<open>two's complement reading of the low 32 bits\<close>
  "i32_wrap x = (x + 2 ^ 31) mod 2 ^ 32 - 2 ^ 31"

definition as_i32 :: "nat \<Rightarrow> i32" where
  \<comment> \<open>the cast \<open>n as i32\<close> of a usize\<close>
  "as_i32 n = i32_wrap (int n)"

lemma i32_wrap_id [simp]: "- (2 ^ 31) \<le> x \<Longrightarrow> x < 2 ^ 31 \<Longrightarrow> i32_wrap x = x"
  by (simp add: i32_wrap_def)

lemma as_i32_small [simp]: "n < 2 ^ 31 \<Longrightarrow> as_i32 n = int n"
  by (simp add: as_i32_def i32_wrap_def)

lemma as_i32_0 [simp]: "as_i32 0 = 0"
  by (simp add: as_i32_def i32_wrap_def)

section \<open>Decimal numbers\<close>

definition digit_char :: "nat \<Rightarrow> char" where
  "digit_char d = char_of (48 + d)"

definition is_digit :: "char \<Rightarrow> bool" where
  "is_digit c \<longleftrightarrow> 48 \<le> (of_char c :: nat) \<and> (of_char c :: nat) \<le> 57"

definition digit_val :: "char \<Rightarrow> nat" where
  "digit_val c = of_char c - 48"

fun show_nat :: "nat \<Rightarrow> string" where
  "show_nat n = (if n < 10 then [digit_char n] else show_nat (n div 10) @ [digit_char (n mod 10)])"

declare show_nat.simps [simp del]

definition show_int :: "int \<Rightarrow> string" where
  "show_int i = (if i < 0 then ''-'' @ show_nat (nat (- i)) else show_nat (nat i))"

fun parse_digits :: "nat \<Rightarrow> string \<Rightarrow> nat option" where
  "parse_digits acc [] = Some acc"
| "parse_digits acc (c # cs) = (if is_digit c then parse_digits (acc * 10 + digit_val c) cs else None)"

lemma digit_char_props [simp]:
  assumes "d < 10"
  shows "is_digit (digit_char d)" and "digit_val (digit_char d) = d"
  using assms by (simp_all add: digit_char_def is_digit_def digit_val_def)

lemma parse_digits_append:
  "parse_digits acc (xs @ ys) = Option.bind (parse_digits acc xs) (\<lambda>a. parse_digits a ys)"
  by (induction xs arbitrary: acc) auto

lemma parse_show_nat: "parse_digits 0 (show_nat n) = Some n"
proof (induction n rule: show_nat.induct)
  case (1 n)
  show ?case
  proof (cases "n < 10")
    case True
    then show ?thesis by (subst show_nat.simps) simp
  next
    case False
    with 1 have "parse_digits 0 (show_nat (n div 10)) = Some (n div 10)" by simp
    with False show ?thesis
      by (subst show_nat.simps) (simp add: parse_digits_append)
  qed
qed

lemma show_nat_digits: "list_all is_digit (show_nat n)"
proof (induction n rule: show_nat.induct)
  case (1 n)
  then show ?case by (subst show_nat.simps) simp
qed

lemma show_nat_nonempty [simp]: "show_nat n \<noteq> []"
  by (subst show_nat.simps) simp

lemma show_nat_inj: "show_nat m = show_nat n \<longleftrightarrow> m = n"
  by (metis parse_show_nat option.inject)

section \<open>Strings\<close>

text \<open>
  Strings are ASCII; \<open>to_lowercase\<close> and \<open>to_uppercase\<close> map the ASCII letters.
\<close>

definition char_lower :: "char \<Rightarrow> char" where
  "char_lower c = (let n = of_char c :: nat in if 65 \<le> n \<and> n \<le> 90 then char_of (n + 32) else c)"

definition char_upper :: "char \<Rightarrow> char" where
  "char_upper c = (let n = of_char c :: nat in if 97 \<le> n \<and> n \<le> 122 then char_of (n - 32) else c)"

definition to_lowercase :: "string \<Rightarrow> string" where
  "to_lowercase s = map char_lower s"

definition is_alphanumeric :: "char \<Rightarrow> bool" where
  "is_alphanumeric c = (let n = of_char c :: nat in
     48 \<le> n \<and> n \<le> 57 \<or> 65 \<le> n \<and> n \<le> 90 \<or> 97 \<le> n \<and> n \<le> 122)"

fun starts_with :: "string \<Rightarrow> string \<Rightarrow> bool" where
  "starts_with s [] = True"
| "starts_with [] (p # ps) = False"
| "starts_with (c # s) (p # ps) = (c = p \<and> starts_with s ps)"

fun str_contains :: "string \<Rightarrow> string \<Rightarrow> bool" where
  "str_contains [] p = (p = [])"
| "str_contains (c # s) p = (starts_with (c # s) p \<or> str_contains s p)"

fun str_join :: "string \<Rightarrow> string list \<Rightarrow> string" where
  "str_join sep [] = []"
| "str_join sep [x] = x"
| "str_join sep (x # y # xs) = x @ sep @ str_join sep (y # xs)"

lemma char_lower_idem [simp]: "char_lower (char_lower c) = char_lower c"
  by (auto simp: char_lower_def Let_def)

lemma to_lowercase_idem [simp]: "to_lowercase (to_lowercase s) = to_lowercase s"
  by (simp add: to_lowercase_def)

lemma to_lowercase_append [simp]: "to_lowercase (xs @ ys) = to_lowercase xs @ to_lowercase ys"
  by (simp add: to_lowercase_def)

lemma starts_with_iff: "starts_with s p \<longleftrightarrow> (\<exists>t. s = p @ t)"
  by (induction s p rule: starts_with.induct) auto

lemma str_contains_iff: "str_contains s p \<longleftrightarrow> (\<exists>a b. s = a @ p @ b)"
proof (induction s p rule: str_contains.induct)
  case (1 p)
  then show ?case by auto
next
  case (2 c s p)
  have "(\<exists>a b. c # s = a @ p @ b) \<longleftrightarrow> (\<exists>b. c # s = p @ b) \<or> (\<exists>a b. s = a @ p @ b)"
    by (metis append_Cons append_Nil neq_Nil_conv list.inject)
  with 2 show ?case by (simp add: starts_with_iff)
qed

section \<open>Vectors\<close>

text \<open>
  \<open>sort_by_key\<close> is stable, as is \<open>sort_key\<close>. \<open>Vec::dedup\<close> drops consecutive
  repetitions under the type's \<open>==\<close> and keeps the first element of each run.
\<close>

fun vec_dedup :: "('a \<Rightarrow> 'a \<Rightarrow> bool) \<Rightarrow> 'a list \<Rightarrow> 'a list" where
  "vec_dedup eq [] = []"
| "vec_dedup eq [x] = [x]"
| "vec_dedup eq (x # y # xs) = (if eq x y then vec_dedup eq (x # xs) else x # vec_dedup eq (y # xs))"

lemma find_Some_mem: "List.find Q xs = Some x \<Longrightarrow> x \<in> set xs \<and> Q x"
  by (auto simp: find_Some_iff)

lemma vec_dedup_Cons_hd: "\<exists>ys. vec_dedup eq (x # xs) = x # ys"
  by (induction xs arbitrary: x) auto

lemma set_vec_dedup: "set (vec_dedup eq xs) \<subseteq> set xs"
  by (induction eq xs rule: vec_dedup.induct) auto

lemma vec_dedup_Nil_iff [simp]: "vec_dedup eq xs = [] \<longleftrightarrow> xs = []"
  by (cases xs) (auto, metis vec_dedup_Cons_hd list.distinct(1))

text \<open>When the equality is that of a key, the keys of the result are those of the input.\<close>

lemma vec_dedup_keys:
  "set (map f (vec_dedup (\<lambda>a b. f a = f b) xs)) = set (map f xs)"
  by (induction "\<lambda>a b. f a = f b" xs rule: vec_dedup.induct) auto

text \<open>Sorting first makes the surviving keys distinct.\<close>

lemma vec_dedup_sorted:
  "sorted (map f xs) \<Longrightarrow>
   sorted (map f (vec_dedup (\<lambda>a b. f a = f b) xs)) \<and>
   distinct (map f (vec_dedup (\<lambda>a b. f a = f b) xs))"
proof (induction "\<lambda>a b. f a = f b" xs rule: vec_dedup.induct)
  case (3 x y xs)
  show ?case
  proof (cases "f x = f y")
    case True
    with 3 show ?thesis by simp
  next
    case False
    with 3 have IH: "sorted (map f (vec_dedup (\<lambda>a b. f a = f b) (y # xs)))"
      "distinct (map f (vec_dedup (\<lambda>a b. f a = f b) (y # xs)))"
      and lt: "\<forall>z \<in> set (y # xs). f x < f z"
      by (auto simp: less_le)
    from lt have "\<forall>z \<in> set (vec_dedup (\<lambda>a b. f a = f b) (y # xs)). f x < f z"
      using set_vec_dedup by fastforce
    with IH False show ?thesis by auto
  qed
qed auto

lemma sort_key_eq_self: "sorted (map f xs) \<Longrightarrow> sort_key f xs = xs"
  by (simp add: sort_key_id_if_sorted)

lemma map_sort_key: "map f (sort_key f xs) = sort (map f xs)"
  by (rule properties_for_sort [symmetric]) simp_all

text \<open>A sorted list of integers with the elements of an initial segment is that segment.\<close>

lemma map_int_upt_sorted [simp]: "sorted (map int [a..<b])"
  by (simp add: sorted_wrt_map sorted_wrt_upt)

lemma sort_eq_upt_iff: "sort xs = map int [0..<length xs] \<longleftrightarrow> mset xs = mset (map int [0..<length xs])"
proof
  assume "sort xs = map int [0..<length xs]"
  then show "mset xs = mset (map int [0..<length xs])" by (metis mset_sort)
next
  assume "mset xs = mset (map int [0..<length xs])"
  then have "sort (map int [0..<length xs]) = sort xs"
    by (metis properties_for_sort mset_sort sorted_sort)
  then show "sort xs = map int [0..<length xs]"
    by (simp add: sorted_sort_id)
qed

lemma upt_length_Cons: "[i..<i + length (x # xs)] = i # [Suc i..<Suc i + length xs]"
  by (simp add: upt_rec)

section \<open>The HashMap interface\<close>

text \<open>
  What the components use of \<open>HashMap\<close>: lookup, insert (overwriting) and remove. The laws
  are the documented ones; the lemmas hold for every map with these operations.
\<close>

locale hash_map =
  fixes get :: "'m \<Rightarrow> 'k \<Rightarrow> 'v option"
    and ins :: "'k \<Rightarrow> 'v \<Rightarrow> 'm \<Rightarrow> 'm"
    and rem :: "'k \<Rightarrow> 'm \<Rightarrow> 'm"
    and emp :: 'm
  assumes get_emp: "get emp k = None"
    and get_ins: "get (ins k v m) j = (if j = k then Some v else get m j)"
    and get_rem: "get (rem k m) j = (if j = k then None else get m j)"
begin

lemma get_ins_same: "get (ins k v m) k = Some v"
  by (simp add: get_ins)

lemma get_ins_other: "j \<noteq> k \<Longrightarrow> get (ins k v m) j = get m j"
  by (simp add: get_ins)

lemma get_rem_Some: "get (rem k m) j = Some v \<Longrightarrow> j \<noteq> k \<and> get m j = Some v"
  by (simp add: get_rem split: if_splits)

lemma fold_rem: "get (fold rem ks m) j = (if j \<in> set ks then None else get m j)"
  by (induction ks arbitrary: m) (auto simp: get_rem)

end

text \<open>
  The model of a \<open>HashMap\<close> is an association list, so that its iteration (whose order
  Rust leaves open) is a traversal of the list. Inserting keeps the keys distinct.
\<close>

type_synonym ('k, 'v) HashMap = "('k \<times> 'v) list"

definition hget :: "('k, 'v) HashMap \<Rightarrow> 'k \<Rightarrow> 'v option" where
  "hget m k = map_of m k"

definition hinsert :: "'k \<Rightarrow> 'v \<Rightarrow> ('k, 'v) HashMap \<Rightarrow> ('k, 'v) HashMap" where
  "hinsert k v m = AList.update k v m"

definition hremove :: "'k \<Rightarrow> ('k, 'v) HashMap \<Rightarrow> ('k, 'v) HashMap" where
  "hremove k m = AList.delete k m"

definition hkeys :: "('k, 'v) HashMap \<Rightarrow> 'k list" where
  "hkeys m = map fst m"

definition hvalues :: "('k, 'v) HashMap \<Rightarrow> 'v list" where
  "hvalues m = map snd m"

definition hmap_ok :: "('k, 'v) HashMap \<Rightarrow> bool" where
  "hmap_ok m = distinct (hkeys m)"

interpretation hm: hash_map hget hinsert hremove "[]"
  by unfold_locales (simp_all add: hget_def hinsert_def hremove_def update_conv' delete_conv')

lemmas hget_laws [lookup_simps] = hm.get_emp hm.get_ins hm.get_rem hm.fold_rem

lemma hmap_ok_empty [simp]: "hmap_ok []"
  by (simp add: hmap_ok_def hkeys_def)

lemma hmap_ok_hinsert [simp]: "hmap_ok m \<Longrightarrow> hmap_ok (hinsert k v m)"
  by (simp add: hmap_ok_def hkeys_def hinsert_def distinct_update)

lemma hmap_ok_hremove [simp]: "hmap_ok m \<Longrightarrow> hmap_ok (hremove k m)"
  by (simp add: hmap_ok_def hkeys_def hremove_def distinct_delete)

lemma hget_in_values: "hget m k = Some v \<Longrightarrow> (k, v) \<in> set m"
  by (simp add: hget_def map_of_SomeD)

lemma hget_iff_mem: "hmap_ok m \<Longrightarrow> hget m k = Some v \<longleftrightarrow> (k, v) \<in> set m"
  by (simp add: hget_def hmap_ok_def hkeys_def)

lemma hkeys_hget: "k \<in> set (hkeys m) \<longleftrightarrow> hget m k \<noteq> None"
  by (auto simp: hkeys_def hget_def map_of_eq_None_iff)

end
