(* ===== verification/Entity_Types.thy ===== *)
theory Entity_Types
  imports Prelude
begin

text \<open>
  Value types several components share: addresses and their printing, the SNMP credential
  mapping of a network scan (\<open>server/snmp_credentials/impl/discovery.rs\<close>), the discovery
  types and phases (\<open>server/discovery/impl/types.rs\<close>, \<open>daemon/discovery/types/base.rs\<close>),
  the match reasons and confidences (\<open>server/services/impl/patterns.rs\<close>) and the source
  of an entity (\<open>server/shared/types/entities.rs\<close>).
\<close>

section \<open>Addresses\<close>

text \<open>
  \<open>std::net::IpAddr\<close> and its \<open>Display\<close>: dotted quads, and for IPv6 the longest run of at
  least two zero segments compressed. A \<open>MacAddress\<close> is six bytes.
\<close>

datatype IpAddr = V4 "32 word" | V6 "128 word"

type_synonym MacAddress = "48 word"

definition octets :: "32 word \<Rightarrow> nat list" where
  "octets a = map (\<lambda>i. unat a div 2 ^ i mod 2 ^ 8) [24, 16, 8, 0]"

definition segments :: "128 word \<Rightarrow> nat list" where
  "segments a = map (\<lambda>i. unat a div 2 ^ i mod 2 ^ 16) [112, 96, 80, 64, 48, 32, 16, 0]"

definition hex_char :: "nat \<Rightarrow> char" where
  "hex_char d = (if d < 10 then char_of (48 + d) else char_of (87 + d))"

fun show_hex :: "nat \<Rightarrow> string" where
  "show_hex n = (if n < 16 then [hex_char n] else show_hex (n div 16) @ [hex_char (n mod 16)])"

declare show_hex.simps [simp del]

fun longest_zero_run :: "nat \<Rightarrow> nat list \<Rightarrow> nat \<times> nat \<Rightarrow> nat \<times> nat \<Rightarrow> nat \<times> nat" where
  "longest_zero_run i [] cur best = best"
| "longest_zero_run i (s # ss) (cs, cl) (bs, bl) =
     (if s = 0 then
        (let cur = (if cl = 0 then (i, 1) else (cs, Suc cl)) in
         longest_zero_run (Suc i) ss cur (if snd cur > bl then cur else (bs, bl)))
      else longest_zero_run (Suc i) ss (0, 0) (bs, bl))"

definition ipv4_display :: "32 word \<Rightarrow> string" where
  "ipv4_display a = str_join ''.'' (map show_nat (octets a))"

definition ipv6_display :: "128 word \<Rightarrow> string" where
  "ipv6_display a =
     (let ss = segments a in
      if take 6 ss = [0, 0, 0, 0, 0, 65535]
      then ''::ffff:'' @ ipv4_display (word_of_nat (unat a mod 2 ^ 32))
      else case longest_zero_run 0 ss (0, 0) (0, 0) of (st, len) \<Rightarrow>
        if len > 1
        then str_join '':'' (map show_hex (take st ss)) @ ''::'' @
             str_join '':'' (map show_hex (drop (st + len) ss))
        else str_join '':'' (map show_hex ss))"

fun ip_display :: "IpAddr \<Rightarrow> string" where
  "ip_display (V4 a) = ipv4_display a"
| "ip_display (V6 a) = ipv6_display a"

definition ends_in_1_or_254 :: "IpAddr \<Rightarrow> bool" where
  \<comment> \<open>the last octet, or the last segment, is 1 or 254\<close>
  "ends_in_1_or_254 ip =
     (case ip of
        V4 a \<Rightarrow> octets a ! 3 = 1 \<or> octets a ! 3 = 254
      | V6 a \<Rightarrow> segments a ! 7 = 1 \<or> segments a ! 7 = 254)"

text \<open>The hyphenated form of a \<open>Uuid\<close>.\<close>

definition hex_padded :: "nat \<Rightarrow> nat \<Rightarrow> string" where
  "hex_padded w n = map (\<lambda>i. hex_char (n div 16 ^ i mod 16)) (rev [0..<w])"

definition uuid_display :: "uuid \<Rightarrow> string" where
  "uuid_display u =
     (let n = unat u in
      hex_padded 8 (n div 2 ^ 96) @ ''-'' @ hex_padded 4 (n div 2 ^ 80) @ ''-'' @
      hex_padded 4 (n div 2 ^ 64) @ ''-'' @ hex_padded 4 (n div 2 ^ 48) @ ''-'' @ hex_padded 12 n)"

section \<open>SNMP credentials of a scan\<close>

datatype SnmpVersion = V2c | V3

record SnmpQueryCredential =
  sq_version :: SnmpVersion
  sq_community :: string

record SnmpIpOverride =
  so_ip :: IpAddr
  so_credential :: SnmpQueryCredential

record SnmpCredentialMapping =
  default_credential :: "SnmpQueryCredential option"
  ip_overrides :: "SnmpIpOverride list"

definition get_credential_for_ip :: "SnmpCredentialMapping \<Rightarrow> IpAddr \<Rightarrow> SnmpQueryCredential option" where
  "get_credential_for_ip m ip =
     (case map_option so_credential (find (\<lambda>o1. so_ip o1 = ip) (ip_overrides m)) of
        Some c \<Rightarrow> Some c
      | None \<Rightarrow> default_credential m)"

definition snmp_is_enabled :: "SnmpCredentialMapping \<Rightarrow> bool" where
  "snmp_is_enabled m \<longleftrightarrow> default_credential m \<noteq> None \<or> ip_overrides m \<noteq> []"

definition redacted :: string where
  "redacted = ''********''"

definition snmp_sanitized :: "SnmpCredentialMapping \<Rightarrow> SnmpCredentialMapping" where
  "snmp_sanitized m =
     \<lparr>default_credential =
        map_option (\<lambda>c. \<lparr>sq_version = sq_version c, sq_community = redacted\<rparr>) (default_credential m),
      ip_overrides =
        map (\<lambda>o1. \<lparr>so_ip = so_ip o1,
               so_credential = \<lparr>sq_version = sq_version (so_credential o1), sq_community = redacted\<rparr>\<rparr>)
            (ip_overrides m)\<rparr>"

section \<open>Discovery types and phases\<close>

datatype HostNamingFallback = FallbackIp | BestService

datatype DiscoveryType =
    SelfReport uuid
  | NetworkScan "uuid list option" HostNamingFallback SnmpCredentialMapping bool
  | DockerScan uuid HostNamingFallback

fun sanitized :: "DiscoveryType \<Rightarrow> DiscoveryType" where
  "sanitized (NetworkScan subnets fallback creds probe) =
     NetworkScan subnets fallback (snmp_sanitized creds) probe"
| "sanitized other = other"

fun discovery_type_display :: "DiscoveryType \<Rightarrow> string" where
  "discovery_type_display (SelfReport _) = ''Self Report''"
| "discovery_type_display (NetworkScan _ _ _ _) = ''Network Discovery''"
| "discovery_type_display (DockerScan _ _) = ''Docker Discovery''"

datatype DiscoveryPhase = Pending | Starting | Started | Scanning | Complete | Failed | Cancelled

definition is_terminal :: "DiscoveryPhase \<Rightarrow> bool" where
  "is_terminal p \<longleftrightarrow> p = Complete \<or> p = Cancelled \<or> p = Failed"

lemma is_terminal_simps [simp]:
  "is_terminal Complete" "is_terminal Cancelled" "is_terminal Failed"
  "\<not> is_terminal Pending" "\<not> is_terminal Starting" "\<not> is_terminal Started" "\<not> is_terminal Scanning"
  by (simp_all add: is_terminal_def)

fun discovery_type_communities :: "DiscoveryType \<Rightarrow> string set" where
  \<comment> \<open>every community string a discovery type carries\<close>
  "discovery_type_communities (NetworkScan _ _ m _) =
     sq_community ` (set_option (default_credential m) \<union> so_credential ` set (ip_overrides m))"
| "discovery_type_communities _ = {}"

lemma sanitized_communities: "discovery_type_communities (sanitized t) \<subseteq> {redacted}"
  by (cases t) (auto simp: snmp_sanitized_def)

lemma sanitized_idem: "sanitized (sanitized t) = sanitized t"
  by (cases t) (simp_all add: snmp_sanitized_def option.map_comp comp_def)

section \<open>Match results\<close>

datatype MatchReason = Reason string | Container string "MatchReason list"

text \<open>The \<open>Display\<close> that strum derives prints the variant's name.\<close>

fun match_reason_display :: "MatchReason \<Rightarrow> string" where
  "match_reason_display (Reason _) = ''Reason''"
| "match_reason_display (Container _ _) = ''Container''"

datatype MatchConfidence = NotApplicable | Low | Medium | High | Certain

fun confidence_rank :: "MatchConfidence \<Rightarrow> int" where
  \<comment> \<open>the declared discriminants\<close>
  "confidence_rank NotApplicable = 0"
| "confidence_rank Low = 1"
| "confidence_rank Medium = 2"
| "confidence_rank High = 3"
| "confidence_rank Certain = 4"

lemma confidence_rank_inj: "confidence_rank a = confidence_rank b \<longleftrightarrow> a = b"
  by (cases a; cases b) simp_all

instantiation MatchConfidence :: linorder
begin

definition less_eq_MatchConfidence :: "MatchConfidence \<Rightarrow> MatchConfidence \<Rightarrow> bool" where
  "less_eq_MatchConfidence a b \<longleftrightarrow> confidence_rank a \<le> confidence_rank b"

definition less_MatchConfidence :: "MatchConfidence \<Rightarrow> MatchConfidence \<Rightarrow> bool" where
  "less_MatchConfidence a b \<longleftrightarrow> confidence_rank a < confidence_rank b"

instance
  by standard (auto simp: less_eq_MatchConfidence_def less_MatchConfidence_def confidence_rank_inj)

end

fun confidence_as_str :: "MatchConfidence \<Rightarrow> string" where
  "confidence_as_str NotApplicable = ''Not Applicable''"
| "confidence_as_str Low = ''Low''"
| "confidence_as_str Medium = ''Medium''"
| "confidence_as_str High = ''High''"
| "confidence_as_str Certain = ''Certain''"

record MatchDetails =
  md_reason :: MatchReason
  md_confidence :: MatchConfidence

definition new_certain :: "string \<Rightarrow> MatchDetails" where
  "new_certain s = \<lparr>md_reason = Reason s, md_confidence = Certain\<rparr>"

definition reason_string :: "MatchDetails \<Rightarrow> string" where
  "reason_string d = (case md_reason d of Container s _ \<Rightarrow> s | Reason s \<Rightarrow> s)"

section \<open>The source of an entity\<close>

record DiscoveryMetadata =
  dm_discovery_type :: DiscoveryType
  dm_daemon_id :: uuid
  dm_date :: timestamp

datatype EntitySource =
    Manual
  | System
  | Discovered "DiscoveryMetadata list"
  | DiscoveryWithMatch "DiscoveryMetadata list" MatchDetails
  | UnknownSource

definition discovery_metadata_new :: "timestamp \<Rightarrow> DiscoveryType \<Rightarrow> uuid \<Rightarrow> DiscoveryMetadata" where
  "discovery_metadata_new now t daemon =
     \<lparr>dm_discovery_type = sanitized t, dm_daemon_id = daemon, dm_date = now\<rparr>"

definition MAX_DISCOVERY_METADATA_ENTRIES :: nat where
  "MAX_DISCOVERY_METADATA_ENTRIES = 10"

fun is_from_discovery :: "EntitySource \<Rightarrow> bool" where
  "is_from_discovery (Discovered _) = True"
| "is_from_discovery (DiscoveryWithMatch _ _) = True"
| "is_from_discovery _ = False"

fun cap_metadata :: "EntitySource \<Rightarrow> EntitySource" where
  "cap_metadata (Discovered m) = Discovered (take MAX_DISCOVERY_METADATA_ENTRIES m)"
| "cap_metadata (DiscoveryWithMatch m d) = DiscoveryWithMatch (take MAX_DISCOVERY_METADATA_ENTRIES m) d"
| "cap_metadata other = other"

end
