(* ===== verification/Auth.thy ===== *)
theory Auth
  imports Entity_Types
begin

text \<open>
  Who performs an operation: the permission levels of an organization's users and what they
  may grant (\<open>server/users/impl/permissions.rs\<close>), the authenticated entity of a request
  with its accessors (\<open>server/auth/middleware/auth.rs\<close>), and the access checks every entity
  endpoint shares (\<open>server/shared/validation.rs\<close>).
\<close>

section \<open>Permission levels\<close>

datatype UserOrgPermissions = Owner | Admin | Member | Viewer

text \<open>The order of \<open>EnumIter\<close> is the order of declaration.\<close>

definition permissions_iter :: "UserOrgPermissions list" where
  "permissions_iter = [Owner, Admin, Member, Viewer]"

fun permission_rank :: "UserOrgPermissions \<Rightarrow> int" where
  "permission_rank Owner = 4"
| "permission_rank Admin = 3"
| "permission_rank Member = 2"
| "permission_rank Viewer = 1"

lemma permission_rank_inj: "permission_rank a = permission_rank b \<longleftrightarrow> a = b"
  by (cases a; cases b) simp_all

instantiation UserOrgPermissions :: linorder
begin

definition less_eq_UserOrgPermissions :: "UserOrgPermissions \<Rightarrow> UserOrgPermissions \<Rightarrow> bool" where
  "less_eq_UserOrgPermissions a b \<longleftrightarrow> permission_rank a \<le> permission_rank b"

definition less_UserOrgPermissions :: "UserOrgPermissions \<Rightarrow> UserOrgPermissions \<Rightarrow> bool" where
  "less_UserOrgPermissions a b \<longleftrightarrow> permission_rank a < permission_rank b"

instance
  by standard (auto simp: less_eq_UserOrgPermissions_def less_UserOrgPermissions_def permission_rank_inj)

end

lemmas permission_order = less_eq_UserOrgPermissions_def less_UserOrgPermissions_def

fun permission_as_str :: "UserOrgPermissions \<Rightarrow> string" where
  "permission_as_str Owner = ''Owner''"
| "permission_as_str Admin = ''Admin''"
| "permission_as_str Member = ''Member''"
| "permission_as_str Viewer = ''Viewer''"

definition grantable_api_key_permissions :: "UserOrgPermissions \<Rightarrow> UserOrgPermissions list" where
  "grantable_api_key_permissions self = filter (\<lambda>p. p \<le> self) permissions_iter"

fun grantable_user_permissions :: "UserOrgPermissions \<Rightarrow> UserOrgPermissions list" where
  "grantable_user_permissions Owner = permissions_iter"
| "grantable_user_permissions Admin = filter (\<lambda>p. p < Admin) permissions_iter"
| "grantable_user_permissions _ = []"

definition can_grant_api_key_permission :: "UserOrgPermissions \<Rightarrow> UserOrgPermissions \<Rightarrow> bool" where
  "can_grant_api_key_permission self target \<longleftrightarrow> target \<le> self"

definition can_grant_user_permission :: "UserOrgPermissions \<Rightarrow> UserOrgPermissions \<Rightarrow> bool" where
  "can_grant_user_permission self target \<longleftrightarrow> target \<in> set (grantable_user_permissions self)"

definition permission_from_str :: "string \<Rightarrow> UserOrgPermissions option" where
  "permission_from_str s =
     (if s = ''Owner'' then Some Owner
      else if s = ''Admin'' then Some Admin
      else if s = ''Member'' then Some Member
      else if s = ''Viewer'' \<or> s = ''Visualizer'' \<or> s = ''None'' then Some Viewer
      else None)"

definition permission_manages_org_entities :: "UserOrgPermissions \<Rightarrow> bool" where
  "permission_manages_org_entities p \<longleftrightarrow> p = Owner \<or> p = Admin"

lemma permissions_iter_all: "p \<in> set permissions_iter"
  by (cases p) (simp_all add: permissions_iter_def)

lemma grantable_api_key_iff:
  "p \<in> set (grantable_api_key_permissions self) \<longleftrightarrow> can_grant_api_key_permission self p"
  by (simp add: grantable_api_key_permissions_def can_grant_api_key_permission_def permissions_iter_all)

lemma can_grant_user_cases:
  "can_grant_user_permission self p \<longleftrightarrow> self = Owner \<or> self = Admin \<and> p < Admin"
  by (cases self) (auto simp: can_grant_user_permission_def permissions_iter_all)

lemma permission_roundtrip: "permission_from_str (permission_as_str p) = Some p"
  by (cases p) (simp_all add: permission_from_str_def)

section \<open>The authenticated entity\<close>

datatype AuthenticatedEntity =
    AuthUser (au_user: uuid) (au_org: uuid) (au_permissions: UserOrgPermissions)
      (au_networks: "uuid list") (au_email: string) (au_verified: bool)
  | AuthDaemon (ad_network: uuid) (ad_key: uuid) (ad_daemon: uuid)
  | AuthApiKey (ak_key: uuid) (ak_user: uuid) (ak_org: uuid)
      (ak_permissions: UserOrgPermissions) (ak_networks: "uuid list")
  | AuthExternal string
  | AuthSystem
  | AuthAnonymous

fun auth_user_id :: "AuthenticatedEntity \<Rightarrow> uuid option" where
  "auth_user_id (AuthUser u _ _ _ _ _) = Some u"
| "auth_user_id (AuthApiKey _ u _ _ _) = Some u"
| "auth_user_id _ = None"

fun auth_organization_id :: "AuthenticatedEntity \<Rightarrow> uuid option" where
  "auth_organization_id (AuthUser _ o1 _ _ _ _) = Some o1"
| "auth_organization_id (AuthApiKey _ _ o1 _ _) = Some o1"
| "auth_organization_id _ = None"

fun auth_permissions :: "AuthenticatedEntity \<Rightarrow> UserOrgPermissions option" where
  "auth_permissions (AuthUser _ _ p _ _ _) = Some p"
| "auth_permissions (AuthApiKey _ _ _ p _) = Some p"
| "auth_permissions _ = None"

fun auth_entity_name :: "AuthenticatedEntity \<Rightarrow> string" where
  "auth_entity_name (AuthUser _ _ _ _ _ _) = ''user''"
| "auth_entity_name (AuthDaemon _ _ _) = ''daemon''"
| "auth_entity_name (AuthApiKey _ _ _ _ _) = ''api_key''"
| "auth_entity_name (AuthExternal n) = ''external_service:'' @ n"
| "auth_entity_name AuthSystem = ''system''"
| "auth_entity_name AuthAnonymous = ''anonymous''"

fun auth_entity_id :: "AuthenticatedEntity \<Rightarrow> uuid option" where
  "auth_entity_id (AuthUser u _ _ _ _ _) = Some u"
| "auth_entity_id (AuthDaemon _ _ d) = Some d"
| "auth_entity_id (AuthApiKey k _ _ _ _) = Some k"
| "auth_entity_id _ = None"

fun auth_network_ids :: "AuthenticatedEntity \<Rightarrow> uuid list" where
  "auth_network_ids (AuthDaemon n _ _) = [n]"
| "auth_network_ids (AuthUser _ _ _ ns _ _) = ns"
| "auth_network_ids (AuthApiKey _ _ _ _ ns) = ns"
| "auth_network_ids _ = []"

fun auth_is_user_or_api_key :: "AuthenticatedEntity \<Rightarrow> bool" where
  "auth_is_user_or_api_key (AuthUser _ _ _ _ _ _) = True"
| "auth_is_user_or_api_key (AuthApiKey _ _ _ _ _) = True"
| "auth_is_user_or_api_key _ = False"

definition has_network_access :: "AuthenticatedEntity \<Rightarrow> uuid \<Rightarrow> bool" where
  "has_network_access e n \<longleftrightarrow> n \<in> set (auth_network_ids e)"

fun auth_daemon_id :: "AuthenticatedEntity \<Rightarrow> uuid option" where
  "auth_daemon_id (AuthDaemon _ _ d) = Some d"
| "auth_daemon_id _ = None"

fun auth_email_verified :: "AuthenticatedEntity \<Rightarrow> bool" where
  "auth_email_verified (AuthUser _ _ _ _ _ v) = v"
| "auth_email_verified _ = True"

fun auth_display :: "AuthenticatedEntity \<Rightarrow> string" where
  "auth_display AuthAnonymous = ''Anonymous''"
| "auth_display AuthSystem = ''System''"
| "auth_display (AuthDaemon _ _ _) = ''Daemon''"
| "auth_display (AuthUser u _ p _ _ _) =
     ''User { user_id: '' @ uuid_display u @ '', permissions: '' @ permission_as_str p @ '' }''"
| "auth_display (AuthApiKey k u _ p _) =
     ''ApiKey { api_key_id: '' @ uuid_display k @ '', user_id: '' @ uuid_display u @
     '', permissions: '' @ permission_as_str p @ '' }''"
| "auth_display (AuthExternal n) = ''ExternalService { name: '' @ n @ '' }''"

text \<open>The entities with permissions are exactly those acting for a user of an organization.\<close>

lemma auth_user_or_key_iff:
  "auth_is_user_or_api_key e \<longleftrightarrow> auth_permissions e \<noteq> None"
  "auth_is_user_or_api_key e \<longleftrightarrow> auth_organization_id e \<noteq> None"
  "auth_is_user_or_api_key e \<longleftrightarrow> auth_user_id e \<noteq> None"
  by (cases e; simp)+

definition access_denied :: "string \<Rightarrow> uuid \<Rightarrow> ApiError" where
  "access_denied entity i = Forbidden (''You don'' @ [char_of (39::nat)] @ ''t have access to this '' @ entity)"

definition entity_not_found :: "string \<Rightarrow> string \<Rightarrow> ApiError" where
  "entity_not_found entity i =
     NotFound (entity @ '' with ID '' @ [char_of (39::nat)] @ i @ [char_of (39::nat)] @ '' not found'')"

definition validate_network_access :: "uuid option \<Rightarrow> uuid list \<Rightarrow> ApiError + unit" where
  "validate_network_access network user_networks =
     (case network of
        Some n \<Rightarrow> if n \<notin> set user_networks then Inl (access_denied ''Network'' n) else Inr ()
      | None \<Rightarrow> Inr ())"

definition validate_organization_access :: "uuid option \<Rightarrow> uuid \<Rightarrow> ApiError + unit" where
  "validate_organization_access organization user_organization =
     (case organization of
        Some o1 \<Rightarrow> if o1 \<noteq> user_organization then Inl (access_denied ''Organization'' o1) else Inr ()
      | None \<Rightarrow> Inr ())"

definition validate_entity :: "(string + unit) \<Rightarrow> string \<Rightarrow> ApiError + unit" where
  "validate_entity r nm =
     (case r of Inl e \<Rightarrow> Inl (BadRequest (nm @ '' validation failed: '' @ e)) | Inr x \<Rightarrow> Inr x)"

definition validate_create_access :: "uuid option \<Rightarrow> uuid option \<Rightarrow> uuid list \<Rightarrow> uuid \<Rightarrow> ApiError + unit" where
  "validate_create_access network organization user_networks user_organization =
     (case validate_network_access network user_networks of
        Inl e \<Rightarrow> Inl e
      | Inr _ \<Rightarrow> validate_organization_access organization user_organization)"

definition validate_read_access :: "uuid option \<Rightarrow> uuid option \<Rightarrow> uuid list \<Rightarrow> uuid \<Rightarrow> ApiError + unit" where
  "validate_read_access network organization user_networks user_organization =
     (case validate_network_access network user_networks of
        Inl e \<Rightarrow> Inl e
      | Inr _ \<Rightarrow> validate_organization_access organization user_organization)"

text \<open>The update check spells its four conditions out: the stored entity first, then the new values.\<close>

definition validate_update_access ::
    "uuid option \<Rightarrow> uuid option \<Rightarrow> uuid option \<Rightarrow> uuid option \<Rightarrow> uuid list \<Rightarrow> uuid \<Rightarrow> ApiError + unit" where
  "validate_update_access old_network old_org new_network new_org user_networks user_org =
     (case old_network of
        Some n \<Rightarrow> if n \<notin> set user_networks then Inl (access_denied ''Network'' n) else
          (case old_org of
             Some o1 \<Rightarrow> if o1 \<noteq> user_org then Inl (access_denied ''Organization'' o1) else
               validate_create_access new_network new_org user_networks user_org
           | None \<Rightarrow> validate_create_access new_network new_org user_networks user_org)
      | None \<Rightarrow>
          (case old_org of
             Some o1 \<Rightarrow> if o1 \<noteq> user_org then Inl (access_denied ''Organization'' o1) else
               validate_create_access new_network new_org user_networks user_org
           | None \<Rightarrow> validate_create_access new_network new_org user_networks user_org))"

definition validate_delete_access :: "uuid option \<Rightarrow> uuid option \<Rightarrow> uuid list \<Rightarrow> uuid \<Rightarrow> ApiError + unit" where
  "validate_delete_access network organization user_networks user_organization =
     (case network of
        Some n \<Rightarrow> if n \<notin> set user_networks then Inl (access_denied ''Network'' n) else
          (case organization of
             Some o1 \<Rightarrow> if o1 \<noteq> user_organization then Inl (access_denied ''Organization'' o1) else Inr ()
           | None \<Rightarrow> Inr ())
      | None \<Rightarrow>
          (case organization of
             Some o1 \<Rightarrow> if o1 \<noteq> user_organization then Inl (access_denied ''Organization'' o1) else Inr ()
           | None \<Rightarrow> Inr ()))"

text \<open>What the checks admit: everything the entity belongs to belongs to the user.\<close>

definition within :: "uuid option \<Rightarrow> uuid option \<Rightarrow> uuid list \<Rightarrow> uuid \<Rightarrow> bool" where
  "within network organization user_networks user_organization \<longleftrightarrow>
     set_option network \<subseteq> set user_networks \<and> set_option organization \<subseteq> {user_organization}"

lemma network_access_iff:
  "validate_network_access n ns = Inr () \<longleftrightarrow> set_option n \<subseteq> set ns"
  by (auto simp: validate_network_access_def split: option.splits)

lemma organization_access_iff:
  "validate_organization_access o1 uo = Inr () \<longleftrightarrow> set_option o1 \<subseteq> {uo}"
  by (auto simp: validate_organization_access_def split: option.splits)

lemma create_access_iff: "validate_create_access n o1 ns uo = Inr () \<longleftrightarrow> within n o1 ns uo"
  by (auto simp: validate_create_access_def within_def validate_network_access_def
      validate_organization_access_def split: option.splits)

lemma read_access_iff: "validate_read_access n o1 ns uo = Inr () \<longleftrightarrow> within n o1 ns uo"
  by (auto simp: validate_read_access_def within_def validate_network_access_def
      validate_organization_access_def split: option.splits)

lemma delete_access_iff: "validate_delete_access n o1 ns uo = Inr () \<longleftrightarrow> within n o1 ns uo"
  by (auto simp: validate_delete_access_def within_def split: option.splits)

text \<open>
  An update is admitted exactly when the stored entity and the new values both lie within
  the networks and the organization of the user, so no update moves an entity into or out of
  what the user may see.
\<close>

theorem update_access_iff:
  "validate_update_access on oo nn no ns uo = Inr () \<longleftrightarrow> within on oo ns uo \<and> within nn no ns uo"
  by (cases "on"; cases oo) (simp_all add: validate_update_access_def create_access_iff within_def)

end
