(* ===== verification/Events.thy ===== *)
theory Events
  imports Auth
begin

text \<open>
  The event bus (\<open>server/shared/events/types.rs\<close>, \<open>server/shared/events/bus.rs\<close>): the four
  kinds of events, their hand-written equality, the filters of the subscribers, publication
  and the debounced batches. An entity event carries the entity as a type parameter; the
  discriminant of \<open>Entity\<close> is an argument of the filter.
\<close>

section \<open>Event types\<close>

datatype (plugins only: code size) EntityDiscriminants =
    D_Organization | D_Invite | D_Share | D_Network | D_DaemonApiKey | D_UserApiKey | D_User | D_Tag
  | D_Discovery | D_Daemon | D_Host | D_Service | D_Port | D_Binding | D_Interface | D_IfEntry
  | D_SnmpCredential | D_Subnet | D_Group | D_Topology | D_Unknown

definition is_entity_taggable :: "EntityDiscriminants \<Rightarrow> bool" where
  "is_entity_taggable d \<longleftrightarrow>
     d \<in> {D_Host, D_Service, D_Subnet, D_Group, D_Network, D_Discovery, D_Daemon, D_DaemonApiKey,
          D_UserApiKey, D_SnmpCredential}"

text \<open>The JSON values the metadata of an event is made of.\<close>

datatype Json = JNull | JBool bool | JNum int | JStr string | JArr "Json list" | JObj "(string \<times> Json) list"

datatype AuthOperation =
    Register | LoginSuccess | LoginFailed | PasswordResetRequested | PasswordResetCompleted
  | PasswordChanged | EmailVerified | OidcLinked | OidcUnlinked | EmailChangeRequested
  | EmailChanged | LoggedOut | RotateKey | ApiKeyAuthFailed

datatype EntityOperation = Get | GetAll | Created | Updated | Deleted

datatype (plugins only: code size) TelemetryOperation =
    OrgCreated | OnboardingModalCompleted | PlanSelected | PersonalPlanSelected
  | CommercialPlanSelected | CheckoutStarted | CheckoutCompleted | TrialStarted | TrialEnded
  | TrialWillEnd | SubscriptionCancelled | PlanChanged | PaymentFailed | PaymentActionRequired
  | PaymentRecovered | FirstDaemonRegistered | FirstTopologyRebuild | FirstDiscoveryCompleted
  | FirstHostDiscovered | SecondNetworkCreated | FirstTagCreated | FirstUserApiKeyCreated
  | FirstSnmpCredentialCreated | InviteSent | InviteAccepted | FirstApiKeyCreated | FirstNetworkCreated

definition is_billing_operation :: "TelemetryOperation \<Rightarrow> bool" where
  "is_billing_operation t \<longleftrightarrow>
     t \<in> {CheckoutStarted, CheckoutCompleted, TrialStarted, TrialEnded, TrialWillEnd,
          SubscriptionCancelled, PlanChanged, PaymentFailed, PaymentActionRequired, PaymentRecovered}"

datatype EventLogLevel = LevelError | LevelWarn | LevelInfo | LevelDebug | LevelTrace

fun auth_log_level :: "AuthOperation \<Rightarrow> EventLogLevel" where
  "auth_log_level LoginFailed = LevelWarn"
| "auth_log_level ApiKeyAuthFailed = LevelWarn"
| "auth_log_level _ = LevelInfo"

record AuthEvent =
  ae_id :: uuid
  ae_user_id :: "uuid option"
  ae_organization_id :: "uuid option"
  ae_operation :: AuthOperation
  ae_timestamp :: timestamp
  ae_ip_address :: IpAddr
  ae_user_agent :: "string option"
  ae_metadata :: Json
  ae_authentication :: AuthenticatedEntity

record 'e EntityEvent =
  ee_id :: uuid
  ee_entity_type :: 'e
  ee_entity_id :: uuid
  ee_network_id :: "uuid option"
  ee_organization_id :: "uuid option"
  ee_operation :: EntityOperation
  ee_timestamp :: timestamp
  ee_authentication :: AuthenticatedEntity
  ee_metadata :: Json

record TelemetryEvent =
  te_id :: uuid
  te_organization_id :: uuid
  te_operation :: TelemetryOperation
  te_timestamp :: timestamp
  te_authentication :: AuthenticatedEntity
  te_metadata :: Json

record DiscoverySessionEvent =
  de_id :: uuid
  de_network_id :: uuid
  de_session_id :: uuid
  de_daemon_id :: uuid
  de_discovery_type :: DiscoveryType
  de_phase :: DiscoveryPhase
  de_timestamp :: timestamp
  de_authentication :: AuthenticatedEntity
  de_metadata :: Json

datatype 'e Event =
    EntityEv "'e EntityEvent"
  | AuthEv AuthEvent
  | TelemetryEv TelemetryEvent
  | DiscoveryEv DiscoverySessionEvent

datatype EventOperation =
    OpEntity EntityOperation | OpAuth AuthOperation | OpTelemetry TelemetryOperation
  | OpDiscovery DiscoveryPhase

fun event_operation :: "'e Event \<Rightarrow> EventOperation" where
  "event_operation (AuthEv e) = OpAuth (ae_operation e)"
| "event_operation (EntityEv e) = OpEntity (ee_operation e)"
| "event_operation (TelemetryEv e) = OpTelemetry (te_operation e)"
| "event_operation (DiscoveryEv e) = OpDiscovery (de_phase e)"

fun operation_log_level :: "EventOperation \<Rightarrow> EventLogLevel" where
  "operation_log_level (OpEntity _) = LevelInfo"
| "operation_log_level (OpAuth o1) = auth_log_level o1"
| "operation_log_level (OpTelemetry _) = LevelInfo"
| "operation_log_level (OpDiscovery _) = LevelInfo"

fun event_id :: "'e Event \<Rightarrow> uuid" where
  "event_id (AuthEv e) = ae_id e"
| "event_id (EntityEv e) = ee_id e"
| "event_id (TelemetryEv e) = te_id e"
| "event_id (DiscoveryEv e) = de_id e"

fun event_org_id :: "'e Event \<Rightarrow> uuid option" where
  "event_org_id (AuthEv e) = ae_organization_id e"
| "event_org_id (EntityEv e) = ee_organization_id e"
| "event_org_id (TelemetryEv e) = Some (te_organization_id e)"
| "event_org_id (DiscoveryEv _) = None"

fun event_network_id :: "'e Event \<Rightarrow> uuid option" where
  "event_network_id (AuthEv _) = None"
| "event_network_id (EntityEv e) = ee_network_id e"
| "event_network_id (TelemetryEv _) = None"
| "event_network_id (DiscoveryEv e) = Some (de_network_id e)"

fun event_authentication :: "'e Event \<Rightarrow> AuthenticatedEntity" where
  "event_authentication (AuthEv e) = ae_authentication e"
| "event_authentication (EntityEv e) = ee_authentication e"
| "event_authentication (TelemetryEv e) = te_authentication e"
| "event_authentication (DiscoveryEv e) = de_authentication e"

text \<open>
  The hand-written equalities leave out the id, the timestamp and (for entity events) the
  entity itself; events of different kinds, and any two telemetry or discovery events, are
  unequal.
\<close>

definition auth_event_eq :: "AuthEvent \<Rightarrow> AuthEvent \<Rightarrow> bool" where
  "auth_event_eq a b \<longleftrightarrow>
     ae_user_id a = ae_user_id b \<and> ae_organization_id a = ae_organization_id b \<and>
     ae_operation a = ae_operation b \<and> ae_ip_address a = ae_ip_address b \<and>
     ae_user_agent a = ae_user_agent b \<and> ae_metadata a = ae_metadata b \<and>
     ae_authentication a = ae_authentication b"

definition entity_event_eq :: "'e EntityEvent \<Rightarrow> 'e EntityEvent \<Rightarrow> bool" where
  "entity_event_eq a b \<longleftrightarrow>
     ee_entity_id a = ee_entity_id b \<and> ee_network_id a = ee_network_id b \<and>
     ee_organization_id a = ee_organization_id b \<and> ee_operation a = ee_operation b \<and>
     ee_authentication a = ee_authentication b \<and> ee_metadata a = ee_metadata b"

fun event_eq :: "'e Event \<Rightarrow> 'e Event \<Rightarrow> bool" where
  "event_eq (AuthEv a) (AuthEv b) = auth_event_eq a b"
| "event_eq (EntityEv a) (EntityEv b) = entity_event_eq a b"
| "event_eq _ _ = False"

lemma event_eq_sym: "event_eq a b \<Longrightarrow> event_eq b a"
  by (cases a; cases b) (auto simp: auth_event_eq_def entity_event_eq_def)

lemma event_eq_trans: "event_eq a b \<Longrightarrow> event_eq b c \<Longrightarrow> event_eq a c"
  by (cases a; cases b; cases c) (auto simp: auth_event_eq_def entity_event_eq_def)

lemma event_eq_refl_iff: "event_eq e e \<longleftrightarrow> (\<exists>a. e = AuthEv a) \<or> (\<exists>n. e = EntityEv n)"
  by (cases e) (auto simp: auth_event_eq_def entity_event_eq_def)

section \<open>Filters\<close>

record EventFilter =
  entity_operations :: "(EntityDiscriminants, EntityOperation list option) HashMap option"
  auth_operations :: "AuthOperation list option"
  telemetry_operations :: "TelemetryOperation list option"
  discovery_phases :: "DiscoveryPhase list option"
  ef_network_ids :: "uuid list option"

definition filter_all :: EventFilter where
  "filter_all = \<lparr>entity_operations = None, auth_operations = None, telemetry_operations = None,
     discovery_phases = None, ef_network_ids = None\<rparr>"

definition filter_entity_only ::
    "(EntityDiscriminants, EntityOperation list option) HashMap \<Rightarrow> EventFilter" where
  "filter_entity_only ops = \<lparr>entity_operations = Some ops, auth_operations = Some [],
     telemetry_operations = Some [], discovery_phases = Some [], ef_network_ids = None\<rparr>"

definition filter_auth_only :: "AuthOperation list option \<Rightarrow> EventFilter" where
  "filter_auth_only ops = \<lparr>entity_operations = Some [], auth_operations = ops,
     telemetry_operations = Some [], discovery_phases = Some [], ef_network_ids = Some []\<rparr>"

definition filter_telemetry_only :: "TelemetryOperation list option \<Rightarrow> EventFilter" where
  "filter_telemetry_only ops = \<lparr>entity_operations = Some [], auth_operations = Some [],
     telemetry_operations = ops, discovery_phases = Some [], ef_network_ids = Some []\<rparr>"

definition filter_discovery_only :: "DiscoveryPhase list option \<Rightarrow> EventFilter" where
  "filter_discovery_only phases = \<lparr>entity_operations = Some [], auth_operations = Some [],
     telemetry_operations = Some [], discovery_phases = phases, ef_network_ids = Some []\<rparr>"

definition matches_entity :: "('e \<Rightarrow> EntityDiscriminants) \<Rightarrow> EventFilter \<Rightarrow> 'e EntityEvent \<Rightarrow> bool" where
  "matches_entity disc f e =
     (if (case (ef_network_ids f, ee_network_id e) of
            (Some ns, Some n) \<Rightarrow> n \<notin> set ns | _ \<Rightarrow> False)
      then False
      else case entity_operations f of
        None \<Rightarrow> True
      | Some m \<Rightarrow>
          (case hget m (disc (ee_entity_type e)) of
             None \<Rightarrow> False
           | Some None \<Rightarrow> True
           | Some (Some ops) \<Rightarrow> ee_operation e \<in> set ops))"

definition matches_auth :: "EventFilter \<Rightarrow> AuthEvent \<Rightarrow> bool" where
  "matches_auth f e = (case auth_operations f of Some ops \<Rightarrow> ae_operation e \<in> set ops | None \<Rightarrow> True)"

definition matches_telemetry :: "EventFilter \<Rightarrow> TelemetryEvent \<Rightarrow> bool" where
  "matches_telemetry f e =
     (case telemetry_operations f of Some ops \<Rightarrow> te_operation e \<in> set ops | None \<Rightarrow> True)"

definition matches_discovery :: "EventFilter \<Rightarrow> DiscoverySessionEvent \<Rightarrow> bool" where
  "matches_discovery f e =
     (case discovery_phases f of Some ps \<Rightarrow> de_phase e \<in> set ps | None \<Rightarrow> True)"

fun filter_matches :: "('e \<Rightarrow> EntityDiscriminants) \<Rightarrow> EventFilter \<Rightarrow> 'e Event \<Rightarrow> bool" where
  "filter_matches disc f (EntityEv e) = matches_entity disc f e"
| "filter_matches disc f (AuthEv e) = matches_auth f e"
| "filter_matches disc f (TelemetryEv e) = matches_telemetry f e"
| "filter_matches disc f (DiscoveryEv e) = matches_discovery f e"

lemma filter_all_matches: "filter_matches disc filter_all e"
  by (cases e) (simp_all add: filter_all_def matches_entity_def matches_auth_def
      matches_telemetry_def matches_discovery_def)

lemma filter_discovery_only_iff:
  "filter_matches disc (filter_discovery_only (Some ps)) e \<longleftrightarrow>
     (\<exists>d. e = DiscoveryEv d \<and> de_phase d \<in> set ps)"
  by (cases e) (simp_all add: filter_discovery_only_def matches_entity_def matches_auth_def
      matches_telemetry_def matches_discovery_def hget_laws split: option.splits)

lemma filter_telemetry_only_iff:
  "filter_matches disc (filter_telemetry_only None) e \<longleftrightarrow> (\<exists>t. e = TelemetryEv t)"
  by (cases e) (simp_all add: filter_telemetry_only_def matches_entity_def matches_auth_def
      matches_telemetry_def matches_discovery_def hget_laws split: option.splits)

text \<open>The filters the services register with.\<close>

definition daemon_service_filter :: EventFilter where
  "daemon_service_filter = filter_discovery_only (Some [Started, Cancelled])"

definition host_service_filter :: EventFilter where
  "host_service_filter = filter_discovery_only (Some [Complete])"

definition organization_service_filter :: EventFilter where
  "organization_service_filter = filter_telemetry_only None"

definition billing_service_filter :: EventFilter where
  "billing_service_filter = filter_entity_only
     [(D_Network, Some [Created, Deleted]), (D_User, Some [Created, Deleted])]"

definition topology_service_filter :: EventFilter where
  "topology_service_filter = filter_entity_only
     [(D_Host, None), (D_Interface, None), (D_Service, None), (D_Subnet, None), (D_Group, None),
      (D_Port, None), (D_Binding, None), (D_IfEntry, None),
      (D_Topology, Some [Created, Updated])]"

section \<open>The bus\<close>

text \<open>
  A subscriber is known by its filter, its debounce window and the batches its
  \<open>handle_events\<close> was given; the result of the handler is only logged.
\<close>

record 'e SubscriberState =
  sub_filter :: EventFilter
  sub_debounce :: nat
  sub_pending :: "'e Event list"
  sub_handled :: "'e Event list list"

record 'e EventBus =
  bus_sent :: "'e Event list"
  subscribers :: "'e SubscriberState list"

definition event_bus_new :: "'e EventBus" where
  "event_bus_new = \<lparr>bus_sent = [], subscribers = []\<rparr>"

definition register_subscriber :: "EventFilter \<Rightarrow> nat \<Rightarrow> 'e EventBus \<Rightarrow> 'e EventBus" where
  "register_subscriber f debounce b =
     b\<lparr>subscribers := subscribers b @
        [\<lparr>sub_filter = f, sub_debounce = debounce, sub_pending = [], sub_handled = []\<rparr>]\<rparr>"

definition add_event :: "'e Event \<Rightarrow> 'e SubscriberState \<Rightarrow> 'e SubscriberState" where
  "add_event e s =
     (if sub_debounce s = 0 then s\<lparr>sub_handled := sub_handled s @ [[e]]\<rparr>
      else s\<lparr>sub_pending := sub_pending s @ [e]\<rparr>)"

text \<open>The metadata of an entity event: what the services write, and what the generic operations write.\<close>

definition staleness_metadata :: "bool \<Rightarrow> Json" where
  "staleness_metadata stale = JObj [(''trigger_stale'', JBool stale)]"

definition crud_metadata :: "bool \<Rightarrow> Json" where
  "crud_metadata stale = JObj [(''trigger_stale'', JBool stale), (''suppress_logs'', JBool False)]"

definition bus_publish ::
    "('e \<Rightarrow> EntityDiscriminants) \<Rightarrow> 'e Event \<Rightarrow> 'e EventBus \<Rightarrow> (string + unit) \<times> 'e EventBus" where
  "bus_publish disc e b =
     (Inr (),
      b\<lparr>bus_sent := bus_sent b @ [e],
        subscribers := map (\<lambda>s. if filter_matches disc (sub_filter s) e then add_event e s else s)
                         (subscribers b)\<rparr>)"

text \<open>The deduplication of a batch keeps the first of the events equal under \<open>event_eq\<close>.\<close>

definition push_unique :: "'e Event list \<Rightarrow> 'e Event \<Rightarrow> 'e Event list" where
  "push_unique acc e = (if list_ex (\<lambda>x. event_eq x e) acc then acc else acc @ [e])"

definition unique_events :: "'e Event list \<Rightarrow> 'e Event list" where
  "unique_events p = foldl push_unique [] p"

definition flush_batch :: "'e SubscriberState \<Rightarrow> 'e SubscriberState" where
  "flush_batch s =
     (if sub_pending s = [] then s
      else let events = unique_events (sub_pending s) in
        if events = [] then s\<lparr>sub_pending := []\<rparr>
        else s\<lparr>sub_pending := [], sub_handled := sub_handled s @ [events]\<rparr>)"

lemma foldl_push_unique_set: "set (foldl push_unique acc p) \<subseteq> set acc \<union> set p"
proof (induction p arbitrary: acc)
  case (Cons e p)
  have "set (push_unique acc e) \<subseteq> set acc \<union> {e}" by (auto simp: push_unique_def)
  with Cons [of "push_unique acc e"] show ?case by auto
qed simp

lemma foldl_push_unique_mono: "set acc \<subseteq> set (foldl push_unique acc p)"
proof (induction p arbitrary: acc)
  case (Cons e p)
  have "set acc \<subseteq> set (push_unique acc e)" by (auto simp: push_unique_def)
  with Cons [of "push_unique acc e"] show ?case by auto
qed simp

lemma foldl_push_unique_covers:
  "e \<in> set p \<Longrightarrow> \<exists>x \<in> set (foldl push_unique acc p). x = e \<or> event_eq x e"
proof (induction p arbitrary: acc)
  case (Cons y p)
  show ?case
  proof (cases "e = y")
    case True
    have "\<exists>x \<in> set (push_unique acc y). x = y \<or> event_eq x y"
      by (auto simp: push_unique_def list_ex_iff)
    with True foldl_push_unique_mono [of "push_unique acc y" p] show ?thesis by auto
  next
    case False
    with Cons show ?thesis by auto
  qed
qed simp

lemma foldl_push_unique_pairwise:
  "sorted_wrt (\<lambda>x y. \<not> event_eq x y) acc \<Longrightarrow>
   sorted_wrt (\<lambda>x y. \<not> event_eq x y) (foldl push_unique acc p)"
proof (induction p arbitrary: acc)
  case (Cons e p)
  have "sorted_wrt (\<lambda>x y. \<not> event_eq x y) (push_unique acc e)"
    using Cons.prems by (auto simp: push_unique_def sorted_wrt_append list_ex_iff)
  then show ?case by (simp add: Cons.IH)
qed simp

lemma foldl_push_unique_filter:
  "(\<And>x y. P x \<Longrightarrow> \<not> event_eq y x) \<Longrightarrow>
   filter P (foldl push_unique acc p) = filter P acc @ filter P p"
proof (induction p arbitrary: acc)
  case (Cons e p)
  show ?case
  proof (cases "P e")
    case True
    with Cons.prems have "push_unique acc e = acc @ [e]"
      by (simp add: push_unique_def list_ex_iff)
    with Cons True show ?thesis by simp
  next
    case False
    then have "filter P (push_unique acc e) = filter P acc"
      by (simp add: push_unique_def)
    with Cons False show ?thesis by simp
  qed
qed simp

lemma unique_events_Nil_iff [simp]: "unique_events p = [] \<longleftrightarrow> p = []"
proof
  assume "unique_events p = []"
  then show "p = []"
    using foldl_push_unique_covers [of "hd p" p "[]"] by (cases p) (auto simp: unique_events_def)
qed (simp add: unique_events_def)

end
