(* ===== verification/Discovery_Sessions.thy ===== *)
theory Discovery_Sessions
  imports Events
begin

text \<open>
  The server's session management (\<open>server/discovery/service.rs\<close>) with the payload of a
  session (\<open>server/daemons/impl/api.rs\<close>), the discovery entity
  (\<open>server/discovery/impl/base.rs\<close>, \<open>types.rs\<close>) and the dispatch of work to a daemon
  (\<open>server/daemons/service.rs\<close>). The locks of the service are dropped here: each definition
  is the state change of one critical section or of one call, in the order of the code.
\<close>

section \<open>Payloads and discoveries\<close>

record DiscoveryUpdatePayload =
  session_id :: uuid
  daemon_id :: uuid
  network_id :: uuid
  phase :: DiscoveryPhase
  discovery_type :: DiscoveryType
  progress :: u8
  error :: "string option"
  started_at :: "timestamp option"
  finished_at :: "timestamp option"

definition payload_new :: "uuid \<Rightarrow> uuid \<Rightarrow> uuid \<Rightarrow> DiscoveryType \<Rightarrow> DiscoveryUpdatePayload" where
  "payload_new sid did nid t =
     \<lparr>session_id = sid, daemon_id = did, network_id = nid, phase = Pending, discovery_type = t,
      progress = 0, error = None, started_at = None, finished_at = None\<rparr>"

datatype RunType =
    Scheduled (cron_schedule: string) (sched_last_run: "timestamp option") (enabled: bool)
  | Historical DiscoveryUpdatePayload
  | AdHoc "timestamp option"

record DiscoveryBase =
  db_discovery_type :: DiscoveryType
  db_run_type :: RunType
  db_name :: string
  db_daemon_id :: uuid
  db_network_id :: uuid
  db_tags :: "uuid list"

record Discovery =
  d_id :: uuid
  d_created_at :: timestamp
  d_updated_at :: timestamp
  d_base :: DiscoveryBase

text \<open>
  The binding \<open>enabled: mut _enabled\<close> copies the flag, so the assignment to it is lost: the
  discovery is returned as it was.
\<close>

definition disable :: "Discovery \<Rightarrow> Discovery" where
  "disable d =
     (case db_run_type (d_base d) of
        Scheduled c l flag \<Rightarrow> (let flag' = False in d)
      | _ \<Rightarrow> d)"

definition discovery_triggers_staleness :: "Discovery \<Rightarrow> Discovery option \<Rightarrow> bool" where
  "discovery_triggers_staleness d other = False"

fun is_scheduled :: "RunType \<Rightarrow> bool" where
  "is_scheduled (Scheduled _ _ _) = True"
| "is_scheduled _ = False"

definition discovery_new :: "uuid \<Rightarrow> timestamp \<Rightarrow> DiscoveryBase \<Rightarrow> Discovery" where
  "discovery_new i now b = \<lparr>d_id = i, d_created_at = now, d_updated_at = now, d_base = b\<rparr>"

section \<open>The service\<close>

record DiscoveryService =
  sessions :: "(uuid, DiscoveryUpdatePayload) HashMap"
  daemon_sessions :: "(uuid, uuid list) HashMap"
  daemon_pull_cancellations :: "(uuid, bool \<times> uuid) HashMap"
  session_last_updated :: "(uuid, timestamp) HashMap"
  update_tx :: "DiscoveryUpdatePayload list"
  job_ids :: "(uuid, uuid) HashMap"
  discovery_storage :: "(uuid, Discovery) HashMap"
  event_bus :: "Discovery EventBus"

definition discovery_service_new :: DiscoveryService where
  "discovery_service_new =
     \<lparr>sessions = [], daemon_sessions = [], daemon_pull_cancellations = [],
      session_last_updated = [], update_tx = [], job_ids = [], discovery_storage = [],
      event_bus = event_bus_new\<rparr>"

text \<open>
  What a call takes from outside: the clock, the id of the events it publishes, the fresh id
  it draws for the discovery or the session it works on (a cleanup pass draws one per
  session), the answers of the other services and of the database (an error, or success),
  and the cron scheduler.
\<close>

record Env =
  env_now :: timestamp
  env_event_id :: uuid
  env_fresh_id :: "uuid \<Rightarrow> uuid"
  env_get_error :: "uuid \<Rightarrow> string option"
  env_tags :: "uuid \<Rightarrow> uuid list"
  env_create_error :: "Discovery \<Rightarrow> string option"
  env_update_error :: "Discovery \<Rightarrow> string option"
  env_delete_error :: "uuid \<Rightarrow> string option"
  env_set_tags_error :: "uuid \<Rightarrow> uuid list \<Rightarrow> uuid \<Rightarrow> string option"
  env_remove_tags_error :: "uuid \<Rightarrow> string option"
  env_build_credentials :: "uuid \<Rightarrow> string + SnmpCredentialMapping"
  env_network_org :: "uuid \<Rightarrow> uuid option"
  env_org_onboarding :: "uuid \<Rightarrow> TelemetryOperation list option"
  env_list_error :: "string option"
  env_has_scheduler :: bool
  env_scheduler_start_error :: "string option"
  env_scheduler_add :: "string \<Rightarrow> string + uuid"
  env_scheduler_remove_error :: "uuid \<Rightarrow> string option"

definition into_discovery_event :: "Env \<Rightarrow> DiscoveryUpdatePayload \<Rightarrow> DiscoverySessionEvent" where
  "into_discovery_event env p =
     \<lparr>de_id = env_event_id env, de_network_id = network_id p, de_session_id = session_id p,
      de_daemon_id = daemon_id p, de_discovery_type = discovery_type p, de_phase = phase p,
      de_timestamp = env_now env, de_authentication = AuthSystem, de_metadata = JObj []\<rparr>"

definition into_discovery_event_with_auth ::
    "Env \<Rightarrow> DiscoveryUpdatePayload \<Rightarrow> AuthenticatedEntity \<Rightarrow> DiscoverySessionEvent" where
  "into_discovery_event_with_auth env p auth = (into_discovery_event env p)\<lparr>de_authentication := auth\<rparr>"

text \<open>Every entity event of this service is about a discovery.\<close>

definition discovery_discriminant :: "Discovery \<Rightarrow> EntityDiscriminants" where
  "discovery_discriminant d = D_Discovery"

definition publish :: "Discovery Event \<Rightarrow> DiscoveryService \<Rightarrow> DiscoveryService" where
  \<comment> \<open>the bus answers \<open>Ok\<close> always, so the \<open>?\<close> after a publication never returns\<close>
  "publish e st = st\<lparr>event_bus := snd (bus_publish discovery_discriminant e (event_bus st))\<rparr>"

definition publish_discovery_entity ::
    "Env \<Rightarrow> EntityOperation \<Rightarrow> Discovery \<Rightarrow> Json \<Rightarrow> AuthenticatedEntity \<Rightarrow> DiscoveryService \<Rightarrow> DiscoveryService" where
  "publish_discovery_entity env operation d meta auth st =
     publish (EntityEv
       \<lparr>ee_id = env_event_id env, ee_entity_type = d, ee_entity_id = d_id d,
        ee_network_id = Some (db_network_id (d_base d)), ee_organization_id = None,
        ee_operation = operation, ee_timestamp = env_now env, ee_authentication = auth,
        ee_metadata = meta\<rparr>) st"

definition send_update :: "DiscoveryUpdatePayload \<Rightarrow> DiscoveryService \<Rightarrow> DiscoveryService" where
  "send_update p st = st\<lparr>update_tx := update_tx st @ [p]\<rparr>"

section \<open>Queries\<close>

definition get_session :: "DiscoveryService \<Rightarrow> uuid \<Rightarrow> DiscoveryUpdatePayload option" where
  "get_session st sid = hget (sessions st) sid"

definition get_all_sessions :: "DiscoveryService \<Rightarrow> uuid list \<Rightarrow> DiscoveryUpdatePayload list" where
  "get_all_sessions st networks = filter (\<lambda>v. network_id v \<in> set networks) (hvalues (sessions st))"

definition queue :: "DiscoveryService \<Rightarrow> uuid \<Rightarrow> uuid list" where
  "queue st did = (case hget (daemon_sessions st) did of Some q \<Rightarrow> q | None \<Rightarrow> [])"

definition get_sessions_for_daemon :: "DiscoveryService \<Rightarrow> uuid \<Rightarrow> DiscoveryUpdatePayload list" where
  "get_sessions_for_daemon st did =
     filter (\<lambda>s. phase s = Pending) (List.map_filter (hget (sessions st)) (queue st did))"

definition has_active_session_for_daemon :: "DiscoveryService \<Rightarrow> uuid \<Rightarrow> bool" where
  "has_active_session_for_daemon st did =
     list_ex (\<lambda>sid. case hget (sessions st) sid of
                Some s \<Rightarrow> \<not> is_terminal (phase s) \<and> phase s \<noteq> Pending
              | None \<Rightarrow> False) (queue st did)"

section \<open>Queues\<close>

definition queue_push :: "uuid \<Rightarrow> uuid \<Rightarrow> DiscoveryService \<Rightarrow> DiscoveryService" where
  \<comment> \<open>\<open>entry(did).or_default().push(sid)\<close>\<close>
  "queue_push did sid st = st\<lparr>daemon_sessions := hinsert did (queue st did @ [sid]) (daemon_sessions st)\<rparr>"

definition queue_retain :: "uuid \<Rightarrow> uuid \<Rightarrow> DiscoveryService \<Rightarrow> DiscoveryService" where
  \<comment> \<open>\<open>if let Some(queue) = get_mut(did)\<close> retain the ids other than \<open>sid\<close>\<close>
  "queue_retain did sid st =
     (case hget (daemon_sessions st) did of
        Some q \<Rightarrow> st\<lparr>daemon_sessions := hinsert did (filter (\<lambda>s. s \<noteq> sid) q) (daemon_sessions st)\<rparr>
      | None \<Rightarrow> st)"

section \<open>Operations\<close>

definition clear_sessions_for_daemon :: "uuid \<Rightarrow> DiscoveryService \<Rightarrow> DiscoveryService" where
  "clear_sessions_for_daemon did st =
     (let st1 = (case hget (daemon_sessions st) did of
                   Some sids \<Rightarrow> st\<lparr>daemon_sessions := hremove did (daemon_sessions st),
                                 sessions := fold hremove sids (sessions st),
                                 session_last_updated := fold hremove sids (session_last_updated st)\<rparr>
                 | None \<Rightarrow> st)
      in st1\<lparr>daemon_pull_cancellations := hremove did (daemon_pull_cancellations st1)\<rparr>)"

definition transition_session_to_starting :: "uuid \<Rightarrow> DiscoveryService \<Rightarrow> DiscoveryService" where
  "transition_session_to_starting sid st =
     (case hget (sessions st) sid of
        Some s \<Rightarrow>
          if phase s = Pending
          then st\<lparr>sessions := hinsert sid (s\<lparr>phase := Starting\<rparr>) (sessions st)\<rparr>
          else st
      | None \<Rightarrow> st)"

definition pull_cancellation_for_daemon :: "uuid \<Rightarrow> DiscoveryService \<Rightarrow> (bool \<times> uuid) \<times> DiscoveryService" where
  "pull_cancellation_for_daemon did st =
     ((case hget (daemon_pull_cancellations st) did of Some c \<Rightarrow> c | None \<Rightarrow> (False, uuid_nil)),
      st\<lparr>daemon_pull_cancellations := hremove did (daemon_pull_cancellations st)\<rparr>)"

text \<open>
  \<open>start_session\<close> takes its locks one after the other; its critical sections are separate
  definitions, composed in order.
\<close>

definition hydrate_type :: "Env \<Rightarrow> Discovery \<Rightarrow> string + DiscoveryType" where
  "hydrate_type env d =
     (case db_discovery_type (d_base d) of
        NetworkScan subnets fallback _ probe \<Rightarrow>
          (case env_build_credentials env (db_network_id (d_base d)) of
             Inl e \<Rightarrow> Inl e
           | Inr creds \<Rightarrow> Inr (NetworkScan subnets fallback creds probe))
      | t \<Rightarrow> Inr t)"

definition start_insert :: "DiscoveryUpdatePayload \<Rightarrow> DiscoveryService \<Rightarrow> DiscoveryService" where
  "start_insert p st = st\<lparr>sessions := hinsert (session_id p) p (sessions st)\<rparr>"

definition daemon_is_running_discovery :: "DiscoveryService \<Rightarrow> uuid \<Rightarrow> bool" where
  "daemon_is_running_discovery st did =
     (case hget (daemon_sessions st) did of Some q \<Rightarrow> q \<noteq> [] | None \<Rightarrow> False)"

definition start_publish ::
    "Env \<Rightarrow> bool \<Rightarrow> AuthenticatedEntity \<Rightarrow> DiscoveryUpdatePayload \<Rightarrow> DiscoveryService \<Rightarrow> DiscoveryService" where
  "start_publish env running auth p st =
     (let st1 = (if \<not> running
                 then publish (DiscoveryEv (into_discovery_event_with_auth env p auth)) st else st)
      in send_update p st1)"

definition start_session ::
    "Env \<Rightarrow> Discovery \<Rightarrow> AuthenticatedEntity \<Rightarrow> DiscoveryService
     \<Rightarrow> (string + DiscoveryUpdatePayload) \<times> DiscoveryService" where
  "start_session env d auth st =
     (case hydrate_type env d of
        Inl e \<Rightarrow> (Inl e, st)
      | Inr t \<Rightarrow>
          (let did = db_daemon_id (d_base d);
               p = payload_new (env_fresh_id env (d_id d)) did (db_network_id (d_base d)) t;
               st1 = start_insert p st;
               running = daemon_is_running_discovery st1 did;
               st2 = queue_push did (session_id p) st1;
               st3 = start_publish env running auth p st2
           in (Inr p, st3)))"

text \<open>The branches of a terminal update, in the order of the code.\<close>

definition first_discovery_telemetry :: "Env \<Rightarrow> uuid \<Rightarrow> DiscoveryUpdatePayload \<Rightarrow> DiscoveryService \<Rightarrow> DiscoveryService" where
  "first_discovery_telemetry env nid u st =
     (case (phase u, discovery_type u) of
        (Complete, NetworkScan _ _ _ _) \<Rightarrow>
          (case env_network_org env nid of
             None \<Rightarrow> st
           | Some org \<Rightarrow>
               (case env_org_onboarding env org of
                  None \<Rightarrow> st
                | Some steps \<Rightarrow>
                    if FirstDiscoveryCompleted \<notin> set steps
                    then publish (TelemetryEv
                           \<lparr>te_id = env_event_id env, te_organization_id = org,
                            te_operation = FirstDiscoveryCompleted, te_timestamp = env_now env,
                            te_authentication = AuthSystem,
                            te_metadata = JObj [(''discovery_type'',
                              JStr (discovery_type_display (discovery_type u)))]\<rparr>) st
                    else st))
      | _ \<Rightarrow> st)"

definition historical_discovery :: "Env \<Rightarrow> string \<Rightarrow> DiscoveryUpdatePayload \<Rightarrow> Discovery" where
  "historical_discovery env nm u =
     \<lparr>d_id = env_fresh_id env (session_id u),
      d_created_at = (case started_at u of Some t \<Rightarrow> t | None \<Rightarrow> env_now env),
      d_updated_at = env_now env,
      d_base = \<lparr>db_discovery_type = discovery_type u, db_run_type = Historical u, db_name = nm,
                db_daemon_id = daemon_id u, db_network_id = network_id u, db_tags = []\<rparr>\<rparr>"

text \<open>The tags of a discovery are rows of another table; a stored row has none.\<close>

definition to_row :: "Discovery \<Rightarrow> Discovery" where
  "to_row d = d\<lparr>d_base := (d_base d)\<lparr>db_tags := []\<rparr>\<rparr>"

text \<open>The database's refusals, a duplicate id among them, are the environment's answers.\<close>

definition storage_create :: "Env \<Rightarrow> Discovery \<Rightarrow> DiscoveryService \<Rightarrow> (string + Discovery) \<times> DiscoveryService" where
  "storage_create env d st =
     (case env_create_error env d of
        Some e \<Rightarrow> (Inl e, st)
      | None \<Rightarrow> (Inr d, st\<lparr>discovery_storage := hinsert (d_id d) (to_row d) (discovery_storage st)\<rparr>))"

definition save_historical :: "Env \<Rightarrow> DiscoveryUpdatePayload \<Rightarrow> DiscoveryService \<Rightarrow> DiscoveryService" where
  "save_historical env u st =
     (let h = historical_discovery env (discovery_type_display (discovery_type u)) u in
      case storage_create env h st of
        (Inl _, st1) \<Rightarrow> st1
      | (Inr _, st1) \<Rightarrow> publish_discovery_entity env Created h (JObj []) AuthSystem st1)"

definition next_session :: "uuid \<Rightarrow> DiscoveryService \<Rightarrow> (DiscoveryType \<times> uuid) option \<times> DiscoveryService" where
  \<comment> \<open>the head of the queue, set back to \<open>Pending\<close>\<close>
  "next_session did st =
     (case hget (daemon_sessions st) did of
        None \<Rightarrow> (None, st)
      | Some [] \<Rightarrow> (None, st)
      | Some (n # _) \<Rightarrow>
          (case hget (sessions st) n of
             None \<Rightarrow> (None, st)
           | Some s \<Rightarrow> (Some (discovery_type s, session_id s),
                       st\<lparr>sessions := hinsert n (s\<lparr>phase := Pending\<rparr>) (sessions st)\<rparr>)))"

definition finish_session :: "Env \<Rightarrow> uuid \<Rightarrow> uuid \<Rightarrow> DiscoveryUpdatePayload \<Rightarrow> DiscoveryService \<Rightarrow> DiscoveryService" where
  \<comment> \<open>\<open>did\<close> and \<open>nid\<close> are the daemon and the network of the session before the update\<close>
  "finish_session env did nid u st =
     (let st1 = publish (DiscoveryEv (into_discovery_event env u)) st;
          st2 = first_discovery_telemetry env nid u st1;
          st3 = snd (pull_cancellation_for_daemon (daemon_id u) st2);
          st4 = save_historical env u st3;
          st5 = queue_retain (daemon_id u) (session_id u) st4;
          (info, st6) = next_session (daemon_id u) st5;
          st7 = st6\<lparr>sessions := hremove (session_id u) (sessions st6)\<rparr>
      in case info of
           None \<Rightarrow> st7
         | Some (t, sid) \<Rightarrow>
             publish (DiscoveryEv (into_discovery_event env (payload_new sid did nid t))) st7)"

definition update_session :: "Env \<Rightarrow> DiscoveryUpdatePayload \<Rightarrow> DiscoveryService \<Rightarrow> (string + unit) \<times> DiscoveryService" where
  "update_session env u st =
     (let already_seen = hget (session_last_updated st) (session_id u) \<noteq> None;
          st1 = st\<lparr>session_last_updated := hinsert (session_id u) (env_now env) (session_last_updated st)\<rparr>
      in if hget (sessions st1) (session_id u) = None \<and> is_terminal (phase u) \<and> already_seen
         then (Inr (), st1)
         else
           (let st2 = (case hget (sessions st1) (session_id u) of
                         Some _ \<Rightarrow> st1
                       | None \<Rightarrow> (queue_push (daemon_id u) (session_id u) st1)
                                  \<lparr>sessions := hinsert (session_id u) u (sessions st1)\<rparr>);
                (did, nid) = (case hget (sessions st2) (session_id u) of
                                Some s \<Rightarrow> (daemon_id s, network_id s)
                              | None \<Rightarrow> (daemon_id u, network_id u));
                st3 = send_update u st2;
                st4 = st3\<lparr>sessions := hinsert (session_id u) u (sessions st3)\<rparr>
            in (Inr (), if is_terminal (phase u) then finish_session env did nid u st4 else st4)))"

definition cancelled_update :: "Env \<Rightarrow> u8 \<Rightarrow> DiscoveryUpdatePayload \<Rightarrow> DiscoveryUpdatePayload" where
  "cancelled_update env prog s =
     s\<lparr>phase := Cancelled, progress := prog, error := None, finished_at := Some (env_now env)\<rparr>"

definition request_cancellation ::
    "Env \<Rightarrow> AuthenticatedEntity \<Rightarrow> u8 \<Rightarrow> DiscoveryUpdatePayload \<Rightarrow> DiscoveryService \<Rightarrow> DiscoveryService" where
  \<comment> \<open>both actions: the event for a ServerPoll daemon, the flag for a DaemonPoll daemon\<close>
  "request_cancellation env auth prog s st =
     (let st1 = publish (DiscoveryEv (into_discovery_event_with_auth env (cancelled_update env prog s) auth)) st
      in st1\<lparr>daemon_pull_cancellations :=
               hinsert (daemon_id s) (True, session_id s) (daemon_pull_cancellations st1)\<rparr>)"

definition cancel_session ::
    "Env \<Rightarrow> uuid \<Rightarrow> AuthenticatedEntity \<Rightarrow> DiscoveryService \<Rightarrow> (string + unit) \<times> DiscoveryService" where
  "cancel_session env sid auth st =
     (case get_session st sid of
        None \<Rightarrow> (Inl (''Session '' @ [char_of (39::nat)] @ uuid_display sid @ [char_of (39::nat)] @ '' not found''), st)
      | Some s0 \<Rightarrow>
          (let s = s0\<lparr>session_id := sid\<rparr> in
           case phase s of
             Pending \<Rightarrow>
               (let st1 = st\<lparr>sessions := hremove sid (sessions st)\<rparr>;
                    st2 = queue_retain (daemon_id s) sid st1
                in (Inr (), send_update (cancelled_update env 0 s) st2))
           | Starting \<Rightarrow>
               (Inl ''Session is starting on daemon. Please try again in a moment.'', st)
           | Started \<Rightarrow> (Inr (), request_cancellation env auth 0 s st)
           | Scanning \<Rightarrow> (Inr (), request_cancellation env auth 0 s st)
           | _ \<Rightarrow> (Inr (), st)))"

section \<open>Periodic cleanup\<close>

definition old_sessions :: "timestamp \<Rightarrow> DiscoveryService \<Rightarrow> uuid list" where
  "old_sessions cutoff st =
     map fst (filter (\<lambda>(k, s). case finished_at s of Some t \<Rightarrow> t < cutoff | None \<Rightarrow> False) (sessions st))"

definition cleanup_old_one :: "uuid \<Rightarrow> DiscoveryService \<Rightarrow> DiscoveryService" where
  "cleanup_old_one sid st =
     (case hget (sessions st) sid of
        None \<Rightarrow> st
      | Some s \<Rightarrow>
          queue_retain (daemon_id s) (session_id s)
            (st\<lparr>sessions := hremove sid (sessions st),
                daemon_pull_cancellations := hremove (daemon_id s) (daemon_pull_cancellations st)\<rparr>))"

definition cleanup_old_sessions :: "Env \<Rightarrow> int \<Rightarrow> DiscoveryService \<Rightarrow> DiscoveryService" where
  "cleanup_old_sessions env max_age_hours st =
     fold cleanup_old_one (old_sessions (env_now env - max_age_hours * 3600000000000) st) st"

definition stall_threshold :: int where
  "stall_threshold = 5 * 60000000000"

definition is_stalled :: "timestamp \<Rightarrow> DiscoveryService \<Rightarrow> uuid \<Rightarrow> DiscoveryUpdatePayload \<Rightarrow> bool" where
  "is_stalled now st sid s =
     (if is_terminal (phase s) then False
      else case hget (session_last_updated st) sid of
        Some t \<Rightarrow> now - t > stall_threshold
      | None \<Rightarrow> (case started_at s of Some t \<Rightarrow> now - t > stall_threshold | None \<Rightarrow> False))"

definition stalled_sessions :: "timestamp \<Rightarrow> DiscoveryService \<Rightarrow> DiscoveryUpdatePayload list" where
  "stalled_sessions now st = map snd (filter (\<lambda>(k, s). is_stalled now st k s) (sessions st))"

definition stalled_message :: string where
  "stalled_message = ''Session stalled - no updates received from daemon for more than 5 minutes''"

definition cleanup_stalled_one :: "Env \<Rightarrow> DiscoveryUpdatePayload \<Rightarrow> DiscoveryService \<Rightarrow> DiscoveryService" where
  "cleanup_stalled_one env stalled st =
     (case hget (sessions st) (session_id stalled) of
        None \<Rightarrow> st
      | Some s0 \<Rightarrow>
          (let did = daemon_id s0;
               sid = session_id s0;
               s = s0\<lparr>phase := Failed, error := Some stalled_message, finished_at := Some (env_now env)\<rparr>;
               st1 = st\<lparr>sessions := hremove (session_id stalled) (sessions st)\<rparr>;
               st2 = queue_retain did sid st1;
               st3 = st2\<lparr>session_last_updated := hremove sid (session_last_updated st2)\<rparr>;
               st4 = send_update s st3;
               st5 = (case hget (daemon_pull_cancellations st4) did of
                        Some (_, c) \<Rightarrow>
                          if c = sid
                          then st4\<lparr>daemon_pull_cancellations := hremove did (daemon_pull_cancellations st4)\<rparr>
                          else st4
                      | None \<Rightarrow> st4)
           in snd (storage_create env (historical_discovery env ''Discovery Run (Stalled)'' s) st5)))"

definition evict_tombstones :: "timestamp \<Rightarrow> DiscoveryService \<Rightarrow> DiscoveryService" where
  "evict_tombstones now st =
     st\<lparr>session_last_updated :=
          filter (\<lambda>(k, t). hget (sessions st) k \<noteq> None \<or> now - t < stall_threshold)
            (session_last_updated st)\<rparr>"

definition cleanup_stalled_sessions :: "Env \<Rightarrow> DiscoveryService \<Rightarrow> DiscoveryService" where
  "cleanup_stalled_sessions env st =
     (let stalled = stalled_sessions (env_now env) st in
      if stalled = [] then st
      else
        (let st1 = fold (\<lambda>s. request_cancellation env AuthSystem (progress s) s) stalled st;
             st2 = fold (cleanup_stalled_one env) stalled st1
         in evict_tombstones (env_now env) st2))"

section \<open>Dispatch of work to a daemon\<close>

definition get_pending_work :: "uuid \<Rightarrow> DiscoveryService \<Rightarrow> DiscoveryUpdatePayload option \<times> DiscoveryService" where
  "get_pending_work did st =
     (if has_active_session_for_daemon st did then (None, st)
      else case get_sessions_for_daemon st did of
        [] \<Rightarrow> (None, st)
      | work # _ \<Rightarrow> (Some work, transition_session_to_starting (session_id work) st))"

definition get_pending_cancellation :: "uuid \<Rightarrow> DiscoveryService \<Rightarrow> uuid option \<times> DiscoveryService" where
  "get_pending_cancellation did st =
     (case pull_cancellation_for_daemon did st of
        ((has_cancellation, sid), st1) \<Rightarrow> (if has_cancellation then Some sid else None, st1))"

end
