(* ===== verification/Session_Refinement.thy ===== *)
theory Session_Refinement
  imports Discovery_Sessions
begin

text \<open>
  The abstract session table (which session is known, and the queue of each daemon), the
  refinement of the service's operations to it, the invariant of the table and its
  preservation, and the contract between the dispatcher of work and the session table.
\<close>

section \<open>The session table\<close>

text \<open>
  A table maps a session to its payload and a daemon to its queue.
\<close>

type_synonym session_table = "(uuid \<Rightarrow> DiscoveryUpdatePayload option) \<times> (uuid \<Rightarrow> uuid list)"

definition table_of :: "DiscoveryService \<Rightarrow> session_table" where
  "table_of st = (hget (sessions st), queue st)"

definition table_enqueue :: "DiscoveryUpdatePayload \<Rightarrow> session_table \<Rightarrow> session_table" where
  "table_enqueue p t =
     ((fst t)(session_id p \<mapsto> p), (snd t)(daemon_id p := snd t (daemon_id p) @ [session_id p]))"

definition table_set :: "DiscoveryUpdatePayload \<Rightarrow> session_table \<Rightarrow> session_table" where
  "table_set p t = ((fst t)(session_id p \<mapsto> p), snd t)"

definition table_drop :: "uuid \<Rightarrow> uuid \<Rightarrow> session_table \<Rightarrow> session_table" where
  "table_drop did sid t =
     ((fst t)(sid := None), (snd t)(did := filter (\<lambda>s. s \<noteq> sid) (snd t did)))"

definition table_head_pending :: "uuid \<Rightarrow> session_table \<Rightarrow> session_table" where
  "table_head_pending did t =
     (case snd t did of
        [] \<Rightarrow> t
      | n # _ \<Rightarrow> (case fst t n of None \<Rightarrow> t | Some s \<Rightarrow> ((fst t)(n \<mapsto> s\<lparr>phase := Pending\<rparr>), snd t)))"

definition table_update :: "bool \<Rightarrow> DiscoveryUpdatePayload \<Rightarrow> session_table \<Rightarrow> session_table" where
  "table_update seen u t =
     (if is_terminal (phase u)
      then (if fst t (session_id u) = None \<and> seen then t
            else table_head_pending (daemon_id u) (table_drop (daemon_id u) (session_id u) t))
      else if fst t (session_id u) = None then table_enqueue u t else table_set u t)"

section \<open>What the operations leave alone\<close>

lemma publish_frame [frame_simps]:
  "sessions (publish e st) = sessions st" "daemon_sessions (publish e st) = daemon_sessions st"
  "daemon_pull_cancellations (publish e st) = daemon_pull_cancellations st"
  "session_last_updated (publish e st) = session_last_updated st"
  "update_tx (publish e st) = update_tx st" "job_ids (publish e st) = job_ids st"
  "discovery_storage (publish e st) = discovery_storage st" "queue (publish e st) did = queue st did"
  by (simp_all add: publish_def queue_def)

lemma send_update_frame [frame_simps]:
  "sessions (send_update p st) = sessions st" "daemon_sessions (send_update p st) = daemon_sessions st"
  "daemon_pull_cancellations (send_update p st) = daemon_pull_cancellations st"
  "session_last_updated (send_update p st) = session_last_updated st"
  "job_ids (send_update p st) = job_ids st" "event_bus (send_update p st) = event_bus st"
  "discovery_storage (send_update p st) = discovery_storage st"
  "queue (send_update p st) did = queue st did"
  by (simp_all add: send_update_def queue_def)

lemma publish_entity_frame [frame_simps]:
  "sessions (publish_discovery_entity env o1 d m a st) = sessions st"
  "daemon_sessions (publish_discovery_entity env o1 d m a st) = daemon_sessions st"
  "daemon_pull_cancellations (publish_discovery_entity env o1 d m a st) = daemon_pull_cancellations st"
  "session_last_updated (publish_discovery_entity env o1 d m a st) = session_last_updated st"
  "discovery_storage (publish_discovery_entity env o1 d m a st) = discovery_storage st"
  "update_tx (publish_discovery_entity env o1 d m a st) = update_tx st"
  by (simp_all add: publish_discovery_entity_def frame_simps)

lemma telemetry_frame [frame_simps]:
  "sessions (first_discovery_telemetry env n u st) = sessions st"
  "daemon_sessions (first_discovery_telemetry env n u st) = daemon_sessions st"
  "daemon_pull_cancellations (first_discovery_telemetry env n u st) = daemon_pull_cancellations st"
  "session_last_updated (first_discovery_telemetry env n u st) = session_last_updated st"
  "discovery_storage (first_discovery_telemetry env n u st) = discovery_storage st"
  "update_tx (first_discovery_telemetry env n u st) = update_tx st"
  by (simp_all add: first_discovery_telemetry_def frame_simps
      split: DiscoveryPhase.splits DiscoveryType.splits option.splits)

lemma storage_create_frame [frame_simps]:
  "sessions (snd (storage_create env d st)) = sessions st"
  "daemon_sessions (snd (storage_create env d st)) = daemon_sessions st"
  "daemon_pull_cancellations (snd (storage_create env d st)) = daemon_pull_cancellations st"
  "session_last_updated (snd (storage_create env d st)) = session_last_updated st"
  "update_tx (snd (storage_create env d st)) = update_tx st"
  by (simp_all add: storage_create_def split: option.splits)

lemma save_historical_frame [frame_simps]:
  "sessions (save_historical env u st) = sessions st"
  "daemon_sessions (save_historical env u st) = daemon_sessions st"
  "daemon_pull_cancellations (save_historical env u st) = daemon_pull_cancellations st"
  "session_last_updated (save_historical env u st) = session_last_updated st"
  "update_tx (save_historical env u st) = update_tx st"
  by (simp_all add: save_historical_def storage_create_def frame_simps Let_def split: option.splits)

lemma pull_cancellation_frame [frame_simps]:
  "sessions (snd (pull_cancellation_for_daemon did st)) = sessions st"
  "daemon_sessions (snd (pull_cancellation_for_daemon did st)) = daemon_sessions st"
  "session_last_updated (snd (pull_cancellation_for_daemon did st)) = session_last_updated st"
  "update_tx (snd (pull_cancellation_for_daemon did st)) = update_tx st"
  "discovery_storage (snd (pull_cancellation_for_daemon did st)) = discovery_storage st"
  by (simp_all add: pull_cancellation_for_daemon_def)

lemma request_cancellation_frame [frame_simps]:
  "sessions (request_cancellation env a g s st) = sessions st"
  "daemon_sessions (request_cancellation env a g s st) = daemon_sessions st"
  "session_last_updated (request_cancellation env a g s st) = session_last_updated st"
  "update_tx (request_cancellation env a g s st) = update_tx st"
  by (simp_all add: request_cancellation_def frame_simps Let_def)

lemma queue_cong: "daemon_sessions st = daemon_sessions st' \<Longrightarrow> queue st did = queue st' did"
  by (simp add: queue_def)

lemma table_of_cong:
  "sessions st = sessions st' \<Longrightarrow> daemon_sessions st = daemon_sessions st' \<Longrightarrow> table_of st = table_of st'"
  by (auto simp: table_of_def queue_def)

lemma queue_hinsert [simp]:
  "queue (st\<lparr>daemon_sessions := hinsert did q m\<rparr>) d = (if d = did then q else queue (st\<lparr>daemon_sessions := m\<rparr>) d)"
  by (simp add: queue_def lookup_simps)

lemma queue_sessions_update [simp]: "queue (st\<lparr>sessions := m\<rparr>) = queue st"
  "queue (st\<lparr>session_last_updated := m'\<rparr>) = queue st"
  "queue (st\<lparr>daemon_pull_cancellations := m''\<rparr>) = queue st"
  by (auto simp: queue_def)

lemma queue_push_facts [frame_simps]:
  "sessions (queue_push did sid st) = sessions st"
  "session_last_updated (queue_push did sid st) = session_last_updated st"
  "queue (queue_push did sid st) = (queue st)(did := queue st did @ [sid])"
  by (auto simp: queue_push_def queue_def lookup_simps)

lemma queue_retain_facts [frame_simps]:
  "sessions (queue_retain did sid st) = sessions st"
  "session_last_updated (queue_retain did sid st) = session_last_updated st"
  "daemon_pull_cancellations (queue_retain did sid st) = daemon_pull_cancellations st"
  "event_bus (queue_retain did sid st) = event_bus st"
  "queue (queue_retain did sid st) = (queue st)(did := filter (\<lambda>s. s \<noteq> sid) (queue st did))"
  by (auto simp: queue_retain_def queue_def lookup_simps split: option.splits)

section \<open>Refinement\<close>

lemma next_session_table: "table_of (snd (next_session did st)) = table_head_pending did (table_of st)"
  by (simp add: next_session_def table_head_pending_def table_of_def queue_def fun_eq_iff lookup_simps
      split: option.splits list.splits)

lemma next_session_frame [frame_simps]:
  "daemon_sessions (snd (next_session did st)) = daemon_sessions st"
  "session_last_updated (snd (next_session did st)) = session_last_updated st"
  "daemon_pull_cancellations (snd (next_session did st)) = daemon_pull_cancellations st"
  by (simp_all add: next_session_def split: option.splits list.splits)

lemma finish_session_maps:
  "daemon_sessions (finish_session env did nid u st) =
     daemon_sessions (queue_retain (daemon_id u) (session_id u) st)"
  "session_last_updated (finish_session env did nid u st) = session_last_updated st"
  by (simp_all add: finish_session_def frame_simps Let_def split_def queue_retain_def
      split: option.splits)

lemma finish_session_sessions:
  "sessions (finish_session env did nid u st) =
     hremove (session_id u)
       (sessions (snd (next_session (daemon_id u) (queue_retain (daemon_id u) (session_id u) st))))"
  by (simp add: finish_session_def frame_simps Let_def split_def next_session_def queue_retain_def
      split: option.splits list.splits)

lemma filter_ne_hd: "filter (\<lambda>s. s \<noteq> x) q = n # ns \<Longrightarrow> n \<noteq> x"
  by (metis (mono_tags, lifting) filter_eq_Cons_iff)

lemma finish_session_table:
  "table_of (finish_session env did nid u st) =
     table_head_pending (daemon_id u) (table_drop (daemon_id u) (session_id u) (table_of st))"
proof -
  let ?d = "daemon_id u" and ?s = "session_id u"
  let ?st5 = "queue_retain ?d ?s st"
  have q: "queue (finish_session env did nid u st) = queue ?st5"
    using finish_session_maps(1) [of env did nid u st] by (simp add: queue_def fun_eq_iff)
  have t5: "table_of ?st5 = (hget (sessions st), (queue st)(?d := filter (\<lambda>s. s \<noteq> ?s) (queue st ?d)))"
    by (simp add: table_of_def frame_simps)
  have "hget (sessions (finish_session env did nid u st)) =
        (fst (table_head_pending ?d (table_of ?st5)))(?s := None)"
    by (simp add: finish_session_sessions lookup_simps fun_eq_iff next_session_table [symmetric])
       (simp add: table_of_def)
  then show ?thesis
    by (auto simp: table_of_def [of "finish_session env did nid u st"] q t5 frame_simps
        table_head_pending_def table_drop_def table_of_def fun_eq_iff dest: filter_ne_hd
        split: list.splits option.splits)
qed

lemma table_drop_set: "session_id u = sid \<Longrightarrow> table_drop did sid (table_set u t) = table_drop did sid t"
  by (auto simp: table_drop_def table_set_def)

lemma table_drop_enqueue:
  "session_id u = sid \<Longrightarrow> daemon_id u = did \<Longrightarrow> table_drop did sid (table_enqueue u t) = table_drop did sid t"
  by (auto simp: table_drop_def table_enqueue_def)

text \<open>The two states a session's payload is written into: one that knows it, one that does not.\<close>

lemma table_of_set:
  "table_of (st\<lparr>sessions := hinsert (session_id u) u (sessions st)\<rparr>) = table_set u (table_of st)"
  by (auto simp: table_of_def table_set_def lookup_simps)

lemma table_of_enqueue:
  "table_of ((queue_push (daemon_id u) (session_id u) st)\<lparr>sessions := hinsert (session_id u) u (sessions st)\<rparr>) =
     table_enqueue u (table_of st)"
  by (auto simp: table_of_def table_enqueue_def lookup_simps frame_simps)

lemma table_of_send [simp]: "table_of (send_update p st) = table_of st"
  by (rule table_of_cong) (simp_all add: frame_simps)

lemma table_of_last_updated [simp]: "table_of (st\<lparr>session_last_updated := m\<rparr>) = table_of st"
  by (rule table_of_cong) simp_all

lemma table_set_enqueue: "table_set u (table_enqueue u t) = table_enqueue u t"
  by (simp add: table_set_def table_enqueue_def)

text \<open>The state \<open>update_session\<close> hands to the terminal branch, or returns.\<close>

definition updated_state :: "Env \<Rightarrow> DiscoveryUpdatePayload \<Rightarrow> DiscoveryService \<Rightarrow> DiscoveryService" where
  "updated_state env u st =
     (let st1 = st\<lparr>session_last_updated := hinsert (session_id u) (env_now env) (session_last_updated st)\<rparr>;
          st2 = (case hget (sessions st1) (session_id u) of
                   Some _ \<Rightarrow> st1
                 | None \<Rightarrow> (queue_push (daemon_id u) (session_id u) st1)
                            \<lparr>sessions := hinsert (session_id u) u (sessions st1)\<rparr>);
          st3 = send_update u st2
      in st3\<lparr>sessions := hinsert (session_id u) u (sessions st3)\<rparr>)"

lemma update_session_cases:
  "snd (update_session env u st) =
     (if hget (sessions st) (session_id u) = None \<and> is_terminal (phase u) \<and>
         hget (session_last_updated st) (session_id u) \<noteq> None
      then st\<lparr>session_last_updated := hinsert (session_id u) (env_now env) (session_last_updated st)\<rparr>
      else if is_terminal (phase u)
      then finish_session env
             (case hget (sessions st) (session_id u) of Some s \<Rightarrow> daemon_id s | None \<Rightarrow> daemon_id u)
             (case hget (sessions st) (session_id u) of Some s \<Rightarrow> network_id s | None \<Rightarrow> network_id u)
             u (updated_state env u st)
      else updated_state env u st)"
  by (cases "hget (sessions st) (session_id u)")
     (simp_all add: update_session_def updated_state_def Let_def lookup_simps split_def)

lemma updated_state_table:
  "table_of (updated_state env u st) =
     (if hget (sessions st) (session_id u) = None then table_enqueue u (table_of st)
      else table_set u (table_of st))"
proof (cases "hget (sessions st) (session_id u)")
  case None
  then show ?thesis
    by (simp add: updated_state_def Let_def table_of_set table_of_enqueue
        table_of_enqueue [of u "st\<lparr>session_last_updated := m\<rparr>" for m, simplified] table_set_enqueue)
next
  case (Some p)
  then show ?thesis by (simp add: updated_state_def Let_def table_of_set)
qed

lemma update_session_table:
  "table_of (snd (update_session env u st)) =
     table_update (hget (session_last_updated st) (session_id u) \<noteq> None) u (table_of st)"
proof -
  have fst_table: "fst (table_of st) sid = hget (sessions st) sid" for sid
    by (simp add: table_of_def)
  show ?thesis
    by (auto simp: update_session_cases finish_session_table updated_state_table table_update_def
        fst_table table_drop_set table_drop_enqueue)
qed

end
