(* ===== verification/Session_Invariants.thy ===== *)
theory Session_Invariants
  imports Session_Refinement
begin

text \<open>
  The invariant of the session table and its preservation by every operation of the
  service, the reachable states of the service, and the contract between the dispatcher of
  work and the session table.
\<close>

section \<open>The invariant\<close>

text \<open>
  Every known session is stored under its own id and is not terminal; a queue has no
  repetition and holds exactly the known sessions of its daemon.
\<close>

definition table_inv :: "session_table \<Rightarrow> bool" where
  "table_inv t \<longleftrightarrow>
     (\<forall>sid p. fst t sid = Some p \<longrightarrow> session_id p = sid \<and> \<not> is_terminal (phase p)) \<and>
     (\<forall>did. distinct (snd t did)) \<and>
     (\<forall>did sid. sid \<in> set (snd t did) \<longleftrightarrow> (\<exists>p. fst t sid = Some p \<and> daemon_id p = did))"

lemma table_invI:
  assumes "\<And>sid p. fst t sid = Some p \<Longrightarrow> session_id p = sid"
    and "\<And>sid p. fst t sid = Some p \<Longrightarrow> \<not> is_terminal (phase p)"
    and "\<And>did. distinct (snd t did)"
    and "\<And>did sid. sid \<in> set (snd t did) \<longleftrightarrow> (\<exists>p. fst t sid = Some p \<and> daemon_id p = did)"
  shows "table_inv t"
  using assms unfolding table_inv_def by blast

lemma table_invD:
  assumes "table_inv t"
  shows "fst t sid = Some p \<Longrightarrow> session_id p = sid"
    and "fst t sid = Some p \<Longrightarrow> \<not> is_terminal (phase p)"
    and "distinct (snd t did)"
    and "sid \<in> set (snd t did) \<longleftrightarrow> (\<exists>p. fst t sid = Some p \<and> daemon_id p = did)"
  using assms unfolding table_inv_def by blast+

lemma table_inv_enqueue:
  assumes "table_inv t" "fst t (session_id p) = None" "\<not> is_terminal (phase p)"
  shows "table_inv (table_enqueue p t)"
  using assms(2,3) by (intro table_invI) (auto simp: table_enqueue_def table_invD [OF assms(1)] split: if_splits)

lemma table_inv_set:
  assumes "table_inv t" "fst t (session_id p) = Some p0" "daemon_id p = daemon_id p0"
    "\<not> is_terminal (phase p)"
  shows "table_inv (table_set p t)"
  using assms(2-4) by (intro table_invI) (auto simp: table_set_def table_invD [OF assms(1)] split: if_splits)

lemma table_inv_drop:
  assumes "table_inv t" "\<And>p. fst t sid = Some p \<Longrightarrow> daemon_id p = did"
  shows "table_inv (table_drop did sid t)"
  using assms(2) by (intro table_invI) (auto simp: table_drop_def table_invD [OF assms(1)] split: if_splits)

lemma table_inv_head_pending:
  assumes "table_inv t"
  shows "table_inv (table_head_pending did t)"
proof (cases "snd t did")
  case (Cons n ns)
  show ?thesis
  proof (cases "fst t n")
    case (Some s)
    with table_invD(1) [OF assms Some] have "table_head_pending did t = table_set (s\<lparr>phase := Pending\<rparr>) t"
      by (simp add: table_head_pending_def table_set_def Cons)
    with Some table_invD(1) [OF assms Some] show ?thesis by (simp add: table_inv_set [OF assms])
  qed (simp add: table_head_pending_def Cons assms)
qed (simp add: table_head_pending_def assms)

lemma table_inv_update:
  assumes "table_inv t" "\<And>p. fst t (session_id u) = Some p \<Longrightarrow> daemon_id p = daemon_id u"
  shows "table_inv (table_update seen u t)"
proof -
  have drop: "table_inv (table_drop (daemon_id u) (session_id u) t)"
    by (rule table_inv_drop [OF assms(1)]) (simp add: assms(2))
  show ?thesis
  proof (cases "fst t (session_id u)")
    case None
    with drop assms(1) show ?thesis
      by (simp add: table_update_def table_inv_enqueue table_inv_head_pending)
  next
    case (Some p)
    with drop assms(2) [OF Some] show ?thesis
      by (simp add: table_update_def table_inv_set [OF assms(1) Some] table_inv_head_pending)
  qed
qed

definition session_inv :: "DiscoveryService \<Rightarrow> bool" where
  "session_inv st \<longleftrightarrow> table_inv (table_of st) \<and> hmap_ok (sessions st)"

lemma session_invD:
  assumes "session_inv st"
  shows "hget (sessions st) sid = Some p \<Longrightarrow> session_id p = sid"
    and "hget (sessions st) sid = Some p \<Longrightarrow> \<not> is_terminal (phase p)"
    and "distinct (queue st did)"
    and "sid \<in> set (queue st did) \<longleftrightarrow> (\<exists>p. hget (sessions st) sid = Some p \<and> daemon_id p = did)"
    and "hmap_ok (sessions st)"
  using table_invD [of "table_of st"] assms unfolding session_inv_def table_of_def by simp_all

lemma session_inv_new: "session_inv discovery_service_new"
  by (simp add: session_inv_def table_inv_def table_of_def discovery_service_new_def queue_def lookup_simps)

section \<open>Preservation\<close>

lemma table_of_fst [simp]: "fst (table_of st) = hget (sessions st)"
  and table_of_snd [simp]: "snd (table_of st) = queue st"
  by (simp_all add: table_of_def)

lemma session_inv_cong:
  "sessions st = sessions st' \<Longrightarrow> daemon_sessions st = daemon_sessions st' \<Longrightarrow> session_inv st = session_inv st'"
  by (simp add: session_inv_def table_of_cong [of st st'])

lemma start_session_shape:
  "hydrate_type env d = Inr t \<Longrightarrow>
   table_of (snd (start_session env d auth st)) =
     table_enqueue (payload_new (env_fresh_id env (d_id d)) (db_daemon_id (d_base d)) (db_network_id (d_base d)) t)
       (table_of st) \<and>
   (hmap_ok (sessions st) \<longrightarrow> hmap_ok (sessions (snd (start_session env d auth st))))"
  by (auto simp: start_session_def Let_def start_publish_def table_of_def frame_simps
      table_enqueue_def start_insert_def lookup_simps payload_new_def)

lemma start_session_inv:
  assumes "session_inv st" "hget (sessions st) (env_fresh_id env (d_id d)) = None"
  shows "session_inv (snd (start_session env d auth st))"
proof (cases "hydrate_type env d")
  case (Inl e)
  with assms show ?thesis by (simp add: start_session_def)
next
  case (Inr t)
  let ?p = "payload_new (env_fresh_id env (d_id d)) (db_daemon_id (d_base d)) (db_network_id (d_base d)) t"
  from assms have "table_inv (table_enqueue ?p (table_of st))"
    by (intro table_inv_enqueue) (simp_all add: session_inv_def payload_new_def)
  with start_session_shape [OF Inr] assms show ?thesis by (simp add: session_inv_def)
qed

lemma hmap_ok_updated_state: "hmap_ok (sessions st) \<Longrightarrow> hmap_ok (sessions (updated_state env u st))"
  by (simp add: updated_state_def Let_def frame_simps split: option.splits)

lemma hmap_ok_next_session: "hmap_ok (sessions st) \<Longrightarrow> hmap_ok (sessions (snd (next_session did st)))"
  by (simp add: next_session_def split: option.splits list.splits)

lemma hmap_ok_update_session: "hmap_ok (sessions st) \<Longrightarrow> hmap_ok (sessions (snd (update_session env u st)))"
  by (simp add: update_session_cases finish_session_sessions hmap_ok_next_session hmap_ok_updated_state frame_simps)

lemma update_session_inv:
  assumes "session_inv st" "\<And>p. hget (sessions st) (session_id u) = Some p \<Longrightarrow> daemon_id p = daemon_id u"
  shows "session_inv (snd (update_session env u st))"
proof -
  have "table_inv (table_update (hget (session_last_updated st) (session_id u) \<noteq> None) u (table_of st))"
    using assms by (intro table_inv_update) (simp_all add: session_inv_def)
  then show ?thesis
    using assms(1) by (simp only: session_inv_def update_session_table hmap_ok_update_session)
qed

lemma transition_inv:
  assumes "session_inv st"
  shows "session_inv (transition_session_to_starting sid st)"
proof (cases "hget (sessions st) sid")
  case (Some s)
  note sid = session_invD(1) [OF assms Some]
  have "table_of (st\<lparr>sessions := hinsert sid (s\<lparr>phase := Starting\<rparr>) (sessions st)\<rparr>) =
        table_set (s\<lparr>phase := Starting\<rparr>) (table_of st)"
    by (auto simp: table_of_def table_set_def lookup_simps sid)
  moreover have "table_inv (table_set (s\<lparr>phase := Starting\<rparr>) (table_of st))"
    using assms Some sid by (intro table_inv_set [of _ _ s]) (simp_all add: session_inv_def)
  ultimately show ?thesis
    using assms Some by (simp add: transition_session_to_starting_def session_inv_def)
qed (use assms in \<open>simp add: transition_session_to_starting_def\<close>)

lemma get_pending_work_inv: "session_inv st \<Longrightarrow> session_inv (snd (get_pending_work did st))"
  by (auto simp: get_pending_work_def transition_inv split: list.splits)

lemma get_pending_cancellation_state:
  "snd (get_pending_cancellation did st) =
     st\<lparr>daemon_pull_cancellations := hremove did (daemon_pull_cancellations st)\<rparr>"
  by (simp add: get_pending_cancellation_def pull_cancellation_for_daemon_def split_def)

lemma get_pending_cancellation_inv: "session_inv st \<Longrightarrow> session_inv (snd (get_pending_cancellation did st))"
  by (rule iffD1 [OF session_inv_cong]) (simp_all add: get_pending_cancellation_state)

lemma drop_inv:
  assumes "session_inv st" "hget (sessions st) sid = Some s" "did = daemon_id s"
    "sessions st' = hremove sid (sessions st)"
    "queue st' = (queue st)(did := filter (\<lambda>x. x \<noteq> sid) (queue st did))"
  shows "session_inv st'"
proof -
  have "table_of st' = table_drop did sid (table_of st)"
    using assms by (auto simp: table_of_def table_drop_def lookup_simps)
  moreover have "table_inv (table_drop did sid (table_of st))"
    using assms by (intro table_inv_drop) (auto simp: session_inv_def)
  ultimately show ?thesis using assms by (simp add: session_inv_def)
qed

lemma queue_send [simp]: "queue (send_update p st) = queue st"
  by (simp add: frame_simps fun_eq_iff)

lemma cancel_session_inv:
  assumes "session_inv st"
  shows "session_inv (snd (cancel_session env sid auth st))"
proof (cases "hget (sessions st) sid")
  case None
  with assms show ?thesis by (simp add: cancel_session_def get_session_def)
next
  case (Some s)
  note same = session_inv_cong [of "request_cancellation env auth 0 s' st" st for s', simplified frame_simps, simplified]
  show ?thesis
  proof (cases "phase s")
    case Pending
    with assms Some show ?thesis
      by (intro drop_inv [OF assms Some refl])
         (simp_all add: cancel_session_def get_session_def Let_def frame_simps)
  qed (use assms Some in \<open>simp_all add: cancel_session_def get_session_def Let_def same\<close>)
qed

lemma cleanup_old_one_inv: "session_inv st \<Longrightarrow> session_inv (cleanup_old_one sid st)"
  by (auto simp: cleanup_old_one_def frame_simps session_invD(1)
      intro!: drop_inv [of st sid _ _ "queue_retain _ _ _"] split: option.splits)

lemma cleanup_stalled_one_shape:
  assumes "hget (sessions st) (session_id x) = Some s"
  shows "sessions (cleanup_stalled_one env x st) = hremove (session_id x) (sessions st)"
    and "queue (cleanup_stalled_one env x st) =
           (queue st)(daemon_id s := filter (\<lambda>y. y \<noteq> session_id s) (queue st (daemon_id s)))"
    and "session_last_updated (cleanup_stalled_one env x st) = hremove (session_id s) (session_last_updated st)"
  using assms
  by (auto simp: cleanup_stalled_one_def Let_def frame_simps queue_cong [OF storage_create_frame(2)]
      intro!: ext split: option.splits)

lemma cleanup_stalled_one_inv:
  assumes "session_inv st"
  shows "session_inv (cleanup_stalled_one env x st)"
proof (cases "hget (sessions st) (session_id x)")
  case None
  with assms show ?thesis by (simp add: cleanup_stalled_one_def)
next
  case (Some s)
  with session_invD(1) [OF assms Some] show ?thesis
    by (intro drop_inv [OF assms Some refl]) (simp_all add: cleanup_stalled_one_shape [OF Some])
qed

lemma fold_inv: "(\<And>x st. session_inv st \<Longrightarrow> session_inv (f x st)) \<Longrightarrow> session_inv st \<Longrightarrow> session_inv (fold f xs st)"
  by (induction xs arbitrary: st) auto

lemma cleanup_old_sessions_inv: "session_inv st \<Longrightarrow> session_inv (cleanup_old_sessions env h st)"
  unfolding cleanup_old_sessions_def by (rule fold_inv [OF cleanup_old_one_inv])

lemma request_cancellation_inv: "session_inv st \<Longrightarrow> session_inv (request_cancellation env a g s st)"
  by (rule iffD1 [OF session_inv_cong]) (simp_all add: frame_simps)

lemma evict_tombstones_inv: "session_inv st \<Longrightarrow> session_inv (evict_tombstones now st)"
  by (rule iffD1 [OF session_inv_cong]) (simp_all add: evict_tombstones_def)

lemma cleanup_stalled_sessions_inv: "session_inv st \<Longrightarrow> session_inv (cleanup_stalled_sessions env st)"
  by (simp add: cleanup_stalled_sessions_def Let_def evict_tombstones_inv fold_inv
      cleanup_stalled_one_inv request_cancellation_inv)

lemma clear_sessions_inv:
  assumes "session_inv st"
  shows "session_inv (clear_sessions_for_daemon did st)"
proof (cases "hget (daemon_sessions st) did")
  case None
  with assms show ?thesis
    by (intro iffD1 [OF session_inv_cong, OF _ _ assms]) (simp_all add: clear_sessions_for_daemon_def)
next
  case (Some q)
  let ?st' = "clear_sessions_for_daemon did st"
  have q: "queue st did = q" by (simp add: queue_def Some)
  have hok: "hmap_ok (fold hremove ks m)" if "hmap_ok m" for ks and m :: "(uuid, DiscoveryUpdatePayload) HashMap"
    using that by (induction ks arbitrary: m) auto
  have "table_of ?st' = ((\<lambda>k. if k \<in> set q then None else hget (sessions st) k), (queue st)(did := []))"
    by (auto simp: clear_sessions_for_daemon_def table_of_def Some Let_def queue_def lookup_simps)
  moreover have "sessions ?st' = fold hremove q (sessions st)"
    by (simp add: clear_sessions_for_daemon_def Some Let_def)
  moreover have "table_inv ((\<lambda>k. if k \<in> set q then None else hget (sessions st) k), (queue st)(did := []))"
    using assms q unfolding session_inv_def table_inv_def
    by (auto split: if_splits)
  ultimately show ?thesis using assms by (simp add: session_inv_def hok)
qed

section \<open>Reachable states\<close>

text \<open>
  The calls the server makes of the service. A daemon's update of a known session names the
  daemon of that session.
\<close>

inductive session_step :: "DiscoveryService \<Rightarrow> DiscoveryService \<Rightarrow> bool" where
  step_start: "hget (sessions st) (env_fresh_id env (d_id d)) = None \<Longrightarrow>
     session_step st (snd (start_session env d auth st))"
| step_update: "(\<And>p. hget (sessions st) (session_id u) = Some p \<Longrightarrow> daemon_id p = daemon_id u) \<Longrightarrow>
     session_step st (snd (update_session env u st))"
| step_cancel: "session_step st (snd (cancel_session env sid auth st))"
| step_work: "session_step st (snd (get_pending_work did st))"
| step_cancellation: "session_step st (snd (get_pending_cancellation did st))"
| step_cleanup_old: "session_step st (cleanup_old_sessions env hours st)"
| step_cleanup_stalled: "session_step st (cleanup_stalled_sessions env st)"
| step_clear: "session_step st (clear_sessions_for_daemon did st)"

inductive session_reachable :: "DiscoveryService \<Rightarrow> bool" where
  reachable_new: "session_reachable discovery_service_new"
| reachable_step: "session_reachable st \<Longrightarrow> session_step st st' \<Longrightarrow> session_reachable st'"

lemma session_step_inv: "session_step st st' \<Longrightarrow> session_inv st \<Longrightarrow> session_inv st'"
  by (induction rule: session_step.induct)
     (auto intro: start_session_inv update_session_inv cancel_session_inv get_pending_work_inv
        get_pending_cancellation_inv cleanup_old_sessions_inv cleanup_stalled_sessions_inv clear_sessions_inv)

lemma reachable_inv: "session_reachable st \<Longrightarrow> session_inv st"
  by (induction rule: session_reachable.induct) (auto intro: session_inv_new session_step_inv)

end
