(* ===== verification/Session_Dispatch.thy ===== *)
theory Session_Dispatch
  imports Session_Invariants
begin

text \<open>
  What \<open>DaemonService\<close> relies on when it hands out work (\<open>server/daemons/service.rs\<close>,
  \<open>get_pending_work\<close>), as a locale with the session table as its provider; and the
  functional behaviour of the calls of the discovery service on a table that satisfies the
  invariant: a terminal update, a cancellation, the cleanup of stalled sessions, and which
  subscriber of the bus the event of a new session reaches.
\<close>

section \<open>The interface of the dispatcher\<close>

locale session_dispatch =
  fixes inv :: "'s \<Rightarrow> bool"
    and active :: "'s \<Rightarrow> 'd \<Rightarrow> bool"
    and pending :: "'s \<Rightarrow> 'd \<Rightarrow> 'p list"
    and ident :: "'p \<Rightarrow> 'i"
    and start :: "'i \<Rightarrow> 's \<Rightarrow> 's"
    and work :: "'d \<Rightarrow> 's \<Rightarrow> 'p option \<times> 's"
  assumes work_eq: "work d st =
      (if active st d then (None, st)
       else case pending st d of [] \<Rightarrow> (None, st) | p # ps \<Rightarrow> (Some p, start (ident p) st))"
    and start_active: "inv st \<Longrightarrow> pending st d = p # ps \<Longrightarrow> active (start (ident p) st) d"
    and start_pending: "inv st \<Longrightarrow> pending st d = p # ps \<Longrightarrow> pending (start (ident p) st) d = ps"
    and start_inv: "inv st \<Longrightarrow> inv (start i st)"
    and start_other: "inv st \<Longrightarrow> pending st d = p # ps \<Longrightarrow> d' \<noteq> d \<Longrightarrow>
      pending (start (ident p) st) d' = pending st d' \<and> active (start (ident p) st) d' = active st d'"
begin

lemma work_Some:
  assumes "inv st" "work d st = (Some p, st')"
  shows "\<not> active st d" and "pending st d = p # pending st' d" and "active st' d" and "inv st'"
  using assms
  by (auto simp: work_eq start_active start_pending start_inv split: if_splits list.splits)

lemma work_None_iff: "fst (work d st) = None \<longleftrightarrow> active st d \<or> pending st d = []"
  by (auto simp: work_eq split: list.splits)

lemma work_once: "inv st \<Longrightarrow> work d st = (Some p, st') \<Longrightarrow> work d st' = (None, st')"
  using work_Some(3) [of st d p st'] by (simp add: work_eq)

lemma work_other:
  "inv st \<Longrightarrow> d' \<noteq> d \<Longrightarrow>
   pending (snd (work d st)) d' = pending st d' \<and> active (snd (work d st)) d' = active st d'"
  by (auto simp: work_eq start_other split: list.splits)

lemma work_none_same: "fst (work d st) = None \<Longrightarrow> snd (work d st) = st"
  by (auto simp: work_eq split: list.splits if_splits)

end

section \<open>The session table provides it\<close>

lemma map_filter_Cons [simp]:
  "List.map_filter f (x # xs) =
     (case f x of None \<Rightarrow> List.map_filter f xs | Some y \<Rightarrow> y # List.map_filter f xs)"
  by (auto simp: List.map_filter_def split: option.splits)

lemma map_filter_mem: "v \<in> set (List.map_filter f xs) \<longleftrightarrow> (\<exists>x \<in> set xs. f x = Some v)"
  by (induction xs) (auto split: option.splits)

lemma map_filter_cong: "(\<And>x. x \<in> set xs \<Longrightarrow> f x = g x) \<Longrightarrow> List.map_filter f xs = List.map_filter g xs"
  by (induction xs) (auto split: option.splits)

lemma map_filter_upd_head:
  assumes "distinct q" "\<And>k v. k \<in> set q \<Longrightarrow> m k = Some v \<Longrightarrow> key v = k"
    "filter P (List.map_filter m q) = p # ps" "\<not> P p'"
  shows "filter P (List.map_filter (m(key p \<mapsto> p')) q) = ps"
  using assms
proof (induction q)
  case (Cons k q)
  show ?case
  proof (cases "\<exists>v. m k = Some v \<and> P v")
    case True
    then obtain v where v: "m k = Some v" "P v" by blast
    with Cons.prems have "v = p" "key p = k" by auto
    moreover have "List.map_filter (m(k \<mapsto> p')) q = List.map_filter m q"
      using Cons.prems(1) by (intro map_filter_cong) auto
    ultimately show ?thesis using v Cons.prems(3,4) by (simp del: fun_upd_apply) (simp add: fun_upd_def)
  next
    case False
    with Cons.prems(3) have f: "filter P (List.map_filter m q) = p # ps"
      by (auto split: option.splits)
    then have "p \<in> set (List.map_filter m q)" by (metis filter_eq_ConsD in_set_conv_decomp)
    then have "key p \<in> set q" using Cons.prems(2) by (auto simp: map_filter_mem)
    then have "k \<noteq> key p" using Cons.prems(1) by auto
    moreover have "filter P (List.map_filter (m(key p \<mapsto> p')) q) = ps"
      using Cons.prems f by (intro Cons.IH) auto
    ultimately show ?thesis using False
      by (cases "m k") (auto simp del: fun_upd_apply simp: fun_upd_other)
  qed
qed simp

lemma pending_head:
  assumes "session_inv st" "get_sessions_for_daemon st did = p # ps"
  shows "hget (sessions st) (session_id p) = Some p" "phase p = Pending" "daemon_id p = did"
    "session_id p \<in> set (queue st did)"
proof -
  have "p \<in> set (get_sessions_for_daemon st did)" by (simp add: assms(2))
  then obtain k where k: "k \<in> set (queue st did)" "hget (sessions st) k = Some p" "phase p = Pending"
    by (auto simp: get_sessions_for_daemon_def map_filter_mem)
  with session_invD(1) [OF assms(1) k(2)] session_invD(4) [OF assms(1), of k did]
  show "hget (sessions st) (session_id p) = Some p" "phase p = Pending" "daemon_id p = did"
    "session_id p \<in> set (queue st did)"
    by auto
qed

lemma transition_pending_shape:
  assumes "hget (sessions st) sid = Some p" "phase p = Pending"
  shows "hget (sessions (transition_session_to_starting sid st)) =
           (hget (sessions st))(sid \<mapsto> p\<lparr>phase := Starting\<rparr>)"
    and "queue (transition_session_to_starting sid st) = queue st"
  using assms by (auto simp: transition_session_to_starting_def lookup_simps)

lemma transition_other:
  assumes "session_inv st" "get_sessions_for_daemon st did = p # ps" "did' \<noteq> did"
  shows "get_sessions_for_daemon (transition_session_to_starting (session_id p) st) did' =
           get_sessions_for_daemon st did' \<and>
         has_active_session_for_daemon (transition_session_to_starting (session_id p) st) did' =
           has_active_session_for_daemon st did'"
proof -
  note h = pending_head [OF assms(1,2)]
  note s = transition_pending_shape [OF h(1,2)]
  have "session_id p \<notin> set (queue st did')"
    using session_invD(4) [OF assms(1), of "session_id p" did'] h(1,3) assms(3) by auto
  then show ?thesis
    unfolding get_sessions_for_daemon_def has_active_session_for_daemon_def s
    by (auto intro!: arg_cong [of _ _ "filter _"] map_filter_cong simp: list_ex_iff)
qed

interpretation dispatch: session_dispatch session_inv has_active_session_for_daemon
  get_sessions_for_daemon session_id transition_session_to_starting get_pending_work
proof unfold_locales
  fix st did p ps
  assume inv: "session_inv st" and pend: "get_sessions_for_daemon st did = p # ps"
  note h = pending_head [OF inv pend]
  note s = transition_pending_shape [OF h(1,2)]
  show "has_active_session_for_daemon (transition_session_to_starting (session_id p) st) did"
    using h(4) unfolding has_active_session_for_daemon_def s by (auto simp: list_ex_iff)
  show "get_sessions_for_daemon (transition_session_to_starting (session_id p) st) did = ps"
    using pend unfolding get_sessions_for_daemon_def s
    by (intro map_filter_upd_head) (auto dest: session_invD(1) [OF inv] simp: session_invD(3) [OF inv])
qed (auto simp: get_pending_work_def transition_inv transition_other)

section \<open>Functional behaviour\<close>

lemma work_active_unique:
  \<comment> \<open>a daemon that is handed work has exactly this session active\<close>
  assumes "session_inv st" "get_pending_work did st = (Some p, st')"
  shows "\<forall>sid \<in> set (queue st' did). \<forall>q. hget (sessions st') sid = Some q \<longrightarrow>
           phase q \<noteq> Pending \<longrightarrow> sid = session_id p"
proof -
  have na: "\<not> has_active_session_for_daemon st did" and pend: "get_sessions_for_daemon st did = p # get_sessions_for_daemon st' did"
    using dispatch.work_Some [OF assms] by auto
  note h = pending_head [OF assms(1) pend]
  have st': "st' = transition_session_to_starting (session_id p) st"
    using assms(2) pend na by (simp add: get_pending_work_def)
  show ?thesis
    using na session_invD(2) [OF assms(1)]
    unfolding st' transition_pending_shape [OF h(1,2)]
    by (auto simp: has_active_session_for_daemon_def list_ex_iff split: if_splits option.splits)
qed

text \<open>The events the service published, in order, are what its bus has sent.\<close>

lemma publish_bus [simp]: "bus_sent (event_bus (publish e st)) = bus_sent (event_bus st) @ [e]"
  by (simp add: publish_def bus_publish_def)

lemma start_session_events:
  assumes "hydrate_type env d = Inr t"
  shows "bus_sent (event_bus (snd (start_session env d auth st))) =
           bus_sent (event_bus st) @
           (if queue st (db_daemon_id (d_base d)) = []
            then [DiscoveryEv (into_discovery_event_with_auth env
                    (payload_new (env_fresh_id env (d_id d)) (db_daemon_id (d_base d))
                       (db_network_id (d_base d)) t) auth)]
            else [])"
  using assms
  by (auto simp: start_session_def Let_def start_publish_def send_update_def queue_push_def
      start_insert_def daemon_is_running_discovery_def queue_def split: option.splits)

lemma daemon_service_filter_iff:
  "filter_matches disc daemon_service_filter e \<longleftrightarrow>
     (\<exists>d. e = DiscoveryEv d \<and> (de_phase d = Started \<or> de_phase d = Cancelled))"
  by (auto simp only: daemon_service_filter_def filter_discovery_only_iff list.set insert_iff empty_iff)

lemma start_event_unmatched:
  "\<not> filter_matches disc daemon_service_filter
       (DiscoveryEv (into_discovery_event_with_auth env (payload_new sid did nid t) auth))"
  unfolding daemon_service_filter_iff
  by (simp add: into_discovery_event_with_auth_def into_discovery_event_def payload_new_def)

end
