(* ===== verification/Discovery_Handlers.thy ===== *)
theory Discovery_Handlers
  imports Session_Dispatch
begin

text \<open>
  The endpoints around the sessions (\<open>server/discovery/handlers.rs\<close>): the guards a daemon's
  update and a user's cancellation pass before they reach the service, and the filters that
  restrict what a user sees to the networks of the user; then the properties of the session
  management as seen through the service and these endpoints.
\<close>

section \<open>Endpoints\<close>

definition map_error :: "('a + 'b) \<times> 's \<Rightarrow> ('a \<Rightarrow> 'c) \<Rightarrow> ('c + 'b) \<times> 's" where
  "map_error r f = (case r of (Inl e, st) \<Rightarrow> (Inl (f e), st) | (Inr x, st) \<Rightarrow> (Inr x, st))"

text \<open>
  A request of a daemon carries exactly one network id. The path's session id is ignored. An
  error of the service becomes an internal error of the API.
\<close>

definition receive_discovery_update ::
    "Env \<Rightarrow> AuthenticatedEntity \<Rightarrow> uuid \<Rightarrow> DiscoveryUpdatePayload \<Rightarrow> DiscoveryService
     \<Rightarrow> (ApiError + unit) \<times> DiscoveryService" where
  "receive_discovery_update env auth path_id u st =
     (case (auth_network_ids auth, auth_daemon_id auth) of
        (n # _, Some did) \<Rightarrow>
          if network_id u \<noteq> n
          then (Inl (Forbidden ''Cannot send updates for a different network''), st)
          else if daemon_id u \<noteq> did
          then (Inl (Forbidden ''Cannot send updates for a different daemon''), st)
          else map_error (update_session env u st) InternalError
      | _ \<Rightarrow> (Inl (InternalError ''Could not get daemon ID from authentication''), st))"

definition cancel_discovery ::
    "Env \<Rightarrow> AuthenticatedEntity \<Rightarrow> uuid \<Rightarrow> DiscoveryService \<Rightarrow> (ApiError + unit) \<times> DiscoveryService" where
  "cancel_discovery env auth sid st =
     (case get_session st sid of
        None \<Rightarrow> (Inl (NotFound (''Discovery session '' @ [char_of (39::nat)] @ uuid_display sid @
                   [char_of (39::nat)] @ '' not found'')), st)
      | Some s \<Rightarrow>
          if network_id s \<notin> set (auth_network_ids auth)
          then (Inl (Forbidden (''You don'' @ [char_of (39::nat)] @ ''t have access to this Network'')), st)
          else map_error (cancel_session env sid auth st) InternalError)"

definition get_active_sessions :: "AuthenticatedEntity \<Rightarrow> DiscoveryService \<Rightarrow> DiscoveryUpdatePayload list" where
  "get_active_sessions auth st = get_all_sessions st (auth_network_ids auth)"

definition discovery_stream :: "AuthenticatedEntity \<Rightarrow> DiscoveryUpdatePayload list \<Rightarrow> DiscoveryUpdatePayload list" where
  \<comment> \<open>the updates of the channel that the stream of a user emits\<close>
  "discovery_stream auth received = filter (\<lambda>u. network_id u \<in> set (auth_network_ids auth)) received"

section \<open>A terminal update\<close>

lemma table_drop_other:
  "fst (table_drop did sid t) x = (if x = sid then None else fst t x)"
  "snd (table_drop did sid t) d = (if d = did then filter (\<lambda>s. s \<noteq> sid) (snd t did) else snd t d)"
  by (simp_all add: table_drop_def)

lemma table_head_pending_queue [simp]: "snd (table_head_pending did t) = snd t"
  by (simp add: table_head_pending_def split: list.splits option.splits)

lemma table_head_pending_None [simp]: "fst (table_head_pending did t) x = None \<longleftrightarrow> fst t x = None"
  by (auto simp: table_head_pending_def split: list.splits option.splits)

lemma table_head_pending_head:
  "snd t did = n # ns \<Longrightarrow> fst t n = Some s \<Longrightarrow> fst (table_head_pending did t) n = Some (s\<lparr>phase := Pending\<rparr>)"
  by (simp add: table_head_pending_def)

lemma updated_state_frame [frame_simps]:
  "daemon_pull_cancellations (updated_state env u st) = daemon_pull_cancellations st"
  "session_last_updated (updated_state env u st) = hinsert (session_id u) (env_now env) (session_last_updated st)"
  "update_tx (updated_state env u st) = update_tx st @ [u]"
  "discovery_storage (updated_state env u st) = discovery_storage st"
  by (simp_all add: updated_state_def Let_def queue_push_def send_update_def split: option.splits)

lemma queue_retain_more [frame_simps]:
  "discovery_storage (queue_retain did sid st) = discovery_storage st"
  "update_tx (queue_retain did sid st) = update_tx st"
  by (simp_all add: queue_retain_def split: option.splits)

lemma next_session_more [frame_simps]:
  "discovery_storage (snd (next_session did st)) = discovery_storage st"
  "update_tx (snd (next_session did st)) = update_tx st"
  by (simp_all add: next_session_def split: option.splits list.splits)

lemma finish_session_more:
  "daemon_pull_cancellations (finish_session env did nid u st) =
     hremove (daemon_id u) (daemon_pull_cancellations st)"
  "update_tx (finish_session env did nid u st) = update_tx st"
  by (simp_all add: finish_session_def Let_def split_def frame_simps pull_cancellation_for_daemon_def
      split: option.splits)

lemma finish_session_storage:
  "discovery_storage (finish_session env did nid u st) =
     (let h = historical_discovery env (discovery_type_display (discovery_type u)) u in
      if env_create_error env h = None then hinsert (d_id h) (to_row h) (discovery_storage st)
      else discovery_storage st)"
  by (simp add: finish_session_def Let_def split_def frame_simps save_historical_def storage_create_def
      split: option.splits)

lemma table_queue: "table_of st = t \<Longrightarrow> queue st = snd t" "table_of st = t \<Longrightarrow> hget (sessions st) = fst t"
  by auto

lemmas update_queue = table_queue(1) [OF update_session_table]
lemmas update_sessions = table_queue(2) [OF update_session_table]

lemma terminal_update_facts:
  assumes "hget (sessions st) (session_id u) = Some s" "is_terminal (phase u)"
  shows "hget (sessions (snd (update_session env u st))) (session_id u) = None"
    and "queue (snd (update_session env u st)) =
           (queue st)(daemon_id u := filter (\<lambda>x. x \<noteq> session_id u) (queue st (daemon_id u)))"
    and "hget (session_last_updated (snd (update_session env u st))) (session_id u) = Some (env_now env)"
    and "hget (daemon_pull_cancellations (snd (update_session env u st))) (daemon_id u) = None"
    and "update_tx (snd (update_session env u st)) = update_tx st @ [u]"
    and "filter (\<lambda>x. x \<noteq> session_id u) (queue st (daemon_id u)) = n # ns \<Longrightarrow> hget (sessions st) n = Some s' \<Longrightarrow>
           hget (sessions (snd (update_session env u st))) n = Some (s'\<lparr>phase := Pending\<rparr>)"
proof -
  show "hget (sessions (snd (update_session env u st))) (session_id u) = None"
    using assms by (simp add: update_sessions table_update_def table_drop_other)
  show "queue (snd (update_session env u st)) =
           (queue st)(daemon_id u := filter (\<lambda>x. x \<noteq> session_id u) (queue st (daemon_id u)))"
    using assms by (simp add: update_queue table_update_def table_drop_def)
  show "hget (session_last_updated (snd (update_session env u st))) (session_id u) = Some (env_now env)"
    using assms by (simp add: update_session_cases finish_session_maps frame_simps lookup_simps)
  show "hget (daemon_pull_cancellations (snd (update_session env u st))) (daemon_id u) = None"
    using assms by (simp add: update_session_cases finish_session_more frame_simps lookup_simps)
  show "update_tx (snd (update_session env u st)) = update_tx st @ [u]"
    using assms by (simp add: update_session_cases finish_session_more frame_simps)
  assume q: "filter (\<lambda>x. x \<noteq> session_id u) (queue st (daemon_id u)) = n # ns" and n: "hget (sessions st) n = Some s'"
  from filter_ne_hd [OF q] n q assms
  show "hget (sessions (snd (update_session env u st))) n = Some (s'\<lparr>phase := Pending\<rparr>)"
    by (simp add: update_sessions table_update_def table_drop_other
        table_head_pending_head [where n = n and s = s' and ns = ns])
qed

lemma redundant_update_facts:
  assumes "hget (sessions st) (session_id u) = None" "is_terminal (phase u)"
    "hget (session_last_updated st) (session_id u) \<noteq> None"
  shows "snd (update_session env u st) =
     st\<lparr>session_last_updated := hinsert (session_id u) (env_now env) (session_last_updated st)\<rparr>"
  using assms by (simp add: update_session_cases)

section \<open>Cancellation\<close>

lemma request_cancellation_events:
  "bus_sent (event_bus (request_cancellation env auth g s st)) =
     bus_sent (event_bus st) @
     [DiscoveryEv (into_discovery_event_with_auth env (cancelled_update env g s) auth)]"
  by (simp add: request_cancellation_def Let_def)

lemma cancelled_event_matched:
  "filter_matches disc daemon_service_filter
     (DiscoveryEv (into_discovery_event_with_auth env (cancelled_update env g s) auth))"
  unfolding daemon_service_filter_iff
  by (simp add: into_discovery_event_with_auth_def into_discovery_event_def cancelled_update_def)

section \<open>Stalled sessions\<close>

lemma stalled_iff:
  assumes "session_inv st"
  shows "s \<in> set (stalled_sessions now st) \<longleftrightarrow>
     hget (sessions st) (session_id s) = Some s \<and> is_stalled now st (session_id s) s"
proof -
  note mem = hget_iff_mem [OF session_invD(5) [OF assms]]
  have "s \<in> set (stalled_sessions now st) \<longleftrightarrow>
      (\<exists>k. hget (sessions st) k = Some s \<and> is_stalled now st k s)"
    unfolding mem stalled_sessions_def by force
  also have "\<dots> \<longleftrightarrow> hget (sessions st) (session_id s) = Some s \<and> is_stalled now st (session_id s) s"
    using session_invD(1) [OF assms, of _ s] by blast
  finally show ?thesis .
qed

lemma fold_request_frame:
  "sessions (fold (\<lambda>s. request_cancellation env AuthSystem (progress s) s) xs st) = sessions st"
  "daemon_sessions (fold (\<lambda>s. request_cancellation env AuthSystem (progress s) s) xs st) = daemon_sessions st"
  "session_last_updated (fold (\<lambda>s. request_cancellation env AuthSystem (progress s) s) xs st) = session_last_updated st"
  by (induction xs arbitrary: st) (simp_all add: frame_simps)

lemma fold_request_flag:
  "hget (daemon_pull_cancellations (fold (\<lambda>s. request_cancellation env AuthSystem (progress s) s) xs st)) did = Some (b, c) \<Longrightarrow>
   (\<exists>x \<in> set xs. session_id x = c \<and> daemon_id x = did) \<or>
   hget (daemon_pull_cancellations st) did = Some (b, c) \<and> (\<forall>x \<in> set xs. daemon_id x \<noteq> did)"
proof (induction xs arbitrary: st)
  case (Cons x xs)
  have "hget (daemon_pull_cancellations (request_cancellation env AuthSystem (progress x) x st)) did =
     (if did = daemon_id x then Some (True, session_id x) else hget (daemon_pull_cancellations st) did)"
    by (simp add: request_cancellation_def Let_def lookup_simps frame_simps)
  with Cons.IH [of "request_cancellation env AuthSystem (progress x) x st"] Cons.prems
  show ?case by (auto split: if_splits)
qed simp

lemma cleanup_stalled_one_sessions:
  "hget (sessions (cleanup_stalled_one env x st)) = (hget (sessions st))(session_id x := None)"
proof (cases "hget (sessions st) (session_id x)")
  case None
  then show ?thesis by (auto simp: cleanup_stalled_one_def)
next
  case (Some s)
  then show ?thesis by (auto simp: cleanup_stalled_one_shape(1) lookup_simps)
qed

lemma fold_cleanup_sessions:
  "hget (sessions (fold (cleanup_stalled_one env) xs st)) sid =
     (if sid \<in> session_id ` set xs then None else hget (sessions st) sid)"
  by (induction xs arbitrary: st) (auto simp: cleanup_stalled_one_sessions)

lemma cleanup_stalled_one_flags:
  assumes "hget (sessions st) (session_id x) = Some x"
  shows "hget (daemon_pull_cancellations (cleanup_stalled_one env x st)) did =
     (case hget (daemon_pull_cancellations st) did of
        Some (b, c) \<Rightarrow> if did = daemon_id x \<and> c = session_id x then None else Some (b, c)
      | None \<Rightarrow> None)"
  using assms
  by (auto simp: cleanup_stalled_one_def Let_def frame_simps lookup_simps split: option.splits)

text \<open>
  A flag of a daemon with a stalled session names a session the rest of the loop removes.
\<close>

lemma fold_cleanup_flags:
  assumes "\<forall>b c. hget (daemon_pull_cancellations st) did = Some (b, c) \<longrightarrow>
      (\<exists>x \<in> set xs. session_id x = c \<and> daemon_id x = did)"
    and "\<forall>x \<in> set xs. hget (sessions st) (session_id x) = Some x" "distinct (map session_id xs)"
  shows "hget (daemon_pull_cancellations (fold (cleanup_stalled_one env) xs st)) did = None"
  using assms
proof (induction xs arbitrary: st)
  case Nil
  then show ?case by (cases "hget (daemon_pull_cancellations st) did") auto
next
  case (Cons x xs)
  have x: "hget (sessions st) (session_id x) = Some x" using Cons.prems(2) by simp
  have "hget (daemon_pull_cancellations (fold (cleanup_stalled_one env) xs (cleanup_stalled_one env x st))) did = None"
  proof (rule Cons.IH)
    show "\<forall>b c. hget (daemon_pull_cancellations (cleanup_stalled_one env x st)) did = Some (b, c) \<longrightarrow>
        (\<exists>x \<in> set xs. session_id x = c \<and> daemon_id x = did)"
      using Cons.prems(1) by (auto simp: cleanup_stalled_one_flags [OF x] split: option.splits if_splits)
    show "\<forall>y \<in> set xs. hget (sessions (cleanup_stalled_one env x st)) (session_id y) = Some y"
    proof
      fix y
      assume y: "y \<in> set xs"
      then have "session_id y \<in> session_id ` set xs" by (rule imageI)
      then have "session_id y \<noteq> session_id x" using Cons.prems(3) by force
      moreover have "hget (sessions st) (session_id y) = Some y" using Cons.prems(2) y by simp
      ultimately show "hget (sessions (cleanup_stalled_one env x st)) (session_id y) = Some y"
        by (simp only: cleanup_stalled_one_sessions fun_upd_other not_False_eq_True)
    qed
    show "distinct (map session_id xs)" using Cons.prems(3) by simp
  qed
  then show ?case by simp
qed

lemma hmap_ok_inj: "hmap_ok m \<Longrightarrow> (k, v) \<in> set m \<Longrightarrow> (k, v') \<in> set m \<Longrightarrow> v = v'"
  using hget_iff_mem by (metis option.inject)

lemma stalled_distinct:
  assumes "session_inv st"
  shows "distinct (map session_id (stalled_sessions now st))"
proof -
  have "map session_id (stalled_sessions now st) = map fst (filter (\<lambda>(k, s). is_stalled now st k s) (sessions st))"
  proof -
    have "session_id v = k" if "(k, v) \<in> set (sessions st)" for k v
      using that session_invD(1) [OF assms, of k v] hget_iff_mem [OF session_invD(5) [OF assms], of k v]
      by blast
    then show ?thesis unfolding stalled_sessions_def map_map by (intro map_cong refl) auto
  qed
  moreover have "distinct (map fst (filter P (sessions st)))" for P
    using session_invD(5) [OF assms] by (simp add: hmap_ok_def hkeys_def distinct_map_filter)
  ultimately show ?thesis by metis
qed

lemma cleanup_stalled_sessions_map:
  assumes "session_inv st"
  shows "hget (sessions (cleanup_stalled_sessions env st)) sid =
     (case hget (sessions st) sid of
        Some s \<Rightarrow> if is_stalled (env_now env) st sid s then None else Some s
      | None \<Rightarrow> None)"
proof -
  have mem: "sid \<in> session_id ` set (stalled_sessions (env_now env) st) \<longleftrightarrow>
      (\<exists>s. hget (sessions st) sid = Some s \<and> is_stalled (env_now env) st sid s)"
    using session_invD(1) [OF assms] by (force simp: image_iff stalled_iff [OF assms])
  have "sessions (evict_tombstones now st') = sessions st'" for now st'
    by (simp add: evict_tombstones_def)
  then have "hget (sessions (cleanup_stalled_sessions env st)) sid =
      (if sid \<in> session_id ` set (stalled_sessions (env_now env) st) then None else hget (sessions st) sid)"
    by (simp add: cleanup_stalled_sessions_def Let_def fold_cleanup_sessions fold_request_frame)
  then show ?thesis unfolding mem by (auto split: option.splits)
qed

lemma cleanup_stalled_sessions_flags:
  assumes "session_inv st" "s \<in> set (stalled_sessions (env_now env) st)"
  shows "hget (daemon_pull_cancellations (cleanup_stalled_sessions env st)) (daemon_id s) = None"
proof -
  let ?xs = "stalled_sessions (env_now env) st"
  let ?st1 = "fold (\<lambda>s. request_cancellation env AuthSystem (progress s) s) ?xs st"
  have "hget (daemon_pull_cancellations (fold (cleanup_stalled_one env) ?xs ?st1)) (daemon_id s) = None"
  proof (rule fold_cleanup_flags)
    show "\<forall>b c. hget (daemon_pull_cancellations ?st1) (daemon_id s) = Some (b, c) \<longrightarrow>
        (\<exists>x \<in> set ?xs. session_id x = c \<and> daemon_id x = daemon_id s)"
      using assms(2) fold_request_flag [of env ?xs st "daemon_id s"] by blast
  qed (auto simp: fold_request_frame stalled_distinct [OF assms(1)] stalled_iff [OF assms(1)])
  moreover have "daemon_pull_cancellations (evict_tombstones now st') = daemon_pull_cancellations st'" for now st'
    by (simp add: evict_tombstones_def)
  moreover have "?xs \<noteq> []" using assms(2) by auto
  ultimately show ?thesis by (simp add: cleanup_stalled_sessions_def Let_def)
qed

end
