(* ===== verification/Session_Claims.thy ===== *)
theory Session_Claims
  imports Discovery_Handlers
begin

text \<open>
  The properties of the session management, each with its instance on a small concrete
  state: two sessions \<open>1\<close> and \<open>2\<close> of daemon \<open>7\<close>, started in this order.
\<close>

section \<open>A concrete state\<close>

definition demo_env :: Env where
  "demo_env =
     \<lparr>env_now = 1000000000000, env_event_id = 99, env_fresh_id = (\<lambda>i. i), env_get_error = (\<lambda>i. None),
      env_tags = (\<lambda>i. []), env_create_error = (\<lambda>d. None),
      env_update_error = (\<lambda>d. None), env_delete_error = (\<lambda>i. None),
      env_set_tags_error = (\<lambda>i ts o1. None), env_remove_tags_error = (\<lambda>i. None),
      env_build_credentials = (\<lambda>n. Inr \<lparr>default_credential = None, ip_overrides = []\<rparr>),
      env_network_org = (\<lambda>n. None), env_org_onboarding = (\<lambda>o1. None),
      env_list_error = None, env_has_scheduler = True, env_scheduler_start_error = None,
      env_scheduler_add = (\<lambda>c. Inl ''bad cron''), env_scheduler_remove_error = (\<lambda>j. None)\<rparr>"

definition demo_discovery :: "uuid \<Rightarrow> Discovery" where
  "demo_discovery i = discovery_new i 0
     \<lparr>db_discovery_type = SelfReport 5, db_run_type = AdHoc None, db_name = ''scan'',
      db_daemon_id = 7, db_network_id = 8, db_tags = []\<rparr>"

definition demo_state :: DiscoveryService where
  "demo_state =
     snd (start_session demo_env (demo_discovery 2) AuthSystem
       (snd (start_session demo_env (demo_discovery 1) AuthSystem discovery_service_new)))"

lemma demo_hydrate: "hydrate_type demo_env (demo_discovery i) = Inr (SelfReport 5)"
  by (simp add: hydrate_type_def demo_discovery_def discovery_new_def)

lemma demo_start:
  "snd (start_session demo_env (demo_discovery i) AuthSystem st) =
     start_publish demo_env (daemon_is_running_discovery (start_insert (payload_new i 7 8 (SelfReport 5)) st) 7)
       AuthSystem (payload_new i 7 8 (SelfReport 5))
       (queue_push 7 i (start_insert (payload_new i 7 8 (SelfReport 5)) st))"
  by (simp add: start_session_def demo_hydrate Let_def)
     (simp add: demo_discovery_def discovery_new_def demo_env_def payload_new_def)

lemma demo_start_maps:
  "sessions (snd (start_session demo_env (demo_discovery i) AuthSystem st)) =
     hinsert i (payload_new i 7 8 (SelfReport 5)) (sessions st)"
  "queue (snd (start_session demo_env (demo_discovery i) AuthSystem st)) =
     (queue st)(7 := queue st 7 @ [i])"
  "session_last_updated (snd (start_session demo_env (demo_discovery i) AuthSystem st)) =
     session_last_updated st"
  by (auto simp: demo_start start_publish_def Let_def frame_simps start_insert_def payload_new_def)

lemma demo_new:
  "sessions discovery_service_new = []" "queue discovery_service_new did = []"
  "session_last_updated discovery_service_new = []"
  by (simp_all add: discovery_service_new_def queue_def lookup_simps)

lemma demo_sessions:
  "sessions demo_state = [(1, payload_new 1 7 8 (SelfReport 5)), (2, payload_new 2 7 8 (SelfReport 5))]"
  by (simp add: demo_state_def demo_start_maps demo_new hinsert_def)

lemma demo_queue: "queue demo_state 7 = [1, 2]"
  by (simp add: demo_state_def demo_start_maps demo_new)

lemma demo_ids: "env_fresh_id demo_env (d_id (demo_discovery i)) = i"
  by (simp add: demo_env_def demo_discovery_def discovery_new_def)

lemma demo_reachable: "session_reachable demo_state"
  unfolding demo_state_def
  by (rule reachable_step [OF reachable_step [OF reachable_new step_start] step_start])
     (simp_all add: demo_start_maps demo_ids demo_new lookup_simps)

lemma demo_inv: "session_inv demo_state"
  by (rule reachable_inv [OF demo_reachable])

lemma demo_get [simp]:
  "hget (sessions demo_state) 1 = Some (payload_new 1 7 8 (SelfReport 5))"
  "hget (sessions demo_state) 2 = Some (payload_new 2 7 8 (SelfReport 5))"
  by (simp_all add: demo_sessions hget_def)

section \<open>Properties\<close>

text \<open>
  C1: In every state the service can reach by its calls (sessions started, updated by the
  daemon they belong to, cancelled, dispatched and cleaned up), each daemon's queue has no
  repetition and holds exactly the known sessions of that daemon, and every known session is
  stored under its own id in a phase that is not terminal.
\<close>

theorem reachable_sessions_consistent:
  assumes "session_reachable st"
  shows "distinct (queue st did) \<and>
    (sid \<in> set (queue st did) \<longleftrightarrow> (\<exists>p. hget (sessions st) sid = Some p \<and> daemon_id p = did)) \<and>
    (hget (sessions st) sid = Some p \<longrightarrow> session_id p = sid \<and> \<not> is_terminal (phase p))"
  using session_invD [OF reachable_inv [OF assms]] by blast

lemma reachable_sessions_consistent_witness:
  "distinct (queue demo_state 7) \<and>
   (1 \<in> set (queue demo_state 7) \<longleftrightarrow> (\<exists>p. hget (sessions demo_state) 1 = Some p \<and> daemon_id p = 7)) \<and>
   session_id (payload_new 1 7 8 (SelfReport 5)) = 1 \<and>
   \<not> is_terminal (phase (payload_new 1 7 8 (SelfReport 5)))"
  using reachable_sessions_consistent [OF demo_reachable, of 7 1 "payload_new 1 7 8 (SelfReport 5)"]
  by (simp add: demo_sessions hget_def)

text \<open>
  C2: \<open>update_session\<close> implements the abstract update of the session table: an unknown
  session is appended to its daemon's queue, a known one is overwritten, a terminal one is
  dropped and the new head of the queue becomes pending, and a terminal update of a session
  seen before and no longer known changes nothing.
\<close>

theorem update_session_refines_table:
  "table_of (snd (update_session env u st)) =
     table_update (hget (session_last_updated st) (session_id u) \<noteq> None) u (table_of st)"
  by (rule update_session_table)

text \<open>
  C3: Work is handed to a daemon only when the daemon has no active session; it is the first
  pending session of the daemon's queue, it is then the only session of the queue that is not
  pending, and asking again hands out nothing while the other daemons are unaffected.
\<close>

theorem get_pending_work_exclusive:
  assumes "session_inv st" "get_pending_work did st = (Some p, st')"
  shows "\<not> has_active_session_for_daemon st did \<and>
    get_sessions_for_daemon st did = p # get_sessions_for_daemon st' did \<and>
    has_active_session_for_daemon st' did \<and>
    (\<forall>sid \<in> set (queue st' did). \<forall>q. hget (sessions st') sid = Some q \<longrightarrow>
       phase q \<noteq> Pending \<longrightarrow> sid = session_id p) \<and>
    get_pending_work did st' = (None, st') \<and>
    (\<forall>did'. did' \<noteq> did \<longrightarrow> get_sessions_for_daemon st' did' = get_sessions_for_daemon st did')"
  using dispatch.work_Some [OF assms] dispatch.work_once [OF assms] work_active_unique [OF assms]
    dispatch.work_other [OF assms(1), of _ did] assms(2)
  by auto

lemma demo_work:
  "get_pending_work 7 demo_state =
     (Some (payload_new 1 7 8 (SelfReport 5)), transition_session_to_starting 1 demo_state)"
  by (simp add: get_pending_work_def has_active_session_for_daemon_def get_sessions_for_daemon_def
      demo_queue payload_new_def)

lemma get_pending_work_exclusive_witness:
  "get_pending_work 7 (snd (get_pending_work 7 demo_state)) = (None, snd (get_pending_work 7 demo_state))"
  using get_pending_work_exclusive [OF demo_inv demo_work] by (simp add: demo_work)

text \<open>
  A terminal update of a known session by its daemon removes the session from the table
  and from the daemon's queue, makes the next session of the queue pending, drops a pending
  cancellation of the daemon, leaves a tombstone and broadcasts the update.
\<close>

theorem terminal_update_finishes:
  assumes "hget (sessions st) (session_id u) = Some s" "is_terminal (phase u)"
    "queue st (daemon_id u) = session_id u # n # ns" "n \<noteq> session_id u" "hget (sessions st) n = Some s'"
  shows "let st' = snd (update_session env u st) in
    hget (sessions st') (session_id u) = None \<and>
    session_id u \<notin> set (queue st' (daemon_id u)) \<and>
    hget (sessions st') n = Some (s'\<lparr>phase := Pending\<rparr>) \<and>
    hget (daemon_pull_cancellations st') (daemon_id u) = None \<and>
    hget (session_last_updated st') (session_id u) = Some (env_now env) \<and>
    update_tx st' = update_tx st @ [u]"
  using terminal_update_facts [OF assms(1,2)] assms(3-5) by (simp add: Let_def)

definition demo_done :: DiscoveryUpdatePayload where
  "demo_done = (payload_new 1 7 8 (SelfReport 5))\<lparr>phase := Complete, progress := 100\<rparr>"

lemma demo_done_simps [simp]:
  "session_id demo_done = 1" "daemon_id demo_done = 7" "phase demo_done = Complete"
  by (simp_all add: demo_done_def payload_new_def)

lemma terminal_update_finishes_witness:
  "hget (sessions (snd (update_session demo_env demo_done demo_state))) 1 = None"
  using terminal_update_finishes [of demo_state demo_done "payload_new 1 7 8 (SelfReport 5)" 2 "[]" _ demo_env]
  by (simp add: demo_queue Let_def)

text \<open>
  The run of a session that ends is recorded: when the database accepts it, the storage
  holds a historical discovery with the terminal payload as its result, named after the
  discovery type.
\<close>

theorem terminal_update_recorded:
  assumes "hget (sessions st) (session_id u) = Some s" "is_terminal (phase u)"
    "env_create_error env (historical_discovery env (discovery_type_display (discovery_type u)) u) = None"
  shows "\<exists>h. hget (discovery_storage (snd (update_session env u st))) (env_fresh_id env (session_id u)) = Some h \<and>
     db_run_type (d_base h) = Historical u \<and> db_daemon_id (d_base h) = daemon_id u \<and>
     db_name (d_base h) = discovery_type_display (discovery_type u)"
  using assms
  by (simp add: update_session_cases finish_session_storage Let_def historical_discovery_def to_row_def lookup_simps)

lemma terminal_update_recorded_witness:
  "\<exists>h. hget (discovery_storage (snd (update_session demo_env demo_done demo_state))) 1 = Some h \<and>
     db_run_type (d_base h) = Historical demo_done"
  using terminal_update_recorded [of demo_state demo_done "payload_new 1 7 8 (SelfReport 5)" demo_env]
  by (auto simp: demo_env_def)

text \<open>
  A terminal update that a daemon repeats after its session has been finished only
  refreshes the tombstone: nothing is broadcast, recorded or published again.
\<close>

theorem repeated_terminal_update_ignored:
  assumes "hget (sessions st) (session_id u) = Some s" "is_terminal (phase u)"
    "st' = snd (update_session env u st)"
  shows "snd (update_session env' u st') =
     st'\<lparr>session_last_updated := hinsert (session_id u) (env_now env') (session_last_updated st')\<rparr>"
  using terminal_update_facts(1,3) [OF assms(1,2), of env] assms(2)
  by (simp add: assms(3) redundant_update_facts)

lemma repeated_terminal_update_ignored_witness:
  "update_tx (snd (update_session demo_env demo_done (snd (update_session demo_env demo_done demo_state)))) =
     update_tx (snd (update_session demo_env demo_done demo_state))"
  by (subst repeated_terminal_update_ignored [of demo_state demo_done "payload_new 1 7 8 (SelfReport 5)", OF _ _ refl])
     simp_all

text \<open>
  C27: Cancelling a session does what its phase allows: an unknown or a starting session is
  refused, a pending one is removed from the table and its queue without an event, an active
  one stays and is requested from the daemon by both the flag and an event that the daemon
  service's filter accepts.
\<close>

theorem cancel_session_by_phase:
  assumes "session_inv st"
  shows "case hget (sessions st) sid of
      None \<Rightarrow> \<exists>e. cancel_session env sid auth st = (Inl e, st)
    | Some s \<Rightarrow>
        (phase s = Starting \<longrightarrow> (\<exists>e. cancel_session env sid auth st = (Inl e, st))) \<and>
        (phase s = Pending \<longrightarrow>
           table_of (snd (cancel_session env sid auth st)) = table_drop (daemon_id s) sid (table_of st) \<and>
           event_bus (snd (cancel_session env sid auth st)) = event_bus st) \<and>
        (phase s = Started \<or> phase s = Scanning \<longrightarrow>
           table_of (snd (cancel_session env sid auth st)) = table_of st \<and>
           hget (daemon_pull_cancellations (snd (cancel_session env sid auth st))) (daemon_id s) = Some (True, sid) \<and>
           (\<exists>e. bus_sent (event_bus (snd (cancel_session env sid auth st))) = bus_sent (event_bus st) @ [e] \<and>
                filter_matches discovery_discriminant daemon_service_filter e))"
proof (cases "hget (sessions st) sid")
  case None
  then show ?thesis by (simp add: cancel_session_def get_session_def)
next
  case (Some s)
  have starting: "phase s = Starting \<Longrightarrow> \<exists>e. cancel_session env sid auth st = (Inl e, st)"
    using Some by (simp add: cancel_session_def get_session_def Let_def)
  have pending: "phase s = Pending \<Longrightarrow>
      table_of (snd (cancel_session env sid auth st)) = table_drop (daemon_id s) sid (table_of st) \<and>
      event_bus (snd (cancel_session env sid auth st)) = event_bus st"
    using Some
    by (simp add: cancel_session_def get_session_def Let_def table_of_def table_drop_def frame_simps
        lookup_simps fun_eq_iff)
  have active: "snd (cancel_session env sid auth st) = request_cancellation env auth 0 (s\<lparr>session_id := sid\<rparr>) st"
    if "phase s = Started \<or> phase s = Scanning"
    using Some that by (auto simp: cancel_session_def get_session_def Let_def)
  have "table_of (request_cancellation env auth 0 s' st) = table_of st" for s'
    by (rule table_of_cong) (simp_all add: frame_simps)
  moreover have "hget (daemon_pull_cancellations (request_cancellation env auth 0 (s\<lparr>session_id := sid\<rparr>) st)) (daemon_id s) =
      Some (True, sid)"
    by (simp add: request_cancellation_def Let_def lookup_simps)
  ultimately show ?thesis
    using Some starting pending active cancelled_event_matched [of discovery_discriminant env 0]
    by (auto simp: request_cancellation_events)
qed

lemma cancel_session_by_phase_witness:
  "table_of (snd (cancel_session demo_env 1 AuthSystem demo_state)) = table_drop 7 1 (table_of demo_state)"
  using cancel_session_by_phase [OF demo_inv, where sid = 1 and env = demo_env and auth = AuthSystem] by (simp add: payload_new_def)

text \<open>
  C28: The periodic cleanup removes exactly the stalled sessions and leaves every other
  session as it was.
\<close>

theorem cleanup_stalled_exact:
  assumes "session_inv st"
  shows "hget (sessions (cleanup_stalled_sessions env st)) sid =
     (case hget (sessions st) sid of
        Some s \<Rightarrow> if is_stalled (env_now env) st sid s then None else Some s
      | None \<Rightarrow> None)"
  by (rule cleanup_stalled_sessions_map [OF assms])

lemma cleanup_stalled_exact_witness:
  "hget (sessions (cleanup_stalled_sessions demo_env demo_state)) 1 = Some (payload_new 1 7 8 (SelfReport 5))"
proof -
  have "hget (session_last_updated demo_state) 1 = None"
    by (simp add: demo_state_def demo_start_maps demo_new lookup_simps)
  then show ?thesis
    using cleanup_stalled_exact [OF demo_inv, of demo_env 1] by (simp add: is_stalled_def payload_new_def)
qed

text \<open>
  The cancellation flag that the cleanup sets for the daemon of a stalled session (so
  that a daemon in DaemonPoll mode is told on its next poll) does not survive the cleanup:
  when it returns, no flag of that daemon is left.
\<close>

theorem cleanup_stalled_drops_flag:
  assumes "session_inv st" "hget (sessions st) sid = Some s" "is_stalled (env_now env) st sid s"
  shows "fst (get_pending_cancellation (daemon_id s) (cleanup_stalled_sessions env st)) = None"
proof -
  have "s \<in> set (stalled_sessions (env_now env) st)"
    using assms(2,3) session_invD(1) [OF assms(1,2)] by (simp add: stalled_iff [OF assms(1)])
  from cleanup_stalled_sessions_flags [OF assms(1) this]
  show ?thesis by (simp add: get_pending_cancellation_def pull_cancellation_for_daemon_def)
qed

text \<open>The first session after an update long ago, and again after the cleanup.\<close>

definition demo_scanning :: DiscoveryUpdatePayload where
  "demo_scanning = (payload_new 1 7 8 (SelfReport 5))\<lparr>phase := Scanning, progress := 10\<rparr>"

definition demo_stalled_state :: DiscoveryService where
  "demo_stalled_state = snd (update_session (demo_env\<lparr>env_now := 0\<rparr>) demo_scanning demo_state)"

lemma demo_stalled_inv: "session_inv demo_stalled_state"
  unfolding demo_stalled_state_def
  by (rule update_session_inv [OF demo_inv]) (simp add: demo_scanning_def payload_new_def)

lemma demo_stalled_get: "hget (sessions demo_stalled_state) 1 = Some demo_scanning"
  by (simp add: demo_stalled_state_def update_sessions table_update_def demo_scanning_def payload_new_def
      table_set_def)

lemma demo_is_stalled: "is_stalled (env_now demo_env) demo_stalled_state 1 demo_scanning"
  by (simp add: demo_stalled_state_def is_stalled_def update_session_cases frame_simps lookup_simps
      demo_scanning_def payload_new_def demo_env_def stall_threshold_def)

lemma cleanup_stalled_drops_flag_witness:
  "fst (get_pending_cancellation 7 (cleanup_stalled_sessions demo_env demo_stalled_state)) = None"
  using cleanup_stalled_drops_flag [OF demo_stalled_inv demo_stalled_get demo_is_stalled]
  by (simp add: demo_scanning_def payload_new_def)

text \<open>
  The event that announces a new session is published with the phase \<open>Pending\<close>, so the
  filter of the daemon service, which waits for \<open>Started\<close> and \<open>Cancelled\<close>, accepts none of
  the events a \<open>start_session\<close> publishes.
\<close>

theorem start_session_event_not_delivered:
  assumes "e \<in> set (drop (length (bus_sent (event_bus st)))
     (bus_sent (event_bus (snd (start_session env d auth st)))))"
  shows "\<not> filter_matches discovery_discriminant daemon_service_filter e"
proof (cases "hydrate_type env d")
  case (Inl x)
  with assms show ?thesis by (simp add: start_session_def)
next
  case (Inr t)
  with assms show ?thesis
    by (auto simp: start_session_events [OF Inr] start_event_unmatched simp del: filter_matches.simps
        split: if_splits)
qed

lemma start_session_event_not_delivered_witness:
  "\<not> filter_matches discovery_discriminant daemon_service_filter
     (DiscoveryEv (into_discovery_event_with_auth demo_env (payload_new 1 7 8 (SelfReport 5)) AuthSystem))"
proof (rule start_session_event_not_delivered [of _ discovery_service_new demo_env "demo_discovery 1" AuthSystem])
  have "db_daemon_id (d_base (demo_discovery 1)) = 7" "db_network_id (d_base (demo_discovery 1)) = 8"
    "env_fresh_id demo_env (d_id (demo_discovery 1)) = 1" "queue discovery_service_new 7 = []"
    by (simp_all add: demo_discovery_def discovery_new_def demo_env_def queue_def
        discovery_service_new_def lookup_simps)
  then show "DiscoveryEv (into_discovery_event_with_auth demo_env (payload_new 1 7 8 (SelfReport 5)) AuthSystem) \<in>
     set (drop (length (bus_sent (event_bus discovery_service_new)))
       (bus_sent (event_bus (snd (start_session demo_env (demo_discovery 1) AuthSystem discovery_service_new)))))"
    by (simp add: start_session_events [OF demo_hydrate])
qed

text \<open>
  The endpoint checks the daemon and the network an update names, not the session it
  names: a terminal update that a daemon sends for a session of another daemon is accepted,
  removes that session, and leaves its id in the other daemon's queue, which then counts as
  running a discovery.
\<close>

theorem foreign_update_leaves_dangling_id:
  assumes "session_inv st" "hget (sessions st) (session_id u) = Some s" "daemon_id s \<noteq> daemon_id u"
    "is_terminal (phase u)" "auth = AuthDaemon (network_id u) k (daemon_id u)"
  shows "let (r, st') = receive_discovery_update env auth i u st in
     r = Inr () \<and> hget (sessions st') (session_id u) = None \<and>
     session_id u \<in> set (queue st' (daemon_id s)) \<and> daemon_is_running_discovery st' (daemon_id s)"
proof -
  have ok: "fst (update_session env u st) = Inr ()"
    by (simp add: update_session_def Let_def split_def)
  have r: "receive_discovery_update env auth i u st = (Inr (), snd (update_session env u st))"
    using ok by (cases "update_session env u st")
      (simp add: receive_discovery_update_def map_error_def assms(5))
  have mem: "session_id u \<in> set (queue st (daemon_id s))"
    using session_invD(4) [OF assms(1)] assms(2) by blast
  then have q: "session_id u \<in> set (queue (snd (update_session env u st)) (daemon_id s))"
    using terminal_update_facts(2) [OF assms(2,4), of env] assms(3) by simp
  then have "daemon_is_running_discovery (snd (update_session env u st)) (daemon_id s)"
    by (cases "hget (daemon_sessions (snd (update_session env u st))) (daemon_id s)")
      (auto simp: daemon_is_running_discovery_def queue_def)
  with q terminal_update_facts(1) [OF assms(2,4), of env] show ?thesis by (simp add: r)
qed

definition demo_foreign :: DiscoveryUpdatePayload where
  "demo_foreign = demo_done\<lparr>daemon_id := 70, network_id := 80\<rparr>"

lemma foreign_update_leaves_dangling_id_witness:
  "fst (receive_discovery_update demo_env (AuthDaemon 80 3 70) 1 demo_foreign demo_state) = Inr () \<and>
   1 \<in> set (queue (snd (receive_discovery_update demo_env (AuthDaemon 80 3 70) 1 demo_foreign demo_state)) 7)"
  using foreign_update_leaves_dangling_id
    [of demo_state demo_foreign "payload_new 1 7 8 (SelfReport 5)" "AuthDaemon 80 3 70" 3 demo_env 1]
  by (simp add: demo_inv demo_foreign_def demo_done_def payload_new_def split: prod.splits)

end
