(* ===== verification/Session_Locks.thy ===== *)
theory Session_Locks
  imports Main
begin

text \<open>
  The order in which the operations of the discovery service take its \<open>RwLock\<close>s
  (\<open>server/discovery/service.rs\<close>): one script of acquisitions and releases per operation and
  branch, threads that interleave such scripts, and the discipline under which no set of
  threads can be stuck.
\<close>

section \<open>Locks, scripts and threads\<close>

text \<open>
  A \<open>tokio::sync::RwLock\<close> is fair: who asks for it joins a queue and gets it in its turn, when
  nobody who holds it conflicts. A reader that comes after a waiting writer waits as well, also
  when only readers hold the lock. All waiting threads stand in one list here, in the order in
  which they asked; the queue of a lock is the part of it that waits for this lock.
\<close>

datatype Lock = SessionsL | DaemonSessionsL | PullCancellationsL | LastUpdatedL

datatype LockMode = Rd | Wr

datatype LockInstr = Acquire Lock LockMode | Release Lock

type_synonym thread = "(Lock \<times> LockMode) list \<times> LockInstr list"

record LockState =
  threads :: "thread list"
  waiting :: "nat list"

definition conflicting :: "Lock \<Rightarrow> LockMode \<Rightarrow> Lock \<times> LockMode \<Rightarrow> bool" where
  "conflicting l m lm \<longleftrightarrow> fst lm = l \<and> (m = Wr \<or> snd lm = Wr)"

fun waits_for :: "thread \<Rightarrow> Lock option" where
  "waits_for (h, Acquire l m # r) = Some l"
| "waits_for (h, []) = None"
| "waits_for (h, Release l # r) = None"

definition compatible :: "thread list \<Rightarrow> Lock \<Rightarrow> LockMode \<Rightarrow> bool" where
  "compatible ts l m = list_all (\<lambda>t. list_all (\<lambda>lm. \<not> conflicting l m lm) (fst t)) ts"

definition can_acquire :: "LockState \<Rightarrow> nat \<Rightarrow> Lock \<Rightarrow> LockMode \<Rightarrow> bool" where
  \<comment> \<open>nobody who asked for the lock before is still waiting, and nobody who holds it conflicts\<close>
  "can_acquire s i l m \<longleftrightarrow>
     list_all (\<lambda>j. waits_for (threads s ! j) \<noteq> Some l) (takeWhile (\<lambda>j. j \<noteq> i) (waiting s)) \<and>
     compatible (threads s) l m"

definition lock_step :: "LockState \<Rightarrow> nat \<Rightarrow> LockState option" where
  "lock_step s i =
     (let ts = threads s in
      if i < length ts
      then case snd (ts ! i) of
          [] \<Rightarrow> None
        | Acquire l m # r \<Rightarrow>
            if i \<notin> set (waiting s) then Some (s\<lparr>waiting := waiting s @ [i]\<rparr>)
            else if can_acquire s i l m
            then Some \<lparr>threads = ts[i := ((l, m) # fst (ts ! i), r)], waiting = removeAll i (waiting s)\<rparr>
            else None
        | Release l # r \<Rightarrow> Some (s\<lparr>threads := ts[i := (filter (\<lambda>lm. fst lm \<noteq> l) (fst (ts ! i)), r)]\<rparr>)
      else None)"

fun run_schedule :: "LockState \<Rightarrow> nat list \<Rightarrow> LockState option" where
  "run_schedule s [] = Some s"
| "run_schedule s (i # is) = Option.bind (lock_step s i) (\<lambda>s'. run_schedule s' is)"

definition finished :: "thread \<Rightarrow> bool" where
  "finished t \<longleftrightarrow> snd t = []"

definition all_finished :: "LockState \<Rightarrow> bool" where
  "all_finished s = list_all finished (threads s)"

definition deadlocked :: "LockState \<Rightarrow> bool" where
  "deadlocked s \<longleftrightarrow>
     \<not> all_finished s \<and> list_all (\<lambda>i. lock_step s i = None) [0..<length (threads s)]"

definition threads_of :: "LockInstr list list \<Rightarrow> LockState" where
  "threads_of ss = \<lparr>threads = map (\<lambda>s. ([], s)) ss, waiting = []\<rparr>"

section \<open>The scripts of the operations\<close>

definition locks_get_session :: "LockInstr list" where
  "locks_get_session = [Acquire SessionsL Rd, Release SessionsL]"

definition locks_get_all_sessions :: "LockInstr list" where
  "locks_get_all_sessions = [Acquire SessionsL Rd, Release SessionsL]"

definition locks_get_sessions_for_daemon :: "LockInstr list" where
  "locks_get_sessions_for_daemon =
     [Acquire DaemonSessionsL Rd, Acquire SessionsL Rd, Release SessionsL, Release DaemonSessionsL]"

definition locks_clear_sessions_for_daemon :: "LockInstr list" where
  "locks_clear_sessions_for_daemon =
     [Acquire SessionsL Wr, Acquire DaemonSessionsL Wr, Acquire LastUpdatedL Wr, Acquire PullCancellationsL Wr,
      Release PullCancellationsL, Release LastUpdatedL, Release DaemonSessionsL, Release SessionsL]"

definition locks_has_active_session_for_daemon :: "LockInstr list" where
  "locks_has_active_session_for_daemon =
     [Acquire DaemonSessionsL Rd, Acquire SessionsL Rd, Release SessionsL, Release DaemonSessionsL]"

definition locks_transition_session_to_starting :: "LockInstr list" where
  "locks_transition_session_to_starting = [Acquire SessionsL Wr, Release SessionsL]"

definition locks_pull_cancellation_for_daemon :: "LockInstr list" where
  "locks_pull_cancellation_for_daemon = [Acquire PullCancellationsL Wr, Release PullCancellationsL]"

definition locks_start_session :: "LockInstr list" where
  "locks_start_session =
     [Acquire SessionsL Wr, Release SessionsL, Acquire DaemonSessionsL Rd, Release DaemonSessionsL,
      Acquire DaemonSessionsL Wr, Release DaemonSessionsL]"

definition locks_update_session :: "bool \<Rightarrow> bool \<Rightarrow> LockInstr list" where
  \<comment> \<open>whether the session is unknown, and whether the update is terminal\<close>
  "locks_update_session unknown terminal =
     [Acquire SessionsL Wr, Acquire LastUpdatedL Wr] @
     (if unknown then [Acquire DaemonSessionsL Wr, Release DaemonSessionsL] else []) @
     (if terminal
      then locks_pull_cancellation_for_daemon @
           [Acquire DaemonSessionsL Wr, Release DaemonSessionsL, Release SessionsL, Release LastUpdatedL]
      else [Release LastUpdatedL, Release SessionsL])"

definition locks_update_session_redundant :: "LockInstr list" where
  "locks_update_session_redundant =
     [Acquire SessionsL Wr, Acquire LastUpdatedL Wr, Release LastUpdatedL, Release SessionsL]"

definition locks_cancel_session :: "bool \<Rightarrow> LockInstr list" where
  \<comment> \<open>whether the session is pending, as opposed to active\<close>
  "locks_cancel_session pending =
     locks_get_session @
     (if pending
      then [Acquire SessionsL Wr, Acquire DaemonSessionsL Wr, Release SessionsL, Release DaemonSessionsL]
      else [Acquire PullCancellationsL Wr, Release PullCancellationsL])"

definition locks_cleanup_old_sessions :: "LockInstr list" where
  "locks_cleanup_old_sessions =
     [Acquire SessionsL Wr, Acquire DaemonSessionsL Wr, Acquire PullCancellationsL Wr,
      Release PullCancellationsL, Release DaemonSessionsL, Release SessionsL]"

definition locks_cleanup_stalled_sessions :: "nat \<Rightarrow> LockInstr list" where
  \<comment> \<open>the number of stalled sessions of the first pass\<close>
  "locks_cleanup_stalled_sessions n =
     [Acquire SessionsL Rd, Acquire LastUpdatedL Rd, Release LastUpdatedL, Release SessionsL] @
     (if n = 0 then []
      else concat (replicate n [Acquire PullCancellationsL Wr, Release PullCancellationsL]) @
        [Acquire SessionsL Wr, Acquire LastUpdatedL Wr, Acquire DaemonSessionsL Wr, Acquire PullCancellationsL Wr,
         Release PullCancellationsL, Release DaemonSessionsL, Release LastUpdatedL, Release SessionsL])"

section \<open>The discipline\<close>

text \<open>
  \<open>SessionsL\<close> is the gate: it is taken first, and a second lock is taken only under it; under
  its reading mode at most one more, for reading. A lock is never taken twice, and none is left
  behind.
\<close>

fun gated :: "(Lock \<times> LockMode) list \<Rightarrow> LockInstr list \<Rightarrow> bool" where
  "gated h [] = (h = [])"
| "gated h (Acquire l m # r) =
     ((h = [] \<or> l \<noteq> SessionsL \<and> l \<notin> fst ` set h \<and>
         ((SessionsL, Wr) \<in> set h \<or> h = [(SessionsL, Rd)] \<and> m = Rd)) \<and>
      gated ((l, m) # h) r)"
| "gated h (Release l # r) = gated (filter (\<lambda>lm. fst lm \<noteq> l) h) r"

text \<open>The operations that keep to it: every script but those of the two getters of a daemon.\<close>

inductive gate_first :: "LockInstr list \<Rightarrow> bool" where
  "gate_first locks_get_session"
| "gate_first locks_get_all_sessions"
| "gate_first locks_clear_sessions_for_daemon"
| "gate_first locks_transition_session_to_starting"
| "gate_first locks_pull_cancellation_for_daemon"
| "gate_first locks_start_session"
| "gate_first (locks_update_session unknown terminal)"
| "gate_first locks_update_session_redundant"
| "gate_first (locks_cancel_session pending)"
| "gate_first locks_cleanup_old_sessions"
| "gate_first (locks_cleanup_stalled_sessions n)"

lemma gated_cleanup_stalled: "gated [] (locks_cleanup_stalled_sessions n)"
proof -
  have "gated [] (concat (replicate k [Acquire PullCancellationsL Wr, Release PullCancellationsL]) @ r) = gated [] r" for k r
    by (induction k) simp_all
  then show ?thesis by (simp add: locks_cleanup_stalled_sessions_def)
qed

lemma gate_first_gated: "gate_first s \<Longrightarrow> gated [] s"
  by (induction s rule: gate_first.induct)
     (simp_all add: gated_cleanup_stalled locks_get_session_def locks_get_all_sessions_def
      locks_clear_sessions_for_daemon_def locks_transition_session_to_starting_def
      locks_pull_cancellation_for_daemon_def locks_start_session_def locks_update_session_def
      locks_update_session_redundant_def locks_cancel_session_def locks_cleanup_old_sessions_def)

lemma not_gated_daemon_getters:
  "\<not> gated [] locks_get_sessions_for_daemon" "\<not> gated [] locks_has_active_session_for_daemon"
  by (simp_all add: locks_get_sessions_for_daemon_def locks_has_active_session_for_daemon_def)

section \<open>The invariant\<close>

text \<open>No two threads hold conflicting locks, and who waits stands before a lock.\<close>

definition exclusive :: "thread list \<Rightarrow> bool" where
  "exclusive ts \<longleftrightarrow>
     (\<forall>i < length ts. \<forall>j < length ts. i \<noteq> j \<longrightarrow>
        (\<forall>lm \<in> set (fst (ts ! i)). \<forall>lm' \<in> set (fst (ts ! j)). \<not> conflicting (fst lm) (snd lm) lm'))"

definition queued :: "LockState \<Rightarrow> bool" where
  "queued s \<longleftrightarrow> distinct (waiting s) \<and>
     (\<forall>i \<in> set (waiting s). i < length (threads s) \<and> waits_for (threads s ! i) \<noteq> None)"

definition locks_inv :: "LockState \<Rightarrow> bool" where
  "locks_inv s \<longleftrightarrow>
     (\<forall>t \<in> set (threads s). gated (fst t) (snd t)) \<and> exclusive (threads s) \<and> queued s"

lemma locks_inv_start: "list_all gate_first ss \<Longrightarrow> locks_inv (threads_of ss)"
  by (auto simp: locks_inv_def threads_of_def exclusive_def queued_def list_all_iff gate_first_gated)

lemma conflicting_sym: "conflicting (fst a) (snd a) b \<longleftrightarrow> conflicting (fst b) (snd b) a"
  by (auto simp: conflicting_def)

lemma compatible_iff:
  "compatible ts l m \<longleftrightarrow> (\<forall>j < length ts. \<forall>lm \<in> set (fst (ts ! j)). \<not> conflicting l m lm)"
  unfolding compatible_def list_all_iff by (rule all_set_conv_all_nth)

lemma exclusive_shrink:
  assumes "exclusive ts" "i < length ts" "set h \<subseteq> set (fst (ts ! i))"
  shows "exclusive (ts[i := (h, r)])"
  unfolding exclusive_def
proof (intro allI impI ballI)
  fix a b lm lm'
  assume ab: "a < length (ts[i := (h, r)])" "b < length (ts[i := (h, r)])" "a \<noteq> b"
    and lm: "lm \<in> set (fst (ts[i := (h, r)] ! a))" "lm' \<in> set (fst (ts[i := (h, r)] ! b))"
  have "lm \<in> set (fst (ts ! a))" "lm' \<in> set (fst (ts ! b))"
    using lm ab assms(2,3) by (auto simp: nth_list_update split: if_splits)
  with ab assms(1) show "\<not> conflicting (fst lm) (snd lm) lm'" by (simp add: exclusive_def)
qed

lemma exclusive_grow:
  assumes "exclusive ts" "i < length ts" "compatible ts l m"
  shows "exclusive (ts[i := ((l, m) # fst (ts ! i), r)])"
  unfolding exclusive_def
proof (intro allI impI ballI)
  let ?ts' = "ts[i := ((l, m) # fst (ts ! i), r)]"
  fix a b lm lm'
  assume ab: "a < length ?ts'" "b < length ?ts'" "a \<noteq> b"
    and lm: "lm \<in> set (fst (?ts' ! a))" "lm' \<in> set (fst (?ts' ! b))"
  have cases: "x \<in> set (fst (ts ! k)) \<or> k = i \<and> x = (l, m)" if "k < length ts" "x \<in> set (fst (?ts' ! k))" for k x
    using that assms(2) by (auto simp: nth_list_update split: if_splits)
  have fresh: "\<not> conflicting l m x" if "k < length ts" "x \<in> set (fst (ts ! k))" for k x
    using that assms(3) by (simp add: compatible_iff)
  from ab have len: "a < length ts" "b < length ts" by simp_all
  show "\<not> conflicting (fst lm) (snd lm) lm'"
    using cases [OF len(1) lm(1)] cases [OF len(2) lm(2)]
  proof (elim disjE conjE)
    assume "lm \<in> set (fst (ts ! a))" "lm' \<in> set (fst (ts ! b))"
    with assms(1) len ab(3) show ?thesis by (simp add: exclusive_def)
  next
    assume "lm \<in> set (fst (ts ! a))" "lm' = (l, m)"
    with fresh [OF len(1)] show ?thesis by (simp add: conflicting_sym [of lm])
  next
    assume "lm = (l, m)" "lm' \<in> set (fst (ts ! b))"
    with fresh [OF len(2)] show ?thesis by simp
  next
    assume "a = i" "b = i" with ab(3) show ?thesis by simp
  qed
qed

lemma queued_update:
  assumes "queued s" "i < length (threads s)"
  shows "queued (s\<lparr>threads := (threads s)[i := t], waiting := removeAll i (waiting s)\<rparr>)"
    and "i \<notin> set (waiting s) \<Longrightarrow> queued (s\<lparr>threads := (threads s)[i := t]\<rparr>)"
  using assms by (auto simp: queued_def nth_list_update distinct_removeAll)

lemma locks_inv_step:
  assumes inv: "locks_inv s" and step: "lock_step s i = Some s'"
  shows "locks_inv s'"
proof -
  let ?ts = "threads s"
  have i: "i < length ?ts" using step by (simp add: lock_step_def Let_def split: if_splits)
  have g: "gated (fst (?ts ! i)) (snd (?ts ! i))" and ex: "exclusive ?ts" and q: "queued s"
    using inv i by (auto simp: locks_inv_def)
  have gs: "\<forall>t \<in> set (?ts[i := t1]). gated (fst t) (snd t)" if "gated (fst t1) (snd t1)" for t1
    using that inv by (auto simp: locks_inv_def dest!: set_update_subset_insert[THEN subsetD])
  show ?thesis
  proof (cases "?ts ! i" rule: waits_for.cases)
    case (1 h l m r)
    show ?thesis
    proof (cases "i \<in> set (waiting s)")
      case False
      with step i 1 have "s' = s\<lparr>waiting := waiting s @ [i]\<rparr>" by (simp add: lock_step_def)
      with inv False i 1 show ?thesis by (auto simp: locks_inv_def queued_def)
    next
      case True
      with step i 1 have ok: "compatible ?ts l m"
        and s': "s' = s\<lparr>threads := ?ts[i := ((l, m) # h, r)], waiting := removeAll i (waiting s)\<rparr>"
        by (auto simp: lock_step_def can_acquire_def Let_def split: if_splits)
      have "exclusive (?ts[i := ((l, m) # h, r)])"
        using exclusive_grow [OF ex i ok, of r] 1 by simp
      with gs [of "((l, m) # h, r)"] g 1 queued_update(1) [OF q i] show ?thesis
        unfolding s' locks_inv_def by simp
    qed
  next
    case (2 h)
    with step i show ?thesis by (simp add: lock_step_def)
  next
    case (3 h l r)
    let ?h = "filter (\<lambda>lm. fst lm \<noteq> l) h"
    have s': "s' = s\<lparr>threads := ?ts[i := (?h, r)]\<rparr>" using step i 3 by (simp add: lock_step_def)
    have "i \<notin> set (waiting s)" using q 3 by (auto simp: queued_def)
    moreover have "exclusive (?ts[i := (?h, r)])" using 3 by (intro exclusive_shrink [OF ex i]) auto
    ultimately show ?thesis
      using gs [of "(?h, r)"] g 3 queued_update(2) [OF q i] unfolding s' locks_inv_def by simp
  qed
qed

lemma locks_inv_run: "locks_inv s \<Longrightarrow> run_schedule s is = Some s' \<Longrightarrow> locks_inv s'"
  by (induction s "is" rule: run_schedule.induct) (auto simp: bind_eq_Some_conv intro: locks_inv_step)

section \<open>Progress\<close>

lemma stuck_thread:
  assumes "i < length (threads s)" "lock_step s i = None" "\<not> finished (threads s ! i)"
  obtains h l m r where "threads s ! i = (h, Acquire l m # r)" "i \<in> set (waiting s)" "\<not> can_acquire s i l m"
  using assms
  by (cases "threads s ! i" rule: waits_for.cases)
     (auto simp: lock_step_def finished_def Let_def split: if_splits)

text \<open>The first of those who wait for a lock that nobody holds gets it.\<close>

lemma first_in_queue:
  assumes "queued s" "i \<in> set (waiting s)" "waits_for (threads s ! i) = Some l"
    and free: "\<forall>t \<in> set (threads s). l \<notin> fst ` set (fst t)"
  obtains j where "j < length (threads s)" "lock_step s j \<noteq> None"
proof -
  have "\<exists>j \<in> set (waiting s). waits_for (threads s ! j) = Some l" using assms(2,3) by blast
  then obtain ys j zs where w: "waiting s = ys @ j # zs" "waits_for (threads s ! j) = Some l"
    and ys: "\<forall>k \<in> set ys. waits_for (threads s ! k) \<noteq> Some l"
    using split_list_first_prop [of "waiting s" "\<lambda>k. waits_for (threads s ! k) = Some l"] by blast
  have "j \<notin> set ys" using assms(1) w(1) by (simp add: queued_def)
  then have before: "takeWhile (\<lambda>k. k \<noteq> j) (waiting s) = ys"
    unfolding w(1) by (subst takeWhile_append2) auto
  have j: "j < length (threads s)" using assms(1) w(1) by (simp add: queued_def)
  have "compatible (threads s) l m" for m
    using free by (fastforce simp: compatible_def list_all_iff conflicting_def)
  then have "can_acquire s j l m" for m
    using ys by (simp add: can_acquire_def before list_all_iff)
  then have "lock_step s j \<noteq> None"
    using j w by (cases "threads s ! j" rule: waits_for.cases) (auto simp: lock_step_def)
  with j that show thesis by blast
qed

lemma holder_needs_gate:
  assumes "gated h (Acquire l m # r)" "h \<noteq> []"
  shows "l \<noteq> SessionsL" "l \<notin> fst ` set h" "(SessionsL, Wr) \<in> set h \<or> h = [(SessionsL, Rd)]"
  using assms by auto

lemma locks_inv_not_deadlocked:
  assumes inv: "locks_inv s"
  shows "\<not> deadlocked s"
proof
  let ?ts = "threads s"
  assume dead: "deadlocked s"
  then have stuck: "lock_step s i = None" if "i < length ?ts" for i
    using that by (simp add: deadlocked_def list_all_iff)
  have g: "gated (fst (?ts ! i)) (snd (?ts ! i))" if "i < length ?ts" for i
    using inv that by (auto simp: locks_inv_def)
  have ex: "exclusive ?ts" and q: "queued s" using inv by (simp_all add: locks_inv_def)
  have taken: "\<exists>k < length ?ts. l \<in> fst ` set (fst (?ts ! k))"
    if "i \<in> set (waiting s)" "waits_for (?ts ! i) = Some l" for i l
    using first_in_queue [OF q that] stuck by (metis in_set_conv_nth)
  have holder: "\<exists>l. i \<in> set (waiting s) \<and> waits_for (?ts ! i) = Some l \<and> l \<noteq> SessionsL \<and>
      l \<notin> fst ` set (fst (?ts ! i)) \<and> ((SessionsL, Wr) \<in> set (fst (?ts ! i)) \<or> fst (?ts ! i) = [(SessionsL, Rd)])"
    if i: "i < length ?ts" and held: "fst (?ts ! i) \<noteq> []" for i
  proof -
    have "\<not> finished (?ts ! i)" using g [OF i] held by (auto simp: finished_def)
    then obtain h l m r where t: "?ts ! i = (h, Acquire l m # r)" "i \<in> set (waiting s)"
      by (rule stuck_thread [OF i stuck [OF i]])
    with holder_needs_gate [of h l m r] g [OF i] held show ?thesis by simp
  qed
  \<comment> \<open>some thread holds a lock, and so the gate\<close>
  obtain i where i: "i < length ?ts" "\<not> finished (?ts ! i)"
    using dead by (auto simp: deadlocked_def all_finished_def list_all_length)
  from i(2) obtain h0 l0 m0 r0 where "?ts ! i = (h0, Acquire l0 m0 # r0)" "i \<in> set (waiting s)"
    by (rule stuck_thread [OF i(1) stuck [OF i(1)]])
  with taken [of i l0] obtain j where "j < length ?ts" "l0 \<in> fst ` set (fst (?ts ! j))" by auto
  then have j: "j < length ?ts" "fst (?ts ! j) \<noteq> []" by auto
  from holder [OF this] obtain l where l: "j \<in> set (waiting s)" "waits_for (?ts ! j) = Some l" "l \<noteq> SessionsL"
    "l \<notin> fst ` set (fst (?ts ! j))" "(SessionsL, Wr) \<in> set (fst (?ts ! j)) \<or> fst (?ts ! j) = [(SessionsL, Rd)]"
    by blast
  \<comment> \<open>so somebody holds the lock it waits for, and the gate too\<close>
  from taken [OF l(1,2)] obtain k where k: "k < length ?ts" "l \<in> fst ` set (fst (?ts ! k))" by blast
  then have "k \<noteq> j" and held: "fst (?ts ! k) \<noteq> []" using l(4) by auto
  from holder [OF k(1) held] have "(SessionsL, Wr) \<in> set (fst (?ts ! k))"
    using k(2) l(3) by auto
  moreover obtain m where "(SessionsL, m) \<in> set (fst (?ts ! j))" using l(5) by auto
  ultimately show False
    using ex j(1) k(1) \<open>k \<noteq> j\<close> by (force simp: exclusive_def conflicting_def)
qed

text \<open>Every step uses up work, so that a run which is continued as long as it can be ends.\<close>

definition work :: "LockState \<Rightarrow> nat" where
  "work s = sum_list (map (length \<circ> snd) (threads s)) * Suc (length (threads s)) +
     (length (threads s) - length (waiting s))"

lemma sum_list_shorter:
  "i < length xs \<Longrightarrow> f x < f (xs ! i) \<Longrightarrow> sum_list (map f (xs[i := x])) < (sum_list (map f xs) :: nat)"
  by (induction xs arbitrary: i) (auto split: nat.splits)

lemma work_decreases:
  assumes q: "queued s" and step: "lock_step s i = Some s'"
  shows "work s' < work s"
proof -
  let ?ts = "threads s" and ?n = "Suc (length (threads s))"
  have i: "i < length ?ts" using step by (simp add: lock_step_def Let_def split: if_splits)
  have drop: "a * ?n + (length ?ts - x) < work s"
    if "a < sum_list (map (length \<circ> snd) ?ts)" for a x
  proof -
    from that have "Suc a * ?n \<le> sum_list (map (length \<circ> snd) ?ts) * ?n" by (intro mult_le_mono1) simp
    then show ?thesis unfolding work_def by simp
  qed
  have shorter: "sum_list (map (length \<circ> snd) (?ts[i := t])) < sum_list (map (length \<circ> snd) ?ts)"
    if "length (snd t) < length (snd (?ts ! i))" for t
    using sum_list_shorter [of i ?ts "length \<circ> snd" t] i that by simp
  show ?thesis
  proof (cases "?ts ! i" rule: waits_for.cases)
    case (1 h l m r)
    show ?thesis
    proof (cases "i \<in> set (waiting s)")
      case False
      have "distinct (i # waiting s)" "set (i # waiting s) \<subseteq> {..<length ?ts}"
        using q False i by (auto simp: queued_def)
      from card_mono [OF _ this(2)] distinct_card [OF this(1)] have "length (waiting s) < length ?ts" by simp
      with step i 1 False show ?thesis by (auto simp: lock_step_def work_def Let_def)
    next
      case True
      with step i 1 have "s' = s\<lparr>threads := ?ts[i := ((l, m) # h, r)], waiting := removeAll i (waiting s)\<rparr>"
        by (auto simp: lock_step_def Let_def split: if_splits)
      then have "work s' = sum_list (map (length \<circ> snd) (?ts[i := ((l, m) # h, r)])) * ?n +
          (length ?ts - length (removeAll i (waiting s)))"
        by (simp add: work_def)
      moreover have "length (snd ((l, m) # h, r)) < length (snd (?ts ! i))" using 1 by simp
      ultimately show ?thesis using drop [OF shorter] by (simp only:)
    qed
  next
    case (2 h)
    with step i show ?thesis by (simp add: lock_step_def)
  next
    case (3 h l r)
    then have "s' = s\<lparr>threads := ?ts[i := (filter (\<lambda>lm. fst lm \<noteq> l) h, r)]\<rparr>" using step i by (simp add: lock_step_def)
    then have "work s' = sum_list (map (length \<circ> snd) (?ts[i := (filter (\<lambda>lm. fst lm \<noteq> l) h, r)])) * ?n +
        (length ?ts - length (waiting s))"
      by (simp add: work_def)
    moreover have "length (snd (filter (\<lambda>lm. fst lm \<noteq> l) h, r)) < length (snd (?ts ! i))" using 3 by simp
    ultimately show ?thesis using drop [OF shorter] by (simp only:)
  qed
qed

lemma locks_inv_completes: "locks_inv s \<Longrightarrow> \<exists>rest s'. run_schedule s rest = Some s' \<and> all_finished s'"
proof (induction "work s" arbitrary: s rule: less_induct)
  case less
  show ?case
  proof (cases "all_finished s")
    case True
    then show ?thesis by (intro exI [of _ "[]"]) simp
  next
    case False
    with locks_inv_not_deadlocked [OF less.prems] obtain i s1 where step: "lock_step s i = Some s1"
      by (auto simp: deadlocked_def list_all_iff)
    have "queued s" using less.prems by (simp add: locks_inv_def)
    from less.hyps [OF work_decreases [OF this step] locks_inv_step [OF less.prems step]]
    obtain rest s2 where "run_schedule s1 rest = Some s2" "all_finished s2" by blast
    with step show ?thesis by (intro exI [of _ "i # rest"]) simp
  qed
qed

section \<open>Properties\<close>

text \<open>
  C29: Any number of threads running \<open>start_session\<close>, \<open>update_session\<close>, \<open>cancel_session\<close>,
  the cleanups, \<open>transition_session_to_starting\<close>, \<open>pull_cancellation_for_daemon\<close>,
  \<open>get_session\<close>, \<open>get_all_sessions\<close> and \<open>clear_sessions_for_daemon\<close> never deadlock under the
  fair locks, however they interleave: wherever a schedule has led, some thread can go on until
  all have finished, and from there every thread can be run to its end.
\<close>

theorem session_locks_deadlock_free:
  assumes "list_all gate_first scripts" "run_schedule (threads_of scripts) schedule = Some s"
  shows "\<not> deadlocked s \<and> (\<exists>rest s'. run_schedule s rest = Some s' \<and> all_finished s')"
  using locks_inv_run [OF locks_inv_start [OF assms(1)] assms(2)]
  by (simp add: locks_inv_not_deadlocked locks_inv_completes)

definition demo_scripts :: "LockInstr list list" where
  "demo_scripts = [locks_update_session True True, locks_cleanup_stalled_sessions 2, locks_cancel_session True,
     locks_clear_sessions_for_daemon, locks_start_session]"

lemma session_locks_deadlock_free_witness:
  "\<not> deadlocked (the (run_schedule (threads_of demo_scripts) [0, 0, 3, 1, 0, 0, 4]))"
proof -
  have "run_schedule (threads_of demo_scripts) [0, 0, 3, 1, 0, 0, 4] =
      Some (the (run_schedule (threads_of demo_scripts) [0, 0, 3, 1, 0, 0, 4]))"
    by (simp add: demo_scripts_def threads_of_def locks_update_session_def lock_step_def can_acquire_def compatible_def
        conflicting_def locks_cleanup_stalled_sessions_def locks_cancel_session_def locks_get_session_def
        locks_clear_sessions_for_daemon_def locks_start_session_def)
  from session_locks_deadlock_free [OF _ this] show ?thesis
    by (simp add: demo_scripts_def gate_first.intros)
qed

text \<open>
  C30: \<open>get_sessions_for_daemon\<close> and \<open>has_active_session_for_daemon\<close> take the queues before
  the sessions while a terminal \<open>update_session\<close> takes the sessions before the queues: each of
  the two getters and the update can block each other for good.
\<close>

theorem daemon_getters_deadlock_with_update:
  "(\<exists>schedule s. run_schedule (threads_of [locks_get_sessions_for_daemon, locks_update_session False True]) schedule = Some s \<and>
     deadlocked s) \<and>
   (\<exists>schedule s. run_schedule (threads_of [locks_has_active_session_for_daemon, locks_update_session False True]) schedule = Some s \<and>
     deadlocked s)"
proof -
  let ?s = "\<lparr>threads = [([(DaemonSessionsL, Rd)], [Acquire SessionsL Rd, Release SessionsL, Release DaemonSessionsL]),
      ([(LastUpdatedL, Wr), (SessionsL, Wr)],
       [Acquire DaemonSessionsL Wr, Release DaemonSessionsL, Release SessionsL, Release LastUpdatedL])], waiting = [0, 1]\<rparr>"
  have "run_schedule (threads_of [locks_get_sessions_for_daemon, locks_update_session False True]) [0, 0, 1, 1, 1, 1, 1, 1, 1, 0, 1] = Some ?s"
    by (simp add: threads_of_def locks_get_sessions_for_daemon_def locks_update_session_def
        locks_pull_cancellation_for_daemon_def lock_step_def can_acquire_def compatible_def conflicting_def)
  moreover have "run_schedule (threads_of [locks_has_active_session_for_daemon, locks_update_session False True]) [0, 0, 1, 1, 1, 1, 1, 1, 1, 0, 1] = Some ?s"
    by (simp add: threads_of_def locks_has_active_session_for_daemon_def locks_update_session_def
        locks_pull_cancellation_for_daemon_def lock_step_def can_acquire_def compatible_def conflicting_def)
  moreover have "deadlocked ?s"
    by (simp add: deadlocked_def all_finished_def finished_def lock_step_def can_acquire_def compatible_def
        conflicting_def upt_rec)
  ultimately show ?thesis by blast
qed

end
