(* ===== verification/Discovery_Schedule.thy ===== *)
theory Discovery_Schedule
  imports Session_Refinement Auth
begin

text \<open>
  Discoveries and their schedules: the service's own create, update, delete and
  \<open>start_scheduler\<close> (\<open>server/discovery/service.rs\<close>), the job that runs a scheduled discovery,
  and the generic \<open>CrudService\<close> operations (\<open>server/shared/services/traits.rs\<close>) and handlers
  (\<open>server/shared/handlers/traits.rs\<close>) that the endpoints of a discovery use instead. The
  cron scheduler and the tag table are the answers of the environment.
\<close>

section \<open>Storage\<close>

definition storage_update :: "Env \<Rightarrow> Discovery \<Rightarrow> DiscoveryService \<Rightarrow> (string + Discovery) \<times> DiscoveryService" where
  \<comment> \<open>an UPDATE of a row that is not there changes nothing\<close>
  "storage_update env d st =
     (case env_update_error env d of
        Some e \<Rightarrow> (Inl e, st)
      | None \<Rightarrow> (Inr d, if hget (discovery_storage st) (d_id d) = None then st
                       else st\<lparr>discovery_storage := hinsert (d_id d) (to_row d) (discovery_storage st)\<rparr>))"

definition storage_delete :: "Env \<Rightarrow> uuid \<Rightarrow> DiscoveryService \<Rightarrow> (string + unit) \<times> DiscoveryService" where
  "storage_delete env i st =
     (case env_delete_error env i of
        Some e \<Rightarrow> (Inl e, st)
      | None \<Rightarrow> (Inr (), st\<lparr>discovery_storage := hremove i (discovery_storage st)\<rparr>))"

definition get_by_id :: "Env \<Rightarrow> uuid \<Rightarrow> DiscoveryService \<Rightarrow> string + Discovery option" where
  \<comment> \<open>with the tags of the junction table\<close>
  "get_by_id env i st =
     (case env_get_error env i of
        Some e \<Rightarrow> Inl e
      | None \<Rightarrow> Inr (map_option (\<lambda>d. d\<lparr>d_base := (d_base d)\<lparr>db_tags := env_tags env i\<rparr>\<rparr>)
                    (hget (discovery_storage st) i)))"

definition set_tags :: "Env \<Rightarrow> AuthenticatedEntity \<Rightarrow> uuid \<Rightarrow> uuid list \<Rightarrow> string option" where
  "set_tags env auth i tags =
     (case auth_organization_id auth of
        Some org \<Rightarrow> env_set_tags_error env i tags org
      | None \<Rightarrow> None)"

definition display_discovery :: "Discovery \<Rightarrow> string" where
  "display_discovery d = ''Discovery '' @ db_name (d_base d) @ '': '' @ uuid_display (d_id d)"

section \<open>The scheduler\<close>

definition schedule_discovery :: "Env \<Rightarrow> Discovery \<Rightarrow> DiscoveryService \<Rightarrow> (string + uuid) \<times> DiscoveryService" where
  "schedule_discovery env d st =
     (if \<not> env_has_scheduler env then (Inl ''Scheduler not initialized'', st)
      else case db_run_type (d_base d) of
        Scheduled cron lr flag \<Rightarrow>
          if \<not> flag then (Inl ''Discovery is not enabled'', st)
          else (case env_scheduler_add env cron of
             Inl e \<Rightarrow> (Inl e, st)
           | Inr job \<Rightarrow> (Inr job, st\<lparr>job_ids := hinsert (d_id d) job (job_ids st)\<rparr>))
      | _ \<Rightarrow> (Inl ''Discovery is not scheduled'', st))"

text \<open>
  The job owns the discovery as it was when it was scheduled. \<open>last_run: mut _last_run\<close> copies
  the field, so the value written back is the discovery the job owns.
\<close>

definition run_scheduled_job :: "Env \<Rightarrow> Discovery \<Rightarrow> DiscoveryService \<Rightarrow> DiscoveryService" where
  "run_scheduled_job env owned st =
     (case start_session env owned AuthSystem st of
        (Inl _, st1) \<Rightarrow> st1
      | (Inr _, st1) \<Rightarrow>
          (case db_run_type (d_base owned) of
             Scheduled cron lr flag \<Rightarrow> (let lr' = Some (env_now env) in snd (storage_update env owned st1))
           | _ \<Rightarrow> st1))"

text \<open>
  The job of a discovery is looked up with the read guard of \<open>job_ids\<close> in the scrutinee of an
  \<open>if let\<close>, which holds the guard through the body: when the scheduler has removed the job, the
  body asks for the write guard of the same lock and waits for itself. Such a call never
  returns, which is the value \<open>None\<close>. It returns when there is no scheduler, no job or when the
  scheduler refuses; the mapping stays as it is.
\<close>

definition remove_job :: "Env \<Rightarrow> uuid \<Rightarrow> DiscoveryService \<Rightarrow> DiscoveryService option" where
  "remove_job env i st =
     (if \<not> env_has_scheduler env then Some st
      else case hget (job_ids st) i of
        None \<Rightarrow> Some st
      | Some job \<Rightarrow>
          (case env_scheduler_remove_error env job of
             Some _ \<Rightarrow> Some st
           | None \<Rightarrow> None))"

section \<open>The service's own operations\<close>

definition create_discovery ::
    "Env \<Rightarrow> Discovery \<Rightarrow> AuthenticatedEntity \<Rightarrow> DiscoveryService \<Rightarrow> (string + Discovery) \<times> DiscoveryService" where
  "create_discovery env d auth st =
     (let d1 = (if d_id d = uuid_nil then discovery_new (env_fresh_id env (d_id d)) (env_now env) (d_base d) else d) in
      case storage_create env d1 st of
        (Inl e, st1) \<Rightarrow> (Inl e, st1)
      | (Inr created, st1) \<Rightarrow>
          (case set_tags env auth (d_id created) (db_tags (d_base created)) of
             Some e \<Rightarrow> (Inl e, st1)
           | None \<Rightarrow>
               (let (r, st2) = (if is_scheduled (db_run_type (d_base created))
                                then schedule_discovery env created st1 else (Inr uuid_nil, st1)) in
                case r of
                  Inl _ \<Rightarrow> storage_update env (disable created) st2
                | Inr _ \<Rightarrow>
                    (Inr created,
                     publish_discovery_entity env Created created
                       (staleness_metadata (discovery_triggers_staleness created None)) auth st2))))"

definition reschedule_needed :: "Discovery \<Rightarrow> Discovery \<Rightarrow> bool" where
  "reschedule_needed new current =
     (case (db_run_type (d_base new), db_run_type (d_base current)) of
        (Scheduled new_cron _ _, Scheduled current_cron _ _) \<Rightarrow> current_cron \<noteq> new_cron
      | _ \<Rightarrow> False)"

definition store_and_schedule :: "Env \<Rightarrow> Discovery \<Rightarrow> DiscoveryService \<Rightarrow> (string + Discovery) \<times> DiscoveryService" where
  "store_and_schedule env d st =
     (case storage_update env d st of
        (Inl e, st1) \<Rightarrow> (Inl e, st1)
      | (Inr updated, st1) \<Rightarrow>
          (case schedule_discovery env updated st1 of
             (Inr _, st2) \<Rightarrow> (Inr updated, st2)
           | (Inl _, st2) \<Rightarrow>
               (case storage_update env (disable updated) st2 of
                  (Inl e, st3) \<Rightarrow> (Inl e, st3)
                | (Inr _, st3) \<Rightarrow> (Inr (disable updated), st3))))"

definition reschedule :: "Env \<Rightarrow> Discovery \<Rightarrow> DiscoveryService \<Rightarrow> ((string + Discovery) \<times> DiscoveryService) option" where
  "reschedule env d st = map_option (store_and_schedule env d) (remove_job env (d_id d) st)"

definition update_discovery ::
    "Env \<Rightarrow> Discovery \<Rightarrow> AuthenticatedEntity \<Rightarrow> DiscoveryService \<Rightarrow> ((string + Discovery) \<times> DiscoveryService) option" where
  "update_discovery env d auth st =
     (case get_by_id env (d_id d) st of
        Inl e \<Rightarrow> Some (Inl e, st)
      | Inr None \<Rightarrow> Some (Inl (''Could not find discovery '' @ display_discovery d), st)
      | Inr (Some current) \<Rightarrow>
          (case (if reschedule_needed d current then reschedule env d st else Some (storage_update env d st)) of
             None \<Rightarrow> None
           | Some (Inl e, st1) \<Rightarrow> Some (Inl e, st1)
           | Some (Inr updated, st1) \<Rightarrow>
               (case set_tags env auth (d_id updated) (db_tags (d_base d)) of
                  Some e \<Rightarrow> Some (Inl e, st1)
                | None \<Rightarrow>
                    Some (Inr updated,
                     publish_discovery_entity env Updated updated
                       (staleness_metadata (discovery_triggers_staleness updated (Some current))) auth st1))))"

definition delete_discovery ::
    "Env \<Rightarrow> uuid \<Rightarrow> AuthenticatedEntity \<Rightarrow> DiscoveryService \<Rightarrow> ((string + unit) \<times> DiscoveryService) option" where
  "delete_discovery env i auth st =
     (case get_by_id env i st of
        Inl e \<Rightarrow> Some (Inl e, st)
      | Inr None \<Rightarrow> Some (Inl ''Discovery not found'', st)
      | Inr (Some d) \<Rightarrow>
          (case (if is_scheduled (db_run_type (d_base d)) then remove_job env i st else Some st) of
             None \<Rightarrow> None
           | Some st1 \<Rightarrow>
          (case env_remove_tags_error env i of
             Some e \<Rightarrow> Some (Inl e, st1)
           | None \<Rightarrow>
               (case storage_delete env i st1 of
                  (Inl e, st2) \<Rightarrow> Some (Inl e, st2)
                | (Inr _, st2) \<Rightarrow>
                    Some (Inr (),
                     publish_discovery_entity env Deleted d
                       (staleness_metadata (discovery_triggers_staleness d None)) auth st2)))))"

fun is_enabled_schedule :: "RunType \<Rightarrow> bool" where
  "is_enabled_schedule (Scheduled _ _ flag) = flag"
| "is_enabled_schedule _ = False"

definition scheduled_discoveries :: "DiscoveryService \<Rightarrow> Discovery list" where
  \<comment> \<open>the rows the filter \<open>scheduled_discovery\<close> selects\<close>
  "scheduled_discoveries st = filter (\<lambda>d. is_enabled_schedule (db_run_type (d_base d))) (hvalues (discovery_storage st))"

definition schedule_or_disable :: "Env \<Rightarrow> Discovery \<Rightarrow> DiscoveryService \<Rightarrow> DiscoveryService" where
  \<comment> \<open>the answer of the database to the second statement is ignored\<close>
  "schedule_or_disable env d st =
     (case schedule_discovery env d st of
        (Inr _, st1) \<Rightarrow> st1
      | (Inl _, st1) \<Rightarrow> snd (storage_update env (disable d) st1))"

definition start_scheduler :: "Env \<Rightarrow> DiscoveryService \<Rightarrow> (string + unit) \<times> DiscoveryService" where
  "start_scheduler env st =
     (if \<not> env_has_scheduler env then (Inl ''Scheduler not initialized'', st)
      else
        let st1 = st\<lparr>job_ids := []\<rparr> in
        case env_list_error env of
          Some e \<Rightarrow> (Inl e, st1)
        | None \<Rightarrow>
            (let st2 = fold (schedule_or_disable env) (scheduled_discoveries st1) st1 in
             case env_scheduler_start_error env of
               Some e \<Rightarrow> (Inl e, st2)
             | None \<Rightarrow> (Inr (), st2)))"

section \<open>The generic operations the endpoints use\<close>

definition crud_create ::
    "Env \<Rightarrow> Discovery \<Rightarrow> AuthenticatedEntity \<Rightarrow> DiscoveryService \<Rightarrow> (string + Discovery) \<times> DiscoveryService" where
  "crud_create env d auth st =
     (let d1 = (if d_id d = uuid_nil then discovery_new (env_fresh_id env (d_id d)) (env_now env) (d_base d) else d) in
      case storage_create env d1 st of
        (Inl e, st1) \<Rightarrow> (Inl e, st1)
      | (Inr created, st1) \<Rightarrow>
          (case set_tags env auth (d_id created) (db_tags (d_base created)) of
             Some e \<Rightarrow> (Inl e, st1)
           | None \<Rightarrow>
               (Inr created,
                publish_discovery_entity env Created created
                  (crud_metadata (discovery_triggers_staleness created None)) auth st1)))"

definition crud_update ::
    "Env \<Rightarrow> Discovery \<Rightarrow> AuthenticatedEntity \<Rightarrow> DiscoveryService \<Rightarrow> (string + Discovery) \<times> DiscoveryService" where
  "crud_update env d auth st =
     (case get_by_id env (d_id d) st of
        Inl e \<Rightarrow> (Inl e, st)
      | Inr None \<Rightarrow> (Inl (''Could not find '' @ display_discovery d), st)
      | Inr (Some current) \<Rightarrow>
          (case storage_update env d st of
             (Inl e, st1) \<Rightarrow> (Inl e, st1)
           | (Inr updated, st1) \<Rightarrow>
               (case set_tags env auth (d_id updated) (db_tags (d_base updated)) of
                  Some e \<Rightarrow> (Inl e, st1)
                | None \<Rightarrow>
                    (Inr updated,
                     publish_discovery_entity env Updated updated
                       (crud_metadata (discovery_triggers_staleness updated (Some current))) auth st1))))"

definition crud_delete ::
    "Env \<Rightarrow> uuid \<Rightarrow> AuthenticatedEntity \<Rightarrow> DiscoveryService \<Rightarrow> (string + unit) \<times> DiscoveryService" where
  "crud_delete env i auth st =
     (case get_by_id env i st of
        Inl e \<Rightarrow> (Inl e, st)
      | Inr None \<Rightarrow> (Inl (''discovery with id '' @ uuid_display i @ '' not found''), st)
      | Inr (Some d) \<Rightarrow>
          (case storage_delete env i st of
             (Inl e, st1) \<Rightarrow> (Inl e, st1)
           | (Inr _, st1) \<Rightarrow>
               (case env_remove_tags_error env i of
                  Some e \<Rightarrow> (Inl e, st1)
                | None \<Rightarrow>
                    (Inr (),
                     publish_discovery_entity env Deleted d
                       (crud_metadata (discovery_triggers_staleness d None)) auth st1))))"

text \<open>
  The handlers of the endpoints: the id of an updated discovery and its creation time are the
  stored ones, and both the stored and the new network have to be the user's. A discovery has
  no organization of its own and no validation beyond its types.
\<close>

definition update_handler ::
    "Env \<Rightarrow> AuthenticatedEntity \<Rightarrow> uuid \<Rightarrow> Discovery \<Rightarrow> DiscoveryService \<Rightarrow> (ApiError + Discovery) \<times> DiscoveryService" where
  "update_handler env auth i d st =
     (case auth_organization_id auth of
        None \<Rightarrow> (Inl (Forbidden ''This operation requires an organization context''), st)
      | Some org \<Rightarrow>
          (case get_by_id env i st of
             Inl e \<Rightarrow> (Inl (InternalError e), st)
           | Inr None \<Rightarrow> (Inl (entity_not_found ''Discovery'' (uuid_display i)), st)
           | Inr (Some existing) \<Rightarrow>
               (let d1 = d\<lparr>d_id := d_id existing, d_created_at := d_created_at existing\<rparr> in
                case validate_update_access (Some (db_network_id (d_base existing))) None
                       (Some (db_network_id (d_base d1))) None (auth_network_ids auth) org of
                  Inl e \<Rightarrow> (Inl e, st)
                | Inr _ \<Rightarrow>
                    (case crud_update env d1 auth st of
                       (Inl e, st1) \<Rightarrow> (Inl (InternalError e), st1)
                     | (Inr u, st1) \<Rightarrow> (Inr u, st1)))))"

definition delete_handler ::
    "Env \<Rightarrow> AuthenticatedEntity \<Rightarrow> uuid \<Rightarrow> DiscoveryService \<Rightarrow> (ApiError + unit) \<times> DiscoveryService" where
  "delete_handler env auth i st =
     (case auth_organization_id auth of
        None \<Rightarrow> (Inl (Forbidden ''This operation requires an organization context''), st)
      | Some org \<Rightarrow>
          (case get_by_id env i st of
             Inl e \<Rightarrow> (Inl (InternalError e), st)
           | Inr None \<Rightarrow> (Inl (entity_not_found ''Discovery'' (uuid_display i)), st)
           | Inr (Some d) \<Rightarrow>
               (case validate_delete_access (Some (db_network_id (d_base d))) None (auth_network_ids auth) org of
                  Inl e \<Rightarrow> (Inl e, st)
                | Inr _ \<Rightarrow>
                    (case crud_delete env i auth st of
                       (Inl e, st1) \<Rightarrow> (Inl (InternalError e), st1)
                     | (Inr u, st1) \<Rightarrow> (Inr u, st1)))))"

end
