(* ===== verification/Schedule_Claims.thy ===== *)
theory Schedule_Claims
  imports Discovery_Schedule Session_Claims
begin

text \<open>
  The properties of the schedules of discoveries: what the scheduler runs after it has
  started, how the service's own update moves a job, and what the endpoints, which use the
  generic operations, leave undone.
\<close>

section \<open>Frame facts\<close>

lemma start_session_frame:
  "job_ids (snd (start_session env d auth st)) = job_ids st"
  "discovery_storage (snd (start_session env d auth st)) = discovery_storage st"
  by (simp_all add: start_session_def Let_def start_publish_def start_insert_def queue_push_def
      send_update_def frame_simps split: sum.splits)

lemma publish_entity_jobs [simp]:
  "job_ids (publish_discovery_entity env o1 d m a st) = job_ids st"
  by (simp add: publish_discovery_entity_def frame_simps)

lemma storage_jobs [simp]:
  "job_ids (snd (storage_create env d st)) = job_ids st"
  "job_ids (snd (storage_update env d st)) = job_ids st"
  "job_ids (snd (storage_delete env i st)) = job_ids st"
  by (simp_all add: storage_create_def storage_update_def storage_delete_def split: option.splits)

lemma crud_delete_shape:
  assumes "crud_delete env i auth st = (Inr (), st')"
  shows "job_ids st' = job_ids st" and "discovery_storage st' = hremove i (discovery_storage st)"
  using assms
  by (auto simp: crud_delete_def storage_delete_def frame_simps split: sum.splits option.splits)

lemma crud_update_shape:
  assumes "crud_update env d auth st = (Inr u, st')"
  shows "job_ids st' = job_ids st" and "discovery_storage st' = hinsert (d_id d) (to_row d) (discovery_storage st)"
    and "u = d"
  using assms
  by (auto simp: crud_update_def storage_update_def get_by_id_def frame_simps
      split: sum.splits option.splits if_splits)

lemma update_handler_shape:
  assumes "update_handler env auth i d st = (Inr u, st')"
  obtains existing org where "auth_organization_id auth = Some org" "get_by_id env i st = Inr (Some existing)"
    "db_network_id (d_base existing) \<in> set (auth_network_ids auth)"
    "db_network_id (d_base d) \<in> set (auth_network_ids auth)"
    "u = d\<lparr>d_id := d_id existing, d_created_at := d_created_at existing\<rparr>"
    "crud_update env u auth st = (Inr u, st')"
proof -
  obtain org existing where o: "auth_organization_id auth = Some org" "get_by_id env i st = Inr (Some existing)"
    and v: "validate_update_access (Some (db_network_id (d_base existing))) None
        (Some (db_network_id (d_base d))) None (auth_network_ids auth) org = Inr ()"
    and c: "crud_update env (d\<lparr>d_id := d_id existing, d_created_at := d_created_at existing\<rparr>) auth st = (Inr u, st')"
    using assms by (auto simp: update_handler_def Let_def split: option.splits sum.splits prod.splits)
  from v have "within (Some (db_network_id (d_base existing))) None (auth_network_ids auth) org"
    "within (Some (db_network_id (d_base d))) None (auth_network_ids auth) org"
    by (simp_all add: validate_update_access_def create_access_iff within_def split: if_splits)
  with that o c crud_update_shape(3) [OF c] show ?thesis by (auto simp: within_def)
qed

lemma run_job_cases:
  assumes "hydrate_type env owned = Inr t"
  shows "run_scheduled_job env owned st =
     (let st1 = snd (start_session env owned AuthSystem st) in
      if is_scheduled (db_run_type (d_base owned)) then snd (storage_update env owned st1) else st1)"
  using assms
  by (cases "db_run_type (d_base owned)") (simp_all add: run_scheduled_job_def start_session_def Let_def)

lemma run_job_storage:
  assumes "is_scheduled (db_run_type (d_base owned))" "hydrate_type env owned = Inr t"
    "env_update_error env owned = None" "hget (discovery_storage st) (d_id owned) \<noteq> None"
  shows "hget (discovery_storage (run_scheduled_job env owned st)) (d_id owned) = Some (to_row owned)"
  using assms
  by (simp add: run_job_cases [OF assms(2)] Let_def storage_update_def start_session_frame lookup_simps
      del: not_None_eq)

section \<open>The start of the scheduler\<close>

definition job_of :: "Env \<Rightarrow> Discovery \<Rightarrow> uuid option" where
  \<comment> \<open>the job the cron scheduler accepts for an enabled schedule\<close>
  "job_of env d =
     (case db_run_type (d_base d) of
        Scheduled cron lr flag \<Rightarrow>
          if flag then (case env_scheduler_add env cron of Inr job \<Rightarrow> Some job | Inl _ \<Rightarrow> None) else None
      | _ \<Rightarrow> None)"

lemma schedule_or_disable_jobs:
  assumes "env_has_scheduler env"
  shows "hget (job_ids (schedule_or_disable env d st)) i =
    (if i = d_id d \<and> job_of env d \<noteq> None then job_of env d else hget (job_ids st) i)"
  using assms
  by (auto simp: schedule_or_disable_def schedule_discovery_def job_of_def lookup_simps
      split: prod.splits sum.splits RunType.splits if_splits)

lemma fold_schedule_jobs:
  assumes "env_has_scheduler env" "\<forall>d \<in> set ds. d_id d = i \<longrightarrow> job_of env d = j"
  shows "hget (job_ids (fold (schedule_or_disable env) ds st)) i =
    (if j \<noteq> None \<and> (\<exists>d \<in> set ds. d_id d = i) then j else hget (job_ids st) i)"
  using assms(2)
proof (induction ds arbitrary: st)
  case (Cons d ds)
  from Cons.prems have "\<forall>d \<in> set ds. d_id d = i \<longrightarrow> job_of env d = j" "d_id d = i \<Longrightarrow> job_of env d = j" by simp_all
  then show ?case
    unfolding fold_simps Cons.IH [OF \<open>\<forall>d \<in> set ds. d_id d = i \<longrightarrow> job_of env d = j\<close>] schedule_or_disable_jobs [OF assms(1)]
    by auto
qed simp

text \<open>
  C40: Starting the scheduler fails without a scheduler and then changes nothing; it fails when
  the discoveries cannot be listed, and then no job is mapped any more; otherwise the jobs mapped
  are exactly those the cron scheduler accepted for the stored discoveries that are scheduled and
  enabled, whatever was mapped before, and the answer is that of the scheduler's own start, so
  that the jobs are mapped also when this start fails.
\<close>

theorem start_scheduler_jobs:
  assumes "hmap_ok (discovery_storage st)"
    "\<forall>i d. hget (discovery_storage st) i = Some d \<longrightarrow> d_id d = i"
  shows "case start_scheduler env st of (r, st1) \<Rightarrow>
    if \<not> env_has_scheduler env then r = Inl ''Scheduler not initialized'' \<and> st1 = st
    else case env_list_error env of
      Some e \<Rightarrow> r = Inl e \<and> st1 = st\<lparr>job_ids := []\<rparr>
    | None \<Rightarrow>
        r = (case env_scheduler_start_error env of Some e \<Rightarrow> Inl e | None \<Rightarrow> Inr ()) \<and>
        (\<forall>i. hget (job_ids st1) i = Option.bind (hget (discovery_storage st) i) (job_of env))"
proof -
  let ?st1 = "st\<lparr>job_ids := []\<rparr>"
  let ?ds = "scheduled_discoveries ?st1"
  have en: "job_of env d \<noteq> None \<Longrightarrow> is_enabled_schedule (db_run_type (d_base d))" for d
    by (auto simp: job_of_def split: RunType.splits if_splits)
  have val: "d \<in> set (hvalues (discovery_storage st)) \<longleftrightarrow> (\<exists>k. hget (discovery_storage st) k = Some d)" for d
    unfolding hvalues_def hget_iff_mem [OF assms(1)] by force
  have mem: "d \<in> set ?ds \<and> d_id d = i \<longleftrightarrow>
      hget (discovery_storage st) i = Some d \<and> is_enabled_schedule (db_run_type (d_base d))" for d i
    using assms(2) by (auto simp: scheduled_discoveries_def val)
  have "hget (job_ids (fold (schedule_or_disable env) ?ds ?st1)) i = Option.bind (hget (discovery_storage st) i) (job_of env)"
    (is "_ = ?j") if sch: "env_has_scheduler env" for i
  proof -
    have "\<forall>d \<in> set ?ds. d_id d = i \<longrightarrow> job_of env d = ?j"
    proof (intro ballI impI)
      fix d assume "d \<in> set ?ds" "d_id d = i"
      then have "hget (discovery_storage st) i = Some d" using mem by blast
      then show "job_of env d = ?j" by simp
    qed
    then have jobs: "hget (job_ids (fold (schedule_or_disable env) ?ds ?st1)) i =
        (if ?j \<noteq> None \<and> (\<exists>d \<in> set ?ds. d_id d = i) then ?j else None)"
      using fold_schedule_jobs [OF sch, of ?ds i ?j ?st1] by (simp add: hget_def)
    have "\<exists>d \<in> set ?ds. d_id d = i" if "?j \<noteq> None"
    proof -
      from that obtain d where d: "hget (discovery_storage st) i = Some d" "job_of env d \<noteq> None"
        by (auto simp: bind_eq_None_conv)
      with en mem show ?thesis by blast
    qed
    with jobs show ?thesis by (cases ?j) auto
  qed
  then show ?thesis by (auto simp: start_scheduler_def Let_def split: option.split)
qed

definition demo_nightly :: Discovery where
  "demo_nightly = discovery_new 4 0
     \<lparr>db_discovery_type = SelfReport 5, db_run_type = Scheduled ''0 0 * * *'' None True, db_name = ''nightly'',
      db_daemon_id = 7, db_network_id = 8, db_tags = []\<rparr>"

definition demo_cron_env :: Env where
  "demo_cron_env = demo_env\<lparr>env_scheduler_add := (\<lambda>c. Inr 55)\<rparr>"

lemma demo_cron_env_simps [simp]:
  "env_update_error demo_cron_env d = None" "env_get_error demo_cron_env i = None"
  "env_delete_error demo_cron_env i = None" "env_remove_tags_error demo_cron_env i = None"
  "env_set_tags_error demo_cron_env i ts o1 = None" "env_scheduler_add demo_cron_env c = Inr 55"
  "env_has_scheduler demo_cron_env" "env_list_error demo_cron_env = None" "env_scheduler_start_error demo_cron_env = None"
  "env_tags demo_cron_env i = []" "env_fresh_id demo_cron_env i = i"
  by (simp_all add: demo_cron_env_def demo_env_def)

definition demo_stored :: DiscoveryService where
  "demo_stored = discovery_service_new\<lparr>discovery_storage := [(4, demo_nightly)]\<rparr>"

lemma start_scheduler_jobs_witness:
  "\<exists>st1. start_scheduler demo_cron_env demo_stored = (Inr (), st1) \<and> hget (job_ids st1) 4 = Some 55"
proof -
  have "hmap_ok (discovery_storage demo_stored)"
    "\<forall>i d. hget (discovery_storage demo_stored) i = Some d \<longrightarrow> d_id d = i"
    by (auto simp: demo_stored_def hmap_ok_def hkeys_def hget_def demo_nightly_def discovery_new_def split: if_splits)
  from start_scheduler_jobs [OF this, of demo_cron_env]
  have "fst (start_scheduler demo_cron_env demo_stored) = Inr ()"
    "hget (job_ids (snd (start_scheduler demo_cron_env demo_stored))) 4 =
      Option.bind (hget (discovery_storage demo_stored) 4) (job_of demo_cron_env)"
    by (simp_all add: case_prod_beta demo_cron_env_def demo_env_def)
  moreover have "Option.bind (hget (discovery_storage demo_stored) 4) (job_of demo_cron_env) = Some 55"
    by (simp add: demo_stored_def hget_def job_of_def demo_nightly_def discovery_new_def)
  ultimately show ?thesis by (metis prod.collapse)
qed

section \<open>Updates and deletions\<close>

text \<open>
  When the service itself updates a discovery with a new cron expression and no job is mapped
  for it, the job scheduled from the new discovery is the job of the discovery. When a job is
  mapped and the scheduler removes it, the call waits for its own guard and never returns; the
  same holds for the deletion of a scheduled discovery.
\<close>

theorem update_discovery_reschedules:
  assumes "get_by_id env (d_id d) st = Inr (Some current)" "reschedule_needed d current"
    "enabled (db_run_type (d_base d))" "env_scheduler_add env (cron_schedule (db_run_type (d_base d))) = Inr job"
    "env_update_error env d = None" "set_tags env auth (d_id d) (db_tags (d_base d)) = None"
    "env_has_scheduler env" "hget (job_ids st) (d_id d) = None"
  shows "\<exists>st'. update_discovery env d auth st = Some (Inr d, st') \<and> hget (job_ids st') (d_id d) = Some job \<and>
     hget (discovery_storage st') (d_id d) = Some (to_row d)"
proof -
  obtain c1 l1 f1 where rt: "db_run_type (d_base d) = Scheduled c1 l1 f1"
    using assms(2) by (auto simp: reschedule_needed_def split: RunType.splits)
  have st: "hget (discovery_storage st) (d_id d) \<noteq> None"
    using assms(1) by (auto simp: get_by_id_def split: option.splits)
  have "remove_job env (d_id d) st = Some st" using assms(7,8) by (simp add: remove_job_def)
  with assms st show ?thesis
    by (simp add: update_discovery_def reschedule_def store_and_schedule_def storage_update_def schedule_discovery_def rt
        frame_simps lookup_simps)
qed

theorem mapped_job_hangs:
  assumes "env_has_scheduler env" "hget (job_ids st) i = Some job" "env_scheduler_remove_error env job = None"
    and "get_by_id env i st = Inr (Some current)"
  shows "d_id d = i \<Longrightarrow> reschedule_needed d current \<Longrightarrow> update_discovery env d auth st = None"
    and "is_scheduled (db_run_type (d_base current)) \<Longrightarrow> delete_discovery env i auth st = None"
  using assms by (simp_all add: update_discovery_def reschedule_def delete_discovery_def remove_job_def)

definition demo_weekly :: Discovery where
  "demo_weekly = demo_nightly\<lparr>d_base := (d_base demo_nightly)\<lparr>db_run_type := Scheduled ''0 0 * * 0'' None True\<rparr>\<rparr>"

lemma update_discovery_reschedules_witness:
  "\<exists>st'. update_discovery demo_cron_env demo_weekly AuthSystem demo_stored = Some (Inr demo_weekly, st') \<and>
     hget (job_ids st') 4 = Some 55"
proof -
  have "get_by_id demo_cron_env (d_id demo_weekly) demo_stored = Inr (Some demo_nightly)"
    by (simp add: get_by_id_def demo_stored_def demo_weekly_def
        demo_nightly_def discovery_new_def hget_def)
  from update_discovery_reschedules [OF this, of 55 AuthSystem]
  have "\<exists>st'. update_discovery demo_cron_env demo_weekly AuthSystem demo_stored = Some (Inr demo_weekly, st') \<and>
      hget (job_ids st') (d_id demo_weekly) = Some 55"
    by (auto simp: reschedule_needed_def demo_weekly_def demo_nightly_def discovery_new_def set_tags_def
        demo_stored_def discovery_service_new_def hget_def)
  then show ?thesis by (simp add: demo_weekly_def demo_nightly_def discovery_new_def)
qed

text \<open>
  A discovery is updated through the endpoint only by a user whose networks contain both
  the stored and the new network of it; the id and the creation time stay the stored ones.
\<close>

theorem update_handler_access:
  assumes "update_handler env auth i d st = (Inr u, st')"
  shows "\<exists>existing. get_by_id env i st = Inr (Some existing) \<and>
     db_network_id (d_base existing) \<in> set (auth_network_ids auth) \<and>
     db_network_id (d_base u) \<in> set (auth_network_ids auth) \<and>
     d_id u = d_id existing \<and> d_created_at u = d_created_at existing \<and>
     hget (discovery_storage st') (d_id existing) = Some (to_row u)"
proof (rule update_handler_shape [OF assms])
  fix existing org
  assume e: "get_by_id env i st = Inr (Some existing)"
    "db_network_id (d_base existing) \<in> set (auth_network_ids auth)"
    "db_network_id (d_base d) \<in> set (auth_network_ids auth)"
    and u: "u = d\<lparr>d_id := d_id existing, d_created_at := d_created_at existing\<rparr>"
    and c: "crud_update env u auth st = (Inr u, st')"
  show ?thesis
    using e u crud_update_shape(2) [OF c] by (auto simp: lookup_simps)
qed

definition demo_user :: AuthenticatedEntity where
  "demo_user = AuthUser 1 2 Member [8] ''a@b'' True"

definition demo_disabled :: Discovery where
  "demo_disabled = demo_nightly\<lparr>d_base := (d_base demo_nightly)\<lparr>db_run_type := Scheduled ''0 0 * * *'' None False\<rparr>\<rparr>"

lemma demo_stored_get: "get_by_id demo_cron_env 4 (demo_stored\<lparr>job_ids := m\<rparr>) = Inr (Some demo_nightly)"
  by (simp add: get_by_id_def demo_stored_def demo_nightly_def discovery_new_def hget_def)

lemma demo_disable_handler:
  "\<exists>st'. update_handler demo_cron_env demo_user 4 demo_disabled (demo_stored\<lparr>job_ids := m\<rparr>) = (Inr demo_disabled, st')"
proof -
  have "get_by_id demo_cron_env (d_id demo_disabled) (demo_stored\<lparr>job_ids := m\<rparr>) = Inr (Some demo_nightly)"
    using demo_stored_get by (simp add: demo_disabled_def demo_nightly_def discovery_new_def)
  moreover have "demo_disabled\<lparr>d_id := d_id demo_nightly, d_created_at := d_created_at demo_nightly\<rparr> = demo_disabled"
    "db_network_id (d_base demo_disabled) = 8" "db_network_id (d_base demo_nightly) = 8"
    by (simp_all add: demo_disabled_def demo_nightly_def discovery_new_def)
  ultimately show ?thesis
    by (simp add: update_handler_def demo_stored_get demo_user_def Let_def validate_update_access_def
        validate_create_access_def validate_network_access_def validate_organization_access_def
        crud_update_def storage_update_def set_tags_def)
qed

lemma update_handler_access_witness:
  "\<exists>existing. get_by_id demo_cron_env 4 (demo_stored\<lparr>job_ids := []\<rparr>) = Inr (Some existing) \<and>
     d_id demo_disabled = d_id existing"
  using demo_disable_handler [of "[]"] update_handler_access by blast

text \<open>
  Deleting a scheduled discovery through the endpoint leaves its job with the scheduler:
  the mapping is kept, and the next run of the job starts a session for the daemon although
  the discovery is gone.
\<close>

theorem delete_handler_keeps_job:
  assumes "delete_handler env auth i st = (Inr (), st')" "hydrate_type env owned = Inr t" "d_id owned = i"
  shows "job_ids st' = job_ids st \<and> hget (discovery_storage st') i = None \<and>
     env_fresh_id env i \<in> set (queue (run_scheduled_job env owned st') (db_daemon_id (d_base owned)))"
proof -
  have c: "crud_delete env i auth st = (Inr (), st')"
    using assms(1)
    by (auto simp: delete_handler_def split: option.splits sum.splits prod.splits)
  have q: "queue (snd (storage_update env d x)) = queue x" for d x
    by (auto simp: storage_update_def queue_def fun_eq_iff split: option.splits)
  have "queue (snd (start_session env owned AuthSystem st')) (db_daemon_id (d_base owned)) =
      queue st' (db_daemon_id (d_base owned)) @ [env_fresh_id env i]"
    using start_session_shape [OF assms(2), of AuthSystem st'] assms(3)
    by (auto simp: table_of_def table_enqueue_def payload_new_def)
  then have "env_fresh_id env i \<in> set (queue (run_scheduled_job env owned st') (db_daemon_id (d_base owned)))"
    by (simp add: run_job_cases [OF assms(2)] q Let_def)
  with crud_delete_shape [OF c] show ?thesis by (simp add: lookup_simps)
qed

lemma demo_delete_handler:
  "\<exists>st'. delete_handler demo_cron_env demo_user 4 (demo_stored\<lparr>job_ids := m\<rparr>) = (Inr (), st')"
proof -
  have "db_network_id (d_base demo_nightly) = 8"
    by (simp add: demo_nightly_def discovery_new_def)
  then show ?thesis
    by (simp add: delete_handler_def demo_stored_get demo_user_def validate_delete_access_def
        crud_delete_def storage_delete_def)
qed

lemma delete_handler_keeps_job_witness:
  "\<exists>st'. delete_handler demo_cron_env demo_user 4 (demo_stored\<lparr>job_ids := [(4, 55)]\<rparr>) = (Inr (), st') \<and>
     hget (job_ids st') 4 = Some 55"
proof -
  obtain st' where d: "delete_handler demo_cron_env demo_user 4 (demo_stored\<lparr>job_ids := [(4, 55)]\<rparr>) = (Inr (), st')"
    using demo_delete_handler by blast
  have "hydrate_type demo_cron_env demo_nightly = Inr (SelfReport 5)" "d_id demo_nightly = 4"
    by (simp_all add: hydrate_type_def demo_nightly_def discovery_new_def)
  from delete_handler_keeps_job [OF d this] d show ?thesis by (simp add: hget_def)
qed

text \<open>
  A job owns the discovery it was scheduled with and writes it back after each run, so a
  change made through the endpoint (which does not reschedule), turning the schedule off
  among them, is undone in the storage by the next run of the job.
\<close>

theorem job_undoes_endpoint_update:
  assumes "update_handler env auth i d st = (Inr u, st')" "d_id u = d_id owned"
    "is_scheduled (db_run_type (d_base owned))" "hydrate_type env owned = Inr t" "env_update_error env owned = None"
  shows "job_ids st' = job_ids st \<and>
     hget (discovery_storage st') (d_id owned) = Some (to_row u) \<and>
     hget (discovery_storage (run_scheduled_job env owned st')) (d_id owned) = Some (to_row owned)"
proof (rule update_handler_shape [OF assms(1)])
  assume c: "crud_update env u auth st = (Inr u, st')"
  have "hget (discovery_storage st') (d_id owned) = Some (to_row u)"
    using crud_update_shape(2) [OF c] assms(2) by (simp add: lookup_simps)
  with crud_update_shape(1) [OF c] run_job_storage [OF assms(3-5), of st'] show ?thesis by simp
qed

lemma job_undoes_endpoint_update_witness:
  "\<exists>st'. update_handler demo_cron_env demo_user 4 demo_disabled (demo_stored\<lparr>job_ids := [(4, 55)]\<rparr>) = (Inr demo_disabled, st') \<and>
     hget (discovery_storage (run_scheduled_job demo_cron_env demo_nightly st')) 4 = Some (to_row demo_nightly)"
proof -
  obtain st' where u: "update_handler demo_cron_env demo_user 4 demo_disabled (demo_stored\<lparr>job_ids := [(4, 55)]\<rparr>) =
      (Inr demo_disabled, st')"
    using demo_disable_handler by blast
  have "d_id demo_disabled = d_id demo_nightly" "is_scheduled (db_run_type (d_base demo_nightly))"
    "hydrate_type demo_cron_env demo_nightly = Inr (SelfReport 5)" "d_id demo_nightly = 4"
    by (simp_all add: hydrate_type_def demo_nightly_def demo_disabled_def discovery_new_def)
  with job_undoes_endpoint_update [OF u this(1-3)] u show ?thesis by simp
qed

text \<open>
  A discovery that cannot be scheduled is meant to be created disabled; it is created and
  returned with its schedule enabled as submitted.
\<close>

theorem failed_schedule_stays_enabled:
  assumes "d_id d \<noteq> uuid_nil" "db_run_type (d_base d) = Scheduled cron lr True" "env_scheduler_add env cron = Inl e"
    "env_create_error env d = None" "env_update_error env d = None" "set_tags env auth (d_id d) (db_tags (d_base d)) = None"
  shows "\<exists>st'. create_discovery env d auth st = (Inr d, st') \<and>
     hget (discovery_storage st') (d_id d) = Some (to_row d) \<and>
     is_enabled_schedule (db_run_type (d_base (to_row d)))"
proof -
  have "disable d = d" by (simp add: disable_def assms(2))
  with assms show ?thesis
    by (simp add: create_discovery_def storage_create_def schedule_discovery_def storage_update_def
        lookup_simps to_row_def)
qed

lemma failed_schedule_stays_enabled_witness:
  "\<exists>st'. create_discovery demo_env demo_nightly AuthSystem discovery_service_new = (Inr demo_nightly, st') \<and>
     hget (discovery_storage st') 4 = Some (to_row demo_nightly)"
  using failed_schedule_stays_enabled [of demo_nightly "''0 0 * * *''" None demo_env "''bad cron''" AuthSystem discovery_service_new]
  by (auto simp: demo_nightly_def discovery_new_def uuid_nil_def demo_env_def set_tags_def)

end
