(* ===== verification/Position.thy ===== *)
theory Position
  imports Prelude
begin

text \<open>
  Ordered entities (\<open>server/shared/position.rs\<close>): validation of the positions of a
  request, resolution of omitted positions, renumbering and reordering. The two traits of
  the source are dictionaries of their methods; their laws are the locales below, which
  every implementing type of the program interprets in its own theory.
\<close>

section \<open>The traits\<close>

record 'e Positioned =
  position :: "'e \<Rightarrow> i32"
  set_position :: "i32 \<Rightarrow> 'e \<Rightarrow> 'e"
  ident :: "'e \<Rightarrow> uuid"
  entity_name :: string

record 'i PositionedInput =
  input_position :: "'i \<Rightarrow> i32 option"
  set_input_position :: "i32 \<Rightarrow> 'i \<Rightarrow> 'i"
  input_ident :: "'i \<Rightarrow> uuid"

section \<open>Validation\<close>

definition capitalize :: "string \<Rightarrow> string" where
  "capitalize s = (case s of [] \<Rightarrow> [] | c # cs \<Rightarrow> char_upper c # cs)"

text \<open>The scan over \<open>windows(2)\<close> for a duplicate, then the scan against the index.\<close>

fun first_duplicate :: "i32 list \<Rightarrow> i32 option" where
  "first_duplicate (x # y # xs) = (if x = y then Some x else first_duplicate (y # xs))"
| "first_duplicate _ = None"

fun first_gap :: "nat \<Rightarrow> i32 list \<Rightarrow> (nat \<times> i32) option" where
  "first_gap expected [] = None"
| "first_gap expected (actual # xs) =
     (if actual \<noteq> as_i32 expected then Some (expected, actual) else first_gap (Suc expected) xs)"

definition duplicate_error :: "string \<Rightarrow> i32 \<Rightarrow> ApiError" where
  "duplicate_error n p = BadRequest (''Duplicate '' @ n @ '' position: '' @ show_int p @
     ''. Each '' @ n @ '' must have a unique position.'')"

definition gap_error :: "string \<Rightarrow> nat \<Rightarrow> i32 \<Rightarrow> nat \<Rightarrow> ApiError" where
  "gap_error n expected actual len = BadRequest (capitalize n @
     '' positions must be sequential starting from 0. Expected position '' @ show_nat expected @
     '' but found '' @ show_int actual @ ''. Positions should be: 0, 1, 2, ..., '' @
     show_nat (len - 1))"

definition validate_sequential_positions :: "i32 list \<Rightarrow> string \<Rightarrow> ApiError + unit" where
  "validate_sequential_positions positions n =
     (if positions = [] then Inr ()
      else let sorted_ps = sort positions in
        case first_duplicate sorted_ps of
          Some p \<Rightarrow> Inl (duplicate_error n p)
        | None \<Rightarrow>
            (case first_gap 0 sorted_ps of
               Some (expected, actual) \<Rightarrow> Inl (gap_error n expected actual (length positions))
             | None \<Rightarrow> Inr ()))"

definition validate_input_positions :: "'i PositionedInput \<Rightarrow> 'i list \<Rightarrow> string \<Rightarrow> ApiError + unit" where
  "validate_input_positions I inputs n =
     validate_sequential_positions (List.map_filter (input_position I) inputs) n"

definition validate_entity_positions :: "'e Positioned \<Rightarrow> 'e list \<Rightarrow> ApiError + unit" where
  "validate_entity_positions D es = validate_sequential_positions (map (position D) es) (entity_name D)"

definition validate_position_range :: "i32 \<Rightarrow> nat \<Rightarrow> string \<Rightarrow> ApiError + unit" where
  "validate_position_range new_position num n =
     (if num = 0
      then Inl (BadRequest (''Cannot set '' @ n @ '' position: no '' @ n @ ''s exist.''))
      else let max_position = i32_wrap (as_i32 num - 1) in
        if new_position < 0 \<or> new_position > max_position
        then Inl (BadRequest (capitalize n @ '' position '' @ show_int new_position @
               '' is out of range. Valid positions are 0 to '' @ show_int max_position @ ''.''))
        else Inr ())"

definition validate_no_position_conflict ::
  "'e Positioned \<Rightarrow> i32 \<Rightarrow> uuid option \<Rightarrow> 'e list \<Rightarrow> ApiError + unit" where
  "validate_no_position_conflict D new_position exclude_id existing =
     (if list_ex (\<lambda>e. position D e = new_position \<and> Some (ident D e) \<noteq> exclude_id) existing
      then Inl (BadRequest (capitalize (entity_name D) @ '' position '' @ show_int new_position @
             '' is already used by another '' @ entity_name D @ ''.''))
      else Inr ())"

section \<open>Resolution of omitted positions\<close>

text \<open>The lookup table: \<open>collect\<close> into a \<open>HashMap\<close>, a later entry overwriting.\<close>

definition existing_by_id :: "'e Positioned \<Rightarrow> 'e list \<Rightarrow> (uuid, i32) HashMap" where
  "existing_by_id D existing = fold (\<lambda>e m. hinsert (ident D e) (position D e) m) existing []"

fun resolve_loop :: "'i PositionedInput \<Rightarrow> (uuid, i32) HashMap \<Rightarrow> i32 \<Rightarrow> 'i list \<Rightarrow> 'i list" where
  "resolve_loop I by_id next_pos [] = []"
| "resolve_loop I by_id next_pos (x # xs) =
     (case hget by_id (input_ident I x) of
        Some pos \<Rightarrow> set_input_position I pos x # resolve_loop I by_id next_pos xs
      | None \<Rightarrow> set_input_position I next_pos x # resolve_loop I by_id (i32_wrap (next_pos + 1)) xs)"

definition resolve_and_validate_input_positions ::
  "'i PositionedInput \<Rightarrow> 'e Positioned \<Rightarrow> 'i list \<Rightarrow> 'e list \<Rightarrow> string \<Rightarrow> ApiError + 'i list" where
  "resolve_and_validate_input_positions I D inputs existing n =
     (if inputs = [] then Inr inputs
      else let specified_count = length (filter (\<lambda>x. input_position I x \<noteq> None) inputs) in
        if specified_count > 0 \<and> specified_count < length inputs
        then Inl (BadRequest (capitalize n @
               '' positions must be all specified or all omitted. Found '' @
               show_nat specified_count @ '' with positions and '' @
               show_nat (length inputs - specified_count) @ '' without.''))
        else if specified_count = length inputs
        then (case validate_sequential_positions (List.map_filter (input_position I) inputs) n of
                Inl e \<Rightarrow> Inl e | Inr _ \<Rightarrow> Inr inputs)
        else Inr (resolve_loop I (existing_by_id D existing) (as_i32 (length existing)) inputs))"

section \<open>Operations\<close>

fun renumber_loop :: "'e Positioned \<Rightarrow> nat \<Rightarrow> 'e list \<Rightarrow> 'e list \<times> bool" where
  "renumber_loop D i [] = ([], False)"
| "renumber_loop D i (e # es) =
     (let (es', changed) = renumber_loop D (Suc i) es in
      if position D e \<noteq> as_i32 i then (set_position D (as_i32 i) e # es', True)
      else (e # es', changed))"

definition renumber_positions :: "'e Positioned \<Rightarrow> 'e list \<Rightarrow> 'e list \<times> bool" where
  "renumber_positions D entities =
     (if entities = [] then (entities, False)
      else renumber_loop D 0 (sort_key (position D) entities))"

definition next_position :: "'e list \<Rightarrow> i32" where
  "next_position existing = as_i32 (length existing)"

definition shift_down :: "'e Positioned \<Rightarrow> i32 \<Rightarrow> i32 \<Rightarrow> 'e \<Rightarrow> 'e" where
  \<comment> \<open>the loop body for \<open>from < to\<close>\<close>
  "shift_down D f t e =
     (let pos = position D e in
      if pos = f then set_position D t e
      else if pos > f \<and> pos \<le> t then set_position D (pos - 1) e else e)"

definition shift_up :: "'e Positioned \<Rightarrow> i32 \<Rightarrow> i32 \<Rightarrow> 'e \<Rightarrow> 'e" where
  \<comment> \<open>the loop body for \<open>from > to\<close>\<close>
  "shift_up D f t e =
     (let pos = position D e in
      if pos = f then set_position D t e
      else if pos \<ge> t \<and> pos < f then set_position D (pos + 1) e else e)"

definition reorder_positions :: "'e Positioned \<Rightarrow> 'e list \<Rightarrow> i32 \<Rightarrow> i32 \<Rightarrow> 'e list \<times> bool" where
  "reorder_positions D entities f t =
     (if f = t then (entities, False)
      else let num = as_i32 (length entities) in
        if f < 0 \<or> f \<ge> num \<or> t < 0 \<or> t \<ge> num then (entities, False)
        else let entities = sort_key (position D) entities in
          (map (if f < t then shift_down D f t else shift_up D f t) entities, True))"

section \<open>What validation accepts\<close>

lemma first_duplicate_None_iff: "sorted xs \<Longrightarrow> first_duplicate xs = None \<longleftrightarrow> distinct xs"
  by (induction xs rule: first_duplicate.induct) auto

lemma first_duplicate_Some: "first_duplicate xs = Some p \<Longrightarrow> count_list xs p \<ge> 2"
  by (induction xs rule: first_duplicate.induct) (auto split: if_splits)

lemma first_gap_None_iff:
  "i + length xs < 2 ^ 31 \<Longrightarrow> first_gap i xs = None \<longleftrightarrow> xs = map int [i..<i + length xs]"
proof (induction xs arbitrary: i)
  case (Cons x xs)
  then have "map int [i..<i + length (x # xs)] = int i # map int [Suc i..<Suc i + length xs]"
    by (simp add: upt_rec)
  with Cons.IH [of "Suc i"] Cons.prems show ?case by auto
qed simp

lemma validate_sequential_iff:
  assumes "length ps < 2 ^ 31"
  shows "validate_sequential_positions ps n = Inr () \<longleftrightarrow>
    mset ps = mset (map int [0..<length ps])"
proof -
  have "sort ps = map int [0..<length ps] \<Longrightarrow> distinct ps"
    by (metis distinct_map distinct_sort distinct_upt inj_on_of_nat)
  then have "validate_sequential_positions ps n = Inr () \<longleftrightarrow> sort ps = map int [0..<length ps]"
    using first_gap_None_iff [of 0 "sort ps"] first_duplicate_None_iff [of "sort ps"] assms
    by (cases "ps = []") (auto simp: validate_sequential_positions_def Let_def split: option.splits)
  then show ?thesis by (simp add: sort_eq_upt_iff)
qed

lemma validate_sequential_duplicate:
  assumes "\<not> distinct ps"
  shows "\<exists>p. validate_sequential_positions ps n = Inl (duplicate_error n p) \<and> count_list ps p \<ge> 2"
proof -
  from assms have "first_duplicate (sort ps) \<noteq> None" and "ps \<noteq> []"
    by (auto simp: first_duplicate_None_iff)
  then obtain p where p: "first_duplicate (sort ps) = Some p" by blast
  then have "count_list (sort ps) p \<ge> 2" by (rule first_duplicate_Some)
  then have "count_list ps p \<ge> 2" by (metis count_mset mset_sort)
  with p \<open>ps \<noteq> []\<close> show ?thesis by (auto simp: validate_sequential_positions_def)
qed

section \<open>Moving one element: the specification of reordering\<close>

text \<open>
  What a user means by moving the entry at index \<open>f\<close> to index \<open>t\<close>: take it out of the
  list and insert it again at \<open>t\<close>.
\<close>

definition move_elem :: "nat \<Rightarrow> nat \<Rightarrow> 'a list \<Rightarrow> 'a list" where
  "move_elem f t xs = (let ys = take f xs @ drop (Suc f) xs in take t ys @ xs ! f # drop t ys)"

lemma map_move_elem: "f < length xs \<Longrightarrow> map g (move_elem f t xs) = move_elem f t (map g xs)"
  by (simp add: move_elem_def Let_def take_map drop_map)

lemma mset_move_elem: "f < length xs \<Longrightarrow> mset (move_elem f t xs) = mset xs"
proof -
  assume f: "f < length xs"
  have "mset (move_elem f t xs) = add_mset (xs ! f) (mset (take f xs @ drop (Suc f) xs))"
    unfolding move_elem_def Let_def
    by (metis append_take_drop_id mset_append mset.simps(2) union_mset_add_mset_right)
  also have "\<dots> = mset (take f xs @ xs ! f # drop (Suc f) xs)" by simp
  finally show ?thesis using id_take_nth_drop [OF f] by metis
qed

lemma length_move_elem [simp]: "f < length xs \<Longrightarrow> length (move_elem f t xs) = length xs"
  by (metis mset_move_elem size_mset)

lemma nth_move_elem:
  assumes "f < length xs" "t < length xs" "k < length xs"
  shows "move_elem f t xs ! k =
    xs ! (if k = t then f else let k' = (if k < t then k else k - 1) in if k' < f then k' else Suc k')"
  using assms
  apply (auto simp: move_elem_def Let_def nth_append min_def)
  apply (rule arg_cong [of _ _ "(!) xs"], arith)
  done

lemma move_elem_back:
  assumes "f < length xs" "t < length xs"
  shows "move_elem t f (move_elem f t xs) = xs"
  using assms by (intro nth_equalityI) (auto simp: nth_move_elem Let_def)

section \<open>The laws of the traits and what follows from them\<close>

locale positioned =
  fixes D :: "'e Positioned"
  assumes position_set: "position D (set_position D p e) = p"
    and ident_set: "ident D (set_position D p e) = ident D e"
    and set_set: "set_position D p (set_position D q e) = set_position D p e"
    and set_same: "set_position D (position D e) e = e"
begin

definition pos_valid :: "'e list \<Rightarrow> bool" where
  "pos_valid es \<longleftrightarrow> mset (map (position D) es) = mset (map int [0..<length es])"

lemma set_position_id_iff: "position D e = p \<Longrightarrow> set_position D p e = e"
  using set_same by metis

lemma renumber_loop_Cons:
  "fst (renumber_loop D i (e # es)) =
     set_position D (as_i32 i) e # fst (renumber_loop D (Suc i) es)"
  "snd (renumber_loop D i (e # es)) \<longleftrightarrow>
     position D e \<noteq> as_i32 i \<or> snd (renumber_loop D (Suc i) es)"
  by (auto simp: Let_def set_position_id_iff split: prod.splits)

lemma renumber_loop_fst:
  "fst (renumber_loop D i es) = map (\<lambda>(j, e). set_position D (as_i32 j) e) (zip [i..<i + length es] es)"
proof (induction es arbitrary: i)
  case (Cons e es)
  then show ?case
    unfolding renumber_loop_Cons upt_length_Cons by (simp del: upt_Suc)
qed simp

lemma renumber_loop_snd:
  "snd (renumber_loop D i es) \<longleftrightarrow> map (position D) es \<noteq> map as_i32 [i..<i + length es]"
proof (induction es arbitrary: i)
  case (Cons e es)
  then show ?case
    unfolding renumber_loop_Cons upt_length_Cons by (simp del: upt_Suc)
qed simp

lemma renumber_fst:
  "fst (renumber_positions D es) =
    map (\<lambda>(j, e). set_position D (as_i32 j) e) (zip [0..<length es] (sort_key (position D) es))"
  by (simp add: renumber_positions_def renumber_loop_fst)

lemma map_as_i32_upt: "n < 2 ^ 31 \<Longrightarrow> map as_i32 [0..<n] = map int [0..<n]"
  by auto

lemma renumber_positions_seq:
  assumes "length es < 2 ^ 31"
  shows "map (position D) (fst (renumber_positions D es)) = map int [0..<length es]"
proof -
  have "map (position D) (fst (renumber_positions D es)) =
    map (as_i32 \<circ> fst) (zip [0..<length es] (sort_key (position D) es))"
    by (auto simp: renumber_fst position_set)
  also have "\<dots> = map as_i32 (map fst (zip [0..<length es] (sort_key (position D) es)))"
    by (simp only: map_map)
  finally have "map (position D) (fst (renumber_positions D es)) = map as_i32 [0..<length es]"
    by simp
  then show ?thesis using map_as_i32_upt [OF assms] by metis
qed

lemma renumber_idents:
  "map (ident D) (fst (renumber_positions D es)) = map (ident D) (sort_key (position D) es)"
proof -
  have "map (ident D) (fst (renumber_positions D es)) =
    map (ident D \<circ> snd) (zip [0..<length es] (sort_key (position D) es))"
    by (simp add: renumber_fst ident_set case_prod_unfold)
  also have "\<dots> = map (ident D) (map snd (zip [0..<length es] (sort_key (position D) es)))"
    by (simp only: map_map)
  finally show ?thesis by simp
qed

lemma renumber_changed_iff:
  assumes "length es < 2 ^ 31"
  shows "snd (renumber_positions D es) \<longleftrightarrow> \<not> pos_valid es"
proof -
  have "snd (renumber_positions D es) \<longleftrightarrow>
    map (position D) (sort_key (position D) es) \<noteq> map as_i32 [0..<length es]"
    by (simp add: renumber_positions_def renumber_loop_snd)
  also have "map (position D) (sort_key (position D) es) = sort (map (position D) es)"
    by (rule map_sort_key)
  finally show ?thesis
    using assms sort_eq_upt_iff [of "map (position D) es"]
    by (simp add: map_as_i32_upt pos_valid_def)
qed

lemma pos_valid_sorted:
  "pos_valid es \<Longrightarrow> map (position D) (sort_key (position D) es) = map int [0..<length es]"
  using sort_eq_upt_iff [of "map (position D) es"] by (simp add: pos_valid_def map_sort_key)

lemma pos_valid_validates:
  "length es < 2 ^ 31 \<Longrightarrow> validate_entity_positions D es = Inr () \<longleftrightarrow> pos_valid es"
  by (simp add: validate_entity_positions_def validate_sequential_iff pos_valid_def)

definition order_of :: "'e list \<Rightarrow> uuid list" where
  \<comment> \<open>the abstraction: the ids in the order of their positions\<close>
  "order_of es = map (ident D) (sort_key (position D) es)"

lemma reorder_move:
  assumes valid: "pos_valid es" and len: "length es < 2 ^ 31"
    and f: "f < length es" and t: "t < length es" and ne: "f \<noteq> t"
  defines "es' \<equiv> fst (reorder_positions D es (int f) (int t))"
  shows "snd (reorder_positions D es (int f) (int t))"
    and "map (position D) (move_elem f t es') = map int [0..<length es]"
    and "map (ident D) es' = order_of es" and "length es' = length es"
proof -
  let ?s = "sort_key (position D) es" and ?g = "if int f < int t then shift_down D (int f) (int t) else shift_up D (int f) (int t)"
  have red: "reorder_positions D es (int f) (int t) = (map ?g ?s, True)"
    using f t ne len by (simp add: reorder_positions_def)
  then have es': "es' = map ?g ?s" by (simp add: es'_def)
  show "snd (reorder_positions D es (int f) (int t))" by (simp add: red)
  show "length es' = length es" by (simp add: es')
  show "map (ident D) es' = order_of es"
    by (auto simp: es' order_of_def shift_down_def shift_up_def Let_def ident_set)
  have pos: "position D (?s ! i) = int i" if "i < length es" for i
    using pos_valid_sorted [OF valid] that by (metis add_0 length_map length_sort length_upt minus_nat.diff_0 nth_map nth_upt)
  show "map (position D) (move_elem f t es') = map int [0..<length es]"
  proof (rule nth_equalityI)
    fix i assume "i < length (map (position D) (move_elem f t es'))"
    then have "i < length es" using f by (simp add: es')
    then show "map (position D) (move_elem f t es') ! i = map int [0..<length es] ! i"
      using f t ne by (auto simp: es' nth_move_elem Let_def shift_down_def shift_up_def position_set pos)
  qed (use f in \<open>simp add: es'\<close>)
qed

lemma reorder_valid_order:
  assumes "pos_valid es" and "length es < 2 ^ 31"
    and "f < length es" and "t < length es" and "f \<noteq> t"
  defines "es' \<equiv> fst (reorder_positions D es (int f) (int t))"
  shows "pos_valid es'" and "order_of es' = move_elem f t (order_of es)"
proof -
  note r = reorder_move [OF assms(1-5), folded es'_def]
  have len: "f < length es'" "length es' = length es" using r(4) assms(3) by auto
  have "mset (map (position D) es') = mset (map (position D) (move_elem f t es'))"
    using len by (simp add: mset_move_elem)
  then show valid: "pos_valid es'" using r(2) len by (simp add: pos_valid_def)
  have "distinct (map (position D) (move_elem f t es'))" unfolding r(2) by (simp add: distinct_map)
  then have "inj_on (position D) (set es')"
    using len by (metis distinct_map mset_move_elem set_mset_mset)
  then have "sort_key (position D) es' = move_elem f t es'"
    using len r(2) by (intro sort_key_inj_key_eq) (simp_all add: mset_move_elem)
  then show "order_of es' = move_elem f t (order_of es)"
    using len r(3) by (simp add: order_of_def map_move_elem)
qed

end

section \<open>Resolution of omitted positions, over both traits\<close>

locale positioned_input =
  fixes I :: "'i PositionedInput"
  assumes input_position_set: "input_position I (set_input_position I p x) = Some p"
    and input_ident_set: "input_ident I (set_input_position I p x) = input_ident I x"
begin

lemma resolve_loop_idents: "map (input_ident I) (resolve_loop I m next xs) = map (input_ident I) xs"
  by (induction xs arbitrary: "next") (auto simp: input_ident_set split: option.splits)

lemma resolve_loop_existing:
  "y \<in> set (resolve_loop I m next xs) \<Longrightarrow> hget m (input_ident I y) = Some p \<Longrightarrow> input_position I y = Some p"
  by (induction xs arbitrary: "next")
     (auto simp: input_position_set input_ident_set split: option.splits)

lemma resolve_loop_mset:
  assumes "0 \<le> next" and "next + int (length xs) < 2 ^ 31"
  shows "mset (List.map_filter (input_position I) (resolve_loop I m next xs)) =
    mset (map (\<lambda>x. the (hget m (input_ident I x))) (filter (\<lambda>x. hget m (input_ident I x) \<noteq> None) xs)) +
    mset (map (\<lambda>i. next + int i) [0..<length (filter (\<lambda>x. hget m (input_ident I x) = None) xs)])"
  using assms
proof (induction xs arbitrary: "next")
  case (Cons x xs)
  let ?new = "length (filter (\<lambda>x. hget m (input_ident I x) = None) xs)"
  have "map (\<lambda>i. next + int i) [0..<Suc ?new] = next # map (\<lambda>i. next + 1 + int i) [0..<?new]"
    by (simp add: upt_conv_Cons map_Suc_upt [symmetric] del: upt_Suc)
  with Cons.IH [of "next"] Cons.IH [of "next + 1"] Cons.prems show ?case
    by (cases "hget m (input_ident I x)")
       (simp_all add: map_filter_simps input_position_set input_ident_set del: upt_Suc)
qed (simp add: map_filter_simps)

end

locale position_resolution = positioned D + positioned_input I
  for D :: "'e Positioned" and I :: "'i PositionedInput"
begin

lemma hget_existing_aux:
  "k \<notin> ident D ` set es \<Longrightarrow>
   hget (fold (\<lambda>e m. hinsert (ident D e) (position D e) m) es m) k = hget m k"
  by (induction es arbitrary: m) (auto simp: lookup_simps)

lemma hget_existing:
  assumes "distinct (map (ident D) es)"
  shows "e \<in> set es \<Longrightarrow> hget (existing_by_id D es) (ident D e) = Some (position D e)"
    and "k \<notin> ident D ` set es \<Longrightarrow> hget (existing_by_id D es) k = None"
proof -
  have "hget (fold (\<lambda>e m. hinsert (ident D e) (position D e) m) es m) (ident D e) = Some (position D e)"
    if "e \<in> set es" for m e
    using assms that
  proof (induction es arbitrary: m)
    case (Cons a es)
    show ?case
    proof (cases "e = a")
      case True
      with Cons.prems show ?thesis by (simp add: hget_existing_aux lookup_simps)
    next
      case False
      with Cons show ?thesis by simp
    qed
  qed simp
  then show "e \<in> set es \<Longrightarrow> hget (existing_by_id D es) (ident D e) = Some (position D e)"
    by (simp add: existing_by_id_def)
  show "k \<notin> ident D ` set es \<Longrightarrow> hget (existing_by_id D es) k = None"
    by (simp add: existing_by_id_def hget_existing_aux lookup_simps)
qed

lemma hget_existing_iff:
  assumes "distinct (map (ident D) es)"
  shows "hget (existing_by_id D es) k \<noteq> None \<longleftrightarrow> k \<in> ident D ` set es"
  using hget_existing [OF assms] by (cases "k \<in> ident D ` set es") fastforce+

lemma matched_positions:
  assumes "distinct (map (ident D) es)" and "distinct (map (input_ident I) xs)"
    and "ident D ` set es \<subseteq> input_ident I ` set xs"
  shows "mset (map (\<lambda>x. the (hget (existing_by_id D es) (input_ident I x)))
      (filter (\<lambda>x. hget (existing_by_id D es) (input_ident I x) \<noteq> None) xs)) = mset (map (position D) es)"
proof -
  let ?m = "existing_by_id D es" and ?ys = "filter (\<lambda>x. hget (existing_by_id D es) (input_ident I x) \<noteq> None) xs"
  have d: "distinct (map (input_ident I) ?ys)" using assms(2) by (rule distinct_map_filter)
  have "?ys = filter (\<lambda>x. input_ident I x \<in> ident D ` set es) xs"
    by (simp only: hget_existing_iff [OF assms(1)])
  then have "set (map (input_ident I) ?ys) = input_ident I ` set xs \<inter> ident D ` set es" by auto
  then have "set (map (input_ident I) ?ys) = ident D ` set es"
    using assms(3) by (simp only: Int_absorb1)
  then have "mset (map (input_ident I) ?ys) = mset (map (ident D) es)"
    using d assms(1) by (metis list.set_map set_eq_iff_mset_eq_distinct)
  then have "image_mset (\<lambda>k. the (hget ?m k)) (mset (map (input_ident I) ?ys)) =
    image_mset (\<lambda>k. the (hget ?m k)) (mset (map (ident D) es))" by simp
  then have "mset (map (\<lambda>x. the (hget ?m (input_ident I x))) ?ys) =
    mset (map (\<lambda>e. the (hget ?m (ident D e))) es)"
    by (simp add: multiset.map_comp comp_def)
  also have "map (\<lambda>e. the (hget ?m (ident D e))) es = map (position D) es"
    by (simp add: hget_existing(1) [OF assms(1)])
  finally show ?thesis .
qed

lemma resolve_covering_valid:
  assumes valid: "pos_valid es" and ids: "distinct (map (ident D) es)" "distinct (map (input_ident I) xs)"
    and omitted: "\<forall>x \<in> set xs. input_position I x = None"
    and cover: "ident D ` set es \<subseteq> input_ident I ` set xs" and ne: "xs \<noteq> []"
    and len: "length es + length xs < 2 ^ 31"
  shows "\<exists>ys. resolve_and_validate_input_positions I D xs es n = Inr ys \<and>
    map (input_ident I) ys = map (input_ident I) xs \<and>
    validate_input_positions I ys n = Inr () \<and>
    (\<forall>y \<in> set ys. \<forall>e \<in> set es. input_ident I y = ident D e \<longrightarrow> input_position I y = Some (position D e))"
proof -
  let ?m = "existing_by_id D es" and ?ys = "resolve_loop I (existing_by_id D es) (as_i32 (length es)) xs"
  let ?old = "filter (\<lambda>x. hget ?m (input_ident I x) \<noteq> None) xs"
    and ?new = "filter (\<lambda>x. hget ?m (input_ident I x) = None) xs"
  have res: "resolve_and_validate_input_positions I D xs es n = Inr ?ys"
    using omitted ne by (simp add: resolve_and_validate_input_positions_def Let_def)
  have old: "mset (map (\<lambda>x. the (hget ?m (input_ident I x))) ?old) = mset (map int [0..<length es])"
    using matched_positions [OF ids cover] valid by (simp only: pos_valid_def)
  from mset_eq_length [OF this] have "length ?old = length es" by simp
  then have total: "length xs = length es + length ?new"
    using sum_length_filter_compl [of "\<lambda>x. hget ?m (input_ident I x) \<noteq> None" xs] by simp
  have "mset (List.map_filter (input_position I) ?ys) =
    mset (map int [0..<length es]) + mset (map (\<lambda>i. int (length es) + int i) [0..<length ?new])"
    using resolve_loop_mset [of "as_i32 (length es)" xs ?m] old len by simp
  also have "map (\<lambda>i. int (length es) + int i) [0..<length ?new] = map int [length es..<length xs]"
    unfolding total by (rule nth_equalityI) simp_all
  also have "mset (map int [0..<length es]) + mset (map int [length es..<length xs]) =
    mset (map int [0..<length xs])"
    unfolding total mset_append [symmetric] map_append [symmetric]
    by (simp only: upt_add_eq_append [of 0 "length es", simplified, symmetric])
  finally have mset: "mset (List.map_filter (input_position I) ?ys) = mset (map int [0..<length xs])" .
  from mset_eq_length [OF this] have "length (List.map_filter (input_position I) ?ys) = length xs"
    by simp
  with mset len have "validate_input_positions I ?ys n = Inr ()"
    by (simp add: validate_input_positions_def validate_sequential_iff)
  moreover have "\<forall>y \<in> set ?ys. \<forall>e \<in> set es. input_ident I y = ident D e \<longrightarrow> input_position I y = Some (position D e)"
    using resolve_loop_existing hget_existing(1) [OF ids(1)] by metis
  ultimately show ?thesis using res resolve_loop_idents by blast
qed

end

end
