(* ===== verification/Bindings.thy ===== *)
theory Bindings
  imports Entity_Types
begin

text \<open>
  Bindings of a service to an interface or to a port (\<open>server/bindings/impl/base.rs\<close>):
  the two kinds, the constructors and accessors, the equality (by kind and targets) and
  what the hash sees.
\<close>

datatype BindingType =
    InterfaceBinding uuid
  | PortBinding uuid "uuid option"

record BindingBase =
  bb_service_id :: uuid
  bb_network_id :: uuid
  bb_binding_type :: BindingType

record Binding =
  binding_id :: uuid
  binding_created_at :: timestamp
  binding_updated_at :: timestamp
  binding_base :: BindingBase

definition bindingbase_new :: "uuid \<Rightarrow> uuid \<Rightarrow> BindingType \<Rightarrow> BindingBase" where
  "bindingbase_new s n t = \<lparr>bb_service_id = s, bb_network_id = n, bb_binding_type = t\<rparr>"

definition bindingbase_new_serviceless :: "BindingType \<Rightarrow> BindingBase" where
  "bindingbase_new_serviceless t =
     \<lparr>bb_service_id = uuid_nil, bb_network_id = uuid_nil, bb_binding_type = t\<rparr>"

definition default_binding_type :: BindingType where
  "default_binding_type = PortBinding uuid_nil (Some uuid_nil)"

definition binding_new :: "uuid \<Rightarrow> timestamp \<Rightarrow> BindingBase \<Rightarrow> Binding" where
  "binding_new fresh now b =
     \<lparr>binding_id = fresh, binding_created_at = now, binding_updated_at = now, binding_base = b\<rparr>"

definition binding_new_serviceless :: "uuid \<Rightarrow> timestamp \<Rightarrow> BindingType \<Rightarrow> Binding" where
  "binding_new_serviceless fresh now t = binding_new fresh now (bindingbase_new_serviceless t)"

definition binding_type :: "Binding \<Rightarrow> BindingType" where
  "binding_type b = bb_binding_type (binding_base b)"

definition binding_interface_id :: "Binding \<Rightarrow> uuid option" where
  "binding_interface_id b =
     (case binding_type b of InterfaceBinding i \<Rightarrow> Some i | PortBinding _ i \<Rightarrow> i)"

definition binding_port_id :: "Binding \<Rightarrow> uuid option" where
  "binding_port_id b =
     (case binding_type b of InterfaceBinding _ \<Rightarrow> None | PortBinding p _ \<Rightarrow> Some p)"

definition binding_with_service :: "Binding \<Rightarrow> uuid \<Rightarrow> uuid \<Rightarrow> Binding" where
  "binding_with_service b s n =
     b\<lparr>binding_base := (binding_base b)\<lparr>bb_service_id := s, bb_network_id := n\<rparr>\<rparr>"

definition new_interface :: "uuid \<Rightarrow> timestamp \<Rightarrow> uuid \<Rightarrow> uuid \<Rightarrow> uuid \<Rightarrow> Binding" where
  "new_interface fresh now s n i = binding_new fresh now (bindingbase_new s n (InterfaceBinding i))"

definition new_port :: "uuid \<Rightarrow> timestamp \<Rightarrow> uuid \<Rightarrow> uuid \<Rightarrow> uuid \<Rightarrow> uuid option \<Rightarrow> Binding" where
  "new_port fresh now s n p i = binding_new fresh now (bindingbase_new s n (PortBinding p i))"

definition new_interface_serviceless :: "uuid \<Rightarrow> timestamp \<Rightarrow> uuid \<Rightarrow> Binding" where
  "new_interface_serviceless fresh now i = binding_new_serviceless fresh now (InterfaceBinding i)"

definition new_port_serviceless :: "uuid \<Rightarrow> timestamp \<Rightarrow> uuid \<Rightarrow> uuid option \<Rightarrow> Binding" where
  "new_port_serviceless fresh now p i = binding_new_serviceless fresh now (PortBinding p i)"

definition binding_eq :: "Binding \<Rightarrow> Binding \<Rightarrow> bool" where
  \<comment> \<open>\<open>BindingBase\<close> compares the binding type only, \<open>Binding\<close> compares its base\<close>
  "binding_eq a b \<longleftrightarrow> binding_type a = binding_type b"

definition binding_hash :: "Binding \<Rightarrow> uuid" where
  \<comment> \<open>what \<open>impl Hash for Binding\<close> feeds to the hasher\<close>
  "binding_hash b = binding_id b"

definition binding_triggers_staleness :: "Binding \<Rightarrow> Binding option \<Rightarrow> bool" where
  "binding_triggers_staleness b other =
     (case other of
        Some c \<Rightarrow> binding_type b \<noteq> binding_type c \<or>
                  bb_service_id (binding_base b) \<noteq> bb_service_id (binding_base c)
      | None \<Rightarrow> True)"

definition binding_display :: "Binding \<Rightarrow> string" where
  "binding_display b =
     (case binding_type b of
        InterfaceBinding i \<Rightarrow>
          ''Interface binding '' @ uuid_display (binding_id b) @ '' -> '' @ uuid_display i
      | PortBinding p (Some i) \<Rightarrow>
          ''Port binding '' @ uuid_display (binding_id b) @ '' -> '' @ uuid_display p @
          '' (interface '' @ uuid_display i @ '')''
      | PortBinding p None \<Rightarrow>
          ''Port binding '' @ uuid_display (binding_id b) @ '' -> '' @ uuid_display p @
          '' (all interfaces)'')"

section \<open>Accessors after construction\<close>

lemma binding_new_simps [simp]:
  "binding_id (binding_new f now b) = f"
  "binding_base (binding_new f now b) = b"
  "binding_type (binding_new_serviceless f now t) = t"
  "binding_type (new_port_serviceless f now p i) = PortBinding p i"
  "binding_type (new_interface_serviceless f now j) = InterfaceBinding j"
  "binding_type (new_port f now s n p i) = PortBinding p i"
  "binding_type (new_interface f now s n j) = InterfaceBinding j"
  by (simp_all add: binding_new_def binding_type_def binding_new_serviceless_def
      bindingbase_new_serviceless_def bindingbase_new_def new_port_serviceless_def
      new_interface_serviceless_def new_port_def new_interface_def)

lemma binding_port_id_Some: "binding_port_id b = Some p \<longleftrightarrow> (\<exists>i. binding_type b = PortBinding p i)"
  by (cases "binding_type b") (auto simp: binding_port_id_def)

lemma binding_with_service_type [simp]: "binding_type (binding_with_service b s n) = binding_type b"
  by (simp add: binding_with_service_def binding_type_def)

end
