(* ===== verification/Interfaces.thy ===== *)
theory Interfaces
  imports Entity_Types Position
begin

text \<open>
  Interfaces of a host (\<open>server/interfaces/impl/base.rs\<close>), the request type
  \<open>InterfaceInput\<close> (\<open>server/hosts/impl/api.rs\<close>), and their implementations of the two
  position traits: the interpretations that put the laws of \<open>Position\<close> on real types.
\<close>

section \<open>The Interface entity\<close>

record InterfaceBase =
  ib_network_id :: uuid
  ib_host_id :: uuid
  ib_subnet_id :: uuid
  ib_ip_address :: IpAddr
  ib_mac_address :: "MacAddress option"
  ib_name :: "string option"
  ib_position :: i32

record Interface =
  interface_id :: uuid
  interface_created_at :: timestamp
  interface_updated_at :: timestamp
  interface_base :: InterfaceBase

definition interface_new :: "uuid \<Rightarrow> timestamp \<Rightarrow> InterfaceBase \<Rightarrow> Interface" where
  "interface_new fresh now b =
     \<lparr>interface_id = fresh, interface_created_at = now, interface_updated_at = now, interface_base = b\<rparr>"

definition interface_eq :: "Interface \<Rightarrow> Interface \<Rightarrow> bool" where
  "interface_eq a b \<longleftrightarrow>
     (let x = interface_base a; y = interface_base b in
      (ib_ip_address x = ib_ip_address y \<and> ib_subnet_id x = ib_subnet_id y) \<or>
      (ib_mac_address x = ib_mac_address y \<and> ib_mac_address x \<noteq> None \<and> ib_mac_address y \<noteq> None) \<or>
      interface_id a = interface_id b)"

definition interface_hash :: "Interface \<Rightarrow> IpAddr \<times> uuid \<times> MacAddress option" where
  \<comment> \<open>what \<open>impl Hash\<close> feeds to the hasher\<close>
  "interface_hash a =
     (let x = interface_base a in (ib_ip_address x, ib_subnet_id x, ib_mac_address x))"

definition interface_triggers_staleness :: "Interface \<Rightarrow> Interface option \<Rightarrow> bool" where
  "interface_triggers_staleness a other =
     (case other of
        Some b \<Rightarrow> (let x = interface_base a; y = interface_base b in
            ib_ip_address x \<noteq> ib_ip_address y \<or> ib_subnet_id x \<noteq> ib_subnet_id y \<or>
            ib_host_id x \<noteq> ib_host_id y)
      | None \<Rightarrow> True)"

definition interface_positioned :: "Interface Positioned" where
  \<comment> \<open>\<open>impl Positioned for Interface\<close>\<close>
  "interface_positioned =
     \<lparr>position = (\<lambda>i. ib_position (interface_base i)),
      set_position = (\<lambda>p i. i\<lparr>interface_base := (interface_base i)\<lparr>ib_position := p\<rparr>\<rparr>),
      ident = interface_id,
      entity_name = ''interface''\<rparr>"

section \<open>The request type\<close>

record InterfaceInput =
  ii_id :: uuid
  ii_subnet_id :: uuid
  ii_ip_address :: IpAddr
  ii_mac_address :: "MacAddress option"
  ii_name :: "string option"
  ii_position :: "i32 option"

definition into_interface :: "timestamp \<Rightarrow> InterfaceInput \<Rightarrow> uuid \<Rightarrow> uuid \<Rightarrow> Interface" where
  "into_interface now i host network =
     \<lparr>interface_id = ii_id i, interface_created_at = now, interface_updated_at = now,
      interface_base =
        \<lparr>ib_network_id = network, ib_host_id = host, ib_subnet_id = ii_subnet_id i,
         ib_ip_address = ii_ip_address i, ib_mac_address = ii_mac_address i, ib_name = ii_name i,
         ib_position = (case ii_position i of Some p \<Rightarrow> p | None \<Rightarrow> 0)\<rparr>\<rparr>"

definition interface_input_positioned :: "InterfaceInput PositionedInput" where
  \<comment> \<open>\<open>impl PositionedInput for InterfaceInput\<close>\<close>
  "interface_input_positioned =
     \<lparr>input_position = ii_position, set_input_position = (\<lambda>p i. i\<lparr>ii_position := Some p\<rparr>),
      input_ident = ii_id\<rparr>"

interpretation intf: position_resolution interface_positioned interface_input_positioned
  by unfold_locales (simp_all add: interface_positioned_def interface_input_positioned_def)

section \<open>Equality and hashing\<close>

lemma interface_eq_refl: "interface_eq a a"
  by (simp add: interface_eq_def Let_def)

lemma interface_eq_sym: "interface_eq a b \<Longrightarrow> interface_eq b a"
  by (auto simp: interface_eq_def Let_def)

lemma into_interface_keeps:
  "interface_id (into_interface now i h n) = ii_id i"
  "ib_host_id (interface_base (into_interface now i h n)) = h"
  "ii_position i = Some p \<Longrightarrow> position interface_positioned (into_interface now i h n) = p"
  by (simp_all add: into_interface_def interface_positioned_def)

end
