(* ===== verification/Subnets.thy ===== *)
theory Subnets
  imports Entity_Types
begin

text \<open>
  Subnets (\<open>server/subnets/impl/types.rs\<close>, \<open>server/subnets/impl/base.rs\<close>): the subnet types,
  the classification of an interface by its name, the subnet entity with its construction from
  a discovered network, its equality and what its hash sees. The CIDR type and the functions
  of the \<open>cidr\<close> and \<open>ipnetwork\<close> crates are a parameter.
\<close>

section \<open>Subnet types\<close>

datatype SubnetType =
    ST_Internet | ST_Remote | ST_Gateway | ST_VpnTunnel | ST_Dmz | ST_Lan | ST_WiFi | ST_IoT | ST_Guest
  | ST_DockerBridge | ST_MacVlan | ST_IpVlan | ST_Management | ST_Storage | ST_Unknown | ST_None

definition all_subnet_types :: "SubnetType list" where
  "all_subnet_types =
     [ST_Internet, ST_Remote, ST_Gateway, ST_VpnTunnel, ST_Dmz, ST_Lan, ST_WiFi, ST_IoT, ST_Guest,
      ST_DockerBridge, ST_MacVlan, ST_IpVlan, ST_Management, ST_Storage, ST_Unknown, ST_None]"

primrec subnet_type_id :: "SubnetType \<Rightarrow> string" where
  "subnet_type_id ST_Internet = ''Internet''"
| "subnet_type_id ST_Remote = ''Remote''"
| "subnet_type_id ST_Gateway = ''Gateway''"
| "subnet_type_id ST_VpnTunnel = ''VpnTunnel''"
| "subnet_type_id ST_Dmz = ''Dmz''"
| "subnet_type_id ST_Lan = ''Lan''"
| "subnet_type_id ST_WiFi = ''WiFi''"
| "subnet_type_id ST_IoT = ''IoT''"
| "subnet_type_id ST_Guest = ''Guest''"
| "subnet_type_id ST_DockerBridge = ''DockerBridge''"
| "subnet_type_id ST_MacVlan = ''MacVlan''"
| "subnet_type_id ST_IpVlan = ''IpVlan''"
| "subnet_type_id ST_Management = ''Management''"
| "subnet_type_id ST_Storage = ''Storage''"
| "subnet_type_id ST_Unknown = ''Unknown''"
| "subnet_type_id ST_None = ''None''"

definition subnet_type_from_str :: "string \<Rightarrow> string + SubnetType" where
  "subnet_type_from_str s =
     (if s = ''Internet'' then Inr ST_Internet else if s = ''Remote'' then Inr ST_Remote
      else if s = ''Gateway'' then Inr ST_Gateway else if s = ''VpnTunnel'' then Inr ST_VpnTunnel
      else if s = ''Dmz'' then Inr ST_Dmz else if s = ''Lan'' then Inr ST_Lan
      else if s = ''WiFi'' then Inr ST_WiFi else if s = ''IoT'' then Inr ST_IoT
      else if s = ''Guest'' then Inr ST_Guest else if s = ''DockerBridge'' then Inr ST_DockerBridge
      else if s = ''MacVlan'' then Inr ST_MacVlan else if s = ''IpVlan'' then Inr ST_IpVlan
      else if s = ''Management'' then Inr ST_Management else if s = ''Storage'' then Inr ST_Storage
      else if s = ''Unknown'' then Inr ST_Unknown else if s = ''None'' then Inr ST_None
      else Inl (''Unknown SubnetType: '' @ s))"

primrec subnet_type_name :: "SubnetType \<Rightarrow> string" where
  "subnet_type_name ST_Internet = ''Internet''"
| "subnet_type_name ST_Remote = ''Remote''"
| "subnet_type_name ST_Gateway = ''Gateway''"
| "subnet_type_name ST_VpnTunnel = ''VPN''"
| "subnet_type_name ST_Dmz = ''DMZ''"
| "subnet_type_name ST_Lan = ''LAN''"
| "subnet_type_name ST_WiFi = ''WiFi''"
| "subnet_type_name ST_IoT = ''IoT''"
| "subnet_type_name ST_Guest = ''Guest''"
| "subnet_type_name ST_DockerBridge = ''Docker Bridge''"
| "subnet_type_name ST_MacVlan = ''MacVLAN''"
| "subnet_type_name ST_IpVlan = ''IpVLAN''"
| "subnet_type_name ST_Management = ''Management''"
| "subnet_type_name ST_Storage = ''Storage''"
| "subnet_type_name ST_Unknown = ''Unknown''"
| "subnet_type_name ST_None = ''No Subnet''"

primrec subnet_type_description :: "SubnetType \<Rightarrow> string" where
  "subnet_type_description ST_Internet = ''Internet''"
| "subnet_type_description ST_Remote = ''Remote network''"
| "subnet_type_description ST_Gateway = ''Gateway subnet''"
| "subnet_type_description ST_VpnTunnel = ''Virtual private network''"
| "subnet_type_description ST_Dmz = ''Demilitarized zone''"
| "subnet_type_description ST_Lan = ''Local area network''"
| "subnet_type_description ST_WiFi = ''WiFi network''"
| "subnet_type_description ST_IoT = ''Internet of things''"
| "subnet_type_description ST_Guest = ''Guest network''"
| "subnet_type_description ST_DockerBridge = ''Docker bridge network''"
| "subnet_type_description ST_MacVlan = ''MacVLAN network''"
| "subnet_type_description ST_IpVlan = ''IpVLAN network''"
| "subnet_type_description ST_Management = ''Management network''"
| "subnet_type_description ST_Storage = ''Storage network''"
| "subnet_type_description ST_Unknown = ''Unknown network type''"
| "subnet_type_description ST_None = ''No Subnet''"

definition network_scan_discovery_eligible :: "SubnetType \<Rightarrow> bool" where
  "network_scan_discovery_eligible t \<longleftrightarrow> \<not> (t = ST_Remote \<or> t = ST_Internet \<or> t = ST_DockerBridge)"

definition is_for_containers :: "SubnetType \<Rightarrow> bool" where
  "is_for_containers t \<longleftrightarrow> t = ST_DockerBridge \<or> t = ST_MacVlan \<or> t = ST_IpVlan"

definition is_docker_bridge :: "SubnetType \<Rightarrow> bool" where
  "is_docker_bridge t \<longleftrightarrow> t = ST_DockerBridge"

definition is_vlan_network :: "SubnetType \<Rightarrow> bool" where
  "is_vlan_network t \<longleftrightarrow> t = ST_MacVlan \<or> t = ST_IpVlan"

lemma all_subnet_types_complete: "t \<in> set all_subnet_types"
  by (cases t) (simp_all add: all_subnet_types_def)

lemma subnet_type_roundtrip: "subnet_type_from_str (subnet_type_id t) = Inr t"
  by (cases t) (simp_all add: subnet_type_from_str_def)

section \<open>Classification by interface name\<close>

definition matches_interface_name :: "string \<Rightarrow> string \<Rightarrow> bool" where
  \<comment> \<open>one pattern against the lower-case name\<close>
  "matches_interface_name name_lower pattern =
     (if pattern = ''br-'' \<or> pattern = ''docker-''
      then starts_with name_lower pattern \<and>
           (let rest = drop (length pattern) name_lower in rest \<noteq> [] \<and> list_all is_alphanumeric rest)
      else starts_with name_lower pattern \<and>
           (case drop (length pattern) name_lower of [] \<Rightarrow> True | c # _ \<Rightarrow> is_digit c))"

definition match_interface_names :: "string list \<Rightarrow> string \<Rightarrow> bool" where
  "match_interface_names patterns nm = list_ex (matches_interface_name (to_lowercase nm)) patterns"

definition from_interface_name :: "string \<Rightarrow> SubnetType" where
  "from_interface_name nm =
     (if match_interface_names [''docker'', ''br-'', ''docker''] nm then ST_DockerBridge
      else if match_interface_names [''tun'', ''utun'', ''wg'', ''tap'', ''ppp'', ''vpn''] nm then ST_VpnTunnel
      else if match_interface_names [''wlan'', ''wifi'', ''wl''] nm then ST_WiFi
      else if match_interface_names [''guest''] nm then ST_Guest
      else if match_interface_names [''iot''] nm then ST_IoT
      else if match_interface_names [''dmz''] nm then ST_Dmz
      else if match_interface_names [''mgmt'', ''ipmi'', ''bmc''] nm then ST_Management
      else if match_interface_names [''iscsi'', ''san'', ''storage''] nm then ST_Storage
      else if match_interface_names [''macvlan'', ''mvlan''] nm then ST_MacVlan
      else if match_interface_names [''ipvlan''] nm then ST_IpVlan
      else if match_interface_names [''eth'', ''en'', ''eno'', ''enp'', ''ens'', ''br''] nm then ST_Lan
      else ST_Unknown)"

lemma match_interface_names_lowercase:
  "match_interface_names ps (to_lowercase nm) = match_interface_names ps nm"
  by (simp add: match_interface_names_def)

lemma from_interface_name_lowercase: "from_interface_name (to_lowercase nm) = from_interface_name nm"
  by (simp only: from_interface_name_def match_interface_names_lowercase)

lemma starts_with_append [simp]: "starts_with (p @ s) p"
  by (simp add: starts_with_iff)

lemma char_lower_digit: "is_digit c \<Longrightarrow> char_lower c = c"
  by (simp add: char_lower_def is_digit_def)

lemma char_lower_letters:
  "char_lower CHR ''b'' = CHR ''b''" "char_lower CHR ''r'' = CHR ''r''" "char_lower CHR ''-'' = CHR ''-''"
  by (simp_all add: char_lower_def)

lemma char_lower_alnum: "is_alphanumeric c \<Longrightarrow> is_alphanumeric (char_lower c)"
  by (auto simp: char_lower_def is_alphanumeric_def Let_def)

text \<open>A bridge followed by a digit matches \<open>br\<close> alone of all the patterns.\<close>

lemma bridge_digit_match:
  fixes nm :: string
  assumes "is_digit c" and nm_def: "nm = ''br'' @ c # ds"
  shows "matches_interface_name nm ''br''" "\<not> matches_interface_name nm ''br-''"
    "\<forall>p \<in> {''docker'', ''tun'', ''utun'', ''wg'', ''tap'', ''ppp'', ''vpn'', ''wlan'', ''wifi'', ''wl'', ''guest'',
       ''iot'', ''dmz'', ''mgmt'', ''ipmi'', ''iscsi'', ''san'', ''storage'', ''macvlan'', ''mvlan'', ''ipvlan'',
       ''eth'', ''en'', ''eno'', ''enp'', ''ens'', ''bmc''}. \<not> matches_interface_name nm p"
proof -
  have c: "c \<noteq> CHR ''-''" using assms(1) by (auto simp: is_digit_def)
  show "matches_interface_name nm ''br''" using assms(1) by (simp add: nm_def matches_interface_name_def)
  show "\<not> matches_interface_name nm ''br-''" using c by (simp add: nm_def matches_interface_name_def)
  have start: "\<not> starts_with nm p \<Longrightarrow> \<not> matches_interface_name nm p" for p
    by (simp add: matches_interface_name_def)
  show "\<forall>p \<in> {''docker'', ''tun'', ''utun'', ''wg'', ''tap'', ''ppp'', ''vpn'', ''wlan'', ''wifi'', ''wl'', ''guest'',
       ''iot'', ''dmz'', ''mgmt'', ''ipmi'', ''iscsi'', ''san'', ''storage'', ''macvlan'', ''mvlan'', ''ipvlan'',
       ''eth'', ''en'', ''eno'', ''enp'', ''ens'', ''bmc''}. \<not> matches_interface_name nm p"
    by (intro ballI start, elim insertE emptyE) (simp_all add: nm_def)
qed

section \<open>The subnet entity\<close>

text \<open>
  The functions of the address crates the code calls: \<open>Ipv4Cidr::new\<close> (which fails when the
  host part is not zero), its printing and its membership test, and \<open>Ipv4Network::network\<close>.
\<close>

record 'c CidrOps =
  cidr_v4_new :: "32 word \<Rightarrow> nat \<Rightarrow> 'c option"
  cidr_display :: "'c \<Rightarrow> string"
  cidr_contains :: "'c \<Rightarrow> IpAddr \<Rightarrow> bool"
  ipv4_network :: "32 word \<Rightarrow> nat \<Rightarrow> 32 word"

datatype IpNetwork = NetV4 "32 word" nat | NetV6 "128 word" nat

record 'c SubnetBase =
  sb_cidr :: 'c
  sb_network_id :: uuid
  sb_name :: string
  sb_description :: "string option"
  sb_subnet_type :: SubnetType
  sb_source :: EntitySource
  sb_tags :: "uuid list"

record 'c Subnet =
  subnet_id :: uuid
  subnet_created_at :: timestamp
  subnet_updated_at :: timestamp
  subnet_base :: "'c SubnetBase"

definition subnet_new :: "uuid \<Rightarrow> timestamp \<Rightarrow> 'c SubnetBase \<Rightarrow> 'c Subnet" where
  "subnet_new fresh now b =
     \<lparr>subnet_id = fresh, subnet_created_at = now, subnet_updated_at = now, subnet_base = b\<rparr>"

definition is_docker_bridge_subnet :: "'c Subnet \<Rightarrow> bool" where
  "is_docker_bridge_subnet s \<longleftrightarrow> sb_subnet_type (subnet_base s) = ST_DockerBridge"

definition is_vpn_subnet :: "'c Subnet \<Rightarrow> bool" where
  "is_vpn_subnet s \<longleftrightarrow> sb_subnet_type (subnet_base s) = ST_VpnTunnel"

definition clear_last_octet :: "32 word \<Rightarrow> 32 word" where
  "clear_last_octet a = push_bit 8 (drop_bit 8 a)"

definition discovered_prefix ::
    "'c CidrOps \<Rightarrow> SubnetType \<Rightarrow> 32 word \<Rightarrow> nat \<Rightarrow> (32 word \<times> nat) option" where
  "discovered_prefix C t addr prefix =
     (if prefix = 32
      then (if t = ST_VpnTunnel then Some (clear_last_octet addr, 24) else None)
      else Some (ipv4_network C addr prefix, prefix))"

definition subnet_from_discovery ::
    "'c CidrOps \<Rightarrow> uuid \<Rightarrow> timestamp \<Rightarrow> string \<Rightarrow> IpNetwork \<Rightarrow> uuid \<Rightarrow> DiscoveryType \<Rightarrow> uuid \<Rightarrow> 'c Subnet option" where
  "subnet_from_discovery C fresh now interface_name net daemon t network =
     (let st = from_interface_name interface_name in
      case net of
        NetV6 _ _ \<Rightarrow> None
      | NetV4 addr prefix \<Rightarrow>
          Option.bind (discovered_prefix C st addr prefix) (\<lambda>(network_addr, prefix_len).
          Option.bind (cidr_v4_new C network_addr prefix_len) (\<lambda>cidr.
            Some (subnet_new fresh now
              \<lparr>sb_cidr = cidr, sb_network_id = network, sb_name = cidr_display C cidr,
               sb_description = None, sb_subnet_type = st,
               sb_source = Discovered [discovery_metadata_new now t daemon], sb_tags = []\<rparr>))))"

definition is_organizational_subnet :: "'c CidrOps \<Rightarrow> 'c Subnet \<Rightarrow> bool" where
  "is_organizational_subnet C s \<longleftrightarrow> Some (sb_cidr (subnet_base s)) = cidr_v4_new C 0 0"

definition subnet_eq :: "'c Subnet \<Rightarrow> 'c Subnet \<Rightarrow> bool" where
  "subnet_eq a b \<longleftrightarrow>
     (sb_cidr (subnet_base a) = sb_cidr (subnet_base b) \<and>
      sb_network_id (subnet_base a) = sb_network_id (subnet_base b)) \<or>
     subnet_id a = subnet_id b"

definition subnet_hash :: "'c Subnet \<Rightarrow> 'c" where
  \<comment> \<open>what \<open>impl Hash\<close> feeds to the hasher\<close>
  "subnet_hash s = sb_cidr (subnet_base s)"

definition subnet_triggers_staleness :: "'c Subnet \<Rightarrow> 'c Subnet option \<Rightarrow> bool" where
  "subnet_triggers_staleness s other = False"

lemma subnet_eq_refl [simp]: "subnet_eq s s"
  by (simp add: subnet_eq_def)

lemma subnet_eq_sym: "subnet_eq a b \<Longrightarrow> subnet_eq b a"
  by (auto simp: subnet_eq_def)

lemma clear_last_octet_octets:
  "octets (clear_last_octet a) = [octets a ! 0, octets a ! 1, octets a ! 2, 0]"
proof -
  have lt: "unat a div 2 ^ 8 * 2 ^ 8 < 2 ^ 32"
  proof -
    have "unat a div 2 ^ 8 * 2 ^ 8 \<le> unat a" by simp
    also have "\<dots> < 2 ^ 32" using unsigned_less [of a, where ?'a = nat] by simp
    finally show ?thesis .
  qed
  then have u: "unat (clear_last_octet a) = unat a div 2 ^ 8 * 2 ^ 8"
    unfolding clear_last_octet_def unsigned_push_bit_eq unsigned_drop_bit_eq
    by (simp add: push_bit_eq_mult drop_bit_eq_div take_bit_eq_mod)
  have d: "unat a div 256 * 256 div 2 ^ (8 + k) = unat a div 2 ^ (8 + k)" for k
    by (simp add: power_add div_mult2_eq)
  show ?thesis
    using d [of 16] d [of 8] d [of 0] by (simp add: octets_def u)
qed

text \<open>
  The prefix a discovered network is kept with: VPN hosts are widened to their /24, any other
  single address is dropped.
\<close>

lemma discovered_prefix_32:
  "discovered_prefix C t addr 32 = (if t = ST_VpnTunnel then Some (clear_last_octet addr, 24) else None)"
  by (simp add: discovered_prefix_def)

lemma subnet_from_discovery_Some:
  assumes "subnet_from_discovery C fresh now nm net daemon t network = Some s"
  obtains addr prefix a n where "net = NetV4 addr prefix"
    "discovered_prefix C (from_interface_name nm) addr prefix = Some (a, n)"
    "cidr_v4_new C a n = Some (sb_cidr (subnet_base s))"
    "sb_subnet_type (subnet_base s) = from_interface_name nm"
    "sb_source (subnet_base s) = Discovered [discovery_metadata_new now t daemon]"
    "sb_network_id (subnet_base s) = network"
  using assms
  by (auto simp: subnet_from_discovery_def Let_def subnet_new_def bind_eq_Some_conv split: IpNetwork.splits)

section \<open>Properties\<close>

text \<open>
  The type of a subnet depends on its interface's name only up to letter case, and a
  bridge is told apart by the hyphen: \<open>br-\<close> followed by letters or digits is Docker's, \<open>br\<close>
  followed by a digit is a LAN bridge.
\<close>

theorem interface_name_bridges:
  assumes "list_all is_alphanumeric h" "h \<noteq> []" "is_digit c"
  shows "from_interface_name (''br-'' @ h) = ST_DockerBridge \<and>
    from_interface_name (''br'' @ c # ds) = ST_Lan \<and>
    from_interface_name (to_lowercase nm) = from_interface_name nm"
proof -
  have low: "to_lowercase (''br-'' @ h) = ''br-'' @ map char_lower h"
    "to_lowercase (''br'' @ c # ds) = ''br'' @ c # map char_lower ds"
    by (simp_all add: to_lowercase_def char_lower_letters char_lower_digit [OF assms(3)])
  have h: "list_all is_alphanumeric (map char_lower h)" "map char_lower h \<noteq> []"
    using assms by (simp_all add: list_all_iff char_lower_alnum)
  have "matches_interface_name (to_lowercase (''br-'' @ h)) ''br-''"
    using h by (simp only: low matches_interface_name_def) simp
  then have "from_interface_name (''br-'' @ h) = ST_DockerBridge"
    unfolding from_interface_name_def match_interface_names_def by (simp only: list_ex_Cons_iff list_ex_Nil_iff if_True simp_thms)
  moreover have "from_interface_name (''br'' @ c # ds) = ST_Lan"
    using bridge_digit_match [OF assms(3) refl, of "map char_lower ds"]
    unfolding from_interface_name_def match_interface_names_def low
    by (simp only: ball_simps list_ex_Cons_iff list_ex_Nil_iff if_True if_False simp_thms)
  ultimately show ?thesis by (simp add: from_interface_name_lowercase)
qed

lemma interface_name_bridges_witness:
  "from_interface_name ''br-3f4a'' = ST_DockerBridge \<and> from_interface_name ''br0'' = ST_Lan"
  using interface_name_bridges [of "''3f4a''" "CHR ''0''" "[]" "''BR0''"]
  by (simp add: is_alphanumeric_def is_digit_def Let_def)

text \<open>
  A discovered single VPN address becomes the /24 around it, with the last octet cleared,
  and a single address on any other kind of interface (or an IPv6 network) yields no subnet.
\<close>

theorem subnet_from_single_address:
  assumes "prefix = 32"
  shows "(case subnet_from_discovery C fresh now nm (NetV4 addr prefix) daemon t network of
      Some s \<Rightarrow> from_interface_name nm = ST_VpnTunnel \<and> is_vpn_subnet s \<and>
        cidr_v4_new C (clear_last_octet addr) 24 = Some (sb_cidr (subnet_base s)) \<and>
        octets (clear_last_octet addr) = [octets addr ! 0, octets addr ! 1, octets addr ! 2, 0]
    | None \<Rightarrow> from_interface_name nm \<noteq> ST_VpnTunnel \<or> cidr_v4_new C (clear_last_octet addr) 24 = None)"
  by (cases "cidr_v4_new C (clear_last_octet addr) 24")
    (simp_all add: assms subnet_from_discovery_def Let_def discovered_prefix_def is_vpn_subnet_def
      subnet_new_def clear_last_octet_octets)

definition demo_cidr_ops :: "(32 word \<times> nat) CidrOps" where
  "demo_cidr_ops =
     \<lparr>cidr_v4_new = (\<lambda>a n. if unat a mod 2 ^ (32 - n) = 0 then Some (a, n) else None),
      cidr_display = (\<lambda>(a, n). ipv4_display a @ ''/'' @ show_nat n),
      cidr_contains = (\<lambda>(a, n) ip. case ip of V4 b \<Rightarrow> unat b div 2 ^ (32 - n) = unat a div 2 ^ (32 - n) | V6 _ \<Rightarrow> False),
      ipv4_network = (\<lambda>a n. word_of_nat (unat a div 2 ^ (32 - n) * 2 ^ (32 - n)))\<rparr>"

lemma subnet_from_single_address_witness:
  "subnet_from_discovery demo_cidr_ops 1 0 ''eth0'' (NetV4 0x0A000005 32) 2 (SelfReport 3) 4 = None"
  using subnet_from_single_address [OF refl, where C = demo_cidr_ops and fresh = 1 and now = 0 and nm = "''eth0''"
      and addr = "0x0A000005" and daemon = 2 and t = "SelfReport 3" and network = 4]
  by (simp add: from_interface_name_def match_interface_names_def matches_interface_name_def
      to_lowercase_def char_lower_def is_digit_def split: option.splits)

end
