(* ===== verification/Services.thy ===== *)
theory Services
  imports Position Bindings Interfaces Subnets
begin

text \<open>
  Services of a host (\<open>server/services/impl/base.rs\<close>): the handle of a service definition
  (\<open>definitions.rs\<close>, \<open>categories.rs\<close>), virtualization, the service entity with its
  hand-written equality, the request types \<open>ServiceInput\<close> and \<open>BindingInput\<close>
  (\<open>server/hosts/impl/api.rs\<close>) and the position traits.
\<close>

section \<open>Service definitions\<close>

datatype (plugins only: code size) ServiceCategory =
    SC_NetworkCore | SC_NetworkAccess | SC_NetworkSecurity | SC_Storage | SC_Backup | SC_Media
  | SC_HomeAutomation | SC_Virtualization | SC_DNS | SC_VPN | SC_SNMP | SC_Monitoring | SC_AdBlock
  | SC_ReverseProxy | SC_Workstation | SC_Mobile | SC_IoT | SC_Printer | SC_Database | SC_Development
  | SC_Dashboard | SC_MessageQueue | SC_IdentityAndAccess | SC_Office | SC_ProjectManagement
  | SC_Messaging | SC_Conferencing | SC_Telephony | SC_Email | SC_Publishing | SC_Unknown | SC_Custom
  | SC_Scanopy | SC_OpenPorts

text \<open>
  A definition is a trait object; its handle is what its methods answer. The name is the id.
  Whether its pattern names a gateway, and whether it probes a raw socket, are computed from
  the pattern (\<open>contains_gateway_ip_pattern\<close>, \<open>has_raw_socket_endpoint\<close>).
\<close>

record ServiceDefinition =
  sd_name :: string
  sd_description :: string
  sd_category :: ServiceCategory
  sd_is_generic :: bool
  sd_is_gateway :: bool
  sd_logo_url :: string
  sd_raw_socket :: bool

definition sd_id :: "ServiceDefinition \<Rightarrow> string" where
  "sd_id d = sd_name d"

definition can_be_manually_added :: "ServiceDefinition \<Rightarrow> bool" where
  "can_be_manually_added d \<longleftrightarrow> \<not> (sd_category d = SC_Scanopy \<or> sd_category d = SC_OpenPorts)"

definition is_scanopy :: "ServiceDefinition \<Rightarrow> bool" where
  "is_scanopy d \<longleftrightarrow> sd_category d = SC_Scanopy"

definition is_open_ports :: "ServiceDefinition \<Rightarrow> bool" where
  "is_open_ports d \<longleftrightarrow> sd_category d = SC_OpenPorts"

definition has_logo :: "ServiceDefinition \<Rightarrow> bool" where
  "has_logo d \<longleftrightarrow> sd_logo_url d \<noteq> []"

definition manages_virtualization :: "ServiceDefinition \<Rightarrow> string option" where
  "manages_virtualization d =
     (if sd_id d = ''Proxmox VE'' then Some ''vms''
      else if sd_id d = ''Docker'' then Some ''containers'' else None)"

definition default_service_definition :: ServiceDefinition where
  "default_service_definition =
     \<lparr>sd_name = ''Missing Service'',
      sd_description = ''If you are seeing this, a service definition was removed. Please create an issue.'',
      sd_category = SC_Unknown, sd_is_generic = False, sd_is_gateway = False, sd_logo_url = [],
      sd_raw_socket = False\<rparr>"

definition deserialize_definition :: "ServiceDefinition list \<Rightarrow> string \<Rightarrow> ServiceDefinition" where
  \<comment> \<open>the registry is searched by id; an unknown id gives the default\<close>
  "deserialize_definition registry i =
     (case find (\<lambda>d. sd_id d = i) registry of Some d \<Rightarrow> d | None \<Rightarrow> default_service_definition)"

section \<open>Virtualization\<close>

record DockerVirtualization =
  container_name :: "string option"
  container_id :: "string option"
  dv_service_id :: uuid

datatype ServiceVirtualization = DockerVirt DockerVirtualization

section \<open>The service entity\<close>

record ServiceBase =
  vb_host_id :: uuid
  vb_network_id :: uuid
  service_definition :: ServiceDefinition
  vb_name :: string
  bindings :: "Binding list"
  virtualization :: "ServiceVirtualization option"
  vb_source :: EntitySource
  vb_tags :: "uuid list"
  vb_position :: i32

record Service =
  service_id :: uuid
  service_created_at :: timestamp
  service_updated_at :: timestamp
  service_base :: ServiceBase

definition service_new :: "uuid \<Rightarrow> timestamp \<Rightarrow> ServiceBase \<Rightarrow> Service" where
  "service_new fresh now b =
     \<lparr>service_id = fresh, service_created_at = now, service_updated_at = now, service_base = b\<rparr>"

definition default_service_base :: ServiceBase where
  "default_service_base =
     \<lparr>vb_host_id = uuid_nil, vb_network_id = uuid_nil, service_definition = default_service_definition,
      vb_name = [], bindings = [], virtualization = None, vb_source = UnknownSource, vb_tags = [],
      vb_position = 0\<rparr>"

definition to_bound_port_ids :: "Service \<Rightarrow> uuid list" where
  "to_bound_port_ids s = List.map_filter binding_port_id (bindings (service_base s))"

definition to_bound_interface_ids :: "Service \<Rightarrow> uuid option list" where
  "to_bound_interface_ids s = map binding_interface_id (bindings (service_base s))"

definition get_binding :: "Service \<Rightarrow> uuid \<Rightarrow> Binding option" where
  "get_binding s i = find (\<lambda>b. binding_id b = i) (bindings (service_base s))"

definition has_shared_ports :: "Service \<Rightarrow> Service \<Rightarrow> bool" where
  "has_shared_ports a b \<longleftrightarrow>
     to_bound_port_ids a \<noteq> [] \<and> to_bound_port_ids b \<noteq> [] \<and>
     list_ex (\<lambda>p. p \<in> set (to_bound_port_ids b)) (to_bound_port_ids a)"

definition containers_eq :: "bool \<Rightarrow> DockerVirtualization \<Rightarrow> DockerVirtualization \<Rightarrow> bool" where
  \<comment> \<open>case 1 of the equality: both containerized\<close>
  "containers_eq shared a b =
     (case (container_id a, container_id b) of
        (Some x, Some y) \<Rightarrow> x = y
      | (Some _, None) \<Rightarrow> False
      | (None, Some _) \<Rightarrow> False
      | (None, None) \<Rightarrow>
          (case (container_name a, container_name b) of
             (Some x, Some y) \<Rightarrow> x = y
           | _ \<Rightarrow> shared))"

definition service_eq :: "Service \<Rightarrow> Service \<Rightarrow> bool" where
  "service_eq a b =
     (let x = service_base a; y = service_base b; shared = has_shared_ports a b in
      if service_id a = service_id b then True
      else if vb_host_id x \<noteq> vb_host_id y \<or> vb_network_id x \<noteq> vb_network_id y then False
      else if sd_id (service_definition x) \<noteq> sd_id (service_definition y) then False
      else if \<not> sd_is_generic (service_definition x) then True
      else if sd_is_gateway (service_definition x) \<or> is_open_ports (service_definition x) then True
      else (case (virtualization x, virtualization y) of
          (Some (DockerVirt d), Some (DockerVirt e)) \<Rightarrow> containers_eq shared d e
        | (Some _, None) \<Rightarrow> if shared then True else False
        | (None, Some _) \<Rightarrow> if shared then True else False
        | (None, None) \<Rightarrow> if shared then True else False))"

definition service_hash :: "Service \<Rightarrow> uuid \<times> ServiceDefinition \<times> string \<times> uuid" where
  \<comment> \<open>what \<open>impl Hash\<close> feeds to the hasher\<close>
  "service_hash s =
     (service_id s, service_definition (service_base s), vb_name (service_base s), vb_host_id (service_base s))"

definition bindings_eq :: "Binding list \<Rightarrow> Binding list \<Rightarrow> bool" where
  "bindings_eq xs ys \<longleftrightarrow> list_all2 binding_eq xs ys"

definition service_triggers_staleness :: "Service \<Rightarrow> Service option \<Rightarrow> bool" where
  "service_triggers_staleness s other =
     (case other of
        Some t \<Rightarrow>
          \<not> bindings_eq (bindings (service_base s)) (bindings (service_base t)) \<or>
          vb_host_id (service_base s) \<noteq> vb_host_id (service_base t) \<or>
          virtualization (service_base s) \<noteq> virtualization (service_base t)
      | None \<Rightarrow> True)"

definition has_interface_with_service :: "'c Subnet \<Rightarrow> Interface list \<Rightarrow> Service \<Rightarrow> bool" where
  "has_interface_with_service subnet host_interfaces s =
     list_ex (\<lambda>b. list_ex (\<lambda>i.
         (case binding_interface_id b of Some k \<Rightarrow> interface_id i = k | None \<Rightarrow> True) \<and>
         ib_subnet_id (interface_base i) = subnet_id subnet) host_interfaces)
       (bindings (service_base s))"

definition service_positioned :: "Service Positioned" where
  \<comment> \<open>\<open>impl Positioned for Service\<close>\<close>
  "service_positioned =
     \<lparr>position = (\<lambda>s. vb_position (service_base s)),
      set_position = (\<lambda>p s. s\<lparr>service_base := (service_base s)\<lparr>vb_position := p\<rparr>\<rparr>),
      ident = service_id,
      entity_name = ''service''\<rparr>"

section \<open>Requests\<close>

datatype BindingInput =
    InterfaceBindingInput uuid uuid
  | PortBindingInput uuid uuid "uuid option"

fun binding_input_id :: "BindingInput \<Rightarrow> uuid" where
  "binding_input_id (InterfaceBindingInput i _) = i"
| "binding_input_id (PortBindingInput i _ _) = i"

definition into_binding :: "timestamp \<Rightarrow> BindingInput \<Rightarrow> uuid \<Rightarrow> uuid \<Rightarrow> Binding" where
  "into_binding now inp service network =
     (let (i, t) = (case inp of
            InterfaceBindingInput i intf \<Rightarrow> (i, InterfaceBinding intf)
          | PortBindingInput i port intf \<Rightarrow> (i, PortBinding port intf))
      in \<lparr>binding_id = i, binding_created_at = now, binding_updated_at = now,
          binding_base = bindingbase_new service network t\<rparr>)"

record ServiceInput =
  si_id :: uuid
  si_service_definition :: ServiceDefinition
  si_name :: string
  si_bindings :: "BindingInput list"
  si_virtualization :: "ServiceVirtualization option"
  si_tags :: "uuid list"
  si_position :: "i32 option"

definition into_service :: "timestamp \<Rightarrow> ServiceInput \<Rightarrow> uuid \<Rightarrow> uuid \<Rightarrow> EntitySource \<Rightarrow> Service" where
  "into_service now i host network src =
     \<lparr>service_id = si_id i, service_created_at = now, service_updated_at = now,
      service_base =
        \<lparr>vb_host_id = host, vb_network_id = network, service_definition = si_service_definition i,
         vb_name = si_name i,
         bindings = map (\<lambda>b. into_binding now b (si_id i) network) (si_bindings i),
         virtualization = si_virtualization i, vb_source = src, vb_tags = si_tags i,
         vb_position = (case si_position i of Some p \<Rightarrow> p | None \<Rightarrow> 0)\<rparr>\<rparr>"

definition service_input_positioned :: "ServiceInput PositionedInput" where
  \<comment> \<open>\<open>impl PositionedInput for ServiceInput\<close>\<close>
  "service_input_positioned =
     \<lparr>input_position = si_position, set_input_position = (\<lambda>p i. i\<lparr>si_position := Some p\<rparr>),
      input_ident = si_id\<rparr>"

interpretation svc: position_resolution service_positioned service_input_positioned
  by unfold_locales (simp_all add: service_positioned_def service_input_positioned_def)

section \<open>The equality\<close>

lemma has_shared_ports_sym: "has_shared_ports a b = has_shared_ports b a"
  by (auto simp: has_shared_ports_def list_ex_iff)

lemma has_shared_ports_iff:
  "has_shared_ports a b \<longleftrightarrow> set (to_bound_port_ids a) \<inter> set (to_bound_port_ids b) \<noteq> {}"
  by (auto simp: has_shared_ports_def list_ex_iff)

lemma containers_eq_sym: "containers_eq s a b = containers_eq s b a"
  by (auto simp: containers_eq_def split: option.splits)

lemma service_eq_refl [simp]: "service_eq s s"
  by (simp add: service_eq_def)

text \<open>Handles of the same id answer alike; then the equality is symmetric.\<close>

definition same_registry :: "Service \<Rightarrow> Service \<Rightarrow> bool" where
  "same_registry a b \<longleftrightarrow>
     (sd_id (service_definition (service_base a)) = sd_id (service_definition (service_base b)) \<longrightarrow>
      service_definition (service_base a) = service_definition (service_base b))"

text \<open>What decides two services with different ids.\<close>

definition virt_eq :: "bool \<Rightarrow> ServiceVirtualization option \<Rightarrow> ServiceVirtualization option \<Rightarrow> bool" where
  "virt_eq shared u v =
     (case (u, v) of
        (Some (DockerVirt d), Some (DockerVirt e)) \<Rightarrow> containers_eq shared d e
      | _ \<Rightarrow> shared)"

lemma virt_eq_sym: "virt_eq s u v = virt_eq s v u"
  by (auto simp: virt_eq_def containers_eq_sym split: option.splits ServiceVirtualization.splits)

lemma service_eq_alt:
  "service_eq a b \<longleftrightarrow>
     service_id a = service_id b \<or>
     vb_host_id (service_base a) = vb_host_id (service_base b) \<and>
     vb_network_id (service_base a) = vb_network_id (service_base b) \<and>
     sd_id (service_definition (service_base a)) = sd_id (service_definition (service_base b)) \<and>
     (\<not> sd_is_generic (service_definition (service_base a)) \<or>
      sd_is_gateway (service_definition (service_base a)) \<or>
      is_open_ports (service_definition (service_base a)) \<or>
      virt_eq (has_shared_ports a b) (virtualization (service_base a)) (virtualization (service_base b)))"
proof -
  have "(case (u, v) of
          (Some (DockerVirt d), Some (DockerVirt e)) \<Rightarrow> containers_eq s d e
        | (Some _, None) \<Rightarrow> if s then True else False
        | (None, Some _) \<Rightarrow> if s then True else False
        | (None, None) \<Rightarrow> if s then True else False) = virt_eq s u v" for s u v
    by (simp add: virt_eq_def split: option.split ServiceVirtualization.split)
  note cases = this
  show ?thesis unfolding service_eq_def Let_def cases by (auto split: if_splits)
qed

lemma service_eq_sym:
  assumes "same_registry a b"
  shows "service_eq a b = service_eq b a"
proof (cases "sd_id (service_definition (service_base a)) = sd_id (service_definition (service_base b))")
  case True
  with assms have "service_definition (service_base a) = service_definition (service_base b)"
    by (simp add: same_registry_def)
  then show ?thesis
    by (simp add: service_eq_alt has_shared_ports_sym [of a b] virt_eq_sym [of _ "virtualization (service_base a)"])
       (metis virt_eq_sym)
next
  case False
  then show ?thesis by (simp add: service_eq_alt) metis
qed

lemma binding_eq_refl' [simp]: "list_all2 binding_eq xs xs"
  by (auto simp: binding_eq_def list.rel_refl)

end
