(* ===== verification/Ports.thy ===== *)
theory Ports
  imports Prelude "HOL-Library.Product_Lexorder"
begin

text \<open>
  Ports (\<open>server/ports/impl/base.rs\<close>): the transport protocols with their derived order,
  the table of well-known ports, \<open>PortType\<close>'s equality (by number and protocol, not by
  variant), its printing, parsing, serialisation and metadata, and the \<open>Port\<close> entity.
\<close>

section \<open>Transport protocols\<close>

datatype TransportProtocol = Udp | Tcp

text \<open>The derived \<open>Ord\<close>: declaration order.\<close>

instantiation TransportProtocol :: linorder
begin

definition less_eq_TransportProtocol :: "TransportProtocol \<Rightarrow> TransportProtocol \<Rightarrow> bool" where
  "less_eq_TransportProtocol a b \<longleftrightarrow> a = Udp \<or> b = Tcp"

definition less_TransportProtocol :: "TransportProtocol \<Rightarrow> TransportProtocol \<Rightarrow> bool" where
  "less_TransportProtocol a b \<longleftrightarrow> a = Udp \<and> b = Tcp"

instance
proof
  fix x y :: TransportProtocol
  show "x < y \<longleftrightarrow> x \<le> y \<and> \<not> y \<le> x"
    by (cases x; cases y) (simp_all add: less_eq_TransportProtocol_def less_TransportProtocol_def)
  show "x \<le> y \<or> y \<le> x"
    by (cases x; cases y) (simp_all add: less_eq_TransportProtocol_def)
  show "x \<le> y \<Longrightarrow> y \<le> x \<Longrightarrow> x = y"
    by (cases x; cases y) (simp_all add: less_eq_TransportProtocol_def)
  show "x \<le> x"
    by (cases x) (simp_all add: less_eq_TransportProtocol_def)
qed (auto simp: less_eq_TransportProtocol_def)

end

fun transport_display :: "TransportProtocol \<Rightarrow> string" where
  "transport_display Udp = ''Udp''"
| "transport_display Tcp = ''Tcp''"

section \<open>Port types\<close>

record PortConfig =
  pc_number :: u16
  pc_protocol :: TransportProtocol

definition port_config :: "u16 \<Rightarrow> TransportProtocol \<Rightarrow> PortConfig" where
  "port_config n p = \<lparr>pc_number = n, pc_protocol = p\<rparr>"

definition default_port_config :: PortConfig where
  \<comment> \<open>\<open>#[derive(Default)]\<close>: number 0, protocol \<open>Udp\<close>\<close>
  "default_port_config = port_config 0 Udp"

datatype (plugins only: code size) PortType =
    Ssh | Telnet | DnsUdp | DnsTcp | Samba | Nfs | Ftp | Ipp | LdpTcp | LdpUdp | Ldap | Ldaps
    | Kerberos | Snmp | Rdp | Ntp | Sip | SipTls | Rtsp | Dhcp | Http | MySql | PostgreSQL
    | MongoDB | Redis | MsSql | Docker | DockerTls | Kubernetes | RabbitMqMgmt | Cassandra
    | Elasticsearch | InfluxDb | CouchDb | Kafka | Http3000 | Http5000 | Http8080 | Http8081
    | Http8082 | Http8888 | Http9000 | Https | Https8443 | Https9443 | Https10443 | Mqtt
    | MqttTls | AMQP | AMQPTls | Wireguard | OpenVPN | BACnet | JetDirect | Custom PortConfig

primrec config :: "PortType \<Rightarrow> PortConfig" where
  "config Ssh = port_config 22 Tcp"
| "config Telnet = port_config 23 Tcp"
| "config DnsTcp = port_config 53 Tcp"
| "config DnsUdp = port_config 53 Udp"
| "config Samba = port_config 445 Tcp"
| "config Sip = port_config 5060 Tcp"
| "config SipTls = port_config 5061 Tcp"
| "config Ldap = port_config 389 Tcp"
| "config Ldaps = port_config 636 Tcp"
| "config Kerberos = port_config 88 Tcp"
| "config Nfs = port_config 2049 Tcp"
| "config Ftp = port_config 21 Tcp"
| "config Ipp = port_config 631 Tcp"
| "config LdpTcp = port_config 515 Tcp"
| "config LdpUdp = port_config 515 Udp"
| "config Snmp = port_config 161 Udp"
| "config Rdp = port_config 3389 Tcp"
| "config Ntp = port_config 123 Udp"
| "config Rtsp = port_config 554 Tcp"
| "config Dhcp = port_config 67 Udp"
| "config Http = port_config 80 Tcp"
| "config Http8080 = port_config 8080 Tcp"
| "config Https = port_config 443 Tcp"
| "config Https8443 = port_config 8443 Tcp"
| "config MySql = port_config 3306 Tcp"
| "config PostgreSQL = port_config 5432 Tcp"
| "config MongoDB = port_config 27017 Tcp"
| "config Redis = port_config 6379 Tcp"
| "config MsSql = port_config 1433 Tcp"
| "config Docker = port_config 2375 Tcp"
| "config DockerTls = port_config 2376 Tcp"
| "config Kubernetes = port_config 6443 Tcp"
| "config RabbitMqMgmt = port_config 15672 Tcp"
| "config Kafka = port_config 9092 Tcp"
| "config Http3000 = port_config 3000 Tcp"
| "config Http5000 = port_config 5000 Tcp"
| "config Http8081 = port_config 8081 Tcp"
| "config Http8082 = port_config 8082 Tcp"
| "config Http8888 = port_config 8888 Tcp"
| "config Http9000 = port_config 9000 Tcp"
| "config Https9443 = port_config 9443 Tcp"
| "config Https10443 = port_config 10443 Tcp"
| "config Cassandra = port_config 9042 Tcp"
| "config Elasticsearch = port_config 9200 Tcp"
| "config InfluxDb = port_config 8086 Tcp"
| "config CouchDb = port_config 5984 Tcp"
| "config Mqtt = port_config 1883 Tcp"
| "config MqttTls = port_config 8883 Tcp"
| "config AMQP = port_config 5672 Tcp"
| "config AMQPTls = port_config 5671 Tcp"
| "config Wireguard = port_config 51820 Udp"
| "config OpenVPN = port_config 1194 Udp"
| "config BACnet = port_config 47808 Udp"
| "config JetDirect = port_config 9100 Tcp"
| "config (Custom c) = c"

definition all_port_types :: "PortType list" where
  \<comment> \<open>\<open>PortType::iter()\<close>: declaration order, \<open>Custom\<close> with its default\<close>
  "all_port_types = [
     Ssh, Telnet, DnsUdp, DnsTcp, Samba, Nfs, Ftp, Ipp, LdpTcp, LdpUdp, Ldap, Ldaps, Kerberos
     , Snmp, Rdp, Ntp, Sip, SipTls, Rtsp, Dhcp, Http, MySql, PostgreSQL, MongoDB, Redis, MsSql
     , Docker, DockerTls, Kubernetes, RabbitMqMgmt, Cassandra, Elasticsearch, InfluxDb, CouchDb
     , Kafka, Http3000, Http5000, Http8080, Http8081, Http8082, Http8888, Http9000, Https
     , Https8443, Https9443, Https10443, Mqtt, MqttTls, AMQP, AMQPTls, Wireguard, OpenVPN
     , BACnet, JetDirect, Custom default_port_config]"

text \<open>The accessors, all through \<open>config\<close>, and the equality of \<open>impl PartialEq\<close>.\<close>

definition number :: "PortType \<Rightarrow> u16" where
  "number p = pc_number (config p)"

definition protocol :: "PortType \<Rightarrow> TransportProtocol" where
  "protocol p = pc_protocol (config p)"

definition port_eq :: "PortType \<Rightarrow> PortType \<Rightarrow> bool" where
  "port_eq p q \<longleftrightarrow> config p = config q"

definition port_hash :: "PortType \<Rightarrow> u16 \<times> TransportProtocol" where
  \<comment> \<open>what \<open>impl Hash\<close> feeds to the hasher\<close>
  "port_hash p = (pc_number (config p), pc_protocol (config p))"

definition new_port_type :: "u16 \<Rightarrow> TransportProtocol \<Rightarrow> PortType" where
  "new_port_type n p = Custom (port_config n p)"

definition is_tcp :: "PortType \<Rightarrow> bool" where
  "is_tcp p \<longleftrightarrow> protocol p = Tcp"

definition is_udp :: "PortType \<Rightarrow> bool" where
  "is_udp p \<longleftrightarrow> protocol p = Udp"

definition new_tcp :: "u16 \<Rightarrow> PortType" where
  "new_tcp n = Custom (port_config n Tcp)"

definition new_udp :: "u16 \<Rightarrow> PortType" where
  "new_udp n = Custom (port_config n Udp)"

definition is_custom :: "PortType \<Rightarrow> bool" where
  "is_custom p = (case p of Custom _ \<Rightarrow> True | _ \<Rightarrow> False)"

definition is_https :: "PortType \<Rightarrow> bool" where
  "is_https p \<longleftrightarrow> p \<in> {Https, Https10443, Https8443, Https9443}"

definition is_raw_socket :: "PortType \<Rightarrow> bool" where
  "is_raw_socket p \<longleftrightarrow> 9100 \<le> number p \<and> number p \<le> 9107"

definition sort_key_of_port :: "PortType \<Rightarrow> nat \<times> TransportProtocol" where
  \<comment> \<open>the key \<open>(p.number(), p.protocol())\<close> of the program's port sorts, compared as a pair\<close>
  "sort_key_of_port p = (unat (number p), protocol p)"

definition port_display :: "PortType \<Rightarrow> string" where
  "port_display p = show_nat (unat (number p)) @ ''/'' @ to_lowercase (transport_display (protocol p))"

subsection \<open>Parsing\<close>

definition is_space :: "char \<Rightarrow> bool" where
  "is_space c \<longleftrightarrow> (of_char c :: nat) \<in> {9, 10, 11, 12, 13, 32}"

definition trim :: "string \<Rightarrow> string" where
  "trim s = rev (dropWhile is_space (rev (dropWhile is_space s)))"

definition parse_u16 :: "string \<Rightarrow> u16 option" where
  \<comment> \<open>\<open>str::parse::<u16>\<close>: an optional plus sign, at least one digit, no overflow\<close>
  "parse_u16 s =
     (let ds = (case s of c # cs \<Rightarrow> if c = CHR ''+'' then cs else s | [] \<Rightarrow> []) in
      if ds = [] then None
      else case parse_digits 0 ds of
             None \<Rightarrow> None
           | Some n \<Rightarrow> if n < 2 ^ 16 then Some (word_of_nat n) else None)"

text \<open>
  \<open>from_str\<close> matches the trimmed text against \<^verbatim>\<open>(?i)\b(\d+)\s*[/\-\s:]*\s*(tcp|udp)\b\<close>. What
  comes after the digits cannot start with a digit, and what comes after the separators cannot
  start with a separator, so that the greedy groups never give anything back: a match at a
  position takes all digits, then all separators, then three letters. The leftmost position with
  a match decides. Spaces, digits and word characters are those of ASCII.
\<close>

definition is_word :: "char \<Rightarrow> bool" where
  "is_word c \<longleftrightarrow> is_alphanumeric c \<or> c = CHR ''_''"

definition is_separator :: "char \<Rightarrow> bool" where
  "is_separator c \<longleftrightarrow> is_space c \<or> c \<in> {CHR ''/'', CHR ''-'', CHR '':''}"

definition captures_at :: "char option \<Rightarrow> string \<Rightarrow> (string option \<times> string option) option" where
  \<comment> \<open>a match here, after this character\<close>
  "captures_at before s =
     (let ds = takeWhile is_digit s;
          rest = dropWhile is_separator (dropWhile is_digit s);
          proto = take 3 rest
      in if (case before of Some c \<Rightarrow> \<not> is_word c | None \<Rightarrow> True) \<and> ds \<noteq> [] \<and>
            (to_lowercase proto = ''tcp'' \<or> to_lowercase proto = ''udp'') \<and>
            (case drop 3 rest of [] \<Rightarrow> True | c # _ \<Rightarrow> \<not> is_word c)
         then Some (Some ds, Some proto) else None)"

fun captures_from :: "char option \<Rightarrow> string \<Rightarrow> (string option \<times> string option) option" where
  "captures_from before [] = None"
| "captures_from before (c # s) =
     (case captures_at before (c # s) of Some groups \<Rightarrow> Some groups | None \<Rightarrow> captures_from (Some c) s)"

definition port_captures :: "string \<Rightarrow> (string option \<times> string option) option" where
  "port_captures s = captures_from None s"

definition port_from_str :: "string \<Rightarrow> string + PortType" where
  "port_from_str s =
     (case port_captures (trim s) of
        None \<Rightarrow> Inl ''Failed to parse port and protocol''
      | Some (g1, g2) \<Rightarrow>
          (case g1 of
             None \<Rightarrow> Inl ''Missing port number''
           | Some num \<Rightarrow>
               (case parse_u16 num of
                  None \<Rightarrow> Inl ''Invalid port number''
                | Some n \<Rightarrow>
                    (case g2 of
                       None \<Rightarrow> Inl ''Missing protocol''
                     | Some pr \<Rightarrow>
                         (let proto_string = to_lowercase pr in
                          if proto_string = ''tcp'' then Inr (Custom (port_config n Tcp))
                          else if proto_string = ''udp'' then Inr (Custom (port_config n Udp))
                          else Inl ''Unknown protocol'')))))"

subsection \<open>Metadata and serialisation\<close>

primrec port_type_name :: "PortType \<Rightarrow> string" where
  "port_type_name Ssh = ''SSH''"
| "port_type_name Telnet = ''Telnet''"
| "port_type_name DnsUdp = ''DNS (UDP)''"
| "port_type_name DnsTcp = ''DNS (TCP)''"
| "port_type_name Samba = ''Samba''"
| "port_type_name Nfs = ''NFS''"
| "port_type_name Ftp = ''FTP''"
| "port_type_name Ipp = ''IPP''"
| "port_type_name LdpTcp = ''LDP (TCP)''"
| "port_type_name LdpUdp = ''LDP (UDP)''"
| "port_type_name Snmp = ''SNMP''"
| "port_type_name Ldap = ''LDAP''"
| "port_type_name Ldaps = ''LDAP TLS''"
| "port_type_name Kerberos = ''Kerberos''"
| "port_type_name Rdp = ''RDP''"
| "port_type_name Ntp = ''NTP''"
| "port_type_name Sip = ''SIP''"
| "port_type_name SipTls = ''SIP TLS''"
| "port_type_name Rtsp = ''RTSP''"
| "port_type_name Dhcp = ''DHCP''"
| "port_type_name Http = ''HTTP''"
| "port_type_name Http8080 = ''HTTP 8080''"
| "port_type_name Https = ''HTTPS''"
| "port_type_name Https8443 = ''HTTPS 8443''"
| "port_type_name (Custom c) = ''Custom''"
| "port_type_name MySql = ''MySql''"
| "port_type_name PostgreSQL = ''PostgreSql''"
| "port_type_name MongoDB = ''MongoDB''"
| "port_type_name Redis = ''Redis''"
| "port_type_name MsSql = ''MicrosoftSql''"
| "port_type_name Docker = ''Docker''"
| "port_type_name DockerTls = ''Docker TLS''"
| "port_type_name Kubernetes = ''Kubernetes''"
| "port_type_name RabbitMqMgmt = ''RabbitMq Management''"
| "port_type_name Kafka = ''Kafka''"
| "port_type_name Http3000 = ''HTTP 3000''"
| "port_type_name Http5000 = ''HTTP 5000''"
| "port_type_name Http8081 = ''HTTP 8081''"
| "port_type_name Http8082 = ''HTTP 8082''"
| "port_type_name Http8888 = ''HTTP 8888''"
| "port_type_name Http9000 = ''HTTP 9000''"
| "port_type_name Https9443 = ''HTTP 9443''"
| "port_type_name Https10443 = ''HTTP 10443''"
| "port_type_name Cassandra = ''Cassandra''"
| "port_type_name Elasticsearch = ''Elastic Search''"
| "port_type_name InfluxDb = ''InfluxDB''"
| "port_type_name CouchDb = ''CouchDB''"
| "port_type_name Mqtt = ''MQTT''"
| "port_type_name MqttTls = ''MQTT TLS''"
| "port_type_name AMQP = ''AMQP''"
| "port_type_name AMQPTls = ''AMQP TLS''"
| "port_type_name Wireguard = ''Wireguard''"
| "port_type_name OpenVPN = ''OpenVPN''"
| "port_type_name BACnet = ''BACnet''"
| "port_type_name JetDirect = ''JetDirect''"

primrec port_type_description :: "PortType \<Rightarrow> string" where
  "port_type_description Ssh = ''Secure Shell''"
| "port_type_description Telnet = ''Telnet Protocol''"
| "port_type_description DnsUdp = ''Domain Name System (UDP)''"
| "port_type_description DnsTcp = ''Domain Name System (TCP)''"
| "port_type_description Samba = ''Samba File Sharing''"
| "port_type_description Nfs = ''Network File System''"
| "port_type_description Ftp = ''File Transfer Protocol''"
| "port_type_description Ipp = ''Internet Printing Protocol''"
| "port_type_description Ldap = ''Lightweight Directory Access Protocol''"
| "port_type_description Ldaps = ''Lightweight Directory Access Protocol using TLS''"
| "port_type_description Sip = ''Session Initiation Protocol''"
| "port_type_description SipTls = ''Session Initiation Protocol using TLS''"
| "port_type_description Kerberos = ''Kerberos Authentication Protocol''"
| "port_type_description LdpTcp = ''Line Printer Daemon (TCP)''"
| "port_type_description LdpUdp = ''Line Printer Daemon (UDP)''"
| "port_type_description Snmp = ''Simple Network Management Protocol''"
| "port_type_description Rdp = ''Remote Desktop Protocol''"
| "port_type_description Ntp = ''Network Time Protocol''"
| "port_type_description Rtsp = ''Real-Time Streaming Protocol''"
| "port_type_description Dhcp = ''Dynamic Host Configuration Protocol''"
| "port_type_description Http = ''Hypertext Transfer Protocol''"
| "port_type_description Http8080 = ''HTTP 8080''"
| "port_type_description Https = ''Hypertext Transfer Protocol Secure''"
| "port_type_description Https8443 = ''Alternative HTTPS Port''"
| "port_type_description MySql = ''MySQL Database''"
| "port_type_description PostgreSQL = ''PostgreSQL Database''"
| "port_type_description MongoDB = ''MongoDB''"
| "port_type_description Redis = ''Redis Database''"
| "port_type_description MsSql = ''MicrosoftSQL Database''"
| "port_type_description Docker = ''Docker''"
| "port_type_description DockerTls = ''Docker using TLS''"
| "port_type_description Kubernetes = ''Kubernetes''"
| "port_type_description RabbitMqMgmt = ''RabbitMQ Management''"
| "port_type_description Kafka = ''Kafka''"
| "port_type_description Http3000 = ''HTTP 3000''"
| "port_type_description Http5000 = ''HTTP 5000''"
| "port_type_description Http8081 = ''HTTP 8081''"
| "port_type_description Http8082 = ''HTTP 8082''"
| "port_type_description Http8888 = ''HTTP 8888''"
| "port_type_description Http9000 = ''HTTP 9000''"
| "port_type_description Https9443 = ''HTTPS 9443''"
| "port_type_description Https10443 = ''HTTPS 10443''"
| "port_type_description (Custom c) = ''Custom Port Configuration''"
| "port_type_description Cassandra = ''Cassandra''"
| "port_type_description Elasticsearch = ''Elastic Search''"
| "port_type_description InfluxDb = ''Influx Database''"
| "port_type_description CouchDb = ''Couch Database''"
| "port_type_description Mqtt = ''MQTT''"
| "port_type_description MqttTls = ''MQTT using TLS''"
| "port_type_description AMQP = ''Advanced Message Queuing Protocol''"
| "port_type_description AMQPTls = ''Advanced Message Queuing Protocol using TLS''"
| "port_type_description Wireguard = ''Wireguard VPN''"
| "port_type_description OpenVPN = ''OpenVPN''"
| "port_type_description BACnet = ''Building Automation and Control Network''"
| "port_type_description JetDirect = ''JetDirect RAW Printing''"

primrec port_type_id :: "PortType \<Rightarrow> string" where
  "port_type_id Ssh = ''Ssh''"
| "port_type_id Telnet = ''Telnet''"
| "port_type_id DnsUdp = ''DnsUdp''"
| "port_type_id DnsTcp = ''DnsTcp''"
| "port_type_id Samba = ''Samba''"
| "port_type_id Nfs = ''Nfs''"
| "port_type_id Ftp = ''Ftp''"
| "port_type_id Ipp = ''Ipp''"
| "port_type_id LdpTcp = ''LdpTcp''"
| "port_type_id LdpUdp = ''LdpUdp''"
| "port_type_id Ldap = ''Ldap''"
| "port_type_id Ldaps = ''Ldaps''"
| "port_type_id Kerberos = ''Kerberos''"
| "port_type_id Snmp = ''Snmp''"
| "port_type_id Rdp = ''Rdp''"
| "port_type_id Ntp = ''Ntp''"
| "port_type_id Sip = ''Sip''"
| "port_type_id SipTls = ''SipTls''"
| "port_type_id Rtsp = ''Rtsp''"
| "port_type_id Dhcp = ''Dhcp''"
| "port_type_id Http = ''Http''"
| "port_type_id MySql = ''MySql''"
| "port_type_id PostgreSQL = ''PostgreSQL''"
| "port_type_id MongoDB = ''MongoDB''"
| "port_type_id Redis = ''Redis''"
| "port_type_id MsSql = ''MsSql''"
| "port_type_id Docker = ''Docker''"
| "port_type_id DockerTls = ''DockerTls''"
| "port_type_id Kubernetes = ''Kubernetes''"
| "port_type_id RabbitMqMgmt = ''RabbitMqMgmt''"
| "port_type_id Cassandra = ''Cassandra''"
| "port_type_id Elasticsearch = ''Elasticsearch''"
| "port_type_id InfluxDb = ''InfluxDb''"
| "port_type_id CouchDb = ''CouchDb''"
| "port_type_id Kafka = ''Kafka''"
| "port_type_id Http3000 = ''Http3000''"
| "port_type_id Http5000 = ''Http5000''"
| "port_type_id Http8080 = ''Http8080''"
| "port_type_id Http8081 = ''Http8081''"
| "port_type_id Http8082 = ''Http8082''"
| "port_type_id Http8888 = ''Http8888''"
| "port_type_id Http9000 = ''Http9000''"
| "port_type_id Https = ''Https''"
| "port_type_id Https8443 = ''Https8443''"
| "port_type_id Https9443 = ''Https9443''"
| "port_type_id Https10443 = ''Https10443''"
| "port_type_id Mqtt = ''Mqtt''"
| "port_type_id MqttTls = ''MqttTls''"
| "port_type_id AMQP = ''AMQP''"
| "port_type_id AMQPTls = ''AMQPTls''"
| "port_type_id Wireguard = ''Wireguard''"
| "port_type_id OpenVPN = ''OpenVPN''"
| "port_type_id BACnet = ''BACnet''"
| "port_type_id JetDirect = ''JetDirect''"
| "port_type_id (Custom c) = ''Custom''"

record PortMetadata =
  pm_is_management :: bool
  pm_is_custom :: bool
  pm_is_dns :: bool
  pm_can_be_added :: bool
  pm_number :: u16
  pm_protocol :: TransportProtocol

definition port_metadata :: "PortType \<Rightarrow> PortMetadata" where
  "port_metadata p =
     \<lparr>pm_is_management = p \<in> {Ssh, Telnet, Rdp, Snmp, Http, Https, Http8080, Https8443},
      pm_is_custom = is_custom p,
      pm_is_dns = p \<in> {DnsUdp, DnsTcp},
      pm_can_be_added = \<not> is_custom p,
      pm_number = number p,
      pm_protocol = protocol p\<rparr>"

text \<open>The wire format is \<open>{number, protocol, type}\<close>.\<close>

record PortWire =
  wire_number :: u16
  wire_protocol :: TransportProtocol
  wire_type :: string

definition serialize_port :: "PortType \<Rightarrow> PortWire" where
  "serialize_port p =
     \<lparr>wire_number = pc_number (config p), wire_protocol = pc_protocol (config p),
      wire_type = port_type_id p\<rparr>"

definition deserialize_port :: "PortWire \<Rightarrow> PortType" where
  "deserialize_port w =
     (case find (\<lambda>v. \<not> is_custom v \<and> pc_number (config v) = wire_number w \<and>
                     pc_protocol (config v) = wire_protocol w) all_port_types of
        Some p \<Rightarrow> p
      | None \<Rightarrow> Custom (port_config (wire_number w) (wire_protocol w)))"

section \<open>The Port entity\<close>

record PortBase =
  pb_host_id :: uuid
  pb_network_id :: uuid
  pb_port_type :: PortType

record Port =
  port_id :: uuid
  port_created_at :: timestamp
  port_updated_at :: timestamp
  port_base :: PortBase

definition portbase_new_hostless :: "PortType \<Rightarrow> PortBase" where
  "portbase_new_hostless t =
     \<lparr>pb_host_id = uuid_nil, pb_network_id = uuid_nil, pb_port_type = t\<rparr>"

definition port_new :: "uuid \<Rightarrow> timestamp \<Rightarrow> PortBase \<Rightarrow> Port" where
  "port_new fresh now b =
     \<lparr>port_id = fresh, port_created_at = now, port_updated_at = now, port_base = b\<rparr>"

definition port_new_hostless :: "uuid \<Rightarrow> timestamp \<Rightarrow> PortType \<Rightarrow> Port" where
  "port_new_hostless fresh now t = port_new fresh now (portbase_new_hostless t)"

definition port_with_host :: "Port \<Rightarrow> uuid \<Rightarrow> uuid \<Rightarrow> Port" where
  "port_with_host p host network =
     p\<lparr>port_base := (port_base p)\<lparr>pb_host_id := host, pb_network_id := network\<rparr>\<rparr>"

definition port_entity_eq :: "Port \<Rightarrow> Port \<Rightarrow> bool" where
  "port_entity_eq p q \<longleftrightarrow> port_eq (pb_port_type (port_base p)) (pb_port_type (port_base q))"

definition port_entity_hash :: "Port \<Rightarrow> u16 \<times> TransportProtocol" where
  "port_entity_hash p = port_hash (pb_port_type (port_base p))"

definition port_triggers_staleness :: "Port \<Rightarrow> Port option \<Rightarrow> bool" where
  "port_triggers_staleness p other =
     (case other of
        Some q \<Rightarrow> \<not> port_eq (pb_port_type (port_base p)) (pb_port_type (port_base q)) \<or>
                  pb_host_id (port_base p) \<noteq> pb_host_id (port_base q) \<or>
                  config (pb_port_type (port_base p)) \<noteq> config (pb_port_type (port_base q))
      | None \<Rightarrow> True)"

section \<open>Equality, order and the port sorts\<close>

lemma port_eq_refl [simp]: "port_eq p p"
  by (simp add: port_eq_def)

lemma port_eq_sym: "port_eq p q \<Longrightarrow> port_eq q p"
  by (simp add: port_eq_def)

lemma port_eq_trans: "port_eq p q \<Longrightarrow> port_eq q r \<Longrightarrow> port_eq p r"
  by (simp add: port_eq_def)

lemma config_eq_iff: "config p = config q \<longleftrightarrow> number p = number q \<and> protocol p = protocol q"
  by (auto simp: number_def protocol_def)

lemma port_eq_iff: "port_eq p q \<longleftrightarrow> number p = number q \<and> protocol p = protocol q"
  by (simp add: port_eq_def config_eq_iff)

lemma port_sort_key_eq: "sort_key_of_port p = sort_key_of_port q \<longleftrightarrow> port_eq p q"
  by (simp add: sort_key_of_port_def port_eq_iff word_unat_eq_iff)

lemma port_eq_fun: "port_eq = (\<lambda>a b. sort_key_of_port a = sort_key_of_port b)"
  by (simp add: fun_eq_iff port_sort_key_eq)

definition sort_dedup_ports :: "PortType list \<Rightarrow> PortType list" where
  \<comment> \<open>\<open>ports.sort_by_key(...); ports.dedup()\<close>\<close>
  "sort_dedup_ports ps = vec_dedup port_eq (sort_key sort_key_of_port ps)"

lemma sort_dedup_ports_keys:
  "set (map sort_key_of_port (sort_dedup_ports ps)) = set (map sort_key_of_port ps)"
  unfolding sort_dedup_ports_def port_eq_fun vec_dedup_keys by simp

lemma sort_dedup_ports_sorted:
  "sorted (map sort_key_of_port (sort_dedup_ports ps))"
  "distinct (map sort_key_of_port (sort_dedup_ports ps))"
  using vec_dedup_sorted [of sort_key_of_port "sort_key sort_key_of_port ps"]
  by (simp_all add: sort_dedup_ports_def port_eq_fun)

definition port_mem :: "PortType \<Rightarrow> PortType list \<Rightarrow> bool" where
  \<comment> \<open>\<open>Vec::contains\<close> under \<open>PartialEq\<close>\<close>
  "port_mem p ps \<longleftrightarrow> list_ex (\<lambda>q. port_eq q p) ps"

lemma port_mem_keys: "port_mem p ps \<longleftrightarrow> sort_key_of_port p \<in> set (map sort_key_of_port ps)"
  by (simp add: port_mem_def list_ex_iff port_sort_key_eq [symmetric] image_iff) metis

lemma port_mem_sort_dedup [simp]: "port_mem p (sort_dedup_ports ps) \<longleftrightarrow> port_mem p ps"
  by (simp add: port_mem_keys sort_dedup_ports_keys del: set_map)

section \<open>The table of well-known ports\<close>

lemma all_port_types_complete: "\<not> is_custom p \<Longrightarrow> p \<in> set all_port_types"
  by (cases p) (simp_all add: all_port_types_def is_custom_def)

definition predefined :: "PortType list" where
  "predefined = filter (\<lambda>p. \<not> is_custom p) all_port_types"

lemma predefined_distinct_configs: "distinct (map config predefined)"
  by (simp add: predefined_def all_port_types_def is_custom_def port_config_def)

lemma predefined_iff: "p \<in> set predefined \<longleftrightarrow> \<not> is_custom p"
  using all_port_types_complete by (auto simp: predefined_def)

lemma predefined_config_inj: "\<not> is_custom p \<Longrightarrow> \<not> is_custom q \<Longrightarrow> config p = config q \<Longrightarrow> p = q"
  using predefined_distinct_configs by (auto simp: distinct_map predefined_iff inj_on_def)

section \<open>Serialisation\<close>

lemma deserialize_find:
  "(find (\<lambda>v. \<not> is_custom v \<and> pc_number (config v) = n \<and> pc_protocol (config v) = t) all_port_types = Some p)
   \<longleftrightarrow> \<not> is_custom p \<and> config p = port_config n t"
proof
  assume "find (\<lambda>v. \<not> is_custom v \<and> pc_number (config v) = n \<and> pc_protocol (config v) = t) all_port_types = Some p"
  then show "\<not> is_custom p \<and> config p = port_config n t"
    by (auto simp: find_Some_iff port_config_def)
next
  assume p: "\<not> is_custom p \<and> config p = port_config n t"
  then have "p \<in> set all_port_types" "pc_number (config p) = n" "pc_protocol (config p) = t"
    using all_port_types_complete [of p] by (simp_all add: port_config_def)
  then have "find (\<lambda>v. \<not> is_custom v \<and> pc_number (config v) = n \<and> pc_protocol (config v) = t) all_port_types \<noteq> None"
    using p unfolding find_None_iff by blast
  then obtain q where "find (\<lambda>v. \<not> is_custom v \<and> pc_number (config v) = n \<and> pc_protocol (config v) = t) all_port_types = Some q"
    by blast
  moreover then have "\<not> is_custom q \<and> config q = port_config n t"
    by (auto simp: find_Some_iff port_config_def)
  ultimately show "find (\<lambda>v. \<not> is_custom v \<and> pc_number (config v) = n \<and> pc_protocol (config v) = t) all_port_types = Some p"
    using p predefined_config_inj by metis
qed

lemma deserialize_config: "config (deserialize_port w) = port_config (wire_number w) (wire_protocol w)"
  by (auto simp: deserialize_port_def deserialize_find split: option.splits)

lemma deserialize_custom_iff:
  "is_custom (deserialize_port w) \<longleftrightarrow>
     (\<forall>p. \<not> is_custom p \<longrightarrow> config p \<noteq> port_config (wire_number w) (wire_protocol w))"
proof (cases "find (\<lambda>v. \<not> is_custom v \<and> pc_number (config v) = wire_number w \<and>
                     pc_protocol (config v) = wire_protocol w) all_port_types")
  case None
  then have "is_custom (deserialize_port w)"
    by (simp add: deserialize_port_def is_custom_def)
  with None show ?thesis using deserialize_find [of "wire_number w" "wire_protocol w"] by auto
next
  case (Some p)
  then have "\<not> is_custom p" "config p = port_config (wire_number w) (wire_protocol w)"
    by (simp_all add: deserialize_find)
  with Some show ?thesis by (auto simp: deserialize_port_def)
qed

section \<open>Printing and parsing\<close>

lemma captures_number:
  assumes "ds \<noteq> []" "list_all is_digit ds" "pr = ''tcp'' \<or> pr = ''udp''"
  shows "port_captures (ds @ ''/'' @ pr) = Some (Some ds, Some pr)"
proof -
  have s: "takeWhile is_digit (ds @ ''/'' @ pr) = ds" "dropWhile is_digit (ds @ ''/'' @ pr) = ''/'' @ pr"
    using assms(2) by (simp_all add: list_all_iff takeWhile_append2 dropWhile_append2) (simp_all add: is_digit_def)
  have rest: "dropWhile is_separator (''/'' @ pr) = pr" using assms(3) by (auto simp: is_separator_def is_space_def)
  have "to_lowercase pr = pr" using assms(3) by (auto simp: to_lowercase_def char_lower_def)
  then have "captures_at None (ds @ ''/'' @ pr) = Some (Some ds, Some pr)"
    unfolding captures_at_def Let_def s rest using assms(1,3) by auto
  with assms(1) show ?thesis by (cases ds) (simp_all add: port_captures_def)
qed

lemma trim_id: "s \<noteq> [] \<Longrightarrow> \<not> is_space (hd s) \<Longrightarrow> \<not> is_space (last s) \<Longrightarrow> trim s = s"
  by (cases s) (auto simp: trim_def hd_rev hd_append dropWhile_eq_self_iff)

lemma digit_not_space: "is_digit c \<Longrightarrow> \<not> is_space c"
  by (auto simp: is_digit_def is_space_def)

lemma parse_u16_show [simp]: "n < 2 ^ 16 \<Longrightarrow> parse_u16 (show_nat n) = Some (word_of_nat n)"
proof -
  assume n: "n < 2 ^ 16"
  obtain c cs where cs: "show_nat n = c # cs" using show_nat_nonempty by (meson neq_Nil_conv)
  then have "is_digit c" using show_nat_digits [of n] by simp
  then have "c \<noteq> CHR ''+''" by (auto simp: is_digit_def)
  then show ?thesis using n cs parse_show_nat [of n] by (simp add: parse_u16_def Let_def)
qed

lemma transport_lower:
  "to_lowercase ''Tcp'' = ''tcp''" "to_lowercase ''Udp'' = ''udp''"
  "to_lowercase ''tcp'' = ''tcp''" "to_lowercase ''udp'' = ''udp''"
  by code_simp+

lemma port_display_trim: "trim (port_display p) = port_display p"
proof (rule trim_id)
  have "show_nat (unat (number p)) \<noteq> []" by simp
  moreover have "list_all is_digit (show_nat (unat (number p)))" by (rule show_nat_digits)
  ultimately have "is_digit (hd (show_nat (unat (number p))))"
    by (simp add: list_all_iff)
  then show "\<not> is_space (hd (port_display p))"
    by (simp add: port_display_def digit_not_space)
  show "\<not> is_space (last (port_display p))"
    by (cases "protocol p") (simp_all add: port_display_def transport_lower is_space_def)
qed (simp add: port_display_def)

lemma port_from_str_display: "port_from_str (port_display p) = Inr (Custom (config p))"
proof -
  have u: "unat (number p) < 2 ^ 16" using unsigned_less [of "number p"] by simp
  have "port_captures (port_display p) =
    Some (Some (show_nat (unat (number p))), Some (to_lowercase (transport_display (protocol p))))"
    using captures_number [OF show_nat_nonempty show_nat_digits, of _ "unat (number p)"]
    by (cases "protocol p") (simp_all add: port_display_def transport_lower)
  moreover have "port_config (number p) (protocol p) = config p"
    by (simp add: port_config_def number_def protocol_def)
  ultimately show ?thesis using u
    by (cases "protocol p")
       (simp_all add: port_from_str_def port_display_trim transport_lower)
qed

text \<open>The expression on other texts: separators, capitals, words around it.\<close>

lemma port_captures_examples:
  "port_captures ''port 8080 - TCP, udp'' = Some (Some ''8080'', Some ''TCP'')"
  "port_captures ''v80/tcp 53:udp'' = Some (Some ''53'', Some ''udp'')"
  "port_captures ''80/tcpx'' = None"
  by code_simp+

end
