(* ===== verification/Endpoints.thy ===== *)
theory Endpoints
  imports Entity_Types Ports
begin

text \<open>
  HTTP endpoints and the responses a scan collected (\<open>server/services/impl/endpoints.rs\<close>).
\<close>

datatype ApplicationProtocol = HttpApp | HttpsApp

fun application_protocol_display :: "ApplicationProtocol \<Rightarrow> string" where
  "application_protocol_display HttpApp = ''http''"
| "application_protocol_display HttpsApp = ''https''"

record Endpoint =
  ep_protocol :: ApplicationProtocol
  ep_ip :: "IpAddr option"
  ep_port_type :: PortType
  ep_path :: string

record EndpointResponse =
  er_endpoint :: Endpoint
  er_body :: string
  er_headers :: "(string, string) HashMap"
  er_status :: u16

definition endpoint_is_resolved :: "Endpoint \<Rightarrow> bool" where
  "endpoint_is_resolved e \<longleftrightarrow> ep_ip e \<noteq> None"

definition use_ip :: "Endpoint \<Rightarrow> IpAddr \<Rightarrow> Endpoint" where
  "use_ip e ip = \<lparr>ep_protocol = ep_protocol e, ep_ip = Some ip, ep_port_type = ep_port_type e, ep_path = ep_path e\<rparr>"

definition endpoint_http :: "IpAddr option \<Rightarrow> string \<Rightarrow> Endpoint" where
  "endpoint_http ip path = \<lparr>ep_protocol = HttpApp, ep_ip = ip, ep_port_type = Http, ep_path = path\<rparr>"

definition for_pattern :: "PortType \<Rightarrow> string \<Rightarrow> Endpoint" where
  "for_pattern p path = \<lparr>ep_protocol = HttpApp, ep_ip = None, ep_port_type = p, ep_path = path\<rparr>"

definition endpoint_display :: "Endpoint \<Rightarrow> string" where
  "endpoint_display e =
     application_protocol_display (ep_protocol e) @ ''://'' @
     (case ep_ip e of Some ip \<Rightarrow> ip_display ip | None \<Rightarrow> ''<unresolved>'') @ '':'' @
     show_nat (unat (number (ep_port_type e))) @ ep_path e"

definition endpoint_eq :: "Endpoint \<Rightarrow> Endpoint \<Rightarrow> bool" where
  "endpoint_eq a b \<longleftrightarrow>
     ep_protocol a = ep_protocol b \<and> number (ep_port_type a) = number (ep_port_type b) \<and>
     ep_path a = ep_path b"

definition endpoint_hash :: "Endpoint \<Rightarrow> ApplicationProtocol \<times> (u16 \<times> TransportProtocol) \<times> string" where
  \<comment> \<open>what \<open>impl Hash\<close> feeds to the hasher\<close>
  "endpoint_hash e = (ep_protocol e, port_hash (ep_port_type e), ep_path e)"

lemma endpoint_eq_refl [simp]: "endpoint_eq a a"
  by (simp add: endpoint_eq_def)

lemma endpoint_eq_sym: "endpoint_eq a b \<Longrightarrow> endpoint_eq b a"
  by (simp add: endpoint_eq_def)

lemma endpoint_eq_trans: "endpoint_eq a b \<Longrightarrow> endpoint_eq b c \<Longrightarrow> endpoint_eq a c"
  by (simp add: endpoint_eq_def)

lemma endpoint_hash_eq:
  "protocol (ep_port_type a) = protocol (ep_port_type b) \<Longrightarrow>
   endpoint_eq a b \<longleftrightarrow> endpoint_hash a = endpoint_hash b"
  by (auto simp: endpoint_eq_def endpoint_hash_def port_hash_def number_def protocol_def)

end
