(* ===== verification/Patterns.thy ===== *)
theory Patterns
  imports Services Endpoints
begin

text \<open>
  Discovery patterns (\<open>server/services/impl/patterns.rs\<close>): the pattern language, its matcher
  with the reasons and confidences it reports, its printing, and the ports and endpoints a
  scan has to probe for it. The parameters of a match (\<open>services/impl/base.rs\<close>) are the three
  records of the source. The OUI database, the CIDR crate and the registry of the service
  definitions are arguments of the matcher.
\<close>

section \<open>Match parameters and results\<close>

record MatchResult =
  mr_ports :: "PortType list"
  mr_endpoint :: "Endpoint option"
  mr_mac_vendor :: "string option"
  mr_details :: MatchDetails

record 'c ServiceMatchBaselineParams =
  bp_subnet :: "'c Subnet"
  bp_interface :: Interface
  bp_all_ports :: "PortType list"
  bp_endpoint_responses :: "EndpointResponse list"
  bp_virtualization :: "ServiceVirtualization option"

record ServiceMatchServiceParams =
  sp_service_definition :: ServiceDefinition
  sp_matched_services :: "Service list"
  sp_unbound_ports :: "PortType list"

record 'c MatchParams =
  mp_host_id :: uuid
  mp_gateway_ips :: "IpAddr list"
  mp_daemon_id :: uuid
  mp_network_id :: uuid
  mp_discovery_type :: DiscoveryType
  mp_baseline :: "'c ServiceMatchBaselineParams"
  mp_service :: ServiceMatchServiceParams

section \<open>The pattern language\<close>

text \<open>A status range is the pair of its bounds, the end excluded (\<open>Range<u16>\<close>).\<close>

type_synonym StatusRange = "u16 \<times> u16"

datatype (plugins only: size) 'c Pattern =
    AnyOf "'c Pattern list"
  | AllOf "'c Pattern list"
  | NotP "'c Pattern"
  | PortP PortType
  | EndpointP PortType string string "StatusRange option"
  | HeaderP "PortType option" string string "StatusRange option"
  | SubnetIsType SubnetType
  | IsGateway
  | MacVendor string
  | CustomP "'c MatchParams \<Rightarrow> bool" "'c MatchParams \<Rightarrow> PortType list" string string MatchConfidence
  | DockerContainerP
  | NoPattern

text \<open>
  A service definition: what the methods of the trait object answer. The handle other parts
  of the program keep is computed from it; \<open>is_gateway\<close> and the raw socket flag come from the
  pattern.
\<close>

record 'c ServiceDef =
  def_name :: string
  def_description :: string
  def_category :: ServiceCategory
  def_pattern :: "'c Pattern"
  def_is_generic :: bool
  def_logo_url :: string
  def_logo_white :: bool

definition trait_defaults :: "string \<Rightarrow> string \<Rightarrow> ServiceCategory \<Rightarrow> 'c Pattern \<Rightarrow> 'c ServiceDef" where
  \<comment> \<open>a definition that keeps the provided methods of the trait\<close>
  "trait_defaults n d c p =
     \<lparr>def_name = n, def_description = d, def_category = c, def_pattern = p,
      def_is_generic = False, def_logo_url = [], def_logo_white = False\<rparr>"

definition port_default :: PortType where
  "port_default = Http"

section \<open>Ports and endpoints to probe\<close>

fun pattern_ports :: "'c Pattern \<Rightarrow> PortType list" where
  "pattern_ports (PortP p) = [p]"
| "pattern_ports (AnyOf ps) = concat (map pattern_ports ps)"
| "pattern_ports (AllOf ps) = concat (map pattern_ports ps)"
| "pattern_ports _ = []"

fun pattern_endpoints :: "'c Pattern \<Rightarrow> Endpoint list" where
  "pattern_endpoints (EndpointP p path _ None) = [for_pattern p path]"
| "pattern_endpoints (HeaderP (Some p) _ _ _) = [for_pattern p ''/'']"
| "pattern_endpoints (HeaderP None _ _ _) = [for_pattern Http ''/'']"
| "pattern_endpoints (AnyOf ps) = concat (map pattern_endpoints ps)"
| "pattern_endpoints (AllOf ps) = concat (map pattern_endpoints ps)"
| "pattern_endpoints _ = []"

definition has_raw_socket_endpoint :: "'c Pattern \<Rightarrow> bool" where
  "has_raw_socket_endpoint p = list_ex (\<lambda>e. is_raw_socket (ep_port_type e)) (pattern_endpoints p)"

fun contains_gateway_ip_pattern :: "'c Pattern \<Rightarrow> bool" where
  "contains_gateway_ip_pattern IsGateway = True"
| "contains_gateway_ip_pattern (AllOf ps) = list_ex contains_gateway_ip_pattern ps"
| "contains_gateway_ip_pattern (AnyOf ps) = list_ex contains_gateway_ip_pattern ps"
| "contains_gateway_ip_pattern _ = False"

definition handle_of :: "'c ServiceDef \<Rightarrow> ServiceDefinition" where
  "handle_of d =
     \<lparr>sd_name = def_name d, sd_description = def_description d, sd_category = def_category d,
      sd_is_generic = def_is_generic d, sd_is_gateway = contains_gateway_ip_pattern (def_pattern d),
      sd_logo_url = def_logo_url d, sd_raw_socket = has_raw_socket_endpoint (def_pattern d)\<rparr>"

section \<open>Printing\<close>

definition quoted :: "string \<Rightarrow> string" where
  "quoted s = ''\"'' @ s @ ''\"''"

definition show_u16 :: "u16 \<Rightarrow> string" where
  "show_u16 n = show_nat (unat n)"

definition range_debug :: "StatusRange \<Rightarrow> string" where
  "range_debug r = show_u16 (fst r) @ ''..'' @ show_u16 (snd r)"

fun pattern_display :: "'c Pattern \<Rightarrow> string" where
  "pattern_display (AnyOf ps) = ''Any of: ('' @ str_join '', '' (map pattern_display ps) @ '')''"
| "pattern_display (AllOf ps) = ''All of: ('' @ str_join '', '' (map pattern_display ps) @ '')''"
| "pattern_display (NotP p) = ''Not ('' @ pattern_display p @ '')''"
| "pattern_display (PortP p) = port_display p @ '' is open''"
| "pattern_display (EndpointP p path m rg) =
     (case rg of
        Some (a, b) \<Rightarrow>
          ''Endpoint response status is between '' @ show_u16 a @ '' and '' @ show_u16 b @
          '', and response body from <ip>:'' @ show_u16 (number p) @ path @ '' contains '' @ quoted m
      | None \<Rightarrow>
          ''Endpoint response body from <ip>:'' @ show_u16 (number p) @ path @ '' contains '' @ quoted m)"
| "pattern_display (HeaderP p h v rg) =
     (let ip = (case p of Some p \<Rightarrow> ''<ip>:'' @ show_u16 (number p) | None \<Rightarrow> ''<ip>'') in
      case rg of
        Some (a, b) \<Rightarrow>
          ''Endpoint response status is between '' @ show_u16 a @ '' and '' @ show_u16 b @
          '', and response from '' @ ip @ '' has header '' @ quoted h @ '' with value '' @ quoted v
      | None \<Rightarrow>
          ''Endpoint response from '' @ ip @ '' has header '' @ quoted h @ '' with value '' @ quoted v)"
| "pattern_display (SubnetIsType t) = ''Subnet is type '' @ subnet_type_id t"
| "pattern_display IsGateway =
     ''Host IP is a gateway in daemon'' @ [char_of (39 :: nat)] @
     ''s routing tables, or ends in .1 or .254.''"
| "pattern_display (MacVendor v) = ''MAC Address belongs to '' @ v"
| "pattern_display (CustomP _ _ _ _ _) = ''A custom match pattern evaluated at runtime''"
| "pattern_display DockerContainerP = ''Service is running in a docker container''"
| "pattern_display NoPattern = ''No match pattern provided''"

section \<open>Matching a leaf\<close>

text \<open>
  The OUI database: \<open>None\<close> when it does not load; a lookup fails, finds nothing, or finds the
  company of an address.
\<close>

type_synonym OuiDb = "(MacAddress \<Rightarrow> string + string option) option"

record 'c MatchContext =
  mc_cidr :: "'c CidrOps"
  mc_oui :: OuiDb
  mc_registry :: "'c ServiceDef list"

definition simple_result :: "PortType list \<Rightarrow> Endpoint option \<Rightarrow> string option \<Rightarrow> string \<Rightarrow> MatchConfidence \<Rightarrow> MatchResult" where
  "simple_result ps e v reason c =
     \<lparr>mr_ports = ps, mr_endpoint = e, mr_mac_vendor = v,
      mr_details = \<lparr>md_reason = Reason reason, md_confidence = c\<rparr>\<rparr>"

definition other_services_ports :: "'c MatchContext \<Rightarrow> ServiceDefinition \<Rightarrow> PortType list" where
  "other_services_ports C d =
     sort_dedup_ports (concat (map (\<lambda>s. pattern_ports (def_pattern s))
       (filter (\<lambda>s. def_name s \<noteq> sd_id d) (mc_registry C))))"

definition match_port :: "'c MatchContext \<Rightarrow> 'c MatchParams \<Rightarrow> PortType \<Rightarrow> string + MatchResult" where
  "match_port C P p =
     (case find (\<lambda>q. port_eq q p) (sp_unbound_ports (mp_service P)) of
        Some matched \<Rightarrow>
          (let unique = is_custom p \<and>
                 \<not> port_mem p (other_services_ports C (sp_service_definition (mp_service P)));
               (reason, confidence) =
                 (if is_custom p \<and> unique
                  then (''Port '' @ port_display p @ '' is open and is not used in other service match patterns'', Medium)
                  else (''Port '' @ port_display p @ '' is open'', Low))
           in Inr (simple_result [matched] None None reason confidence))
      | None \<Rightarrow> Inl (''Port '' @ port_display p @ '' is not open''))"

definition in_status_range :: "StatusRange option \<Rightarrow> u16 \<Rightarrow> bool" where
  \<comment> \<open>the default range is \<open>200..400\<close>\<close>
  "in_status_range rg s =
     (let (a, b) = (case rg of Some r \<Rightarrow> r | None \<Rightarrow> (200, 400)) in a \<le> s \<and> s < b)"

definition header_matches :: "PortType option \<Rightarrow> string \<Rightarrow> string \<Rightarrow> StatusRange option \<Rightarrow> EndpointResponse \<Rightarrow> bool" where
  "header_matches p header value rg actual \<longleftrightarrow>
     (case p of Some p \<Rightarrow> port_eq (ep_port_type (er_endpoint actual)) p | None \<Rightarrow> True) \<and>
     in_status_range rg (er_status actual) \<and>
     list_ex (\<lambda>(h, v). to_lowercase h = to_lowercase header \<and>
                       str_contains (to_lowercase v) (to_lowercase value)) (er_headers actual)"

definition match_header ::
    "'c MatchParams \<Rightarrow> PortType option \<Rightarrow> string \<Rightarrow> string \<Rightarrow> StatusRange option \<Rightarrow> string + MatchResult" where
  "match_header P p header value rg =
     (case find (header_matches p header value rg) (bp_endpoint_responses (mp_baseline P)) of
        Some actual \<Rightarrow>
          (let reasons = (''header '' @ header @ '' contained '' @ quoted value) #
                 (case rg of
                    Some r \<Rightarrow> [''status code '' @ show_u16 (er_status actual) @ '' was in range '' @ range_debug r]
                  | None \<Rightarrow> []);
               reason = (case p of
                    Some p \<Rightarrow> ''Response from '' @ show_u16 (number p) @ '' '' @ str_join '' and '' reasons
                  | None \<Rightarrow> ''Response '' @ str_join '' and '' reasons)
           in Inr (simple_result [ep_port_type (er_endpoint actual)] (Some (er_endpoint actual)) None reason High))
      | None \<Rightarrow>
          Inl (''Could not find an header response on port '' @
               show_u16 (number (case p of Some p \<Rightarrow> p | None \<Rightarrow> port_default))))"

definition endpoint_matches :: "PortType \<Rightarrow> string \<Rightarrow> string \<Rightarrow> StatusRange option \<Rightarrow> EndpointResponse \<Rightarrow> bool" where
  "endpoint_matches p path body rg actual \<longleftrightarrow>
     (let e = for_pattern p path; a = er_endpoint actual in
      ep_protocol a = ep_protocol e \<and>
      number (ep_port_type a) = number (ep_port_type e) \<and>
      protocol (ep_port_type a) = protocol (ep_port_type e) \<and>
      ep_path a = ep_path e \<and>
      in_status_range rg (er_status actual) \<and>
      str_contains (to_lowercase (er_body actual)) (to_lowercase body))"

definition match_endpoint ::
    "'c MatchParams \<Rightarrow> PortType \<Rightarrow> string \<Rightarrow> string \<Rightarrow> StatusRange option \<Rightarrow> string + MatchResult" where
  "match_endpoint P p path body rg =
     (case find (endpoint_matches p path body rg) (bp_endpoint_responses (mp_baseline P)) of
        Some actual \<Rightarrow>
          (let reasons = (''contained '' @ quoted body @ '' in body'') #
                 (case rg of
                    Some r \<Rightarrow> [''status code was '' @ show_u16 (er_status actual) @ '' was in range '' @ range_debug r]
                  | None \<Rightarrow> []);
               reason = ''Response for '' @ ip_display (ib_ip_address (interface_base (bp_interface (mp_baseline P)))) @
                 '':'' @ show_u16 (number p) @ path @ '' '' @ str_join '' and '' reasons
           in Inr (simple_result [ep_port_type (er_endpoint actual)] (Some (er_endpoint actual)) None reason High))
      | None \<Rightarrow> Inl (''Could not find an endpoint response containing '' @ body))"

definition normalize_vendor :: "string \<Rightarrow> string" where
  "normalize_vendor s = filter is_alphanumeric (to_lowercase (trim s))"

definition match_vendor :: "'c MatchContext \<Rightarrow> 'c MatchParams \<Rightarrow> string \<Rightarrow> string + MatchResult" where
  "match_vendor C P vendor =
     (let intf = interface_base (bp_interface (mp_baseline P)) in
      case ib_mac_address intf of
        Some mac \<Rightarrow>
          (case mc_oui C of
             None \<Rightarrow> Inl ''Could not load Oui database''
           | Some lookup \<Rightarrow>
               (case lookup mac of
                  Inr (Some company) \<Rightarrow>
                    if normalize_vendor vendor = normalize_vendor company
                    then Inr (simple_result [] None (Some company) (''Mac address is from vendor '' @ company) Medium)
                    else Inl (''Mac address is not from vendor '' @ normalize_vendor vendor)
                | _ \<Rightarrow> Inl ''Could not find vendor for mac address in Oui database''))
      | None \<Rightarrow> Inl (''Interface '' @ ip_display (ib_ip_address intf) @ '' does not have a mac address''))"

definition match_gateway :: "'c MatchContext \<Rightarrow> 'c MatchParams \<Rightarrow> string + MatchResult" where
  "match_gateway C P =
     (let cidr = sb_cidr (subnet_base (bp_subnet (mp_baseline P)));
          ip = ib_ip_address (interface_base (bp_interface (mp_baseline P)));
          in_subnet = filter (cidr_contains (mc_cidr C) cidr) (mp_gateway_ips P)
      in if ip \<in> set in_subnet
         then Inr (simple_result [] None None
                (''Host IP address is in routing table of daemon '' @ uuid_display (mp_daemon_id P)) High)
         else if ends_in_1_or_254 ip \<and> length in_subnet = 0
         then Inr (simple_result [] None None
                (''No other gateways in subnet '' @ cidr_display (mc_cidr C) cidr @
                 '' and IP address ends in 1 or 254'') High)
         else Inl (''IP address is not in routing table, and does not end in 1 or 254 '' @
                   ''with no other gateways identified in subnet''))"

definition match_subnet_type :: "'c MatchContext \<Rightarrow> 'c MatchParams \<Rightarrow> SubnetType \<Rightarrow> string + MatchResult" where
  "match_subnet_type C P t =
     (let sb = subnet_base (bp_subnet (mp_baseline P)); cidr = cidr_display (mc_cidr C) (sb_cidr sb) in
      if sb_subnet_type sb = t
      then Inr (simple_result [] None None (''Subnet '' @ cidr @ '' is type '' @ subnet_type_name t) Low)
      else Inl (''Subnet '' @ cidr @ '' is not type '' @ subnet_type_name t))"

definition match_docker :: "'c MatchParams \<Rightarrow> string + MatchResult" where
  "match_docker P =
     (case bp_virtualization (mp_baseline P) of
        Some (DockerVirt _) \<Rightarrow> Inr (simple_result [] None None ''Service is running in docker container'' Low)
      | _ \<Rightarrow> Inl ''Service is not running in a docker container'')"

definition match_not :: "string + MatchResult \<Rightarrow> string + MatchResult" where
  "match_not r =
     (case r of
        Inr res \<Rightarrow> Inl (match_reason_display (md_reason (mr_details res)))
      | Inl e \<Rightarrow> Inr (simple_result [] None None e Low))"

section \<open>Matching the containers\<close>

text \<open>
  Both containers match every child, whatever the earlier ones did, and collect what the
  children answered in order. The endpoint and the vendor they collect are dropped from their
  result.
\<close>

record Gathered =
  g_ports :: "PortType list"
  g_reasons :: "MatchReason list"
  g_confidences :: "MatchConfidence list"
  g_errors :: string
  g_matched :: nat
  g_failed :: nat

definition gather_step :: "string + MatchResult \<Rightarrow> Gathered \<Rightarrow> Gathered" where
  "gather_step r g =
     (case r of
        Inr res \<Rightarrow>
          g\<lparr>g_ports := g_ports g @ mr_ports res,
            g_reasons := g_reasons g @ [md_reason (mr_details res)],
            g_confidences := g_confidences g @ [md_confidence (mr_details res)],
            g_matched := Suc (g_matched g)\<rparr>
      | Inl e \<Rightarrow> g\<lparr>g_errors := g_errors g @ '', '' @ e, g_failed := Suc (g_failed g)\<rparr>)"

definition gather :: "(string + MatchResult) list \<Rightarrow> Gathered" where
  "gather rs =
     fold gather_step rs
       \<lparr>g_ports = [], g_reasons = [], g_confidences = [], g_errors = [], g_matched = 0, g_failed = 0\<rparr>"

definition container_result :: "string \<Rightarrow> Gathered \<Rightarrow> MatchConfidence \<Rightarrow> MatchResult" where
  "container_result nm g c =
     \<lparr>mr_ports = sort_dedup_ports (g_ports g), mr_endpoint = None, mr_mac_vendor = None,
      mr_details = \<lparr>md_reason = Container nm (g_reasons g), md_confidence = c\<rparr>\<rparr>"

definition match_any :: "(string + MatchResult) list \<Rightarrow> string + MatchResult" where
  "match_any rs =
     (let g = gather rs;
          confidence = fold (\<lambda>c best. if c > best then c else best) (g_confidences g) Low
      in if g_matched g > 0 then Inr (container_result ''Any of'' g confidence) else Inl (g_errors g))"

definition all_confidence :: "MatchConfidence list \<Rightarrow> MatchConfidence" where
  "all_confidence cs =
     (let sorted = sort cs; max_c = (if sorted = [] then Low else last sorted) in
      if (max_c = Low \<or> max_c = Medium) \<and> length sorted > 3
      then (case max_c of Low \<Rightarrow> Medium | Medium \<Rightarrow> High | _ \<Rightarrow> max_c)
      else max_c)"

definition match_all :: "(string + MatchResult) list \<Rightarrow> string + MatchResult" where
  "match_all rs =
     (let g = gather rs in
      if g_failed g = 0 then Inr (container_result ''All of'' g (all_confidence (g_confidences g)))
      else Inl (g_errors g))"

fun matches :: "'c MatchContext \<Rightarrow> 'c MatchParams \<Rightarrow> 'c Pattern \<Rightarrow> string + MatchResult" where
  "matches C P (PortP p) = match_port C P p"
| "matches C P (HeaderP p h v r) = match_header P p h v r"
| "matches C P (EndpointP p path m r) = match_endpoint P p path m r"
| "matches C P (MacVendor v) = match_vendor C P v"
| "matches C P (NotP p) = match_not (matches C P p)"
| "matches C P (AnyOf ps) = match_any (map (matches C P) ps)"
| "matches C P (AllOf ps) = match_all (map (matches C P) ps)"
| "matches C P IsGateway = match_gateway C P"
| "matches C P (SubnetIsType t) = match_subnet_type C P t"
| "matches C P (CustomP con port reason no_match c) =
     (if con P then Inr (simple_result (port P) None None reason c) else Inl no_match)"
| "matches C P DockerContainerP = match_docker P"
| "matches C P NoPattern = Inl ''No match pattern provided''"

end
