(* ===== verification/Hosts.thy ===== *)
theory Hosts
  imports Services Ports
begin

text \<open>
  Hosts (\<open>server/hosts/impl/base.rs\<close>, \<open>virtualization.rs\<close>) and the two shapes a host travels
  in with its children (\<open>server/hosts/impl/api.rs\<close>): the request a daemon sends and the
  response the server answers with. SNMP interface entries are a type parameter.
\<close>

record ProxmoxVirtualization =
  vm_name :: "string option"
  vm_id :: "string option"
  pv_service_id :: uuid

datatype HostVirtualization = Proxmox ProxmoxVirtualization

record HostBase =
  hb_name :: string
  hb_network_id :: uuid
  hostname :: "string option"
  hb_description :: "string option"
  hb_source :: EntitySource
  hb_virtualization :: "HostVirtualization option"
  hidden :: bool
  hb_tags :: "uuid list"
  sys_descr :: "string option"
  sys_object_id :: "string option"
  sys_location :: "string option"
  sys_contact :: "string option"
  management_url :: "string option"
  chassis_id :: "string option"
  snmp_credential_id :: "uuid option"

record Host =
  host_id :: uuid
  host_created_at :: timestamp
  host_updated_at :: timestamp
  host_base :: HostBase

definition default_host_base :: HostBase where
  "default_host_base =
     \<lparr>hb_name = [], hb_network_id = uuid_nil, hostname = None, hb_description = None,
      hb_source = UnknownSource, hb_virtualization = None, hidden = False, hb_tags = [],
      sys_descr = None, sys_object_id = None, sys_location = None, sys_contact = None,
      management_url = None, chassis_id = None, snmp_credential_id = None\<rparr>"

definition host_new :: "uuid \<Rightarrow> timestamp \<Rightarrow> HostBase \<Rightarrow> Host" where
  "host_new fresh now b = \<lparr>host_id = fresh, host_created_at = now, host_updated_at = now, host_base = b\<rparr>"

definition host_eq :: "Host \<Rightarrow> Host \<Rightarrow> bool" where
  "host_eq a b \<longleftrightarrow> host_id a = host_id b"

definition host_hash :: "Host \<Rightarrow> uuid" where
  "host_hash h = host_id h"

definition host_triggers_staleness :: "Host \<Rightarrow> Host option \<Rightarrow> bool" where
  "host_triggers_staleness h other =
     (case other of
        Some g \<Rightarrow>
          hostname (host_base h) \<noteq> hostname (host_base g) \<or>
          hb_virtualization (host_base h) \<noteq> hb_virtualization (host_base g) \<or>
          hidden (host_base h) \<noteq> hidden (host_base g)
      | None \<Rightarrow> True)"

record 'e DiscoveryHostRequest =
  hr_host :: Host
  hr_interfaces :: "Interface list"
  hr_ports :: "Port list"
  hr_services :: "Service list"
  hr_if_entries :: "'e list"

text \<open>The response repeats the fields of the host next to its children.\<close>

record 'e HostResponse =
  resp_id :: uuid
  resp_created_at :: timestamp
  resp_updated_at :: timestamp
  resp_base :: HostBase
  resp_interfaces :: "Interface list"
  resp_ports :: "Port list"
  resp_services :: "Service list"
  resp_if_entries :: "'e list"

definition to_host :: "'e HostResponse \<Rightarrow> Host" where
  "to_host r =
     \<lparr>host_id = resp_id r, host_created_at = resp_created_at r, host_updated_at = resp_updated_at r,
      host_base = resp_base r\<rparr>"

definition from_host_with_children ::
    "Host \<Rightarrow> Interface list \<Rightarrow> Port list \<Rightarrow> Service list \<Rightarrow> 'e list \<Rightarrow> 'e HostResponse" where
  "from_host_with_children h is ps ss es =
     \<lparr>resp_id = host_id h, resp_created_at = host_created_at h, resp_updated_at = host_updated_at h,
      resp_base = host_base h, resp_interfaces = is, resp_ports = ps, resp_services = ss,
      resp_if_entries = es\<rparr>"

lemma to_host_from_host [simp]: "to_host (from_host_with_children h is ps ss es) = h"
  by (simp add: to_host_def from_host_with_children_def)

lemma host_eq_hash: "host_eq a b \<longleftrightarrow> host_hash a = host_hash b"
  by (simp add: host_eq_def host_hash_def)

end
