(* ===== verification/Service_Discovery.thy ===== *)
theory Service_Discovery
  imports Patterns Hosts
begin

text \<open>
  From a scanned host to its services: the ports and endpoints a scan probes and the service
  one definition yields (\<open>server/services/impl/base.rs\<close>), the three definitions whose
  patterns inspect the services matched so far (\<open>services/definitions\<close>: gateway, docker
  container, open ports), and the daemon's matching loop with the naming of the host
  (\<open>daemon/discovery/service/base.rs\<close>). Fresh ids are an argument: \<open>fresh i j\<close> is the j-th id
  taken while the i-th definition of the loop is tried.
\<close>

section \<open>The registry\<close>

definition find_by_id :: "'c ServiceDef list \<Rightarrow> string \<Rightarrow> 'c ServiceDef option" where
  "find_by_id registry i = find (\<lambda>d. def_name d = i) registry"

definition service_exists :: "'c ServiceDef list \<Rightarrow> string \<Rightarrow> bool" where
  "service_exists registry i = list_ex (\<lambda>d. def_name d = i) registry"

definition all_discovery_ports :: "'c ServiceDef list \<Rightarrow> PortType list" where
  "all_discovery_ports registry =
     sort_dedup_ports (concat (map (\<lambda>d. pattern_ports (def_pattern d)) registry))"

text \<open>
  Endpoints are sorted by the printed protocol, the port number and the path; strings
  compare byte by byte.
\<close>

fun str_less_eq :: "string \<Rightarrow> string \<Rightarrow> bool" where
  "str_less_eq [] t = True"
| "str_less_eq (c # s) [] = False"
| "str_less_eq (c # s) (d # t) =
     (let m = of_char c :: nat; n = of_char d in m < n \<or> m = n \<and> str_less_eq s t)"

definition endpoint_less_eq :: "Endpoint \<Rightarrow> Endpoint \<Rightarrow> bool" where
  "endpoint_less_eq a b =
     (let p = application_protocol_display (ep_protocol a); q = application_protocol_display (ep_protocol b);
          m = number (ep_port_type a); n = number (ep_port_type b) in
      if p \<noteq> q then str_less_eq p q
      else if m \<noteq> n then m < n
      else str_less_eq (ep_path a) (ep_path b))"

fun insert_by :: "('a \<Rightarrow> 'a \<Rightarrow> bool) \<Rightarrow> 'a \<Rightarrow> 'a list \<Rightarrow> 'a list" where
  "insert_by le x [] = [x]"
| "insert_by le x (y # ys) = (if le x y then x # y # ys else y # insert_by le x ys)"

definition sort_by :: "('a \<Rightarrow> 'a \<Rightarrow> bool) \<Rightarrow> 'a list \<Rightarrow> 'a list" where
  \<comment> \<open>the stable sort of an order\<close>
  "sort_by le xs = foldr (insert_by le) xs []"

definition all_discovery_endpoints :: "'c ServiceDef list \<Rightarrow> Endpoint list" where
  "all_discovery_endpoints registry =
     vec_dedup endpoint_eq (sort_by endpoint_less_eq
       (concat (map (\<lambda>d. pattern_endpoints (def_pattern d)) registry)))"

definition endpoint_only_ports :: "'c ServiceDef list \<Rightarrow> PortType list" where
  "endpoint_only_ports registry =
     (let port_scan_ports = all_discovery_ports registry;
          endpoint_ports = map ep_port_type (all_discovery_endpoints registry)
      in sort_dedup_ports (filter (\<lambda>p. \<not> port_mem p port_scan_ports) endpoint_ports))"

section \<open>One definition\<close>

definition with_definition :: "'c ServiceDef \<Rightarrow> 'c MatchParams \<Rightarrow> 'c MatchParams" where
  \<comment> \<open>the definition is a field of the parameters; its pattern is not part of the handle\<close>
  "with_definition d P = P\<lparr>mp_service := (mp_service P)\<lparr>sp_service_definition := handle_of d\<rparr>\<rparr>"

definition discovered_name :: "'c ServiceDef \<Rightarrow> ServiceVirtualization option \<Rightarrow> string" where
  "discovered_name d v =
     (if def_is_generic d
      then (case v of
              Some (DockerVirt dv) \<Rightarrow> (case container_name dv of Some n \<Rightarrow> n | None \<Rightarrow> def_name d)
            | None \<Rightarrow> def_name d)
      else def_name d)"

definition discovered_details :: "'c ServiceDef \<Rightarrow> MatchDetails \<Rightarrow> MatchDetails" where
  "discovered_details d det =
     (if def_is_generic d
      then \<lparr>md_reason = Container ''Generic service'' [md_reason det], md_confidence = NotApplicable\<rparr>
      else det)"

definition from_discovery ::
    "'c MatchContext \<Rightarrow> (nat \<Rightarrow> uuid) \<Rightarrow> timestamp \<Rightarrow> 'c ServiceDef \<Rightarrow> 'c MatchParams \<Rightarrow>
     (Service \<times> Port list \<times> Endpoint option) option" where
  "from_discovery C fresh now d P0 =
     (let P = with_definition d P0; b = mp_baseline P; intf = bp_interface b in
      case matches C P (def_pattern d) of
        Inr result \<Rightarrow>
          (let n = length (mr_ports result);
               ports = map (\<lambda>(j, p). port_new_hostless (fresh j) now p) (enumerate 0 (mr_ports result));
               bs = (if mr_ports result \<noteq> []
                     then map (\<lambda>(j, p). new_port_serviceless (fresh (n + j)) now (port_id p) (Some (interface_id intf)))
                            (enumerate 0 ports)
                     else [new_interface_serviceless (fresh n) now (interface_id intf)]);
               service = service_new (fresh (n + length bs)) now
                 \<lparr>vb_host_id = mp_host_id P, vb_network_id = mp_network_id P,
                  service_definition = handle_of d,
                  vb_name = discovered_name d (bp_virtualization b),
                  bindings = bs, virtualization = bp_virtualization b,
                  vb_source = DiscoveryWithMatch
                    [discovery_metadata_new now (mp_discovery_type P) (mp_daemon_id P)]
                    (discovered_details d (mr_details result)),
                  vb_tags = [], vb_position = 0\<rparr>
           in Some (service, ports, mr_endpoint result))
      | Inl _ \<Rightarrow> None)"

section \<open>Definitions that look at the services matched so far\<close>

definition no_non_gateway_matched :: "'c MatchParams \<Rightarrow> bool" where
  "no_non_gateway_matched P =
     (\<not> list_ex (\<lambda>s. \<not> sd_is_gateway (service_definition (service_base s)))
          (sp_matched_services (mp_service P)))"

definition svc_gateway :: "'c ServiceDef" where
  "svc_gateway =
     (trait_defaults ''Gateway'' ''A generic gateway'' SC_NetworkCore
       (AllOf [IsGateway,
               CustomP no_non_gateway_matched (\<lambda>_. []) ''No other gateway services matched''
                 ''A gateway service has already been matched'' Low]))\<lparr>def_is_generic := True\<rparr>"

definition container_not_matched :: "'c MatchParams \<Rightarrow> bool" where
  "container_not_matched P =
     (case bp_virtualization (mp_baseline P) of
        Some (DockerVirt dv) \<Rightarrow>
          (case container_id dv of
             Some c \<Rightarrow>
               list_all (\<lambda>s. case virtualization (service_base s) of
                   Some (DockerVirt e) \<Rightarrow> (if container_id e \<noteq> None then container_id e \<noteq> Some c else True)
                 | None \<Rightarrow> True) (sp_matched_services (mp_service P))
           | None \<Rightarrow> False)
      | None \<Rightarrow> False)"

definition svc_docker_container :: "'c ServiceDef" where
  "svc_docker_container =
     (trait_defaults ''Docker Container'' ''A generic docker container'' SC_Virtualization
       (AllOf [DockerContainerP,
               CustomP container_not_matched (\<lambda>_. []) (''No other services with this container'' @
                   [char_of (39 :: nat)] @ ''s ID have been matched'')
                 (''A service with this container'' @ [char_of (39 :: nat)] @ ''s ID has already been matched'') Low]))
       \<lparr>def_is_generic := True,
        def_logo_url := ''https://cdn.jsdelivr.net/gh/homarr-labs/dashboard-icons/svg/docker.svg''\<rparr>"

definition svc_open_ports :: "'c ServiceDef" where
  "svc_open_ports =
     (trait_defaults ''Unclaimed Open Ports''
       ''Unclaimed open ports. Reassign to the correct service if known.'' SC_OpenPorts
       (CustomP (\<lambda>p. sp_unbound_ports (mp_service p) \<noteq> []) (\<lambda>p. sp_unbound_ports (mp_service p))
          ''Has unbound open ports'' ''No unbound ports remaining'' NotApplicable))\<lparr>def_is_generic := True\<rparr>"

section \<open>The matching loop\<close>

definition definition_priority :: "'c ServiceDef \<Rightarrow> nat" where
  "definition_priority d =
     (if \<not> def_is_generic d then 0
      else if def_name d = ''Unclaimed Open Ports'' then 3
      else if def_name d = ''Docker Container'' \<or> def_name d = ''Gateway'' then 2
      else 1)"

record MatchState =
  ms_services :: "Service list"
  ms_host_ports :: "Port list"
  ms_unbound :: "PortType list"
  ms_container_matched :: bool
  ms_index :: nat

definition names_container :: "ServiceVirtualization option \<Rightarrow> bool" where
  "names_container v = (case v of Some (DockerVirt dv) \<Rightarrow> container_id dv \<noteq> None | None \<Rightarrow> False)"

definition loop_params :: "'c MatchParams \<Rightarrow> MatchState \<Rightarrow> 'c MatchParams" where
  "loop_params P m =
     P\<lparr>mp_service := (mp_service P)\<lparr>sp_matched_services := ms_services m, sp_unbound_ports := ms_unbound m\<rparr>\<rparr>"

definition match_definition ::
    "'c MatchContext \<Rightarrow> (nat \<Rightarrow> nat \<Rightarrow> uuid) \<Rightarrow> timestamp \<Rightarrow> 'c MatchParams \<Rightarrow> 'c ServiceDef \<Rightarrow> MatchState \<Rightarrow> MatchState" where
  "match_definition C fresh now P d m =
     (let m' = m\<lparr>ms_index := Suc (ms_index m)\<rparr> in
      case from_discovery C (fresh (ms_index m)) now d (loop_params P m) of
        Some (service, ports, _) \<Rightarrow>
          if ms_container_matched m then m'
          else
            (let bound = map (\<lambda>p. pb_port_type (port_base p)) ports in
             m'\<lparr>ms_container_matched :=
                  (if names_container (virtualization (service_base service)) then True else ms_container_matched m),
                ms_host_ports := ms_host_ports m @ ports,
                ms_unbound := filter (\<lambda>p. \<not> port_mem p bound) (ms_unbound m),
                ms_services := ms_services m @ [service]\<rparr>)
      | None \<Rightarrow> m')"

definition service_rank :: "Service \<Rightarrow> int" where
  "service_rank s =
     - (case vb_source (service_base s) of
          DiscoveryWithMatch _ details \<Rightarrow>
            confidence_rank (md_confidence details) + (if has_logo (service_definition (service_base s)) then 1 else 0)
        | _ \<Rightarrow> confidence_rank NotApplicable)"

definition match_loop ::
    "'c MatchContext \<Rightarrow> (nat \<Rightarrow> nat \<Rightarrow> uuid) \<Rightarrow> timestamp \<Rightarrow> 'c MatchParams \<Rightarrow> MatchState" where
  "match_loop C fresh now P =
     fold (match_definition C fresh now P) (sort_key definition_priority (mc_registry C))
       \<lparr>ms_services = [], ms_host_ports = [], ms_unbound = bp_all_ports (mp_baseline P),
        ms_container_matched = False, ms_index = 0\<rparr>"

definition discover_services ::
    "'c MatchContext \<Rightarrow> (nat \<Rightarrow> nat \<Rightarrow> uuid) \<Rightarrow> timestamp \<Rightarrow> 'c MatchParams \<Rightarrow> Service list \<times> Port list" where
  "discover_services C fresh now P =
     (let m = match_loop C fresh now P in
      (sort_key service_rank (ms_services m),
       ms_host_ports m @
         map (\<lambda>(j, p). port_new_hostless (fresh (ms_index m) j) now p) (enumerate 0 (ms_unbound m))))"

section \<open>The host\<close>

definition best_service_name :: "Service list \<Rightarrow> string option" where
  "best_service_name ss =
     map_option (\<lambda>s. sd_name (service_definition (service_base s)))
       (find (\<lambda>s. \<not> sd_is_generic (service_definition (service_base s))) ss)"

definition process_host_name ::
    "string option \<Rightarrow> HostNamingFallback \<Rightarrow> IpAddr \<Rightarrow> Service list \<Rightarrow> string" where
  "process_host_name hostnm fallback ip ss =
     (case hostnm of
        Some h \<Rightarrow> h
      | None \<Rightarrow>
          if fallback = BestService \<and> best_service_name ss \<noteq> None then the (best_service_name ss)
          else if fallback = FallbackIp then ip_display ip
          else (case best_service_name ss of Some n \<Rightarrow> n | None \<Rightarrow> ip_display ip))"

definition process_host ::
    "'c MatchContext \<Rightarrow> uuid \<Rightarrow> (nat \<Rightarrow> nat \<Rightarrow> uuid) \<Rightarrow> timestamp \<Rightarrow> 'c MatchParams \<Rightarrow> string option \<Rightarrow>
     HostNamingFallback \<Rightarrow> Host \<times> Interface list \<times> Port list \<times> Service list" where
  "process_host C fresh_host fresh now P hostnm fallback =
     (let intf = bp_interface (mp_baseline P);
          (services, ports) = discover_services C fresh now (P\<lparr>mp_host_id := fresh_host\<rparr>);
          base = default_host_base\<lparr>
            hb_name := process_host_name hostnm fallback (ib_ip_address (interface_base intf)) services,
            hostname := hostnm, hb_network_id := mp_network_id P,
            hb_source := Discovered [discovery_metadata_new now (mp_discovery_type P) (mp_daemon_id P)]\<rparr>
      in (host_new fresh_host now base, [intf], ports, services))"

end
