(* ===== verification/Pattern_Claims.thy ===== *)
theory Pattern_Claims
  imports Service_Discovery
begin

text \<open>
  What a pattern means, and that the matcher decides it; the confidences and the ports a
  match reports; the endpoints a scan has to probe.
\<close>

section \<open>Leaves\<close>

lemma simple_result_sel [simp]:
  "mr_ports (simple_result ps e v s c) = ps" "mr_endpoint (simple_result ps e v s c) = e"
  "mr_mac_vendor (simple_result ps e v s c) = v"
  "mr_details (simple_result ps e v s c) = \<lparr>md_reason = Reason s, md_confidence = c\<rparr>"
  by (simp_all add: simple_result_def)

lemma match_port_iff:
  "match_port C P p = Inr r \<longleftrightarrow>
     (\<exists>q. find (\<lambda>q. port_eq q p) (sp_unbound_ports (mp_service P)) = Some q \<and>
          r = (if is_custom p \<and> \<not> port_mem p (other_services_ports C (sp_service_definition (mp_service P)))
               then simple_result [q] None None
                      (''Port '' @ port_display p @ '' is open and is not used in other service match patterns'') Medium
               else simple_result [q] None None (''Port '' @ port_display p @ '' is open'') Low))"
  by (auto simp: match_port_def Let_def split: option.splits)

lemma match_header_Inr:
  "match_header P p h v rg = Inr r \<Longrightarrow>
   \<exists>a. find (header_matches p h v rg) (bp_endpoint_responses (mp_baseline P)) = Some a \<and>
       mr_ports r = [ep_port_type (er_endpoint a)] \<and> md_confidence (mr_details r) = High"
  by (auto simp: match_header_def Let_def split: option.splits)

lemma match_endpoint_Inr:
  "match_endpoint P p path m rg = Inr r \<Longrightarrow>
   \<exists>a. find (endpoint_matches p path m rg) (bp_endpoint_responses (mp_baseline P)) = Some a \<and>
       mr_ports r = [ep_port_type (er_endpoint a)] \<and> md_confidence (mr_details r) = High"
  by (auto simp: match_endpoint_def Let_def split: option.splits)

lemma quiet_leaves:
  "match_vendor C P v = Inr r \<Longrightarrow> mr_ports r = [] \<and> md_confidence (mr_details r) \<le> High"
  "match_gateway C P = Inr r \<Longrightarrow> mr_ports r = [] \<and> md_confidence (mr_details r) \<le> High"
  "match_subnet_type C P t = Inr r \<Longrightarrow> mr_ports r = [] \<and> md_confidence (mr_details r) \<le> High"
  "match_docker P = Inr r \<Longrightarrow> mr_ports r = [] \<and> md_confidence (mr_details r) \<le> High"
  "match_not x = Inr r \<Longrightarrow> mr_ports r = [] \<and> md_confidence (mr_details r) \<le> High"
  by (auto simp: match_vendor_def match_gateway_def match_subnet_type_def match_docker_def match_not_def
      Let_def less_eq_MatchConfidence_def split: option.splits sum.splits if_splits ServiceVirtualization.splits)

section \<open>Containers\<close>

definition oks :: "('e + 'a) list \<Rightarrow> 'a list" where
  "oks rs = List.map_filter (\<lambda>r. case r of Inr x \<Rightarrow> Some x | Inl _ \<Rightarrow> None) rs"

lemma oks_simps [simp]:
  "oks [] = []" "oks (Inr x # rs) = x # oks rs" "oks (Inl e # rs) = oks rs"
  by (simp_all add: oks_def map_filter_simps)

lemma set_oks: "x \<in> set (oks rs) \<longleftrightarrow> Inr x \<in> set rs"
  by (induction rs) (auto split: sum.splits simp: oks_def map_filter_simps)

lemma oks_map: "x \<in> set (oks (map f ps)) \<longleftrightarrow> (\<exists>p \<in> set ps. f p = Inr x)"
  unfolding set_oks by force

lemma gather_fold:
  "let g' = fold gather_step rs g in
     g_ports g' = g_ports g @ concat (map mr_ports (oks rs)) \<and>
     g_reasons g' = g_reasons g @ map (\<lambda>r. md_reason (mr_details r)) (oks rs) \<and>
     g_confidences g' = g_confidences g @ map (\<lambda>r. md_confidence (mr_details r)) (oks rs) \<and>
     g_matched g' = g_matched g + length (oks rs) \<and>
     g_failed g' = g_failed g + length (filter isl rs)"
proof (induction rs arbitrary: g)
  case (Cons r rs)
  then show ?case
    by (cases r) (simp_all add: gather_step_def Let_def)
qed (simp add: Let_def)

lemma gather_simps [simp]:
  "g_ports (gather rs) = concat (map mr_ports (oks rs))"
  "g_reasons (gather rs) = map (\<lambda>r. md_reason (mr_details r)) (oks rs)"
  "g_confidences (gather rs) = map (\<lambda>r. md_confidence (mr_details r)) (oks rs)"
  "g_matched (gather rs) = length (oks rs)"
  "g_failed (gather rs) = length (filter isl rs)"
  using gather_fold [of rs "\<lparr>g_ports = [], g_reasons = [], g_confidences = [], g_errors = [], g_matched = 0, g_failed = 0\<rparr>"]
  by (simp_all add: gather_def Let_def)

lemma fold_best: "fold (\<lambda>c b. if c > b then c else b) cs (b :: 'a :: linorder) = Max (insert b (set cs))"
proof (induction cs arbitrary: b)
  case (Cons c cs)
  have "fold (\<lambda>c b. if c > b then c else b) (c # cs) b = Max (insert (max b c) (set cs))"
    using Cons by (simp add: max_def not_less)
  also have "\<dots> = Max (insert b (set (c # cs)))"
    by (cases "cs = []") (simp_all add: ac_simps)
  finally show ?case .
qed simp

lemma match_any_Inr:
  "match_any rs = Inr r \<longleftrightarrow>
     oks rs \<noteq> [] \<and>
     r = container_result ''Any of'' (gather rs)
           (Max (insert Low (set (map (\<lambda>r. md_confidence (mr_details r)) (oks rs)))))"
  by (auto simp: match_any_def Let_def fold_best)

lemma match_all_Inr:
  "match_all rs = Inr r \<longleftrightarrow>
     list_all (\<lambda>x. \<not> isl x) rs \<and>
     r = container_result ''All of'' (gather rs)
           (all_confidence (map (\<lambda>r. md_confidence (mr_details r)) (oks rs)))"
  by (auto simp: match_all_def Let_def list_all_iff filter_empty_conv)

lemma last_sort_Max: "cs \<noteq> [] \<Longrightarrow> last (sort cs) = Max (set (cs :: 'a :: linorder list))"
proof (rule Max_eqI [symmetric])
  assume ne: "cs \<noteq> []"
  then have ne': "sort cs \<noteq> []" by (metis length_0_conv length_sort)
  show "last (sort cs) \<in> set cs" using last_in_set [OF ne'] by simp
  fix y assume "y \<in> set cs"
  then have "y \<in> set (sort cs)" by simp
  then obtain i where i: "i < length (sort cs)" "y = sort cs ! i" by (metis in_set_conv_nth)
  with ne' show "y \<le> last (sort cs)"
    by (simp add: last_conv_nth sorted_nth_mono del: length_sort)
qed simp

lemma all_confidence_alt:
  "all_confidence cs =
     (let m = (if cs = [] then Low else Max (set cs)) in
      if length cs > 3 \<and> m = Low then Medium
      else if length cs > 3 \<and> m = Medium then High else m)"
proof -
  have "sort cs = [] \<longleftrightarrow> cs = []" by (metis length_0_conv length_sort)
  then show ?thesis
    by (cases "cs = []"; cases "Max (set cs)") (auto simp: all_confidence_def Let_def last_sort_Max)
qed

lemma all_confidence_bounds:
  "c \<in> set cs \<Longrightarrow> c \<le> all_confidence cs"
  "\<forall>c \<in> set cs. c \<le> High \<Longrightarrow> all_confidence cs \<le> High"
proof -
  assume c: "c \<in> set cs"
  then have "c \<le> Max (set cs)" by simp
  moreover have "Max (set cs) \<le> all_confidence cs"
    using c by (auto simp: all_confidence_alt Let_def less_eq_MatchConfidence_def)
  ultimately show "c \<le> all_confidence cs" by (rule order_trans)
next
  assume h: "\<forall>c \<in> set cs. c \<le> High"
  show "all_confidence cs \<le> High"
  proof (cases "cs = []")
    case True then show ?thesis by (simp add: all_confidence_alt less_eq_MatchConfidence_def)
  next
    case False
    then have "Max (set cs) \<le> High" using h by simp
    then show ?thesis using False by (auto simp: all_confidence_alt Let_def less_eq_MatchConfidence_def)
  qed
qed

section \<open>What a pattern means\<close>

text \<open>
  The leaves are put in terms of what was observed: numbers compared as numbers, a text that
  occurs somewhere in another, vendors compared by their letters and digits.
\<close>

definition status_accepted :: "StatusRange option \<Rightarrow> u16 \<Rightarrow> bool" where
  \<comment> \<open>without a range, success and redirection: 200 up to 399\<close>
  "status_accepted rg s \<longleftrightarrow>
     (case rg of None \<Rightarrow> unat s \<in> {200..399} | Some (a, b) \<Rightarrow> unat s \<in> {unat a..<unat b})"

definition occurs_in :: "string \<Rightarrow> string \<Rightarrow> bool" where
  \<comment> \<open>in any case of letters\<close>
  "occurs_in part txt \<longleftrightarrow> (\<exists>before after. to_lowercase txt = before @ to_lowercase part @ after)"

fun pattern_holds :: "'c MatchContext \<Rightarrow> 'c MatchParams \<Rightarrow> 'c Pattern \<Rightarrow> bool" where
  "pattern_holds C P (PortP p) \<longleftrightarrow>
     (\<exists>q \<in> set (sp_unbound_ports (mp_service P)). number q = number p \<and> protocol q = protocol p)"
| "pattern_holds C P (HeaderP p h v rg) \<longleftrightarrow>
     (\<exists>a \<in> set (bp_endpoint_responses (mp_baseline P)).
        (\<forall>q. p = Some q \<longrightarrow> number (ep_port_type (er_endpoint a)) = number q \<and>
                          protocol (ep_port_type (er_endpoint a)) = protocol q) \<and>
        status_accepted rg (er_status a) \<and>
        (\<exists>(name, content) \<in> set (er_headers a). to_lowercase name = to_lowercase h \<and> occurs_in v content))"
| "pattern_holds C P (EndpointP p path m rg) \<longleftrightarrow>
     (\<exists>a \<in> set (bp_endpoint_responses (mp_baseline P)).
        ep_protocol (er_endpoint a) = HttpApp \<and>
        number (ep_port_type (er_endpoint a)) = number p \<and> protocol (ep_port_type (er_endpoint a)) = protocol p \<and>
        ep_path (er_endpoint a) = path \<and> status_accepted rg (er_status a) \<and> occurs_in m (er_body a))"
| "pattern_holds C P (MacVendor v) \<longleftrightarrow>
     (\<exists>mac lookup company.
        ib_mac_address (interface_base (bp_interface (mp_baseline P))) = Some mac \<and>
        mc_oui C = Some lookup \<and> lookup mac = Inr (Some company) \<and>
        filter is_alphanumeric (to_lowercase company) = filter is_alphanumeric (to_lowercase v))"
| "pattern_holds C P (NotP p) \<longleftrightarrow> \<not> pattern_holds C P p"
| "pattern_holds C P (AnyOf ps) \<longleftrightarrow> (\<exists>p \<in> set ps. pattern_holds C P p)"
| "pattern_holds C P (AllOf ps) \<longleftrightarrow> (\<forall>p \<in> set ps. pattern_holds C P p)"
| "pattern_holds C P IsGateway \<longleftrightarrow>
     (let ip = ib_ip_address (interface_base (bp_interface (mp_baseline P)));
          inside = cidr_contains (mc_cidr C) (sb_cidr (subnet_base (bp_subnet (mp_baseline P)))) in
      (ip \<in> set (mp_gateway_ips P) \<and> inside ip) \<or>
      (ends_in_1_or_254 ip \<and> (\<forall>g \<in> set (mp_gateway_ips P). \<not> inside g)))"
| "pattern_holds C P (SubnetIsType t) \<longleftrightarrow> sb_subnet_type (subnet_base (bp_subnet (mp_baseline P))) = t"
| "pattern_holds C P (CustomP con _ _ _ _) \<longleftrightarrow> con P"
| "pattern_holds C P DockerContainerP \<longleftrightarrow> bp_virtualization (mp_baseline P) \<noteq> None"
| "pattern_holds C P NoPattern \<longleftrightarrow> False"

lemma find_ex: "(\<exists>x. find Q xs = Some x) \<longleftrightarrow> (\<exists>x \<in> set xs. Q x)"
  by (metis find_None_iff option.distinct(1) option.exhaust)

lemma not_isl_iff: "\<not> isl x \<longleftrightarrow> (\<exists>r. x = Inr r)"
  by (cases x) simp_all

lemma option_ne_None_find: "find Q xs \<noteq> None \<longleftrightarrow> (\<exists>x \<in> set xs. Q x)"
  unfolding find_None_iff by blast

lemma in_status_range_iff: "in_status_range rg s \<longleftrightarrow> status_accepted rg s"
  by (cases rg) (auto simp: in_status_range_def status_accepted_def word_le_nat_alt word_less_nat_alt)

lemma str_contains_occurs: "str_contains (to_lowercase txt) (to_lowercase part) \<longleftrightarrow> occurs_in part txt"
  by (simp add: str_contains_iff occurs_in_def)

lemma header_matches_iff:
  "header_matches p h v rg a \<longleftrightarrow>
     (\<forall>q. p = Some q \<longrightarrow> number (ep_port_type (er_endpoint a)) = number q \<and>
                       protocol (ep_port_type (er_endpoint a)) = protocol q) \<and>
     status_accepted rg (er_status a) \<and>
     (\<exists>(name, content) \<in> set (er_headers a). to_lowercase name = to_lowercase h \<and> occurs_in v content)"
  by (auto simp: header_matches_def port_eq_iff in_status_range_iff str_contains_occurs list_ex_iff split: option.split)

lemma endpoint_matches_iff:
  "endpoint_matches p path m rg a \<longleftrightarrow>
     ep_protocol (er_endpoint a) = HttpApp \<and>
     number (ep_port_type (er_endpoint a)) = number p \<and> protocol (ep_port_type (er_endpoint a)) = protocol p \<and>
     ep_path (er_endpoint a) = path \<and> status_accepted rg (er_status a) \<and> occurs_in m (er_body a)"
  by (simp add: endpoint_matches_def Let_def for_pattern_def in_status_range_iff str_contains_occurs)

lemma filter_dropWhile: "(\<And>x. Q x \<Longrightarrow> \<not> R x) \<Longrightarrow> filter R (dropWhile Q xs) = filter R xs"
  by (induction xs) auto

lemma space_not_alphanumeric: "is_space c \<Longrightarrow> \<not> is_alphanumeric (char_lower c)"
  by (auto simp: is_space_def is_alphanumeric_def char_lower_def Let_def)

lemma normalize_vendor_alt: "normalize_vendor s = filter is_alphanumeric (to_lowercase s)"
proof -
  have low: "filter is_alphanumeric (to_lowercase t) = map char_lower (filter (is_alphanumeric \<circ> char_lower) t)" for t
    by (simp add: to_lowercase_def filter_map)
  have "filter (is_alphanumeric \<circ> char_lower) (trim s) = filter (is_alphanumeric \<circ> char_lower) s"
    by (simp add: trim_def rev_filter [symmetric] filter_dropWhile space_not_alphanumeric)
  then show ?thesis by (simp only: normalize_vendor_def low)
qed

lemma matches_iff_meaning: "\<not> isl (matches C P p) \<longleftrightarrow> pattern_holds C P p"
proof (induction C P p rule: matches.induct)
  case (1 C P p)
  have "\<not> isl (match_port C P p) \<longleftrightarrow> find (\<lambda>q. port_eq q p) (sp_unbound_ports (mp_service P)) \<noteq> None"
    by (simp add: match_port_def Let_def split: option.split)
  then show ?case unfolding option_ne_None_find by (simp add: port_eq_iff)
next
  case (2 C P p h v r)
  have "\<not> isl (match_header P p h v r) \<longleftrightarrow>
      find (header_matches p h v r) (bp_endpoint_responses (mp_baseline P)) \<noteq> None"
    by (simp add: match_header_def Let_def split: option.split)
  then show ?case unfolding option_ne_None_find header_matches_iff by simp
next
  case (3 C P p path m r)
  have "\<not> isl (match_endpoint P p path m r) \<longleftrightarrow>
      find (endpoint_matches p path m r) (bp_endpoint_responses (mp_baseline P)) \<noteq> None"
    by (simp add: match_endpoint_def Let_def split: option.split)
  then show ?case unfolding option_ne_None_find endpoint_matches_iff by simp
next
  case (4 C P v)
  then show ?case
    by (auto simp: match_vendor_def Let_def normalize_vendor_alt split: option.splits sum.splits)
next
  case (5 C P p)
  then show ?case by (cases "matches C P p") (simp_all add: match_not_def)
next
  case (6 C P ps)
  have "\<not> isl (match_any rs) \<longleftrightarrow> oks rs \<noteq> []" for rs
    by (simp add: match_any_def Let_def)
  moreover have "oks rs \<noteq> [] \<longleftrightarrow> (\<exists>x \<in> set rs. \<not> isl x)" for rs :: "(string + MatchResult) list"
    by (induction rs) (auto split: sum.splits simp: oks_def map_filter_simps)
  ultimately show ?case using 6 by auto
next
  case (7 C P ps)
  have "\<not> isl (match_all rs) \<longleftrightarrow> (\<forall>x \<in> set rs. \<not> isl x)" for rs
    by (simp add: match_all_def Let_def filter_empty_conv)
  then show ?case using 7 by auto
next
  case (8 C P)
  then show ?case by (auto simp: match_gateway_def Let_def filter_empty_conv)
next
  case (9 C P t)
  then show ?case by (simp add: match_subnet_type_def Let_def)
next
  case (11 C P)
  then show ?case by (simp add: match_docker_def split: option.split ServiceVirtualization.split)
qed simp_all


section \<open>Confidences\<close>

fun custom_free :: "'c Pattern \<Rightarrow> bool" where
  "custom_free (AnyOf ps) = list_all custom_free ps"
| "custom_free (AllOf ps) = list_all custom_free ps"
| "custom_free (NotP p) = custom_free p"
| "custom_free (CustomP _ _ _ _ _) = False"
| "custom_free _ = True"

lemma container_result_sel [simp]:
  "md_confidence (mr_details (container_result nm g c)) = c"
  "mr_ports (container_result nm g c) = sort_dedup_ports (g_ports g)"
  "mr_endpoint (container_result nm g c) = None" "mr_mac_vendor (container_result nm g c) = None"
  "md_reason (mr_details (container_result nm g c)) = Container nm (g_reasons g)"
  by (simp_all add: container_result_def)

lemma matches_custom_free_le_High:
  "custom_free p \<Longrightarrow> matches C P p = Inr r \<Longrightarrow> md_confidence (mr_details r) \<le> High"
proof (induction C P p arbitrary: r rule: matches.induct)
  case (1 C P p)
  then show ?case by (auto simp: match_port_iff less_eq_MatchConfidence_def)
next
  case (2 C P p h v rg)
  from match_header_Inr [of P p h v rg r] 2 show ?case by auto
next
  case (3 C P p path m rg)
  from match_endpoint_Inr [of P p path m rg r] 3 show ?case by auto
next
  case (6 C P ps)
  from 6(2-3) have q: "p \<in> set ps \<Longrightarrow> matches C P p = Inr q \<Longrightarrow> md_confidence (mr_details q) \<le> High" for p q
    using 6(1) by (fastforce simp: list_all_iff)
  from 6(3) have "md_confidence (mr_details r) =
      Max (insert Low (set (map (\<lambda>r. md_confidence (mr_details r)) (oks (map (matches C P) ps)))))"
    by (auto simp: match_any_Inr)
  also have "\<dots> \<le> High"
    by (subst Max_le_iff) (auto simp: oks_map less_eq_MatchConfidence_def [of Low] dest: q)
  finally show ?case .
next
  case (7 C P ps)
  from 7(2-3) have q: "p \<in> set ps \<Longrightarrow> matches C P p = Inr q \<Longrightarrow> md_confidence (mr_details q) \<le> High" for p q
    using 7(1) by (fastforce simp: list_all_iff)
  have "all_confidence (map (\<lambda>r. md_confidence (mr_details r)) (oks (map (matches C P) ps))) \<le> High"
    by (rule all_confidence_bounds(2)) (auto simp: oks_map dest: q)
  with 7(3) show ?case by (auto simp: match_all_Inr)
qed (auto dest: quiet_leaves)

lemma below_Medium: "\<not> Medium \<le> c \<Longrightarrow> c \<le> Low"
  by (cases c) (simp_all add: less_eq_MatchConfidence_def)

lemma all_confidence_Low: "\<forall>c \<in> set cs. c \<le> Low \<Longrightarrow> \<not> High \<le> all_confidence cs"
proof
  assume le: "\<forall>c \<in> set cs. c \<le> Low" and h: "High \<le> all_confidence cs"
  have "Max (set cs) \<le> Low" if "cs \<noteq> []" using le that by simp
  with h show False
    by (cases "cs = []"; cases "Max (set cs)")
       (auto simp: all_confidence_alt Let_def less_eq_MatchConfidence_def split: if_splits)
qed

lemma oks_matched: "list_all (\<lambda>x. \<not> isl x) rs \<Longrightarrow> map Inr (oks rs) = rs"
  by (induction rs) (auto simp: not_isl_iff)

text \<open>
  An "any of" that matches is exactly as confident as its most confident matching child,
  with "low" as the floor; and a pattern without custom functions is never reported as
  certain, however its containers raise the confidence.
\<close>

theorem any_of_confidence:
  assumes "matches C P (AnyOf ps) = Inr r"
  shows "md_confidence (mr_details r) =
        Max (insert Low {md_confidence (mr_details q) |q. \<exists>p \<in> set ps. matches C P p = Inr q})
    \<and> (list_all custom_free ps \<longrightarrow> md_confidence (mr_details r) \<le> High)"
proof
  have "set (map (\<lambda>r. md_confidence (mr_details r)) (oks (map (matches C P) ps))) =
      {md_confidence (mr_details q) |q. \<exists>p \<in> set ps. matches C P p = Inr q}"
    by (force simp: oks_map)
  with assms show "md_confidence (mr_details r) =
        Max (insert Low {md_confidence (mr_details q) |q. \<exists>p \<in> set ps. matches C P p = Inr q})"
    by (auto simp: match_any_Inr)
  show "list_all custom_free ps \<longrightarrow> md_confidence (mr_details r) \<le> High"
    using matches_custom_free_le_High [of "AnyOf ps"] assms by simp
qed

text \<open>
  an "all of" that matches is at least as confident as each of its children, which all
  match; the boost of weak evidence needs more than three children and lifts it by one level:
  with at most three it is as confident as its best child, and it is high only if a child is
  medium at least.
\<close>

theorem all_of_confidence:
  assumes "matches C P (AllOf ps) = Inr r"
  shows "(\<forall>p \<in> set ps. \<exists>q. matches C P p = Inr q \<and> md_confidence (mr_details q) \<le> md_confidence (mr_details r))
    \<and> (length ps \<le> 3 \<and> ps \<noteq> [] \<longrightarrow>
         (\<exists>p \<in> set ps. \<exists>q. matches C P p = Inr q \<and> md_confidence (mr_details q) = md_confidence (mr_details r)))
    \<and> (High \<le> md_confidence (mr_details r) \<longrightarrow>
         (\<exists>p \<in> set ps. \<exists>q. matches C P p = Inr q \<and> Medium \<le> md_confidence (mr_details q)))"
proof -
  let ?rs = "map (matches C P) ps"
  let ?cs = "map (\<lambda>r. md_confidence (mr_details r)) (oks ?rs)"
  from assms have all: "list_all (\<lambda>x. \<not> isl x) ?rs"
    and r: "md_confidence (mr_details r) = all_confidence ?cs"
    by (auto simp: match_all_Inr)
  have rs: "map Inr (oks ?rs) = ?rs" by (rule oks_matched [OF all])
  then have len: "length ?cs = length ps" by (metis length_map)
  have mem: "c \<in> set ?cs \<longleftrightarrow> (\<exists>p \<in> set ps. \<exists>q. matches C P p = Inr q \<and> md_confidence (mr_details q) = c)" for c
    by (force simp: oks_map)
  have "\<forall>p \<in> set ps. \<exists>q. matches C P p = Inr q \<and> md_confidence (mr_details q) \<le> md_confidence (mr_details r)"
  proof
    fix p assume p: "p \<in> set ps"
    with all obtain q where q: "matches C P p = Inr q" by (auto simp: list_all_iff not_isl_iff)
    with p have "md_confidence (mr_details q) \<in> set ?cs" unfolding mem by blast
    then show "\<exists>q. matches C P p = Inr q \<and> md_confidence (mr_details q) \<le> md_confidence (mr_details r)"
      using q r all_confidence_bounds(1) by metis
  qed
  moreover have "\<exists>p \<in> set ps. \<exists>q. matches C P p = Inr q \<and> md_confidence (mr_details q) = all_confidence ?cs" if "length ps \<le> 3" "ps \<noteq> []"
    unfolding mem [symmetric] using that len Max_in [of "set ?cs"] unfolding all_confidence_alt Let_def
    by (auto simp del: set_map)
  moreover have "\<exists>p \<in> set ps. \<exists>q. matches C P p = Inr q \<and> Medium \<le> md_confidence (mr_details q)"
    if h: "High \<le> all_confidence ?cs"
  proof (rule ccontr)
    assume no: "\<not> ?thesis"
    have "\<forall>c \<in> set ?cs. c \<le> Low"
    proof
      fix c assume "c \<in> set ?cs"
      then obtain p q where "p \<in> set ps" "matches C P p = Inr q" "md_confidence (mr_details q) = c"
        unfolding mem by blast
      with no show "c \<le> Low" by (blast intro: below_Medium)
    qed
    then show False using all_confidence_Low h by force
  qed
  ultimately show ?thesis unfolding r by blast
qed

section \<open>A concrete host\<close>

text \<open>A container on a Docker bridge at 172.17.0.1/24 with SSH and an unknown port 4711 open.\<close>

definition demo_interface :: Interface where
  "demo_interface = interface_new 31 0
     \<lparr>ib_network_id = 8, ib_host_id = 5, ib_subnet_id = 6, ib_ip_address = V4 0xAC110001,
      ib_mac_address = None, ib_name = None, ib_position = 0\<rparr>"

definition demo_subnet :: "(32 word \<times> nat) Subnet" where
  "demo_subnet = subnet_new 6 0
     \<lparr>sb_cidr = (0xAC110000, 24), sb_network_id = 8, sb_name = ''docker0'', sb_description = None,
      sb_subnet_type = ST_DockerBridge, sb_source = System, sb_tags = []\<rparr>"

definition demo_context :: "(32 word \<times> nat) MatchContext" where
  "demo_context = \<lparr>mc_cidr = demo_cidr_ops, mc_oui = None, mc_registry = [svc_open_ports, svc_gateway]\<rparr>"

definition demo_params :: "ServiceVirtualization option \<Rightarrow> (32 word \<times> nat) MatchParams" where
  "demo_params v =
     \<lparr>mp_host_id = 5, mp_gateway_ips = [], mp_daemon_id = 7, mp_network_id = 8,
      mp_discovery_type = SelfReport 5,
      mp_baseline = \<lparr>bp_subnet = demo_subnet, bp_interface = demo_interface, bp_all_ports = [Ssh, new_tcp 4711],
        bp_endpoint_responses = [], bp_virtualization = v\<rparr>,
      mp_service = \<lparr>sp_service_definition = default_service_definition, sp_matched_services = [],
        sp_unbound_ports = [Ssh, new_tcp 4711]\<rparr>\<rparr>"

definition demo_container :: "ServiceVirtualization option" where
  "demo_container = Some (DockerVirt \<lparr>container_name = Some ''web'', container_id = Some ''c1'', dv_service_id = 3\<rparr>)"

lemma demo_leaves:
  "matches demo_context (demo_params demo_container) DockerContainerP =
     Inr (simple_result [] None None ''Service is running in docker container'' Low)"
  "matches demo_context (demo_params v) (SubnetIsType ST_WiFi) =
     Inl (''Subnet '' @ cidr_display demo_cidr_ops (0xAC110000, 24) @ '' is not type '' @ ''WiFi'')"
  "matches demo_context (demo_params v) (PortP (new_tcp 4711)) =
     Inr (simple_result [new_tcp 4711] None None
       (''Port '' @ port_display (new_tcp 4711) @ '' is open and is not used in other service match patterns'') Medium)"
  by (simp_all add: match_docker_def demo_params_def demo_container_def match_subnet_type_def Let_def
      demo_subnet_def subnet_new_def demo_context_def match_port_def port_eq_def new_tcp_def is_custom_def
      port_config_def other_services_ports_def svc_open_ports_def svc_gateway_def trait_defaults_def
      sort_dedup_ports_def port_mem_def)

lemma any_of_confidence_witness:
  "\<exists>r. matches demo_context (demo_params demo_container) (AnyOf [SubnetIsType ST_WiFi, DockerContainerP]) = Inr r \<and>
       md_confidence (mr_details r) = Low"
proof -
  obtain r where r: "matches demo_context (demo_params demo_container) (AnyOf [SubnetIsType ST_WiFi, DockerContainerP]) = Inr r"
    by (simp add: demo_leaves [unfolded matches.simps] match_any_def Let_def)
  have "{md_confidence (mr_details q) |q. \<exists>p \<in> set [SubnetIsType ST_WiFi, DockerContainerP].
      matches demo_context (demo_params demo_container) p = Inr q} = {Low}"
    by (auto simp: demo_leaves simp del: matches.simps)
  with any_of_confidence [OF r] r show ?thesis by (simp del: matches.simps)
qed

lemma all_of_confidence_witness:
  "\<exists>r. matches demo_context (demo_params demo_container) (AllOf [DockerContainerP, PortP (new_tcp 4711)]) = Inr r \<and>
       Medium \<le> md_confidence (mr_details r)"
proof -
  obtain r where r: "matches demo_context (demo_params demo_container) (AllOf [DockerContainerP, PortP (new_tcp 4711)]) = Inr r"
    by (simp add: demo_leaves [unfolded matches.simps] match_all_def Let_def)
  with all_of_confidence [OF r] show ?thesis by (auto simp: demo_leaves simp del: matches.simps)
qed

section \<open>The ports a match reports\<close>

text \<open>
  a pattern without custom functions claims only ports the scan found: each port of its
  result is an unbound open port that the pattern itself asks the scan for, or the port an
  HTTP response came from.
\<close>

theorem matched_ports_come_from_scan:
  assumes "custom_free p" "matches C P p = Inr r" "q \<in> set (mr_ports r)"
  shows "(q \<in> set (sp_unbound_ports (mp_service P)) \<and> port_mem q (pattern_ports p))
    \<or> (\<exists>a \<in> set (bp_endpoint_responses (mp_baseline P)). ep_port_type (er_endpoint a) = q)"
  using assms
proof (induction C P p arbitrary: r rule: matches.induct)
  case (1 C P p)
  then show ?case
    by (auto simp: match_port_iff port_mem_def port_eq_sym dest!: find_Some_mem split: if_splits)
next
  case (2 C P p h v rg)
  from match_header_Inr [of P p h v rg r] 2 show ?case by (auto dest: find_Some_mem)
next
  case (3 C P p path m rg)
  from match_endpoint_Inr [of P p path m rg r] 3 show ?case by (auto dest: find_Some_mem)
next
  case (6 C P ps)
  have "q \<in> set (concat (map mr_ports (oks (map (matches C P) ps))))"
    using 6(3,4) set_vec_dedup by (fastforce simp: match_any_Inr sort_dedup_ports_def)
  then obtain p s where p: "p \<in> set ps" "matches C P p = Inr s" "q \<in> set (mr_ports s)"
    by (auto simp: oks_map)
  with 6(2) have "custom_free p" by (simp add: list_all_iff)
  from 6(1) [OF p(1) this p(2,3)] p(1) show ?case by (auto simp: port_mem_def list_ex_iff)
next
  case (7 C P ps)
  have "q \<in> set (concat (map mr_ports (oks (map (matches C P) ps))))"
    using 7(3,4) set_vec_dedup by (fastforce simp: match_all_Inr sort_dedup_ports_def)
  then obtain p s where p: "p \<in> set ps" "matches C P p = Inr s" "q \<in> set (mr_ports s)"
    by (auto simp: oks_map)
  with 7(2) have "custom_free p" by (simp add: list_all_iff)
  from 7(1) [OF p(1) this p(2,3)] p(1) show ?case by (auto simp: port_mem_def list_ex_iff)
qed (auto dest: quiet_leaves)

lemma matched_ports_come_from_scan_witness:
  "\<exists>r. matches demo_context (demo_params None) (PortP (new_tcp 4711)) = Inr r \<and>
       (\<forall>q \<in> set (mr_ports r). q \<in> set [Ssh, new_tcp 4711])"
proof -
  obtain r where r: "matches demo_context (demo_params None) (PortP (new_tcp 4711)) = Inr r"
    using demo_leaves(3) by blast
  have "\<forall>q \<in> set (mr_ports r). q \<in> set [Ssh, new_tcp 4711]"
    using matched_ports_come_from_scan [OF _ r] by (auto simp: demo_params_def)
  with r show ?thesis by blast
qed

end
