(* ===== verification/Discovered_Services.thy ===== *)
theory Discovered_Services
  imports Service_Discovery
begin

text \<open>
  Facts of the service one definition yields, and the invariant of the matching loop: the
  ports of the host are either bound to a service found so far or still unbound.
\<close>

section \<open>One definition\<close>

lemma map_enumerate: "(\<And>j x. x \<in> set xs \<Longrightarrow> g (j, x) = k x) \<Longrightarrow> map g (enumerate n xs) = map k xs"
  by (induction xs arbitrary: n) simp_all

lemma map_enumerate_index: "map (\<lambda>(j, x). f j) (enumerate n xs) = map f [n..<n + length xs]"
proof (induction xs arbitrary: n)
  case (Cons x xs)
  from Cons [of "Suc n"] show ?case unfolding upt_length_Cons by simp
qed simp

lemma port_new_hostless_sel [simp]:
  "pb_port_type (port_base (port_new_hostless i now p)) = p" "port_id (port_new_hostless i now p) = i"
  by (simp_all add: port_new_hostless_def port_new_def portbase_new_hostless_def)

lemma serviceless_types [simp]:
  "binding_type (new_port_serviceless i now p intf) = PortBinding p intf"
  "binding_type (new_interface_serviceless i now intf0) = InterfaceBinding intf0"
  by (simp_all add: new_port_serviceless_def new_interface_serviceless_def binding_new_serviceless_def
      binding_new_def binding_type_def bindingbase_new_serviceless_def)

definition port_types :: "Port list \<Rightarrow> PortType list" where
  "port_types ps = map (\<lambda>p. pb_port_type (port_base p)) ps"

definition binding_types :: "Service \<Rightarrow> BindingType list" where
  "binding_types s = map binding_type (bindings (service_base s))"

lemma bound_port_ids_types:
  "to_bound_port_ids s = List.map_filter (\<lambda>t. case t of PortBinding p _ \<Rightarrow> Some p | _ \<Rightarrow> None) (binding_types s)"
  by (simp add: to_bound_port_ids_def binding_types_def binding_port_id_def List.map_filter_def
      filter_map comp_def split: BindingType.splits)

lemma from_discovery_Some:
  assumes "from_discovery C fresh now d P = Some (s, ports, e)"
  obtains r where "matches C (with_definition d P) (def_pattern d) = Inr r" "e = mr_endpoint r"
    "port_types ports = mr_ports r" "map port_id ports = map fresh [0..<length (mr_ports r)]"
    "service_definition (service_base s) = handle_of d"
    "virtualization (service_base s) = bp_virtualization (mp_baseline P)"
    "vb_name (service_base s) = discovered_name d (bp_virtualization (mp_baseline P))"
    "vb_source (service_base s) = DiscoveryWithMatch
       [discovery_metadata_new now (mp_discovery_type P) (mp_daemon_id P)] (discovered_details d (mr_details r))"
    "binding_types s =
       (if mr_ports r = [] then [InterfaceBinding (interface_id (bp_interface (mp_baseline P)))]
        else map (\<lambda>p. PortBinding (port_id p) (Some (interface_id (bp_interface (mp_baseline P))))) ports)"
proof -
  obtain r where r: "matches C (with_definition d P) (def_pattern d) = Inr r"
    using assms by (auto simp: from_discovery_def Let_def split: sum.splits)
  let ?ports = "map (\<lambda>(j, p). port_new_hostless (fresh j) now p) (enumerate 0 (mr_ports r))"
  from r assms have ports: "ports = ?ports" and e: "e = mr_endpoint r"
    by (auto simp: from_discovery_def Let_def)
  have types: "port_types ports = mr_ports r"
    unfolding port_types_def ports map_map comp_def
    using map_enumerate [where k = id and n = 0 and xs = "mr_ports r"
        and g = "\<lambda>x. pb_port_type (port_base (case x of (j, p) \<Rightarrow> port_new_hostless (fresh j) now p))"]
    by simp
  have ids: "map port_id ports = map fresh [0..<length (mr_ports r)]"
    unfolding ports using map_enumerate_index [of fresh 0 "mr_ports r"]
    by (simp add: comp_def case_prod_unfold)
  have bs: "bindings (service_base s) =
      (if mr_ports r = [] then [new_interface_serviceless (fresh (length (mr_ports r))) now (interface_id (bp_interface (mp_baseline P)))]
       else map (\<lambda>(j, p). new_port_serviceless (fresh (length (mr_ports r) + j)) now (port_id p)
              (Some (interface_id (bp_interface (mp_baseline P))))) (enumerate 0 ports))"
    using assms r by (auto simp: from_discovery_def Let_def service_new_def with_definition_def)
  show ?thesis
  proof (rule that [OF r e types ids])
    show "binding_types s =
       (if mr_ports r = [] then [InterfaceBinding (interface_id (bp_interface (mp_baseline P)))]
        else map (\<lambda>p. PortBinding (port_id p) (Some (interface_id (bp_interface (mp_baseline P))))) ports)"
      unfolding binding_types_def bs using map_enumerate [where xs = ports and n = 0
          and g = "\<lambda>x. binding_type (case x of (j, p) \<Rightarrow> new_port_serviceless (fresh (length (mr_ports r) + j)) now
              (port_id p) (Some (interface_id (bp_interface (mp_baseline P)))))"]
      by (simp add: comp_def)
  qed (use assms r in \<open>auto simp: from_discovery_def Let_def service_new_def with_definition_def\<close>)
qed

lemma from_discovery_bound_ports:
  assumes "from_discovery C fresh now d P = Some (s, ports, e)"
  shows "to_bound_port_ids s = map port_id ports"
proof (rule from_discovery_Some [OF assms])
  fix r assume "port_types ports = mr_ports r" and bt: "binding_types s =
       (if mr_ports r = [] then [InterfaceBinding (interface_id (bp_interface (mp_baseline P)))]
        else map (\<lambda>p. PortBinding (port_id p) (Some (interface_id (bp_interface (mp_baseline P))))) ports)"
  then have "mr_ports r = [] \<longleftrightarrow> ports = []" by (metis length_0_conv length_map port_types_def)
  with bt show ?thesis
    by (cases "ports = []") (simp_all add: bound_port_ids_types List.map_filter_def comp_def)
qed

section \<open>The loop\<close>

definition loop_inv :: "'c MatchContext \<Rightarrow> 'c MatchParams \<Rightarrow> MatchState \<Rightarrow> bool" where
  "loop_inv C P m \<longleftrightarrow>
     (\<forall>q \<in> set (bp_all_ports (mp_baseline P)). port_mem q (port_types (ms_host_ports m)) \<or> q \<in> set (ms_unbound m)) \<and>
     set (ms_unbound m) \<subseteq> set (bp_all_ports (mp_baseline P)) \<and>
     (\<forall>s \<in> set (ms_services m). \<exists>d \<in> set (mc_registry C). \<exists>k.
        \<not> isl (matches C (with_definition d (loop_params P k)) (def_pattern d)) \<and>
        service_definition (service_base s) = handle_of d \<and>
        virtualization (service_base s) = bp_virtualization (mp_baseline P)) \<and>
     concat (map to_bound_port_ids (ms_services m)) = map port_id (ms_host_ports m) \<and>
     (ms_container_matched m \<longleftrightarrow> ms_services m \<noteq> [] \<and> names_container (bp_virtualization (mp_baseline P))) \<and>
     (names_container (bp_virtualization (mp_baseline P)) \<longrightarrow> length (ms_services m) \<le> 1)"

lemma port_mem_append [simp]: "port_mem q (xs @ ys) \<longleftrightarrow> port_mem q xs \<or> port_mem q ys"
  by (simp add: port_mem_def)

lemma loop_params_baseline [simp]:
  "mp_baseline (loop_params P m) = mp_baseline P" "mp_baseline (with_definition d P) = mp_baseline P"
  "mp_gateway_ips (loop_params P m) = mp_gateway_ips P" "mp_gateway_ips (with_definition d P) = mp_gateway_ips P"
  "sp_unbound_ports (mp_service (with_definition d P)) = sp_unbound_ports (mp_service P)"
  "sp_matched_services (mp_service (with_definition d P)) = sp_matched_services (mp_service P)"
  "sp_unbound_ports (mp_service (loop_params P m)) = ms_unbound m"
  "sp_matched_services (mp_service (loop_params P m)) = ms_services m"
  by (simp_all add: loop_params_def with_definition_def)

text \<open>A step that finds a service, in the fields the loop goes on with.\<close>

lemma match_definition_cases:
  obtains (skip) "ms_services (match_definition C fresh now P d m) = ms_services m"
      "ms_host_ports (match_definition C fresh now P d m) = ms_host_ports m"
      "ms_unbound (match_definition C fresh now P d m) = ms_unbound m"
      "ms_container_matched (match_definition C fresh now P d m) = ms_container_matched m"
      "ms_container_matched m \<or> isl (matches C (with_definition d (loop_params P m)) (def_pattern d))"
  | (found) s ports e r where
      "from_discovery C (fresh (ms_index m)) now d (loop_params P m) = Some (s, ports, e)"
      "matches C (with_definition d (loop_params P m)) (def_pattern d) = Inr r"
      "port_types ports = mr_ports r" "\<not> ms_container_matched m"
      "ms_services (match_definition C fresh now P d m) = ms_services m @ [s]"
      "ms_host_ports (match_definition C fresh now P d m) = ms_host_ports m @ ports"
      "ms_unbound (match_definition C fresh now P d m) = filter (\<lambda>p. \<not> port_mem p (port_types ports)) (ms_unbound m)"
      "ms_container_matched (match_definition C fresh now P d m) = names_container (bp_virtualization (mp_baseline P))"
      "service_definition (service_base s) = handle_of d"
      "virtualization (service_base s) = bp_virtualization (mp_baseline P)"
proof (cases "from_discovery C (fresh (ms_index m)) now d (loop_params P m)")
  case None
  then have "isl (matches C (with_definition d (loop_params P m)) (def_pattern d))"
    by (auto simp: from_discovery_def Let_def split: sum.splits)
  with None show ?thesis by (intro skip) (simp_all add: match_definition_def Let_def)
next
  case (Some x)
  obtain s ports e where x: "x = (s, ports, e)" by (cases x)
  show ?thesis
  proof (cases "ms_container_matched m")
    case True
    with Some x show ?thesis by (intro skip) (simp_all add: match_definition_def Let_def)
  next
    case False
    from Some x have fd: "from_discovery C (fresh (ms_index m)) now d (loop_params P m) = Some (s, ports, e)" by simp
    from fd obtain r where "matches C (with_definition d (loop_params P m)) (def_pattern d) = Inr r"
      "port_types ports = mr_ports r" "service_definition (service_base s) = handle_of d"
      "virtualization (service_base s) = bp_virtualization (mp_baseline P)"
      by (rule from_discovery_Some) simp
    with fd False show ?thesis
      by (intro found [OF fd]) (simp_all add: match_definition_def Let_def port_types_def)
  qed
qed

lemma loop_inv_step:
  assumes "loop_inv C P m" "d \<in> set (mc_registry C)"
  shows "loop_inv C P (match_definition C fresh now P d m)"
proof (cases rule: match_definition_cases [of C fresh now P d m])
  case skip
  with assms(1) show ?thesis by (simp add: loop_inv_def)
next
  case (found s ports e r)
  note bound = from_discovery_bound_ports [OF found(1)]
  have len: "names_container (bp_virtualization (mp_baseline P)) \<Longrightarrow> ms_services m = []"
    using assms(1) found(4) by (auto simp: loop_inv_def)
  have "\<not> isl (matches C (with_definition d (loop_params P m)) (def_pattern d))" using found(2) by simp
  then have new: "\<exists>d \<in> set (mc_registry C). \<exists>k.
        \<not> isl (matches C (with_definition d (loop_params P k)) (def_pattern d)) \<and>
        service_definition (service_base s) = handle_of d \<and>
        virtualization (service_base s) = bp_virtualization (mp_baseline P)"
    using assms(2) found(9,10) by blast
  show ?thesis
    unfolding loop_inv_def
  proof (intro conjI)
    show "\<forall>q \<in> set (bp_all_ports (mp_baseline P)).
        port_mem q (port_types (ms_host_ports (match_definition C fresh now P d m))) \<or>
        q \<in> set (ms_unbound (match_definition C fresh now P d m))"
      using assms(1) unfolding found(6,7) by (auto simp: loop_inv_def port_types_def)
  qed (use assms(1) found(5-8) new bound len in \<open>auto simp: loop_inv_def\<close>)
qed

lemma loop_inv_start:
  "loop_inv C P \<lparr>ms_services = [], ms_host_ports = [], ms_unbound = bp_all_ports (mp_baseline P),
        ms_container_matched = False, ms_index = 0\<rparr>"
  by (simp add: loop_inv_def)

lemma loop_inv_fold: "loop_inv C P m \<Longrightarrow> set ds \<subseteq> set (mc_registry C) \<Longrightarrow>
   loop_inv C P (fold (match_definition C fresh now P) ds m)"
  by (induction ds arbitrary: m) (simp_all add: loop_inv_step)

lemma match_loop_inv: "loop_inv C P (match_loop C fresh now P)"
  unfolding match_loop_def by (rule loop_inv_fold [OF loop_inv_start]) simp

text \<open>With a single definition of the highest priority, it is tried last.\<close>

lemma sort_key_last:
  assumes "filter (\<lambda>x. f x = (k :: nat)) xs = [y]" "\<forall>x \<in> set xs. f x \<le> k"
  shows "\<exists>zs. sort_key f xs = zs @ [y] \<and> set zs \<subseteq> set xs"
proof -
  have one: "filter (\<lambda>x. f x = k) (sort_key f xs) = [y]"
    using assms(1) by (simp add: sort_key_stable)
  then have ne: "sort_key f xs \<noteq> []" by auto
  have "y \<in> set (filter (\<lambda>x. f x = k) (sort_key f xs))" unfolding one by simp
  then have y: "y \<in> set (sort_key f xs)" "f y = k" by simp_all
  have "f y \<le> f (last (sort_key f xs))"
  proof -
    have "sorted (map f (sort_key f xs))" by (rule sorted_sort_key)
    moreover from y(1) obtain i where "i < length (sort_key f xs)" "sort_key f xs ! i = y"
      by (metis in_set_conv_nth)
    ultimately have "map f (sort_key f xs) ! i \<le> map f (sort_key f xs) ! (length (sort_key f xs) - 1)"
      by (intro sorted_nth_mono) auto
    with \<open>i < _\<close> \<open>_ ! i = y\<close> ne show ?thesis by (simp add: last_conv_nth del: length_sort)
  qed
  moreover have "last (sort_key f xs) \<in> set xs" using ne last_in_set by (metis set_sort)
  ultimately have "f (last (sort_key f xs)) = k" using assms(2) y(2) by (metis le_antisym)
  then have "last (sort_key f xs) \<in> set (filter (\<lambda>x. f x = k) (sort_key f xs))"
    using last_in_set [OF ne] by (simp only: mem_Collect_eq set_filter)
  then have "last (sort_key f xs) = y" unfolding one by simp
  then have "sort_key f xs = butlast (sort_key f xs) @ [y]" using ne by (metis append_butlast_last_id)
  moreover have "set (butlast (sort_key f xs)) \<subseteq> set xs" by (metis in_set_butlastD set_sort subsetI)
  ultimately show ?thesis by blast
qed

lemma definition_priority_le: "definition_priority d \<le> 3"
  by (simp add: definition_priority_def)

lemma open_ports_step_unbound:
  assumes "\<not> ms_container_matched m"
  shows "ms_unbound (match_definition C fresh now P svc_open_ports m) = []"
proof (cases rule: match_definition_cases [of C fresh now P svc_open_ports m])
  case skip
  then show ?thesis using assms by (auto simp: svc_open_ports_def trait_defaults_def split: if_splits)
next
  case (found s ports e r)
  have "port_types ports = ms_unbound m"
    using found(2,3) by (auto simp: svc_open_ports_def trait_defaults_def simple_result_def split: if_splits)
  with found(7) show ?thesis
    by (force simp: filter_empty_conv port_mem_def list_ex_iff)
qed

lemma match_loop_unbound:
  assumes "filter (\<lambda>d. definition_priority d = 3) (mc_registry C) = [svc_open_ports]"
    and "\<not> names_container (bp_virtualization (mp_baseline P))"
  shows "ms_unbound (match_loop C fresh now P) = []"
proof -
  let ?m0 = "\<lparr>ms_services = [], ms_host_ports = [], ms_unbound = bp_all_ports (mp_baseline P),
        ms_container_matched = False, ms_index = 0\<rparr>"
  obtain ds where ds: "sort_key definition_priority (mc_registry C) = ds @ [svc_open_ports]"
    "set ds \<subseteq> set (mc_registry C)"
    using sort_key_last [OF assms(1)] definition_priority_le by blast
  have "loop_inv C P (fold (match_definition C fresh now P) ds ?m0)"
    by (rule loop_inv_fold [OF loop_inv_start ds(2)])
  then have "\<not> ms_container_matched (fold (match_definition C fresh now P) ds ?m0)"
    using assms(2) by (simp add: loop_inv_def)
  then show ?thesis unfolding match_loop_def ds(1) by (simp add: open_ports_step_unbound)
qed

end
