(* ===== verification/Definitions_Network.thy ===== *)
theory Definitions_Network
  imports Service_Discovery
begin

text \<open>
  Service definitions (\<open>server/services/definitions/*.rs\<close>): network infrastructure and network services.
  One definition per file, named after it, in the order of \<open>mod.rs\<close>.
\<close>

definition svc_dhcp_server :: "'c ServiceDef" where
  "svc_dhcp_server =
     (trait_defaults ''DHCP Server'' ''A generic DHCP server'' SC_NetworkCore
       (PortP Dhcp))\<lparr>def_is_generic := True\<rparr>"

definition svc_ntp :: "'c ServiceDef" where
  "svc_ntp =
     (trait_defaults ''NTP Server'' ''Network Time Protocol server'' SC_NetworkCore
       (PortP Ntp))\<lparr>def_is_generic := True\<rparr>"

definition svc_rdp :: "'c ServiceDef" where
  "svc_rdp =
     (trait_defaults ''Remote Desktop'' ''Remote Desktop Protocol (RDP)'' SC_NetworkCore
       (PortP Rdp))\<lparr>def_is_generic := True\<rparr>"

definition svc_snmp :: "'c ServiceDef" where
  "svc_snmp =
     (trait_defaults ''SNMP'' ''Simple Network Management Protocol'' SC_SNMP
       (PortP Snmp))\<lparr>def_is_generic := True\<rparr>"

definition svc_ssh :: "'c ServiceDef" where
  "svc_ssh =
     (trait_defaults ''SSH'' ''Secure Shell remote access'' SC_NetworkCore
       (PortP Ssh))\<lparr>def_is_generic := True\<rparr>"

definition svc_switch :: "'c ServiceDef" where
  "svc_switch =
     (trait_defaults ''Switch'' ''Generic network switch for local area networking'' SC_NetworkCore
       (AllOf [NotP (IsGateway), AllOf [PortP Http, PortP Telnet]]))\<lparr>def_is_generic := True\<rparr>"

definition svc_telnet :: "'c ServiceDef" where
  "svc_telnet =
     (trait_defaults ''Telnet'' ''Telnet remote access'' SC_NetworkCore
       (PortP Telnet))\<lparr>def_is_generic := True\<rparr>"

definition svc_access_point :: "'c ServiceDef" where
  "svc_access_point =
     (trait_defaults ''Access Point'' ''A generic wireless access point for WiFi connectivity'' SC_NetworkAccess
       (NoPattern))\<lparr>def_is_generic := True\<rparr>"

definition svc_eero_gateway :: "'c ServiceDef" where
  "svc_eero_gateway =
     (trait_defaults ''Eero Gateway'' ''Eero device providing routing and gateway services'' SC_NetworkAccess
       (AllOf [MacVendor ''eero Inc'', IsGateway]))\<lparr>def_logo_url := ''https://www.vectorlogo.zone/logos/eero/eero-icon.svg'',
         def_logo_white := True\<rparr>"

definition svc_eero_repeater :: "'c ServiceDef" where
  "svc_eero_repeater =
     (trait_defaults ''Eero Repeater'' ''Eero device providing mesh network services'' SC_NetworkAccess
       (AllOf [MacVendor ''eero Inc'', NotP (IsGateway)]))\<lparr>def_logo_url := ''https://www.vectorlogo.zone/logos/eero/eero-icon.svg'',
         def_logo_white := True\<rparr>"

definition svc_fios_extender :: "'c ServiceDef" where
  "svc_fios_extender =
     (trait_defaults ''Fios Extender'' ''Fios device providing mesh networking services'' SC_NetworkAccess
       (AllOf [EndpointP Http ''/#/login/'' ''fios'' None, NotP (IsGateway)]))\<lparr>def_logo_url := ''https://cdn.jsdelivr.net/gh/homarr-labs/dashboard-icons/svg/fios.svg'',
         def_logo_white := True\<rparr>"

definition svc_fios_gateway :: "'c ServiceDef" where
  "svc_fios_gateway =
     (trait_defaults ''Fios Gateway'' ''Fios device providing routing and gateway services'' SC_NetworkAccess
       (AllOf [EndpointP Http ''/#/login/'' ''fios'' None, IsGateway]))\<lparr>def_logo_url := ''https://cdn.jsdelivr.net/gh/homarr-labs/dashboard-icons/svg/fios.svg'',
         def_logo_white := True\<rparr>"

definition svc_google_nest_repeater :: "'c ServiceDef" where
  "svc_google_nest_repeater =
     (trait_defaults ''Google Nest repeater'' ''Google Nest Wifi repeater'' SC_NetworkAccess
       (AllOf [AnyOf [MacVendor ''Nest Labs Inc.'', MacVendor ''Google, Inc.''],
               NotP (IsGateway),
               EndpointP Http ''/'' ''Nest Wifi'' None]))\<lparr>def_logo_url := ''https://cdn.jsdelivr.net/gh/homarr-labs/dashboard-icons/svg/google-home.svg''\<rparr>"

definition svc_google_nest_router :: "'c ServiceDef" where
  "svc_google_nest_router =
     (trait_defaults ''Google Nest router'' ''Google Nest Wifi router'' SC_NetworkAccess
       (AllOf [AnyOf [MacVendor ''Nest Labs Inc.'', MacVendor ''Google, Inc.''],
               IsGateway,
               EndpointP Http ''/'' ''Nest Wifi'' None]))\<lparr>def_logo_url := ''https://cdn.jsdelivr.net/gh/homarr-labs/dashboard-icons/svg/google-home.svg''\<rparr>"

definition svc_mikrotik :: "'c ServiceDef" where
  "svc_mikrotik =
     (trait_defaults ''MikroTik'' ''MikroTik RouterOS network device'' SC_NetworkCore
       (EndpointP Http ''/'' ''MikroTik RouterOS'' None))\<lparr>def_logo_url := ''https://cdn.jsdelivr.net/gh/homarr-labs/dashboard-icons/svg/mikrotik.svg''\<rparr>"

definition svc_tp_link_eap :: "'c ServiceDef" where
  "svc_tp_link_eap =
     (trait_defaults ''TP-Link EAP'' ''TP-Link EAP wireless access point'' SC_NetworkAccess
       (AllOf [MacVendor ''TP-LINK TECHNOLOGIES CO.,LTD'',
               EndpointP Http ''/'' ''tp-link'' None]))\<lparr>def_logo_url := ''https://cdn.jsdelivr.net/gh/homarr-labs/dashboard-icons/svg/tp-link.svg''\<rparr>"

definition svc_ubiquiti_discovery :: "'c ServiceDef" where
  "svc_ubiquiti_discovery =
     (trait_defaults ''Ubiquiti Discovery'' ''Ubiquiti device discovery service'' SC_NetworkAccess
       (AllOf [MacVendor ''Ubiquiti Networks Inc'', PortP (new_udp 10001)]))\<lparr>def_logo_url := ''https://cdn.jsdelivr.net/gh/homarr-labs/dashboard-icons/svg/ubiquiti.svg''\<rparr>"

definition svc_unifi_access_point :: "'c ServiceDef" where
  "svc_unifi_access_point =
     (trait_defaults ''Unifi Access Point'' ''Ubiquiti UniFi wireless access point'' SC_NetworkAccess
       (AllOf [MacVendor ''Ubiquiti Networks Inc'',
               EndpointP Http ''/'' ''Unifi'' None]))\<lparr>def_logo_url := ''https://cdn.jsdelivr.net/gh/homarr-labs/dashboard-icons/svg/unifi.svg''\<rparr>"

definition svc_unifi_controller :: "'c ServiceDef" where
  "svc_unifi_controller =
     (trait_defaults ''UniFi Controller'' ''Ubiquiti UniFi network controller'' SC_NetworkAccess
       (EndpointP Https8443 ''/manage'' ''UniFi'' None))\<lparr>def_logo_url := ''https://cdn.jsdelivr.net/gh/homarr-labs/dashboard-icons/svg/unifi.svg''\<rparr>"

definition svc_crowdsec :: "'c ServiceDef" where
  "svc_crowdsec =
     (trait_defaults ''CrowdSec'' ''Crowdsourced protection against malicious IPs'' SC_NetworkSecurity
       (EndpointP Http8080 ''/v1/allowlists'' ''cookie token is empty'' (Some (401, 401))))\<lparr>def_logo_url := ''https://cdn.jsdelivr.net/gh/homarr-labs/dashboard-icons/svg/crowdsec.svg''\<rparr>"

definition svc_firewall :: "'c ServiceDef" where
  "svc_firewall =
     (trait_defaults ''Firewall'' ''Generic network security appliance'' SC_NetworkSecurity
       (NoPattern))\<lparr>def_is_generic := True\<rparr>"

definition svc_fortigate :: "'c ServiceDef" where
  "svc_fortigate =
     (trait_defaults ''Fortinet'' ''Fortinet security appliance'' SC_NetworkSecurity
       (EndpointP Http ''/login'' ''fortinet'' None))\<lparr>def_logo_url := ''https://cdn.jsdelivr.net/gh/homarr-labs/dashboard-icons/svg/fortinet.svg''\<rparr>"

definition svc_opn_sense :: "'c ServiceDef" where
  "svc_opn_sense =
     (trait_defaults ''OPNsense'' ''Open-source firewall and routing platform'' SC_NetworkSecurity
       (AllOf [AnyOf [EndpointP Http ''/'' ''opnsense'' None,
                      EndpointP Https ''/'' ''opnsense'' None],
               AnyOf [PortP DnsTcp, PortP DnsUdp, PortP Ssh, PortP Ntp, PortP Dhcp]]))\<lparr>def_logo_url := ''https://cdn.jsdelivr.net/gh/homarr-labs/dashboard-icons/svg/opnsense.svg''\<rparr>"

definition svc_pf_blocker_ng :: "'c ServiceDef" where
  "svc_pf_blocker_ng =
     (trait_defaults ''pfBlockerNG'' ''PfSense package for DNS/IP blocking'' SC_AdBlock
       (AllOf [AllOf [PortP DnsTcp, PortP DnsUdp],
               EndpointP Http ''/pfblockerng'' ''pfblockerng'' None]))\<lparr>def_logo_url := ''https://cdn.jsdelivr.net/gh/homarr-labs/dashboard-icons/svg/pfsense.svg''\<rparr>"

definition svc_pf_sense :: "'c ServiceDef" where
  "svc_pf_sense =
     (trait_defaults ''pfSense'' ''Open-source firewall and router platform'' SC_NetworkSecurity
       (AllOf [PortP Ssh, EndpointP Http ''/'' ''pfsense'' None]))\<lparr>def_logo_url := ''https://cdn.jsdelivr.net/gh/homarr-labs/dashboard-icons/svg/pfsense.svg''\<rparr>"

definition svc_bind9 :: "'c ServiceDef" where
  "svc_bind9 =
     (trait_defaults ''Bind9'' ''Berkeley Internet Name Domain DNS server'' SC_DNS
       (AllOf [PortP DnsUdp, PortP (new_tcp 8053)]))"

definition svc_dns_server :: "'c ServiceDef" where
  "svc_dns_server =
     (trait_defaults ''DNS Server'' ''A generic DNS server'' SC_DNS
       (AnyOf [PortP DnsTcp, PortP DnsUdp]))\<lparr>def_is_generic := True\<rparr>"

definition svc_power_dns :: "'c ServiceDef" where
  "svc_power_dns =
     (trait_defaults ''PowerDNS'' ''Authoritative DNS server with API'' SC_DNS
       (AllOf [PortP DnsUdp, PortP DnsTcp, PortP Http8081]))\<lparr>def_logo_url := ''https://cdn.jsdelivr.net/gh/homarr-labs/dashboard-icons/svg/powerdns.svg''\<rparr>"

definition svc_unbound :: "'c ServiceDef" where
  "svc_unbound =
     (trait_defaults ''Unbound DNS'' ''Recursive DNS resolver with control interface'' SC_DNS
       (AllOf [PortP DnsUdp, PortP (new_tcp 8953)]))\<lparr>def_logo_url := ''https://cdn.jsdelivr.net/gh/homarr-labs/dashboard-icons/svg/unbound.svg''\<rparr>"

definition svc_cloudflared :: "'c ServiceDef" where
  "svc_cloudflared =
     (trait_defaults ''Cloudflared'' ''Cloudflare tunnel daemon'' SC_ReverseProxy
       (EndpointP Http ''/metrics'' ''cloudflared'' None))\<lparr>def_logo_url := ''https://cdn.jsdelivr.net/gh/homarr-labs/dashboard-icons/svg/cloudflare.svg''\<rparr>"

definition svc_openvpn :: "'c ServiceDef" where
  "svc_openvpn =
     (trait_defaults ''OpenVPN'' ''OpenVPN server'' SC_VPN
       (PortP OpenVPN))\<lparr>def_is_generic := True,
         def_logo_url := ''https://cdn.jsdelivr.net/gh/homarr-labs/dashboard-icons/svg/openvpn.svg''\<rparr>"

definition svc_wg_dashboard :: "'c ServiceDef" where
  "svc_wg_dashboard =
     (trait_defaults ''WGDashboard'' ''Wireguard dashboard for visualizing and managing wireguard clients and server'' SC_Dashboard
       (AllOf [PortP (new_tcp 10086), NotP (SubnetIsType ST_VpnTunnel)]))\<lparr>def_logo_url := ''https://cdn.jsdelivr.net/gh/homarr-labs/dashboard-icons/svg/wireguard.svg''\<rparr>"

definition svc_wireguard :: "'c ServiceDef" where
  "svc_wireguard =
     (trait_defaults ''WireGuard'' ''WireGuard VPN'' SC_VPN
       (PortP Wireguard))\<lparr>def_is_generic := True,
         def_logo_url := ''https://cdn.jsdelivr.net/gh/homarr-labs/dashboard-icons/svg/wireguard.svg''\<rparr>"

definition svc_caddy :: "'c ServiceDef" where
  "svc_caddy =
     (trait_defaults ''Caddy'' ''Lightweight & versatile reverse proxy, web & file server'' SC_ReverseProxy
       (EndpointP (new_tcp 2019) ''/reverse_proxy/upstreams'' ''num_requests'' None))\<lparr>def_logo_url := ''https://cdn.jsdelivr.net/gh/homarr-labs/dashboard-icons/svg/caddy.svg''\<rparr>"

definition svc_haproxy :: "'c ServiceDef" where
  "svc_haproxy =
     (trait_defaults ''HAProxy'' ''Load balancer and proxy'' SC_ReverseProxy
       (EndpointP (new_tcp 8404) ''/stats'' ''haproxy'' None))\<lparr>def_logo_url := ''https://cdn.jsdelivr.net/gh/homarr-labs/dashboard-icons/svg/haproxy.svg''\<rparr>"

definition svc_kong :: "'c ServiceDef" where
  "svc_kong =
     (trait_defaults ''Kong'' ''API gateway'' SC_ReverseProxy
       (EndpointP (new_tcp 8001) ''/'' ''kong'' None))\<lparr>def_logo_url := ''https://simpleicons.org/icons/kong.svg'',
         def_logo_white := True\<rparr>"

definition svc_nginx_proxy_manager :: "'c ServiceDef" where
  "svc_nginx_proxy_manager =
     (trait_defaults ''Nginx Proxy Manager'' ''Web-based Nginx proxy management interface'' SC_ReverseProxy
       (EndpointP Http '''' ''nginx proxy manager'' None))\<lparr>def_logo_url := ''https://cdn.jsdelivr.net/gh/homarr-labs/dashboard-icons/svg/nginx-proxy-manager.svg''\<rparr>"

definition svc_traefik :: "'c ServiceDef" where
  "svc_traefik =
     (trait_defaults ''Traefik'' ''Modern reverse proxy and load balancer'' SC_ReverseProxy
       (EndpointP Http ''/dashboard'' ''traefik'' None))\<lparr>def_logo_url := ''https://cdn.jsdelivr.net/gh/homarr-labs/dashboard-icons/svg/traefik.svg''\<rparr>"

definition svc_tyk :: "'c ServiceDef" where
  "svc_tyk =
     (trait_defaults ''Tyk'' ''API gateway'' SC_ReverseProxy
       (EndpointP Http8080 ''/hello'' ''tyk'' (Some (200, 300))))\<lparr>def_logo_url := ''https://www.vectorlogo.zone/logos/tyk/tyk-icon.svg''\<rparr>"

definition svc_adguard_home :: "'c ServiceDef" where
  "svc_adguard_home =
     (trait_defaults ''Adguard Home'' ''Network-wide ad and tracker blocking'' SC_AdBlock
       (AllOf [AllOf [PortP DnsUdp, PortP DnsTcp],
               EndpointP Http ''/'' ''AdGuard Home'' None]))\<lparr>def_logo_url := ''https://cdn.jsdelivr.net/gh/homarr-labs/dashboard-icons/svg/adguard-home.svg''\<rparr>"

definition svc_pi_hole :: "'c ServiceDef" where
  "svc_pi_hole =
     (trait_defaults ''Pi-Hole'' ''Network-wide ad blocking DNS service'' SC_AdBlock
       (AllOf [AnyOf [PortP DnsUdp, PortP DnsTcp],
               EndpointP Http ''/admin'' ''pi-hole'' None]))\<lparr>def_logo_url := ''https://cdn.jsdelivr.net/gh/homarr-labs/dashboard-icons/svg/pi-hole.svg''\<rparr>"

definition defs_network :: "'c ServiceDef list" where
  "defs_network =
     [svc_dhcp_server, svc_gateway, svc_ntp, svc_rdp, svc_snmp, svc_ssh, svc_switch,
      svc_telnet, svc_access_point, svc_eero_gateway, svc_eero_repeater, svc_fios_extender,
      svc_fios_gateway, svc_google_nest_repeater, svc_google_nest_router, svc_mikrotik,
      svc_tp_link_eap, svc_ubiquiti_discovery, svc_unifi_access_point, svc_unifi_controller,
      svc_crowdsec, svc_firewall, svc_fortigate, svc_opn_sense, svc_pf_blocker_ng,
      svc_pf_sense, svc_bind9, svc_dns_server, svc_power_dns, svc_unbound, svc_cloudflared,
      svc_openvpn, svc_wg_dashboard, svc_wireguard, svc_caddy, svc_haproxy, svc_kong,
      svc_nginx_proxy_manager, svc_traefik, svc_tyk, svc_adguard_home, svc_pi_hole]"

lemmas defs_network_defs =
  svc_dhcp_server_def svc_gateway_def svc_ntp_def svc_rdp_def svc_snmp_def svc_ssh_def
  svc_switch_def svc_telnet_def svc_access_point_def svc_eero_gateway_def
  svc_eero_repeater_def svc_fios_extender_def svc_fios_gateway_def
  svc_google_nest_repeater_def svc_google_nest_router_def svc_mikrotik_def
  svc_tp_link_eap_def svc_ubiquiti_discovery_def svc_unifi_access_point_def
  svc_unifi_controller_def svc_crowdsec_def svc_firewall_def svc_fortigate_def
  svc_opn_sense_def svc_pf_blocker_ng_def svc_pf_sense_def svc_bind9_def
  svc_dns_server_def svc_power_dns_def svc_unbound_def svc_cloudflared_def
  svc_openvpn_def svc_wg_dashboard_def svc_wireguard_def svc_caddy_def svc_haproxy_def
  svc_kong_def svc_nginx_proxy_manager_def svc_traefik_def svc_tyk_def
  svc_adguard_home_def svc_pi_hole_def

end
