(* ===== verification/Definitions_Server.thy ===== *)
theory Definitions_Server
  imports Service_Discovery
begin

text \<open>
  Service definitions (\<open>server/services/definitions/*.rs\<close>): server services: storage, backup, media, home automation, virtualization.
  One definition per file, named after it, in the order of \<open>mod.rs\<close>.
\<close>

definition svc_ceph :: "'c ServiceDef" where
  "svc_ceph =
     (trait_defaults ''Ceph'' ''Distributed storage'' SC_Storage
       (EndpointP Http8080 ''/'' ''ceph dashboard'' None))\<lparr>def_logo_url := ''https://cdn.jsdelivr.net/gh/homarr-labs/dashboard-icons/svg/ceph.svg''\<rparr>"

definition svc_file_server :: "'c ServiceDef" where
  "svc_file_server =
     (trait_defaults ''FTP Server'' ''Generic FTP file sharing service'' SC_Storage
       (PortP Ftp))\<lparr>def_is_generic := True\<rparr>"

definition svc_filezilla_server :: "'c ServiceDef" where
  "svc_filezilla_server =
     (trait_defaults ''FileZilla Server'' ''FTP server'' SC_Storage
       (AllOf [PortP Ftp, PortP (new_tcp 14147)]))\<lparr>def_logo_url := ''https://cdn.jsdelivr.net/gh/homarr-labs/dashboard-icons/svg/filezilla.svg''\<rparr>"

definition svc_minio :: "'c ServiceDef" where
  "svc_minio =
     (trait_defaults ''MinIO'' ''Object storage'' SC_Storage
       (EndpointP Http9000 ''/minio/health/live'' '''' (Some (200, 300))))\<lparr>def_logo_url := ''https://cdn.jsdelivr.net/gh/homarr-labs/dashboard-icons/svg/minio.svg'',
         def_logo_white := True\<rparr>"

definition svc_next_cloud :: "'c ServiceDef" where
  "svc_next_cloud =
     (trait_defaults ''NextCloud'' ''Self-hosted cloud storage and collaboration platform'' SC_Office
       (EndpointP Http ''/core/css/server.css'' ''Nextcloud GmbH'' None))\<lparr>def_logo_url := ''https://cdn.jsdelivr.net/gh/homarr-labs/dashboard-icons/svg/nextcloud.svg''\<rparr>"

definition svc_nfs_server :: "'c ServiceDef" where
  "svc_nfs_server =
     (trait_defaults ''NFS'' ''Generic network file system'' SC_Storage
       (PortP Nfs))\<lparr>def_is_generic := True\<rparr>"

definition svc_open_media_vault :: "'c ServiceDef" where
  "svc_open_media_vault =
     (trait_defaults ''OpenMediaVault'' ''Debian-based NAS solution'' SC_Storage
       (AllOf [PortP Samba, EndpointP Http ''/'' ''openmediavault'' None]))\<lparr>def_logo_url := ''https://cdn.jsdelivr.net/gh/homarr-labs/dashboard-icons/svg/openmediavault.svg''\<rparr>"

definition svc_owncloud :: "'c ServiceDef" where
  "svc_owncloud =
     (trait_defaults ''ownCloud'' ''File sync and share'' SC_Office
       (EndpointP Http ''/status.php'' ''owncloud'' None))\<lparr>def_logo_url := ''https://cdn.jsdelivr.net/gh/homarr-labs/dashboard-icons/svg/owncloud.svg'',
         def_logo_white := True\<rparr>"

definition svc_qnap :: "'c ServiceDef" where
  "svc_qnap =
     (trait_defaults ''QNAP NAS'' ''QNAP network attached storage system'' SC_Storage
       (AnyOf [AllOf [PortP Ftp,
                      AnyOf [EndpointP Http ''/'' ''QNAP'' None,
                             EndpointP Http8080 ''/'' ''QNAP'' None]],
               HeaderP (Some Https) ''server'' ''http server'' None]))\<lparr>def_logo_url := ''https://cdn.jsdelivr.net/gh/homarr-labs/dashboard-icons/svg/qnap.svg''\<rparr>"

definition svc_samba :: "'c ServiceDef" where
  "svc_samba =
     (trait_defaults ''Samba'' ''Generic SMB file server'' SC_Storage
       (PortP Samba))\<lparr>def_is_generic := True\<rparr>"

definition svc_seafile :: "'c ServiceDef" where
  "svc_seafile =
     (trait_defaults ''Seafile'' ''File hosting platform'' SC_Office
       (EndpointP (new_tcp 8000) ''/api2/ping'' ''seafile'' None))\<lparr>def_logo_url := ''https://cdn.jsdelivr.net/gh/homarr-labs/dashboard-icons/svg/seafile.svg''\<rparr>"

definition svc_syncthing :: "'c ServiceDef" where
  "svc_syncthing =
     (trait_defaults ''Syncthing'' ''Continuous file synchronization service'' SC_Backup
       (AllOf [EndpointP Http ''/'' ''Syncthing'' None, PortP (new_tcp 22000)]))\<lparr>def_logo_url := ''https://cdn.jsdelivr.net/gh/homarr-labs/dashboard-icons/svg/syncthing.svg''\<rparr>"

definition svc_synology :: "'c ServiceDef" where
  "svc_synology =
     (trait_defaults ''Synology DSM'' ''Synology DiskStation Manager NAS system'' SC_Storage
       (AnyOf [AllOf [EndpointP Http ''/'' ''synology'' None, PortP Ftp],
               EndpointP Http ''/'' ''Synology Web Station'' None]))\<lparr>def_logo_url := ''https://cdn.jsdelivr.net/gh/homarr-labs/dashboard-icons/svg/synology.svg''\<rparr>"

definition svc_true_nas :: "'c ServiceDef" where
  "svc_true_nas =
     (trait_defaults ''TrueNAS'' ''Open-source network attached storage system'' SC_Storage
       (AllOf [PortP Samba, EndpointP Http ''/'' ''TrueNAS'' None]))\<lparr>def_logo_url := ''https://cdn.jsdelivr.net/gh/homarr-labs/dashboard-icons/svg/truenas.svg''\<rparr>"

definition svc_bacula :: "'c ServiceDef" where
  "svc_bacula =
     (trait_defaults ''Bacula'' ''Network backup solution'' SC_Backup
       (PortP (new_tcp 9101)))\<lparr>def_logo_url := ''https://cdn.jsdelivr.net/gh/homarr-labs/dashboard-icons/png/bacula.png''\<rparr>"

definition svc_duplicati :: "'c ServiceDef" where
  "svc_duplicati =
     (trait_defaults ''Duplicati'' ''Cross-platform backup client with encryption'' SC_Backup
       (EndpointP (new_tcp 8200) ''/ngax/index.html'' ''Duplicati'' None))\<lparr>def_logo_url := ''https://cdn.jsdelivr.net/gh/homarr-labs/dashboard-icons/svg/duplicati.svg''\<rparr>"

definition svc_proxmox_backup_server :: "'c ServiceDef" where
  "svc_proxmox_backup_server =
     (trait_defaults ''Proxmox Backup Server'' ''Encrypted, incremental and deduplicated backups for Proxmox VMs, LXCs, and hosts'' SC_Backup
       (AnyOf [EndpointP (new_tcp 8007) ''/'' ''proxmox-backup-gui'' None,
               PortP (new_tcp 8007)]))\<lparr>def_logo_url := ''https://cdn.jsdelivr.net/gh/homarr-labs/dashboard-icons/svg/proxmox.svg''\<rparr>"

definition svc_restic :: "'c ServiceDef" where
  "svc_restic =
     (trait_defaults ''Restic'' ''Fast and secure backup program'' SC_Backup
       (AllOf [PortP (new_tcp 8000), EndpointP Http ''/'' ''restic'' None]))\<lparr>def_logo_url := ''https://cdn.jsdelivr.net/gh/homarr-labs/dashboard-icons/png/restic.png''\<rparr>"

definition svc_veeam :: "'c ServiceDef" where
  "svc_veeam =
     (trait_defaults ''Veeam'' ''Backup and replication'' SC_Backup
       (PortP (new_tcp 9392)))\<lparr>def_logo_url := ''https://cdn.jsdelivr.net/gh/homarr-labs/dashboard-icons/svg/veeam.svg''\<rparr>"

definition svc_audiobookshelf :: "'c ServiceDef" where
  "svc_audiobookshelf =
     (trait_defaults ''AudioBookShelf'' ''Self-hosted audiobook and podcast server.'' SC_Media
       (PortP (new_tcp 13378)))\<lparr>def_logo_url := ''https://cdn.jsdelivr.net/gh/homarr-labs/dashboard-icons/svg/audiobookshelf.svg''\<rparr>"

definition svc_bazarr :: "'c ServiceDef" where
  "svc_bazarr =
     (trait_defaults ''Bazarr'' ''A companion application to Sonarr and Radarr that manages and downloads subtitles'' SC_Media
       (PortP (new_tcp 6767)))\<lparr>def_logo_url := ''https://cdn.jsdelivr.net/gh/homarr-labs/dashboard-icons/svg/bazarr.svg''\<rparr>"

definition svc_booklore :: "'c ServiceDef" where
  "svc_booklore =
     (trait_defaults ''BookLore'' ''A self-hosted, multi-user digital library.'' SC_Media
       (EndpointP (new_tcp 6060) ''/'' ''booklore-app'' None))\<lparr>def_logo_url := ''https://cdn.jsdelivr.net/gh/homarr-labs/dashboard-icons/svg/book-lore.svg''\<rparr>"

definition svc_emby :: "'c ServiceDef" where
  "svc_emby =
     (trait_defaults ''Emby'' ''Personal media server with streaming capabilities'' SC_Media
       (EndpointP (new_tcp 8096) ''/emby/System/Info/Public'' ''Emby'' None))\<lparr>def_logo_url := ''https://cdn.jsdelivr.net/gh/homarr-labs/dashboard-icons/svg/emby.svg''\<rparr>"

definition svc_immich :: "'c ServiceDef" where
  "svc_immich =
     (trait_defaults ''Immich'' ''Self-hosted photo and video management solution'' SC_Media
       (EndpointP (new_tcp 2283) ''/photos'' ''Immich'' None))\<lparr>def_logo_url := ''https://cdn.jsdelivr.net/gh/homarr-labs/dashboard-icons/svg/immich.svg''\<rparr>"

definition svc_jellyfin :: "'c ServiceDef" where
  "svc_jellyfin =
     (trait_defaults ''Jellyfin'' ''Free media server for personal streaming'' SC_Media
       (EndpointP Http ''/System/Info/Public'' ''Jellyfin'' None))\<lparr>def_logo_url := ''https://cdn.jsdelivr.net/gh/homarr-labs/dashboard-icons/svg/jellyfin.svg''\<rparr>"

definition svc_jellyseerr :: "'c ServiceDef" where
  "svc_jellyseerr =
     (trait_defaults ''Jellyseerr'' ''Open source software application for managing requests for your media library.'' SC_Media
       (EndpointP (new_tcp 5055) ''/'' ''Jellyseerr'' None))\<lparr>def_logo_url := ''https://cdn.jsdelivr.net/gh/homarr-labs/dashboard-icons/svg/jellyseerr.svg''\<rparr>"

definition svc_jellystat :: "'c ServiceDef" where
  "svc_jellystat =
     (trait_defaults ''Jellystat'' ''Open source software application for managing requests for your media library.'' SC_Media
       (AllOf [EndpointP Http3000 ''/'' ''Jellystat'' None,
               EndpointP Http3000 ''/'' ''Jellyfin stats for the masses'' None]))\<lparr>def_logo_url := ''https://cdn.jsdelivr.net/gh/homarr-labs/dashboard-icons/svg/jellystat.svg''\<rparr>"

definition svc_komga :: "'c ServiceDef" where
  "svc_komga =
     (trait_defaults ''Komga'' ''A media server for your comics, mangas, BDs, magazines and eBooks.'' SC_Media
       (EndpointP (new_tcp 25600) ''/'' ''Komga'' None))\<lparr>def_logo_url := ''https://cdn.jsdelivr.net/gh/homarr-labs/dashboard-icons/svg/komga.svg''\<rparr>"

definition svc_overseerr :: "'c ServiceDef" where
  "svc_overseerr =
     (trait_defaults ''Overseerr'' ''Open source software application for managing requests for your media library.'' SC_Media
       (AllOf [EndpointP (new_tcp 5055) ''/site.webmanifest'' ''Overseerr'' None,
               NotP (EndpointP (new_tcp 5055) ''/'' ''Jellyseerr'' None)]))\<lparr>def_logo_url := ''https://cdn.jsdelivr.net/gh/homarr-labs/dashboard-icons/svg/overseerr.svg''\<rparr>"

definition svc_plex :: "'c ServiceDef" where
  "svc_plex =
     (trait_defaults ''Plex Media Server'' ''Media server for streaming personal content'' SC_Media
       (AnyOf [EndpointP (new_tcp 32400) ''/web/index.html'' ''Plex'' None,
               HeaderP (Some (new_tcp 32400)) ''X-Plex-Protocol'' ''1.0'' (Some (401, 401))]))\<lparr>def_logo_url := ''https://cdn.jsdelivr.net/gh/homarr-labs/dashboard-icons/svg/plex.svg''\<rparr>"

definition svc_sabnzbd :: "'c ServiceDef" where
  "svc_sabnzbd =
     (trait_defaults ''SABnzbd'' ''A NZB Files Downloader.'' SC_Media
       (EndpointP Http8080 ''/Content/manifest.json'' ''SABnzbd'' None))\<lparr>def_logo_url := ''https://cdn.jsdelivr.net/gh/homarr-labs/dashboard-icons/svg/sabnzbd.svg''\<rparr>"

definition svc_slskd :: "'c ServiceDef" where
  "svc_slskd =
     (trait_defaults ''Slskd'' ''A modern client-server application for the Soulseek file-sharing network'' SC_Media
       (AllOf [EndpointP (new_tcp 5030) ''/'' ''slskd'' None,
               EndpointP (new_tcp 5030) ''/api/v0/session/enabled'' ''true'' None]))\<lparr>def_logo_url := ''https://cdn.jsdelivr.net/gh/homarr-labs/dashboard-icons/svg/slskd.svg''\<rparr>"

definition svc_tautulli :: "'c ServiceDef" where
  "svc_tautulli =
     (trait_defaults ''Tautulli'' ''Monitor, view analytics, and receive notifications about your Plex Media Server.'' SC_Media
       (EndpointP (new_tcp 8181) ''/'' ''Tautulli'' None))\<lparr>def_logo_url := ''https://cdn.jsdelivr.net/gh/homarr-labs/dashboard-icons/svg/tautulli.svg''\<rparr>"

definition svc_domoticz :: "'c ServiceDef" where
  "svc_domoticz =
     (trait_defaults ''Domoticz'' ''Home automation system'' SC_HomeAutomation
       (EndpointP Http8080 ''/json.htm'' ''domoticz'' None))\<lparr>def_logo_url := ''https://cdn.jsdelivr.net/gh/homarr-labs/dashboard-icons/png/domoticz.png''\<rparr>"

definition svc_esphome :: "'c ServiceDef" where
  "svc_esphome =
     (trait_defaults ''ESPHome'' ''ESP device management'' SC_HomeAutomation
       (PortP (new_tcp 6052)))\<lparr>def_logo_url := ''https://cdn.jsdelivr.net/gh/homarr-labs/dashboard-icons/svg/esphome.svg''\<rparr>"

definition svc_home_assistant :: "'c ServiceDef" where
  "svc_home_assistant =
     (trait_defaults ''Home Assistant'' ''Open-source home automation platform'' SC_HomeAutomation
       (EndpointP (new_tcp 8123) ''/'' ''home assistant'' None))\<lparr>def_logo_url := ''https://cdn.jsdelivr.net/gh/homarr-labs/dashboard-icons/svg/home-assistant.svg''\<rparr>"

definition svc_openhab :: "'c ServiceDef" where
  "svc_openhab =
     (trait_defaults ''openHAB'' ''Home automation platform'' SC_HomeAutomation
       (EndpointP Http8080 ''/rest/'' ''openhab'' None))\<lparr>def_logo_url := ''https://cdn.jsdelivr.net/gh/homarr-labs/dashboard-icons/svg/openhab.svg''\<rparr>"

definition svc_philips_hue_bridge :: "'c ServiceDef" where
  "svc_philips_hue_bridge =
     (trait_defaults ''Philips Hue Bridge'' ''Philips Hue Bridge for lighting control'' SC_IoT
       (AllOf [MacVendor ''Philips Lighting BV'', EndpointP Http ''/'' ''hue'' None]))\<lparr>def_logo_url := ''https://simpleicons.org/icons/philipshue.svg'',
         def_logo_white := True\<rparr>"

definition svc_zigbee2mqtt :: "'c ServiceDef" where
  "svc_zigbee2mqtt =
     (trait_defaults ''Zigbee2MQTT'' ''Zigbee to MQTT bridge'' SC_HomeAutomation
       (EndpointP Http8080 ''/'' ''Zigbee2MQTT WindFront'' None))\<lparr>def_logo_url := ''https://cdn.jsdelivr.net/gh/homarr-labs/dashboard-icons/svg/zigbee2mqtt.svg''\<rparr>"

definition svc_zwave_js :: "'c ServiceDef" where
  "svc_zwave_js =
     (trait_defaults ''Z-Wave JS'' ''Z-Wave controller server'' SC_HomeAutomation
       (EndpointP (new_tcp 8091) ''/health'' '''' None))\<lparr>def_is_generic := True,
         def_logo_url := ''https://cdn.jsdelivr.net/gh/homarr-labs/dashboard-icons/svg/z-wave-js-ui.svg''\<rparr>"

definition svc_docker_daemon :: "'c ServiceDef" where
  "svc_docker_daemon =
     (trait_defaults ''Docker'' ''Docker'' SC_Virtualization
       (NoPattern))\<lparr>def_logo_url := ''https://cdn.jsdelivr.net/gh/homarr-labs/dashboard-icons/svg/docker.svg''\<rparr>"

definition svc_docker_swarm :: "'c ServiceDef" where
  "svc_docker_swarm =
     (trait_defaults ''Docker Swarm'' ''Docker native clustering and orchestration'' SC_Virtualization
       (AllOf [PortP (new_tcp 2377), PortP (new_tcp 7946)]))\<lparr>def_logo_url := ''https://cdn.jsdelivr.net/gh/homarr-labs/dashboard-icons/svg/docker.svg''\<rparr>"

definition svc_dockge :: "'c ServiceDef" where
  "svc_dockge =
     (trait_defaults ''Dockge'' ''Docker compose stack management UI'' SC_Virtualization
       (EndpointP (new_tcp 5001) ''/'' ''Dockge'' None))\<lparr>def_logo_url := ''https://cdn.jsdelivr.net/gh/homarr-labs/dashboard-icons/svg/dockge.svg''\<rparr>"

definition svc_kubernetes :: "'c ServiceDef" where
  "svc_kubernetes =
     (trait_defaults ''Kubernetes'' ''Container orchestration platform'' SC_Virtualization
       (AllOf [PortP Kubernetes,
               AnyOf [PortP (new_tcp 10250),
                      PortP (new_tcp 10259),
                      PortP (new_tcp 10257),
                      PortP (new_tcp 10256)]]))\<lparr>def_logo_url := ''https://cdn.jsdelivr.net/gh/homarr-labs/dashboard-icons/svg/kubernetes.svg''\<rparr>"

definition svc_nomad :: "'c ServiceDef" where
  "svc_nomad =
     (trait_defaults ''Nomad'' ''Workload orchestration'' SC_Virtualization
       (EndpointP (new_tcp 4646) ''/v1/status/leader'' '''' None))\<lparr>def_logo_url := ''https://cdn.jsdelivr.net/gh/homarr-labs/dashboard-icons/svg/nomad.svg''\<rparr>"

definition svc_openshift :: "'c ServiceDef" where
  "svc_openshift =
     (trait_defaults ''OpenShift'' ''Enterprise Kubernetes'' SC_Virtualization
       (EndpointP Kubernetes ''/healthz'' ''openshift'' None))\<lparr>def_logo_url := ''https://cdn.jsdelivr.net/gh/homarr-labs/dashboard-icons/svg/openshift.svg''\<rparr>"

definition svc_portainer :: "'c ServiceDef" where
  "svc_portainer =
     (trait_defaults ''Portainer'' ''Container management web interface'' SC_Virtualization
       (AnyOf [EndpointP Https9443 ''/#!/auth'' ''portainer.io'' None,
               EndpointP Http9000 ''/'' ''portainer.io'' None]))\<lparr>def_logo_url := ''https://cdn.jsdelivr.net/gh/homarr-labs/dashboard-icons/svg/portainer.svg''\<rparr>"

definition svc_proxmox :: "'c ServiceDef" where
  "svc_proxmox =
     (trait_defaults ''Proxmox VE'' ''Open-source virtualization management platform'' SC_Virtualization
       (AnyOf [EndpointP (new_tcp 8006) ''/'' ''proxmox'' None, PortP (new_tcp 8006)]))\<lparr>def_logo_url := ''https://cdn.jsdelivr.net/gh/homarr-labs/dashboard-icons/svg/proxmox.svg''\<rparr>"

definition svc_rancher :: "'c ServiceDef" where
  "svc_rancher =
     (trait_defaults ''Rancher'' ''Kubernetes management'' SC_Virtualization
       (EndpointP Http ''/v3'' ''rancher'' None))\<lparr>def_logo_url := ''https://cdn.jsdelivr.net/gh/homarr-labs/dashboard-icons/svg/rancher.svg''\<rparr>"

definition defs_server :: "'c ServiceDef list" where
  "defs_server =
     [svc_ceph, svc_file_server, svc_filezilla_server, svc_minio, svc_next_cloud,
      svc_nfs_server, svc_open_media_vault, svc_owncloud, svc_qnap, svc_samba, svc_seafile,
      svc_syncthing, svc_synology, svc_true_nas, svc_bacula, svc_duplicati,
      svc_proxmox_backup_server, svc_restic, svc_veeam, svc_audiobookshelf, svc_bazarr,
      svc_booklore, svc_emby, svc_immich, svc_jellyfin, svc_jellyseerr, svc_jellystat,
      svc_komga, svc_overseerr, svc_plex, svc_sabnzbd, svc_slskd, svc_tautulli, svc_domoticz,
      svc_esphome, svc_home_assistant, svc_openhab, svc_philips_hue_bridge, svc_zigbee2mqtt,
      svc_zwave_js, svc_docker_container, svc_docker_daemon, svc_docker_swarm, svc_dockge,
      svc_kubernetes, svc_nomad, svc_openshift, svc_portainer, svc_proxmox, svc_rancher]"

lemmas defs_server_defs =
  svc_ceph_def svc_file_server_def svc_filezilla_server_def svc_minio_def
  svc_next_cloud_def svc_nfs_server_def svc_open_media_vault_def svc_owncloud_def
  svc_qnap_def svc_samba_def svc_seafile_def svc_syncthing_def svc_synology_def
  svc_true_nas_def svc_bacula_def svc_duplicati_def svc_proxmox_backup_server_def
  svc_restic_def svc_veeam_def svc_audiobookshelf_def svc_bazarr_def svc_booklore_def
  svc_emby_def svc_immich_def svc_jellyfin_def svc_jellyseerr_def svc_jellystat_def
  svc_komga_def svc_overseerr_def svc_plex_def svc_sabnzbd_def svc_slskd_def
  svc_tautulli_def svc_domoticz_def svc_esphome_def svc_home_assistant_def
  svc_openhab_def svc_philips_hue_bridge_def svc_zigbee2mqtt_def svc_zwave_js_def
  svc_docker_container_def svc_docker_daemon_def svc_docker_swarm_def svc_dockge_def
  svc_kubernetes_def svc_nomad_def svc_openshift_def svc_portainer_def svc_proxmox_def
  svc_rancher_def

end
