(* ===== verification/Definitions_Apps.thy ===== *)
theory Definitions_Apps
  imports Service_Discovery
begin

text \<open>
  Service definitions (\<open>server/services/definitions/*.rs\<close>): application services, first part: databases, message queues, collaboration, development.
  One definition per file, named after it, in the order of \<open>mod.rs\<close>.
\<close>

definition svc_cassandra :: "'c ServiceDef" where
  "svc_cassandra =
     (trait_defaults ''Cassandra'' ''Distributed NoSQL database'' SC_Database
       (PortP Cassandra))\<lparr>def_is_generic := True,
         def_logo_url := ''https://cdn.jsdelivr.net/gh/homarr-labs/dashboard-icons/svg/apache-cassandra.svg''\<rparr>"

definition svc_couchdb :: "'c ServiceDef" where
  "svc_couchdb =
     (trait_defaults ''CouchDB'' ''NoSQL document database'' SC_Database
       (EndpointP CouchDb ''/'' ''couchdb'' None))\<lparr>def_is_generic := True,
         def_logo_url := ''https://cdn.jsdelivr.net/gh/homarr-labs/dashboard-icons/svg/couchdb.svg''\<rparr>"

definition svc_denodo :: "'c ServiceDef" where
  "svc_denodo =
     (trait_defaults ''Denodo'' ''Data virtualization'' SC_Database
       (AllOf [PortP (new_tcp 9990),
               PortP (new_tcp 9996),
               PortP (new_tcp 9090),
               PortP (new_tcp 9099)]))\<lparr>def_logo_url := ''https://cdn.jsdelivr.net/gh/homarr-labs/dashboard-icons/svg/denodo.svg''\<rparr>"

definition svc_elasticsearch :: "'c ServiceDef" where
  "svc_elasticsearch =
     (trait_defaults ''Elasticsearch'' ''Distributed search and analytics engine'' SC_Database
       (EndpointP Elasticsearch ''/'' ''lucene'' None))\<lparr>def_is_generic := True,
         def_logo_url := ''https://cdn.jsdelivr.net/gh/homarr-labs/dashboard-icons/svg/elasticsearch.svg''\<rparr>"

definition svc_influxdb :: "'c ServiceDef" where
  "svc_influxdb =
     (trait_defaults ''InfluxDB'' ''Time series database'' SC_Database
       (PortP InfluxDb))\<lparr>def_is_generic := True,
         def_logo_url := ''https://cdn.jsdelivr.net/gh/homarr-labs/dashboard-icons/svg/influxdb.svg'',
         def_logo_white := True\<rparr>"

definition svc_mariadb :: "'c ServiceDef" where
  "svc_mariadb =
     (trait_defaults ''MariaDB'' ''MySQL-compatible relational database'' SC_Database
       (NoPattern))\<lparr>def_is_generic := True,
         def_logo_url := ''https://cdn.jsdelivr.net/gh/homarr-labs/dashboard-icons/svg/mariadb.svg'',
         def_logo_white := True\<rparr>"

definition svc_mongodb :: "'c ServiceDef" where
  "svc_mongodb =
     (trait_defaults ''MongoDB'' ''NoSQL document database'' SC_Database
       (PortP MongoDB))\<lparr>def_is_generic := True,
         def_logo_url := ''https://cdn.jsdelivr.net/gh/homarr-labs/dashboard-icons/svg/mongodb.svg'',
         def_logo_white := True\<rparr>"

definition svc_mssql_server :: "'c ServiceDef" where
  "svc_mssql_server =
     (trait_defaults ''Microsoft SQL Server'' ''Microsoft relational database'' SC_Database
       (PortP MsSql))\<lparr>def_is_generic := True,
         def_logo_url := ''https://cdn.jsdelivr.net/gh/homarr-labs/dashboard-icons/svg/microsoft-sql-server-light.svg'',
         def_logo_white := True\<rparr>"

definition svc_mysql :: "'c ServiceDef" where
  "svc_mysql =
     (trait_defaults ''MySQL'' ''Open-source relational database'' SC_Database
       (PortP MySql))\<lparr>def_is_generic := True,
         def_logo_url := ''https://cdn.jsdelivr.net/gh/homarr-labs/dashboard-icons/svg/mysql.svg'',
         def_logo_white := True\<rparr>"

definition svc_neo4j :: "'c ServiceDef" where
  "svc_neo4j =
     (trait_defaults ''Neo4j'' ''Graph database'' SC_Database
       (AnyOf [PortP (new_tcp 7473), PortP (new_tcp 7687)]))\<lparr>def_logo_url := ''https://cdn.jsdelivr.net/gh/homarr-labs/dashboard-icons/png/neo4j.png''\<rparr>"

definition svc_oracle_db :: "'c ServiceDef" where
  "svc_oracle_db =
     (trait_defaults ''Oracle Database'' ''Enterprise relational database'' SC_Database
       (PortP (new_tcp 1521)))\<lparr>def_logo_url := ''https://cdn.jsdelivr.net/gh/homarr-labs/dashboard-icons/svg/oracle.svg'',
         def_logo_white := True\<rparr>"

definition svc_postgresql :: "'c ServiceDef" where
  "svc_postgresql =
     (trait_defaults ''PostgreSQL'' ''Open-source relational database'' SC_Database
       (PortP PostgreSQL))\<lparr>def_is_generic := True,
         def_logo_url := ''https://cdn.jsdelivr.net/gh/homarr-labs/dashboard-icons/svg/postgresql.svg'',
         def_logo_white := True\<rparr>"

definition svc_redis_db :: "'c ServiceDef" where
  "svc_redis_db =
     (trait_defaults ''Redis'' ''In-memory data store and cache'' SC_Database
       (PortP Redis))\<lparr>def_is_generic := True,
         def_logo_url := ''https://cdn.jsdelivr.net/gh/homarr-labs/dashboard-icons/svg/redis.svg''\<rparr>"

definition svc_activemq :: "'c ServiceDef" where
  "svc_activemq =
     (trait_defaults ''ActiveMQ'' ''Message broker'' SC_MessageQueue
       (EndpointP (new_tcp 8161) ''/admin'' ''activemq'' None))\<lparr>def_logo_url := ''https://www.vectorlogo.zone/logos/apache_activemq/apache_activemq-icon.svg''\<rparr>"

definition svc_ampq :: "'c ServiceDef" where
  "svc_ampq =
     (trait_defaults ''AMQP'' ''Advanced Message Queuing Protocol'' SC_MessageQueue
       (AnyOf [PortP AMQP, PortP AMQPTls]))\<lparr>def_is_generic := True\<rparr>"

definition svc_kafka :: "'c ServiceDef" where
  "svc_kafka =
     (trait_defaults ''Kafka'' ''Event streaming platform'' SC_MessageQueue
       (PortP Kafka))\<lparr>def_is_generic := True,
         def_logo_url := ''https://simpleicons.org/icons/apachekafka.svg'',
         def_logo_white := True\<rparr>"

definition svc_mqtt :: "'c ServiceDef" where
  "svc_mqtt =
     (trait_defaults ''MQTT'' ''Generic MQTT broker'' SC_MessageQueue
       (AnyOf [PortP Mqtt, PortP MqttTls]))\<lparr>def_is_generic := True,
         def_logo_url := ''https://cdn.jsdelivr.net/gh/homarr-labs/dashboard-icons/svg/mqtt.svg''\<rparr>"

definition svc_ntfy :: "'c ServiceDef" where
  "svc_ntfy =
     (trait_defaults ''Ntfy'' ''Simple HTTP-based pub-sub notification service'' SC_MessageQueue
       (AnyOf [EndpointP Http ''/'' ''ntfy web'' None,
               EndpointP (new_tcp 2856) ''/'' ''ntfy web'' None]))\<lparr>def_logo_url := ''https://cdn.jsdelivr.net/gh/homarr-labs/dashboard-icons/svg/ntfy.svg''\<rparr>"

definition svc_rabbitmq :: "'c ServiceDef" where
  "svc_rabbitmq =
     (trait_defaults ''RabbitMQ'' ''Message broker'' SC_MessageQueue
       (EndpointP RabbitMqMgmt ''/'' ''rabbitmq'' None))\<lparr>def_is_generic := True,
         def_logo_url := ''https://cdn.jsdelivr.net/gh/homarr-labs/dashboard-icons/svg/rabbitmq.svg''\<rparr>"

definition svc_confluence_server :: "'c ServiceDef" where
  "svc_confluence_server =
     (trait_defaults ''Confluence'' ''Team collaboration wiki'' SC_ProjectManagement
       (EndpointP (new_tcp 8090) ''/'' ''confluence'' None))\<lparr>def_logo_url := ''https://cdn.jsdelivr.net/gh/homarr-labs/dashboard-icons/svg/confluence.svg''\<rparr>"

definition svc_discourse :: "'c ServiceDef" where
  "svc_discourse =
     (trait_defaults ''Discourse'' ''Discussion platform'' SC_Publishing
       (EndpointP Http ''/srv/status'' ''discourse'' None))\<lparr>def_logo_url := ''https://cdn.jsdelivr.net/gh/homarr-labs/dashboard-icons/svg/discourse.svg''\<rparr>"

definition svc_jira_server :: "'c ServiceDef" where
  "svc_jira_server =
     (trait_defaults ''Jira'' ''Project management platform'' SC_ProjectManagement
       (EndpointP Http8080 ''/rest/api/2/serverInfo'' ''jira'' (Some (200, 300))))\<lparr>def_logo_url := ''https://cdn.jsdelivr.net/gh/homarr-labs/dashboard-icons/svg/jira.svg''\<rparr>"

definition svc_mattermost :: "'c ServiceDef" where
  "svc_mattermost =
     (trait_defaults ''Mattermost'' ''Team messaging platform'' SC_Messaging
       (EndpointP (new_tcp 8065) ''/api/v4/system/ping'' '''' None))\<lparr>def_logo_url := ''https://cdn.jsdelivr.net/gh/homarr-labs/dashboard-icons/svg/mattermost.svg'',
         def_logo_white := True\<rparr>"

definition svc_radicale :: "'c ServiceDef" where
  "svc_radicale =
     (trait_defaults ''Radicale'' ''Free and Open-Source CalDAV and CardDAV Server'' SC_Office
       (EndpointP (new_tcp 5232) ''/.web/'' ''Radicale Web Interface'' None))\<lparr>def_logo_url := ''https://cdn.jsdelivr.net/gh/homarr-labs/dashboard-icons/svg/radicale.svg''\<rparr>"

definition svc_rocket_chat :: "'c ServiceDef" where
  "svc_rocket_chat =
     (trait_defaults ''Rocket.Chat'' ''Team communication platform'' SC_Messaging
       (EndpointP Http3000 ''/api/info'' ''rocket'' None))\<lparr>def_logo_url := ''https://cdn.jsdelivr.net/gh/homarr-labs/dashboard-icons/svg/rocket-chat.svg''\<rparr>"

definition svc_ansible_awx :: "'c ServiceDef" where
  "svc_ansible_awx =
     (trait_defaults ''AWX'' ''Ansible automation platform'' SC_Development
       (EndpointP Http ''/api/v2/'' ''awx'' (Some (200, 300))))\<lparr>def_logo_url := ''https://cdn.jsdelivr.net/gh/homarr-labs/dashboard-icons/svg/ansible.svg''\<rparr>"

definition svc_appwrite :: "'c ServiceDef" where
  "svc_appwrite =
     (trait_defaults ''Appwrite'' ''Open-source backend-as-a-service platform'' SC_Development
       (AnyOf [EndpointP Http ''/'' ''appwrite.io'' None,
               EndpointP Https ''/'' ''appwrite.io'' None]))\<lparr>def_logo_url := ''https://cdn.jsdelivr.net/gh/homarr-labs/dashboard-icons/svg/appwrite.svg''\<rparr>"

definition svc_argocd :: "'c ServiceDef" where
  "svc_argocd =
     (trait_defaults ''ArgoCD'' ''GitOps continuous delivery'' SC_Development
       (EndpointP Http8080 ''/api/version'' ''argocd'' None))\<lparr>def_logo_url := ''https://cdn.jsdelivr.net/gh/homarr-labs/dashboard-icons/svg/argo-cd.svg''\<rparr>"

definition svc_bamboo :: "'c ServiceDef" where
  "svc_bamboo =
     (trait_defaults ''Bamboo'' ''CI/CD server'' SC_Development
       (EndpointP (new_tcp 8085) ''/'' ''bamboo'' None))\<lparr>def_logo_url := ''https://cdn.jsdelivr.net/gh/homarr-labs/dashboard-icons/svg/atlassian-bamboo.svg''\<rparr>"

definition svc_bitbucket_server :: "'c ServiceDef" where
  "svc_bitbucket_server =
     (trait_defaults ''Bitbucket Server'' ''Git repository management'' SC_Development
       (EndpointP (new_tcp 7990) ''/'' ''bitbucket'' None))\<lparr>def_logo_url := ''https://cdn.jsdelivr.net/gh/homarr-labs/dashboard-icons/svg/bitbucket.svg''\<rparr>"

definition svc_drone_ci :: "'c ServiceDef" where
  "svc_drone_ci =
     (trait_defaults ''Drone'' ''Container-native CI platform'' SC_Development
       (AllOf [EndpointP Http ''/'' ''drone'' None,
               EndpointP Http ''/api/user'' '''' None]))\<lparr>def_logo_url := ''https://cdn.jsdelivr.net/gh/homarr-labs/dashboard-icons/png/drone.png'',
         def_logo_white := True\<rparr>"

definition svc_forgejo :: "'c ServiceDef" where
  "svc_forgejo =
     (trait_defaults ''Forgejo'' ''DevOps platform'' SC_Development
       (EndpointP Http3000 ''/explore/repos'' ''Powered by Forgejo'' None))\<lparr>def_logo_url := ''https://cdn.jsdelivr.net/gh/homarr-labs/dashboard-icons/svg/forgejo.svg''\<rparr>"

definition svc_gitea :: "'c ServiceDef" where
  "svc_gitea =
     (trait_defaults ''Gitea'' ''DevOps platform'' SC_Development
       (EndpointP Http3000 ''/explore/repos'' ''Powered by Gitea'' None))\<lparr>def_logo_url := ''https://cdn.jsdelivr.net/gh/homarr-labs/dashboard-icons/svg/gitea.svg''\<rparr>"

definition svc_github_enterprise :: "'c ServiceDef" where
  "svc_github_enterprise =
     (trait_defaults ''GitHub'' ''Self-hosted GitHub'' SC_Development
       (NoPattern))\<lparr>def_logo_url := ''https://cdn.jsdelivr.net/gh/homarr-labs/dashboard-icons/svg/github.svg'',
         def_logo_white := True\<rparr>"

definition svc_gitlab :: "'c ServiceDef" where
  "svc_gitlab =
     (trait_defaults ''GitLab'' ''DevOps platform'' SC_Development
       (AllOf [HeaderP None ''content-security-policy'' ''gitlab'' None,
               EndpointP Http ''/'' ''gitlab'' None]))\<lparr>def_logo_url := ''https://cdn.jsdelivr.net/gh/homarr-labs/dashboard-icons/svg/gitlab.svg''\<rparr>"

definition svc_jenkins :: "'c ServiceDef" where
  "svc_jenkins =
     (trait_defaults ''Jenkins'' ''Automation server for CI/CD'' SC_Development
       (EndpointP Http8080 ''/'' ''jenkins.io'' None))\<lparr>def_logo_url := ''https://cdn.jsdelivr.net/gh/homarr-labs/dashboard-icons/svg/jenkins.svg''\<rparr>"

definition svc_nats :: "'c ServiceDef" where
  "svc_nats =
     (trait_defaults ''NATS'' ''Cloud-native messaging system'' SC_MessageQueue
       (EndpointP (new_tcp 8222) ''/varz'' '''' None))\<lparr>def_logo_url := ''https://simpleicons.org/icons/natsdotio.svg'',
         def_logo_white := True\<rparr>"

definition svc_spinnaker :: "'c ServiceDef" where
  "svc_spinnaker =
     (trait_defaults ''Spinnaker'' ''Multi-cloud CD platform'' SC_Development
       (NoPattern))\<lparr>def_logo_url := ''https://simpleicons.org/icons/spinnaker.svg'',
         def_logo_white := True\<rparr>"

definition svc_teamcity :: "'c ServiceDef" where
  "svc_teamcity =
     (trait_defaults ''TeamCity'' ''CI/CD server'' SC_Development
       (EndpointP (new_tcp 8111) ''/'' ''teamcity'' None))\<lparr>def_logo_url := ''https://cdn.jsdelivr.net/gh/homarr-labs/dashboard-icons/svg/teamcity-light.svg''\<rparr>"

definition svc_ghost :: "'c ServiceDef" where
  "svc_ghost =
     (trait_defaults ''Ghost'' ''Publishing platform'' SC_Publishing
       (EndpointP (new_tcp 2368) ''/'' ''ghost'' None))\<lparr>def_logo_url := ''https://cdn.jsdelivr.net/gh/homarr-labs/dashboard-icons/png/ghost.png'',
         def_logo_white := True\<rparr>"

definition svc_tomcat :: "'c ServiceDef" where
  "svc_tomcat =
     (trait_defaults ''Tomcat'' ''Java servlet container'' SC_Development
       (EndpointP Http8080 ''/'' ''apache tomcat'' None))\<lparr>def_logo_url := ''https://cdn.jsdelivr.net/gh/homarr-labs/dashboard-icons/svg/apache-tomcat.svg''\<rparr>"

definition svc_web_service :: "'c ServiceDef" where
  "svc_web_service =
     (trait_defaults ''Web Service'' ''A generic web service'' SC_Unknown
       (NoPattern))"

definition svc_wordpress :: "'c ServiceDef" where
  "svc_wordpress =
     (trait_defaults ''WordPress'' ''Content management system'' SC_Publishing
       (EndpointP Http ''/'' ''wp-content'' None))\<lparr>def_logo_url := ''https://cdn.jsdelivr.net/gh/homarr-labs/dashboard-icons/svg/wordpress.svg''\<rparr>"

definition svc_active_directory :: "'c ServiceDef" where
  "svc_active_directory =
     (trait_defaults ''Active Directory'' ''Microsoft directory service'' SC_IdentityAndAccess
       (AllOf [PortP Ldap, PortP Samba, PortP Kerberos]))\<lparr>def_logo_url := ''https://cdn.jsdelivr.net/gh/homarr-labs/dashboard-icons/svg/microsoft.svg''\<rparr>"

definition svc_authentik :: "'c ServiceDef" where
  "svc_authentik =
     (trait_defaults ''Authentik'' ''A self-hosted, open source identity provider'' SC_IdentityAndAccess
       (AnyOf [EndpointP Http9000 ''/'' ''window.authentik'' None,
               EndpointP Https9443 ''/'' ''window.authentik'' None]))\<lparr>def_logo_url := ''https://cdn.jsdelivr.net/gh/homarr-labs/dashboard-icons/svg/authentik.svg''\<rparr>"

definition svc_bitwarden :: "'c ServiceDef" where
  "svc_bitwarden =
     (trait_defaults ''Bitwarden'' ''Password manager'' SC_IdentityAndAccess
       (EndpointP Http ''/api/config'' ''bitwarden'' None))\<lparr>def_logo_url := ''https://cdn.jsdelivr.net/gh/homarr-labs/dashboard-icons/svg/bitwarden.svg''\<rparr>"

definition svc_freeipa :: "'c ServiceDef" where
  "svc_freeipa =
     (trait_defaults ''FreeIPA'' ''Identity management system'' SC_IdentityAndAccess
       (EndpointP Http ''/ipa/ui'' '''' (Some (200, 300))))\<lparr>def_logo_url := ''https://cdn.jsdelivr.net/gh/homarr-labs/dashboard-icons/svg/freeipa.svg''\<rparr>"

definition defs_apps :: "'c ServiceDef list" where
  "defs_apps =
     [svc_cassandra, svc_couchdb, svc_denodo, svc_elasticsearch, svc_influxdb, svc_mariadb,
      svc_mongodb, svc_mssql_server, svc_mysql, svc_neo4j, svc_oracle_db, svc_postgresql,
      svc_redis_db, svc_activemq, svc_ampq, svc_kafka, svc_mqtt, svc_ntfy, svc_rabbitmq,
      svc_confluence_server, svc_discourse, svc_jira_server, svc_mattermost, svc_radicale,
      svc_rocket_chat, svc_ansible_awx, svc_appwrite, svc_argocd, svc_bamboo,
      svc_bitbucket_server, svc_drone_ci, svc_forgejo, svc_gitea, svc_github_enterprise,
      svc_gitlab, svc_jenkins, svc_nats, svc_spinnaker, svc_teamcity, svc_ghost, svc_tomcat,
      svc_web_service, svc_wordpress, svc_active_directory, svc_authentik, svc_bitwarden,
      svc_freeipa]"

lemmas defs_apps_defs =
  svc_cassandra_def svc_couchdb_def svc_denodo_def svc_elasticsearch_def svc_influxdb_def
  svc_mariadb_def svc_mongodb_def svc_mssql_server_def svc_mysql_def svc_neo4j_def
  svc_oracle_db_def svc_postgresql_def svc_redis_db_def svc_activemq_def svc_ampq_def
  svc_kafka_def svc_mqtt_def svc_ntfy_def svc_rabbitmq_def svc_confluence_server_def
  svc_discourse_def svc_jira_server_def svc_mattermost_def svc_radicale_def
  svc_rocket_chat_def svc_ansible_awx_def svc_appwrite_def svc_argocd_def svc_bamboo_def
  svc_bitbucket_server_def svc_drone_ci_def svc_forgejo_def svc_gitea_def
  svc_github_enterprise_def svc_gitlab_def svc_jenkins_def svc_nats_def svc_spinnaker_def
  svc_teamcity_def svc_ghost_def svc_tomcat_def svc_web_service_def svc_wordpress_def
  svc_active_directory_def svc_authentik_def svc_bitwarden_def svc_freeipa_def

end
