(* ===== verification/Definitions_Apps2.thy ===== *)
theory Definitions_Apps2
  imports Service_Discovery
begin

text \<open>
  Service definitions (\<open>server/services/definitions/*.rs\<close>): application services, second part: monitoring, identity, communication, publishing.
  One definition per file, named after it, in the order of \<open>mod.rs\<close>.
\<close>

definition svc_kerberos :: "'c ServiceDef" where
  "svc_kerberos =
     (trait_defaults ''Kerberos'' ''Kerberos authentication service'' SC_IdentityAndAccess
       (PortP Kerberos))\<lparr>def_is_generic := True\<rparr>"

definition svc_keycloak :: "'c ServiceDef" where
  "svc_keycloak =
     (trait_defaults ''Keycloak'' ''Identity and access management'' SC_IdentityAndAccess
       (EndpointP Http8080 ''/'' ''/keycloak/'' None))\<lparr>def_logo_url := ''https://cdn.jsdelivr.net/gh/homarr-labs/dashboard-icons/svg/keycloak.svg''\<rparr>"

definition svc_ldap :: "'c ServiceDef" where
  "svc_ldap =
     (trait_defaults ''Open LDAP'' ''Generic LDAP directory service'' SC_IdentityAndAccess
       (AnyOf [PortP Ldap, PortP Ldaps]))\<lparr>def_is_generic := True,
         def_logo_url := ''https://cdn.jsdelivr.net/gh/homarr-labs/dashboard-icons/svg/openldap.svg''\<rparr>"

definition svc_vault :: "'c ServiceDef" where
  "svc_vault =
     (trait_defaults ''Vault'' ''Secrets management'' SC_IdentityAndAccess
       (EndpointP (new_tcp 8200) ''/v1/sys/health'' ''vault'' None))\<lparr>def_logo_url := ''https://cdn.jsdelivr.net/gh/homarr-labs/dashboard-icons/svg/hashicorp-vault.svg''\<rparr>"

definition svc_vaultwarden :: "'c ServiceDef" where
  "svc_vaultwarden =
     (trait_defaults ''Vaultwarden'' ''Self-hosted Bitwarden-compatible server, written in Rust'' SC_IdentityAndAccess
       (EndpointP (new_tcp 8000) ''/manifest.json'' ''Vaultwarden Web'' None))\<lparr>def_logo_url := ''https://cdn.jsdelivr.net/gh/homarr-labs/dashboard-icons/svg/vaultwarden.svg'',
         def_logo_white := True\<rparr>"

definition svc_glance_app :: "'c ServiceDef" where
  "svc_glance_app =
     (trait_defaults ''Glance'' ''A self-hosted dashboard that puts all your feeds in one place'' SC_Dashboard
       (EndpointP Http8080 ''/manifest.json'' ''Glance'' None))\<lparr>def_logo_url := ''https://cdn.jsdelivr.net/gh/homarr-labs/dashboard-icons/svg/glance.svg''\<rparr>"

definition svc_homarr :: "'c ServiceDef" where
  "svc_homarr =
     (trait_defaults ''Homarr'' ''A sleek, modern dashboard'' SC_Dashboard
       (PortP (new_tcp 7575)))\<lparr>def_logo_url := ''https://cdn.jsdelivr.net/gh/homarr-labs/dashboard-icons/svg/homarr.svg''\<rparr>"

definition svc_homepage :: "'c ServiceDef" where
  "svc_homepage =
     (trait_defaults ''Homepage'' ''A self-hosted dashboard for your homelab'' SC_Dashboard
       (EndpointP Http3000 ''/site.webmanifest'' ''Homepage'' None))\<lparr>def_logo_url := ''https://cdn.jsdelivr.net/gh/homarr-labs/dashboard-icons/webp/homepage.webp''\<rparr>"

definition svc_jump :: "'c ServiceDef" where
  "svc_jump =
     (trait_defaults ''Jump'' ''A self-hosted startpage and real-time status page'' SC_Dashboard
       (EndpointP (new_tcp 8123) ''/'' ''Jump'' None))"

definition svc_linkstack :: "'c ServiceDef" where
  "svc_linkstack =
     (trait_defaults ''LinkStack'' ''A highly customizable link sharing platform'' SC_Dashboard
       (AllOf [HeaderP None ''set-cookie'' ''linkstack_session'' None,
               EndpointP Http8080 ''/'' ''LinkStack'' None]))\<lparr>def_logo_url := ''https://cdn.jsdelivr.net/gh/homarr-labs/dashboard-icons/svg/linkstack.svg''\<rparr>"

definition svc_proxmox_datacenter_manager :: "'c ServiceDef" where
  "svc_proxmox_datacenter_manager =
     (trait_defaults ''Proxmox Datacenter Manager'' ''A single pane of glass for managing clustered & non-clustered Proxmox nodes'' SC_Dashboard
       (EndpointP Https8443 ''/'' ''pdm-ui_bundle.js'' None))\<lparr>def_logo_url := ''https://cdn.jsdelivr.net/gh/homarr-labs/dashboard-icons/svg/proxmox.svg''\<rparr>"

definition svc_apc :: "'c ServiceDef" where
  "svc_apc =
     (trait_defaults ''APC'' ''APC Network-Connected UPS'' SC_Monitoring
       (EndpointP Http ''/'' ''Schneider Electric'' None))\<lparr>def_logo_url := ''https://cdn.jsdelivr.net/gh/homarr-labs/dashboard-icons/svg/apc.svg''\<rparr>"

definition svc_beszel_agent :: "'c ServiceDef" where
  "svc_beszel_agent =
     (trait_defaults ''Beszel Agent'' ''Lightweight server monitoring agent'' SC_Monitoring
       (PortP (new_tcp 45876)))\<lparr>def_logo_url := ''https://cdn.jsdelivr.net/gh/homarr-labs/dashboard-icons/svg/beszel.svg''\<rparr>"

definition svc_cadvisor :: "'c ServiceDef" where
  "svc_cadvisor =
     (trait_defaults ''cAdvisor'' ''Monitoring for container'' SC_Monitoring
       (EndpointP Http8080 ''/api/v1.0/containers/'' ''cAdvisor'' None))\<lparr>def_logo_url := ''https://cdn.jsdelivr.net/gh/homarr-labs/dashboard-icons/png/cadvisor.png''\<rparr>"

definition svc_checkmk_agent :: "'c ServiceDef" where
  "svc_checkmk_agent =
     (trait_defaults ''CheckMK Agent'' ''Monitoring agent for CheckMK server'' SC_Monitoring
       (PortP (new_tcp 6556)))\<lparr>def_logo_url := ''https://cdn.jsdelivr.net/gh/homarr-labs/dashboard-icons/svg/checkmk.svg''\<rparr>"

definition svc_coolercontrol :: "'c ServiceDef" where
  "svc_coolercontrol =
     (trait_defaults ''CoolerControl'' ''Monitor temperatures, fan speeds, and power in real time.'' SC_Monitoring
       (EndpointP (new_tcp 11987) ''/'' ''CoolerControl'' None))\<lparr>def_logo_url := ''https://cdn.jsdelivr.net/gh/homarr-labs/dashboard-icons/svg/cooler-control.svg''\<rparr>"

definition svc_elastic_apm :: "'c ServiceDef" where
  "svc_elastic_apm =
     (trait_defaults ''Elastic APM'' ''Application performance monitoring'' SC_Monitoring
       (EndpointP (new_tcp 8200) ''/'' ''apm'' None))\<lparr>def_logo_url := ''https://cdn.jsdelivr.net/gh/homarr-labs/dashboard-icons/svg/elastic.svg''\<rparr>"

definition svc_gatus :: "'c ServiceDef" where
  "svc_gatus =
     (trait_defaults ''Gatus'' ''Automated developer-oriented status page'' SC_Monitoring
       (EndpointP Http8080 ''/manifest.json'' ''Gatus'' None))\<lparr>def_logo_url := ''https://cdn.jsdelivr.net/gh/homarr-labs/dashboard-icons/svg/gatus.svg''\<rparr>"

definition svc_glances :: "'c ServiceDef" where
  "svc_glances =
     (trait_defaults ''Glances'' ''An open-source system cross-platform monitoring tool.'' SC_Monitoring
       (EndpointP (new_tcp 61208) ''/'' ''Glances'' None))\<lparr>def_logo_url := ''https://cdn.jsdelivr.net/gh/homarr-labs/dashboard-icons/svg/glances.svg''\<rparr>"

definition svc_grafana :: "'c ServiceDef" where
  "svc_grafana =
     (trait_defaults ''Grafana'' ''Analytics and monitoring visualization platform'' SC_Monitoring
       (EndpointP Http ''/'' ''grafana.com'' None))\<lparr>def_logo_url := ''https://cdn.jsdelivr.net/gh/homarr-labs/dashboard-icons/svg/grafana.svg''\<rparr>"

definition svc_graylog :: "'c ServiceDef" where
  "svc_graylog =
     (trait_defaults ''Graylog'' ''Security Information and Event Management (SIEM) solution and log analytics platform'' SC_Monitoring
       (AllOf [HeaderP None ''content-security-policy'' ''graylog'' None,
               EndpointP Http9000 ''/'' ''Graylog'' None]))\<lparr>def_logo_url := ''https://cdn.jsdelivr.net/gh/homarr-labs/dashboard-icons/svg/graylog.svg''\<rparr>"

definition svc_icinga :: "'c ServiceDef" where
  "svc_icinga =
     (trait_defaults ''Icinga'' ''Infrastructure monitoring'' SC_Monitoring
       (EndpointP (new_tcp 5665) ''/v1'' ''icinga'' None))\<lparr>def_logo_url := ''https://cdn.jsdelivr.net/gh/homarr-labs/dashboard-icons/svg/icinga.svg'',
         def_logo_white := True\<rparr>"

definition svc_jaeger :: "'c ServiceDef" where
  "svc_jaeger =
     (trait_defaults ''Jaeger'' ''Distributed tracing system'' SC_Monitoring
       (EndpointP (new_tcp 16686) ''/'' ''jaeger'' None))\<lparr>def_is_generic := True,
         def_logo_url := ''https://cdn.jsdelivr.net/gh/homarr-labs/dashboard-icons/svg/jaeger.svg''\<rparr>"

definition svc_loki :: "'c ServiceDef" where
  "svc_loki =
     (trait_defaults ''Loki'' ''Log aggregation system inspired by Prometheus'' SC_Monitoring
       (AnyOf [EndpointP (new_tcp 3100) ''/metrics'' ''loki_build_info'' None]))\<lparr>def_logo_url := ''https://cdn.jsdelivr.net/gh/homarr-labs/dashboard-icons/svg/loki.svg''\<rparr>"

definition svc_nagios :: "'c ServiceDef" where
  "svc_nagios =
     (trait_defaults ''Nagios'' ''Infrastructure monitoring'' SC_Monitoring
       (EndpointP Http ''/nagios'' ''nagios'' None))\<lparr>def_is_generic := True,
         def_logo_url := ''https://cdn.jsdelivr.net/gh/homarr-labs/dashboard-icons/svg/nagios.svg''\<rparr>"

definition svc_ncpa_agent :: "'c ServiceDef" where
  "svc_ncpa_agent =
     (trait_defaults ''NCPA Agent'' ''Nagios Cross-Platform Agent for monitoring'' SC_Monitoring
       (EndpointP (new_tcp 5693) ''/'' ''NCPA'' None))\<lparr>def_logo_url := ''https://cdn.jsdelivr.net/gh/homarr-labs/dashboard-icons/svg/nagios.svg''\<rparr>"

definition svc_netdata :: "'c ServiceDef" where
  "svc_netdata =
     (trait_defaults ''Netdata'' ''Real-time performance monitoring'' SC_Monitoring
       (EndpointP (new_tcp 19999) ''/api/v1/info'' ''netdata'' None))\<lparr>def_is_generic := True,
         def_logo_url := ''https://cdn.jsdelivr.net/gh/homarr-labs/dashboard-icons/svg/netdata.svg''\<rparr>"

definition svc_nvidia_gpu_exporter :: "'c ServiceDef" where
  "svc_nvidia_gpu_exporter =
     (trait_defaults ''Nvidia GPU Exporter'' ''Prometheus exporter for Nvidia GPU metrics'' SC_Monitoring
       (EndpointP (new_tcp 9835) ''/metrics'' ''nvidia_gpu_exporter'' None))\<lparr>def_logo_url := ''https://cdn.jsdelivr.net/gh/homarr-labs/dashboard-icons/svg/nvidia.svg''\<rparr>"

definition svc_openspeedtest :: "'c ServiceDef" where
  "svc_openspeedtest =
     (trait_defaults ''OpenSpeedTest'' ''Self-hosted network speed test application'' SC_Monitoring
       (AnyOf [EndpointP Http3000 ''/'' ''OpenSpeedTest-Server'' None,
               EndpointP (new_tcp 3001) ''/'' ''OpenSpeedTest-Server'' None]))\<lparr>def_logo_url := ''https://cdn.jsdelivr.net/gh/homarr-labs/dashboard-icons/svg/openspeedtest.svg''\<rparr>"

definition svc_prometheus :: "'c ServiceDef" where
  "svc_prometheus =
     (trait_defaults ''Prometheus'' ''Time-series monitoring and alerting system'' SC_Monitoring
       (AnyOf [EndpointP Http ''/metrics'' ''Prometheus'' None,
               EndpointP Http ''/graph'' ''Prometheus'' None]))\<lparr>def_logo_url := ''https://cdn.jsdelivr.net/gh/homarr-labs/dashboard-icons/svg/prometheus.svg''\<rparr>"

definition svc_prometheus_node_exporter :: "'c ServiceDef" where
  "svc_prometheus_node_exporter =
     (trait_defaults ''Prometheus Node Exporter'' ''Prometheus exporter for hardware and OS metrics'' SC_Monitoring
       (EndpointP JetDirect ''/metrics'' ''node_exporter'' None))\<lparr>def_logo_url := ''https://cdn.jsdelivr.net/gh/homarr-labs/dashboard-icons/svg/prometheus.svg''\<rparr>"

definition svc_promtail :: "'c ServiceDef" where
  "svc_promtail =
     (trait_defaults ''Promtail'' ''Agent which ships logs to Grafana Loki'' SC_Monitoring
       (AnyOf [EndpointP (new_tcp 9080) ''/metrics'' ''promtail_build_info'' None,
               EndpointP (new_tcp 9080) ''/targets'' ''Promtail'' None]))\<lparr>def_logo_url := ''https://cdn.jsdelivr.net/gh/homarr-labs/dashboard-icons/svg/loki.svg''\<rparr>"

definition svc_pulse :: "'c ServiceDef" where
  "svc_pulse =
     (trait_defaults ''Pulse'' ''Proxmox node/cluster/VM/LXC monitor'' SC_Monitoring
       (EndpointP (new_tcp 7655) ''/'' ''Pulse'' None))\<lparr>def_logo_url := ''https://cdn.jsdelivr.net/gh/homarr-labs/dashboard-icons/svg/pulse.svg''\<rparr>"

definition svc_sensu :: "'c ServiceDef" where
  "svc_sensu =
     (trait_defaults ''Sensu'' ''Monitoring framework'' SC_Monitoring
       (EndpointP (new_tcp 4567) ''/health'' ''sensu'' None))\<lparr>def_is_generic := True,
         def_logo_url := ''https://cdn.jsdelivr.net/gh/homarr-labs/dashboard-icons/svg/sensu.svg''\<rparr>"

definition svc_sentry :: "'c ServiceDef" where
  "svc_sentry =
     (trait_defaults ''Sentry'' ''Error tracking platform'' SC_Monitoring
       (EndpointP Http9000 ''/api/0/'' ''sentry'' None))\<lparr>def_logo_url := ''https://cdn.jsdelivr.net/gh/homarr-labs/dashboard-icons/svg/sentry.svg'',
         def_logo_white := True\<rparr>"

definition svc_splunk :: "'c ServiceDef" where
  "svc_splunk =
     (trait_defaults ''Splunk'' ''Data analytics platform'' SC_Monitoring
       (EndpointP (new_tcp 8000) ''/'' ''splunk'' None))\<lparr>def_logo_url := ''https://cdn.jsdelivr.net/gh/homarr-labs/dashboard-icons/svg/splunk.svg''\<rparr>"

definition svc_uptime_kuma :: "'c ServiceDef" where
  "svc_uptime_kuma =
     (trait_defaults ''UptimeKuma'' ''Self-hosted uptime monitoring tool'' SC_Monitoring
       (EndpointP Http ''/'' ''Uptime Kuma'' None))\<lparr>def_logo_url := ''https://cdn.jsdelivr.net/gh/homarr-labs/dashboard-icons/svg/uptime-kuma.svg''\<rparr>"

definition svc_wazuh :: "'c ServiceDef" where
  "svc_wazuh =
     (trait_defaults ''Wazuh'' ''Security platform'' SC_Monitoring
       (EndpointP (new_tcp 55000) ''/'' ''wazuh'' None))\<lparr>def_logo_url := ''https://cdn.jsdelivr.net/gh/homarr-labs/dashboard-icons/svg/wazuh.svg''\<rparr>"

definition svc_zabbix :: "'c ServiceDef" where
  "svc_zabbix =
     (trait_defaults ''Zabbix'' ''Enterprise monitoring solution'' SC_Monitoring
       (EndpointP Http ''/zabbix'' ''zabbix'' None))\<lparr>def_logo_url := ''https://cdn.jsdelivr.net/gh/homarr-labs/dashboard-icons/svg/zabbix.svg''\<rparr>"

definition svc_zabbix_agent :: "'c ServiceDef" where
  "svc_zabbix_agent =
     (trait_defaults ''Zabbix Agent'' ''Monitoring agent for Zabbix server'' SC_Monitoring
       (PortP (new_tcp 10050)))\<lparr>def_logo_url := ''https://cdn.jsdelivr.net/gh/homarr-labs/dashboard-icons/svg/zabbix.svg''\<rparr>"

definition svc_zipkin :: "'c ServiceDef" where
  "svc_zipkin =
     (trait_defaults ''Zipkin'' ''Distributed tracing system'' SC_Monitoring
       (EndpointP (new_tcp 9411) ''/api/v2/services'' '''' None))"

definition svc_asterisk :: "'c ServiceDef" where
  "svc_asterisk =
     (trait_defaults ''Asterisk'' ''PBX and VoIP server'' SC_Telephony
       (EndpointP (new_tcp 8088) ''/httpstatus'' ''asterisk'' None))\<lparr>def_logo_url := ''https://cdn.jsdelivr.net/gh/homarr-labs/dashboard-icons/png/asterisk.png''\<rparr>"

definition svc_bigbluebutton :: "'c ServiceDef" where
  "svc_bigbluebutton =
     (trait_defaults ''BigBlueButton'' ''Web conferencing system'' SC_Conferencing
       (EndpointP Http ''/bigbluebutton/api'' '''' (Some (200, 300))))\<lparr>def_logo_url := ''https://simpleicons.org/icons/bigbluebutton.svg''\<rparr>"

definition svc_freepbx :: "'c ServiceDef" where
  "svc_freepbx =
     (trait_defaults ''FreePBX'' ''PBX web interface'' SC_Telephony
       (AllOf [EndpointP Http ''/'' ''freepbx'' None, PortP Sip]))\<lparr>def_logo_url := ''https://cdn.jsdelivr.net/gh/homarr-labs/dashboard-icons/svg/freepbx.svg''\<rparr>"

definition svc_jitsi_meet :: "'c ServiceDef" where
  "svc_jitsi_meet =
     (trait_defaults ''Jitsi Meet'' ''Video conferencing'' SC_Conferencing
       (EndpointP Https8443 ''/'' ''jitsilogo.png'' None))\<lparr>def_logo_url := ''https://cdn.jsdelivr.net/gh/homarr-labs/dashboard-icons/svg/jitsi-meet.svg''\<rparr>"

definition svc_mailcow :: "'c ServiceDef" where
  "svc_mailcow =
     (trait_defaults ''mailcow'' ''Open-source mail server suite (Dockerized)'' SC_Email
       (EndpointP Https ''/api/v1/get/status'' ''mailcow'' None))\<lparr>def_logo_url := ''https://cdn.jsdelivr.net/gh/homarr-labs/dashboard-icons/svg/mailcow.svg''\<rparr>"

definition svc_sip_server :: "'c ServiceDef" where
  "svc_sip_server =
     (trait_defaults ''SIP Server'' ''Session initiation protocol'' SC_Telephony
       (AnyOf [PortP Sip, PortP SipTls]))\<lparr>def_is_generic := True\<rparr>"

definition defs_apps2 :: "'c ServiceDef list" where
  "defs_apps2 =
     [svc_kerberos, svc_keycloak, svc_ldap, svc_vault, svc_vaultwarden, svc_glance_app,
      svc_homarr, svc_homepage, svc_jump, svc_linkstack, svc_proxmox_datacenter_manager,
      svc_apc, svc_beszel_agent, svc_cadvisor, svc_checkmk_agent, svc_coolercontrol,
      svc_elastic_apm, svc_gatus, svc_glances, svc_grafana, svc_graylog, svc_icinga,
      svc_jaeger, svc_loki, svc_nagios, svc_ncpa_agent, svc_netdata, svc_nvidia_gpu_exporter,
      svc_openspeedtest, svc_prometheus, svc_prometheus_node_exporter, svc_promtail,
      svc_pulse, svc_sensu, svc_sentry, svc_splunk, svc_uptime_kuma, svc_wazuh, svc_zabbix,
      svc_zabbix_agent, svc_zipkin, svc_asterisk, svc_bigbluebutton, svc_freepbx,
      svc_jitsi_meet, svc_mailcow, svc_sip_server]"

lemmas defs_apps2_defs =
  svc_kerberos_def svc_keycloak_def svc_ldap_def svc_vault_def svc_vaultwarden_def
  svc_glance_app_def svc_homarr_def svc_homepage_def svc_jump_def svc_linkstack_def
  svc_proxmox_datacenter_manager_def svc_apc_def svc_beszel_agent_def svc_cadvisor_def
  svc_checkmk_agent_def svc_coolercontrol_def svc_elastic_apm_def svc_gatus_def
  svc_glances_def svc_grafana_def svc_graylog_def svc_icinga_def svc_jaeger_def
  svc_loki_def svc_nagios_def svc_ncpa_agent_def svc_netdata_def
  svc_nvidia_gpu_exporter_def svc_openspeedtest_def svc_prometheus_def
  svc_prometheus_node_exporter_def svc_promtail_def svc_pulse_def svc_sensu_def
  svc_sentry_def svc_splunk_def svc_uptime_kuma_def svc_wazuh_def svc_zabbix_def
  svc_zabbix_agent_def svc_zipkin_def svc_asterisk_def svc_bigbluebutton_def
  svc_freepbx_def svc_jitsi_meet_def svc_mailcow_def svc_sip_server_def

end
