(* ===== verification/Definitions_Devices.thy ===== *)
theory Definitions_Devices
  imports Service_Discovery
begin

text \<open>
  Service definitions (\<open>server/services/definitions/*.rs\<close>): end devices, dashboards and utilities, and the special definitions.
  One definition per file, named after it, in the order of \<open>mod.rs\<close>.
\<close>

definition svc_workstation :: "'c ServiceDef" where
  "svc_workstation =
     (trait_defaults ''Workstation'' ''Desktop computer for productivity work'' SC_Workstation
       (AllOf [PortP Rdp, PortP Samba]))\<lparr>def_is_generic := True\<rparr>"

definition svc_client :: "'c ServiceDef" where
  "svc_client =
     (trait_defaults ''Client'' ''A generic client device that initiates connections to services'' SC_Mobile
       (NoPattern))"

definition svc_amazon_echo :: "'c ServiceDef" where
  "svc_amazon_echo =
     (trait_defaults ''Amazon Echo'' ''Amazon Echo smart speaker'' SC_IoT
       (AllOf [MacVendor ''Amazon Technologies Inc.'', PortP (new_tcp 40317)]))\<lparr>def_logo_url := ''https://cdn.jsdelivr.net/gh/homarr-labs/dashboard-icons/svg/alexa.svg''\<rparr>"

definition svc_bacnet :: "'c ServiceDef" where
  "svc_bacnet =
     (trait_defaults ''BACnet'' ''Building automation and control network protocol'' SC_IoT
       (PortP BACnet))\<lparr>def_is_generic := True\<rparr>"

definition svc_camera :: "'c ServiceDef" where
  "svc_camera =
     (trait_defaults ''RTSP Camera'' ''Camera with RTSP Streaming'' SC_IoT
       (PortP Rtsp))\<lparr>def_is_generic := True\<rparr>"

definition svc_chromecast :: "'c ServiceDef" where
  "svc_chromecast =
     (trait_defaults ''Chromecast'' ''Google Chromecast streaming device'' SC_IoT
       (AllOf [MacVendor ''Google, Inc.'', PortP (new_tcp 8008), PortP (new_tcp 8009)]))\<lparr>def_logo_url := ''https://simpleicons.org/icons/googlecast.svg'',
         def_logo_white := True\<rparr>"

definition svc_frigate :: "'c ServiceDef" where
  "svc_frigate =
     (trait_defaults ''Frigate'' ''NVR with realtime object detection for IP Cameras'' SC_IoT
       (AnyOf [EndpointP Https ''/'' ''<title>Frigate</title>'' None,
               EndpointP Http5000 ''/'' ''<title>Frigate</title>'' None]))\<lparr>def_logo_url := ''https://cdn.jsdelivr.net/gh/homarr-labs/dashboard-icons/svg/frigate.svg''\<rparr>"

definition svc_google_home :: "'c ServiceDef" where
  "svc_google_home =
     (trait_defaults ''Google Home'' ''Google Home smart speaker or display'' SC_IoT
       (AllOf [AnyOf [MacVendor ''Nest Labs Inc.'', MacVendor ''Google, Inc.''],
               AllOf [PortP (new_tcp 8008), PortP (new_tcp 8009)]]))\<lparr>def_logo_url := ''https://cdn.jsdelivr.net/gh/homarr-labs/dashboard-icons/svg/google-home.svg''\<rparr>"

definition svc_iot :: "'c ServiceDef" where
  "svc_iot =
     (trait_defaults ''IoT'' ''A generic IoT Service'' SC_IoT
       (NoPattern))\<lparr>def_is_generic := True\<rparr>"

definition svc_nest_protect :: "'c ServiceDef" where
  "svc_nest_protect =
     (trait_defaults ''Nest Protect'' ''Google Nest smoke and CO detector'' SC_IoT
       (AllOf [AnyOf [MacVendor ''Nest Labs Inc.'', MacVendor ''Google, Inc.''],
               PortP (new_tcp 11095)]))\<lparr>def_logo_url := ''https://cdn.jsdelivr.net/gh/homarr-labs/dashboard-icons/svg/google-home.svg''\<rparr>"

definition svc_nest_thermostat :: "'c ServiceDef" where
  "svc_nest_thermostat =
     (trait_defaults ''Nest Thermostat'' ''Google Nest smart thermostat'' SC_IoT
       (AllOf [AnyOf [MacVendor ''Nest Labs Inc.'', MacVendor ''Google, Inc.''],
               PortP (new_tcp 9543)]))\<lparr>def_logo_url := ''https://cdn.jsdelivr.net/gh/homarr-labs/dashboard-icons/svg/google-home.svg''\<rparr>"

definition svc_ring_doorbell :: "'c ServiceDef" where
  "svc_ring_doorbell =
     (trait_defaults ''Ring Doorbell'' ''Ring video doorbell or security camera'' SC_IoT
       (AllOf [MacVendor ''Amazon Technologies Inc.'',
               AnyOf [PortP (new_tcp 8557),
                      PortP (new_tcp 9998),
                      PortP (new_tcp 19302),
                      PortP (new_tcp 9999)]]))\<lparr>def_logo_url := ''https://simpleicons.org/icons/ring.svg'',
         def_logo_white := True\<rparr>"

definition svc_roborock_vacuum :: "'c ServiceDef" where
  "svc_roborock_vacuum =
     (trait_defaults ''Roborock Vacuum'' ''Roborock robot vacuum cleaner'' SC_IoT
       (AllOf [MacVendor ''Beijing Roborock Technology Co., Ltd.'',
               PortP (new_tcp 58867)]))\<lparr>def_logo_url := ''https://cdn.prod.website-files.com/6720fa7290112f642d0a83ac/674de5c03f0d05e27b16b2cf_roborock_logo.webp''\<rparr>"

definition svc_roku :: "'c ServiceDef" where
  "svc_roku =
     (trait_defaults ''Roku Media Player'' ''Roku streaming device or TV'' SC_IoT
       (AllOf [MacVendor ''Roku, Inc'', PortP (new_tcp 8060)]))\<lparr>def_logo_url := ''https://simpleicons.org/icons/roku.svg'',
         def_logo_white := True\<rparr>"

definition svc_sonos_speaker :: "'c ServiceDef" where
  "svc_sonos_speaker =
     (trait_defaults ''Sonos Speaker'' ''Sonos wireless speaker system'' SC_IoT
       (AllOf [MacVendor ''Sonos, Inc.'',
               AnyOf [PortP Samba,
                      PortP (new_tcp 3445),
                      PortP (new_tcp 1400),
                      PortP (new_tcp 1410),
                      PortP (new_tcp 1843),
                      PortP (new_tcp 3400),
                      PortP (new_tcp 3401),
                      PortP (new_tcp 3500)]]))\<lparr>def_logo_url := ''https://simpleicons.org/icons/sonos.svg'',
         def_logo_white := True\<rparr>"

definition svc_tasmota :: "'c ServiceDef" where
  "svc_tasmota =
     (trait_defaults ''Tasmota'' ''ESP device firmware'' SC_IoT
       (NoPattern))\<lparr>def_logo_url := ''https://cdn.jsdelivr.net/gh/homarr-labs/dashboard-icons/svg/tasmota.svg'',
         def_logo_white := True\<rparr>"

definition svc_cups :: "'c ServiceDef" where
  "svc_cups =
     (trait_defaults ''CUPS'' ''Common Unix Printing System'' SC_Printer
       (AllOf [PortP Ipp, EndpointP Http ''/'' ''CUPS'' None]))\<lparr>def_logo_url := ''https://cdn.jsdelivr.net/gh/homarr-labs/dashboard-icons/svg/cups.svg'',
         def_logo_white := True\<rparr>"

definition svc_hp_printer :: "'c ServiceDef" where
  "svc_hp_printer =
     (trait_defaults ''HP Printer'' ''An HP Printer'' SC_Printer
       (AllOf [AnyOf [EndpointP Http '''' ''LaserJet'' None,
                      EndpointP Http '''' ''DeskJet'' None,
                      EndpointP Http '''' ''OfficeJet'' None,
                      EndpointP Http8080 '''' ''LaserJet'' None,
                      EndpointP Http8080 '''' ''DeskJet'' None,
                      EndpointP Http8080 '''' ''OfficeJet'' None],
               AnyOf [PortP Ipp, PortP LdpTcp, PortP LdpUdp]]))\<lparr>def_logo_url := ''https://cdn.jsdelivr.net/gh/homarr-labs/dashboard-icons/svg/hp.svg'',
         def_logo_white := True\<rparr>"

definition svc_jetdirect :: "'c ServiceDef" where
  "svc_jetdirect =
     (trait_defaults ''JetDirect'' ''HP JetDirect RAW printing protocol'' SC_Printer
       (PortP JetDirect))\<lparr>def_is_generic := True\<rparr>"

definition svc_print_server :: "'c ServiceDef" where
  "svc_print_server =
     (trait_defaults ''Print Server'' ''A generic printing service'' SC_Printer
       (AnyOf [PortP Ipp, PortP LdpTcp, PortP LdpUdp]))\<lparr>def_is_generic := True\<rparr>"

definition svc_actual_budget :: "'c ServiceDef" where
  "svc_actual_budget =
     (trait_defaults ''Actual Budget'' ''A local-first personal finance app'' SC_Office
       (EndpointP (new_tcp 5006) ''/manifest.webmanifest'' ''@actual-app/web'' None))\<lparr>def_logo_url := ''https://cdn.jsdelivr.net/gh/homarr-labs/dashboard-icons/svg/actual-budget.svg''\<rparr>"

definition svc_autobrr :: "'c ServiceDef" where
  "svc_autobrr =
     (trait_defaults ''Autobrr'' ''The modern autodl-irssi replacement.'' SC_Media
       (PortP (new_tcp 7474)))\<lparr>def_logo_url := ''https://cdn.jsdelivr.net/gh/homarr-labs/dashboard-icons/svg/autobrr.svg''\<rparr>"

definition svc_backrest :: "'c ServiceDef" where
  "svc_backrest =
     (trait_defaults ''BackRest'' ''Web UI and orchestrator for Restic'' SC_Backup
       (EndpointP (new_tcp 9898) ''/'' ''BackRest'' None))\<lparr>def_logo_url := ''https://cdn.jsdelivr.net/gh/homarr-labs/dashboard-icons/svg/backrest-light.svg''\<rparr>"

definition svc_cleanuparr :: "'c ServiceDef" where
  "svc_cleanuparr =
     (trait_defaults ''Cleanuparr'' ''Torrent cleanup tool for Sonarr and Radarr'' SC_Media
       (PortP (new_tcp 11011)))\<lparr>def_logo_url := ''https://cdn.jsdelivr.net/gh/homarr-labs/dashboard-icons/svg/cleanuperr.svg''\<rparr>"

definition svc_freshrss :: "'c ServiceDef" where
  "svc_freshrss =
     (trait_defaults ''FreshRSS'' ''A free, self-hostable news aggregator'' SC_Publishing
       (EndpointP Http ''/themes/manifest.json'' ''FreshRSS feed aggregator'' None))\<lparr>def_logo_url := ''https://cdn.jsdelivr.net/gh/homarr-labs/dashboard-icons/svg/freshrss.svg''\<rparr>"

definition svc_grocy :: "'c ServiceDef" where
  "svc_grocy =
     (trait_defaults ''Grocy'' ''Web-based self-hosted groceries & household management solution'' SC_HomeAutomation
       (AnyOf [EndpointP Http ''/'' ''grocy.css'' None,
               EndpointP Https ''/'' ''grocy.css'' None]))\<lparr>def_logo_url := ''https://cdn.jsdelivr.net/gh/homarr-labs/dashboard-icons/svg/grocy.svg''\<rparr>"

definition svc_huntarr :: "'c ServiceDef" where
  "svc_huntarr =
     (trait_defaults ''Huntarr'' ''Finds missing media and upgrades your existing content.'' SC_Media
       (PortP (new_tcp 9705)))\<lparr>def_logo_url := ''https://cdn.jsdelivr.net/gh/homarr-labs/dashboard-icons/png/huntarr.png''\<rparr>"

definition svc_jotty :: "'c ServiceDef" where
  "svc_jotty =
     (trait_defaults ''Jotty'' ''A simple, self-hosted app for your checklists and notes'' SC_Office
       (EndpointP Http3000 ''/site.webmanifest'' ''jotty'' None))\<lparr>def_logo_url := ''https://cdn.jsdelivr.net/gh/homarr-labs/dashboard-icons/svg/jotty.svg''\<rparr>"

definition svc_karakeep :: "'c ServiceDef" where
  "svc_karakeep =
     (trait_defaults ''Karakeep'' ''The Bookmark Everything App'' SC_Media
       (EndpointP Http3000 ''/manifest.json'' ''Karakeep'' None))\<lparr>def_logo_url := ''https://cdn.jsdelivr.net/gh/homarr-labs/dashboard-icons/svg/karakeep.svg''\<rparr>"

definition svc_lidarr :: "'c ServiceDef" where
  "svc_lidarr =
     (trait_defaults ''Lidarr'' ''A music collection manager for Usenet and BitTorrent users.'' SC_Media
       (EndpointP (new_tcp 8686) ''/Content/manifest.json'' ''Lidarr'' None))\<lparr>def_logo_url := ''https://cdn.jsdelivr.net/gh/homarr-labs/dashboard-icons/svg/lidarr.svg''\<rparr>"

definition svc_lubelogger :: "'c ServiceDef" where
  "svc_lubelogger =
     (trait_defaults ''Lubelogger'' ''Vehicle Maintenance Records and Fuel Mileage Tracker'' SC_HomeAutomation
       (EndpointP Http8080 ''/'' ''Garage - LubeLogger'' None))\<lparr>def_logo_url := ''https://cdn.jsdelivr.net/gh/homarr-labs/dashboard-icons/png/lubelogger.png''\<rparr>"

definition svc_me_tube :: "'c ServiceDef" where
  "svc_me_tube =
     (trait_defaults ''MeTube'' ''Self-hosted YouTube downloader'' SC_Media
       (EndpointP Http8081 ''/manifest.webmanifest'' ''MeTube'' None))\<lparr>def_logo_url := ''https://cdn.jsdelivr.net/gh/homarr-labs/dashboard-icons/svg/metube.svg''\<rparr>"

definition svc_mealie :: "'c ServiceDef" where
  "svc_mealie =
     (trait_defaults ''Mealie'' ''A self-hosted recipe manager and meal planner'' SC_HomeAutomation
       (AllOf [EndpointP Http9000 ''/'' ''Mealie'' None,
               EndpointP Http9000 ''/'' ''recipe'' None]))\<lparr>def_logo_url := ''https://cdn.jsdelivr.net/gh/homarr-labs/dashboard-icons/svg/mealie.svg''\<rparr>"

definition svc_memos :: "'c ServiceDef" where
  "svc_memos =
     (trait_defaults ''Memos'' ''An open-source, self-hosted note-taking service.'' SC_Office
       (EndpointP (new_tcp 5230) ''/explore'' ''Memos'' None))\<lparr>def_logo_url := ''https://cdn.jsdelivr.net/gh/homarr-labs/dashboard-icons/png/memos.png''\<rparr>"

definition svc_netbootxyz :: "'c ServiceDef" where
  "svc_netbootxyz =
     (trait_defaults ''Netbootxyz'' ''PXE Boot Server'' SC_Storage
       (EndpointP (new_tcp 61208) ''/'' ''Netbootxyz'' None))\<lparr>def_logo_url := ''https://cdn.jsdelivr.net/gh/homarr-labs/dashboard-icons/svg/netbootxyz.svg''\<rparr>"

definition svc_nut :: "'c ServiceDef" where
  "svc_nut =
     (trait_defaults ''NUT'' ''Network UPS Tools'' SC_Monitoring
       (PortP (new_tcp 3493)))\<lparr>def_logo_url := ''https://cdn.jsdelivr.net/gh/homarr-labs/dashboard-icons/svg/nut.svg''\<rparr>"

definition svc_ollama :: "'c ServiceDef" where
  "svc_ollama =
     (trait_defaults ''Ollama'' ''An easy way to get up and running with LLMs.'' SC_Development
       (EndpointP (new_tcp 11434) ''/'' ''Ollama is running'' None))\<lparr>def_logo_url := ''https://cdn.jsdelivr.net/gh/homarr-labs/dashboard-icons/svg/ollama-dark.svg''\<rparr>"

definition svc_open_webui :: "'c ServiceDef" where
  "svc_open_webui =
     (trait_defaults ''Open WebUI'' ''Open, extensible, user-friendly interface for AI'' SC_Development
       (EndpointP Http8080 ''/manifest.json'' ''Open WebUI'' None))\<lparr>def_logo_url := ''https://cdn.jsdelivr.net/gh/homarr-labs/dashboard-icons/svg/open-webui-light.svg''\<rparr>"

definition svc_paperless_ngx :: "'c ServiceDef" where
  "svc_paperless_ngx =
     (trait_defaults ''Paperless-NGX'' ''Community-supported document management system'' SC_Office
       (EndpointP (new_tcp 8000) ''/static/frontend/en-US/manifest.webmanifest'' ''Paperless-ngx'' None))\<lparr>def_logo_url := ''https://cdn.jsdelivr.net/gh/homarr-labs/dashboard-icons/svg/paperless-ngx.svg'',
         def_logo_white := True\<rparr>"

definition svc_peanut :: "'c ServiceDef" where
  "svc_peanut =
     (trait_defaults ''PeaNUT'' ''A tiny dashboard for Network UPS Tools'' SC_Monitoring
       (EndpointP Http8080 ''/api/v1/info'' ''peanut'' None))\<lparr>def_logo_url := ''https://cdn.jsdelivr.net/gh/homarr-labs/dashboard-icons/svg/peanut.svg''\<rparr>"

definition svc_pocket_id :: "'c ServiceDef" where
  "svc_pocket_id =
     (trait_defaults ''Pocket ID'' ''A Simple OIDC provider that uses passkeys for authentication'' SC_IdentityAndAccess
       (EndpointP (new_tcp 1411) ''/app.webmanifest'' ''Pocket ID'' None))\<lparr>def_logo_url := ''https://cdn.jsdelivr.net/gh/homarr-labs/dashboard-icons/svg/pocket-id-light.svg''\<rparr>"

definition svc_prowlarr :: "'c ServiceDef" where
  "svc_prowlarr =
     (trait_defaults ''Prowlarr'' ''The Ultimate Indexer Manager.'' SC_Media
       (EndpointP (new_tcp 3232) ''/Content/Images/Icons/manifest.json'' ''Prowlarr'' None))\<lparr>def_logo_url := ''https://cdn.jsdelivr.net/gh/homarr-labs/dashboard-icons/svg/prowlarr.svg''\<rparr>"

definition svc_qbittorrent :: "'c ServiceDef" where
  "svc_qbittorrent =
     (trait_defaults ''qBittorrent'' ''Cross-platform open-source BitTorrent client'' SC_Media
       (AnyOf [EndpointP Http8080 ''/'' ''qBittorrent logo'' None,
               EndpointP (new_tcp 8090) ''/'' ''qBittorrent logo'' None]))\<lparr>def_logo_url := ''https://cdn.jsdelivr.net/gh/homarr-labs/dashboard-icons/svg/qbittorrent.svg''\<rparr>"

definition svc_radarr :: "'c ServiceDef" where
  "svc_radarr =
     (trait_defaults ''Radarr'' ''A movie collection manager for Usenet and BitTorrent users.'' SC_Media
       (EndpointP (new_tcp 7878) ''/Content/manifest.json'' ''Radarr'' None))\<lparr>def_logo_url := ''https://cdn.jsdelivr.net/gh/homarr-labs/dashboard-icons/svg/radarr.svg''\<rparr>"

definition svc_sonarr :: "'c ServiceDef" where
  "svc_sonarr =
     (trait_defaults ''Sonarr'' ''A TV collection manager for Usenet and BitTorrent users.'' SC_Media
       (EndpointP (new_tcp 8989) ''/Content/manifest.json'' ''Sonarr'' None))\<lparr>def_logo_url := ''https://cdn.jsdelivr.net/gh/homarr-labs/dashboard-icons/svg/sonarr.svg''\<rparr>"

definition svc_wizarr :: "'c ServiceDef" where
  "svc_wizarr =
     (trait_defaults ''Wizarr'' ''User invitation and management system for Jellyfin, Plex, Emby etc'' SC_Media
       (EndpointP (new_tcp 5690) ''/static/manifest.json'' ''Wizarr'' None))\<lparr>def_logo_url := ''https://cdn.jsdelivr.net/gh/homarr-labs/dashboard-icons/svg/wizarr.svg''\<rparr>"

definition svc_scanopy_daemon :: "'c ServiceDef" where
  "svc_scanopy_daemon =
     (trait_defaults ''Scanopy Daemon'' ''Automatically discover and visually document network infrastructure'' SC_Scanopy
       (EndpointP (new_tcp 60073) ''/api/health'' ''scanopy'' None))\<lparr>def_logo_url := ''https://cdn.jsdelivr.net/gh/scanopy/scanopy@main/media/logo.png''\<rparr>"

definition svc_scanopy_server :: "'c ServiceDef" where
  "svc_scanopy_server =
     (trait_defaults ''Scanopy Server'' ''Automatically discover and visually document network infrastructure'' SC_Scanopy
       (EndpointP (new_tcp 60072) ''/api/health'' ''scanopy'' None))\<lparr>def_logo_url := ''https://cdn.jsdelivr.net/gh/scanopy/scanopy@main/media/logo.png''\<rparr>"

definition defs_devices :: "'c ServiceDef list" where
  "defs_devices =
     [svc_workstation, svc_client, svc_amazon_echo, svc_bacnet, svc_camera, svc_chromecast,
      svc_frigate, svc_google_home, svc_iot, svc_nest_protect, svc_nest_thermostat,
      svc_ring_doorbell, svc_roborock_vacuum, svc_roku, svc_sonos_speaker, svc_tasmota,
      svc_cups, svc_hp_printer, svc_jetdirect, svc_print_server, svc_actual_budget,
      svc_autobrr, svc_backrest, svc_cleanuparr, svc_freshrss, svc_grocy, svc_huntarr,
      svc_jotty, svc_karakeep, svc_lidarr, svc_lubelogger, svc_me_tube, svc_mealie,
      svc_memos, svc_netbootxyz, svc_nut, svc_ollama, svc_open_webui, svc_paperless_ngx,
      svc_peanut, svc_pocket_id, svc_prowlarr, svc_qbittorrent, svc_radarr, svc_sonarr,
      svc_wizarr, svc_open_ports, svc_scanopy_daemon, svc_scanopy_server]"

lemmas defs_devices_defs =
  svc_workstation_def svc_client_def svc_amazon_echo_def svc_bacnet_def svc_camera_def
  svc_chromecast_def svc_frigate_def svc_google_home_def svc_iot_def svc_nest_protect_def
  svc_nest_thermostat_def svc_ring_doorbell_def svc_roborock_vacuum_def svc_roku_def
  svc_sonos_speaker_def svc_tasmota_def svc_cups_def svc_hp_printer_def svc_jetdirect_def
  svc_print_server_def svc_actual_budget_def svc_autobrr_def svc_backrest_def
  svc_cleanuparr_def svc_freshrss_def svc_grocy_def svc_huntarr_def svc_jotty_def
  svc_karakeep_def svc_lidarr_def svc_lubelogger_def svc_me_tube_def svc_mealie_def
  svc_memos_def svc_netbootxyz_def svc_nut_def svc_ollama_def svc_open_webui_def
  svc_paperless_ngx_def svc_peanut_def svc_pocket_id_def svc_prowlarr_def
  svc_qbittorrent_def svc_radarr_def svc_sonarr_def svc_wizarr_def svc_open_ports_def
  svc_scanopy_daemon_def svc_scanopy_server_def

end
