(* ===== verification/Endpoint_Scan.thy ===== *)
theory Endpoint_Scan
  imports Service_Discovery
begin

text \<open>
  Probing the HTTP endpoints of a host (\<open>scan_endpoints\<close> of \<open>daemon/utils/scanner.rs\<close>). The
  HTTP client is an argument: it does not build, or it answers a URL with the status, the
  headers (a value that is not text is \<open>None\<close>) and the body, each of which can fail. The
  batches answer in any order; the model lists the responses in the order of the candidates,
  and what is proved depends on their set only.
\<close>

type_synonym HttpReply = "u16 \<times> (string \<times> string option) list \<times> (string + string)"

type_synonym HttpClient = "string \<Rightarrow> string + HttpReply"

definition endpoint_candidates :: "'c ServiceDef list \<Rightarrow> bool \<Rightarrow> PortType list option \<Rightarrow> Endpoint list" where
  "endpoint_candidates registry probe_raw filter_ports =
     List.map_filter (\<lambda>e.
       if \<not> probe_raw \<and> is_raw_socket (ep_port_type e) then None
       else case filter_ports of
              Some ps \<Rightarrow> (if port_mem (ep_port_type e) ps then Some e else None)
            | None \<Rightarrow> Some e) (all_discovery_endpoints registry)"

definition unique_endpoints :: "Endpoint list \<Rightarrow> (u16 \<times> string, Endpoint) HashMap" where
  \<comment> \<open>\<open>entry(key).or_insert(endpoint)\<close>\<close>
  "unique_endpoints es =
     fold (\<lambda>e m. let key = (number (ep_port_type e), ep_path e) in
             case hget m key of Some _ \<Rightarrow> m | None \<Rightarrow> hinsert key e m) es []"

definition endpoint_urls :: "(u16, bool) HashMap option \<Rightarrow> IpAddr \<Rightarrow> Endpoint \<Rightarrow> string list" where
  "endpoint_urls https_ports ip e =
     (let url = ip_display ip @ '':'' @ show_nat (unat (number (ep_port_type e))) @ ep_path e;
          http_url = ''http://'' @ url; https_url = ''https://'' @ url;
          use_https = (case https_ports of
              Some m \<Rightarrow> (case hget m (number (ep_port_type e)) of Some b \<Rightarrow> b | None \<Rightarrow> False)
            | None \<Rightarrow> False)
      in if https_ports = None then [http_url, https_url]
         else if use_https then [https_url, http_url]
         else [http_url, https_url])"

definition response_headers :: "(string \<times> string option) list \<Rightarrow> (string, string) HashMap" where
  "response_headers hs =
     fold (\<lambda>(h, v) m. case v of Some t \<Rightarrow> hinsert (to_lowercase h) t m | None \<Rightarrow> m) hs []"

fun try_urls :: "HttpClient \<Rightarrow> Endpoint \<Rightarrow> string list \<Rightarrow> EndpointResponse option" where
  "try_urls http e [] = None"
| "try_urls http e (u # us) =
     (case http u of
        Inr (status, hs, Inr body) \<Rightarrow>
          Some \<lparr>er_endpoint = e, er_body = body, er_headers = response_headers hs, er_status = status\<rparr>
      | _ \<Rightarrow> try_urls http e us)"

definition scan_endpoints ::
    "'c ServiceDef list \<Rightarrow> (string + HttpClient) \<Rightarrow> IpAddr \<Rightarrow> PortType list option \<Rightarrow> (u16, bool) HashMap option \<Rightarrow>
     bool \<Rightarrow> string + EndpointResponse list" where
  "scan_endpoints registry client ip filter_ports https_ports probe_raw =
     (case client of
        Inl e \<Rightarrow> Inl (''Could not build client '' @ e)
      | Inr http \<Rightarrow>
          Inr (List.map_filter (\<lambda>e. try_urls http (use_ip e ip) (endpoint_urls https_ports ip e))
                 (hvalues (unique_endpoints (endpoint_candidates registry probe_raw filter_ports)))))"

section \<open>What a scan can answer\<close>

lemma try_urls_endpoint: "try_urls http e us = Some r \<Longrightarrow> er_endpoint r = e"
  by (induction us) (auto split: sum.splits)

lemma hvalues_hinsert: "set (hvalues (hinsert k e m)) \<subseteq> insert e (set (hvalues m))"
  by (induction m) (auto simp: hvalues_def hinsert_def)

lemma unique_endpoints_subset: "set (hvalues (unique_endpoints es)) \<subseteq> set es"
proof -
  let ?f = "\<lambda>e m. let key = (number (ep_port_type e), ep_path e) in
             case hget m key of Some _ \<Rightarrow> m | None \<Rightarrow> hinsert key e m"
  have step: "set (hvalues (?f e m)) \<subseteq> insert e (set (hvalues m))" for e m
    using hvalues_hinsert [of _ e m] by (cases "hget m (number (ep_port_type e), ep_path e)") auto
  have "set (hvalues (fold ?f es m)) \<subseteq> set (hvalues m) \<union> set es" for m
  proof (induction es arbitrary: m)
    case (Cons e es)
    from Cons [of "?f e m"] step [of e m] show ?case by (simp only: fold_simps list.set) blast
  qed simp
  from this [of "[]"] show ?thesis by (simp add: unique_endpoints_def hvalues_def)
qed

lemma set_insert_by [simp]: "set (insert_by le x xs) = insert x (set xs)"
  by (induction xs) auto

lemma set_sort_by [simp]: "set (sort_by le xs) = set xs"
  by (induction xs) (simp_all add: sort_by_def)

lemma all_discovery_endpoints_subset:
  "set (all_discovery_endpoints registry) \<subseteq> (\<Union>d \<in> set registry. set (pattern_endpoints (def_pattern d)))"
  using set_vec_dedup [of endpoint_eq "sort_by endpoint_less_eq (concat (map (\<lambda>d. pattern_endpoints (def_pattern d)) registry))"]
  by (auto simp: all_discovery_endpoints_def)

lemma set_map_filter_Some: "x \<in> set (List.map_filter f xs) \<longleftrightarrow> (\<exists>y \<in> set xs. f y = Some x)"
  by (force simp: List.map_filter_def)

lemma scan_endpoints_origin:
  assumes "scan_endpoints registry client ip fp https raw = Inr rs" "a \<in> set rs"
  shows "\<exists>d \<in> set registry. \<exists>e \<in> set (pattern_endpoints (def_pattern d)). er_endpoint a = use_ip e ip"
proof -
  from assms obtain http where
    "a \<in> set (List.map_filter (\<lambda>e. try_urls http (use_ip e ip) (endpoint_urls https ip e))
       (hvalues (unique_endpoints (endpoint_candidates registry raw fp))))"
    by (auto simp: scan_endpoints_def split: sum.splits)
  then obtain e where "e \<in> set (hvalues (unique_endpoints (endpoint_candidates registry raw fp)))"
    and a: "er_endpoint a = use_ip e ip"
    by (auto simp: set_map_filter_Some dest: try_urls_endpoint)
  then have "e \<in> set (endpoint_candidates registry raw fp)"
    using unique_endpoints_subset by blast
  then have "e \<in> set (all_discovery_endpoints registry)"
    by (auto simp: endpoint_candidates_def set_map_filter_Some split: if_splits option.splits)
  with all_discovery_endpoints_subset a show ?thesis by blast
qed

lemma scan_endpoints_paths:
  assumes "scan_endpoints registry client ip fp https raw = Inr rs" "a \<in> set rs"
  shows "\<exists>d \<in> set registry. ep_path (er_endpoint a) \<in> ep_path ` set (pattern_endpoints (def_pattern d))"
  using scan_endpoints_origin [OF assms] by (force simp: use_ip_def)

end
