(* ===== verification/Service_Table.thy ===== *)
theory Service_Table
  imports Definitions_Network Definitions_Server Definitions_Apps Definitions_Apps2 Definitions_Devices
    Endpoint_Scan Pattern_Claims
begin

text \<open>
  The registry of the program: the definitions of all modules of
  \<open>server/services/definitions/mod.rs\<close>, and facts of the whole table, computed one list at a
  time. The order in which the inventory yields them is not specified, so what is proved is
  about every registry with these members.
\<close>

definition service_table :: "'c ServiceDef list" where
  "service_table = defs_network @ defs_server @ defs_apps @ defs_apps2 @ defs_devices"

lemmas table_lists = defs_network_def defs_server_def defs_apps_def defs_apps2_def defs_devices_def

lemma def_sel_trait_defaults [simp]:
  "def_name (trait_defaults n d c p) = n" "def_description (trait_defaults n d c p) = d"
  "def_category (trait_defaults n d c p) = c" "def_pattern (trait_defaults n d c p) = p"
  "def_is_generic (trait_defaults n d c p) = False" "def_logo_url (trait_defaults n d c p) = []"
  by (simp_all add: trait_defaults_def)

lemmas table_defs = defs_network_defs defs_server_defs defs_apps_defs defs_apps2_defs defs_devices_defs
  svc_gateway_def svc_docker_container_def svc_open_ports_def

text \<open>
  Facts of the whole table are evaluated lazily: the elements of a list and the arguments of
  \<open>trait_defaults\<close> stay as they are until a function selects them.
\<close>

lemma lazy_table:
  "filter Q xs = filter Q xs" "list_all Q xs = list_all Q xs" "map g xs = map g xs"
  "trait_defaults n d c p = trait_defaults n d c p"
  by (rule refl)+

text \<open>The name bounds the trait documents.\<close>

definition within_documented_bounds :: "'c ServiceDef \<Rightarrow> bool" where
  "within_documented_bounds d \<longleftrightarrow> length (def_name d) < 40 \<and> length (def_description d) < 100"

lemma bounds_parts:
  "list_all within_documented_bounds defs_network" "list_all within_documented_bounds defs_server"
  "list_all within_documented_bounds defs_apps" "list_all within_documented_bounds defs_apps2"
  "list_all within_documented_bounds defs_devices"
  unfolding table_lists
  by (simp_all add: within_documented_bounds_def table_defs cong: lazy_table)

section \<open>Endpoints that no pattern asks the scan for\<close>

definition unprobed_paths :: "string list" where
  "unprobed_paths =
     [''/v1/allowlists'', ''/hello'', ''/minio/health/live'', ''/rest/api/2/serverInfo'', ''/api/v2/'',
      ''/ipa/ui'', ''/bigbluebutton/api'']"

definition unprobed_services :: "string list" where
  "unprobed_services = [''CrowdSec'', ''Tyk'', ''MinIO'', ''Jira'', ''AWX'', ''FreeIPA'', ''BigBlueButton'']"

definition probes_no_unprobed :: "'c ServiceDef \<Rightarrow> bool" where
  "probes_no_unprobed d = list_all (\<lambda>e. ep_path e \<notin> set unprobed_paths) (pattern_endpoints (def_pattern d))"

definition named_unprobed_ok :: "'c ServiceDef \<Rightarrow> bool" where
  "named_unprobed_ok d \<longleftrightarrow>
     def_name d \<notin> set unprobed_services \<or>
     (case def_pattern d of EndpointP _ path _ _ \<Rightarrow> path \<in> set unprobed_paths | _ \<Rightarrow> False)"

lemma for_pattern_path [simp]: "ep_path (for_pattern p path) = path"
  by (simp add: for_pattern_def)

lemma probes_parts:
  "list_all probes_no_unprobed defs_network" "list_all probes_no_unprobed defs_server"
  "list_all probes_no_unprobed defs_apps" "list_all probes_no_unprobed defs_apps2"
  "list_all probes_no_unprobed defs_devices"
  unfolding table_lists list.pred_inject
  by (simp_all add: probes_no_unprobed_def unprobed_paths_def table_defs cong: lazy_table(4))

lemma named_parts:
  "list_all named_unprobed_ok defs_network" "list_all named_unprobed_ok defs_server"
  "list_all named_unprobed_ok defs_apps" "list_all named_unprobed_ok defs_apps2"
  "list_all named_unprobed_ok defs_devices"
  unfolding table_lists
  by (simp_all add: named_unprobed_ok_def unprobed_services_def unprobed_paths_def table_defs cong: lazy_table)

lemma table_mem: "list_all Q service_table \<Longrightarrow> set registry \<subseteq> set service_table \<Longrightarrow> d \<in> set registry \<Longrightarrow> Q d"
  by (auto simp: list_all_iff)

lemma table_probes: "list_all probes_no_unprobed service_table"
  unfolding service_table_def list_all_append using probes_parts by simp

lemma table_named: "list_all named_unprobed_ok service_table"
  unfolding service_table_def list_all_append using named_parts by simp

section \<open>Names\<close>

text \<open>The names are compared by a number computed from them.\<close>

definition str_code :: "string \<Rightarrow> nat" where
  "str_code s = foldr (\<lambda>c n. of_char c + 256 * n) s 0"

lemma table_codes_distinct: "distinct (map (\<lambda>d. str_code (def_name d)) (service_table :: 'c ServiceDef list))"
  unfolding service_table_def table_lists append.simps
  by (simp add: str_code_def table_defs cong: lazy_table)

lemma table_names_distinct: "distinct (map def_name service_table)"
proof -
  have "distinct (map str_code (map def_name (service_table :: 'a ServiceDef list)))"
    using table_codes_distinct by (simp add: comp_def)
  then show ?thesis by (simp only: distinct_map)
qed

section \<open>Priorities\<close>

lemma priority_parts:
  "filter (\<lambda>d. definition_priority d = 3) defs_network = []"
  "filter (\<lambda>d. definition_priority d = 3) defs_server = []"
  "filter (\<lambda>d. definition_priority d = 3) defs_apps = []"
  "filter (\<lambda>d. definition_priority d = 3) defs_apps2 = []"
  "filter (\<lambda>d. definition_priority d = 3) defs_devices = [svc_open_ports]"
  unfolding table_lists
  by (simp_all add: definition_priority_def table_defs cong: lazy_table)

lemma table_open_ports: "filter (\<lambda>d. definition_priority d = 3) service_table = [svc_open_ports]"
  by (simp add: service_table_def priority_parts)

lemma registry_open_ports:
  assumes "mset registry = mset service_table"
  shows "filter (\<lambda>d. definition_priority d = 3) registry = [svc_open_ports]"
proof -
  have "mset (filter (\<lambda>d. definition_priority d = 3) registry) =
      mset (filter (\<lambda>d. definition_priority d = 3) (service_table :: 'a ServiceDef list))"
    using assms by (metis mset_filter)
  then have "mset (filter (\<lambda>d. definition_priority d = 3) registry) = {#svc_open_ports#}"
    unfolding table_open_ports by (simp del: mset_filter)
  then show ?thesis by (simp only: mset_single_iff)
qed

end
