(* ===== verification/Service_Claims.thy ===== *)
theory Service_Claims
  imports Discovered_Services Service_Table
begin

text \<open>
  The properties of the discovery of services on one host, from the scan's answers to the
  services, ports and name of the host.
\<close>

section \<open>Ports and bindings\<close>

lemma discover_services_fields:
  "set (fst (discover_services C fresh now P)) = set (ms_services (match_loop C fresh now P))"
  "snd (discover_services C fresh now P) =
     ms_host_ports (match_loop C fresh now P) @
     map (\<lambda>(j, p). port_new_hostless (fresh (ms_index (match_loop C fresh now P)) j) now p)
       (enumerate 0 (ms_unbound (match_loop C fresh now P)))"
  by (simp_all add: discover_services_def Let_def)

lemma port_types_new: "port_types (map (\<lambda>(j, p). port_new_hostless (f j) now p) (enumerate n ps)) = ps"
  unfolding port_types_def
  using map_enumerate [where k = id and n = n and xs = ps
      and g = "\<lambda>x. pb_port_type (port_base (case x of (j, p) \<Rightarrow> port_new_hostless (f j) now p))"]
  by (simp add: comp_def)

lemma loop_bound_ids:
  assumes "loop_inv C P m"
  shows "(\<Union>s \<in> set (ms_services m). set (to_bound_port_ids s)) = port_id ` set (ms_host_ports m)"
proof -
  have "set (concat (map to_bound_port_ids (ms_services m))) = set (map port_id (ms_host_ports m))"
    using assms by (simp only: loop_inv_def)
  then show ?thesis by simp
qed

text \<open>
  C14: no open port of a scanned host is lost: each one appears among the ports reported with
  the host, with the same number and protocol, whichever services matched; and a service
  binds only ports that are reported with it.
\<close>

theorem discover_services_covers_ports:
  "(\<forall>q \<in> set (bp_all_ports (mp_baseline P)).
      \<exists>p \<in> set (snd (discover_services C fresh now P)). port_eq (pb_port_type (port_base p)) q)
   \<and> (\<forall>s \<in> set (fst (discover_services C fresh now P)).
        set (to_bound_port_ids s) \<subseteq> port_id ` set (snd (discover_services C fresh now P)))"
proof
  let ?m = "match_loop C fresh now P"
  note inv = match_loop_inv [of C P fresh now]
  have types: "port_types (snd (discover_services C fresh now P)) = port_types (ms_host_ports ?m) @ ms_unbound ?m"
    unfolding discover_services_fields using port_types_new
    by (simp add: port_types_def)
  have "port_mem q (port_types (snd (discover_services C fresh now P)))"
    if "q \<in> set (bp_all_ports (mp_baseline P))" for q
  proof -
    have "port_mem q (port_types (ms_host_ports ?m)) \<or> q \<in> set (ms_unbound ?m)"
      using inv that by (simp add: loop_inv_def)
    then show ?thesis unfolding types port_mem_append
      by (auto simp: port_mem_def list_ex_iff intro: port_eq_refl)
  qed
  then show "\<forall>q \<in> set (bp_all_ports (mp_baseline P)).
      \<exists>p \<in> set (snd (discover_services C fresh now P)). port_eq (pb_port_type (port_base p)) q"
    by (fastforce simp: port_mem_def list_ex_iff port_types_def)
  show "\<forall>s \<in> set (fst (discover_services C fresh now P)).
        set (to_bound_port_ids s) \<subseteq> port_id ` set (snd (discover_services C fresh now P))"
    using loop_bound_ids [OF inv] unfolding discover_services_fields by fastforce
qed

text \<open>
  with the program's registry, whatever the order of its definitions, a host that is not
  a named container has no port left over: every port reported with it is bound by one of
  its services, in the end by the catch-all definition, which is tried last.
\<close>

theorem every_port_is_bound:
  assumes "mset (mc_registry C) = mset service_table"
    and "\<not> names_container (bp_virtualization (mp_baseline P))"
  shows "\<forall>p \<in> set (snd (discover_services C fresh now P)).
           \<exists>s \<in> set (fst (discover_services C fresh now P)). port_id p \<in> set (to_bound_port_ids s)"
proof -
  have "ms_unbound (match_loop C fresh now P) = []"
    by (rule match_loop_unbound [OF registry_open_ports [OF assms(1)] assms(2)])
  then show ?thesis
    using loop_bound_ids [OF match_loop_inv [of C P fresh now]] unfolding discover_services_fields by auto
qed

definition table_context :: "(32 word \<times> nat) MatchContext" where
  "table_context = \<lparr>mc_cidr = demo_cidr_ops, mc_oui = None, mc_registry = service_table\<rparr>"

definition demo_fresh :: "nat \<Rightarrow> nat \<Rightarrow> uuid" where
  "demo_fresh i j = of_nat (1000 * i + j)"

lemma discover_services_covers_ports_witness:
  "\<exists>p \<in> set (snd (discover_services table_context demo_fresh 0 (demo_params None))).
     port_eq (pb_port_type (port_base p)) Ssh"
  using discover_services_covers_ports [of "demo_params None" table_context demo_fresh 0]
  by (simp add: demo_params_def)

lemma every_port_is_bound_witness:
  "port_id ` set (snd (discover_services table_context demo_fresh 0 (demo_params None)))
   \<subseteq> (\<Union>s \<in> set (fst (discover_services table_context demo_fresh 0 (demo_params None))).
         set (to_bound_port_ids s))"
proof -
  have "mset (mc_registry table_context) = mset service_table"
    "\<not> names_container (bp_virtualization (mp_baseline (demo_params None)))"
    by (simp_all add: table_context_def demo_params_def names_container_def)
  from every_port_is_bound [OF this, of demo_fresh 0] show ?thesis by blast
qed

text \<open>
  the scan of a container that has an id yields at most one service: the first definition
  that matches it wins, and the generic container definition is tried after the specific
  ones.
\<close>

theorem container_yields_one_service:
  assumes "names_container (bp_virtualization (mp_baseline P))"
  shows "length (fst (discover_services C fresh now P)) \<le> 1
    \<and> (\<forall>s \<in> set (fst (discover_services C fresh now P)).
         virtualization (service_base s) = bp_virtualization (mp_baseline P))"
proof -
  have "length (ms_services (match_loop C fresh now P)) \<le> 1"
    using match_loop_inv [of C P fresh now] assms by (simp add: loop_inv_def)
  moreover have "\<forall>s \<in> set (ms_services (match_loop C fresh now P)).
      virtualization (service_base s) = bp_virtualization (mp_baseline P)"
    using match_loop_inv [of C P fresh now] by (auto simp: loop_inv_def)
  ultimately show ?thesis by (simp add: discover_services_def Let_def)
qed

lemma container_yields_one_service_witness:
  "length (fst (discover_services table_context demo_fresh 0 (demo_params demo_container))) \<le> 1"
proof -
  have "names_container (bp_virtualization (mp_baseline (demo_params demo_container)))"
    by (simp add: demo_params_def demo_container_def names_container_def)
  from container_yields_one_service [OF this] show ?thesis by blast
qed

section \<open>Services that cannot be found\<close>

lemma endpoint_matches_path: "endpoint_matches p path body rg a \<Longrightarrow> ep_path (er_endpoint a) = path"
  by (simp add: endpoint_matches_def Let_def)

text \<open>
  seven definitions of the registry can never match in a network scan: their only pattern
  is an endpoint with an explicit status range, the list of endpoints to probe leaves such
  patterns out, and no other definition probes their paths. Whatever the host answers, none
  of them is among the services found.
\<close>

theorem ranged_endpoint_services_never_found:
  assumes "set (mc_registry C) \<subseteq> set service_table"
    and "scan_endpoints (mc_registry C) client ip fp https raw = Inr (bp_endpoint_responses (mp_baseline P))"
  shows "\<forall>s \<in> set (fst (discover_services C fresh now P)).
           sd_name (service_definition (service_base s)) \<notin> set unprobed_services"
proof
  fix s assume "s \<in> set (fst (discover_services C fresh now P))"
  then have "s \<in> set (ms_services (match_loop C fresh now P))" by (simp add: discover_services_fields)
  then obtain d k where d: "d \<in> set (mc_registry C)"
    and m: "\<not> isl (matches C (with_definition d (loop_params P k)) (def_pattern d))"
    and sd: "service_definition (service_base s) = handle_of d"
    using match_loop_inv [of C P fresh now] unfolding loop_inv_def by blast
  have no: "ep_path (er_endpoint a) \<notin> set unprobed_paths" if a: "a \<in> set (bp_endpoint_responses (mp_baseline P))" for a
  proof -
    obtain d' where "d' \<in> set (mc_registry C)"
      "ep_path (er_endpoint a) \<in> ep_path ` set (pattern_endpoints (def_pattern d'))"
      using scan_endpoints_paths [OF assms(2) a] by blast
    moreover from this(1) have "probes_no_unprobed d'" by (rule table_mem [OF table_probes assms(1)])
    ultimately show ?thesis by (auto simp: probes_no_unprobed_def list_all_iff)
  qed
  show "sd_name (service_definition (service_base s)) \<notin> set unprobed_services"
  proof
    assume "sd_name (service_definition (service_base s)) \<in> set unprobed_services"
    then have "def_name d \<in> set unprobed_services" by (simp add: sd handle_of_def)
    moreover have "named_unprobed_ok d" by (rule table_mem [OF table_named assms(1) d])
    ultimately obtain p path body rg where "def_pattern d = EndpointP p path body rg" "path \<in> set unprobed_paths"
      by (auto simp: named_unprobed_ok_def split: Pattern.splits)
    moreover from this m obtain a where "a \<in> set (bp_endpoint_responses (mp_baseline P))" "endpoint_matches p path body rg a"
      using matches_iff_meaning [of C "with_definition d (loop_params P k)" "def_pattern d"] by (auto simp: endpoint_matches_iff)
    ultimately show False using no endpoint_matches_path by metis
  qed
qed

definition eager_client :: HttpClient where
  \<comment> \<open>every URL answers 200 and mentions Tyk\<close>
  "eager_client u = Inr (200, [], Inr ''tyk'')"

definition eager_params :: "(32 word \<times> nat) MatchParams" where
  "eager_params = (demo_params None)\<lparr>mp_baseline := (mp_baseline (demo_params None))
     \<lparr>bp_endpoint_responses := projr (scan_endpoints (service_table :: (32 word \<times> nat) ServiceDef list)
        (Inr eager_client) (V4 0xAC110001) None None True)\<rparr>\<rparr>"

lemma ranged_endpoint_services_never_found_witness:
  "(\<lambda>s. sd_name (service_definition (service_base s))) `
       set (fst (discover_services table_context demo_fresh 0 eager_params)) \<inter> set unprobed_services = {}"
proof -
  have "set (mc_registry table_context) \<subseteq> set (service_table :: (32 word \<times> nat) ServiceDef list)"
    by (simp add: table_context_def)
  moreover have "scan_endpoints (mc_registry table_context) (Inr eager_client) (V4 0xAC110001) None None True =
      Inr (bp_endpoint_responses (mp_baseline eager_params))"
    by (simp add: table_context_def eager_params_def demo_params_def scan_endpoints_def)
  ultimately show ?thesis
    using ranged_endpoint_services_never_found [of table_context "Inr eager_client" "V4 0xAC110001" None None True
        eager_params demo_fresh 0] by blast
qed

section \<open>The registry\<close>

lemma table_bounds: "list_all within_documented_bounds service_table"
  unfolding service_table_def list_all_append using bounds_parts by simp

lemma find_distinct:
  "distinct (map f xs) \<Longrightarrow> x \<in> set xs \<Longrightarrow> find (\<lambda>y. f y = f x) xs = Some x"
  by (induction xs) force+

text \<open>
  the name of a service identifies it: in the program's registry, in whatever order it is
  collected, the definition of every service is found again by its id, a serialised
  definition is read back as itself, and the names and descriptions keep the documented
  lengths.
\<close>

theorem registry_ids_roundtrip:
  assumes "mset registry = mset service_table" "d \<in> set registry"
  shows "find_by_id registry (def_name d) = Some d
    \<and> deserialize_definition (map handle_of registry) (sd_id (handle_of d)) = handle_of d
    \<and> length (def_name d) < 40 \<and> length (def_description d) < 100"
proof -
  have "mset (map def_name registry) = mset (map def_name (service_table :: 'a ServiceDef list))"
    using assms(1) by simp
  then have dist: "distinct (map def_name registry)"
    using table_names_distinct mset_eq_imp_distinct_iff by blast
  have "find (\<lambda>h. sd_id h = sd_id (handle_of d)) (map handle_of registry) = Some (handle_of d)"
    using dist assms(2) find_distinct [of sd_id "map handle_of registry" "handle_of d"]
    by (simp add: comp_def sd_id_def handle_of_def)
  moreover have "within_documented_bounds d"
    using table_mem [OF table_bounds] assms by (metis mset_eq_setD order_refl)
  ultimately show ?thesis
    using find_distinct [OF dist assms(2)]
    by (simp add: find_by_id_def deserialize_definition_def within_documented_bounds_def)
qed

lemma registry_ids_roundtrip_witness:
  "find_by_id (service_table :: unit ServiceDef list) ''Tyk'' = Some svc_tyk"
proof -
  have "(svc_tyk :: unit ServiceDef) \<in> set service_table"
    by (simp add: service_table_def defs_network_def)
  from registry_ids_roundtrip [OF refl this] show ?thesis by (simp add: svc_tyk_def)
qed

section \<open>The generic gateway\<close>

text \<open>
  the generic gateway definition matches exactly when the host looks like a gateway and
  every service matched so far is a gateway itself: any other service found on a router (SSH,
  DNS, a web interface) keeps it from being reported as a gateway, and another gateway
  service does not. The texts of the pattern state the opposite.
\<close>

theorem gateway_needs_only_gateways:
  "\<not> isl (matches C P (def_pattern svc_gateway)) \<longleftrightarrow>
     \<not> isl (matches C P IsGateway) \<and>
     (\<forall>s \<in> set (sp_matched_services (mp_service P)). sd_is_gateway (service_definition (service_base s)))"
proof -
  have pat: "def_pattern svc_gateway = AllOf [IsGateway, CustomP no_non_gateway_matched (\<lambda>_. [])
      ''No other gateway services matched'' ''A gateway service has already been matched'' Low]"
    by (simp add: svc_gateway_def)
  show ?thesis
    unfolding matches_iff_meaning pat by (simp add: no_non_gateway_matched_def list_ex_iff)
qed

definition beside_ssh :: "(32 word \<times> nat) MatchParams" where
  \<comment> \<open>a host on which a service without a definition has been matched already\<close>
  "beside_ssh = (demo_params None)\<lparr>mp_service := (mp_service (demo_params None))
     \<lparr>sp_matched_services := [service_new 3 0 default_service_base]\<rparr>\<rparr>"

lemma gateway_needs_only_gateways_witness:
  "isl (matches demo_context beside_ssh (def_pattern svc_gateway))"
  using gateway_needs_only_gateways [of demo_context beside_ssh]
  by (simp add: beside_ssh_def service_new_def default_service_base_def default_service_definition_def)

section \<open>The name of the host\<close>

lemma find_sorted_min:
  "sorted (map f xs) \<Longrightarrow> find Q xs = Some x \<Longrightarrow> y \<in> set xs \<Longrightarrow> Q y \<Longrightarrow> f x \<le> f y"
  by (induction xs) (auto split: if_splits)

text \<open>
  with the naming fallback "best service", a host without a DNS name that runs a specific
  service is named after one, and after none that is matched with less confidence than
  another specific service of the host (a logo counts as one level).
\<close>

theorem host_named_after_best_service:
  assumes "process_host C fh fresh now P None BestService = (h, ifs, ports, services)"
    and "\<exists>s \<in> set services. \<not> sd_is_generic (service_definition (service_base s))"
  shows "\<exists>s \<in> set services. \<not> sd_is_generic (service_definition (service_base s))
    \<and> hb_name (host_base h) = sd_name (service_definition (service_base s))
    \<and> (\<forall>t \<in> set services. \<not> sd_is_generic (service_definition (service_base t)) \<longrightarrow> service_rank s \<le> service_rank t)"
proof -
  let ?Q = "\<lambda>s. \<not> sd_is_generic (service_definition (service_base s))"
  have services: "services = fst (discover_services C fresh now (P\<lparr>mp_host_id := fh\<rparr>))"
    and name: "hb_name (host_base h) =
      process_host_name None BestService (ib_ip_address (interface_base (bp_interface (mp_baseline P)))) services"
    using assms(1) by (auto simp: process_host_def Let_def host_new_def split: prod.splits)
  obtain s where s: "find ?Q services = Some s"
    using assms(2) option_ne_None_find [of ?Q services] by auto
  have "sorted (map service_rank services)"
    by (simp add: services discover_services_def Let_def)
  then have "\<forall>t \<in> set services. ?Q t \<longrightarrow> service_rank s \<le> service_rank t"
    using find_sorted_min [OF _ s] by blast
  moreover have "s \<in> set services \<and> ?Q s" by (rule find_Some_mem [OF s])
  moreover have "hb_name (host_base h) = sd_name (service_definition (service_base s))"
    by (simp add: name process_host_name_def best_service_name_def s)
  ultimately show ?thesis by blast
qed

definition ssh_def :: "(32 word \<times> nat) ServiceDef" where
  "ssh_def = trait_defaults ''Dropbear'' ''An SSH server'' SC_NetworkCore (PortP Ssh)"

definition ssh_context :: "(32 word \<times> nat) MatchContext" where
  "ssh_context = \<lparr>mc_cidr = demo_cidr_ops, mc_oui = None, mc_registry = [ssh_def]\<rparr>"

lemma ssh_services:
  "\<exists>s. fst (discover_services ssh_context demo_fresh 0 ((demo_params None)\<lparr>mp_host_id := 5\<rparr>)) = [s] \<and>
       service_definition (service_base s) = handle_of ssh_def"
  by (simp add: discover_services_def match_loop_def ssh_context_def match_definition_def Let_def
      from_discovery_def ssh_def_def with_definition_def loop_params_def demo_params_def match_port_def
      is_custom_def simple_result_def service_new_def names_container_def)

lemma host_named_after_best_service_witness:
  "hb_name (host_base (fst (process_host ssh_context 5 demo_fresh 0 (demo_params None) None BestService))) = ''Dropbear''"
proof -
  obtain h ifs ports services where
    p: "process_host ssh_context 5 demo_fresh 0 (demo_params None) None BestService = (h, ifs, ports, services)"
    by (metis prod_cases4)
  then have "services = fst (discover_services ssh_context demo_fresh 0 ((demo_params None)\<lparr>mp_host_id := 5\<rparr>))"
    by (auto simp: process_host_def Let_def split: prod.splits)
  with ssh_services obtain s where s: "services = [s]" "service_definition (service_base s) = handle_of ssh_def"
    by auto
  have "\<exists>s \<in> set services. \<not> sd_is_generic (service_definition (service_base s))"
    by (simp add: s handle_of_def ssh_def_def)
  from host_named_after_best_service [OF p this] show ?thesis
    by (simp add: p s) (simp add: handle_of_def ssh_def_def)
qed

end
