(* ===== verification/Entity_Buffer.thy ===== *)
theory Entity_Buffer
  imports Hosts
begin

text \<open>
  The daemon's buffer of discovered entities (\<open>daemon/discovery/buffer.rs\<close>): the life cycle of
  an entity from its discovery to the server's confirmation, the merge of the children of a
  host that is pushed again, the entities offered to a poll, and the loop that waits for a
  confirmation until a deadline or a cancellation.
\<close>

section \<open>Entities and the buffer\<close>

datatype 'a BufferedEntity = PendingEntity 'a | CreatedEntity uuid 'a

fun entity_is_pending :: "'a BufferedEntity \<Rightarrow> bool" where
  "entity_is_pending (PendingEntity _) = True"
| "entity_is_pending (CreatedEntity _ _) = False"

fun entity_is_created :: "'a BufferedEntity \<Rightarrow> bool" where
  "entity_is_created (PendingEntity _) = False"
| "entity_is_created (CreatedEntity _ _) = True"

fun get_data :: "'a BufferedEntity \<Rightarrow> 'a" where
  "get_data (PendingEntity t) = t"
| "get_data (CreatedEntity _ t) = t"

record ('c, 'e) EntityBuffer =
  eb_subnets :: "(uuid, 'c Subnet BufferedEntity) HashMap"
  eb_hosts :: "(uuid, 'e DiscoveryHostRequest BufferedEntity) HashMap"

record ('c, 'e) BufferedEntities =
  be_hosts :: "'e DiscoveryHostRequest list"
  be_subnets :: "'c Subnet list"

definition buffer_new :: "('c, 'e) EntityBuffer" where
  "buffer_new = \<lparr>eb_subnets = [], eb_hosts = []\<rparr>"

definition push_subnet :: "'c Subnet \<Rightarrow> ('c, 'e) EntityBuffer \<Rightarrow> ('c, 'e) EntityBuffer" where
  "push_subnet s b = b\<lparr>eb_subnets := hinsert (subnet_id s) (PendingEntity s) (eb_subnets b)\<rparr>"

definition mark_subnet_created ::
    "uuid \<Rightarrow> 'c Subnet \<Rightarrow> ('c, 'e) EntityBuffer \<Rightarrow> (uuid \<times> uuid) option \<times> ('c, 'e) EntityBuffer" where
  "mark_subnet_created pending_id actual b =
     (case hget (eb_subnets b) pending_id of
        Some _ \<Rightarrow>
          (if pending_id \<noteq> subnet_id actual then Some (pending_id, subnet_id actual) else None,
           b\<lparr>eb_subnets := hinsert pending_id (CreatedEntity pending_id actual) (eb_subnets b)\<rparr>)
      | None \<Rightarrow> (None, b))"

definition get_subnet :: "('c, 'e) EntityBuffer \<Rightarrow> uuid \<Rightarrow> 'c Subnet option" where
  "get_subnet b i = map_option get_data (hget (eb_subnets b) i)"

definition merge_children :: "'e DiscoveryHostRequest \<Rightarrow> 'e DiscoveryHostRequest \<Rightarrow> 'e DiscoveryHostRequest" where
  "merge_children existing h =
     existing\<lparr>hr_interfaces := hr_interfaces existing @ hr_interfaces h,
              hr_ports := hr_ports existing @ hr_ports h,
              hr_services := hr_services existing @ hr_services h,
              hr_if_entries := hr_if_entries existing @ hr_if_entries h\<rparr>"

definition push_host :: "'e DiscoveryHostRequest \<Rightarrow> ('c, 'e) EntityBuffer \<Rightarrow> ('c, 'e) EntityBuffer" where
  "push_host h b =
     (let i = host_id (hr_host h) in
      case hget (eb_hosts b) i of
        Some (PendingEntity existing) \<Rightarrow>
          b\<lparr>eb_hosts := hinsert i (PendingEntity (merge_children existing h)) (eb_hosts b)\<rparr>
      | _ \<Rightarrow> b\<lparr>eb_hosts := hinsert i (PendingEntity h) (eb_hosts b)\<rparr>)"

definition mark_host_created :: "uuid \<Rightarrow> 'e HostResponse \<Rightarrow> ('c, 'e) EntityBuffer \<Rightarrow> ('c, 'e) EntityBuffer" where
  "mark_host_created pending_id actual b =
     (case hget (eb_hosts b) pending_id of
        Some (PendingEntity _) \<Rightarrow>
          b\<lparr>eb_hosts := hinsert pending_id
               (CreatedEntity pending_id
                  \<lparr>hr_host = to_host actual, hr_interfaces = resp_interfaces actual,
                   hr_ports = resp_ports actual, hr_services = resp_services actual,
                   hr_if_entries = resp_if_entries actual\<rparr>) (eb_hosts b)\<rparr>
      | _ \<Rightarrow> b)"

definition get_host :: "('c, 'e) EntityBuffer \<Rightarrow> uuid \<Rightarrow> 'e DiscoveryHostRequest option" where
  "get_host b i = map_option get_data (hget (eb_hosts b) i)"

definition get_pending :: "('c, 'e) EntityBuffer \<Rightarrow> ('c, 'e) BufferedEntities" where
  "get_pending b =
     \<lparr>be_hosts = map get_data (filter entity_is_pending (hvalues (eb_hosts b))),
      be_subnets = map get_data (filter entity_is_pending (hvalues (eb_subnets b)))\<rparr>"

definition clear_all :: "('c, 'e) EntityBuffer \<Rightarrow> ('c, 'e) EntityBuffer" where
  "clear_all b = b\<lparr>eb_hosts := [], eb_subnets := []\<rparr>"

definition buffer_is_empty :: "('c, 'e) EntityBuffer \<Rightarrow> bool" where
  "buffer_is_empty b \<longleftrightarrow> eb_hosts b = [] \<and> eb_subnets b = []"

definition buffer_count :: "('c, 'e) EntityBuffer \<Rightarrow> nat \<times> nat" where
  "buffer_count b = (length (eb_hosts b), length (eb_subnets b))"

definition pending_count :: "('c, 'e) EntityBuffer \<Rightarrow> nat \<times> nat" where
  "pending_count b =
     (length (filter entity_is_pending (hvalues (eb_hosts b))),
      length (filter entity_is_pending (hvalues (eb_subnets b))))"

definition entities_is_empty :: "('c, 'e) BufferedEntities \<Rightarrow> bool" where
  "entities_is_empty e \<longleftrightarrow> be_hosts e = [] \<and> be_subnets e = []"

section \<open>Waiting for a confirmation\<close>

text \<open>
  One iteration of the loop sees whether the session is cancelled, what the map holds and the
  clock; it then sleeps 100 milliseconds. The iterations to come are the argument: what each
  of them sees. The loop is given as many iterations as the argument has; it has not returned
  (\<open>None\<close>) when they run out. Nothing is assumed of what the iterations see: the
  runs of the program, in which a cancellation once seen is seen ever after, are among them.
\<close>

record 'a AwaitView =
  aw_cancelled :: bool
  aw_entry :: "'a BufferedEntity option"
  aw_now :: nat

fun await_entity :: "nat \<Rightarrow> 'a AwaitView list \<Rightarrow> 'a option option" where
  "await_entity deadline [] = None"
| "await_entity deadline (v # vs) =
     (if aw_cancelled v then Some None
      else case aw_entry v of
        Some (CreatedEntity _ d) \<Rightarrow> Some (Some d)
      | _ \<Rightarrow> if aw_now v > deadline then Some None else await_entity deadline vs)"

definition await_subnet :: "nat \<Rightarrow> nat \<Rightarrow> 'c Subnet AwaitView list \<Rightarrow> 'c Subnet option option" where
  "await_subnet now timeout vs = await_entity (now + timeout) vs"

definition await_host :: "nat \<Rightarrow> nat \<Rightarrow> 'e DiscoveryHostRequest AwaitView list \<Rightarrow> Host option option" where
  "await_host now timeout vs = map_option (map_option hr_host) (await_entity (now + timeout) vs)"

definition sleeps :: "'a AwaitView list \<Rightarrow> bool" where
  \<comment> \<open>the clock advances by 100 milliseconds at least between two iterations\<close>
  "sleeps vs = successively (\<lambda>v w. aw_now v + 100 \<le> aw_now w) vs"

lemma await_entity_cases:
  "await_entity deadline vs = None \<longleftrightarrow>
     (\<forall>v \<in> set vs. \<not> aw_cancelled v \<and> (\<forall>i d. aw_entry v \<noteq> Some (CreatedEntity i d)) \<and> aw_now v \<le> deadline)"
  by (induction vs) (auto split: option.splits BufferedEntity.splits)

lemma sleeps_nth:
  "sleeps vs \<Longrightarrow> k < length vs \<Longrightarrow> aw_now (vs ! 0) + 100 * k \<le> aw_now (vs ! k)"
proof (induction k)
  case (Suc k)
  then have "aw_now (vs ! k) + 100 \<le> aw_now (vs ! Suc k)"
    by (simp add: sleeps_def successively_conv_nth)
  with Suc show ?case by simp
qed simp

lemma sleeps_late:
  assumes "sleeps vs" "start \<le> aw_now (vs ! 0)" "timeout div 100 + 1 < length vs"
  shows "start + timeout < aw_now (vs ! (timeout div 100 + 1))"
proof -
  have "start + 100 * (timeout div 100 + 1) \<le> aw_now (vs ! (timeout div 100 + 1))"
    using sleeps_nth [OF assms(1,3)] assms(2) by simp
  moreover have "timeout < 100 * (timeout div 100 + 1)" by (simp add: dividend_less_times_div)
  ultimately show ?thesis by simp
qed

lemma await_entity_returns:
  assumes "sleeps vs" "start \<le> aw_now (vs ! 0)" "timeout div 100 + 1 < length vs"
  shows "await_entity (start + timeout) vs \<noteq> None"
proof -
  have "vs ! (timeout div 100 + 1) \<in> set vs" using assms(3) by simp
  with sleeps_late [OF assms] show ?thesis unfolding await_entity_cases by (meson not_le)
qed

definition created_entity :: "'a AwaitView \<Rightarrow> 'a option" where
  \<comment> \<open>what the iteration sees confirmed\<close>
  "created_entity v = (case aw_entry v of Some (CreatedEntity _ d) \<Rightarrow> Some d | _ \<Rightarrow> None)"

definition goes_on :: "nat \<Rightarrow> 'a AwaitView \<Rightarrow> bool" where
  "goes_on deadline v \<longleftrightarrow> \<not> aw_cancelled v \<and> created_entity v = None \<and> aw_now v \<le> deadline"

text \<open>The first iteration that does not go on decides.\<close>

lemma await_entity_decided:
  "await_entity deadline vs = Some r \<Longrightarrow>
   \<exists>k < length vs. (\<forall>j < k. goes_on deadline (vs ! j)) \<and> \<not> goes_on deadline (vs ! k) \<and>
     r = (if aw_cancelled (vs ! k) then None else created_entity (vs ! k))"
proof (induction vs)
  case (Cons v vs)
  show ?case
  proof (cases "goes_on deadline v")
    case True
    with Cons.prems have "await_entity deadline vs = Some r"
      by (auto simp: goes_on_def created_entity_def split: option.splits BufferedEntity.splits if_splits)
    from Cons.IH [OF this] obtain k where
      "k < length vs" "\<forall>j < k. goes_on deadline (vs ! j)" "\<not> goes_on deadline (vs ! k)"
      "r = (if aw_cancelled (vs ! k) then None else created_entity (vs ! k))" by blast
    with True show ?thesis by (intro exI [of _ "Suc k"]) (auto simp: nth_Cons split: nat.split)
  next
    case False
    with Cons.prems show ?thesis
      by (intro exI [of _ 0])
         (auto simp: goes_on_def created_entity_def split: option.splits BufferedEntity.splits if_splits)
  qed
qed simp

section \<open>Life cycle\<close>

text \<open>A buffered host is stored under the id its daemon generated while it is pending.\<close>

definition buffer_inv :: "('c, 'e) EntityBuffer \<Rightarrow> bool" where
  "buffer_inv b \<longleftrightarrow>
     hmap_ok (eb_hosts b) \<and> hmap_ok (eb_subnets b) \<and>
     (\<forall>i h. hget (eb_hosts b) i = Some (PendingEntity h) \<longrightarrow> host_id (hr_host h) = i) \<and>
     (\<forall>i s. hget (eb_subnets b) i = Some (PendingEntity s) \<longrightarrow> subnet_id s = i) \<and>
     (\<forall>i j h. hget (eb_hosts b) i = Some (CreatedEntity j h) \<longrightarrow> j = i) \<and>
     (\<forall>i j s. hget (eb_subnets b) i = Some (CreatedEntity j s) \<longrightarrow> j = i)"

lemma merge_children_host [simp]: "hr_host (merge_children a b) = hr_host a"
  by (simp add: merge_children_def)

lemma buffer_inv_new: "buffer_inv buffer_new"
  by (simp add: buffer_inv_def buffer_new_def lookup_simps)

lemma buffer_inv_push_subnet: "buffer_inv b \<Longrightarrow> buffer_inv (push_subnet s b)"
  by (auto simp: buffer_inv_def push_subnet_def lookup_simps)

lemma buffer_inv_mark_subnet: "buffer_inv b \<Longrightarrow> buffer_inv (snd (mark_subnet_created i s b))"
  by (auto simp: buffer_inv_def mark_subnet_created_def lookup_simps split: option.splits)

lemma buffer_inv_push_host:
  assumes "buffer_inv b"
  shows "buffer_inv (push_host h b)"
proof (cases "hget (eb_hosts b) (host_id (hr_host h))")
  case None
  with assms show ?thesis by (auto simp: buffer_inv_def push_host_def Let_def lookup_simps)
next
  case (Some x)
  with assms show ?thesis
    by (cases x) (auto simp: buffer_inv_def push_host_def Let_def lookup_simps)
qed

lemma buffer_inv_mark_host: "buffer_inv b \<Longrightarrow> buffer_inv (mark_host_created i r b)"
  by (auto simp: buffer_inv_def mark_host_created_def lookup_simps split: option.splits BufferedEntity.splits)

lemma buffer_inv_clear: "buffer_inv (clear_all b)"
  by (simp add: buffer_inv_def clear_all_def lookup_simps)

inductive buffer_step :: "('c, 'e) EntityBuffer \<Rightarrow> ('c, 'e) EntityBuffer \<Rightarrow> bool" where
  "buffer_step b (push_subnet s b)"
| "buffer_step b (snd (mark_subnet_created i s b))"
| "buffer_step b (push_host h b)"
| "buffer_step b (mark_host_created i r b)"
| "buffer_step b (clear_all b)"

lemma buffer_step_inv: "buffer_step b b' \<Longrightarrow> buffer_inv b \<Longrightarrow> buffer_inv b'"
  by (induction rule: buffer_step.induct)
     (auto intro: buffer_inv_push_subnet buffer_inv_mark_subnet buffer_inv_push_host
        buffer_inv_mark_host buffer_inv_clear)

lemma buffer_steps_inv: "buffer_step\<^sup>*\<^sup>* b b' \<Longrightarrow> buffer_inv b \<Longrightarrow> buffer_inv b'"
  by (induction rule: rtranclp_induct) (auto intro: buffer_step_inv)

lemma pending_hosts_mem:
  assumes "hmap_ok (eb_hosts b)"
  shows "h \<in> set (be_hosts (get_pending b)) \<longleftrightarrow> (\<exists>i. hget (eb_hosts b) i = Some (PendingEntity h))"
proof -
  have "h \<in> set (be_hosts (get_pending b)) \<longleftrightarrow> PendingEntity h \<in> set (hvalues (eb_hosts b))"
    unfolding get_pending_def
    by (auto simp: image_iff) (metis entity_is_pending.elims(2) get_data.simps(1))+
  then show ?thesis unfolding hget_iff_mem [OF assms] by (force simp: hvalues_def)
qed

end
