(* ===== verification/Buffer_Claims.thy ===== *)
theory Buffer_Claims
  imports Entity_Buffer
begin

text \<open>
  The properties of the daemon's entity buffer: the merge of pushes, the effect of a
  confirmation on what a poll is offered, and the bounded wait.
\<close>

definition demo_host :: "uuid \<Rightarrow> Host" where
  "demo_host i = host_new i 0 default_host_base"

definition demo_request :: "uuid \<Rightarrow> nat list \<Rightarrow> nat DiscoveryHostRequest" where
  "demo_request i es = \<lparr>hr_host = demo_host i, hr_interfaces = [], hr_ports = [], hr_services = [], hr_if_entries = es\<rparr>"

definition request_of :: "'e HostResponse \<Rightarrow> 'e DiscoveryHostRequest" where
  "request_of r =
     \<lparr>hr_host = to_host r, hr_interfaces = resp_interfaces r, hr_ports = resp_ports r,
      hr_services = resp_services r, hr_if_entries = resp_if_entries r\<rparr>"

section \<open>Pushes merge\<close>

lemma push_host_get:
  "hget (eb_hosts (push_host h b)) k =
     (if k = host_id (hr_host h) then
        Some (PendingEntity (case hget (eb_hosts b) k of
            Some (PendingEntity x) \<Rightarrow> merge_children x h | _ \<Rightarrow> h))
      else hget (eb_hosts b) k)"
  by (simp add: push_host_def Let_def lookup_simps split: option.split BufferedEntity.split)

lemma push_hosts_merge:
  assumes "\<forall>h \<in> set hs. host_id (hr_host h) = i"
    and "hget (eb_hosts b) i = Some (PendingEntity x)"
  shows "hget (eb_hosts (fold push_host hs b)) i =
     Some (PendingEntity (x\<lparr>
        hr_interfaces := hr_interfaces x @ concat (map hr_interfaces hs),
        hr_ports := hr_ports x @ concat (map hr_ports hs),
        hr_services := hr_services x @ concat (map hr_services hs),
        hr_if_entries := hr_if_entries x @ concat (map hr_if_entries hs)\<rparr>))"
  using assms
  by (induction hs arbitrary: b x) (simp_all add: push_host_get merge_children_def)

lemma push_hosts_other:
  "\<forall>h \<in> set hs. host_id (hr_host h) = i \<Longrightarrow> k \<noteq> i \<Longrightarrow>
   hget (eb_hosts (fold push_host hs b)) k = hget (eb_hosts b) k"
  by (induction hs arbitrary: b) (simp_all add: push_host_get)

text \<open>
  C35: a host pushed several times before the server confirms it (every Docker container of a
  daemon carries the daemon's host id) stays one pending entry: the host of the first push
  with the children of all pushes, in push order. Entries of other hosts are untouched.
\<close>

theorem push_host_accumulates:
  assumes "\<forall>g \<in> set (h # hs). host_id (hr_host g) = i"
    and "\<forall>x. hget (eb_hosts b) i \<noteq> Some (PendingEntity x)"
  shows "hget (eb_hosts (fold push_host (h # hs) b)) i =
      Some (PendingEntity \<lparr>hr_host = hr_host h,
        hr_interfaces = concat (map hr_interfaces (h # hs)),
        hr_ports = concat (map hr_ports (h # hs)),
        hr_services = concat (map hr_services (h # hs)),
        hr_if_entries = concat (map hr_if_entries (h # hs))\<rparr>)
    \<and> (\<forall>k. k \<noteq> i \<longrightarrow> hget (eb_hosts (fold push_host (h # hs) b)) k = hget (eb_hosts b) k)"
proof
  have "hget (eb_hosts (push_host h b)) i = Some (PendingEntity h)"
    using assms by (simp add: push_host_get split: option.split BufferedEntity.split)
  then show "hget (eb_hosts (fold push_host (h # hs) b)) i =
      Some (PendingEntity \<lparr>hr_host = hr_host h,
        hr_interfaces = concat (map hr_interfaces (h # hs)),
        hr_ports = concat (map hr_ports (h # hs)),
        hr_services = concat (map hr_services (h # hs)),
        hr_if_entries = concat (map hr_if_entries (h # hs))\<rparr>)"
    using push_hosts_merge [of hs i "push_host h b" h] assms(1) by simp
  show "\<forall>k. k \<noteq> i \<longrightarrow> hget (eb_hosts (fold push_host (h # hs) b)) k = hget (eb_hosts b) k"
    using push_hosts_other [OF assms(1)] by blast
qed

lemma push_host_accumulates_witness:
  "hget (eb_hosts (fold push_host [demo_request 5 [1], demo_request 5 [2, 3], demo_request 5 [4]]
      (buffer_new :: (nat, nat) EntityBuffer))) 5 = Some (PendingEntity (demo_request 5 [1, 2, 3, 4]))"
  using push_host_accumulates [of "demo_request 5 [1]" "[demo_request 5 [2, 3], demo_request 5 [4]]" 5
      "buffer_new :: (nat, nat) EntityBuffer"]
  by (simp add: demo_request_def demo_host_def host_new_def buffer_new_def lookup_simps)

section \<open>Confirmations\<close>

lemma mark_host_pending:
  assumes "hget (eb_hosts b) i = Some (PendingEntity h)"
  shows "mark_host_created i r b =
     b\<lparr>eb_hosts := hinsert i (CreatedEntity i (request_of r)) (eb_hosts b)\<rparr>"
  using assms by (simp add: mark_host_created_def request_of_def)

lemma mark_host_again:
  "hget (eb_hosts b) i = Some (CreatedEntity j x) \<Longrightarrow> mark_host_created i r b = b"
  by (simp add: mark_host_created_def)

text \<open>
  in every state the buffer can reach, the server's confirmation of a pending host ends
  its pending life: the buffer answers with the host and the children of the response, the
  next poll is offered exactly the other pending hosts, and a second confirmation, whatever
  it says, is ignored.
\<close>

theorem confirmation_ends_pending:
  assumes "buffer_step\<^sup>*\<^sup>* buffer_new b" and "hget (eb_hosts b) i = Some (PendingEntity h)"
  shows "get_host (mark_host_created i r b) i = Some (request_of r)
    \<and> set (be_hosts (get_pending (mark_host_created i r b))) = set (be_hosts (get_pending b)) - {h}
    \<and> be_subnets (get_pending (mark_host_created i r b)) = be_subnets (get_pending b)
    \<and> mark_host_created i r' (mark_host_created i r b) = mark_host_created i r b"
proof -
  let ?b = "mark_host_created i r b"
  have inv: "buffer_inv b" and inv': "buffer_inv ?b"
    using buffer_steps_inv [OF assms(1) buffer_inv_new] buffer_inv_mark_host by auto
  note marked = mark_host_pending [OF assms(2), of r]
  have entry: "hget (eb_hosts ?b) i = Some (CreatedEntity i (request_of r))"
    by (simp add: marked lookup_simps)
  have "x \<in> set (be_hosts (get_pending ?b)) \<longleftrightarrow> x \<in> set (be_hosts (get_pending b)) - {h}" for x
  proof -
    have ids: "host_id (hr_host x) = k" if "hget (eb_hosts b) k = Some (PendingEntity x)" for k x
      using inv that by (auto simp: buffer_inv_def)
    have "(\<exists>k. hget (eb_hosts ?b) k = Some (PendingEntity x)) \<longleftrightarrow>
        (\<exists>k. k \<noteq> i \<and> hget (eb_hosts b) k = Some (PendingEntity x))"
      by (auto simp: marked lookup_simps split: if_splits)
    also have "\<dots> \<longleftrightarrow> (\<exists>k. hget (eb_hosts b) k = Some (PendingEntity x)) \<and> x \<noteq> h"
      using ids assms(2) by (metis option.inject BufferedEntity.inject(1))
    finally show ?thesis
      using pending_hosts_mem [of ?b x] pending_hosts_mem [of b x] inv inv'
      by (simp add: buffer_inv_def)
  qed
  moreover have "be_subnets (get_pending ?b) = be_subnets (get_pending b)"
    by (simp add: marked get_pending_def)
  ultimately show ?thesis
    using entry mark_host_again [OF entry] by (auto simp: get_host_def)
qed

lemma confirmation_ends_pending_witness:
  "set (be_hosts (get_pending (mark_host_created 5 (from_host_with_children (demo_host 9) [] [] [] [7])
     (push_host (demo_request 5 [1]) (buffer_new :: (nat, nat) EntityBuffer))))) = {}"
proof -
  let ?b = "push_host (demo_request 5 [1]) (buffer_new :: (nat, nat) EntityBuffer)"
  have "buffer_step\<^sup>*\<^sup>* buffer_new ?b" by (intro r_into_rtranclp buffer_step.intros(3))
  moreover have e: "eb_hosts ?b = [(5, PendingEntity (demo_request 5 [1]))]"
    by (simp add: push_host_def Let_def demo_request_def demo_host_def host_new_def buffer_new_def
        hget_def hinsert_def)
  moreover from e have "hget (eb_hosts ?b) 5 = Some (PendingEntity (demo_request 5 [1]))"
    by (simp add: hget_def)
  moreover from e have "set (be_hosts (get_pending ?b)) = {demo_request 5 [1]}"
    by (simp add: get_pending_def hvalues_def)
  ultimately show ?thesis
    using confirmation_ends_pending [of ?b 5 "demo_request 5 [1]"
        "from_host_with_children (demo_host 9) [] [] [] [7]"] by simp
qed

section \<open>The wait\<close>


definition demo_views :: "bool \<Rightarrow> nat DiscoveryHostRequest AwaitView list" where
  \<comment> \<open>the host is confirmed in the third iteration; the flag cancels in the second\<close>
  "demo_views c =
     [\<lparr>aw_cancelled = False, aw_entry = Some (PendingEntity (demo_request 5 [])), aw_now = 1000\<rparr>,
      \<lparr>aw_cancelled = c, aw_entry = Some (PendingEntity (demo_request 5 [])), aw_now = 1110\<rparr>,
      \<lparr>aw_cancelled = c, aw_entry = Some (CreatedEntity 5 (demo_request 9 [])), aw_now = 1250\<rparr>]"


end
