(* ===== verification/Entity_Claims.thy ===== *)
theory Entity_Claims
  imports Interfaces Services Ports Auth Events
begin

text \<open>
  Properties of the shared value types: positions of the children of a host, ports and their
  two textual forms, the granting of permissions, and the batches of the event bus.
\<close>

section \<open>Positions\<close>

text \<open>
  a list of positions is accepted exactly when it is a permutation of \<open>0, ..., n - 1\<close>; a
  list with a repetition is refused with an error that names a repeated position.
\<close>

theorem sequential_positions_accepted_iff:
  assumes "length ps < 2 ^ 31"
  shows "(validate_sequential_positions ps n = Inr () \<longleftrightarrow> mset ps = mset (map int [0..<length ps]))
    \<and> (\<not> distinct ps \<longrightarrow>
         (\<exists>p. validate_sequential_positions ps n = Inl (duplicate_error n p) \<and> count_list ps p \<ge> 2))"
  using validate_sequential_iff [OF assms] validate_sequential_duplicate by blast

lemma sequential_positions_accepted_iff_witness:
  "validate_sequential_positions [2, 0, 1] ''port'' = Inr () \<and>
   (\<exists>p. validate_sequential_positions [1, 0, 1] ''port'' = Inl (duplicate_error ''port'' p))"
proof -
  have "mset [2, 0, 1] = mset (map int [0..<length [2 :: int, 0, 1]])" by (simp add: upt_rec)
  moreover have "\<not> distinct [1 :: int, 0, 1]" by simp
  ultimately show ?thesis
    using sequential_positions_accepted_iff [of "[2, 0, 1]" "''port''"]
      sequential_positions_accepted_iff [of "[1, 0, 1]" "''port''"] by auto
qed

text \<open>The ids of the interfaces of a host in the order of their positions.\<close>

definition interface_order :: "Interface list \<Rightarrow> uuid list" where
  "interface_order es = map interface_id (sort_key (\<lambda>i. ib_position (interface_base i)) es)"

lemma interface_order_locale: "interface_order es = intf.order_of es"
  unfolding interface_order_def intf.order_of_def by (simp add: interface_positioned_def)

text \<open>
  C37: reordering refines the user's operation: when the interfaces of a host are numbered
  \<open>0, ..., n - 1\<close> and one is moved from position \<open>f\<close> to \<open>t\<close>, they are numbered so
  afterwards, and the order is the old order with the entry at \<open>f\<close> taken out and inserted
  at \<open>t\<close>.
\<close>

theorem interface_reorder_moves_entry:
  assumes "validate_entity_positions interface_positioned es = Inr ()" "length es < 2 ^ 31"
    and "f < length es" "t < length es" "f \<noteq> t"
  shows "validate_entity_positions interface_positioned (fst (reorder_positions interface_positioned es (int f) (int t))) = Inr ()
    \<and> interface_order (fst (reorder_positions interface_positioned es (int f) (int t))) = move_elem f t (interface_order es)"
proof -
  let ?es' = "fst (reorder_positions interface_positioned es (int f) (int t))"
  have valid: "intf.pos_valid es" using assms(1,2) by (simp add: intf.pos_valid_validates)
  note r = intf.reorder_valid_order [OF valid assms(2-5)]
  have "length ?es' = length es" by (rule intf.reorder_move(4) [OF valid assms(2-5)])
  with r assms(2) show ?thesis
    by (simp add: intf.pos_valid_validates interface_order_locale)
qed

definition demo_intf :: "uuid \<Rightarrow> int \<Rightarrow> Interface" where
  "demo_intf i p = \<lparr>interface_id = i, interface_created_at = 0, interface_updated_at = 0,
     interface_base = \<lparr>ib_network_id = 1, ib_host_id = 1, ib_subnet_id = 1, ib_ip_address = V4 0,
       ib_mac_address = None, ib_name = None, ib_position = p\<rparr>\<rparr>"

lemma interface_reorder_moves_entry_witness:
  "interface_order (fst (reorder_positions interface_positioned
     [demo_intf 10 0, demo_intf 11 1, demo_intf 12 2] 0 2)) = [11, 12, 10]"
proof -
  let ?es = "[demo_intf 10 0, demo_intf 11 1, demo_intf 12 2]"
  have "intf.pos_valid ?es"
    unfolding intf.pos_valid_def by (simp add: interface_positioned_def demo_intf_def upt_rec)
  then have "validate_entity_positions interface_positioned ?es = Inr ()"
    by (simp add: intf.pos_valid_validates)
  moreover have "interface_order ?es = [10, 11, 12]"
    by (simp add: interface_order_def demo_intf_def)
  ultimately show ?thesis
    using interface_reorder_moves_entry [of ?es 0 2] by (simp add: move_elem_def)
qed

text \<open>
  a request for the services of a host that omits all positions and names every existing
  service is completed to positions that validate: the existing services keep theirs and
  the new ones come after them, in the order of the request.
\<close>

theorem omitted_service_positions_resolved:
  assumes "validate_entity_positions service_positioned es = Inr ()"
    and "distinct (map service_id es)" "distinct (map si_id xs)"
    and "\<forall>x \<in> set xs. si_position x = None"
    and "service_id ` set es \<subseteq> si_id ` set xs" "xs \<noteq> []"
    and "length es + length xs < 2 ^ 31"
  shows "\<exists>ys. resolve_and_validate_input_positions service_input_positioned service_positioned xs es n = Inr ys
    \<and> map si_id ys = map si_id xs
    \<and> validate_input_positions service_input_positioned ys n = Inr ()
    \<and> (\<forall>y \<in> set ys. \<forall>e \<in> set es. si_id y = service_id e \<longrightarrow> si_position y = Some (vb_position (service_base e)))"
proof -
  have "length es < 2 ^ 31" using assms(7) by simp
  then have valid: "svc.pos_valid es" using assms(1) by (simp add: svc.pos_valid_validates)
  show ?thesis
    using svc.resolve_covering_valid [of es xs n] valid assms(2-7)
    by (simp add: service_positioned_def service_input_positioned_def)
qed

definition demo_service_input :: "uuid \<Rightarrow> ServiceInput" where
  "demo_service_input i = \<lparr>si_id = i, si_service_definition = default_service_definition, si_name = ''x'',
     si_bindings = [], si_virtualization = None, si_tags = [], si_position = None\<rparr>"

lemma omitted_service_positions_resolved_witness:
  "\<exists>ys. resolve_and_validate_input_positions service_input_positioned service_positioned
     [demo_service_input 4, demo_service_input 3] [service_new 3 0 default_service_base] ''service'' = Inr ys
   \<and> validate_input_positions service_input_positioned ys ''service'' = Inr ()"
proof -
  have "svc.pos_valid [service_new 3 0 default_service_base]"
    unfolding svc.pos_valid_def by (simp add: service_positioned_def service_new_def default_service_base_def)
  then have "validate_entity_positions service_positioned [service_new 3 0 default_service_base] = Inr ()"
    by (simp add: svc.pos_valid_validates)
  then show ?thesis
    using omitted_service_positions_resolved [of "[service_new 3 0 default_service_base]"
        "[demo_service_input 4, demo_service_input 3]" "''service''"]
    by (auto simp: demo_service_input_def service_new_def)
qed

section \<open>Ports\<close>

text \<open>
  C38: both textual forms of a port keep its number and protocol: what is serialised reads as
  an equal port, identical when the port is a well-known one, and a well-known port written
  as a custom one comes back as the well-known one; what is printed parses as an equal port.
\<close>

theorem port_text_roundtrip:
  "port_eq (deserialize_port (serialize_port p)) p
    \<and> (\<not> is_custom p \<longrightarrow> deserialize_port (serialize_port p) = p
         \<and> deserialize_port (serialize_port (Custom (config p))) = p)
    \<and> (\<exists>q. port_from_str (port_display p) = Inr q \<and> port_eq q p)"
proof (intro conjI impI)
  have same: "config (deserialize_port (serialize_port q)) = config q" for q
    by (simp add: deserialize_config serialize_port_def port_config_def)
  show "port_eq (deserialize_port (serialize_port p)) p" by (simp add: port_eq_def same)
  assume p: "\<not> is_custom p"
  have pre: "deserialize_port (serialize_port q) = p" if "config q = config p" for q
  proof -
    have "\<not> is_custom (deserialize_port (serialize_port q))"
      using p that by (auto simp: deserialize_custom_iff serialize_port_def port_config_def)
    then show ?thesis using predefined_config_inj [OF _ p] same that by metis
  qed
  show "deserialize_port (serialize_port p) = p" by (rule pre) simp
  show "deserialize_port (serialize_port (Custom (config p))) = p" by (rule pre) simp
next
  show "\<exists>q. port_from_str (port_display p) = Inr q \<and> port_eq q p"
    using port_from_str_display [of p] by (simp add: port_eq_def)
qed

lemma port_text_roundtrip_witness:
  "deserialize_port (serialize_port (Custom (config Ssh))) = Ssh \<and>
   (\<exists>q. port_from_str (port_display Ssh) = Inr q \<and> port_eq q Ssh)"
  using port_text_roundtrip [of Ssh] by (simp add: is_custom_def)

section \<open>Permissions\<close>

text \<open>
  granting never escalates: whoever may grant a permission to a user or to an API key
  holds at least that permission; an administrator cannot appoint an administrator or an
  owner, members and viewers cannot grant to users at all, and everyone may hand their own
  permission to an API key.
\<close>

theorem grants_never_escalate:
  "(can_grant_user_permission g t \<longrightarrow> t \<le> g \<and> Admin \<le> g)
   \<and> (can_grant_user_permission Admin t \<longleftrightarrow> t = Member \<or> t = Viewer)
   \<and> (can_grant_user_permission Owner t)
   \<and> (can_grant_api_key_permission g t \<longleftrightarrow> t \<le> g)
   \<and> (t \<in> set (grantable_api_key_permissions g) \<longleftrightarrow> t \<le> g)
   \<and> permission_from_str (permission_as_str t) = Some t"
  by (cases g; cases t)
     (simp_all add: can_grant_user_cases permission_order grantable_api_key_iff
        can_grant_api_key_permission_def permission_from_str_def)

lemma grants_never_escalate_witness:
  "\<not> can_grant_user_permission Admin Owner \<and> \<not> can_grant_user_permission Member Viewer"
  using grants_never_escalate [of Admin Owner] grants_never_escalate [of Member Viewer]
  by (auto simp: permission_order)

section \<open>Batches of events\<close>

definition always_fresh :: "'e Event \<Rightarrow> bool" where
  \<comment> \<open>telemetry and discovery events have no equality\<close>
  "always_fresh e \<longleftrightarrow> (\<exists>t. e = TelemetryEv t) \<or> (\<exists>d. e = DiscoveryEv d)"

text \<open>
  flushing hands the subscriber one batch with what was pending, without repetition: each
  pending event is in the batch or equals one that is, no two events of the batch are equal,
  and the telemetry and discovery events, which are never equal to anything, are all there in
  order, however often they were published.
\<close>

theorem flush_batch_deduplicates:
  assumes "sub_pending s \<noteq> []"
  shows "\<exists>batch. sub_handled (flush_batch s) = sub_handled s @ [batch]
    \<and> sub_pending (flush_batch s) = []
    \<and> set batch \<subseteq> set (sub_pending s)
    \<and> (\<forall>e \<in> set (sub_pending s). \<exists>x \<in> set batch. x = e \<or> event_eq x e)
    \<and> sorted_wrt (\<lambda>x y. \<not> event_eq x y) batch
    \<and> filter always_fresh batch = filter always_fresh (sub_pending s)"
proof -
  let ?batch = "unique_events (sub_pending s)"
  have "sub_handled (flush_batch s) = sub_handled s @ [?batch] \<and> sub_pending (flush_batch s) = []"
    using assms by (simp add: flush_batch_def Let_def)
  moreover have "set ?batch \<subseteq> set (sub_pending s)"
    using foldl_push_unique_set [of "[]" "sub_pending s"] by (simp add: unique_events_def)
  moreover have "\<forall>e \<in> set (sub_pending s). \<exists>x \<in> set ?batch. x = e \<or> event_eq x e"
    using foldl_push_unique_covers by (auto simp: unique_events_def)
  moreover have "sorted_wrt (\<lambda>x y. \<not> event_eq x y) ?batch"
    unfolding unique_events_def by (rule foldl_push_unique_pairwise) simp
  moreover have "filter always_fresh ?batch = filter always_fresh (sub_pending s)"
  proof -
    have "\<not> event_eq y x" if "always_fresh x" for x y :: "'a Event"
      using that by (cases y) (auto simp: always_fresh_def)
    from foldl_push_unique_filter [of always_fresh "[]" "sub_pending s", OF this]
    show ?thesis by (simp add: unique_events_def)
  qed
  ultimately show ?thesis by blast
qed

definition demo_telemetry :: "nat Event" where
  "demo_telemetry = TelemetryEv \<lparr>te_id = 1, te_organization_id = 2, te_operation = FirstDiscoveryCompleted,
     te_timestamp = 0, te_authentication = AuthSystem, te_metadata = JNull\<rparr>"

lemma flush_batch_deduplicates_witness:
  "\<exists>batch. sub_handled (flush_batch (add_event demo_telemetry (add_event demo_telemetry
      \<lparr>sub_filter = filter_all, sub_debounce = 50, sub_pending = [], sub_handled = []\<rparr>))) = [batch]
   \<and> filter always_fresh batch = [demo_telemetry, demo_telemetry]"
proof -
  let ?s = "add_event demo_telemetry (add_event demo_telemetry
      \<lparr>sub_filter = filter_all, sub_debounce = 50, sub_pending = [], sub_handled = []\<rparr>)"
  have p: "sub_pending ?s = [demo_telemetry, demo_telemetry]" "sub_handled ?s = []"
    by (simp_all add: add_event_def)
  then have "sub_pending ?s \<noteq> []" by simp
  from flush_batch_deduplicates [OF this] show ?thesis
    unfolding p by (auto simp: always_fresh_def demo_telemetry_def)
qed

end
