(* ===== verification/Service_Bindings.thy ===== *)
theory Service_Bindings
  imports Hosts
begin

text \<open>
  The bindings of a service as the service's own service treats them
  (\<open>server/services/service.rs\<close>): which bindings may stand together, the removal of
  redundant ones, the split of a discovered service's bindings into free and claimed ones,
  the merge of a rediscovery, and the move of bindings to another host's interfaces and ports.
\<close>

section \<open>Which bindings may stand together\<close>

text \<open>Anyhow's errors: a \<open>ValidationError\<close> reaches the user as a bad request, the rest does not.\<close>

datatype ServiceError = ValidationError string | OtherError string

definition is_binding_covered_by_existing :: "Binding \<Rightarrow> Binding list \<Rightarrow> bool" where
  "is_binding_covered_by_existing new_b existing =
     (case binding_type new_b of
        PortBinding p (Some _) \<Rightarrow> list_ex (\<lambda>e. binding_type e = PortBinding p None) existing
      | _ \<Rightarrow> False)"

definition blocks_interface :: "uuid \<Rightarrow> Binding \<Rightarrow> bool" where
  "blocks_interface i e =
     (case binding_type e of PortBinding _ j \<Rightarrow> j = Some i \<or> j = None | InterfaceBinding _ \<Rightarrow> False)"

fun validate_binding_no_conflict :: "BindingType \<Rightarrow> Binding list \<Rightarrow> string option" where
  "validate_binding_no_conflict (InterfaceBinding i) existing =
     (if list_ex (blocks_interface i) existing
      then Some ''Cannot add interface binding: service already has a port binding on this interface (or on all interfaces).''
      else None)"
| "validate_binding_no_conflict (PortBinding _ (Some i)) existing =
     (if list_ex (\<lambda>e. binding_type e = InterfaceBinding i) existing
      then Some ''Cannot add port binding: service already has an interface binding on this interface.''
      else None)"
| "validate_binding_no_conflict (PortBinding _ None) existing =
     (if list_ex (\<lambda>e. case binding_type e of InterfaceBinding _ \<Rightarrow> True | PortBinding _ _ \<Rightarrow> False) existing
      then Some ''Cannot add port binding on all interfaces: service already has interface bindings.''
      else None)"

text \<open>The loop over the list, each binding against those before it.\<close>

fun validate_no_conflicts_from :: "Binding list \<Rightarrow> Binding list \<Rightarrow> ServiceError + unit" where
  "validate_no_conflicts_from preceding [] = Inr ()"
| "validate_no_conflicts_from preceding (b # bs) =
     (case validate_binding_no_conflict (binding_type b) preceding of
        Some msg \<Rightarrow> Inl (ValidationError msg)
      | None \<Rightarrow> validate_no_conflicts_from (preceding @ [b]) bs)"

definition validate_bindings_no_conflicts :: "Binding list \<Rightarrow> ServiceError + unit" where
  "validate_bindings_no_conflicts bs = validate_no_conflicts_from [] bs"

section \<open>Redundant bindings\<close>

definition all_interface_port_ids :: "Binding list \<Rightarrow> uuid list" where
  "all_interface_port_ids bs =
     List.map_filter (\<lambda>b. case binding_type b of PortBinding p None \<Rightarrow> Some p | _ \<Rightarrow> None) bs"

text \<open>
  The keys of the seen bindings are the types' debug prints, which tell all types apart; the
  model keeps the types.
\<close>

fun deduplicate_loop :: "uuid list \<Rightarrow> BindingType list \<Rightarrow> Binding list \<Rightarrow> Binding list" where
  "deduplicate_loop ports seen [] = []"
| "deduplicate_loop ports seen (b # bs) =
     (if (case binding_type b of PortBinding p (Some _) \<Rightarrow> p \<in> set ports | _ \<Rightarrow> False)
      then deduplicate_loop ports seen bs
      else if binding_type b \<in> set seen then deduplicate_loop ports seen bs
      else b # deduplicate_loop ports (binding_type b # seen) bs)"

definition deduplicate_bindings :: "Binding list \<Rightarrow> Binding list" where
  "deduplicate_bindings bs = deduplicate_loop (all_interface_port_ids bs) [] bs"

section \<open>Claims of other services\<close>

type_synonym claim = "uuid \<times> uuid option"

definition binding_claim :: "Binding \<Rightarrow> claim option" where
  "binding_claim b = (case binding_type b of PortBinding p i \<Rightarrow> Some (p, i) | InterfaceBinding _ \<Rightarrow> None)"

definition service_claims :: "Service \<Rightarrow> claim list" where
  "service_claims s = List.map_filter binding_claim (bindings (service_base s))"

definition claims_overlap :: "claim \<Rightarrow> claim \<Rightarrow> bool" where
  \<comment> \<open>a claim on the left against one already made on the right\<close>
  "claims_overlap c d =
     (if fst d \<noteq> fst c then False
      else case (snd c, snd d) of
        (None, _) \<Rightarrow> True
      | (_, None) \<Rightarrow> True
      | (Some a, Some b) \<Rightarrow> a = b)"

definition claim_conflicts :: "claim list \<Rightarrow> Binding \<Rightarrow> bool" where
  "claim_conflicts claimed b =
     (case binding_claim b of
        Some c \<Rightarrow> list_ex (\<lambda>d. claims_overlap c d) claimed
      | None \<Rightarrow> False)"

text \<open>\<open>existing\<close> are the services of the host; the claims of the batch come after theirs.\<close>

definition partition_conflicting_bindings ::
    "Service list \<Rightarrow> uuid \<Rightarrow> Binding list \<Rightarrow> claim list \<Rightarrow> Binding list \<times> Binding list" where
  "partition_conflicting_bindings existing sid bs batch_claimed =
     (if bs = [] then ([], [])
      else
        (let db_claimed = concat (map service_claims (filter (\<lambda>s. service_id s \<noteq> sid) existing));
             all_claimed = db_claimed @ batch_claimed
         in if all_claimed = [] then (bs, [])
            else (filter (\<lambda>b. \<not> claim_conflicts all_claimed b) bs,
                  filter (claim_conflicts all_claimed) bs)))"

definition port_entity_display :: "Port \<Rightarrow> string" where
  "port_entity_display p =
     port_display (pb_port_type (port_base p)) @ '' (ID: '' @ uuid_display (port_id p) @ '')''"

definition port_text :: "Port list \<Rightarrow> uuid \<Rightarrow> string" where
  "port_text ports p =
     (case find (\<lambda>x. port_id x = p) ports of
        Some x \<Rightarrow> port_entity_display x
      | None \<Rightarrow> uuid_display p)"

definition port_taken_error :: "Port list \<Rightarrow> uuid \<Rightarrow> Service \<Rightarrow> ServiceError" where
  "port_taken_error ports p owner =
     (let q = [char_of (39::nat)]; nm = q @ vb_name (service_base owner) @ q in
      ValidationError (''Port '' @ port_text ports p @ '' is already bound to '' @ nm @
        '' on this host. Use '' @ q @ ''Transfer Ports'' @ q @ '' to reassign it, or remove the binding from '' @
        nm @ '' first.''))"

fun first_taken :: "Service list \<Rightarrow> Binding list \<Rightarrow> (uuid \<times> Service) option" where
  \<comment> \<open>the first port binding another service has a claim on, and that service\<close>
  "first_taken others [] = None"
| "first_taken others (b # bs) =
     (case binding_claim b of
        None \<Rightarrow> first_taken others bs
      | Some c \<Rightarrow>
          (case find (\<lambda>s. list_ex (claims_overlap c) (service_claims s)) others of
             Some owner \<Rightarrow> Some (fst c, owner)
           | None \<Rightarrow> first_taken others bs))"

section \<open>Bindings and the host\<close>

definition belongs_error :: "string \<Rightarrow> string \<Rightarrow> uuid \<Rightarrow> ServiceError" where
  "belongs_error what target i =
     ValidationError (what @ '' binding references '' @ target @ '' '' @ uuid_display i @
       '' which does not belong to this host'')"

fun belong_loop :: "uuid list \<Rightarrow> uuid list \<Rightarrow> Binding list \<Rightarrow> ServiceError + unit" where
  "belong_loop ports intfs [] = Inr ()"
| "belong_loop ports intfs (b # bs) =
     (case binding_type b of
        InterfaceBinding i \<Rightarrow>
          if i \<notin> set intfs then Inl (belongs_error ''Interface'' ''interface'' i)
          else belong_loop ports intfs bs
      | PortBinding p oi \<Rightarrow>
          if p \<notin> set ports then Inl (belongs_error ''Port'' ''port'' p)
          else (case oi of
              Some i \<Rightarrow>
                if i \<notin> set intfs then Inl (belongs_error ''Port'' ''interface'' i)
                else belong_loop ports intfs bs
            | None \<Rightarrow> belong_loop ports intfs bs))"

definition validate_bindings_belong_to_host ::
    "Port list \<Rightarrow> Interface list \<Rightarrow> Binding list \<Rightarrow> ServiceError + unit" where
  "validate_bindings_belong_to_host ports intfs bs =
     belong_loop (map port_id ports) (map interface_id intfs) bs"

text \<open>
  Moving a service to another host: an interface is recognised by the equality of interfaces,
  a port by number and protocol.
\<close>

definition reassign_binding ::
    "Interface list \<Rightarrow> Port list \<Rightarrow> Interface list \<Rightarrow> Port list \<Rightarrow> Binding \<Rightarrow> Binding option" where
  "reassign_binding orig_intfs orig_ports upd_intfs upd_ports b =
     (let original = (case binding_interface_id b of
                        Some i \<Rightarrow> find (\<lambda>x. interface_id x = i) orig_intfs
                      | None \<Rightarrow> None);
          retarget = (\<lambda>t. b\<lparr>binding_base := (binding_base b)\<lparr>bb_binding_type := t\<rparr>\<rparr>)
      in case binding_type b of
           InterfaceBinding _ \<Rightarrow>
             (case original of
                None \<Rightarrow> None
              | Some x \<Rightarrow>
                  (case find (\<lambda>y. interface_eq y x) upd_intfs of
                     None \<Rightarrow> None
                   | Some y \<Rightarrow> Some (retarget (InterfaceBinding (interface_id y)))))
         | PortBinding p _ \<Rightarrow>
             (case find (\<lambda>x. port_id x = p) orig_ports of
                None \<Rightarrow> None
              | Some op \<Rightarrow>
                  (case find (\<lambda>y. port_entity_eq y op) upd_ports of
                     None \<Rightarrow> None
                   | Some np \<Rightarrow>
                       Some (retarget (PortBinding (port_id np)
                         (case original of
                            None \<Rightarrow> None
                          | Some x \<Rightarrow> map_option interface_id (find (\<lambda>y. interface_eq y x) upd_intfs)))))))"

definition reassign_service_interface_bindings ::
    "Service \<Rightarrow> Interface list \<Rightarrow> Port list \<Rightarrow> Host \<Rightarrow> Interface list \<Rightarrow> Port list \<Rightarrow> Service" where
  "reassign_service_interface_bindings s orig_intfs orig_ports updated_host upd_intfs upd_ports =
     s\<lparr>service_base := (service_base s)
        \<lparr>bindings := List.map_filter (reassign_binding orig_intfs orig_ports upd_intfs upd_ports)
                      (bindings (service_base s)),
         vb_host_id := host_id updated_host,
         vb_network_id := hb_network_id (host_base updated_host)\<rparr>\<rparr>"

section \<open>The merge of a rediscovery\<close>

definition dominated_by :: "Binding \<Rightarrow> Binding \<Rightarrow> bool" where
  "dominated_by new_b e =
     (case binding_type new_b of
        PortBinding p None \<Rightarrow> (case binding_type e of PortBinding q (Some _) \<Rightarrow> q = p | _ \<Rightarrow> False)
      | _ \<Rightarrow> False)"

definition upsert_binding :: "Binding list \<times> nat \<Rightarrow> Binding \<Rightarrow> Binding list \<times> nat" where
  \<comment> \<open>one iteration, with the count of binding updates\<close>
  "upsert_binding acc new_b =
     (let (existing, n) = acc in
      if is_binding_covered_by_existing new_b existing then acc
      else if validate_binding_no_conflict (binding_type new_b) existing \<noteq> None then acc
      else
        (let kept = filter (\<lambda>e. \<not> dominated_by new_b e) existing;
             n1 = n + (length existing - length kept)
         in if list_ex (\<lambda>e. binding_eq e new_b) kept then (kept, n1)
            else (kept @ [new_b], n1 + 1)))"

definition upsert_bindings :: "Binding list \<Rightarrow> Binding list \<Rightarrow> Binding list \<times> nat" where
  "upsert_bindings existing new_bs = foldl upsert_binding (existing, 0) new_bs"

definition upsert_source :: "EntitySource \<Rightarrow> EntitySource \<Rightarrow> EntitySource" where
  "upsert_source existing new_src =
     (case new_src of
        DiscoveryWithMatch m d \<Rightarrow>
          (case existing of
             DiscoveryWithMatch em ed \<Rightarrow>
               DiscoveryWithMatch (take MAX_DISCOVERY_METADATA_ENTRIES (m @ em))
                 \<lparr>md_reason = (if md_confidence d > md_confidence ed then md_reason d else md_reason ed),
                  md_confidence = max (md_confidence ed) (md_confidence d)\<rparr>
           | _ \<Rightarrow> DiscoveryWithMatch m d)
      | _ \<Rightarrow> existing)"

definition merged_service :: "Service \<Rightarrow> Service \<Rightarrow> Service" where
  "merged_service existing new_s =
     existing\<lparr>service_base := (service_base existing)
        \<lparr>bindings := fst (upsert_bindings (bindings (service_base existing)) (bindings (service_base new_s))),
         virtualization := (case virtualization (service_base new_s) of
            Some v \<Rightarrow> Some v | None \<Rightarrow> virtualization (service_base existing)),
         vb_source := upsert_source (vb_source (service_base existing)) (vb_source (service_base new_s))\<rparr>\<rparr>"

section \<open>The relation behind the checks\<close>

fun types_conflict :: "BindingType \<Rightarrow> BindingType \<Rightarrow> bool" where
  "types_conflict (InterfaceBinding i) (PortBinding _ j) \<longleftrightarrow> j = None \<or> j = Some i"
| "types_conflict (PortBinding _ j) (InterfaceBinding i) \<longleftrightarrow> j = None \<or> j = Some i"
| "types_conflict _ _ \<longleftrightarrow> False"

lemma types_conflict_sym: "types_conflict s t = types_conflict t s"
  by (cases s; cases t) auto

lemma types_conflict_irrefl [simp]: "\<not> types_conflict t t"
  by (cases t) auto

lemma no_conflict_iff:
  "validate_binding_no_conflict t es = None \<longleftrightarrow> (\<forall>e \<in> set es. \<not> types_conflict t (binding_type e))"
proof (cases t)
  case (InterfaceBinding i)
  have "blocks_interface i e \<longleftrightarrow> types_conflict t (binding_type e)" for e
    by (auto simp: InterfaceBinding blocks_interface_def split: BindingType.split)
  then show ?thesis by (auto simp: InterfaceBinding list_ex_iff)
next
  case (PortBinding p oi)
  show ?thesis
  proof (cases oi)
    case None
    have "(case binding_type e of InterfaceBinding _ \<Rightarrow> True | PortBinding _ _ \<Rightarrow> False) \<longleftrightarrow>
        types_conflict t (binding_type e)" for e
      by (auto simp: PortBinding None split: BindingType.split)
    then show ?thesis by (simp add: PortBinding None list_ex_iff)
  next
    case (Some i)
    have "binding_type e = InterfaceBinding i \<longleftrightarrow> types_conflict t (binding_type e)" for e
      by (cases "binding_type e") (auto simp: PortBinding Some)
    then show ?thesis by (simp add: PortBinding Some list_ex_iff)
  qed
qed

definition pairwise_free :: "Binding list \<Rightarrow> bool" where
  "pairwise_free bs \<longleftrightarrow>
     (\<forall>a \<in> set bs. \<forall>b \<in> set bs. \<not> types_conflict (binding_type a) (binding_type b))"

lemma no_conflicts_from_iff:
  "pairwise_free pre \<Longrightarrow>
   validate_no_conflicts_from pre bs = Inr () \<longleftrightarrow> pairwise_free (pre @ bs)"
proof (induction bs arbitrary: pre)
  case (Cons b bs)
  show ?case
  proof (cases "validate_binding_no_conflict (binding_type b) pre")
    case None
    then have "pairwise_free (pre @ [b])"
      using Cons.prems by (auto simp: no_conflict_iff pairwise_free_def types_conflict_sym)
    from Cons.IH [OF this] None show ?thesis by simp
  next
    case (Some m)
    then have "\<not> (\<forall>e \<in> set pre. \<not> types_conflict (binding_type b) (binding_type e))"
      using no_conflict_iff [of "binding_type b" pre] by simp
    then have "\<not> pairwise_free (pre @ b # bs)"
      by (fastforce simp: pairwise_free_def)
    with Some show ?thesis by simp
  qed
qed simp

lemma no_conflicts_iff: "validate_bindings_no_conflicts bs = Inr () \<longleftrightarrow> pairwise_free bs"
  unfolding validate_bindings_no_conflicts_def
  by (subst no_conflicts_from_iff) (simp_all add: pairwise_free_def)

section \<open>Well-formed binding lists\<close>

text \<open>
  No two bindings of a service conflict, none repeats another, and none names an interface of
  a port that another binds on all interfaces.
\<close>

definition bindings_ok :: "Binding list \<Rightarrow> bool" where
  "bindings_ok bs \<longleftrightarrow>
     distinct (map binding_type bs) \<and> pairwise_free bs \<and>
     (\<forall>a \<in> set bs. \<forall>b \<in> set bs. \<not> dominated_by a b)"

definition serves :: "Binding list \<Rightarrow> uuid \<Rightarrow> uuid \<Rightarrow> bool" where
  \<comment> \<open>the port is bound on the interface, by itself or on all of them\<close>
  "serves bs p i \<longleftrightarrow>
     (\<exists>b \<in> set bs. binding_type b = PortBinding p None \<or> binding_type b = PortBinding p (Some i))"

lemma all_interface_port_ids_iff:
  "p \<in> set (all_interface_port_ids bs) \<longleftrightarrow> (\<exists>b \<in> set bs. binding_type b = PortBinding p None)"
  by (force simp: all_interface_port_ids_def List.map_filter_def split: BindingType.splits option.splits)

lemma deduplicate_loop_set:
  "set (map binding_type (deduplicate_loop ports seen bs)) =
     {t \<in> set (map binding_type bs). t \<notin> set seen \<and> (\<forall>p i. t = PortBinding p (Some i) \<longrightarrow> p \<notin> set ports)}"
  by (induction ports seen bs rule: deduplicate_loop.induct)
     (auto split: BindingType.splits option.splits if_splits)

lemma deduplicate_loop_distinct:
  "distinct (map binding_type (deduplicate_loop ports seen bs))"
proof (induction ports seen bs rule: deduplicate_loop.induct)
  case (2 ports seen b bs)
  then show ?case
    using deduplicate_loop_set [of ports "binding_type b # seen" bs] by auto
qed simp

lemma deduplicate_types:
  "t \<in> set (map binding_type (deduplicate_bindings bs)) \<longleftrightarrow>
     t \<in> set (map binding_type bs) \<and>
     (\<forall>p i. t = PortBinding p (Some i) \<longrightarrow> PortBinding p None \<notin> set (map binding_type bs))"
  unfolding deduplicate_bindings_def deduplicate_loop_set
  by (auto simp: all_interface_port_ids_iff) force+

lemma set_deduplicate_loop: "set (deduplicate_loop ports seen bs) \<subseteq> set bs"
  by (induction ports seen bs rule: deduplicate_loop.induct) (auto split: if_splits)

lemma set_deduplicate: "set (deduplicate_bindings bs) \<subseteq> set bs"
  by (simp add: deduplicate_bindings_def set_deduplicate_loop)

lemma bindings_okD:
  assumes "bindings_ok bs"
  shows "distinct (map binding_type bs)" "pairwise_free bs"
    "\<And>a b. a \<in> set bs \<Longrightarrow> b \<in> set bs \<Longrightarrow> \<not> dominated_by a b"
  using assms by (auto simp: bindings_ok_def)

lemma dominated_by_iff:
  "dominated_by a b \<longleftrightarrow>
     (\<exists>p i. binding_type a = PortBinding p None \<and> binding_type b = PortBinding p (Some i))"
  by (auto simp: dominated_by_def split: BindingType.splits option.splits)

lemma pairwise_free_subset: "pairwise_free bs \<Longrightarrow> set cs \<subseteq> set bs \<Longrightarrow> pairwise_free cs"
  by (auto simp: pairwise_free_def)

lemma deduplicate_ok:
  assumes "pairwise_free bs"
  shows "bindings_ok (deduplicate_bindings bs)"
proof -
  have "\<not> dominated_by a b" if "a \<in> set (deduplicate_bindings bs)" "b \<in> set (deduplicate_bindings bs)" for a b
  proof
    assume "dominated_by a b"
    then obtain p i where t: "binding_type a = PortBinding p None" "binding_type b = PortBinding p (Some i)"
      by (auto simp: dominated_by_iff)
    have "binding_type b \<in> set (map binding_type (deduplicate_bindings bs))" using that by simp
    then have "PortBinding p None \<notin> set (map binding_type bs)"
      unfolding deduplicate_types t(2) by blast
    moreover have "a \<in> set bs" using that set_deduplicate by blast
    ultimately show False using t by (metis image_eqI set_map)
  qed
  then show ?thesis
    using deduplicate_loop_distinct pairwise_free_subset [OF assms set_deduplicate]
    by (auto simp: bindings_ok_def deduplicate_bindings_def)
qed

lemma serves_types:
  "serves bs p i \<longleftrightarrow>
     PortBinding p None \<in> set (map binding_type bs) \<or> PortBinding p (Some i) \<in> set (map binding_type bs)"
  by (force simp: serves_def)

lemma deduplicate_serves: "serves (deduplicate_bindings bs) p i = serves bs p i"
proof -
  have "PortBinding p None \<in> set (map binding_type (deduplicate_bindings bs)) \<longleftrightarrow>
      PortBinding p None \<in> set (map binding_type bs)"
    unfolding deduplicate_types by simp
  moreover have "PortBinding p (Some i) \<in> set (map binding_type (deduplicate_bindings bs)) \<longleftrightarrow>
      PortBinding p (Some i) \<in> set (map binding_type bs) \<and> PortBinding p None \<notin> set (map binding_type bs)"
    unfolding deduplicate_types by simp
  ultimately show ?thesis unfolding serves_types by blast
qed

lemma deduplicate_idem:
  assumes "bindings_ok bs"
  shows "deduplicate_bindings bs = bs"
proof -
  have "deduplicate_loop ports seen bs = bs"
    if "distinct (map binding_type bs)" "\<forall>b \<in> set bs. binding_type b \<notin> set seen"
      "\<forall>b \<in> set bs. \<forall>p i. binding_type b = PortBinding p (Some i) \<longrightarrow> p \<notin> set ports" for ports seen bs
    using that
    by (induction ports seen bs rule: deduplicate_loop.induct)
       (auto split: BindingType.splits option.splits, (metis image_eqI)+)
  moreover have "\<forall>b \<in> set bs. \<forall>p i. binding_type b = PortBinding p (Some i) \<longrightarrow>
      p \<notin> set (all_interface_port_ids bs)"
    using bindings_okD(3) [OF assms] by (auto simp: all_interface_port_ids_iff dominated_by_iff)
  ultimately show ?thesis
    using bindings_okD(1) [OF assms] by (simp add: deduplicate_bindings_def)
qed

section \<open>The merge keeps lists well-formed\<close>

lemma covered_iff:
  "is_binding_covered_by_existing b es \<longleftrightarrow>
     (\<exists>p i. binding_type b = PortBinding p (Some i) \<and> PortBinding p None \<in> set (map binding_type es))"
  by (auto simp: is_binding_covered_by_existing_def list_ex_iff image_iff
      split: BindingType.splits option.splits) metis+

lemma list_ex_binding_eq: "list_ex (\<lambda>e. binding_eq e b) es \<longleftrightarrow> binding_type b \<in> set (map binding_type es)"
  by (simp add: list_ex_iff binding_eq_def image_iff) metis

lemma kept_types:
  "binding_type b \<in> set (map binding_type (filter (\<lambda>e. \<not> dominated_by b e) es)) \<longleftrightarrow>
     binding_type b \<in> set (map binding_type es)"
  by (auto simp: dominated_by_iff)

text \<open>What one iteration does, without the count.\<close>

lemma upsert_binding_fst:
  "fst (upsert_binding (es, n) b) =
     (if is_binding_covered_by_existing b es \<or> validate_binding_no_conflict (binding_type b) es \<noteq> None then es
      else if binding_type b \<in> set (map binding_type es) then filter (\<lambda>e. \<not> dominated_by b e) es
      else filter (\<lambda>e. \<not> dominated_by b e) es @ [b])"
  by (simp add: upsert_binding_def Let_def list_ex_binding_eq kept_types del: set_map)

lemma upsert_binding_ok:
  assumes "bindings_ok es"
  shows "bindings_ok (fst (upsert_binding (es, n) b))"
proof (cases "is_binding_covered_by_existing b es \<or> validate_binding_no_conflict (binding_type b) es \<noteq> None")
  case False
  let ?kept = "filter (\<lambda>e. \<not> dominated_by b e) es"
  have free: "\<forall>e \<in> set es. \<not> types_conflict (binding_type b) (binding_type e)"
    using False by (simp add: no_conflict_iff)
  have kept: "bindings_ok ?kept"
    using assms by (auto simp: bindings_ok_def pairwise_free_def distinct_map_filter)
  moreover have "bindings_ok (?kept @ [b])" if "binding_type b \<notin> set (map binding_type es)"
  proof -
    have "\<not> dominated_by e b" if "e \<in> set es" for e
    proof
      assume "dominated_by e b"
      then obtain p i where "binding_type e = PortBinding p None" "binding_type b = PortBinding p (Some i)"
        by (auto simp: dominated_by_iff)
      with that have "is_binding_covered_by_existing b es" by (force simp: covered_iff)
      with False show False by simp
    qed
    moreover have "\<not> dominated_by b b" by (auto simp: dominated_by_iff)
    moreover have "pairwise_free (?kept @ [b])"
      using free kept by (auto simp: pairwise_free_def bindings_ok_def types_conflict_sym)
    ultimately show ?thesis
      using kept that by (auto simp: bindings_ok_def)
  qed
  ultimately show ?thesis using False by (simp add: upsert_binding_fst)
qed (simp add: upsert_binding_fst assms)

lemma upsert_binding_serves:
  assumes "serves es p i"
  shows "serves (fst (upsert_binding (es, n) b)) p i"
proof -
  obtain e where e: "e \<in> set es" "binding_type e = PortBinding p None \<or> binding_type e = PortBinding p (Some i)"
    using assms by (auto simp: serves_def)
  show ?thesis
  proof (cases "dominated_by b e")
    case False
    then have "e \<in> set (fst (upsert_binding (es, n) b))"
      using e by (simp add: upsert_binding_fst)
    with e show ?thesis by (auto simp: serves_def)
  next
    case True
    with e have b: "binding_type b = PortBinding p None" by (auto simp: dominated_by_iff)
    show ?thesis
    proof (cases "binding_type b \<in> set (map binding_type es)")
      case True
      then obtain f where "f \<in> set es" "binding_type f = PortBinding p None" using b by auto
      then have "f \<in> set (fst (upsert_binding (es, n) b))"
        by (auto simp: upsert_binding_fst dominated_by_iff)
      with \<open>binding_type f = PortBinding p None\<close> show ?thesis by (auto simp: serves_def)
    next
      case False
      then show ?thesis
        using assms b by (auto simp: upsert_binding_fst serves_def)
    qed
  qed
qed

lemma upsert_bindings_ok: "bindings_ok es \<Longrightarrow> bindings_ok (fst (foldl upsert_binding (es, n) bs))"
proof (induction bs arbitrary: es n)
  case (Cons b bs)
  then show ?case using upsert_binding_ok [of es n b] by (cases "upsert_binding (es, n) b") auto
qed simp

lemma upsert_bindings_serves: "serves es p i \<Longrightarrow> serves (fst (foldl upsert_binding (es, n) bs)) p i"
proof (induction bs arbitrary: es n)
  case (Cons b bs)
  then show ?case using upsert_binding_serves [of es p i n b] by (cases "upsert_binding (es, n) b") auto
qed simp

text \<open>A binding that stands in the list already, or is served by it, changes nothing.\<close>

lemma upsert_binding_present:
  assumes "bindings_ok es" "binding_type b \<in> set (map binding_type es)"
  shows "upsert_binding (es, n) b = (es, n)"
proof -
  obtain e where e: "e \<in> set es" "binding_type e = binding_type b" using assms(2) by auto
  have kept: "filter (\<lambda>x. \<not> dominated_by b x) es = es"
    using bindings_okD(3) [OF assms(1) e(1)] e(2) by (auto simp: filter_id_conv dominated_by_iff)
  show ?thesis
    using assms(2) by (simp add: upsert_binding_def Let_def kept list_ex_binding_eq del: set_map)
qed

lemma upsert_binding_settled:
  assumes "bindings_ok es" "is_binding_covered_by_existing b es \<or>
      validate_binding_no_conflict (binding_type b) es \<noteq> None \<or> binding_type b \<in> set (map binding_type es)"
  shows "upsert_binding (es, n) b = (es, n)"
proof (cases "binding_type b \<in> set (map binding_type es)")
  case True
  then show ?thesis by (rule upsert_binding_present [OF assms(1)])
next
  case False
  with assms(2) show ?thesis by (auto simp: upsert_binding_def)
qed

text \<open>Once settled, a binding stays settled while others are merged.\<close>

definition settled :: "Binding list \<Rightarrow> Binding \<Rightarrow> bool" where
  "settled es b \<longleftrightarrow> is_binding_covered_by_existing b es \<or>
     validate_binding_no_conflict (binding_type b) es \<noteq> None \<or> binding_type b \<in> set (map binding_type es)"

lemma settled_after: "settled (fst (upsert_binding (es, n) b)) b"
  unfolding settled_def upsert_binding_fst using kept_types [of b es] by (auto simp del: set_map)

lemma types_after:
  "t \<in> set (map binding_type es) \<Longrightarrow>
   t \<in> set (map binding_type (fst (upsert_binding (es, n) c))) \<or>
   (\<exists>p i. t = PortBinding p (Some i) \<and> PortBinding p None \<in> set (map binding_type (fst (upsert_binding (es, n) c))))"
proof -
  assume "t \<in> set (map binding_type es)"
  then obtain e where e: "e \<in> set es" "binding_type e = t" by auto
  show ?thesis
  proof (cases "e \<in> set (fst (upsert_binding (es, n) c))")
    case True
    with e show ?thesis by auto
  next
    case False
    with e have d: "dominated_by c e" by (auto simp: upsert_binding_fst split: if_splits)
    then obtain p i where pi: "binding_type c = PortBinding p None" "t = PortBinding p (Some i)"
      using e by (auto simp: dominated_by_iff)
    have "PortBinding p None \<in> set (map binding_type (fst (upsert_binding (es, n) c)))"
    proof (cases "binding_type c \<in> set (map binding_type es)")
      case True
      then obtain f where "f \<in> set es" "binding_type f = PortBinding p None" using pi by auto
      then show ?thesis
        by (force simp: upsert_binding_fst dominated_by_iff)
    next
      case nin: False
      then show ?thesis using False e d pi by (auto simp: upsert_binding_fst split: if_splits)
    qed
    with pi show ?thesis by blast
  qed
qed

lemma settled_mono: "settled es b \<Longrightarrow> settled (fst (upsert_binding (es, n) c)) b"
proof -
  let ?es' = "fst (upsert_binding (es, n) c)"
  assume "settled es b"
  then consider (covered) p i where "binding_type b = PortBinding p (Some i)" "PortBinding p None \<in> set (map binding_type es)"
    | (conflict) e where "e \<in> set es" "types_conflict (binding_type b) (binding_type e)"
    | (member) "binding_type b \<in> set (map binding_type es)"
    unfolding settled_def covered_iff using no_conflict_iff [of "binding_type b" es] by auto
  then show ?thesis
  proof cases
    case covered
    with types_after [OF covered(2), of n c] show ?thesis by (auto simp: settled_def covered_iff)
  next
    case conflict
    from types_after [of "binding_type e" es n c] conflict(1)
    obtain f where "f \<in> set ?es'" "binding_type f = binding_type e \<or>
        (\<exists>p i. binding_type e = PortBinding p (Some i) \<and> binding_type f = PortBinding p None)"
      by auto
    moreover from this conflict(2) have "types_conflict (binding_type b) (binding_type f)"
      by (cases "binding_type b") auto
    ultimately show ?thesis using no_conflict_iff unfolding settled_def by blast
  next
    case member
    from types_after [OF this, of n c] show ?thesis by (auto simp: settled_def covered_iff)
  qed
qed

lemma settled_fold: "settled es b \<Longrightarrow> settled (fst (foldl upsert_binding (es, n) bs)) b"
proof (induction bs arbitrary: es n)
  case (Cons c bs)
  then show ?case using settled_mono [of es b n c] by (cases "upsert_binding (es, n) c") auto
qed simp

lemma settled_all: "b \<in> set bs \<Longrightarrow> settled (fst (foldl upsert_binding (es, n) bs)) b"
proof (induction bs arbitrary: es n)
  case (Cons c bs)
  obtain es' n' where u: "upsert_binding (es, n) c = (es', n')" by fastforce
  show ?case
  proof (cases "b = c")
    case True
    then show ?thesis using settled_fold [OF settled_after [of es n c]] by (simp add: u)
  next
    case False
    with Cons show ?thesis by (simp add: u)
  qed
qed simp

lemma foldl_settled:
  assumes "bindings_ok es"
  shows "(\<forall>b \<in> set bs. settled es b) \<Longrightarrow> foldl upsert_binding (es, n) bs = (es, n)"
  by (induction bs) (use upsert_binding_settled [OF assms, folded settled_def] in auto)

end
