(* ===== verification/If_Entries.thy ===== *)
theory If_Entries
  imports Entity_Types
begin

text \<open>
  SNMP interface entries (\<open>server/if_entries/impl/base.rs\<close>) with the LLDP identifiers they
  carry and the resolution of these identifiers
  (\<open>server/snmp_credentials/resolution/lldp.rs\<close>). The lookups in the database are the
  dictionary of the trait \<open>LldpResolver\<close>.
\<close>

section \<open>LLDP identifiers\<close>

datatype LldpChassisId =
    ChassisComponent string
  | ChassisInterfaceAlias string
  | ChassisPortComponent string
  | ChassisMacAddress string
  | ChassisNetworkAddress IpAddr
  | ChassisInterfaceName string
  | ChassisLocallyAssigned string

datatype LldpPortId =
    PortInterfaceAlias string
  | PortComponentId string
  | PortMacAddress string
  | PortNetworkAddress IpAddr
  | PortInterfaceName string
  | PortAgentCircuitId string
  | PortLocallyAssigned string

text \<open>The bytes of an identifier are read as text, byte by byte (ASCII).\<close>

definition from_utf8_lossy :: "u8 list \<Rightarrow> string" where
  "from_utf8_lossy bs = map (\<lambda>b. char_of (unat b)) bs"

definition format_mac :: "u8 list \<Rightarrow> string" where
  "format_mac bs = str_join '':'' (map (\<lambda>b. hex_padded 2 (unat b)) bs)"

definition parse_network_address :: "u8 list \<Rightarrow> IpAddr option" where
  "parse_network_address value =
     (case value of
        [] \<Rightarrow> None
      | family # bytes \<Rightarrow>
          if family = 1 \<and> length bytes = 4 then Some (V4 (word_rcat bytes))
          else if family = 2 \<and> length bytes = 16 then Some (V6 (word_rcat bytes))
          else None)"

definition chassis_from_snmp :: "u8 \<Rightarrow> u8 list \<Rightarrow> LldpChassisId option" where
  "chassis_from_snmp subtype value =
     (if subtype = 1 then Some (ChassisComponent (from_utf8_lossy value))
      else if subtype = 2 then Some (ChassisInterfaceAlias (from_utf8_lossy value))
      else if subtype = 3 then Some (ChassisPortComponent (from_utf8_lossy value))
      else if subtype = 4 \<and> length value = 6 then Some (ChassisMacAddress (format_mac value))
      else if subtype = 5 then map_option ChassisNetworkAddress (parse_network_address value)
      else if subtype = 6 then Some (ChassisInterfaceName (from_utf8_lossy value))
      else if subtype = 7 then Some (ChassisLocallyAssigned (from_utf8_lossy value))
      else None)"

definition port_from_snmp :: "u8 \<Rightarrow> u8 list \<Rightarrow> LldpPortId option" where
  "port_from_snmp subtype value =
     (if subtype = 1 then Some (PortInterfaceAlias (from_utf8_lossy value))
      else if subtype = 2 then Some (PortComponentId (from_utf8_lossy value))
      else if subtype = 3 \<and> length value = 6 then Some (PortMacAddress (format_mac value))
      else if subtype = 4 then map_option PortNetworkAddress (parse_network_address value)
      else if subtype = 5 then Some (PortInterfaceName (from_utf8_lossy value))
      else if subtype = 6 then Some (PortAgentCircuitId (from_utf8_lossy value))
      else if subtype = 7 then Some (PortLocallyAssigned (from_utf8_lossy value))
      else None)"

record LldpResolver =
  find_host_by_mac :: "string \<Rightarrow> uuid \<Rightarrow> uuid option"
  find_host_by_ip :: "IpAddr \<Rightarrow> uuid \<Rightarrow> uuid option"
  find_host_by_if_name :: "string \<Rightarrow> uuid \<Rightarrow> uuid option"
  find_host_by_chassis_id :: "string \<Rightarrow> uuid \<Rightarrow> uuid option"
  find_if_entry_by_mac :: "string \<Rightarrow> uuid \<Rightarrow> uuid option"
  find_if_entry_by_name :: "string \<Rightarrow> uuid \<Rightarrow> uuid option"
  find_if_entry_by_ip :: "IpAddr \<Rightarrow> uuid \<Rightarrow> uuid option"

fun resolve_host_id :: "LldpResolver \<Rightarrow> LldpChassisId \<Rightarrow> uuid \<Rightarrow> uuid option" where
  "resolve_host_id R (ChassisMacAddress mac) network = find_host_by_mac R mac network"
| "resolve_host_id R (ChassisNetworkAddress ip) network = find_host_by_ip R ip network"
| "resolve_host_id R (ChassisInterfaceName nm) network = find_host_by_if_name R nm network"
| "resolve_host_id R (ChassisComponent i) network = find_host_by_chassis_id R i network"
| "resolve_host_id R (ChassisLocallyAssigned i) network = find_host_by_chassis_id R i network"
| "resolve_host_id R (ChassisInterfaceAlias _) network = None"
| "resolve_host_id R (ChassisPortComponent _) network = None"

fun resolve_if_entry_id :: "LldpResolver \<Rightarrow> LldpPortId \<Rightarrow> uuid \<Rightarrow> uuid option" where
  "resolve_if_entry_id R (PortMacAddress mac) host = find_if_entry_by_mac R mac host"
| "resolve_if_entry_id R (PortInterfaceName nm) host = find_if_entry_by_name R nm host"
| "resolve_if_entry_id R (PortInterfaceAlias nm) host = find_if_entry_by_name R nm host"
| "resolve_if_entry_id R (PortNetworkAddress ip) host = find_if_entry_by_ip R ip host"
| "resolve_if_entry_id R (PortComponentId _) host = None"
| "resolve_if_entry_id R (PortAgentCircuitId _) host = None"
| "resolve_if_entry_id R (PortLocallyAssigned _) host = None"

section \<open>The entity\<close>

datatype Neighbor = NeighborIfEntry uuid | NeighborHost uuid

fun neighbor_if_entry_id :: "Neighbor \<Rightarrow> uuid option" where
  "neighbor_if_entry_id (NeighborIfEntry i) = Some i"
| "neighbor_if_entry_id (NeighborHost _) = None"

fun is_full_resolution :: "Neighbor \<Rightarrow> bool" where
  "is_full_resolution (NeighborIfEntry _) = True"
| "is_full_resolution (NeighborHost _) = False"

fun is_partial_resolution :: "Neighbor \<Rightarrow> bool" where
  "is_partial_resolution (NeighborHost _) = True"
| "is_partial_resolution (NeighborIfEntry _) = False"

datatype IfAdminStatus = AdminUp | AdminDown | AdminTesting

definition admin_status_from :: "int \<Rightarrow> IfAdminStatus" where
  "admin_status_from v = (if v = 1 then AdminUp else if v = 2 then AdminDown else if v = 3 then AdminTesting else AdminUp)"

fun admin_status_value :: "IfAdminStatus \<Rightarrow> int" where
  "admin_status_value AdminUp = 1"
| "admin_status_value AdminDown = 2"
| "admin_status_value AdminTesting = 3"

datatype IfOperStatus =
    OperUp | OperDown | OperTesting | OperUnknown | OperDormant | OperNotPresent | OperLowerLayerDown

definition oper_status_from :: "int \<Rightarrow> IfOperStatus" where
  "oper_status_from v =
     (if v = 1 then OperUp else if v = 2 then OperDown else if v = 3 then OperTesting
      else if v = 4 then OperUnknown else if v = 5 then OperDormant else if v = 6 then OperNotPresent
      else if v = 7 then OperLowerLayerDown else OperUnknown)"

fun oper_status_value :: "IfOperStatus \<Rightarrow> int" where
  "oper_status_value OperUp = 1"
| "oper_status_value OperDown = 2"
| "oper_status_value OperTesting = 3"
| "oper_status_value OperUnknown = 4"
| "oper_status_value OperDormant = 5"
| "oper_status_value OperNotPresent = 6"
| "oper_status_value OperLowerLayerDown = 7"

record IfEntryBase =
  fb_host_id :: uuid
  fb_network_id :: uuid
  if_index :: i32
  if_descr :: string
  if_alias :: "string option"
  if_type :: i32
  speed_bps :: "int option"
  admin_status :: IfAdminStatus
  oper_status :: IfOperStatus
  fb_mac_address :: "MacAddress option"
  fb_interface_id :: "uuid option"
  neighbor :: "Neighbor option"
  lldp_chassis_id :: "LldpChassisId option"
  lldp_port_id :: "LldpPortId option"
  lldp_sys_name :: "string option"
  lldp_port_desc :: "string option"
  lldp_mgmt_addr :: "IpAddr option"
  lldp_sys_desc :: "string option"
  cdp_device_id :: "string option"
  cdp_port_id :: "string option"
  cdp_platform :: "string option"
  cdp_address :: "IpAddr option"

record IfEntry =
  if_entry_id :: uuid
  if_entry_created_at :: timestamp
  if_entry_updated_at :: timestamp
  if_entry_base :: IfEntryBase

definition default_if_entry_base :: IfEntryBase where
  "default_if_entry_base =
     \<lparr>fb_host_id = uuid_nil, fb_network_id = uuid_nil, if_index = 0, if_descr = [], if_alias = None,
      if_type = 1, speed_bps = None, admin_status = AdminUp, oper_status = OperUp,
      fb_mac_address = None, fb_interface_id = None, neighbor = None, lldp_chassis_id = None,
      lldp_port_id = None, lldp_sys_name = None, lldp_port_desc = None, lldp_mgmt_addr = None,
      lldp_sys_desc = None, cdp_device_id = None, cdp_port_id = None, cdp_platform = None,
      cdp_address = None\<rparr>"

definition if_entry_new :: "uuid \<Rightarrow> timestamp \<Rightarrow> IfEntryBase \<Rightarrow> IfEntry" where
  "if_entry_new fresh now b =
     \<lparr>if_entry_id = fresh, if_entry_created_at = now, if_entry_updated_at = now, if_entry_base = b\<rparr>"

definition if_entry_triggers_staleness :: "IfEntry \<Rightarrow> IfEntry option \<Rightarrow> bool" where
  "if_entry_triggers_staleness e other =
     (case other of
        Some f \<Rightarrow>
          neighbor (if_entry_base e) \<noteq> neighbor (if_entry_base f) \<or>
          fb_interface_id (if_entry_base e) \<noteq> fb_interface_id (if_entry_base f) \<or>
          fb_host_id (if_entry_base e) \<noteq> fb_host_id (if_entry_base f)
      | None \<Rightarrow> True)"

definition if_entry_display :: "IfEntry \<Rightarrow> string" where
  "if_entry_display e =
     ''IfEntry '' @ uuid_display (if_entry_id e) @ '' (ifIndex '' @ show_int (if_index (if_entry_base e)) @
     ''): '' @ if_descr (if_entry_base e)"

definition is_up :: "IfEntry \<Rightarrow> bool" where
  "is_up e \<longleftrightarrow> oper_status (if_entry_base e) = OperUp"

definition is_admin_up :: "IfEntry \<Rightarrow> bool" where
  "is_admin_up e \<longleftrightarrow> admin_status (if_entry_base e) = AdminUp"

definition if_display_name :: "IfEntry \<Rightarrow> string" where
  "if_display_name e = (case if_alias (if_entry_base e) of Some a \<Rightarrow> a | None \<Rightarrow> if_descr (if_entry_base e))"

definition has_neighbor :: "IfEntry \<Rightarrow> bool" where
  "has_neighbor e \<longleftrightarrow> neighbor (if_entry_base e) \<noteq> None"

definition has_full_neighbor_resolution :: "IfEntry \<Rightarrow> bool" where
  "has_full_neighbor_resolution e =
     (case neighbor (if_entry_base e) of Some n \<Rightarrow> is_full_resolution n | None \<Rightarrow> False)"

definition has_lldp_data :: "IfEntry \<Rightarrow> bool" where
  "has_lldp_data e \<longleftrightarrow> lldp_chassis_id (if_entry_base e) \<noteq> None \<or> lldp_port_id (if_entry_base e) \<noteq> None"

definition has_cdp_data :: "IfEntry \<Rightarrow> bool" where
  "has_cdp_data e \<longleftrightarrow> cdp_device_id (if_entry_base e) \<noteq> None \<or> cdp_port_id (if_entry_base e) \<noteq> None"

definition has_neighbor_discovery_data :: "IfEntry \<Rightarrow> bool" where
  "has_neighbor_discovery_data e \<longleftrightarrow> has_lldp_data e \<or> has_cdp_data e"

lemma status_roundtrips [simp]:
  "admin_status_from (admin_status_value a) = a" "oper_status_from (oper_status_value s) = s"
  by (cases a; simp add: admin_status_from_def) (cases s; simp add: oper_status_from_def)

section \<open>The resolution of one entry\<close>

text \<open>LLDP data come first; the port is resolved only on the host the chassis resolves to.\<close>

definition resolved_neighbor :: "LldpResolver \<Rightarrow> uuid \<Rightarrow> IfEntry \<Rightarrow> Neighbor option" where
  "resolved_neighbor R network e =
     (case lldp_chassis_id (if_entry_base e) of
        Some chassis \<Rightarrow>
          (case resolve_host_id R chassis network of
             None \<Rightarrow> None
           | Some host \<Rightarrow>
               (case lldp_port_id (if_entry_base e) of
                  None \<Rightarrow> Some (NeighborHost host)
                | Some port \<Rightarrow>
                    (case resolve_if_entry_id R port host of
                       Some i \<Rightarrow> Some (NeighborIfEntry i)
                     | None \<Rightarrow> Some (NeighborHost host))))
      | None \<Rightarrow>
          (case cdp_device_id (if_entry_base e) of
             Some device \<Rightarrow> map_option NeighborHost (find_host_by_chassis_id R device network)
           | None \<Rightarrow> None))"

end
