(* ===== verification/Inventory.thy ===== *)
theory Inventory
  imports Service_Bindings If_Entries Events
begin

text \<open>
  The inventory of the server: the tables behind the services of hosts, interfaces, ports,
  services, bindings, interface entries, groups and tags, and the generic operations on them
  (\<open>server/shared/services/traits.rs\<close>, \<open>server/shared/storage/generic.rs\<close>). A call takes the
  environment and the inventory and answers with an error or a value, and the inventory it
  leaves; the database may refuse any of its statements. Constraints and cascades are those of
  the migrations (\<open>src/backend/migrations\<close>).
\<close>

section \<open>Groups and tags\<close>

datatype Color =
    Pink | Rose | Red | Orange | Green | Emerald | Teal | Cyan | Blue | Indigo | Purple | Gray | Yellow

datatype EdgeStyle = Straight | SmoothStep | StepEdge | Bezier | SimpleBezier

datatype GroupType = RequestPath | HubAndSpoke

record GroupBase =
  gb_name :: string
  gb_network_id :: uuid
  gb_description :: "string option"
  gb_group_type :: GroupType
  binding_ids :: "uuid list"
  gb_source :: EntitySource
  gb_color :: Color
  gb_edge_style :: EdgeStyle
  gb_tags :: "uuid list"

record Group =
  group_id :: uuid
  group_created_at :: timestamp
  group_updated_at :: timestamp
  group_base :: GroupBase

definition group_triggers_staleness :: "Group \<Rightarrow> Group option \<Rightarrow> bool" where
  "group_triggers_staleness g other =
     (case other of
        Some h \<Rightarrow> binding_ids (group_base g) \<noteq> binding_ids (group_base h)
      | None \<Rightarrow> True)"

record TagBase =
  tb_name :: string
  tb_description :: "string option"
  tb_color :: Color
  tb_organization_id :: uuid

record Tag =
  tag_id :: uuid
  tag_created_at :: timestamp
  tag_updated_at :: timestamp
  tag_base :: TagBase

section \<open>The tables\<close>

datatype InvEntity =
    EHost Host | EInterface Interface | EPort Port | EService Service | EBinding Binding
  | EIfEntry IfEntry | EGroup Group

fun inv_discriminant :: "InvEntity \<Rightarrow> EntityDiscriminants" where
  "inv_discriminant (EHost _) = D_Host"
| "inv_discriminant (EInterface _) = D_Interface"
| "inv_discriminant (EPort _) = D_Port"
| "inv_discriminant (EService _) = D_Service"
| "inv_discriminant (EBinding _) = D_Binding"
| "inv_discriminant (EIfEntry _) = D_IfEntry"
| "inv_discriminant (EGroup _) = D_Group"

text \<open>
  Rows are kept by id, without what lives in other tables (the bindings of a service, the
  binding ids of a group, the tags). \<open>inv_group_bindings\<close> holds the binding ids of each group
  in the order of their positions, \<open>inv_entity_tags\<close> the tags of each entity in the order they
  were stored. \<open>inv_daemon_hosts\<close> are the hosts of the registered daemons. \<open>inv_ops\<close> counts
  the statements the database has seen.
\<close>

record Inventory =
  inv_hosts :: "(uuid, Host) HashMap"
  inv_interfaces :: "(uuid, Interface) HashMap"
  inv_ports :: "(uuid, Port) HashMap"
  inv_services :: "(uuid, Service) HashMap"
  inv_bindings :: "(uuid, Binding) HashMap"
  inv_if_entries :: "(uuid, IfEntry) HashMap"
  inv_groups :: "(uuid, Group) HashMap"
  inv_group_bindings :: "(uuid, uuid list) HashMap"
  inv_tags :: "(uuid, Tag) HashMap"
  inv_entity_tags :: "(uuid \<times> EntityDiscriminants, uuid list) HashMap"
  inv_daemon_hosts :: "uuid list"
  inv_bus :: "InvEntity EventBus"
  inv_ops :: nat

text \<open>
  The clock, the random ids (the id drawn while the n-th statement is under way, and one per
  child for a list of children) and the answers of the database: whether it refuses its n-th
  statement.
\<close>

record InvEnv =
  ie_now :: timestamp
  ie_fresh :: "nat \<Rightarrow> uuid"
  ie_answer :: "nat \<Rightarrow> string option"

section \<open>Calls that may fail\<close>

type_synonym 'a op = "InvEnv \<Rightarrow> Inventory \<Rightarrow> (ServiceError + 'a) \<times> Inventory"

definition ok_op :: "'a \<Rightarrow> 'a op" where
  "ok_op x = (\<lambda>env st. (Inr x, st))"

definition err_op :: "ServiceError \<Rightarrow> 'a op" where
  "err_op e = (\<lambda>env st. (Inl e, st))"

definition bind_op :: "'a op \<Rightarrow> ('a \<Rightarrow> 'b op) \<Rightarrow> 'b op" where
  \<comment> \<open>the question mark operator\<close>
  "bind_op m f = (\<lambda>env st. case m env st of (Inl e, st1) \<Rightarrow> (Inl e, st1) | (Inr x, st1) \<Rightarrow> f x env st1)"

definition lift_op :: "ServiceError + 'a \<Rightarrow> 'a op" where
  "lift_op r = (\<lambda>env st. (r, st))"

fun each_op :: "('x \<Rightarrow> unit op) \<Rightarrow> 'x list \<Rightarrow> unit op" where
  "each_op f [] = ok_op ()"
| "each_op f (x # xs) = bind_op (f x) (\<lambda>_. each_op f xs)"

fun map_op :: "('x \<Rightarrow> 'a op) \<Rightarrow> 'x list \<Rightarrow> 'a list op" where
  "map_op f [] = ok_op []"
| "map_op f (x # xs) = bind_op (f x) (\<lambda>y. bind_op (map_op f xs) (\<lambda>ys. ok_op (y # ys)))"

definition statement :: "(Inventory \<Rightarrow> ServiceError + 'a \<times> Inventory) \<Rightarrow> 'a op" where
  "statement q = (\<lambda>env st.
     let st1 = st\<lparr>inv_ops := Suc (inv_ops st)\<rparr> in
     case ie_answer env (inv_ops st) of
       Some e \<Rightarrow> (Inl (OtherError e), st1)
     | None \<Rightarrow> (case q st1 of Inl e \<Rightarrow> (Inl e, st1) | Inr (x, st2) \<Rightarrow> (Inr x, st2)))"

definition query :: "(Inventory \<Rightarrow> 'a) \<Rightarrow> 'a op" where
  "query f = statement (\<lambda>st. Inr (f st, st))"

definition execute :: "(Inventory \<Rightarrow> Inventory) \<Rightarrow> unit op" where
  "execute g = statement (\<lambda>st. Inr ((), g st))"

definition now_op :: "timestamp op" where
  "now_op = (\<lambda>env st. (Inr (ie_now env), st))"

definition fresh_op :: "uuid op" where
  "fresh_op = (\<lambda>env st. (Inr (ie_fresh env (inv_ops st)), st))"

definition publish_entity ::
    "InvEntity \<Rightarrow> uuid \<Rightarrow> uuid \<Rightarrow> EntityOperation \<Rightarrow> Json \<Rightarrow> AuthenticatedEntity \<Rightarrow> unit op" where
  \<comment> \<open>an entity of a network; the bus does not fail\<close>
  "publish_entity e i network operation meta auth = (\<lambda>env st.
     (Inr (), st\<lparr>inv_bus := snd (bus_publish inv_discriminant
        (EntityEv \<lparr>ee_id = ie_fresh env (inv_ops st), ee_entity_type = e, ee_entity_id = i,
           ee_network_id = Some network, ee_organization_id = None, ee_operation = operation,
           ee_timestamp = ie_now env, ee_authentication = auth, ee_metadata = meta\<rparr>)
        (inv_bus st))\<rparr>))"

section \<open>Rows\<close>

definition rows_where :: "('r \<Rightarrow> bool) \<Rightarrow> ('r \<Rightarrow> 'k::linorder) \<Rightarrow> (uuid, 'r) HashMap \<Rightarrow> 'r list" where
  \<comment> \<open>WHERE and ORDER BY\<close>
  "rows_where sel key tbl = sort_key key (filter sel (hvalues tbl))"

definition drop_rows :: "uuid list \<Rightarrow> (uuid, 'r) HashMap \<Rightarrow> (uuid, 'r) HashMap" where
  "drop_rows ids tbl = filter (\<lambda>(k, _). k \<notin> set ids) tbl"

definition map_rows :: "('r \<Rightarrow> 'r) \<Rightarrow> ('k, 'r) HashMap \<Rightarrow> ('k, 'r) HashMap" where
  "map_rows f tbl = map (\<lambda>(k, r). (k, f r)) tbl"

definition keys_where :: "('r \<Rightarrow> bool) \<Rightarrow> ('k, 'r) HashMap \<Rightarrow> 'k list" where
  "keys_where sel tbl = map fst (filter (\<lambda>(_, r). sel r) tbl)"

definition friendly_unique_violation_message :: "string \<Rightarrow> string" where
  \<comment> \<open>the constraints of the tables of this theory; the name of a constraint is always known\<close>
  "friendly_unique_violation_message c =
     (if str_contains c ''ports'' then ''A port with this number and protocol already exists on this host''
      else if str_contains c ''interfaces'' then ''An interface with this IP address already exists on this host''
      else if str_contains c ''tags'' then ''A tag with this name already exists''
      else if str_contains c ''group_bindings'' then ''This binding already exists in the group''
      else if str_contains c ''user_network_access'' then ''This user already has access to this network''
      else if str_contains c ''users'' \<and> str_contains c ''email'' then ''A user with this email already exists''
      else if str_contains c ''users'' \<and> str_contains c ''name'' then ''A user with this name already exists''
      else if str_contains c ''users'' \<and> str_contains c ''oidc''
        then ''This identity provider account is already linked to another user''
      else if str_contains c ''api_keys'' then ''This API key already exists''
      else ''A record with these values already exists ('' @ c @ '')'')"

text \<open>ON DELETE CASCADE and ON DELETE SET NULL of the migrations.\<close>

definition delete_bindings :: "uuid list \<Rightarrow> Inventory \<Rightarrow> Inventory" where
  "delete_bindings ids st =
     st\<lparr>inv_bindings := drop_rows ids (inv_bindings st),
        inv_group_bindings := map_rows (filter (\<lambda>b. b \<notin> set ids)) (inv_group_bindings st)\<rparr>"

definition delete_services :: "uuid list \<Rightarrow> Inventory \<Rightarrow> Inventory" where
  "delete_services ids st =
     delete_bindings (keys_where (\<lambda>b. bb_service_id (binding_base b) \<in> set ids) (inv_bindings st))
       (st\<lparr>inv_services := drop_rows ids (inv_services st)\<rparr>)"

definition delete_ports :: "uuid list \<Rightarrow> Inventory \<Rightarrow> Inventory" where
  "delete_ports ids st =
     delete_bindings
       (keys_where (\<lambda>b. case binding_port_id b of Some p \<Rightarrow> p \<in> set ids | None \<Rightarrow> False) (inv_bindings st))
       (st\<lparr>inv_ports := drop_rows ids (inv_ports st)\<rparr>)"

definition unlink_interface :: "uuid list \<Rightarrow> IfEntry \<Rightarrow> IfEntry" where
  "unlink_interface ids e =
     (case fb_interface_id (if_entry_base e) of
        Some i \<Rightarrow> if i \<in> set ids then e\<lparr>if_entry_base := (if_entry_base e)\<lparr>fb_interface_id := None\<rparr>\<rparr> else e
      | None \<Rightarrow> e)"

definition delete_interfaces :: "uuid list \<Rightarrow> Inventory \<Rightarrow> Inventory" where
  "delete_interfaces ids st =
     delete_bindings
       (keys_where (\<lambda>b. case binding_interface_id b of Some i \<Rightarrow> i \<in> set ids | None \<Rightarrow> False) (inv_bindings st))
       (st\<lparr>inv_interfaces := drop_rows ids (inv_interfaces st),
           inv_if_entries := map_rows (unlink_interface ids) (inv_if_entries st)\<rparr>)"

definition unlink_neighbor :: "(Neighbor \<Rightarrow> bool) \<Rightarrow> IfEntry \<Rightarrow> IfEntry" where
  "unlink_neighbor gone e =
     (case neighbor (if_entry_base e) of
        Some n \<Rightarrow> if gone n then e\<lparr>if_entry_base := (if_entry_base e)\<lparr>neighbor := None\<rparr>\<rparr> else e
      | None \<Rightarrow> e)"

definition delete_if_entries :: "uuid list \<Rightarrow> Inventory \<Rightarrow> Inventory" where
  "delete_if_entries ids st =
     st\<lparr>inv_if_entries := map_rows (unlink_neighbor (\<lambda>n. case n of NeighborIfEntry i \<Rightarrow> i \<in> set ids | _ \<Rightarrow> False))
          (drop_rows ids (inv_if_entries st))\<rparr>"

definition delete_hosts :: "uuid list \<Rightarrow> Inventory \<Rightarrow> Inventory" where
  "delete_hosts ids st =
     (let st1 = st\<lparr>inv_hosts := drop_rows ids (inv_hosts st),
          inv_if_entries := map_rows (unlink_neighbor (\<lambda>n. case n of NeighborHost i \<Rightarrow> i \<in> set ids | _ \<Rightarrow> False))
            (inv_if_entries st)\<rparr>;
          st2 = delete_services (keys_where (\<lambda>s. vb_host_id (service_base s) \<in> set ids) (inv_services st1)) st1;
          st3 = delete_ports (keys_where (\<lambda>p. pb_host_id (port_base p) \<in> set ids) (inv_ports st2)) st2;
          st4 = delete_interfaces (keys_where (\<lambda>i. ib_host_id (interface_base i) \<in> set ids) (inv_interfaces st3)) st3
      in delete_if_entries (keys_where (\<lambda>e. fb_host_id (if_entry_base e) \<in> set ids) (inv_if_entries st4)) st4)"

end
