(* ===== verification/Inventory_Crud.thy ===== *)
theory Inventory_Crud
  imports Inventory
begin

text \<open>
  The generic operations of the services over the tables: the trait \<open>CrudService\<close> and its
  extension for child entities (\<open>server/shared/services/traits.rs\<close>) as functions of a
  dictionary of what an entity type defines, tag assignment
  (\<open>server/tags/entity_tags.rs\<close>), and the four child types with their dictionaries.
\<close>

section \<open>Tags\<close>

definition map_err_op :: "(ServiceError \<Rightarrow> ServiceError) \<Rightarrow> 'a op \<Rightarrow> 'a op" where
  "map_err_op f m = (\<lambda>env st. case m env st of (Inl e, st1) \<Rightarrow> (Inl (f e), st1) | r \<Rightarrow> r)"

fun error_text :: "ServiceError \<Rightarrow> string" where
  "error_text (ValidationError m) = m"
| "error_text (OtherError m) = m"

definition prefix_error :: "string \<Rightarrow> ServiceError \<Rightarrow> ServiceError" where
  "prefix_error m e = OtherError (m @ error_text e)"

definition validate_tag :: "uuid \<Rightarrow> uuid \<Rightarrow> unit op" where
  "validate_tag t org =
     bind_op (map_err_op (prefix_error (''Failed to validate tag '' @ uuid_display t @ '': ''))
               (query (\<lambda>st. hget (inv_tags st) t)))
       (\<lambda>r. case r of
          None \<Rightarrow> err_op (OtherError (''Tag '' @ uuid_display t @ '' not found''))
        | Some tag \<Rightarrow>
            if tb_organization_id (tag_base tag) \<noteq> org
            then err_op (OtherError (''Tag '' @ uuid_display t @ '' does not belong to this organization''))
            else ok_op ())"

definition replace_tags :: "uuid \<Rightarrow> EntityDiscriminants \<Rightarrow> uuid list \<Rightarrow> unit op" where
  \<comment> \<open>one transaction; the junction table refuses a repeated tag\<close>
  "replace_tags i kind tags =
     statement (\<lambda>st.
       if \<not> distinct tags
       then Inl (ValidationError (friendly_unique_violation_message ''entity_tags_entity_id_entity_type_tag_id_key''))
       else Inr ((), st\<lparr>inv_entity_tags := hinsert (i, kind) tags (inv_entity_tags st)\<rparr>))"

definition set_entity_tags :: "uuid \<Rightarrow> EntityDiscriminants \<Rightarrow> uuid list \<Rightarrow> uuid \<Rightarrow> unit op" where
  "set_entity_tags i kind tags org =
     (if tags = [] then ok_op ()
      else bind_op (each_op (\<lambda>t. validate_tag t org) tags)
        (\<lambda>_. map_err_op (prefix_error ''Failed to set tags: '') (replace_tags i kind tags)))"

definition tags_of :: "Inventory \<Rightarrow> EntityDiscriminants \<Rightarrow> uuid \<Rightarrow> uuid list" where
  "tags_of st kind i = (case hget (inv_entity_tags st) (i, kind) of Some ts \<Rightarrow> ts | None \<Rightarrow> [])"

definition remove_all_for_entity :: "uuid \<Rightarrow> EntityDiscriminants \<Rightarrow> unit op" where
  "remove_all_for_entity i kind =
     execute (\<lambda>st. st\<lparr>inv_entity_tags := hremove (i, kind) (inv_entity_tags st)\<rparr>)"

definition set_tags_as :: "AuthenticatedEntity \<Rightarrow> uuid \<Rightarrow> EntityDiscriminants \<Rightarrow> uuid list \<Rightarrow> unit op" where
  \<comment> \<open>\<open>if let Some(org_id) = authentication.organization_id()\<close>\<close>
  "set_tags_as auth i kind tags =
     (case auth_organization_id auth of Some org \<Rightarrow> set_entity_tags i kind tags org | None \<Rightarrow> ok_op ())"

section \<open>The dictionary of an entity type\<close>

text \<open>
  \<open>c_clash\<close> is the unique key of the table besides its primary key, \<open>c_refs\<close> its foreign keys,
  \<open>c_delete\<close> its deletion with the cascades. The child types keep no tags; a service does.
\<close>

record 'e Crud =
  c_table :: "Inventory \<Rightarrow> (uuid, 'e) HashMap"
  c_put :: "'e \<Rightarrow> Inventory \<Rightarrow> Inventory"
  c_delete :: "uuid list \<Rightarrow> Inventory \<Rightarrow> Inventory"
  c_refs :: "'e \<Rightarrow> Inventory \<Rightarrow> bool"
  c_clash :: "'e \<Rightarrow> 'e \<Rightarrow> bool"
  c_unique_key :: string
  c_primary_key :: string
  c_id :: "'e \<Rightarrow> uuid"
  c_set_id :: "uuid \<Rightarrow> 'e \<Rightarrow> 'e"
  c_created_at :: "'e \<Rightarrow> timestamp"
  c_set_created_at :: "timestamp \<Rightarrow> 'e \<Rightarrow> 'e"
  c_new :: "uuid \<Rightarrow> timestamp \<Rightarrow> 'e \<Rightarrow> 'e"
  c_parent :: "'e \<Rightarrow> uuid"
  c_network :: "'e \<Rightarrow> uuid"
  c_entity :: "'e \<Rightarrow> InvEntity"
  c_stale :: "'e \<Rightarrow> 'e option \<Rightarrow> bool"
  c_text :: "'e \<Rightarrow> string"

definition violation :: ServiceError where
  \<comment> \<open>the driver's error for a violated constraint that is not made friendly\<close>
  "violation = OtherError ''error returned from database: constraint violated''"

definition insert_row :: "'e Crud \<Rightarrow> 'e \<Rightarrow> unit op" where
  "insert_row D e =
     statement (\<lambda>st.
       if hget (c_table D st) (c_id D e) \<noteq> None
       then Inl (ValidationError (friendly_unique_violation_message (c_primary_key D)))
       else if list_ex (c_clash D e) (hvalues (c_table D st))
       then Inl (ValidationError (friendly_unique_violation_message (c_unique_key D)))
       else if \<not> c_refs D e st then Inl violation
       else Inr ((), c_put D e st))"

definition update_row :: "'e Crud \<Rightarrow> 'e \<Rightarrow> unit op" where
  \<comment> \<open>an UPDATE of a row that is not there changes nothing\<close>
  "update_row D e =
     statement (\<lambda>st.
       if hget (c_table D st) (c_id D e) = None then Inr ((), st)
       else if list_ex (\<lambda>r. c_id D r \<noteq> c_id D e \<and> c_clash D e r) (hvalues (c_table D st)) then Inl violation
       else if \<not> c_refs D e st then Inl violation
       else Inr ((), c_put D e st))"

section \<open>The generic operations\<close>

definition entity_get :: "'e Crud \<Rightarrow> uuid \<Rightarrow> 'e option op" where
  "entity_get D i = query (\<lambda>st. hget (c_table D st) i)"

definition entity_create :: "'e Crud \<Rightarrow> 'e \<Rightarrow> AuthenticatedEntity \<Rightarrow> 'e op" where
  "entity_create D e auth =
     bind_op fresh_op (\<lambda>f. bind_op now_op (\<lambda>now.
       let e1 = (if c_id D e = uuid_nil then c_new D f now e else e) in
       bind_op (insert_row D e1) (\<lambda>_.
         bind_op (publish_entity (c_entity D e1) (c_id D e1) (c_network D e1) Created
                    (crud_metadata (c_stale D e1 None)) auth)
           (\<lambda>_. ok_op e1))))"

definition entity_update :: "'e Crud \<Rightarrow> 'e \<Rightarrow> AuthenticatedEntity \<Rightarrow> 'e op" where
  "entity_update D e auth =
     bind_op (entity_get D (c_id D e)) (\<lambda>r.
       case r of
         None \<Rightarrow> err_op (OtherError (''Could not find '' @ c_text D e))
       | Some current \<Rightarrow>
           bind_op (update_row D e) (\<lambda>_.
             bind_op (publish_entity (c_entity D e) (c_id D e) (c_network D e) Updated
                        (crud_metadata (c_stale D e (Some current))) auth)
               (\<lambda>_. ok_op e)))"

definition announce_deletion :: "'e Crud \<Rightarrow> AuthenticatedEntity \<Rightarrow> uuid \<Rightarrow> unit op" where
  "announce_deletion D auth i =
     bind_op (entity_get D i) (\<lambda>r.
       case r of
         None \<Rightarrow> ok_op ()
       | Some e \<Rightarrow>
           publish_entity (c_entity D e) i (c_network D e) Deleted (crud_metadata (c_stale D e None)) auth)"

definition entity_delete_many :: "'e Crud \<Rightarrow> uuid list \<Rightarrow> AuthenticatedEntity \<Rightarrow> unit op" where
  "entity_delete_many D ids auth =
     (if ids = [] then ok_op ()
      else bind_op (each_op (announce_deletion D auth) ids) (\<lambda>_. execute (c_delete D ids)))"

definition get_for_parent :: "'e Crud \<Rightarrow> uuid \<Rightarrow> 'e list op" where
  "get_for_parent D parent =
     query (\<lambda>st. rows_where (\<lambda>e. c_parent D e = parent) (c_created_at D) (c_table D st))"

text \<open>
  \<open>existing_by_id\<close> is the map of the children as they were; the ids to delete are a
  difference of two sets, so their order is open.
\<close>

definition save_child :: "'e Crud \<Rightarrow> (uuid, 'e) HashMap \<Rightarrow> AuthenticatedEntity \<Rightarrow> 'e \<Rightarrow> 'e op" where
  "save_child D existing auth child =
     (if c_id D child = uuid_nil
      then bind_op fresh_op (\<lambda>f. entity_create D (c_set_id D f child) auth)
      else case hget existing (c_id D child) of
        Some old \<Rightarrow> entity_update D (c_set_created_at D (c_created_at D old) child) auth
      | None \<Rightarrow> entity_create D child auth)"

definition save_for_parent :: "'e Crud \<Rightarrow> uuid \<Rightarrow> 'e list \<Rightarrow> AuthenticatedEntity \<Rightarrow> 'e list op" where
  "save_for_parent D parent children auth =
     bind_op (get_for_parent D parent) (\<lambda>olds.
       let existing = map (\<lambda>c. (c_id D c, c)) olds;
           new_ids = map (c_id D) (filter (\<lambda>c. c_id D c \<noteq> uuid_nil) children);
           to_delete = filter (\<lambda>i. i \<notin> set new_ids) (map (c_id D) olds)
       in bind_op (entity_delete_many D to_delete auth) (\<lambda>_.
            map_op (save_child D existing auth) children))"

section \<open>The child types\<close>

definition host_exists :: "Inventory \<Rightarrow> uuid \<Rightarrow> bool" where
  "host_exists st h \<longleftrightarrow> hget (inv_hosts st) h \<noteq> None"

definition interface_display :: "Interface \<Rightarrow> string" where
  "interface_display i =
     ''Interface '' @ uuid_display (interface_id i) @ '': '' @ ip_display (ib_ip_address (interface_base i)) @
     '' on subnet '' @ uuid_display (ib_subnet_id (interface_base i))"

definition interface_clash :: "Interface \<Rightarrow> Interface \<Rightarrow> bool" where
  \<comment> \<open>UNIQUE(host_id, subnet_id, ip_address)\<close>
  "interface_clash a b \<longleftrightarrow>
     ib_host_id (interface_base a) = ib_host_id (interface_base b) \<and>
     ib_subnet_id (interface_base a) = ib_subnet_id (interface_base b) \<and>
     ib_ip_address (interface_base a) = ib_ip_address (interface_base b)"

definition interface_crud :: "Interface Crud" where
  "interface_crud =
     \<lparr>c_table = inv_interfaces,
      c_put = (\<lambda>e st. st\<lparr>inv_interfaces := hinsert (interface_id e) e (inv_interfaces st)\<rparr>),
      c_delete = delete_interfaces,
      c_refs = (\<lambda>e st. host_exists st (ib_host_id (interface_base e))),
      c_clash = interface_clash,
      c_unique_key = ''interfaces_host_id_subnet_id_ip_address_key'', c_primary_key = ''interfaces_pkey'',
      c_id = interface_id, c_set_id = (\<lambda>i e. e\<lparr>interface_id := i\<rparr>),
      c_created_at = interface_created_at, c_set_created_at = (\<lambda>t e. e\<lparr>interface_created_at := t\<rparr>),
      c_new = (\<lambda>f now e. interface_new f now (interface_base e)),
      c_parent = (\<lambda>e. ib_host_id (interface_base e)),
      c_network = (\<lambda>e. ib_network_id (interface_base e)),
      c_entity = EInterface, c_stale = interface_triggers_staleness, c_text = interface_display\<rparr>"

definition port_clash :: "Port \<Rightarrow> Port \<Rightarrow> bool" where
  \<comment> \<open>UNIQUE(host_id, port_number, protocol)\<close>
  "port_clash a b \<longleftrightarrow>
     pb_host_id (port_base a) = pb_host_id (port_base b) \<and>
     config (pb_port_type (port_base a)) = config (pb_port_type (port_base b))"

definition port_crud :: "Port Crud" where
  "port_crud =
     \<lparr>c_table = inv_ports,
      c_put = (\<lambda>e st. st\<lparr>inv_ports := hinsert (port_id e) e (inv_ports st)\<rparr>),
      c_delete = delete_ports,
      c_refs = (\<lambda>e st. host_exists st (pb_host_id (port_base e))),
      c_clash = port_clash,
      c_unique_key = ''ports_host_id_port_number_protocol_key'', c_primary_key = ''ports_pkey'',
      c_id = port_id, c_set_id = (\<lambda>i e. e\<lparr>port_id := i\<rparr>),
      c_created_at = port_created_at, c_set_created_at = (\<lambda>t e. e\<lparr>port_created_at := t\<rparr>),
      c_new = (\<lambda>f now e. port_new f now (port_base e)),
      c_parent = (\<lambda>e. pb_host_id (port_base e)),
      c_network = (\<lambda>e. pb_network_id (port_base e)),
      c_entity = EPort, c_stale = port_triggers_staleness, c_text = port_entity_display\<rparr>"

definition binding_refs :: "Binding \<Rightarrow> Inventory \<Rightarrow> bool" where
  "binding_refs b st \<longleftrightarrow>
     hget (inv_services st) (bb_service_id (binding_base b)) \<noteq> None \<and>
     (case binding_interface_id b of Some i \<Rightarrow> hget (inv_interfaces st) i \<noteq> None | None \<Rightarrow> True) \<and>
     (case binding_port_id b of Some p \<Rightarrow> hget (inv_ports st) p \<noteq> None | None \<Rightarrow> True)"

definition binding_crud :: "Binding Crud" where
  "binding_crud =
     \<lparr>c_table = inv_bindings,
      c_put = (\<lambda>e st. st\<lparr>inv_bindings := hinsert (binding_id e) e (inv_bindings st)\<rparr>),
      c_delete = delete_bindings,
      c_refs = binding_refs,
      c_clash = (\<lambda>a b. False),
      c_unique_key = [], c_primary_key = ''bindings_pkey'',
      c_id = binding_id, c_set_id = (\<lambda>i e. e\<lparr>binding_id := i\<rparr>),
      c_created_at = binding_created_at, c_set_created_at = (\<lambda>t e. e\<lparr>binding_created_at := t\<rparr>),
      c_new = (\<lambda>f now e. binding_new f now (binding_base e)),
      c_parent = (\<lambda>e. bb_service_id (binding_base e)),
      c_network = (\<lambda>e. bb_network_id (binding_base e)),
      c_entity = EBinding, c_stale = binding_triggers_staleness, c_text = binding_display\<rparr>"

definition if_entry_clash :: "IfEntry \<Rightarrow> IfEntry \<Rightarrow> bool" where
  \<comment> \<open>UNIQUE(host_id, if_index)\<close>
  "if_entry_clash a b \<longleftrightarrow>
     fb_host_id (if_entry_base a) = fb_host_id (if_entry_base b) \<and>
     if_index (if_entry_base a) = if_index (if_entry_base b)"

definition if_entry_refs :: "IfEntry \<Rightarrow> Inventory \<Rightarrow> bool" where
  "if_entry_refs e st \<longleftrightarrow>
     host_exists st (fb_host_id (if_entry_base e)) \<and>
     (case fb_interface_id (if_entry_base e) of Some i \<Rightarrow> hget (inv_interfaces st) i \<noteq> None | None \<Rightarrow> True) \<and>
     (case neighbor (if_entry_base e) of
        Some (NeighborIfEntry i) \<Rightarrow> hget (inv_if_entries st) i \<noteq> None
      | Some (NeighborHost h) \<Rightarrow> host_exists st h
      | None \<Rightarrow> True)"

definition if_entry_crud :: "IfEntry Crud" where
  "if_entry_crud =
     \<lparr>c_table = inv_if_entries,
      c_put = (\<lambda>e st. st\<lparr>inv_if_entries := hinsert (if_entry_id e) e (inv_if_entries st)\<rparr>),
      c_delete = delete_if_entries,
      c_refs = if_entry_refs,
      c_clash = if_entry_clash,
      c_unique_key = ''if_entries_host_id_if_index_key'', c_primary_key = ''if_entries_pkey'',
      c_id = if_entry_id, c_set_id = (\<lambda>i e. e\<lparr>if_entry_id := i\<rparr>),
      c_created_at = if_entry_created_at, c_set_created_at = (\<lambda>t e. e\<lparr>if_entry_created_at := t\<rparr>),
      c_new = (\<lambda>f now e. if_entry_new f now (if_entry_base e)),
      c_parent = (\<lambda>e. fb_host_id (if_entry_base e)),
      c_network = (\<lambda>e. fb_network_id (if_entry_base e)),
      c_entity = EIfEntry, c_stale = if_entry_triggers_staleness, c_text = if_entry_display\<rparr>"

section \<open>The services of the child types\<close>

definition interfaces_for_host :: "uuid \<Rightarrow> Interface list op" where
  "interfaces_for_host h =
     query (\<lambda>st. rows_where (\<lambda>i. ib_host_id (interface_base i) = h) (\<lambda>i. ib_position (interface_base i))
       (inv_interfaces st))"

definition ports_for_host :: "uuid \<Rightarrow> Port list op" where
  "ports_for_host h = get_for_parent port_crud h"

definition if_entries_for_host :: "uuid \<Rightarrow> IfEntry list op" where
  "if_entries_for_host h =
     query (\<lambda>st. rows_where (\<lambda>e. fb_host_id (if_entry_base e) = h) (\<lambda>e. if_index (if_entry_base e))
       (inv_if_entries st))"

definition create_or_update_by_if_index :: "IfEntry \<Rightarrow> AuthenticatedEntity \<Rightarrow> IfEntry op" where
  "create_or_update_by_if_index e auth =
     bind_op (if_entries_for_host (fb_host_id (if_entry_base e))) (\<lambda>es.
       case find (\<lambda>x. if_index (if_entry_base x) = if_index (if_entry_base e)) es of
         Some old \<Rightarrow>
           entity_update if_entry_crud
             (e\<lparr>if_entry_id := if_entry_id old, if_entry_created_at := if_entry_created_at old\<rparr>) auth
       | None \<Rightarrow> entity_create if_entry_crud e auth)"

definition validate_relationships :: "IfEntry \<Rightarrow> unit op" where
  "validate_relationships e =
     bind_op
       (case fb_interface_id (if_entry_base e) of
          None \<Rightarrow> ok_op ()
        | Some i \<Rightarrow>
            bind_op (entity_get interface_crud i) (\<lambda>r.
              case r of
                None \<Rightarrow> err_op (ValidationError ''interface_id references a non-existent Interface'')
              | Some intf \<Rightarrow>
                  if ib_host_id (interface_base intf) \<noteq> fb_host_id (if_entry_base e)
                  then err_op (ValidationError ''interface_id must reference an Interface on the same host'')
                  else (case (fb_mac_address (if_entry_base e), ib_mac_address (interface_base intf)) of
                      (Some a, Some b) \<Rightarrow>
                        if a \<noteq> b
                        then err_op (ValidationError ''interface_id references an Interface with a different MAC address'')
                        else ok_op ()
                    | _ \<Rightarrow> ok_op ())))
       (\<lambda>_. case neighbor (if_entry_base e) of
          Some (NeighborIfEntry n) \<Rightarrow>
            if n = if_entry_id e then err_op (ValidationError ''IfEntry cannot connect to itself'')
            else bind_op (entity_get if_entry_crud n) (\<lambda>r.
              case r of
                None \<Rightarrow> err_op (ValidationError ''neighbor IfEntry references a non-existent IfEntry'')
              | Some x \<Rightarrow>
                  if fb_host_id (if_entry_base x) = fb_host_id (if_entry_base e)
                  then err_op (ValidationError ''neighbor IfEntry must be on a different host'')
                  else if fb_network_id (if_entry_base x) \<noteq> fb_network_id (if_entry_base e)
                  then err_op (ValidationError ''neighbor IfEntry must be in the same network'')
                  else ok_op ())
        | _ \<Rightarrow> ok_op ())"

definition renumber_step :: "AuthenticatedEntity \<Rightarrow> Interface \<Rightarrow> unit op" where
  "renumber_step auth i = bind_op (entity_update interface_crud i auth) (\<lambda>_. ok_op ())"

definition renumber_interfaces_for_host :: "uuid \<Rightarrow> AuthenticatedEntity \<Rightarrow> unit op" where
  "renumber_interfaces_for_host h auth =
     bind_op (interfaces_for_host h) (\<lambda>is.
       let renumbered = map (\<lambda>(k, i). set_position interface_positioned (as_i32 k) i) (enumerate 0 is) in
       if map (position interface_positioned) is \<noteq> map (position interface_positioned) renumbered
       then each_op (renumber_step auth) renumbered else ok_op ())"

definition validate_position_for_update :: "uuid \<Rightarrow> uuid \<Rightarrow> i32 \<Rightarrow> unit op" where
  "validate_position_for_update i h new_position =
     bind_op (interfaces_for_host h) (\<lambda>is.
       let max_position = as_i32 (length is) - 1 in
       if new_position < 0 \<or> new_position > max_position
       then err_op (ValidationError (''Interface position '' @ show_int new_position @
              '' is out of range. Valid positions are 0 to '' @ show_int max_position @ ''.''))
       else if list_ex (\<lambda>x. interface_id x \<noteq> i \<and> ib_position (interface_base x) = new_position) is
       then err_op (ValidationError (''Interface position '' @ show_int new_position @
              '' is already used by another interface.''))
       else ok_op ())"

end
