(* ===== verification/Inventory_Logic.thy ===== *)
theory Inventory_Logic
  imports Inventory_Crud
begin

text \<open>
  Reasoning about calls on the inventory: what a call that went through has done
  (\<open>op_success\<close>), what a call leaves alone however it ends (\<open>keeps\<close>), and the contract of the
  tables behind the generic operations, as a locale over the dictionary of an entity type.
\<close>

named_theorems op_success
named_theorems keeps_intros

section \<open>Calls that went through\<close>

lemma ok_op_success [op_success]: "ok_op x env st = (Inr y, st') \<longleftrightarrow> y = x \<and> st' = st"
  by (auto simp: ok_op_def)

lemma err_op_success [op_success]: "err_op e env st = (Inr y, st') \<longleftrightarrow> False"
  by (simp add: err_op_def)

lemma lift_op_success [op_success]: "lift_op r env st = (Inr y, st') \<longleftrightarrow> r = Inr y \<and> st' = st"
  by (auto simp: lift_op_def)

lemma bind_op_success [op_success]:
  "bind_op m f env st = (Inr y, st') \<longleftrightarrow>
     (\<exists>x st1. m env st = (Inr x, st1) \<and> f x env st1 = (Inr y, st'))"
  by (auto simp: bind_op_def split: prod.splits sum.splits)

lemma now_op_success [op_success]: "now_op env st = (Inr y, st') \<longleftrightarrow> y = ie_now env \<and> st' = st"
  by (auto simp: now_op_def)

lemma fresh_op_success [op_success]:
  "fresh_op env st = (Inr y, st') \<longleftrightarrow> y = ie_fresh env (inv_ops st) \<and> st' = st"
  by (auto simp: fresh_op_def)

lemma statement_success [op_success]:
  "statement q env st = (Inr y, st') \<longleftrightarrow>
     ie_answer env (inv_ops st) = None \<and> q (st\<lparr>inv_ops := Suc (inv_ops st)\<rparr>) = Inr (y, st')"
  by (auto simp: statement_def Let_def split: option.splits sum.splits prod.splits)

lemma query_success [op_success]:
  "query f env st = (Inr y, st') \<longleftrightarrow>
     ie_answer env (inv_ops st) = None \<and> st' = st\<lparr>inv_ops := Suc (inv_ops st)\<rparr> \<and>
     y = f (st\<lparr>inv_ops := Suc (inv_ops st)\<rparr>)"
  by (auto simp: query_def op_success)

lemma execute_success [op_success]:
  "execute g env st = (Inr y, st') \<longleftrightarrow>
     ie_answer env (inv_ops st) = None \<and> st' = g (st\<lparr>inv_ops := Suc (inv_ops st)\<rparr>)"
  by (auto simp: execute_def op_success)

lemma map_err_op_success [op_success]:
  "map_err_op f m env st = (Inr y, st') \<longleftrightarrow> m env st = (Inr y, st')"
  by (auto simp: map_err_op_def split: prod.splits sum.splits)

lemma each_op_Cons_success [op_success]:
  "each_op f (x # xs) env st = (Inr y, st') \<longleftrightarrow>
     (\<exists>st1. f x env st = (Inr (), st1) \<and> each_op f xs env st1 = (Inr y, st'))"
  by (simp add: op_success)

lemma map_op_Cons_success [op_success]:
  "map_op f (x # xs) env st = (Inr ys, st') \<longleftrightarrow>
     (\<exists>z zs st1. f x env st = (Inr z, st1) \<and> map_op f xs env st1 = (Inr zs, st') \<and> ys = z # zs)"
  by (auto simp: op_success)

lemma map_op_Nil_success [op_success]:
  "map_op f [] env st = (Inr ys, st') \<longleftrightarrow> ys = [] \<and> st' = st"
  by (auto simp: op_success)

section \<open>What a call leaves alone\<close>

definition keeps :: "(Inventory \<Rightarrow> 'b) \<Rightarrow> 'a op \<Rightarrow> bool" where
  \<comment> \<open>also when the call fails halfway\<close>
  "keeps f m \<longleftrightarrow> (\<forall>env st. f (snd (m env st)) = f st)"

lemma keepsD: "keeps f m \<Longrightarrow> f (snd (m env st)) = f st"
  by (simp add: keeps_def)

lemma keeps_result: "keeps f m \<Longrightarrow> m env st = (r, st') \<Longrightarrow> f st' = f st"
  using keepsD [of f m env st] by simp

lemma keeps_ok [keeps_intros]: "keeps f (ok_op x)"
  by (simp add: keeps_def ok_op_def)

lemma keeps_err [keeps_intros]: "keeps f (err_op e)"
  by (simp add: keeps_def err_op_def)

lemma keeps_lift [keeps_intros]: "keeps f (lift_op r)"
  by (simp add: keeps_def lift_op_def)

lemma keeps_now [keeps_intros]: "keeps f now_op"
  by (simp add: keeps_def now_op_def)

lemma keeps_fresh [keeps_intros]: "keeps f fresh_op"
  by (simp add: keeps_def fresh_op_def)

lemma keeps_bind [keeps_intros]:
  "keeps f m \<Longrightarrow> (\<And>x. keeps f (g x)) \<Longrightarrow> keeps f (bind_op m g)"
  by (auto simp: keeps_def bind_op_def split: prod.splits sum.splits) (metis snd_conv)+

lemma keeps_map_err [keeps_intros]: "keeps f m \<Longrightarrow> keeps f (map_err_op g m)"
  by (auto simp: keeps_def map_err_op_def split: prod.splits sum.splits) (metis snd_conv)+

lemma keeps_each [keeps_intros]: "(\<And>x. keeps f (g x)) \<Longrightarrow> keeps f (each_op g xs)"
  by (induction xs) (auto intro: keeps_intros)

lemma keeps_map [keeps_intros]: "(\<And>x. keeps f (g x)) \<Longrightarrow> keeps f (map_op g xs)"
  by (induction xs) (auto intro: keeps_intros)

lemma keeps_if [keeps_intros]: "keeps f a \<Longrightarrow> keeps f b \<Longrightarrow> keeps f (if c then a else b)"
  by simp

lemma keeps_case_option [keeps_intros]:
  "keeps f a \<Longrightarrow> (\<And>x. keeps f (b x)) \<Longrightarrow> keeps f (case r of None \<Rightarrow> a | Some x \<Rightarrow> b x)"
  by (cases r) auto

lemma keeps_case_list [keeps_intros]:
  "keeps f a \<Longrightarrow> (\<And>x y. keeps f (b x y)) \<Longrightarrow> keeps f (case r of [] \<Rightarrow> a | x # y \<Rightarrow> b x y)"
  by (cases r) auto

lemma keeps_case_prod [keeps_intros]:
  "(\<And>x y. keeps f (b x y)) \<Longrightarrow> keeps f (case r of (x, y) \<Rightarrow> b x y)"
  by (cases r) auto

lemma keeps_statement:
  assumes "\<And>st n. f (st\<lparr>inv_ops := n\<rparr>) = f st" "\<And>st x st'. q st = Inr (x, st') \<Longrightarrow> f st' = f st"
  shows "keeps f (statement q)"
  using assms(2) by (auto simp: keeps_def statement_def Let_def assms(1) split: option.splits sum.splits)


lemma keeps_query: "(\<And>st n. f (st\<lparr>inv_ops := n\<rparr>) = f st) \<Longrightarrow> keeps f (query g)"
  unfolding query_def by (rule keeps_statement) auto

lemma keeps_execute:
  "(\<And>st n. f (st\<lparr>inv_ops := n\<rparr>) = f st) \<Longrightarrow> (\<And>st. f (g st) = f st) \<Longrightarrow> keeps f (execute g)"
  unfolding execute_def by (rule keeps_statement) auto

lemma keeps_publish_entity:
  "(\<And>st b. f (st\<lparr>inv_bus := b\<rparr>) = f st) \<Longrightarrow> keeps f (publish_entity e i n operation meta auth)"
  by (simp add: keeps_def publish_entity_def)


section \<open>The generic operations\<close>

lemma keeps_entity_get [keeps_intros]:
  "(\<And>st n. f (st\<lparr>inv_ops := n\<rparr>) = f st) \<Longrightarrow> keeps f (entity_get D i)"
  unfolding entity_get_def by (rule keeps_query)

lemma keeps_insert_row:
  "(\<And>st n. f (st\<lparr>inv_ops := n\<rparr>) = f st) \<Longrightarrow> (\<And>e st. f (c_put D e st) = f st) \<Longrightarrow> keeps f (insert_row D e)"
  unfolding insert_row_def by (rule keeps_statement) (auto split: if_splits)

lemma keeps_update_row:
  "(\<And>st n. f (st\<lparr>inv_ops := n\<rparr>) = f st) \<Longrightarrow> (\<And>e st. f (c_put D e st) = f st) \<Longrightarrow> keeps f (update_row D e)"
  unfolding update_row_def by (rule keeps_statement) (auto split: if_splits)

text \<open>A table that a call's frame condition does not look at.\<close>

definition unseen :: "(Inventory \<Rightarrow> 'b) \<Rightarrow> 'e Crud \<Rightarrow> bool" where
  "unseen f D \<longleftrightarrow>
     (\<forall>st n. f (st\<lparr>inv_ops := n\<rparr>) = f st) \<and> (\<forall>st b. f (st\<lparr>inv_bus := b\<rparr>) = f st) \<and>
     (\<forall>e st. f (c_put D e st) = f st)"

definition undeleted :: "(Inventory \<Rightarrow> 'b) \<Rightarrow> 'e Crud \<Rightarrow> bool" where
  "undeleted f D \<longleftrightarrow> (\<forall>ids st. f (c_delete D ids st) = f st)"

lemma unseenD:
  assumes "unseen f D"
  shows "f (st\<lparr>inv_ops := n\<rparr>) = f st" "f (st\<lparr>inv_bus := b\<rparr>) = f st" "f (c_put D e st) = f st"
  using assms by (auto simp: unseen_def)

lemma keeps_entity_create: "unseen f D \<Longrightarrow> keeps f (entity_create D e auth)"
  unfolding entity_create_def Let_def
  by (intro keeps_intros keeps_insert_row keeps_publish_entity) (simp_all add: unseenD)

lemma keeps_entity_update: "unseen f D \<Longrightarrow> keeps f (entity_update D e auth)"
  unfolding entity_update_def Let_def
  by (intro keeps_intros keeps_update_row keeps_publish_entity) (simp_all add: unseenD)

lemma keeps_entity_delete_many: "unseen f D \<Longrightarrow> undeleted f D \<Longrightarrow> keeps f (entity_delete_many D ids auth)"
  unfolding entity_delete_many_def announce_deletion_def
  by (intro keeps_intros keeps_execute keeps_publish_entity) (simp_all add: unseenD undeleted_def)

lemma keeps_get_for_parent [keeps_intros]:
  "(\<And>st n. f (st\<lparr>inv_ops := n\<rparr>) = f st) \<Longrightarrow> keeps f (get_for_parent D i)"
  unfolding get_for_parent_def by (rule keeps_query)

lemma keeps_save_for_parent:
  "unseen f D \<Longrightarrow> undeleted f D \<Longrightarrow> keeps f (save_for_parent D i es auth)"
  unfolding save_for_parent_def save_child_def Let_def
  by (intro keeps_intros keeps_entity_create keeps_entity_update keeps_entity_delete_many) (simp_all add: unseenD)


section \<open>Tables\<close>

definition table_ok :: "('e \<Rightarrow> uuid) \<Rightarrow> (uuid, 'e) HashMap \<Rightarrow> bool" where
  "table_ok key t \<longleftrightarrow> hmap_ok t \<and> (\<forall>(k, r) \<in> set t. key r = k)"

lemma table_okD: "table_ok key t \<Longrightarrow> hget t k = Some r \<Longrightarrow> key r = k"
  by (auto simp: table_ok_def dest!: hget_in_values)

lemma table_ok_mem: "table_ok key t \<Longrightarrow> r \<in> set (hvalues t) \<longleftrightarrow> hget t (key r) = Some r"
  by (force simp: table_ok_def hvalues_def hget_iff_mem)

lemma hget_drop_rows: "hget (drop_rows ids t) k = (if k \<in> set ids then None else hget t k)"
  by (induction t) (auto simp: drop_rows_def hget_def)

lemma table_ok_iff: "table_ok key t \<longleftrightarrow> hmap_ok t \<and> (\<forall>k r. hget t k = Some r \<longrightarrow> key r = k)"
  by (auto simp: table_ok_def hget_iff_mem)

lemma table_ok_hinsert [simp]: "table_ok key t \<Longrightarrow> table_ok key (hinsert (key e) e t)"
  by (auto simp: table_ok_iff hget_laws)

lemma hmap_ok_drop_rows [simp]: "hmap_ok t \<Longrightarrow> hmap_ok (drop_rows ids t)"
  by (simp add: hmap_ok_def hkeys_def drop_rows_def distinct_map_filter)

lemma table_ok_drop_rows [simp]: "table_ok key t \<Longrightarrow> table_ok key (drop_rows ids t)"
  by (auto simp: table_ok_def drop_rows_def hmap_ok_def hkeys_def distinct_map_filter)

lemma set_rows_where:
  "table_ok key t \<Longrightarrow> r \<in> set (rows_where sel ord t) \<longleftrightarrow> hget t (key r) = Some r \<and> sel r"
  by (auto simp: rows_where_def table_ok_mem)

text \<open>The rows written by a list of insertions, the last one of an id standing.\<close>

definition put_rows :: "('e \<Rightarrow> uuid) \<Rightarrow> 'e list \<Rightarrow> (uuid, 'e) HashMap \<Rightarrow> (uuid, 'e) HashMap" where
  "put_rows key es t = fold (\<lambda>e. hinsert (key e) e) es t"

lemma put_rows_Nil [simp]: "put_rows key [] t = t"
  by (simp add: put_rows_def)

lemma put_rows_Cons [simp]: "put_rows key (e # es) t = put_rows key es (hinsert (key e) e t)"
  by (simp add: put_rows_def)

lemma table_ok_put_rows [simp]: "table_ok key t \<Longrightarrow> table_ok key (put_rows key es t)"
  by (induction es arbitrary: t) simp_all

lemma hget_put_rows:
  "k \<notin> key ` set es \<Longrightarrow> hget (put_rows key es t) k = hget t k"
  by (induction es arbitrary: t) (auto simp: hget_laws)

lemma hget_put_rows_mem:
  "k \<in> key ` set es \<Longrightarrow> \<exists>e \<in> set es. key e = k \<and> hget (put_rows key es t) k = Some e"
proof (induction es arbitrary: t)
  case (Cons e es)
  then show ?case
    by (cases "k \<in> key ` set es") (fastforce simp: hget_put_rows hget_laws)+
qed simp

text \<open>A table after the deletion of old children and the writing of new ones.\<close>

lemma synced_rows:
  assumes t': "t' = put_rows key rs (drop_rows del t)" and ok: "table_ok key t"
    and gone: "\<And>r. hget t (key r) = Some r \<Longrightarrow> par r = p \<Longrightarrow> key r \<in> set del \<or> key r \<in> key ` set rs"
    and del: "\<And>i. i \<in> set del \<Longrightarrow> \<exists>r. hget t i = Some r \<and> par r = p"
    and new: "\<And>r. r \<in> set rs \<Longrightarrow> hget (drop_rows del t) (key r) = None \<or> (\<exists>c. hget t (key r) = Some c \<and> par c = p)"
    and par: "\<And>r. r \<in> set rs \<Longrightarrow> par r = p"
  shows "hget t' k = Some r \<Longrightarrow> par r = p \<Longrightarrow> r \<in> set rs"
    "i \<in> key ` set rs \<Longrightarrow> \<exists>r \<in> set rs. key r = i \<and> hget t' i = Some r"
    "par r \<noteq> p \<Longrightarrow> hget t' k = Some r \<longleftrightarrow> hget t k = Some r"
proof -
  show mem: "\<exists>r \<in> set rs. key r = i \<and> hget t' i = Some r" if "i \<in> key ` set rs" for i
    unfolding t' by (rule hget_put_rows_mem [OF that])
  have rest: "hget t' k = hget (drop_rows del t) k" if "k \<notin> key ` set rs" for k
    unfolding t' by (rule hget_put_rows [OF that])
  show "r \<in> set rs" if "hget t' k = Some r" "par r = p" for k r
  proof (cases "k \<in> key ` set rs")
    case True
    from mem [OF this] that(1) show ?thesis by auto
  next
    case False
    from rest [OF this] that(1) have "k \<notin> set del" "hget t k = Some r"
      by (auto simp: hget_drop_rows split: if_splits)
    with gone [of r] that(2) table_okD [OF ok] False show ?thesis by auto
  qed
  show "hget t' k = Some r \<longleftrightarrow> hget t k = Some r" if "par r \<noteq> p" for k r
  proof (cases "k \<in> key ` set rs")
    case False
    from rest [OF this] del [of k] that show ?thesis by (auto simp: hget_drop_rows)
  next
    case True
    from mem [OF this] obtain x where x: "x \<in> set rs" "key x = k" "hget t' k = Some x" by blast
    with new [of x] del [of k] that have "hget t k \<noteq> Some r"
      by (auto simp: hget_drop_rows split: if_splits)
    with x par [OF x(1)] that show ?thesis by auto
  qed
qed

text \<open>
  What the generic operations rely on: writing a row and deleting rows change the entity's own
  table as they say, and the fields an operation sets are the fields it reads.
\<close>

locale crud_table =
  fixes D :: "'e Crud"
  assumes table_put: "c_table D (c_put D e st) = hinsert (c_id D e) e (c_table D st)"
    and table_delete: "c_table D (c_delete D ids st) = drop_rows ids (c_table D st)"
    and table_ops: "c_table D (st\<lparr>inv_ops := n\<rparr>) = c_table D st"
    and table_bus: "c_table D (st\<lparr>inv_bus := b\<rparr>) = c_table D st"
    and id_set_id: "c_id D (c_set_id D i e) = i"
    and parent_set_id: "c_parent D (c_set_id D i e) = c_parent D e"
    and id_set_created_at: "c_id D (c_set_created_at D t e) = c_id D e"
    and parent_set_created_at: "c_parent D (c_set_created_at D t e) = c_parent D e"
begin

lemma table_publish: "publish_entity x i n operation meta auth env st = (r, st') \<Longrightarrow> c_table D st' = c_table D st"
  by (auto simp: publish_entity_def table_bus)

lemma insert_success:
  assumes "insert_row D e env st = (Inr u, st')"
  shows "hget (c_table D st) (c_id D e) = None" "c_table D st' = hinsert (c_id D e) e (c_table D st)"
  using assms by (auto simp: insert_row_def op_success table_ops table_put split: if_splits)

lemma update_success:
  assumes "update_row D e env st = (Inr u, st')"
  shows "c_table D st' =
    (if hget (c_table D st) (c_id D e) = None then c_table D st else hinsert (c_id D e) e (c_table D st))"
  using assms by (auto simp: update_row_def op_success table_ops table_put split: if_splits)

lemma create_success:
  assumes "entity_create D e auth env st = (Inr r, st')" "c_id D e \<noteq> uuid_nil"
  shows "r = e" "hget (c_table D st) (c_id D e) = None" "c_table D st' = hinsert (c_id D e) e (c_table D st)"
proof -
  obtain st1 x where i: "insert_row D e env st = (Inr x, st1)" and r: "r = e" and t: "c_table D st' = c_table D st1"
    using assms by (auto simp: entity_create_def op_success Let_def dest!: table_publish)
  from insert_success [OF i] r t
  show "r = e" "hget (c_table D st) (c_id D e) = None" "c_table D st' = hinsert (c_id D e) e (c_table D st)"
    by simp_all
qed

lemma update_entity_success:
  assumes "entity_update D e auth env st = (Inr r, st')"
  shows "r = e" "hget (c_table D st) (c_id D e) \<noteq> None" "c_table D st' = hinsert (c_id D e) e (c_table D st)"
  using assms
  by (auto simp: entity_update_def entity_get_def op_success table_ops split: option.splits
      dest!: update_success table_publish)

lemma announce_table:
  "each_op (announce_deletion D auth) ids env st = (r, st') \<Longrightarrow> c_table D st' = c_table D st"
  by (erule keeps_result [rotated], unfold announce_deletion_def, intro keeps_intros keeps_publish_entity)
     (simp_all add: table_ops table_bus)

lemma delete_many_success:
  assumes "entity_delete_many D ids auth env st = (Inr u, st')"
  shows "c_table D st' = drop_rows ids (c_table D st)"
  using assms
  by (auto simp: entity_delete_many_def op_success table_delete table_ops dest!: announce_table split: if_splits)
     (simp add: drop_rows_def)


lemma save_child_success:
  assumes "save_child D existing auth child env st = (Inr r, st')" "\<forall>n. ie_fresh env n \<noteq> uuid_nil"
  shows "c_table D st' = hinsert (c_id D r) r (c_table D st)"
    "c_id D child \<noteq> uuid_nil \<Longrightarrow> c_id D r = c_id D child"
    "hget (c_table D st) (c_id D r) = None \<or> hget existing (c_id D r) \<noteq> None"
    "(\<And>i e. g (c_set_id D i e) = g e) \<Longrightarrow> (\<And>t e. g (c_set_created_at D t e) = g e) \<Longrightarrow> g r = g child"
proof -
  consider (new) f where "c_id D child = uuid_nil" "f \<noteq> uuid_nil"
      "entity_create D (c_set_id D f child) auth env st = (Inr r, st')"
    | (known) old where "c_id D child \<noteq> uuid_nil" "hget existing (c_id D child) = Some old"
      "entity_update D (c_set_created_at D (c_created_at D old) child) auth env st = (Inr r, st')"
    | (unknown) "c_id D child \<noteq> uuid_nil" "entity_create D child auth env st = (Inr r, st')"
    using assms by (auto simp: save_child_def op_success split: if_splits option.splits)
  then have "c_table D st' = hinsert (c_id D r) r (c_table D st) \<and>
      (c_id D child \<noteq> uuid_nil \<longrightarrow> c_id D r = c_id D child) \<and>
      (hget (c_table D st) (c_id D r) = None \<or> hget existing (c_id D r) \<noteq> None) \<and>
      ((\<forall>i e. g (c_set_id D i e) = g e) \<longrightarrow> (\<forall>t e. g (c_set_created_at D t e) = g e) \<longrightarrow> g r = g child)"
  proof cases
    case new
    from create_success [OF new(3)] new(1,2) show ?thesis by (auto simp: id_set_id)
  next
    case known
    from update_entity_success [OF known(3)] known(1,2) show ?thesis by (auto simp: id_set_created_at)
  next
    case unknown
    from create_success [OF unknown(2,1)] unknown(1) show ?thesis by auto
  qed
  then show "c_table D st' = hinsert (c_id D r) r (c_table D st)"
    "c_id D child \<noteq> uuid_nil \<Longrightarrow> c_id D r = c_id D child"
    "hget (c_table D st) (c_id D r) = None \<or> hget existing (c_id D r) \<noteq> None"
    "(\<And>i e. g (c_set_id D i e) = g e) \<Longrightarrow> (\<And>t e. g (c_set_created_at D t e) = g e) \<Longrightarrow> g r = g child"
    by blast+
qed

lemma save_children_success:
  "map_op (save_child D existing auth) children env st = (Inr rs, st') \<Longrightarrow>
   \<forall>n. ie_fresh env n \<noteq> uuid_nil \<Longrightarrow>
   c_table D st' = put_rows (c_id D) rs (c_table D st) \<and>
   list_all2 (\<lambda>child r. c_id D child \<noteq> uuid_nil \<longrightarrow> c_id D r = c_id D child) children rs \<and>
   (\<forall>r \<in> set rs. hget (c_table D st) (c_id D r) = None \<or> hget existing (c_id D r) \<noteq> None)"
proof (induction children arbitrary: st rs)
  case (Cons child children)
  obtain r rs' st1 where one: "save_child D existing auth child env st = (Inr r, st1)"
    and rest: "map_op (save_child D existing auth) children env st1 = (Inr rs', st')" and rs: "rs = r # rs'"
    using Cons.prems(1) by (auto simp: op_success)
  note one' = save_child_success [OF one Cons.prems(2)] and rest' = Cons.IH [OF rest Cons.prems(2)]
  have "hget (c_table D st) (c_id D x) = None \<or> hget existing (c_id D x) \<noteq> None" if "x \<in> set rs'" for x
    using rest' that by (auto simp: one'(1) hget_laws split: if_splits)
  with one'(1-3) rest' show ?case by (simp add: rs)
qed (simp add: op_success)

lemma save_children_content:
  "map_op (save_child D existing auth) children env st = (Inr rs, st') \<Longrightarrow>
   \<forall>n. ie_fresh env n \<noteq> uuid_nil \<Longrightarrow>
   (\<And>i e. g (c_set_id D i e) = g e) \<Longrightarrow> (\<And>t e. g (c_set_created_at D t e) = g e) \<Longrightarrow>
   map g rs = map g children"
  by (induction children arbitrary: st rs)
     (auto simp: op_success dest: save_child_success(4) [where g = g])

text \<open>
  \<open>save_for_parent\<close> leaves the parent with the saved rows and nothing else, and the children
  of other parents as they were.
\<close>

lemma save_for_parent_success:
  assumes run: "save_for_parent D parent children auth env st = (Inr rs, st')"
    and fresh: "\<forall>n. ie_fresh env n \<noteq> uuid_nil"
    and ok: "table_ok (c_id D) (c_table D st)"
    and parent: "\<forall>c \<in> set children. c_parent D c = parent"
  shows "table_ok (c_id D) (c_table D st')"
    "r \<in> set rs \<Longrightarrow> c_parent D r = parent"
    "hget (c_table D st') k = Some r \<Longrightarrow> c_parent D r = parent \<Longrightarrow> r \<in> set rs"
    "i \<in> c_id D ` set rs \<Longrightarrow> \<exists>r \<in> set rs. c_id D r = i \<and> hget (c_table D st') i = Some r"
    "c_parent D r \<noteq> parent \<Longrightarrow> hget (c_table D st') k = Some r \<longleftrightarrow> hget (c_table D st) k = Some r"
    "(\<And>i e. g (c_set_id D i e) = g e) \<Longrightarrow> (\<And>t e. g (c_set_created_at D t e) = g e) \<Longrightarrow>
       map g rs = map g children"
proof -
  let ?t = "c_table D st"
  let ?olds = "rows_where (\<lambda>e. c_parent D e = parent) (c_created_at D) ?t"
  let ?existing = "map (\<lambda>c. (c_id D c, c)) ?olds"
  let ?new_ids = "map (c_id D) (filter (\<lambda>c. c_id D c \<noteq> uuid_nil) children)"
  let ?to_delete = "filter (\<lambda>i. i \<notin> set ?new_ids) (map (c_id D) ?olds)"
  let ?st1 = "st\<lparr>inv_ops := Suc (inv_ops st)\<rparr>"
  have olds: "c \<in> set ?olds \<longleftrightarrow> hget ?t (c_id D c) = Some c \<and> c_parent D c = parent" for c
    by (rule set_rows_where [OF ok])
  from run obtain st2 where d: "entity_delete_many D ?to_delete auth env ?st1 = (Inr (), st2)"
    and m: "map_op (save_child D ?existing auth) children env st2 = (Inr rs, st')"
    unfolding save_for_parent_def get_for_parent_def bind_op_success query_success Let_def table_ops
    by (elim exE conjE) (simp add: table_ops)
  have st2: "c_table D st2 = drop_rows ?to_delete ?t"
    using delete_many_success [OF d] by (simp only: table_ops)
  note saved = save_children_success [OF m fresh, unfolded st2]
  show content: "map g rs = map g children"
    if "\<And>i e. g (c_set_id D i e) = g e" "\<And>t e. g (c_set_created_at D t e) = g e" for g :: "'e \<Rightarrow> 'b"
    by (rule save_children_content [OF m fresh that])
  have parents: "c_parent D r = parent" if "r \<in> set rs" for r
  proof -
    have "c_parent D r \<in> set (map (c_parent D) rs)" using that by simp
    also have "map (c_parent D) rs = map (c_parent D) children"
      by (rule save_children_content [OF m fresh parent_set_id parent_set_created_at])
    finally show ?thesis using parent by auto
  qed
  then show "r \<in> set rs \<Longrightarrow> c_parent D r = parent" .
  have gone: "c_id D r \<in> set ?to_delete \<or> c_id D r \<in> c_id D ` set rs"
    if "hget ?t (c_id D r) = Some r" "c_parent D r = parent" for r
  proof (cases "c_id D r \<in> set ?new_ids")
    case True
    then obtain c where "c \<in> set children" "c_id D c = c_id D r" "c_id D c \<noteq> uuid_nil" by auto
    moreover obtain j where "j < length children" "children ! j = c"
      using \<open>c \<in> set children\<close> by (auto simp: in_set_conv_nth)
    ultimately have "j < length rs" "c_id D (rs ! j) = c_id D r"
      using saved by (auto simp: list_all2_conv_all_nth)
    then show ?thesis by (metis image_eqI nth_mem)
  next
    case False
    then show ?thesis using that olds [of r] by simp
  qed
  have del: "\<exists>r. hget ?t i = Some r \<and> c_parent D r = parent" if "i \<in> set ?to_delete" for i
  proof -
    have "i \<in> c_id D ` set ?olds" using that by simp
    then obtain r where "r \<in> set ?olds" "i = c_id D r" by blast
    then show ?thesis using olds [of r] by blast
  qed
  have new: "hget (drop_rows ?to_delete ?t) (c_id D r) = None \<or>
      (\<exists>c. hget ?t (c_id D r) = Some c \<and> c_parent D c = parent)" if "r \<in> set rs" for r
  proof (cases "hget ?existing (c_id D r)")
    case None
    then show ?thesis using saved that by blast
  next
    case (Some c)
    then have "c \<in> set ?olds" "c_id D c = c_id D r" by (auto simp: hget_def dest!: map_of_SomeD)
    then show ?thesis using olds [of c] by metis
  qed
  note synced = synced_rows [OF conjunct1 [OF saved] ok gone del new parents]
  show "table_ok (c_id D) (c_table D st')"
    using ok saved by simp
  show "hget (c_table D st') k = Some r \<Longrightarrow> c_parent D r = parent \<Longrightarrow> r \<in> set rs" by (rule synced(1))
  show "i \<in> c_id D ` set rs \<Longrightarrow> \<exists>r \<in> set rs. c_id D r = i \<and> hget (c_table D st') i = Some r" by (rule synced(2))
  show "c_parent D r \<noteq> parent \<Longrightarrow> hget (c_table D st') k = Some r \<longleftrightarrow> hget (c_table D st) k = Some r"
    by (rule synced(3))
qed

end

interpretation interface_table: crud_table interface_crud
  by unfold_locales (simp_all add: interface_crud_def delete_interfaces_def delete_bindings_def)

interpretation port_table: crud_table port_crud
  by unfold_locales (simp_all add: port_crud_def delete_ports_def delete_bindings_def)

interpretation binding_table: crud_table binding_crud
  by unfold_locales (simp_all add: binding_crud_def delete_bindings_def)

end
