(* ===== verification/Service_Store.thy ===== *)
theory Service_Store
  imports Inventory_Crud
begin

text \<open>
  The service of the services (\<open>server/services/service.rs\<close>): reading a service with its
  bindings and tags, creating one (or merging it into one that is the same), updating and
  deleting it, and keeping the groups (\<open>server/groups/service.rs\<close>) in step with the bindings.
\<close>

section \<open>Reading\<close>

definition bindings_of :: "Inventory \<Rightarrow> uuid \<Rightarrow> Binding list" where
  "bindings_of st s =
     rows_where (\<lambda>b. bb_service_id (binding_base b) = s) binding_created_at (inv_bindings st)"

definition with_bindings :: "Inventory \<Rightarrow> Service \<Rightarrow> Service" where
  "with_bindings st s = s\<lparr>service_base := (service_base s)\<lparr>bindings := bindings_of st (service_id s)\<rparr>\<rparr>"

definition with_tags :: "Inventory \<Rightarrow> Service \<Rightarrow> Service" where
  "with_tags st s = s\<lparr>service_base := (service_base s)\<lparr>vb_tags := tags_of st D_Service (service_id s)\<rparr>\<rparr>"

definition service_get_by_id :: "uuid \<Rightarrow> Service option op" where
  "service_get_by_id i =
     bind_op (query (\<lambda>st. hget (inv_services st) i)) (\<lambda>r.
       case r of
         None \<Rightarrow> ok_op None
       | Some s \<Rightarrow>
           bind_op (query (\<lambda>st. with_bindings st s)) (\<lambda>s1.
             bind_op (query (\<lambda>st. with_tags st s1)) (\<lambda>s2. ok_op (Some s2))))"

definition hydrate_services :: "Service list \<Rightarrow> Service list op" where
  "hydrate_services ss =
     (if ss = [] then ok_op []
      else bind_op (query (\<lambda>st. map (with_bindings st) ss)) (\<lambda>ss1. query (\<lambda>st. map (with_tags st) ss1)))"

definition services_of_host :: "uuid \<Rightarrow> Service list op" where
  \<comment> \<open>\<open>get_all\<close> with the filter of a host\<close>
  "services_of_host h =
     bind_op (query (\<lambda>st. rows_where (\<lambda>s. vb_host_id (service_base s) = h) service_created_at (inv_services st)))
       hydrate_services"

definition services_of_host_ordered :: "uuid \<Rightarrow> Service list op" where
  "services_of_host_ordered h =
     bind_op (query (\<lambda>st. rows_where (\<lambda>s. vb_host_id (service_base s) = h) (\<lambda>s. vb_position (service_base s))
                          (inv_services st)))
       hydrate_services"

section \<open>Writing a row and its bindings\<close>

definition service_row :: "Service \<Rightarrow> Service" where
  \<comment> \<open>bindings and tags are rows of other tables\<close>
  "service_row s = s\<lparr>service_base := (service_base s)\<lparr>bindings := [], vb_tags := []\<rparr>\<rparr>"

definition service_display :: "Service \<Rightarrow> string" where
  "service_display s =
     (let q = [char_of (34::nat)] in
      q @ vb_name (service_base s) @ q @ '': '' @ uuid_display (service_id s))"

definition service_crud :: "Service Crud" where
  "service_crud =
     \<lparr>c_table = inv_services,
      c_put = (\<lambda>e st. st\<lparr>inv_services := hinsert (service_id e) (service_row e) (inv_services st)\<rparr>),
      c_delete = delete_services,
      c_refs = (\<lambda>e st. host_exists st (vb_host_id (service_base e))),
      c_clash = (\<lambda>a b. False),
      c_unique_key = [], c_primary_key = ''services_pkey'',
      c_id = service_id, c_set_id = (\<lambda>i e. e\<lparr>service_id := i\<rparr>),
      c_created_at = service_created_at, c_set_created_at = (\<lambda>t e. e\<lparr>service_created_at := t\<rparr>),
      c_new = (\<lambda>f now e. service_new f now (service_base e)),
      c_parent = (\<lambda>e. vb_host_id (service_base e)),
      c_network = (\<lambda>e. vb_network_id (service_base e)),
      c_entity = EService, c_stale = service_triggers_staleness, c_text = service_display\<rparr>"

definition save_bindings :: "Service \<Rightarrow> AuthenticatedEntity \<Rightarrow> Service op" where
  \<comment> \<open>stores the bindings under the service's id and answers with the service holding what was stored\<close>
  "save_bindings s auth =
     bind_op (save_for_parent binding_crud (service_id s)
         (map (\<lambda>b. binding_with_service b (service_id s) (vb_network_id (service_base s))) (bindings (service_base s)))
         auth)
       (\<lambda>saved. ok_op (s\<lparr>service_base := (service_base s)\<lparr>bindings := saved\<rparr>\<rparr>))"

definition publish_service ::
    "Service \<Rightarrow> EntityOperation \<Rightarrow> bool \<Rightarrow> AuthenticatedEntity \<Rightarrow> unit op" where
  "publish_service s operation stale auth =
     publish_entity (EService s) (service_id s) (vb_network_id (service_base s)) operation
       (staleness_metadata stale) auth"

section \<open>Groups\<close>

definition group_binding_ids :: "Inventory \<Rightarrow> uuid \<Rightarrow> uuid list" where
  "group_binding_ids st g = (case hget (inv_group_bindings st) g of Some bs \<Rightarrow> bs | None \<Rightarrow> [])"

definition group_with_bindings :: "Inventory \<Rightarrow> Group \<Rightarrow> Group" where
  "group_with_bindings st g = g\<lparr>group_base := (group_base g)\<lparr>binding_ids := group_binding_ids st (group_id g)\<rparr>\<rparr>"

definition group_with_tags :: "Inventory \<Rightarrow> Group \<Rightarrow> Group" where
  "group_with_tags st g = g\<lparr>group_base := (group_base g)\<lparr>gb_tags := tags_of st D_Group (group_id g)\<rparr>\<rparr>"

definition group_get_by_id :: "uuid \<Rightarrow> Group option op" where
  "group_get_by_id i =
     bind_op (query (\<lambda>st. hget (inv_groups st) i)) (\<lambda>r.
       case r of
         None \<Rightarrow> ok_op None
       | Some g \<Rightarrow>
           bind_op (query (\<lambda>st. group_with_tags st g)) (\<lambda>g1.
             bind_op (query (\<lambda>st. group_with_bindings st g1)) (\<lambda>g2. ok_op (Some g2))))"

definition groups_of_network :: "uuid \<Rightarrow> Group list op" where
  "groups_of_network n =
     bind_op (query (\<lambda>st. rows_where (\<lambda>g. gb_network_id (group_base g) = n) group_created_at (inv_groups st)))
       (\<lambda>gs. if gs = [] then ok_op []
             else bind_op (query (\<lambda>st. map (group_with_bindings st) gs)) (\<lambda>gs1. query (\<lambda>st. map (group_with_tags st) gs1)))"

definition group_row :: "Group \<Rightarrow> Group" where
  "group_row g = g\<lparr>group_base := (group_base g)\<lparr>binding_ids := [], gb_tags := []\<rparr>\<rparr>"

definition save_for_group :: "uuid \<Rightarrow> uuid list \<Rightarrow> unit op" where
  \<comment> \<open>one transaction: the old rows out, the new ones in\<close>
  "save_for_group g ids =
     statement (\<lambda>st.
       if \<not> distinct ids
       then Inl (ValidationError (friendly_unique_violation_message ''group_bindings_group_id_binding_id_key''))
       else if \<not> list_all (\<lambda>b. hget (inv_bindings st) b \<noteq> None) ids then Inl violation
       else Inr ((), st\<lparr>inv_group_bindings := hinsert g ids (inv_group_bindings st)\<rparr>))"

definition publish_group :: "Group \<Rightarrow> EntityOperation \<Rightarrow> bool \<Rightarrow> AuthenticatedEntity \<Rightarrow> unit op" where
  "publish_group g operation stale auth =
     publish_entity (EGroup g) (group_id g) (gb_network_id (group_base g)) operation (staleness_metadata stale) auth"

definition group_create :: "Group \<Rightarrow> AuthenticatedEntity \<Rightarrow> Group op" where
  "group_create g0 auth =
     bind_op fresh_op (\<lambda>f. bind_op now_op (\<lambda>now.
       let g = (if group_id g0 = uuid_nil
                then \<lparr>group_id = f, group_created_at = now, group_updated_at = now, group_base = group_base g0\<rparr>
                else g0) in
       bind_op (statement (\<lambda>st.
           if hget (inv_groups st) (group_id g) \<noteq> None
           then Inl (ValidationError (friendly_unique_violation_message ''groups_pkey''))
           else Inr ((), st\<lparr>inv_groups := hinsert (group_id g) (group_row g) (inv_groups st)\<rparr>))) (\<lambda>_.
         bind_op (save_for_group (group_id g) (binding_ids (group_base g))) (\<lambda>_.
           bind_op (set_tags_as auth (group_id g) D_Group (gb_tags (group_base g))) (\<lambda>_.
             bind_op (publish_group g Created (group_triggers_staleness g None) auth) (\<lambda>_. ok_op g))))))"

definition group_update :: "Group \<Rightarrow> AuthenticatedEntity \<Rightarrow> Group op" where
  "group_update g auth =
     bind_op (group_get_by_id (group_id g)) (\<lambda>r.
       case r of
         None \<Rightarrow> err_op (OtherError ''Could not find group'')
       | Some current \<Rightarrow>
           bind_op (execute (\<lambda>st.
               if hget (inv_groups st) (group_id g) = None then st
               else st\<lparr>inv_groups := hinsert (group_id g) (group_row g) (inv_groups st)\<rparr>)) (\<lambda>_.
             bind_op (save_for_group (group_id g) (binding_ids (group_base g))) (\<lambda>_.
               bind_op (set_tags_as auth (group_id g) D_Group (gb_tags (group_base g))) (\<lambda>_.
                 bind_op (publish_group g Updated (group_triggers_staleness g (Some current)) auth)
                   (\<lambda>_. ok_op g)))))"

definition retain_group_bindings :: "uuid list \<Rightarrow> uuid list \<Rightarrow> Group \<Rightarrow> Group" where
  "retain_group_bindings current_ids updated_ids g =
     g\<lparr>group_base := (group_base g)\<lparr>binding_ids :=
         filter (\<lambda>b. if b \<in> set current_ids then b \<in> set updated_ids else True) (binding_ids (group_base g))\<rparr>\<rparr>"

definition update_group_service_bindings :: "Service \<Rightarrow> Service option \<Rightarrow> AuthenticatedEntity \<Rightarrow> unit op" where
  "update_group_service_bindings current updates auth =
     bind_op (groups_of_network (vb_network_id (service_base current))) (\<lambda>groups.
       let current_ids = map binding_id (bindings (service_base current));
           updated_ids = (case updates of Some s \<Rightarrow> map binding_id (bindings (service_base s)) | None \<Rightarrow> []);
           changed = filter (\<lambda>g. length (binding_ids (group_base (retain_group_bindings current_ids updated_ids g)))
                                 \<noteq> length (binding_ids (group_base g))) groups
       in each_op (\<lambda>g. bind_op (group_update (retain_group_bindings current_ids updated_ids g) auth) (\<lambda>_. ok_op ()))
            changed)"

section \<open>Checks against the tables\<close>

definition bindings_belong_to_host :: "uuid \<Rightarrow> Binding list \<Rightarrow> unit op" where
  "bindings_belong_to_host h bs =
     (if bs = [] then ok_op ()
      else bind_op (ports_for_host h) (\<lambda>ports.
        bind_op (interfaces_for_host h) (\<lambda>intfs.
          lift_op (validate_bindings_belong_to_host ports intfs bs))))"

definition bindings_available :: "uuid \<Rightarrow> uuid \<Rightarrow> Binding list \<Rightarrow> unit op" where
  "bindings_available h s bs =
     (if bs = [] then ok_op ()
      else bind_op (services_of_host h) (\<lambda>existing.
        case first_taken (filter (\<lambda>x. service_id x \<noteq> s) existing) bs of
          None \<Rightarrow> ok_op ()
        | Some (p, owner) \<Rightarrow>
            bind_op (ports_for_host h) (\<lambda>ports. err_op (port_taken_error ports p owner))))"

definition free_and_claimed :: "uuid \<Rightarrow> uuid \<Rightarrow> Binding list \<Rightarrow> claim list \<Rightarrow> (Binding list \<times> Binding list) op" where
  \<comment> \<open>\<open>partition_conflicting_bindings\<close> with the services read from the table\<close>
  "free_and_claimed h s bs batch =
     (if bs = [] then ok_op ([], [])
      else bind_op (services_of_host h) (\<lambda>existing.
        ok_op (partition_conflicting_bindings existing s bs batch)))"

section \<open>The operations\<close>

definition upsert_service :: "Service \<Rightarrow> Service \<Rightarrow> AuthenticatedEntity \<Rightarrow> Service op" where
  "upsert_service existing new_s auth =
     (let merged = merged_service existing new_s;
          updates = snd (upsert_bindings (bindings (service_base existing)) (bindings (service_base new_s)))
      in bind_op (update_row service_crud merged) (\<lambda>_.
           bind_op (save_bindings merged auth) (\<lambda>s.
             if updates > 0
             then bind_op (publish_service s Updated (service_triggers_staleness s (Some existing)) auth) (\<lambda>_. ok_op s)
             else ok_op s)))"

definition service_insert :: "Service \<Rightarrow> AuthenticatedEntity \<Rightarrow> Service op" where
  \<comment> \<open>the branch of \<open>create\<close> for a service that is not known\<close>
  "service_insert s auth =
     (let bs = bindings (service_base s); h = vb_host_id (service_base s) in
      bind_op (lift_op (validate_bindings_no_conflicts bs)) (\<lambda>_.
        bind_op (bindings_belong_to_host h bs) (\<lambda>_.
          bind_op (if is_from_discovery (vb_source (service_base s)) then ok_op ()
                   else bindings_available h (service_id s) bs) (\<lambda>_.
            bind_op (insert_row service_crud s) (\<lambda>_.
              bind_op (save_bindings s auth) (\<lambda>created.
                bind_op (set_tags_as auth (service_id created) D_Service (vb_tags (service_base created))) (\<lambda>_.
                  bind_op (publish_service created Created (service_triggers_staleness created None) auth)
                    (\<lambda>_. ok_op created))))))))"

definition service_create :: "Service \<Rightarrow> AuthenticatedEntity \<Rightarrow> Service op" where
  "service_create s0 auth =
     bind_op fresh_op (\<lambda>f. bind_op now_op (\<lambda>now.
       let s1 = (if service_id s0 = uuid_nil then service_new f now (service_base s0) else s0);
           s = s1\<lparr>service_base := (service_base s1)
                 \<lparr>bindings := deduplicate_bindings (bindings (service_base s1))\<rparr>\<rparr>
       in bind_op (services_of_host (vb_host_id (service_base s))) (\<lambda>existing.
            case find (\<lambda>x. service_eq x s) existing of
              Some x \<Rightarrow>
                if is_from_discovery (vb_source (service_base s)) \<and> is_from_discovery (vb_source (service_base x))
                   \<or> service_id s = service_id x
                then upsert_service x s auth
                else service_insert (set_position service_positioned (next_position existing) s) auth
            | None \<Rightarrow> service_insert (set_position service_positioned (next_position existing) s) auth)))"

definition service_update :: "Service \<Rightarrow> AuthenticatedEntity \<Rightarrow> Service op" where
  "service_update s0 auth =
     bind_op (service_get_by_id (service_id s0)) (\<lambda>r.
       case r of
         None \<Rightarrow> err_op (OtherError ''Could not find service'')
       | Some current \<Rightarrow>
           (let bs = deduplicate_bindings (bindings (service_base s0));
                s = s0\<lparr>service_base := (service_base s0)\<lparr>bindings := bs\<rparr>\<rparr>;
                h = vb_host_id (service_base s)
            in bind_op (lift_op (validate_bindings_no_conflicts bs)) (\<lambda>_.
                 bind_op (bindings_belong_to_host h bs) (\<lambda>_.
                   bind_op (bindings_available h (service_id s) bs) (\<lambda>_.
                     bind_op (update_group_service_bindings current (Some s) auth) (\<lambda>_.
                       bind_op (update_row service_crud s) (\<lambda>_.
                         bind_op (save_bindings s auth) (\<lambda>updated.
                           bind_op (set_tags_as auth (service_id updated) D_Service (vb_tags (service_base updated))) (\<lambda>_.
                             bind_op (publish_service updated Updated
                                        (service_triggers_staleness updated (Some current)) auth)
                               (\<lambda>_. ok_op updated))))))))))"

definition service_delete :: "uuid \<Rightarrow> AuthenticatedEntity \<Rightarrow> unit op" where
  "service_delete i auth =
     bind_op (service_get_by_id i) (\<lambda>r.
       case r of
         None \<Rightarrow> err_op (OtherError (''Service '' @ uuid_display i @ '' not found''))
       | Some s \<Rightarrow>
           bind_op (update_group_service_bindings s None auth) (\<lambda>_.
             bind_op (remove_all_for_entity i D_Service) (\<lambda>_.
               bind_op (execute (delete_services [i])) (\<lambda>_.
                 publish_service s Deleted (service_triggers_staleness s None) auth))))"

text \<open>\<open>delete_many\<close> is the generic one: the groups are left to the cascade.\<close>

definition announce_service_deletion :: "AuthenticatedEntity \<Rightarrow> uuid \<Rightarrow> unit op" where
  "announce_service_deletion auth i =
     bind_op (service_get_by_id i) (\<lambda>r.
       case r of
         None \<Rightarrow> ok_op ()
       | Some s \<Rightarrow>
           bind_op (remove_all_for_entity (service_id s) D_Service) (\<lambda>_.
             publish_entity (EService s) i (vb_network_id (service_base s)) Deleted
               (crud_metadata (service_triggers_staleness s None)) auth))"

definition service_delete_many :: "uuid list \<Rightarrow> AuthenticatedEntity \<Rightarrow> unit op" where
  "service_delete_many ids auth =
     (if ids = [] then ok_op ()
      else bind_op (each_op (announce_service_deletion auth) ids) (\<lambda>_. execute (delete_services ids)))"

end
