(* ===== verification/Host_Store.thy ===== *)
theory Host_Store
  imports Service_Store Service_Discovery
begin

text \<open>
  The service of the hosts (\<open>server/hosts/service.rs\<close>): creating a host or merging it into a
  known one, creating it with its children for a user or for a discovery, updating it from a
  request with the synchronisation of its children, consolidating two hosts, deleting one, and
  linking SNMP interface entries. The requests of users are those of
  \<open>server/hosts/impl/api.rs\<close>.
\<close>

section \<open>Requests\<close>

datatype ConflictBehavior = ConflictError | ConflictUpsert

record PortInput =
  pi_id :: uuid
  pi_number :: u16
  pi_protocol :: TransportProtocol

definition into_port :: "timestamp \<Rightarrow> PortInput \<Rightarrow> uuid \<Rightarrow> uuid \<Rightarrow> Port" where
  "into_port now i host network =
     \<lparr>port_id = pi_id i, port_created_at = now, port_updated_at = now,
      port_base = \<lparr>pb_host_id = host, pb_network_id = network,
                   pb_port_type = Custom (port_config (pi_number i) (pi_protocol i))\<rparr>\<rparr>"

record IfEntryInput =
  ei_if_index :: i32
  ei_if_descr :: string
  ei_if_alias :: "string option"
  ei_if_type :: "i32 option"
  ei_speed_bps :: "int option"
  ei_admin_status :: "IfAdminStatus option"
  ei_oper_status :: "IfOperStatus option"
  ei_mac_address :: "MacAddress option"
  ei_interface_id :: "uuid option"

definition into_if_entry :: "uuid \<Rightarrow> timestamp \<Rightarrow> IfEntryInput \<Rightarrow> uuid \<Rightarrow> uuid \<Rightarrow> IfEntry" where
  "into_if_entry fresh now i host network =
     if_entry_new fresh now (default_if_entry_base
       \<lparr>fb_host_id := host, fb_network_id := network, if_index := ei_if_index i, if_descr := ei_if_descr i,
        if_alias := ei_if_alias i,
        if_type := (case ei_if_type i of Some t \<Rightarrow> t | None \<Rightarrow> 1),
        speed_bps := ei_speed_bps i,
        admin_status := (case ei_admin_status i of Some a \<Rightarrow> a | None \<Rightarrow> AdminUp),
        oper_status := (case ei_oper_status i of Some a \<Rightarrow> a | None \<Rightarrow> OperUp),
        fb_mac_address := ei_mac_address i, fb_interface_id := ei_interface_id i\<rparr>)"

record CreateHostRequest =
  cr_name :: string
  cr_network_id :: uuid
  cr_hostname :: "string option"
  cr_description :: "string option"
  cr_virtualization :: "HostVirtualization option"
  cr_hidden :: bool
  cr_tags :: "uuid list"
  cr_sys_descr :: "string option"
  cr_sys_object_id :: "string option"
  cr_sys_location :: "string option"
  cr_sys_contact :: "string option"
  cr_management_url :: "string option"
  cr_chassis_id :: "string option"
  cr_snmp_credential_id :: "uuid option"
  cr_interfaces :: "InterfaceInput list"
  cr_ports :: "PortInput list"
  cr_services :: "ServiceInput list"
  cr_if_entries :: "IfEntryInput list"

record UpdateHostRequest =
  ur_id :: uuid
  ur_name :: string
  ur_hostname :: "string option"
  ur_description :: "string option"
  ur_virtualization :: "HostVirtualization option"
  ur_hidden :: bool
  ur_tags :: "uuid list"
  expected_updated_at :: "timestamp option"
  ur_interfaces :: "InterfaceInput list option"
  ur_ports :: "PortInput list option"
  ur_services :: "ServiceInput list option"

section \<open>Reading hosts\<close>

definition host_with_tags :: "Inventory \<Rightarrow> Host \<Rightarrow> Host" where
  "host_with_tags st h = h\<lparr>host_base := (host_base h)\<lparr>hb_tags := tags_of st D_Host (host_id h)\<rparr>\<rparr>"

definition host_row :: "Host \<Rightarrow> Host" where
  \<comment> \<open>the tags are rows of another table\<close>
  "host_row h = h\<lparr>host_base := (host_base h)\<lparr>hb_tags := []\<rparr>\<rparr>"

definition host_get_by_id :: "uuid \<Rightarrow> Host option op" where
  "host_get_by_id i =
     bind_op (query (\<lambda>st. hget (inv_hosts st) i)) (\<lambda>r.
       case r of
         None \<Rightarrow> ok_op None
       | Some h \<Rightarrow> bind_op (query (\<lambda>st. host_with_tags st h)) (\<lambda>h1. ok_op (Some h1)))"

definition hosts_of_network :: "uuid \<Rightarrow> Host list op" where
  "hosts_of_network n =
     bind_op (query (\<lambda>st. rows_where (\<lambda>h. hb_network_id (host_base h) = n) host_created_at (inv_hosts st)))
       (\<lambda>hs. if hs = [] then ok_op [] else query (\<lambda>st. map (host_with_tags st) hs))"

definition publish_host :: "Host \<Rightarrow> EntityOperation \<Rightarrow> bool \<Rightarrow> AuthenticatedEntity \<Rightarrow> unit op" where
  "publish_host h operation stale auth =
     publish_entity (EHost h) (host_id h) (hb_network_id (host_base h)) operation (staleness_metadata stale) auth"

definition insert_host :: "Host \<Rightarrow> unit op" where
  "insert_host h =
     statement (\<lambda>st.
       if hget (inv_hosts st) (host_id h) \<noteq> None
       then Inl (ValidationError (friendly_unique_violation_message ''hosts_pkey''))
       else Inr ((), st\<lparr>inv_hosts := hinsert (host_id h) (host_row h) (inv_hosts st)\<rparr>))"

definition update_host_row :: "Host \<Rightarrow> unit op" where
  "update_host_row h =
     execute (\<lambda>st. if hget (inv_hosts st) (host_id h) = None then st
                   else st\<lparr>inv_hosts := hinsert (host_id h) (host_row h) (inv_hosts st)\<rparr>)"

section \<open>Merging a discovered host\<close>

definition fill :: "'a option \<Rightarrow> 'a option \<Rightarrow> 'a option" where
  "fill existing new_v = (if existing = None \<and> new_v \<noteq> None then new_v else existing)"

definition fills :: "'a option \<Rightarrow> 'a option \<Rightarrow> bool" where
  "fills existing new_v \<longleftrightarrow> existing = None \<and> new_v \<noteq> None"

definition merged_host_source :: "EntitySource \<Rightarrow> EntitySource \<Rightarrow> EntitySource" where
  "merged_host_source existing new_src =
     (case new_src of
        Discovered new_meta \<Rightarrow>
          (case existing of
             Discovered meta \<Rightarrow> cap_metadata (Discovered (new_meta @ meta))
           | _ \<Rightarrow> Discovered new_meta)
      | _ \<Rightarrow> existing)"

definition merged_host :: "Host \<Rightarrow> Host \<Rightarrow> Host" where
  "merged_host existing new_h =
     (let a = host_base existing; b = host_base new_h in
      existing\<lparr>host_base := a
        \<lparr>hostname := fill (hostname a) (hostname b),
         sys_descr := fill (sys_descr a) (sys_descr b),
         sys_object_id := fill (sys_object_id a) (sys_object_id b),
         sys_location := fill (sys_location a) (sys_location b),
         sys_contact := fill (sys_contact a) (sys_contact b),
         management_url := fill (management_url a) (management_url b),
         chassis_id := fill (chassis_id a) (chassis_id b),
         hb_source := merged_host_source (hb_source a) (hb_source b)\<rparr>\<rparr>)"

definition merge_has_updates :: "Host \<Rightarrow> Host \<Rightarrow> bool" where
  "merge_has_updates existing new_h \<longleftrightarrow>
     (let a = host_base existing; b = host_base new_h in
      fills (hostname a) (hostname b) \<or> fills (sys_descr a) (sys_descr b) \<or>
      fills (sys_object_id a) (sys_object_id b) \<or> fills (sys_location a) (sys_location b) \<or>
      fills (sys_contact a) (sys_contact b) \<or> fills (management_url a) (management_url b) \<or>
      fills (chassis_id a) (chassis_id b) \<or>
      (case hb_source b of Discovered _ \<Rightarrow> True | _ \<Rightarrow> False))"

definition upsert_host :: "Host \<Rightarrow> Host \<Rightarrow> AuthenticatedEntity \<Rightarrow> Host op" where
  "upsert_host existing new_h auth =
     (let merged = merged_host existing new_h in
      if merge_has_updates existing new_h
      then bind_op (update_host_row merged) (\<lambda>_.
             bind_op (publish_host merged Updated (host_triggers_staleness merged (Some existing)) auth)
               (\<lambda>_. ok_op merged))
      else ok_op merged)"

definition network_mismatch_error :: "Host \<Rightarrow> Host \<Rightarrow> ServiceError" where
  "network_mismatch_error existing h =
     (let q = [char_of (39::nat)] in
      ValidationError (''Network mismatch: Daemon is trying to update host '' @ q @ hb_name (host_base existing) @ q @
        '' (id: '' @ uuid_display (host_id h) @ '') but cannot proceed. The host belongs to network '' @
        uuid_display (hb_network_id (host_base existing)) @ '' while the daemon is assigned to network '' @
        uuid_display (hb_network_id (host_base h)) @
        ''. To resolve this, either reassign the daemon to the correct network or delete the mismatched host.''))"

definition is_discovered :: "Host \<Rightarrow> bool" where
  "is_discovered h = (case hb_source (host_base h) of Discovered _ \<Rightarrow> True | _ \<Rightarrow> False)"

definition host_insert :: "Host \<Rightarrow> AuthenticatedEntity \<Rightarrow> Host op" where
  \<comment> \<open>the branch of \<open>create\<close> for a host that is not known in its network\<close>
  "host_insert h auth =
     bind_op (host_get_by_id (host_id h)) (\<lambda>r.
       case r of
         Some existing \<Rightarrow> err_op (network_mismatch_error existing h)
       | None \<Rightarrow>
           bind_op (insert_host h) (\<lambda>_.
             bind_op (publish_host h Created (host_triggers_staleness h None) auth) (\<lambda>_. ok_op h)))"

definition host_create :: "Host \<Rightarrow> AuthenticatedEntity \<Rightarrow> Host op" where
  "host_create h0 auth =
     bind_op fresh_op (\<lambda>f. bind_op now_op (\<lambda>now.
       let h = (if host_id h0 = uuid_nil then host_new f now (host_base h0) else h0) in
       bind_op (hosts_of_network (hb_network_id (host_base h))) (\<lambda>all_hosts.
         case find (host_eq h) all_hosts of
           Some existing \<Rightarrow>
             if is_discovered h \<and> is_discovered existing \<or> host_id h = host_id existing
             then upsert_host existing h auth
             else host_insert h auth
         | None \<Rightarrow> host_insert h auth)))"

definition host_update :: "Host \<Rightarrow> AuthenticatedEntity \<Rightarrow> Host op" where
  "host_update h auth =
     bind_op (host_get_by_id (host_id h)) (\<lambda>r.
       case r of
         None \<Rightarrow> err_op (OtherError (''Host '' @ [char_of (39::nat)] @ uuid_display (host_id h) @
                   [char_of (39::nat)] @ '' not found''))
       | Some current \<Rightarrow>
           bind_op (update_host_row h) (\<lambda>_.
             bind_op (publish_host h Updated (host_triggers_staleness h (Some current)) auth) (\<lambda>_. ok_op h)))"

section \<open>The children of a host\<close>

definition load_children_for_host ::
    "uuid \<Rightarrow> (Interface list \<times> Port list \<times> Service list \<times> IfEntry list) op" where
  "load_children_for_host h =
     bind_op (interfaces_for_host h) (\<lambda>is.
       bind_op (ports_for_host h) (\<lambda>ps.
         bind_op (services_of_host_ordered h) (\<lambda>ss.
           bind_op (if_entries_for_host h) (\<lambda>es. ok_op (is, ps, ss, es)))))"

definition respond :: "Host \<Rightarrow> IfEntry HostResponse op" where
  "respond h =
     bind_op (load_children_for_host (host_id h)) (\<lambda>(is, ps, ss, es).
       ok_op (from_host_with_children h is ps ss es))"

definition get_host_response :: "uuid \<Rightarrow> IfEntry HostResponse option op" where
  "get_host_response i =
     bind_op (host_get_by_id i) (\<lambda>r.
       case r of
         None \<Rightarrow> ok_op None
       | Some h0 \<Rightarrow>
           bind_op (query (\<lambda>st. host_with_tags st h0)) (\<lambda>h. bind_op (respond h) (\<lambda>x. ok_op (Some x))))"

text \<open>The interfaces of all hosts of the network, grouped by host, in the order of their positions.\<close>

definition find_matching_host_by_interfaces :: "uuid \<Rightarrow> Interface list \<Rightarrow> (Host \<times> Interface list) option op" where
  "find_matching_host_by_interfaces n incoming =
     (if incoming = [] then ok_op None
      else bind_op (hosts_of_network n) (\<lambda>hs.
        if hs = [] then ok_op None
        else bind_op (query (\<lambda>st h. rows_where (\<lambda>i. ib_host_id (interface_base i) = h)
                                     (\<lambda>i. ib_position (interface_base i)) (inv_interfaces st)))
          (\<lambda>by_host. ok_op (map_option (\<lambda>h. (h, by_host (host_id h)))
             (find (\<lambda>h. list_ex (\<lambda>i. list_ex (interface_eq i) (by_host (host_id h))) incoming) hs)))))"

definition adopt_interface ::
    "ConflictBehavior \<Rightarrow> uuid \<Rightarrow> AuthenticatedEntity \<Rightarrow> Interface \<Rightarrow> Interface op" where
  "adopt_interface behavior h auth i0 =
     (let i = i0\<lparr>interface_base := (interface_base i0)\<lparr>ib_host_id := h\<rparr>\<rparr>;
          create = entity_create interface_crud i auth;
          of_host = (\<lambda>sel. query (\<lambda>st. rows_where (\<lambda>x. ib_host_id (interface_base x) = h \<and> sel (interface_base x))
                                      interface_created_at (inv_interfaces st)))
      in if behavior = ConflictUpsert
         then bind_op (entity_get interface_crud (interface_id i)) (\<lambda>r.
           case r of
             Some x \<Rightarrow> ok_op x
           | None \<Rightarrow>
               bind_op (of_host (\<lambda>b. ib_subnet_id b = ib_subnet_id (interface_base i))) (\<lambda>by_key.
                 case find (\<lambda>x. ib_ip_address (interface_base x) = ib_ip_address (interface_base i)) by_key of
                   Some x \<Rightarrow> ok_op x
                 | None \<Rightarrow>
                     (case ib_mac_address (interface_base i) of
                        None \<Rightarrow> create
                      | Some mac \<Rightarrow>
                          bind_op (of_host (\<lambda>b. ib_mac_address b = Some mac)) (\<lambda>by_mac.
                            case by_mac of x # _ \<Rightarrow> ok_op x | [] \<Rightarrow> create))))
         else create)"

definition adopt_port :: "ConflictBehavior \<Rightarrow> Host \<Rightarrow> AuthenticatedEntity \<Rightarrow> Port \<Rightarrow> Port op" where
  "adopt_port behavior h auth p0 =
     (let p = port_with_host p0 (host_id h) (hb_network_id (host_base h));
          create = entity_create port_crud p auth
      in if behavior = ConflictUpsert
         then bind_op (entity_get port_crud (port_id p)) (\<lambda>r.
           case r of
             Some x \<Rightarrow> ok_op x
           | None \<Rightarrow>
               bind_op (ports_for_host (host_id h)) (\<lambda>existing.
                 case find (\<lambda>x. config (pb_port_type (port_base x)) = config (pb_port_type (port_base p))) existing of
                   Some x \<Rightarrow> ok_op x
                 | None \<Rightarrow> create))
         else create)"

text \<open>
  The loop over the services: the claims of the batch, the bindings of dropped services, and
  the services that were stored.
\<close>

fun adopt_services ::
    "(Service \<Rightarrow> Service) \<Rightarrow> uuid \<Rightarrow> AuthenticatedEntity \<Rightarrow> claim list \<Rightarrow> Binding list \<Rightarrow> Service list \<Rightarrow> Service list
     \<Rightarrow> (Binding list \<times> Service list) op" where
  "adopt_services reassign h auth claimed orphaned created [] = ok_op (orphaned, created)"
| "adopt_services reassign h auth claimed orphaned created (s # ss) =
     (let r = reassign s in
      bind_op (free_and_claimed h (service_id r) (bindings (service_base r)) claimed) (\<lambda>(valid, conflicting).
        if conflicting \<noteq> []
        then adopt_services reassign h auth claimed (orphaned @ valid) created ss
        else bind_op (service_create r auth) (\<lambda>c.
          adopt_services reassign h auth (claimed @ service_claims r) orphaned (created @ [c]) ss)))"

definition open_ports_base :: "Host \<Rightarrow> Binding list \<Rightarrow> ServiceBase" where
  "open_ports_base h bs =
     \<lparr>vb_host_id = host_id h, vb_network_id = hb_network_id (host_base h),
      service_definition = handle_of (svc_open_ports :: unit ServiceDef), vb_name = ''Unclaimed Open Ports'',
      bindings = bs, virtualization = None, vb_source = Discovered [], vb_tags = [], vb_position = 0\<rparr>"

definition adopt_orphans :: "Host \<Rightarrow> AuthenticatedEntity \<Rightarrow> Binding list \<Rightarrow> Service list op" where
  "adopt_orphans h auth orphaned =
     (if orphaned = [] then ok_op []
      else bind_op fresh_op (\<lambda>f. bind_op now_op (\<lambda>now.
        bind_op (service_create (service_new f now (open_ports_base h orphaned)) auth) (\<lambda>s. ok_op [s]))))"

definition adopt_if_entry :: "Host \<Rightarrow> AuthenticatedEntity \<Rightarrow> IfEntry \<Rightarrow> IfEntry op" where
  "adopt_if_entry h auth e =
     create_or_update_by_if_index
       (e\<lparr>if_entry_base := (if_entry_base e)
          \<lparr>fb_host_id := host_id h, fb_network_id := hb_network_id (host_base h)\<rparr>\<rparr>) auth"

definition matching_host_error :: "Host \<Rightarrow> ServiceError" where
  "matching_host_error h =
     (let q = [char_of (39::nat)] in
      ValidationError (''A host with matching interfaces already exists: '' @ q @ hb_name (host_base h) @ q @
        '' (id: '' @ uuid_display (host_id h) @ ''). Edit the existing host instead of creating a new one.''))"

definition check_host_limit :: "bool \<Rightarrow> nat option \<Rightarrow> uuid \<Rightarrow> unit op" where
  "check_host_limit is_new limit n =
     (case limit of
        None \<Rightarrow> ok_op ()
      | Some k \<Rightarrow>
          if \<not> is_new then ok_op ()
          else bind_op (hosts_of_network n) (\<lambda>hs.
            if length hs \<ge> k
            then err_op (OtherError (''Host limit reached ('' @ show_nat (length hs) @ ''/'' @ show_nat k @
                   ''). Upgrade your plan for unlimited hosts.''))
            else ok_op ()))"

definition create_with_children ::
    "Host \<Rightarrow> Interface list \<Rightarrow> Port list \<Rightarrow> Service list \<Rightarrow> IfEntry list \<Rightarrow> ConflictBehavior
     \<Rightarrow> AuthenticatedEntity \<Rightarrow> nat option \<Rightarrow> IfEntry HostResponse op" where
  "create_with_children h0 is ps ss es behavior auth limit =
     bind_op (find_matching_host_by_interfaces (hb_network_id (host_base h0)) is) (\<lambda>matching.
       bind_op (case matching of
                  None \<Rightarrow> ok_op h0
                | Some (x, _) \<Rightarrow>
                    (case behavior of
                       ConflictError \<Rightarrow> err_op (matching_host_error x)
                     | ConflictUpsert \<Rightarrow> ok_op (h0\<lparr>host_id := host_id x\<rparr>))) (\<lambda>h1.
         bind_op (check_host_limit (matching = None) limit (hb_network_id (host_base h1))) (\<lambda>_.
           bind_op (host_create h1 auth) (\<lambda>h.
             bind_op (map_op (adopt_interface behavior (host_id h) auth) is) (\<lambda>is'.
               bind_op (map_op (adopt_port behavior h auth) ps) (\<lambda>ps'.
                 bind_op (adopt_services (\<lambda>s. reassign_service_interface_bindings s is ps h is' ps')
                            (host_id h) auth [] [] [] ss) (\<lambda>(orphaned, created).
                   bind_op (adopt_orphans h auth orphaned) (\<lambda>extra.
                     bind_op (set_tags_as auth (host_id h) D_Host (hb_tags (host_base h))) (\<lambda>_.
                       bind_op (map_op (adopt_if_entry h auth) es) (\<lambda>es'.
                         ok_op (from_host_with_children h is' ps' (created @ extra) es')))))))))))"

definition position_error :: "ApiError + 'a \<Rightarrow> ServiceError + 'a" where
  "position_error r =
     (case r of
        Inr x \<Rightarrow> Inr x
      | Inl e \<Rightarrow> Inl (ValidationError
          (case e of BadRequest m \<Rightarrow> m | Forbidden m \<Rightarrow> m | NotFound m \<Rightarrow> m | Conflict m \<Rightarrow> m | InternalError m \<Rightarrow> m)))"

definition request_host_base :: "CreateHostRequest \<Rightarrow> HostBase" where
  "request_host_base r =
     \<lparr>hb_name = cr_name r, hb_network_id = cr_network_id r, hostname = cr_hostname r,
      hb_description = cr_description r, hb_source = Manual, hb_virtualization = cr_virtualization r,
      hidden = cr_hidden r, hb_tags = cr_tags r, sys_descr = cr_sys_descr r,
      sys_object_id = cr_sys_object_id r, sys_location = cr_sys_location r, sys_contact = cr_sys_contact r,
      management_url = cr_management_url r, chassis_id = cr_chassis_id r,
      snmp_credential_id = cr_snmp_credential_id r\<rparr>"

definition create_from_request :: "(nat \<Rightarrow> uuid) \<Rightarrow> CreateHostRequest \<Rightarrow> AuthenticatedEntity \<Rightarrow> IfEntry HostResponse op" where
  \<comment> \<open>\<open>entry_ids k\<close> is the id drawn for the k-th interface entry\<close>
  "create_from_request entry_ids r auth =
     bind_op fresh_op (\<lambda>f. bind_op now_op (\<lambda>now.
       bind_op (lift_op (position_error (resolve_and_validate_input_positions interface_input_positioned
                  interface_positioned (cr_interfaces r) [] ''interface''))) (\<lambda>intf_inputs.
         bind_op (lift_op (position_error (resolve_and_validate_input_positions service_input_positioned
                    service_positioned (cr_services r) [] ''service''))) (\<lambda>service_inputs.
           let h = host_new f now (request_host_base r); n = cr_network_id r in
           create_with_children h
             (map (\<lambda>i. into_interface now i (host_id h) n) intf_inputs)
             (map (\<lambda>p. into_port now p (host_id h) n) (cr_ports r))
             (map (\<lambda>s. into_service now s (host_id h) n Manual) service_inputs)
             (map (\<lambda>(k, e). into_if_entry (entry_ids k) now e (host_id h) n) (enumerate 0 (cr_if_entries r)))
             ConflictError auth None))))"

end
