(* ===== verification/Host_Edit.thy ===== *)
theory Host_Edit
  imports Host_Store
begin

text \<open>
  Changing known hosts (\<open>server/hosts/service.rs\<close>): the update from a request with the
  synchronisation of the children, the consolidation of two hosts, deletion, and the two
  passes over SNMP interface entries (\<open>link_if_entries_to_interfaces\<close>, \<open>resolve_lldp_links\<close>
  with \<open>server/snmp_credentials/resolution/resolver.rs\<close>).
\<close>

section \<open>Synchronising the children\<close>

definition preserve_interface :: "Interface \<Rightarrow> Interface \<Rightarrow> Interface" where
  \<comment> \<open>\<open>preserve_immutable_fields\<close>\<close>
  "preserve_interface i existing =
     i\<lparr>interface_created_at := interface_created_at existing,
       interface_base := (case ib_mac_address (interface_base existing) of
          Some m \<Rightarrow> (interface_base i)\<lparr>ib_mac_address := Some m\<rparr>
        | None \<Rightarrow> interface_base i)\<rparr>"

definition preserve_service :: "Service \<Rightarrow> Service \<Rightarrow> Service" where
  "preserve_service s existing =
     s\<lparr>service_base := (service_base s)
        \<lparr>vb_source := vb_source (service_base existing),
         virtualization := (case virtualization (service_base s) of
            None \<Rightarrow> virtualization (service_base existing) | v \<Rightarrow> v)\<rparr>\<rparr>"

text \<open>
  Create or update, one input after the other: an input whose id is among the existing ones is
  an update. \<open>keep\<close> carries over what the update may not change.
\<close>

definition sync_child ::
    "('e \<Rightarrow> AuthenticatedEntity \<Rightarrow> 'e op) \<Rightarrow> ('e \<Rightarrow> AuthenticatedEntity \<Rightarrow> 'e op) \<Rightarrow> ('e \<Rightarrow> uuid)
     \<Rightarrow> ('e \<Rightarrow> 'e \<Rightarrow> 'e) \<Rightarrow> 'e list \<Rightarrow> AuthenticatedEntity \<Rightarrow> 'e \<Rightarrow> unit op" where
  "sync_child create update key keep existing auth e =
     bind_op (case find (\<lambda>x. key x = key e) existing of
                Some old \<Rightarrow> update (keep e old) auth
              | None \<Rightarrow> create e auth) (\<lambda>_. ok_op ())"

definition sync_interfaces :: "uuid \<Rightarrow> uuid \<Rightarrow> InterfaceInput list \<Rightarrow> AuthenticatedEntity \<Rightarrow> unit op" where
  "sync_interfaces h n inputs0 auth =
     bind_op now_op (\<lambda>now.
       bind_op (interfaces_for_host h) (\<lambda>existing.
         bind_op (lift_op (position_error (resolve_and_validate_input_positions interface_input_positioned
                    interface_positioned inputs0 existing ''interface''))) (\<lambda>inputs.
           bind_op (entity_delete_many interface_crud
                      (filter (\<lambda>i. i \<notin> set (map ii_id inputs)) (map interface_id existing)) auth) (\<lambda>_.
             each_op (\<lambda>i. sync_child (entity_create interface_crud) (entity_update interface_crud) interface_id
                            preserve_interface existing auth (into_interface now i h n)) inputs))))"

definition sync_ports :: "uuid \<Rightarrow> uuid \<Rightarrow> PortInput list \<Rightarrow> AuthenticatedEntity \<Rightarrow> unit op" where
  \<comment> \<open>a port preserves nothing: the trait's default\<close>
  "sync_ports h n inputs auth =
     bind_op now_op (\<lambda>now.
       bind_op (ports_for_host h) (\<lambda>existing.
         bind_op (entity_delete_many port_crud
                    (filter (\<lambda>i. i \<notin> set (map pi_id inputs)) (map port_id existing)) auth) (\<lambda>_.
           each_op (\<lambda>p. sync_child (entity_create port_crud) (entity_update port_crud) port_id
                          (\<lambda>p old. p) existing auth (into_port now p h n)) inputs)))"

definition input_claims :: "ServiceInput \<Rightarrow> claim list" where
  "input_claims i =
     List.map_filter (\<lambda>b. case b of PortBindingInput _ p oi \<Rightarrow> Some (p, oi) | InterfaceBindingInput _ _ \<Rightarrow> None)
       (si_bindings i)"

definition loses_bindings :: "Service list \<Rightarrow> ServiceInput \<Rightarrow> bool" where
  "loses_bindings existing i =
     (case find (\<lambda>s. service_id s = si_id i) existing of
        Some s \<Rightarrow> list_ex (\<lambda>c. c \<notin> set (input_claims i)) (service_claims s)
      | None \<Rightarrow> False)"

definition sync_order :: "Service list \<Rightarrow> ServiceInput list \<Rightarrow> ServiceInput list" where
  \<comment> \<open>services that lose port bindings first, so that others can take the ports over\<close>
  "sync_order existing inputs =
     filter (loses_bindings existing) inputs @ filter (\<lambda>i. \<not> loses_bindings existing i) inputs"

definition services_get_for_parent :: "uuid \<Rightarrow> Service list op" where
  "services_get_for_parent h = services_of_host h"

definition sync_services :: "uuid \<Rightarrow> uuid \<Rightarrow> ServiceInput list \<Rightarrow> AuthenticatedEntity \<Rightarrow> unit op" where
  "sync_services h n inputs0 auth =
     bind_op now_op (\<lambda>now.
       bind_op (services_get_for_parent h) (\<lambda>existing.
         bind_op (lift_op (position_error (resolve_and_validate_input_positions service_input_positioned
                    service_positioned inputs0 existing ''service''))) (\<lambda>inputs.
           bind_op (service_delete_many
                      (filter (\<lambda>i. i \<notin> set (map si_id inputs)) (map service_id existing)) auth) (\<lambda>_.
             each_op (\<lambda>i. sync_child service_create service_update service_id preserve_service existing auth
                            (into_service now i h n Manual)) (sync_order existing inputs)))))"

section \<open>Updating a host\<close>

definition timestamp_micros :: "timestamp \<Rightarrow> int" where
  \<comment> \<open>the microseconds of a time, rounded down\<close>
  "timestamp_micros t = t div 1000"

definition stale_update_error :: "timestamp \<Rightarrow> timestamp \<Rightarrow> ServiceError" where
  \<comment> \<open>the times are printed by the date library; the model prints the nanoseconds\<close>
  "stale_update_error expected actual =
     ValidationError (''Host was modified by another process (possibly discovery). Please reload and try again. Expected: ''
       @ show_int expected @ '', Actual: '' @ show_int actual)"

definition requested_host :: "timestamp \<Rightarrow> UpdateHostRequest \<Rightarrow> Host \<Rightarrow> Host" where
  "requested_host now r existing =
     (let b = host_base existing in
      \<lparr>host_id = ur_id r, host_created_at = host_created_at existing, host_updated_at = now,
       host_base = b\<lparr>hb_name := ur_name r, hostname := ur_hostname r, hb_description := ur_description r,
          hb_virtualization := ur_virtualization r, hidden := ur_hidden r, hb_tags := ur_tags r\<rparr>\<rparr>)"

definition sync_given :: "('i list \<Rightarrow> unit op) \<Rightarrow> 'i list option \<Rightarrow> unit op" where
  \<comment> \<open>no list means: leave the children alone\<close>
  "sync_given f inputs = (case inputs of None \<Rightarrow> ok_op () | Some xs \<Rightarrow> f xs)"

definition update_from_request :: "UpdateHostRequest \<Rightarrow> AuthenticatedEntity \<Rightarrow> IfEntry HostResponse op" where
  "update_from_request r auth =
     bind_op now_op (\<lambda>now.
       bind_op (host_get_by_id (ur_id r)) (\<lambda>found.
         case found of
           None \<Rightarrow> err_op (OtherError (''Host '' @ [char_of (39::nat)] @ uuid_display (ur_id r) @
                     [char_of (39::nat)] @ '' not found''))
         | Some existing \<Rightarrow>
             (let n = hb_network_id (host_base existing) in
              bind_op (case expected_updated_at r of
                         Some t \<Rightarrow> if timestamp_micros (host_updated_at existing) \<noteq> timestamp_micros t
                                   then err_op (stale_update_error t (host_updated_at existing)) else ok_op ()
                       | None \<Rightarrow> ok_op ()) (\<lambda>_.
                bind_op (set_tags_as auth (ur_id r) D_Host (ur_tags r)) (\<lambda>_.
                  bind_op (host_update (requested_host now r existing) auth) (\<lambda>updated.
                    bind_op (sync_given (\<lambda>xs. sync_interfaces (host_id updated) n xs auth) (ur_interfaces r)) (\<lambda>_.
                      bind_op (sync_given (\<lambda>xs. sync_ports (host_id updated) n xs auth) (ur_ports r)) (\<lambda>_.
                        bind_op (sync_given (\<lambda>xs. sync_services (host_id updated) n xs auth) (ur_services r)) (\<lambda>_.
                          respond updated)))))))))"

section \<open>Deleting and consolidating hosts\<close>

definition has_daemon :: "uuid \<Rightarrow> bool op" where
  "has_daemon h = query (\<lambda>st. h \<in> set (inv_daemon_hosts st))"

definition delete_host :: "uuid \<Rightarrow> AuthenticatedEntity \<Rightarrow> unit op" where
  "delete_host i auth =
     bind_op (has_daemon i) (\<lambda>d.
       if d then err_op (ValidationError
            (''Can'' @ [char_of (39::nat)] @ ''t delete a host with an associated daemon. Delete the daemon first.''))
       else bind_op (host_get_by_id i) (\<lambda>r.
         case r of
           None \<Rightarrow> err_op (OtherError (''Host '' @ uuid_display i @ '' not found''))
         | Some h \<Rightarrow>
             bind_op (remove_all_for_entity i D_Host) (\<lambda>_.
               bind_op (execute (delete_hosts [i])) (\<lambda>_.
                 publish_host h Deleted (host_triggers_staleness h None) auth))))"

definition same_interface :: "Interface \<Rightarrow> Interface \<Rightarrow> bool" where
  \<comment> \<open>the conflict test of a consolidation: subnet and address, or the address of the card\<close>
  "same_interface other dest \<longleftrightarrow>
     (let a = interface_base other; b = interface_base dest in
      ib_subnet_id b = ib_subnet_id a \<and> ib_ip_address b = ib_ip_address a \<or>
      ib_mac_address b \<noteq> None \<and> ib_mac_address b = ib_mac_address a)"

definition transfer_interface ::
    "Host \<Rightarrow> Interface list \<Rightarrow> AuthenticatedEntity \<Rightarrow> Interface \<Rightarrow> (uuid \<times> uuid) op" where
  "transfer_interface dest dest_interfaces auth i =
     (case find (same_interface i) dest_interfaces of
        Some d \<Rightarrow> ok_op (interface_id i, interface_id d)
      | None \<Rightarrow>
          bind_op (entity_update interface_crud
                     (i\<lparr>interface_base := (interface_base i)\<lparr>ib_host_id := host_id dest\<rparr>\<rparr>) auth)
            (\<lambda>_. ok_op (interface_id i, interface_id i)))"

definition transfer_port :: "Host \<Rightarrow> Port list \<Rightarrow> AuthenticatedEntity \<Rightarrow> Port \<Rightarrow> (uuid \<times> uuid) op" where
  "transfer_port dest dest_ports auth p =
     (case find (\<lambda>d. config (pb_port_type (port_base d)) = config (pb_port_type (port_base p))) dest_ports of
        Some d \<Rightarrow> ok_op (port_id p, port_id d)
      | None \<Rightarrow>
          bind_op (entity_update port_crud (port_with_host p (host_id dest) (hb_network_id (host_base dest))) auth)
            (\<lambda>_. ok_op (port_id p, port_id p)))"

definition mapped_id :: "(uuid \<times> uuid) list \<Rightarrow> uuid \<Rightarrow> uuid" where
  \<comment> \<open>an id without an entry is kept\<close>
  "mapped_id m i = (case map_of m i of Some j \<Rightarrow> j | None \<Rightarrow> i)"

definition remap_binding :: "(uuid \<times> uuid) list \<Rightarrow> (uuid \<times> uuid) list \<Rightarrow> Binding \<Rightarrow> Binding" where
  "remap_binding interface_map port_map b =
     b\<lparr>binding_base := (binding_base b)\<lparr>bb_binding_type :=
         (case binding_type b of
            InterfaceBinding i \<Rightarrow> InterfaceBinding (mapped_id interface_map i)
          | PortBinding p oi \<Rightarrow>
              PortBinding (mapped_id port_map p)
                (case oi of None \<Rightarrow> None | Some i \<Rightarrow> map_of interface_map i))\<rparr>\<rparr>"

definition remap_service :: "Host \<Rightarrow> (uuid \<times> uuid) list \<Rightarrow> (uuid \<times> uuid) list \<Rightarrow> Service \<Rightarrow> Service" where
  "remap_service dest interface_map port_map s =
     s\<lparr>service_base := (service_base s)
        \<lparr>vb_host_id := host_id dest, vb_network_id := hb_network_id (host_base dest),
         bindings := map (remap_binding interface_map port_map) (bindings (service_base s))\<rparr>\<rparr>"

definition duplicate_of :: "Service list \<Rightarrow> Service \<Rightarrow> bool" where
  "duplicate_of dest_services s =
     list_ex (\<lambda>d. vb_name (service_base d) = vb_name (service_base s) \<and>
                  sd_id (service_definition (service_base d)) = sd_id (service_definition (service_base s))) dest_services"

definition transfer_service ::
    "Host \<Rightarrow> Service list \<Rightarrow> (uuid \<times> uuid) list \<Rightarrow> (uuid \<times> uuid) list \<Rightarrow> AuthenticatedEntity \<Rightarrow> Service \<Rightarrow> unit op" where
  "transfer_service dest dest_services interface_map port_map auth s =
     (if duplicate_of dest_services s then ok_op ()
      else bind_op
        (map_err_op (prefix_error (''Failed to update service '' @ [char_of (39::nat)] @ vb_name (service_base s) @
             [char_of (39::nat)] @ '' during consolidation: ''))
           (service_update (remap_service dest interface_map port_map s) auth))
        (\<lambda>_. ok_op ()))"

definition consolidate_hosts :: "Host \<Rightarrow> Host \<Rightarrow> AuthenticatedEntity \<Rightarrow> IfEntry HostResponse op" where
  "consolidate_hosts dest other auth =
     (if host_id dest = host_id other
      then err_op (ValidationError (''Can'' @ [char_of (39::nat)] @ ''t consolidate a host with itself''))
      else bind_op (has_daemon (host_id other)) (\<lambda>d.
        if d then err_op (ValidationError (''Can'' @ [char_of (39::nat)] @
             ''t consolidate a host that has a daemon associated with it. Consolidate the other host into the host with the daemon instead.''))
        else
          bind_op (interfaces_for_host (host_id dest)) (\<lambda>dest_interfaces.
            bind_op (interfaces_for_host (host_id other)) (\<lambda>other_interfaces.
              bind_op (ports_for_host (host_id dest)) (\<lambda>dest_ports.
                bind_op (ports_for_host (host_id other)) (\<lambda>other_ports.
                  bind_op (map_op (transfer_interface dest dest_interfaces auth) other_interfaces) (\<lambda>interface_map.
                    bind_op (map_op (transfer_port dest dest_ports auth) other_ports) (\<lambda>port_map.
                      bind_op (upsert_host dest other auth) (\<lambda>updated.
                        bind_op (services_of_host (host_id dest)) (\<lambda>dest_services.
                          bind_op (services_of_host (host_id other)) (\<lambda>other_services.
                            bind_op (each_op (transfer_service updated dest_services interface_map port_map auth)
                                       other_services) (\<lambda>_.
                              bind_op (delete_host (host_id other) auth) (\<lambda>_. respond updated)))))))))))))"

section \<open>Interface entries\<close>

definition try_op :: "'a op \<Rightarrow> bool op" where
  \<comment> \<open>an error is logged and swallowed; whether the call went through\<close>
  "try_op m = (\<lambda>env st. case m env st of (Inl _, st1) \<Rightarrow> (Inr False, st1) | (Inr _, st1) \<Rightarrow> (Inr True, st1))"

definition link_if_entry ::
    "(MacAddress \<times> uuid) list \<Rightarrow> AuthenticatedEntity \<Rightarrow> IfEntry \<Rightarrow> unit op" where
  "link_if_entry mac_to_interface auth e =
     (if fb_interface_id (if_entry_base e) \<noteq> None then ok_op ()
      else case fb_mac_address (if_entry_base e) of
        None \<Rightarrow> ok_op ()
      | Some mac \<Rightarrow>
          (case map_of mac_to_interface mac of
             None \<Rightarrow> ok_op ()
           | Some i \<Rightarrow>
               bind_op (try_op (entity_update if_entry_crud
                          (e\<lparr>if_entry_base := (if_entry_base e)\<lparr>fb_interface_id := Some i\<rparr>\<rparr>) auth))
                 (\<lambda>_. ok_op ())))"

definition link_if_entries_to_interfaces :: "uuid \<Rightarrow> AuthenticatedEntity \<Rightarrow> unit op" where
  \<comment> \<open>collecting into a map keeps the last interface of each address\<close>
  "link_if_entries_to_interfaces h auth =
     bind_op (interfaces_for_host h) (\<lambda>is.
       let m = rev (List.map_filter (\<lambda>i. map_option (\<lambda>mac. (mac, interface_id i)) (ib_mac_address (interface_base i))) is) in
       if m = [] then ok_op ()
       else bind_op (if_entries_for_host h) (each_op (link_if_entry m auth)))"

definition discover_host ::
    "Host \<Rightarrow> Interface list \<Rightarrow> Port list \<Rightarrow> Service list \<Rightarrow> IfEntry list \<Rightarrow> AuthenticatedEntity
     \<Rightarrow> nat option \<Rightarrow> IfEntry HostResponse op" where
  "discover_host h is ps ss es auth limit =
     bind_op (create_with_children h is ps ss es ConflictUpsert auth limit) (\<lambda>r.
       if es = [] then ok_op r
       else bind_op (try_op (link_if_entries_to_interfaces (resp_id r) auth)) (\<lambda>_. ok_op r))"

text \<open>
  The lookups of \<open>LldpResolverImpl\<close> in the tables; where more than one row matches, the
  database picks one (here the first). \<open>parse_mac\<close> is the address parser of the \<open>mac_address\<close>
  crate. A lookup the database refuses finds nothing.
\<close>

definition first_row :: "('r \<Rightarrow> bool) \<Rightarrow> (uuid, 'r) HashMap \<Rightarrow> 'r option" where
  "first_row sel tbl = find sel (hvalues tbl)"

definition lldp_resolver_impl :: "(string \<Rightarrow> MacAddress option) \<Rightarrow> Inventory \<Rightarrow> LldpResolver" where
  "lldp_resolver_impl parse_mac st =
     (let interface_where = (\<lambda>sel. first_row (\<lambda>i. sel (interface_base i)) (inv_interfaces st));
          entry_where = (\<lambda>sel. first_row (\<lambda>e. sel (if_entry_base e)) (inv_if_entries st))
      in \<lparr>find_host_by_mac = (\<lambda>mac n. Option.bind (parse_mac mac) (\<lambda>m.
            map_option (\<lambda>i. ib_host_id (interface_base i))
              (interface_where (\<lambda>b. ib_network_id b = n \<and> ib_mac_address b = Some m)))),
          find_host_by_ip = (\<lambda>ip n. map_option (\<lambda>i. ib_host_id (interface_base i))
            (interface_where (\<lambda>b. ib_network_id b = n \<and> ib_ip_address b = ip))),
          find_host_by_if_name = (\<lambda>nm n. map_option (\<lambda>e. fb_host_id (if_entry_base e))
            (entry_where (\<lambda>b. fb_network_id b = n \<and> if_descr b = nm))),
          find_host_by_chassis_id = (\<lambda>c n. map_option host_id
            (first_row (\<lambda>h. hb_network_id (host_base h) = n \<and> chassis_id (host_base h) = Some c) (inv_hosts st))),
          find_if_entry_by_mac = (\<lambda>mac h. Option.bind (parse_mac mac) (\<lambda>m.
            map_option if_entry_id (entry_where (\<lambda>b. fb_host_id b = h \<and> fb_mac_address b = Some m)))),
          find_if_entry_by_name = (\<lambda>nm h. map_option if_entry_id
            (entry_where (\<lambda>b. fb_host_id b = h \<and> if_descr b = nm))),
          find_if_entry_by_ip = (\<lambda>ip h. Option.bind
            (interface_where (\<lambda>b. ib_host_id b = h \<and> ib_ip_address b = ip))
            (\<lambda>i. map_option if_entry_id (entry_where (\<lambda>b. fb_interface_id b = Some (interface_id i)))))\<rparr>)"

definition unresolved_lldp_in_network :: "uuid \<Rightarrow> IfEntry \<Rightarrow> bool" where
  "unresolved_lldp_in_network n e \<longleftrightarrow>
     (let b = if_entry_base e in
      fb_network_id b = n \<and>
      (lldp_chassis_id b \<noteq> None \<or> cdp_device_id b \<noteq> None \<or> cdp_address b \<noteq> None) \<and> neighbor b = None)"

record LldpResolutionStats =
  lldp_total :: nat
  hosts_resolved :: nat
  ports_resolved :: nat

definition count_resolution :: "IfEntry \<Rightarrow> Neighbor option \<Rightarrow> LldpResolutionStats \<Rightarrow> LldpResolutionStats" where
  "count_resolution e r s =
     s\<lparr>lldp_total := Suc (lldp_total s),
       hosts_resolved := (if r = None then hosts_resolved s else Suc (hosts_resolved s)),
       ports_resolved := (case r of Some (NeighborIfEntry _) \<Rightarrow> Suc (ports_resolved s) | _ \<Rightarrow> ports_resolved s)\<rparr>"

fun resolve_entries ::
    "(Inventory \<Rightarrow> LldpResolver) \<Rightarrow> uuid \<Rightarrow> LldpResolutionStats \<Rightarrow> IfEntry list \<Rightarrow> LldpResolutionStats op" where
  "resolve_entries R n stats [] = ok_op stats"
| "resolve_entries R n stats (e # es) = (\<lambda>env st.
     let r = resolved_neighbor (R st) n e; stats1 = count_resolution e r stats in
     (case r of
        None \<Rightarrow> resolve_entries R n stats1 es
      | Some nb \<Rightarrow>
          bind_op (entity_update if_entry_crud (e\<lparr>if_entry_base := (if_entry_base e)\<lparr>neighbor := Some nb\<rparr>\<rparr>) AuthSystem)
            (\<lambda>_. resolve_entries R n stats1 es)) env st)"

definition resolve_lldp_links :: "(Inventory \<Rightarrow> LldpResolver) \<Rightarrow> uuid \<Rightarrow> LldpResolutionStats op" where
  "resolve_lldp_links R n =
     bind_op (query (\<lambda>st. rows_where (unresolved_lldp_in_network n) if_entry_created_at (inv_if_entries st)))
       (resolve_entries R n \<lparr>lldp_total = 0, hosts_resolved = 0, ports_resolved = 0\<rparr>)"

end
