(* ===== verification/Store_Logic.thy ===== *)
theory Store_Logic
  imports Inventory_Logic Host_Edit
begin

text \<open>
  What the calls of the stores leave alone and what they read: frame lemmas for the tags, the
  groups and the services, and the facts about a list of services of a host.
\<close>

section \<open>Views of the main tables\<close>

text \<open>
  A view that does not look at the counter of statements, the bus, the groups and the tags of
  services and groups: most operations change these and one table besides. A view without
  tags does not look at any tags.
\<close>

definition core_view :: "(Inventory \<Rightarrow> 'b) \<Rightarrow> bool" where
  "core_view f \<longleftrightarrow>
     (\<forall>st x. f (st\<lparr>inv_ops := x\<rparr>) = f st) \<and> (\<forall>st x. f (st\<lparr>inv_bus := x\<rparr>) = f st) \<and>
     (\<forall>st x. f (st\<lparr>inv_groups := x\<rparr>) = f st) \<and> (\<forall>st x. f (st\<lparr>inv_group_bindings := x\<rparr>) = f st) \<and>
     (\<forall>st i kind x. kind = D_Service \<or> kind = D_Group \<longrightarrow>
        f (st\<lparr>inv_entity_tags := hinsert (i, kind) x (inv_entity_tags st)\<rparr>) = f st \<and>
        f (st\<lparr>inv_entity_tags := hremove (i, kind) (inv_entity_tags st)\<rparr>) = f st)"

definition tagless :: "(Inventory \<Rightarrow> 'b) \<Rightarrow> bool" where
  "tagless f \<longleftrightarrow> (\<forall>st x. f (st\<lparr>inv_entity_tags := x\<rparr>) = f st)"

lemma core_viewD:
  assumes "core_view f"
  shows "f (st\<lparr>inv_ops := n\<rparr>) = f st" "f (st\<lparr>inv_bus := b\<rparr>) = f st"
    "f (st\<lparr>inv_groups := g\<rparr>) = f st" "f (st\<lparr>inv_group_bindings := gb\<rparr>) = f st"
    "kind = D_Service \<or> kind = D_Group \<Longrightarrow> f (st\<lparr>inv_entity_tags := hinsert (i, kind) x (inv_entity_tags st)\<rparr>) = f st"
    "kind = D_Service \<or> kind = D_Group \<Longrightarrow> f (st\<lparr>inv_entity_tags := hremove (i, kind) (inv_entity_tags st)\<rparr>) = f st"
  using assms by (auto simp: core_view_def)

lemma taglessD: "tagless f \<Longrightarrow> f (st\<lparr>inv_entity_tags := x\<rparr>) = f st"
  by (simp add: tagless_def)

lemma core_views [simp]:
  "core_view inv_hosts" "core_view inv_interfaces" "core_view inv_ports" "core_view inv_services"
  "core_view inv_bindings" "core_view inv_if_entries" "core_view inv_daemon_hosts"
  "core_view (\<lambda>st. tags_of st D_Host i)"
  by (simp_all add: core_view_def tags_of_def hget_laws)

lemma tagless_views [simp]:
  "tagless inv_hosts" "tagless inv_interfaces" "tagless inv_ports" "tagless inv_services"
  "tagless inv_bindings" "tagless inv_if_entries" "tagless inv_daemon_hosts"
  by (simp_all add: tagless_def)

lemma keeps_core_query [keeps_intros]: "core_view f \<Longrightarrow> keeps f (query g)"
  by (rule keeps_query) (simp add: core_viewD)

lemma keeps_core_get [keeps_intros]: "core_view f \<Longrightarrow> keeps f (entity_get D i)"
  by (rule keeps_entity_get) (simp add: core_viewD)

lemma keeps_core_publish [keeps_intros]: "core_view f \<Longrightarrow> keeps f (publish_entity e i n operation meta auth)"
  by (rule keeps_publish_entity) (simp add: core_viewD)

lemma keeps_set_tags_as:
  "core_view f \<Longrightarrow> tagless f \<or> kind = D_Service \<or> kind = D_Group \<Longrightarrow> keeps f (set_tags_as auth i kind tags)"
  unfolding set_tags_as_def set_entity_tags_def validate_tag_def replace_tags_def
  by (intro keeps_intros keeps_statement) (auto simp: core_viewD taglessD split: if_splits)

lemma keeps_child_tags [keeps_intros]:
  "core_view f \<Longrightarrow> keeps f (set_tags_as auth i D_Service tags)" "core_view f \<Longrightarrow> keeps f (set_tags_as auth i D_Group tags)"
  by (simp_all add: keeps_set_tags_as)

lemma keeps_host_tags [keeps_intros]:
  "core_view f \<Longrightarrow> tagless f \<Longrightarrow> keeps f (set_tags_as auth i D_Host tags)"
  by (simp add: keeps_set_tags_as)

lemma keeps_no_tags [keeps_intros]: "keeps f (set_tags_as auth i kind [])"
  by (cases "auth_organization_id auth") (simp_all add: set_tags_as_def set_entity_tags_def keeps_ok)

lemma keeps_remove_service_tags [keeps_intros]: "core_view f \<Longrightarrow> keeps f (remove_all_for_entity i D_Service)"
  unfolding remove_all_for_entity_def by (rule keeps_execute) (simp_all add: core_viewD)

section \<open>Reading services\<close>

lemma keeps_service_get_by_id [keeps_intros]: "core_view f \<Longrightarrow> keeps f (service_get_by_id i)"
  unfolding service_get_by_id_def by (intro keeps_intros)

lemma keeps_services_of_host [keeps_intros]: "core_view f \<Longrightarrow> keeps f (services_of_host h)"
  unfolding services_of_host_def hydrate_services_def by (intro keeps_intros)

lemma keeps_ports_for_host [keeps_intros]: "core_view f \<Longrightarrow> keeps f (ports_for_host h)"
  unfolding ports_for_host_def get_for_parent_def by (intro keeps_intros)

lemma keeps_interfaces_for_host [keeps_intros]: "core_view f \<Longrightarrow> keeps f (interfaces_for_host h)"
  unfolding interfaces_for_host_def by (intro keeps_intros)

lemma keeps_if_entries_for_host [keeps_intros]: "core_view f \<Longrightarrow> keeps f (if_entries_for_host h)"
  unfolding if_entries_for_host_def by (intro keeps_intros)

lemma keeps_group_update [keeps_intros]: "core_view f \<Longrightarrow> keeps f (group_update g auth)"
  unfolding group_update_def group_get_by_id_def save_for_group_def publish_group_def
  by (intro keeps_intros keeps_statement keeps_execute) (auto simp: core_viewD split: if_splits)

lemma keeps_update_group_service_bindings [keeps_intros]:
  "core_view f \<Longrightarrow> keeps f (update_group_service_bindings s updates auth)"
  unfolding update_group_service_bindings_def groups_of_network_def Let_def by (intro keeps_intros)

lemma keeps_bindings_belong_to_host [keeps_intros]: "core_view f \<Longrightarrow> keeps f (bindings_belong_to_host h bs)"
  unfolding bindings_belong_to_host_def by (intro keeps_intros)

lemma keeps_bindings_available [keeps_intros]: "core_view f \<Longrightarrow> keeps f (bindings_available h s bs)"
  unfolding bindings_available_def by (intro keeps_intros)

lemma keeps_free_and_claimed [keeps_intros]: "core_view f \<Longrightarrow> keeps f (free_and_claimed h s bs batch)"
  unfolding free_and_claimed_def by (intro keeps_intros)

lemma keeps_publish_service [keeps_intros]: "core_view f \<Longrightarrow> keeps f (publish_service s operation stale auth)"
  unfolding publish_service_def by (intro keeps_intros)

text \<open>The bindings of a service, as rows.\<close>

lemma set_bindings_of:
  "table_ok binding_id (inv_bindings st) \<Longrightarrow>
   b \<in> set (bindings_of st s) \<longleftrightarrow> hget (inv_bindings st) (binding_id b) = Some b \<and> bb_service_id (binding_base b) = s"
  unfolding bindings_of_def by (rule set_rows_where)

definition hydrated :: "Inventory \<Rightarrow> Service \<Rightarrow> Service" where
  "hydrated st s = with_tags st (with_bindings st s)"

lemma hydrated_simps [simp]:
  "service_id (hydrated st s) = service_id s"
  "bindings (service_base (hydrated st s)) = bindings_of st (service_id s)"
  "vb_host_id (service_base (hydrated st s)) = vb_host_id (service_base s)"
  "vb_network_id (service_base (hydrated st s)) = vb_network_id (service_base s)"
  by (simp_all add: hydrated_def with_tags_def with_bindings_def)

lemma hydrated_ops [simp]: "hydrated (st\<lparr>inv_ops := n\<rparr>) s = hydrated st s"
  by (simp add: hydrated_def with_tags_def with_bindings_def bindings_of_def tags_of_def)

lemma services_of_host_success:
  assumes "services_of_host h env st = (Inr ss, st')"
  shows "ss = map (hydrated st) (rows_where (\<lambda>s. vb_host_id (service_base s) = h) service_created_at (inv_services st))"
    "\<exists>n. st' = st\<lparr>inv_ops := n\<rparr>"
  using assms
  by (auto simp: services_of_host_def hydrate_services_def op_success hydrated_def o_def with_bindings_def
      with_tags_def bindings_of_def tags_of_def split: if_splits intro!: exI)

lemma service_get_by_id_success:
  assumes "service_get_by_id i env st = (Inr r, st')"
  shows "r = map_option (hydrated st) (hget (inv_services st) i)" "\<exists>n. st' = st\<lparr>inv_ops := n\<rparr>"
  using assms
  by (auto simp: service_get_by_id_def op_success hydrated_def with_bindings_def with_tags_def bindings_of_def
      tags_of_def split: option.splits intro!: exI)


section \<open>Writing services\<close>

text \<open>Views that look neither at services nor at bindings.\<close>

definition service_view :: "(Inventory \<Rightarrow> 'b) \<Rightarrow> bool" where
  "service_view f \<longleftrightarrow> core_view f \<and>
     (\<forall>st x. f (st\<lparr>inv_services := x\<rparr>) = f st) \<and> (\<forall>st x. f (st\<lparr>inv_bindings := x\<rparr>) = f st)"

lemma service_viewD:
  assumes "service_view f"
  shows "core_view f" "f (st\<lparr>inv_services := s\<rparr>) = f st" "f (st\<lparr>inv_bindings := b\<rparr>) = f st"
  using assms by (auto simp: service_view_def)

lemma tags_of_frame [simp]:
  "tags_of (st\<lparr>inv_services := s\<rparr>) = tags_of st" "tags_of (st\<lparr>inv_bindings := b\<rparr>) = tags_of st"
  "tags_of (st\<lparr>inv_hosts := h\<rparr>) = tags_of st"
  by (simp_all add: tags_of_def fun_eq_iff)

lemma service_views [simp]:
  "service_view inv_hosts" "service_view inv_interfaces" "service_view inv_ports" "service_view inv_if_entries"
  "service_view inv_daemon_hosts" "service_view (\<lambda>st. tags_of st D_Host i)"
  by (simp_all add: service_view_def)

lemma delete_bindings_view: "service_view f \<Longrightarrow> f (delete_bindings ids st) = f st"
proof -
  assume f: "service_view f"
  have "delete_bindings ids st = (st\<lparr>inv_bindings := drop_rows ids (inv_bindings st)\<rparr>)
      \<lparr>inv_group_bindings := map_rows (filter (\<lambda>b. b \<notin> set ids)) (inv_group_bindings st)\<rparr>"
    by (simp add: delete_bindings_def)
  then show ?thesis using core_viewD(4) [OF service_viewD(1) [OF f]] service_viewD(3) [OF f] by metis
qed

lemma delete_services_view: "service_view f \<Longrightarrow> f (delete_services ids st) = f st"
  by (simp add: delete_services_def delete_bindings_view service_viewD(2))

lemma unseen_services:
  assumes "service_view f"
  shows "unseen f service_crud" "unseen f binding_crud" "undeleted f binding_crud"
  using assms
  by (auto simp: unseen_def undeleted_def service_crud_def binding_crud_def service_viewD(2,3) delete_bindings_view
      core_viewD(1,2) [OF service_viewD(1)])

lemma keeps_save_bindings [keeps_intros]: "service_view f \<Longrightarrow> keeps f (save_bindings s auth)"
  unfolding save_bindings_def by (intro keeps_intros keeps_save_for_parent unseen_services)

lemma keeps_service_rows [keeps_intros]:
  "service_view f \<Longrightarrow> keeps f (update_row service_crud s)" "service_view f \<Longrightarrow> keeps f (insert_row service_crud s)"
  by (rule keeps_update_row keeps_insert_row;
      simp add: core_viewD(1) [OF service_viewD(1)] unseenD(3) [OF unseen_services(1)])+

lemma keeps_upsert_service [keeps_intros]: "service_view f \<Longrightarrow> keeps f (upsert_service x s auth)"
  unfolding upsert_service_def Let_def by (intro keeps_intros service_viewD(1))

lemma keeps_service_insert [keeps_intros]: "service_view f \<Longrightarrow> keeps f (service_insert s auth)"
  unfolding service_insert_def Let_def by (intro keeps_intros service_viewD(1))

lemma keeps_service_create [keeps_intros]: "service_view f \<Longrightarrow> keeps f (service_create s auth)"
  unfolding service_create_def Let_def by (intro keeps_intros service_viewD(1))

lemma keeps_service_update [keeps_intros]: "service_view f \<Longrightarrow> keeps f (service_update s auth)"
  unfolding service_update_def Let_def by (intro keeps_intros service_viewD(1))

lemma keeps_service_delete_many [keeps_intros]: "service_view f \<Longrightarrow> keeps f (service_delete_many ids auth)"
  unfolding service_delete_many_def announce_service_deletion_def
  by (intro keeps_intros keeps_execute service_viewD(1))
     (simp_all add: delete_services_view core_viewD(1) [OF service_viewD(1)])

section \<open>Creating a host and its children\<close>

lemma keeps_fill_services:
  assumes "service_view f"
  shows "keeps f (adopt_services reassign h auth claimed orphaned created ss)"
  by (induction ss arbitrary: claimed orphaned created)
     (auto simp: Let_def split: prod.split intro!: keeps_intros assms service_viewD(1) [OF assms])

lemma keeps_adopt_orphans [keeps_intros]: "service_view f \<Longrightarrow> keeps f (adopt_orphans h auth bs)"
  unfolding adopt_orphans_def by (intro keeps_intros)

text \<open>Views that look at one of the tables of the children of a host, and at hosts.\<close>

lemma keeps_adopt_interface:
  "unseen f interface_crud \<Longrightarrow> core_view f \<Longrightarrow> keeps f (adopt_interface behavior h auth i)"
  unfolding adopt_interface_def Let_def by (intro keeps_intros keeps_entity_create)

lemma keeps_adopt_port: "unseen f port_crud \<Longrightarrow> core_view f \<Longrightarrow> keeps f (adopt_port behavior h auth p)"
  unfolding adopt_port_def Let_def by (intro keeps_intros keeps_entity_create)

lemma keeps_adopt_if_entry: "unseen f if_entry_crud \<Longrightarrow> core_view f \<Longrightarrow> keeps f (adopt_if_entry h auth e)"
  unfolding adopt_if_entry_def create_or_update_by_if_index_def
  by (intro keeps_intros keeps_entity_create keeps_entity_update)

lemma unseen_children [simp]:
  "unseen inv_hosts interface_crud" "unseen inv_hosts port_crud" "unseen inv_hosts if_entry_crud"
  "unseen inv_ports interface_crud" "unseen inv_ports if_entry_crud"
  "unseen inv_interfaces port_crud" "unseen inv_interfaces if_entry_crud"
  "unseen inv_services interface_crud" "unseen inv_services port_crud" "unseen inv_services if_entry_crud"
  "unseen inv_bindings interface_crud" "unseen inv_bindings port_crud" "unseen inv_bindings if_entry_crud"
  "unseen (\<lambda>st. tags_of st D_Host i) interface_crud" "unseen (\<lambda>st. tags_of st D_Host i) port_crud"
  by (simp_all add: unseen_def interface_crud_def port_crud_def if_entry_crud_def tags_of_def)

text \<open>Views that do not look at hosts.\<close>

definition hostless :: "(Inventory \<Rightarrow> 'b) \<Rightarrow> bool" where
  "hostless f \<longleftrightarrow> (\<forall>st x. f (st\<lparr>inv_hosts := x\<rparr>) = f st)"

lemma hostless_views [simp]:
  "hostless inv_interfaces" "hostless inv_ports" "hostless inv_services" "hostless inv_bindings"
  "hostless inv_if_entries" "hostless inv_daemon_hosts" "hostless (\<lambda>st. tags_of st D_Host i)"
  by (simp_all add: hostless_def)

lemma keeps_publish_host [keeps_intros]: "core_view f \<Longrightarrow> keeps f (publish_host h operation stale auth)"
  unfolding publish_host_def by (intro keeps_intros)

lemma keeps_update_host_row [keeps_intros]: "core_view f \<Longrightarrow> hostless f \<Longrightarrow> keeps f (update_host_row h)"
  unfolding update_host_row_def by (rule keeps_execute) (simp_all add: core_viewD hostless_def)

lemma keeps_insert_host [keeps_intros]: "core_view f \<Longrightarrow> hostless f \<Longrightarrow> keeps f (insert_host h)"
  unfolding insert_host_def by (rule keeps_statement) (auto simp: core_viewD hostless_def split: if_splits)

lemma keeps_upsert_host [keeps_intros]: "core_view f \<Longrightarrow> hostless f \<Longrightarrow> keeps f (upsert_host x h auth)"
  unfolding upsert_host_def Let_def by (intro keeps_intros)

lemma keeps_host_get_by_id [keeps_intros]: "core_view f \<Longrightarrow> keeps f (host_get_by_id i)"
  unfolding host_get_by_id_def by (intro keeps_intros)

lemma keeps_hosts_of_network [keeps_intros]: "core_view f \<Longrightarrow> keeps f (hosts_of_network n)"
  unfolding hosts_of_network_def by (intro keeps_intros)

lemma keeps_host_create [keeps_intros]: "core_view f \<Longrightarrow> hostless f \<Longrightarrow> keeps f (host_create h auth)"
  unfolding host_create_def host_insert_def Let_def by (intro keeps_intros)

lemma keeps_host_update [keeps_intros]: "core_view f \<Longrightarrow> hostless f \<Longrightarrow> keeps f (host_update h auth)"
  unfolding host_update_def by (intro keeps_intros)

lemma keeps_respond [keeps_intros]: "core_view f \<Longrightarrow> keeps f (respond h)"
  unfolding respond_def load_children_for_host_def services_of_host_ordered_def hydrate_services_def
  by (intro keeps_intros)

lemma keeps_find_matching_host [keeps_intros]: "core_view f \<Longrightarrow> keeps f (find_matching_host_by_interfaces n is)"
  unfolding find_matching_host_by_interfaces_def by (intro keeps_intros)

lemma keeps_check_host_limit [keeps_intros]: "core_view f \<Longrightarrow> keeps f (check_host_limit b limit n)"
  unfolding check_host_limit_def by (intro keeps_intros)

end
