(* ===== verification/Port_Exclusivity.thy ===== *)
theory Port_Exclusivity
  imports Store_Logic
begin

text \<open>
  Two services of one host never hold overlapping claims on a port: the invariant behind
  \<open>validate_bindings_available\<close> and \<open>partition_conflicting_bindings\<close>
  (\<open>server/services/service.rs\<close>), over the rows of the tables, with what a successful call of
  the services' operations makes of the claims.
\<close>

section \<open>Claims in the tables\<close>

definition claims_of :: "Inventory \<Rightarrow> uuid \<Rightarrow> claim set" where
  "claims_of st i =
     {c. \<exists>k b. hget (inv_bindings st) k = Some b \<and> bb_service_id (binding_base b) = i \<and> binding_claim b = Some c}"

definition disjoint_claims :: "claim set \<Rightarrow> claim set \<Rightarrow> bool" where
  "disjoint_claims A B \<longleftrightarrow> (\<forall>c \<in> A. \<forall>d \<in> B. \<not> claims_overlap c d)"

definition exclusive_ports :: "Inventory \<Rightarrow> bool" where
  "exclusive_ports st \<longleftrightarrow>
     (\<forall>i j r s. hget (inv_services st) i = Some r \<and> hget (inv_services st) j = Some s \<and> i \<noteq> j \<and>
        vb_host_id (service_base r) = vb_host_id (service_base s) \<longrightarrow>
        disjoint_claims (claims_of st i) (claims_of st j))"

definition service_tables_ok :: "Inventory \<Rightarrow> bool" where
  "service_tables_ok st \<longleftrightarrow> table_ok service_id (inv_services st) \<and> table_ok binding_id (inv_bindings st)"

lemma claims_overlap_sym: "claims_overlap c d = claims_overlap d c"
  by (auto simp: claims_overlap_def split: option.splits)

lemma disjoint_claims_sym: "disjoint_claims A B = disjoint_claims B A"
  by (auto simp: disjoint_claims_def claims_overlap_sym)

lemma disjoint_claims_mono: "disjoint_claims A B \<Longrightarrow> A' \<subseteq> A \<Longrightarrow> B' \<subseteq> B \<Longrightarrow> disjoint_claims A' B'"
  by (auto simp: disjoint_claims_def)

lemma set_service_claims: "set (service_claims s) = {c. \<exists>b \<in> set (bindings (service_base s)). binding_claim b = Some c}"
  by (force simp: service_claims_def List.map_filter_def)

lemma service_claims_hydrated:
  "table_ok binding_id (inv_bindings st) \<Longrightarrow> set (service_claims (hydrated st s)) = claims_of st (service_id s)"
  by (fastforce simp: set_service_claims set_bindings_of claims_of_def dest: table_okD)

lemma claims_of_cong: "inv_bindings st' = inv_bindings st \<Longrightarrow> claims_of st' i = claims_of st i"
  by (simp add: claims_of_def)

lemma find_SomeD: "find P xs = Some x \<Longrightarrow> x \<in> set xs \<and> P x"
  by (metis find_Some_iff nth_mem)

lemma first_taken_None:
  "first_taken others bs = None \<longleftrightarrow>
     (\<forall>b \<in> set bs. \<forall>c. binding_claim b = Some c \<longrightarrow>
        (\<forall>s \<in> set others. \<forall>d \<in> set (service_claims s). \<not> claims_overlap c d))"
  by (induction bs) (auto simp: find_None_iff list_ex_iff split: option.splits dest!: find_SomeD)

definition claims_in :: "Binding list \<Rightarrow> claim set" where
  "claims_in bs = {c. \<exists>b \<in> set bs. binding_claim b = Some c}"

text \<open>No claim of another service of the host overlaps with the bindings.\<close>

definition unclaimed :: "Inventory \<Rightarrow> uuid \<Rightarrow> uuid \<Rightarrow> Binding list \<Rightarrow> bool" where
  "unclaimed st h i bs \<longleftrightarrow>
     (\<forall>j r. hget (inv_services st) j = Some r \<and> vb_host_id (service_base r) = h \<and> j \<noteq> i \<longrightarrow>
        disjoint_claims (claims_in bs) (claims_of st j))"

lemma unclaimed_cong:
  "inv_services st' = inv_services st \<Longrightarrow> inv_bindings st' = inv_bindings st \<Longrightarrow>
   unclaimed st' h i bs = unclaimed st h i bs"
  by (simp add: unclaimed_def claims_of_def)

section \<open>The operations\<close>

lemma bindings_available_success:
  assumes "bindings_available h i bs env st = (Inr u, st')" "service_tables_ok st"
    "hget (inv_services st) j = Some r" "vb_host_id (service_base r) = h" "j \<noteq> i"
  shows "disjoint_claims (claims_in bs) (claims_of st j)"
proof (cases "bs = []")
  case False
  with assms(1) obtain ss st1 where ss: "services_of_host h env st = (Inr ss, st1)"
    and free: "first_taken (filter (\<lambda>x. service_id x \<noteq> i) ss) bs = None"
    by (cases "first_taken (filter (\<lambda>x. service_id x \<noteq> i)
          (map (hydrated st) (rows_where (\<lambda>s. vb_host_id (service_base s) = h) service_created_at (inv_services st)))) bs")
       (auto simp: bindings_available_def op_success dest: services_of_host_success)
  have j: "service_id r = j" using assms(2,3) by (auto simp: service_tables_ok_def dest: table_okD)
  then have "hydrated st r \<in> set ss"
    using assms(2-4) unfolding services_of_host_success(1) [OF ss]
    by (auto simp: service_tables_ok_def set_rows_where)
  with free j assms(2,5) show ?thesis
    by (fastforce simp: first_taken_None disjoint_claims_def claims_in_def service_tables_ok_def
        service_claims_hydrated [symmetric])
qed (simp add: disjoint_claims_def claims_in_def)

lemma save_bindings_success:
  assumes run: "save_bindings s auth env st = (Inr u, st')" and fresh: "\<forall>n. ie_fresh env n \<noteq> uuid_nil"
    and ok: "table_ok binding_id (inv_bindings st)"
  shows "table_ok binding_id (inv_bindings st')" "inv_services st' = inv_services st"
    "claims_of st' (service_id s) \<subseteq> claims_in (bindings (service_base s))"
    "j \<noteq> service_id s \<Longrightarrow> claims_of st' j = claims_of st j"
    "service_id u = service_id s" "vb_tags (service_base u) = vb_tags (service_base s)"
proof -
  let ?bs = "map (\<lambda>b. binding_with_service b (service_id s) (vb_network_id (service_base s))) (bindings (service_base s))"
  obtain rs where r: "save_for_parent binding_crud (service_id s) ?bs auth env st = (Inr rs, st')"
    and u: "u = s\<lparr>service_base := (service_base s)\<lparr>bindings := rs\<rparr>\<rparr>"
    using run by (auto simp: save_bindings_def op_success)
  show "service_id u = service_id s" "vb_tags (service_base u) = vb_tags (service_base s)" by (simp_all add: u)
  have table: "c_table binding_crud st = inv_bindings st" for st
    by (simp add: binding_crud_def)
  have key: "c_id binding_crud = binding_id" "c_parent binding_crud = (\<lambda>b. bb_service_id (binding_base b))"
    by (simp_all add: binding_crud_def)
  note saved = binding_table.save_for_parent_success [OF r fresh, unfolded table key, OF ok]
  have parent: "\<forall>b \<in> set ?bs. bb_service_id (binding_base b) = service_id s"
    by (simp add: binding_with_service_def)
  show "table_ok binding_id (inv_bindings st')" by (rule saved(1) [OF parent])
  have "keeps inv_services (save_for_parent binding_crud (service_id s) ?bs auth)"
    by (intro keeps_save_for_parent)
       (simp_all add: unseen_def undeleted_def binding_crud_def delete_bindings_def)
  from keeps_result [OF this r] show "inv_services st' = inv_services st" .
  have types: "map binding_claim rs = map binding_claim ?bs"
    by (rule saved(6) [OF parent]) (simp_all add: binding_crud_def binding_claim_def binding_type_def)
  have "map binding_claim ?bs = map binding_claim (bindings (service_base s))"
    by (simp add: o_def binding_claim_def binding_type_def binding_with_service_def)
  with types have claims: "claims_in rs = claims_in (bindings (service_base s))"
    unfolding claims_in_def by (metis (mono_tags, lifting) image_iff list.set_map)
  show "claims_of st' (service_id s) \<subseteq> claims_in (bindings (service_base s))"
    unfolding claims [symmetric]
    by (auto simp: claims_of_def claims_in_def dest: saved(3) [OF parent])
  show "claims_of st' j = claims_of st j" if "j \<noteq> service_id s"
    using saved(5) [OF parent] that unfolding claims_of_def by blast
qed


lemma keeps_core_bindings:
  assumes "keeps inv_services m" "keeps inv_bindings m" "m env st = (r, st')"
  shows "inv_services st' = inv_services st" "inv_bindings st' = inv_bindings st"
  using assms keeps_result by blast+

text \<open>
  The last steps of a create or an update: the row, its bindings, the tags and the event. The
  claims the service ends with were disjoint from those of its neighbours before.
\<close>

lemma row_and_bindings_exclusive:
  assumes bindings: "save_bindings s auth env st1 = (Inr u, st2)"
    and services: "inv_services st1 = hinsert (service_id s) (service_row s) (inv_services st)"
    and others: "inv_bindings st1 = inv_bindings st"
    and rest: "inv_services st3 = inv_services st2" "inv_bindings st3 = inv_bindings st2"
    and fresh: "\<forall>n. ie_fresh env n \<noteq> uuid_nil"
    and ok: "service_tables_ok st" and excl: "exclusive_ports st"
    and free: "unclaimed st (vb_host_id (service_base s)) (service_id s) (bindings (service_base s))"
  shows "exclusive_ports st3" "service_tables_ok st3"
proof -
  have bok: "table_ok binding_id (inv_bindings st1)" using ok others by (simp add: service_tables_ok_def)
  note saved = save_bindings_success [OF bindings fresh bok]
  have claims: "claims_of st3 j = claims_of st2 j" for j
    by (rule claims_of_cong) (rule rest(2))
  have same: "claims_of st3 j = claims_of st j" if "j \<noteq> service_id s" for j
    using saved(4) [OF that] claims claims_of_cong [OF others] by simp
  have mine: "claims_of st3 (service_id s) \<subseteq> claims_in (bindings (service_base s))"
    using saved(3) claims by simp
  have rows: "hget (inv_services st3) j = (if j = service_id s then Some (service_row s) else hget (inv_services st) j)" for j
    by (simp add: rest saved(2) services hget_laws)
  have host: "vb_host_id (service_base (service_row s)) = vb_host_id (service_base s)"
    by (simp add: service_row_def)
  have free': "disjoint_claims (claims_of st3 (service_id s)) (claims_of st3 j)"
    if "hget (inv_services st) j = Some r" "vb_host_id (service_base r) = vb_host_id (service_base s)" "j \<noteq> service_id s" for j r
    using disjoint_claims_mono [OF _ mine order_refl] same [OF that(3)] free that by (auto simp: unclaimed_def)
  show "exclusive_ports st3"
    unfolding exclusive_ports_def
  proof (intro allI impI)
    fix i j r r'
    assume a: "hget (inv_services st3) i = Some r \<and> hget (inv_services st3) j = Some r' \<and> i \<noteq> j \<and>
        vb_host_id (service_base r) = vb_host_id (service_base r')"
    then consider "i = service_id s" "j \<noteq> service_id s" | "j = service_id s" "i \<noteq> service_id s"
      | "i \<noteq> service_id s" "j \<noteq> service_id s" by blast
    then show "disjoint_claims (claims_of st3 i) (claims_of st3 j)"
    proof cases
      case 1
      with a free' [of j r'] host show ?thesis by (auto simp: rows)
    next
      case 2
      with a free' [of i r] host show ?thesis by (auto simp: rows disjoint_claims_sym)
    next
      case 3
      with a same excl show ?thesis by (auto simp: rows exclusive_ports_def)
    qed
  qed
  have "table_ok service_id (hinsert (service_id (service_row s)) (service_row s) (inv_services st))"
    using ok by (intro table_ok_hinsert) (simp add: service_tables_ok_def)
  then have "table_ok service_id (inv_services st3)"
    by (simp add: rest saved(2) services service_row_def)
  then show "service_tables_ok st3"
    using saved(1) by (simp add: service_tables_ok_def rest)
qed


lemma service_row_updated:
  assumes "update_row service_crud s env st = (Inr u, st')" "hget (inv_services st) (service_id s) \<noteq> None"
  shows "inv_services st' = hinsert (service_id s) (service_row s) (inv_services st)"
    "inv_bindings st' = inv_bindings st"
  using assms by (auto simp: update_row_def op_success service_crud_def split: if_splits)

lemma service_row_inserted:
  assumes "insert_row service_crud s env st = (Inr u, st')"
  shows "inv_services st' = hinsert (service_id s) (service_row s) (inv_services st)"
    "inv_bindings st' = inv_bindings st" "hget (inv_services st) (service_id s) = None"
  using assms by (auto simp: insert_row_def op_success service_crud_def split: if_splits)

text \<open>Steps that write neither services nor bindings.\<close>

definition reading :: "'a op \<Rightarrow> bool" where
  "reading m \<longleftrightarrow> keeps inv_services m \<and> keeps inv_bindings m"

lemma readingD:
  "reading m \<Longrightarrow> m env st = (r, st') \<Longrightarrow> inv_services st' = inv_services st \<and> inv_bindings st' = inv_bindings st"
  by (auto simp: reading_def dest: keepsD [of _ m env st])

lemma readings:
  "reading (service_get_by_id i)" "reading (bindings_belong_to_host h bs)" "reading (bindings_available h i bs)"
  "reading (update_group_service_bindings s updates auth)" "reading (set_tags_as auth i D_Service tags)"
  "reading (publish_service s operation stale auth)" "reading (services_of_host h)"
  "reading (free_and_claimed h i bs batch)" "reading fresh_op" "reading now_op" "reading (ok_op x)" "reading (lift_op y)"
  by (simp_all add: reading_def keeps_intros)

lemma reading_bind: "reading m \<Longrightarrow> (\<And>x. reading (f x)) \<Longrightarrow> reading (bind_op m f)"
  by (simp add: reading_def keeps_bind)

lemma same_tables:
  assumes "inv_services st' = inv_services st" "inv_bindings st' = inv_bindings st"
  shows "claims_of st' j = claims_of st j" "service_tables_ok st' = service_tables_ok st"
    "exclusive_ports st' = exclusive_ports st"
  using assms by (simp_all add: claims_of_def service_tables_ok_def exclusive_ports_def)

lemma service_update_exclusive:
  assumes run: "service_update s0 auth env st = (Inr u, st')" and fresh: "\<forall>n. ie_fresh env n \<noteq> uuid_nil"
    and ok: "service_tables_ok st" and excl: "exclusive_ports st"
  shows "exclusive_ports st'" "service_tables_ok st'"
proof -
  let ?bs = "deduplicate_bindings (bindings (service_base s0))"
  let ?s = "s0\<lparr>service_base := (service_base s0)\<lparr>bindings := ?bs\<rparr>\<rparr>"
  let ?h = "vb_host_id (service_base s0)"
  obtain found st1 where g: "service_get_by_id (service_id s0) env st = (Inr found, st1)"
    using run unfolding service_update_def bind_op_success by blast
  with run obtain current where found: "found = Some current"
    unfolding service_update_def by (cases found) (auto simp: bind_op_success err_op_success)
  let ?tail = "\<lambda>x. bind_op (set_tags_as auth (service_id x) D_Service (vb_tags (service_base x))) (\<lambda>_.
      bind_op (publish_service x Updated (service_triggers_staleness x (Some current)) auth) (\<lambda>_. ok_op x))"
  obtain st2 st3 st4 st5 st6 x where
    belong: "bindings_belong_to_host ?h ?bs env st1 = (Inr (), st2)" and
    free: "bindings_available ?h (service_id s0) ?bs env st2 = (Inr (), st3)" and
    groups: "update_group_service_bindings current (Some ?s) auth env st3 = (Inr (), st4)" and
    row: "update_row service_crud ?s env st4 = (Inr (), st5)" and
    save: "save_bindings ?s auth env st5 = (Inr x, st6)" and
    rest: "?tail x env st6 = (Inr u, st')"
    using run g found by (auto simp: service_update_def bind_op_success lift_op_success Let_def)
  have st2: "inv_services st2 = inv_services st" "inv_bindings st2 = inv_bindings st"
    using readingD [OF readings(1) g] readingD [OF readings(2) belong] by simp_all
  have st4: "inv_services st4 = inv_services st" "inv_bindings st4 = inv_bindings st"
    using readingD [OF readings(3) free] readingD [OF readings(4) groups] by (simp_all add: st2)
  have "hget (inv_services st) (service_id s0) \<noteq> None"
    using service_get_by_id_success(1) [OF g] found by (cases "hget (inv_services st) (service_id s0)") auto
  with row have st5: "inv_services st5 = hinsert (service_id ?s) (service_row ?s) (inv_services st)"
      "inv_bindings st5 = inv_bindings st"
    using service_row_updated [OF row] by (simp_all add: st4)
  have "reading (?tail x)" by (simp add: readings reading_bind)
  from readingD [OF this rest]
  have st': "inv_services st' = inv_services st6" "inv_bindings st' = inv_bindings st6" by simp_all
  have others: "unclaimed st (vb_host_id (service_base ?s)) (service_id ?s) (bindings (service_base ?s))"
    using bindings_available_success [OF free] ok
    by (auto simp: unclaimed_def st2 same_tables [OF st2])
  show "exclusive_ports st'" "service_tables_ok st'"
    using row_and_bindings_exclusive [OF save st5 st' fresh ok excl others] by blast+
qed


section \<open>Creating services\<close>

lemma claims_in_mono: "set as \<subseteq> set bs \<Longrightarrow> claims_in as \<subseteq> claims_in bs"
  by (auto simp: claims_in_def)

lemma claims_in_deduplicate: "claims_in (deduplicate_bindings bs) \<subseteq> claims_in bs"
  by (rule claims_in_mono) (rule set_deduplicate)

lemma set_upsert_binding: "set (fst (upsert_binding acc b)) \<subseteq> insert b (set (fst acc))"
  by (cases acc) (auto simp: upsert_binding_fst)

lemma set_upsert_bindings: "set (fst (foldl upsert_binding acc bs)) \<subseteq> set (fst acc) \<union> set bs"
proof (induction bs arbitrary: acc)
  case (Cons b bs)
  from Cons.IH [of "upsert_binding acc b"] set_upsert_binding [of acc b] show ?case by auto
qed simp

lemma disjoint_claims_Un: "disjoint_claims (A \<union> B) C \<longleftrightarrow> disjoint_claims A C \<and> disjoint_claims B C"
  by (auto simp: disjoint_claims_def)

lemma claims_in_merged:
  "claims_in (bindings (service_base (merged_service x s))) \<subseteq>
     claims_in (bindings (service_base x)) \<union> claims_in (bindings (service_base s))"
  using set_upsert_bindings [of "(bindings (service_base x), 0)" "bindings (service_base s)"]
  by (auto simp: merged_service_def upsert_bindings_def claims_in_def)

lemma claims_in_hydrated:
  assumes "table_ok binding_id (inv_bindings st)" "service_id r = i"
  shows "claims_in (bindings (service_base (hydrated st r))) = claims_of st i"
  using service_claims_hydrated [OF assms(1), of r] assms(2) by (simp add: claims_in_def set_service_claims)

lemma upsert_service_exclusive:
  assumes run: "upsert_service (hydrated st0 r) s auth env st = (Inr u, st')"
    and same: "inv_services st = inv_services st0" "inv_bindings st = inv_bindings st0"
    and fresh: "\<forall>n. ie_fresh env n \<noteq> uuid_nil" and ok: "service_tables_ok st0" and excl: "exclusive_ports st0"
    and r: "hget (inv_services st0) i = Some r"
    and free: "unclaimed st0 (vb_host_id (service_base r)) i (bindings (service_base s))"
  shows "exclusive_ports st'" "service_tables_ok st'" "set (hkeys (inv_services st')) \<subseteq> set (hkeys (inv_services st0))"
proof -
  let ?m = "merged_service (hydrated st0 r) s"
  have i: "service_id r = i" using ok r by (auto simp: service_tables_ok_def dest: table_okD)
  have m: "service_id ?m = i" "vb_host_id (service_base ?m) = vb_host_id (service_base r)"
    by (simp_all add: merged_service_def i)
  let ?tail = "\<lambda>x n. if n > (0::nat)
            then bind_op (publish_service x Updated (service_triggers_staleness x (Some (hydrated st0 r))) auth) (\<lambda>_. ok_op x)
            else ok_op x"
  obtain st1 st2 x n where
    row: "update_row service_crud ?m env st = (Inr (), st1)" and
    save: "save_bindings ?m auth env st1 = (Inr x, st2)" and
    rest: "?tail x n env st2 = (Inr u, st')"
    using run by (auto simp: upsert_service_def bind_op_success Let_def)
  have st1: "inv_services st1 = hinsert (service_id ?m) (service_row ?m) (inv_services st0)"
      "inv_bindings st1 = inv_bindings st0"
    using service_row_updated [OF row] r by (simp_all add: m same)
  have "reading (?tail x n)" by (simp add: readings reading_bind)
  from readingD [OF this rest]
  have st': "inv_services st' = inv_services st2" "inv_bindings st' = inv_bindings st2" by simp_all
  have "disjoint_claims (claims_in (bindings (service_base ?m))) (claims_of st0 j)"
    if "hget (inv_services st0) j = Some r'" "vb_host_id (service_base r') = vb_host_id (service_base ?m)"
      "j \<noteq> service_id ?m" for j r'
  proof -
    have "disjoint_claims (claims_of st0 i) (claims_of st0 j)"
      using excl r that m by (auto simp: exclusive_ports_def)
    moreover have "disjoint_claims (claims_in (bindings (service_base s))) (claims_of st0 j)"
      using free that m by (auto simp: unclaimed_def)
    ultimately have "disjoint_claims (claims_of st0 i \<union> claims_in (bindings (service_base s))) (claims_of st0 j)"
      by (simp add: disjoint_claims_Un)
    moreover have "claims_in (bindings (service_base (hydrated st0 r))) = claims_of st0 i"
      using ok by (intro claims_in_hydrated i) (simp add: service_tables_ok_def)
    ultimately show ?thesis
      using disjoint_claims_mono [OF _ claims_in_merged order_refl] by metis
  qed
  then have others: "unclaimed st0 (vb_host_id (service_base ?m)) (service_id ?m) (bindings (service_base ?m))"
    by (auto simp: unclaimed_def)
  show "exclusive_ports st'" "service_tables_ok st'"
    using row_and_bindings_exclusive [OF save st1 st' fresh ok excl others] by blast+
  have bok: "table_ok binding_id (inv_bindings st1)" using ok st1 by (simp add: service_tables_ok_def)
  have "hget (inv_services st') k = None" if "hget (inv_services st0) k = None" for k
    using that r save_bindings_success(2) [OF save fresh bok] by (auto simp: st' st1 m hget_laws)
  then show "set (hkeys (inv_services st')) \<subseteq> set (hkeys (inv_services st0))"
    by (auto simp: hkeys_hget) (metis not_None_eq)
qed


lemma service_insert_exclusive:
  assumes run: "service_insert s auth env st = (Inr u, st')"
    and fresh: "\<forall>n. ie_fresh env n \<noteq> uuid_nil" and ok: "service_tables_ok st" and excl: "exclusive_ports st"
    and free: "is_from_discovery (vb_source (service_base s)) \<Longrightarrow>
      unclaimed st (vb_host_id (service_base s)) (service_id s) (bindings (service_base s))"
  shows "exclusive_ports st'" "service_tables_ok st'"
    "set (hkeys (inv_services st')) \<subseteq> insert (service_id s) (set (hkeys (inv_services st)))"
proof -
  let ?bs = "bindings (service_base s)"
  let ?h = "vb_host_id (service_base s)"
  let ?check = "if is_from_discovery (vb_source (service_base s)) then ok_op () else bindings_available ?h (service_id s) ?bs"
  let ?tail = "\<lambda>x. bind_op (set_tags_as auth (service_id x) D_Service (vb_tags (service_base x))) (\<lambda>_.
      bind_op (publish_service x Created (service_triggers_staleness x None) auth) (\<lambda>_. ok_op x))"
  obtain st1 st2 st3 st4 x where
    belong: "bindings_belong_to_host ?h ?bs env st = (Inr (), st1)" and
    check: "?check env st1 = (Inr (), st2)" and
    row: "insert_row service_crud s env st2 = (Inr (), st3)" and
    save: "save_bindings s auth env st3 = (Inr x, st4)" and
    rest: "?tail x env st4 = (Inr u, st')"
    using run by (auto simp: service_insert_def bind_op_success lift_op_success Let_def)
  have st1: "inv_services st1 = inv_services st" "inv_bindings st1 = inv_bindings st"
    using readingD [OF readings(2) belong] by simp_all
  have "reading ?check" by (simp add: readings)
  from readingD [OF this check] have st2: "inv_services st2 = inv_services st" "inv_bindings st2 = inv_bindings st"
    by (simp_all add: st1)
  have st3: "inv_services st3 = hinsert (service_id s) (service_row s) (inv_services st)"
      "inv_bindings st3 = inv_bindings st"
    using service_row_inserted [OF row] by (simp_all add: st2)
  have "reading (?tail x)" by (simp add: readings reading_bind)
  from readingD [OF this rest]
  have st': "inv_services st' = inv_services st4" "inv_bindings st' = inv_bindings st4" by simp_all
  have free': "unclaimed st ?h (service_id s) ?bs"
  proof (cases "is_from_discovery (vb_source (service_base s))")
    case True
    then show ?thesis by (rule free)
  next
    case False
    then have "bindings_available ?h (service_id s) ?bs env st1 = (Inr (), st2)" using check by simp
    from bindings_available_success [OF this] ok show ?thesis
      by (auto simp: unclaimed_def st1 same_tables [OF st1])
  qed
  show "exclusive_ports st'" "service_tables_ok st'"
    using row_and_bindings_exclusive [OF save st3 st' fresh ok excl free'] by blast+
  have bok: "table_ok binding_id (inv_bindings st3)" using ok st3 by (simp add: service_tables_ok_def)
  have "hget (inv_services st') k = None" if "hget (inv_services st) k = None" "k \<noteq> service_id s" for k
    using that save_bindings_success(2) [OF save fresh bok] by (simp add: st' st3 hget_laws)
  then show "set (hkeys (inv_services st')) \<subseteq> insert (service_id s) (set (hkeys (inv_services st)))"
    by (auto simp: hkeys_hget) (metis not_None_eq)
qed

text \<open>
  Creating a service under a new id. One that was discovered comes with the promise that its
  claims are free.
\<close>

lemma service_create_exclusive:
  assumes run: "service_create s0 auth env st = (Inr u, st')"
    and fresh: "\<forall>n. ie_fresh env n \<noteq> uuid_nil" and ok: "service_tables_ok st" and excl: "exclusive_ports st"
    and new: "service_id s0 \<noteq> uuid_nil" "hget (inv_services st) (service_id s0) = None"
    and free: "is_from_discovery (vb_source (service_base s0)) \<Longrightarrow>
      unclaimed st (vb_host_id (service_base s0)) (service_id s0) (bindings (service_base s0))"
  shows "exclusive_ports st'" "service_tables_ok st'"
    "set (hkeys (inv_services st')) \<subseteq> insert (service_id s0) (set (hkeys (inv_services st)))"
proof -
  let ?s = "s0\<lparr>service_base := (service_base s0)\<lparr>bindings := deduplicate_bindings (bindings (service_base s0))\<rparr>\<rparr>"
  obtain existing st1 where e: "services_of_host (vb_host_id (service_base s0)) env st = (Inr existing, st1)"
    and run': "(case find (\<lambda>x. service_eq x ?s) existing of
        Some x \<Rightarrow>
          if is_from_discovery (vb_source (service_base ?s)) \<and> is_from_discovery (vb_source (service_base x))
             \<or> service_id ?s = service_id x
          then upsert_service x ?s auth
          else service_insert (set_position service_positioned (next_position existing) ?s) auth
      | None \<Rightarrow> service_insert (set_position service_positioned (next_position existing) ?s) auth) env st1 = (Inr u, st')"
    using run new(1) by (auto simp: service_create_def op_success Let_def)
  have st1: "inv_services st1 = inv_services st" "inv_bindings st1 = inv_bindings st"
    using readingD [OF readings(7) e] by simp_all
  note tables = same_tables [OF st1]
  have free': "unclaimed st (vb_host_id (service_base s0)) i (bindings (service_base ?s))"
    if "is_from_discovery (vb_source (service_base s0))" for i
  proof -
    have "disjoint_claims (claims_in (bindings (service_base s0))) (claims_of st j)"
      if "hget (inv_services st) j = Some r" "vb_host_id (service_base r) = vb_host_id (service_base s0)" for j r
      using free [OF \<open>is_from_discovery (vb_source (service_base s0))\<close>] new(2) that
      by (cases "j = service_id s0") (auto simp: unclaimed_def)
    then show ?thesis
      using disjoint_claims_mono [OF _ claims_in_deduplicate order_refl] by (auto simp: unclaimed_def)
  qed
  have inserted: "exclusive_ports st' \<and> service_tables_ok st' \<and>
      set (hkeys (inv_services st')) \<subseteq> insert (service_id s0) (set (hkeys (inv_services st)))"
    if "service_insert (set_position service_positioned (next_position existing) ?s) auth env st1 = (Inr u, st')"
    using service_insert_exclusive [OF that fresh] ok excl free'
    by (simp add: tables unclaimed_cong [OF st1] st1 service_positioned_def)
  have "exclusive_ports st' \<and> service_tables_ok st' \<and>
      set (hkeys (inv_services st')) \<subseteq> insert (service_id s0) (set (hkeys (inv_services st)))"
  proof (cases "find (\<lambda>x. service_eq x ?s) existing")
    case None
    with run' inserted show ?thesis by simp
  next
    case (Some x)
    then have "x \<in> set existing" by (auto dest: find_SomeD)
    then obtain r where x: "x = hydrated st r" and r: "hget (inv_services st) (service_id r) = Some r"
        "vb_host_id (service_base r) = vb_host_id (service_base s0)"
      using ok by (auto simp: services_of_host_success(1) [OF e] service_tables_ok_def set_rows_where)
    have other: "service_id s0 \<noteq> service_id x" using r(1) new(2) x by auto
    show ?thesis
    proof (cases "is_from_discovery (vb_source (service_base s0)) \<and> is_from_discovery (vb_source (service_base x))")
      case True
      with Some run' have "upsert_service (hydrated st r) ?s auth env st1 = (Inr u, st')" by (simp add: x)
      from upsert_service_exclusive [OF this st1 fresh ok excl r(1)] free' True r(2) show ?thesis by auto
    next
      case False
      with Some run' other inserted show ?thesis by auto
    qed
  qed
  then show "exclusive_ports st'" "service_tables_ok st'"
    "set (hkeys (inv_services st')) \<subseteq> insert (service_id s0) (set (hkeys (inv_services st)))" by blast+
qed


section \<open>The loop of a discovery\<close>

lemma free_and_claimed_success:
  assumes run: "free_and_claimed h i bs batch env st = (Inr (valid, []), st')" and ok: "service_tables_ok st"
  shows "unclaimed st h i bs"
proof (cases "bs = []")
  case True
  then show ?thesis by (simp add: unclaimed_def disjoint_claims_def claims_in_def)
next
  case False
  then obtain ss where ss: "services_of_host h env st = (Inr ss, st')"
    and p: "partition_conflicting_bindings ss i bs batch = (valid, [])"
    using run by (auto simp: free_and_claimed_def op_success)
  have "\<not> claims_overlap c d" if "s \<in> set ss" "service_id s \<noteq> i" "d \<in> set (service_claims s)"
      "b \<in> set bs" "binding_claim b = Some c" for s b c d
  proof -
    let ?A = "concat (map service_claims (filter (\<lambda>s. service_id s \<noteq> i) ss)) @ batch"
    have d: "d \<in> set ?A" using that by auto
    then have "filter (claim_conflicts ?A) bs = []"
      using p False by (auto simp: partition_conflicting_bindings_def Let_def split: if_splits)
    then have "\<not> claim_conflicts ?A b" using that(4) by (simp add: filter_empty_conv del: set_append)
    then have "\<not> list_ex (claims_overlap c) ?A" using that(5) by (simp add: claim_conflicts_def)
    with d show ?thesis unfolding list_ex_iff by blast
  qed
  then have free: "disjoint_claims (claims_in bs) (set (service_claims s))" if "s \<in> set ss" "service_id s \<noteq> i" for s
    using that by (auto simp: disjoint_claims_def claims_in_def)
  show ?thesis
    unfolding unclaimed_def
  proof (intro allI impI)
    fix j r assume r: "hget (inv_services st) j = Some r \<and> vb_host_id (service_base r) = h \<and> j \<noteq> i"
    then have j: "service_id r = j" using ok by (auto simp: service_tables_ok_def dest: table_okD)
    then have "hydrated st r \<in> set ss"
      using r ok by (auto simp: services_of_host_success(1) [OF ss] service_tables_ok_def set_rows_where)
    from free [OF this] r j ok show "disjoint_claims (claims_in bs) (claims_of st j)"
      by (simp add: service_tables_ok_def service_claims_hydrated)
  qed
qed

lemma adopt_services_exclusive:
  assumes "adopt_services reassign h auth claimed orphaned created ss env st = (Inr res, st')"
    and "\<forall>n. ie_fresh env n \<noteq> uuid_nil" and "service_tables_ok st" and "exclusive_ports st"
    and "\<And>s. service_id (reassign s) = service_id s" and "\<And>s. vb_host_id (service_base (reassign s)) = h"
    and "distinct (map service_id ss)"
    and "\<forall>s \<in> set ss. service_id s \<noteq> uuid_nil \<and> service_id s \<notin> set (hkeys (inv_services st))"
  shows "exclusive_ports st' \<and> service_tables_ok st'"
  using assms
proof (induction ss arbitrary: claimed orphaned created st)
  case (Cons s ss)
  note fresh = Cons.prems(2) and ok = Cons.prems(3) and excl = Cons.prems(4)
  let ?r = "reassign s"
  obtain valid conflicting st1
    where p: "free_and_claimed h (service_id ?r) (bindings (service_base ?r)) claimed env st = (Inr (valid, conflicting), st1)"
      and run: "(if conflicting \<noteq> []
        then adopt_services reassign h auth claimed (orphaned @ valid) created ss
        else bind_op (service_create ?r auth) (\<lambda>c.
          adopt_services reassign h auth (claimed @ service_claims ?r) orphaned (created @ [c]) ss)) env st1 = (Inr res, st')"
    using Cons.prems(1) by (auto simp: bind_op_success Let_def split: prod.splits)
  have st1: "inv_services st1 = inv_services st" "inv_bindings st1 = inv_bindings st"
    using readingD [OF readings(8) p] by simp_all
  note tables = same_tables [OF st1]
  show ?case
  proof (cases "conflicting = []")
    case False
    with run have "adopt_services reassign h auth claimed (orphaned @ valid) created ss env st1 = (Inr res, st')" by simp
    from Cons.IH [OF this fresh] ok excl Cons.prems(5-8) show ?thesis by (simp add: tables st1)
  next
    case True
    with run obtain c st2 where c: "service_create ?r auth env st1 = (Inr c, st2)"
      and rest: "adopt_services reassign h auth (claimed @ service_claims ?r) orphaned (created @ [c]) ss env st2 = (Inr res, st')"
      by (auto simp: bind_op_success)
    have "unclaimed st h (service_id ?r) (bindings (service_base ?r))"
      using free_and_claimed_success p ok True by blast
    then have free: "unclaimed st1 (vb_host_id (service_base ?r)) (service_id ?r) (bindings (service_base ?r))"
      by (simp add: unclaimed_cong [OF st1] Cons.prems(6))
    have new: "service_id ?r \<noteq> uuid_nil" "hget (inv_services st1) (service_id ?r) = None"
      using Cons.prems(5,8) by (auto simp: st1 hkeys_hget)
    note created = service_create_exclusive [OF c fresh _ _ new free, unfolded tables, OF ok excl]
    have "set (hkeys (inv_services st2)) \<subseteq> insert (service_id s) (set (hkeys (inv_services st)))"
      using created(3) by (simp add: st1 Cons.prems(5))
    moreover have "service_id s \<notin> service_id ` set ss" using Cons.prems(7) by simp
    ultimately have "\<forall>x \<in> set ss. service_id x \<noteq> uuid_nil \<and> service_id x \<notin> set (hkeys (inv_services st2))"
      using Cons.prems(8) by (metis image_eqI insertE list.set_intros(2) subsetD)
    with Cons.IH [OF rest fresh created(2,1)] Cons.prems(5-7) show ?thesis by simp
  qed
qed (auto simp: ok_op_success)

end
