(* ===== verification/Store_Demos.thy ===== *)
theory Store_Demos
  imports Port_Exclusivity
begin

text \<open>
  A small inventory on which the properties of the stores are applied: one host of network 1
  with two ports and two services, the first holding port 80. The check for shared ports
  computes on it.
\<close>

section \<open>A check that computes\<close>

definition services_overlap :: "Inventory \<Rightarrow> Service \<Rightarrow> Service \<Rightarrow> bool" where
  "services_overlap st r s \<longleftrightarrow>
     service_id r \<noteq> service_id s \<and> vb_host_id (service_base r) = vb_host_id (service_base s) \<and>
     list_ex (\<lambda>c. list_ex (claims_overlap c) (service_claims (hydrated st s))) (service_claims (hydrated st r))"

definition ports_shared :: "Inventory \<Rightarrow> bool" where
  "ports_shared st \<longleftrightarrow>
     list_ex (\<lambda>r. list_ex (services_overlap st r) (hvalues (inv_services st))) (hvalues (inv_services st))"

lemma services_overlap_iff:
  assumes "service_tables_ok st"
  shows "services_overlap st r s \<longleftrightarrow>
    service_id r \<noteq> service_id s \<and> vb_host_id (service_base r) = vb_host_id (service_base s) \<and>
    \<not> disjoint_claims (claims_of st (service_id r)) (claims_of st (service_id s))"
  using assms
  by (simp add: services_overlap_def list_ex_iff service_claims_hydrated service_tables_ok_def disjoint_claims_def)

lemma exclusive_ports_iff:
  assumes "service_tables_ok st"
  shows "exclusive_ports st \<longleftrightarrow> \<not> ports_shared st"
proof -
  have ok: "table_ok service_id (inv_services st)" using assms by (simp add: service_tables_ok_def)
  have row: "hget (inv_services st) i = Some r \<longleftrightarrow> r \<in> set (hvalues (inv_services st)) \<and> service_id r = i" for i r
    using table_ok_mem [OF ok, of r] table_okD [OF ok, of i r] by auto
  show ?thesis
    by (auto simp: exclusive_ports_def row ports_shared_def list_ex_iff services_overlap_iff [OF assms])
qed

text \<open>Calls computed when they are run, not before.\<close>

lemma op_code [code]:
  "ok_op x env st = (Inr x, st)"
  "err_op e env st = (Inl e, st)"
  "lift_op r env st = (r, st)"
  "now_op env st = (Inr (ie_now env), st)"
  "fresh_op env st = (Inr (ie_fresh env (inv_ops st)), st)"
  "bind_op m f env st = (case m env st of (Inl e, st1) \<Rightarrow> (Inl e, st1) | (Inr x, st1) \<Rightarrow> f x env st1)"
  "map_err_op g m env st = (case m env st of (Inl e, st1) \<Rightarrow> (Inl (g e), st1) | r \<Rightarrow> r)"
  "try_op m env st = (case m env st of (Inl _, st1) \<Rightarrow> (Inr False, st1) | (Inr _, st1) \<Rightarrow> (Inr True, st1))"
  by (simp_all add: ok_op_def err_op_def lift_op_def now_op_def fresh_op_def bind_op_def map_err_op_def try_op_def)

lemma statement_code [code]:
  "statement q env st =
     (let st1 = st\<lparr>inv_ops := Suc (inv_ops st)\<rparr> in
      case ie_answer env (inv_ops st) of
        Some e \<Rightarrow> (Inl (OtherError e), st1)
      | None \<Rightarrow> (case q st1 of Inl e \<Rightarrow> (Inl e, st1) | Inr (x, st2) \<Rightarrow> (Inr x, st2)))"
  by (simp add: statement_def)

lemmas applied_code [code] =
  fun_cong [OF fun_cong [OF sync_interfaces_def]] fun_cong [OF fun_cong [OF sync_ports_def]]
  fun_cong [OF fun_cong [OF sync_services_def]] fun_cong [OF fun_cong [OF host_update_def]]
  fun_cong [OF fun_cong [OF respond_def]] fun_cong [OF fun_cong [OF service_create_def]]
  fun_cong [OF fun_cong [OF service_update_def]] fun_cong [OF fun_cong [OF service_insert_def]]
  fun_cong [OF fun_cong [OF upsert_service_def]] fun_cong [OF fun_cong [OF host_create_def]]
  fun_cong [OF fun_cong [OF group_update_def]] fun_cong [OF fun_cong [OF entity_create_def]]
  fun_cong [OF fun_cong [OF entity_update_def]] fun_cong [OF fun_cong [OF save_for_parent_def]]

section \<open>The rows\<close>

definition demo_binding :: "uuid \<Rightarrow> uuid \<Rightarrow> BindingType \<Rightarrow> Binding" where
  "demo_binding i s t = \<lparr>binding_id = i, binding_created_at = 0, binding_updated_at = 0,
     binding_base = bindingbase_new s 1 t\<rparr>"

definition demo_definition :: "string \<Rightarrow> ServiceDefinition" where
  "demo_definition nm =
     \<lparr>sd_name = nm, sd_description = [], sd_category = SC_Unknown, sd_is_generic = False,
      sd_is_gateway = False, sd_logo_url = [], sd_raw_socket = False\<rparr>"

definition demo_service :: "uuid \<Rightarrow> string \<Rightarrow> EntitySource \<Rightarrow> Binding list \<Rightarrow> Service" where
  "demo_service i nm src bs =
     \<lparr>service_id = i, service_created_at = 0, service_updated_at = 0,
      service_base = \<lparr>vb_host_id = 7, vb_network_id = 1, service_definition = demo_definition nm,
        vb_name = nm, bindings = bs, virtualization = None, vb_source = src, vb_tags = [], vb_position = 0\<rparr>\<rparr>"

definition demo_stored_host :: Host where
  "demo_stored_host =
     \<lparr>host_id = 7, host_created_at = 0, host_updated_at = 5,
      host_base = default_host_base\<lparr>hb_name := ''nas'', hb_network_id := 1, hb_source := Discovered []\<rparr>\<rparr>"

definition demo_port :: "uuid \<Rightarrow> u16 \<Rightarrow> Port" where
  "demo_port i n = \<lparr>port_id = i, port_created_at = 0, port_updated_at = 0,
     port_base = \<lparr>pb_host_id = 7, pb_network_id = 1, pb_port_type = Custom (port_config n Tcp)\<rparr>\<rparr>"

definition demo_store :: Inventory where
  "demo_store =
     \<lparr>inv_hosts = [(7, demo_stored_host)], inv_interfaces = [],
      inv_ports = [(11, demo_port 11 80), (12, demo_port 12 443)],
      inv_services = [(21, demo_service 21 ''web'' (Discovered []) []), (22, demo_service 22 ''proxy'' Manual [])],
      inv_bindings = [(31, demo_binding 31 21 (PortBinding 11 None))],
      inv_if_entries = [], inv_groups = [], inv_group_bindings = [], inv_tags = [], inv_entity_tags = [],
      inv_daemon_hosts = [], inv_bus = \<lparr>bus_sent = [], subscribers = []\<rparr>, inv_ops = 0\<rparr>"

definition demo_inv_env :: InvEnv where
  \<comment> \<open>a database that refuses nothing\<close>
  "demo_inv_env = \<lparr>ie_now = 9, ie_fresh = (\<lambda>n. if n = 0 then 99 else of_nat (100 + n mod 1000)), ie_answer = (\<lambda>_. None)\<rparr>"

lemma demo_fresh_ids: "\<forall>n. ie_fresh demo_inv_env n \<noteq> uuid_nil"
proof
  fix n :: nat
  have "n mod 1000 < 1000" by simp
  then have "\<not> 2 ^ 128 dvd 100 + n mod 1000"
    using dvd_imp_le [of "2 ^ 128" "100 + n mod 1000"] by auto
  then have "(of_nat (100 + n mod 1000) :: 128 word) \<noteq> 0"
    by (simp add: word_of_nat_eq_0_iff del: of_nat_add)
  then show "ie_fresh demo_inv_env n \<noteq> uuid_nil" by (simp add: demo_inv_env_def uuid_nil_def)
qed

lemma demo_store_tables [simp]: "service_tables_ok demo_store"
  by (simp add: service_tables_ok_def table_ok_def demo_store_def hmap_ok_def hkeys_def demo_service_def demo_binding_def)

lemma demo_store_exclusive [simp]: "exclusive_ports demo_store"
  unfolding exclusive_ports_iff [OF demo_store_tables] by code_simp

lemma ran: "\<not> isl (fst x) \<Longrightarrow> x = (Inr (projr (fst x)), snd x)"
  by (cases x; cases "fst x") auto

text \<open>The handle of the service of unclaimed ports, computed.\<close>

lemma open_ports_base_code [code]:
  "open_ports_base h bs =
     \<lparr>vb_host_id = host_id h, vb_network_id = hb_network_id (host_base h),
      service_definition =
        \<lparr>sd_name = ''Unclaimed Open Ports'',
         sd_description = ''Unclaimed open ports. Reassign to the correct service if known.'',
         sd_category = SC_OpenPorts, sd_is_generic = True, sd_is_gateway = False, sd_logo_url = [],
         sd_raw_socket = False\<rparr>,
      vb_name = ''Unclaimed Open Ports'', bindings = bs, virtualization = None, vb_source = Discovered [],
      vb_tags = [], vb_position = 0\<rparr>"
  by (simp add: open_ports_base_def handle_of_def svc_open_ports_def trait_defaults_def has_raw_socket_endpoint_def)

end
