(* ===== verification/Binding_Claims.thy ===== *)
theory Binding_Claims
  imports Store_Demos
begin

text \<open>
  The properties of a service's bindings: which lists are accepted, what the removal of
  redundant bindings and the merge of a rediscovery preserve, and the exclusive use of ports by
  the services of a host.
\<close>

section \<open>Lists of bindings\<close>

text \<open>C10: The bindings of a service are accepted exactly when no two of them conflict, whatever
  their order: a port bound on all interfaces beside any interface binding, or a port and an
  interface binding of one interface.\<close>

theorem bindings_accepted_iff_free:
  "validate_bindings_no_conflicts bs = Inr () \<longleftrightarrow>
     \<not> (\<exists>a b. a \<in> set bs \<and> b \<in> set bs \<and>
          (\<exists>i p j. binding_type a = InterfaceBinding i \<and> binding_type b = PortBinding p j \<and> (j = None \<or> j = Some i)))"
proof -
  let ?C = "\<lambda>s t. \<exists>i p j. s = InterfaceBinding i \<and> t = PortBinding p j \<and> (j = None \<or> j = Some i)"
  have "types_conflict s t \<longleftrightarrow> ?C s t \<or> ?C t s" for s t
    by (cases s; cases t) auto
  then have "pairwise_free bs \<longleftrightarrow> (\<forall>a \<in> set bs. \<forall>b \<in> set bs. \<not> (?C (binding_type a) (binding_type b) \<or> ?C (binding_type b) (binding_type a)))"
    unfolding pairwise_free_def by presburger
  also have "\<dots> \<longleftrightarrow> \<not> (\<exists>a b. a \<in> set bs \<and> b \<in> set bs \<and> ?C (binding_type a) (binding_type b))" by fast
  finally show ?thesis unfolding no_conflicts_iff .
qed

text \<open>Removing the redundant bindings of an acceptable list leaves a list without
  repetitions and without a port bound both on all interfaces and on one, serves exactly the
  same ports on the same interfaces, and has nothing more to remove.\<close>

theorem deduplicate_normalises:
  assumes "validate_bindings_no_conflicts bs = Inr ()"
  shows "bindings_ok (deduplicate_bindings bs) \<and>
    serves (deduplicate_bindings bs) p i = serves bs p i \<and>
    deduplicate_bindings (deduplicate_bindings bs) = deduplicate_bindings bs"
  using deduplicate_ok deduplicate_serves deduplicate_idem assms by (simp add: no_conflicts_iff)

theorem deduplicate_normalises_witness:
  "bindings_ok (deduplicate_bindings
     [demo_binding 1 9 (PortBinding 5 (Some 6)), demo_binding 2 9 (PortBinding 5 None), demo_binding 3 9 (PortBinding 5 None)])"
  by (rule deduplicate_normalises [THEN conjunct1]) code_simp

text \<open>C11: Merging what a new scan found into a known service keeps its bindings well formed,
  never stops serving a port on an interface, and merging the same finding again changes
  nothing and counts no update.\<close>

theorem rediscovery_merge_stable:
  assumes "bindings_ok es" and "upsert_bindings es bs = (ms, n)"
  shows "bindings_ok ms \<and> (serves es p i \<longrightarrow> serves ms p i) \<and> upsert_bindings ms bs = (ms, 0)"
proof -
  have ms: "ms = fst (foldl upsert_binding (es, 0) bs)" using assms(2) by (simp add: upsert_bindings_def)
  have ok: "bindings_ok ms" unfolding ms by (rule upsert_bindings_ok [OF assms(1)])
  have "\<forall>b \<in> set bs. settled ms b" unfolding ms by (blast intro: settled_all)
  from foldl_settled [OF ok this] have "upsert_bindings ms bs = (ms, 0)" by (simp add: upsert_bindings_def)
  moreover have "serves es p i \<longrightarrow> serves ms p i" unfolding ms by (blast intro: upsert_bindings_serves)
  ultimately show ?thesis using ok by blast
qed

theorem rediscovery_merge_stable_witness:
  "bindings_ok [demo_binding 2 9 (PortBinding 5 None)] \<and>
   upsert_bindings [demo_binding 2 9 (PortBinding 5 None)] [demo_binding 2 9 (PortBinding 5 None), demo_binding 4 9 (PortBinding 5 (Some 6))] =
     ([demo_binding 2 9 (PortBinding 5 None)], 0)"
proof -
  have "bindings_ok [demo_binding 1 9 (PortBinding 5 (Some 6))]"
    by (simp add: bindings_ok_def pairwise_free_def dominated_by_def demo_binding_def binding_type_def bindingbase_new_def)
  moreover have "upsert_bindings [demo_binding 1 9 (PortBinding 5 (Some 6))]
      [demo_binding 2 9 (PortBinding 5 None), demo_binding 4 9 (PortBinding 5 (Some 6))] =
      ([demo_binding 2 9 (PortBinding 5 None)], 2)"
    by code_simp
  ultimately show ?thesis using rediscovery_merge_stable by blast
qed


section \<open>The services of a host\<close>

text \<open>C6: When no two services of a host hold overlapping claims on a port, this still holds
  after every update of a service that goes through, on its old host and on the one it moves
  to.\<close>

theorem service_update_keeps_ports_exclusive:
  assumes "service_update s auth env st = (Inr u, st')" "\<forall>n. ie_fresh env n \<noteq> uuid_nil"
    "service_tables_ok st" "exclusive_ports st"
  shows "exclusive_ports st'"
  using service_update_exclusive [OF assms] by blast

theorem service_update_keeps_ports_exclusive_witness:
  "exclusive_ports (snd (service_update (demo_service 22 ''proxy'' Manual [demo_binding 32 22 (PortBinding 12 None)])
     AuthSystem demo_inv_env demo_store))"
proof -
  have "\<not> isl (fst (service_update (demo_service 22 ''proxy'' Manual [demo_binding 32 22 (PortBinding 12 None)])
      AuthSystem demo_inv_env demo_store))"
    by code_simp
  from service_update_keeps_ports_exclusive [OF ran [OF this] demo_fresh_ids demo_store_tables demo_store_exclusive]
  show ?thesis .
qed

text \<open>C7: The loop that stores the services of a discovered host keeps ports exclusive as
  well: what it stores never claims a port another service of the host has a claim on.\<close>

theorem discovered_services_keep_ports_exclusive:
  assumes "adopt_services (\<lambda>s. reassign_service_interface_bindings s intfs ports h intfs' ports')
      (host_id h) auth [] [] [] ss env st = (Inr res, st')"
    "\<forall>n. ie_fresh env n \<noteq> uuid_nil" "service_tables_ok st" "exclusive_ports st"
    "distinct (map service_id ss)"
    "\<forall>s \<in> set ss. service_id s \<noteq> uuid_nil \<and> service_id s \<notin> set (hkeys (inv_services st))"
  shows "exclusive_ports st'"
  using adopt_services_exclusive [OF assms(1-4) _ _ assms(5,6)]
  by (simp add: reassign_service_interface_bindings_def)

definition demo_found :: "Service list" where
  "demo_found =
     [demo_service 41 ''dns'' (Discovered []) [demo_binding 51 41 (PortBinding 11 None), demo_binding 52 41 (PortBinding 12 None)],
      demo_service 42 ''tls'' (Discovered []) [demo_binding 53 42 (PortBinding 12 None)]]"

theorem discovered_services_keep_ports_exclusive_witness:
  "exclusive_ports (snd (adopt_services
     (\<lambda>s. reassign_service_interface_bindings s [] [demo_port 11 80, demo_port 12 443] demo_stored_host [] [demo_port 11 80, demo_port 12 443])
     (host_id demo_stored_host) AuthSystem [] [] [] demo_found demo_inv_env demo_store))"
proof -
  have "\<not> isl (fst (adopt_services
     (\<lambda>s. reassign_service_interface_bindings s [] [demo_port 11 80, demo_port 12 443] demo_stored_host [] [demo_port 11 80, demo_port 12 443])
     (host_id demo_stored_host) AuthSystem [] [] [] demo_found demo_inv_env demo_store))"
    by code_simp
  note run = ran [OF this]
  show ?thesis
    by (rule discovered_services_keep_ports_exclusive [OF run demo_fresh_ids demo_store_tables demo_store_exclusive])
       (simp_all add: demo_found_def demo_service_def demo_store_def hkeys_def uuid_nil_def)
qed

text \<open>The bindings of a service dropped by that loop are given to the service of unclaimed
  ports without being set aside for the services that follow: a host on which ports were
  exclusive can end with one port claimed twice.\<close>

theorem orphaned_bindings_break_exclusivity:
  "exclusive_ports demo_store \<and>
   (let run = discover_host demo_stored_host [] [demo_port 11 80, demo_port 12 443] demo_found [] AuthSystem None
      demo_inv_env demo_store
    in \<not> isl (fst run) \<and> \<not> exclusive_ports (snd run))"
proof -
  let ?run = "discover_host demo_stored_host [] [demo_port 11 80, demo_port 12 443] demo_found [] AuthSystem None
      demo_inv_env demo_store"
  have checked: "case ?run of (r, st') \<Rightarrow> \<not> isl r \<and> service_tables_ok st' \<and> ports_shared st'"
    by code_simp
  obtain r st' where run: "?run = (r, st')" by (rule prod.exhaust)
  from checked have "\<not> isl r" "service_tables_ok st'" "ports_shared st'" unfolding run by simp_all
  then have "\<not> exclusive_ports st'" by (simp add: exclusive_ports_iff)
  with \<open>\<not> isl r\<close> show ?thesis
    unfolding Let_def run fst_conv snd_conv by (intro conjI demo_store_exclusive)
qed

text \<open>A discovered service is dropped when a stored service of its host, under another id,
  has a claim on one of its ports; the tables stay as they are. This holds for the very service
  that an earlier scan stored, which comes under a new id.\<close>

theorem rediscovered_service_dropped:
  assumes "adopt_services reassign h auth claimed orphaned created [s] env st = (Inr (orphaned', created'), st')"
    "service_tables_ok st" "hget (inv_services st) i = Some r" "vb_host_id (service_base r) = h"
    "i \<noteq> service_id (reassign s)" "c \<in> claims_in (bindings (service_base (reassign s)))" "d \<in> claims_of st i"
    "claims_overlap c d"
  shows "created' = created \<and> inv_services st' = inv_services st \<and> inv_bindings st' = inv_bindings st"
proof -
  obtain valid conflicting st1
    where p: "free_and_claimed h (service_id (reassign s)) (bindings (service_base (reassign s))) claimed env st =
        (Inr (valid, conflicting), st1)"
      and run: "conflicting \<noteq> [] \<Longrightarrow> created' = created \<and> st' = st1"
    using assms(1) by (auto simp: op_success Let_def split: prod.splits if_splits)
  have "conflicting \<noteq> []"
  proof
    assume "conflicting = []"
    with p have "unclaimed st h (service_id (reassign s)) (bindings (service_base (reassign s)))"
      using free_and_claimed_success assms(2) by blast
    with assms(3-8) show False by (auto simp: unclaimed_def disjoint_claims_def)
  qed
  with run readingD [OF readings(8) p] show ?thesis by simp
qed

theorem rediscovered_service_dropped_witness:
  "service_eq (demo_service 43 ''web'' (Discovered []) [demo_binding 55 43 (PortBinding 11 None)])
     (demo_service 21 ''web'' (Discovered []) [demo_binding 31 21 (PortBinding 11 None)]) \<and>
   inv_services (snd (adopt_services (\<lambda>s. s) 7 AuthSystem [] [] []
     [demo_service 43 ''web'' (Discovered []) [demo_binding 55 43 (PortBinding 11 None)]] demo_inv_env demo_store)) =
   inv_services demo_store"
proof -
  let ?s = "demo_service 43 ''web'' (Discovered []) [demo_binding 55 43 (PortBinding 11 None)]"
  let ?run = "adopt_services (\<lambda>s. s) 7 AuthSystem [] [] [] [?s] demo_inv_env demo_store"
  have "\<not> isl (fst ?run)" by code_simp
  then obtain o' c' st' where run: "?run = (Inr (o', c'), st')" using ran by (metis surj_pair)
  have "hget (inv_services demo_store) 21 = Some (demo_service 21 ''web'' (Discovered []) [])"
    by (simp add: demo_store_def hget_def)
  moreover have "(11, None) \<in> claims_in (bindings (service_base ?s))"
    by (simp add: claims_in_def demo_service_def demo_binding_def binding_claim_def binding_type_def bindingbase_new_def)
  moreover have "(11, None) \<in> claims_of demo_store 21"
    by (simp add: claims_of_def demo_store_def hget_def demo_binding_def binding_claim_def binding_type_def bindingbase_new_def)
  ultimately have "inv_services st' = inv_services demo_store"
    using rediscovered_service_dropped [OF run demo_store_tables, of 21 "demo_service 21 ''web'' (Discovered []) []" "(11, None)" "(11, None)"]
    by (simp add: demo_service_def claims_overlap_def)
  moreover have "service_eq ?s (demo_service 21 ''web'' (Discovered []) [demo_binding 31 21 (PortBinding 11 None)])"
    by code_simp
  ultimately show ?thesis by (simp only: run snd_conv simp_thms)
qed

end
