(* ===== verification/Host_Claims.thy ===== *)
theory Host_Claims
  imports Store_Demos
begin

text \<open>
  The properties of the host service: the merge of a rediscovered host, which rows a discovery
  may touch, the refusals, and what an update by a user sees of a discovery.
\<close>

section \<open>The host's row\<close>

lemma fill_Some [simp]: "fill (Some x) y = Some x"
  by (simp add: fill_def)

lemma fill_None [simp]: "fill None y = y"
  by (simp add: fill_def)

lemma update_host_row_success:
  assumes "update_host_row h env st = (Inr u, st')" "hget (inv_hosts st) (host_id h) \<noteq> None"
  shows "inv_hosts st' = hinsert (host_id h) (host_row h) (inv_hosts st)"
  using assms by (auto simp: update_host_row_def op_success)

lemma merged_host_unchanged:
  assumes "\<not> merge_has_updates existing found"
  shows "merged_host existing found = existing"
proof -
  have f: "fill a b = a" if "\<not> fills a b" for a b :: "string option"
    using that by (auto simp: fill_def fills_def)
  have s: "merged_host_source (hb_source (host_base existing)) (hb_source (host_base found)) = hb_source (host_base existing)"
    using assms by (auto simp: merge_has_updates_def Let_def merged_host_source_def split: EntitySource.splits)
  show ?thesis
    using assms by (simp add: merged_host_def merge_has_updates_def Let_def f s)
qed

lemma upsert_host_success:
  assumes run: "upsert_host existing found auth env st = (Inr m, st')"
    and row: "hget (inv_hosts st) (host_id existing) = Some r" "host_row existing = r"
  shows "m = merged_host existing found" "hget (inv_hosts st') (host_id existing) = Some (host_row m)"
    "i \<noteq> host_id existing \<Longrightarrow> hget (inv_hosts st') i = hget (inv_hosts st) i"
proof -
  let ?m = "merged_host existing found"
  have id: "host_id ?m = host_id existing" by (simp add: merged_host_def Let_def)
  have "m = ?m \<and> hget (inv_hosts st') (host_id existing) = Some (host_row m) \<and>
      (i \<noteq> host_id existing \<longrightarrow> hget (inv_hosts st') i = hget (inv_hosts st) i)"
  proof (cases "merge_has_updates existing found")
    case True
    then obtain st1 where u: "update_host_row ?m env st = (Inr (), st1)" and m: "m = ?m"
      and p: "publish_host ?m Updated (host_triggers_staleness ?m (Some existing)) auth env st1 = (Inr (), st')"
      using run by (auto simp: upsert_host_def Let_def bind_op_success ok_op_success)
    have "inv_hosts st' = inv_hosts st1"
      using p by (auto simp: publish_host_def publish_entity_def)
    moreover have "inv_hosts st1 = hinsert (host_id existing) (host_row ?m) (inv_hosts st)"
      using update_host_row_success [OF u] row by (simp add: id)
    ultimately show ?thesis by (simp add: m hget_laws)
  next
    case False
    then have "m = ?m" "st' = st" using run by (auto simp: upsert_host_def Let_def ok_op_success)
    with row merged_host_unchanged [OF False] show ?thesis by simp
  qed
  then show "m = ?m" "hget (inv_hosts st') (host_id existing) = Some (host_row m)"
    "i \<noteq> host_id existing \<Longrightarrow> hget (inv_hosts st') i = hget (inv_hosts st) i" by auto
qed

text \<open>C25: Merging a discovered host into a known one writes one row. It fills the fields that
  were empty, never overwrites a hostname or SNMP field that was set, never touches the name,
  the description, the tags or the visibility, and keeps at most the documented number of
  discovery records when both were discovered.\<close>

theorem upsert_host_fills_gaps:
  assumes "upsert_host existing found auth env st = (Inr m, st')"
    and "hget (inv_hosts st) (host_id existing) = Some (host_row existing)"
  shows "hget (inv_hosts st') (host_id existing) = Some (host_row m) \<and>
    (\<forall>i. i \<noteq> host_id existing \<longrightarrow> hget (inv_hosts st') i = hget (inv_hosts st) i) \<and>
    (\<forall>f \<in> {hostname, sys_descr, sys_object_id, sys_location, sys_contact, management_url, chassis_id}.
       f (host_base m) = (case f (host_base existing) of None \<Rightarrow> f (host_base found) | Some x \<Rightarrow> Some x)) \<and>
    hb_name (host_base m) = hb_name (host_base existing) \<and>
    hb_description (host_base m) = hb_description (host_base existing) \<and>
    hb_tags (host_base m) = hb_tags (host_base existing) \<and> hidden (host_base m) = hidden (host_base existing) \<and>
    (\<forall>ds es. hb_source (host_base existing) = Discovered ds \<and> hb_source (host_base found) = Discovered es \<longrightarrow>
       hb_source (host_base m) = Discovered (take MAX_DISCOVERY_METADATA_ENTRIES (es @ ds)))"
  using upsert_host_success [OF assms(1,2) refl]
  by (auto simp: merged_host_def Let_def merged_host_source_def split: option.splits)

definition demo_rescan :: Host where
  "demo_rescan = demo_stored_host\<lparr>host_base := (host_base demo_stored_host)\<lparr>hb_name := ''nas.local'', hostname := Some ''nas''\<rparr>\<rparr>"

lemma demo_upsert_runs: "\<not> isl (fst (upsert_host demo_stored_host demo_rescan AuthSystem demo_inv_env demo_store))"
  by code_simp

theorem upsert_host_fills_gaps_witness:
  "hostname (host_base (projr (fst (upsert_host demo_stored_host demo_rescan AuthSystem demo_inv_env demo_store)))) = Some ''nas''"
proof -
  let ?m = "projr (fst (upsert_host demo_stored_host demo_rescan AuthSystem demo_inv_env demo_store))"
  have "hget (inv_hosts demo_store) (host_id demo_stored_host) = Some (host_row demo_stored_host)"
    by (simp add: demo_store_def demo_stored_host_def host_row_def hget_def default_host_base_def)
  from upsert_host_fills_gaps [OF ran [OF demo_upsert_runs] this]
  have "hostname (host_base ?m) = (case hostname (host_base demo_stored_host) of None \<Rightarrow> hostname (host_base demo_rescan) | Some x \<Rightarrow> Some x)"
    by blast
  then show ?thesis by (simp add: demo_stored_host_def demo_rescan_def default_host_base_def)
qed

section \<open>Updates by users and discoveries\<close>

text \<open>The check for concurrent changes does not see discoveries: after a discovery has
  merged new data into a host, a request that was prepared before it and names the old time of
  change is handled exactly as one that asks for no check.\<close>

theorem discovery_escapes_optimistic_lock:
  assumes "upsert_host existing found auth env st = (Inr m, st1)"
    and "hget (inv_hosts st) (host_id existing) = Some (host_row existing)"
    and "ur_id r = host_id existing" and "expected_updated_at r = Some (host_updated_at existing)"
  shows "update_from_request r auth' env' st1 = update_from_request (r\<lparr>expected_updated_at := None\<rparr>) auth' env' st1"
proof -
  have row: "hget (inv_hosts st1) (ur_id r) = Some (host_row m)" "host_updated_at m = host_updated_at existing"
    using upsert_host_success [OF assms(1,2) refl] assms(3) by (simp_all add: merged_host_def Let_def)
  have "host_updated_at h = host_updated_at existing" if "host_get_by_id (ur_id r) env' st1 = (Inr (Some h), st2)" for h st2
    using that row by (auto simp: host_get_by_id_def op_success host_with_tags_def host_row_def)
  then show ?thesis
    using assms(4)
    by (auto simp: update_from_request_def bind_op_def now_op_def ok_op_def Let_def requested_host_def
        split: prod.splits sum.splits option.splits)
qed


definition demo_edit :: UpdateHostRequest where
  "demo_edit =
     \<lparr>ur_id = 7, ur_name = ''nas'', ur_hostname = None, ur_description = Some ''basement'', ur_virtualization = None,
      ur_hidden = False, ur_tags = [], expected_updated_at = Some 5, ur_interfaces = None, ur_ports = None,
      ur_services = None\<rparr>"

definition demo_merged_store :: Inventory where
  "demo_merged_store = snd (upsert_host demo_stored_host demo_rescan AuthSystem demo_inv_env demo_store)"

lemma demo_merged_store_hostname: "map_option (\<lambda>h. hostname (host_base h)) (hget (inv_hosts demo_merged_store) 7) = Some (Some ''nas'')"
  unfolding demo_merged_store_def by code_simp

theorem discovery_escapes_optimistic_lock_witness:
  "map_option (\<lambda>h. hostname (host_base h)) (hget (inv_hosts demo_merged_store) 7) = Some (Some ''nas'') \<and>
   update_from_request demo_edit AuthSystem demo_inv_env demo_merged_store =
     update_from_request (demo_edit\<lparr>expected_updated_at := None\<rparr>) AuthSystem demo_inv_env demo_merged_store"
proof -
  have row: "hget (inv_hosts demo_store) (host_id demo_stored_host) = Some (host_row demo_stored_host)"
    by (simp add: demo_store_def demo_stored_host_def host_row_def hget_def default_host_base_def)
  have request: "ur_id demo_edit = host_id demo_stored_host"
      "expected_updated_at demo_edit = Some (host_updated_at demo_stored_host)"
    by (simp_all add: demo_edit_def demo_stored_host_def)
  from discovery_escapes_optimistic_lock [OF ran [OF demo_upsert_runs] row request]
  have "update_from_request demo_edit AuthSystem demo_inv_env demo_merged_store =
      update_from_request (demo_edit\<lparr>expected_updated_at := None\<rparr>) AuthSystem demo_inv_env demo_merged_store"
    by (simp only: demo_merged_store_def)
  with demo_merged_store_hostname show ?thesis by simp
qed

lemma query_run:
  "query f env st =
     (case ie_answer env (inv_ops st) of
        Some e \<Rightarrow> (Inl (OtherError e), st\<lparr>inv_ops := Suc (inv_ops st)\<rparr>)
      | None \<Rightarrow> (Inr (f (st\<lparr>inv_ops := Suc (inv_ops st)\<rparr>)), st\<lparr>inv_ops := Suc (inv_ops st)\<rparr>))"
  by (simp add: query_def statement_def Let_def split: option.split)

lemma host_get_by_id_run:
  assumes "hget (inv_hosts st) i = Some h"
  shows "(\<exists>e n. host_get_by_id i env st = (Inl e, st\<lparr>inv_ops := n\<rparr>)) \<or>
    (\<exists>n. host_get_by_id i env st = (Inr (Some (host_with_tags st h)), st\<lparr>inv_ops := n\<rparr>))"
proof (cases "ie_answer env (inv_ops st)")
  case (Some e)
  then show ?thesis by (auto simp: host_get_by_id_def bind_op_def query_run)
next
  case None
  with assms show ?thesis
    by (cases "ie_answer env (Suc (inv_ops st))")
       (auto simp: host_get_by_id_def bind_op_def query_run ok_op_def host_with_tags_def tags_of_def)
qed

text \<open>C26: A request that names another time of change than the host's row, in microseconds, is
  refused with the message that tells both times, unless the database refuses to read the host,
  and changes no row of any table. A time within the same microsecond is not another one: such a
  request does exactly what one without a time does.\<close>

theorem stale_request_refused:
  assumes "hget (inv_hosts st) (ur_id r) = Some h" and "expected_updated_at r = Some t"
  shows "if timestamp_micros t \<noteq> timestamp_micros (host_updated_at h)
    then \<exists>e n. update_from_request r auth env st = (Inl e, st\<lparr>inv_ops := n\<rparr>) \<and>
      (e = stale_update_error t (host_updated_at h) \<or> fst (host_get_by_id (ur_id r) env st) = Inl e)
    else update_from_request r auth env st = update_from_request (r\<lparr>expected_updated_at := None\<rparr>) auth env st"
proof (rule disjE [OF host_get_by_id_run [OF assms(1), of env]]; elim exE)
  fix e n assume "host_get_by_id (ur_id r) env st = (Inl e, st\<lparr>inv_ops := n\<rparr>)"
  then show ?thesis by (auto simp: update_from_request_def bind_op_def now_op_def)
next
  fix n assume "host_get_by_id (ur_id r) env st = (Inr (Some (host_with_tags st h)), st\<lparr>inv_ops := n\<rparr>)"
  moreover have "host_updated_at (host_with_tags st h) = host_updated_at h" by (simp add: host_with_tags_def)
  moreover have "requested_host now (r\<lparr>expected_updated_at := None\<rparr>) e = requested_host now r e" for now e
    by (simp add: requested_host_def)
  ultimately show ?thesis
    using assms(2) by (auto simp: update_from_request_def bind_op_def now_op_def err_op_def ok_op_def Let_def)
qed

theorem stale_request_refused_witness:
  "isl (fst (update_from_request (demo_edit\<lparr>expected_updated_at := Some 4000\<rparr>) AuthSystem demo_inv_env demo_store))"
proof -
  have h: "hget (inv_hosts demo_store) (ur_id (demo_edit\<lparr>expected_updated_at := Some 4000\<rparr>)) = Some demo_stored_host"
    by (simp add: demo_edit_def demo_store_def hget_def)
  have "timestamp_micros 4000 \<noteq> timestamp_micros (host_updated_at demo_stored_host)"
    by (simp add: demo_stored_host_def timestamp_micros_def)
  with stale_request_refused [OF h, of 4000 AuthSystem demo_inv_env] show ?thesis by force
qed

lemma keeps_sync_child:
  "(\<And>e. keeps f (create e auth)) \<Longrightarrow> (\<And>e. keeps f (update e auth)) \<Longrightarrow>
   keeps f (sync_child create update key keep existing auth e)"
  unfolding sync_child_def by (intro keeps_intros)

lemma keeps_sync_given [keeps_intros]: "(\<And>xs. keeps f (g xs)) \<Longrightarrow> keeps f (sync_given g r)"
  unfolding sync_given_def by (intro keeps_intros)

lemma undeleted_host_tags [simp]:
  "undeleted (\<lambda>st. tags_of st D_Host i) interface_crud" "undeleted (\<lambda>st. tags_of st D_Host i) port_crud"
  by (simp_all add: undeleted_def interface_crud_def port_crud_def delete_interfaces_def delete_ports_def
      delete_bindings_def tags_of_def)

text \<open>The tags of a host cannot be cleared: a request with an empty list of tags leaves the
  stored tags as they are, however it ends.\<close>

theorem clearing_tags_has_no_effect:
  assumes "ur_tags r = []"
  shows "tags_of (snd (update_from_request r auth env st)) D_Host i = tags_of st D_Host i"
proof -
  have "keeps (\<lambda>st. tags_of st D_Host i) (update_from_request r auth)"
    unfolding update_from_request_def sync_interfaces_def sync_ports_def sync_services_def Let_def assms
      services_get_for_parent_def
    by (intro keeps_intros keeps_sync_child keeps_entity_create keeps_entity_update keeps_entity_delete_many) simp_all
  then show ?thesis by (rule keepsD)
qed

definition demo_tagged :: Inventory where
  "demo_tagged = demo_store\<lparr>inv_entity_tags := [((7, D_Host), [61])]\<rparr>"

theorem clearing_tags_has_no_effect_witness:
  "tags_of (snd (update_from_request demo_edit AuthSystem demo_inv_env demo_tagged)) D_Host 7 = [61]"
proof -
  have "tags_of (snd (update_from_request demo_edit AuthSystem demo_inv_env demo_tagged)) D_Host 7 = tags_of demo_tagged D_Host 7"
    by (rule clearing_tags_has_no_effect) (simp add: demo_edit_def)
  also have "\<dots> = [61]" by (simp add: demo_tagged_def tags_of_def hget_def)
  finally show ?thesis .
qed

end
