(* ===== verification/Topology_Types.thy ===== *)
theory Topology_Types
  imports Inventory Subnets
begin

text \<open>
  The types of the topology (\<open>server/topology/types\<close>): pixel coordinates and sizes, layouts, the
  nodes and edges of the graph, the order of the subnet types, the options of a request and the
  stored topology. \<open>isize\<close> is \<open>int\<close> and \<open>usize\<close> is \<open>nat\<close>: coordinates are pixels, far from the
  bounds of 64 bits; the cast from a negative coordinate to a size wraps and is written out.
\<close>

section \<open>Coordinates\<close>

record Uxy =
  ux :: nat
  uy :: nat

record Ixy =
  ix :: int
  iy :: int

definition ixy :: "int \<Rightarrow> int \<Rightarrow> Ixy" where
  "ixy x y = \<lparr>ix = x, iy = y\<rparr>"

definition uxy :: "nat \<Rightarrow> nat \<Rightarrow> Uxy" where
  "uxy x y = \<lparr>ux = x, uy = y\<rparr>"

lemma ixy_sel [simp]: "ix (ixy x y) = x" "iy (ixy x y) = y"
  by (simp_all add: ixy_def)

lemma uxy_sel [simp]: "ux (uxy x y) = x" "uy (uxy x y) = y"
  by (simp_all add: uxy_def)

definition as_usize :: "int \<Rightarrow> nat" where
  "as_usize i = nat (i mod 2 ^ 64)"

lemma as_usize_id [simp]: "0 \<le> i \<Longrightarrow> i < 2 ^ 64 \<Longrightarrow> as_usize i = nat i"
  by (simp add: as_usize_def)

definition SUBNET_PADDING :: Uxy where
  "SUBNET_PADDING = uxy 125 125"

definition NODE_PADDING :: Uxy where
  "NODE_PADDING = uxy 50 50"

definition SUBNET_CHILD_HEADER_HEIGHT :: nat where "SUBNET_CHILD_HEADER_HEIGHT = 25"
definition SUBNET_CHILD_FOOTER_HEIGHT :: nat where "SUBNET_CHILD_FOOTER_HEIGHT = 25"
definition HEIGHT_PER_SERVICE_IN_SUBNET_CHILD :: nat where "HEIGHT_PER_SERVICE_IN_SUBNET_CHILD = 50"
definition SUBNET_CHILD_WIDTH :: nat where "SUBNET_CHILD_WIDTH = 250"

definition default_subnet_child_size :: Uxy where
  "default_subnet_child_size =
     uxy SUBNET_CHILD_WIDTH (HEIGHT_PER_SERVICE_IN_SUBNET_CHILD + SUBNET_CHILD_FOOTER_HEIGHT)"

definition subnet_child_size_from_service_count :: "Service list \<Rightarrow> uuid \<Rightarrow> bool \<Rightarrow> bool \<Rightarrow> Uxy" where
  "subnet_child_size_from_service_count ss i has_header hide =
     (let height = \<lambda>s.
        (let with_ports = length (filter (\<lambda>b.
               (case binding_interface_id b of Some k \<Rightarrow> k = i | None \<Rightarrow> True) \<and> binding_port_id b \<noteq> None)
             (bindings (service_base s)))
         in HEIGHT_PER_SERVICE_IN_SUBNET_CHILD + (if hide \<and> with_ports > 0 then 0 else 25))
      in uxy SUBNET_CHILD_WIDTH
           (sum_list (map height ss) + SUBNET_CHILD_FOOTER_HEIGHT +
            (if has_header then SUBNET_CHILD_HEADER_HEIGHT else 0)))"

record NodeLayout =
  nl_size :: Uxy
  nl_position :: Ixy

record SubnetLayout =
  sl_size :: Uxy
  sl_infra_width :: nat

record NodeBounds =
  bx :: int
  bw :: nat
  bt :: int
  bh :: nat

definition node_bounds_new :: "Ixy \<Rightarrow> Uxy \<Rightarrow> NodeBounds" where
  "node_bounds_new p s = \<lparr>bx = ix p, bw = ux s, bt = iy p, bh = uy s\<rparr>"

definition bounds_right :: "NodeBounds \<Rightarrow> int" where
  "bounds_right b = bx b + int (bw b)"

definition bounds_bottom :: "NodeBounds \<Rightarrow> int" where
  "bounds_bottom b = bt b + int (bh b)"

definition bounds_overlaps :: "NodeBounds \<Rightarrow> NodeBounds \<Rightarrow> bool" where
  "bounds_overlaps a b \<longleftrightarrow>
     \<not> (bounds_right a + int (ux NODE_PADDING) \<le> bx b \<or> bx a \<ge> bounds_right b + int (ux NODE_PADDING) \<or>
        bounds_bottom a + int (uy NODE_PADDING) \<le> bt b \<or> bt a \<ge> bounds_bottom b + int (uy NODE_PADDING))"

definition resolve_overlap :: "NodeBounds \<Rightarrow> NodeBounds \<Rightarrow> int \<times> int" where
  "resolve_overlap a b =
     (if \<not> bounds_overlaps a b then (0, 0)
      else let left = bounds_right b - bx a; right = bounds_right a - bx b;
               top = bounds_bottom b - bt a; bottom = bounds_bottom a - bt b
           in if min left right < min top bottom
              then (if left < right then (- (left + int (ux NODE_PADDING)), 0)
                    else (right + int (ux NODE_PADDING), 0))
              else (if top < bottom then (0, - (top + int (uy NODE_PADDING)))
                    else (0, bottom + int (uy NODE_PADDING))))"

section \<open>Edges\<close>

datatype DiscoveryProtocol = P_LLDP | P_CDP

datatype EdgeHandle = Top | Bottom | LeftH | RightH

fun layout_priority :: "EdgeHandle \<Rightarrow> nat" where
  "layout_priority Top = 0"
| "layout_priority Bottom = 1"
| "layout_priority LeftH = 2"
| "layout_priority RightH = 3"

fun handle_direction :: "EdgeHandle \<Rightarrow> Ixy" where
  "handle_direction Top = ixy 0 1"
| "handle_direction Bottom = ixy 0 (-1)"
| "handle_direction LeftH = ixy (-1) 0"
| "handle_direction RightH = ixy 1 0"

definition is_horizontal :: "EdgeHandle \<Rightarrow> bool" where
  "is_horizontal h \<longleftrightarrow> h = LeftH \<or> h = RightH"

definition is_vertical :: "EdgeHandle \<Rightarrow> bool" where
  "is_vertical h \<longleftrightarrow> h = Top \<or> h = Bottom"

datatype EdgeType =
    InterfaceEdge uuid
  | HostVirtualizationEdge uuid
  | ServiceVirtualizationEdge uuid uuid
  | RequestPathEdge uuid uuid uuid
  | HubAndSpokeEdge uuid uuid uuid
  | PhysicalLink uuid uuid DiscoveryProtocol

datatype EdgeTypeDiscriminants =
    ET_Interface | ET_HostVirtualization | ET_ServiceVirtualization | ET_RequestPath | ET_HubAndSpoke
  | ET_PhysicalLink

fun edge_discriminant :: "EdgeType \<Rightarrow> EdgeTypeDiscriminants" where
  "edge_discriminant (InterfaceEdge _) = ET_Interface"
| "edge_discriminant (HostVirtualizationEdge _) = ET_HostVirtualization"
| "edge_discriminant (ServiceVirtualizationEdge _ _) = ET_ServiceVirtualization"
| "edge_discriminant (RequestPathEdge _ _ _) = ET_RequestPath"
| "edge_discriminant (HubAndSpokeEdge _ _ _) = ET_HubAndSpoke"
| "edge_discriminant (PhysicalLink _ _ _) = ET_PhysicalLink"

record Edge =
  ed_id :: uuid
  ed_source :: uuid
  ed_target :: uuid
  ed_type :: EdgeType
  ed_label :: "string option"
  source_handle :: EdgeHandle
  target_handle :: EdgeHandle
  is_multi_hop :: bool

fun edge_style_name :: "EdgeStyle \<Rightarrow> string" where
  "edge_style_name Straight = ''Straight''"
| "edge_style_name SmoothStep = ''SmoothStep''"
| "edge_style_name StepEdge = ''Step''"
| "edge_style_name Bezier = ''Bezier''"
| "edge_style_name SimpleBezier = ''SimpleBezier''"

definition edge_metadata :: "EdgeType \<Rightarrow> Json" where
  "edge_metadata t =
     (let d = edge_discriminant t;
          group = (d = ET_RequestPath \<or> d = ET_HubAndSpoke) in
      JObj
        [(''is_dashed'', JBool (d = ET_Interface \<or> d = ET_HostVirtualization \<or> d = ET_ServiceVirtualization)),
         (''has_start_marker'', JBool False),
         (''has_end_marker'', JBool group),
         (''edge_style'', JStr (edge_style_name (if d = ET_HostVirtualization then Straight else SmoothStep))),
         (''is_host_edge'', JBool (d = ET_Interface \<or> d = ET_ServiceVirtualization)),
         (''is_group_edge'', JBool group),
         (''is_physical_edge'', JBool (d = ET_PhysicalLink))])"

section \<open>Nodes\<close>

datatype NodeType =
    SubnetNode nat
  | InterfaceNode (in_subnet: uuid) (in_host: uuid) (in_interface: "uuid option") (in_infra: bool)

definition is_subnet_node :: "NodeType \<Rightarrow> bool" where
  "is_subnet_node t \<longleftrightarrow> (case t of SubnetNode _ \<Rightarrow> True | _ \<Rightarrow> False)"

record Node =
  nd_id :: uuid
  nd_type :: NodeType
  nd_position :: Ixy
  nd_size :: Uxy
  nd_header :: "string option"

record SubnetChild =
  sc_id :: uuid
  sc_header :: "string option"
  sc_host_id :: uuid
  sc_interface_id :: "uuid option"
  sc_size :: Uxy
  sc_edges :: "Edge list"

fun vertical_order :: "SubnetType \<Rightarrow> nat" where
  "vertical_order ST_Internet = 0"
| "vertical_order ST_Remote = 0"
| "vertical_order ST_Gateway = 1"
| "vertical_order ST_Dmz = 1"
| "vertical_order ST_VpnTunnel = 1"
| "vertical_order ST_Lan = 2"
| "vertical_order ST_WiFi = 2"
| "vertical_order ST_Guest = 2"
| "vertical_order ST_IoT = 2"
| "vertical_order ST_DockerBridge = 3"
| "vertical_order ST_MacVlan = 3"
| "vertical_order ST_IpVlan = 3"
| "vertical_order ST_Management = 3"
| "vertical_order ST_Storage = 3"
| "vertical_order ST_Unknown = 999"
| "vertical_order ST_None = 999"

fun horizontal_order :: "SubnetType \<Rightarrow> nat" where
  "horizontal_order ST_Internet = 0"
| "horizontal_order ST_Remote = 1"
| "horizontal_order ST_Gateway = 0"
| "horizontal_order ST_Dmz = 1"
| "horizontal_order ST_VpnTunnel = 2"
| "horizontal_order ST_Lan = 0"
| "horizontal_order ST_WiFi = 1"
| "horizontal_order ST_IoT = 2"
| "horizontal_order ST_Guest = 3"
| "horizontal_order ST_Storage = 0"
| "horizontal_order ST_Management = 1"
| "horizontal_order ST_DockerBridge = 2"
| "horizontal_order ST_MacVlan = 3"
| "horizontal_order ST_IpVlan = 4"
| "horizontal_order ST_Unknown = 999"
| "horizontal_order ST_None = 999"

section \<open>The handles of an edge between two subnets\<close>

definition choose_side_handles_for_multi_hop :: "bool \<Rightarrow> bool \<Rightarrow> EdgeHandle \<times> EdgeHandle" where
  "choose_side_handles_for_multi_hop source_infra target_infra =
     (if \<not> source_infra \<and> \<not> target_infra then (LeftH, LeftH)
      else if source_infra \<and> target_infra then (RightH, RightH)
      else (if source_infra then Bottom else LeftH, if target_infra then Bottom else LeftH))"

definition from_same_subnet :: "bool \<Rightarrow> bool \<Rightarrow> EdgeHandle \<times> EdgeHandle" where
  "from_same_subnet source_infra target_infra = (Top, Top)"

definition from_subnet_layers ::
    "'c Subnet \<Rightarrow> 'c Subnet \<Rightarrow> bool \<Rightarrow> bool \<Rightarrow> bool \<Rightarrow> EdgeHandle \<times> EdgeHandle" where
  "from_subnet_layers s t source_infra target_infra multi_hop =
     (if subnet_id s = subnet_id t then from_same_subnet source_infra target_infra
      else
        let sv = vertical_order (sb_subnet_type (subnet_base s));
            sh = horizontal_order (sb_subnet_type (subnet_base s));
            tv = vertical_order (sb_subnet_type (subnet_base t));
            th = horizontal_order (sb_subnet_type (subnet_base t))
        in if sv < tv then
             (if multi_hop then choose_side_handles_for_multi_hop source_infra target_infra else (Bottom, Top))
           else if sv > tv then
             (if multi_hop then choose_side_handles_for_multi_hop source_infra target_infra else (Top, Bottom))
           else if sh < th then
             (if source_infra then Bottom else RightH, if target_infra then Bottom else LeftH)
           else if sh > th then
             (if source_infra then Bottom else LeftH, if target_infra then Bottom else RightH)
           else
             (if source_infra then Bottom else RightH, if target_infra then Bottom else LeftH))"

section \<open>Options\<close>

record TopologyTagFilter =
  hidden_host_tag_ids :: "uuid list"
  hidden_service_tag_ids :: "uuid list"
  hidden_subnet_tag_ids :: "uuid list"

record TopologyLocalOptions =
  left_zone_title :: string
  no_fade_edges :: bool
  hide_resize_handles :: bool
  hide_edge_types :: "EdgeTypeDiscriminants list"
  tag_filter :: TopologyTagFilter

record TopologyRequestOptions =
  group_docker_bridges_by_host :: bool
  hide_vm_title_on_docker_container :: bool
  hide_ports :: bool
  left_zone_service_categories :: "ServiceCategory list"
  hide_service_categories :: "ServiceCategory list"
  show_gateway_in_left_zone :: bool

record TopologyOptions =
  local_options :: TopologyLocalOptions
  request_options :: TopologyRequestOptions

definition default_local_options :: TopologyLocalOptions where
  "default_local_options =
     \<lparr>left_zone_title = ''Infrastructure'', no_fade_edges = False, hide_resize_handles = False,
      hide_edge_types = [ET_HostVirtualization],
      tag_filter = \<lparr>hidden_host_tag_ids = [], hidden_service_tag_ids = [], hidden_subnet_tag_ids = []\<rparr>\<rparr>"

definition default_request_options :: TopologyRequestOptions where
  "default_request_options =
     \<lparr>group_docker_bridges_by_host = True, hide_vm_title_on_docker_container = False, hide_ports = False,
      left_zone_service_categories = [SC_DNS, SC_ReverseProxy], hide_service_categories = [SC_OpenPorts],
      show_gateway_in_left_zone = True\<rparr>"

definition default_topology_options :: TopologyOptions where
  "default_topology_options = \<lparr>local_options = default_local_options, request_options = default_request_options\<rparr>"

end
