(* ===== verification/Topology_Context.thy ===== *)
theory Topology_Context
  imports Topology_Types
begin

text \<open>
  What the builders of the topology ask about the entities of a network
  (\<open>server/topology/service/context.rs\<close>). One definition per method, in its order.
\<close>

record 'c TopologyContext =
  tc_hosts :: "Host list"
  tc_interfaces :: "Interface list"
  tc_subnets :: "'c Subnet list"
  tc_services :: "Service list"
  tc_groups :: "Group list"
  tc_ports :: "Port list"
  tc_bindings :: "Binding list"
  tc_if_entries :: "IfEntry list"
  tc_options :: TopologyOptions

section \<open>Data access\<close>

definition ctx_subnet :: "'c TopologyContext \<Rightarrow> uuid \<Rightarrow> 'c Subnet option" where
  "ctx_subnet ctx i = find (\<lambda>s. subnet_id s = i) (tc_subnets ctx)"

definition ctx_host :: "'c TopologyContext \<Rightarrow> uuid \<Rightarrow> Host option" where
  "ctx_host ctx i = find (\<lambda>h. host_id h = i) (tc_hosts ctx)"

definition ctx_service :: "'c TopologyContext \<Rightarrow> uuid \<Rightarrow> Service option" where
  "ctx_service ctx i = find (\<lambda>s. service_id s = i) (tc_services ctx)"

definition ctx_interface :: "'c TopologyContext \<Rightarrow> uuid option \<Rightarrow> Interface option" where
  "ctx_interface ctx i = Option.bind i (\<lambda>k. find (\<lambda>x. interface_id x = k) (tc_interfaces ctx))"

definition ctx_interfaces_for_host :: "'c TopologyContext \<Rightarrow> uuid \<Rightarrow> Interface list" where
  "ctx_interfaces_for_host ctx h = filter (\<lambda>i. ib_host_id (interface_base i) = h) (tc_interfaces ctx)"

definition ctx_services_for_host :: "'c TopologyContext \<Rightarrow> uuid \<Rightarrow> Service list" where
  "ctx_services_for_host ctx h = filter (\<lambda>s. vb_host_id (service_base s) = h) (tc_services ctx)"

definition first_non_docker_bridge_interface :: "'c TopologyContext \<Rightarrow> uuid \<Rightarrow> Interface option" where
  "first_non_docker_bridge_interface ctx h =
     find (\<lambda>i. ib_host_id (interface_base i) = h \<and>
             (case ctx_subnet ctx (ib_subnet_id (interface_base i)) of
                Some s \<Rightarrow> \<not> is_docker_bridge (sb_subnet_type (subnet_base s))
              | None \<Rightarrow> False)) (tc_interfaces ctx)"

definition services_bound_to_interface :: "'c TopologyContext \<Rightarrow> uuid \<Rightarrow> Service list" where
  "services_bound_to_interface ctx i =
     filter (\<lambda>s. list_ex (\<lambda>b. b = Some i) (to_bound_interface_ids s)) (tc_services ctx)"

definition subnet_from_interface_id :: "'c TopologyContext \<Rightarrow> uuid \<Rightarrow> 'c Subnet option" where
  "subnet_from_interface_id ctx i =
     Option.bind (find (\<lambda>x. interface_id x = i) (tc_interfaces ctx))
       (\<lambda>x. ctx_subnet ctx (ib_subnet_id (interface_base x)))"

definition host_from_interface_id :: "'c TopologyContext \<Rightarrow> uuid \<Rightarrow> Host option" where
  "host_from_interface_id ctx i =
     Option.bind (find (\<lambda>x. interface_id x = i) (tc_interfaces ctx))
       (\<lambda>x. ctx_host ctx (ib_host_id (interface_base x)))"

section \<open>Interface entries\<close>

definition ctx_if_entry :: "'c TopologyContext \<Rightarrow> uuid \<Rightarrow> IfEntry option" where
  "ctx_if_entry ctx i = find (\<lambda>e. if_entry_id e = i) (tc_if_entries ctx)"

definition resolve_interface_for_if_entry :: "'c TopologyContext \<Rightarrow> IfEntry \<Rightarrow> uuid option" where
  "resolve_interface_for_if_entry ctx e =
     (case fb_interface_id (if_entry_base e) of
        Some i \<Rightarrow> Some i
      | None \<Rightarrow>
          (case ctx_interfaces_for_host ctx (fb_host_id (if_entry_base e)) of
             [i] \<Rightarrow> Some (interface_id i)
           | _ \<Rightarrow> None))"

definition ctx_if_entries_for_host :: "'c TopologyContext \<Rightarrow> uuid \<Rightarrow> IfEntry list" where
  "ctx_if_entries_for_host ctx h = filter (\<lambda>e. fb_host_id (if_entry_base e) = h) (tc_if_entries ctx)"

definition if_entries_with_neighbor :: "'c TopologyContext \<Rightarrow> IfEntry list" where
  "if_entries_with_neighbor ctx =
     filter (\<lambda>e. case neighbor (if_entry_base e) of Some (NeighborIfEntry _) \<Rightarrow> True | _ \<Rightarrow> False) (tc_if_entries ctx)"

section \<open>Virtualization\<close>

definition host_is_virtualized_by :: "'c TopologyContext \<Rightarrow> uuid \<Rightarrow> Service option" where
  "host_is_virtualized_by ctx i =
     (case ctx_host ctx i of
        Some h \<Rightarrow>
          (case hb_virtualization (host_base h) of
             Some (Proxmox p) \<Rightarrow> find (\<lambda>s. service_id s = pv_service_id p) (tc_services ctx)
           | None \<Rightarrow> None)
      | None \<Rightarrow> None)"

definition service_is_containerized_by :: "'c TopologyContext \<Rightarrow> uuid \<Rightarrow> Service option" where
  "service_is_containerized_by ctx i =
     (case ctx_service ctx i of
        Some s \<Rightarrow>
          (case virtualization (service_base s) of
             Some (DockerVirt d) \<Rightarrow> find (\<lambda>t. service_id t = dv_service_id d) (tc_services ctx)
           | None \<Rightarrow> None)
      | None \<Rightarrow> None)"

definition node_subnet :: "uuid \<Rightarrow> Node list \<Rightarrow> uuid option" where
  "node_subnet i nodes =
     map_option (\<lambda>n. case nd_type n of InterfaceNode s _ _ _ \<Rightarrow> s | SubnetNode _ \<Rightarrow> nd_id n)
       (find (\<lambda>n. nd_id n = i) nodes)"

section \<open>The infrastructure zone\<close>

definition is_infra_service :: "'c TopologyContext \<Rightarrow> 'c Subnet \<Rightarrow> Service \<Rightarrow> bool" where
  "is_infra_service ctx subnet s \<longleftrightarrow>
     (case find (\<lambda>h. host_id h = vb_host_id (service_base s)) (tc_hosts ctx) of
        Some h \<Rightarrow>
          (sd_category (service_definition (service_base s)) \<in> set (left_zone_service_categories (request_options (tc_options ctx))) \<or>
           show_gateway_in_left_zone (request_options (tc_options ctx)) \<and> sd_is_gateway (service_definition (service_base s))) \<and>
          has_interface_with_service subnet (ctx_interfaces_for_host ctx (host_id h)) s
      | None \<Rightarrow> False)"

definition interfaces_with_infra_service :: "'c TopologyContext \<Rightarrow> 'c Subnet \<Rightarrow> uuid option list" where
  "interfaces_with_infra_service ctx subnet =
     concat (map to_bound_interface_ids (filter (is_infra_service ctx subnet) (tc_services ctx)))"

definition is_interface_infra :: "'c TopologyContext \<Rightarrow> uuid \<Rightarrow> bool" where
  "is_interface_infra ctx i \<longleftrightarrow>
     (case subnet_from_interface_id ctx i of
        Some subnet \<Rightarrow> Some i \<in> set (interfaces_with_infra_service ctx subnet)
      | None \<Rightarrow> False)"

definition subnet_has_mixed_infra :: "'c TopologyContext \<Rightarrow> 'c Subnet \<Rightarrow> bool" where
  "subnet_has_mixed_infra ctx subnet \<longleftrightarrow>
     (let infra = interfaces_with_infra_service ctx subnet;
          all = map interface_id (filter (\<lambda>i. ib_subnet_id (interface_base i) = subnet_id subnet) (tc_interfaces ctx))
      in all \<noteq> [] \<and> list_ex (\<lambda>i. Some i \<in> set infra) all \<and> list_ex (\<lambda>i. Some i \<notin> set infra) all)"

section \<open>Edges and nodes\<close>

definition edge_is_intra_subnet :: "'c TopologyContext \<Rightarrow> Edge \<Rightarrow> bool" where
  "edge_is_intra_subnet ctx e \<longleftrightarrow>
     (case (subnet_from_interface_id ctx (ed_source e), subnet_from_interface_id ctx (ed_target e)) of
        (Some s, Some t) \<Rightarrow> subnet_id s = subnet_id t
      | _ \<Rightarrow> False)"

definition edge_is_multi_hop :: "'c TopologyContext \<Rightarrow> uuid \<Rightarrow> uuid \<Rightarrow> bool" where
  "edge_is_multi_hop ctx i j \<longleftrightarrow>
     (case (subnet_from_interface_id ctx i, subnet_from_interface_id ctx j) of
        (Some s, Some t) \<Rightarrow>
          \<bar>int (vertical_order (sb_subnet_type (subnet_base s))) - int (vertical_order (sb_subnet_type (subnet_base t)))\<bar> > 1
      | _ \<Rightarrow> False)"

definition interface_will_have_node :: "'c TopologyContext \<Rightarrow> uuid \<Rightarrow> bool" where
  "interface_will_have_node ctx i \<longleftrightarrow> services_bound_to_interface ctx i \<noteq> []"

definition service_will_have_node :: "'c TopologyContext \<Rightarrow> uuid \<Rightarrow> bool" where
  "service_will_have_node ctx i \<longleftrightarrow>
     (case ctx_service ctx i of Some s \<Rightarrow> bindings (service_base s) \<noteq> [] | None \<Rightarrow> True)"

section \<open>Facts\<close>

lemma interface_will_have_node_iff:
  "interface_will_have_node ctx i \<longleftrightarrow>
     (\<exists>s \<in> set (tc_services ctx). \<exists>b \<in> set (bindings (service_base s)). binding_interface_id b = Some i)"
  by (auto simp: interface_will_have_node_def services_bound_to_interface_def filter_empty_conv
      list_ex_iff to_bound_interface_ids_def image_iff eq_commute [of "Some i"])

lemma edge_is_multi_hop_sym: "edge_is_multi_hop ctx i j \<longleftrightarrow> edge_is_multi_hop ctx j i"
  by (auto simp: edge_is_multi_hop_def abs_minus_commute split: option.splits)

end
