(* ===== verification/Floats.thy ===== *)
theory Floats
  imports Main "HOL-Library.Log_Nat" Prelude
begin

text \<open>
  The binary floating point arithmetic of the source. A finite \<open>f32\<close> or \<open>f64\<close> is the rational
  it denotes; an operation is the exact one followed by \<open>round_to\<close>, the rounding to nearest with
  ties to even at the precision of the type. The quantities of the modelled code stay far from
  overflow and from the subnormal range, so neither is represented.
\<close>

section \<open>Rounding\<close>

definition pow2 :: "int \<Rightarrow> rat" where
  "pow2 e = (if 0 \<le> e then 2 ^ nat e else 1 / 2 ^ nat (- e))"

definition floor_log2 :: "rat \<Rightarrow> int" where
  \<comment> \<open>the exponent of the leading bit of a positive rational\<close>
  "floor_log2 r =
     (let (n, d) = quotient_of r; k = bitlen n - bitlen d in if pow2 k \<le> r then k else k - 1)"

definition round_even :: "rat \<Rightarrow> int" where
  "round_even r =
     (let f = \<lfloor>r\<rfloor>; d = r - of_int f in
      if d < 1 / 2 then f else if d > 1 / 2 then f + 1 else if even f then f else f + 1)"

definition round_to :: "nat \<Rightarrow> rat \<Rightarrow> rat" where
  "round_to p r =
     (if r = 0 then 0
      else let e = floor_log2 \<bar>r\<bar> - (int p - 1) in of_int (round_even (r / pow2 e)) * pow2 e)"

abbreviation f32 :: "rat \<Rightarrow> rat" where "f32 \<equiv> round_to 24"
abbreviation f64 :: "rat \<Rightarrow> rat" where "f64 \<equiv> round_to 53"

definition round_away :: "rat \<Rightarrow> int" where
  \<comment> \<open>\<open>round\<close>: to the nearest integer, ties away from zero\<close>
  "round_away r = (if 0 \<le> r then \<lfloor>r + 1 / 2\<rfloor> else - \<lfloor>- r + 1 / 2\<rfloor>)"

definition as_isize :: "rat \<Rightarrow> int" where
  \<comment> \<open>the cast \<open>as isize\<close> of a float: towards zero\<close>
  "as_isize r = (if 0 \<le> r then \<lfloor>r\<rfloor> else - \<lfloor>- r\<rfloor>)"

section \<open>Square roots\<close>

function isqrt :: "int \<Rightarrow> int" where
  "isqrt n = (if n \<le> 0 then 0 else let r = 2 * isqrt (n div 4) in if (r + 1) * (r + 1) \<le> n then r + 1 else r)"
  by auto
termination by (relation "measure nat") auto

declare isqrt.simps [simp del]

definition f64_sqrt :: "rat \<Rightarrow> rat" where
  \<comment> \<open>the correctly rounded root: 53 bits of it, and the remainder decides the rounding\<close>
  "f64_sqrt r =
     (if r \<le> 0 then 0
      else let e = (floor_log2 r - 104) div 2; s = r / (pow2 e * pow2 e); m = isqrt \<lfloor>s\<rfloor>
           in (if (of_int m + 1 / 2) * (of_int m + 1 / 2) < s then of_int (m + 1) else of_int m) * pow2 e)"

section \<open>Laws\<close>

lemma pow2_pos [simp]: "0 < pow2 e"
  by (simp add: pow2_def)

lemma pow2_nonzero [simp]: "pow2 e \<noteq> 0"
  using pow2_pos [of e] by linarith

lemma pow2_nonneg: "0 \<le> e \<Longrightarrow> pow2 e = of_int (2 ^ nat e)"
  by (simp add: pow2_def)

lemma pow2_uminus: "0 \<le> e \<Longrightarrow> x / pow2 (- e) = x * of_int (2 ^ nat e)"
  by (auto simp: pow2_def)

lemma pow2_cancel: "pow2 (- e) * pow2 e = 1"
  by (cases "0 \<le> e") (auto simp: pow2_def)

lemma pow2_Suc: "pow2 e * 2 = pow2 (e + 1)"
proof (cases "0 \<le> e")
  case True
  then show ?thesis by (simp add: pow2_def nat_add_distrib)
next
  case False
  then have "nat (- e) = Suc (nat (- (e + 1)))" by linarith
  with False show ?thesis by (auto simp: pow2_def)
qed

lemma pow2_add_nat: "pow2 e * 2 ^ n = pow2 (e + int n)"
proof (induction n)
  case (Suc n)
  have "pow2 e * 2 ^ Suc n = pow2 e * 2 ^ n * 2" by simp
  also have "\<dots> = pow2 (e + int n + 1)" unfolding Suc by (rule pow2_Suc)
  finally show ?case by (simp add: add.commute add.left_commute)
qed simp

lemma round_even_int [simp]: "round_even (of_int n) = n"
  by (simp add: round_even_def Let_def)

lemma bitlen_positive: "0 < n \<Longrightarrow> 0 < bitlen n"
  using bitlen_nonneg [of n] bitlen_eq_zero_iff [of n] by linarith

lemma floor_log2_int:
  assumes "0 < n"
  shows "floor_log2 (of_int n) = bitlen n - 1"
proof -
  have "2 ^ nat (bitlen n - 1) \<le> n" using bitlen_bounds [OF assms] by simp
  moreover have "0 < bitlen n" using assms by (simp add: bitlen_positive)
  ultimately have "pow2 (bitlen n - 1) \<le> of_int n"
    by (subst pow2_nonneg) (simp_all only: of_int_le_iff)
  moreover have "bitlen 1 = 1" by (simp add: bitlen_alt_def)
  ultimately show ?thesis by (simp add: floor_log2_def Let_def)
qed

lemma floor_log2_le:
  assumes "0 < r"
  shows "pow2 (floor_log2 r) \<le> r"
proof -
  obtain n d where q: "quotient_of r = (n, d)" by (rule prod.exhaust)
  have r: "r = of_int n / of_int d" by (rule quotient_of_div [OF q])
  have d: "0 < d" by (rule quotient_of_denom_pos [OF q])
  with assms r have n: "0 < n" by (simp add: zero_less_divide_iff)
  let ?a = "nat (bitlen n - 1)" and ?b = "nat (bitlen d)"
  have l: "0 < bitlen n" "0 < bitlen d" using n d by (simp_all add: bitlen_positive)
  have "2 ^ ?a * d \<le> n * 2 ^ ?b"
    using bitlen_bounds [OF n] bitlen_bounds [OF d] n d by (intro mult_mono) auto
  then have "(of_int (2 ^ ?a * d) :: rat) \<le> of_int (n * 2 ^ ?b)" by (simp only: of_int_le_iff)
  then have "(2 :: rat) ^ ?a * of_int d \<le> of_int n * 2 ^ ?b" by simp
  then have "2 ^ ?a / 2 ^ ?b \<le> r" using d by (simp add: r divide_le_eq pos_le_divide_eq mult.commute)
  moreover have "2 ^ ?a / 2 ^ ?b = pow2 (bitlen n - bitlen d - 1)"
  proof (cases "bitlen d \<le> bitlen n - 1")
    case True
    then have "nat (bitlen n - bitlen d - 1) + ?b = ?a" using l by linarith
    then have "(2 :: rat) ^ ?a = 2 ^ nat (bitlen n - bitlen d - 1) * 2 ^ ?b" by (simp add: power_add [symmetric])
    with True show ?thesis by (simp add: pow2_def)
  next
    case False
    then have "nat (bitlen d - bitlen n + 1) + ?a = ?b" using l by linarith
    then have "(2 :: rat) ^ ?b = 2 ^ nat (bitlen d - bitlen n + 1) * 2 ^ ?a" by (simp add: power_add [symmetric])
    moreover have "pow2 (bitlen n - bitlen d - 1) = 1 / 2 ^ nat (bitlen d - bitlen n + 1)"
      using False by (simp add: pow2_def algebra_simps)
    ultimately show ?thesis by simp
  qed
  ultimately show ?thesis by (simp add: floor_log2_def q Let_def)
qed

lemma round_even_error: "\<bar>of_int (round_even r) - r\<bar> \<le> 1 / 2"
proof -
  let ?f = "\<lfloor>r\<rfloor>"
  have "of_int ?f \<le> r" "r < of_int ?f + 1" by linarith+
  then show ?thesis by (simp add: round_even_def Let_def abs_le_iff)
qed

text \<open>An operation is off by at most half a unit in the last place.\<close>

lemma round_to_error:
  assumes "0 < p"
  shows "\<bar>round_to p r - r\<bar> * 2 ^ p \<le> \<bar>r\<bar>"
proof (cases "r = 0")
  case False
  let ?l = "floor_log2 \<bar>r\<bar>" and ?e = "floor_log2 \<bar>r\<bar> - (int p - 1)"
  have "\<bar>of_int (round_even (r / pow2 ?e)) - r / pow2 ?e\<bar> * pow2 ?e \<le> 1 / 2 * pow2 ?e"
    by (intro mult_right_mono round_even_error less_imp_le pow2_pos)
  moreover have "\<bar>round_to p r - r\<bar> = \<bar>of_int (round_even (r / pow2 ?e)) - r / pow2 ?e\<bar> * pow2 ?e"
  proof -
    have "round_to p r - r = (of_int (round_even (r / pow2 ?e)) - r / pow2 ?e) * pow2 ?e"
      using False by (simp add: round_to_def Let_def left_diff_distrib)
    then show ?thesis by (simp add: abs_mult less_imp_le [OF pow2_pos])
  qed
  ultimately have half: "\<bar>round_to p r - r\<bar> \<le> 1 / 2 * pow2 ?e" by simp
  have "(2 :: rat) ^ p = 2 * 2 ^ (p - 1)" using assms by (cases p) simp_all
  then have "\<bar>round_to p r - r\<bar> * 2 ^ p = (2 * \<bar>round_to p r - r\<bar>) * 2 ^ (p - 1)" by simp
  also have "\<dots> \<le> pow2 ?e * 2 ^ (p - 1)" using half by (intro mult_right_mono) simp_all
  also have "pow2 ?e * 2 ^ (p - 1) = pow2 ?l"
    using pow2_add_nat [of ?e "p - 1"] assms by (simp add: of_nat_diff)
  also have "\<dots> \<le> \<bar>r\<bar>" using False by (simp add: floor_log2_le)
  finally show ?thesis .
qed (simp add: round_to_def)

text \<open>Integers that fit the significand are exact.\<close>

lemma round_to_int:
  assumes "\<bar>n\<bar> < 2 ^ p"
  shows "round_to p (of_int n) = of_int n"
proof (cases "n = 0")
  case False
  let ?l = "bitlen \<bar>n\<bar>"
  have l: "0 < ?l" "?l \<le> int p" using False assms by (simp_all add: bitlen_positive bitlen_le_iff_power)
  have e: "floor_log2 (of_int \<bar>n\<bar>) - (int p - 1) = - (int p - ?l)"
    using floor_log2_int [of "\<bar>n\<bar>"] False by simp
  have "of_int n / pow2 (- (int p - ?l)) = of_int (n * 2 ^ nat (int p - ?l))"
    using l(2) pow2_uminus [of "int p - ?l" "of_int n"] by (simp only: of_int_mult)
  then have "round_to p (of_int n) = of_int (n * 2 ^ nat (int p - ?l)) * pow2 (- (int p - ?l))"
    using False e by (simp only: round_to_def Let_def of_int_abs [symmetric] round_even_int if_False of_int_eq_0_iff)
  also have "\<dots> = of_int n * (pow2 (int p - ?l) * pow2 (- (int p - ?l)))"
    using l(2) by (simp add: pow2_nonneg)
  finally show ?thesis using pow2_cancel [of "int p - ?l"] by (simp add: mult.commute)
qed (simp add: round_to_def)

lemma isqrt_bounds:
  assumes "0 \<le> n"
  shows "0 \<le> isqrt n" "isqrt n * isqrt n \<le> n" "n < (isqrt n + 1) * (isqrt n + 1)"
proof -
  have "0 \<le> isqrt n \<and> isqrt n * isqrt n \<le> n \<and> n < (isqrt n + 1) * (isqrt n + 1)" using assms
  proof (induction n rule: isqrt.induct)
    case (1 n)
    show ?case
    proof (cases "n = 0")
      case True
      then show ?thesis by (simp add: isqrt.simps)
    next
      case False
      let ?s = "isqrt (n div 4)"
      from 1 False have ih: "0 \<le> ?s" "?s * ?s \<le> n div 4" "n div 4 < (?s + 1) * (?s + 1)" by auto
      have "isqrt n = (if (2 * ?s + 1) * (2 * ?s + 1) \<le> n then 2 * ?s + 1 else 2 * ?s)"
        using False 1(2) by (subst isqrt.simps) (simp add: Let_def)
      moreover have "4 * (?s * ?s) \<le> n" using ih(2) by linarith
      moreover have "n < 4 * ((?s + 1) * (?s + 1))" using ih(3) by linarith
      ultimately show ?thesis using ih(1) by (auto simp: algebra_simps)
    qed
  qed
  then show "0 \<le> isqrt n" "isqrt n * isqrt n \<le> n" "n < (isqrt n + 1) * (isqrt n + 1)" by auto
qed

lemma as_isize_int [simp]: "as_isize (of_int n) = n"
  by (simp add: as_isize_def)

lemma round_away_int [simp]: "round_away (of_int n) = n"
proof -
  have "\<lfloor>(of_int m :: rat) + 1 / 2\<rfloor> = m" for m by (simp add: floor_unique)
  from this [of n] this [of "- n"] show ?thesis by (simp add: round_away_def)
qed

end
