(* ===== verification/Layout_Quality.thy ===== *)
theory Layout_Quality
  imports Topology_Context Floats
begin

text \<open>
  The measures of the optimizer (\<open>server/topology/service/optimizer/utils.rs\<close>): the weighted
  length of the edges and the crossings, in \<open>f64\<close> arithmetic, medians, and the swap of nodes.
\<close>

section \<open>Quality\<close>

record LayoutQuality =
  lq_total_edge_length :: rat
  lq_edge_crossings :: nat
  lq_weighted_score :: rat

definition layout_quality_new :: "rat \<Rightarrow> nat \<Rightarrow> LayoutQuality" where
  "layout_quality_new len crossings =
     \<lparr>lq_total_edge_length = len, lq_edge_crossings = crossings,
      lq_weighted_score = f64 (f64 (f64 (of_nat crossings) * 10000) + len)\<rparr>"

definition is_better_than :: "LayoutQuality \<Rightarrow> LayoutQuality \<Rightarrow> bool" where
  "is_better_than q r \<longleftrightarrow> lq_weighted_score q < lq_weighted_score r"

definition improvement_percentage :: "LayoutQuality \<Rightarrow> LayoutQuality \<Rightarrow> rat" where
  "improvement_percentage q prev =
     (if lq_weighted_score prev = 0 then 0
      else f64 (f64 (f64 (lq_weighted_score prev - lq_weighted_score q) / lq_weighted_score prev) * 100))"

section \<open>Positions\<close>

definition node_index :: "Node list \<Rightarrow> (uuid, Node) HashMap" where
  "node_index ns = foldl (\<lambda>m n. hinsert (nd_id n) n m) [] ns"

definition build_subnet_positions_map :: "Node list \<Rightarrow> (uuid, Ixy) HashMap" where
  "build_subnet_positions_map ns =
     foldl (\<lambda>m n. if is_subnet_node (nd_type n) then hinsert (nd_id n) (nd_position n) m else m) [] ns"

definition get_absolute_node_center :: "Node \<Rightarrow> (uuid, Ixy) HashMap \<Rightarrow> Ixy" where
  "get_absolute_node_center n subnets =
     (let x = ix (nd_position n) + int (ux (nd_size n) div 2);
          y = iy (nd_position n) + int (uy (nd_size n) div 2)
      in case nd_type n of
           InterfaceNode s _ _ _ \<Rightarrow>
             (case hget subnets s of Some p \<Rightarrow> ixy (x + ix p) (y + iy p) | None \<Rightarrow> ixy x y)
         | SubnetNode _ \<Rightarrow> ixy x y)"

section \<open>Length\<close>

definition edge_weight :: "Edge \<Rightarrow> rat option" where
  \<comment> \<open>\<open>None\<close> for the edges that are skipped\<close>
  "edge_weight e =
     (let s = is_horizontal (source_handle e); t = is_horizontal (target_handle e) in
      if s \<and> t then None else if is_multi_hop e then None else if s \<or> t then Some 1 else Some 100)"

definition distance_f64 :: "rat \<Rightarrow> rat \<Rightarrow> rat" where
  "distance_f64 dx dy = f64_sqrt (f64 (f64 (dx * dx) + f64 (dy * dy)))"

definition calculate_total_edge_length :: "Node list \<Rightarrow> Edge list \<Rightarrow> rat" where
  "calculate_total_edge_length ns es =
     (let subnets = build_subnet_positions_map ns; nodes = node_index ns in
      foldl (\<lambda>total e.
          case (hget nodes (ed_source e), hget nodes (ed_target e), edge_weight e) of
            (Some a, Some b, Some w) \<Rightarrow>
              (let p = get_absolute_node_center a subnets; q = get_absolute_node_center b subnets;
                   dx = f64 (f64 (of_int (ix q)) - f64 (of_int (ix p)));
                   dy = f64 (f64 (of_int (iy q)) - f64 (of_int (iy p)))
               in f64 (total + f64 (distance_f64 dx dy * w)))
          | _ \<Rightarrow> total) 0 es)"

section \<open>Crossings\<close>

definition turn_direction :: "rat \<times> rat \<Rightarrow> rat \<times> rat \<Rightarrow> rat \<times> rat \<Rightarrow> rat" where
  "turn_direction p q r =
     f64 (f64 (f64 (fst r - fst p) * f64 (snd q - snd p)) - f64 (f64 (snd r - snd p) * f64 (fst q - fst p)))"

definition on_segment :: "rat \<times> rat \<Rightarrow> rat \<times> rat \<Rightarrow> rat \<times> rat \<Rightarrow> bool" where
  "on_segment p q r \<longleftrightarrow>
     fst r \<le> max (fst p) (fst q) \<and> fst r \<ge> min (fst p) (fst q) \<and>
     snd r \<le> max (snd p) (snd q) \<and> snd r \<ge> min (snd p) (snd q)"

definition opposite_turns :: "rat \<Rightarrow> rat \<Rightarrow> bool" where
  "opposite_turns a b \<longleftrightarrow> a > 0 \<and> b < 0 \<or> a < 0 \<and> b > 0"

definition collinear_on :: "rat \<Rightarrow> rat \<times> rat \<Rightarrow> rat \<times> rat \<Rightarrow> rat \<times> rat \<Rightarrow> bool" where
  "collinear_on d p q r \<longleftrightarrow> \<bar>d\<bar> < 1 / 2 ^ 52 \<and> on_segment p q r"

definition segments_intersect :: "Ixy \<Rightarrow> Ixy \<Rightarrow> Ixy \<Rightarrow> Ixy \<Rightarrow> bool" where
  "segments_intersect a b c d \<longleftrightarrow>
     (let pt = \<lambda>p. (f64 (of_int (ix p)), f64 (of_int (iy p)));
          p1 = pt a; p2 = pt b; p3 = pt c; p4 = pt d;
          d1 = turn_direction p3 p4 p1; d2 = turn_direction p3 p4 p2;
          d3 = turn_direction p1 p2 p3; d4 = turn_direction p1 p2 p4
      in opposite_turns d1 d2 \<and> opposite_turns d3 d4 \<or>
         collinear_on d1 p3 p4 p1 \<or> collinear_on d2 p3 p4 p2 \<or> collinear_on d3 p1 p2 p3 \<or> collinear_on d4 p1 p2 p4)"

definition edges_cross :: "Edge \<Rightarrow> Edge \<Rightarrow> (uuid, Node) HashMap \<Rightarrow> (uuid, Ixy) HashMap \<Rightarrow> bool" where
  "edges_cross e f nodes subnets \<longleftrightarrow>
     (if ed_source e = ed_source f \<or> ed_source e = ed_target f \<or> ed_target e = ed_source f \<or>
         ed_target e = ed_target f \<or> is_multi_hop e \<or> is_multi_hop f
      then False
      else case (hget nodes (ed_source e), hget nodes (ed_target e), hget nodes (ed_source f), hget nodes (ed_target f)) of
        (Some a, Some b, Some c, Some d) \<Rightarrow>
          segments_intersect (get_absolute_node_center a subnets) (get_absolute_node_center b subnets)
            (get_absolute_node_center c subnets) (get_absolute_node_center d subnets)
      | _ \<Rightarrow> False)"

fun ordered_pairs :: "'a list \<Rightarrow> ('a \<times> 'a) list" where
  \<comment> \<open>\<open>i < j\<close>\<close>
  "ordered_pairs [] = []"
| "ordered_pairs (x # xs) = map (Pair x) xs @ ordered_pairs xs"

definition count_edge_crossings :: "Node list \<Rightarrow> Edge list \<Rightarrow> nat" where
  "count_edge_crossings ns es =
     (let subnets = build_subnet_positions_map ns; nodes = node_index ns in
      length (filter (\<lambda>(e, f). edges_cross e f nodes subnets) (ordered_pairs es)))"

definition calculate_layout_quality :: "Node list \<Rightarrow> Edge list \<Rightarrow> LayoutQuality" where
  "calculate_layout_quality ns es =
     layout_quality_new (calculate_total_edge_length ns es) (count_edge_crossings ns es)"

definition rectangles_overlap :: "Ixy \<Rightarrow> Uxy \<Rightarrow> Ixy \<Rightarrow> Uxy \<Rightarrow> bool" where
  "rectangles_overlap p d q e \<longleftrightarrow>
     \<not> (ix p + int (ux d) \<le> ix q \<or> ix q + int (ux e) \<le> ix p \<or> iy p + int (uy d) \<le> iy q \<or> iy q + int (uy e) \<le> iy p)"

section \<open>Medians\<close>

definition calculate_median :: "rat list \<Rightarrow> rat" where
  "calculate_median vs =
     (let s = sort vs; m = length vs div 2 in
      if even (length vs) then f64 (f64 (s ! (m - 1) + s ! m) / 2) else s ! m)"

fun reach_weight :: "rat \<Rightarrow> rat \<Rightarrow> (rat \<times> rat) list \<Rightarrow> rat option" where
  \<comment> \<open>the first value at which the cumulative weight reaches the half\<close>
  "reach_weight half acc [] = None"
| "reach_weight half acc ((v, w) # vs) =
     (let acc1 = f64 (acc + w) in if acc1 \<ge> half then Some v else reach_weight half acc1 vs)"

definition total_weight :: "(rat \<times> rat) list \<Rightarrow> rat" where
  "total_weight vs = foldl (\<lambda>t (_, w). f64 (t + w)) 0 vs"

definition calculate_weighted_median :: "(rat \<times> rat) list \<Rightarrow> rat" where
  "calculate_weighted_median vs =
     (if vs = [] then 0
      else let s = sort_key fst vs; total = total_weight s in
        if total = 0 then calculate_median (map fst vs)
        else case reach_weight (f64 (total / 2)) 0 s of Some v \<Rightarrow> v | None \<Rightarrow> fst (last s))"

section \<open>Swaps\<close>

definition last_position :: "uuid \<Rightarrow> Node list \<Rightarrow> Ixy option" where
  "last_position i ns = map_option nd_position (find (\<lambda>n. nd_id n = i) (rev ns))"

definition swap_node_positions :: "Node list \<Rightarrow> uuid \<Rightarrow> uuid \<Rightarrow> Node list" where
  "swap_node_positions ns i j =
     (case (last_position i ns, if i = j then None else last_position j ns) of
        (Some p, Some q) \<Rightarrow>
          map (\<lambda>n. if nd_id n = i then n\<lparr>nd_position := q\<rparr> else if nd_id n = j then n\<lparr>nd_position := p\<rparr> else n) ns
      | _ \<Rightarrow> ns)"

end
