(* ===== verification/Subnet_Positioner.thy ===== *)
theory Subnet_Positioner
  imports Layout_Quality
begin

text \<open>
  The horizontal placement of the subnets
  (\<open>server/topology/service/optimizer/subnet_positioner.rs\<close>): sweeps over the layers that move
  each subnet to the weighted median its neighbours ask for, without touching the other subnets
  of its row, the snap to the grid, and the compression of the rows.
\<close>

definition POSITIONER_PADDING :: int where
  \<comment> \<open>\<open>SUBNET_PADDING\<close> of this module\<close>
  "POSITIONER_PADDING = 125"

definition GRID_SIZE :: int where
  "GRID_SIZE = 25"

definition snap_to_grid :: "rat \<Rightarrow> int" where
  "snap_to_grid v = round_away (f64 (v / of_int GRID_SIZE)) * GRID_SIZE"

definition find_node :: "uuid \<Rightarrow> Node list \<Rightarrow> Node option" where
  "find_node i ns = find (\<lambda>n. nd_id n = i) ns"

definition set_x :: "int \<Rightarrow> Node \<Rightarrow> Node" where
  "set_x x n = n\<lparr>nd_position := (nd_position n)\<lparr>ix := x\<rparr>\<rparr>"

definition set_y :: "int \<Rightarrow> Node \<Rightarrow> Node" where
  "set_y y n = n\<lparr>nd_position := (nd_position n)\<lparr>iy := y\<rparr>\<rparr>"

fun move_first :: "uuid \<Rightarrow> int \<Rightarrow> Node list \<Rightarrow> Node list" where
  \<comment> \<open>\<open>iter_mut().find\<close> and assign\<close>
  "move_first i x [] = []"
| "move_first i x (n # ns) = (if nd_id n = i then set_x x n # ns else n # move_first i x ns)"

definition subnet_node_ids :: "Node list \<Rightarrow> uuid list" where
  "subnet_node_ids ns = map nd_id (filter (\<lambda>n. is_subnet_node (nd_type n)) ns)"

definition group_subnets_by_layer :: "Node list \<Rightarrow> uuid list \<Rightarrow> uuid list list" where
  "group_subnets_by_layer ns ids =
     (let ys = List.map_filter (\<lambda>i. map_option (\<lambda>n. (iy (nd_position n), i)) (find_node i ns)) ids
      in map (\<lambda>y. map snd (filter (\<lambda>p. fst p = y) ys)) (remdups_adj (sort (map fst ys))))"

section \<open>What the neighbours ask for\<close>

definition calculate_edge_weight :: "Edge \<Rightarrow> rat" where
  "calculate_edge_weight e =
     (let s = is_horizontal (source_handle e); t = is_horizontal (target_handle e) in
      if s \<and> t then 0 else if is_multi_hop e then 0 else if s \<or> t then 1 else 100)"

definition handle_offset :: "EdgeHandle \<Rightarrow> Node \<Rightarrow> int" where
  "handle_offset h n =
     (case h of LeftH \<Rightarrow> 0 | RightH \<Rightarrow> int (ux (nd_size n)) | _ \<Rightarrow> int (ux (nd_size n) div 2))"

definition other_handle_x :: "EdgeHandle \<Rightarrow> Node \<Rightarrow> Node \<Rightarrow> int" where
  \<comment> \<open>the absolute coordinate of the handle of a node on a subnet\<close>
  "other_handle_x h other subnet =
     (if is_subnet_node (nd_type other) then ix (nd_position other) + handle_offset h other
      else ix (nd_position subnet) + ix (nd_position other) + handle_offset h other)"

definition desired_subnet_x :: "EdgeHandle \<Rightarrow> Node \<Rightarrow> int \<Rightarrow> int" where
  "desired_subnet_x h mine x =
     (if is_subnet_node (nd_type mine) then x - handle_offset h mine
      else x - ix (nd_position mine) - handle_offset h mine)"

definition layer_of :: "uuid list list \<Rightarrow> uuid \<Rightarrow> nat option" where
  "layer_of layers i = find (\<lambda>k. i \<in> set (layers ! k)) [0..<length layers]"

definition neighbor_position ::
    "Node list \<Rightarrow> uuid \<Rightarrow> uuid list list \<Rightarrow> nat \<Rightarrow> bool \<Rightarrow> Edge \<Rightarrow> (rat \<times> rat) option" where
  "neighbor_position ns subnet layers layer down e =
     (let s = node_subnet (ed_source e) ns; t = node_subnet (ed_target e) ns in
      case (if s = Some subnet then Some (ed_source e, ed_target e, t, source_handle e, target_handle e)
            else if t = Some subnet then Some (ed_target e, ed_source e, s, target_handle e, source_handle e)
            else None) of
        Some (mine, other, Some other_subnet, my_handle, other_handle) \<Rightarrow>
          (case layer_of layers other_subnet of
             Some k \<Rightarrow>
               if \<not> (if down then k < layer else k > layer) \<or> \<not> calculate_edge_weight e > 0 then None
               else (case (find_node mine ns, find_node other ns, find_node other_subnet ns) of
                       (Some m, Some n, Some sn) \<Rightarrow>
                         Some (f64 (of_int (desired_subnet_x my_handle m (other_handle_x other_handle n sn))),
                               calculate_edge_weight e)
                     | _ \<Rightarrow> None)
           | None \<Rightarrow> None)
      | _ \<Rightarrow> None)"

definition positioner_weighted_median :: "(rat \<times> rat) list \<Rightarrow> rat" where
  "positioner_weighted_median vs =
     (case vs of
        [] \<Rightarrow> 0
      | [v] \<Rightarrow> fst v
      | _ \<Rightarrow> let s = sort_key fst vs in
            (case reach_weight (f64 (total_weight s / 2)) 0 s of Some v \<Rightarrow> v | None \<Rightarrow> fst (last s)))"

definition calculate_barycenter_position ::
    "Node list \<Rightarrow> Edge list \<Rightarrow> uuid \<Rightarrow> uuid list list \<Rightarrow> nat \<Rightarrow> bool \<Rightarrow> int" where
  "calculate_barycenter_position ns es subnet layers layer down =
     (case find_node subnet ns of
        None \<Rightarrow> 0
      | Some n \<Rightarrow>
          (case List.map_filter (neighbor_position ns subnet layers layer down) es of
             [] \<Rightarrow> ix (nd_position n)
           | ps \<Rightarrow> as_isize (positioner_weighted_median ps)))"

section \<open>No overlap in a row\<close>

definition row_overlap :: "int \<Rightarrow> int \<Rightarrow> (int \<times> int) list \<Rightarrow> bool" where
  \<comment> \<open>a subnet of this width at this coordinate comes within the padding of one of the others\<close>
  "row_overlap width x others \<longleftrightarrow>
     list_ex (\<lambda>(ox, ow). x < ox + ow + POSITIONER_PADDING \<and> x + width + POSITIONER_PADDING > ox) others"

definition others_in_row :: "Node list \<Rightarrow> Node \<Rightarrow> uuid \<Rightarrow> (uuid, int) HashMap \<Rightarrow> (int \<times> int) list" where
  "others_in_row ns n subnet placed =
     sort_key fst (map (\<lambda>m. (case hget placed (nd_id m) of Some x \<Rightarrow> x | None \<Rightarrow> ix (nd_position m), int (ux (nd_size m))))
       (filter (\<lambda>m. is_subnet_node (nd_type m) \<and> nd_id m \<noteq> subnet \<and> iy (nd_position m) = iy (nd_position n)) ns))"

definition free_x :: "int \<Rightarrow> int \<Rightarrow> (int \<times> int) list \<Rightarrow> int" where
  \<comment> \<open>the free candidate nearest to the proposed coordinate\<close>
  "free_x width proposed others =
     fst (foldl (\<lambda>(best, dist) c.
            if \<not> row_overlap width c others \<and> \<bar>proposed - c\<bar> < dist then (c, \<bar>proposed - c\<bar>) else (best, dist))
          (proposed, 2 ^ 63 - 1)
          (map (\<lambda>(ox, _). ox - width - POSITIONER_PADDING) others @ map (\<lambda>(ox, ow). ox + ow + POSITIONER_PADDING) others))"

definition apply_non_overlap_constraint :: "Node list \<Rightarrow> uuid \<Rightarrow> int \<Rightarrow> (uuid, int) HashMap \<Rightarrow> int" where
  "apply_non_overlap_constraint ns subnet proposed placed =
     (case find_node subnet ns of
        None \<Rightarrow> proposed
      | Some n \<Rightarrow>
          let width = int (ux (nd_size n)); others = others_in_row ns n subnet placed
          in if \<not> row_overlap width proposed others then proposed else free_x width proposed others)"

section \<open>The sweeps\<close>

definition place_subnet ::
    "Edge list \<Rightarrow> uuid list list \<Rightarrow> nat \<Rightarrow> bool \<Rightarrow> Node list \<times> (uuid, int) HashMap \<Rightarrow> uuid \<Rightarrow> Node list \<times> (uuid, int) HashMap" where
  "place_subnet es layers layer down acc i =
     (let (ns, placed) = acc;
          x = apply_non_overlap_constraint ns i (calculate_barycenter_position ns es i layers layer down) placed
      in (move_first i x ns, hinsert i x placed))"

definition optimize_layer :: "Edge list \<Rightarrow> uuid list list \<Rightarrow> bool \<Rightarrow> Node list \<Rightarrow> nat \<Rightarrow> Node list" where
  "optimize_layer es layers down ns layer =
     fst (foldl (place_subnet es layers layer down) (ns, []) (layers ! layer))"

definition sweep_layers :: "Edge list \<Rightarrow> uuid list list \<Rightarrow> Node list \<Rightarrow> Node list" where
  "sweep_layers es layers ns =
     foldl (optimize_layer es layers False)
       (foldl (optimize_layer es layers True) ns [1..<length layers]) (rev [0..<length layers - 1])"

fun sweep_loop :: "nat \<Rightarrow> Edge list \<Rightarrow> uuid list list \<Rightarrow> Node list \<Rightarrow> Node list" where
  \<comment> \<open>at most \<open>max_iterations\<close> rounds, until a round gains less than one pixel\<close>
  "sweep_loop 0 es layers ns = ns"
| "sweep_loop (Suc k) es layers ns =
     (let ns1 = sweep_layers es layers ns in
      if f64 (calculate_total_edge_length ns es - calculate_total_edge_length ns1 es) < 1 then ns1
      else sweep_loop k es layers ns1)"

definition snap_subnets :: "uuid list \<Rightarrow> Node list \<Rightarrow> Node list" where
  "snap_subnets ids ns =
     foldl (\<lambda>ns1 i. case find_node i ns1 of
         Some n \<Rightarrow> move_first i (snap_to_grid (f64 (of_int (ix (nd_position n))))) ns1
       | None \<Rightarrow> ns1) ns ids"

definition optimize_subnet_positions :: "'c TopologyContext \<Rightarrow> Node list \<Rightarrow> Edge list \<Rightarrow> Node list" where
  "optimize_subnet_positions ctx ns es =
     (let ids = subnet_node_ids ns in
      if ids = [] then ns
      else snap_subnets ids
             (sweep_loop 10 (filter (\<lambda>e. \<not> edge_is_intra_subnet ctx e) es) (group_subnets_by_layer ns ids) ns))"

section \<open>Compression\<close>

record SubnetInfo =
  si_id :: uuid
  si_x :: int
  si_width :: int
  si_locked :: bool

definition find_locked_subnets :: "'c TopologyContext \<Rightarrow> Node list \<Rightarrow> Edge list \<Rightarrow> uuid set" where
  "find_locked_subnets ctx ns es =
     set (concat (map (\<lambda>e.
         if edge_is_intra_subnet ctx e \<or> is_multi_hop e then []
         else if is_horizontal (source_handle e) \<and> is_horizontal (target_handle e) then []
         else List.map_filter (\<lambda>i. node_subnet i ns) [ed_source e, ed_target e]) es))"

definition compress_toward_left :: "Node list \<Rightarrow> SubnetInfo list \<Rightarrow> int \<Rightarrow> Node list" where
  "compress_toward_left ns infos pad =
     (case infos of
        [] \<Rightarrow> ns
      | i # _ \<Rightarrow>
          fst (foldl (\<lambda>(ns1, x) s.
                 case find_node (si_id s) ns1 of
                   Some _ \<Rightarrow> (move_first (si_id s) x ns1, x + si_width s + pad)
                 | None \<Rightarrow> (ns1, x)) (ns, si_x i) infos))"

fun split_segments ::
    "SubnetInfo option \<Rightarrow> SubnetInfo list \<Rightarrow> SubnetInfo list \<Rightarrow> (SubnetInfo option \<times> SubnetInfo option \<times> SubnetInfo list) list" where
  "split_segments start cur [] = (if cur = [] then [] else [(start, None, cur)])"
| "split_segments start cur (s # ss) =
     (if si_locked s then (if cur = [] then [] else [(start, Some s, cur)]) @ split_segments (Some s) [] ss
      else split_segments start (cur @ [s]) ss)"

fun pack_left :: "int \<Rightarrow> int \<Rightarrow> SubnetInfo list \<Rightarrow> (uuid \<times> int) list" where
  \<comment> \<open>never to the right of where a subnet was\<close>
  "pack_left pad x [] = []"
| "pack_left pad x (s # ss) = (let nx = min x (si_x s) in (si_id s, nx) # pack_left pad (nx + si_width s + pad) ss)"

fun pack_from :: "int \<Rightarrow> int \<Rightarrow> SubnetInfo list \<Rightarrow> (uuid \<times> int) list" where
  "pack_from pad x [] = []"
| "pack_from pad x (s # ss) = (si_id s, x) # pack_from pad (x + si_width s + pad) ss"

definition unless_collision :: "int \<Rightarrow> SubnetInfo \<Rightarrow> SubnetInfo list \<Rightarrow> (uuid \<times> int) list \<Rightarrow> (uuid \<times> int) list" where
  \<comment> \<open>the new coordinates, or the old ones where the last subnet would reach the right anchor\<close>
  "unless_collision pad r unlocked new =
     (if snd (last new) + si_width (last unlocked) + pad > si_x r
      then map (\<lambda>s. (si_id s, si_x s)) unlocked else new)"

fun segment_positions :: "int \<Rightarrow> SubnetInfo option \<times> SubnetInfo option \<times> SubnetInfo list \<Rightarrow> (uuid \<times> int) list" where
  "segment_positions pad (Some l, Some r, unlocked) =
     unless_collision pad r unlocked (pack_left pad (si_x l + si_width l + pad) unlocked)"
| "segment_positions pad (Some l, None, unlocked) = pack_left pad (si_x l + si_width l + pad) unlocked"
| "segment_positions pad (None, Some r, unlocked) =
     (case unlocked of [] \<Rightarrow> [] | u # _ \<Rightarrow> unless_collision pad r unlocked (pack_from pad (si_x u) unlocked))"
| "segment_positions pad (None, None, unlocked) = []"

definition compress_toward_locked :: "Node list \<Rightarrow> SubnetInfo list \<Rightarrow> int \<Rightarrow> Node list" where
  "compress_toward_locked ns infos pad =
     (let segments = split_segments None [] infos in
      case find (\<lambda>(l, r, _). l = None \<and> r = None) segments of
        Some (_, _, unlocked) \<Rightarrow> compress_toward_left ns unlocked pad
      | None \<Rightarrow>
          foldl (\<lambda>ns1 (i, x). move_first i x ns1) ns
            (map (\<lambda>s. (si_id s, si_x s)) (filter si_locked infos) @ concat (map (segment_positions pad) segments)))"

definition compress_layer :: "uuid set \<Rightarrow> int \<Rightarrow> Node list \<Rightarrow> uuid list \<Rightarrow> Node list" where
  "compress_layer locked pad ns layer =
     (if length layer < 2 then ns
      else
        let infos = sort_key si_x (List.map_filter (\<lambda>i. map_option (\<lambda>n.
               \<lparr>si_id = i, si_x = ix (nd_position n), si_width = int (ux (nd_size n)), si_locked = i \<in> locked\<rparr>)
               (find_node i ns)) layer)
        in if filter si_locked infos = [] then compress_toward_left ns infos pad
           else compress_toward_locked ns infos pad)"

definition compress_horizontal_spacing :: "'c TopologyContext \<Rightarrow> Node list \<Rightarrow> Edge list \<Rightarrow> Node list" where
  "compress_horizontal_spacing ctx ns es =
     (let locked = find_locked_subnets ctx ns es;
          layers = group_subnets_by_layer ns (subnet_node_ids ns);
          ns1 = foldl (compress_layer locked POSITIONER_PADDING) ns layers
      in map (\<lambda>n. if is_subnet_node (nd_type n) then set_x (snap_to_grid (f64 (of_int (ix (nd_position n))))) n else n) ns1)"

end
