(* ===== verification/Topology_Edges.thy ===== *)
theory Topology_Edges
  imports Topology_Context
begin

text \<open>
  The edges of the graph (\<open>server/topology/service/edge_builder.rs\<close>): between the interfaces of a
  host, along groups, from a hypervisor to its machines, from a container host to its bridges,
  and the physical links found by LLDP. A builder leaves the id of an edge nil; the ids are
  drawn in the order of creation when the graph is built (\<open>number_edges\<close>).
\<close>

definition determine_interface_handles ::
    "'c TopologyContext \<Rightarrow> uuid \<Rightarrow> uuid \<Rightarrow> bool \<Rightarrow> (EdgeHandle \<times> EdgeHandle) option" where
  "determine_interface_handles ctx i j multi_hop =
     Option.bind (subnet_from_interface_id ctx i) (\<lambda>s.
     Option.bind (subnet_from_interface_id ctx j) (\<lambda>t.
       let i_infra = (Some i \<in> set (interfaces_with_infra_service ctx s));
           j_infra = (Some j \<in> set (interfaces_with_infra_service ctx t))
       in Some (from_subnet_layers s t (i_infra \<and> subnet_has_mixed_infra ctx s)
                  (j_infra \<and> subnet_has_mixed_infra ctx t) multi_hop)))"

definition edge_between ::
    "'c TopologyContext \<Rightarrow> uuid \<Rightarrow> uuid \<Rightarrow> EdgeType \<Rightarrow> string option \<Rightarrow> Edge option" where
  \<comment> \<open>what every builder does once it has two interfaces: the handles, or no edge\<close>
  "edge_between ctx i j t label =
     (let multi_hop = edge_is_multi_hop ctx i j in
      map_option (\<lambda>(a, b).
          \<lparr>ed_id = uuid_nil, ed_source = i, ed_target = j, ed_type = t, ed_label = label,
           source_handle = a, target_handle = b, is_multi_hop = multi_hop\<rparr>)
        (determine_interface_handles ctx i j multi_hop))"

section \<open>Groups\<close>

definition binding_interface :: "'c TopologyContext \<Rightarrow> uuid \<Rightarrow> uuid option" where
  \<comment> \<open>the interface of the first binding with the id, over all services\<close>
  "binding_interface ctx b =
     (case List.map_filter (\<lambda>s. get_binding s b) (tc_services ctx) of
        x # _ \<Rightarrow> binding_interface_id x
      | [] \<Rightarrow> None)"

definition edge_from_service_bindings :: "'c TopologyContext \<Rightarrow> uuid \<Rightarrow> uuid \<Rightarrow> Group \<Rightarrow> Edge option" where
  "edge_from_service_bindings ctx b c g =
     (case (binding_interface ctx b, binding_interface ctx c) of
        (Some i, Some j) \<Rightarrow>
          if \<not> interface_will_have_node ctx i \<or> \<not> interface_will_have_node ctx j then None
          else edge_between ctx i j
            (case gb_group_type (group_base g) of
               HubAndSpoke \<Rightarrow> HubAndSpokeEdge (group_id g) b c
             | RequestPath \<Rightarrow> RequestPathEdge (group_id g) b c)
            (if map_option subnet_id (subnet_from_interface_id ctx i) = map_option subnet_id (subnet_from_interface_id ctx j)
             then None else Some (gb_name (group_base g)))
      | _ \<Rightarrow> None)"

definition group_pairs :: "Group \<Rightarrow> (uuid \<times> uuid) list" where
  "group_pairs g =
     (let bs = binding_ids (group_base g) in
      case gb_group_type (group_base g) of
        RequestPath \<Rightarrow> zip bs (tl bs)
      | HubAndSpoke \<Rightarrow> (case bs of [] \<Rightarrow> [] | hub # spokes \<Rightarrow> map (Pair hub) (rev spokes)))"

definition create_group_edges :: "'c TopologyContext \<Rightarrow> Edge list" where
  "create_group_edges ctx =
     concat (map (\<lambda>g. List.map_filter (\<lambda>(b, c). edge_from_service_bindings ctx b c g) (group_pairs g)) (tc_groups ctx))"

section \<open>Containers\<close>

definition containerized_services :: "'c TopologyContext \<Rightarrow> (uuid, uuid list) HashMap" where
  "containerized_services ctx =
     foldl (\<lambda>m s. case virtualization (service_base s) of
          Some (DockerVirt d) \<Rightarrow>
            (let e = (case hget m (dv_service_id d) of Some xs \<Rightarrow> xs | None \<Rightarrow> []) in
             hinsert (dv_service_id d) (if service_id s \<in> set e then e else e @ [service_id s]) m)
        | None \<Rightarrow> m) [] (tc_services ctx)"

definition container_subnets :: "'c TopologyContext \<Rightarrow> Host \<Rightarrow> uuid list" where
  "container_subnets ctx h =
     List.map_filter (\<lambda>i. case ctx_subnet ctx (ib_subnet_id (interface_base i)) of
         Some s \<Rightarrow> if sb_subnet_type (subnet_base s) = ST_DockerBridge then Some (subnet_id s) else None
       | None \<Rightarrow> None) (ctx_interfaces_for_host ctx (host_id h))"

definition container_interfaces :: "'c TopologyContext \<Rightarrow> Host \<Rightarrow> uuid list" where
  "container_interfaces ctx h =
     map interface_id (filter (\<lambda>i. ib_subnet_id (interface_base i) \<in> set (container_subnets ctx h))
       (ctx_interfaces_for_host ctx (host_id h)))"

definition grouped_bridge_edge ::
    "'c TopologyContext \<Rightarrow> Service \<Rightarrow> Host \<Rightarrow> Interface \<Rightarrow> (uuid, uuid) HashMap \<Rightarrow> Edge list \<times> (uuid, uuid) HashMap" where
  \<comment> \<open>the bridges of a host drawn as one: an edge to the first of their subnets\<close>
  "grouped_bridge_edge ctx s h origin m =
     (case (container_interfaces ctx h, container_subnets ctx h) of
        (i # _, n # _) \<Rightarrow>
          (case edge_between ctx (interface_id origin) i
             (ServiceVirtualizationEdge (host_id h) (service_id s))
             (Some (vb_name (service_base s) @ '' @ '' @ hb_name (host_base h))) of
             Some e \<Rightarrow>
               (if interface_will_have_node ctx (interface_id origin) then [e\<lparr>ed_target := n\<rparr>] else [],
                case hget m (host_id h) of Some _ \<Rightarrow> m | None \<Rightarrow> hinsert (host_id h) n m)
           | None \<Rightarrow> ([], m))
      | _ \<Rightarrow> ([], m))"

definition container_edge ::
    "'c TopologyContext \<Rightarrow> Service \<Rightarrow> Host \<Rightarrow> Interface \<Rightarrow> uuid \<Rightarrow> Edge option" where
  "container_edge ctx s h origin cs =
     Option.bind (ctx_service ctx cs) (\<lambda>c.
     Option.bind (find (\<lambda>i. i \<in> set (container_interfaces ctx h))
         (List.map_filter binding_interface_id (bindings (service_base c)))) (\<lambda>i.
     Option.bind (edge_between ctx (interface_id origin) i
         (ServiceVirtualizationEdge (host_id h) (service_id s))
         (Some (vb_name (service_base s) @ '' on '' @ hb_name (host_base h)))) (\<lambda>e.
       if interface_will_have_node ctx (interface_id origin) \<and> interface_will_have_node ctx i then Some e else None)))"

definition containerizing_hosts :: "'c TopologyContext \<Rightarrow> (Service \<times> Host \<times> Interface) list" where
  "containerizing_hosts ctx =
     List.map_filter (\<lambda>s.
         Option.bind (ctx_host ctx (vb_host_id (service_base s))) (\<lambda>h.
           map_option (\<lambda>i. (s, h, i)) (first_non_docker_bridge_interface ctx (host_id h))))
       (filter (\<lambda>s. service_id s \<in> set (hkeys (containerized_services ctx))) (tc_services ctx))"

definition create_containerized_service_edges ::
    "'c TopologyContext \<Rightarrow> bool \<Rightarrow> Edge list \<times> (uuid, uuid) HashMap" where
  "create_containerized_service_edges ctx grouped =
     foldl (\<lambda>(es, m) (s, h, origin).
         if grouped
         then (let (new, m1) = grouped_bridge_edge ctx s h origin m in (es @ new, m1))
         else (es @ List.map_filter (container_edge ctx s h origin)
                 (case hget (containerized_services ctx) (service_id s) of Some xs \<Rightarrow> xs | None \<Rightarrow> []), m))
       ([], []) (containerizing_hosts ctx)"

section \<open>Virtual machines\<close>

definition hypervisor_interfaces :: "'c TopologyContext \<Rightarrow> (uuid \<times> uuid, uuid) HashMap" where
  \<comment> \<open>(subnet, hypervisor service) to the first of its interfaces on the subnet\<close>
  "hypervisor_interfaces ctx =
     foldl (\<lambda>m h. case hb_virtualization (host_base h) of
          Some (Proxmox p) \<Rightarrow>
            (case ctx_service ctx (pv_service_id p) of
               Some s \<Rightarrow>
                 foldl (\<lambda>m1 i. case subnet_from_interface_id ctx i of
                      Some n \<Rightarrow> if hget m1 (subnet_id n, service_id s) = None
                               then hinsert (subnet_id n, service_id s) i m1 else m1
                    | None \<Rightarrow> m1) m (List.map_filter binding_interface_id (bindings (service_base s)))
             | None \<Rightarrow> m)
        | None \<Rightarrow> m) [] (tc_hosts ctx)"

definition vm_hypervisors :: "'c TopologyContext \<Rightarrow> (uuid, uuid) HashMap" where
  "vm_hypervisors ctx =
     foldl (\<lambda>m h. case hb_virtualization (host_base h) of
          Some (Proxmox p) \<Rightarrow> hinsert (host_id h) (pv_service_id p) m
        | None \<Rightarrow> m) [] (tc_hosts ctx)"

definition create_vm_host_edges :: "'c TopologyContext \<Rightarrow> Edge list" where
  "create_vm_host_edges ctx =
     concat (map (\<lambda>h. case hget (vm_hypervisors ctx) (host_id h) of
          Some p \<Rightarrow>
            List.map_filter (\<lambda>i. case hget (hypervisor_interfaces ctx) (ib_subnet_id (interface_base i), p) of
                Some k \<Rightarrow> if interface_will_have_node ctx k
                         then edge_between ctx k (interface_id i) (HostVirtualizationEdge p) None else None
              | None \<Rightarrow> None) (ctx_interfaces_for_host ctx (host_id h))
        | None \<Rightarrow> []) (tc_hosts ctx))"

section \<open>The interfaces of a host\<close>

definition on_docker_bridge :: "'c TopologyContext \<Rightarrow> Interface \<Rightarrow> bool" where
  "on_docker_bridge ctx i \<longleftrightarrow>
     (case ctx_subnet ctx (ib_subnet_id (interface_base i)) of
        Some s \<Rightarrow> sb_subnet_type (subnet_base s) = ST_DockerBridge
      | None \<Rightarrow> False)"

definition create_interface_edges :: "'c TopologyContext \<Rightarrow> Edge list" where
  "create_interface_edges ctx =
     concat (map (\<lambda>h. case first_non_docker_bridge_interface ctx (host_id h) of
          Some origin \<Rightarrow>
            List.map_filter (\<lambda>i.
                if on_docker_bridge ctx origin \<or> on_docker_bridge ctx i then None
                else edge_between ctx (interface_id origin) (interface_id i) (InterfaceEdge (host_id h))
                  (if ib_subnet_id (interface_base origin) = ib_subnet_id (interface_base i) then None
                   else Some (hb_name (host_base h))))
              (filter (\<lambda>i. interface_id i \<noteq> interface_id origin \<and> interface_will_have_node ctx (interface_id i) \<and>
                        interface_will_have_node ctx (interface_id origin)) (ctx_interfaces_for_host ctx (host_id h)))
        | None \<Rightarrow> []) (tc_hosts ctx))"

section \<open>Physical links\<close>

definition link_arrow :: string where
  \<comment> \<open>a two-headed arrow between blanks, in UTF-8\<close>
  "link_arrow = '' '' @ map char_of [0xE2 :: nat, 0x86, 0x94] @ '' ''"

definition pair_key :: "uuid \<Rightarrow> uuid \<Rightarrow> uuid \<times> uuid" where
  "pair_key a b = (if a < b then (a, b) else (b, a))"

definition physical_link :: "'c TopologyContext \<Rightarrow> IfEntry \<Rightarrow> uuid \<Rightarrow> Edge option" where
  "physical_link ctx e t =
     Option.bind (resolve_interface_for_if_entry ctx e) (\<lambda>i.
     Option.bind (ctx_if_entry ctx t) (\<lambda>f.
     Option.bind (resolve_interface_for_if_entry ctx f) (\<lambda>j.
       if \<not> interface_will_have_node ctx i \<or> \<not> interface_will_have_node ctx j then None
       else edge_between ctx i j (PhysicalLink (if_entry_id e) (if_entry_id f) P_LLDP)
              (Some (if_display_name e @ link_arrow @ if_display_name f)))))"

fun physical_links :: "'c TopologyContext \<Rightarrow> (uuid \<times> uuid) set \<Rightarrow> IfEntry list \<Rightarrow> Edge list" where
  \<comment> \<open>with the pairs that were processed\<close>
  "physical_links ctx seen [] = []"
| "physical_links ctx seen (e # es) =
     (case neighbor (if_entry_base e) of
        Some (NeighborIfEntry t) \<Rightarrow>
          if pair_key (if_entry_id e) t \<in> seen then physical_links ctx seen es
          else (case physical_link ctx e t of Some x \<Rightarrow> [x] | None \<Rightarrow> []) @
               physical_links ctx (insert (pair_key (if_entry_id e) t) seen) es
      | _ \<Rightarrow> physical_links ctx seen es)"

definition create_physical_link_edges :: "'c TopologyContext \<Rightarrow> Edge list" where
  "create_physical_link_edges ctx = physical_links ctx {} (if_entries_with_neighbor ctx)"

section \<open>All edges\<close>

definition number_edges :: "(nat \<Rightarrow> uuid) \<Rightarrow> Edge list \<Rightarrow> Edge list" where
  "number_edges fresh es = map (\<lambda>(n, e). e\<lparr>ed_id := fresh n\<rparr>) (enumerate 0 es)"

definition all_topology_edges :: "'c TopologyContext \<Rightarrow> (nat \<Rightarrow> uuid) \<Rightarrow> Edge list \<times> (uuid, uuid) HashMap" where
  "all_topology_edges ctx fresh =
     (let (containers, grouping) =
        create_containerized_service_edges ctx (group_docker_bridges_by_host (request_options (tc_options ctx)))
      in (number_edges fresh
            (create_interface_edges ctx @ create_group_edges ctx @ create_vm_host_edges ctx @ containers @
             create_physical_link_edges ctx), grouping))"

end
