(* ===== verification/Topology_Grid.thy ===== *)
theory Topology_Grid
  imports Topology_Context Floats
begin

text \<open>
  The placement of the children of one subnet
  (\<open>server/topology/service/planner/child_planner.rs\<close>): each child gets a force from its edges,
  the forces order the children and choose a preferred cell of a grid, a child takes the free
  cell nearest to it, and the cells are laid out in pixels. Forces use \<open>f32\<close>, the dimensions of
  the grid \<open>f64\<close> arithmetic.
\<close>

section \<open>Forces\<close>

definition grid_dimensions :: "nat \<Rightarrow> nat \<times> nat" where
  "grid_dimensions n =
     (let w = max 1 (nat \<lceil>f64_sqrt (f64 (of_nat n))\<rceil>)
      in (w, max 1 (nat \<lceil>f64 (f64 (of_nat n) / f64 (of_nat w))\<rceil>)))"

definition subnet_orders :: "'c TopologyContext \<Rightarrow> SubnetChild list \<Rightarrow> int \<times> int" where
  \<comment> \<open>the vertical and horizontal order of the subnet of the first child\<close>
  "subnet_orders ctx cs =
     (case cs of
        [] \<Rightarrow> (999, 999)
      | c # _ \<Rightarrow>
          (case Option.bind (sc_interface_id c) (\<lambda>i. ctx_interface ctx (Some i)) of
             None \<Rightarrow> (999, 999)
           | Some i \<Rightarrow>
               (case ctx_subnet ctx (ib_subnet_id (interface_base i)) of
                  None \<Rightarrow> (999, 999)
                | Some s \<Rightarrow> (int (vertical_order (sb_subnet_type (subnet_base s))),
                            int (horizontal_order (sb_subnet_type (subnet_base s)))))))"

definition is_vm_edge :: "Edge \<Rightarrow> bool" where
  "is_vm_edge e \<longleftrightarrow> edge_discriminant (ed_type e) = ET_HostVirtualization"

definition vm_edges :: "SubnetChild list \<Rightarrow> Edge list" where
  "vm_edges cs = filter is_vm_edge (concat (map sc_edges cs))"

definition vm_clusters :: "SubnetChild list \<Rightarrow> (uuid, uuid list) HashMap" where
  "vm_clusters cs =
     foldl (\<lambda>m e. let c = (case hget m (ed_source e) of Some xs \<Rightarrow> xs | None \<Rightarrow> []) in
         hinsert (ed_source e) (if ed_target e \<in> set c then c else c @ [ed_target e]) m) [] (vm_edges cs)"

definition vm_to_provider :: "SubnetChild list \<Rightarrow> (uuid, uuid) HashMap" where
  "vm_to_provider cs = foldl (\<lambda>m e. hinsert (ed_target e) (ed_source e) m) [] (vm_edges cs)"

definition cluster_crosses_infra :: "'c TopologyContext \<Rightarrow> SubnetChild list \<Rightarrow> uuid \<Rightarrow> bool" where
  "cluster_crosses_infra ctx cs p \<longleftrightarrow>
     (case hget (vm_clusters cs) p of
        Some vms \<Rightarrow> list_ex (\<lambda>v. is_interface_infra ctx v \<noteq> is_interface_infra ctx p) vms
      | None \<Rightarrow> False)"

definition other_end :: "SubnetChild \<Rightarrow> Edge \<Rightarrow> uuid option" where
  "other_end c e =
     (if sc_interface_id c = Some (ed_source e) then Some (ed_target e)
      else if sc_interface_id c = Some (ed_target e) then Some (ed_source e) else None)"

definition subnet_force :: "'c TopologyContext \<Rightarrow> int \<times> int \<Rightarrow> uuid \<Rightarrow> (int \<times> int) option" where
  \<comment> \<open>horizontal and vertical pull of the subnet an interface is on\<close>
  "subnet_force ctx orders i =
     (let (vertical, horizontal) = orders in
      map_option (\<lambda>s. (int (horizontal_order (sb_subnet_type (subnet_base s))) - horizontal,
                       vertical - int (vertical_order (sb_subnet_type (subnet_base s)))))
        (Option.bind (ctx_interface ctx (Some i)) (\<lambda>x. ctx_subnet ctx (ib_subnet_id (interface_base x)))))"

definition edge_force :: "'c TopologyContext \<Rightarrow> int \<times> int \<Rightarrow> SubnetChild \<Rightarrow> Edge \<Rightarrow> (int \<times> int) option" where
  "edge_force ctx orders c e = Option.bind (other_end c e) (subnet_force ctx orders)"

definition f32_mul :: "int \<Rightarrow> rat \<Rightarrow> int" where
  \<comment> \<open>\<open>(a as f32 * w) as isize\<close>\<close>
  "f32_mul a w = as_isize (f32 (f32 (of_int a) * w))"

definition f32_div :: "int \<Rightarrow> nat \<Rightarrow> int" where
  \<comment> \<open>\<open>(a as f32 / n as f32) as isize\<close>\<close>
  "f32_div a n = as_isize (f32 (f32 (of_int a) / f32 (of_nat n)))"

definition cluster_target :: "'c TopologyContext \<Rightarrow> int \<times> int \<Rightarrow> SubnetChild list \<Rightarrow> uuid \<Rightarrow> Ixy option" where
  "cluster_target ctx orders cs p =
     map_option (\<lambda>vms.
         let members = List.map_filter (\<lambda>i. find (\<lambda>c. sc_interface_id c = Some i) cs) (p # vms);
             forces = concat (map (\<lambda>c. List.map_filter (edge_force ctx orders c)
                        (filter (\<lambda>e. \<not> edge_is_intra_subnet ctx e \<and> \<not> is_vm_edge e) (sc_edges c))) members);
             x = sum_list (map fst forces); y = sum_list (map snd forces); n = length forces
         in ixy (if cluster_crosses_infra ctx cs p then 0 else if n > 0 then f32_div x n else x)
              (if n > 0 then f32_div y n else y))
       (hget (vm_clusters cs) p)"

definition inter_subnet_edges :: "'c TopologyContext \<Rightarrow> SubnetChild \<Rightarrow> Edge list" where
  "inter_subnet_edges ctx c = filter (\<lambda>e. \<not> is_vm_edge e \<and> \<not> edge_is_intra_subnet ctx e) (sc_edges c)"

definition inter_subnet_force :: "'c TopologyContext \<Rightarrow> int \<times> int \<Rightarrow> SubnetChild \<Rightarrow> Ixy \<times> bool \<times> bool" where
  \<comment> \<open>with the axes it controls, horizontal first\<close>
  "inter_subnet_force ctx orders c =
     foldl (\<lambda>(f, h, v) e.
         let handle = (if sc_interface_id c = Some (ed_source e) then source_handle e else target_handle e) in
         case edge_force ctx orders c e of
           None \<Rightarrow> (f, h, v)
         | Some (x, y) \<Rightarrow>
             if is_horizontal handle then (ixy (ix f + f32_mul x 1000) (iy f), True, v)
             else (ixy (ix f) (iy f + f32_mul y 1000), h, True))
       (ixy 0 0, False, False) (inter_subnet_edges ctx c)"

definition child_is_infra :: "'c TopologyContext \<Rightarrow> SubnetChild \<Rightarrow> bool" where
  "child_is_infra ctx c \<longleftrightarrow> (case sc_interface_id c of Some i \<Rightarrow> is_interface_infra ctx i | None \<Rightarrow> False)"

definition is_vm_provider :: "SubnetChild \<Rightarrow> bool" where
  "is_vm_provider c \<longleftrightarrow> list_ex (\<lambda>e. is_vm_edge e \<and> sc_interface_id c = Some (ed_source e)) (sc_edges c)"

definition remaining_force :: "'c TopologyContext \<Rightarrow> int \<times> int \<Rightarrow> bool \<Rightarrow> bool \<Rightarrow> SubnetChild \<Rightarrow> Ixy" where
  \<comment> \<open>of a child that is neither a machine nor a hypervisor, for the axes not yet controlled\<close>
  "remaining_force ctx orders h v c =
     foldl (\<lambda>f e.
         case (if is_vm_edge e then None else other_end c e) of
           None \<Rightarrow> f
         | Some i \<Rightarrow>
             let intra = edge_is_intra_subnet ctx e;
                 crosses = intra \<and> child_is_infra ctx c \<noteq> is_interface_infra ctx i
             in if crosses \<and> \<not> h then ixy (ix f + (if child_is_infra ctx c then 50 else -50)) (iy f)
                else if \<not> intra
                then (case subnet_force ctx orders i of
                        None \<Rightarrow> f
                      | Some (x, y) \<Rightarrow> ixy (if h then ix f else ix f + f32_mul x 1000)
                                          (if v then iy f else iy f + f32_mul y 1000))
                else f)
       (ixy 0 0) (sc_edges c)"

definition provider_force :: "'c TopologyContext \<Rightarrow> int \<times> int \<Rightarrow> SubnetChild list \<Rightarrow> bool \<Rightarrow> bool \<Rightarrow> SubnetChild \<Rightarrow> Ixy \<Rightarrow> Ixy" where
  "provider_force ctx orders cs h v c f =
     (case Option.bind (sc_interface_id c) (cluster_target ctx orders cs) of
        None \<Rightarrow> f
      | Some t \<Rightarrow>
          let crosses = (case sc_interface_id c of Some i \<Rightarrow> cluster_crosses_infra ctx cs i | None \<Rightarrow> False)
          in ixy (if h then ix f
                  else if crosses then (if child_is_infra ctx c then 500 else -500)
                  else ix f + ix t * 500)
               (if v then iy f else iy f + iy t * 500))"

definition machine_force :: "'c TopologyContext \<Rightarrow> int \<times> int \<Rightarrow> SubnetChild list \<Rightarrow> bool \<Rightarrow> bool \<Rightarrow> SubnetChild \<Rightarrow> uuid \<Rightarrow> Ixy \<Rightarrow> Ixy" where
  "machine_force ctx orders cs h v c p f =
     (case cluster_target ctx orders cs p of
        None \<Rightarrow> f
      | Some t \<Rightarrow>
          ixy (ix f + (if h then 0 else ix t * 500) +
               (if \<not> h \<and> cluster_crosses_infra ctx cs p then (if child_is_infra ctx c then 800 else -800) else 0))
            (iy f + (if v then 0 else iy t * 500)))"

definition child_force :: "'c TopologyContext \<Rightarrow> SubnetChild list \<Rightarrow> SubnetChild \<Rightarrow> Ixy" where
  "child_force ctx cs c =
     (let orders = subnet_orders ctx cs;
          (inter, h, v) = inter_subnet_force ctx orders c;
          f = (if h \<or> v then inter else ixy 0 0)
      in case Option.bind (sc_interface_id c) (hget (vm_to_provider cs)) of
           Some p \<Rightarrow> machine_force ctx orders cs h v c p f
         | None \<Rightarrow>
             if \<not> h \<or> \<not> v
             then (if is_vm_provider c then provider_force ctx orders cs h v c f
                   else (let r = remaining_force ctx orders h v c in ixy (ix f + ix r) (iy f + iy r)))
             else f)"

section \<open>The grid\<close>

type_synonym Grid = "SubnetChild option list list"

definition empty_grid :: "nat \<Rightarrow> nat \<Rightarrow> Grid" where
  "empty_grid w h = replicate h (replicate w None)"

definition grid_at :: "Grid \<Rightarrow> nat \<times> nat \<Rightarrow> SubnetChild option" where
  "grid_at g p = (g ! snd p) ! fst p"

definition grid_put :: "nat \<times> nat \<Rightarrow> SubnetChild \<Rightarrow> Grid \<Rightarrow> Grid" where
  "grid_put p c g = g[snd p := (g ! snd p)[fst p := Some c]]"

definition normalize_force :: "int \<Rightarrow> rat \<Rightarrow> rat \<Rightarrow> rat" where
  "normalize_force v lo hi =
     (if \<bar>f32 (hi - lo)\<bar> < 1 / 2 ^ 23 then 1 / 2 else f32 (f32 (f32 (of_int v) - lo) / f32 (hi - lo)))"

definition clamp_to :: "int \<Rightarrow> nat \<Rightarrow> nat" where
  \<comment> \<open>\<open>i.clamp(0, n - 1) as usize\<close>\<close>
  "clamp_to i n = nat (max 0 (min i (int n - 1)))"

definition ideal_cell :: "nat \<times> nat \<Rightarrow> rat \<times> rat \<Rightarrow> rat \<times> rat \<Rightarrow> Ixy \<Rightarrow> nat \<times> nat" where
  "ideal_cell dims xs ys f =
     (let (w, h) = dims;
          nx = normalize_force (ix f) (fst xs) (snd xs);
          ny = normalize_force (iy f) (fst ys) (snd ys)
      in (clamp_to (round_away (f32 (nx * f32 (f32 (of_nat w) - 1)))) w,
          clamp_to (round_away (f32 (f32 (1 - ny) * f32 (f32 (of_nat h) - 1)))) h))"

definition cells_at_radius :: "nat \<times> nat \<Rightarrow> nat \<times> nat \<Rightarrow> nat \<Rightarrow> (nat \<times> nat) list" where
  \<comment> \<open>the cells the two inner loops look at, in their order\<close>
  "cells_at_radius dims p r =
     concat (map (\<lambda>dy. map (\<lambda>dx. (clamp_to (int (fst p) + dx) (fst dims), clamp_to (int (snd p) + dy) (snd dims)))
         [- int r..int r]) [- int r..int r])"

definition find_slot :: "nat \<times> nat \<Rightarrow> Grid \<Rightarrow> nat \<times> nat \<Rightarrow> (nat \<times> nat) option" where
  "find_slot dims g p =
     find (\<lambda>q. grid_at g q = None) (concat (map (cells_at_radius dims p) [0..<max (fst dims) (snd dims)]))"

definition place_child ::
    "nat \<times> nat \<Rightarrow> rat \<times> rat \<Rightarrow> rat \<times> rat \<Rightarrow> Grid \<Rightarrow> SubnetChild \<times> Ixy \<Rightarrow> Grid" where
  "place_child dims xs ys g cf =
     (case find_slot dims g (ideal_cell dims xs ys (snd cf)) of
        Some p \<Rightarrow> grid_put p (fst cf) g
      | None \<Rightarrow> g)"

definition force_range :: "int list \<Rightarrow> rat \<times> rat" where
  \<comment> \<open>the extremes of a list that is not empty, as \<open>f32\<close>\<close>
  "force_range fs = (let qs = map (\<lambda>f. f32 (of_int f)) fs in (fold min qs (hd qs), fold max qs (hd qs)))"

definition force_magnitude :: "Ixy \<Rightarrow> int" where
  "force_magnitude f = max \<bar>ix f\<bar> \<bar>iy f\<bar>"

definition placement_order :: "(SubnetChild \<times> Ixy) list \<Rightarrow> (SubnetChild \<times> Ixy) list" where
  \<comment> \<open>one stable sort: hypervisors first, then the stronger forces\<close>
  "placement_order cfs =
     sort_key (\<lambda>(c, _). if is_vm_provider c then 0 else 1 :: nat) (sort_key (\<lambda>(_, f). - force_magnitude f) cfs)"

definition placed_grid :: "'c TopologyContext \<Rightarrow> SubnetChild list \<Rightarrow> Grid" where
  "placed_grid ctx cs =
     (let dims = grid_dimensions (length cs);
          forces = map (\<lambda>c. (c, child_force ctx cs c)) cs;
          xs = force_range (map (\<lambda>(_, f). ix f) forces);
          ys = force_range (map (\<lambda>(_, f). iy f) forces)
      in foldl (place_child dims xs ys) (empty_grid (fst dims) (snd dims)) (placement_order forces))"

section \<open>Pixels\<close>

definition grid_cells :: "Grid \<Rightarrow> (SubnetChild \<times> nat \<times> nat) list" where
  "grid_cells g =
     concat (map (\<lambda>(y, row). List.map_filter (\<lambda>(x, cell). map_option (\<lambda>c. (c, x, y)) cell) (enumerate 0 row))
       (enumerate 0 g))"

definition col_width :: "Grid \<Rightarrow> nat \<Rightarrow> nat" where
  "col_width g x = fold max (map (\<lambda>(c, _). ux (sc_size c)) (filter (\<lambda>(_, p). fst p = x) (grid_cells g))) 0"

definition row_height :: "Grid \<Rightarrow> nat \<Rightarrow> nat" where
  "row_height g y = fold max (map (\<lambda>(c, _). uy (sc_size c)) (filter (\<lambda>(_, p). snd p = y) (grid_cells g))) 0"

definition track_start :: "nat \<Rightarrow> (nat \<Rightarrow> nat) \<Rightarrow> nat \<Rightarrow> int" where
  \<comment> \<open>the running coordinate when a column or row is reached\<close>
  "track_start pad sizes k = int pad + sum_list (map (\<lambda>j. int (sizes j) + int pad) [0..<k])"

definition grid_layouts :: "Uxy \<Rightarrow> Grid \<Rightarrow> (uuid, NodeLayout) HashMap" where
  "grid_layouts pad g =
     foldl (\<lambda>m (c, x, y). hinsert (sc_id c)
         \<lparr>nl_size = sc_size c,
          nl_position = ixy (track_start (ux pad) (col_width g) x) (track_start (uy pad) (row_height g) y)\<rparr> m)
       [] (grid_cells g)"

definition calculate_anchor_based_positions ::
    "'c TopologyContext \<Rightarrow> SubnetChild list \<Rightarrow> Uxy \<Rightarrow> (uuid, NodeLayout) HashMap" where
  "calculate_anchor_based_positions ctx cs pad = (if cs = [] then [] else grid_layouts pad (placed_grid ctx cs))"

end
