(* ===== verification/Topology_Layout.thy ===== *)
theory Topology_Layout
  imports Topology_Edges Topology_Grid "HOL-Library.Char_ord" "HOL-Library.List_Lexorder"
begin

text \<open>
  The layout of the subnets (\<open>server/topology/service/planner\<close>): the handles of the edges of an
  interface, its node with header and size, the zones of a subnet, and the rows of subnets. The
  planner's state is the map of consolidated bridges.
\<close>

section \<open>Anchors\<close>

definition touches :: "uuid \<Rightarrow> Edge \<Rightarrow> bool" where
  "touches i e \<longleftrightarrow> ed_source e = i \<or> ed_target e = i"

definition relevant_handle :: "uuid \<Rightarrow> Edge \<Rightarrow> EdgeHandle" where
  "relevant_handle i e = (if ed_source e = i then source_handle e else target_handle e)"

definition leaving_handles :: "'c TopologyContext \<Rightarrow> uuid \<Rightarrow> Edge list \<Rightarrow> EdgeHandle list" where
  \<comment> \<open>the handles of the edges that lead to another subnet (the two crossing tests)\<close>
  "leaving_handles ctx i es =
     map (relevant_handle i)
       (filter (\<lambda>e. touches i e \<and>
          map_option subnet_id (subnet_from_interface_id ctx i) \<noteq>
          map_option subnet_id (subnet_from_interface_id ctx (if ed_source e = i then ed_target e else ed_source e))) es)"

definition would_vertical_edges_cross_middle :: "'c TopologyContext \<Rightarrow> uuid \<Rightarrow> Edge list \<Rightarrow> bool" where
  "would_vertical_edges_cross_middle ctx i es \<longleftrightarrow>
     Top \<in> set (leaving_handles ctx i es) \<and> Bottom \<in> set (leaving_handles ctx i es)"

definition would_horizontal_edges_cross_middle :: "'c TopologyContext \<Rightarrow> uuid \<Rightarrow> Edge list \<Rightarrow> bool" where
  "would_horizontal_edges_cross_middle ctx i es \<longleftrightarrow>
     LeftH \<in> set (leaving_handles ctx i es) \<and> RightH \<in> set (leaving_handles ctx i es)"

definition determine_override_handle ::
    "'c TopologyContext \<Rightarrow> EdgeHandle list \<Rightarrow> bool \<Rightarrow> uuid \<Rightarrow> Edge list \<Rightarrow> EdgeHandle option" where
  "determine_override_handle ctx handles infra i es =
     (if handles = [] then None
      else
        let many = (case subnet_from_interface_id ctx i of
                      Some s \<Rightarrow> length (filter (\<lambda>x. ib_subnet_id (interface_base x) = subnet_id s) (tc_interfaces ctx)) \<ge> 3
                    | None \<Rightarrow> False);
            top = count_list handles Top; bottom = count_list handles Bottom
        in if top > 0 \<and> bottom > 0 \<and> many \<and> would_vertical_edges_cross_middle ctx i es
           then Some (if infra then LeftH else RightH)
           else if count_list handles LeftH > 0 \<and> count_list handles RightH > 0 \<and> many \<and>
                   would_horizontal_edges_cross_middle ctx i es
           then Some (if bottom \<ge> top then Bottom else Top)
           else None)"

definition plan_anchors :: "'c TopologyContext \<Rightarrow> uuid \<Rightarrow> Edge list \<Rightarrow> Edge list \<times> Edge list" where
  \<comment> \<open>the edges of the interface, and all edges with the changed handles\<close>
  "plan_anchors ctx i es =
     (let inter = (\<lambda>e. touches i e \<and> \<not> edge_is_intra_subnet ctx e);
          handles = map (relevant_handle i) (filter inter es);
          es1 = (if filter inter es = [] then es
                 else case determine_override_handle ctx handles (is_interface_infra ctx i) i es of
                   None \<Rightarrow> es
                 | Some h \<Rightarrow> map (\<lambda>e. if inter e then e\<lparr>source_handle := h, target_handle := h\<rparr> else e) es)
      in (filter (touches i) es1, es1))"

section \<open>The header of a node\<close>

definition virtualization_header :: "'c TopologyContext \<Rightarrow> Host \<Rightarrow> Service \<Rightarrow> string" where
  "virtualization_header ctx h s =
     (let host_subnets = map (\<lambda>i. ib_subnet_id (interface_base i)) (ctx_interfaces_for_host ctx (host_id h));
          provider_subnets = map (\<lambda>i. ib_subnet_id (interface_base i))
            (List.map_filter (\<lambda>b. ctx_interface ctx (binding_interface_id b)) (bindings (service_base s)))
      in case filter (\<lambda>n. n \<in> set provider_subnets) host_subnets of
           [] \<Rightarrow> ''VM: '' @ vb_name (service_base s)
         | n # _ \<Rightarrow>
             (case find (\<lambda>i. ib_subnet_id (interface_base i) = n) (ctx_interfaces_for_host ctx (host_id h)) of
                Some i \<Rightarrow>
                  if count_list host_subnets n = 1 \<and> count_list provider_subnets n = 1
                  then (let on = (case ctx_host ctx (vb_host_id (service_base s)) of
                                    Some p \<Rightarrow> hb_name (host_base p)
                                  | None \<Rightarrow> ip_display (ib_ip_address (interface_base i)))
                        in if on = vb_name (service_base s) then ''VM: '' @ vb_name (service_base s)
                           else ''VM: '' @ vb_name (service_base s) @ '' on '' @ on)
                  else ''VM: '' @ vb_name (service_base s)
              | None \<Rightarrow> ''VM: '' @ vb_name (service_base s)))"

definition has_proper_name :: "Host \<Rightarrow> bool" where
  "has_proper_name h \<longleftrightarrow> hb_name (host_base h) \<noteq> ''Unknown Device'' \<and> hb_name (host_base h) \<noteq> []"

definition container_header :: "'c TopologyContext \<Rightarrow> Host \<Rightarrow> string option" where
  "container_header ctx h =
     (if has_proper_name h then Some (''Docker @ '' @ hb_name (host_base h))
      else map_option (\<lambda>i. ''Docker @ '' @ ip_display (ib_ip_address (interface_base i)))
        (find (\<lambda>i. case subnet_from_interface_id ctx (interface_id i) of
                Some s \<Rightarrow> sb_subnet_type (subnet_base s) \<noteq> ST_DockerBridge
              | None \<Rightarrow> False) (ctx_interfaces_for_host ctx (host_id h))))"

definition host_header :: "'c TopologyContext \<Rightarrow> Interface \<Rightarrow> Host \<Rightarrow> string option" where
  "host_header ctx i h =
     (let first_matches = (case ctx_services_for_host ctx (host_id h) of
                             s # _ \<Rightarrow> vb_name (service_base s) = hb_name (host_base h)
                           | [] \<Rightarrow> False);
          shown = filter (\<lambda>x. services_bound_to_interface ctx (interface_id x) \<noteq> [])
                    (ctx_interfaces_for_host ctx (host_id h))
      in if ip_display (ib_ip_address (interface_base i)) \<noteq> hb_name (host_base h) \<and> \<not> first_matches \<and>
            has_proper_name h \<and> length shown < 2
         then Some (hb_name (host_base h)) else None)"

definition unvirtualized_header :: "'c TopologyContext \<Rightarrow> Interface \<Rightarrow> Host \<Rightarrow> SubnetType \<Rightarrow> string option" where
  \<comment> \<open>second and third priority: a container whose host shows no node, then the host's name\<close>
  "unvirtualized_header ctx i h t =
     (let origin_shown = (case first_non_docker_bridge_interface ctx (host_id h) of
                            Some x \<Rightarrow> interface_will_have_node ctx (interface_id x) | None \<Rightarrow> False)
      in if t = ST_DockerBridge \<and> \<not> origin_shown then container_header ctx h else host_header ctx i h)"

definition determine_subnet_child_header_text ::
    "'c TopologyContext \<Rightarrow> Interface \<Rightarrow> Host \<Rightarrow> SubnetType \<Rightarrow> string option" where
  "determine_subnet_child_header_text ctx i h t =
     (case host_is_virtualized_by ctx (host_id h) of
        Some s \<Rightarrow>
          if t = ST_DockerBridge \<and> hide_vm_title_on_docker_container (request_options (tc_options ctx))
          then unvirtualized_header ctx i h t
          else Some (virtualization_header ctx h s)
      | None \<Rightarrow> unvirtualized_header ctx i h t)"

section \<open>The children of the subnets\<close>

record LayoutPlanner =
  consolidated_docker_subnets :: "(uuid, uuid list) HashMap"

definition layout_planner_new :: LayoutPlanner where
  "layout_planner_new = \<lparr>consolidated_docker_subnets = []\<rparr>"

definition hpush :: "'k \<Rightarrow> 'v \<Rightarrow> ('k, 'v list) HashMap \<Rightarrow> ('k, 'v list) HashMap" where
  \<comment> \<open>\<open>entry(k).or_default().push(v)\<close>\<close>
  "hpush k v m = hinsert k ((case hget m k of Some xs \<Rightarrow> xs | None \<Rightarrow> []) @ [v]) m"

definition services_shown_on :: "'c TopologyContext \<Rightarrow> Interface \<Rightarrow> Service list" where
  "services_shown_on ctx i =
     filter (\<lambda>s. list_ex (\<lambda>b. case binding_interface_id b of Some k \<Rightarrow> k = interface_id i | None \<Rightarrow> True)
         (bindings (service_base s))) (tc_services ctx)"

definition interface_subnet_type :: "'c TopologyContext \<Rightarrow> Interface \<Rightarrow> SubnetType" where
  "interface_subnet_type ctx i =
     (case ctx_subnet ctx (ib_subnet_id (interface_base i)) of
        Some s \<Rightarrow> sb_subnet_type (subnet_base s) | None \<Rightarrow> ST_None)"

definition subnet_child :: "'c TopologyContext \<Rightarrow> Interface \<Rightarrow> Host \<Rightarrow> Edge list \<Rightarrow> SubnetChild" where
  "subnet_child ctx i h es =
     (let header = determine_subnet_child_header_text ctx i h (interface_subnet_type ctx i) in
      \<lparr>sc_id = interface_id i, sc_header = header, sc_host_id = host_id h, sc_interface_id = Some (interface_id i),
       sc_size = subnet_child_size_from_service_count (services_shown_on ctx i) (interface_id i) (header \<noteq> None)
         (hide_ports (request_options (tc_options ctx))),
       sc_edges = es\<rparr>)"

type_synonym ChildGroups =
  "(uuid, SubnetChild list) HashMap \<times> (uuid \<times> uuid, uuid list) HashMap \<times> Edge list"

definition group_interface ::
    "'c TopologyContext \<Rightarrow> bool \<Rightarrow> (uuid, uuid) HashMap \<Rightarrow> ChildGroups \<Rightarrow> Interface \<Rightarrow> ChildGroups" where
  \<comment> \<open>one iteration of the loop over the interfaces\<close>
  "group_interface ctx grouped grouping acc i =
     (let (children, bridges, es) = acc in
      case ctx_host ctx (ib_host_id (interface_base i)) of
        None \<Rightarrow> acc
      | Some h \<Rightarrow>
          if services_shown_on ctx i = [] then acc
          else
            let (mine, es1) = plan_anchors ctx (interface_id i) es;
                child = subnet_child ctx i h mine;
                n = ib_subnet_id (interface_base i)
            in if grouped \<and> interface_subnet_type ctx i = ST_DockerBridge
               then (case hget grouping (host_id h) of
                       Some g \<Rightarrow> (hpush g child children, hpush (host_id h, g) n bridges, es1)
                     | None \<Rightarrow> (children, bridges, es1))
               else (hpush n child children, bridges, es1))"

definition group_children_by_subnet ::
    "'c TopologyContext \<Rightarrow> Edge list \<Rightarrow> bool \<Rightarrow> (uuid, uuid) HashMap \<Rightarrow> LayoutPlanner \<Rightarrow>
       (uuid, SubnetChild list) HashMap \<times> Edge list \<times> LayoutPlanner" where
  "group_children_by_subnet ctx es grouped grouping planner =
     (let (children, bridges, es1) = foldl (group_interface ctx grouped grouping) ([], [], es) (tc_interfaces ctx)
      in (children, es1,
          if grouped
          then planner\<lparr>consolidated_docker_subnets :=
                 foldl (\<lambda>m ((_, g), ns). hinsert g (remdups_adj (sort ns)) m) (consolidated_docker_subnets planner) bridges\<rparr>
          else planner))"

section \<open>The size of a subnet\<close>

definition calculate_container_size_from_layouts :: "(uuid, NodeLayout) HashMap \<Rightarrow> Uxy \<Rightarrow> Uxy" where
  "calculate_container_size_from_layouts ls pad =
     (if ls = [] then uxy (ux pad * 2) (uy pad * 2)
      else uxy (fold max (map (\<lambda>l. as_usize (ix (nl_position l) + int (ux (nl_size l)) + int (ux pad))) (hvalues ls)) 0)
               (fold max (map (\<lambda>l. as_usize (iy (nl_position l) + int (uy (nl_size l)) + int (uy pad))) (hvalues ls)) 0))"

definition child_node :: "uuid \<Rightarrow> bool \<Rightarrow> nat \<Rightarrow> (uuid, NodeLayout) HashMap \<Rightarrow> SubnetChild \<Rightarrow> Node option" where
  "child_node subnet infra offset ls c =
     map_option (\<lambda>l. \<lparr>nd_id = sc_id c, nd_type = InterfaceNode subnet (sc_host_id c) (sc_interface_id c) infra,
         nd_position = ixy (ix (nl_position l) + int offset) (iy (nl_position l)),
         nd_size = sc_size c, nd_header = sc_header c\<rparr>)
       (hget ls (sc_id c))"

definition subnet_zones :: "'c TopologyContext \<Rightarrow> uuid \<Rightarrow> SubnetChild list \<Rightarrow> SubnetChild list \<times> SubnetChild list" where
  \<comment> \<open>infrastructure and regular children\<close>
  "subnet_zones ctx subnet cs =
     (case ctx_subnet ctx subnet of
        Some s \<Rightarrow> partition (\<lambda>c. sc_interface_id c \<in> set (interfaces_with_infra_service ctx s))
                    (sort_key (\<lambda>c. uy (sc_size c)) cs)
      | None \<Rightarrow> ([], cs))"

definition zone_layout :: "'c TopologyContext \<Rightarrow> SubnetChild list \<Rightarrow> (uuid, NodeLayout) HashMap \<times> Uxy" where
  "zone_layout ctx cs =
     (if cs = [] then ([], uxy 0 0)
      else let ls = calculate_anchor_based_positions ctx cs NODE_PADDING
           in (ls, calculate_container_size_from_layouts ls NODE_PADDING))"

definition calculate_subnet_size :: "'c TopologyContext \<Rightarrow> uuid \<Rightarrow> SubnetChild list \<Rightarrow> Uxy \<times> nat \<times> Node list" where
  \<comment> \<open>the size, the width of the infrastructure zone, and the nodes the call adds\<close>
  "calculate_subnet_size ctx subnet cs =
     (let (infra, regular) = subnet_zones ctx subnet cs;
          (regular_ls, regular_size) = zone_layout ctx regular;
          (infra_ls, infra_size) = zone_layout ctx infra;
          infra_cols = card (set (map (\<lambda>l. ix (nl_position l)) (hvalues infra_ls)))
      in (uxy (ux regular_size + ux infra_size) (max (uy regular_size) (uy infra_size)), ux infra_size,
          List.map_filter (child_node subnet True 0 infra_ls) infra @
          List.map_filter (child_node subnet False (if infra_cols > 0 then ux infra_size else 0) regular_ls) regular))"

definition create_subnet_child_nodes ::
    "'c TopologyContext \<Rightarrow> Edge list \<Rightarrow> bool \<Rightarrow> (uuid, uuid) HashMap \<Rightarrow> LayoutPlanner \<Rightarrow>
       (uuid, SubnetLayout) HashMap \<times> Node list \<times> Edge list \<times> LayoutPlanner" where
  "create_subnet_child_nodes ctx es grouped grouping planner =
     (let (children, es1, planner1) = group_children_by_subnet ctx es grouped grouping planner;
          sized = map (\<lambda>(n, cs). (n, calculate_subnet_size ctx n cs)) children
      in (map (\<lambda>(n, size, infra, _). (n, \<lparr>sl_size = size, sl_infra_width = infra\<rparr>)) sized,
          concat (map (\<lambda>(_, _, _, ns). ns) sized), es1, planner1))"

section \<open>The rows of subnets\<close>

definition row_positions :: "Uxy \<Rightarrow> nat \<Rightarrow> (uuid \<times> NodeLayout) list \<Rightarrow> (uuid \<times> Ixy) list \<times> nat \<times> nat" where
  \<comment> \<open>the inner loop: positions, where the row ends, and its height\<close>
  "row_positions pad y row =
     foldl (\<lambda>(ps, x, height) (i, l). (ps @ [(i, ixy (int x) (int y))], x + ux (nl_size l) + ux pad, max height (uy (nl_size l))))
       ([], ux pad, 0) row"

definition calculate_container_size ::
    "(uuid \<times> NodeLayout) list list \<Rightarrow> Uxy \<Rightarrow> (uuid, Ixy) HashMap \<times> Uxy" where
  "calculate_container_size rows pad =
     (let (ps, _, mx, my) = foldl (\<lambda>(m, y, mx, my) row.
            if row = [] then (m, y, mx, my)
            else let (new, x, height) = row_positions pad y row; y1 = y + height + uy pad
                 in (foldl (\<lambda>m1 (i, p). hinsert i p m1) m new, y1, max mx x, max my y1))
          ([], uy pad, 0, 0) rows
      in (ps, uxy mx my))"

definition subnet_rank :: "'c Subnet list \<Rightarrow> 'c Subnet list" where
  \<comment> \<open>by layer, then by the order within the layer, then by name: three stable sorts\<close>
  "subnet_rank ss =
     sort_key (\<lambda>s. vertical_order (sb_subnet_type (subnet_base s)))
       (sort_key (\<lambda>s. horizontal_order (sb_subnet_type (subnet_base s)))
         (sort_key (\<lambda>s. sb_name (subnet_base s)) ss))"

definition subnet_rows ::
    "'c TopologyContext \<Rightarrow> (uuid, SubnetLayout) HashMap \<Rightarrow> (uuid \<times> NodeLayout) list list" where
  "subnet_rows ctx layouts =
     (let sorted = List.map_filter (\<lambda>s. map_option (\<lambda>l. (s, l)) (hget layouts (subnet_id s)))
                     (subnet_rank (tc_subnets ctx));
          layer = \<lambda>p. vertical_order (sb_subnet_type (subnet_base (fst p)))
      in map (\<lambda>v. map (\<lambda>(s, l). (subnet_id s, \<lparr>nl_size = sl_size l, nl_position = ixy 0 0\<rparr>))
                (filter (\<lambda>p. layer p = v) sorted))
           (remdups_adj (sort (map layer sorted))))"

definition create_subnet_nodes ::
    "'c CidrOps \<Rightarrow> 'c TopologyContext \<Rightarrow> LayoutPlanner \<Rightarrow> (uuid, SubnetLayout) HashMap \<Rightarrow> Node list" where
  "create_subnet_nodes C ctx planner layouts =
     (let (positions, _) = calculate_container_size (subnet_rows ctx layouts) SUBNET_PADDING in
      List.map_filter (\<lambda>(n, l).
          map_option (\<lambda>p. \<lparr>nd_id = n, nd_type = SubnetNode (sl_infra_width l), nd_position = p, nd_size = sl_size l,
              nd_header = map_option (\<lambda>ns. ''Docker Bridge: ('' @
                  str_join '', '' (map (\<lambda>s. cidr_display C (sb_cidr (subnet_base s)))
                    (filter (\<lambda>s. subnet_id s \<in> set ns) (tc_subnets ctx))) @ '')'')
                (hget (consolidated_docker_subnets planner) n)\<rparr>)
            (hget positions n)) layouts)"

end
