(* ===== verification/Child_Positioner.thy ===== *)
theory Child_Positioner
  imports Subnet_Positioner Topology_Layout
begin

text \<open>
  The children of the subnets in the optimizer
  (\<open>server/topology/service/optimizer/child_positioner.rs\<close>, \<open>main.rs\<close>): the compression of the
  columns, the handles of the edges within a subnet, the exchange of nodes within a zone, and
  the loop of the optimizer.
\<close>

section \<open>Constraints\<close>

record NodeConstraints =
  pin_top :: bool
  pin_bottom :: bool
  pin_left :: bool
  pin_right :: bool
  nc_infra :: bool

definition default_constraints :: NodeConstraints where
  "default_constraints = \<lparr>pin_top = False, pin_bottom = False, pin_left = False, pin_right = False, nc_infra = False\<rparr>"

fun pin :: "EdgeHandle \<Rightarrow> NodeConstraints \<Rightarrow> NodeConstraints" where
  "pin Top c = c\<lparr>pin_top := True\<rparr>"
| "pin Bottom c = c\<lparr>pin_bottom := True\<rparr>"
| "pin LeftH c = c\<lparr>pin_left := True\<rparr>"
| "pin RightH c = c\<lparr>pin_right := True\<rparr>"

definition hupdate :: "'k \<Rightarrow> 'v \<Rightarrow> ('v \<Rightarrow> 'v) \<Rightarrow> ('k, 'v) HashMap \<Rightarrow> ('k, 'v) HashMap" where
  \<comment> \<open>change the entry, or the given default where there is none\<close>
  "hupdate k d f m = hinsert k (f (case hget m k of Some v \<Rightarrow> v | None \<Rightarrow> d)) m"

definition build_constraint_map :: "'c TopologyContext \<Rightarrow> Node list \<Rightarrow> Edge list \<Rightarrow> (uuid, NodeConstraints) HashMap" where
  "build_constraint_map ctx ns es =
     (let zones = foldl (\<lambda>m n. case nd_type n of
              InterfaceNode _ _ _ infra \<Rightarrow> hupdate (nd_id n) default_constraints (\<lambda>c. c\<lparr>nc_infra := infra\<rparr>) m
            | SubnetNode _ \<Rightarrow> m) [] ns;
          is_child = (\<lambda>i. list_ex (\<lambda>n. nd_id n = i \<and> \<not> is_subnet_node (nd_type n)) ns);
          pin_end = (\<lambda>i h m. if is_child i then hupdate i default_constraints (pin h) m else m)
      in foldl (\<lambda>m e. if edge_is_intra_subnet ctx e then m
             else pin_end (ed_target e) (target_handle e) (pin_end (ed_source e) (source_handle e) m)) zones es)"

section \<open>Exchanging nodes\<close>

definition calculate_layout_score :: "'c TopologyContext \<Rightarrow> Node list \<Rightarrow> Edge list \<Rightarrow> (uuid, Ixy) HashMap \<Rightarrow> rat" where
  "calculate_layout_score ctx ns es subnets =
     foldl (\<lambda>score e.
         case (find_node (ed_source e) ns, find_node (ed_target e) ns) of
           (Some a, Some b) \<Rightarrow>
             (let p = get_absolute_node_center a subnets; q = get_absolute_node_center b subnets;
                  dx = f64 (of_int (ix q - ix p)); dy = f64 (of_int (iy q - iy p))
              in f64 (score + f64 (distance_f64 dx dy * (if edge_is_intra_subnet ctx e then 1 / 2 else 10))))
         | _ \<Rightarrow> score) 0 es"

definition swap_blocked :: "NodeConstraints \<Rightarrow> NodeConstraints \<Rightarrow> Ixy \<Rightarrow> Ixy \<Rightarrow> bool" where
  "swap_blocked a b p q \<longleftrightarrow>
     nc_infra a \<noteq> nc_infra b \<or>
     ix p \<noteq> ix q \<and> (pin_left a \<or> pin_right a \<or> pin_left b \<or> pin_right b) \<or>
     iy p \<noteq> iy q \<and> (pin_top a \<or> pin_bottom a \<or> pin_top b \<or> pin_bottom b)"

definition last_node :: "uuid \<Rightarrow> Node list \<Rightarrow> Node option" where
  "last_node i ns = find (\<lambda>n. nd_id n = i) (rev ns)"

definition set_positions :: "uuid \<Rightarrow> Ixy \<Rightarrow> uuid \<Rightarrow> Ixy \<Rightarrow> Node list \<Rightarrow> Node list" where
  "set_positions i p j q ns =
     map (\<lambda>n. if nd_id n = i then n\<lparr>nd_position := p\<rparr> else if nd_id n = j then n\<lparr>nd_position := q\<rparr> else n) ns"

definition try_swap ::
    "'c TopologyContext \<Rightarrow> (uuid, NodeConstraints) HashMap \<Rightarrow> Edge list \<Rightarrow> (uuid, Ixy) HashMap \<Rightarrow> rat \<Rightarrow>
       Node list \<Rightarrow> uuid \<times> uuid \<Rightarrow> Node list \<times> bool" where
  "try_swap ctx constraints es subnets tolerance ns ij =
     (let (i, j) = ij;
          a = (case hget constraints i of Some c \<Rightarrow> c | None \<Rightarrow> default_constraints);
          b = (case hget constraints j of Some c \<Rightarrow> c | None \<Rightarrow> default_constraints)
      in case (last_node i ns, if i = j then None else last_node j ns) of
           (Some m, Some n) \<Rightarrow>
             let p = nd_position m; q = nd_position n in
             if swap_blocked a b p q then (ns, False)
             else if list_ex (\<lambda>x. nd_id x \<noteq> i \<and> nd_id x \<noteq> j \<and>
                    (rectangles_overlap q (nd_size m) (nd_position x) (nd_size x) \<or>
                     rectangles_overlap p (nd_size n) (nd_position x) (nd_size x))) ns
             then (ns, False)
             else
               let ns1 = set_positions i q j p ns;
                   old = calculate_layout_score ctx ns es subnets;
                   new = calculate_layout_score ctx ns1 es subnets
               in if new < f64 (old + tolerance) then (ns1, True) else (set_positions i p j q ns1, False)
         | _ \<Rightarrow> (ns, False))"

definition try_all_swaps ::
    "'c TopologyContext \<Rightarrow> (uuid, NodeConstraints) HashMap \<Rightarrow> Edge list \<Rightarrow> (uuid, Ixy) HashMap \<Rightarrow> rat \<Rightarrow>
       uuid list \<Rightarrow> Node list \<Rightarrow> Node list" where
  "try_all_swaps ctx constraints es subnets tolerance ids ns =
     foldl (\<lambda>ns1 ij. fst (try_swap ctx constraints es subnets tolerance ns1 ij)) ns (ordered_pairs ids)"

definition swap_tolerance :: "nat \<Rightarrow> rat \<Rightarrow> rat" where
  "swap_tolerance iteration best =
     f64 (best * f64 (f64 (1 / 20) * f64 (1 - f64 (of_nat iteration / 100))))"

fun swap_rounds ::
    "nat \<Rightarrow> 'c TopologyContext \<Rightarrow> (uuid, NodeConstraints) HashMap \<Rightarrow> Edge list \<Rightarrow> (uuid, Ixy) HashMap \<Rightarrow>
       uuid list \<Rightarrow> rat \<Rightarrow> nat \<Rightarrow> Node list \<Rightarrow> Node list" where
  \<comment> \<open>the rounds that are left of \<open>MAX_ITERATIONS\<close>, the best score, the rounds without improvement\<close>
  "swap_rounds 0 ctx constraints es subnets ids best idle ns = ns"
| "swap_rounds (Suc k) ctx constraints es subnets ids best idle ns =
     (let ns1 = try_all_swaps ctx constraints es subnets (swap_tolerance (99 - k) best) ids ns;
          new = calculate_layout_score ctx ns1 es subnets;
          best1 = (if new < best then new else best);
          idle1 = (if new < best then 0 else idle + 1)
      in if idle1 \<ge> 5 then ns1 else swap_rounds k ctx constraints es subnets ids best1 idle1 ns1)"

definition zone_nodes :: "Node list \<Rightarrow> (uuid \<times> bool, uuid list) HashMap" where
  "zone_nodes ns =
     foldl (\<lambda>m n. case nd_type n of
         InterfaceNode s _ _ infra \<Rightarrow> hpush (s, infra) (nd_id n) m
       | SubnetNode _ \<Rightarrow> m) [] ns"

definition optimize_child_positions :: "'c TopologyContext \<Rightarrow> Node list \<Rightarrow> Edge list \<Rightarrow> Node list" where
  "optimize_child_positions ctx ns es =
     (let constraints = build_constraint_map ctx ns es;
          subnets = build_subnet_positions_map ns;
          inter = filter (\<lambda>e. \<not> edge_is_intra_subnet ctx e) es
      in foldl (\<lambda>ns1 (_, ids).
             if length ids < 2 then ns1
             else let zone = filter (\<lambda>e. ed_source e \<in> set ids \<or> ed_target e \<in> set ids) es @ inter
                  in swap_rounds 100 ctx constraints zone subnets ids (calculate_layout_score ctx ns1 zone subnets) 0 ns1)
           ns (zone_nodes ns))"

section \<open>Columns\<close>

definition node_columns :: "Node list \<Rightarrow> (uuid \<times> int, nat list) HashMap" where
  \<comment> \<open>subnet and horizontal coordinate to the indices of the nodes there\<close>
  "node_columns ns =
     foldl (\<lambda>m (k, n). case nd_type n of
         InterfaceNode s _ _ _ \<Rightarrow> hpush (s, ix (nd_position n)) k m
       | SubnetNode _ \<Rightarrow> m) [] (enumerate 0 ns)"

definition subnet_top :: "Node list \<Rightarrow> uuid \<Rightarrow> int" where
  \<comment> \<open>the least vertical coordinate of the nodes of a subnet, 0 where there is none\<close>
  "subnet_top ns s =
     (case List.map_filter (\<lambda>n. case nd_type n of
             InterfaceNode t _ _ _ \<Rightarrow> if t = s then Some (iy (nd_position n)) else None
           | SubnetNode _ \<Rightarrow> None) ns of
        [] \<Rightarrow> 0
      | y # ys \<Rightarrow> fold min ys y)"

fun stack_column :: "int \<Rightarrow> nat list \<Rightarrow> Node list \<Rightarrow> Node list" where
  "stack_column y [] ns = ns"
| "stack_column y (k # ks) ns =
     stack_column (y + int (uy (nd_size (ns ! k))) + int (uy NODE_PADDING)) ks (ns[k := set_y y (ns ! k)])"

definition compress_vertical_spacing :: "Node list \<Rightarrow> Node list" where
  "compress_vertical_spacing ns =
     foldl (\<lambda>ns1 ((s, _), ks). stack_column (subnet_top ns s) (sort_key (\<lambda>k. iy (nd_position (ns1 ! k))) ks) ns1)
       ns (node_columns ns)"

section \<open>Handles within a subnet\<close>

definition handle_vectors :: "rat \<Rightarrow> (EdgeHandle \<times> rat \<times> rat) list" where
  "handle_vectors scale = [(Top, 0, - scale), (Bottom, 0, scale), (LeftH, - scale, 0), (RightH, scale, 0)]"

definition handle_score :: "rat \<Rightarrow> rat \<Rightarrow> EdgeHandle \<times> rat \<times> rat \<Rightarrow> EdgeHandle \<times> rat \<times> rat \<Rightarrow> rat" where
  "handle_score rx ry s t =
     (let (sh, sx, sy) = s; (th, tx, ty) = t;
          px = f64 (f64 (rx + tx) - sx); py = f64 (f64 (ry + ty) - sy);
          aligned = (if \<bar>rx\<bar> > \<bar>ry\<bar> then is_horizontal sh \<and> is_horizontal th else is_vertical sh \<and> is_vertical th)
      in f64 (f64 (\<bar>px\<bar> + \<bar>py\<bar>) + (if aligned then 0 else f64 (1 / 10))))"

definition calculate_optimal_handles :: "Node \<Rightarrow> Node \<Rightarrow> EdgeHandle \<times> EdgeHandle" where
  "calculate_optimal_handles a b =
     (let mid_x = (\<lambda>n. ix (nd_position n) + int (ux (nd_size n) div 2));
          mid_y = (\<lambda>n. iy (nd_position n) + int (uy (nd_size n) div 2));
          rx = f64 (of_int (mid_x b - mid_x a)); ry = f64 (of_int (mid_y b - mid_y a));
          avg = f64 (of_nat ((ux (nd_size a) + uy (nd_size a) + ux (nd_size b) + uy (nd_size b)) div 4));
          vs = handle_vectors (f64 (avg * f64 (1 / 10)));
          scored = concat (map (\<lambda>s. map (\<lambda>t. ((fst s, fst t), handle_score rx ry s t)) vs) vs)
      in fst (foldl (\<lambda>best c. if snd c < snd best then c else best) (hd scored) (tl scored)))"

definition fix_intra_subnet_handles :: "'c TopologyContext \<Rightarrow> Edge list \<Rightarrow> Node list \<Rightarrow> Edge list" where
  "fix_intra_subnet_handles ctx es ns =
     map (\<lambda>e. if \<not> edge_is_intra_subnet ctx e then e
         else case (find_node (ed_source e) ns, find_node (ed_target e) ns) of
           (Some a, Some b) \<Rightarrow>
             (let (s, t) = calculate_optimal_handles a b in e\<lparr>source_handle := s, target_handle := t\<rparr>)
         | _ \<Rightarrow> e) es"

section \<open>The optimizer\<close>

definition MAX_GLOBAL_ITERATIONS :: nat where
  "MAX_GLOBAL_ITERATIONS = 20"

fun optimizer_rounds :: "nat \<Rightarrow> 'c TopologyContext \<Rightarrow> Edge list \<Rightarrow> LayoutQuality \<Rightarrow> Node list \<Rightarrow> Node list" where
  "optimizer_rounds 0 ctx es prev ns = ns"
| "optimizer_rounds (Suc k) ctx es prev ns =
     (let ns1 = optimize_subnet_positions ctx ns es;
          q = calculate_layout_quality ns1 es;
          gain = improvement_percentage q prev
      in if \<not> is_better_than q prev \<or> gain > 0 \<and> gain < f64 (1 / 10) then ns1
         else optimizer_rounds k ctx es q ns1)"

definition optimize_graph :: "'c TopologyContext \<Rightarrow> Node list \<Rightarrow> Edge list \<Rightarrow> Node list \<times> Edge list" where
  "optimize_graph ctx ns es =
     (let ns1 = optimizer_rounds MAX_GLOBAL_ITERATIONS ctx es (calculate_layout_quality ns es) ns;
          ns2 = compress_vertical_spacing (compress_horizontal_spacing ctx ns1 es)
      in (ns2, fix_intra_subnet_handles ctx es ns2))"

end
