(* ===== verification/Topology_Service.thy ===== *)
theory Topology_Service
  imports Child_Positioner
begin

text \<open>
  The construction of the graph of a network (\<open>build_graph\<close> of
  \<open>server/topology/service/main.rs\<close>): edges, layout, optimization, and the handles a user chose
  before. The stored topologies, the operations of the topology service
  (\<open>server/topology/service\<close>) and its reaction to the events of the other services. The tables
  of the other services are only read here.
\<close>

record 'c BuildGraphParams =
  bg_context :: "'c TopologyContext"
  bg_old_nodes :: "Node list"
  bg_old_edges :: "Edge list"

definition add_edges_to_graph :: "Node list \<Rightarrow> Edge list \<Rightarrow> Edge list" where
  \<comment> \<open>the edges of the petgraph: those with both ends among the nodes\<close>
  "add_edges_to_graph ns es = filter (\<lambda>e. ed_source e \<in> nd_id ` set ns \<and> ed_target e \<in> nd_id ` set ns) es"

definition outgoing :: "Edge list \<Rightarrow> uuid \<Rightarrow> nat" where
  \<comment> \<open>\<open>graph.edges(node).count()\<close> of a directed graph\<close>
  "outgoing es i = length (filter (\<lambda>e. ed_source e = i) es)"

definition old_edges_map :: "Edge list \<Rightarrow> (uuid \<times> uuid, Edge) HashMap" where
  "old_edges_map es = foldl (\<lambda>m e. hinsert (ed_source e, ed_target e) e m) [] es"

definition preserve_handles :: "Node list \<Rightarrow> Edge list \<Rightarrow> Edge list \<Rightarrow> Edge list" where
  "preserve_handles old_ns old_es es =
     (let olds = old_edges_map old_es in
      map (\<lambda>e. if ed_source e \<in> nd_id ` set old_ns \<and> outgoing old_es (ed_source e) = outgoing es (ed_source e)
             then (case hget olds (ed_source e, ed_target e) of
                     Some f \<Rightarrow> e\<lparr>source_handle := source_handle f, target_handle := target_handle f\<rparr>
                   | None \<Rightarrow> e)
             else e) es)"

definition laid_out_graph ::
    "'c CidrOps \<Rightarrow> (nat \<Rightarrow> uuid) \<Rightarrow> 'c TopologyContext \<Rightarrow> Node list \<times> Edge list" where
  \<comment> \<open>edges, children, subnets, optimizer\<close>
  "laid_out_graph C fresh ctx =
     (let (es, grouping) = all_topology_edges ctx fresh;
          (layouts, children, es1, planner) =
            create_subnet_child_nodes ctx es (group_docker_bridges_by_host (request_options (tc_options ctx)))
              grouping layout_planner_new
      in optimize_graph ctx (create_subnet_nodes C ctx planner layouts @ children) es1)"

definition build_graph :: "'c CidrOps \<Rightarrow> (nat \<Rightarrow> uuid) \<Rightarrow> 'c BuildGraphParams \<Rightarrow> Node list \<times> Edge list" where
  "build_graph C fresh p =
     (let (ns, es) = laid_out_graph C fresh (bg_context p)
      in (ns, preserve_handles (bg_old_nodes p) (add_edges_to_graph (bg_old_nodes p) (bg_old_edges p))
                (add_edges_to_graph ns es)))"

section \<open>The stored topology\<close>

record 'c TopologyBase =
  tp_name :: string
  tp_options :: TopologyOptions
  tp_network_id :: uuid
  tp_tags :: "uuid list"
  tp_parent_id :: "uuid option"
  tp_nodes :: "Node list"
  tp_edges :: "Edge list"
  tp_hosts :: "Host list"
  tp_interfaces :: "Interface list"
  tp_ports :: "Port list"
  tp_bindings :: "Binding list"
  tp_subnets :: "'c Subnet list"
  tp_services :: "Service list"
  tp_groups :: "Group list"
  tp_if_entries :: "IfEntry list"
  tp_entity_tags :: "Tag list"
  tp_is_stale :: bool
  tp_last_refreshed :: timestamp
  tp_is_locked :: bool
  tp_locked_at :: "timestamp option"
  tp_locked_by :: "uuid option"
  removed_hosts :: "uuid list"
  removed_interfaces :: "uuid list"
  removed_subnets :: "uuid list"
  removed_services :: "uuid list"
  removed_groups :: "uuid list"
  removed_ports :: "uuid list"
  removed_bindings :: "uuid list"
  removed_if_entries :: "uuid list"

record 'c Topology =
  tg_id :: uuid
  tg_created_at :: timestamp
  tg_updated_at :: timestamp
  tg_base :: "'c TopologyBase"

definition topology_base_new :: "timestamp \<Rightarrow> string \<Rightarrow> uuid \<Rightarrow> 'c TopologyBase" where
  "topology_base_new now name network =
     \<lparr>tp_name = name, tp_options = default_topology_options, tp_network_id = network, tp_tags = [],
      tp_parent_id = None, tp_nodes = [], tp_edges = [], tp_hosts = [], tp_interfaces = [], tp_ports = [],
      tp_bindings = [], tp_subnets = [], tp_services = [], tp_groups = [], tp_if_entries = [],
      tp_entity_tags = [], tp_is_stale = True, tp_last_refreshed = now, tp_is_locked = False,
      tp_locked_at = None, tp_locked_by = None, removed_hosts = [], removed_interfaces = [],
      removed_subnets = [], removed_services = [], removed_groups = [], removed_ports = [],
      removed_bindings = [], removed_if_entries = []\<rparr>"

definition topology_new :: "uuid \<Rightarrow> timestamp \<Rightarrow> 'c TopologyBase \<Rightarrow> 'c Topology" where
  "topology_new fresh now b = \<lparr>tg_id = fresh, tg_created_at = now, tg_updated_at = now, tg_base = b\<rparr>"

definition on_base :: "('c TopologyBase \<Rightarrow> 'c TopologyBase) \<Rightarrow> 'c Topology \<Rightarrow> 'c Topology" where
  "on_base f t = t\<lparr>tg_base := f (tg_base t)\<rparr>"

definition topology_lock :: "timestamp \<Rightarrow> uuid \<Rightarrow> 'c Topology \<Rightarrow> 'c Topology" where
  "topology_lock now by_user =
     on_base (\<lambda>b. b\<lparr>tp_is_locked := True, tp_locked_at := Some now, tp_locked_by := Some by_user\<rparr>)"

definition topology_unlock :: "'c Topology \<Rightarrow> 'c Topology" where
  "topology_unlock = on_base (\<lambda>b. b\<lparr>tp_is_locked := False, tp_locked_at := None, tp_locked_by := None\<rparr>)"

definition clear_stale :: "timestamp \<Rightarrow> 'c Topology \<Rightarrow> 'c Topology" where
  "clear_stale now =
     on_base (\<lambda>b. b\<lparr>removed_groups := [], removed_hosts := [], removed_interfaces := [], removed_services := [],
       removed_subnets := [], removed_bindings := [], removed_ports := [], removed_if_entries := [],
       tp_is_stale := False, tp_last_refreshed := now\<rparr>)"

record 'c SetEntitiesParams =
  se_hosts :: "Host list"
  se_services :: "Service list"
  se_subnets :: "'c Subnet list"
  se_groups :: "Group list"
  se_ports :: "Port list"
  se_bindings :: "Binding list"
  se_interfaces :: "Interface list"
  se_if_entries :: "IfEntry list"
  se_entity_tags :: "Tag list"

definition set_entities :: "'c SetEntitiesParams \<Rightarrow> 'c Topology \<Rightarrow> 'c Topology" where
  "set_entities p =
     on_base (\<lambda>b. b\<lparr>tp_hosts := se_hosts p, tp_services := se_services p, tp_subnets := se_subnets p,
       tp_groups := se_groups p, tp_ports := se_ports p, tp_bindings := se_bindings p,
       tp_interfaces := se_interfaces p, tp_if_entries := se_if_entries p, tp_entity_tags := se_entity_tags p\<rparr>)"

definition set_graph :: "Node list \<Rightarrow> Edge list \<Rightarrow> 'c Topology \<Rightarrow> 'c Topology" where
  "set_graph ns es = on_base (\<lambda>b. b\<lparr>tp_nodes := ns, tp_edges := es\<rparr>)"

definition topology_triggers_staleness :: "'c Topology \<Rightarrow> 'c Topology option \<Rightarrow> bool" where
  "topology_triggers_staleness t other =
     (case other of
        Some u \<Rightarrow> request_options (tp_options (tg_base t)) \<noteq> request_options (tp_options (tg_base u))
      | None \<Rightarrow> False)"

section \<open>The service\<close>

datatype 'c TopologyEntity = TE_Topology "'c Topology" | TE_Other EntityDiscriminants

fun topology_entity_discriminant :: "'c TopologyEntity \<Rightarrow> EntityDiscriminants" where
  "topology_entity_discriminant (TE_Topology _) = D_Topology"
| "topology_entity_discriminant (TE_Other d) = d"

record 'c EntityTables =
  et_hosts :: "Host list"
  et_interfaces :: "Interface list"
  et_subnets :: "'c Subnet list"
  et_groups :: "Group list"
  et_ports :: "Port list"
  et_bindings :: "Binding list"
  et_if_entries :: "IfEntry list"
  et_services :: "Service list"
  et_tags :: "Tag list"
  et_onboarding :: "(uuid, TelemetryOperation list) HashMap"

record 'c TopologyService =
  ts_topologies :: "(uuid, 'c Topology) HashMap"
  ts_tables :: "'c EntityTables"
  ts_bus :: "'c TopologyEntity EventBus"
  ts_staleness :: "'c Topology list"
  ts_ops :: nat

text \<open>The clock, the random ids, the CIDR library, and the answers of the database.\<close>

record 'c TopologyEnv =
  te_now :: timestamp
  te_fresh :: "nat \<Rightarrow> uuid"
  te_edge_id :: "nat \<Rightarrow> nat \<Rightarrow> uuid"
  te_cidr :: "'c CidrOps"
  te_answer :: "nat \<Rightarrow> string option"

type_synonym ('c, 'e, 'a) top_op = "'c TopologyEnv \<Rightarrow> 'c TopologyService \<Rightarrow> ('e + 'a) \<times> 'c TopologyService"

definition top_ok :: "'a \<Rightarrow> ('c, 'e, 'a) top_op" where
  "top_ok x = (\<lambda>env st. (Inr x, st))"

definition top_err :: "'e \<Rightarrow> ('c, 'e, 'a) top_op" where
  "top_err e = (\<lambda>env st. (Inl e, st))"

definition top_bind :: "('c, 'e, 'a) top_op \<Rightarrow> ('a \<Rightarrow> ('c, 'e, 'b) top_op) \<Rightarrow> ('c, 'e, 'b) top_op" where
  "top_bind m f = (\<lambda>env st. case m env st of (Inl e, st1) \<Rightarrow> (Inl e, st1) | (Inr x, st1) \<Rightarrow> f x env st1)"

fun top_each :: "('x \<Rightarrow> ('c, 'e, unit) top_op) \<Rightarrow> 'x list \<Rightarrow> ('c, 'e, unit) top_op" where
  "top_each f [] = top_ok ()"
| "top_each f (x # xs) = top_bind (f x) (\<lambda>_. top_each f xs)"

definition top_query :: "('c TopologyService \<Rightarrow> 'a) \<Rightarrow> ('c, string, 'a) top_op" where
  \<comment> \<open>one statement that reads\<close>
  "top_query q = (\<lambda>env st. let st1 = st\<lparr>ts_ops := Suc (ts_ops st)\<rparr> in
     case te_answer env (ts_ops st) of Some e \<Rightarrow> (Inl e, st1) | None \<Rightarrow> (Inr (q st1), st1))"

definition top_store :: "'c Topology \<Rightarrow> ('c, string, 'c Topology) top_op" where
  "top_store t = (\<lambda>env st. let st1 = st\<lparr>ts_ops := Suc (ts_ops st)\<rparr> in
     case te_answer env (ts_ops st) of
       Some e \<Rightarrow> (Inl e, st1)
     | None \<Rightarrow> (Inr t, st1\<lparr>ts_topologies := hinsert (tg_id t) t (ts_topologies st1)\<rparr>))"

definition top_publish :: "'c TopologyEntity Event \<Rightarrow> ('c, 'e, unit) top_op" where
  "top_publish e = (\<lambda>env st.
     (Inr (), st\<lparr>ts_bus := snd (bus_publish topology_entity_discriminant e (ts_bus st))\<rparr>))"

definition publish_topology ::
    "'c Topology \<Rightarrow> EntityOperation \<Rightarrow> Json \<Rightarrow> AuthenticatedEntity \<Rightarrow> ('c, 'e, unit) top_op" where
  "publish_topology t operation meta auth = (\<lambda>env st.
     top_publish (EntityEv
       \<lparr>ee_id = te_fresh env (ts_ops st), ee_entity_type = TE_Topology t, ee_entity_id = tg_id t,
        ee_network_id = Some (tp_network_id (tg_base t)), ee_organization_id = None,
        ee_operation = operation, ee_timestamp = te_now env, ee_authentication = auth,
        ee_metadata = meta\<rparr>) env st)"

definition topology_get_by_id :: "uuid \<Rightarrow> ('c, string, 'c Topology option) top_op" where
  "topology_get_by_id i = top_query (\<lambda>st. hget (ts_topologies st) i)"

definition topology_update :: "'c Topology \<Rightarrow> AuthenticatedEntity \<Rightarrow> ('c, string, 'c Topology) top_op" where
  \<comment> \<open>the generic \<open>update\<close>; topologies have no tag service\<close>
  "topology_update t auth =
     top_bind (topology_get_by_id (tg_id t)) (\<lambda>r.
       case r of
         None \<Rightarrow> top_err (''Could not find Topology { id: '' @ uuid_display (tg_id t) @ '', name: '' @ tp_name (tg_base t) @ '' }'')
       | Some current \<Rightarrow>
           top_bind (top_store t) (\<lambda>updated.
             top_bind (publish_topology updated Updated (crud_metadata (topology_triggers_staleness updated (Some current))) auth)
               (\<lambda>_. top_ok updated)))"

definition network_hosts :: "uuid \<Rightarrow> 'c EntityTables \<Rightarrow> Host list" where
  "network_hosts n t = filter (\<lambda>h. hb_network_id (host_base h) = n \<and> \<not> hidden (host_base h)) (et_hosts t)"

definition get_entity_data :: "uuid \<Rightarrow> ('c, string, 'c SetEntitiesParams) top_op" where
  \<comment> \<open>seven queries; services and tags are filled in by the caller\<close>
  "get_entity_data n =
     top_bind (top_query (\<lambda>st. network_hosts n (ts_tables st))) (\<lambda>hosts.
     top_bind (top_query (\<lambda>st. filter (\<lambda>i. ib_network_id (interface_base i) = n) (et_interfaces (ts_tables st)))) (\<lambda>interfaces.
     top_bind (top_query (\<lambda>st. filter (\<lambda>s. sb_network_id (subnet_base s) = n) (et_subnets (ts_tables st)))) (\<lambda>subnets.
     top_bind (top_query (\<lambda>st. filter (\<lambda>g. gb_network_id (group_base g) = n) (et_groups (ts_tables st)))) (\<lambda>groups.
     top_bind (top_query (\<lambda>st. filter (\<lambda>p. pb_network_id (port_base p) = n) (et_ports (ts_tables st)))) (\<lambda>ports.
     top_bind (top_query (\<lambda>st. filter (\<lambda>b. bb_network_id (binding_base b) = n) (et_bindings (ts_tables st)))) (\<lambda>bs.
     top_bind (top_query (\<lambda>st. filter (\<lambda>e. fb_network_id (if_entry_base e) = n) (et_if_entries (ts_tables st)))) (\<lambda>entries.
       top_ok \<lparr>se_hosts = hosts, se_services = [], se_subnets = subnets, se_groups = groups, se_ports = ports,
               se_bindings = bs, se_interfaces = interfaces, se_if_entries = entries, se_entity_tags = []\<rparr>)))))))"

definition get_service_data :: "uuid \<Rightarrow> TopologyOptions \<Rightarrow> ('c, string, Service list) top_op" where
  "get_service_data n options =
     top_query (\<lambda>st. filter (\<lambda>s. sd_category (service_definition (service_base s)) \<notin> set (hide_service_categories (request_options options)))
       (filter (\<lambda>s. vb_network_id (service_base s) = n) (et_services (ts_tables st))))"

definition get_entity_tags :: "Host list \<Rightarrow> Service list \<Rightarrow> 'c Subnet list \<Rightarrow> ('c, string, Tag list) top_op" where
  "get_entity_tags hosts services subnets =
     (let ids = concat (map (\<lambda>h. hb_tags (host_base h)) hosts) @ concat (map (\<lambda>s. vb_tags (service_base s)) services) @
                concat (map (\<lambda>s. sb_tags (subnet_base s)) subnets)
      in if ids = [] then top_ok [] else top_query (\<lambda>st. filter (\<lambda>t. tag_id t \<in> set ids) (et_tags (ts_tables st))))"

definition load_entities :: "uuid \<Rightarrow> TopologyOptions \<Rightarrow> ('c, string, 'c SetEntitiesParams) top_op" where
  \<comment> \<open>the three calls that create, refresh and rebuild share\<close>
  "load_entities n options =
     top_bind (get_entity_data n) (\<lambda>p.
     top_bind (get_service_data n options) (\<lambda>services.
     top_bind (get_entity_tags (se_hosts p) services (se_subnets p)) (\<lambda>tags.
       top_ok (p\<lparr>se_services := services, se_entity_tags := tags\<rparr>))))"

definition params_context :: "'c SetEntitiesParams \<Rightarrow> TopologyOptions \<Rightarrow> 'c TopologyContext" where
  "params_context p options =
     \<lparr>tc_hosts = se_hosts p, tc_interfaces = se_interfaces p, tc_subnets = se_subnets p, tc_services = se_services p,
      tc_groups = se_groups p, tc_ports = se_ports p, tc_bindings = se_bindings p, tc_if_entries = se_if_entries p,
      tc_options = options\<rparr>"

definition rebuilt ::
    "'c SetEntitiesParams \<Rightarrow> Node list \<Rightarrow> Edge list \<Rightarrow> 'c Topology \<Rightarrow> ('c, 'e, 'c Topology) top_op" where
  \<comment> \<open>graph, entities, and no longer stale\<close>
  "rebuilt p old_ns old_es t = (\<lambda>env st.
     let (ns, es) = build_graph (te_cidr env) (te_edge_id env (ts_ops st))
           \<lparr>bg_context = params_context p (tp_options (tg_base t)), bg_old_nodes = old_ns, bg_old_edges = old_es\<rparr>
     in top_ok (clear_stale (te_now env) (set_graph ns es (set_entities p t))) env st)"

definition topology_create :: "'c Topology \<Rightarrow> AuthenticatedEntity \<Rightarrow> ('c, string, 'c Topology) top_op" where
  "topology_create entity auth = (\<lambda>env st.
     let t = (if tg_id entity = uuid_nil then topology_new (te_fresh env (ts_ops st)) (te_now env) (tg_base entity) else entity)
     in top_bind (load_entities (tp_network_id (tg_base t)) (tp_options (tg_base t))) (\<lambda>p.
          top_bind (rebuilt p [] [] t) (\<lambda>t1.
            top_bind (top_store t1) (\<lambda>created.
              top_bind (publish_topology created Created (JObj [(''clear_stale'', JBool True)]) auth)
                (\<lambda>_. top_ok created)))) env st)"

section \<open>The reaction to events\<close>

record TopologyChanges =
  updated_kinds :: "EntityDiscriminants list"
  removed_of_kind :: "(EntityDiscriminants \<times> uuid) list"
  should_mark_stale :: bool
  tch_clear_stale :: bool

definition no_changes :: TopologyChanges where
  "no_changes = \<lparr>updated_kinds = [], removed_of_kind = [], should_mark_stale = False, tch_clear_stale = False\<rparr>"

definition tracked_kinds :: "EntityDiscriminants list" where
  \<comment> \<open>the kinds with an \<open>updated\<close> flag and a \<open>removed\<close> set\<close>
  "tracked_kinds = [D_Host, D_Interface, D_Service, D_Subnet, D_Group, D_Port, D_Binding, D_IfEntry]"

definition json_flag :: "string \<Rightarrow> Json \<Rightarrow> bool" where
  "json_flag k j = (case j of JObj kvs \<Rightarrow> map_of kvs k = Some (JBool True) | _ \<Rightarrow> False)"

definition collect_change :: "'c TopologyEntity EntityEvent \<Rightarrow> TopologyChanges \<Rightarrow> TopologyChanges" where
  "collect_change e c =
     (let d = topology_entity_discriminant (ee_entity_type e);
          c1 = (if ee_operation e = Deleted \<and> d \<in> set tracked_kinds
                then c\<lparr>removed_of_kind := List.insert (d, ee_entity_id e) (removed_of_kind c)\<rparr> else c)
      in if json_flag ''trigger_stale'' (ee_metadata e) then c1\<lparr>should_mark_stale := True\<rparr>
         else if json_flag ''clear_stale'' (ee_metadata e) then c1\<lparr>tch_clear_stale := True\<rparr>
         else if d \<in> set tracked_kinds then c1\<lparr>updated_kinds := List.insert d (updated_kinds c1)\<rparr>
         else c1)"

definition collect_event ::
    "(uuid, TopologyChanges) HashMap \<times> 'c Topology list \<Rightarrow> 'c TopologyEntity Event \<Rightarrow>
       (uuid, TopologyChanges) HashMap \<times> 'c Topology list" where
  \<comment> \<open>the changes per network, and the topologies sent on\<close>
  "collect_event acc ev =
     (let (m, sent) = acc in
      case ev of
        EntityEv e \<Rightarrow>
          (case ee_network_id e of
             Some n \<Rightarrow>
               (case (ee_entity_type e, ee_operation e) of
                  (TE_Topology t, Updated) \<Rightarrow> (m, sent @ [t])
                | _ \<Rightarrow> (hinsert n (collect_change e (case hget m n of Some c \<Rightarrow> c | None \<Rightarrow> no_changes)) m, sent))
           | None \<Rightarrow> acc)
      | _ \<Rightarrow> acc)"

definition push_missing :: "uuid list \<Rightarrow> uuid list \<Rightarrow> uuid list" where
  "push_missing xs ys = foldl (\<lambda>acc x. if x \<in> set acc then acc else acc @ [x]) xs ys"

definition removed_ids :: "TopologyChanges \<Rightarrow> EntityDiscriminants \<Rightarrow> uuid list" where
  "removed_ids c d = map snd (filter (\<lambda>p. fst p = d) (removed_of_kind c))"

definition refresh_kind :: "TopologyChanges \<Rightarrow> EntityDiscriminants \<Rightarrow> bool" where
  \<comment> \<open>updated, and nothing of the kind removed\<close>
  "refresh_kind c d \<longleftrightarrow> d \<in> set (updated_kinds c) \<and> removed_ids c d = []"

definition apply_changes :: "TopologyChanges \<Rightarrow> 'c SetEntitiesParams \<Rightarrow> Service list \<Rightarrow> 'c Topology \<Rightarrow> 'c Topology" where
  "apply_changes c p services = on_base (\<lambda>b.
     let b1 = b\<lparr>removed_hosts := push_missing (removed_hosts b) (removed_ids c D_Host),
                removed_interfaces := push_missing (removed_interfaces b) (removed_ids c D_Interface),
                removed_services := push_missing (removed_services b) (removed_ids c D_Service),
                removed_subnets := push_missing (removed_subnets b) (removed_ids c D_Subnet),
                removed_groups := push_missing (removed_groups b) (removed_ids c D_Group),
                removed_ports := push_missing (removed_ports b) (removed_ids c D_Port),
                removed_bindings := push_missing (removed_bindings b) (removed_ids c D_Binding),
                removed_if_entries := push_missing (removed_if_entries b) (removed_ids c D_IfEntry)\<rparr>;
         b2 = (if should_mark_stale c \<and> \<not> tch_clear_stale c then b1\<lparr>tp_is_stale := True\<rparr> else b1);
         b3 = (if tch_clear_stale c then b2\<lparr>tp_is_stale := False\<rparr> else b2)
     in b3\<lparr>tp_hosts := (if refresh_kind c D_Host then se_hosts p else tp_hosts b3),
           tp_interfaces := (if refresh_kind c D_Interface then se_interfaces p else tp_interfaces b3),
           tp_services := (if refresh_kind c D_Service then services else tp_services b3),
           tp_subnets := (if refresh_kind c D_Subnet then se_subnets p else tp_subnets b3),
           tp_groups := (if refresh_kind c D_Group then se_groups p else tp_groups b3),
           tp_ports := (if refresh_kind c D_Port then se_ports p else tp_ports b3),
           tp_bindings := (if refresh_kind c D_Binding then se_bindings p else tp_bindings b3),
           tp_if_entries := (if refresh_kind c D_IfEntry then se_if_entries p else tp_if_entries b3)\<rparr>)"

definition top_send :: "'c Topology list \<Rightarrow> ('c, 'e, unit) top_op" where
  "top_send ts = (\<lambda>env st. (Inr (), st\<lparr>ts_staleness := ts_staleness st @ ts\<rparr>))"

definition update_from_changes :: "TopologyChanges \<Rightarrow> uuid \<Rightarrow> 'c SetEntitiesParams \<Rightarrow> 'c Topology \<Rightarrow> ('c, string, unit) top_op" where
  "update_from_changes c n p t =
     top_bind (get_service_data n (tp_options (tg_base t))) (\<lambda>services.
     top_bind (topology_update (apply_changes c p services t) AuthSystem) (\<lambda>updated. top_send [updated]))"

definition handle_topology_events :: "'c TopologyEntity Event list \<Rightarrow> ('c, string, unit) top_op" where
  "handle_topology_events evs =
     (if evs = [] then top_ok ()
      else let (m, sent) = foldl collect_event ([], []) evs in
        top_bind (top_send sent) (\<lambda>_.
        top_each (\<lambda>(n, c).
            top_bind (top_query (\<lambda>st. filter (\<lambda>t. tp_network_id (tg_base t) = n) (hvalues (ts_topologies st)))) (\<lambda>topologies.
            top_bind (get_entity_data n) (\<lambda>p.
              top_each (update_from_changes c n p) topologies))) m))"

end
