(* ===== verification/Topology_Handlers.thy ===== *)
theory Topology_Handlers
  imports Topology_Service
begin

text \<open>
  The endpoints of the topologies (\<open>server/topology/handlers.rs\<close>). The middleware has checked that
  the caller is a member; each handler checks networks itself. An error of the service becomes
  an internal error.
\<close>

definition api_op :: "('c, string, 'a) top_op \<Rightarrow> ('c, ApiError, 'a) top_op" where
  "api_op m = (\<lambda>env st. case m env st of (Inl e, st1) \<Rightarrow> (Inl (InternalError e), st1) | (Inr x, st1) \<Rightarrow> (Inr x, st1))"

definition no_network_access :: "string \<Rightarrow> ApiError" where
  "no_network_access what = Forbidden (''You don'' @ [char_of (39::nat)] @ ''t have access to this '' @ what)"

definition topologys_network :: string where
  "topologys_network = ''topology'' @ [char_of (39::nat)] @ ''s network''"

definition existing_topology :: "uuid \<Rightarrow> ('c, ApiError, 'c Topology) top_op" where
  "existing_topology i =
     top_bind (api_op (topology_get_by_id i)) (\<lambda>r.
       case r of
         Some t \<Rightarrow> top_ok t
       | None \<Rightarrow> top_err (NotFound (''Topology '' @ uuid_display i @ '' not found'')))"

definition with_named_network :: "uuid \<Rightarrow> AuthenticatedEntity \<Rightarrow> uuid \<Rightarrow> ('c Topology \<Rightarrow> ('c, ApiError, 'a) top_op) \<Rightarrow> ('c, ApiError, 'a) top_op" where
  \<comment> \<open>the guard of the requests that name a network, and the topology they are about\<close>
  "with_named_network n auth i f =
     (if n \<notin> set (auth_network_ids auth) then top_err (no_network_access topologys_network)
      else top_bind (existing_topology i) f)"

definition topology_save :: "'c Topology \<Rightarrow> AuthenticatedEntity \<Rightarrow> ('c, ApiError, unit) top_op" where
  "topology_save t auth = top_bind (api_op (topology_update t auth)) (\<lambda>_. top_ok ())"

definition create_topology_handler :: "AuthenticatedEntity \<Rightarrow> 'c Topology \<Rightarrow> ('c, ApiError, 'c Topology) top_op" where
  "create_topology_handler auth t =
     (if tp_network_id (tg_base t) \<notin> set (auth_network_ids auth) then top_err (no_network_access ''network'')
      else if length (tp_name (tg_base t)) > 100 then top_err (BadRequest ''Topology validation failed: name: Validation error: length'')
      else top_bind (api_op (load_entities (tp_network_id (tg_base t)) (tp_options (tg_base t)))) (\<lambda>p.
             top_bind (rebuilt p [] [] t) (\<lambda>t1. api_op (topology_create t1 auth))))"

record TopologyRebuildRequest =
  rr_network_id :: uuid
  rr_options :: TopologyOptions
  rr_nodes :: "Node list"
  rr_edges :: "Edge list"

definition refresh_topology :: "AuthenticatedEntity \<Rightarrow> uuid \<Rightarrow> TopologyRebuildRequest \<Rightarrow> ('c, ApiError, unit) top_op" where
  "refresh_topology auth i r =
     with_named_network (rr_network_id r) auth i (\<lambda>t.
       let t1 = on_base (\<lambda>b. b\<lparr>tp_options := rr_options r\<rparr>) t in
       top_bind (api_op (load_entities (rr_network_id r) (rr_options r))) (\<lambda>p.
         topology_save (set_entities p t1) auth))"

definition onboarding_telemetry :: "AuthenticatedEntity \<Rightarrow> ('c, ApiError, unit) top_op" where
  \<comment> \<open>the first rebuild of an organization is reported\<close>
  "onboarding_telemetry auth =
     (case auth_organization_id auth of
        None \<Rightarrow> top_ok ()
      | Some org \<Rightarrow>
          top_bind (api_op (top_query (\<lambda>st. hget (et_onboarding (ts_tables st)) org))) (\<lambda>r.
            case r of
              Some done_ops \<Rightarrow>
                if FirstTopologyRebuild \<in> set done_ops then top_ok ()
                else (\<lambda>env st. top_publish (TelemetryEv
                       \<lparr>te_id = te_fresh env (ts_ops st), te_organization_id = org, te_operation = FirstTopologyRebuild,
                        te_timestamp = te_now env, te_authentication = auth, te_metadata = JObj []\<rparr>) env st)
            | None \<Rightarrow> top_ok ()))"

definition rebuild_topology :: "AuthenticatedEntity \<Rightarrow> uuid \<Rightarrow> TopologyRebuildRequest \<Rightarrow> ('c, ApiError, unit) top_op" where
  "rebuild_topology auth i r =
     with_named_network (rr_network_id r) auth i (\<lambda>t.
       let t1 = on_base (\<lambda>b. b\<lparr>tp_options := rr_options r\<rparr>) t in
       top_bind (api_op (load_entities (rr_network_id r) (rr_options r))) (\<lambda>p.
       top_bind (rebuilt p (rr_nodes r) (rr_edges r) t1) (\<lambda>t2.
       top_bind (topology_save t2 auth) (\<lambda>_. onboarding_telemetry auth))))"

fun update_found :: "('a \<Rightarrow> bool) \<Rightarrow> ('a \<Rightarrow> 'a) \<Rightarrow> 'a list \<Rightarrow> 'a list option" where
  \<comment> \<open>\<open>iter_mut().find(..)\<close> and change, or nothing found\<close>
  "update_found p f [] = None"
| "update_found p f (x # xs) = (if p x then Some (f x # xs) else map_option (Cons x) (update_found p f xs))"

definition change_node ::
    "uuid \<Rightarrow> AuthenticatedEntity \<Rightarrow> uuid \<Rightarrow> uuid \<Rightarrow> (Node \<Rightarrow> Node) \<Rightarrow> ('c, ApiError, unit) top_op" where
  "change_node n auth i node f =
     with_named_network n auth i (\<lambda>t.
       case update_found (\<lambda>x. nd_id x = node) f (tp_nodes (tg_base t)) of
         None \<Rightarrow> top_err (NotFound (''Node '' @ uuid_display node @ '' not found in topology''))
       | Some ns \<Rightarrow> topology_save (on_base (\<lambda>b. b\<lparr>tp_nodes := ns\<rparr>) t) auth)"

record TopologyNodePositionUpdate =
  np_network_id :: uuid
  np_node_id :: uuid
  np_position :: Ixy

definition update_node_position :: "AuthenticatedEntity \<Rightarrow> uuid \<Rightarrow> TopologyNodePositionUpdate \<Rightarrow> ('c, ApiError, unit) top_op" where
  "update_node_position auth i r =
     change_node (np_network_id r) auth i (np_node_id r) (\<lambda>x. x\<lparr>nd_position := np_position r\<rparr>)"

record TopologyNodeResizeUpdate =
  nr_network_id :: uuid
  nr_node_id :: uuid
  nr_size :: Uxy
  nr_position :: Ixy

definition update_node_resize :: "AuthenticatedEntity \<Rightarrow> uuid \<Rightarrow> TopologyNodeResizeUpdate \<Rightarrow> ('c, ApiError, unit) top_op" where
  "update_node_resize auth i r =
     change_node (nr_network_id r) auth i (nr_node_id r) (\<lambda>x. x\<lparr>nd_size := nr_size r, nd_position := nr_position r\<rparr>)"

record TopologyEdgeHandleUpdate =
  eh_network_id :: uuid
  eh_edge_id :: uuid
  eh_source_handle :: EdgeHandle
  eh_target_handle :: EdgeHandle

definition update_edge_handles :: "AuthenticatedEntity \<Rightarrow> uuid \<Rightarrow> TopologyEdgeHandleUpdate \<Rightarrow> ('c, ApiError, unit) top_op" where
  "update_edge_handles auth i r =
     with_named_network (eh_network_id r) auth i (\<lambda>t.
       case update_found (\<lambda>e. ed_id e = eh_edge_id r)
              (\<lambda>e. e\<lparr>source_handle := eh_source_handle r, target_handle := eh_target_handle r\<rparr>) (tp_edges (tg_base t)) of
         None \<Rightarrow> top_err (NotFound (''Edge '' @ uuid_display (eh_edge_id r) @ '' not found in topology''))
       | Some es \<Rightarrow> topology_save (on_base (\<lambda>b. b\<lparr>tp_edges := es\<rparr>) t) auth)"

record TopologyMetadataUpdate =
  mu_network_id :: uuid
  mu_name :: string
  mu_parent_id :: "uuid option"

definition update_topology_metadata :: "AuthenticatedEntity \<Rightarrow> uuid \<Rightarrow> TopologyMetadataUpdate \<Rightarrow> ('c, ApiError, unit) top_op" where
  "update_topology_metadata auth i r =
     with_named_network (mu_network_id r) auth i (\<lambda>t.
       topology_save (on_base (\<lambda>b. b\<lparr>tp_name := mu_name r, tp_parent_id := mu_parent_id r\<rparr>) t) auth)"

definition change_own_topology ::
    "AuthenticatedEntity \<Rightarrow> uuid \<Rightarrow> ('c Topology \<Rightarrow> 'c Topology) \<Rightarrow> ('c, ApiError, 'c Topology) top_op" where
  \<comment> \<open>the guard on the network of the stored topology\<close>
  "change_own_topology auth i f =
     top_bind (api_op (topology_get_by_id i)) (\<lambda>r.
       case r of
         None \<Rightarrow> top_err (NotFound (''Could not find topology '' @ uuid_display i))
       | Some t \<Rightarrow>
           if tp_network_id (tg_base t) \<notin> set (auth_network_ids auth) then top_err (no_network_access ''topology'')
           else api_op (topology_update (f t) auth))"

definition lock_topology :: "AuthenticatedEntity \<Rightarrow> uuid \<Rightarrow> ('c, ApiError, 'c Topology) top_op" where
  "lock_topology auth i = (\<lambda>env st.
     case auth_user_id auth of
       None \<Rightarrow> top_err (Forbidden ''User context required'') env st
     | Some u \<Rightarrow> change_own_topology auth i (topology_lock (te_now env) u) env st)"

definition unlock_topology :: "AuthenticatedEntity \<Rightarrow> uuid \<Rightarrow> ('c, ApiError, 'c Topology) top_op" where
  "unlock_topology auth i = change_own_topology auth i topology_unlock"

definition staleness_stream :: "AuthenticatedEntity \<Rightarrow> 'c Topology list \<Rightarrow> 'c Topology list" where
  \<comment> \<open>the topologies of the channel that the stream of a user emits\<close>
  "staleness_stream auth ts = filter (\<lambda>t. tp_network_id (tg_base t) \<in> set (auth_network_ids auth)) ts"

end
