(* ===== verification/Grid_Logic.thy ===== *)
theory Grid_Logic
  imports Topology_Grid
begin

text \<open>
  The placement on the grid is total and without collisions: the grid has room for every child
  in spite of the rounded root and quotient, the search reaches every cell, a child never takes
  the cell of another, and the tracks in pixels keep the cells apart.
\<close>

section \<open>Room\<close>

lemma round_to_lower:
  assumes "0 < p" "0 \<le> r"
  shows "r * (2 ^ p - 1) \<le> round_to p r * 2 ^ p"
proof -
  have "- (round_to p r - r) * 2 ^ p \<le> \<bar>round_to p r - r\<bar> * 2 ^ p" by (rule mult_right_mono) simp_all
  also have "\<dots> \<le> r" using round_to_error [OF assms(1), of r] assms(2) by simp
  finally show ?thesis by (simp add: algebra_simps)
qed

lemma round_to_upper:
  assumes "0 < p" "0 \<le> r"
  shows "round_to p r * 2 ^ p \<le> r * (2 ^ p + 1)"
proof -
  have "(round_to p r - r) * 2 ^ p \<le> \<bar>round_to p r - r\<bar> * 2 ^ p" by (rule mult_right_mono) simp_all
  also have "\<dots> \<le> r" using round_to_error [OF assms(1), of r] assms(2) by simp
  finally show ?thesis by (simp add: algebra_simps)
qed

lemma rounded_quotient_room:
  assumes "0 < w" "n < 2 ^ 52" and h: "f64 (f64 (of_nat n) / f64 (of_nat w)) \<le> of_nat h"
  shows "n \<le> w * h"
proof -
  let ?P = "2 ^ 53 :: rat" and ?N = "of_nat n :: rat" and ?w = "of_nat w :: rat" and ?h = "of_nat h :: rat"
  let ?W = "f64 ?w"
  have n: "f64 ?N = ?N" using round_to_int [of "int n" 53] assms(2) by simp
  have w: "0 < ?w" using assms(1) by simp
  have lo: "?w * (?P - 1) \<le> ?W * ?P" using round_to_lower [of 53 ?w] by simp
  then have W: "0 < ?W" using w by (simp add: zero_less_mult_iff)
  have up: "?W * ?P \<le> ?w * (?P + 1)" using round_to_upper [of 53 ?w] by simp
  have "?N / ?W * (?P - 1) \<le> f64 (?N / ?W) * ?P" using round_to_lower [of 53 "?N / ?W"] W by simp
  also have "\<dots> \<le> ?h * ?P" using h n by (intro mult_right_mono) simp_all
  finally have "?N * (?P - 1) \<le> ?h * (?W * ?P)" using W by (simp add: field_simps)
  also have "\<dots> \<le> ?h * (?w * (?P + 1))" using up by (intro mult_left_mono) simp_all
  finally have "(of_nat (n * (2 ^ 53 - 1)) :: rat) \<le> of_nat (w * h * (2 ^ 53 + 1))"
    by (simp add: algebra_simps)
  then have "n * (2 ^ 53 - 1) \<le> w * h * (2 ^ 53 + 1)" by (simp only: of_nat_le_iff)
  then have "n * 9007199254740991 \<le> (w * h) * 9007199254740993" by simp
  moreover have "n < 4503599627370496" using assms(2) by simp
  ultimately show ?thesis by linarith
qed

lemma grid_dimensions_pos: "0 < fst (grid_dimensions n)" "0 < snd (grid_dimensions n)"
  by (simp_all add: grid_dimensions_def Let_def)

lemma grid_dimensions_room:
  assumes "n < 2 ^ 52"
  shows "n \<le> fst (grid_dimensions n) * snd (grid_dimensions n)"
proof (rule rounded_quotient_room [OF grid_dimensions_pos(1) assms])
  let ?q = "f64 (f64 (of_nat n) / f64 (of_nat (fst (grid_dimensions n))))"
  have "?q \<le> of_int \<lceil>?q\<rceil>" by (rule le_of_int_ceiling)
  also have "\<dots> \<le> of_int (int (max 1 (nat \<lceil>?q\<rceil>)))" by (simp only: of_int_le_iff)
  finally show "?q \<le> of_nat (snd (grid_dimensions n))"
    by (simp only: grid_dimensions_def Let_def fst_conv snd_conv of_int_of_nat_eq)
qed

lemma pow2_mono: "a \<le> b \<Longrightarrow> pow2 a \<le> pow2 b"
proof -
  assume "a \<le> b"
  then have "pow2 b = pow2 a * 2 ^ nat (b - a)" using pow2_add_nat [of a "nat (b - a)"] by simp
  moreover have "(1 :: rat) \<le> 2 ^ nat (b - a)" by simp
  ultimately show ?thesis using mult_left_mono [of 1 "2 ^ nat (b - a)" "pow2 a"] by simp
qed

lemma pow2_add: "pow2 a * pow2 b = pow2 (a + b)"
proof (cases "0 \<le> b")
  case True
  then show ?thesis using pow2_add_nat [of a "nat b"] by (simp add: pow2_nonneg)
next
  case False
  have "pow2 (a + b) * pow2 (- b) = pow2 a" using False pow2_add_nat [of "a + b" "nat (- b)"] by (simp add: pow2_nonneg)
  then have "pow2 (a + b) * (pow2 (- b) * pow2 b) = pow2 a * pow2 b" by (simp add: mult.assoc [symmetric])
  then show ?thesis by (simp add: pow2_cancel)
qed

lemma isqrt_scaled_le:
  fixes r q :: rat
  assumes "1 \<le> r" "0 < q" "q * q \<le> r"
  shows "of_int (isqrt \<lfloor>r / (q * q)\<rfloor> + 1) * q \<le> 2 * r"
proof -
  obtain m where m: "m = isqrt \<lfloor>r / (q * q)\<rfloor>" by simp
  have s: "1 \<le> \<lfloor>r / (q * q)\<rfloor>" using assms by (simp add: le_floor_iff pos_le_divide_eq)
  then have sq: "m * m \<le> \<lfloor>r / (q * q)\<rfloor>" "0 \<le> m" "\<lfloor>r / (q * q)\<rfloor> < (m + 1) * (m + 1)"
    unfolding m by (intro isqrt_bounds; linarith)+
  have m1: "1 \<le> m"
  proof (rule ccontr)
    assume "\<not> 1 \<le> m"
    then have "m = 0" using sq(2) by simp
    then show False using sq(3) s by simp
  qed
  have "of_int (m * m) \<le> r / (q * q)" using sq(1) by (simp add: le_floor_iff)
  then have "(of_int m * q) * (of_int m * q) \<le> r" using assms(2) by (simp add: pos_le_divide_eq algebra_simps)
  also have "r \<le> r * r" using assms(1) by (simp add: mult_le_cancel_left1)
  finally have "of_int m * q \<le> r"
    using assms(1) abs_le_square_iff [of "of_int m * q" r] assms(2) m1 by (simp add: power2_eq_square)
  moreover have "of_int (m + 1) * q \<le> of_int (2 * m) * q"
    using m1 assms(2) by (intro mult_right_mono) (simp_all only: of_int_le_iff less_imp_le)
  ultimately show ?thesis by (simp add: m mult.assoc)
qed

lemma f64_sqrt_le:
  assumes "1 \<le> r" shows "f64_sqrt r \<le> 2 * r"
proof -
  let ?q = "pow2 ((floor_log2 r - 104) div 2)"
  have r: "0 < r" using assms by simp
  have "?q * ?q \<le> pow2 (floor_log2 r)" unfolding pow2_add by (rule pow2_mono) simp
  also have "\<dots> \<le> r" by (rule floor_log2_le [OF r])
  finally have q: "?q * ?q \<le> r" .
  have "f64_sqrt r \<le> of_int (isqrt \<lfloor>r / (?q * ?q)\<rfloor> + 1) * ?q"
    unfolding f64_sqrt_def Let_def using r by (simp add: mult_right_mono)
  also have "\<dots> \<le> 2 * r" by (rule isqrt_scaled_le [OF assms _ q]) simp
  finally show ?thesis .
qed

lemma grid_dimensions_le:
  assumes "0 < n" "n < 2 ^ 52"
  shows "fst (grid_dimensions n) \<le> 2 * n" "snd (grid_dimensions n) \<le> 3 * n"
proof -
  let ?N = "of_nat n :: rat"
  have N: "1 \<le> ?N" using assms(1) by (simp add: Suc_leI)
  have n: "f64 ?N = ?N" using round_to_int [of "int n" 53] assms(2) by simp
  have "f64_sqrt ?N \<le> of_int (int (2 * n))" using f64_sqrt_le [OF N] by simp
  then have "\<lceil>f64_sqrt ?N\<rceil> \<le> int (2 * n)" by (simp only: ceiling_le_iff)
  then show "fst (grid_dimensions n) \<le> 2 * n" using assms(1) by (simp add: grid_dimensions_def Let_def n)
  let ?w = "of_nat (fst (grid_dimensions n)) :: rat"
  have w: "1 \<le> ?w" using grid_dimensions_pos(1) [of n] by (metis One_nat_def Suc_leI of_nat_1 of_nat_mono)
  have "?w * (2 ^ 53 - 1) \<le> f64 ?w * 2 ^ 53" by (rule round_to_lower) (use w in simp_all)
  then have W: "1 / 2 \<le> f64 ?w" using w by simp
  have "?N / f64 ?w \<le> ?N / (1 / 2)" using N W by (intro divide_left_mono) simp_all
  then have "?N / f64 ?w * (2 ^ 53 + 1) \<le> (?N * 2) * (2 ^ 53 + 1)" by (intro mult_right_mono) simp_all
  moreover have "f64 (?N / f64 ?w) * 2 ^ 53 \<le> ?N / f64 ?w * (2 ^ 53 + 1)"
    by (rule round_to_upper) (use N W in simp_all)
  ultimately have "f64 (?N / f64 ?w) * 2 ^ 53 \<le> (?N * 2) * (2 ^ 53 + 1)" by linarith
  then have "f64 (?N / f64 ?w) \<le> 3 * ?N" using N by simp
  then have "f64 (?N / f64 ?w) \<le> of_int (int (3 * n))" by simp
  then have "\<lceil>f64 (?N / f64 ?w)\<rceil> \<le> int (3 * n)" by (simp only: ceiling_le_iff)
  moreover have "snd (grid_dimensions n) = max 1 (nat \<lceil>f64 (?N / f64 ?w)\<rceil>)"
    by (simp add: grid_dimensions_def Let_def n)
  ultimately show "snd (grid_dimensions n) \<le> 3 * n" using assms(1) by simp
qed

section \<open>The search\<close>

text \<open>The grid has its dimensions, and its occupied cells hold distinct children.\<close>

definition grid_ok :: "nat \<times> nat \<Rightarrow> Grid \<Rightarrow> bool" where
  "grid_ok dims g \<longleftrightarrow> length g = snd dims \<and> list_all (\<lambda>row. length row = fst dims) g"

definition occupied :: "nat \<times> nat \<Rightarrow> Grid \<Rightarrow> (nat \<times> nat) set" where
  "occupied dims g = {p \<in> {..<fst dims} \<times> {..<snd dims}. grid_at g p \<noteq> None}"

lemma clamp_to_less: "0 < n \<Longrightarrow> clamp_to i n < n"
  by (simp add: clamp_to_def)

lemma clamp_to_id: "k < n \<Longrightarrow> clamp_to (int k) n = k"
  by (simp add: clamp_to_def)

lemma cells_at_radius_in:
  assumes "0 < fst dims" "0 < snd dims" "q \<in> set (cells_at_radius dims p r)"
  shows "q \<in> {..<fst dims} \<times> {..<snd dims}"
  using assms by (auto simp: cells_at_radius_def clamp_to_less)

lemma cells_at_radius_mem:
  assumes "\<bar>dx\<bar> \<le> int r" "\<bar>dy\<bar> \<le> int r"
  shows "(clamp_to (int (fst p) + dx) (fst dims), clamp_to (int (snd p) + dy) (snd dims)) \<in> set (cells_at_radius dims p r)"
proof -
  have dx: "dx \<in> set [- int r..int r]" and dy: "dy \<in> set [- int r..int r]" using assms by auto
  show ?thesis
    unfolding cells_at_radius_def set_concat set_map image_image by (rule UN_I [OF dy]) (rule imageI [OF dx])
qed

lemma cell_within_radius:
  assumes "q \<in> {..<fst dims} \<times> {..<snd dims}" "p \<in> {..<fst dims} \<times> {..<snd dims}"
  shows "q \<in> set (concat (map (cells_at_radius dims p) [0..<max (fst dims) (snd dims)]))"
proof -
  let ?r = "max (fst dims) (snd dims) - 1"
  have "q = (clamp_to (int (fst p) + (int (fst q) - int (fst p))) (fst dims),
             clamp_to (int (snd p) + (int (snd q) - int (snd p))) (snd dims))"
    using assms by (cases q) (simp add: clamp_to_id)
  moreover have "\<bar>int (fst q) - int (fst p)\<bar> \<le> int ?r" "\<bar>int (snd q) - int (snd p)\<bar> \<le> int ?r"
    using assms by (auto simp: mem_Times_iff)
  ultimately have "q \<in> set (cells_at_radius dims p ?r)" using cells_at_radius_mem by metis
  moreover have "?r \<in> set [0..<max (fst dims) (snd dims)]" using assms by (auto simp: mem_Times_iff)
  ultimately show ?thesis by (auto simp del: upt_Suc)
qed

lemma find_Some_in: "find P xs = Some x \<Longrightarrow> x \<in> set xs \<and> P x"
  by (auto simp: find_Some_iff)

lemma find_slot_free:
  assumes "0 < fst dims" "0 < snd dims" "find_slot dims g p = Some q"
  shows "q \<in> {..<fst dims} \<times> {..<snd dims} - occupied dims g"
proof -
  have "q \<in> set (concat (map (cells_at_radius dims p) [0..<max (fst dims) (snd dims)]))" "grid_at g q = None"
    using find_Some_in [OF assms(3) [unfolded find_slot_def]] by simp_all
  then show ?thesis using cells_at_radius_in [OF assms(1, 2)] unfolding occupied_def set_concat set_map by blast
qed

lemma find_slot_complete:
  assumes "p \<in> {..<fst dims} \<times> {..<snd dims}" "occupied dims g \<noteq> {..<fst dims} \<times> {..<snd dims}"
  shows "\<exists>q. find_slot dims g p = Some q"
proof -
  obtain q where q: "q \<in> {..<fst dims} \<times> {..<snd dims}" "grid_at g q = None"
    using assms(2) by (auto simp: occupied_def)
  then have "find_slot dims g p \<noteq> None"
    using cell_within_radius [OF q(1) assms(1)] unfolding find_slot_def find_None_iff by blast
  then show ?thesis by simp
qed

section \<open>The children placed\<close>

lemma grid_at_put:
  assumes "grid_ok dims g" "p \<in> {..<fst dims} \<times> {..<snd dims}" "q \<in> {..<fst dims} \<times> {..<snd dims}"
  shows "grid_at (grid_put q c g) p = (if p = q then Some c else grid_at g p)"
  using assms by (cases p; cases q) (auto simp: grid_at_def grid_put_def grid_ok_def list_all_length nth_list_update)

lemma grid_ok_put: "grid_ok dims g \<Longrightarrow> snd q < snd dims \<Longrightarrow> grid_ok dims (grid_put q c g)"
  unfolding grid_ok_def grid_put_def list_all_length by (simp add: nth_list_update)

lemma grid_ok_empty: "grid_ok dims (empty_grid (fst dims) (snd dims))"
  by (simp add: grid_ok_def empty_grid_def list_all_length)

lemma occupied_empty: "occupied dims (empty_grid (fst dims) (snd dims)) = {}"
  unfolding occupied_def empty_grid_def grid_at_def by (auto split: if_splits)

text \<open>The grid holds exactly the given children, each once.\<close>

definition grid_holds :: "nat \<times> nat \<Rightarrow> Grid \<Rightarrow> SubnetChild list \<Rightarrow> bool" where
  "grid_holds dims g cs \<longleftrightarrow>
     grid_ok dims g \<and> distinct cs \<and> bij_betw (\<lambda>p. the (grid_at g p)) (occupied dims g) (set cs)"

lemma occupied_put:
  assumes "grid_ok dims g" "q \<in> {..<fst dims} \<times> {..<snd dims}"
  shows "occupied dims (grid_put q c g) = insert q (occupied dims g)"
proof (rule set_eqI)
  fix p
  show "p \<in> occupied dims (grid_put q c g) \<longleftrightarrow> p \<in> insert q (occupied dims g)"
    by (cases "p \<in> {..<fst dims} \<times> {..<snd dims}")
      (use assms(2) grid_at_put [OF assms(1) _ assms(2), of p c] in \<open>simp_all add: occupied_def, blast\<close>)
qed

lemma grid_holds_put:
  assumes "grid_holds dims g cs" "q \<in> {..<fst dims} \<times> {..<snd dims} - occupied dims g" "c \<notin> set cs"
  shows "grid_holds dims (grid_put q c g) (c # cs)"
proof -
  let ?v = "\<lambda>p. the (grid_at (grid_put q c g) p)"
  have ok: "grid_ok dims g" and q: "q \<in> {..<fst dims} \<times> {..<snd dims}" and free: "q \<notin> occupied dims g"
    and d: "distinct cs" and bij: "bij_betw (\<lambda>p. the (grid_at g p)) (occupied dims g) (set cs)"
    using assms by (auto simp: grid_holds_def simp del: mem_Times_iff)
  have same: "?v p = the (grid_at g p)" if "p \<in> occupied dims g" for p
    using that free grid_at_put [OF ok _ q] by (auto simp: occupied_def simp del: mem_Times_iff)
  have "bij_betw ?v (occupied dims g) (set cs)"
    using bij by (subst bij_betw_cong [OF same]) simp_all
  moreover have "?v q = c" using grid_at_put [OF ok q q] by simp
  ultimately have "bij_betw ?v (insert q (occupied dims g)) (insert c (set cs))"
    using free assms(3) notIn_Un_bij_betw [of q "occupied dims g" ?v "set cs"] by simp
  moreover have "snd q < snd dims" using q by (cases q) simp
  ultimately show ?thesis
    using ok d assms(3) by (simp add: grid_holds_def occupied_put [OF ok q] grid_ok_put)
qed

lemma grid_holds_room:
  assumes "grid_holds dims g cs" "length cs < fst dims * snd dims"
  shows "occupied dims g \<noteq> {..<fst dims} \<times> {..<snd dims}"
proof
  assume full: "occupied dims g = {..<fst dims} \<times> {..<snd dims}"
  have "card (occupied dims g) = length cs"
    using assms(1) by (auto simp: grid_holds_def bij_betw_same_card distinct_card)
  then show False using assms(2) full by (simp add: card_cartesian_product)
qed

lemma place_child_holds:
  assumes "grid_holds dims g cs" "length cs < fst dims * snd dims" "fst cf \<notin> set cs"
  shows "grid_holds dims (place_child dims xs ys g cf) (fst cf # cs)"
proof -
  let ?p = "ideal_cell dims xs ys (snd cf)"
  have pos: "0 < fst dims" "0 < snd dims" using assms(2) by (auto intro: Nat.gr0I)
  then have "?p \<in> {..<fst dims} \<times> {..<snd dims}" by (cases dims) (simp add: ideal_cell_def Let_def clamp_to_less)
  then obtain q where q: "find_slot dims g ?p = Some q"
    using find_slot_complete [OF _ grid_holds_room [OF assms(1, 2)]] by meson
  then show ?thesis
    using grid_holds_put [OF assms(1) find_slot_free [OF pos q] assms(3)] by (simp add: place_child_def)
qed

lemma place_children_holds:
  assumes "grid_holds dims g cs" "length cs + length cfs \<le> fst dims * snd dims"
    "distinct (map fst cfs)" "set (map fst cfs) \<inter> set cs = {}"
  shows "\<exists>ds. set ds = set cs \<union> set (map fst cfs) \<and> grid_holds dims (foldl (place_child dims xs ys) g cfs) ds"
  using assms
proof (induction cfs arbitrary: g cs)
  case Nil
  then show ?case by auto
next
  case (Cons cf cfs)
  have step: "grid_holds dims (place_child dims xs ys g cf) (fst cf # cs)"
    using Cons.prems by (intro place_child_holds) auto
  have "\<exists>ds. set ds = set (fst cf # cs) \<union> set (map fst cfs) \<and>
      grid_holds dims (foldl (place_child dims xs ys) (place_child dims xs ys g cf) cfs) ds"
    by (rule Cons.IH [OF step]) (use Cons.prems in auto)
  then show ?case by simp
qed

lemma set_placement_order [simp]: "set (placement_order cfs) = set cfs"
  by (simp add: placement_order_def)

lemma distinct_order: "distinct (placement_order cfs) = distinct cfs"
  by (simp add: placement_order_def)

lemma distinct_placement_order: "distinct (map fst cfs) \<Longrightarrow> distinct (map fst (placement_order cfs))"
  by (simp only: distinct_map set_placement_order distinct_order)

lemma placed_grid_holds:
  assumes "distinct cs" "length cs < 2 ^ 52"
  shows "\<exists>ds. set ds = set cs \<and> grid_holds (grid_dimensions (length cs)) (placed_grid ctx cs) ds"
proof -
  let ?d = "grid_dimensions (length cs)" and ?cfs = "map (\<lambda>c. (c, child_force ctx cs c)) cs"
  let ?xs = "force_range (map (\<lambda>(_, f). ix f) ?cfs)" and ?ys = "force_range (map (\<lambda>(_, f). iy f) ?cfs)"
  have "grid_holds ?d (empty_grid (fst ?d) (snd ?d)) []"
    by (simp add: grid_holds_def grid_ok_empty occupied_empty bij_betw_def)
  moreover have "length (placement_order ?cfs) = length cs" by (simp add: placement_order_def)
  moreover have "distinct (map fst (placement_order ?cfs))"
    by (rule distinct_placement_order) (simp add: comp_def assms(1))
  ultimately have "\<exists>ds. set ds = set (map fst (placement_order ?cfs)) \<and> grid_holds ?d
      (foldl (place_child ?d ?xs ?ys) (empty_grid (fst ?d) (snd ?d)) (placement_order ?cfs)) ds"
    using place_children_holds [of ?d _ "[]" "placement_order ?cfs" ?xs ?ys] grid_dimensions_room [OF assms(2)]
    by simp
  then show ?thesis by (simp add: placed_grid_def Let_def image_image)
qed


section \<open>The cells\<close>

lemma set_map_filter: "set (List.map_filter f xs) = {y. \<exists>x\<in>set xs. f x = Some y}"
  by (induction xs) (auto split: option.splits)

lemma mem_grid_cells:
  assumes "grid_ok dims g"
  shows "(c, x, y) \<in> set (grid_cells g) \<longleftrightarrow> (x, y) \<in> occupied dims g \<and> the (grid_at g (x, y)) = c"
proof -
  have "(c, x, y) \<in> set (grid_cells g) \<longleftrightarrow> y < length g \<and> x < length (g ! y) \<and> g ! y ! x = Some c"
    by (auto simp: grid_cells_def set_map_filter in_set_enumerate_eq Bex_def)
  then show ?thesis using assms by (auto simp: occupied_def grid_ok_def list_all_length grid_at_def)
qed

lemma fold_max_mem: "n \<in> set ns \<Longrightarrow> (n :: nat) \<le> fold max ns k"
  by (metis List.finite_set Max.set_eq_fold Max_ge insertI2 list.simps(15) finite_insert)

lemma col_width_ge: "(c, x, y) \<in> set (grid_cells g) \<Longrightarrow> ux (sc_size c) \<le> col_width g x"
  unfolding col_width_def by (rule fold_max_mem) force

lemma row_height_ge: "(c, x, y) \<in> set (grid_cells g) \<Longrightarrow> uy (sc_size c) \<le> row_height g y"
  unfolding row_height_def by (rule fold_max_mem) force

lemma track_start_ge: "int pad \<le> track_start pad sizes k"
  by (induction k) (simp_all add: track_start_def)

lemma track_start_step: "j < k \<Longrightarrow> track_start pad sizes j + int (sizes j) + int pad \<le> track_start pad sizes k"
proof (induction k)
  case (Suc k)
  have "track_start pad sizes (Suc k) = track_start pad sizes k + int (sizes k) + int pad"
    by (simp add: track_start_def)
  then show ?case using Suc by (cases "j = k") auto
qed simp

lemma track_start_le:
  assumes "\<And>j. sizes j \<le> m" shows "track_start pad sizes k \<le> int pad + int k * (int m + int pad)"
proof (induction k)
  case (Suc k)
  have "int (sizes k) \<le> int m" using assms [of k] by simp
  with Suc show ?case by (simp add: track_start_def distrib_right)
qed (simp add: track_start_def)

lemma fold_max_le: "(k :: nat) \<le> m \<Longrightarrow> list_all (\<lambda>n. n \<le> m) ns \<Longrightarrow> fold max ns k \<le> m"
  by (induction ns arbitrary: k) simp_all

lemma col_width_le: "(\<And>c p. (c, p) \<in> set (grid_cells g) \<Longrightarrow> ux (sc_size c) \<le> m) \<Longrightarrow> col_width g x \<le> m"
  unfolding col_width_def by (rule fold_max_le) (auto simp: list_all_iff)

lemma row_height_le: "(\<And>c p. (c, p) \<in> set (grid_cells g) \<Longrightarrow> uy (sc_size c) \<le> m) \<Longrightarrow> row_height g y \<le> m"
  unfolding row_height_def by (rule fold_max_le) (auto simp: list_all_iff)

lemma hget_foldl_hinsert:
  assumes "e \<in> set es" "\<And>a. a \<in> set es \<Longrightarrow> k a = k e \<Longrightarrow> v a = v e"
  shows "hget (foldl (\<lambda>m a. hinsert (k a) (v a) m) m0 es) (k e) = Some (v e)"
  using assms
proof (induction es rule: rev_induct)
  case (snoc a es)
  show ?case
  proof (cases "k a = k e")
    case True
    then have "v a = v e" by (intro snoc.prems(2)) simp_all
    then show ?thesis using True by (simp add: hget_laws)
  next
    case False
    then have "e \<in> set es" using snoc.prems(1) by auto
    then have "hget (foldl (\<lambda>m a. hinsert (k a) (v a) m) m0 es) (k e) = Some (v e)"
      by (rule snoc.IH) (simp add: snoc.prems(2))
    then show ?thesis using False by (simp add: hget_laws)
  qed
qed simp

text \<open>Where a child of a grid lies in pixels.\<close>

definition cell_layout :: "Uxy \<Rightarrow> Grid \<Rightarrow> SubnetChild \<Rightarrow> nat \<times> nat \<Rightarrow> NodeLayout" where
  "cell_layout pad g c p =
     \<lparr>nl_size = sc_size c,
      nl_position = ixy (track_start (ux pad) (col_width g) (fst p)) (track_start (uy pad) (row_height g) (snd p))\<rparr>"

lemma hget_grid_layouts:
  assumes "(c, p) \<in> set (grid_cells g)" "\<And>d q. (d, q) \<in> set (grid_cells g) \<Longrightarrow> sc_id d = sc_id c \<Longrightarrow> d = c \<and> q = p"
  shows "hget (grid_layouts pad g) (sc_id c) = Some (cell_layout pad g c p)"
proof -
  let ?k = "\<lambda>e. sc_id (fst e)" and ?v = "\<lambda>e. cell_layout pad g (fst e) (snd e)"
  have "grid_layouts pad g = foldl (\<lambda>m e. hinsert (?k e) (?v e) m) [] (grid_cells g)"
    unfolding grid_layouts_def by (intro foldl_cong) (auto simp: cell_layout_def split: prod.splits)
  then show ?thesis
    using hget_foldl_hinsert [of "(c, p)" "grid_cells g" ?k ?v "[]"] assms by fastforce
qed

text \<open>Every child has a cell of its own.\<close>

lemma child_cell:
  assumes "distinct (map sc_id cs)" "length cs < 2 ^ 52" "c \<in> set cs"
  shows "\<exists>p. (c, p) \<in> set (grid_cells (placed_grid ctx cs)) \<and> fst p < 2 * length cs \<and> snd p < 3 * length cs \<and>
           (\<forall>d q. (d, q) \<in> set (grid_cells (placed_grid ctx cs)) \<longrightarrow> d \<in> set cs \<and> (sc_id d = sc_id c \<longrightarrow> d = c \<and> q = p))"
proof -
  let ?g = "placed_grid ctx cs" and ?d = "grid_dimensions (length cs)"
  obtain ds where "set ds = set cs" "grid_holds ?d ?g ds"
    using placed_grid_holds assms(1, 2) by (metis distinct_map)
  then have ok: "grid_ok ?d ?g" and bij: "bij_betw (\<lambda>p. the (grid_at ?g p)) (occupied ?d ?g) (set cs)"
    by (simp_all add: grid_holds_def)
  note mem = mem_grid_cells [OF ok]
  obtain p where p: "p \<in> occupied ?d ?g" "the (grid_at ?g p) = c"
    using bij assms(3) unfolding bij_betw_def by (metis (no_types, lifting) imageE)
  have one: "d \<in> set cs \<and> (sc_id d = sc_id c \<longrightarrow> d = c \<and> q = p)" if "(d, q) \<in> set (grid_cells ?g)" for d q
  proof -
    have q: "q \<in> occupied ?d ?g" "the (grid_at ?g q) = d" using that mem by (cases q, simp)+
    then have "d \<in> set cs" using bij by (auto simp: bij_betw_def)
    moreover have "sc_id d = sc_id c \<longrightarrow> d = c"
      using assms(1, 3) \<open>d \<in> set cs\<close> by (auto simp: distinct_map dest: inj_onD)
    moreover have "d = c \<longrightarrow> q = p" using q p bij by (auto simp: bij_betw_def dest: inj_onD)
    ultimately show ?thesis by blast
  qed
  have "fst p < fst ?d" "snd p < snd ?d" using p(1) by (auto simp: occupied_def)
  moreover have "fst ?d \<le> 2 * length cs" "snd ?d \<le> 3 * length cs"
    using grid_dimensions_le [of "length cs"] assms(2, 3) by (cases cs; simp)+
  ultimately have "fst p < 2 * length cs" "snd p < 3 * length cs" by linarith+
  moreover have "(c, p) \<in> set (grid_cells ?g)" using p mem by (cases p) simp
  ultimately show ?thesis using one by blast
qed

text \<open>Two rectangles with the padding between them, on one of the axes.\<close>

definition layouts_apart :: "Uxy \<Rightarrow> NodeLayout \<Rightarrow> NodeLayout \<Rightarrow> bool" where
  "layouts_apart pad l m \<longleftrightarrow>
     (let p = nl_position l; q = nl_position m; a = nl_size l; b = nl_size m in
      ix p + int (ux a) + int (ux pad) \<le> ix q \<or> ix q + int (ux b) + int (ux pad) \<le> ix p \<or>
      iy p + int (uy a) + int (uy pad) \<le> iy q \<or> iy q + int (uy b) + int (uy pad) \<le> iy p)"

lemma tracks_apart:
  assumes "j \<noteq> k" "a \<le> sizes j" "b \<le> sizes k"
  shows "track_start pad sizes j + int a + int pad \<le> track_start pad sizes k \<or>
         track_start pad sizes k + int b + int pad \<le> track_start pad sizes j"
  using assms track_start_step [of j k pad sizes] track_start_step [of k j pad sizes] by linarith

lemma cell_layouts_apart:
  assumes "(c, p) \<in> set (grid_cells g)" "(d, q) \<in> set (grid_cells g)" "p \<noteq> q"
  shows "layouts_apart pad (cell_layout pad g c p) (cell_layout pad g d q)"
proof -
  obtain x y where p: "p = (x, y)" by (cases p)
  obtain u v where q: "q = (u, v)" by (cases q)
  have w: "ux (sc_size c) \<le> col_width g x" "ux (sc_size d) \<le> col_width g u"
    and h: "uy (sc_size c) \<le> row_height g y" "uy (sc_size d) \<le> row_height g v"
    using assms(1, 2) p q col_width_ge row_height_ge by blast+
  have "x \<noteq> u \<or> y \<noteq> v" using assms(3) p q by simp
  then show ?thesis
    using tracks_apart [of x u _ "col_width g" _ "ux pad", OF _ w] tracks_apart [of y v _ "row_height g" _ "uy pad", OF _ h]
    by (auto simp: layouts_apart_def cell_layout_def Let_def p q ixy_def)
qed

lemma cell_layout_inside: "int (ux pad) \<le> ix (nl_position (cell_layout pad g c p))" "int (uy pad) \<le> iy (nl_position (cell_layout pad g c p))"
  by (simp_all add: cell_layout_def ixy_def track_start_ge)

lemma cell_layout_size [simp]: "nl_size (cell_layout pad g c p) = sc_size c"
  by (simp add: cell_layout_def)

lemma children_placed:
  assumes "distinct (map sc_id cs)" "length cs < 2 ^ 52" "c \<in> set cs" "d \<in> set cs"
  shows "\<exists>l m. hget (calculate_anchor_based_positions ctx cs pad) (sc_id c) = Some l \<and>
           hget (calculate_anchor_based_positions ctx cs pad) (sc_id d) = Some m \<and>
           nl_size l = sc_size c \<and> int (ux pad) \<le> ix (nl_position l) \<and> int (uy pad) \<le> iy (nl_position l) \<and>
           (c = d \<or> layouts_apart pad l m)"
proof -
  let ?g = "placed_grid ctx cs"
  obtain p where p: "(c, p) \<in> set (grid_cells ?g)"
    and one: "\<And>e r. (e, r) \<in> set (grid_cells ?g) \<Longrightarrow> sc_id e = sc_id c \<Longrightarrow> e = c \<and> r = p"
    using child_cell [OF assms(1-3), of ctx] by blast
  obtain q where q: "(d, q) \<in> set (grid_cells ?g)"
    and two: "\<And>e r. (e, r) \<in> set (grid_cells ?g) \<Longrightarrow> sc_id e = sc_id d \<Longrightarrow> e = d \<and> r = q"
    using child_cell [OF assms(1, 2, 4), of ctx] by blast
  have eq: "calculate_anchor_based_positions ctx cs pad = grid_layouts pad ?g"
    using assms(3) by (auto simp: calculate_anchor_based_positions_def)
  have "c = d \<or> p \<noteq> q"
  proof (rule disjCI)
    assume "\<not> p \<noteq> q"
    obtain ds where "grid_ok (grid_dimensions (length cs)) ?g"
      using placed_grid_holds [of cs ctx] assms(1, 2) by (auto simp: grid_holds_def distinct_map)
    from mem_grid_cells [OF this] p q \<open>\<not> p \<noteq> q\<close> show "c = d" by (cases p) auto
  qed
  then show ?thesis
    using hget_grid_layouts [OF p one, of pad] hget_grid_layouts [OF q two, of pad] cell_layouts_apart [OF p q, of pad]
    by (auto simp: eq cell_layout_inside)
qed

text \<open>The coordinates stay small where the children are few and small.\<close>

lemma children_small:
  assumes "distinct (map sc_id cs)" "length cs \<le> 2 ^ 20" "c \<in> set cs" "ux pad \<le> 2 ^ 31" "uy pad \<le> 2 ^ 31"
    "list_all (\<lambda>c. ux (sc_size c) \<le> 2 ^ 31 \<and> uy (sc_size c) \<le> 2 ^ 31) cs"
    "hget (calculate_anchor_based_positions ctx cs pad) (sc_id c) = Some l"
  shows "ix (nl_position l) \<le> 2 ^ 60" "iy (nl_position l) \<le> 2 ^ 60"
proof -
  let ?g = "placed_grid ctx cs"
  have n: "length cs < 2 ^ 52" using assms(2) by simp
  obtain p where p: "(c, p) \<in> set (grid_cells ?g)" "fst p < 2 * length cs" "snd p < 3 * length cs"
    and one: "\<And>e r. (e, r) \<in> set (grid_cells ?g) \<Longrightarrow> sc_id e = sc_id c \<Longrightarrow> e = c \<and> r = p"
    and mem: "\<And>e r. (e, r) \<in> set (grid_cells ?g) \<Longrightarrow> e \<in> set cs"
    using child_cell [OF assms(1) n assms(3), of ctx] by blast
  have l: "l = cell_layout pad ?g c p"
    using hget_grid_layouts [OF p(1) one, of pad] assms(3, 7)
    by (auto simp: calculate_anchor_based_positions_def split: if_splits)
  have w: "col_width ?g x \<le> 2 ^ 31" and h: "row_height ?g x \<le> 2 ^ 31" for x
    using assms(6) mem by (auto simp: list_all_iff intro!: col_width_le row_height_le)
  have bound: "int q + int k * (int (2 ^ 31) + int q) \<le> 2 ^ 60" if "k < 3 * 2 ^ 20" "q \<le> 2 ^ 31" for k q :: nat
  proof -
    have "int k * (int (2 ^ 31) + int q) \<le> (3 * 2 ^ 20) * (2 ^ 32)" using that by (intro mult_mono) simp_all
    then show ?thesis using that by simp
  qed
  show "ix (nl_position l) \<le> 2 ^ 60"
    using track_start_le [of "col_width ?g", OF w, of "ux pad" "fst p"] bound [of "fst p" "ux pad"] p(2) assms(2, 4)
    by (simp add: l cell_layout_def)
  show "iy (nl_position l) \<le> 2 ^ 60"
    using track_start_le [of "row_height ?g", OF h, of "uy pad" "snd p"] bound [of "snd p" "uy pad"] p(3) assms(2, 5)
    by (simp add: l cell_layout_def)
qed

text \<open>A child without edges, on a context without entities.\<close>

definition demo_grid_context :: "unit TopologyContext" where
  "demo_grid_context =
     \<lparr>tc_hosts = [], tc_interfaces = [], tc_subnets = [], tc_services = [], tc_groups = [], tc_ports = [],
      tc_bindings = [], tc_if_entries = [], tc_options = default_topology_options\<rparr>"

definition demo_child :: "uuid \<Rightarrow> nat \<Rightarrow> SubnetChild" where
  "demo_child i h =
     \<lparr>sc_id = i, sc_header = None, sc_host_id = 9, sc_interface_id = Some i,
      sc_size = \<lparr>ux = 250, uy = h\<rparr>, sc_edges = []\<rparr>"

end
