(* ===== verification/Topology_Claims.thy ===== *)
theory Topology_Claims
  imports Topology_Handlers Grid_Logic
begin

text \<open>
  Properties of the topology service and its endpoints: what a run of a call that no statement
  refuses does to the stored topologies, which guards the endpoints have, and how a batch of
  events changes the topologies of a network.
\<close>

section \<open>Runs that the database does not refuse\<close>

definition top_runs ::
    "('c, 'e, 'a) top_op \<Rightarrow> 'c TopologyEnv \<Rightarrow> 'c TopologyService \<Rightarrow> 'a \<Rightarrow> (uuid, 'c Topology) HashMap \<Rightarrow> bool" where
  "top_runs m env st x tops \<longleftrightarrow>
     (\<exists>st1. m env st = (Inr x, st1) \<and> ts_topologies st1 = tops \<and> ts_tables st1 = ts_tables st)"

named_theorems runs "rules for runs of topology operations"

lemma runs_bind:
  assumes "top_runs m env st x tops"
    "\<And>st1. ts_topologies st1 = tops \<Longrightarrow> ts_tables st1 = ts_tables st \<Longrightarrow> top_runs (f x) env st1 y tops1"
  shows "top_runs (top_bind m f) env st y tops1"
  using assms by (fastforce simp: top_runs_def top_bind_def)

lemma runs_ok [runs]: "top_runs (top_ok x) env st x (ts_topologies st)"
  by (simp add: top_runs_def top_ok_def)

lemma runs_query:
  assumes "te_answer env = (\<lambda>_. None)"
    "\<And>s. ts_topologies s = ts_topologies st \<Longrightarrow> ts_tables s = ts_tables st \<Longrightarrow> q s = x"
  shows "top_runs (top_query q) env st x (ts_topologies st)"
  using assms by (simp add: top_runs_def top_query_def Let_def)

lemma runs_store [runs]:
  "te_answer env = (\<lambda>_. None) \<Longrightarrow> top_runs (top_store t) env st t (hinsert (tg_id t) t (ts_topologies st))"
  by (simp add: top_runs_def top_store_def Let_def)

lemma runs_publish [runs]: "top_runs (top_publish e) env st () (ts_topologies st)"
  by (simp add: top_runs_def top_publish_def)

lemma runs_publish_topology [runs]: "top_runs (publish_topology t operation meta auth) env st () (ts_topologies st)"
  by (simp add: top_runs_def publish_topology_def top_publish_def)

lemma runs_send [runs]: "top_runs (top_send ts) env st () (ts_topologies st)"
  by (simp add: top_runs_def top_send_def)

lemma runs_api [runs]: "top_runs m env st x tops \<Longrightarrow> top_runs (api_op m) env st x tops"
  by (auto simp: top_runs_def api_op_def)

lemma runs_get [runs]:
  "te_answer env = (\<lambda>_. None) \<Longrightarrow> top_runs (topology_get_by_id i) env st (hget (ts_topologies st) i) (ts_topologies st)"
  unfolding topology_get_by_id_def by (rule runs_query) simp_all

lemma runs_update [runs]:
  assumes "te_answer env = (\<lambda>_. None)" "hget (ts_topologies st) (tg_id t) = Some u"
  shows "top_runs (topology_update t auth) env st t (hinsert (tg_id t) t (ts_topologies st))"
  unfolding topology_update_def
  by (rule runs_bind [OF runs_get [OF assms(1)]], simp add: assms(2))
     (rule runs_bind [OF runs_store [OF assms(1)]], rule runs_bind [OF runs_publish_topology], metis runs_ok)

lemma top_runs_cong: "top_runs m env st x tops \<Longrightarrow> tops = tops1 \<Longrightarrow> top_runs m env st x tops1"
  by simp

text \<open>The entities of a network, as the queries find them.\<close>

definition network_params :: "uuid \<Rightarrow> 'c EntityTables \<Rightarrow> 'c SetEntitiesParams" where
  "network_params n t =
     \<lparr>se_hosts = network_hosts n t, se_services = [],
      se_subnets = filter (\<lambda>s. sb_network_id (subnet_base s) = n) (et_subnets t),
      se_groups = filter (\<lambda>g. gb_network_id (group_base g) = n) (et_groups t),
      se_ports = filter (\<lambda>p. pb_network_id (port_base p) = n) (et_ports t),
      se_bindings = filter (\<lambda>b. bb_network_id (binding_base b) = n) (et_bindings t),
      se_interfaces = filter (\<lambda>i. ib_network_id (interface_base i) = n) (et_interfaces t),
      se_if_entries = filter (\<lambda>e. fb_network_id (if_entry_base e) = n) (et_if_entries t), se_entity_tags = []\<rparr>"

definition shown_services :: "uuid \<Rightarrow> TopologyOptions \<Rightarrow> 'c EntityTables \<Rightarrow> Service list" where
  "shown_services n options t =
     filter (\<lambda>s. sd_category (service_definition (service_base s)) \<notin> set (hide_service_categories (request_options options)))
       (filter (\<lambda>s. vb_network_id (service_base s) = n) (et_services t))"

lemma runs_entity_data [runs]:
  assumes "te_answer env = (\<lambda>_. None)"
  shows "top_runs (get_entity_data n) env st (network_params n (ts_tables st)) (ts_topologies st)"
  by (simp add: top_runs_def get_entity_data_def top_bind_def top_query_def Let_def top_ok_def network_params_def assms)

lemma runs_service_data [runs]:
  "te_answer env = (\<lambda>_. None) \<Longrightarrow>
     top_runs (get_service_data n options) env st (shown_services n options (ts_tables st)) (ts_topologies st)"
  by (simp add: top_runs_def get_service_data_def top_query_def Let_def shown_services_def)

section \<open>Guards\<close>

lemma hget_hinsert_same [simp]: "hget (hinsert k v m) k = Some v"
  by (simp add: hget_laws)

lemma update_found_some: "list_ex P xs \<Longrightarrow> \<exists>ys. update_found P f xs = Some ys"
  by (induction xs) (auto simp: split: if_splits)

lemma update_found_find:
  "update_found P f xs = Some ys \<Longrightarrow> (\<And>x. P (f x) = P x) \<Longrightarrow> find P ys = map_option f (find P xs)"
  by (induction xs arbitrary: ys) (auto split: if_splits option.splits)

lemma runs_change_node:
  assumes env: "te_answer env = (\<lambda>_. None)" and n: "n \<in> set (auth_network_ids auth)"
    and t: "hget (ts_topologies st) i = Some t" "tg_id t = i"
    and ns: "update_found (\<lambda>x. nd_id x = node) f (tp_nodes (tg_base t)) = Some ns"
  shows "top_runs (change_node n auth i node f) env st ()
           (hinsert i (on_base (\<lambda>b. b\<lparr>tp_nodes := ns\<rparr>) t) (ts_topologies st))"
proof -
  let ?u = "on_base (\<lambda>b. b\<lparr>tp_nodes := ns\<rparr>) t"
  have id: "tg_id ?u = i" by (simp add: on_base_def t(2))
  have save: "top_runs (topology_save ?u auth) env s () (hinsert i ?u (ts_topologies st))"
    if "ts_topologies s = ts_topologies st" for s
    unfolding topology_save_def
    by (rule runs_bind [OF runs_api [OF runs_update [OF env]]]) (auto simp: that t id top_runs_def top_ok_def)
  have "top_runs (existing_topology i) env st t (ts_topologies st)"
    unfolding existing_topology_def
    by (rule runs_bind [OF runs_api [OF runs_get [OF env]]]) (auto simp: t top_runs_def top_ok_def)
  then show ?thesis
    using n ns by (auto simp: change_node_def with_named_network_def intro!: runs_bind save)
qed

text \<open>
  C21: The endpoint that moves a node checks only the network that the request names. A caller
  who names a network of his own moves the nodes of any stored topology, whatever network the
  topology belongs to and whether it is locked: the call succeeds, the node has the position of
  the request, and the topology is stored under its own network as before.
\<close>

theorem foreign_topology_edited:
  assumes "te_answer env = (\<lambda>_. None)" "np_network_id r \<in> set (auth_network_ids auth)"
    "hget (ts_topologies st) i = Some t" "tg_id t = i" "find (\<lambda>x. nd_id x = np_node_id r) (tp_nodes (tg_base t)) = Some x"
  shows "\<exists>st1 t1. update_node_position auth i r env st = (Inr (), st1) \<and> hget (ts_topologies st1) i = Some t1 \<and>
           find (\<lambda>x. nd_id x = np_node_id r) (tp_nodes (tg_base t1)) = Some (x\<lparr>nd_position := np_position r\<rparr>) \<and>
           tp_network_id (tg_base t1) = tp_network_id (tg_base t) \<and> tp_is_locked (tg_base t1) = tp_is_locked (tg_base t)"
proof -
  let ?P = "\<lambda>x. nd_id x = np_node_id r" and ?f = "\<lambda>x. x\<lparr>nd_position := np_position r\<rparr>"
  have "list_ex ?P (tp_nodes (tg_base t))" using assms(5) by (auto simp: find_Some_iff list_ex_length)
  then obtain ns where ns: "update_found ?P ?f (tp_nodes (tg_base t)) = Some ns" using update_found_some by blast
  have "find ?P ns = Some (?f x)" using update_found_find [OF ns] assms(5) by simp
  then show ?thesis
    using runs_change_node [OF assms(1-4) ns]
    by (auto simp: top_runs_def update_node_position_def on_base_def)
qed

lemma runs_change_own:
  assumes env: "te_answer env = (\<lambda>_. None)" and t: "hget (ts_topologies st) i = Some t" "tg_id t = i"
    and id: "tg_id (f t) = i" and n: "tp_network_id (tg_base t) \<in> set (auth_network_ids auth)"
  shows "top_runs (change_own_topology auth i f) env st (f t) (hinsert i (f t) (ts_topologies st))"
  unfolding change_own_topology_def
proof (rule runs_bind [OF runs_api [OF runs_get [OF env]]])
  fix s :: "'a TopologyService"
  assume s: "ts_topologies s = ts_topologies st"
  have "top_runs (topology_update (f t) auth) env s (f t) (hinsert i (f t) (ts_topologies s))"
    using runs_update [OF env, of s "f t" t auth] t(1) id s by simp
  then show "top_runs (case hget (ts_topologies st) i of
      None \<Rightarrow> top_err (NotFound (''Could not find topology '' @ uuid_display i))
    | Some t \<Rightarrow> if tp_network_id (tg_base t) \<notin> set (auth_network_ids auth) then top_err (no_network_access ''topology'')
        else api_op (topology_update (f t) auth)) env s (f t) (hinsert i (f t) (ts_topologies st))"
    using n by (simp add: t(1) s runs_api)
qed

text \<open>
  Locking checks the network of the stored topology itself, unlike the endpoints above. With
  access to it the topology is stored locked, by the caller and now; without, the call is
  refused and no topology changes.
\<close>

theorem lock_needs_own_network:
  assumes "te_answer env = (\<lambda>_. None)" "hget (ts_topologies st) i = Some t" "tg_id t = i" "auth_user_id auth = Some u"
  shows "\<exists>r st1. lock_topology auth i env st = (r, st1) \<and>
           (if tp_network_id (tg_base t) \<in> set (auth_network_ids auth)
            then r = Inr (topology_lock (te_now env) u t) \<and>
                 hget (ts_topologies st1) i = Some (topology_lock (te_now env) u t)
            else r = Inl (no_network_access ''topology'') \<and> ts_topologies st1 = ts_topologies st)"
proof (cases "tp_network_id (tg_base t) \<in> set (auth_network_ids auth)")
  case True
  have "tg_id (topology_lock (te_now env) u t) = i" by (simp add: topology_lock_def on_base_def assms(3))
  from runs_change_own [where f = "topology_lock (te_now env) u", OF assms(1-3) this True] True show ?thesis
    by (auto simp: top_runs_def lock_topology_def assms(4))
next
  case False
  then show ?thesis
    using assms by (simp add: lock_topology_def change_own_topology_def top_bind_def api_op_def top_err_def
      topology_get_by_id_def top_query_def Let_def)
qed

section \<open>Batches of events\<close>

text \<open>Every topology is stored under its id.\<close>

definition topologies_ok :: "(uuid, 'c Topology) HashMap \<Rightarrow> bool" where
  "topologies_ok m \<longleftrightarrow> hmap_ok m \<and> list_all (\<lambda>(i, t). tg_id t = i) m"

lemma topologies_ok_id: "topologies_ok m \<Longrightarrow> hget m i = Some t \<Longrightarrow> tg_id t = i"
  by (auto simp: topologies_ok_def list_all_iff dest: hget_in_values)

lemma topologies_ok_get: "topologies_ok m \<Longrightarrow> t \<in> set (hvalues m) \<longleftrightarrow> hget m (tg_id t) = Some t"
  by (auto simp: topologies_ok_def hget_iff_mem hvalues_def list_all_iff intro: rev_image_eqI)

lemma topologies_ok_iff:
  "hmap_ok m \<Longrightarrow> topologies_ok m \<longleftrightarrow> (\<forall>i t. hget m i = Some t \<longrightarrow> tg_id t = i)"
  by (auto simp: topologies_ok_def hget_iff_mem list_all_iff)

lemma topologies_ok_hinsert: "topologies_ok m \<Longrightarrow> topologies_ok (hinsert (tg_id t) t m)"
  using topologies_ok_iff [of m] topologies_ok_iff [of "hinsert (tg_id t) t m"]
  by (auto simp: topologies_ok_def hget_laws)

lemma distinct_topology_ids: "topologies_ok m \<Longrightarrow> distinct (map tg_id (hvalues m))"
proof -
  assume "topologies_ok m"
  then have "map tg_id (hvalues m) = hkeys m" "distinct (hkeys m)"
    by (auto simp: topologies_ok_def hvalues_def hkeys_def list_all_iff hmap_ok_def)
  then show ?thesis by simp
qed

lemma apply_changes_id [simp]:
  "tg_id (apply_changes c p s t) = tg_id t"
  "tp_network_id (tg_base (apply_changes c p s t)) = tp_network_id (tg_base t)"
  "tp_options (tg_base (apply_changes c p s t)) = tp_options (tg_base t)"
  by (simp_all add: apply_changes_def on_base_def Let_def)

text \<open>The changes of a batch for a network, applied to one of its topologies.\<close>

definition refreshed :: "'c EntityTables \<Rightarrow> uuid \<Rightarrow> TopologyChanges \<Rightarrow> 'c Topology \<Rightarrow> 'c Topology" where
  "refreshed tables n c t =
     apply_changes c (network_params n tables) (shown_services n (tp_options (tg_base t)) tables) t"

lemma refreshed_id [simp]:
  "tg_id (refreshed tables n c t) = tg_id t"
  "tp_network_id (tg_base (refreshed tables n c t)) = tp_network_id (tg_base t)"
  by (simp_all add: refreshed_def)

lemma runs_update_from_changes:
  assumes "te_answer env = (\<lambda>_. None)" "hget (ts_topologies st) (tg_id t) = Some u"
  shows "top_runs (update_from_changes c n (network_params n (ts_tables st)) t) env st ()
           (hinsert (tg_id t) (refreshed (ts_tables st) n c t) (ts_topologies st))"
  unfolding update_from_changes_def refreshed_def
proof (rule runs_bind [OF runs_service_data [OF assms(1)]])
  fix s :: "'a TopologyService"
  let ?u = "apply_changes c (network_params n (ts_tables st)) (shown_services n (tp_options (tg_base t)) (ts_tables st)) t"
  assume s: "ts_topologies s = ts_topologies st"
  have "top_runs (topology_update ?u AuthSystem) env s ?u (hinsert (tg_id t) ?u (ts_topologies s))"
    using runs_update [OF assms(1), of s ?u u] assms(2) s by simp
  then show "top_runs (top_bind (topology_update ?u AuthSystem) (\<lambda>updated. top_send [updated])) env s ()
      (hinsert (tg_id t) ?u (ts_topologies st))"
    unfolding s by (rule runs_bind) (metis runs_send)
qed

lemma runs_update_each:
  assumes "te_answer env = (\<lambda>_. None)" "list_all (\<lambda>t. hget (ts_topologies st) (tg_id t) \<noteq> None) ts"
    "ts_tables st = tables"
  shows "top_runs (top_each (update_from_changes c n (network_params n tables)) ts) env st ()
           (foldl (\<lambda>m t. hinsert (tg_id t) (refreshed tables n c t) m) (ts_topologies st) ts)"
  using assms(2, 3)
proof (induction ts arbitrary: st)
  case Nil
  then show ?case by (simp add: runs_ok)
next
  case (Cons t ts)
  then obtain u where u: "hget (ts_topologies st) (tg_id t) = Some u" by auto
  note one = runs_update_from_changes [OF assms(1) u, of c n, unfolded Cons.prems(2)]
  show ?case
    unfolding top_each.simps foldl_Cons
  proof (rule runs_bind [OF one])
    fix st1 :: "'a TopologyService"
    assume st1: "ts_topologies st1 = hinsert (tg_id t) (refreshed tables n c t) (ts_topologies st)"
      "ts_tables st1 = ts_tables st"
    have "list_all (\<lambda>t. hget (ts_topologies st1) (tg_id t) \<noteq> None) ts"
      using Cons.prems(1) by (auto simp: list_all_iff st1 hget_laws)
    from Cons.IH [OF this] st1 Cons.prems(2)
    show "top_runs (top_each (update_from_changes c n (network_params n tables)) ts) env st1 ()
       (foldl (\<lambda>m t. hinsert (tg_id t) (refreshed tables n c t) m)
         (hinsert (tg_id t) (refreshed tables n c t) (ts_topologies st)) ts)" by simp
  qed
qed

lemma hget_foldl_other:
  "list_all (\<lambda>e. k e \<noteq> i) es \<Longrightarrow> hget (foldl (\<lambda>m e. hinsert (k e) (v e) m) m0 es) i = hget m0 i"
  by (induction es arbitrary: m0) (auto simp: hget_laws)

lemma topologies_ok_foldl:
  "topologies_ok m \<Longrightarrow> (\<And>t. tg_id (f t) = tg_id t) \<Longrightarrow> topologies_ok (foldl (\<lambda>m t. hinsert (tg_id t) (f t) m) m ts)"
proof (induction ts arbitrary: m)
  case (Cons t ts)
  then show ?case using topologies_ok_hinsert [of m "f t"] by simp
qed simp

text \<open>What one network's changes make of the stored topologies.\<close>

definition refresh_network ::
    "'c EntityTables \<Rightarrow> uuid \<Rightarrow> TopologyChanges \<Rightarrow> (uuid, 'c Topology) HashMap \<Rightarrow> (uuid, 'c Topology) HashMap" where
  "refresh_network tables n c m =
     foldl (\<lambda>m t. hinsert (tg_id t) (refreshed tables n c t) m) m
       (filter (\<lambda>t. tp_network_id (tg_base t) = n) (hvalues m))"

lemma refresh_network_ok: "topologies_ok m \<Longrightarrow> topologies_ok (refresh_network tables n c m)"
  unfolding refresh_network_def by (rule topologies_ok_foldl) simp_all

lemma hget_refresh_network:
  assumes "topologies_ok m"
  shows "hget (refresh_network tables n c m) i =
           map_option (\<lambda>t. if tp_network_id (tg_base t) = n then refreshed tables n c t else t) (hget m i)"
proof (cases "\<exists>t \<in> set (hvalues m). tg_id t = i \<and> tp_network_id (tg_base t) = n")
  case True
  then obtain t where t: "t \<in> set (filter (\<lambda>t. tp_network_id (tg_base t) = n) (hvalues m))" "tg_id t = i" by auto
  have one: "u = t" if "u \<in> set (hvalues m)" "tg_id u = tg_id t" for u
    using distinct_topology_ids [OF assms] t(1) that by (auto simp: distinct_map dest: inj_onD)
  have "hget (refresh_network tables n c m) (tg_id t) = Some (refreshed tables n c t)"
    unfolding refresh_network_def by (rule hget_foldl_hinsert [OF t(1)]) (use one in auto)
  moreover have "hget m i = Some t" using topologies_ok_get [OF assms, of t] t by simp
  ultimately show ?thesis using t by simp
next
  case False
  then have "hget (refresh_network tables n c m) i = hget m i"
    unfolding refresh_network_def by (intro hget_foldl_other) (auto simp: list_all_iff)
  moreover have "tp_network_id (tg_base t) \<noteq> n" if "hget m i = Some t" for t
    using False that topologies_ok_get [OF assms, of t] topologies_ok_id [OF assms that] by auto
  ultimately show ?thesis by (cases "hget m i") auto
qed

lemma runs_refresh_networks:
  assumes env: "te_answer env = (\<lambda>_. None)" and ok: "topologies_ok (ts_topologies st)" "ts_tables st = tables"
  shows "top_runs (top_each (\<lambda>(n, c).
            top_bind (top_query (\<lambda>st. filter (\<lambda>t. tp_network_id (tg_base t) = n) (hvalues (ts_topologies st)))) (\<lambda>topologies.
            top_bind (get_entity_data n) (\<lambda>p. top_each (update_from_changes c n p) topologies))) m) env st ()
           (foldl (\<lambda>tops (n, c). refresh_network tables n c tops) (ts_topologies st) m)"
    (is "top_runs (top_each ?body m) env st () _")
  using ok
proof (induction m arbitrary: st)
  case Nil
  then show ?case by (simp add: runs_ok)
next
  case (Cons nc m)
  obtain n c where nc: "nc = (n, c)" by (cases nc)
  let ?ts = "filter (\<lambda>t. tp_network_id (tg_base t) = n) (hvalues (ts_topologies st))"
  have "top_runs (?body (n, c)) env st () (refresh_network tables n c (ts_topologies st))"
    unfolding prod.case
  proof (rule runs_bind [OF runs_query [OF env, where x = ?ts]])
    fix s :: "'a TopologyService"
    assume s: "ts_topologies s = ts_topologies st" "ts_tables s = ts_tables st"
    have data: "top_runs (get_entity_data n) env s (network_params n tables) (ts_topologies st)"
      using runs_entity_data [OF env, of n s] s Cons.prems(2) by simp
    show "top_runs (top_bind (get_entity_data n) (\<lambda>p. top_each (update_from_changes c n p) ?ts)) env s ()
        (refresh_network tables n c (ts_topologies st))"
    proof (rule runs_bind [OF data])
      fix s1 :: "'a TopologyService"
      assume s1: "ts_topologies s1 = ts_topologies st" "ts_tables s1 = ts_tables s"
      have "list_all (\<lambda>t. hget (ts_topologies s1) (tg_id t) \<noteq> None) ?ts"
        using topologies_ok_get [OF Cons.prems(1)] by (auto simp: list_all_iff s1)
      from runs_update_each [OF env this, of tables c n] s s1 Cons.prems(2)
      show "top_runs (top_each (update_from_changes c n (network_params n tables)) ?ts) env s1 ()
          (refresh_network tables n c (ts_topologies st))" by (simp add: refresh_network_def)
    qed
  qed simp
  then show ?case
    unfolding nc top_each.simps foldl_Cons prod.case
  proof (rule runs_bind)
    fix st1 :: "'a TopologyService"
    assume st1: "ts_topologies st1 = refresh_network tables n c (ts_topologies st)" "ts_tables st1 = ts_tables st"
    show "top_runs (top_each ?body m) env st1 ()
        (foldl (\<lambda>tops (n, c). refresh_network tables n c tops) (refresh_network tables n c (ts_topologies st)) m)"
      using Cons.IH [of st1] refresh_network_ok [OF Cons.prems(1), of tables n c] Cons.prems(2) st1 by simp
  qed
qed

lemma hget_refresh_networks:
  assumes "topologies_ok tops" "distinct (map fst m)"
  shows "hget (foldl (\<lambda>tops (n, c). refresh_network tables n c tops) tops m) i =
           map_option (\<lambda>t. case hget m (tp_network_id (tg_base t)) of
               Some c \<Rightarrow> refreshed tables (tp_network_id (tg_base t)) c t | None \<Rightarrow> t) (hget tops i)"
  using assms
proof (induction m arbitrary: tops)
  case Nil
  then show ?case by (simp add: hget_def option.map_id0 [unfolded id_def])
next
  case (Cons nc m)
  obtain n c where nc: "nc = (n, c)" by (cases nc)
  have "hget m n = None" using Cons.prems(2) by (simp add: nc hget_def map_of_eq_None_iff)
  moreover have "hget ((n, c) # m) k = (if k = n then Some c else hget m k)" for k by (simp add: hget_def)
  ultimately show ?case
    using Cons.IH [OF refresh_network_ok [OF Cons.prems(1)], of tables n c] Cons.prems
    by (cases "hget tops i") (simp_all add: nc hget_refresh_network)
qed

text \<open>The changes that a batch collects per network.\<close>

definition batch_changes :: "'c TopologyEntity Event list \<Rightarrow> (uuid, TopologyChanges) HashMap" where
  "batch_changes evs = fst (foldl collect_event ([], []) evs)"

lemma batch_changes_snoc:
  "batch_changes (evs @ [ev]) = fst (collect_event (batch_changes evs, snd (foldl collect_event ([], []) evs)) ev)"
  by (simp add: batch_changes_def)

lemma batch_changes_ok: "hmap_ok (batch_changes evs)"
proof (induction evs rule: rev_induct)
  case (snoc ev evs)
  then show ?case
    by (cases ev) (auto simp: batch_changes_snoc collect_event_def split: option.splits TopologyEntity.splits EntityOperation.splits)
qed (simp add: batch_changes_def)

lemma runs_handle_events:
  assumes "te_answer env = (\<lambda>_. None)" "topologies_ok (ts_topologies st)"
  shows "top_runs (handle_topology_events evs) env st ()
           (foldl (\<lambda>tops (n, c). refresh_network (ts_tables st) n c tops) (ts_topologies st) (batch_changes evs))"
proof (cases "evs = []")
  case True
  then show ?thesis by (simp add: handle_topology_events_def batch_changes_def runs_ok)
next
  case False
  obtain m sent where m: "foldl collect_event ([], []) evs = (m, sent)" by (cases "foldl collect_event ([], []) evs")
  then have "batch_changes evs = m" by (simp add: batch_changes_def)
  moreover have "handle_topology_events evs = top_bind (top_send sent) (\<lambda>_. top_each (\<lambda>(n, c).
      top_bind (top_query (\<lambda>st. filter (\<lambda>t. tp_network_id (tg_base t) = n) (hvalues (ts_topologies st)))) (\<lambda>topologies.
      top_bind (get_entity_data n) (\<lambda>p. top_each (update_from_changes c n p) topologies))) m)"
    using False m by (simp add: handle_topology_events_def)
  moreover have "top_runs (top_bind (top_send sent) (\<lambda>_. top_each (\<lambda>(n, c).
      top_bind (top_query (\<lambda>st. filter (\<lambda>t. tp_network_id (tg_base t) = n) (hvalues (ts_topologies st)))) (\<lambda>topologies.
      top_bind (get_entity_data n) (\<lambda>p. top_each (update_from_changes c n p) topologies))) m)) env st ()
      (foldl (\<lambda>tops (n, c). refresh_network (ts_tables st) n c tops) (ts_topologies st) m)"
  proof (rule runs_bind [OF runs_send])
    fix st1 :: "'a TopologyService"
    assume "ts_topologies st1 = ts_topologies st" "ts_tables st1 = ts_tables st"
    with runs_refresh_networks [OF assms(1), of st1 "ts_tables st" m] assms(2)
    show "top_runs (top_each (\<lambda>(n, c).
      top_bind (top_query (\<lambda>st. filter (\<lambda>t. tp_network_id (tg_base t) = n) (hvalues (ts_topologies st)))) (\<lambda>topologies.
      top_bind (get_entity_data n) (\<lambda>p. top_each (update_from_changes c n p) topologies))) m) env st1 ()
      (foldl (\<lambda>tops (n, c). refresh_network (ts_tables st) n c tops) (ts_topologies st) m)" by simp
  qed
  ultimately show ?thesis by simp
qed

lemma batch_refreshes_topologies:
  assumes "te_answer env = (\<lambda>_. None)" "topologies_ok (ts_topologies st)"
  shows "\<exists>st1. handle_topology_events evs env st = (Inr (), st1) \<and> ts_tables st1 = ts_tables st \<and>
           hget (ts_topologies st1) i =
             map_option (\<lambda>t. case hget (batch_changes evs) (tp_network_id (tg_base t)) of
                 Some c \<Rightarrow> refreshed (ts_tables st) (tp_network_id (tg_base t)) c t | None \<Rightarrow> t) (hget (ts_topologies st) i)"
proof -
  have "distinct (map fst (batch_changes evs))" using batch_changes_ok [of evs] by (simp add: hmap_ok_def hkeys_def)
  from hget_refresh_networks [OF assms(2) this] runs_handle_events [OF assms, of evs]
  show ?thesis by (auto simp: top_runs_def)
qed

text \<open>Which events of a batch count for a network: those of entities, but not updates of topologies.\<close>

fun counts_for :: "uuid \<Rightarrow> 'c TopologyEntity Event \<Rightarrow> 'c TopologyEntity EntityEvent option" where
  "counts_for n (EntityEv e) =
     (if ee_network_id e \<noteq> Some n then None
      else case ee_entity_type e of
        TE_Topology _ \<Rightarrow> if ee_operation e = Updated then None else Some e
      | TE_Other _ \<Rightarrow> Some e)"
| "counts_for n _ = None"

lemma batch_changes_network:
  "hget (batch_changes evs) n =
     (case List.map_filter (counts_for n) evs of [] \<Rightarrow> None
      | es \<Rightarrow> Some (foldl (\<lambda>c e. collect_change e c) no_changes es))"
proof (induction evs rule: rev_induct)
  case (snoc ev evs)
  have app: "List.map_filter (counts_for n) (evs @ [ev]) =
      List.map_filter (counts_for n) evs @ (case counts_for n ev of None \<Rightarrow> [] | Some e \<Rightarrow> [e])" for ev
    by (simp add: map_filter_def split: option.split)
  show ?case
  proof (cases ev)
    case (EntityEv e)
    show ?thesis
      using snoc.IH unfolding app batch_changes_snoc
      by (cases "ee_network_id e"; cases "ee_entity_type e"; cases "ee_operation e")
        (auto simp: EntityEv collect_event_def hget_laws split: list.splits)
  qed (use snoc.IH in \<open>simp_all add: app batch_changes_snoc collect_event_def\<close>)
qed (simp add: batch_changes_def hget_laws)

text \<open>What the collected changes hold.\<close>

lemma collect_change_fields:
  "set (removed_of_kind (collect_change e c)) =
     set (removed_of_kind c) \<union>
     (if ee_operation e = Deleted \<and> topology_entity_discriminant (ee_entity_type e) \<in> set tracked_kinds
      then {(topology_entity_discriminant (ee_entity_type e), ee_entity_id e)} else {})"
  "should_mark_stale (collect_change e c) \<longleftrightarrow> should_mark_stale c \<or> json_flag ''trigger_stale'' (ee_metadata e)"
  "tch_clear_stale (collect_change e c) \<longleftrightarrow>
     tch_clear_stale c \<or> json_flag ''clear_stale'' (ee_metadata e) \<and> \<not> json_flag ''trigger_stale'' (ee_metadata e)"
  by (auto simp: collect_change_def Let_def)

definition collected :: "'c TopologyEntity EntityEvent list \<Rightarrow> TopologyChanges" where
  "collected es = foldl (\<lambda>c e. collect_change e c) no_changes es"

lemma collected_fields:
  "d \<in> set tracked_kinds \<Longrightarrow> set (removed_ids (collected es) d) =
     {ee_entity_id e | e. e \<in> set es \<and> ee_operation e = Deleted \<and> topology_entity_discriminant (ee_entity_type e) = d}"
  "should_mark_stale (collected es) \<longleftrightarrow> list_ex (\<lambda>e. json_flag ''trigger_stale'' (ee_metadata e)) es"
  "tch_clear_stale (collected es) \<longleftrightarrow>
     list_ex (\<lambda>e. json_flag ''clear_stale'' (ee_metadata e) \<and> \<not> json_flag ''trigger_stale'' (ee_metadata e)) es"
proof -
  have "set (removed_of_kind (collected es)) =
      {(topology_entity_discriminant (ee_entity_type e), ee_entity_id e) | e.
         e \<in> set es \<and> ee_operation e = Deleted \<and> topology_entity_discriminant (ee_entity_type e) \<in> set tracked_kinds}"
    by (induction es rule: rev_induct) (auto simp: collected_def collect_change_fields no_changes_def)
  then show "d \<in> set tracked_kinds \<Longrightarrow> set (removed_ids (collected es) d) =
     {ee_entity_id e | e. e \<in> set es \<and> ee_operation e = Deleted \<and> topology_entity_discriminant (ee_entity_type e) = d}"
    by (auto simp: removed_ids_def image_iff)
  show "should_mark_stale (collected es) \<longleftrightarrow> list_ex (\<lambda>e. json_flag ''trigger_stale'' (ee_metadata e)) es"
    by (induction es rule: rev_induct) (auto simp: collected_def collect_change_fields no_changes_def)
  show "tch_clear_stale (collected es) \<longleftrightarrow>
     list_ex (\<lambda>e. json_flag ''clear_stale'' (ee_metadata e) \<and> \<not> json_flag ''trigger_stale'' (ee_metadata e)) es"
    by (induction es rule: rev_induct) (auto simp: collected_def collect_change_fields no_changes_def)
qed

lemma set_push_missing [simp]: "set (push_missing xs ys) = set xs \<union> set ys"
  unfolding push_missing_def by (induction ys arbitrary: xs) auto

lemma refreshed_stale:
  "tp_is_stale (tg_base (refreshed tables n c t)) \<longleftrightarrow> \<not> tch_clear_stale c \<and> (should_mark_stale c \<or> tp_is_stale (tg_base t))"
  by (simp add: refreshed_def apply_changes_def on_base_def Let_def)

lemma refreshed_removed_hosts:
  "set (removed_hosts (tg_base (refreshed tables n c t))) = set (removed_hosts (tg_base t)) \<union> set (removed_ids c D_Host)"
  by (simp add: refreshed_def apply_changes_def on_base_def Let_def)

lemma batch_topology:
  assumes "te_answer env = (\<lambda>_. None)" "topologies_ok (ts_topologies st)" "hget (ts_topologies st) i = Some t"
    "List.map_filter (counts_for (tp_network_id (tg_base t))) evs = es"
  shows "\<exists>st1. handle_topology_events evs env st = (Inr (), st1) \<and>
           hget (ts_topologies st1) i =
             Some (if es = [] then t else refreshed (ts_tables st) (tp_network_id (tg_base t)) (collected es) t)"
  using batch_refreshes_topologies [OF assms(1, 2), of evs i] assms(3, 4)
  by (auto simp: batch_changes_network collected_def split: list.splits)

text \<open>
  C22: After a batch a topology lists as removed the hosts it listed before and those whose
  deletion the batch reports for its network, and it is stale exactly if no event of the network
  clears staleness and it was stale or some event triggers staleness.
\<close>

theorem batch_removals_and_staleness:
  assumes "te_answer env = (\<lambda>_. None)" "topologies_ok (ts_topologies st)" "hget (ts_topologies st) i = Some t"
    "List.map_filter (counts_for (tp_network_id (tg_base t))) evs = es"
  shows "\<exists>st1 t1. handle_topology_events evs env st = (Inr (), st1) \<and> hget (ts_topologies st1) i = Some t1 \<and>
           set (removed_hosts (tg_base t1)) = set (removed_hosts (tg_base t)) \<union>
             {ee_entity_id e | e. e \<in> set es \<and> ee_operation e = Deleted \<and>
                topology_entity_discriminant (ee_entity_type e) = D_Host} \<and>
           (tp_is_stale (tg_base t1) \<longleftrightarrow>
              \<not> list_ex (\<lambda>e. json_flag ''clear_stale'' (ee_metadata e) \<and> \<not> json_flag ''trigger_stale'' (ee_metadata e)) es \<and>
              (list_ex (\<lambda>e. json_flag ''trigger_stale'' (ee_metadata e)) es \<or> tp_is_stale (tg_base t)))"
  using batch_topology [OF assms]
  by (cases "es = []") (auto simp: refreshed_stale refreshed_removed_hosts collected_fields tracked_kinds_def)

text \<open>
  Creating a topology clears the staleness of every other topology of its network, although
  their entities are still outdated: the event of the creation, with the metadata that
  \<open>topology_create\<close> gives it, marks them as fresh and leaves their lists of removed entities.
\<close>

theorem creation_unmarks_other_topologies:
  assumes "te_answer env = (\<lambda>_. None)" "topologies_ok (ts_topologies st)" "hget (ts_topologies st) i = Some t"
    "tp_is_stale (tg_base t)" "ee_network_id e = Some (tp_network_id (tg_base t))"
    "ee_entity_type e = TE_Topology u" "ee_operation e = Created"
    "ee_metadata e = JObj [(''clear_stale'', JBool True)]"
  shows "\<exists>st1 t1. handle_topology_events [EntityEv e] env st = (Inr (), st1) \<and> hget (ts_topologies st1) i = Some t1 \<and>
           \<not> tp_is_stale (tg_base t1) \<and> removed_hosts (tg_base t1) = removed_hosts (tg_base t) \<and>
           tp_hosts (tg_base t1) = tp_hosts (tg_base t) \<and> tp_nodes (tg_base t1) = tp_nodes (tg_base t)"
proof -
  have es: "List.map_filter (counts_for (tp_network_id (tg_base t))) [EntityEv e] = [e]"
    using assms by simp
  have c: "collected [e] = no_changes\<lparr>tch_clear_stale := True\<rparr>"
    using assms by (simp add: collected_def collect_change_def Let_def json_flag_def)
  show ?thesis
    using batch_topology [OF assms(1-3) es]
    by (auto simp: c refreshed_def apply_changes_def on_base_def Let_def no_changes_def removed_ids_def push_missing_def
        refresh_kind_def)
qed

section \<open>A locked and stale topology of network 7, and a member of network 5\<close>

definition demo_topology_env :: "(32 word \<times> nat) TopologyEnv" where
  "demo_topology_env =
     \<lparr>te_now = 50, te_fresh = (\<lambda>n. 100 + of_nat n), te_edge_id = (\<lambda>_ _. 0), te_cidr = demo_cidr_ops,
      te_answer = (\<lambda>_. None)\<rparr>"

definition demo_node :: Node where
  "demo_node = \<lparr>nd_id = 3, nd_type = SubnetNode 0, nd_position = ixy 0 0, nd_size = \<lparr>ux = 300, uy = 200\<rparr>, nd_header = None\<rparr>"

definition demo_topology :: "(32 word \<times> nat) Topology" where
  "demo_topology =
     \<lparr>tg_id = 1, tg_created_at = 0, tg_updated_at = 0,
      tg_base = (topology_base_new 0 ''lab'' 7)\<lparr>tp_nodes := [demo_node], tp_is_locked := True, removed_hosts := [9]\<rparr>\<rparr>"

definition demo_topologies :: "(32 word \<times> nat) TopologyService" where
  "demo_topologies =
     \<lparr>ts_topologies = [(1, demo_topology)],
      ts_tables = \<lparr>et_hosts = [], et_interfaces = [], et_subnets = [], et_groups = [], et_ports = [], et_bindings = [],
        et_if_entries = [], et_services = [], et_tags = [], et_onboarding = []\<rparr>,
      ts_bus = event_bus_new, ts_staleness = [], ts_ops = 0\<rparr>"

definition demo_outsider :: AuthenticatedEntity where
  "demo_outsider = AuthUser 20 30 Member [5] ''eve'' True"

definition demo_move :: TopologyNodePositionUpdate where
  "demo_move = \<lparr>np_network_id = 5, np_node_id = 3, np_position = ixy 70 80\<rparr>"

definition demo_event :: "EntityOperation \<Rightarrow> (32 word \<times> nat) TopologyEntity \<Rightarrow> uuid \<Rightarrow> string \<Rightarrow> (32 word \<times> nat) TopologyEntity EntityEvent" where
  "demo_event oper x i flag =
     \<lparr>ee_id = 40, ee_entity_type = x, ee_entity_id = i, ee_network_id = Some 7, ee_organization_id = None,
      ee_operation = oper, ee_timestamp = 50, ee_authentication = AuthSystem, ee_metadata = JObj [(flag, JBool True)]\<rparr>"

lemma demo_topology_facts:
  "te_answer demo_topology_env = (\<lambda>_. None)" "hget (ts_topologies demo_topologies) 1 = Some demo_topology"
  "tg_id demo_topology = 1" "tp_network_id (tg_base demo_topology) = 7" "tp_is_locked (tg_base demo_topology)"
  "tp_is_stale (tg_base demo_topology)" "removed_hosts (tg_base demo_topology) = [9]"
  "topologies_ok (ts_topologies demo_topologies)" "tp_nodes (tg_base demo_topology) = [demo_node]"
  "tp_hosts (tg_base demo_topology) = []"
  by (simp_all add: demo_topology_env_def demo_topologies_def demo_topology_def hget_def topology_base_new_def
      topologies_ok_def hmap_ok_def hkeys_def)

corollary foreign_topology_edited_witness:
  "\<exists>st1 t1. update_node_position demo_outsider 1 demo_move demo_topology_env demo_topologies = (Inr (), st1) \<and>
     hget (ts_topologies st1) 1 = Some t1 \<and>
     find (\<lambda>x. nd_id x = 3) (tp_nodes (tg_base t1)) = Some (demo_node\<lparr>nd_position := ixy 70 80\<rparr>) \<and>
     tp_network_id (tg_base t1) = 7 \<and> tp_is_locked (tg_base t1)"
  using foreign_topology_edited [of demo_topology_env demo_move demo_outsider demo_topologies 1 demo_topology demo_node]
  by (auto simp: demo_topology_facts demo_move_def demo_outsider_def demo_node_def)

corollary lock_needs_own_network_witness:
  "\<exists>st1. lock_topology demo_outsider 1 demo_topology_env demo_topologies = (Inl (no_network_access ''topology''), st1) \<and>
     ts_topologies st1 = ts_topologies demo_topologies"
  using lock_needs_own_network [of demo_topology_env demo_topologies 1 demo_topology demo_outsider 20]
  by (simp add: demo_topology_facts demo_outsider_def)

corollary batch_refreshes_topologies_witness:
  "\<exists>st1. handle_topology_events [EntityEv (demo_event Deleted (TE_Other D_Host) 12 ''trigger_stale'')]
       demo_topology_env demo_topologies = (Inr (), st1) \<and>
     map_option (removed_hosts \<circ> tg_base) (hget (ts_topologies st1) 1) = Some [9, 12]"
  using batch_refreshes_topologies [of demo_topology_env demo_topologies
      "[EntityEv (demo_event Deleted (TE_Other D_Host) 12 ''trigger_stale'')]" 1]
  by (force simp: demo_topology_facts batch_changes_network demo_event_def collect_change_def Let_def json_flag_def
      tracked_kinds_def no_changes_def refreshed_def apply_changes_def on_base_def removed_ids_def push_missing_def)

corollary batch_removals_and_staleness_witness:
  "\<exists>st1 t1. handle_topology_events [EntityEv (demo_event Deleted (TE_Other D_Host) 12 ''trigger_stale'')]
       demo_topology_env demo_topologies = (Inr (), st1) \<and>
     hget (ts_topologies st1) 1 = Some t1 \<and> set (removed_hosts (tg_base t1)) = {9, 12} \<and> tp_is_stale (tg_base t1)"
  using batch_removals_and_staleness [of demo_topology_env demo_topologies 1 demo_topology
      "[EntityEv (demo_event Deleted (TE_Other D_Host) 12 ''trigger_stale'')]"
      "[demo_event Deleted (TE_Other D_Host) 12 ''trigger_stale'']"]
  by (fastforce simp: demo_topology_facts demo_event_def json_flag_def)

corollary creation_unmarks_other_topologies_witness:
  "\<exists>st1 t1. handle_topology_events [EntityEv (demo_event Created (TE_Topology demo_topology) 2 ''clear_stale'')]
       demo_topology_env demo_topologies = (Inr (), st1) \<and>
     hget (ts_topologies st1) 1 = Some t1 \<and> \<not> tp_is_stale (tg_base t1) \<and> removed_hosts (tg_base t1) = [9]"
  using creation_unmarks_other_topologies [of demo_topology_env demo_topologies 1 demo_topology
      "demo_event Created (TE_Topology demo_topology) 2 ''clear_stale''" demo_topology]
  by (auto simp: demo_topology_facts demo_event_def)

end
