(* ===== verification/Position_Claims.thy ===== *)
theory Position_Claims
  imports Topology_Service Grid_Logic
begin

text \<open>
  Properties of the optimizer: where a subnet is placed in its row, what compression keeps, and
  what the optimizer leaves alone.
\<close>

section \<open>Free room in a row\<close>

text \<open>The coordinates next to the other subnets of the row.\<close>

definition candidates :: "int \<Rightarrow> (int \<times> int) list \<Rightarrow> int list" where
  "candidates width others =
     map (\<lambda>(ox, _). ox - width - POSITIONER_PADDING) others @ map (\<lambda>(ox, ow). ox + ow + POSITIONER_PADDING) others"

lemma rightmost_candidate_free:
  assumes "row_overlap width p others"
  shows "\<exists>c \<in> set (candidates width others). \<not> row_overlap width c others"
proof -
  let ?R = "(\<lambda>(ox, ow). ox + ow + POSITIONER_PADDING) ` set others"
  have ne: "?R \<noteq> {}" using assms by (auto simp: row_overlap_def list_ex_iff)
  have "ox + ow + POSITIONER_PADDING \<le> Max ?R" if "(ox, ow) \<in> set others" for ox ow
    using that by (intro Max_ge) force+
  then have "\<not> row_overlap width (Max ?R) others" by (fastforce simp: row_overlap_def list_ex_iff)
  moreover have "Max ?R \<in> set (candidates width others)" using Max_in [OF _ ne] by (auto simp: candidates_def)
  ultimately show ?thesis by blast
qed

lemma free_right_of:
  assumes "row_overlap width p others" "\<not> row_overlap width (p + int k) others"
  shows "\<exists>c \<in> set (candidates width others). \<not> row_overlap width c others \<and> p \<le> c \<and> c \<le> p + int k"
  using assms(2)
proof (induction k)
  case 0
  then show ?case using assms(1) by simp
next
  case (Suc k)
  show ?case
  proof (cases "row_overlap width (p + int k) others")
    case False
    from Suc.IH [OF this] show ?thesis by force
  next
    case True
    then obtain ox ow where o: "(ox, ow) \<in> set others" "p + int k < ox + ow + POSITIONER_PADDING"
        "p + int k + width + POSITIONER_PADDING > ox"
      by (auto simp: row_overlap_def list_ex_iff)
    moreover have "\<not> (p + int (Suc k) < ox + ow + POSITIONER_PADDING)"
      using Suc.prems o by (auto simp: row_overlap_def list_ex_iff)
    ultimately have "p + int (Suc k) = ox + ow + POSITIONER_PADDING" by simp
    then have "p + int (Suc k) \<in> set (candidates width others)" using o(1) by (force simp: candidates_def)
    then show ?thesis using Suc.prems by (intro bexI [of _ "p + int (Suc k)"]) auto
  qed
qed

lemma free_left_of:
  assumes "row_overlap width p others" "\<not> row_overlap width (p - int k) others"
  shows "\<exists>c \<in> set (candidates width others). \<not> row_overlap width c others \<and> p - int k \<le> c \<and> c \<le> p"
  using assms(2)
proof (induction k)
  case 0
  then show ?case using assms(1) by simp
next
  case (Suc k)
  show ?case
  proof (cases "row_overlap width (p - int k) others")
    case False
    from Suc.IH [OF this] show ?thesis by force
  next
    case True
    then obtain ox ow where o: "(ox, ow) \<in> set others" "p - int k < ox + ow + POSITIONER_PADDING"
        "p - int k + width + POSITIONER_PADDING > ox"
      by (auto simp: row_overlap_def list_ex_iff)
    moreover have "\<not> (p - int (Suc k) + width + POSITIONER_PADDING > ox)"
      using Suc.prems o by (auto simp: row_overlap_def list_ex_iff)
    ultimately have "p - int (Suc k) = ox - width - POSITIONER_PADDING" by simp
    then have "p - int (Suc k) \<in> set (candidates width others)" using o(1) by (force simp: candidates_def)
    then show ?thesis using Suc.prems by (intro bexI [of _ "p - int (Suc k)"]) auto
  qed
qed

lemma nearest_free_is_candidate:
  assumes "row_overlap width p others" "\<not> row_overlap width x others"
  shows "\<exists>c \<in> set (candidates width others). \<not> row_overlap width c others \<and> \<bar>p - c\<bar> \<le> \<bar>p - x\<bar>"
proof (cases "p \<le> x")
  case True
  then obtain k where "x = p + int k" by (metis add_diff_cancel_left' diff_add_cancel zle_iff_zadd)
  then show ?thesis using free_right_of [OF assms(1), of k] assms(2) by force
next
  case False
  then obtain k where "x = p - int k" by (metis add_diff_cancel_right' linear zle_iff_zadd)
  then show ?thesis using free_left_of [OF assms(1), of k] assms(2) by force
qed

text \<open>The loop over the candidates keeps the nearest free one.\<close>

lemma nearest_loop:
  fixes p :: int
  assumes "foldl (\<lambda>(best, dist) c. if Q c \<and> \<bar>p - c\<bar> < dist then (c, \<bar>p - c\<bar>) else (best, dist)) (b, d) cs = (b1, d1)"
  shows "(b1, d1) = (b, d) \<or> b1 \<in> set cs \<and> Q b1 \<and> d1 = \<bar>p - b1\<bar>"
    and "d1 \<le> d" "c \<in> set cs \<Longrightarrow> Q c \<Longrightarrow> d1 \<le> \<bar>p - c\<bar>"
  using assms
proof (induction cs arbitrary: b d)
  case (Cons a cs)
  {
    case 1
    then show ?case using Cons.IH(1) by (fastforce split: if_splits)
  next
    case 2
    then show ?case using Cons.IH(2) by (fastforce split: if_splits)
  next
    case 3
    then show ?case using Cons.IH(2,3) by (fastforce split: if_splits)
  }
qed simp_all

lemma free_x_nearest:
  assumes "row_overlap width p others"
    "\<And>c. c \<in> set (candidates width others) \<Longrightarrow> \<bar>p - c\<bar> < 2 ^ 63 - 1"
  shows "\<not> row_overlap width (free_x width p others) others"
    "\<not> row_overlap width x others \<Longrightarrow> \<bar>p - free_x width p others\<bar> \<le> \<bar>p - x\<bar>"
proof -
  let ?Q = "\<lambda>c. \<not> row_overlap width c others" and ?cs = "candidates width others"
  obtain b d where loop: "foldl (\<lambda>(best, dist) c. if ?Q c \<and> \<bar>p - c\<bar> < dist then (c, \<bar>p - c\<bar>) else (best, dist))
      (p, 2 ^ 63 - 1) ?cs = (b, d)" by fastforce
  then have b: "free_x width p others = b" by (simp add: free_x_def candidates_def)
  obtain c where "c \<in> set ?cs" "?Q c" using rightmost_candidate_free [OF assms(1)] by blast
  then have "d < 2 ^ 63 - 1" using nearest_loop(3) [OF loop] assms(2) [of c] by fastforce
  then have best: "?Q b" "d = \<bar>p - b\<bar>" using nearest_loop(1) [OF loop] by auto
  then show "?Q (free_x width p others)" by (simp add: b)
  assume "?Q x"
  then obtain c where "c \<in> set ?cs" "?Q c" "\<bar>p - c\<bar> \<le> \<bar>p - x\<bar>"
    using nearest_free_is_candidate [OF assms(1)] by blast
  then show "\<bar>p - free_x width p others\<bar> \<le> \<bar>p - x\<bar>"
    using nearest_loop(3) [OF loop, of c] best(2) by (simp add: b)
qed

text \<open>
  C23: A subnet is placed where it comes within the padding of no other subnet of its row, and no
  other such coordinate is nearer to the one its edges ask for: the search over the two
  candidates next to each subnet of the row is complete. The differences must fit in an
  \<open>isize\<close>.
\<close>

theorem subnet_placed_nearest_free:
  assumes "find_node s ns = Some n" "others_in_row ns n s placed = others"
    "list_all (\<lambda>c. \<bar>p - c\<bar> < 2 ^ 63 - 1) (candidates (int (ux (nd_size n))) others)"
  shows "\<not> row_overlap (int (ux (nd_size n))) (apply_non_overlap_constraint ns s p placed) others \<and>
         (row_overlap (int (ux (nd_size n))) x others \<or>
          \<bar>p - apply_non_overlap_constraint ns s p placed\<bar> \<le> \<bar>p - x\<bar>)"
  using free_x_nearest [of "int (ux (nd_size n))" p others] assms
  by (auto simp: apply_non_overlap_constraint_def Let_def list_all_iff)

section \<open>What the optimizer keeps\<close>

text \<open>Subnets stay in their row, children in their column, and all else but the position is kept.\<close>

definition same_place :: "Node \<Rightarrow> Node \<Rightarrow> bool" where
  "same_place a b \<longleftrightarrow>
     nd_id b = nd_id a \<and> nd_type b = nd_type a \<and> nd_size b = nd_size a \<and> nd_header b = nd_header a \<and>
     (if is_subnet_node (nd_type a) then iy (nd_position b) = iy (nd_position a)
      else ix (nd_position b) = ix (nd_position a))"

abbreviation same_places :: "Node list \<Rightarrow> Node list \<Rightarrow> bool" where
  "same_places \<equiv> list_all2 same_place"

lemma same_place_refl [simp]: "same_place a a"
  by (simp add: same_place_def)

lemma same_places_refl [simp]: "same_places ns ns"
  by (simp add: list_all2_refl)

lemma same_places_trans: "same_places ns ms \<Longrightarrow> same_places ms ls \<Longrightarrow> same_places ns ls"
  by (rule list_all2_trans) (auto simp: same_place_def split: if_splits)

lemma same_places_foldl:
  assumes "same_places ns ms" "\<And>a ls. a \<in> set xs \<Longrightarrow> same_places ns ls \<Longrightarrow> same_places ls (f ls a)"
  shows "same_places ns (foldl f ms xs)"
  using assms
proof (induction xs arbitrary: ms)
  case (Cons a xs)
  have "same_places ns (f ms a)" using same_places_trans [OF Cons.prems(1)] Cons.prems by simp
  then show ?case using Cons by simp
qed simp

text \<open>An id that only subnets have.\<close>

definition names_subnet :: "Node list \<Rightarrow> uuid \<Rightarrow> bool" where
  "names_subnet ns i \<longleftrightarrow> list_all (\<lambda>n. nd_id n = i \<longrightarrow> is_subnet_node (nd_type n)) ns"

lemma names_subnet_mono: "same_places ns ms \<Longrightarrow> names_subnet ns i \<Longrightarrow> names_subnet ms i"
  unfolding names_subnet_def by (induction rule: list_all2_induct) (auto simp: same_place_def)

lemma same_places_move: "names_subnet ns i \<Longrightarrow> same_places ns (move_first i x ns)"
  by (induction ns) (auto simp: names_subnet_def same_place_def set_x_def)

lemma same_places_place_subnet:
  "names_subnet (fst acc) i \<Longrightarrow> same_places (fst acc) (fst (place_subnet es layers layer down acc i))"
  by (cases acc) (simp add: place_subnet_def Let_def same_places_move)

lemma same_places_optimize_layer:
  assumes "list_all (names_subnet ns) (layers ! layer)"
  shows "same_places ns (optimize_layer es layers down ns layer)"
proof -
  have "same_places ns (fst (foldl (place_subnet es layers layer down) acc is))"
    if "same_places ns (fst acc)" "list_all (names_subnet ns) is" for acc "is"
    using that
  proof (induction "is" arbitrary: acc)
    case (Cons i "is")
    have "same_places ns (fst (place_subnet es layers layer down acc i))"
      using Cons.prems by (intro same_places_trans [OF Cons.prems(1) same_places_place_subnet])
        (auto intro: names_subnet_mono)
    then show ?case using Cons by simp
  qed simp
  then show ?thesis using assms by (simp add: optimize_layer_def)
qed

text \<open>Rows of subnets.\<close>

definition subnet_rows_of :: "Node list \<Rightarrow> uuid list list \<Rightarrow> bool" where
  "subnet_rows_of ns layers \<longleftrightarrow> list_all (list_all (names_subnet ns)) layers"

lemma subnet_rows_mono: "same_places ns ms \<Longrightarrow> subnet_rows_of ns layers \<Longrightarrow> subnet_rows_of ms layers"
  by (auto simp: subnet_rows_of_def list_all_iff intro: names_subnet_mono)

lemma subnet_rows_nth: "subnet_rows_of ns layers \<Longrightarrow> k < length layers \<Longrightarrow> list_all (names_subnet ns) (layers ! k)"
  by (simp add: subnet_rows_of_def list_all_length)

lemma same_places_sweep:
  assumes "subnet_rows_of ns layers"
  shows "same_places ns (sweep_layers es layers ns)"
  unfolding sweep_layers_def
  by (intro same_places_foldl same_places_optimize_layer subnet_rows_nth)
    (auto intro: subnet_rows_mono [OF _ assms])

lemma same_places_sweep_loop:
  "subnet_rows_of ns layers \<Longrightarrow> same_places ns (sweep_loop k es layers ns)"
proof (induction k arbitrary: ns)
  case (Suc k)
  note one = same_places_sweep [OF Suc.prems, of es]
  then show ?case
    using same_places_trans [OF one Suc.IH [OF subnet_rows_mono [OF one Suc.prems]]] by (simp add: Let_def)
qed simp

lemma same_places_snap:
  assumes "list_all (names_subnet ns) ids" shows "same_places ns (snap_subnets ids ns)"
  unfolding snap_subnets_def
  by (rule same_places_foldl)
    (use assms in \<open>auto simp: list_all_iff intro: same_places_move names_subnet_mono split: option.split\<close>)

lemma rows_of_ids:
  assumes "list_all (names_subnet ns) ids"
  shows "subnet_rows_of ns (group_subnets_by_layer ms ids)"
proof -
  have "snd p \<in> set ids"
    if "p \<in> set (List.map_filter (\<lambda>i. map_option (\<lambda>n. (iy (nd_position n), i)) (find_node i ms)) ids)" for p
    using that by (induction ids) (auto split: option.splits)
  then show ?thesis using assms by (auto simp: subnet_rows_of_def group_subnets_by_layer_def Let_def list_all_iff)
qed

lemma ids_name_subnets:
  assumes "distinct (map nd_id ns)" shows "list_all (names_subnet ns) (subnet_node_ids ns)"
  using assms by (auto simp: list_all_iff names_subnet_def subnet_node_ids_def distinct_map dest: inj_onD)

lemma same_places_ids: "same_places ns ms \<Longrightarrow> map nd_id ms = map nd_id ns"
  by (induction rule: list_all2_induct) (auto simp: same_place_def)

lemma same_places_subnets:
  assumes "distinct (map nd_id ns)" shows "same_places ns (optimize_subnet_positions ctx ns es)"
proof -
  let ?ids = "subnet_node_ids ns"
  note ids = ids_name_subnets [OF assms]
  let ?s = "sweep_loop 10 (filter (\<lambda>e. \<not> edge_is_intra_subnet ctx e) es) (group_subnets_by_layer ns ?ids) ns"
  have sweep: "same_places ns ?s" by (intro same_places_sweep_loop rows_of_ids ids)
  then have "list_all (names_subnet ?s) ?ids" using ids by (auto simp: list_all_iff intro: names_subnet_mono)
  then show ?thesis
    using same_places_trans [OF sweep same_places_snap] by (simp add: optimize_subnet_positions_def Let_def)
qed

lemma same_places_rounds:
  "distinct (map nd_id ns) \<Longrightarrow> same_places ns (optimizer_rounds k ctx es prev ns)"
proof (induction k arbitrary: ns prev)
  case (Suc k)
  note one = same_places_subnets [OF Suc.prems, of ctx es]
  then have "distinct (map nd_id (optimize_subnet_positions ctx ns es))" using Suc.prems by (simp add: same_places_ids)
  then show ?case using one same_places_trans [OF one Suc.IH] by (simp add: Let_def)
qed simp

section \<open>Compression\<close>

lemma same_places_move_acc:
  "names_subnet ns i \<Longrightarrow> same_places ms ns \<Longrightarrow> same_places ms (move_first i x ns)"
  by (rule same_places_trans [OF _ same_places_move])

lemma same_places_moves:
  assumes "\<And>p. p \<in> set ps \<Longrightarrow> names_subnet ns (fst p)"
  shows "same_places ns (foldl (\<lambda>ns1 (i, x). move_first i x ns1) ns ps)"
proof (rule same_places_foldl)
  fix p ls
  assume "p \<in> set ps" "same_places ns ls"
  then have "names_subnet ls (fst p)" using assms names_subnet_mono by blast
  then show "same_places ls (case p of (i, x) \<Rightarrow> move_first i x ls)" by (cases p) (simp add: same_places_move)
qed simp

lemma same_places_toward_left:
  assumes "list_all (\<lambda>s. names_subnet ns (si_id s)) infos"
  shows "same_places ns (compress_toward_left ns infos pad)"
proof -
  let ?f = "\<lambda>(ns1, x) s. case find_node (si_id s) ns1 of
      Some _ \<Rightarrow> (move_first (si_id s) x ns1, x + si_width s + pad) | None \<Rightarrow> (ns1, x)"
  have "same_places ns (fst (foldl ?f acc infos))" if "same_places ns (fst acc)" for acc
    using that assms
  proof (induction infos arbitrary: acc)
    case (Cons s infos)
    have "same_places ns (fst (?f acc s))"
      using Cons.prems by (auto split: prod.split option.split intro!: same_places_move_acc dest: names_subnet_mono)
    then show ?case using Cons by simp
  qed simp
  from this [of "(ns, si_x i)" for i] show ?thesis
    by (cases infos) (simp_all add: compress_toward_left_def)
qed

lemma ids_pack_left [simp]: "map fst (pack_left pad x ss) = map si_id ss"
  by (induction ss arbitrary: x) (simp_all add: Let_def)

lemma ids_pack_from [simp]: "map fst (pack_from pad x ss) = map si_id ss"
  by (induction ss arbitrary: x) simp_all

lemma ids_unless_collision:
  "map fst new = map si_id ss \<Longrightarrow> map fst (unless_collision pad r ss new) = map si_id ss"
  by (simp add: unless_collision_def)

lemma ids_segment: "fst ` set (segment_positions pad (l, r, ss)) \<subseteq> si_id ` set ss"
proof -
  have "map fst (segment_positions pad (l, r, ss)) = map si_id ss \<or> segment_positions pad (l, r, ss) = []"
    by (cases l; cases r; cases ss) (simp_all add: ids_unless_collision del: pack_left.simps pack_from.simps)
  then show ?thesis by (metis empty_subsetI image_empty list.set(1) list.set_map order_refl)
qed

lemma members_of_segments:
  "(l, r, ss) \<in> set (split_segments start cur infos) \<Longrightarrow> set ss \<subseteq> set cur \<union> set infos"
  by (induction start cur infos rule: split_segments.induct) (auto split: if_splits)

lemma same_places_toward_locked:
  assumes "list_all (\<lambda>s. names_subnet ns (si_id s)) infos"
  shows "same_places ns (compress_toward_locked ns infos pad)"
proof (cases "find (\<lambda>(l, r, _). l = None \<and> r = None) (split_segments None [] infos)")
  case None
  let ?new = "map (\<lambda>s. (si_id s, si_x s)) (filter si_locked infos) @
     concat (map (segment_positions pad) (split_segments None [] infos))"
  have "names_subnet ns (fst p)" if "p \<in> set ?new" for p
  proof -
    have "fst p \<in> si_id ` set infos"
    proof (cases "p \<in> set (concat (map (segment_positions pad) (split_segments None [] infos)))")
      case True
      then obtain l r ss where "(l, r, ss) \<in> set (split_segments None [] infos)" "p \<in> set (segment_positions pad (l, r, ss))"
        by auto
      then show ?thesis using ids_segment [of pad l r ss] members_of_segments [of l r ss None "[]" infos] by force
    qed (use that in auto)
    then show ?thesis using assms by (auto simp: list_all_iff)
  qed
  then have "same_places ns (foldl (\<lambda>ns1 (i, x). move_first i x ns1) ns ?new)"
    by (intro same_places_moves)
  then show ?thesis unfolding compress_toward_locked_def Let_def None option.case .
next
  case (Some seg)
  then obtain ss where "(None, None, ss) \<in> set (split_segments None [] infos)" "seg = (None, None, ss)"
    by (auto simp: find_Some_iff) (metis nth_mem prod_cases3)
  moreover have "list_all (\<lambda>s. names_subnet ns (si_id s)) ss" if "set ss \<subseteq> set infos" for ss
    using assms that unfolding list_all_iff by blast
  ultimately show ?thesis
    using members_of_segments [of None None ss None "[]" infos] same_places_toward_left
    unfolding compress_toward_locked_def Let_def Some option.case by simp
qed

lemma same_places_compress_layer:
  assumes "list_all (names_subnet ns) layer"
  shows "same_places ns (compress_layer locked pad ns layer)"
proof -
  let ?infos = "sort_key si_x (List.map_filter (\<lambda>i. map_option (\<lambda>n.
      \<lparr>si_id = i, si_x = ix (nd_position n), si_width = int (ux (nd_size n)), si_locked = i \<in> locked\<rparr>)
      (find_node i ns)) layer)"
  have "s \<in> set ?infos \<Longrightarrow> si_id s \<in> set layer" for s
    by (induction layer) (auto split: option.splits)
  then have "list_all (\<lambda>s. names_subnet ns (si_id s)) ?infos" using assms unfolding list_all_iff by blast
  from same_places_toward_left [OF this] same_places_toward_locked [OF this]
  show ?thesis by (simp only: compress_layer_def Let_def split: if_split) simp
qed

lemma same_places_horizontal:
  assumes "distinct (map nd_id ns)"
  shows "same_places ns (compress_horizontal_spacing ctx ns es)"
proof -
  let ?layers = "group_subnets_by_layer ns (subnet_node_ids ns)"
  let ?ns1 = "foldl (compress_layer (find_locked_subnets ctx ns es) POSITIONER_PADDING) ns ?layers"
  have "subnet_rows_of ns ?layers" by (intro rows_of_ids ids_name_subnets assms)
  then have "same_places ns ?ns1"
    by (intro same_places_foldl same_places_compress_layer)
      (auto simp: subnet_rows_of_def list_all_iff intro: names_subnet_mono)
  moreover have "same_places ms (map (\<lambda>n. if is_subnet_node (nd_type n)
      then set_x (snap_to_grid (f64 (of_int (ix (nd_position n))))) n else n) ms)" for ms
    by (auto simp: list_all2_conv_all_nth same_place_def set_x_def)
  ultimately show ?thesis
    unfolding compress_horizontal_spacing_def Let_def by (rule same_places_trans)
qed

section \<open>Columns and handles\<close>

lemma same_places_stack:
  "list_all (\<lambda>k. k < length ns \<and> \<not> is_subnet_node (nd_type (ns ! k))) ks \<Longrightarrow> same_places ns (stack_column y ks ns)"
proof (induction y ks ns rule: stack_column.induct)
  case (2 y k ks ns)
  let ?ns1 = "ns[k := set_y y (ns ! k)]"
  have one: "same_places ns ?ns1"
    using 2(2) by (auto simp: list_all2_conv_all_nth nth_list_update same_place_def set_y_def)
  have "list_all (\<lambda>k. k < length ?ns1 \<and> \<not> is_subnet_node (nd_type (?ns1 ! k))) ks"
    using 2(2) by (auto simp: list_all_iff nth_list_update set_y_def)
  from same_places_trans [OF one 2(1) [OF this]] show ?case by simp
qed simp

lemma hinsert_members: "(key, x) \<in> set (hinsert k v m) \<Longrightarrow> key = k \<and> x = v \<or> (key, x) \<in> set m"
  unfolding hinsert_def by (induction m) (auto split: if_splits)

lemma hpush_members:
  "(key, ks) \<in> set (hpush k v m) \<Longrightarrow> x \<in> set ks \<Longrightarrow> x = v \<or> (\<exists>key ks. (key, ks) \<in> set m \<and> x \<in> set ks)"
  unfolding hpush_def by (auto dest!: hinsert_members split: option.splits dest: hget_in_values)

lemma is_subnet_node_simps [simp]: "is_subnet_node (SubnetNode k)" "\<not> is_subnet_node (InterfaceNode s h i infra)"
  by (simp_all add: is_subnet_node_def)

lemma node_columns_children:
  assumes "(key, ks) \<in> set (node_columns ns)" "k \<in> set ks"
  shows "k < length ns \<and> \<not> is_subnet_node (nd_type (ns ! k))"
proof -
  have "k < length ns \<and> \<not> is_subnet_node (nd_type (ns ! k))"
    if "(key, ks) \<in> set (foldl (\<lambda>m (k, n). case nd_type n of
         InterfaceNode s _ _ _ \<Rightarrow> hpush (s, ix (nd_position n)) k m | SubnetNode _ \<Rightarrow> m) m ps)" "k \<in> set ks"
      "list_all (\<lambda>(k, n). k < length ns \<and> ns ! k = n) ps"
      "\<And>key ks. (key, ks) \<in> set m \<Longrightarrow> k \<in> set ks \<Longrightarrow> k < length ns \<and> \<not> is_subnet_node (nd_type (ns ! k))"
    for m ps key ks
    using that
  proof (induction ps arbitrary: m key ks)
    case (Cons p ps)
    show ?case
    proof (rule Cons.IH [OF _ Cons.prems(2)])
      show "list_all (\<lambda>(k, n). k < length ns \<and> ns ! k = n) ps" using Cons.prems(3) by simp
    qed (use Cons.prems in \<open>fastforce split: prod.splits NodeType.splits dest!: hpush_members\<close>)+
  qed simp
  moreover have "list_all (\<lambda>(k, n). k < length ns \<and> ns ! k = n) (enumerate 0 ns)"
    by (auto simp: list_all_iff in_set_enumerate_eq)
  ultimately show ?thesis using assms unfolding node_columns_def by fastforce
qed

lemma same_places_children:
  assumes "same_places ns ms" "k < length ns \<and> \<not> is_subnet_node (nd_type (ns ! k))"
  shows "k < length ms \<and> \<not> is_subnet_node (nd_type (ms ! k))"
  using assms by (auto simp: list_all2_conv_all_nth same_place_def)

lemma same_places_vertical: "same_places ns (compress_vertical_spacing ns)"
  unfolding compress_vertical_spacing_def
proof (rule same_places_foldl, goal_cases)
  case (2 c ls)
  note c = 2(1) and ls = 2(2)
  obtain s x ks where cs: "c = ((s, x), ks)" by (metis surj_pair)
  have "list_all (\<lambda>k. k < length ls \<and> \<not> is_subnet_node (nd_type (ls ! k)))
      (sort_key (\<lambda>k. iy (nd_position (ls ! k))) ks)"
    using node_columns_children [of "(s, x)" ks ns] c same_places_children [OF ls] by (simp add: cs list_all_iff)
  from same_places_stack [OF this] show ?case by (simp add: cs)
qed simp

text \<open>Edges keep all but their handles, and those within a subnet alone may change them.\<close>

definition same_edge :: "'c TopologyContext \<Rightarrow> Edge \<Rightarrow> Edge \<Rightarrow> bool" where
  "same_edge ctx e f \<longleftrightarrow>
     f\<lparr>source_handle := source_handle e, target_handle := target_handle e\<rparr> = e \<and> (edge_is_intra_subnet ctx e \<or> f = e)"

lemma same_edges_fixed: "list_all2 (same_edge ctx) es (fix_intra_subnet_handles ctx es ns)"
  unfolding fix_intra_subnet_handles_def list_all2_map2
  by (rule list_all2_refl) (auto simp: same_edge_def split: option.split prod.split)

text \<open>
  C24: The optimizer only moves nodes: subnets within their row, children within their column. It
  adds and drops no node, keeps the order, ids, types, sizes and headers, and of the edges it
  changes nothing but the handles of those within one subnet.
\<close>

theorem optimizer_only_moves:
  assumes "distinct (map nd_id ns)"
  shows "same_places ns (fst (optimize_graph ctx ns es)) \<and> list_all2 (same_edge ctx) es (snd (optimize_graph ctx ns es))"
proof -
  let ?ns1 = "optimizer_rounds MAX_GLOBAL_ITERATIONS ctx es (calculate_layout_quality ns es) ns"
  have one: "same_places ns ?ns1" by (rule same_places_rounds [OF assms])
  then have "distinct (map nd_id ?ns1)" using assms by (simp add: same_places_ids)
  then have "same_places ns (compress_horizontal_spacing ctx ?ns1 es)"
    by (rule same_places_trans [OF one same_places_horizontal])
  then show ?thesis
    unfolding optimize_graph_def Let_def fst_conv snd_conv
    using same_places_trans [OF _ same_places_vertical] same_edges_fixed by blast
qed

section \<open>Two subnets of one row, and a child\<close>

definition demo_subnet_node :: "uuid \<Rightarrow> int \<Rightarrow> nat \<Rightarrow> Node" where
  "demo_subnet_node i x w =
     \<lparr>nd_id = i, nd_type = SubnetNode 0, nd_position = ixy x 0, nd_size = \<lparr>ux = w, uy = 200\<rparr>, nd_header = None\<rparr>"

definition demo_child_node :: "uuid \<Rightarrow> uuid \<Rightarrow> Node" where
  "demo_child_node i s =
     \<lparr>nd_id = i, nd_type = InterfaceNode s 9 None False, nd_position = ixy 50 50, nd_size = \<lparr>ux = 250, uy = 100\<rparr>,
      nd_header = None\<rparr>"

corollary subnet_placed_nearest_free_witness:
  "\<not> row_overlap 200 (apply_non_overlap_constraint [demo_subnet_node 1 0 300, demo_subnet_node 2 0 200] 2 100 []) [(0, 300)] \<and>
   \<bar>100 - apply_non_overlap_constraint [demo_subnet_node 1 0 300, demo_subnet_node 2 0 200] 2 100 []\<bar> \<le> 325"
proof -
  have "find_node 2 [demo_subnet_node 1 0 300, demo_subnet_node 2 0 200] = Some (demo_subnet_node 2 0 200)"
    "others_in_row [demo_subnet_node 1 0 300, demo_subnet_node 2 0 200] (demo_subnet_node 2 0 200) 2 [] = [(0, 300)]"
    by (simp_all add: find_node_def others_in_row_def demo_subnet_node_def hget_def ixy_def)
  from subnet_placed_nearest_free [OF this, of 100 425] show ?thesis
    by (simp add: demo_subnet_node_def candidates_def POSITIONER_PADDING_def row_overlap_def)
qed

corollary optimizer_only_moves_witness:
  "same_places [demo_subnet_node 1 0 300, demo_child_node 4 1]
     (fst (optimize_graph demo_grid_context [demo_subnet_node 1 0 300, demo_child_node 4 1] []))"
  using optimizer_only_moves [of "[demo_subnet_node 1 0 300, demo_child_node 4 1]" demo_grid_context "[]"]
  by (simp add: demo_subnet_node_def demo_child_node_def)

end
