(* ===== verification/Layout_Claims.thy ===== *)
theory Layout_Claims
  imports Topology_Layout Grid_Logic
begin

text \<open>
  Properties of the layout of a subnet: its children lie inside it and apart, in both zones,
  and which interfaces get a node at all.
\<close>

section \<open>A zone\<close>

text \<open>Sizes and numbers that keep every coordinate within an \<open>isize\<close>.\<close>

definition modest :: "SubnetChild list \<Rightarrow> bool" where
  "modest cs \<longleftrightarrow> length cs \<le> 2 ^ 20 \<and> list_all (\<lambda>c. ux (sc_size c) \<le> 2 ^ 31 \<and> uy (sc_size c) \<le> 2 ^ 31) cs"

lemma NODE_PADDING_simps [simp]: "ux NODE_PADDING = 50" "uy NODE_PADDING = 50"
  by (simp_all add: NODE_PADDING_def uxy_def)

lemma zone_child:
  assumes "distinct (map sc_id cs)" "modest cs" "c \<in> set cs"
  shows "\<exists>l. hget (fst (zone_layout ctx cs)) (sc_id c) = Some l \<and> nl_size l = sc_size c \<and>
           50 \<le> ix (nl_position l) \<and> 50 \<le> iy (nl_position l) \<and>
           ix (nl_position l) + int (ux (sc_size c)) + 50 \<le> int (ux (snd (zone_layout ctx cs))) \<and>
           iy (nl_position l) + int (uy (sc_size c)) + 50 \<le> int (uy (snd (zone_layout ctx cs)))"
proof -
  let ?ls = "calculate_anchor_based_positions ctx cs NODE_PADDING"
  have zone: "zone_layout ctx cs = (?ls, calculate_container_size_from_layouts ?ls NODE_PADDING)"
    using assms(3) by (auto simp: zone_layout_def Let_def)
  have n: "length cs < 2 ^ 52" "length cs \<le> 2 ^ 20" and
    sizes: "list_all (\<lambda>c. ux (sc_size c) \<le> 2 ^ 31 \<and> uy (sc_size c) \<le> 2 ^ 31) cs"
    using assms(2) by (simp_all add: modest_def)
  obtain l where l: "hget ?ls (sc_id c) = Some l" "nl_size l = sc_size c" "50 \<le> ix (nl_position l)" "50 \<le> iy (nl_position l)"
    using children_placed [OF assms(1) n(1) assms(3, 3), of ctx NODE_PADDING] by auto
  have small: "ix (nl_position l) \<le> 2 ^ 60" "iy (nl_position l) \<le> 2 ^ 60"
    using children_small [OF assms(1) n(2) assms(3) _ _ sizes l(1)] by simp_all
  have c: "ux (sc_size c) \<le> 2 ^ 31" "uy (sc_size c) \<le> 2 ^ 31" using sizes assms(3) by (auto simp: list_all_iff)
  have mem: "l \<in> set (hvalues ?ls)" "?ls \<noteq> []" using hget_in_values [OF l(1)] by (force simp: hvalues_def)+
  have "as_usize (ix (nl_position l) + int (ux (nl_size l)) + 50) \<le> ux (calculate_container_size_from_layouts ?ls NODE_PADDING)"
    "as_usize (iy (nl_position l) + int (uy (nl_size l)) + 50) \<le> uy (calculate_container_size_from_layouts ?ls NODE_PADDING)"
    using mem by (auto simp: calculate_container_size_from_layouts_def uxy_def intro!: fold_max_mem)
  then show ?thesis using l small c by (simp add: zone nat_le_iff)
qed

lemma zone_children_apart:
  assumes "distinct (map sc_id cs)" "modest cs" "c \<in> set cs" "d \<in> set cs" "c \<noteq> d"
    "hget (fst (zone_layout ctx cs)) (sc_id c) = Some l" "hget (fst (zone_layout ctx cs)) (sc_id d) = Some m"
  shows "layouts_apart NODE_PADDING l m"
proof -
  have "fst (zone_layout ctx cs) = calculate_anchor_based_positions ctx cs NODE_PADDING"
    using assms(3) by (auto simp: zone_layout_def Let_def)
  then show ?thesis
    using children_placed [OF assms(1) _ assms(3, 4), of ctx NODE_PADDING] assms(2, 5-7) by (auto simp: modest_def)
qed

section \<open>A subnet with its two zones\<close>

definition nodes_apart :: "Node \<Rightarrow> Node \<Rightarrow> bool" where
  "nodes_apart a b \<longleftrightarrow>
     layouts_apart NODE_PADDING \<lparr>nl_size = nd_size a, nl_position = nd_position a\<rparr>
       \<lparr>nl_size = nd_size b, nl_position = nd_position b\<rparr>"

definition inside :: "Uxy \<Rightarrow> Node \<Rightarrow> bool" where
  "inside area a \<longleftrightarrow>
     50 \<le> ix (nd_position a) \<and> 50 \<le> iy (nd_position a) \<and>
     ix (nd_position a) + int (ux (nd_size a)) + 50 \<le> int (ux area) \<and>
     iy (nd_position a) + int (uy (nd_size a)) + 50 \<le> int (uy area)"

lemma modest_sub: "modest cs \<Longrightarrow> length ds \<le> length cs \<Longrightarrow> set ds \<subseteq> set cs \<Longrightarrow> modest ds"
  by (auto simp: modest_def list_all_iff)

lemma zone_part:
  assumes "ds = filter P (sort_key k cs)"
  shows "distinct (map sc_id cs) \<Longrightarrow> distinct (map sc_id ds)" "modest cs \<Longrightarrow> modest ds" "set ds = {c \<in> set cs. P c}"
proof -
  have "distinct (map sc_id (sort_key k cs)) = distinct (map sc_id cs)" by (simp only: distinct_map set_sort distinct_sort)
  then show "distinct (map sc_id cs) \<Longrightarrow> distinct (map sc_id ds)" by (simp add: assms distinct_map_filter)
  show "set ds = {c \<in> set cs. P c}" by (simp add: assms)
  moreover have "length ds \<le> length cs" unfolding assms by (metis length_filter_le length_sort)
  ultimately show "modest ds" if "modest cs" using modest_sub [OF that] by blast
qed

lemma subnet_zones_split:
  assumes "subnet_zones ctx subnet cs = (infra, regular)"
  shows "set infra \<union> set regular = set cs" "set infra \<inter> set regular = {}"
    "distinct (map sc_id cs) \<Longrightarrow> distinct (map sc_id infra)" "distinct (map sc_id cs) \<Longrightarrow> distinct (map sc_id regular)"
    "modest cs \<Longrightarrow> modest infra" "modest cs \<Longrightarrow> modest regular"
proof -
  have "(infra = [] \<and> regular = cs) \<or>
    (\<exists>P. infra = filter P (sort_key (\<lambda>c. uy (sc_size c)) cs) \<and>
         regular = filter (\<lambda>c. \<not> P c) (sort_key (\<lambda>c. uy (sc_size c)) cs))"
  proof (cases "ctx_subnet ctx subnet")
    case (Some s)
    let ?P = "\<lambda>c. sc_interface_id c \<in> set (interfaces_with_infra_service ctx s)"
    have "infra = filter ?P (sort_key (\<lambda>c. uy (sc_size c)) cs)"
      "regular = filter (\<lambda>c. \<not> ?P c) (sort_key (\<lambda>c. uy (sc_size c)) cs)"
      using assms by (simp_all add: subnet_zones_def Some comp_def)
    then show ?thesis by blast
  qed (use assms in \<open>simp add: subnet_zones_def\<close>)
  then consider "infra = []" "regular = cs"
    | P where "infra = filter P (sort_key (\<lambda>c. uy (sc_size c)) cs)"
        "regular = filter (\<lambda>c. \<not> P c) (sort_key (\<lambda>c. uy (sc_size c)) cs)" by blast
  then have "(set infra \<union> set regular = set cs \<and> set infra \<inter> set regular = {}) \<and>
    (distinct (map sc_id cs) \<longrightarrow> distinct (map sc_id infra) \<and> distinct (map sc_id regular)) \<and>
    (modest cs \<longrightarrow> modest infra \<and> modest regular)"
  proof cases
    case 1
    then show ?thesis by (simp add: modest_def)
  next
    case (2 P)
    from zone_part [OF 2(1)] zone_part [OF 2(2)] show ?thesis by blast
  qed
  then show "set infra \<union> set regular = set cs" "set infra \<inter> set regular = {}"
    "distinct (map sc_id cs) \<Longrightarrow> distinct (map sc_id infra)" "distinct (map sc_id cs) \<Longrightarrow> distinct (map sc_id regular)"
    "modest cs \<Longrightarrow> modest infra" "modest cs \<Longrightarrow> modest regular" by blast+
qed

text \<open>The node of a child of a zone.\<close>

lemma zone_node:
  assumes "distinct (map sc_id cs)" "modest cs" "c \<in> set cs"
    "child_node subnet infra off (fst (zone_layout ctx cs)) c = Some a"
  shows "nd_id a = sc_id c" "int off + 50 \<le> ix (nd_position a)" "50 \<le> iy (nd_position a)"
    "ix (nd_position a) + int (ux (nd_size a)) + 50 \<le> int off + int (ux (snd (zone_layout ctx cs)))"
    "iy (nd_position a) + int (uy (nd_size a)) + 50 \<le> int (uy (snd (zone_layout ctx cs)))"
  using zone_child [OF assms(1-3), of ctx] assms(4) by (auto simp: child_node_def)

lemma zone_nodes_placed:
  assumes "distinct (map sc_id cs)" "modest cs"
  shows "nd_id ` set (List.map_filter (child_node subnet infra off (fst (zone_layout ctx cs))) cs) = sc_id ` set cs"
proof -
  have "\<exists>a. child_node subnet infra off (fst (zone_layout ctx cs)) c = Some a \<and> nd_id a = sc_id c" if "c \<in> set cs" for c
    using zone_child [OF assms that, of ctx] by (auto simp: child_node_def)
  then show ?thesis unfolding set_map_filter by (auto simp: child_node_def image_iff) fastforce
qed

lemma zone_nodes_apart:
  assumes "distinct (map sc_id cs)" "modest cs"
    "a \<in> set (List.map_filter (child_node subnet infra off (fst (zone_layout ctx cs))) cs)"
    "b \<in> set (List.map_filter (child_node subnet infra off (fst (zone_layout ctx cs))) cs)"
  shows "a = b \<or> nodes_apart a b"
proof -
  obtain c where c: "c \<in> set cs" "child_node subnet infra off (fst (zone_layout ctx cs)) c = Some a"
    using assms(3) by (auto simp: set_map_filter)
  obtain d where d: "d \<in> set cs" "child_node subnet infra off (fst (zone_layout ctx cs)) d = Some b"
    using assms(4) by (auto simp: set_map_filter)
  obtain l where l: "hget (fst (zone_layout ctx cs)) (sc_id c) = Some l" "nl_size l = sc_size c"
    using zone_child [OF assms(1, 2) c(1), of ctx] by blast
  obtain m where m: "hget (fst (zone_layout ctx cs)) (sc_id d) = Some m" "nl_size m = sc_size d"
    using zone_child [OF assms(1, 2) d(1), of ctx] by blast
  show ?thesis
  proof (cases "c = d")
    case False
    from zone_children_apart [OF assms(1, 2) c(1) d(1) False l(1) m(1)]
    show ?thesis using c(2) d(2) l m by (auto simp: child_node_def nodes_apart_def layouts_apart_def Let_def)
  qed (use c d in simp)
qed

lemma calculate_subnet_size_zones:
  assumes "subnet_zones ctx subnet cs = (infra, regular)" "distinct (map sc_id infra)" "modest infra"
  shows "calculate_subnet_size ctx subnet cs =
     (let r = zone_layout ctx regular; i = zone_layout ctx infra
      in (uxy (ux (snd r) + ux (snd i)) (max (uy (snd r)) (uy (snd i))), ux (snd i),
          List.map_filter (child_node subnet True 0 (fst i)) infra @
          List.map_filter (child_node subnet False (ux (snd i)) (fst r)) regular))"
proof -
  have "0 < card (set (map (\<lambda>l. ix (nl_position l)) (hvalues (fst (zone_layout ctx infra)))))" if "infra \<noteq> []"
  proof -
    obtain c where "c \<in> set infra" using \<open>infra \<noteq> []\<close> by (cases infra) auto
    then have "fst (zone_layout ctx infra) \<noteq> []"
      using zone_child [OF assms(2, 3), of c ctx] by (auto simp: hget_def)
    then show ?thesis by (simp add: card_gt_0_iff hvalues_def)
  qed
  then have off: "(if 0 < card (set (map (\<lambda>l. ix (nl_position l)) (hvalues (fst (zone_layout ctx infra)))))
      then ux (snd (zone_layout ctx infra)) else 0) = ux (snd (zone_layout ctx infra))"
    by (cases "infra = []") (simp_all add: zone_layout_def uxy_def)
  show ?thesis
    by (simp only: calculate_subnet_size_def assms(1) Let_def split_def fst_conv snd_conv off)
qed

text \<open>
  C5: Laying out a subnet gives every child a node, keeps each node at least the padding inside
  the subnet, and leaves the padding between any two nodes on one of the axes, in both zones and
  across them, whatever forces the edges exert and in spite of the rounded square root and
  quotient that give the dimensions of the grid.
\<close>

theorem children_of_subnet_apart:
  assumes "distinct (map sc_id cs)" "modest cs" "calculate_subnet_size ctx subnet cs = (area, w, ns)"
    "a \<in> set ns" "b \<in> set ns"
  shows "nd_id ` set ns = sc_id ` set cs \<and> inside area a \<and> (a = b \<or> nodes_apart a b)"
proof -
  obtain infra regular where z: "subnet_zones ctx subnet cs = (infra, regular)" by fastforce
  note split = subnet_zones_split [OF z]
  note i = split(3) [OF assms(1)] split(5) [OF assms(2)] and r = split(4) [OF assms(1)] split(6) [OF assms(2)]
  let ?iz = "zone_layout ctx infra" and ?rz = "zone_layout ctx regular"
  let ?is = "List.map_filter (child_node subnet True 0 (fst ?iz)) infra"
  let ?rs = "List.map_filter (child_node subnet False (ux (snd ?iz)) (fst ?rz)) regular"
  have ns: "ns = ?is @ ?rs" and area: "area = uxy (ux (snd ?rz) + ux (snd ?iz)) (max (uy (snd ?rz)) (uy (snd ?iz)))"
    using assms(3) [symmetric] unfolding calculate_subnet_size_zones [OF z i] Let_def by blast+
  have left: "inside area x \<and> ix (nd_position x) + int (ux (nd_size x)) + 50 \<le> int (ux (snd ?iz))" if "x \<in> set ?is" for x
    using that zone_node [OF i, of _ subnet True 0 ctx x] by (fastforce simp: set_map_filter inside_def area uxy_def)
  have right: "inside area x \<and> int (ux (snd ?iz)) + 50 \<le> ix (nd_position x)" if "x \<in> set ?rs" for x
    using that zone_node [OF r, of _ subnet False "ux (snd ?iz)" ctx x]
    by (fastforce simp: set_map_filter inside_def area uxy_def)
  have across: "nodes_apart x y \<and> nodes_apart y x" if "x \<in> set ?is" "y \<in> set ?rs" for x y
    using left [OF that(1)] right [OF that(2)] by (auto simp: nodes_apart_def layouts_apart_def Let_def)
  have "nd_id ` set ns = sc_id ` set cs"
    using zone_nodes_placed [OF i, of subnet True 0 ctx] zone_nodes_placed [OF r, of subnet False "ux (snd ?iz)" ctx] split(1)
    by (simp add: ns image_Un flip: split(1))
  moreover have "a = b \<or> nodes_apart a b"
    using assms(4, 5) across zone_nodes_apart [OF i] zone_nodes_apart [OF r] unfolding ns set_append by blast
  moreover have "inside area a" using assms(4) left right unfolding ns set_append by blast
  ultimately show ?thesis by blast
qed

section \<open>Which interfaces get a node\<close>

definition shown :: "'c TopologyContext \<Rightarrow> Interface \<Rightarrow> bool" where
  "shown ctx i \<longleftrightarrow> ctx_host ctx (ib_host_id (interface_base i)) \<noteq> None \<and> services_shown_on ctx i \<noteq> []"

definition entry :: "(uuid, 'v list) HashMap \<Rightarrow> uuid \<Rightarrow> 'v list" where
  "entry m n = (case hget m n of Some xs \<Rightarrow> xs | None \<Rightarrow> [])"

lemma entry_hpush: "entry (hpush k v m) n = entry m n @ (if n = k then [v] else [])"
  by (auto simp: entry_def hpush_def hget_laws)

lemma hmap_ok_hpush: "hmap_ok m \<Longrightarrow> hmap_ok (hpush k v m)"
  by (simp add: hpush_def)

lemma group_interface_step:
  assumes "group_interface ctx False grouping (children, bridges, es) i = (children1, bridges1, es1)"
  shows "map sc_id (entry children1 n) =
           map sc_id (entry children n) @ (if shown ctx i \<and> ib_subnet_id (interface_base i) = n then [interface_id i] else [])"
    and "hmap_ok children \<Longrightarrow> hmap_ok children1"
  using assms
  by (auto simp: group_interface_def Let_def shown_def entry_hpush subnet_child_def hmap_ok_hpush
      split: option.splits if_splits prod.splits)

lemma group_interfaces:
  assumes "foldl (group_interface ctx False grouping) (children, bridges, es) js = (children1, bridges1, es1)"
  shows "map sc_id (entry children1 n) = map sc_id (entry children n) @
           map interface_id (filter (\<lambda>i. shown ctx i \<and> ib_subnet_id (interface_base i) = n) js)"
    and "hmap_ok children \<Longrightarrow> hmap_ok children1"
  using assms
proof (induction js arbitrary: children bridges es)
  case (Cons i js)
  {
    case (1 children bridges es)
    obtain c b e where step: "group_interface ctx False grouping (children, bridges, es) i = (c, b, e)"
      using prod_cases3 by blast
    have "foldl (group_interface ctx False grouping) (c, b, e) js = (children1, bridges1, es1)"
      using 1 by (simp add: step)
    from Cons.IH(1) [OF this] group_interface_step(1) [OF step, of n] show ?case by simp
  next
    case (2 children bridges es)
    obtain c b e where step: "group_interface ctx False grouping (children, bridges, es) i = (c, b, e)"
      using prod_cases3 by blast
    have "foldl (group_interface ctx False grouping) (c, b, e) js = (children1, bridges1, es1)"
      using 2(2) by (simp add: step)
    from Cons.IH(2) [OF _ this] group_interface_step(2) [OF step 2(1)] show ?case by simp
  }
qed simp_all

lemma zone_node_ids:
  assumes "distinct (map sc_id cs)" "length cs < 2 ^ 52"
  shows "nd_id ` set (List.map_filter (child_node subnet infra off (fst (zone_layout ctx cs))) cs) = sc_id ` set cs"
proof -
  have "\<exists>a. child_node subnet infra off (fst (zone_layout ctx cs)) c = Some a \<and> nd_id a = sc_id c" if "c \<in> set cs" for c
    using children_placed [OF assms that that, of ctx NODE_PADDING] that
    by (auto simp: child_node_def zone_layout_def Let_def)
  then show ?thesis unfolding set_map_filter by (auto simp: child_node_def image_iff) fastforce
qed

lemma subnet_node_ids_exactly:
  assumes "distinct (map sc_id cs)" "length cs < 2 ^ 52"
  shows "nd_id ` set (snd (snd (calculate_subnet_size ctx subnet cs))) = sc_id ` set cs"
proof -
  obtain infra regular where z: "subnet_zones ctx subnet cs = (infra, regular)" by fastforce
  note split = subnet_zones_split [OF z]
  have part: "length ds \<le> length cs" if "set ds \<subseteq> set cs" "distinct (map sc_id ds)" for ds
    using card_mono [OF _ that(1)] card_length [of cs] distinct_card [of ds] that(2) by (simp add: distinct_map)
  then have len: "length infra < 2 ^ 52" "length regular < 2 ^ 52"
    using part [OF _ split(3) [OF assms(1)]] part [OF _ split(4) [OF assms(1)]] split(1) assms(2) by fastforce+
  have "set (snd (snd (calculate_subnet_size ctx subnet cs))) =
      set (List.map_filter (child_node subnet True 0 (fst (zone_layout ctx infra))) infra) \<union>
      set (List.map_filter (child_node subnet False
        (if 0 < card (set (map (\<lambda>l. ix (nl_position l)) (hvalues (fst (zone_layout ctx infra)))))
         then ux (snd (zone_layout ctx infra)) else 0) (fst (zone_layout ctx regular))) regular)"
    by (simp only: calculate_subnet_size_def z Let_def split_def fst_conv snd_conv set_append)
  then show ?thesis
    unfolding split(1) [symmetric]
    by (simp only: image_Un zone_node_ids [OF split(3) [OF assms(1)] len(1)] zone_node_ids [OF split(4) [OF assms(1)] len(2)])
qed

lemma child_nodes_of_interfaces:
  assumes "distinct (map interface_id (tc_interfaces ctx))" "length (tc_interfaces ctx) < 2 ^ 52"
    "create_subnet_child_nodes ctx es False grouping planner = (layouts, ns, es1, planner1)"
  shows "nd_id ` set ns = interface_id ` {i \<in> set (tc_interfaces ctx). shown ctx i}"
proof -
  obtain children bridges es2 where g:
    "foldl (group_interface ctx False grouping) ([], [], es) (tc_interfaces ctx) = (children, bridges, es2)"
    using prod_cases3 by blast
  have ok: "hmap_ok children" using group_interfaces(2) [OF g] by simp
  have ids: "map sc_id (entry children n) =
      map interface_id (filter (\<lambda>i. shown ctx i \<and> ib_subnet_id (interface_base i) = n) (tc_interfaces ctx))" for n
    using group_interfaces(1) [OF g, of n] by (simp add: entry_def hget_def)
  have ns: "set ns = (\<Union>p \<in> set children. set (snd (snd (calculate_subnet_size ctx (fst p) (snd p)))))"
    using assms(3) g
    by (clarsimp simp: create_subnet_child_nodes_def group_children_by_subnet_def Let_def split_def comp_def)
  have one: "nd_id ` set (snd (snd (calculate_subnet_size ctx (fst p) (snd p)))) =
      interface_id ` {i \<in> set (tc_interfaces ctx). shown ctx i \<and> ib_subnet_id (interface_base i) = fst p}"
    if "p \<in> set children" for p
  proof -
    have "(fst p, snd p) \<in> set children" using that by simp
    then have "hget children (fst p) = Some (snd p)" by (simp only: hget_iff_mem [OF ok])
    then have m: "map sc_id (snd p) =
        map interface_id (filter (\<lambda>i. shown ctx i \<and> ib_subnet_id (interface_base i) = fst p) (tc_interfaces ctx))"
      using ids [of "fst p"] by (simp add: entry_def)
    then have "distinct (map sc_id (snd p))" using assms(1) by (simp add: distinct_map_filter)
    moreover have "length (snd p) < 2 ^ 52"
      using arg_cong [OF m, of length] le_less_trans [OF length_filter_le assms(2)] by simp
    moreover have "sc_id ` set (snd p) =
        interface_id ` {i \<in> set (tc_interfaces ctx). shown ctx i \<and> ib_subnet_id (interface_base i) = fst p}"
      using arg_cong [OF m, of set] by simp
    ultimately show ?thesis using subnet_node_ids_exactly [of "snd p" ctx "fst p"] by simp
  qed
  have at: "\<exists>p \<in> set children. fst p = ib_subnet_id (interface_base i)" if "i \<in> set (tc_interfaces ctx)" "shown ctx i" for i
  proof -
    have "entry children (ib_subnet_id (interface_base i)) \<noteq> []"
      using ids [of "ib_subnet_id (interface_base i)"] that by (force simp: filter_empty_conv)
    then show ?thesis by (force simp: entry_def split: option.splits dest: hget_in_values)
  qed
  have "nd_id ` set ns = (\<Union>p \<in> set children.
      interface_id ` {i \<in> set (tc_interfaces ctx). shown ctx i \<and> ib_subnet_id (interface_base i) = fst p})"
    unfolding ns image_UN using one by simp
  also have "\<dots> = interface_id ` (\<Union>p \<in> set children.
      {i \<in> set (tc_interfaces ctx). shown ctx i \<and> ib_subnet_id (interface_base i) = fst p})" by (simp only: image_UN)
  also have "(\<Union>p \<in> set children. {i \<in> set (tc_interfaces ctx). shown ctx i \<and> ib_subnet_id (interface_base i) = fst p}) =
      {i \<in> set (tc_interfaces ctx). shown ctx i}"
  proof (rule set_eqI, rule iffI)
    fix i
    assume "i \<in> {i \<in> set (tc_interfaces ctx). shown ctx i}"
    then have i: "i \<in> set (tc_interfaces ctx)" "shown ctx i" by simp_all
    obtain p where p: "p \<in> set children" and e: "fst p = ib_subnet_id (interface_base i)" using at [OF i] by blast
    show "i \<in> (\<Union>p \<in> set children.
        {i \<in> set (tc_interfaces ctx). shown ctx i \<and> ib_subnet_id (interface_base i) = fst p})"
      by (rule UN_I [OF p]) (simp only: mem_Collect_eq i e)
  qed auto
  finally show ?thesis .
qed

text \<open>
  Without grouped bridges exactly the interfaces get a node whose host is known and on which
  some service of the network is shown.
\<close>

theorem interface_nodes_exactly:
  assumes "distinct (map interface_id (tc_interfaces ctx))" "length (tc_interfaces ctx) < 2 ^ 52"
    "create_subnet_child_nodes ctx es False grouping planner = (layouts, ns, es1, planner1)"
  shows "nd_id ` set ns = interface_id ` {i \<in> set (tc_interfaces ctx).
           ctx_host ctx (ib_host_id (interface_base i)) \<noteq> None \<and> services_shown_on ctx i \<noteq> []}"
  using child_nodes_of_interfaces [OF assms] by (simp add: shown_def)

text \<open>
  The planner and the edge builder disagree about which interfaces have a node. One service
  of any host with a binding to all interfaces makes the planner draw every interface of every
  known host, also one that no service names; \<open>interface_will_have_node\<close>, which decides
  whether an edge may end there, denies it.
\<close>

theorem unbound_service_shows_every_interface:
  assumes "distinct (map interface_id (tc_interfaces ctx))" "length (tc_interfaces ctx) < 2 ^ 52"
    "create_subnet_child_nodes ctx es False grouping planner = (layouts, ns, es1, planner1)"
    "s \<in> set (tc_services ctx)" "b \<in> set (bindings (service_base s))" "binding_interface_id b = None"
    "i \<in> set (tc_interfaces ctx)" "ctx_host ctx (ib_host_id (interface_base i)) \<noteq> None"
    "list_all (\<lambda>s. list_all (\<lambda>b. binding_interface_id b \<noteq> Some (interface_id i)) (bindings (service_base s))) (tc_services ctx)"
  shows "interface_id i \<in> nd_id ` set ns \<and> \<not> interface_will_have_node ctx (interface_id i)"
proof -
  have "services_shown_on ctx i \<noteq> []"
    using assms(4-6) by (force simp: services_shown_on_def filter_empty_conv list_ex_iff)
  then have "shown ctx i" using assms(8) by (simp add: shown_def)
  then have "interface_id i \<in> nd_id ` set ns" using child_nodes_of_interfaces [OF assms(1-3)] assms(7) by blast
  moreover have "\<not> interface_will_have_node ctx (interface_id i)"
    using assms(9) unfolding interface_will_have_node_iff list_all_iff by blast
  ultimately show ?thesis ..
qed

section \<open>A service of host 1 bound to all interfaces, and an interface of host 2\<close>

definition demo_lan_host :: "uuid \<Rightarrow> Host" where
  "demo_lan_host i = \<lparr>host_id = i, host_created_at = 0, host_updated_at = 0,
     host_base = default_host_base\<lparr>hb_name := ''h'', hb_network_id := 1\<rparr>\<rparr>"

definition demo_lan_interface :: "uuid \<Rightarrow> uuid \<Rightarrow> Interface" where
  "demo_lan_interface i h = \<lparr>interface_id = i, interface_created_at = 0, interface_updated_at = 0,
     interface_base = \<lparr>ib_network_id = 1, ib_host_id = h, ib_subnet_id = 5, ib_ip_address = V4 0x0A000001,
       ib_mac_address = None, ib_name = None, ib_position = 0\<rparr>\<rparr>"

definition demo_lan_binding :: Binding where
  "demo_lan_binding = \<lparr>binding_id = 31, binding_created_at = 0, binding_updated_at = 0,
     binding_base = bindingbase_new 21 1 (PortBinding 11 None)\<rparr>"

definition demo_lan_service :: Service where
  "demo_lan_service =
     \<lparr>service_id = 21, service_created_at = 0, service_updated_at = 0,
      service_base = \<lparr>vb_host_id = 1, vb_network_id = 1,
        service_definition = \<lparr>sd_name = ''web'', sd_description = [], sd_category = SC_Unknown, sd_is_generic = False,
          sd_is_gateway = False, sd_logo_url = [], sd_raw_socket = False\<rparr>,
        vb_name = ''web'', bindings = [demo_lan_binding], virtualization = None, vb_source = Manual, vb_tags = [],
        vb_position = 0\<rparr>\<rparr>"

definition demo_lan :: "unit TopologyContext" where
  "demo_lan =
     \<lparr>tc_hosts = [demo_lan_host 1, demo_lan_host 2], tc_interfaces = [demo_lan_interface 41 1, demo_lan_interface 42 2],
      tc_subnets = [], tc_services = [demo_lan_service], tc_groups = [], tc_ports = [], tc_bindings = [],
      tc_if_entries = [], tc_options = default_topology_options\<rparr>"

lemma demo_lan_facts:
  "distinct (map interface_id (tc_interfaces demo_lan))" "length (tc_interfaces demo_lan) < 2 ^ 52"
  "demo_lan_interface 42 2 \<in> set (tc_interfaces demo_lan)" "demo_lan_service \<in> set (tc_services demo_lan)"
  "demo_lan_binding \<in> set (bindings (service_base demo_lan_service))" "binding_interface_id demo_lan_binding = None"
  "ctx_host demo_lan (ib_host_id (interface_base (demo_lan_interface 42 2))) \<noteq> None"
  "tc_interfaces demo_lan = [demo_lan_interface 41 1, demo_lan_interface 42 2]" "tc_services demo_lan = [demo_lan_service]"
  by (simp_all add: demo_lan_def demo_lan_interface_def demo_lan_service_def demo_lan_binding_def demo_lan_host_def
      ctx_host_def binding_interface_id_def bindingbase_new_def binding_type_def)

corollary interface_nodes_exactly_witness:
  "\<exists>layouts ns es1 planner1.
     create_subnet_child_nodes demo_lan [] False [] layout_planner_new = (layouts, ns, es1, planner1) \<and> nd_id ` set ns = {41, 42}"
proof -
  obtain layouts ns es1 planner1 where run:
    "create_subnet_child_nodes demo_lan [] False [] layout_planner_new = (layouts, ns, es1, planner1)"
    using prod_cases4 by blast
  have "{i \<in> set (tc_interfaces demo_lan). ctx_host demo_lan (ib_host_id (interface_base i)) \<noteq> None \<and>
      services_shown_on demo_lan i \<noteq> []} = {demo_lan_interface 41 1, demo_lan_interface 42 2}"
    using demo_lan_facts(6)
    by (auto simp: demo_lan_facts(8, 9) services_shown_on_def demo_lan_service_def demo_lan_def ctx_host_def
        demo_lan_interface_def demo_lan_host_def)
  with interface_nodes_exactly [OF demo_lan_facts(1, 2) run] run show ?thesis
    by (auto simp: demo_lan_interface_def)
qed

corollary unbound_service_shows_every_interface_witness:
  "\<exists>layouts ns es1 planner1.
     create_subnet_child_nodes demo_lan [] False [] layout_planner_new = (layouts, ns, es1, planner1) \<and>
     42 \<in> nd_id ` set ns \<and> \<not> interface_will_have_node demo_lan 42"
proof -
  obtain layouts ns es1 planner1 where run:
    "create_subnet_child_nodes demo_lan [] False [] layout_planner_new = (layouts, ns, es1, planner1)"
    using prod_cases4 by blast
  have "list_all (\<lambda>s. list_all (\<lambda>b. binding_interface_id b \<noteq> Some (interface_id (demo_lan_interface 42 2)))
      (bindings (service_base s))) (tc_services demo_lan)"
    using demo_lan_facts(6) by (simp add: demo_lan_facts(9) demo_lan_service_def)
  from unbound_service_shows_every_interface [OF demo_lan_facts(1, 2) run demo_lan_facts(4, 5, 6, 3, 7) this] run
  show ?thesis by (auto simp: demo_lan_interface_def)
qed

corollary children_of_subnet_apart_witness:
  "\<exists>area w ns. calculate_subnet_size demo_grid_context 5 [demo_child 1 100, demo_child 2 150, demo_child 3 100] = (area, w, ns) \<and>
     nd_id ` set ns = {1, 2, 3} \<and> list_all (inside area) ns"
proof -
  let ?cs = "[demo_child 1 100, demo_child 2 150, demo_child 3 100]"
  obtain area w ns where run: "calculate_subnet_size demo_grid_context 5 ?cs = (area, w, ns)" using prod_cases3 by blast
  have cs: "distinct (map sc_id ?cs)" "modest ?cs" by (simp_all add: demo_child_def modest_def)
  note claim = children_of_subnet_apart [OF cs run]
  have "ns \<noteq> []" using subnet_node_ids_exactly [OF cs(1), of demo_grid_context 5] by (auto simp: run)
  then have "nd_id ` set ns = {1, 2, 3}" using claim [of "hd ns" "hd ns"] by (simp add: demo_child_def)
  moreover have "list_all (inside area) ns" using claim by (auto simp: list_all_iff)
  ultimately show ?thesis using run by blast
qed

end
