(* ===== verification/Api_Errors.thy ===== *)
theory Api_Errors
  imports Events
begin

text \<open>
  The errors of the HTTP interface (\<open>server/shared/types/error_codes.rs\<close> and the error part of
  \<open>server/shared/types/api.rs\<close>): the translatable codes with their parameters and English
  templates, the interpolation of the parameters, and the responses the server builds from them.
  The components modelled before the codes were needed use the coarser \<open>ApiError\<close> of the prelude;
  \<open>plain_failure\<close> places those errors among the responses.
\<close>

section \<open>Replacing a substring\<close>

text \<open>\<open>str::replace\<close>: the occurrences are searched from the left and do not overlap.\<close>

function str_replace :: "string \<Rightarrow> string \<Rightarrow> string \<Rightarrow> string" where
  "str_replace p r [] = []"
| "str_replace p r (c # s) =
     (if p \<noteq> [] \<and> starts_with (c # s) p then r @ str_replace p r (drop (length p - 1) s)
      else c # str_replace p r s)"
  by pat_completeness auto
termination by (relation "measure (length \<circ> snd \<circ> snd)") auto

section \<open>Error codes\<close>

datatype (plugins only: code size) ErrorCode =
    ValidationRequired string
  | ValidationEmpty string
  | ValidationInvalidEmail
  | ValidationInvalidIp
  | ValidationMinLength string "32 word"
  | ValidationMaxLength string "32 word"
  | ValidationInvalidFormat string
  | ValidationBulkEmpty
  | AuthInvalidCredentials
  | AuthSessionExpired
  | AuthPermissionDenied
  | AuthOrganizationRequired
  | AuthUserContextRequired
  | AuthApiKeyRequired
  | AuthDaemonRequired
  | AuthPasswordRequired
  | AuthPasswordInvalid
  | AuthNotAuthenticated
  | AuthOidcNotConfigured
  | AuthOidcProviderError string
  | AuthUserNotFound string
  | AuthDaemonKeyNotCreated
  | AuthDemoMode
  | EntityNotFound string string
  | EntityAlreadyExists string string
  | EntityInUse string string string
  | EntityReferenceInvalid string string
  | EntityAccessDenied string string
  | EntityExpired string
  | EntityDisabled string
  | EntityRequired string
  | EntityDeleteForbidden string "string option"
  | EntityUpdateForbidden string
  | EntityNetworkMismatch string
  | HostsConsolidateFailed string
  | NetworksAccessDenied string
  | SharePasswordRequired
  | SharePasswordIncorrect
  | ShareDomainNotAllowed string
  | InviteAlreadyAccepted
  | InviteEmailMismatch
  | DiscoveryHistoricalReadOnly
  | DiscoverySubnetNetworkMismatch string
  | DiscoverySessionNotFound uuid
  | InterfaceIpOutOfRange string string
  | DaemonNetworkMismatch
  | DaemonIdentityMismatch
  | DaemonStandby
  | UserEmailInUse string
  | BillingPaymentRequired
  | BillingPlanLimitReached string "32 word"
  | BillingSubscriptionRequired
  | BillingSetupIncomplete
  | BillingHostLimitReached "64 word"
  | BillingFeatureNotAvailable string
  | RateLimitExceeded
  | ExternalServiceError string string
  | DatabaseError
  | DatabaseDuplicateEntry string

primrec error_code :: "ErrorCode \<Rightarrow> string" where
  "error_code (ValidationRequired a) = ''validation_required''"
| "error_code (ValidationEmpty a) = ''validation_empty''"
| "error_code ValidationInvalidEmail = ''validation_invalid_email''"
| "error_code ValidationInvalidIp = ''validation_invalid_ip''"
| "error_code (ValidationMinLength a b) = ''validation_min_length''"
| "error_code (ValidationMaxLength a b) = ''validation_max_length''"
| "error_code (ValidationInvalidFormat a) = ''validation_invalid_format''"
| "error_code ValidationBulkEmpty = ''validation_bulk_empty''"
| "error_code AuthInvalidCredentials = ''auth_invalid_credentials''"
| "error_code AuthSessionExpired = ''auth_session_expired''"
| "error_code AuthPermissionDenied = ''auth_permission_denied''"
| "error_code AuthOrganizationRequired = ''auth_organization_required''"
| "error_code AuthUserContextRequired = ''auth_user_context_required''"
| "error_code AuthApiKeyRequired = ''auth_api_key_required''"
| "error_code AuthDaemonRequired = ''auth_daemon_required''"
| "error_code AuthPasswordRequired = ''auth_password_required''"
| "error_code AuthPasswordInvalid = ''auth_password_invalid''"
| "error_code AuthNotAuthenticated = ''auth_not_authenticated''"
| "error_code AuthOidcNotConfigured = ''auth_oidc_not_configured''"
| "error_code (AuthOidcProviderError a) = ''auth_oidc_provider_error''"
| "error_code (AuthUserNotFound a) = ''auth_user_not_found''"
| "error_code AuthDaemonKeyNotCreated = ''auth_daemon_key_not_created''"
| "error_code AuthDemoMode = ''auth_demo_mode''"
| "error_code (EntityNotFound a b) = ''entity_not_found''"
| "error_code (EntityAlreadyExists a b) = ''entity_already_exists''"
| "error_code (EntityInUse a b c) = ''entity_in_use''"
| "error_code (EntityReferenceInvalid a b) = ''entity_reference_invalid''"
| "error_code (EntityAccessDenied a b) = ''entity_access_denied''"
| "error_code (EntityExpired a) = ''entity_expired''"
| "error_code (EntityDisabled a) = ''entity_disabled''"
| "error_code (EntityRequired a) = ''entity_required''"
| "error_code (EntityDeleteForbidden a b) = ''entity_delete_forbidden''"
| "error_code (EntityUpdateForbidden a) = ''entity_update_forbidden''"
| "error_code (EntityNetworkMismatch a) = ''entity_network_mismatch''"
| "error_code (HostsConsolidateFailed a) = ''hosts_consolidate_failed''"
| "error_code (NetworksAccessDenied a) = ''networks_access_denied''"
| "error_code SharePasswordRequired = ''share_password_required''"
| "error_code SharePasswordIncorrect = ''share_password_incorrect''"
| "error_code (ShareDomainNotAllowed a) = ''share_domain_not_allowed''"
| "error_code InviteAlreadyAccepted = ''invite_already_accepted''"
| "error_code InviteEmailMismatch = ''invite_email_mismatch''"
| "error_code DiscoveryHistoricalReadOnly = ''discovery_historical_read_only''"
| "error_code (DiscoverySubnetNetworkMismatch a) = ''discovery_subnet_network_mismatch''"
| "error_code (DiscoverySessionNotFound a) = ''discovery_session_not_found''"
| "error_code (InterfaceIpOutOfRange a b) = ''interface_ip_out_of_range''"
| "error_code DaemonNetworkMismatch = ''daemon_network_mismatch''"
| "error_code DaemonIdentityMismatch = ''daemon_identity_mismatch''"
| "error_code DaemonStandby = ''daemon_standby''"
| "error_code (UserEmailInUse a) = ''user_email_in_use''"
| "error_code BillingPaymentRequired = ''billing_payment_required''"
| "error_code (BillingPlanLimitReached a b) = ''billing_plan_limit_reached''"
| "error_code BillingSubscriptionRequired = ''billing_subscription_required''"
| "error_code BillingSetupIncomplete = ''billing_setup_incomplete''"
| "error_code (BillingHostLimitReached a) = ''billing_host_limit_reached''"
| "error_code (BillingFeatureNotAvailable a) = ''billing_feature_not_available''"
| "error_code RateLimitExceeded = ''rate_limit_exceeded''"
| "error_code (ExternalServiceError a b) = ''external_service_error''"
| "error_code DatabaseError = ''database_error''"
| "error_code (DatabaseDuplicateEntry a) = ''database_duplicate_entry''"

text \<open>The templates. \<open>quote\<close> is the apostrophe.\<close>

definition quote :: string where
  "quote = [CHR 0x27]"

primrec default_message :: "ErrorCode \<Rightarrow> string" where
  "default_message (ValidationRequired a) = ''Field '' @ quote @ ''{field}'' @ quote @ '' is required''"
| "default_message (ValidationEmpty a) = ''Field '' @ quote @ ''{field}'' @ quote @ '' cannot be empty''"
| "default_message ValidationInvalidEmail = ''Invalid email address''"
| "default_message ValidationInvalidIp = ''Invalid IP address format''"
| "default_message (ValidationMinLength a b) =
     ''Field '' @ quote @ ''{field}'' @ quote @ '' must be at least {min} characters''"
| "default_message (ValidationMaxLength a b) =
     ''Field '' @ quote @ ''{field}'' @ quote @ '' must be at most {max} characters''"
| "default_message (ValidationInvalidFormat a) = ''Invalid format for field '' @ quote @ ''{field}'' @ quote"
| "default_message ValidationBulkEmpty = ''No IDs provided for bulk operation''"
| "default_message AuthInvalidCredentials = ''Invalid email or password''"
| "default_message AuthSessionExpired = ''Your session has expired. Please log in again.''"
| "default_message AuthPermissionDenied = ''You don'' @ quote @ ''t have permission to perform this action''"
| "default_message AuthOrganizationRequired = ''This operation requires an organization context''"
| "default_message AuthUserContextRequired = ''User context required''"
| "default_message AuthApiKeyRequired = ''API key required''"
| "default_message AuthDaemonRequired = ''Daemon context required''"
| "default_message AuthPasswordRequired = ''Password required''"
| "default_message AuthPasswordInvalid = ''Invalid password''"
| "default_message AuthNotAuthenticated = ''Not authenticated''"
| "default_message AuthOidcNotConfigured = ''OIDC not configured for this organization''"
| "default_message (AuthOidcProviderError a) = ''Failed to authenticate with {provider}''"
| "default_message (AuthUserNotFound a) = ''User with ID '' @ quote @ ''{id}'' @ quote @ '' not found''"
| "default_message AuthDaemonKeyNotCreated =
     ''Daemon is trying to register with an API key that has not yet been created''"
| "default_message AuthDemoMode = ''This action is disabled in demo mode''"
| "default_message (EntityNotFound a b) = ''{entity} with ID '' @ quote @ ''{id}'' @ quote @ '' not found''"
| "default_message (EntityAlreadyExists a b) = ''{entity} '' @ quote @ ''{name}'' @ quote @ '' already exists''"
| "default_message (EntityInUse a b c) =
     ''Cannot delete {entity} '' @ quote @ ''{name}'' @ quote @ '' because it'' @ quote @ ''s used by {used_by}''"
| "default_message (EntityReferenceInvalid a b) =
     ''Referenced {entity} in field '' @ quote @ ''{field}'' @ quote @ '' does not exist''"
| "default_message (EntityAccessDenied a b) = ''You don'' @ quote @ ''t have access to this {entity}''"
| "default_message (EntityExpired a) = ''This {entity} has expired''"
| "default_message (EntityDisabled a) = ''This {entity} is disabled''"
| "default_message (EntityRequired a) = ''At least one {entity} is required''"
| "default_message (EntityDeleteForbidden a b) =
     (case b of None \<Rightarrow> ''Cannot delete this {entity}'' | Some _ \<Rightarrow> ''Cannot delete this {entity}: {reason}'')"
| "default_message (EntityUpdateForbidden a) = ''Cannot update this {entity}''"
| "default_message (EntityNetworkMismatch a) = ''{entity} is on a different network''"
| "default_message (HostsConsolidateFailed a) = ''Failed to consolidate hosts: {reason}''"
| "default_message (NetworksAccessDenied a) =
     ''You don'' @ quote @ ''t have access to network '' @ quote @ ''{network}'' @ quote"
| "default_message SharePasswordRequired = ''Password required for this share''"
| "default_message SharePasswordIncorrect = ''Incorrect password''"
| "default_message (ShareDomainNotAllowed a) = ''Domain '' @ quote @ ''{domain}'' @ quote @ '' not allowed''"
| "default_message InviteAlreadyAccepted = ''This invite has already been accepted''"
| "default_message InviteEmailMismatch = ''Invite email doesn'' @ quote @ ''t match your account''"
| "default_message DiscoveryHistoricalReadOnly = ''Historical discovery cannot be modified via API''"
| "default_message (DiscoverySubnetNetworkMismatch a) =
     ''Subnet '' @ quote @ ''{subnet}'' @ quote @ '' is on a different network''"
| "default_message (DiscoverySessionNotFound a) = ''Discovery session '' @ quote @ ''{id}'' @ quote @ '' not found''"
| "default_message (InterfaceIpOutOfRange a b) =
     ''IP address '' @ quote @ ''{ip}'' @ quote @ '' is not within subnet '' @ quote @ ''{subnet}'' @ quote @ '' range''"
| "default_message DaemonNetworkMismatch = ''Cannot send updates for a different network''"
| "default_message DaemonIdentityMismatch = ''Cannot send updates for a different daemon''"
| "default_message DaemonStandby =
     ''Your plan does not support DaemonPoll mode. The daemon is on standby. Upgrade your plan and restart the daemon to resume.''"
| "default_message (UserEmailInUse a) = ''Email '' @ quote @ ''{email}'' @ quote @ '' is already in use''"
| "default_message BillingPaymentRequired = ''Payment is required to continue''"
| "default_message (BillingPlanLimitReached a b) =
     ''You'' @ quote @ ''ve reached the limit of {limit} {resource} on your current plan''"
| "default_message BillingSubscriptionRequired = ''Active subscription required''"
| "default_message BillingSetupIncomplete = ''Billing setup is incomplete''"
| "default_message (BillingHostLimitReached a) =
     ''You'' @ quote @ ''ve reached the limit of {limit} hosts on your current plan. Upgrade for unlimited hosts.''"
| "default_message (BillingFeatureNotAvailable a) =
     ''Your current plan does not include {feature}. Upgrade your plan to access this feature.''"
| "default_message RateLimitExceeded = ''Too many requests, please try again later''"
| "default_message (ExternalServiceError a b) = ''Error from {service}: {reason}''"
| "default_message DatabaseError = ''A database error occurred''"
| "default_message (DatabaseDuplicateEntry a) = ''A record with this {field} already exists''"

text \<open>
  The parameters, as the ordered map \<open>serde_json::Map\<close> keeps them: sorted by their names.
\<close>

primrec error_params :: "ErrorCode \<Rightarrow> (string \<times> Json) list option" where
  "error_params (ValidationRequired fl) = Some [(''field'', JStr fl)]"
| "error_params (ValidationEmpty fl) = Some [(''field'', JStr fl)]"
| "error_params ValidationInvalidEmail = None"
| "error_params ValidationInvalidIp = None"
| "error_params (ValidationMinLength fl mn) = Some [(''field'', JStr fl), (''min'', JNum (uint mn))]"
| "error_params (ValidationMaxLength fl mx) = Some [(''field'', JStr fl), (''max'', JNum (uint mx))]"
| "error_params (ValidationInvalidFormat fl) = Some [(''field'', JStr fl)]"
| "error_params ValidationBulkEmpty = None"
| "error_params AuthInvalidCredentials = None"
| "error_params AuthSessionExpired = None"
| "error_params AuthPermissionDenied = None"
| "error_params AuthOrganizationRequired = None"
| "error_params AuthUserContextRequired = None"
| "error_params AuthApiKeyRequired = None"
| "error_params AuthDaemonRequired = None"
| "error_params AuthPasswordRequired = None"
| "error_params AuthPasswordInvalid = None"
| "error_params AuthNotAuthenticated = None"
| "error_params AuthOidcNotConfigured = None"
| "error_params (AuthOidcProviderError pv) = Some [(''provider'', JStr pv)]"
| "error_params (AuthUserNotFound i) = Some [(''id'', JStr i)]"
| "error_params AuthDaemonKeyNotCreated = None"
| "error_params AuthDemoMode = None"
| "error_params (EntityNotFound en i) = Some [(''entity'', JStr en), (''id'', JStr i)]"
| "error_params (EntityAlreadyExists en nm) = Some [(''entity'', JStr en), (''name'', JStr nm)]"
| "error_params (EntityInUse en nm ub) = Some [(''entity'', JStr en), (''name'', JStr nm), (''used_by'', JStr ub)]"
| "error_params (EntityReferenceInvalid en fl) = Some [(''entity'', JStr en), (''field'', JStr fl)]"
| "error_params (EntityAccessDenied en i) = Some [(''entity'', JStr en), (''id'', JStr i)]"
| "error_params (EntityExpired en) = Some [(''entity'', JStr en)]"
| "error_params (EntityDisabled en) = Some [(''entity'', JStr en)]"
| "error_params (EntityRequired en) = Some [(''entity'', JStr en)]"
| "error_params (EntityDeleteForbidden en rs) =
     Some (case rs of
             Some r \<Rightarrow> [(''entity'', JStr en), (''reason'', JStr r)]
           | None \<Rightarrow> [(''entity'', JStr en)])"
| "error_params (EntityUpdateForbidden en) = Some [(''entity'', JStr en)]"
| "error_params (EntityNetworkMismatch en) = Some [(''entity'', JStr en)]"
| "error_params (HostsConsolidateFailed rs) = Some [(''reason'', JStr rs)]"
| "error_params (NetworksAccessDenied nw) = Some [(''network'', JStr nw)]"
| "error_params SharePasswordRequired = None"
| "error_params SharePasswordIncorrect = None"
| "error_params (ShareDomainNotAllowed dm) = Some [(''domain'', JStr dm)]"
| "error_params InviteAlreadyAccepted = None"
| "error_params InviteEmailMismatch = None"
| "error_params DiscoveryHistoricalReadOnly = None"
| "error_params (DiscoverySubnetNetworkMismatch sn) = Some [(''subnet'', JStr sn)]"
| "error_params (DiscoverySessionNotFound i) = Some [(''id'', JStr (uuid_display i))]"
| "error_params (InterfaceIpOutOfRange ip sn) = Some [(''ip'', JStr ip), (''subnet'', JStr sn)]"
| "error_params DaemonNetworkMismatch = None"
| "error_params DaemonIdentityMismatch = None"
| "error_params DaemonStandby = None"
| "error_params (UserEmailInUse em) = Some [(''email'', JStr em)]"
| "error_params BillingPaymentRequired = None"
| "error_params (BillingPlanLimitReached rc lm) = Some [(''limit'', JNum (uint lm)), (''resource'', JStr rc)]"
| "error_params BillingSubscriptionRequired = None"
| "error_params BillingSetupIncomplete = None"
| "error_params (BillingHostLimitReached lm) = Some [(''limit'', JNum (uint lm))]"
| "error_params (BillingFeatureNotAvailable ft) = Some [(''feature'', JStr ft)]"
| "error_params RateLimitExceeded = None"
| "error_params (ExternalServiceError sv rs) = Some [(''reason'', JStr rs), (''service'', JStr sv)]"
| "error_params DatabaseError = None"
| "error_params (DatabaseDuplicateEntry fl) = Some [(''field'', JStr fl)]"

fun json_text :: "Json \<Rightarrow> string" where
  \<comment> \<open>a string is inserted bare, a number in decimal; no parameter has another shape\<close>
  "json_text (JStr s) = s"
| "json_text (JNum n) = show_int n"
| "json_text (JBool b) = (if b then ''true'' else ''false'')"
| "json_text _ = ''null''"

definition placeholder :: "string \<Rightarrow> string" where
  "placeholder key = ''{'' @ key @ ''}''"

definition interpolated_message :: "ErrorCode \<Rightarrow> string" where
  "interpolated_message e =
     (case error_params e of
        None \<Rightarrow> default_message e
      | Some ps \<Rightarrow> foldl (\<lambda>msg (key, v). str_replace (placeholder key) (json_text v) msg) (default_message e) ps)"

section \<open>Responses\<close>

text \<open>The status is the number of the HTTP status code.\<close>

record ApiFailure =
  af_status :: nat
  af_message :: string
  af_code :: "ErrorCode option"

definition api_new :: "nat \<Rightarrow> string \<Rightarrow> ApiFailure" where
  "api_new status message = \<lparr>af_status = status, af_message = message, af_code = None\<rparr>"

definition api_coded :: "nat \<Rightarrow> ErrorCode \<Rightarrow> ApiFailure" where
  "api_coded status code = \<lparr>af_status = status, af_message = interpolated_message code, af_code = Some code\<rparr>"

definition api_validation :: "ErrorCode \<Rightarrow> ApiFailure" where
  "api_validation code = api_coded 400 code"

definition err_entity_not_found :: "string \<Rightarrow> string \<Rightarrow> ApiFailure" where
  "err_entity_not_found entity i = api_coded 404 (EntityNotFound entity i)"

definition err_entity_exists :: "string \<Rightarrow> string \<Rightarrow> ApiFailure" where
  "err_entity_exists entity nm = api_coded 400 (EntityAlreadyExists entity nm)"

definition err_conflict :: "string \<Rightarrow> ApiFailure" where
  "err_conflict message = api_new 409 message"

definition err_forbidden :: "string \<Rightarrow> ApiFailure" where
  "err_forbidden message = api_new 403 message"

definition err_organization_required :: ApiFailure where
  "err_organization_required = api_coded 403 AuthOrganizationRequired"

definition err_permission_denied :: ApiFailure where
  "err_permission_denied = api_coded 403 AuthPermissionDenied"

definition err_internal :: "string \<Rightarrow> ApiFailure" where
  "err_internal message = api_new 500 message"

definition err_bad_request :: "string \<Rightarrow> ApiFailure" where
  "err_bad_request message = api_new 400 message"

definition err_not_found :: "string \<Rightarrow> ApiFailure" where
  "err_not_found message = api_new 404 message"

definition err_unauthorized :: "string \<Rightarrow> ApiFailure" where
  "err_unauthorized message = api_new 401 message"

definition err_invalid_credentials :: ApiFailure where
  "err_invalid_credentials = api_coded 401 AuthInvalidCredentials"

definition err_session_expired :: ApiFailure where
  "err_session_expired = api_coded 401 AuthSessionExpired"

definition err_bad_gateway :: "string \<Rightarrow> ApiFailure" where
  "err_bad_gateway message = api_new 502 message"

definition err_too_many_requests :: "string \<Rightarrow> ApiFailure" where
  "err_too_many_requests message = api_new 429 message"

definition err_payment_required :: "string \<Rightarrow> ApiFailure" where
  "err_payment_required message = api_new 402 message"

definition err_billing_required :: ApiFailure where
  "err_billing_required = api_coded 402 BillingPaymentRequired"

definition err_billing_setup_incomplete :: ApiFailure where
  "err_billing_setup_incomplete = api_coded 400 BillingSetupIncomplete"

definition err_user_required :: ApiFailure where
  "err_user_required = api_coded 403 AuthUserContextRequired"

definition err_api_key_required :: ApiFailure where
  "err_api_key_required = api_coded 403 AuthApiKeyRequired"

definition err_daemon_required :: ApiFailure where
  "err_daemon_required = api_coded 403 AuthDaemonRequired"

definition err_password_required :: ApiFailure where
  "err_password_required = api_coded 403 AuthPasswordRequired"

definition err_password_invalid :: ApiFailure where
  "err_password_invalid = api_coded 400 AuthPasswordInvalid"

definition err_not_authenticated :: ApiFailure where
  "err_not_authenticated = api_coded 401 AuthNotAuthenticated"

definition err_daemon_key_not_yet_active :: ApiFailure where
  "err_daemon_key_not_yet_active = api_coded 401 AuthDaemonKeyNotCreated"

definition err_demo_mode_blocked :: ApiFailure where
  "err_demo_mode_blocked = api_coded 403 AuthDemoMode"

definition err_entity_access_denied :: "string \<Rightarrow> string \<Rightarrow> ApiFailure" where
  "err_entity_access_denied entity i = api_coded 403 (EntityAccessDenied entity i)"

definition err_entity_expired :: "string \<Rightarrow> ApiFailure" where
  "err_entity_expired entity = api_coded 403 (EntityExpired entity)"

definition err_entity_disabled :: "string \<Rightarrow> ApiFailure" where
  "err_entity_disabled entity = api_coded 403 (EntityDisabled entity)"

definition err_daemon_api_key_expired :: ApiFailure where
  "err_daemon_api_key_expired = err_entity_expired ''Daemon API Key''"

definition err_daemon_api_key_disabled :: ApiFailure where
  "err_daemon_api_key_disabled = err_entity_disabled ''Daemon API Key''"

definition err_entity_required :: "string \<Rightarrow> ApiFailure" where
  "err_entity_required entity = api_coded 400 (EntityRequired entity)"

definition err_entity_network_mismatch :: "string \<Rightarrow> ApiFailure" where
  "err_entity_network_mismatch entity = api_coded 400 (EntityNetworkMismatch entity)"

definition err_entity_delete_forbidden :: "string \<Rightarrow> string option \<Rightarrow> ApiFailure" where
  "err_entity_delete_forbidden entity reason = api_coded 403 (EntityDeleteForbidden entity reason)"

definition err_entity_update_forbidden :: "string \<Rightarrow> ApiFailure" where
  "err_entity_update_forbidden entity = api_coded 403 (EntityUpdateForbidden entity)"

definition err_field_empty :: "string \<Rightarrow> ApiFailure" where
  "err_field_empty field = api_coded 400 (ValidationEmpty field)"

definition err_bulk_empty :: ApiFailure where
  "err_bulk_empty = api_coded 400 ValidationBulkEmpty"

definition err_interface_ip_out_of_range :: "string \<Rightarrow> string \<Rightarrow> ApiFailure" where
  "err_interface_ip_out_of_range ip subnet = api_coded 400 (InterfaceIpOutOfRange ip subnet)"

definition err_share_password_required :: ApiFailure where
  "err_share_password_required = api_coded 403 SharePasswordRequired"

definition err_share_password_incorrect :: ApiFailure where
  "err_share_password_incorrect = api_coded 403 SharePasswordIncorrect"

definition err_invite_already_accepted :: ApiFailure where
  "err_invite_already_accepted = api_coded 403 InviteAlreadyAccepted"

definition err_invite_email_mismatch :: ApiFailure where
  "err_invite_email_mismatch = api_coded 403 InviteEmailMismatch"

definition err_rate_limit_exceeded :: ApiFailure where
  "err_rate_limit_exceeded = api_coded 429 RateLimitExceeded"

definition err_discovery_session_not_found :: "uuid \<Rightarrow> ApiFailure" where
  "err_discovery_session_not_found i = api_coded 404 (DiscoverySessionNotFound i)"

definition err_discovery_historical_read_only :: ApiFailure where
  "err_discovery_historical_read_only = api_coded 400 DiscoveryHistoricalReadOnly"

definition err_discovery_subnet_network_mismatch :: "string \<Rightarrow> ApiFailure" where
  "err_discovery_subnet_network_mismatch subnet = api_coded 400 (DiscoverySubnetNetworkMismatch subnet)"

definition err_daemon_network_mismatch :: ApiFailure where
  "err_daemon_network_mismatch = api_coded 403 DaemonNetworkMismatch"

definition err_daemon_identity_mismatch :: ApiFailure where
  "err_daemon_identity_mismatch = api_coded 403 DaemonIdentityMismatch"

text \<open>
  An \<open>anyhow\<close> error keeps its status only when it is a \<open>ValidationError\<close>; a database error is told
  apart by the constraint it violates.
\<close>

datatype AnyError = ValidationErr string | OtherErr string

fun failure_of_any :: "AnyError \<Rightarrow> ApiFailure" where
  "failure_of_any (ValidationErr m) = err_bad_request m"
| "failure_of_any (OtherErr m) = err_internal m"

datatype SqlError = RowNotFound | ForeignKeyViolation | UniqueViolation | CheckViolation | OtherDatabase | OtherSql

fun failure_of_sql :: "SqlError \<Rightarrow> ApiFailure" where
  "failure_of_sql RowNotFound = err_not_found ''Row not found''"
| "failure_of_sql ForeignKeyViolation = err_bad_request ''Referenced entity does not exist''"
| "failure_of_sql UniqueViolation = err_bad_request ''Entity already exists''"
| "failure_of_sql CheckViolation = err_bad_request ''Invalid data''"
| "failure_of_sql OtherDatabase = err_internal ''Database operation failed''"
| "failure_of_sql OtherSql = err_internal ''Database operation failed''"

fun plain_failure :: "ApiError \<Rightarrow> ApiFailure" where
  "plain_failure (BadRequest m) = err_bad_request m"
| "plain_failure (Forbidden m) = err_forbidden m"
| "plain_failure (NotFound m) = err_not_found m"
| "plain_failure (Conflict m) = err_conflict m"
| "plain_failure (InternalError m) = err_internal m"

record ErrorResponse =
  er_success :: bool
  er_error :: "string option"
  er_code :: "string option"
  er_params :: "(string \<times> Json) list option"

definition into_response :: "ApiFailure \<Rightarrow> nat \<times> ErrorResponse" where
  "into_response e =
     (af_status e,
      \<lparr>er_success = False, er_error = Some (af_message e),
       er_code = map_option error_code (af_code e),
       er_params = Option.bind (af_code e) error_params\<rparr>)"

definition matches_error :: "ErrorResponse \<Rightarrow> ApiFailure \<Rightarrow> bool" where
  "matches_error r expected =
     (case (er_code r, af_code expected) of (Some rc, Some ec) \<Rightarrow> rc = error_code ec | _ \<Rightarrow> False)"

text \<open>The pages of a listing. The two 32-bit numbers are added at 64 bits.\<close>

record PaginationMeta =
  pg_total_count :: "64 word"
  pg_limit :: "32 word"
  pg_offset :: "32 word"
  pg_has_more :: bool

definition pagination_meta :: "64 word \<Rightarrow> 32 word \<Rightarrow> 32 word \<Rightarrow> PaginationMeta" where
  "pagination_meta tc lm off =
     \<lparr>pg_total_count = tc, pg_limit = lm, pg_offset = off,
      pg_has_more = (ucast off + ucast lm < tc)\<rparr>"

definition empty_to_option :: "'a list \<Rightarrow> 'a list option" where
  "empty_to_option s = (if s = [] then None else Some s)"

definition option_empty_to_option :: "'a list option \<Rightarrow> 'a list option" where
  "option_empty_to_option o1 = Option.bind o1 empty_to_option"

definition deserialize_empty_as_none :: "'a list option \<Rightarrow> 'a list option" where
  "deserialize_empty_as_none o1 = Option.bind o1 (\<lambda>s. if s = [] then None else Some s)"

section \<open>Facts on the interpolation\<close>

lemma str_replace_skip:
  "p \<noteq> [] \<Longrightarrow> hd p \<notin> set a \<Longrightarrow> str_replace p r (a @ s) = a @ str_replace p r s"
proof (induction a)
  case (Cons c a)
  then obtain x xs where "p = x # xs" "x \<noteq> c" by (cases p) auto
  with Cons show ?case by simp
qed simp

lemma str_replace_absent: "p \<noteq> [] \<Longrightarrow> hd p \<notin> set a \<Longrightarrow> str_replace p r a = a"
  using str_replace_skip [of p a r "[]"] by simp

lemma hex_char_no_brace: "CHR ''{'' \<noteq> hex_char (n mod 16)"
proof -
  have "\<forall>d\<in>set [0..<16]. CHR ''{'' \<noteq> hex_char d" by code_simp
  moreover have "n mod 16 \<in> set [0..<16]" by simp
  ultimately show ?thesis by blast
qed

lemma uuid_display_no_brace: "CHR ''{'' \<notin> set (uuid_display u)"
  by (auto simp: uuid_display_def hex_padded_def Let_def hex_char_no_brace)

lemma show_nat_no_brace: "CHR ''{'' \<notin> set (show_nat n)"
  using show_nat_digits [of n] by (auto simp: list_all_iff is_digit_def)

lemma show_int_no_brace: "CHR ''{'' \<notin> set (show_int n)"
  by (simp add: show_int_def show_nat_no_brace)

text \<open>
  C39: No error message reaches a client with a placeholder left in it: when the parameters of a
  code contain no opening brace, neither does the interpolated message, for every code.
\<close>

theorem interpolation_complete:
  assumes "\<forall>(key, v) \<in> set (case error_params e of None \<Rightarrow> [] | Some ps \<Rightarrow> ps). CHR ''{'' \<notin> set (json_text v)"
  shows "CHR ''{'' \<notin> set (interpolated_message e)"
  using assms
  by (cases e)
     (simp_all add: interpolated_message_def placeholder_def quote_def str_replace_skip str_replace_absent
        split: option.splits)

theorem interpolation_complete_witness:
  "interpolated_message (EntityNotFound ''Host'' ''abc-123'') =
     ''Host with ID '' @ quote @ ''abc-123'' @ quote @ '' not found''
   \<and> CHR ''{'' \<notin> set (interpolated_message (EntityNotFound ''Host'' ''abc-123''))"
  using interpolation_complete [of "EntityNotFound ''Host'' ''abc-123''"]
  by (simp add: interpolated_message_def placeholder_def quote_def)

end
