(* ===== verification/Storage_Filter.thy ===== *)
theory Storage_Filter
  imports Events Api_Errors
begin

text \<open>
  The queries of the generic storage: the builder of the \<open>WHERE\<close> clauses with its numbered
  placeholders and bound values (\<open>server/shared/storage/filter.rs\<close>) and the statements
  \<open>GenericPostgresStorage\<close> assembles around them (\<open>server/shared/storage/generic.rs\<close>). The texts are
  the texts the server sends; what the database makes of them is not modelled here. Then the
  listings: pagination and the query parameters of the list endpoints
  (\<open>server/shared/handlers/query.rs\<close>), and the filter the generic \<open>get_all\<close> handler puts together
  from the caller and the query (\<open>server/shared/handlers/traits.rs\<close>).
\<close>

section \<open>Filters\<close>

datatype DaemonMode = ServerPoll | DaemonPoll

text \<open>The values the filters bind (\<open>SqlValue\<close> has further variants for the columns of the tables).\<close>

datatype SqlValue =
    SvUuid uuid
  | SvString string
  | SvBool bool
  | SvTimestamp timestamp
  | SvEmail string
  | SvMacAddress MacAddress
  | SvIpAddr IpAddr
  | SvUserOrgPermissions UserOrgPermissions
  | SvDaemonMode DaemonMode
  | SvEntityDiscriminant EntityDiscriminants

record StorableFilter =
  sf_table :: string \<comment> \<open>\<open>T::table_name()\<close>\<close>
  sf_conditions :: "string list"
  sf_values :: "SqlValue list"
  sf_limit :: "32 word option"
  sf_offset :: "32 word option"
  sf_joins :: "string list"

definition filter_new :: "string \<Rightarrow> StorableFilter" where
  "filter_new table =
     \<lparr>sf_table = table, sf_conditions = [], sf_values = [], sf_limit = None, sf_offset = None, sf_joins = []\<rparr>"

definition qualify_column :: "StorableFilter \<Rightarrow> string \<Rightarrow> string" where
  "qualify_column f column = sf_table f @ ''.'' @ column"

definition dollar :: "nat \<Rightarrow> string" where
  "dollar k = ''$'' @ show_nat k"

text \<open>The three shapes the conditions have: a bare condition, a comparison, a membership.\<close>

definition push_condition :: "string \<Rightarrow> StorableFilter \<Rightarrow> StorableFilter" where
  "push_condition c f = f\<lparr>sf_conditions := sf_conditions f @ [c]\<rparr>"

definition push_value :: "SqlValue \<Rightarrow> StorableFilter \<Rightarrow> StorableFilter" where
  "push_value v f = f\<lparr>sf_values := sf_values f @ [v]\<rparr>"

definition next_index :: "StorableFilter \<Rightarrow> nat" where
  "next_index f = length (sf_values f) + 1"

definition compare_column :: "string \<Rightarrow> string \<Rightarrow> SqlValue \<Rightarrow> StorableFilter \<Rightarrow> StorableFilter" where
  "compare_column column rel v f =
     push_value v (push_condition (qualify_column f column @ rel @ dollar (next_index f)) f)"

definition in_column :: "string \<Rightarrow> uuid list \<Rightarrow> StorableFilter \<Rightarrow> StorableFilter" where
  \<comment> \<open>an empty list matches nothing\<close>
  "in_column column ids f =
     (if ids = [] then push_condition ''FALSE'' f
      else foldl (\<lambda>f i. push_value (SvUuid i) f)
             (push_condition (qualify_column f column @ '' IN ('' @
                str_join '', '' (map (\<lambda>i. dollar (length (sf_values f) + i + 1)) [0..<length ids]) @ '')'') f)
             ids)"

definition is_null :: "string \<Rightarrow> StorableFilter \<Rightarrow> StorableFilter" where
  "is_null column f = push_condition (qualify_column f column @ '' IS NULL'') f"

definition is_not_null :: "string \<Rightarrow> StorableFilter \<Rightarrow> StorableFilter" where
  "is_not_null column f = push_condition (qualify_column f column @ '' IS NOT NULL'') f"

subsection \<open>Comparisons with one value\<close>

definition entity_id :: "uuid \<Rightarrow> StorableFilter \<Rightarrow> StorableFilter" where
  "entity_id i = compare_column ''id'' '' = '' (SvUuid i)"

definition user_id_is :: "uuid \<Rightarrow> StorableFilter \<Rightarrow> StorableFilter" where
  "user_id_is i = compare_column ''user_id'' '' = '' (SvUuid i)"

definition hidden_is :: "bool \<Rightarrow> StorableFilter \<Rightarrow> StorableFilter" where
  "hidden_is b = compare_column ''hidden'' '' = '' (SvBool b)"

definition host_id_is :: "uuid \<Rightarrow> StorableFilter \<Rightarrow> StorableFilter" where
  "host_id_is i = compare_column ''host_id'' '' = '' (SvUuid i)"

definition subnet_id_is :: "uuid \<Rightarrow> StorableFilter \<Rightarrow> StorableFilter" where
  "subnet_id_is i = compare_column ''subnet_id'' '' = '' (SvUuid i)"

definition mac_address_is :: "MacAddress \<Rightarrow> StorableFilter \<Rightarrow> StorableFilter" where
  "mac_address_is m = compare_column ''mac_address'' '' = '' (SvMacAddress m)"

definition password_reset_token_is :: "string \<Rightarrow> StorableFilter \<Rightarrow> StorableFilter" where
  "password_reset_token_is t = compare_column ''password_reset_token'' '' = '' (SvString t)"

definition email_verification_token_is :: "string \<Rightarrow> StorableFilter \<Rightarrow> StorableFilter" where
  "email_verification_token_is t = compare_column ''email_verification_token'' '' = '' (SvString t)"

definition name_is :: "string \<Rightarrow> StorableFilter \<Rightarrow> StorableFilter" where
  "name_is t = compare_column ''name'' '' = '' (SvString t)"

definition group_id_is :: "uuid \<Rightarrow> StorableFilter \<Rightarrow> StorableFilter" where
  "group_id_is i = compare_column ''group_id'' '' = '' (SvUuid i)"

definition binding_id_is :: "uuid \<Rightarrow> StorableFilter \<Rightarrow> StorableFilter" where
  "binding_id_is i = compare_column ''binding_id'' '' = '' (SvUuid i)"

definition api_key_is :: "string \<Rightarrow> StorableFilter \<Rightarrow> StorableFilter" where
  "api_key_is t = compare_column ''key'' '' = '' (SvString t)"

definition email_is :: "string \<Rightarrow> StorableFilter \<Rightarrow> StorableFilter" where
  "email_is t = compare_column ''email'' '' = '' (SvEmail t)"

definition organization_id_is :: "uuid \<Rightarrow> StorableFilter \<Rightarrow> StorableFilter" where
  "organization_id_is i = compare_column ''organization_id'' '' = '' (SvUuid i)"

definition topology_id_is :: "uuid \<Rightarrow> StorableFilter \<Rightarrow> StorableFilter" where
  "topology_id_is i = compare_column ''topology_id'' '' = '' (SvUuid i)"

definition user_permissions_is :: "UserOrgPermissions \<Rightarrow> StorableFilter \<Rightarrow> StorableFilter" where
  "user_permissions_is p = compare_column ''permissions'' '' = '' (SvUserOrgPermissions p)"

definition service_id_is :: "uuid \<Rightarrow> StorableFilter \<Rightarrow> StorableFilter" where
  "service_id_is i = compare_column ''service_id'' '' = '' (SvUuid i)"

definition daemon_mode_is :: "DaemonMode \<Rightarrow> StorableFilter \<Rightarrow> StorableFilter" where
  "daemon_mode_is m = compare_column ''mode'' '' = '' (SvDaemonMode m)"

definition is_unreachable_is :: "bool \<Rightarrow> StorableFilter \<Rightarrow> StorableFilter" where
  "is_unreachable_is b = compare_column ''is_unreachable'' '' = '' (SvBool b)"

definition standby_is :: "bool \<Rightarrow> StorableFilter \<Rightarrow> StorableFilter" where
  "standby_is b = compare_column ''standby'' '' = '' (SvBool b)"

definition entity_type_is :: "EntityDiscriminants \<Rightarrow> StorableFilter \<Rightarrow> StorableFilter" where
  "entity_type_is d = compare_column ''entity_type'' '' = '' (SvEntityDiscriminant d)"

definition tag_id_is :: "uuid \<Rightarrow> StorableFilter \<Rightarrow> StorableFilter" where
  "tag_id_is i = compare_column ''tag_id'' '' = '' (SvUuid i)"

definition ip_address_is :: "IpAddr \<Rightarrow> StorableFilter \<Rightarrow> StorableFilter" where
  "ip_address_is a = compare_column ''ip_address'' '' = '' (SvIpAddr a)"

definition if_descr_is :: "string \<Rightarrow> StorableFilter \<Rightarrow> StorableFilter" where
  "if_descr_is t = compare_column ''if_descr'' '' = '' (SvString t)"

definition chassis_id_is :: "string \<Rightarrow> StorableFilter \<Rightarrow> StorableFilter" where
  "chassis_id_is t = compare_column ''chassis_id'' '' = '' (SvString t)"

definition interface_id_is :: "uuid \<Rightarrow> StorableFilter \<Rightarrow> StorableFilter" where
  "interface_id_is i = compare_column ''interface_id'' '' = '' (SvUuid i)"

definition stripe_customer_id_is :: "string \<Rightarrow> StorableFilter \<Rightarrow> StorableFilter" where
  "stripe_customer_id_is t = compare_column ''stripe_customer_id'' '' = '' (SvString t)"

definition expires_before :: "timestamp \<Rightarrow> StorableFilter \<Rightarrow> StorableFilter" where
  "expires_before t = compare_column ''expires_at'' '' < '' (SvTimestamp t)"

definition uuid_column :: "string \<Rightarrow> uuid \<Rightarrow> StorableFilter \<Rightarrow> StorableFilter" where
  "uuid_column column i = compare_column column '' = '' (SvUuid i)"

subsection \<open>Memberships\<close>

definition entity_ids_in :: "uuid list \<Rightarrow> StorableFilter \<Rightarrow> StorableFilter" where
  "entity_ids_in ids = in_column ''id'' ids"

definition network_ids_in :: "uuid list \<Rightarrow> StorableFilter \<Rightarrow> StorableFilter" where
  "network_ids_in ids = in_column ''network_id'' ids"

definition user_ids_in :: "uuid list \<Rightarrow> StorableFilter \<Rightarrow> StorableFilter" where
  "user_ids_in ids = in_column ''user_id'' ids"

definition group_ids_in :: "uuid list \<Rightarrow> StorableFilter \<Rightarrow> StorableFilter" where
  "group_ids_in ids = in_column ''group_id'' ids"

definition host_ids_in :: "uuid list \<Rightarrow> StorableFilter \<Rightarrow> StorableFilter" where
  "host_ids_in ids = in_column ''host_id'' ids"

definition uuids_column_in :: "string \<Rightarrow> uuid list \<Rightarrow> StorableFilter \<Rightarrow> StorableFilter" where
  "uuids_column_in column ids = in_column column ids"

definition has_any_tags :: "uuid list \<Rightarrow> EntityDiscriminants \<Rightarrow> StorableFilter \<Rightarrow> StorableFilter" where
  \<comment> \<open>the entity type takes the first placeholder, the tags the following ones\<close>
  "has_any_tags tag_ids d f =
     (if tag_ids = [] then f
      else foldl (\<lambda>f i. push_value (SvUuid i) f)
             (push_value (SvEntityDiscriminant d)
               (push_condition (qualify_column f ''id'' @
                  '' IN (SELECT entity_id FROM entity_tags WHERE entity_type = '' @ dollar (length (sf_values f) + 1) @
                  '' AND tag_id IN ('' @
                  str_join '', '' (map (\<lambda>i. dollar (length (sf_values f) + i + 2)) [0..<length tag_ids]) @ ''))'') f))
             tag_ids)"

subsection \<open>Conditions of particular tables\<close>

definition apostrophe :: string where
  "apostrophe = [CHR 0x27]"

definition scheduled_discovery :: "StorableFilter \<Rightarrow> StorableFilter" where
  "scheduled_discovery f =
     push_condition (''(run_type->>'' @ apostrophe @ ''enabled'' @ apostrophe @ '')::boolean = true'')
       (push_condition (''run_type->>'' @ apostrophe @ ''type'' @ apostrophe @ '' = '' @ apostrophe @ ''Scheduled'' @ apostrophe) f)"

definition oidc_subject_is :: "string \<Rightarrow> StorableFilter \<Rightarrow> StorableFilter" where
  "oidc_subject_is subject f =
     is_not_null ''oidc_provider'' (compare_column ''oidc_subject'' '' = '' (SvString subject) f)"

definition unresolved_lldp_is :: "uuid \<Rightarrow> StorableFilter \<Rightarrow> StorableFilter" where
  "unresolved_lldp_is n f =
     (let f1 = compare_column ''network_id'' '' = '' (SvUuid n) f;
          f2 = push_condition (''('' @ qualify_column f ''lldp_chassis_id'' @ '' IS NOT NULL OR '' @
                 qualify_column f ''cdp_device_id'' @ '' IS NOT NULL OR '' @
                 qualify_column f ''cdp_address'' @ '' IS NOT NULL)'') f1
      in is_null ''neighbor_host_id'' (is_null ''neighbor_if_entry_id'' f2))"

definition has_neighbor_is :: "StorableFilter \<Rightarrow> StorableFilter" where
  "has_neighbor_is f =
     push_condition (''('' @ qualify_column f ''neighbor_if_entry_id'' @ '' IS NOT NULL OR '' @
       qualify_column f ''neighbor_host_id'' @ '' IS NOT NULL)'') f"

definition has_neighbor_if_entry :: "StorableFilter \<Rightarrow> StorableFilter" where
  "has_neighbor_if_entry = is_not_null ''neighbor_if_entry_id''"

definition neighbor_host :: "uuid \<Rightarrow> StorableFilter \<Rightarrow> StorableFilter" where
  \<comment> \<open>one value, used by both halves of the condition\<close>
  "neighbor_host h f =
     push_value (SvUuid h)
       (push_condition (''('' @ qualify_column f ''neighbor_host_id'' @ '' = '' @ dollar (next_index f) @ '' OR '' @
          qualify_column f ''neighbor_if_entry_id'' @ '' IN (SELECT id FROM if_entries WHERE host_id = '' @
          dollar (next_index f) @ ''))'') f)"

definition without_brevo_company_id :: "StorableFilter \<Rightarrow> StorableFilter" where
  "without_brevo_company_id = is_null ''brevo_company_id''"

definition with_brevo_company_id :: "StorableFilter \<Rightarrow> StorableFilter" where
  "with_brevo_company_id = is_not_null ''brevo_company_id''"

subsection \<open>Filters of one condition\<close>

definition new_from_org_id :: "string \<Rightarrow> uuid \<Rightarrow> StorableFilter" where
  "new_from_org_id table x = organization_id_is x (filter_new table)"

definition new_from_network_ids :: "string \<Rightarrow> uuid list \<Rightarrow> StorableFilter" where
  "new_from_network_ids table x = network_ids_in x (filter_new table)"

definition new_from_entity_id :: "string \<Rightarrow> uuid \<Rightarrow> StorableFilter" where
  "new_from_entity_id table x = entity_id x (filter_new table)"

definition new_from_entity_ids :: "string \<Rightarrow> uuid list \<Rightarrow> StorableFilter" where
  "new_from_entity_ids table x = entity_ids_in x (filter_new table)"

definition new_from_api_key :: "string \<Rightarrow> string \<Rightarrow> StorableFilter" where
  "new_from_api_key table x = api_key_is x (filter_new table)"

definition new_from_email :: "string \<Rightarrow> string \<Rightarrow> StorableFilter" where
  "new_from_email table x = email_is x (filter_new table)"

definition new_from_oidc_subject :: "string \<Rightarrow> string \<Rightarrow> StorableFilter" where
  "new_from_oidc_subject table x = oidc_subject_is x (filter_new table)"

definition new_from_password_reset_token :: "string \<Rightarrow> string \<Rightarrow> StorableFilter" where
  "new_from_password_reset_token table x = password_reset_token_is x (filter_new table)"

definition new_from_email_verification_token :: "string \<Rightarrow> string \<Rightarrow> StorableFilter" where
  "new_from_email_verification_token table x = email_verification_token_is x (filter_new table)"

definition new_from_host_ids :: "string \<Rightarrow> uuid list \<Rightarrow> StorableFilter" where
  "new_from_host_ids table x = host_ids_in x (filter_new table)"

definition new_from_service_id :: "string \<Rightarrow> uuid \<Rightarrow> StorableFilter" where
  "new_from_service_id table x = service_id_is x (filter_new table)"

definition new_from_subnet_id :: "string \<Rightarrow> uuid \<Rightarrow> StorableFilter" where
  "new_from_subnet_id table x = subnet_id_is x (filter_new table)"

definition new_from_binding_id :: "string \<Rightarrow> uuid \<Rightarrow> StorableFilter" where
  "new_from_binding_id table x = binding_id_is x (filter_new table)"

definition new_from_user_id :: "string \<Rightarrow> uuid \<Rightarrow> StorableFilter" where
  "new_from_user_id table x = user_id_is x (filter_new table)"

definition new_from_user_ids :: "string \<Rightarrow> uuid list \<Rightarrow> StorableFilter" where
  "new_from_user_ids table x = user_ids_in x (filter_new table)"

definition new_from_interface_id :: "string \<Rightarrow> uuid \<Rightarrow> StorableFilter" where
  "new_from_interface_id table x = interface_id_is x (filter_new table)"

definition new_from_group_ids :: "string \<Rightarrow> uuid list \<Rightarrow> StorableFilter" where
  "new_from_group_ids table x = group_ids_in x (filter_new table)"

definition new_for_unresolved_lldp_in_network :: "string \<Rightarrow> uuid \<Rightarrow> StorableFilter" where
  "new_for_unresolved_lldp_in_network table x = unresolved_lldp_is x (filter_new table)"

definition new_with_stripe_customer_id :: "string \<Rightarrow> string \<Rightarrow> StorableFilter" where
  "new_with_stripe_customer_id table x = stripe_customer_id_is x (filter_new table)"

definition new_with_expiry_before :: "string \<Rightarrow> timestamp \<Rightarrow> StorableFilter" where
  "new_with_expiry_before table x = expires_before x (filter_new table)"

definition new_from_uuid_column :: "string \<Rightarrow> string \<Rightarrow> uuid \<Rightarrow> StorableFilter" where
  "new_from_uuid_column table column i = uuid_column column i (filter_new table)"

definition new_from_uuids_column :: "string \<Rightarrow> string \<Rightarrow> uuid list \<Rightarrow> StorableFilter" where
  "new_from_uuids_column table column ids = uuids_column_in column ids (filter_new table)"

definition new_for_scheduled_discoveries :: "string \<Rightarrow> StorableFilter" where
  "new_for_scheduled_discoveries table = scheduled_discovery (filter_new table)"

definition new_without_brevo_company_id :: "string \<Rightarrow> StorableFilter" where
  "new_without_brevo_company_id table = without_brevo_company_id (filter_new table)"

definition new_with_brevo_company_id :: "string \<Rightarrow> StorableFilter" where
  "new_with_brevo_company_id table = with_brevo_company_id (filter_new table)"

definition new_for_daemon_poller_system_job :: "string \<Rightarrow> StorableFilter" where
  "new_for_daemon_poller_system_job table =
     standby_is False (is_unreachable_is False (daemon_mode_is ServerPoll (filter_new table)))"

subsection \<open>Clauses\<close>

definition filter_limit :: "32 word \<Rightarrow> StorableFilter \<Rightarrow> StorableFilter" where
  "filter_limit n f = f\<lparr>sf_limit := Some n\<rparr>"

definition filter_offset :: "32 word \<Rightarrow> StorableFilter \<Rightarrow> StorableFilter" where
  "filter_offset n f = f\<lparr>sf_offset := Some n\<rparr>"

definition filter_join :: "string \<Rightarrow> StorableFilter \<Rightarrow> StorableFilter" where
  "filter_join clause f = f\<lparr>sf_joins := sf_joins f @ [clause]\<rparr>"

definition has_joins :: "StorableFilter \<Rightarrow> bool" where
  "has_joins f \<longleftrightarrow> sf_joins f \<noteq> []"

definition to_limit_clause :: "StorableFilter \<Rightarrow> string" where
  "to_limit_clause f = (case sf_limit f of Some n \<Rightarrow> ''LIMIT '' @ show_nat (unat n) | None \<Rightarrow> [])"

definition to_offset_clause :: "StorableFilter \<Rightarrow> string" where
  "to_offset_clause f =
     (case sf_offset f of Some n \<Rightarrow> if n > 0 then ''OFFSET '' @ show_nat (unat n) else [] | None \<Rightarrow> [])"

definition to_pagination_clause :: "StorableFilter \<Rightarrow> string" where
  "to_pagination_clause f =
     str_join '' '' ((case sf_limit f of Some n \<Rightarrow> [''LIMIT '' @ show_nat (unat n)] | None \<Rightarrow> []) @
       (case sf_offset f of Some n \<Rightarrow> if n > 0 then [''OFFSET '' @ show_nat (unat n)] else [] | None \<Rightarrow> []))"

definition to_join_clause :: "StorableFilter \<Rightarrow> string" where
  "to_join_clause f = str_join '' '' (sf_joins f)"

definition to_where_clause :: "StorableFilter \<Rightarrow> string" where
  "to_where_clause f =
     (if sf_conditions f = [] then [] else ''WHERE '' @ str_join '' AND '' (sf_conditions f))"

section \<open>Statements\<close>

definition build_insert_query :: "string \<Rightarrow> string list \<Rightarrow> string" where
  "build_insert_query table columns =
     ''INSERT INTO '' @ table @ '' ('' @ str_join '', '' columns @ '') VALUES ('' @
     str_join '', '' (map dollar [1..<length columns + 1]) @ '')''"

definition build_update_query :: "string \<Rightarrow> string list \<Rightarrow> string" where
  \<comment> \<open>the first column is the id\<close>
  "build_update_query table columns =
     ''UPDATE '' @ table @ '' SET '' @
     str_join '', '' (map (\<lambda>(i, col). col @ '' = '' @ dollar (i + 1)) (drop 1 (enumerate 0 columns))) @
     '' WHERE id = $1''"

definition delete_by_filter_query :: "StorableFilter \<Rightarrow> string" where
  "delete_by_filter_query f = ''DELETE FROM '' @ sf_table f @ '' '' @ to_where_clause f"

definition get_one_query :: "StorableFilter \<Rightarrow> string" where
  "get_one_query f = ''SELECT * FROM '' @ sf_table f @ '' '' @ to_where_clause f"

definition get_all_ordered_query :: "string \<Rightarrow> StorableFilter \<Rightarrow> string" where
  "get_all_ordered_query order_by f =
     ''SELECT '' @ (if has_joins f then sf_table f @ ''.*'' else ''*'') @ '' FROM '' @ sf_table f @ '' '' @
     to_join_clause f @ '' '' @ to_where_clause f @ '' ORDER BY '' @ order_by @ '' '' @ to_pagination_clause f"

definition get_paginated_queries :: "string \<Rightarrow> StorableFilter \<Rightarrow> string \<times> string" where
  \<comment> \<open>the count ignores the page; the joins are part of both\<close>
  "get_paginated_queries order_by f =
     (''SELECT COUNT(*) FROM '' @ sf_table f @ '' '' @ to_join_clause f @ '' '' @ to_where_clause f,
      get_all_ordered_query order_by f)"

definition delete_query :: "string \<Rightarrow> string" where
  "delete_query table = ''DELETE FROM '' @ table @ '' WHERE id = $1''"

definition delete_many_query :: "string \<Rightarrow> uuid list \<Rightarrow> string option" where
  \<comment> \<open>without ids nothing is sent\<close>
  "delete_many_query table ids =
     (if ids = [] then None else Some (''DELETE FROM '' @ table @ '' WHERE id = ANY($1)''))"

section \<open>Pagination\<close>

record PaginationParams =
  pp_limit :: "32 word option"
  pp_offset :: "32 word option"

definition default_limit :: "32 word" where
  "default_limit = 50"

definition max_limit :: "32 word" where
  "max_limit = 1000"

definition effective_limit :: "PaginationParams \<Rightarrow> 32 word option" where
  \<comment> \<open>a limit of zero asks for everything\<close>
  "effective_limit p =
     (case pp_limit p of
        Some n \<Rightarrow> if n = 0 then None else Some (min n max_limit)
      | None \<Rightarrow> Some default_limit)"

definition effective_offset :: "PaginationParams \<Rightarrow> 32 word" where
  "effective_offset p = (case pp_offset p of Some n \<Rightarrow> n | None \<Rightarrow> 0)"

definition apply_pagination :: "PaginationParams \<Rightarrow> StorableFilter \<Rightarrow> StorableFilter" where
  "apply_pagination p f =
     filter_offset (effective_offset p) (case effective_limit p of Some n \<Rightarrow> filter_limit n f | None \<Rightarrow> f)"

definition paginate_in_memory :: "PaginationParams \<Rightarrow> 'a list \<Rightarrow> 'a list \<times> PaginationMeta" where
  \<comment> \<open>the handlers that load everything cut the page themselves and report a missing limit as zero\<close>
  "paginate_in_memory p xs =
     (let off = effective_offset p;
          page = (case effective_limit p of
                    Some l \<Rightarrow> take (unat l) (drop (unat off) xs)
                  | None \<Rightarrow> drop (unat off) xs);
          lm = (case effective_limit p of Some l \<Rightarrow> l | None \<Rightarrow> 0)
      in (page, pagination_meta (word_of_nat (length xs)) lm off))"

datatype OrderDirection = OrderAsc | OrderDesc

fun order_to_sql :: "OrderDirection \<Rightarrow> string" where
  "order_to_sql OrderAsc = ''ASC''"
| "order_to_sql OrderDesc = ''DESC''"

section \<open>Query parameters\<close>

text \<open>
  Every query that names a network narrows the networks of the caller; a network the caller has no
  access to leaves nothing.
\<close>

definition network_condition :: "uuid option \<Rightarrow> uuid list \<Rightarrow> StorableFilter \<Rightarrow> StorableFilter" where
  "network_condition network user_networks f =
     (case network of
        Some n \<Rightarrow> if n \<in> set user_networks then network_ids_in [n] f else network_ids_in [] f
      | None \<Rightarrow> network_ids_in user_networks f)"

definition ids_condition :: "uuid list option \<Rightarrow> StorableFilter \<Rightarrow> StorableFilter" where
  "ids_condition ids f = (case ids of Some xs \<Rightarrow> if xs \<noteq> [] then entity_ids_in xs f else f | None \<Rightarrow> f)"

definition optional_column :: "(uuid \<Rightarrow> StorableFilter \<Rightarrow> StorableFilter) \<Rightarrow> uuid option \<Rightarrow> StorableFilter \<Rightarrow> StorableFilter" where
  "optional_column op value f = (case value of Some i \<Rightarrow> op i f | None \<Rightarrow> f)"

record NetworkFilterQuery =
  nq_network_id :: "uuid option"
  nq_ids :: "uuid list option"
  nq_limit :: "32 word option"
  nq_offset :: "32 word option"

definition network_query_filter :: "NetworkFilterQuery \<Rightarrow> StorableFilter \<Rightarrow> uuid list \<Rightarrow> uuid \<Rightarrow> StorableFilter" where
  "network_query_filter q f user_networks user_org =
     network_condition (nq_network_id q) user_networks (ids_condition (nq_ids q) f)"

definition network_query_pagination :: "NetworkFilterQuery \<Rightarrow> PaginationParams" where
  "network_query_pagination q = \<lparr>pp_limit = nq_limit q, pp_offset = nq_offset q\<rparr>"

record NoFilterQuery =
  of_limit :: "32 word option"
  of_offset :: "32 word option"

definition no_filter_query :: "NoFilterQuery \<Rightarrow> StorableFilter \<Rightarrow> uuid list \<Rightarrow> uuid \<Rightarrow> StorableFilter" where
  "no_filter_query q f user_networks user_org = f"

definition no_filter_pagination :: "NoFilterQuery \<Rightarrow> PaginationParams" where
  "no_filter_pagination q = \<lparr>pp_limit = of_limit q, pp_offset = of_offset q\<rparr>"

record HostChildQuery =
  hq_host_id :: "uuid option"
  hq_network_id :: "uuid option"
  hq_ids :: "uuid list option"
  hq_limit :: "32 word option"
  hq_offset :: "32 word option"

definition host_child_query_filter :: "HostChildQuery \<Rightarrow> StorableFilter \<Rightarrow> uuid list \<Rightarrow> uuid \<Rightarrow> StorableFilter" where
  "host_child_query_filter q f user_networks user_org =
     optional_column host_id_is (hq_host_id q)
       (network_condition (hq_network_id q) user_networks (ids_condition (hq_ids q) f))"

definition host_child_query_pagination :: "HostChildQuery \<Rightarrow> PaginationParams" where
  "host_child_query_pagination q = \<lparr>pp_limit = hq_limit q, pp_offset = hq_offset q\<rparr>"

record BindingQuery =
  bq_service_id :: "uuid option"
  bq_network_id :: "uuid option"
  bq_port_id :: "uuid option"
  bq_interface_id :: "uuid option"
  bq_limit :: "32 word option"
  bq_offset :: "32 word option"

definition binding_query_filter :: "BindingQuery \<Rightarrow> StorableFilter \<Rightarrow> uuid list \<Rightarrow> uuid \<Rightarrow> StorableFilter" where
  "binding_query_filter q f user_networks user_org =
     optional_column (uuid_column ''interface_id'') (bq_interface_id q)
       (optional_column (uuid_column ''port_id'') (bq_port_id q)
         (optional_column service_id_is (bq_service_id q)
           (network_condition (bq_network_id q) user_networks f)))"

definition binding_query_pagination :: "BindingQuery \<Rightarrow> PaginationParams" where
  "binding_query_pagination q = \<lparr>pp_limit = bq_limit q, pp_offset = bq_offset q\<rparr>"

record InterfaceQuery =
  iq_host_id :: "uuid option"
  iq_subnet_id :: "uuid option"
  iq_network_id :: "uuid option"
  iq_limit :: "32 word option"
  iq_offset :: "32 word option"

definition interface_query_filter :: "InterfaceQuery \<Rightarrow> StorableFilter \<Rightarrow> uuid list \<Rightarrow> uuid \<Rightarrow> StorableFilter" where
  "interface_query_filter q f user_networks user_org =
     optional_column host_id_is (iq_host_id q)
       (optional_column subnet_id_is (iq_subnet_id q)
         (network_condition (iq_network_id q) user_networks f))"

definition interface_query_pagination :: "InterfaceQuery \<Rightarrow> PaginationParams" where
  "interface_query_pagination q = \<lparr>pp_limit = iq_limit q, pp_offset = iq_offset q\<rparr>"

record DiscoveryQuery =
  dq_network_id :: "uuid option"
  dq_daemon_id :: "uuid option"
  dq_limit :: "32 word option"
  dq_offset :: "32 word option"

definition discovery_query_filter :: "DiscoveryQuery \<Rightarrow> StorableFilter \<Rightarrow> uuid list \<Rightarrow> uuid \<Rightarrow> StorableFilter" where
  "discovery_query_filter q f user_networks user_org =
     optional_column (uuid_column ''daemon_id'') (dq_daemon_id q) (network_condition (dq_network_id q) user_networks f)"

definition discovery_query_pagination :: "DiscoveryQuery \<Rightarrow> PaginationParams" where
  "discovery_query_pagination q = \<lparr>pp_limit = dq_limit q, pp_offset = dq_offset q\<rparr>"

record SharesQuery =
  sq_network_id :: "uuid option"
  sq_topology_id :: "uuid option"
  sq_limit :: "32 word option"
  sq_offset :: "32 word option"

definition shares_query_filter :: "SharesQuery \<Rightarrow> StorableFilter \<Rightarrow> uuid list \<Rightarrow> uuid \<Rightarrow> StorableFilter" where
  "shares_query_filter q f user_networks user_org =
     optional_column (uuid_column ''topology_id'') (sq_topology_id q) (network_condition (sq_network_id q) user_networks f)"

definition shares_query_pagination :: "SharesQuery \<Rightarrow> PaginationParams" where
  "shares_query_pagination q = \<lparr>pp_limit = sq_limit q, pp_offset = sq_offset q\<rparr>"

section \<open>The generic listing\<close>

definition base_list_filter :: "string \<Rightarrow> bool \<Rightarrow> uuid list \<Rightarrow> uuid \<Rightarrow> StorableFilter" where
  "base_list_filter table network_keyed user_networks user_org =
     (if network_keyed then new_from_network_ids table user_networks
      else if table = ''networks'' then new_from_entity_ids table user_networks
      else new_from_org_id table user_org)"

definition get_all_handler_query ::
    "string \<Rightarrow> bool \<Rightarrow> ('q \<Rightarrow> StorableFilter \<Rightarrow> uuid list \<Rightarrow> uuid \<Rightarrow> StorableFilter) \<Rightarrow> ('q \<Rightarrow> PaginationParams) \<Rightarrow>
     AuthenticatedEntity \<Rightarrow> 'q \<Rightarrow> ApiFailure + StorableFilter" where
  \<comment> \<open>up to the query: the rows are counted and read with \<open>get_paginated_queries ''created_at ASC''\<close>\<close>
  "get_all_handler_query table network_keyed apply_query pagination auth q =
     (case auth_organization_id auth of
        None \<Rightarrow> Inl err_organization_required
      | Some org \<Rightarrow>
          Inr (apply_pagination (pagination q)
                 (apply_query q (base_list_filter table network_keyed (auth_network_ids auth) org)
                    (auth_network_ids auth) org)))"

end
