(* ===== verification/Filter_Claims.thy ===== *)
theory Filter_Claims
  imports Storage_Filter
begin

text \<open>
  The placeholders of a filter fit its values however the filter was built, and a listing never
  leaves the networks of the caller.
\<close>

section \<open>Reading the placeholders back\<close>

fun placeholder_ids :: "string \<Rightarrow> nat list" where
  \<comment> \<open>the numbers after the dollar signs of a statement, from left to right\<close>
  "placeholder_ids [] = []"
| "placeholder_ids (c # s) =
     (if c = CHR ''$''
      then (case parse_digits 0 (takeWhile is_digit s) of Some n \<Rightarrow> [n] | None \<Rightarrow> []) @ placeholder_ids s
      else placeholder_ids s)"

lemma takeWhile_stop: "b = [] \<or> \<not> P (hd b) \<Longrightarrow> takeWhile P (a @ b) = takeWhile P a"
  by (induction a) (cases b; auto)+

lemma placeholder_ids_append:
  "b = [] \<or> \<not> is_digit (hd b) \<Longrightarrow> placeholder_ids (a @ b) = placeholder_ids a @ placeholder_ids b"
  by (induction a) (auto simp: takeWhile_stop)

lemma placeholder_ids_none: "CHR ''$'' \<notin> set a \<Longrightarrow> placeholder_ids (a @ b) = placeholder_ids b"
  by (induction a) auto

lemma placeholder_ids_plain [simp]: "CHR ''$'' \<notin> set a \<Longrightarrow> placeholder_ids a = []"
  using placeholder_ids_none [of a "[]"] by simp

lemma is_digit_not_dollar: "\<not> is_digit (CHR ''$'')"
  by (simp add: is_digit_def)

lemma show_nat_no_dollar: "CHR ''$'' \<notin> set (show_nat n)"
  using show_nat_digits [of n] by (auto simp: list_all_iff is_digit_def)

lemma placeholder_ids_dollar [simp]: "placeholder_ids (dollar k) = [k]"
proof -
  have "takeWhile is_digit (show_nat k) = show_nat k"
    using show_nat_digits [of k] by (simp add: list_all_iff takeWhile_eq_all_conv)
  then show ?thesis by (simp add: dollar_def parse_show_nat show_nat_no_dollar del: takeWhile_eq_all_conv)
qed

lemma placeholder_ids_join:
  assumes "sep \<noteq> []" "\<not> is_digit (hd sep)" "CHR ''$'' \<notin> set sep"
  shows "placeholder_ids (str_join sep xs) = concat (map placeholder_ids xs)"
proof (induction xs rule: induct_list012)
  case (3 x y xs)
  have "placeholder_ids (x @ sep @ str_join sep (y # xs)) =
        placeholder_ids x @ placeholder_ids (str_join sep (y # xs))"
    using assms placeholder_ids_append [of "sep @ str_join sep (y # xs)" x]
    by (simp add: placeholder_ids_none)
  then show ?case using 3 by simp
qed simp_all

section \<open>Filters\<close>

definition bound_to :: "StorableFilter \<Rightarrow> bool" where
  \<comment> \<open>the placeholders of the conditions are exactly the numbers of the values\<close>
  "bound_to f \<longleftrightarrow> CHR ''$'' \<notin> set (sf_table f) \<and>
     set (concat (map placeholder_ids (sf_conditions f))) = {1..length (sf_values f)}"

inductive built :: "StorableFilter \<Rightarrow> bool" where
  "CHR ''$'' \<notin> set table \<Longrightarrow> built (filter_new table)"
| "built f \<Longrightarrow> built (entity_id x f)"
| "built f \<Longrightarrow> built (user_id_is x f)"
| "built f \<Longrightarrow> built (hidden_is x f)"
| "built f \<Longrightarrow> built (host_id_is x f)"
| "built f \<Longrightarrow> built (subnet_id_is x f)"
| "built f \<Longrightarrow> built (mac_address_is x f)"
| "built f \<Longrightarrow> built (password_reset_token_is x f)"
| "built f \<Longrightarrow> built (email_verification_token_is x f)"
| "built f \<Longrightarrow> built (name_is x f)"
| "built f \<Longrightarrow> built (group_id_is x f)"
| "built f \<Longrightarrow> built (binding_id_is x f)"
| "built f \<Longrightarrow> built (api_key_is x f)"
| "built f \<Longrightarrow> built (email_is x f)"
| "built f \<Longrightarrow> built (organization_id_is x f)"
| "built f \<Longrightarrow> built (topology_id_is x f)"
| "built f \<Longrightarrow> built (user_permissions_is x f)"
| "built f \<Longrightarrow> built (service_id_is x f)"
| "built f \<Longrightarrow> built (daemon_mode_is x f)"
| "built f \<Longrightarrow> built (is_unreachable_is x f)"
| "built f \<Longrightarrow> built (standby_is x f)"
| "built f \<Longrightarrow> built (entity_type_is x f)"
| "built f \<Longrightarrow> built (tag_id_is x f)"
| "built f \<Longrightarrow> built (ip_address_is x f)"
| "built f \<Longrightarrow> built (if_descr_is x f)"
| "built f \<Longrightarrow> built (chassis_id_is x f)"
| "built f \<Longrightarrow> built (interface_id_is x f)"
| "built f \<Longrightarrow> built (stripe_customer_id_is x f)"
| "built f \<Longrightarrow> built (expires_before x f)"
| "CHR ''$'' \<notin> set x \<Longrightarrow> built f \<Longrightarrow> built (uuid_column x y f)"
| "built f \<Longrightarrow> built (entity_ids_in x f)"
| "built f \<Longrightarrow> built (network_ids_in x f)"
| "built f \<Longrightarrow> built (user_ids_in x f)"
| "built f \<Longrightarrow> built (group_ids_in x f)"
| "built f \<Longrightarrow> built (host_ids_in x f)"
| "CHR ''$'' \<notin> set x \<Longrightarrow> built f \<Longrightarrow> built (uuids_column_in x y f)"
| "built f \<Longrightarrow> built (has_any_tags x y f)"
| "built f \<Longrightarrow> built (oidc_subject_is x f)"
| "built f \<Longrightarrow> built (unresolved_lldp_is x f)"
| "built f \<Longrightarrow> built (neighbor_host x f)"
| "built f \<Longrightarrow> built (filter_limit x f)"
| "built f \<Longrightarrow> built (filter_offset x f)"
| "built f \<Longrightarrow> built (filter_join x f)"
| "built f \<Longrightarrow> built (scheduled_discovery f)"
| "built f \<Longrightarrow> built (has_neighbor_is f)"
| "built f \<Longrightarrow> built (has_neighbor_if_entry f)"
| "built f \<Longrightarrow> built (without_brevo_company_id f)"
| "built f \<Longrightarrow> built (with_brevo_company_id f)"

lemma condition_frame [simp]:
  "sf_table (push_condition c f) = sf_table f"
  "sf_values (push_condition c f) = sf_values f"
  "sf_conditions (push_condition c f) = sf_conditions f @ [c]"
  by (simp_all add: push_condition_def)

lemma value_frame [simp]:
  "sf_table (push_value v f) = sf_table f"
  "sf_values (push_value v f) = sf_values f @ [v]"
  "sf_conditions (push_value v f) = sf_conditions f"
  by (simp_all add: push_value_def)

lemma push_values_frame [simp]:
  "sf_table (foldl (\<lambda>f i. push_value (g i) f) f xs) = sf_table f"
  "sf_conditions (foldl (\<lambda>f i. push_value (g i) f) f xs) = sf_conditions f"
  "sf_values (foldl (\<lambda>f i. push_value (g i) f) f xs) = sf_values f @ map g xs"
  by (induction xs arbitrary: f) simp_all

lemma qualified_plain:
  "CHR ''$'' \<notin> set (sf_table f) \<Longrightarrow> CHR ''$'' \<notin> set column \<Longrightarrow> CHR ''$'' \<notin> set (qualify_column f column)"
  by (simp add: qualify_column_def)

lemma numbers_grow: "{Suc 0..n} \<union> (\<lambda>i. Suc (n + i)) ` {0..<m} = {Suc 0..n + m}"
proof -
  have "(\<lambda>i. Suc (n + i)) ` {0..<m} = {Suc n..<Suc (n + m)}"
    using image_add_atLeastLessThan [of "Suc n" 0 m] by (simp add: add.commute)
  then show ?thesis by auto
qed

lemma bound_condition:
  "bound_to f \<Longrightarrow> CHR ''$'' \<notin> set c \<Longrightarrow> bound_to (push_condition c f)"
  by (simp add: bound_to_def)

lemma bound_compare:
  assumes "bound_to f" "CHR ''$'' \<notin> set column" "CHR ''$'' \<notin> set rel"
  shows "bound_to (compare_column column rel v f)"
  using assms
  by (auto simp: bound_to_def compare_column_def next_index_def placeholder_ids_none qualified_plain atLeastAtMostSuc_conv)

lemma placeholder_list:
  "placeholder_ids (str_join '', '' (map dollar ks) @ '')'' @ b) = ks @ placeholder_ids b"
  using placeholder_ids_append [of "'')'' @ b" "str_join '', '' (map dollar ks)"]
  by (simp add: is_digit_def placeholder_ids_join comp_def)

lemma bound_in:
  assumes "bound_to f" "CHR ''$'' \<notin> set column"
  shows "bound_to (in_column column ids f)"
proof (cases "ids = []")
  case True
  with assms show ?thesis by (simp add: in_column_def bound_condition)
next
  case False
  let ?ks = "map (\<lambda>i. Suc (length (sf_values f) + i)) [0..<length ids]"
  have "placeholder_ids (str_join '', '' (map dollar ?ks) @ '')'') = ?ks"
    using placeholder_list [of ?ks "[]"] by simp
  then show ?thesis
    using assms False
    by (simp add: in_column_def bound_to_def placeholder_ids_none qualified_plain comp_def numbers_grow)
qed

lemma bound_tags: "bound_to f \<Longrightarrow> bound_to (has_any_tags ids d f)"
proof (cases "ids = []")
  case False
  assume f: "bound_to f"
  let ?k = "Suc (length (sf_values f))"
  let ?ks = "map (\<lambda>i. Suc (?k + i)) [0..<length ids]"
  let ?sel = "'' IN (SELECT entity_id FROM entity_tags WHERE entity_type = ''"
  let ?rest = "'' AND tag_id IN ('' @ str_join '', '' (map dollar ?ks) @ ''))''"
  have rest: "placeholder_ids ?rest = ?ks"
    using placeholder_list [of ?ks "'')''"] by simp
  have "placeholder_ids (dollar ?k @ ?rest) = ?k # ?ks"
    using placeholder_ids_append [of ?rest "dollar ?k"] rest by (simp add: is_digit_def)
  then have "placeholder_ids (qualify_column f ''id'' @ ?sel @ dollar ?k @ ?rest) = ?k # ?ks"
    using f by (simp add: bound_to_def qualified_plain placeholder_ids_none)
  moreover have "insert ?k ({Suc 0..length (sf_values f)} \<union> (\<lambda>i. Suc (?k + i)) ` {0..<length ids}) =
      {Suc 0..?k + length ids}"
    using numbers_grow [of ?k "length ids"] by (auto simp: atLeastAtMostSuc_conv)
  ultimately show ?thesis
    using f False by (simp add: has_any_tags_def bound_to_def comp_def)
qed (simp add: has_any_tags_def)

lemma bound_neighbor_host: "bound_to f \<Longrightarrow> bound_to (neighbor_host h f)"
proof -
  assume f: "bound_to f"
  let ?k = "next_index f"
  let ?c = "qualify_column f ''neighbor_if_entry_id''"
  let ?tail = "'' OR '' @ ?c @ '' IN (SELECT id FROM if_entries WHERE host_id = '' @ dollar ?k @ ''))''"
  have "placeholder_ids (dollar ?k @ ''))'') = [?k]"
    using placeholder_ids_append [of "''))''" "dollar ?k"] by (simp add: is_digit_def)
  then have tail: "placeholder_ids ?tail = [?k]"
    using f by (simp add: bound_to_def qualified_plain placeholder_ids_none)
  have "placeholder_ids (dollar ?k @ ?tail) = [?k, ?k]"
    using placeholder_ids_append [of ?tail "dollar ?k"] tail by (simp add: is_digit_def)
  then have "placeholder_ids (''('' @ qualify_column f ''neighbor_host_id'' @ '' = '' @ dollar ?k @ ?tail) = [?k, ?k]"
    using f by (simp add: bound_to_def qualified_plain placeholder_ids_none)
  then show ?thesis
    using f by (auto simp: neighbor_host_def bound_to_def next_index_def atLeastAtMostSuc_conv)
qed

lemma bound_null: "bound_to f \<Longrightarrow> CHR ''$'' \<notin> set c \<Longrightarrow> bound_to (is_null c f)"
  "bound_to f \<Longrightarrow> CHR ''$'' \<notin> set c \<Longrightarrow> bound_to (is_not_null c f)"
  by (simp_all add: is_null_def is_not_null_def bound_condition qualified_plain bound_to_def)

lemma bound_page:
  "bound_to (filter_limit n f) \<longleftrightarrow> bound_to f"
  "bound_to (filter_offset n f) \<longleftrightarrow> bound_to f"
  "bound_to (filter_join j f) \<longleftrightarrow> bound_to f"
  by (simp_all add: filter_limit_def filter_offset_def filter_join_def bound_to_def)

lemma bound_lldp: "bound_to f \<Longrightarrow> bound_to (unresolved_lldp_is n f)"
  unfolding unresolved_lldp_is_def Let_def
  by (intro bound_null bound_condition bound_compare) (simp_all add: bound_to_def qualify_column_def)

lemma bound_neighbor: "bound_to f \<Longrightarrow> bound_to (has_neighbor_is f)"
  by (simp add: has_neighbor_is_def bound_condition qualified_plain bound_to_def)

lemmas comparison_defs =
  entity_id_def user_id_is_def hidden_is_def host_id_is_def subnet_id_is_def mac_address_is_def
  password_reset_token_is_def email_verification_token_is_def name_is_def group_id_is_def binding_id_is_def
  api_key_is_def email_is_def organization_id_is_def topology_id_is_def user_permissions_is_def
  service_id_is_def daemon_mode_is_def is_unreachable_is_def standby_is_def entity_type_is_def tag_id_is_def
  ip_address_is_def if_descr_is_def chassis_id_is_def interface_id_is_def stripe_customer_id_is_def
  expires_before_def uuid_column_def oidc_subject_is_def

lemmas membership_defs =
  entity_ids_in_def network_ids_in_def user_ids_in_def group_ids_in_def host_ids_in_def uuids_column_in_def

lemma built_bound: "built f \<Longrightarrow> bound_to f"
  by (induction rule: built.induct)
     (simp_all add: comparison_defs membership_defs bound_compare bound_in bound_tags bound_neighbor_host
        bound_null bound_page bound_lldp bound_neighbor bound_condition scheduled_discovery_def apostrophe_def
        has_neighbor_if_entry_def without_brevo_company_id_def with_brevo_company_id_def,
      simp add: bound_to_def filter_new_def)

text \<open>
  C12: However a filter is put together, the numbered placeholders of its \<open>WHERE\<close> clause are exactly
  the positions of the values it binds: no placeholder is left without a value, and no value without
  a placeholder. The names of tables and columns are the program's and contain no dollar sign.
\<close>

theorem where_clause_bound:
  assumes "built f"
  shows "set (placeholder_ids (to_where_clause f)) = {1..length (sf_values f)}"
proof -
  have f: "bound_to f" using assms by (rule built_bound)
  have "placeholder_ids (''WHERE '' @ str_join '' AND '' (sf_conditions f)) =
        concat (map placeholder_ids (sf_conditions f))"
    by (simp add: placeholder_ids_none placeholder_ids_join is_digit_def)
  then show ?thesis using f by (auto simp: to_where_clause_def bound_to_def)
qed

definition demo_filter :: StorableFilter where
  "demo_filter = has_any_tags [3, 4] D_Service (host_id_is 2 (network_ids_in [0, 1] (filter_new ''subnets'')))"

theorem where_clause_bound_witness:
  "built demo_filter \<and> length (sf_values demo_filter) = 6 \<and>
   set (placeholder_ids (to_where_clause demo_filter)) = {1..6}"
proof -
  have b: "built demo_filter"
    unfolding demo_filter_def by (intro built.intros) simp
  moreover have "length (sf_values demo_filter) = 6"
    by (simp add: demo_filter_def has_any_tags_def host_id_is_def compare_column_def network_ids_in_def
        in_column_def filter_new_def)
  ultimately show ?thesis using where_clause_bound [OF b] by simp
qed

section \<open>Listings\<close>

definition narrows :: "StorableFilter \<Rightarrow> StorableFilter \<Rightarrow> bool" where
  \<comment> \<open>the second filter asks for what the first does, and more conditions\<close>
  "narrows f g \<longleftrightarrow> sf_table g = sf_table f \<and>
     (\<exists>cs. sf_conditions g = sf_conditions f @ cs) \<and> (\<exists>vs. sf_values g = sf_values f @ vs)"

lemma narrows_refl [simp]: "narrows f f"
  by (simp add: narrows_def)

lemma narrows_trans: "narrows f g \<Longrightarrow> narrows g h \<Longrightarrow> narrows f h"
  by (auto simp: narrows_def)

lemma narrows_compare: "narrows f (compare_column c r v f)"
  by (simp add: narrows_def compare_column_def)

lemma narrows_in: "narrows f (in_column c ids f)"
  by (simp add: narrows_def in_column_def)

lemma narrows_network: "narrows f (network_condition n ns f)"
  by (auto simp: network_condition_def network_ids_in_def narrows_in split: option.splits)

lemma narrows_ids: "narrows f (ids_condition ids f)"
  by (auto simp: ids_condition_def entity_ids_in_def narrows_in split: option.splits)

lemma narrows_optional:
  "(\<And>i f. narrows f (op i f)) \<Longrightarrow> narrows f (optional_column op v f)"
  by (auto simp: optional_column_def split: option.splits)

lemma narrows_column [simp]:
  "narrows f (host_id_is i f)" "narrows f (subnet_id_is i f)" "narrows f (service_id_is i f)"
  "narrows f (uuid_column c i f)"
  by (simp_all add: comparison_defs narrows_compare)

lemma narrows_step: "narrows f g \<Longrightarrow> (\<And>i f. narrows f (op i f)) \<Longrightarrow> narrows f (optional_column op v g)"
  using narrows_trans narrows_optional by blast

lemma query_narrows:
  "narrows f (network_query_filter q1 f ns org)" "narrows f (no_filter_query q2 f ns org)"
  "narrows f (host_child_query_filter q3 f ns org)" "narrows f (binding_query_filter q4 f ns org)"
  "narrows f (interface_query_filter q5 f ns org)" "narrows f (discovery_query_filter q6 f ns org)"
  "narrows f (shares_query_filter q7 f ns org)"
  unfolding network_query_filter_def no_filter_query_def host_child_query_filter_def binding_query_filter_def
    interface_query_filter_def discovery_query_filter_def shares_query_filter_def
  by (auto intro!: narrows_step narrows_network intro: narrows_trans narrows_ids)

lemma narrows_page: "narrows f (apply_pagination p g) \<longleftrightarrow> narrows f g"
  by (simp add: narrows_def apply_pagination_def filter_offset_def filter_limit_def split: option.splits)

lemma page_limit: "sf_limit g = None \<Longrightarrow> sf_limit (apply_pagination p g) = effective_limit p"
  by (simp add: apply_pagination_def filter_offset_def filter_limit_def split: option.splits)

lemma effective_limit_bounds:
  "effective_limit p = Some n \<Longrightarrow> 0 < n \<and> n \<le> 1000" "effective_limit p = None \<longleftrightarrow> pp_limit p = Some 0"
  by (auto simp: effective_limit_def max_limit_def default_limit_def min_def word_gt_0 split: option.splits if_splits)

text \<open>
  C20: A listing of a table keyed by networks is restricted to the networks of the caller whatever
  the query asks for: with any of the query types, the first condition is the membership in the
  caller's networks and the first values are exactly these networks; a caller with no network gets
  the condition \<open>FALSE\<close>.
\<close>

theorem listing_within_networks:
  assumes "get_all_handler_query table True (\<lambda>_. apply_query) pagination auth q = Inr f"
    and "apply_query = network_query_filter q1 \<or> apply_query = host_child_query_filter q2 \<or>
         apply_query = binding_query_filter q3 \<or> apply_query = interface_query_filter q4 \<or>
         apply_query = discovery_query_filter q5 \<or> apply_query = shares_query_filter q6 \<or>
         apply_query = no_filter_query q7"
  shows "\<exists>cs vs. sf_conditions f = (if auth_network_ids auth = [] then ''FALSE''
            else table @ ''.network_id IN ('' @
                 str_join '', '' (map (\<lambda>i. dollar (i + 1)) [0..<length (auth_network_ids auth)]) @ '')'') # cs
          \<and> sf_values f = map SvUuid (auth_network_ids auth) @ vs"
proof -
  let ?ns = "auth_network_ids auth"
  let ?base = "new_from_network_ids table ?ns"
  obtain org where f: "f = apply_pagination (pagination q) (apply_query ?base ?ns org)"
    using assms(1) by (auto simp: get_all_handler_query_def base_list_filter_def split: option.splits)
  have "narrows ?base (apply_query ?base ?ns org)"
    using assms(2) query_narrows by (elim disjE) simp_all
  then have "narrows ?base f" by (simp add: f narrows_page)
  then show ?thesis
    by (auto simp: narrows_def new_from_network_ids_def network_ids_in_def in_column_def filter_new_def
        qualify_column_def split: if_splits)
qed

definition demo_caller :: AuthenticatedEntity where
  "demo_caller = AuthUser 1 2 Viewer [7, 8] ''a@b'' True"

definition demo_query :: HostChildQuery where
  "demo_query = \<lparr>hq_host_id = Some 5, hq_network_id = Some 9, hq_ids = None, hq_limit = None, hq_offset = None\<rparr>"

theorem listing_within_networks_witness:
  "\<exists>f cs vs. get_all_handler_query ''ports'' True (\<lambda>_. host_child_query_filter demo_query) host_child_query_pagination
        demo_caller demo_query = Inr f
     \<and> sf_conditions f = ''ports.network_id IN ($1, $2)'' # cs \<and> sf_values f = [SvUuid 7, SvUuid 8] @ vs"
proof -
  obtain f where f: "get_all_handler_query ''ports'' True (\<lambda>_. host_child_query_filter demo_query)
      host_child_query_pagination demo_caller demo_query = Inr f"
    by (simp add: get_all_handler_query_def demo_caller_def)
  have d: "show_nat (Suc 0) = ''1''" "show_nat (Suc (Suc 0)) = ''2''" by code_simp+
  have "\<exists>cs vs. sf_conditions f = ''ports.network_id IN ($1, $2)'' # cs \<and> sf_values f = [SvUuid 7, SvUuid 8] @ vs"
    using listing_within_networks [OF f, of undefined demo_query]
    by (auto simp: demo_caller_def dollar_def d upt_rec)
  with f show ?thesis by blast
qed

end
