(* ===== verification/Billing_Plans.thy ===== *)
theory Billing_Plans
  imports Events
begin

text \<open>
  The billing plans: their prices and quotas (\<open>server/billing/plans.rs\<close>), the features each plan
  includes and the names Stripe knows them by (\<open>server/billing/types/base.rs\<close>,
  \<open>server/billing/types/features.rs\<close>). The yearly prices are computed in single precision and are
  not modelled; a yearly plan is a plan whose rate is yearly.
\<close>

section \<open>Plans\<close>

datatype BillingRate = Month | Year

fun rate_display :: "BillingRate \<Rightarrow> string" where
  "rate_display Month = ''Month''"
| "rate_display Year = ''Year''"

record PlanConfig =
  base_cents :: int
  plan_rate :: BillingRate
  trial_days :: nat
  seat_cents :: "int option" \<comment> \<open>None: no more can be bought\<close>
  network_cents :: "int option"
  host_cents :: "int option"
  included_seats :: "nat option" \<comment> \<open>None: unlimited\<close>
  included_networks :: "nat option"
  included_hosts :: "nat option"

datatype BillingPlan =
    CommunityPlan PlanConfig
  | FreePlan PlanConfig
  | StarterPlan PlanConfig
  | ProPlan PlanConfig
  | TeamPlan PlanConfig
  | BusinessPlan PlanConfig
  | EnterprisePlan PlanConfig
  | DemoPlan PlanConfig
  | CommercialSelfHosted PlanConfig

fun plan_config :: "BillingPlan \<Rightarrow> PlanConfig" where
  "plan_config (CommunityPlan c) = c"
| "plan_config (FreePlan c) = c"
| "plan_config (StarterPlan c) = c"
| "plan_config (ProPlan c) = c"
| "plan_config (TeamPlan c) = c"
| "plan_config (BusinessPlan c) = c"
| "plan_config (EnterprisePlan c) = c"
| "plan_config (DemoPlan c) = c"
| "plan_config (CommercialSelfHosted c) = c"

fun set_config :: "PlanConfig \<Rightarrow> BillingPlan \<Rightarrow> BillingPlan" where
  "set_config c (CommunityPlan _) = CommunityPlan c"
| "set_config c (FreePlan _) = FreePlan c"
| "set_config c (StarterPlan _) = StarterPlan c"
| "set_config c (ProPlan _) = ProPlan c"
| "set_config c (TeamPlan _) = TeamPlan c"
| "set_config c (BusinessPlan _) = BusinessPlan c"
| "set_config c (EnterprisePlan _) = EnterprisePlan c"
| "set_config c (DemoPlan _) = DemoPlan c"
| "set_config c (CommercialSelfHosted _) = CommercialSelfHosted c"

definition billing_plan_eq :: "BillingPlan \<Rightarrow> BillingPlan \<Rightarrow> bool" where
  \<comment> \<open>\<open>PartialEq\<close> looks at the configuration only\<close>
  "billing_plan_eq a b \<longleftrightarrow> plan_config a = plan_config b"

fun plan_display :: "BillingPlan \<Rightarrow> string" where
  "plan_display (CommunityPlan _) = ''Community''"
| "plan_display (FreePlan _) = ''Free''"
| "plan_display (StarterPlan _) = ''Starter''"
| "plan_display (ProPlan _) = ''Pro''"
| "plan_display (TeamPlan _) = ''Team''"
| "plan_display (BusinessPlan _) = ''Business''"
| "plan_display (EnterprisePlan _) = ''Enterprise''"
| "plan_display (DemoPlan _) = ''Demo''"
| "plan_display (CommercialSelfHosted _) = ''CommercialSelfHosted''"

section \<open>The plans on offer\<close>

definition get_default_plans :: "BillingPlan list" where
  "get_default_plans =
    [StarterPlan \<lparr>base_cents = 1499, plan_rate = Month, trial_days = 7, seat_cents = None, network_cents = None,
      host_cents = None, included_seats = Some 1, included_networks = Some 1, included_hosts = None\<rparr>,
     ProPlan \<lparr>base_cents = 2999, plan_rate = Month, trial_days = 7, seat_cents = None, network_cents = None,
      host_cents = None, included_seats = Some 1, included_networks = Some 3, included_hosts = None\<rparr>,
     TeamPlan \<lparr>base_cents = 8999, plan_rate = Month, trial_days = 7, seat_cents = Some 1000, network_cents = Some 800,
      host_cents = None, included_seats = Some 10, included_networks = Some 15, included_hosts = None\<rparr>,
     BusinessPlan \<lparr>base_cents = 14999, plan_rate = Month, trial_days = 14, seat_cents = Some 800, network_cents = Some 500,
      host_cents = None, included_seats = Some 25, included_networks = Some 50, included_hosts = None\<rparr>]"

definition get_enterprise_plan :: BillingPlan where
  "get_enterprise_plan =
    EnterprisePlan \<lparr>base_cents = 0, plan_rate = Month, trial_days = 0, seat_cents = None, network_cents = None,
      host_cents = None, included_seats = None, included_networks = None, included_hosts = None\<rparr>"

definition get_free_plan :: BillingPlan where
  "get_free_plan =
    FreePlan \<lparr>base_cents = 0, plan_rate = Month, trial_days = 0, seat_cents = None, network_cents = None,
      host_cents = None, included_seats = Some 1, included_networks = Some 1, included_hosts = Some 25\<rparr>"

definition get_community_plan :: BillingPlan where
  "get_community_plan =
    CommunityPlan \<lparr>base_cents = 0, plan_rate = Month, trial_days = 0, seat_cents = None, network_cents = None,
      host_cents = None, included_seats = Some 1, included_networks = Some 3, included_hosts = None\<rparr>"

definition get_commercial_self_hosted_plan :: BillingPlan where
  "get_commercial_self_hosted_plan =
    CommercialSelfHosted \<lparr>base_cents = 0, plan_rate = Month, trial_days = 0, seat_cents = None, network_cents = None,
      host_cents = None, included_seats = None, included_networks = None, included_hosts = None\<rparr>"

definition default_plan :: "bool \<Rightarrow> BillingPlan" where
  \<comment> \<open>the argument is the build feature \<open>commercial\<close>\<close>
  "default_plan commercial = (if commercial then get_commercial_self_hosted_plan else get_community_plan)"

section \<open>Properties of a plan\<close>

fun is_commercial :: "BillingPlan \<Rightarrow> bool" where
  "is_commercial (TeamPlan _) = True"
| "is_commercial (BusinessPlan _) = True"
| "is_commercial (EnterprisePlan _) = True"
| "is_commercial (CommercialSelfHosted _) = True"
| "is_commercial (DemoPlan _) = True"
| "is_commercial _ = False"

fun is_free :: "BillingPlan \<Rightarrow> bool" where
  "is_free (FreePlan _) = True"
| "is_free _ = False"

fun is_demo :: "BillingPlan \<Rightarrow> bool" where
  "is_demo (DemoPlan _) = True"
| "is_demo _ = False"

definition host_limit :: "BillingPlan \<Rightarrow> nat option" where
  "host_limit p = included_hosts (plan_config p)"

definition network_limit :: "BillingPlan \<Rightarrow> nat option" where
  "network_limit p = included_networks (plan_config p)"

definition seat_limit :: "BillingPlan \<Rightarrow> nat option" where
  "seat_limit p = included_seats (plan_config p)"

definition can_invite_users :: "BillingPlan \<Rightarrow> bool" where
  "can_invite_users p =
     (if included_seats (plan_config p) \<noteq> None then seat_cents (plan_config p) \<noteq> None else True)"

datatype Hosting = SelfHosted | Managed | Cloud

fun hosting :: "BillingPlan \<Rightarrow> Hosting" where
  "hosting (CommunityPlan _) = SelfHosted"
| "hosting (CommercialSelfHosted _) = SelfHosted"
| "hosting (EnterprisePlan _) = Managed"
| "hosting _ = Cloud"

fun custom_price :: "BillingPlan \<Rightarrow> string option" where
  "custom_price (EnterprisePlan _) = Some ''Custom''"
| "custom_price (CommunityPlan _) = Some ''Free''"
| "custom_price (FreePlan _) = Some ''Free''"
| "custom_price (CommercialSelfHosted _) = Some ''Custom''"
| "custom_price _ = None"

definition stripe_product_id :: "BillingPlan \<Rightarrow> string" where
  "stripe_product_id p = to_lowercase (plan_display p)"

definition stripe_base_price_lookup_key :: "BillingPlan \<Rightarrow> string" where
  "stripe_base_price_lookup_key p =
     stripe_product_id p @ ''_'' @ show_int (base_cents (plan_config p)) @ ''_'' @ rate_display (plan_rate (plan_config p))"

definition stripe_seat_addon_price_lookup_key :: "BillingPlan \<Rightarrow> string option" where
  "stripe_seat_addon_price_lookup_key p =
     map_option (\<lambda>c. stripe_product_id p @ ''_seats_'' @ show_int c @ ''_'' @ rate_display (plan_rate (plan_config p)))
       (seat_cents (plan_config p))"

definition stripe_network_addon_price_lookup_key :: "BillingPlan \<Rightarrow> string option" where
  "stripe_network_addon_price_lookup_key p =
     map_option (\<lambda>c. stripe_product_id p @ ''_networks_'' @ show_int c @ ''_'' @ rate_display (plan_rate (plan_config p)))
       (network_cents (plan_config p))"

section \<open>Features\<close>

datatype (plugins only: code size) Feature =
    ShareViews | OnboardingCall | AuditLogs | Webhooks | RemoveCreatedWith | ApiAccess | CustomSso
  | ManagedDeployment | Whitelabeling | CommunitySupport | EmailSupport | LiveChatSupport | PrioritySupport | Embeds
  | ScheduledDiscovery | DaemonPoll | ServiceDefinitions | DockerIntegration | SnmpIntegration | RealTimeUpdates

primrec feature_id :: "Feature \<Rightarrow> string" where
  "feature_id ShareViews = ''share_views''"
| "feature_id OnboardingCall = ''onboarding_call''"
| "feature_id AuditLogs = ''audit_logs''"
| "feature_id Webhooks = ''webhooks''"
| "feature_id RemoveCreatedWith = ''remove_created_with''"
| "feature_id ApiAccess = ''api_access''"
| "feature_id CustomSso = ''custom_sso''"
| "feature_id ManagedDeployment = ''managed_deployment''"
| "feature_id Whitelabeling = ''whitelabeling''"
| "feature_id CommunitySupport = ''community_support''"
| "feature_id EmailSupport = ''email_support''"
| "feature_id LiveChatSupport = ''live_chat_support''"
| "feature_id PrioritySupport = ''priority_support''"
| "feature_id Embeds = ''embeds''"
| "feature_id ScheduledDiscovery = ''scheduled_discovery''"
| "feature_id DaemonPoll = ''daemon_poll''"
| "feature_id ServiceDefinitions = ''service_definitions''"
| "feature_id DockerIntegration = ''docker_integration''"
| "feature_id SnmpIntegration = ''snmp_integration''"
| "feature_id RealTimeUpdates = ''real_time_updates''"

primrec feature_name :: "Feature \<Rightarrow> string" where
  "feature_name ShareViews = ''Share Views''"
| "feature_name OnboardingCall = ''Onboarding Call''"
| "feature_name AuditLogs = ''Audit Logs''"
| "feature_name Webhooks = ''Webhooks''"
| "feature_name RemoveCreatedWith = ''Remove Watermark''"
| "feature_name ApiAccess = ''Api Access''"
| "feature_name CustomSso = ''Custom SSO''"
| "feature_name ManagedDeployment = ''Managed Deployment''"
| "feature_name Whitelabeling = ''Whitelabeling''"
| "feature_name CommunitySupport = ''Community Support''"
| "feature_name EmailSupport = ''Email Support''"
| "feature_name LiveChatSupport = ''Live Chat Support''"
| "feature_name PrioritySupport = ''Priority Support''"
| "feature_name Embeds = ''Embeds''"
| "feature_name ScheduledDiscovery = ''Scheduled Discovery''"
| "feature_name DaemonPoll = ''DaemonPoll Mode''"
| "feature_name ServiceDefinitions = ''200+ Service Definitions''"
| "feature_name DockerIntegration = ''Docker Integration''"
| "feature_name SnmpIntegration = ''SNMP Integration''"
| "feature_name RealTimeUpdates = ''Real-time Updates''"

primrec feature_category :: "Feature \<Rightarrow> string" where
  "feature_category ShareViews = ''Sharing''"
| "feature_category OnboardingCall = ''Support''"
| "feature_category AuditLogs = ''Enterprise''"
| "feature_category Webhooks = ''Integrations''"
| "feature_category RemoveCreatedWith = ''Sharing''"
| "feature_category ApiAccess = ''Integrations''"
| "feature_category CustomSso = ''Enterprise''"
| "feature_category ManagedDeployment = ''Enterprise''"
| "feature_category Whitelabeling = ''Enterprise''"
| "feature_category CommunitySupport = ''Support''"
| "feature_category EmailSupport = ''Support''"
| "feature_category LiveChatSupport = ''Support''"
| "feature_category PrioritySupport = ''Support''"
| "feature_category Embeds = ''Sharing''"
| "feature_category ScheduledDiscovery = ''Core''"
| "feature_category DaemonPoll = ''Core''"
| "feature_category ServiceDefinitions = ''Core''"
| "feature_category DockerIntegration = ''Core''"
| "feature_category SnmpIntegration = ''Core''"
| "feature_category RealTimeUpdates = ''Core''"

definition is_coming_soon :: "Feature \<Rightarrow> bool" where
  "is_coming_soon f \<longleftrightarrow> f = Webhooks \<or> f = AuditLogs"

record BillingPlanFeatures =
  bf_share_views :: bool
  bf_remove_created_with :: bool
  bf_audit_logs :: bool
  bf_webhooks :: bool
  bf_api_access :: bool
  bf_onboarding_call :: bool
  bf_custom_sso :: bool
  bf_managed_deployment :: bool
  bf_whitelabeling :: bool
  bf_live_chat_support :: bool
  bf_embeds :: bool
  bf_email_support :: bool
  bf_community_support :: bool
  bf_priority_support :: bool
  bf_scheduled_discovery :: bool
  bf_daemon_poll :: bool
  bf_service_definitions :: bool
  bf_docker_integration :: bool
  bf_real_time_updates :: bool
  bf_snmp_integration :: bool

fun plan_features :: "BillingPlan \<Rightarrow> BillingPlanFeatures" where
  "plan_features (CommunityPlan _) =
     \<lparr>bf_share_views = True, bf_remove_created_with = False, bf_audit_logs = False, bf_webhooks = False,
      bf_api_access = True, bf_onboarding_call = False, bf_custom_sso = False, bf_managed_deployment = False,
      bf_whitelabeling = False, bf_live_chat_support = False, bf_embeds = True, bf_email_support = False,
      bf_community_support = True, bf_priority_support = False, bf_scheduled_discovery = True, bf_daemon_poll = True,
      bf_service_definitions = True, bf_docker_integration = True, bf_real_time_updates = True, bf_snmp_integration = True\<rparr>"
| "plan_features (FreePlan _) =
     \<lparr>bf_share_views = False, bf_remove_created_with = False, bf_audit_logs = False, bf_webhooks = False,
      bf_api_access = False, bf_onboarding_call = False, bf_custom_sso = False, bf_managed_deployment = False,
      bf_whitelabeling = False, bf_live_chat_support = False, bf_embeds = False, bf_email_support = False,
      bf_community_support = True, bf_priority_support = False, bf_scheduled_discovery = False, bf_daemon_poll = False,
      bf_service_definitions = True, bf_docker_integration = True, bf_real_time_updates = True, bf_snmp_integration = True\<rparr>"
| "plan_features (StarterPlan _) =
     \<lparr>bf_share_views = True, bf_remove_created_with = True, bf_audit_logs = False, bf_webhooks = False,
      bf_api_access = False, bf_onboarding_call = False, bf_custom_sso = False, bf_managed_deployment = False,
      bf_whitelabeling = False, bf_live_chat_support = False, bf_embeds = False, bf_email_support = True,
      bf_community_support = True, bf_priority_support = False, bf_scheduled_discovery = True, bf_daemon_poll = True,
      bf_service_definitions = True, bf_docker_integration = True, bf_real_time_updates = True, bf_snmp_integration = True\<rparr>"
| "plan_features (ProPlan _) =
     \<lparr>bf_share_views = True, bf_remove_created_with = True, bf_audit_logs = False, bf_webhooks = False,
      bf_api_access = True, bf_onboarding_call = False, bf_custom_sso = False, bf_managed_deployment = False,
      bf_whitelabeling = False, bf_live_chat_support = False, bf_embeds = True, bf_email_support = True,
      bf_community_support = True, bf_priority_support = False, bf_scheduled_discovery = True, bf_daemon_poll = True,
      bf_service_definitions = True, bf_docker_integration = True, bf_real_time_updates = True, bf_snmp_integration = True\<rparr>"
| "plan_features (TeamPlan _) =
     \<lparr>bf_share_views = True, bf_remove_created_with = True, bf_audit_logs = False, bf_webhooks = False,
      bf_api_access = True, bf_onboarding_call = True, bf_custom_sso = False, bf_managed_deployment = False,
      bf_whitelabeling = False, bf_live_chat_support = False, bf_embeds = True, bf_email_support = True,
      bf_community_support = True, bf_priority_support = True, bf_scheduled_discovery = True, bf_daemon_poll = True,
      bf_service_definitions = True, bf_docker_integration = True, bf_real_time_updates = True, bf_snmp_integration = True\<rparr>"
| "plan_features (BusinessPlan _) =
     \<lparr>bf_share_views = True, bf_remove_created_with = True, bf_audit_logs = True, bf_webhooks = True,
      bf_api_access = True, bf_onboarding_call = True, bf_custom_sso = False, bf_managed_deployment = False,
      bf_whitelabeling = False, bf_live_chat_support = False, bf_embeds = True, bf_email_support = True,
      bf_community_support = True, bf_priority_support = True, bf_scheduled_discovery = True, bf_daemon_poll = True,
      bf_service_definitions = True, bf_docker_integration = True, bf_real_time_updates = True, bf_snmp_integration = True\<rparr>"
| "plan_features (EnterprisePlan _) =
     \<lparr>bf_share_views = True, bf_remove_created_with = True, bf_audit_logs = True, bf_webhooks = True,
      bf_api_access = True, bf_onboarding_call = True, bf_custom_sso = True, bf_managed_deployment = True,
      bf_whitelabeling = True, bf_live_chat_support = True, bf_embeds = True, bf_email_support = True,
      bf_community_support = True, bf_priority_support = True, bf_scheduled_discovery = True, bf_daemon_poll = True,
      bf_service_definitions = True, bf_docker_integration = True, bf_real_time_updates = True, bf_snmp_integration = True\<rparr>"
| "plan_features (DemoPlan _) =
     \<lparr>bf_share_views = True, bf_remove_created_with = True, bf_audit_logs = True, bf_webhooks = True,
      bf_api_access = True, bf_onboarding_call = True, bf_custom_sso = True, bf_managed_deployment = True,
      bf_whitelabeling = True, bf_live_chat_support = True, bf_embeds = True, bf_email_support = True,
      bf_community_support = True, bf_priority_support = True, bf_scheduled_discovery = True, bf_daemon_poll = True,
      bf_service_definitions = True, bf_docker_integration = True, bf_real_time_updates = True, bf_snmp_integration = True\<rparr>"
| "plan_features (CommercialSelfHosted _) =
     \<lparr>bf_share_views = True, bf_remove_created_with = True, bf_audit_logs = True, bf_webhooks = True,
      bf_api_access = True, bf_onboarding_call = True, bf_custom_sso = True, bf_managed_deployment = False,
      bf_whitelabeling = False, bf_live_chat_support = False, bf_embeds = True, bf_email_support = True,
      bf_community_support = True, bf_priority_support = True, bf_scheduled_discovery = True, bf_daemon_poll = True,
      bf_service_definitions = True, bf_docker_integration = True, bf_real_time_updates = True, bf_snmp_integration = True\<rparr>"

definition feature_list :: "BillingPlanFeatures \<Rightarrow> Feature list" where
  "feature_list b =
     (if bf_share_views b then [ShareViews] else []) @
     (if bf_custom_sso b then [CustomSso] else []) @
     (if bf_api_access b then [ApiAccess] else []) @
     (if bf_managed_deployment b then [ManagedDeployment] else []) @
     (if bf_embeds b then [Embeds] else []) @
     (if bf_whitelabeling b then [Whitelabeling] else []) @
     (if bf_live_chat_support b then [LiveChatSupport] else []) @
     (if bf_priority_support b then [PrioritySupport] else []) @
     (if bf_community_support b then [CommunitySupport] else []) @
     (if bf_email_support b then [EmailSupport] else []) @
     (if bf_onboarding_call b then [OnboardingCall] else []) @
     (if bf_webhooks b then [Webhooks] else []) @
     (if bf_audit_logs b then [AuditLogs] else []) @
     (if bf_remove_created_with b then [RemoveCreatedWith] else []) @
     (if bf_scheduled_discovery b then [ScheduledDiscovery] else []) @
     (if bf_daemon_poll b then [DaemonPoll] else []) @
     (if bf_service_definitions b then [ServiceDefinitions] else []) @
     (if bf_docker_integration b then [DockerIntegration] else []) @
     (if bf_real_time_updates b then [RealTimeUpdates] else []) @
     (if bf_snmp_integration b then [SnmpIntegration] else [])"

text \<open>Which field of a plan's features a feature stands for.\<close>

primrec feature_field :: "Feature \<Rightarrow> BillingPlanFeatures \<Rightarrow> bool" where
  "feature_field ShareViews = bf_share_views"
| "feature_field OnboardingCall = bf_onboarding_call"
| "feature_field AuditLogs = bf_audit_logs"
| "feature_field Webhooks = bf_webhooks"
| "feature_field RemoveCreatedWith = bf_remove_created_with"
| "feature_field ApiAccess = bf_api_access"
| "feature_field CustomSso = bf_custom_sso"
| "feature_field ManagedDeployment = bf_managed_deployment"
| "feature_field Whitelabeling = bf_whitelabeling"
| "feature_field CommunitySupport = bf_community_support"
| "feature_field EmailSupport = bf_email_support"
| "feature_field LiveChatSupport = bf_live_chat_support"
| "feature_field PrioritySupport = bf_priority_support"
| "feature_field Embeds = bf_embeds"
| "feature_field ScheduledDiscovery = bf_scheduled_discovery"
| "feature_field DaemonPoll = bf_daemon_poll"
| "feature_field ServiceDefinitions = bf_service_definitions"
| "feature_field DockerIntegration = bf_docker_integration"
| "feature_field SnmpIntegration = bf_snmp_integration"
| "feature_field RealTimeUpdates = bf_real_time_updates"

lemma feature_list_iff: "f \<in> set (feature_list b) \<longleftrightarrow> feature_field f b"
  by (cases f) (auto simp: feature_list_def)

end
