(* ===== verification/Accounts.thy ===== *)
theory Accounts
  imports Billing_Plans Api_Errors Storage_Filter Inventory_Crud
begin

text \<open>
  The entities of the accounts: users (\<open>server/users/impl/base.rs\<close>), organizations
  (\<open>server/organizations/impl\<close>), invites (\<open>server/invites/impl/base.rs\<close>) and the API keys of users
  and daemons (\<open>server/user_api_keys/impl\<close>, \<open>server/daemon_api_keys/impl\<close>), with what storing and
  reading back keeps of each. Then the state behind them: the tables with their junction tables,
  the in-memory tables of the authentication service, the published events and the mails sent;
  and the generic service operations (\<open>server/shared/services/traits.rs\<close>) over these tables.
  Hashing, random strings, the mail provider and the answers of the database are parameters. The
  tags of a key are checked by the tag service (theory \<open>Inventory_Crud\<close>); here its verdict is a
  parameter.
\<close>

section \<open>Entities\<close>

record UserBase =
  ub_email :: string
  ub_organization_id :: uuid
  ub_permissions :: UserOrgPermissions
  ub_password_hash :: "string option"
  ub_has_password :: bool
  ub_oidc_provider :: "string option"
  ub_oidc_subject :: "string option"
  ub_oidc_linked_at :: "timestamp option"
  ub_network_ids :: "uuid list"
  ub_terms_accepted_at :: "timestamp option"
  ub_email_verified :: bool
  ub_email_verification_token :: "string option"
  ub_email_verification_expires :: "timestamp option"
  ub_password_reset_token :: "string option"
  ub_password_reset_expires :: "timestamp option"
  ub_pending_email :: "string option"

record User =
  us_id :: uuid
  us_created_at :: timestamp
  us_updated_at :: timestamp
  us_base :: UserBase

definition user_base_oidc ::
    "timestamp \<Rightarrow> string \<Rightarrow> string \<Rightarrow> string option \<Rightarrow> uuid \<Rightarrow> UserOrgPermissions \<Rightarrow> uuid list \<Rightarrow> timestamp option \<Rightarrow> UserBase" where
  "user_base_oidc now email subject provider org permissions networks terms =
     \<lparr>ub_email = email, ub_organization_id = org, ub_permissions = permissions, ub_password_hash = None,
      ub_has_password = False, ub_oidc_provider = provider, ub_oidc_subject = Some subject,
      ub_oidc_linked_at = Some now, ub_network_ids = networks, ub_terms_accepted_at = terms,
      ub_email_verified = True, ub_email_verification_token = None, ub_email_verification_expires = None,
      ub_password_reset_token = None, ub_password_reset_expires = None, ub_pending_email = None\<rparr>"

definition user_base_password ::
    "string \<Rightarrow> string \<Rightarrow> uuid \<Rightarrow> UserOrgPermissions \<Rightarrow> uuid list \<Rightarrow> timestamp option \<Rightarrow> UserBase" where
  "user_base_password email hash org permissions networks terms =
     \<lparr>ub_email = email, ub_organization_id = org, ub_permissions = permissions, ub_password_hash = Some hash,
      ub_has_password = True, ub_oidc_provider = None, ub_oidc_subject = None, ub_oidc_linked_at = None,
      ub_network_ids = networks, ub_terms_accepted_at = terms, ub_email_verified = False,
      ub_email_verification_token = None, ub_email_verification_expires = None,
      ub_password_reset_token = None, ub_password_reset_expires = None, ub_pending_email = None\<rparr>"

definition on_user :: "(UserBase \<Rightarrow> UserBase) \<Rightarrow> User \<Rightarrow> User" where
  "on_user f u = u\<lparr>us_base := f (us_base u)\<rparr>"

definition user_new :: "uuid \<Rightarrow> timestamp \<Rightarrow> UserBase \<Rightarrow> User" where
  "user_new fresh now b = \<lparr>us_id = fresh, us_created_at = now, us_updated_at = now, us_base = b\<rparr>"

definition set_password :: "timestamp \<Rightarrow> string \<Rightarrow> User \<Rightarrow> User" where
  "set_password now hash u =
     (on_user (\<lambda>b. b\<lparr>ub_password_hash := Some hash, ub_has_password := True\<rparr>) u)\<lparr>us_updated_at := now\<rparr>"

definition user_row :: "User \<Rightarrow> User" where
  \<comment> \<open>what is read back of a stored user: the networks live in the junction table, and
     \<open>has_password\<close> is computed\<close>
  "user_row = on_user (\<lambda>b. b\<lparr>ub_network_ids := [], ub_has_password := (ub_password_hash b \<noteq> None)\<rparr>)"

definition user_display :: "User \<Rightarrow> string" where
  "user_display u = ub_email (us_base u) @ '': '' @ uuid_display (us_id u)"

definition user_preserve_immutable :: "User \<Rightarrow> User \<Rightarrow> User" where
  "user_preserve_immutable existing =
     on_user (\<lambda>b. b\<lparr>ub_terms_accepted_at := ub_terms_accepted_at (us_base existing)\<rparr>)"

definition entity_of_user :: "User \<Rightarrow> AuthenticatedEntity" where
  \<comment> \<open>\<open>From<User>\<close>: without networks\<close>
  "entity_of_user u =
     AuthUser (us_id u) (ub_organization_id (us_base u)) (ub_permissions (us_base u)) []
       (ub_email (us_base u)) (ub_email_verified (us_base u))"

datatype LimitNotificationLevel = LimitNone | Approaching | Reached

record PlanLimitNotifications =
  ln_hosts :: LimitNotificationLevel
  ln_networks :: LimitNotificationLevel
  ln_seats :: LimitNotificationLevel

record OrganizationBase =
  ob_stripe_customer_id :: "string option"
  ob_name :: string
  ob_plan :: "BillingPlan option"
  ob_plan_status :: "string option"
  ob_onboarding :: "TelemetryOperation list"
  ob_has_payment_method :: bool
  ob_trial_end_date :: "timestamp option"
  ob_brevo_company_id :: "string option"
  ob_plan_limit_notifications :: PlanLimitNotifications

record Organization =
  og_id :: uuid
  og_created_at :: timestamp
  og_updated_at :: timestamp
  og_base :: OrganizationBase

definition not_onboarded :: "Organization \<Rightarrow> TelemetryOperation \<Rightarrow> bool" where
  "not_onboarded o1 step \<longleftrightarrow> step \<notin> set (ob_onboarding (og_base o1))"

definition has_onboarded :: "Organization \<Rightarrow> TelemetryOperation \<Rightarrow> bool" where
  "has_onboarded o1 step \<longleftrightarrow> step \<in> set (ob_onboarding (og_base o1))"

definition organization_preserve_immutable :: "Organization \<Rightarrow> Organization \<Rightarrow> Organization" where
  "organization_preserve_immutable existing o1 =
     (let x = og_base existing in
      o1\<lparr>og_base := (og_base o1)\<lparr>ob_stripe_customer_id := ob_stripe_customer_id x, ob_plan := ob_plan x,
           ob_plan_status := ob_plan_status x, ob_onboarding := ob_onboarding x,
           ob_brevo_company_id := ob_brevo_company_id x\<rparr>\<rparr>)"

datatype ApiKeyType = DaemonKey | UserKey

record UserApiKeyBase =
  uk_key :: string
  uk_name :: string
  uk_user_id :: uuid
  uk_organization_id :: uuid
  uk_permissions :: UserOrgPermissions
  uk_last_used :: "timestamp option"
  uk_expires_at :: "timestamp option"
  uk_is_enabled :: bool
  uk_tags :: "uuid list"
  uk_network_ids :: "uuid list"

record UserApiKey =
  ua_id :: uuid
  ua_created_at :: timestamp
  ua_updated_at :: timestamp
  ua_base :: UserApiKeyBase

definition on_user_key :: "(UserApiKeyBase \<Rightarrow> UserApiKeyBase) \<Rightarrow> UserApiKey \<Rightarrow> UserApiKey" where
  "on_user_key f k = k\<lparr>ua_base := f (ua_base k)\<rparr>"

definition user_key_row :: "UserApiKey \<Rightarrow> UserApiKey" where
  "user_key_row = on_user_key (\<lambda>b. b\<lparr>uk_tags := [], uk_network_ids := []\<rparr>)"

definition user_key_suppress_logs :: "UserApiKey \<Rightarrow> UserApiKey \<Rightarrow> bool" where
  "user_key_suppress_logs a b \<longleftrightarrow>
     uk_key (ua_base a) = uk_key (ua_base b) \<and> uk_name (ua_base a) = uk_name (ua_base b) \<and>
     uk_expires_at (ua_base a) = uk_expires_at (ua_base b) \<and> uk_is_enabled (ua_base a) = uk_is_enabled (ua_base b) \<and>
     uk_permissions (ua_base a) = uk_permissions (ua_base b) \<and> uk_network_ids (ua_base a) = uk_network_ids (ua_base b)"

definition user_key_display :: "UserApiKey \<Rightarrow> string" where
  "user_key_display k = uk_name (ua_base k) @ '': '' @ uuid_display (ua_id k)"

definition user_key_preserve_immutable :: "UserApiKey \<Rightarrow> UserApiKey \<Rightarrow> UserApiKey" where
  "user_key_preserve_immutable existing k =
     (let x = ua_base existing in
      k\<lparr>ua_id := ua_id existing, ua_created_at := ua_created_at existing,
        ua_base := (ua_base k)\<lparr>uk_key := uk_key x, uk_last_used := uk_last_used x, uk_user_id := uk_user_id x,
          uk_organization_id := uk_organization_id x\<rparr>\<rparr>)"

record DaemonApiKeyBase =
  dk_key :: string
  dk_name :: string
  dk_last_used :: "timestamp option"
  dk_expires_at :: "timestamp option"
  dk_network_id :: uuid
  dk_is_enabled :: bool
  dk_tags :: "uuid list"
  dk_plaintext :: "string option"

record DaemonApiKey =
  da_id :: uuid
  da_created_at :: timestamp
  da_updated_at :: timestamp
  da_base :: DaemonApiKeyBase

definition on_daemon_key :: "(DaemonApiKeyBase \<Rightarrow> DaemonApiKeyBase) \<Rightarrow> DaemonApiKey \<Rightarrow> DaemonApiKey" where
  "on_daemon_key f k = k\<lparr>da_base := f (da_base k)\<rparr>"

definition daemon_key_row :: "DaemonApiKey \<Rightarrow> DaemonApiKey" where
  "daemon_key_row = on_daemon_key (\<lambda>b. b\<lparr>dk_tags := []\<rparr>)"

definition daemon_key_base_eq :: "DaemonApiKeyBase \<Rightarrow> DaemonApiKeyBase \<Rightarrow> bool" where
  \<comment> \<open>the plaintext is not compared\<close>
  "daemon_key_base_eq a b \<longleftrightarrow> a\<lparr>dk_plaintext := None\<rparr> = b\<lparr>dk_plaintext := None\<rparr>"

definition daemon_key_suppress_logs :: "DaemonApiKey \<Rightarrow> DaemonApiKey \<Rightarrow> bool" where
  "daemon_key_suppress_logs a b \<longleftrightarrow>
     dk_key (da_base a) = dk_key (da_base b) \<and> dk_name (da_base a) = dk_name (da_base b) \<and>
     dk_expires_at (da_base a) = dk_expires_at (da_base b) \<and> dk_network_id (da_base a) = dk_network_id (da_base b) \<and>
     dk_is_enabled (da_base a) = dk_is_enabled (da_base b)"

definition daemon_key_display :: "DaemonApiKey \<Rightarrow> string" where
  "daemon_key_display k = dk_name (da_base k) @ '': '' @ uuid_display (da_id k)"

definition daemon_key_preserve_immutable :: "DaemonApiKey \<Rightarrow> DaemonApiKey \<Rightarrow> DaemonApiKey" where
  "daemon_key_preserve_immutable existing =
     on_daemon_key (\<lambda>b. b\<lparr>dk_key := dk_key (da_base existing), dk_last_used := dk_last_used (da_base existing)\<rparr>)"

record InviteBase =
  ib_organization_id :: uuid
  ib_permissions :: UserOrgPermissions
  ib_network_ids :: "uuid list"
  ib_url :: string
  ib_created_by :: uuid
  ib_expires_at :: timestamp
  ib_send_to :: "string option"

record Invite =
  iv_id :: uuid
  iv_created_at :: timestamp
  iv_updated_at :: timestamp
  iv_base :: InviteBase

definition invite_with_expiration ::
    "uuid \<Rightarrow> timestamp \<Rightarrow> uuid \<Rightarrow> string \<Rightarrow> uuid \<Rightarrow> int \<Rightarrow> UserOrgPermissions \<Rightarrow> uuid list \<Rightarrow> string option \<Rightarrow> Invite" where
  \<comment> \<open>the hours are turned into nanoseconds; an overflow of the duration panics in the source\<close>
  "invite_with_expiration fresh now org url created_by hours permissions networks send_to =
     \<lparr>iv_id = fresh, iv_created_at = now, iv_updated_at = now,
      iv_base = \<lparr>ib_organization_id = org, ib_permissions = permissions, ib_network_ids = networks, ib_url = url,
        ib_created_by = created_by, ib_expires_at = now + hours * 3600000000000, ib_send_to = send_to\<rparr>\<rparr>"

definition invite_is_valid :: "timestamp \<Rightarrow> Invite \<Rightarrow> bool" where
  "invite_is_valid now i \<longleftrightarrow> now < ib_expires_at (iv_base i)"

definition invite_display :: "Invite \<Rightarrow> string" where
  "invite_display i = ''Invite '' @ uuid_display (iv_id i)"

section \<open>Web sessions\<close>

text \<open>What the login pages keep of a visitor (\<open>server/auth/impl/base.rs\<close> and the keys of the handlers).\<close>

record PendingNetworkSetup =
  pn_name :: string
  pn_network_id :: uuid
  pn_snmp_enabled :: bool
  pn_snmp_version :: "string option"
  pn_snmp_community :: "string option"

record PendingSetup =
  ps_org_name :: string
  ps_network :: PendingNetworkSetup
  ps_use_case :: "string option"
  ps_company_size :: "string option"
  ps_job_title :: "string option"
  ps_referral_source :: "string option"
  ps_referral_source_other :: "string option"

record WebSession =
  ws_user_id :: "uuid option"
  ws_pending_org_invite :: "uuid option"
  ws_pending_invite_id :: "uuid option"
  ws_pending_invite_permissions :: "UserOrgPermissions option"
  ws_pending_network_ids :: "uuid list option"
  ws_pending_setup :: "PendingSetup option"
  ws_onboarding_step :: "string option"
  ws_onboarding_use_case :: "string option"
  ws_onboarding_job_title :: "string option"
  ws_onboarding_company_size :: "string option"
  ws_onboarding_referral_source :: "string option"
  ws_onboarding_referral_source_other :: "string option"

definition empty_session :: WebSession where
  "empty_session =
     \<lparr>ws_user_id = None, ws_pending_org_invite = None, ws_pending_invite_id = None,
      ws_pending_invite_permissions = None, ws_pending_network_ids = None, ws_pending_setup = None,
      ws_onboarding_step = None, ws_onboarding_use_case = None, ws_onboarding_job_title = None,
      ws_onboarding_company_size = None, ws_onboarding_referral_source = None,
      ws_onboarding_referral_source_other = None\<rparr>"

section \<open>State\<close>

datatype AccountEntity =
    AE_User User | AE_Organization Organization | AE_UserKey UserApiKey | AE_DaemonKey DaemonApiKey | AE_Invite Invite

datatype Mail =
    VerificationMail string string string \<comment> \<open>address, public URL, token\<close>
  | PasswordResetMail string string string
  | PasswordChangedMail string
  | EmailChangedMail string string
  | OidcLinkedMail string string
  | OidcUnlinkedMail string string
  | InviteMail string string string \<comment> \<open>to, from, link\<close>

text \<open>Tasks spawned with \<open>tokio::spawn\<close>: they run later, with the entity they captured.\<close>

datatype AccountJob = UpdateUserKeyJob UserApiKey | UpdateDaemonKeyJob DaemonApiKey

record DaemonRow =
  dr_name :: string
  dr_api_key_id :: "uuid option"

record Accounts =
  ac_users :: "(uuid, User) HashMap"
  ac_user_networks :: "(uuid \<times> uuid) list" \<comment> \<open>rows (user, network)\<close>
  ac_organizations :: "(uuid, Organization) HashMap"
  ac_networks :: "(uuid, uuid) HashMap" \<comment> \<open>the organization of each network\<close>
  ac_user_keys :: "(uuid, UserApiKey) HashMap"
  ac_key_networks :: "(uuid \<times> uuid) list" \<comment> \<open>rows (key, network)\<close>
  ac_daemon_keys :: "(uuid, DaemonApiKey) HashMap"
  ac_daemons :: "(uuid, DaemonRow) HashMap"
  ac_invites :: "(uuid, Invite) HashMap"
  ac_entity_tags :: "(uuid \<times> EntityDiscriminants, uuid list) HashMap"
  ac_login_attempts :: "(string, nat \<times> nat) HashMap" \<comment> \<open>failures and the second of the last one\<close>
  ac_resend_cooldown :: "(string, nat) HashMap"
  ac_sessions :: "(string, WebSession) HashMap" \<comment> \<open>by the id in the cookie\<close>
  ac_events :: "AccountEntity Event list"
  ac_mails :: "Mail list"
  ac_jobs :: "AccountJob list" \<comment> \<open>spawned tasks that have not run yet\<close>
  ac_ops :: nat

record AccEnv =
  an_now :: timestamp
  an_instant :: nat \<comment> \<open>the monotonic clock, in seconds\<close>
  an_fresh :: "nat \<Rightarrow> uuid"
  an_random :: "nat \<Rightarrow> string" \<comment> \<open>32 base62 characters\<close>
  an_refuse :: "nat \<Rightarrow> string option" \<comment> \<open>the n-th statement fails\<close>
  an_tags_refused :: "uuid list \<Rightarrow> uuid \<Rightarrow> string option"
  an_hash_password :: "nat \<Rightarrow> string \<Rightarrow> string" \<comment> \<open>with the n-th salt\<close>
  an_hash_error :: "nat \<Rightarrow> string \<Rightarrow> string option" \<comment> \<open>why Argon2 refuses the password, if it does\<close>
  an_verify_password :: "string \<Rightarrow> string \<Rightarrow> bool"
  an_hash_unreadable :: "string \<Rightarrow> string option" \<comment> \<open>why a stored hash is not one, if it is not\<close>
  an_sha256 :: "string \<Rightarrow> string"
  an_email_service :: bool
  an_mail_fails :: "Mail \<Rightarrow> string option"
  an_public_url :: string
  an_commercial :: bool
  an_session_fails :: "nat \<Rightarrow> string option" \<comment> \<open>the session store\<close>

section \<open>Calls that may fail\<close>

type_synonym ('e, 'a) acc = "AccEnv \<Rightarrow> Accounts \<Rightarrow> ('e + 'a) \<times> Accounts"

definition acc_ok :: "'a \<Rightarrow> ('e, 'a) acc" where
  "acc_ok x = (\<lambda>env st. (Inr x, st))"

definition acc_err :: "'e \<Rightarrow> ('e, 'a) acc" where
  "acc_err e = (\<lambda>env st. (Inl e, st))"

definition acc_bind :: "('e, 'a) acc \<Rightarrow> ('a \<Rightarrow> ('e, 'b) acc) \<Rightarrow> ('e, 'b) acc" where
  "acc_bind m f = (\<lambda>env st. case m env st of (Inl e, st1) \<Rightarrow> (Inl e, st1) | (Inr x, st1) \<Rightarrow> f x env st1)"

definition acc_try :: "('e, 'a) acc \<Rightarrow> ('f, 'e + 'a) acc" where
  \<comment> \<open>the caller looks at the result itself\<close>
  "acc_try m = (\<lambda>env st. case m env st of (r, st1) \<Rightarrow> (Inr r, st1))"

definition acc_map_err :: "('e \<Rightarrow> 'f) \<Rightarrow> ('e, 'a) acc \<Rightarrow> ('f, 'a) acc" where
  "acc_map_err g m = (\<lambda>env st. case m env st of (Inl e, st1) \<Rightarrow> (Inl (g e), st1) | (Inr x, st1) \<Rightarrow> (Inr x, st1))"

definition acc_lift :: "'e + 'a \<Rightarrow> ('e, 'a) acc" where
  "acc_lift r = (\<lambda>env st. (r, st))"

definition acc_env :: "(AccEnv \<Rightarrow> 'a) \<Rightarrow> ('e, 'a) acc" where
  "acc_env f = (\<lambda>env st. (Inr (f env), st))"

definition acc_fresh :: "('e, uuid) acc" where
  "acc_fresh = (\<lambda>env st. (Inr (an_fresh env (ac_ops st)), st\<lparr>ac_ops := Suc (ac_ops st)\<rparr>))"

definition acc_get :: "(Accounts \<Rightarrow> 'a) \<Rightarrow> ('e, 'a) acc" where
  \<comment> \<open>memory of the process\<close>
  "acc_get f = (\<lambda>env st. (Inr (f st), st))"

definition acc_put :: "(Accounts \<Rightarrow> Accounts) \<Rightarrow> ('e, unit) acc" where
  "acc_put g = (\<lambda>env st. (Inr (), g st))"

definition acc_when :: "bool \<Rightarrow> ('e, unit) acc \<Rightarrow> ('e, unit) acc" where
  "acc_when b m = (if b then m else acc_ok ())"

fun acc_each :: "('x \<Rightarrow> ('e, unit) acc) \<Rightarrow> 'x list \<Rightarrow> ('e, unit) acc" where
  "acc_each f [] = acc_ok ()"
| "acc_each f (x # xs) = acc_bind (f x) (\<lambda>_. acc_each f xs)"

fun acc_map :: "('x \<Rightarrow> ('e, 'a) acc) \<Rightarrow> 'x list \<Rightarrow> ('e, 'a list) acc" where
  "acc_map f [] = acc_ok []"
| "acc_map f (x # xs) = acc_bind (f x) (\<lambda>y. acc_bind (acc_map f xs) (\<lambda>ys. acc_ok (y # ys)))"

text \<open>A statement of the database: it may be refused, and an error leaves the tables alone.\<close>

definition acc_statement :: "(Accounts \<Rightarrow> AnyError + 'a \<times> Accounts) \<Rightarrow> (AnyError, 'a) acc" where
  "acc_statement q = (\<lambda>env st.
     let st1 = st\<lparr>ac_ops := Suc (ac_ops st)\<rparr> in
     case an_refuse env (ac_ops st) of
       Some e \<Rightarrow> (Inl (OtherErr e), st1)
     | None \<Rightarrow> (case q st1 of Inl e \<Rightarrow> (Inl e, st1) | Inr (x, st2) \<Rightarrow> (Inr x, st2)))"

definition acc_query :: "(Accounts \<Rightarrow> 'a) \<Rightarrow> (AnyError, 'a) acc" where
  "acc_query f = acc_statement (\<lambda>st. Inr (f st, st))"

definition acc_execute :: "(Accounts \<Rightarrow> Accounts) \<Rightarrow> (AnyError, unit) acc" where
  "acc_execute g = acc_statement (\<lambda>st. Inr ((), g st))"

definition acc_publish :: "(AccEnv \<Rightarrow> uuid \<Rightarrow> AccountEntity Event) \<Rightarrow> ('e, unit) acc" where
  \<comment> \<open>the bus draws the event's id and does not fail\<close>
  "acc_publish mk = acc_bind acc_fresh (\<lambda>f env st. (Inr (), st\<lparr>ac_events := ac_events st @ [mk env f]\<rparr>))"

definition publish_auth ::
    "AuthOperation \<Rightarrow> uuid option \<Rightarrow> uuid option \<Rightarrow> IpAddr \<Rightarrow> string option \<Rightarrow> Json \<Rightarrow> AuthenticatedEntity \<Rightarrow> ('e, unit) acc" where
  "publish_auth oper user org ip agent meta auth =
     acc_publish (\<lambda>env f. AuthEv \<lparr>ae_id = f, ae_user_id = user, ae_organization_id = org, ae_operation = oper,
       ae_timestamp = an_now env, ae_ip_address = ip, ae_user_agent = agent, ae_metadata = meta, ae_authentication = auth\<rparr>)"

definition publish_telemetry :: "TelemetryOperation \<Rightarrow> uuid \<Rightarrow> Json \<Rightarrow> AuthenticatedEntity \<Rightarrow> ('e, unit) acc" where
  "publish_telemetry oper org meta auth =
     acc_publish (\<lambda>env f. TelemetryEv \<lparr>te_id = f, te_organization_id = org, te_operation = oper,
       te_timestamp = an_now env, te_authentication = auth, te_metadata = meta\<rparr>)"

definition send_mail :: "Mail \<Rightarrow> (AnyError, unit) acc" where
  "send_mail m = (\<lambda>env st.
     case an_mail_fails env m of
       Some e \<Rightarrow> (Inl (OtherErr e), st)
     | None \<Rightarrow> (Inr (), st\<lparr>ac_mails := ac_mails st @ [m]\<rparr>))"

definition send_mail_if_configured :: "Mail \<Rightarrow> ('e, unit) acc" where
  \<comment> \<open>a notification: a failure is logged\<close>
  "send_mail_if_configured m = (\<lambda>env st. if an_email_service env then (Inr (), snd (send_mail m env st)) else (Inr (), st))"

text \<open>The session of the visitor. A visitor without one gets an empty one.\<close>

definition session_of :: "string \<Rightarrow> Accounts \<Rightarrow> WebSession" where
  "session_of sid st = (case hget (ac_sessions st) sid of Some w \<Rightarrow> w | None \<Rightarrow> empty_session)"

definition session_get :: "string \<Rightarrow> (WebSession \<Rightarrow> 'v option) \<Rightarrow> (string, 'v option) acc" where
  "session_get sid f = (\<lambda>env st.
     let st1 = st\<lparr>ac_ops := Suc (ac_ops st)\<rparr> in
     case an_session_fails env (ac_ops st) of Some e \<Rightarrow> (Inl e, st1) | None \<Rightarrow> (Inr (f (session_of sid st)), st1))"

definition session_put :: "string \<Rightarrow> (WebSession \<Rightarrow> WebSession) \<Rightarrow> (string, unit) acc" where
  "session_put sid g = (\<lambda>env st.
     let st1 = st\<lparr>ac_ops := Suc (ac_ops st)\<rparr> in
     case an_session_fails env (ac_ops st) of
       Some e \<Rightarrow> (Inl e, st1)
     | None \<Rightarrow> (Inr (), st1\<lparr>ac_sessions := hinsert sid (g (session_of sid st)) (ac_sessions st)\<rparr>))"

section \<open>The dictionary of a table\<close>

text \<open>
  \<open>tb_clash\<close> names the unique key two rows have in common, \<open>tb_refs\<close> are the foreign keys,
  \<open>tb_drop\<close> deletes rows with what refers to them.
\<close>

record 'e Table =
  tb_rows :: "Accounts \<Rightarrow> (uuid, 'e) HashMap"
  tb_put :: "'e \<Rightarrow> Accounts \<Rightarrow> Accounts"
  tb_drop :: "uuid list \<Rightarrow> Accounts \<Rightarrow> Accounts"
  tb_id :: "'e \<Rightarrow> uuid"
  tb_new :: "uuid \<Rightarrow> timestamp \<Rightarrow> 'e \<Rightarrow> 'e"
  tb_created_at :: "'e \<Rightarrow> timestamp"
  tb_clash :: "'e \<Rightarrow> 'e \<Rightarrow> string option"
  tb_primary_key :: string
  tb_refs :: "'e \<Rightarrow> Accounts \<Rightarrow> bool"
  tb_network :: "'e \<Rightarrow> uuid option"
  tb_org :: "'e \<Rightarrow> uuid option"
  tb_entity :: "'e \<Rightarrow> AccountEntity"
  tb_name :: string
  tb_kind :: string \<comment> \<open>\<open>ENTITY_NAME_SINGULAR\<close>\<close>
  tb_text :: "'e \<Rightarrow> string"
  tb_suppress :: "'e option \<Rightarrow> 'e option \<Rightarrow> bool"
  tb_taggable :: "EntityDiscriminants option"
  tb_tags :: "'e \<Rightarrow> uuid list option"
  tb_set_tags :: "uuid list \<Rightarrow> 'e \<Rightarrow> 'e"

definition db_violation :: AnyError where
  "db_violation = OtherErr ''error returned from database: constraint violated''"

definition first_clash :: "'e Table \<Rightarrow> 'e \<Rightarrow> Accounts \<Rightarrow> string option" where
  "first_clash T e st =
     (case List.find (\<lambda>r. tb_id T r \<noteq> tb_id T e \<and> tb_clash T e r \<noteq> None) (hvalues (tb_rows T st)) of
        Some r \<Rightarrow> tb_clash T e r
      | None \<Rightarrow> None)"

definition row_insert :: "'e Table \<Rightarrow> 'e \<Rightarrow> (AnyError, unit) acc" where
  \<comment> \<open>a violated unique constraint of an INSERT is explained to the user\<close>
  "row_insert T e =
     acc_statement (\<lambda>st.
       if hget (tb_rows T st) (tb_id T e) \<noteq> None
       then Inl (ValidationErr (friendly_unique_violation_message (tb_primary_key T)))
       else (case first_clash T e st of
               Some c \<Rightarrow> Inl (ValidationErr (friendly_unique_violation_message c))
             | None \<Rightarrow> if \<not> tb_refs T e st then Inl db_violation else Inr ((), tb_put T e st)))"

definition row_update :: "'e Table \<Rightarrow> 'e \<Rightarrow> (AnyError, unit) acc" where
  "row_update T e =
     acc_statement (\<lambda>st.
       if hget (tb_rows T st) (tb_id T e) = None then Inr ((), st)
       else if first_clash T e st \<noteq> None \<or> \<not> tb_refs T e st then Inl db_violation
       else Inr ((), tb_put T e st))"

definition select_rows :: "'e Table \<Rightarrow> ('e \<Rightarrow> bool) \<Rightarrow> Accounts \<Rightarrow> 'e list" where
  "select_rows T sel st = rows_where sel (tb_created_at T) (tb_rows T st)"

section \<open>The generic service\<close>

definition hydrate_tags :: "'e Table \<Rightarrow> 'e \<Rightarrow> (AnyError, 'e) acc" where
  "hydrate_tags T e =
     (case tb_taggable T of
        None \<Rightarrow> acc_ok e
      | Some d \<Rightarrow>
          acc_bind (acc_query (\<lambda>st. case hget (ac_entity_tags st) (tb_id T e, d) of Some ts \<Rightarrow> ts | None \<Rightarrow> []))
            (\<lambda>ts. acc_ok (tb_set_tags T ts e)))"

definition tbl_get_by_id :: "'e Table \<Rightarrow> uuid \<Rightarrow> (AnyError, 'e option) acc" where
  "tbl_get_by_id T i =
     acc_bind (acc_query (\<lambda>st. hget (tb_rows T st) i)) (\<lambda>r.
       case r of None \<Rightarrow> acc_ok None | Some e \<Rightarrow> acc_bind (hydrate_tags T e) (\<lambda>e1. acc_ok (Some e1)))"

definition tbl_get_one :: "'e Table \<Rightarrow> ('e \<Rightarrow> bool) \<Rightarrow> (AnyError, 'e option) acc" where
  \<comment> \<open>\<open>fetch_optional\<close> of a query without an order: the first row\<close>
  "tbl_get_one T sel =
     acc_bind (acc_query (\<lambda>st. List.find sel (hvalues (tb_rows T st)))) (\<lambda>r.
       case r of None \<Rightarrow> acc_ok None | Some e \<Rightarrow> acc_bind (hydrate_tags T e) (\<lambda>e1. acc_ok (Some e1)))"

definition tbl_get_all :: "'e Table \<Rightarrow> ('e \<Rightarrow> bool) \<Rightarrow> (AnyError, 'e list) acc" where
  "tbl_get_all T sel = acc_bind (acc_query (select_rows T sel)) (acc_map (hydrate_tags T))"

definition service_metadata :: "bool \<Rightarrow> Json" where
  \<comment> \<open>none of these entities is part of a topology\<close>
  "service_metadata suppress = JObj [(''trigger_stale'', JBool False), (''suppress_logs'', JBool suppress)]"

definition publish_entity_of :: "'e Table \<Rightarrow> 'e \<Rightarrow> EntityOperation \<Rightarrow> Json \<Rightarrow> AuthenticatedEntity \<Rightarrow> ('f, unit) acc" where
  "publish_entity_of T e oper meta auth =
     acc_publish (\<lambda>env f. EntityEv \<lparr>ee_id = f, ee_entity_type = tb_entity T e, ee_entity_id = tb_id T e,
       ee_network_id = tb_network T e, ee_organization_id = tb_org T e, ee_operation = oper,
       ee_timestamp = an_now env, ee_authentication = auth, ee_metadata = meta\<rparr>)"

text \<open>An empty list of tags is no change: the tags stored before stay.\<close>

definition store_tags :: "'e Table \<Rightarrow> 'e \<Rightarrow> AuthenticatedEntity \<Rightarrow> (AnyError, unit) acc" where
  "store_tags T e auth =
     (case (tb_taggable T, auth_organization_id auth, tb_tags T e) of
        (Some d, Some org, Some ts) \<Rightarrow>
          if ts = [] then acc_ok () else (\<lambda>env st.
          case an_tags_refused env ts org of
            Some m \<Rightarrow> (Inl (ValidationErr m), st)
          | None \<Rightarrow> acc_execute (\<lambda>st. st\<lparr>ac_entity_tags := hinsert (tb_id T e, d) ts (ac_entity_tags st)\<rparr>) env st)
      | _ \<Rightarrow> acc_ok ())"

definition tbl_create :: "'e Table \<Rightarrow> 'e \<Rightarrow> AuthenticatedEntity \<Rightarrow> (AnyError, 'e) acc" where
  "tbl_create T e auth =
     acc_bind acc_fresh (\<lambda>f. acc_bind (acc_env an_now) (\<lambda>now.
       let e1 = (if tb_id T e = uuid_nil then tb_new T f now e else e) in
       acc_bind (row_insert T e1) (\<lambda>_.
       acc_bind (store_tags T e1 auth) (\<lambda>_.
       acc_bind (publish_entity_of T e1 Created (service_metadata (tb_suppress T None (Some e1))) auth) (\<lambda>_.
         acc_ok e1)))))"

definition tbl_update :: "'e Table \<Rightarrow> 'e \<Rightarrow> AuthenticatedEntity \<Rightarrow> (AnyError, 'e) acc" where
  "tbl_update T e auth =
     acc_bind (tbl_get_by_id T (tb_id T e)) (\<lambda>r.
       case r of
         None \<Rightarrow> acc_err (OtherErr (''Could not find '' @ tb_text T e))
       | Some current \<Rightarrow>
           acc_bind (row_update T e) (\<lambda>_.
           acc_bind (store_tags T e auth) (\<lambda>_.
           acc_bind (publish_entity_of T e Updated (service_metadata (tb_suppress T (Some current) (Some e))) auth) (\<lambda>_.
             acc_ok e))))"

definition forget_tags :: "'e Table \<Rightarrow> 'e \<Rightarrow> (AnyError, unit) acc" where
  "forget_tags T e =
     (case tb_taggable T of
        None \<Rightarrow> acc_ok ()
      | Some d \<Rightarrow> acc_execute (\<lambda>st. st\<lparr>ac_entity_tags := hremove (tb_id T e, d) (ac_entity_tags st)\<rparr>))"

definition tbl_delete :: "'e Table \<Rightarrow> uuid \<Rightarrow> AuthenticatedEntity \<Rightarrow> (AnyError, unit) acc" where
  "tbl_delete T i auth =
     acc_bind (tbl_get_by_id T i) (\<lambda>r.
       case r of
         None \<Rightarrow> acc_err (OtherErr (tb_name T @ '' with id '' @ uuid_display i @ '' not found''))
       | Some e \<Rightarrow>
           acc_bind (acc_execute (tb_drop T [i])) (\<lambda>_.
           acc_bind (forget_tags T e) (\<lambda>_.
             publish_entity_of T e Deleted (service_metadata (tb_suppress T (Some e) None)) auth)))"

definition tbl_delete_many :: "'e Table \<Rightarrow> uuid list \<Rightarrow> AuthenticatedEntity \<Rightarrow> (AnyError, nat) acc" where
  "tbl_delete_many T ids auth =
     (if ids = [] then acc_ok 0
      else acc_bind (acc_each (\<lambda>i. acc_bind (tbl_get_by_id T i) (\<lambda>r.
               case r of
                 None \<Rightarrow> acc_ok ()
               | Some e \<Rightarrow> acc_bind (forget_tags T e) (\<lambda>_.
                   publish_entity_of T e Deleted (service_metadata (tb_suppress T (Some e) None)) auth))) ids) (\<lambda>_.
             acc_statement (\<lambda>st.
               Inr (length (filter (\<lambda>k. k \<in> set ids) (hkeys (tb_rows T st))), tb_drop T ids st))))"

end
