(* ===== verification/Permissions.thy ===== *)
theory Permissions
  imports Api_Errors
begin

text \<open>
  The requirements an endpoint puts on its caller (\<open>server/auth/middleware/permissions.rs\<close>). The
  source has one type per requirement and checks them through a trait; here a requirement is a
  value and the trait's functions are defined by recursion over it.
\<close>

datatype ExternalServiceType = AnyService | Prometheus | Grafana

fun required_name :: "ExternalServiceType \<Rightarrow> string option" where
  "required_name AnyService = None"
| "required_name Prometheus = Some ''prometheus''"
| "required_name Grafana = Some ''grafana''"

datatype Requirement =
    RViewer | RMember | RAdmin | ROwner
  | IsUser | IsApiKey | IsDaemon | IsSystem
  | IsExternalService ExternalServiceType
  | ROr Requirement Requirement
  | RAnd Requirement Requirement
  | AllowUnverified Requirement

fun check_level :: "UserOrgPermissions \<Rightarrow> AuthenticatedEntity \<Rightarrow> ApiFailure + unit" where
  \<comment> \<open>users and API keys carry permissions, nobody else passes\<close>
  "check_level lvl (AuthUser _ _ p _ _ _) = (if p \<ge> lvl then Inr () else Inl err_permission_denied)"
| "check_level lvl (AuthApiKey _ _ _ p _) = (if p \<ge> lvl then Inr () else Inl err_permission_denied)"
| "check_level lvl _ = Inl err_permission_denied"

fun check_user :: "AuthenticatedEntity \<Rightarrow> ApiFailure + unit" where
  "check_user (AuthUser _ _ _ _ _ _) = Inr ()"
| "check_user _ = Inl err_user_required"

fun check_api_key :: "AuthenticatedEntity \<Rightarrow> ApiFailure + unit" where
  "check_api_key (AuthApiKey _ _ _ _ _) = Inr ()"
| "check_api_key _ = Inl err_api_key_required"

fun check_daemon :: "AuthenticatedEntity \<Rightarrow> ApiFailure + unit" where
  "check_daemon (AuthDaemon _ _ _) = Inr ()"
| "check_daemon _ = Inl err_daemon_required"

fun check_system :: "AuthenticatedEntity \<Rightarrow> ApiFailure + unit" where
  "check_system AuthSystem = Inr ()"
| "check_system _ = Inl err_permission_denied"

fun check_external :: "ExternalServiceType \<Rightarrow> AuthenticatedEntity \<Rightarrow> ApiFailure + unit" where
  "check_external t (AuthExternal n) =
     (case required_name t of
        Some r \<Rightarrow> if to_lowercase n \<noteq> r then Inl err_permission_denied else Inr ()
      | None \<Rightarrow> Inr ())"
| "check_external t _ = Inl err_permission_denied"

fun check :: "Requirement \<Rightarrow> AuthenticatedEntity \<Rightarrow> ApiFailure + unit" where
  "check RViewer e = check_level Viewer e"
| "check RMember e = check_level Member e"
| "check RAdmin e = check_level Admin e"
| "check ROwner e = check_level Owner e"
| "check IsUser e = check_user e"
| "check IsApiKey e = check_api_key e"
| "check IsDaemon e = check_daemon e"
| "check IsSystem e = check_system e"
| "check (IsExternalService t) e = check_external t e"
| "check (ROr a b) e = (if check a e = Inr () \<or> check b e = Inr () then Inr () else Inl err_permission_denied)"
| "check (RAnd a b) e =
     (case check a e of Inl x \<Rightarrow> Inl x | Inr _ \<Rightarrow> (case check b e of Inl x \<Rightarrow> Inl x | Inr _ \<Rightarrow> Inr ()))"
| "check (AllowUnverified p) e = check p e"

fun requirement_description :: "Requirement \<Rightarrow> string" where
  "requirement_description RViewer = ''Viewer permission required''"
| "requirement_description RMember = ''Member permission required''"
| "requirement_description RAdmin = ''Admin permission required''"
| "requirement_description ROwner = ''Owner permission required''"
| "requirement_description IsUser = ''User session required''"
| "requirement_description IsApiKey = ''API key required''"
| "requirement_description IsDaemon = ''Daemon authentication required''"
| "requirement_description IsSystem = ''System authentication required''"
| "requirement_description (IsExternalService t) = ''External service authentication required''"
| "requirement_description (ROr a b) = ''Insufficient permissions''"
| "requirement_description (RAnd a b) = ''Insufficient permissions''"
| "requirement_description (AllowUnverified p) = requirement_description p"

fun allows_unverified :: "Requirement \<Rightarrow> bool" where
  "allows_unverified (ROr a b) \<longleftrightarrow> allows_unverified a \<or> allows_unverified b"
| "allows_unverified (RAnd a b) \<longleftrightarrow> allows_unverified a \<and> allows_unverified b"
| "allows_unverified (AllowUnverified p) \<longleftrightarrow> True"
| "allows_unverified _ \<longleftrightarrow> False"

definition email_verification_required :: ApiFailure where
  "email_verification_required =
     err_forbidden ''Email verification required. Please verify your email before accessing this resource.''"

definition authorized :: "Requirement \<Rightarrow> ApiFailure + AuthenticatedEntity \<Rightarrow> ApiFailure + AuthenticatedEntity" where
  \<comment> \<open>the extractor \<open>Authorized\<close>: the authentication comes first, its failure is returned as it is\<close>
  "authorized r extracted =
     (case extracted of
        Inl e \<Rightarrow> Inl e
      | Inr entity \<Rightarrow>
          (case check r entity of
             Inl e \<Rightarrow> Inl e
           | Inr _ \<Rightarrow>
               if \<not> allows_unverified r \<and> \<not> auth_email_verified entity then Inl email_verification_required
               else Inr entity))"

definition require_user_id :: "AuthenticatedEntity \<Rightarrow> ApiFailure + uuid" where
  "require_user_id e = (case auth_user_id e of Some u \<Rightarrow> Inr u | None \<Rightarrow> Inl (err_internal ''User ID required''))"

definition require_organization_id :: "AuthenticatedEntity \<Rightarrow> ApiFailure + uuid" where
  "require_organization_id e =
     (case auth_organization_id e of Some i \<Rightarrow> Inr i | None \<Rightarrow> Inl (err_internal ''Organization ID required''))"

definition require_permissions :: "AuthenticatedEntity \<Rightarrow> ApiFailure + UserOrgPermissions" where
  "require_permissions e =
     (case auth_permissions e of Some p \<Rightarrow> Inr p | None \<Rightarrow> Inl (err_internal ''Permissions required''))"

definition into_permission :: "Requirement \<Rightarrow> AuthenticatedEntity \<Rightarrow> AuthenticatedEntity" where
  \<comment> \<open>the new requirement is not checked\<close>
  "into_permission r e = e"

section \<open>What a requirement admits\<close>

lemma check_level_iff:
  "check_level lvl e = Inr () \<longleftrightarrow> (\<exists>p. auth_permissions e = Some p \<and> lvl \<le> p)"
  by (cases e) auto

lemma check_kind_iff:
  "check_user e = Inr () \<longleftrightarrow> (\<exists>u oi p ns em v. e = AuthUser u oi p ns em v)"
  "check_api_key e = Inr () \<longleftrightarrow> (\<exists>k u oi p ns. e = AuthApiKey k u oi p ns)"
  "check_daemon e = Inr () \<longleftrightarrow> (\<exists>n k d. e = AuthDaemon n k d)"
  "check_system e = Inr () \<longleftrightarrow> e = AuthSystem"
  by (cases e; simp)+

lemma check_external_iff:
  "check_external t e = Inr () \<longleftrightarrow>
     (\<exists>n. e = AuthExternal n \<and> (required_name t = None \<or> required_name t = Some (to_lowercase n)))"
  by (cases e) (auto split: option.splits if_splits)

lemma check_comb_iff:
  "check (ROr a b) e = Inr () \<longleftrightarrow> check a e = Inr () \<or> check b e = Inr ()"
  "check (RAnd a b) e = Inr () \<longleftrightarrow> check a e = Inr () \<and> check b e = Inr ()"
  by (auto split: sum.splits)

text \<open>The failures are all 403: the caller is known, but may not do this.\<close>

lemma check_failure_forbidden: "check r e = Inl x \<Longrightarrow> af_status x = 403"
proof (induction r)
  case (RAnd a b)
  then show ?case by (auto split: sum.splits)
next
  case (IsExternalService t)
  then show ?case
    by (cases e) (auto simp: err_permission_denied_def api_coded_def split: option.splits if_splits)
qed (cases e; auto simp: err_permission_denied_def err_user_required_def err_api_key_required_def
       err_daemon_required_def api_coded_def split: if_splits)+

fun admits :: "Requirement \<Rightarrow> AuthenticatedEntity \<Rightarrow> bool" where
  \<comment> \<open>the requirement read as a set of callers\<close>
  "admits RViewer e \<longleftrightarrow> (\<exists>p. auth_permissions e = Some p)"
| "admits RMember e \<longleftrightarrow> (\<exists>p. auth_permissions e = Some p \<and> p \<in> {Member, Admin, Owner})"
| "admits RAdmin e \<longleftrightarrow> (\<exists>p. auth_permissions e = Some p \<and> p \<in> {Admin, Owner})"
| "admits ROwner e \<longleftrightarrow> auth_permissions e = Some Owner"
| "admits IsUser e \<longleftrightarrow> auth_entity_name e = ''user''"
| "admits IsApiKey e \<longleftrightarrow> auth_entity_name e = ''api_key''"
| "admits IsDaemon e \<longleftrightarrow> auth_daemon_id e \<noteq> None"
| "admits IsSystem e \<longleftrightarrow> e = AuthSystem"
| "admits (IsExternalService t) e \<longleftrightarrow>
     (\<exists>n. e = AuthExternal n \<and> (case required_name t of None \<Rightarrow> True | Some r \<Rightarrow> to_lowercase n = r))"
| "admits (ROr a b) e \<longleftrightarrow> admits a e \<or> admits b e"
| "admits (RAnd a b) e \<longleftrightarrow> admits a e \<and> admits b e"
| "admits (AllowUnverified p) e \<longleftrightarrow> admits p e"

lemma permission_bounds:
  "Viewer \<le> p" "Member \<le> p \<longleftrightarrow> p \<in> {Member, Admin, Owner}" "Admin \<le> p \<longleftrightarrow> p \<in> {Admin, Owner}"
  "Owner \<le> p \<longleftrightarrow> p = Owner"
  by (cases p; simp add: permission_order)+

lemma check_admits: "check r e = Inr () \<longleftrightarrow> admits r e"
proof (induction r)
  case (IsExternalService t)
  show ?case by (cases "required_name t") (auto simp: check_external_iff)
next
  case (RAnd a b)
  then show ?case by (auto split: sum.splits)
next
  case (ROr a b)
  then show ?case by auto
qed (auto simp: check_level_iff check_kind_iff permission_bounds, (cases e; simp)+)

text \<open>
  C15: The requirement algebra means what it says: the \<open>Authorized\<close> extractor lets a request
  through exactly when the caller is authenticated, belongs to the callers the requirement names
  (\<open>Or\<close> is union, \<open>And\<close> intersection, levels are upward closed and only users and API keys have
  one), and has a verified e-mail unless the requirement waives it; a caller it refuses is
  refused with 403, and an authentication failure is passed on unchanged.
\<close>

theorem authorized_iff:
  "authorized r (Inl x) = Inl x \<and>
   (case authorized r (Inr e) of
      Inr e1 \<Rightarrow> e1 = e \<and> admits r e \<and> (allows_unverified r \<or> auth_email_verified e)
    | Inl y \<Rightarrow> af_status y = 403 \<and> \<not> (admits r e \<and> (allows_unverified r \<or> auth_email_verified e)))"
proof (cases "check r e")
  case (Inl y)
  then have "\<not> admits r e" by (simp add: check_admits [symmetric])
  then show ?thesis using Inl check_failure_forbidden[OF Inl] by (simp add: authorized_def)
next
  case (Inr u)
  then have "admits r e" by (cases u) (simp add: check_admits [symmetric])
  then show ?thesis using Inr
    by (auto simp: authorized_def email_verification_required_def err_forbidden_def api_new_def)
qed

end
