(* ===== verification/Account_Tables.thy ===== *)
theory Account_Tables
  imports Accounts Permissions Storage_Filter Auth
begin

text \<open>
  The tables of the accounts as instances of the generic service: users with their networks
  (\<open>server/users/service.rs\<close>, \<open>server/users/impl/network_access.rs\<close>), organizations, API keys
  (\<open>server/user_api_keys/impl/network_access.rs\<close>) and invites; and the generic handlers of
  \<open>server/shared/handlers/traits.rs\<close> over them.
\<close>

section \<open>Deletion with what refers to the rows\<close>

definition drop_user_keys :: "uuid list \<Rightarrow> Accounts \<Rightarrow> Accounts" where
  "drop_user_keys ids st =
     st\<lparr>ac_user_keys := drop_rows ids (ac_user_keys st),
        ac_key_networks := filter (\<lambda>(k, _). k \<notin> set ids) (ac_key_networks st)\<rparr>"

definition drop_invites :: "uuid list \<Rightarrow> Accounts \<Rightarrow> Accounts" where
  "drop_invites ids st = st\<lparr>ac_invites := drop_rows ids (ac_invites st)\<rparr>"

definition drop_daemon_keys :: "uuid list \<Rightarrow> Accounts \<Rightarrow> Accounts" where
  \<comment> \<open>ON DELETE SET NULL at the daemons\<close>
  "drop_daemon_keys ids st =
     st\<lparr>ac_daemon_keys := drop_rows ids (ac_daemon_keys st),
        ac_daemons := map_rows (\<lambda>d. case dr_api_key_id d of
           Some k \<Rightarrow> if k \<in> set ids then d\<lparr>dr_api_key_id := None\<rparr> else d | None \<Rightarrow> d) (ac_daemons st)\<rparr>"

definition drop_users :: "uuid list \<Rightarrow> Accounts \<Rightarrow> Accounts" where
  "drop_users ids st =
     (let st1 = drop_user_keys (keys_where (\<lambda>k. uk_user_id (ua_base k) \<in> set ids) (ac_user_keys st)) st;
          st2 = drop_invites (keys_where (\<lambda>i. ib_created_by (iv_base i) \<in> set ids) (ac_invites st)) st1
      in st2\<lparr>ac_users := drop_rows ids (ac_users st2),
             ac_user_networks := filter (\<lambda>(u, _). u \<notin> set ids) (ac_user_networks st2)\<rparr>)"

definition drop_networks :: "uuid list \<Rightarrow> Accounts \<Rightarrow> Accounts" where
  "drop_networks ids st =
     (let st1 = drop_daemon_keys (keys_where (\<lambda>k. dk_network_id (da_base k) \<in> set ids) (ac_daemon_keys st)) st
      in st1\<lparr>ac_networks := drop_rows ids (ac_networks st1),
             ac_user_networks := filter (\<lambda>(_, n). n \<notin> set ids) (ac_user_networks st1),
             ac_key_networks := filter (\<lambda>(_, n). n \<notin> set ids) (ac_key_networks st1)\<rparr>)"

definition drop_organizations :: "uuid list \<Rightarrow> Accounts \<Rightarrow> Accounts" where
  "drop_organizations ids st =
     (let st1 = drop_users (keys_where (\<lambda>u. ub_organization_id (us_base u) \<in> set ids) (ac_users st)) st;
          st2 = drop_networks (keys_where (\<lambda>n. n \<in> set ids) (ac_networks st1)) st1;
          st3 = drop_user_keys (keys_where (\<lambda>k. uk_organization_id (ua_base k) \<in> set ids) (ac_user_keys st2)) st2;
          st4 = drop_invites (keys_where (\<lambda>i. ib_organization_id (iv_base i) \<in> set ids) (ac_invites st3)) st3
      in st4\<lparr>ac_organizations := drop_rows ids (ac_organizations st4)\<rparr>)"

section \<open>The tables\<close>

definition user_clash :: "User \<Rightarrow> User \<Rightarrow> string option" where
  \<comment> \<open>unique on the lower-cased e-mail, and on provider and subject where both are set\<close>
  "user_clash a b =
     (if to_lowercase (ub_email (us_base a)) = to_lowercase (ub_email (us_base b)) then Some ''idx_users_email_lower''
      else if ub_oidc_provider (us_base a) \<noteq> None \<and> ub_oidc_subject (us_base a) \<noteq> None \<and>
              ub_oidc_provider (us_base a) = ub_oidc_provider (us_base b) \<and>
              ub_oidc_subject (us_base a) = ub_oidc_subject (us_base b)
      then Some ''idx_users_oidc_provider_subject'' else None)"

definition users_table :: "User Table" where
  "users_table =
     \<lparr>tb_rows = ac_users, tb_put = \<lambda>u st. st\<lparr>ac_users := hinsert (us_id u) (user_row u) (ac_users st)\<rparr>,
      tb_drop = drop_users, tb_id = us_id, tb_new = \<lambda>f now u. user_new f now (us_base u),
      tb_created_at = us_created_at, tb_clash = user_clash, tb_primary_key = ''users_pkey'',
      tb_refs = \<lambda>u st. hget (ac_organizations st) (ub_organization_id (us_base u)) \<noteq> None,
      tb_network = \<lambda>_. None, tb_org = \<lambda>u. Some (ub_organization_id (us_base u)), tb_entity = AE_User,
      tb_name = ''users'', tb_kind = ''User'', tb_text = user_display, tb_suppress = \<lambda>_ _. False,
      tb_taggable = None, tb_tags = \<lambda>_. None, tb_set_tags = \<lambda>_ u. u\<rparr>"

definition organization_text :: "Organization \<Rightarrow> string" where
  "organization_text o1 = ''organization '' @ uuid_display (og_id o1)"

definition organizations_table :: "Organization Table" where
  "organizations_table =
     \<lparr>tb_rows = ac_organizations, tb_put = \<lambda>o1 st. st\<lparr>ac_organizations := hinsert (og_id o1) o1 (ac_organizations st)\<rparr>,
      tb_drop = drop_organizations, tb_id = og_id,
      tb_new = \<lambda>f now o1. \<lparr>og_id = f, og_created_at = now, og_updated_at = now, og_base = og_base o1\<rparr>,
      tb_created_at = og_created_at, tb_clash = \<lambda>_ _. None, tb_primary_key = ''organizations_pkey'',
      tb_refs = \<lambda>_ _. True, tb_network = \<lambda>_. None, tb_org = \<lambda>o1. Some (og_id o1), tb_entity = AE_Organization,
      tb_name = ''organizations'', tb_kind = ''Organization'', tb_text = organization_text, tb_suppress = \<lambda>_ _. False,
      tb_taggable = None, tb_tags = \<lambda>_. None, tb_set_tags = \<lambda>_ o1. o1\<rparr>"

fun both_suppress :: "('e \<Rightarrow> 'e \<Rightarrow> bool) \<Rightarrow> 'e option \<Rightarrow> 'e option \<Rightarrow> bool" where
  "both_suppress f (Some current) (Some updated) = f updated current"
| "both_suppress f _ _ = False"

definition user_keys_table :: "UserApiKey Table" where
  "user_keys_table =
     \<lparr>tb_rows = ac_user_keys, tb_put = \<lambda>k st. st\<lparr>ac_user_keys := hinsert (ua_id k) (user_key_row k) (ac_user_keys st)\<rparr>,
      tb_drop = drop_user_keys, tb_id = ua_id,
      tb_new = \<lambda>f now k. \<lparr>ua_id = f, ua_created_at = now, ua_updated_at = now, ua_base = ua_base k\<rparr>,
      tb_created_at = ua_created_at,
      tb_clash = \<lambda>a b. if uk_key (ua_base a) = uk_key (ua_base b) then Some ''user_api_keys_key_key'' else None,
      tb_primary_key = ''user_api_keys_pkey'',
      tb_refs = \<lambda>k st. hget (ac_users st) (uk_user_id (ua_base k)) \<noteq> None \<and>
                       hget (ac_organizations st) (uk_organization_id (ua_base k)) \<noteq> None,
      tb_network = \<lambda>_. None, tb_org = \<lambda>k. Some (uk_organization_id (ua_base k)), tb_entity = AE_UserKey,
      tb_name = ''user_api_keys'', tb_kind = ''User API Key'', tb_text = user_key_display,
      tb_suppress = both_suppress user_key_suppress_logs,
      tb_taggable = Some D_UserApiKey, tb_tags = \<lambda>k. Some (uk_tags (ua_base k)),
      tb_set_tags = \<lambda>ts. on_user_key (\<lambda>b. b\<lparr>uk_tags := ts\<rparr>)\<rparr>"

definition daemon_keys_table :: "DaemonApiKey Table" where
  "daemon_keys_table =
     \<lparr>tb_rows = ac_daemon_keys, tb_put = \<lambda>k st. st\<lparr>ac_daemon_keys := hinsert (da_id k) (daemon_key_row k) (ac_daemon_keys st)\<rparr>,
      tb_drop = drop_daemon_keys, tb_id = da_id,
      tb_new = \<lambda>f now k. \<lparr>da_id = f, da_created_at = now, da_updated_at = now, da_base = da_base k\<rparr>,
      tb_created_at = da_created_at,
      tb_clash = \<lambda>a b. if dk_key (da_base a) = dk_key (da_base b) then Some ''api_keys_key_key'' else None,
      tb_primary_key = ''api_keys_pkey'',
      tb_refs = \<lambda>k st. hget (ac_networks st) (dk_network_id (da_base k)) \<noteq> None,
      tb_network = \<lambda>k. Some (dk_network_id (da_base k)), tb_org = \<lambda>_. None, tb_entity = AE_DaemonKey,
      tb_name = ''api_keys'', tb_kind = ''Daemon API Key'', tb_text = daemon_key_display,
      tb_suppress = both_suppress daemon_key_suppress_logs,
      tb_taggable = Some D_DaemonApiKey, tb_tags = \<lambda>k. Some (dk_tags (da_base k)),
      tb_set_tags = \<lambda>ts. on_daemon_key (\<lambda>b. b\<lparr>dk_tags := ts\<rparr>)\<rparr>"

definition invites_table :: "Invite Table" where
  "invites_table =
     \<lparr>tb_rows = ac_invites, tb_put = \<lambda>i st. st\<lparr>ac_invites := hinsert (iv_id i) i (ac_invites st)\<rparr>,
      tb_drop = drop_invites, tb_id = iv_id,
      tb_new = \<lambda>f now i. \<lparr>iv_id = f, iv_created_at = now, iv_updated_at = now, iv_base = iv_base i\<rparr>,
      tb_created_at = iv_created_at, tb_clash = \<lambda>_ _. None, tb_primary_key = ''invites_pkey'',
      tb_refs = \<lambda>i st. hget (ac_organizations st) (ib_organization_id (iv_base i)) \<noteq> None \<and>
                       hget (ac_users st) (ib_created_by (iv_base i)) \<noteq> None,
      tb_network = \<lambda>_. None, tb_org = \<lambda>i. Some (ib_organization_id (iv_base i)), tb_entity = AE_Invite,
      tb_name = ''invites'', tb_kind = ''Invite'', tb_text = invite_display, tb_suppress = \<lambda>_ _. False,
      tb_taggable = None, tb_tags = \<lambda>_. None, tb_set_tags = \<lambda>_ i. i\<rparr>"

section \<open>The junction tables of the networks\<close>

definition networks_of :: "uuid \<Rightarrow> (uuid \<times> uuid) list \<Rightarrow> uuid list" where
  "networks_of i rows = map snd (filter (\<lambda>(k, _). k = i) rows)"

definition replace_networks ::
    "uuid \<Rightarrow> uuid list \<Rightarrow> bool \<Rightarrow> (uuid, uuid) HashMap \<Rightarrow> string \<Rightarrow> (uuid \<times> uuid) list \<Rightarrow> AnyError + (uuid \<times> uuid) list" where
  \<comment> \<open>one transaction: everything is replaced, or a violated constraint leaves the rows alone\<close>
  "replace_networks i ids owner_exists nets unique_key rows =
     (if ids \<noteq> [] \<and> (\<not> owner_exists \<or> list_ex (\<lambda>n. hget nets n = None) ids) then Inl db_violation
      else if \<not> distinct ids then Inl (ValidationErr (friendly_unique_violation_message unique_key))
      else Inr (filter (\<lambda>(k, _). k \<noteq> i) rows @ map (\<lambda>n. (i, n)) ids))"

definition user_get_network_ids :: "uuid \<Rightarrow> (AnyError, uuid list) acc" where
  "user_get_network_ids u = acc_query (\<lambda>st. networks_of u (ac_user_networks st))"

definition user_set_network_ids :: "uuid \<Rightarrow> uuid list \<Rightarrow> (AnyError, unit) acc" where
  "user_set_network_ids u ids =
     acc_statement (\<lambda>st. map_sum id (\<lambda>rows. ((), st\<lparr>ac_user_networks := rows\<rparr>))
       (replace_networks u ids (hget (ac_users st) u \<noteq> None) (ac_networks st)
          ''user_network_access_user_id_network_id_key'' (ac_user_networks st)))"

definition user_add_network_access :: "uuid \<Rightarrow> uuid \<Rightarrow> ('e, unit) acc" where
  \<comment> \<open>a refused row is ignored\<close>
  "user_add_network_access u n =
     acc_bind (acc_try (acc_statement (\<lambda>st.
       if (u, n) \<in> set (ac_user_networks st) \<or> hget (ac_users st) u = None \<or> hget (ac_networks st) n = None
       then Inl db_violation
       else Inr ((), st\<lparr>ac_user_networks := ac_user_networks st @ [(u, n)]\<rparr>)))) (\<lambda>_. acc_ok ())"

definition user_remove_network_access :: "uuid \<Rightarrow> uuid \<Rightarrow> (AnyError, unit) acc" where
  "user_remove_network_access u n =
     acc_execute (\<lambda>st. st\<lparr>ac_user_networks := filter (\<lambda>r. r \<noteq> (u, n)) (ac_user_networks st)\<rparr>)"

definition hydrate_network_ids :: "User \<Rightarrow> (AnyError, User) acc" where
  "hydrate_network_ids u =
     acc_bind (user_get_network_ids (us_id u)) (\<lambda>ns. acc_ok (on_user (\<lambda>b. b\<lparr>ub_network_ids := ns\<rparr>) u))"

definition hydrate_network_ids_batch :: "User list \<Rightarrow> (AnyError, User list) acc" where
  "hydrate_network_ids_batch us =
     (if us = [] then acc_ok []
      else acc_bind (acc_query ac_user_networks) (\<lambda>rows.
             acc_ok (map (\<lambda>u. on_user (\<lambda>b. b\<lparr>ub_network_ids := networks_of (us_id u) rows\<rparr>) u) us)))"

definition user_create :: "User \<Rightarrow> AuthenticatedEntity \<Rightarrow> (AnyError, User) acc" where
  "user_create u auth =
     acc_bind (acc_query (\<lambda>st. List.find (\<lambda>r. ub_email (us_base r) = ub_email (us_base u)) (hvalues (ac_users st)))) (\<lambda>r.
       if r \<noteq> None then acc_err (OtherErr (''User with email '' @ ub_email (us_base u) @ '' already exists''))
       else acc_bind acc_fresh (\<lambda>f. acc_bind (acc_env an_now) (\<lambda>now.
         let networks = ub_network_ids (us_base u);
             u1 = (if us_id u = uuid_nil then user_new f now (us_base u) else u) in
         acc_bind (row_insert users_table u1) (\<lambda>_.
         acc_bind (acc_when (networks \<noteq> []) (user_set_network_ids (us_id u1) networks)) (\<lambda>_.
         acc_bind (publish_entity_of users_table u1 Created (JObj [(''trigger_stale'', JBool False)]) auth) (\<lambda>_.
           acc_ok u1))))))"

definition get_user_by_oidc :: "string \<Rightarrow> (AnyError, User option) acc" where
  "get_user_by_oidc subject =
     acc_query (\<lambda>st. List.find (\<lambda>u. ub_oidc_subject (us_base u) = Some subject \<and> ub_oidc_provider (us_base u) \<noteq> None)
       (hvalues (ac_users st)))"

definition get_organization_owners :: "uuid \<Rightarrow> (AnyError, User list) acc" where
  "get_organization_owners org =
     acc_query (select_rows users_table (\<lambda>u. ub_organization_id (us_base u) = org \<and> ub_permissions (us_base u) = Owner))"

definition key_get_network_ids :: "uuid \<Rightarrow> (AnyError, uuid list) acc" where
  "key_get_network_ids k = acc_query (\<lambda>st. networks_of k (ac_key_networks st))"

definition key_save_network_ids :: "uuid \<Rightarrow> uuid list \<Rightarrow> (AnyError, unit) acc" where
  "key_save_network_ids k ids =
     acc_statement (\<lambda>st. map_sum id (\<lambda>rows. ((), st\<lparr>ac_key_networks := rows\<rparr>))
       (replace_networks k ids (hget (ac_user_keys st) k \<noteq> None) (ac_networks st)
          ''user_api_key_network_access_api_key_id_network_id_key'' (ac_key_networks st)))"

section \<open>The generic handlers\<close>

type_synonym 'a handler = "(ApiFailure, 'a) acc"

definition internally :: "(AnyError, 'a) acc \<Rightarrow> 'a handler" where
  \<comment> \<open>\<open>map_err(|e| ApiError::internal_error(&e.to_string()))\<close>\<close>
  "internally = acc_map_err (\<lambda>e. case e of ValidationErr m \<Rightarrow> err_internal m | OtherErr m \<Rightarrow> err_internal m)"

definition answered :: "(AnyError, 'a) acc \<Rightarrow> 'a handler" where
  \<comment> \<open>the question mark operator: a validation error keeps its status\<close>
  "answered = acc_map_err failure_of_any"

definition required_organization :: "AuthenticatedEntity \<Rightarrow> uuid handler" where
  "required_organization auth =
     (case auth_organization_id auth of Some o1 \<Rightarrow> acc_ok o1 | None \<Rightarrow> acc_err err_organization_required)"

definition required_user :: "AuthenticatedEntity \<Rightarrow> uuid handler" where
  "required_user auth = (case auth_user_id auth of Some u \<Rightarrow> acc_ok u | None \<Rightarrow> acc_err err_user_required)"

definition checked_access :: "ApiError + unit \<Rightarrow> unit handler" where
  \<comment> \<open>status and message of the refusal; its code is not kept\<close>
  "checked_access r = (case r of Inl e \<Rightarrow> acc_err (plain_failure e) | Inr _ \<Rightarrow> acc_ok ())"

definition found :: "'e Table \<Rightarrow> uuid \<Rightarrow> 'e handler" where
  "found T i =
     acc_bind (internally (tbl_get_by_id T i)) (\<lambda>r.
       case r of Some e \<Rightarrow> acc_ok e | None \<Rightarrow> acc_err (err_entity_not_found (tb_kind T) (uuid_display i)))"

definition get_by_id_handler :: "'e Table \<Rightarrow> AuthenticatedEntity \<Rightarrow> uuid \<Rightarrow> 'e handler" where
  "get_by_id_handler T auth i =
     acc_bind (required_organization auth) (\<lambda>org.
     acc_bind (found T i) (\<lambda>e.
     acc_bind (checked_access (validate_read_access (tb_network T e) (tb_org T e) (auth_network_ids auth) org)) (\<lambda>_.
       acc_ok e)))"

definition update_handler_of ::
    "'e Table \<Rightarrow> ('e \<Rightarrow> 'e \<Rightarrow> 'e) \<Rightarrow> ('e \<Rightarrow> string option) \<Rightarrow> AuthenticatedEntity \<Rightarrow> uuid \<Rightarrow> 'e \<Rightarrow> 'e handler" where
  \<comment> \<open>\<open>preserve\<close> copies the id, the creation time and the immutable fields; \<open>invalid\<close> is the validator\<close>
  "update_handler_of T preserve invalid auth i request =
     acc_bind (required_organization auth) (\<lambda>org.
     acc_bind (found T i) (\<lambda>existing.
       let e = preserve existing request in
       case invalid e of
         Some m \<Rightarrow> acc_err (err_bad_request (tb_name T @ '' validation failed: '' @ m))
       | None \<Rightarrow>
           acc_bind (checked_access (validate_update_access (tb_network T existing) (tb_org T existing)
                       (tb_network T e) (tb_org T e) (auth_network_ids auth) org)) (\<lambda>_.
             answered (tbl_update T e auth))))"

definition delete_handler_of :: "'e Table \<Rightarrow> AuthenticatedEntity \<Rightarrow> uuid \<Rightarrow> unit handler" where
  "delete_handler_of T auth i =
     acc_bind (required_organization auth) (\<lambda>org.
     acc_bind (found T i) (\<lambda>e.
     acc_bind (checked_access (validate_delete_access (tb_network T e) (tb_org T e) (auth_network_ids auth) org)) (\<lambda>_.
       answered (tbl_delete T i auth))))"

record BulkDeleteResponse =
  bd_deleted_count :: nat
  bd_requested_count :: nat

definition bulk_delete_handler_of :: "'e Table \<Rightarrow> AuthenticatedEntity \<Rightarrow> uuid list \<Rightarrow> BulkDeleteResponse handler" where
  \<comment> \<open>ids that are not there are only logged; one entity out of reach refuses everything\<close>
  "bulk_delete_handler_of T auth ids =
     (if ids = [] then acc_err err_bulk_empty
      else acc_bind (required_organization auth) (\<lambda>org.
           acc_bind (answered (tbl_get_all T (\<lambda>e. tb_id T e \<in> set ids))) (\<lambda>es.
           acc_bind (acc_each (\<lambda>e. checked_access
               (validate_delete_access (tb_network T e) (tb_org T e) (auth_network_ids auth) org)) es) (\<lambda>_.
           acc_bind (answered (tbl_delete_many T (map (tb_id T) es) auth)) (\<lambda>n.
             acc_ok \<lparr>bd_deleted_count = n, bd_requested_count = length ids\<rparr>)))))"

end
