(* ===== verification/Api_Keys.thy ===== *)
theory Api_Keys
  imports Account_Tables
begin

text \<open>
  API keys: their types and validity (\<open>server/shared/api_key_common.rs\<close>), the services of user keys
  (\<open>server/user_api_keys/service.rs\<close>) and daemon keys (\<open>server/daemon_api_keys/service.rs\<close>) and their
  endpoints (\<open>handlers.rs\<close> of both). The endpoints are called with a caller their extractors
  admitted (theory \<open>Permissions\<close>).
\<close>

section \<open>Common\<close>

fun key_prefix :: "ApiKeyType \<Rightarrow> string" where
  "key_prefix DaemonKey = ''scp_d_''"
| "key_prefix UserKey = ''scp_u_''"

fun key_type_name :: "ApiKeyType \<Rightarrow> string" where
  "key_type_name DaemonKey = ''Daemon''"
| "key_type_name UserKey = ''User''"

definition api_key_from_key :: "string \<Rightarrow> ApiKeyType \<times> bool" where
  \<comment> \<open>a key without a prefix is an old daemon key\<close>
  "api_key_from_key key =
     (if starts_with key ''scp_u_'' then (UserKey, True)
      else if starts_with key ''scp_d_'' then (DaemonKey, True)
      else (DaemonKey, False))"

definition base62_alphabet :: string where
  "base62_alphabet = ''0123456789ABCDEFGHIJKLMNOPQRSTUVWXYZabcdefghijklmnopqrstuvwxyz''"

definition generate_base62_string :: "(nat \<Rightarrow> nat) \<Rightarrow> nat \<Rightarrow> string" where
  \<comment> \<open>the i-th draw of the random generator picks a character\<close>
  "generate_base62_string draw len = map (\<lambda>i. base62_alphabet ! (draw i mod length base62_alphabet)) [0..<len]"

definition generate_api_key_for_storage :: "ApiKeyType \<Rightarrow> ('e, string \<times> string) acc" where
  \<comment> \<open>the plaintext and the hash that is stored\<close>
  "generate_api_key_for_storage t = (\<lambda>env st.
     let plain = key_prefix t @ an_random env (ac_ops st) in
     (Inr (plain, an_sha256 env plain), st\<lparr>ac_ops := Suc (ac_ops st)\<rparr>))"

definition is_expired :: "timestamp \<Rightarrow> timestamp option \<Rightarrow> bool" where
  "is_expired now expires = (case expires of Some t \<Rightarrow> now > t | None \<Rightarrow> False)"

definition check_key_validity :: "ApiKeyType \<Rightarrow> timestamp \<Rightarrow> timestamp option \<Rightarrow> bool \<Rightarrow> ApiFailure + unit" where
  "check_key_validity t now expires enabled =
     (if is_expired now expires
      then Inl (case t of DaemonKey \<Rightarrow> err_daemon_api_key_expired | UserKey \<Rightarrow> err_entity_expired ''User API Key'')
      else if \<not> enabled
      then Inl (case t of DaemonKey \<Rightarrow> err_daemon_api_key_disabled | UserKey \<Rightarrow> err_entity_disabled ''User API Key'')
      else Inr ())"

definition key_is_valid :: "timestamp \<Rightarrow> timestamp option \<Rightarrow> bool \<Rightarrow> bool" where
  "key_is_valid now expires enabled \<longleftrightarrow> enabled \<and> \<not> is_expired now expires"

section \<open>Rotation\<close>

definition rotate_key ::
    "'e Table \<Rightarrow> ApiKeyType \<Rightarrow> ('e \<Rightarrow> AuthenticatedEntity \<Rightarrow> string option) \<Rightarrow> (string \<Rightarrow> 'e \<Rightarrow> 'e) \<Rightarrow>
     uuid \<Rightarrow> IpAddr \<Rightarrow> string option \<Rightarrow> AuthenticatedEntity \<Rightarrow> (AnyError, string) acc" where
  \<comment> \<open>the third argument is \<open>validate_access\<close>, the fourth \<open>set_key\<close>\<close>
  "rotate_key T t denied put_key i ip agent auth =
     acc_bind (tbl_get_by_id T i) (\<lambda>r.
       case r of
         None \<Rightarrow> acc_err (OtherErr (''API key '' @ quote @ uuid_display i @ quote @ '' not found''))
       | Some k \<Rightarrow>
           (case denied k auth of
              Some m \<Rightarrow> acc_err (OtherErr m)
            | None \<Rightarrow>
                acc_bind (generate_api_key_for_storage t) (\<lambda>(plain, hashed).
                acc_bind (publish_auth RotateKey (auth_user_id auth) (auth_organization_id auth) ip agent
                    (JObj [(''api_key_id'', JStr (uuid_display i)), (''key_type'', JStr (key_type_name t))]) auth) (\<lambda>_.
                acc_bind (tbl_update T (put_key hashed k) auth) (\<lambda>_. acc_ok plain)))))"

section \<open>User keys: the service\<close>

definition user_key_get_by_key :: "string \<Rightarrow> (AnyError, UserApiKey option) acc" where
  "user_key_get_by_key hashed =
     acc_bind (acc_query (\<lambda>st. List.find (\<lambda>k. uk_key (ua_base k) = hashed) (hvalues (ac_user_keys st)))) (\<lambda>r.
       case r of
         None \<Rightarrow> acc_ok None
       | Some k \<Rightarrow>
           acc_bind (key_get_network_ids (ua_id k)) (\<lambda>ns.
           acc_bind (hydrate_tags user_keys_table (on_user_key (\<lambda>b. b\<lparr>uk_network_ids := ns\<rparr>) k)) (\<lambda>k1.
             acc_ok (Some k1))))"

definition user_keys_for_user :: "uuid \<Rightarrow> (AnyError, UserApiKey list) acc" where
  "user_keys_for_user u =
     acc_bind (acc_query (select_rows user_keys_table (\<lambda>k. uk_user_id (ua_base k) = u))) (\<lambda>ks.
     acc_bind (acc_query ac_key_networks) (\<lambda>rows.
       acc_map (hydrate_tags user_keys_table)
         (map (\<lambda>k. on_user_key (\<lambda>b. b\<lparr>uk_network_ids := networks_of (ua_id k) rows\<rparr>) k) ks)))"

definition key_validate_permissions :: "UserOrgPermissions \<Rightarrow> UserOrgPermissions \<Rightarrow> string + unit" where
  "key_validate_permissions key user =
     (if key > user
      then Inl (''API key permissions ('' @ permission_as_str key @ '') cannot exceed your permissions ('' @
                permission_as_str user @ '')'')
      else Inr ())"

definition key_validate_network_access :: "uuid list \<Rightarrow> uuid list \<Rightarrow> string + unit" where
  "key_validate_network_access key_networks user_networks =
     (case List.find (\<lambda>n. n \<notin> set user_networks) key_networks of
        Some n \<Rightarrow> Inl (''You don'' @ quote @ ''t have access to network '' @ uuid_display n)
      | None \<Rightarrow> Inr ())"

definition create_with_networks :: "UserApiKey \<Rightarrow> uuid list \<Rightarrow> AuthenticatedEntity \<Rightarrow> (AnyError, UserApiKey) acc" where
  "create_with_networks k networks auth =
     acc_bind (tbl_create user_keys_table k auth) (\<lambda>created.
     acc_bind (acc_when (networks \<noteq> []) (key_save_network_ids (ua_id created) networks)) (\<lambda>_.
       acc_ok (on_user_key (\<lambda>b. b\<lparr>uk_network_ids := networks\<rparr>) created)))"

definition user_key_denied :: "UserApiKey \<Rightarrow> AuthenticatedEntity \<Rightarrow> string option" where
  "user_key_denied k auth =
     (case auth_user_id auth of
        Some u \<Rightarrow> if uk_user_id (ua_base k) \<noteq> u then Some (''You don'' @ quote @ ''t own this API key'') else None
      | None \<Rightarrow> Some ''User context required to validate API key access'')"

definition user_key_set_key :: "string \<Rightarrow> UserApiKey \<Rightarrow> UserApiKey" where
  "user_key_set_key hashed = on_user_key (\<lambda>b. b\<lparr>uk_key := hashed\<rparr>)"

section \<open>User keys: the endpoints\<close>

definition refused_if :: "string + unit \<Rightarrow> unit handler" where
  \<comment> \<open>the text is dropped\<close>
  "refused_if r = (case r of Inl _ \<Rightarrow> acc_err err_permission_denied | Inr _ \<Rightarrow> acc_ok ())"

definition get_all_user_api_keys :: "AuthenticatedEntity \<Rightarrow> PaginationParams \<Rightarrow> (UserApiKey list \<times> PaginationMeta) handler" where
  "get_all_user_api_keys auth page =
     acc_bind (acc_lift (require_user_id auth)) (\<lambda>u.
     acc_bind (internally (user_keys_for_user u)) (\<lambda>ks. acc_ok (paginate_in_memory page ks)))"

definition first_time :: "uuid \<Rightarrow> TelemetryOperation \<Rightarrow> AuthenticatedEntity \<Rightarrow> unit handler" where
  \<comment> \<open>a milestone is reported once per organization\<close>
  "first_time org oper auth =
     acc_bind (answered (tbl_get_by_id organizations_table org)) (\<lambda>r.
       case r of
         Some o1 \<Rightarrow> if not_onboarded o1 oper then publish_telemetry oper org (JObj []) auth else acc_ok ()
       | None \<Rightarrow> acc_ok ())"

definition create_user_api_key :: "AuthenticatedEntity \<Rightarrow> UserApiKey \<Rightarrow> (string \<times> UserApiKey) handler" where
  "create_user_api_key auth k =
     acc_bind (acc_lift (require_user_id auth)) (\<lambda>u.
     acc_bind (acc_lift (require_organization_id auth)) (\<lambda>org.
     acc_bind (acc_lift (require_permissions auth)) (\<lambda>p.
     acc_bind (refused_if (key_validate_permissions (uk_permissions (ua_base k)) p)) (\<lambda>_.
     acc_bind (refused_if (key_validate_network_access (uk_network_ids (ua_base k)) (auth_network_ids auth))) (\<lambda>_.
     acc_bind (generate_api_key_for_storage UserKey) (\<lambda>(plain, hashed).
       let k1 = on_user_key (\<lambda>b. b\<lparr>uk_user_id := u, uk_organization_id := org, uk_key := hashed\<rparr>) k in
       acc_bind (internally (create_with_networks k1 (uk_network_ids (ua_base k1)) auth)) (\<lambda>created.
       acc_bind (first_time org FirstUserApiKeyCreated auth) (\<lambda>_.
         acc_ok (plain, created)))))))))"

definition update_user_api_key :: "AuthenticatedEntity \<Rightarrow> uuid \<Rightarrow> UserApiKey \<Rightarrow> UserApiKey handler" where
  "update_user_api_key auth i request =
     acc_bind (acc_lift (require_user_id auth)) (\<lambda>u.
     acc_bind (acc_lift (require_permissions auth)) (\<lambda>p.
     acc_bind (answered (tbl_get_by_id user_keys_table i)) (\<lambda>r.
       case r of
         None \<Rightarrow> acc_err (err_entity_not_found ''User API Key'' (uuid_display i))
       | Some existing \<Rightarrow>
           if uk_user_id (ua_base existing) \<noteq> u
           then acc_err (err_entity_access_denied ''User API Key'' (uuid_display i))
           else
             acc_bind (refused_if (key_validate_permissions (uk_permissions (ua_base request)) p)) (\<lambda>_.
             acc_bind (refused_if (key_validate_network_access (uk_network_ids (ua_base request)) (auth_network_ids auth))) (\<lambda>_.
               let k = user_key_preserve_immutable existing request;
                   networks = uk_network_ids (ua_base k) in
               acc_bind (answered (key_save_network_ids i networks)) (\<lambda>_.
               acc_bind (internally (tbl_update user_keys_table k auth)) (\<lambda>updated.
                 acc_ok (on_user_key (\<lambda>b. b\<lparr>uk_network_ids := networks\<rparr>) updated))))))))"

definition rotate_user_api_key :: "AuthenticatedEntity \<Rightarrow> uuid \<Rightarrow> IpAddr \<Rightarrow> string option \<Rightarrow> string handler" where
  "rotate_user_api_key auth i ip agent =
     acc_bind (acc_lift (require_user_id auth)) (\<lambda>_.
       internally (rotate_key user_keys_table UserKey user_key_denied user_key_set_key i ip agent auth))"

definition caller_or_nil :: "AuthenticatedEntity \<Rightarrow> uuid" where
  "caller_or_nil auth = (case auth_user_id auth of Some u \<Rightarrow> u | None \<Rightarrow> uuid_nil)"

definition get_user_api_key_by_id :: "AuthenticatedEntity \<Rightarrow> uuid \<Rightarrow> UserApiKey handler" where
  "get_user_api_key_by_id auth i =
     acc_bind (get_by_id_handler user_keys_table auth i) (\<lambda>k.
       if uk_user_id (ua_base k) \<noteq> caller_or_nil auth
       then acc_err (err_entity_not_found ''User API Key'' (uuid_display i)) else acc_ok k)"

definition delete_user_api_key :: "AuthenticatedEntity \<Rightarrow> uuid \<Rightarrow> unit handler" where
  "delete_user_api_key auth i =
     acc_bind (answered (tbl_get_by_id user_keys_table i)) (\<lambda>r.
       case r of
         Some k \<Rightarrow>
           if uk_user_id (ua_base k) \<noteq> caller_or_nil auth
           then acc_err (err_entity_not_found ''User API Key'' (uuid_display i))
           else delete_handler_of user_keys_table auth i
       | None \<Rightarrow> acc_err (err_entity_not_found ''User API Key'' (uuid_display i)))"

fun owned_keys :: "uuid \<Rightarrow> uuid list \<Rightarrow> ('e, uuid list) acc" where
  \<comment> \<open>the ids of keys of the user; an id that cannot be read is skipped\<close>
  "owned_keys u [] = acc_ok []"
| "owned_keys u (i # is) =
     acc_bind (acc_try (tbl_get_by_id user_keys_table i)) (\<lambda>r.
     acc_bind (owned_keys u is) (\<lambda>rest.
       acc_ok (case r of
                 Inr (Some k) \<Rightarrow> if uk_user_id (ua_base k) = u then i # rest else rest
               | _ \<Rightarrow> rest)))"

definition bulk_delete_user_api_keys :: "AuthenticatedEntity \<Rightarrow> uuid list \<Rightarrow> BulkDeleteResponse handler" where
  "bulk_delete_user_api_keys auth ids =
     acc_bind (owned_keys (caller_or_nil auth) ids) (\<lambda>owned.
     acc_bind (bulk_delete_handler_of user_keys_table auth owned) (\<lambda>r.
       acc_ok \<lparr>bd_deleted_count = bd_deleted_count r, bd_requested_count = length ids\<rparr>))"

section \<open>Daemon keys\<close>

definition daemon_key_denied :: "DaemonApiKey \<Rightarrow> AuthenticatedEntity \<Rightarrow> string option" where
  "daemon_key_denied k auth =
     (if dk_network_id (da_base k) \<notin> set (auth_network_ids auth)
      then Some (''You don'' @ quote @ ''t have access to the network for this daemon API key'') else None)"

definition daemon_key_set_key :: "string \<Rightarrow> DaemonApiKey \<Rightarrow> DaemonApiKey" where
  "daemon_key_set_key hashed = on_daemon_key (\<lambda>b. b\<lparr>dk_key := hashed\<rparr>)"

definition create_daemon_api_key :: "AuthenticatedEntity \<Rightarrow> DaemonApiKey \<Rightarrow> (string \<times> DaemonApiKey) handler" where
  "create_daemon_api_key auth k =
     acc_bind (required_organization auth) (\<lambda>_.
     acc_bind (checked_access (validate_network_access (Some (dk_network_id (da_base k))) (auth_network_ids auth))) (\<lambda>_.
     acc_bind (generate_api_key_for_storage DaemonKey) (\<lambda>(plain, hashed).
     acc_bind (internally (tbl_create daemon_keys_table (daemon_key_set_key hashed k) auth)) (\<lambda>created.
       acc_ok (plain, created)))))"

definition daemon_key_preserve :: "DaemonApiKey \<Rightarrow> DaemonApiKey \<Rightarrow> DaemonApiKey" where
  \<comment> \<open>the generic handler copies the id and the creation time first\<close>
  "daemon_key_preserve existing k =
     daemon_key_preserve_immutable existing (k\<lparr>da_id := da_id existing, da_created_at := da_created_at existing\<rparr>)"

definition update_daemon_api_key :: "AuthenticatedEntity \<Rightarrow> uuid \<Rightarrow> DaemonApiKey \<Rightarrow> DaemonApiKey handler" where
  "update_daemon_api_key auth i request =
     acc_bind (answered (tbl_get_by_id daemon_keys_table i)) (\<lambda>r.
       case r of
         None \<Rightarrow> acc_err (err_entity_not_found ''Daemon API Key'' (uuid_display i))
       | Some existing \<Rightarrow>
           acc_bind (checked_access (validate_network_access (Some (dk_network_id (da_base existing))) (auth_network_ids auth))) (\<lambda>_.
             update_handler_of daemon_keys_table daemon_key_preserve (\<lambda>_. None) auth i
               (daemon_key_preserve_immutable existing request)))"

definition rotate_daemon_api_key :: "AuthenticatedEntity \<Rightarrow> uuid \<Rightarrow> IpAddr \<Rightarrow> string option \<Rightarrow> string handler" where
  "rotate_daemon_api_key auth i ip agent =
     internally (rotate_key daemon_keys_table DaemonKey daemon_key_denied daemon_key_set_key i ip agent auth)"

definition daemons_with_keys :: "uuid list \<Rightarrow> Accounts \<Rightarrow> (uuid \<times> string) list" where
  \<comment> \<open>key and name of the daemons that use one of the keys\<close>
  "daemons_with_keys ids st =
     concat (map (\<lambda>d. case dr_api_key_id d of Some k \<Rightarrow> if k \<in> set ids then [(k, dr_name d)] else [] | None \<Rightarrow> [])
       (hvalues (ac_daemons st)))"

definition delete_daemon_api_key :: "AuthenticatedEntity \<Rightarrow> uuid \<Rightarrow> unit handler" where
  "delete_daemon_api_key auth i =
     acc_bind (internally (acc_query (daemons_with_keys [i]))) (\<lambda>ds.
       if ds \<noteq> []
       then acc_err (err_conflict (''Cannot delete API key: currently in use by daemon(s): '' @ str_join '', '' (map snd ds)))
       else delete_handler_of daemon_keys_table auth i)"

definition bulk_delete_daemon_api_keys :: "AuthenticatedEntity \<Rightarrow> uuid list \<Rightarrow> BulkDeleteResponse handler" where
  "bulk_delete_daemon_api_keys auth ids =
     acc_bind (internally (acc_query (daemons_with_keys ids))) (\<lambda>ds.
       if ds \<noteq> []
       then acc_err (err_conflict (''Cannot delete API keys: currently in use by daemon(s): '' @
              str_join '', '' (map (\<lambda>(k, n). ''key '' @ uuid_display k @ '' (daemon: '' @ n @ '')'') ds)))
       else bulk_delete_handler_of daemon_keys_table auth ids)"

end
