(* ===== verification/Request_Auth.thy ===== *)
theory Request_Auth
  imports Api_Keys
begin

text \<open>
  The middlewares of a request (\<open>server/auth/middleware\<close>): who makes it (\<open>auth.rs\<close>), what the request
  keeps of the entities it loaded (\<open>cache.rs\<close>), the limit on the number of requests
  (\<open>rate_limit.rs\<close>), the checks on the plan of the organization (\<open>features.rs\<close>, \<open>billing.rs\<close>) and the
  block of changes in a demo organization (\<open>demo_mode.rs\<close>). A header that is not readable text is
  an absent header. The parsers of
  addresses and address ranges, of ids, and the verdict of the rate limiter are parameters.
\<close>

section \<open>The request and the configuration\<close>

record Request =
  rq_path :: string
  rq_safe :: bool \<comment> \<open>the method is GET, HEAD, OPTIONS or TRACE\<close>
  rq_client_ip :: "IpAddr option"
  rq_authorization :: "string option"
  rq_service_name :: "string option"
  rq_daemon_header :: "string option"
  rq_user_agent :: "string option"
  rq_session :: "string option" \<comment> \<open>the id in the session cookie\<close>
  rq_extracted :: "(ApiFailure + AuthenticatedEntity) option" \<comment> \<open>extensions\<close>
  rq_organization :: "Organization option"
  rq_network :: "(uuid \<times> uuid) option" \<comment> \<open>the network and its organization\<close>

datatype RateLimitKey = RateUser uuid | RateIp IpAddr
datatype RateLimiter = UserLimiter | AnonymousLimiter | ExternalLimiter

record ServerConfig =
  sc_metrics_token :: "string option"
  sc_allowed_ips :: "(string, string list) HashMap"
  sc_stripe_secret :: "string option"
  sc_enforce_billing :: bool
  sc_parse_cidr :: "string \<Rightarrow> (IpAddr \<Rightarrow> bool) option"
  sc_parse_ip :: "string \<Rightarrow> IpAddr option"
  sc_parse_uuid :: "string \<Rightarrow> uuid option"
  sc_wait :: "RateLimiter \<Rightarrow> RateLimitKey \<Rightarrow> nat option" \<comment> \<open>the seconds to wait, when over the quota\<close>

definition strip_prefix :: "string \<Rightarrow> string \<Rightarrow> string option" where
  "strip_prefix s p = (if starts_with s p then Some (drop (length p) s) else None)"

definition client_ip :: "Request \<Rightarrow> IpAddr" where
  "client_ip rq = (case rq_client_ip rq of Some i \<Rightarrow> i | None \<Rightarrow> V4 0)"

section \<open>Who makes the request\<close>

fun is_ip_allowed :: "ServerConfig \<Rightarrow> IpAddr \<Rightarrow> string list \<Rightarrow> bool" where
  "is_ip_allowed cfg ip [] = True"
| "is_ip_allowed cfg ip allowed =
     list_ex (\<lambda>entry. case sc_parse_cidr cfg entry of
         Some contains_ip \<Rightarrow> contains_ip ip
       | None \<Rightarrow> (case sc_parse_ip cfg entry of Some exact \<Rightarrow> ip = exact | None \<Rightarrow> False)) allowed"

definition key_log_prefix :: "string \<Rightarrow> string option" where
  \<comment> \<open>\<open>get(..8)\<close>\<close>
  "key_log_prefix raw = (if length raw < 8 then None else Some (take 8 raw))"

definition publish_api_key_auth_failed ::
    "Request \<Rightarrow> ApiKeyType \<Rightarrow> string \<Rightarrow> string option \<Rightarrow> ('e, unit) acc" where
  "publish_api_key_auth_failed rq t reason prefix =
     publish_auth ApiKeyAuthFailed None None (client_ip rq) (rq_user_agent rq)
       (JObj [(''key_type'', JStr (to_lowercase (key_type_name t))), (''reason'', JStr reason),
              (''key_prefix'', case prefix of Some p \<Rightarrow> JStr p | None \<Rightarrow> JNull)]) AuthAnonymous"

definition spawn_job :: "AccountJob \<Rightarrow> ('e, unit) acc" where
  "spawn_job j = acc_put (\<lambda>st. st\<lparr>ac_jobs := ac_jobs st @ [j]\<rparr>)"

definition or_default :: "'a \<Rightarrow> (AnyError, 'a) acc \<Rightarrow> ('e, 'a) acc" where
  \<comment> \<open>\<open>unwrap_or_default\<close>\<close>
  "or_default d m = acc_bind (acc_try m) (\<lambda>r. acc_ok (case r of Inr x \<Rightarrow> x | Inl _ \<Rightarrow> d))"

definition external_login :: "ServerConfig \<Rightarrow> Request \<Rightarrow> AuthenticatedEntity handler" where
  "external_login cfg rq =
     (let name = (case rq_service_name rq of Some s \<Rightarrow> to_lowercase s | None \<Rightarrow> ''unknown'');
          ip = client_ip rq
      in case hget (sc_allowed_ips cfg) name of
           Some allowed \<Rightarrow>
             if \<not> is_ip_allowed cfg ip allowed
             then acc_err (err_forbidden (''IP '' @ ip_display ip @ '' not allowed for external service '' @ quote @ name @ quote))
             else acc_ok (AuthExternal name)
         | None \<Rightarrow> acc_ok (AuthExternal name))"

definition has_api_access :: "Organization option \<Rightarrow> bool" where
  "has_api_access r =
     (case r of Some o1 \<Rightarrow> (case ob_plan (og_base o1) of Some p \<Rightarrow> bf_api_access (plan_features p) | None \<Rightarrow> False)
      | None \<Rightarrow> False)"

definition refuse_key :: "Request \<Rightarrow> ApiKeyType \<Rightarrow> string \<Rightarrow> timestamp option \<Rightarrow> AccountJob \<Rightarrow> ApiFailure \<Rightarrow> 'a handler" where
  \<comment> \<open>a key that is not valid any more; an expired one is disabled by a task\<close>
  "refuse_key rq t raw expires disable e =
     acc_bind (acc_env an_now) (\<lambda>now.
     acc_bind (publish_api_key_auth_failed rq t (if is_expired now expires then ''expired'' else ''disabled'')
                 (key_log_prefix raw)) (\<lambda>_.
     acc_bind (acc_when (is_expired now expires) (spawn_job disable)) (\<lambda>_. acc_err e)))"

definition user_key_found :: "Request \<Rightarrow> string \<Rightarrow> timestamp \<Rightarrow> UserApiKey \<Rightarrow> AuthenticatedEntity handler" where
  "user_key_found rq raw now k =
     (case check_key_validity UserKey now (uk_expires_at (ua_base k)) (uk_is_enabled (ua_base k)) of
        Inl e \<Rightarrow> refuse_key rq UserKey raw (uk_expires_at (ua_base k))
                   (UpdateUserKeyJob (on_user_key (\<lambda>b. b\<lparr>uk_is_enabled := False\<rparr>) k)) e
      | Inr _ \<Rightarrow>
          acc_bind (or_default None (tbl_get_by_id organizations_table (uk_organization_id (ua_base k)))) (\<lambda>org.
          if \<not> has_api_access org then acc_err (err_payment_required ''Your plan does not include api access'')
          else
            acc_bind (or_default [] (key_get_network_ids (ua_id k))) (\<lambda>networks.
            acc_bind (spawn_job (UpdateUserKeyJob (on_user_key (\<lambda>b. b\<lparr>uk_last_used := Some now\<rparr>) k))) (\<lambda>_.
              acc_ok (AuthApiKey (ua_id k) (uk_user_id (ua_base k)) (uk_organization_id (ua_base k))
                        (uk_permissions (ua_base k)) networks)))))"

definition user_key_login :: "Request \<Rightarrow> string \<Rightarrow> AuthenticatedEntity handler" where
  "user_key_login rq raw =
     acc_bind (acc_env (\<lambda>env. an_sha256 env raw)) (\<lambda>hashed.
     acc_bind (acc_env an_now) (\<lambda>now.
     acc_bind (or_default None (user_key_get_by_key hashed)) (\<lambda>r.
       case r of
         None \<Rightarrow>
           acc_bind (publish_api_key_auth_failed rq UserKey ''invalid_key'' (key_log_prefix raw)) (\<lambda>_.
             acc_err err_not_authenticated)
       | Some k \<Rightarrow> user_key_found rq raw now k)))"

definition daemon_key_found :: "Request \<Rightarrow> string \<Rightarrow> timestamp \<Rightarrow> uuid \<Rightarrow> DaemonApiKey \<Rightarrow> AuthenticatedEntity handler" where
  "daemon_key_found rq raw now daemon k =
     (case check_key_validity DaemonKey now (dk_expires_at (da_base k)) (dk_is_enabled (da_base k)) of
        Inl e \<Rightarrow> refuse_key rq DaemonKey raw (dk_expires_at (da_base k))
                   (UpdateDaemonKeyJob (on_daemon_key (\<lambda>b. b\<lparr>dk_is_enabled := False\<rparr>) k)) e
      | Inr _ \<Rightarrow>
          acc_bind (spawn_job (UpdateDaemonKeyJob (on_daemon_key (\<lambda>b. b\<lparr>dk_last_used := Some now\<rparr>) k))) (\<lambda>_.
            acc_ok (AuthDaemon (dk_network_id (da_base k)) (da_id k) daemon)))"

definition daemon_key_unknown :: "Request \<Rightarrow> string \<Rightarrow> uuid \<Rightarrow> AuthenticatedEntity handler" where
  \<comment> \<open>a daemon that registers for the first time is told to try again\<close>
  "daemon_key_unknown rq raw daemon =
     acc_bind (or_default False (acc_query (\<lambda>st. hget (ac_daemons st) daemon \<noteq> None))) (\<lambda>daemon_exists.
     acc_bind (publish_api_key_auth_failed rq DaemonKey ''invalid_key'' (key_log_prefix raw)) (\<lambda>_.
       acc_err (if daemon_exists then err_not_authenticated else err_daemon_key_not_yet_active)))"

definition daemon_key_login :: "ServerConfig \<Rightarrow> Request \<Rightarrow> string \<Rightarrow> AuthenticatedEntity handler" where
  "daemon_key_login cfg rq raw =
     (case Option.bind (rq_daemon_header rq) (sc_parse_uuid cfg) of
        None \<Rightarrow> acc_err err_daemon_required
      | Some daemon \<Rightarrow>
          acc_bind (acc_env (\<lambda>env. an_sha256 env raw)) (\<lambda>hashed.
          acc_bind (acc_env an_now) (\<lambda>now.
          acc_bind (or_default None (tbl_get_one daemon_keys_table (\<lambda>k. dk_key (da_base k) = hashed))) (\<lambda>r.
            case r of
              None \<Rightarrow> daemon_key_unknown rq raw daemon
            | Some k \<Rightarrow> daemon_key_found rq raw now daemon k))))"

definition failing_as :: "ApiFailure \<Rightarrow> (AnyError, 'a) acc \<Rightarrow> 'a handler" where
  "failing_as e = acc_map_err (\<lambda>_. e)"

definition session_login :: "Request \<Rightarrow> AuthenticatedEntity handler" where
  "session_login rq =
     (case rq_session rq of
        None \<Rightarrow> acc_err err_not_authenticated
      | Some sid \<Rightarrow>
          acc_bind (acc_map_err (\<lambda>_. err_not_authenticated) (session_get sid ws_user_id)) (\<lambda>found_user.
          acc_bind (case found_user of Some i \<Rightarrow> acc_ok i | None \<Rightarrow> acc_err err_not_authenticated) (\<lambda>i.
          acc_bind (failing_as err_not_authenticated (tbl_get_by_id users_table i)) (\<lambda>r.
            case r of
              None \<Rightarrow> acc_err err_not_authenticated
            | Some u \<Rightarrow>
                acc_bind
                  (if ub_permissions (us_base u) = Owner \<or> ub_permissions (us_base u) = Admin
                   then failing_as (err_internal ''Failed to load networks'')
                          (acc_query (\<lambda>st. keys_where (\<lambda>org. org = ub_organization_id (us_base u)) (ac_networks st)))
                   else failing_as (err_internal ''Failed to load user networks'') (user_get_network_ids (us_id u)))
                  (\<lambda>networks.
                    acc_ok (AuthUser (us_id u) (ub_organization_id (us_base u)) (ub_permissions (us_base u)) networks
                              (ub_email (us_base u)) (ub_email_verified (us_base u))))))))"

definition bearer_token :: "Request \<Rightarrow> string option" where
  "bearer_token rq = Option.bind (rq_authorization rq) (\<lambda>h. strip_prefix h ''Bearer '')"

definition is_metrics_token :: "ServerConfig \<Rightarrow> string \<Rightarrow> bool" where
  "is_metrics_token cfg raw =
     (case sc_metrics_token cfg of Some t \<Rightarrow> t \<noteq> [] \<and> raw = t | None \<Rightarrow> False)"

definition extract_auth :: "ServerConfig \<Rightarrow> Request \<Rightarrow> AuthenticatedEntity handler" where
  "extract_auth cfg rq =
     (case bearer_token rq of
        Some raw \<Rightarrow>
          if is_metrics_token cfg raw then external_login cfg rq
          else (case fst (api_key_from_key raw) of
                  UserKey \<Rightarrow> user_key_login rq raw
                | DaemonKey \<Rightarrow> daemon_key_login cfg rq raw)
      | None \<Rightarrow> session_login rq)"

definition from_request_parts :: "ServerConfig \<Rightarrow> Request \<Rightarrow> ('e, (ApiFailure + AuthenticatedEntity) \<times> Request) acc" where
  \<comment> \<open>the request is authenticated once, also when that fails\<close>
  "from_request_parts cfg rq =
     (case rq_extracted rq of
        Some r \<Rightarrow> acc_ok (r, rq)
      | None \<Rightarrow> acc_bind (acc_try (extract_auth cfg rq)) (\<lambda>r. acc_ok (r, rq\<lparr>rq_extracted := Some r\<rparr>)))"

text \<open>The spawned tasks write the row they captured, whatever has happened to it since.\<close>

fun run_job :: "AccountJob \<Rightarrow> ('e, unit) acc" where
  "run_job (UpdateUserKeyJob k) = acc_bind (acc_try (tbl_update user_keys_table k AuthSystem)) (\<lambda>_. acc_ok ())"
| "run_job (UpdateDaemonKeyJob k) = acc_bind (acc_try (tbl_update daemon_keys_table k AuthSystem)) (\<lambda>_. acc_ok ())"

definition run_nth_job :: "nat \<Rightarrow> ('e, unit) acc" where
  \<comment> \<open>the tasks run in any order\<close>
  "run_nth_job n = (\<lambda>env st.
     if n < length (ac_jobs st)
     then run_job (ac_jobs st ! n) env (st\<lparr>ac_jobs := take n (ac_jobs st) @ drop (Suc n) (ac_jobs st)\<rparr>)
     else (Inr (), st))"

section \<open>Entities the request has loaded\<close>

definition cached_organization :: "Request \<Rightarrow> uuid \<Rightarrow> (Organization \<times> Request) handler" where
  "cached_organization rq i =
     (let load = acc_bind (failing_as (err_internal ''Failed to load organization'') (tbl_get_by_id organizations_table i)) (\<lambda>r.
            case r of
              None \<Rightarrow> acc_err (err_forbidden ''Organization not found'')
            | Some o1 \<Rightarrow> acc_ok (o1, rq\<lparr>rq_organization := Some o1\<rparr>))
      in case rq_organization rq of
           Some o1 \<Rightarrow> if og_id o1 = i then acc_ok (o1, rq) else load
         | None \<Rightarrow> load)"

definition cached_network :: "Request \<Rightarrow> uuid \<Rightarrow> (uuid \<times> Request) handler" where
  \<comment> \<open>the organization of the network\<close>
  "cached_network rq i =
     (let load = acc_bind (failing_as (err_internal ''Failed to load network'') (acc_query (\<lambda>st. hget (ac_networks st) i))) (\<lambda>r.
            case r of
              None \<Rightarrow> acc_err (err_forbidden ''Network not found'')
            | Some org \<Rightarrow> acc_ok (org, rq\<lparr>rq_network := Some (i, org)\<rparr>))
      in case rq_network rq of
           Some (n, org) \<Rightarrow> if n = i then acc_ok (org, rq) else load
         | None \<Rightarrow> load)"

section \<open>Responses\<close>

datatype Body = FailureBody ErrorResponse | BillingBody string | OtherBody Json

record Response =
  rp_status :: nat
  rp_body :: Body
  rp_headers :: "(string \<times> string) list"

type_synonym Next = "Request \<Rightarrow> (ApiFailure, Response) acc"

definition failure_response :: "ApiFailure \<Rightarrow> Response" where
  "failure_response e = \<lparr>rp_status = fst (into_response e), rp_body = FailureBody (snd (into_response e)), rp_headers = []\<rparr>"

section \<open>The limit on the number of requests\<close>

record RateLimitInfo =
  rl_limit :: nat
  rl_remaining :: nat
  rl_reset :: nat

definition set_header :: "string \<Rightarrow> string \<Rightarrow> Response \<Rightarrow> Response" where
  "set_header n v r = r\<lparr>rp_headers := filter (\<lambda>h. fst h \<noteq> n) (rp_headers r) @ [(n, v)]\<rparr>"

definition apply_headers :: "RateLimitInfo \<Rightarrow> Response \<Rightarrow> Response" where
  "apply_headers i r =
     set_header ''X-RateLimit-Reset'' (show_nat (rl_reset i))
       (set_header ''X-RateLimit-Remaining'' (show_nat (rl_remaining i))
         (set_header ''X-RateLimit-Limit'' (show_nat (rl_limit i)) r))"

definition to_error_response :: "RateLimitInfo \<Rightarrow> Response" where
  "to_error_response i =
     set_header ''Retry-After'' (show_nat (rl_reset i))
       (apply_headers i (failure_response (err_too_many_requests
          (''Rate limit exceeded. Try again in '' @ show_nat (rl_reset i) @ '' seconds.''))))"

definition limiter_quota :: "RateLimiter \<Rightarrow> nat \<times> nat" where
  \<comment> \<open>requests per minute and burst of the three limiters\<close>
  "limiter_quota l = (case l of UserLimiter \<Rightarrow> (300, 150) | AnonymousLimiter \<Rightarrow> (40, 10) | ExternalLimiter \<Rightarrow> (60, 10))"

definition rate_check :: "nat \<Rightarrow> nat option \<Rightarrow> RateLimitInfo + RateLimitInfo" where
  "rate_check limit wait =
     (case wait of
        None \<Rightarrow> Inr \<lparr>rl_limit = limit, rl_remaining = limit - 1, rl_reset = 60\<rparr>
      | Some secs \<Rightarrow> Inl \<lparr>rl_limit = limit, rl_remaining = 0, rl_reset = secs\<rparr>)"

definition check_user_rate :: "ServerConfig \<Rightarrow> uuid \<Rightarrow> RateLimitInfo + RateLimitInfo" where
  "check_user_rate cfg u = rate_check 100 (sc_wait cfg UserLimiter (RateUser u))"

definition check_anonymous_rate :: "ServerConfig \<Rightarrow> IpAddr \<Rightarrow> RateLimitInfo + RateLimitInfo" where
  "check_anonymous_rate cfg ip = rate_check 40 (sc_wait cfg AnonymousLimiter (RateIp ip))"

definition check_external_rate :: "ServerConfig \<Rightarrow> IpAddr \<Rightarrow> RateLimitInfo + RateLimitInfo" where
  "check_external_rate cfg ip = rate_check 60 (sc_wait cfg ExternalLimiter (RateIp ip))"

definition demo_user_id :: uuid where
  "demo_user_id = 0x550e8400e29b41d4a716446655440050"

definition rate_limit_check :: "ServerConfig \<Rightarrow> IpAddr \<Rightarrow> AuthenticatedEntity option \<Rightarrow> RateLimitInfo + RateLimitInfo" where
  \<comment> \<open>the demonstration user is shared: its requests are counted per address\<close>
  "rate_limit_check cfg ip entity =
     (case entity of
        Some (AuthUser u _ _ _ _ _) \<Rightarrow> if u = demo_user_id then check_anonymous_rate cfg ip else check_user_rate cfg u
      | Some (AuthApiKey _ u _ _ _) \<Rightarrow> check_user_rate cfg u
      | Some (AuthExternal _) \<Rightarrow> check_external_rate cfg ip
      | _ \<Rightarrow> check_anonymous_rate cfg ip)"

definition rate_exempt :: "string \<Rightarrow> bool" where
  "rate_exempt path \<longleftrightarrow>
     \<not> starts_with path ''/api/'' \<or> path \<in> {''/api/billing/webhooks'', ''/api/config'', ''/api/metadata''}"

definition rate_limit_middleware :: "ServerConfig \<Rightarrow> IpAddr \<Rightarrow> Next \<Rightarrow> Next" where
  "rate_limit_middleware cfg ip next_step rq =
     (if rate_exempt (rq_path rq) then next_step rq
      else acc_bind (from_request_parts cfg rq) (\<lambda>(r, rq1).
        let entity = (case r of Inr e \<Rightarrow> Some e | Inl _ \<Rightarrow> None) in
        case entity of
          Some (AuthDaemon _ _ _) \<Rightarrow> next_step rq1
        | Some AuthSystem \<Rightarrow> next_step rq1
        | _ \<Rightarrow>
            (case rate_limit_check cfg ip entity of
               Inl info \<Rightarrow> acc_ok (to_error_response info)
             | Inr info \<Rightarrow> acc_bind (next_step rq1) (\<lambda>resp. acc_ok (apply_headers info resp)))))"

section \<open>What the plan includes\<close>

datatype FeatureCheck = InviteUsersFeature | ApiKeyFeature | ShareViewsFeature | CreateNetworkFeature

datatype FeatureCheckResult = FeatureAllowed | FeatureDenied ApiFailure | FeaturePayment string

definition plan_of :: "Organization \<Rightarrow> ('e, BillingPlan) acc" where
  \<comment> \<open>an organization without a plan gets the default one\<close>
  "plan_of o1 = acc_env (\<lambda>env. case ob_plan (og_base o1) of Some p \<Rightarrow> p | None \<Rightarrow> default_plan (an_commercial env))"

definition check_feature :: "FeatureCheck \<Rightarrow> BillingPlan \<Rightarrow> Organization \<Rightarrow> ('e, FeatureCheckResult) acc" where
  "check_feature f plan o1 =
     (case f of
        InviteUsersFeature \<Rightarrow>
          acc_ok (if \<not> can_invite_users plan
                  then FeatureDenied (err_forbidden ''Your plan does not include inviting users'') else FeatureAllowed)
      | ApiKeyFeature \<Rightarrow>
          acc_ok (if \<not> bf_api_access (plan_features plan)
                  then FeaturePayment ''Your plan does not include api access'' else FeatureAllowed)
      | ShareViewsFeature \<Rightarrow>
          acc_ok (if \<not> bf_share_views (plan_features plan)
                  then FeaturePayment ''Your plan does not include sharing. Upgrade to share live network diagrams.''
                  else FeatureAllowed)
      | CreateNetworkFeature \<Rightarrow>
          (case (included_networks (plan_config plan), network_cents (plan_config plan)) of
             (Some max_networks, None) \<Rightarrow>
               acc_bind (or_default 0 (acc_query (\<lambda>st. length (keys_where (\<lambda>org. org = og_id o1) (ac_networks st))))) (\<lambda>n.
                 acc_ok (if max_networks \<le> n
                         then FeatureDenied (err_forbidden (''Network limit reached ('' @ show_nat n @ ''/'' @
                                show_nat max_networks @ ''). Upgrade your plan for more networks.''))
                         else FeatureAllowed))
           | _ \<Rightarrow> acc_ok FeatureAllowed))"

definition require_feature ::
    "ServerConfig \<Rightarrow> FeatureCheck \<Rightarrow> Request \<Rightarrow> ((UserOrgPermissions \<times> BillingPlan \<times> Organization) \<times> Request) handler" where
  "require_feature cfg f rq =
     acc_bind (from_request_parts cfg rq) (\<lambda>(r, rq1).
     acc_bind (acc_lift (authorized RViewer r)) (\<lambda>entity.
     acc_bind (case auth_permissions entity of Some p \<Rightarrow> acc_ok p | None \<Rightarrow> acc_err (err_internal ''No permissions'')) (\<lambda>p.
     acc_bind (case auth_organization_id entity of Some i \<Rightarrow> acc_ok i | None \<Rightarrow> acc_err (err_internal ''No organization'')) (\<lambda>i.
     acc_bind (cached_organization rq1 i) (\<lambda>(o1, rq2).
     acc_bind (plan_of o1) (\<lambda>plan.
     acc_bind (check_feature f plan o1) (\<lambda>verdict.
       case verdict of
         FeatureAllowed \<Rightarrow> acc_ok ((p, plan, o1), rq2)
       | FeatureDenied e \<Rightarrow> acc_err e
       | FeaturePayment m \<Rightarrow> acc_err (err_payment_required m))))))))"

section \<open>The subscription\<close>

definition billing_error_response :: "string \<Rightarrow> Response" where
  \<comment> \<open>another shape than the other errors have\<close>
  "billing_error_response m = \<lparr>rp_status = 402, rp_body = BillingBody m, rp_headers = []\<rparr>"

fun plan_is_exempt :: "BillingPlan \<Rightarrow> bool" where
  "plan_is_exempt (CommunityPlan _) = True"
| "plan_is_exempt (FreePlan _) = True"
| "plan_is_exempt (CommercialSelfHosted _) = True"
| "plan_is_exempt (DemoPlan _) = True"
| "plan_is_exempt _ = False"

definition paying_statuses :: "string list" where
  "paying_statuses = [''active'', ''trialing'', ''pending_cancellation'', ''past_due'']"

definition acting_organization :: "Request \<Rightarrow> ApiFailure + AuthenticatedEntity \<Rightarrow> ('e, uuid option \<times> Request) acc" where
  \<comment> \<open>the organization of the caller; of a daemon, that of its network\<close>
  "acting_organization rq r =
     (case r of
        Inr (AuthUser _ i _ _ _ _) \<Rightarrow> acc_ok (Some i, rq)
      | Inr (AuthApiKey _ _ i _ _) \<Rightarrow> acc_ok (Some i, rq)
      | Inr (AuthDaemon n _ _) \<Rightarrow>
          acc_bind (acc_try (cached_network rq n)) (\<lambda>c.
            acc_ok (case c of Inr (i, rq1) \<Rightarrow> (Some i, rq1) | Inl _ \<Rightarrow> (None, rq)))
      | _ \<Rightarrow> acc_ok (None, rq))"

definition billing_verdict :: "BillingPlan \<Rightarrow> string option \<Rightarrow> string option" where
  \<comment> \<open>the refusal\<close>
  "billing_verdict plan status =
     (if plan_is_exempt plan then None
      else (case status of
              Some s \<Rightarrow> if s \<in> set paying_statuses then None
                        else if s = ''canceled'' then Some ''Your subscription has been canceled. Please renew to continue.''
                        else Some ''Active billing plan required. Please select a plan.''
            | None \<Rightarrow> Some ''Active billing plan required. Please select a plan.''))"

definition require_billing_for_users :: "ServerConfig \<Rightarrow> Next \<Rightarrow> Next" where
  "require_billing_for_users cfg next_step rq =
     (if sc_stripe_secret cfg = None \<and> \<not> sc_enforce_billing cfg then next_step rq
      else acc_bind (from_request_parts cfg rq) (\<lambda>(r, rq1).
           acc_bind (acting_organization rq1 r) (\<lambda>(org, rq2).
             case org of
               None \<Rightarrow> next_step rq2
             | Some i \<Rightarrow>
                 acc_bind (acc_try (cached_organization rq2 i)) (\<lambda>c.
                   case c of
                     Inl e \<Rightarrow> acc_ok (failure_response e)
                   | Inr (o1, rq3) \<Rightarrow>
                       acc_bind (plan_of o1) (\<lambda>plan.
                         case billing_verdict plan (ob_plan_status (og_base o1)) of
                           None \<Rightarrow> next_step rq3
                         | Some m \<Rightarrow> acc_ok (billing_error_response m))))))"

section \<open>Demo organizations\<close>

definition acting_permissions :: "ApiFailure + AuthenticatedEntity \<Rightarrow> UserOrgPermissions option" where
  "acting_permissions r = (case r of Inr e \<Rightarrow> auth_permissions e | Inl _ \<Rightarrow> None)"

definition demo_mode_middleware :: "ServerConfig \<Rightarrow> Next \<Rightarrow> Next" where
  "demo_mode_middleware cfg next_step rq =
     (if rq_safe rq \<or> starts_with (rq_path rq) ''/api/auth/'' then next_step rq
      else acc_bind (from_request_parts cfg rq) (\<lambda>(r, rq1).
           acc_bind (acting_organization rq1 r) (\<lambda>(org, rq2).
             case org of
               None \<Rightarrow> next_step rq2
             | Some i \<Rightarrow>
                 acc_bind (acc_try (cached_organization rq2 i)) (\<lambda>c.
                   case c of
                     Inl e \<Rightarrow> acc_ok (failure_response e)
                   | Inr (o1, rq3) \<Rightarrow>
                       acc_bind (plan_of o1) (\<lambda>plan.
                         if \<not> is_demo plan \<or> acting_permissions r = Some Owner then next_step rq3
                         else acc_ok (failure_response err_demo_mode_blocked))))))"

end
