(* ===== verification/User_Admin.thy ===== *)
theory User_Admin
  imports Request_Auth
begin

text \<open>
  The endpoints that administer the users of an organization (\<open>server/users/handlers.rs\<close>) and the
  invites (\<open>server/invites/service.rs\<close>, \<open>server/invites/handlers.rs\<close>). Each endpoint gets a caller its
  extractor admitted. The percent encoding of a redirect is a parameter.
\<close>

section \<open>Users\<close>

definition user_of_body :: "User \<Rightarrow> User" where
  \<comment> \<open>the fields the deserializer skips get their default\<close>
  "user_of_body = on_user (\<lambda>b. b\<lparr>ub_password_hash := None, ub_oidc_subject := None,
     ub_email_verification_token := None, ub_email_verification_expires := None,
     ub_password_reset_token := None, ub_password_reset_expires := None, ub_pending_email := None\<rparr>)"

definition caller_permissions :: "AuthenticatedEntity \<Rightarrow> ApiFailure \<Rightarrow> UserOrgPermissions handler" where
  "caller_permissions auth e = (case auth_permissions auth of Some p \<Rightarrow> acc_ok p | None \<Rightarrow> acc_err e)"

definition get_user_by_id :: "AuthenticatedEntity \<Rightarrow> uuid \<Rightarrow> User handler" where
  "get_user_by_id auth i =
     acc_bind (acc_lift (require_organization_id auth)) (\<lambda>org.
     acc_bind (found users_table i) (\<lambda>u.
       if ub_organization_id (us_base u) \<noteq> org then acc_err err_permission_denied
       else internally (hydrate_network_ids u)))"

definition shown_to :: "uuid \<Rightarrow> UserOrgPermissions \<Rightarrow> User \<Rightarrow> bool" where
  "shown_to caller p u \<longleftrightarrow> p = Owner \<or> ub_permissions (us_base u) < p \<or> us_id u = caller"

definition get_all_users :: "AuthenticatedEntity \<Rightarrow> PaginationParams \<Rightarrow> (User list \<times> PaginationMeta) handler" where
  "get_all_users auth page =
     acc_bind (required_organization auth) (\<lambda>org.
     acc_bind (required_user auth) (\<lambda>caller.
     acc_bind (caller_permissions auth err_user_required) (\<lambda>p.
     acc_bind (internally (tbl_get_all users_table (\<lambda>u. ub_organization_id (us_base u) = org))) (\<lambda>us.
       let (shown, meta) = paginate_in_memory page (filter (shown_to caller p) us) in
       acc_bind (internally (hydrate_network_ids_batch shown)) (\<lambda>us1. acc_ok (us1, meta))))))"

definition delete_user :: "AuthenticatedEntity \<Rightarrow> uuid \<Rightarrow> unit handler" where
  "delete_user auth i =
     acc_bind (required_organization auth) (\<lambda>org.
     acc_bind (caller_permissions auth err_user_required) (\<lambda>p.
     acc_bind (answered (tbl_get_by_id users_table i)) (\<lambda>r.
       case r of
         None \<Rightarrow> acc_err (failure_of_any (OtherErr (''User '' @ uuid_display i @ '' does not exist'')))
       | Some u \<Rightarrow>
           if p < ub_permissions (us_base u)
           then acc_err (err_unauthorized ''You can only delete users with lower permissions than you'')
           else
             acc_bind (answered (get_organization_owners org)) (\<lambda>owners.
               if ub_permissions (us_base u) = Owner \<and> length owners = 1
               then acc_err (err_conflict (''Can'' @ quote @ ''t delete the only owner in an organization.''))
               else delete_handler_of users_table (into_permission RMember auth) i))))"

definition kept_by_edit :: "User \<Rightarrow> User \<Rightarrow> User" where
  \<comment> \<open>what neither of the two edits may change\<close>
  "kept_by_edit existing =
     (let x = us_base existing in
      on_user (\<lambda>b. b\<lparr>ub_email := ub_email x, ub_password_hash := ub_password_hash x, ub_oidc_provider := ub_oidc_provider x,
        ub_oidc_subject := ub_oidc_subject x, ub_oidc_linked_at := ub_oidc_linked_at x\<rparr>))"

definition update_user :: "AuthenticatedEntity \<Rightarrow> uuid \<Rightarrow> User \<Rightarrow> User handler" where
  "update_user auth i body =
     (let request = user_of_body body in
      acc_bind (acc_lift (require_user_id auth)) (\<lambda>caller.
        if caller \<noteq> i then acc_err (err_unauthorized ''You can only update your own user record'')
        else
          acc_bind (found users_table i) (\<lambda>existing.
            if ub_organization_id (us_base request) \<noteq> ub_organization_id (us_base existing) then acc_err err_permission_denied
            else if ub_permissions (us_base request) \<noteq> ub_permissions (us_base existing) then acc_err err_permission_denied
            else internally (tbl_update users_table (kept_by_edit existing request) auth))))"

definition admin_update_user :: "AuthenticatedEntity \<Rightarrow> uuid \<Rightarrow> User \<Rightarrow> User handler" where
  "admin_update_user auth i body =
     (let request = user_of_body body in
      acc_bind (required_user auth) (\<lambda>admin.
      acc_bind (caller_permissions auth err_user_required) (\<lambda>p.
      acc_bind (found users_table i) (\<lambda>existing.
        if admin = i then acc_err err_permission_denied
        else if p \<le> ub_permissions (us_base existing) then acc_err err_permission_denied
        else if p \<noteq> Owner \<and> p \<le> ub_permissions (us_base request) then acc_err err_permission_denied
        else if ub_organization_id (us_base request) \<noteq> ub_organization_id (us_base existing) then acc_err err_permission_denied
        else
          acc_bind (internally (tbl_update users_table (kept_by_edit existing request) auth)) (\<lambda>updated.
          acc_bind (internally (user_set_network_ids i (ub_network_ids (us_base request)))) (\<lambda>_.
            acc_ok updated))))))"

definition bulk_delete_users :: "AuthenticatedEntity \<Rightarrow> uuid list \<Rightarrow> BulkDeleteResponse handler" where
  "bulk_delete_users auth ids =
     acc_bind (required_organization auth) (\<lambda>org.
     acc_bind (caller_permissions auth err_user_required) (\<lambda>p.
     acc_bind (answered (tbl_get_all users_table (\<lambda>u. us_id u \<in> set ids))) (\<lambda>us.
       if list_ex (\<lambda>u. p < ub_permissions (us_base u)) us
       then acc_err (err_unauthorized ''You can only delete users with lower permissions than you'')
       else
         acc_bind (answered (get_organization_owners org)) (\<lambda>owners.
           if list_all (\<lambda>o1. o1 \<in> set us) owners
           then acc_err (err_unauthorized (''Can'' @ quote @ ''t delete all of an organization'' @ quote @ ''s owners''))
           else bulk_delete_handler_of users_table (into_permission RMember auth) ids))))"

section \<open>Invites: the service\<close>

definition get_valid_invite :: "uuid \<Rightarrow> (AnyError, Invite) acc" where
  "get_valid_invite i =
     acc_bind (acc_query (\<lambda>st. hget (ac_invites st) i)) (\<lambda>r.
     acc_bind (acc_env an_now) (\<lambda>now.
       case r of
         None \<Rightarrow> acc_err (OtherErr ''Invalid or expired invite link'')
       | Some v \<Rightarrow>
           if \<not> invite_is_valid now v then acc_err (OtherErr ''Invite link has expired or reached maximum uses'')
           else acc_ok v))"

definition use_invite :: "uuid \<Rightarrow> (AnyError, Invite) acc" where
  "use_invite i =
     acc_bind (acc_query (\<lambda>st. hget (ac_invites st) i)) (\<lambda>r.
     acc_bind (acc_env an_now) (\<lambda>now.
       case r of
         None \<Rightarrow> acc_err (OtherErr ''Invalid or expired invite link'')
       | Some v \<Rightarrow>
           if \<not> invite_is_valid now v then acc_err (OtherErr ''Invite link has expired'')
           else
             acc_bind (acc_execute (drop_invites [i])) (\<lambda>_.
             acc_bind (publish_entity_of invites_table v Deleted (JObj [(''trigger_stale'', JBool False)]) AuthSystem) (\<lambda>_.
               acc_ok v))))"

definition invites_of :: "uuid \<Rightarrow> (AnyError, Invite list) acc" where
  "invites_of org = acc_query (select_rows invites_table (\<lambda>v. ib_organization_id (iv_base v) = org))"

definition cleanup_expired :: "('e, unit) acc" where
  \<comment> \<open>a failure is logged\<close>
  "cleanup_expired =
     acc_bind (acc_env an_now) (\<lambda>now.
     acc_bind (or_default [] (acc_query (select_rows invites_table (\<lambda>v. ib_expires_at (iv_base v) < now)))) (\<lambda>vs.
       if vs = [] then acc_ok ()
       else or_default () (acc_execute (drop_invites (map iv_id vs)))))"

definition revoke_org_invites :: "uuid \<Rightarrow> (AnyError, unit) acc" where
  "revoke_org_invites org =
     acc_bind (invites_of org) (\<lambda>vs. acc_when (vs \<noteq> []) (acc_execute (drop_invites (map iv_id vs))))"

definition list_active_invites :: "uuid \<Rightarrow> ('e, Invite list) acc" where
  "list_active_invites org =
     acc_bind (acc_env an_now) (\<lambda>now.
     acc_bind (or_default [] (invites_of org)) (\<lambda>vs. acc_ok (filter (invite_is_valid now) vs)))"

section \<open>Invites: the endpoints\<close>

record CreateInviteRequest =
  ci_expiration_hours :: "int option"
  ci_permissions :: UserOrgPermissions
  ci_network_ids :: "uuid list"
  ci_send_to :: "string option"

definition trim_end_matches :: "char \<Rightarrow> string \<Rightarrow> string" where
  "trim_end_matches c s = rev (dropWhile ((=) c) (rev s))"

definition seat_check :: "BillingPlan \<Rightarrow> uuid \<Rightarrow> unit handler" where
  \<comment> \<open>only a plan that sells no more seats has a limit\<close>
  "seat_check plan org =
     (case (included_seats (plan_config plan), seat_cents (plan_config plan)) of
        (Some max_seats, None) \<Rightarrow>
          acc_bind (or_default [] (tbl_get_all users_table (\<lambda>u. ub_organization_id (us_base u) = org))) (\<lambda>us.
          acc_bind (or_default [] (invites_of org)) (\<lambda>vs.
            let used = length us + length vs in
            if max_seats \<le> used
            then acc_err (err_forbidden (''Seat limit reached ('' @ show_nat used @ ''/'' @ show_nat max_seats @
                   ''). Upgrade your plan for more seats, or delete any unused pending invites.''))
            else acc_ok ()))
      | _ \<Rightarrow> acc_ok ())"

definition has_account_check :: "string option \<Rightarrow> unit handler" where
  "has_account_check send_to =
     (case send_to of
        None \<Rightarrow> acc_ok ()
      | Some email \<Rightarrow>
          acc_bind (or_default [] (tbl_get_all users_table (\<lambda>u. ub_email (us_base u) = email))) (\<lambda>us.
            if us \<noteq> []
            then acc_err (err_bad_request ''A user with this email already has an account. They must delete their account before joining a new organization.'')
            else acc_ok ()))"

fun email_of :: "AuthenticatedEntity \<Rightarrow> string option" where
  "email_of (AuthUser _ _ _ _ email _) = Some email"
| "email_of _ = None"

definition mail_invite :: "Invite \<Rightarrow> string option \<Rightarrow> string option \<Rightarrow> unit handler" where
  "mail_invite v send_to from_email =
     acc_bind (acc_env an_email_service) (\<lambda>configured.
       case (send_to, from_email) of
         (Some to, Some from_address) \<Rightarrow>
           if configured
           then answered (send_mail (InviteMail to from_address
                  (trim_end_matches (CHR ''/'') (ib_url (iv_base v)) @ ''/api/v1/invites/'' @ uuid_display (iv_id v) @ ''/accept'')))
           else acc_ok ()
       | _ \<Rightarrow> acc_ok ())"

definition create_invite :: "AuthenticatedEntity \<Rightarrow> BillingPlan \<Rightarrow> CreateInviteRequest \<Rightarrow> Invite handler" where
  \<comment> \<open>the plan comes from the extractor \<open>RequireFeature<InviteUsersFeature>\<close>\<close>
  "create_invite auth plan rq =
     acc_bind (required_organization auth) (\<lambda>org.
     acc_bind (required_user auth) (\<lambda>caller.
     acc_bind (caller_permissions auth (err_forbidden ''User or API key required'')) (\<lambda>p.
       if p < ci_permissions rq then acc_err (err_forbidden ''Cannot create invite with higher permissions than your own'')
       else if list_ex (\<lambda>n. n \<notin> set (auth_network_ids auth)) (ci_network_ids rq)
       then acc_err (err_forbidden (''Cannot grant access to networks you don'' @ quote @ ''t have access to''))
       else
         acc_bind (seat_check plan org) (\<lambda>_.
         acc_bind (has_account_check (ci_send_to rq)) (\<lambda>_.
         acc_bind acc_fresh (\<lambda>fresh. acc_bind (acc_env an_now) (\<lambda>now. acc_bind (acc_env an_public_url) (\<lambda>url.
           let hours = (case ci_expiration_hours rq of Some h \<Rightarrow> h | None \<Rightarrow> 168);
               v = invite_with_expiration fresh now org url caller hours (ci_permissions rq) (ci_network_ids rq) (ci_send_to rq) in
           acc_bind (internally (tbl_create invites_table v auth)) (\<lambda>created.
           acc_bind (first_time org InviteSent auth) (\<lambda>_.
           acc_bind (mail_invite created (ci_send_to rq) (email_of auth)) (\<lambda>_.
             acc_ok created)))))))))))"

definition valid_invite_for :: "AuthenticatedEntity \<Rightarrow> uuid \<Rightarrow> uuid \<Rightarrow> Invite handler" where
  "valid_invite_for auth org i =
     acc_bind (acc_map_err (\<lambda>e. err_bad_request (case e of ValidationErr m \<Rightarrow> m | OtherErr m \<Rightarrow> m)) (get_valid_invite i)) (\<lambda>v.
       if ib_organization_id (iv_base v) \<noteq> org then acc_err (err_entity_access_denied ''Invite'' (uuid_display i))
       else acc_ok v)"

definition get_invite :: "AuthenticatedEntity \<Rightarrow> uuid \<Rightarrow> Invite handler" where
  "get_invite auth i = acc_bind (required_organization auth) (\<lambda>org. valid_invite_for auth org i)"

definition manages_invite :: "uuid \<Rightarrow> UserOrgPermissions \<Rightarrow> Invite \<Rightarrow> bool" where
  "manages_invite caller p v \<longleftrightarrow> ib_created_by (iv_base v) = caller \<or> ib_permissions (iv_base v) < p \<or> p = Owner"

definition get_invites :: "AuthenticatedEntity \<Rightarrow> Invite list handler" where
  "get_invites auth =
     acc_bind (required_organization auth) (\<lambda>org.
     acc_bind (required_user auth) (\<lambda>caller.
     acc_bind (caller_permissions auth (err_forbidden ''User or API key required'')) (\<lambda>p.
     acc_bind (list_active_invites org) (\<lambda>vs. acc_ok (filter (manages_invite caller p) vs)))))"

definition revoke_invite :: "AuthenticatedEntity \<Rightarrow> uuid \<Rightarrow> unit handler" where
  "revoke_invite auth i =
     acc_bind (required_organization auth) (\<lambda>org.
     acc_bind (required_user auth) (\<lambda>caller.
     acc_bind (caller_permissions auth (err_forbidden ''User or API key required'')) (\<lambda>p.
     acc_bind (valid_invite_for auth org i) (\<lambda>v.
       if \<not> manages_invite caller p v then acc_err err_permission_denied
       else internally (tbl_delete invites_table i auth)))))"

section \<open>An invite is accepted\<close>

type_synonym Joining = "uuid \<times> UserOrgPermissions \<times> uuid list"

definition read_or_none :: "string \<Rightarrow> (WebSession \<Rightarrow> 'v option) \<Rightarrow> ('e, 'v option) acc" where
  \<comment> \<open>a session that cannot be read has nothing\<close>
  "read_or_none sid f = acc_bind (acc_try (session_get sid f)) (\<lambda>r. acc_ok (case r of Inr v \<Rightarrow> v | Inl _ \<Rightarrow> None))"

definition forget :: "string \<Rightarrow> (WebSession \<Rightarrow> WebSession) \<Rightarrow> ('e, unit) acc" where
  "forget sid g = acc_bind (acc_try (session_put sid g)) (\<lambda>_. acc_ok ())"

definition clear_pending_invite :: "string \<Rightarrow> ('e, unit) acc" where
  "clear_pending_invite sid =
     acc_bind (forget sid (\<lambda>w. w\<lparr>ws_pending_org_invite := None\<rparr>)) (\<lambda>_.
     acc_bind (forget sid (\<lambda>w. w\<lparr>ws_pending_invite_id := None\<rparr>)) (\<lambda>_.
     acc_bind (forget sid (\<lambda>w. w\<lparr>ws_pending_invite_permissions := None\<rparr>)) (\<lambda>_.
       forget sid (\<lambda>w. w\<lparr>ws_pending_network_ids := None\<rparr>))))"

definition process_pending_invite :: "string \<Rightarrow> ('e, Joining option) acc" where
  \<comment> \<open>the failure of \<open>use_invite\<close> is only logged\<close>
  "process_pending_invite sid =
     acc_bind (read_or_none sid ws_pending_org_invite) (\<lambda>r1. case r1 of None \<Rightarrow> acc_ok None | Some org \<Rightarrow>
     acc_bind (read_or_none sid ws_pending_invite_id) (\<lambda>r2. case r2 of None \<Rightarrow> acc_ok None | Some i \<Rightarrow>
     acc_bind (read_or_none sid ws_pending_invite_permissions) (\<lambda>r3. case r3 of None \<Rightarrow> acc_ok None | Some p \<Rightarrow>
     acc_bind (read_or_none sid ws_pending_network_ids) (\<lambda>r4. case r4 of None \<Rightarrow> acc_ok None | Some networks \<Rightarrow>
     acc_bind (acc_try (use_invite i)) (\<lambda>_.
     acc_bind (or_default None (tbl_get_by_id organizations_table org)) (\<lambda>r.
     acc_bind (case r of
                 Some o1 \<Rightarrow> if not_onboarded o1 InviteAccepted then publish_telemetry InviteAccepted org (JObj []) AuthSystem
                            else acc_ok ()
               | None \<Rightarrow> acc_ok ()) (\<lambda>_.
     acc_bind (clear_pending_invite sid) (\<lambda>_.
       acc_ok (Some (org, p, networks))))))))))"

datatype Redirect = RedirectTo string

definition error_redirect :: "(string \<Rightarrow> string) \<Rightarrow> string \<Rightarrow> Redirect" where
  "error_redirect encode m = RedirectTo (''/?error='' @ encode m)"

definition remember :: "(string \<Rightarrow> string) \<Rightarrow> string \<Rightarrow> (WebSession \<Rightarrow> WebSession) \<Rightarrow> (Redirect, unit) acc" where
  "remember encode sid g =
     acc_map_err (\<lambda>_. error_redirect encode ''Failed to process invite. Please try again.'') (session_put sid g)"

definition join_organization :: "(string \<Rightarrow> string) \<Rightarrow> uuid \<Rightarrow> Joining \<Rightarrow> (Redirect, unit) acc" where
  "join_organization encode u j =
     (case j of (org, p, networks) \<Rightarrow>
        acc_bind (acc_map_err (\<lambda>_. error_redirect encode (''Failed get user to update organization '' @ uuid_display u))
                    (tbl_get_by_id users_table u)) (\<lambda>r.
          case r of
            None \<Rightarrow> acc_err (error_redirect encode (''Failed to update organization for user '' @ uuid_display u))
          | Some user \<Rightarrow>
              acc_bind (acc_map_err (\<lambda>_. error_redirect encode (''Failed update user organization '' @ uuid_display u))
                (tbl_update users_table
                  (on_user (\<lambda>b. b\<lparr>ub_organization_id := org, ub_permissions := p, ub_network_ids := networks\<rparr>) user)
                  AuthSystem)) (\<lambda>_. acc_ok ())))"

definition accept_invite_link :: "(string \<Rightarrow> string) \<Rightarrow> string \<Rightarrow> uuid \<Rightarrow> (Redirect, Redirect) acc" where
  "accept_invite_link encode sid i =
     acc_bind (acc_map_err (\<lambda>_. error_redirect encode ''Invalid or expired invite link'') (get_valid_invite i)) (\<lambda>v.
     acc_bind (or_default None (tbl_get_by_id organizations_table (ib_organization_id (iv_base v)))) (\<lambda>org.
     acc_bind (or_default None (tbl_get_by_id users_table (ib_created_by (iv_base v)))) (\<lambda>inviter.
     acc_bind (remember encode sid (\<lambda>w. w\<lparr>ws_pending_org_invite := Some (ib_organization_id (iv_base v))\<rparr>)) (\<lambda>_.
     acc_bind (remember encode sid (\<lambda>w. w\<lparr>ws_pending_invite_id := Some i\<rparr>)) (\<lambda>_.
     acc_bind (remember encode sid (\<lambda>w. w\<lparr>ws_pending_invite_permissions := Some (ib_permissions (iv_base v))\<rparr>)) (\<lambda>_.
     acc_bind (remember encode sid (\<lambda>w. w\<lparr>ws_pending_network_ids := Some (ib_network_ids (iv_base v))\<rparr>)) (\<lambda>_.
     acc_bind (read_or_none sid ws_user_id) (\<lambda>visitor.
       case visitor of
         Some u \<Rightarrow>
           acc_bind (or_default None (tbl_get_by_id users_table u)) (\<lambda>r.
             if r \<noteq> None
             then acc_bind (acc_try (tbl_delete invites_table i AuthSystem)) (\<lambda>_.
                    acc_err (RedirectTo (''/error?type=already_in_org&message='' @
                      encode ''You are already a member of an organization. Please leave your current organization before accepting this invite.'')))
             else
               acc_bind (process_pending_invite sid) (\<lambda>pending.
               acc_bind (case pending of Some j \<Rightarrow> join_organization encode u j | None \<Rightarrow> acc_ok ()) (\<lambda>_.
                 acc_ok (RedirectTo ''/''))))
       | None \<Rightarrow>
           acc_ok (RedirectTo (''/onboarding?org_name='' @
             (case org of Some o1 \<Rightarrow> ob_name (og_base o1) | None \<Rightarrow> ''Unknown Organization'') @ ''&invited_by='' @
             (case inviter of Some x \<Rightarrow> ub_email (us_base x) | None \<Rightarrow> ''Unknown User'')))))))))))"

end
