(* ===== verification/Auth_Service.thy ===== *)
theory Auth_Service
  imports User_Admin
begin

text \<open>
  Registration, login and the mails around them (\<open>server/auth/service.rs\<close>) and the endpoints over them
  (\<open>server/auth/handlers.rs\<close>), without the identity providers. Times are in nanoseconds, the
  monotonic clock in seconds. Argon2, the display of validation errors, the list of disposable
  mail domains and the creation of the first network of an organization are parameters.
\<close>

section \<open>Requests\<close>

record LoginRequest =
  lr_email :: string
  lr_password :: string

record RegisterRequest =
  rr_email :: string
  rr_password :: string
  rr_terms_accepted :: bool
  rr_marketing_opt_in :: bool

definition password_too_short :: "string \<Rightarrow> bool" where
  "password_too_short p \<longleftrightarrow> length p < 10"

definition char_between :: "nat \<Rightarrow> nat \<Rightarrow> char \<Rightarrow> bool" where
  "char_between a b c \<longleftrightarrow> a \<le> of_char c \<and> of_char c \<le> b"

definition validate_password_complexity :: "string \<Rightarrow> bool" where
  \<comment> \<open>an upper-case letter, a lower-case letter and a digit (ASCII)\<close>
  "validate_password_complexity p \<longleftrightarrow>
     list_ex (char_between 65 90) p \<and> list_ex (char_between 97 122) p \<and> list_ex is_digit p"

definition validate_login_request :: "LoginRequest \<Rightarrow> string list" where
  "validate_login_request r =
     (if password_too_short (lr_password r) then [''Password must be at least 10 characters''] else [])"

definition validate_register_request :: "RegisterRequest \<Rightarrow> string list" where
  "validate_register_request r =
     (if password_too_short (rr_password r) then [''Password must be at least 10 characters''] else []) @
     (if validate_password_complexity (rr_password r) then []
      else [''Password must contain uppercase, lowercase, and number''])"

definition validated :: "(string list \<Rightarrow> string) \<Rightarrow> string list \<Rightarrow> (AnyError, unit) acc" where
  "validated show_errors errors =
     (if errors = [] then acc_ok () else acc_err (OtherErr (''Validation failed: '' @ show_errors errors)))"

record LoginRegisterParams =
  lp_org_id :: "uuid option"
  lp_permissions :: "UserOrgPermissions option"
  lp_ip :: IpAddr
  lp_user_agent :: "string option"
  lp_network_ids :: "uuid list"

record ProvisionUserParams =
  pu_email :: string
  pu_password_hash :: "string option"
  pu_oidc_subject :: "string option"
  pu_oidc_provider :: "string option"
  pu_org_id :: "uuid option"
  pu_permissions :: "UserOrgPermissions option"
  pu_network_ids :: "uuid list"
  pu_terms_accepted_at :: "timestamp option"
  pu_billing_enabled :: bool
  pu_marketing_opt_in :: bool

section \<open>Passwords, tokens and mails\<close>

definition max_login_attempts :: nat where "max_login_attempts = 5"
definition lockout_duration_secs :: nat where "lockout_duration_secs = 15 * 60"
definition verification_token_expiry_hours :: int where "verification_token_expiry_hours = 24"
definition password_reset_token_expiry_hours :: int where "password_reset_token_expiry_hours = 1"
definition resend_cooldown_secs :: nat where "resend_cooldown_secs = 60"

definition hours :: "int \<Rightarrow> timestamp" where "hours n = n * 3600000000000"

definition hash_password :: "string \<Rightarrow> (AnyError, string) acc" where
  \<comment> \<open>with a fresh salt\<close>
  "hash_password p = (\<lambda>env st.
     (case an_hash_error env (ac_ops st) p of
        Some m \<Rightarrow> Inl (OtherErr (''Password hashing failed: '' @ m))
      | None \<Rightarrow> Inr (an_hash_password env (ac_ops st) p), st\<lparr>ac_ops := Suc (ac_ops st)\<rparr>))"

definition verify_password :: "string \<Rightarrow> string \<Rightarrow> (AnyError, unit) acc" where
  "verify_password p hash =
     acc_bind (acc_env (\<lambda>env. an_hash_unreadable env hash)) (\<lambda>unreadable.
       case unreadable of
         Some m \<Rightarrow> acc_err (OtherErr (''Invalid password hash: '' @ m))
       | None \<Rightarrow>
           acc_bind (acc_env (\<lambda>env. an_verify_password env p hash)) (\<lambda>ok.
             if ok then acc_ok () else acc_err (OtherErr ''Invalid username or password'')))"

definition new_token :: "('e, string) acc" where
  "new_token = acc_bind acc_fresh (\<lambda>f. acc_ok (uuid_display f))"

definition save_user :: "User \<Rightarrow> (AnyError, unit) acc" where
  "save_user u = acc_bind (tbl_update users_table u AuthSystem) (\<lambda>_. acc_ok ())"

definition user_with_email :: "string \<Rightarrow> (AnyError, User option) acc" where
  "user_with_email email = tbl_get_one users_table (\<lambda>u. ub_email (us_base u) = email)"

definition users_with_email :: "string \<Rightarrow> (AnyError, User list) acc" where
  "users_with_email email = tbl_get_all users_table (\<lambda>u. ub_email (us_base u) = email)"

definition needs_email_service :: "(AnyError, unit) acc" where
  "needs_email_service =
     acc_bind (acc_env an_email_service) (\<lambda>b. if b then acc_ok () else acc_err (OtherErr ''Email service not configured''))"

definition publish_user_auth ::
    "AuthOperation \<Rightarrow> User \<Rightarrow> IpAddr \<Rightarrow> string option \<Rightarrow> Json \<Rightarrow> AuthenticatedEntity \<Rightarrow> ('e, unit) acc" where
  "publish_user_auth oper u ip agent meta auth =
     publish_auth oper (Some (us_id u)) (Some (ub_organization_id (us_base u))) ip agent meta auth"

definition set_verification_token :: "string \<Rightarrow> timestamp \<Rightarrow> User \<Rightarrow> User" where
  "set_verification_token token expires =
     on_user (\<lambda>b. b\<lparr>ub_email_verification_token := Some token, ub_email_verification_expires := Some expires\<rparr>)"

definition send_verification_email_internal :: "User \<Rightarrow> ('e, (AnyError + unit) \<times> User) acc" where
  \<comment> \<open>the result, and the caller's user, which has the token also when the update or the mail fails\<close>
  "send_verification_email_internal u =
     acc_bind (acc_env an_email_service) (\<lambda>configured.
       if \<not> configured then acc_ok (Inl (OtherErr ''Email service not configured''), u)
       else
         acc_bind new_token (\<lambda>token. acc_bind (acc_env an_now) (\<lambda>now. acc_bind (acc_env an_public_url) (\<lambda>url.
           let u1 = set_verification_token token (now + hours verification_token_expiry_hours) u in
           acc_bind (acc_try (acc_bind (save_user u1) (\<lambda>_.
             send_mail (VerificationMail (ub_email (us_base u1)) url token)))) (\<lambda>r.
             acc_ok (r, u1))))))"

section \<open>Registration\<close>

definition setup_metadata :: "PendingSetup option \<Rightarrow> bool \<Rightarrow> Json" where
  "setup_metadata setup opt_in =
     (let field = \<lambda>name get. (case Option.bind setup get of Some v \<Rightarrow> [(name, JStr v)] | None \<Rightarrow> []) in
      JObj ([(''org_name'', JStr (case setup of Some s \<Rightarrow> ps_org_name s | None \<Rightarrow> ''My Organization'')),
             (''marketing_opt_in'', JBool opt_in)] @
            field ''use_case'' ps_use_case @ field ''company_size'' ps_company_size @ field ''job_title'' ps_job_title @
            field ''referral_source'' ps_referral_source @ field ''referral_source_other'' ps_referral_source_other))"

definition first_organization :: "bool \<Rightarrow> PendingSetup option \<Rightarrow> bool \<Rightarrow> OrganizationBase" where
  \<comment> \<open>with billing there is no plan until one is selected\<close>
  "first_organization commercial setup billing =
     \<lparr>ob_stripe_customer_id = None, ob_name = (case setup of Some s \<Rightarrow> ps_org_name s | None \<Rightarrow> ''My Organization''),
      ob_plan = (if billing then None else Some (default_plan commercial)), ob_plan_status = None,
      ob_onboarding = (if setup \<noteq> None then [OnboardingModalCompleted] else []), ob_has_payment_method = False,
      ob_trial_end_date = None, ob_brevo_company_id = None,
      ob_plan_limit_notifications = \<lparr>ln_hosts = LimitNone, ln_networks = LimitNone, ln_seats = LimitNone\<rparr>\<rparr>"

definition organization_new :: "uuid \<Rightarrow> timestamp \<Rightarrow> OrganizationBase \<Rightarrow> Organization" where
  "organization_new fresh now b = \<lparr>og_id = fresh, og_created_at = now, og_updated_at = now, og_base = b\<rparr>"

definition provision_user :: "ProvisionUserParams \<Rightarrow> PendingSetup option \<Rightarrow> (AnyError, User) acc" where
  "provision_user pu setup =
     acc_bind (acc_env an_now) (\<lambda>now.
     acc_bind (case pu_org_id pu of
         Some org \<Rightarrow> acc_ok org
       | None \<Rightarrow>
           acc_bind acc_fresh (\<lambda>f. acc_bind (acc_env an_commercial) (\<lambda>commercial.
           acc_bind (tbl_create organizations_table
               (organization_new f now (first_organization commercial setup (pu_billing_enabled pu))) AuthSystem) (\<lambda>o1.
             acc_ok (og_id o1))))) (\<lambda>org.
     acc_bind acc_fresh (\<lambda>f.
       let permissions = (if pu_org_id pu = None then Owner
                          else (case pu_permissions pu of Some p \<Rightarrow> p | None \<Rightarrow> Viewer)) in
       acc_bind (case (pu_password_hash pu, pu_oidc_subject pu) of
           (Some hash, _) \<Rightarrow>
             user_create (user_new f now (user_base_password (pu_email pu) hash org permissions (pu_network_ids pu)
               (pu_terms_accepted_at pu))) AuthSystem
         | (None, Some subject) \<Rightarrow>
             user_create (user_new f now (user_base_oidc now (pu_email pu) subject (pu_oidc_provider pu) org permissions
               (pu_network_ids pu) (pu_terms_accepted_at pu))) AuthSystem
         | (None, None) \<Rightarrow> acc_err (OtherErr ''Must provide either password or OIDC credentials'')) (\<lambda>u.
       acc_bind (acc_when (pu_org_id pu = None)
           (publish_telemetry OrgCreated (ub_organization_id (us_base u))
             (setup_metadata setup (pu_marketing_opt_in pu)) (entity_of_user u))) (\<lambda>_.
         acc_ok u)))))"

definition register ::
    "(string list \<Rightarrow> string) \<Rightarrow> RegisterRequest \<Rightarrow> LoginRegisterParams \<Rightarrow> PendingSetup option \<Rightarrow> bool \<Rightarrow> (AnyError, User) acc" where
  "register show_errors rq lp setup billing =
     acc_bind (validated show_errors (validate_register_request rq)) (\<lambda>_.
     acc_bind (users_with_email (rr_email rq)) (\<lambda>taken.
       if taken \<noteq> [] then acc_err (OtherErr ''Email address already taken'')
       else
         acc_bind (acc_env an_now) (\<lambda>now.
         acc_bind (hash_password (rr_password rq)) (\<lambda>hash.
         acc_bind (provision_user
             \<lparr>pu_email = rr_email rq, pu_password_hash = Some hash, pu_oidc_subject = None, pu_oidc_provider = None,
              pu_org_id = lp_org_id lp, pu_permissions = lp_permissions lp, pu_network_ids = lp_network_ids lp,
              pu_terms_accepted_at = (if rr_terms_accepted rq then Some now else None),
              pu_billing_enabled = billing, pu_marketing_opt_in = rr_marketing_opt_in rq\<rparr> setup) (\<lambda>u.
         acc_bind (acc_env an_email_service) (\<lambda>has_email_service.
         acc_bind (if has_email_service
             then acc_bind (send_verification_email_internal u) (\<lambda>(r, u1). acc_ok u1)
             else let u1 = on_user (\<lambda>b. b\<lparr>ub_email_verified := True\<rparr>) u in
                  acc_bind (save_user u1) (\<lambda>_. acc_ok u1)) (\<lambda>u1.
         acc_bind (publish_user_auth Register u1 (lp_ip lp) (lp_user_agent lp)
             (JObj [(''method'', JStr ''password''), (''email_verified'', JBool (ub_email_verified (us_base u1)))])
             (entity_of_user u1)) (\<lambda>_.
           acc_ok u1))))))))"

section \<open>Login\<close>

definition elapsed :: "nat \<Rightarrow> ('e, nat) acc" where
  \<comment> \<open>seconds since an instant; the clock does not go back\<close>
  "elapsed since = acc_env (\<lambda>env. an_instant env - since)"

definition check_login_lockout :: "string \<Rightarrow> (AnyError, unit) acc" where
  "check_login_lockout email =
     acc_bind (acc_get (\<lambda>st. hget (ac_login_attempts st) email)) (\<lambda>r.
       case r of
         Some (failures, since) \<Rightarrow>
           if max_login_attempts \<le> failures
           then acc_bind (elapsed since) (\<lambda>secs.
                  if secs < lockout_duration_secs
                  then acc_err (OtherErr (''Too many failed login attempts. Try again in '' @
                         show_nat ((lockout_duration_secs - secs) div 60 + 1) @ '' minutes.''))
                  else acc_ok ())
           else acc_ok ()
       | None \<Rightarrow> acc_ok ())"

definition try_login :: "LoginRequest \<Rightarrow> (AnyError, User) acc" where
  "try_login rq =
     acc_bind (user_with_email (lr_email rq)) (\<lambda>r.
     acc_bind (case r of Some u \<Rightarrow> acc_ok u | None \<Rightarrow> acc_err (OtherErr ''Invalid email or password'')) (\<lambda>u.
     acc_bind (case ub_password_hash (us_base u) of Some h \<Rightarrow> acc_ok h | None \<Rightarrow> acc_err (OtherErr ''Invalid email or password'')) (\<lambda>hash.
     acc_bind (verify_password (lr_password rq) hash) (\<lambda>_.
       if \<not> ub_email_verified (us_base u) then acc_err (OtherErr ''Please verify your email before logging in'')
       else acc_ok u))))"

definition record_failure :: "nat \<Rightarrow> string \<Rightarrow> Accounts \<Rightarrow> Accounts" where
  "record_failure now email st =
     st\<lparr>ac_login_attempts := hinsert email
        (Suc (case hget (ac_login_attempts st) email of Some (n, _) \<Rightarrow> n | None \<Rightarrow> 0), now) (ac_login_attempts st)\<rparr>"

definition login_service ::
    "(string list \<Rightarrow> string) \<Rightarrow> LoginRequest \<Rightarrow> IpAddr \<Rightarrow> string option \<Rightarrow> (AnyError, User) acc" where
  "login_service show_errors rq ip agent =
     acc_bind (validated show_errors (validate_login_request rq)) (\<lambda>_.
     acc_bind (check_login_lockout (lr_email rq)) (\<lambda>_.
     acc_bind (acc_try (try_login rq)) (\<lambda>result.
       case result of
         Inr u \<Rightarrow>
           acc_bind (acc_put (\<lambda>st. st\<lparr>ac_login_attempts := hremove (lr_email rq) (ac_login_attempts st)\<rparr>)) (\<lambda>_.
           acc_bind (publish_user_auth LoginSuccess u ip agent (JObj [(''method'', JStr ''password'')]) (entity_of_user u)) (\<lambda>_.
             acc_ok u))
       | Inl e \<Rightarrow>
           acc_bind (publish_auth LoginFailed None None ip agent
               (JObj [(''method'', JStr ''password''), (''email'', JStr (lr_email rq))]) AuthAnonymous) (\<lambda>_.
           acc_bind (acc_env an_instant) (\<lambda>now.
           acc_bind (acc_put (record_failure now (lr_email rq))) (\<lambda>_. acc_err e))))))"

definition logout_service :: "uuid \<Rightarrow> IpAddr \<Rightarrow> string option \<Rightarrow> (AnyError, unit) acc" where
  "logout_service i ip agent =
     acc_bind (or_default None (tbl_get_by_id users_table i)) (\<lambda>r.
       case r of
         Some u \<Rightarrow> publish_user_auth LoggedOut u ip agent (JObj []) (entity_of_user u)
       | None \<Rightarrow> acc_ok ())"

section \<open>Passwords\<close>

definition user_required :: "uuid \<Rightarrow> (AnyError, User) acc" where
  "user_required i =
     acc_bind (tbl_get_by_id users_table i) (\<lambda>r.
       case r of Some u \<Rightarrow> acc_ok u | None \<Rightarrow> acc_err (OtherErr ''User not found''))"

definition update_password ::
    "uuid \<Rightarrow> string option \<Rightarrow> string \<Rightarrow> IpAddr \<Rightarrow> string option \<Rightarrow> AuthenticatedEntity \<Rightarrow> (AnyError, User) acc" where
  \<comment> \<open>the new password is not validated\<close>
  "update_password i current new_password ip agent auth =
     acc_bind (user_required i) (\<lambda>u.
     acc_bind (case ub_password_hash (us_base u) of
         None \<Rightarrow> acc_ok ()
       | Some hash \<Rightarrow>
           (case current of
              None \<Rightarrow> acc_err (OtherErr ''Current password is required to change your password'')
            | Some p \<Rightarrow> verify_password p hash)) (\<lambda>_.
     acc_bind (hash_password new_password) (\<lambda>hash. acc_bind (acc_env an_now) (\<lambda>now.
       let u1 = set_password now hash u in
       acc_bind (publish_user_auth PasswordChanged u1 ip agent
           (JObj [(''action'', JStr (if ub_password_hash (us_base u) \<noteq> None then ''changed'' else ''set''))]) auth) (\<lambda>_.
       acc_bind (tbl_update users_table u1 auth) (\<lambda>u2.
       acc_bind (send_mail_if_configured (PasswordChangedMail (ub_email (us_base u)))) (\<lambda>_.
         acc_ok u2)))))))"

definition initiate_password_reset :: "string \<Rightarrow> string \<Rightarrow> IpAddr \<Rightarrow> string option \<Rightarrow> (AnyError, unit) acc" where
  \<comment> \<open>the answer does not tell whether the user exists\<close>
  "initiate_password_reset email url ip agent =
     acc_bind needs_email_service (\<lambda>_.
     acc_bind (user_with_email email) (\<lambda>r.
       case r of
         None \<Rightarrow> acc_ok ()
       | Some u \<Rightarrow>
           acc_bind (publish_user_auth PasswordResetRequested u ip agent (JObj []) AuthAnonymous) (\<lambda>_.
           acc_bind new_token (\<lambda>token. acc_bind (acc_env an_now) (\<lambda>now.
             let u1 = on_user (\<lambda>b. b\<lparr>ub_password_reset_token := Some token,
                        ub_password_reset_expires := Some (now + hours password_reset_token_expiry_hours)\<rparr>) u in
             acc_bind (save_user u1) (\<lambda>_. send_mail (PasswordResetMail (ub_email (us_base u1)) url token)))))))"

definition without_reset_token :: "User \<Rightarrow> User" where
  "without_reset_token = on_user (\<lambda>b. b\<lparr>ub_password_reset_token := None, ub_password_reset_expires := None\<rparr>)"

definition complete_password_reset :: "string \<Rightarrow> string \<Rightarrow> IpAddr \<Rightarrow> string option \<Rightarrow> (AnyError, User) acc" where
  \<comment> \<open>the new password is not validated\<close>
  "complete_password_reset token new_password ip agent =
     acc_bind (tbl_get_one users_table (\<lambda>u. ub_password_reset_token (us_base u) = Some token)) (\<lambda>r.
     acc_bind (acc_env an_now) (\<lambda>now.
       case r of
         None \<Rightarrow> acc_err (OtherErr ''Invalid or expired password reset token'')
       | Some u \<Rightarrow>
           (case ub_password_reset_expires (us_base u) of
              None \<Rightarrow> acc_err (OtherErr ''Invalid password reset token'')
            | Some expires \<Rightarrow>
                if now > expires
                then acc_bind (save_user (without_reset_token u)) (\<lambda>_.
                       acc_err (OtherErr ''Password reset token has expired''))
                else
                  acc_bind (publish_user_auth PasswordResetCompleted u ip agent (JObj []) (entity_of_user u)) (\<lambda>_.
                  acc_bind (hash_password new_password) (\<lambda>hash.
                    let u1 = without_reset_token (set_password now hash u) in
                    acc_bind (save_user u1) (\<lambda>_. acc_ok u1))))))"

section \<open>Addresses\<close>

definition request_email_change ::
    "uuid \<Rightarrow> string option \<Rightarrow> string \<Rightarrow> IpAddr \<Rightarrow> string option \<Rightarrow> (AnyError, unit) acc" where
  \<comment> \<open>a user with neither a provider nor a password makes the source panic at \<open>unwrap\<close>\<close>
  "request_email_change i current new_email ip agent =
     acc_bind needs_email_service (\<lambda>_.
     acc_bind (user_required i) (\<lambda>u.
       if ub_oidc_provider (us_base u) \<noteq> None
       then acc_err (OtherErr ''Cannot change email for accounts linked to an identity provider'')
       else
         acc_bind (case current of
             None \<Rightarrow> acc_err (OtherErr ''Current password is required to change your email'')
           | Some p \<Rightarrow>
               (case ub_password_hash (us_base u) of
                  Some hash \<Rightarrow> verify_password p hash
                | None \<Rightarrow> acc_err (OtherErr ''called `Option::unwrap()` on a `None` value''))) (\<lambda>_.
         if to_lowercase new_email = to_lowercase (ub_email (us_base u))
         then acc_err (OtherErr ''New email must be different from your current email'')
         else
           acc_bind (users_with_email new_email) (\<lambda>taken.
             if taken \<noteq> [] then acc_err (OtherErr ''This email address is already in use'')
             else
               acc_bind new_token (\<lambda>token. acc_bind (acc_env an_now) (\<lambda>now. acc_bind (acc_env an_public_url) (\<lambda>url.
                 let u1 = set_verification_token token (now + hours verification_token_expiry_hours)
                            (on_user (\<lambda>b. b\<lparr>ub_pending_email := Some new_email\<rparr>) u) in
                 acc_bind (save_user u1) (\<lambda>_.
                 acc_bind (publish_user_auth EmailChangeRequested u1 ip agent (JObj [(''new_email'', JStr new_email)])
                     (entity_of_user u1)) (\<lambda>_.
                   send_mail (VerificationMail new_email url token))))))))))"

definition verified_user :: "string \<Rightarrow> User \<Rightarrow> User" where
  "verified_user email = on_user (\<lambda>b. b\<lparr>ub_pending_email := None, ub_email := email, ub_email_verified := True,
     ub_email_verification_token := None, ub_email_verification_expires := None\<rparr>)"

definition verify_email :: "string \<Rightarrow> IpAddr \<Rightarrow> string option \<Rightarrow> (AnyError, User) acc" where
  "verify_email token ip agent =
     acc_bind (tbl_get_one users_table (\<lambda>u. ub_email_verification_token (us_base u) = Some token)) (\<lambda>r.
     acc_bind (acc_env an_now) (\<lambda>now.
       case r of
         None \<Rightarrow> acc_err (OtherErr ''Invalid verification token'')
       | Some u \<Rightarrow>
           (case ub_email_verification_expires (us_base u) of
              None \<Rightarrow> acc_err (OtherErr ''Invalid verification token'')
            | Some expires \<Rightarrow>
                if now > expires
                then acc_err (OtherErr ''Verification token has expired. Please request a new one.'')
                else (case ub_pending_email (us_base u) of
                   Some pending \<Rightarrow>
                     (let old_email = ub_email (us_base u); u1 = verified_user pending u in
                      acc_bind (save_user u1) (\<lambda>_.
                      acc_bind (publish_user_auth EmailChanged u1 ip agent
                          (JObj [(''old_email'', JStr old_email), (''new_email'', JStr pending)]) (entity_of_user u1)) (\<lambda>_.
                      acc_bind (send_mail_if_configured (EmailChangedMail old_email pending)) (\<lambda>_.
                        acc_ok u1))))
                 | None \<Rightarrow>
                     (let u1 = verified_user (ub_email (us_base u)) u in
                      acc_bind (save_user u1) (\<lambda>_.
                      acc_bind (publish_user_auth EmailVerified u1 ip agent (JObj []) (entity_of_user u1)) (\<lambda>_.
                        acc_ok u1)))))))"

definition resend_verification_email :: "string \<Rightarrow> (AnyError, unit) acc" where
  "resend_verification_email email =
     acc_bind (acc_get (\<lambda>st. hget (ac_resend_cooldown st) email)) (\<lambda>sent.
     acc_bind (case sent of
         None \<Rightarrow> acc_ok ()
       | Some t \<Rightarrow>
           acc_bind (elapsed t) (\<lambda>secs.
             if secs < resend_cooldown_secs
             then acc_err (OtherErr (''Please wait '' @ show_nat (resend_cooldown_secs - secs) @
                    '' seconds before requesting another verification email''))
             else acc_ok ())) (\<lambda>_.
     acc_bind (user_with_email email) (\<lambda>r.
       case r of
         None \<Rightarrow> acc_err (OtherErr ''User not found'')
       | Some u \<Rightarrow>
           if ub_email_verified (us_base u) then acc_err (OtherErr ''Email is already verified'')
           else
             acc_bind (send_verification_email_internal u) (\<lambda>(sent_mail, _).
             acc_bind (acc_lift sent_mail) (\<lambda>_.
             acc_bind (acc_env an_instant) (\<lambda>now.
               acc_put (\<lambda>st. st\<lparr>ac_resend_cooldown := hinsert email now (ac_resend_cooldown st)\<rparr>)))))))"

section \<open>Cleanups\<close>

definition cleanup_old_login_attempts :: "('e, unit) acc" where
  "cleanup_old_login_attempts =
     acc_bind (acc_env an_instant) (\<lambda>now.
       acc_put (\<lambda>st. st\<lparr>ac_login_attempts :=
         filter (\<lambda>(_, _, last). now - last < lockout_duration_secs) (ac_login_attempts st)\<rparr>))"

definition cleanup_old_verification_cooldowns :: "('e, unit) acc" where
  "cleanup_old_verification_cooldowns =
     acc_bind (acc_env an_instant) (\<lambda>now.
       acc_put (\<lambda>st. st\<lparr>ac_resend_cooldown :=
         filter (\<lambda>(_, last). now - last < resend_cooldown_secs * 2) (ac_resend_cooldown st)\<rparr>))"

end
