(* ===== verification/Auth_Endpoints.thy ===== *)
theory Auth_Endpoints
  imports Auth_Service
begin

text \<open>
  The endpoints of the login pages (\<open>server/auth/handlers.rs\<close>), without those of the identity
  providers: the steps before registration, which live in the visitor's session, registration,
  login, and the user's password and address. The creation of the first network of a new
  organization (\<open>apply_pending_setup\<close>) and the list of disposable mail domains are parameters.
\<close>

section \<open>Hosts\<close>

definition demo_hosts :: "string list" where
  "demo_hosts = [''demo.scanopy.net'', ''localhost'', ''scanopy-staging.maya.cloud'']"

definition demo_only_host :: string where
  "demo_only_host = ''demo.scanopy.net''"

definition hostname_of :: "string \<Rightarrow> string" where
  \<comment> \<open>up to the first colon\<close>
  "hostname_of host = takeWhile (\<lambda>c. c \<noteq> CHR '':'') host"

definition is_demo_host :: "string \<Rightarrow> bool" where
  "is_demo_host host \<longleftrightarrow> hostname_of host \<in> set demo_hosts"

definition is_demo_only_host :: "string \<Rightarrow> bool" where
  "is_demo_only_host host \<longleftrightarrow> hostname_of host = demo_only_host"

record LoginConfig =
  lc_disable_registration :: bool
  lc_billing :: bool \<comment> \<open>\<open>stripe_secret\<close> is set; then the deployment is the cloud's\<close>
  lc_unwanted :: "string \<Rightarrow> bool"
  lc_show_errors :: "string list \<Rightarrow> string"
  lc_apply_setup :: "User \<Rightarrow> PendingSetup \<Rightarrow> unit handler"

section \<open>Before registration\<close>

record NetworkSetup =
  nw_name :: string
  nw_snmp_enabled :: bool
  nw_snmp_version :: "string option"
  nw_snmp_community :: "string option"

record SetupRequest =
  sr_organization_name :: string
  sr_network :: NetworkSetup

definition session_failure :: "string \<Rightarrow> (string, 'a) acc \<Rightarrow> 'a handler" where
  "session_failure what = acc_map_err (\<lambda>e. err_internal (what @ '': '' @ e))"

definition setup_refused :: "SetupRequest \<Rightarrow> ApiFailure option" where
  "setup_refused rq =
     (let nw = sr_network rq; name = trim (nw_name nw) in
      if trim (sr_organization_name rq) = [] then Some (err_field_empty ''organization_name'')
      else if 100 < length (sr_organization_name rq) then Some (err_bad_request ''Organization name must be 100 characters or less'')
      else if name = [] then Some (err_bad_request ''Network name cannot be empty'')
      else if 100 < length name then Some (err_bad_request ''Network name must be 100 characters or less'')
      else if nw_snmp_enabled nw then
        (case nw_snmp_community nw of
           None \<Rightarrow> Some (err_bad_request ''SNMP community string is required when SNMP is enabled'')
         | Some c \<Rightarrow>
             if c = [] then Some (err_bad_request ''SNMP community string is required when SNMP is enabled'')
             else if 256 < length c then Some (err_bad_request ''SNMP community string must be 256 characters or less'')
             else None)
      else None)"

definition setup_endpoint :: "string \<Rightarrow> SetupRequest \<Rightarrow> uuid handler" where
  "setup_endpoint sid rq =
     (case setup_refused rq of
        Some e \<Rightarrow> acc_err e
      | None \<Rightarrow>
          acc_bind acc_fresh (\<lambda>network.
            let nw = sr_network rq;
                pending = \<lparr>ps_org_name = trim (sr_organization_name rq),
                  ps_network = \<lparr>pn_name = trim (nw_name nw), pn_network_id = network, pn_snmp_enabled = nw_snmp_enabled nw,
                    pn_snmp_version = nw_snmp_version nw, pn_snmp_community = nw_snmp_community nw\<rparr>,
                  ps_use_case = None, ps_company_size = None, ps_job_title = None, ps_referral_source = None,
                  ps_referral_source_other = None\<rparr> in
            acc_bind (session_failure ''Failed to save setup data''
                (session_put sid (\<lambda>w. w\<lparr>ws_pending_setup := Some pending\<rparr>))) (\<lambda>_. acc_ok network)))"

definition or_from_session :: "string option \<Rightarrow> string \<Rightarrow> (WebSession \<Rightarrow> string option) \<Rightarrow> ('e, string option) acc" where
  \<comment> \<open>the session is read only when the setup has no value\<close>
  "or_from_session v sid f = (case v of Some x \<Rightarrow> acc_ok (Some x) | None \<Rightarrow> read_or_none sid f)"

definition extract_pending_setup :: "string \<Rightarrow> ('e, PendingSetup option) acc" where
  "extract_pending_setup sid =
     acc_bind (read_or_none sid ws_pending_setup) (\<lambda>r.
       case r of
         None \<Rightarrow> acc_ok None
       | Some s \<Rightarrow>
           acc_bind (or_from_session (ps_use_case s) sid ws_onboarding_use_case) (\<lambda>a.
           acc_bind (or_from_session (ps_job_title s) sid ws_onboarding_job_title) (\<lambda>b.
           acc_bind (or_from_session (ps_company_size s) sid ws_onboarding_company_size) (\<lambda>c.
           acc_bind (or_from_session (ps_referral_source s) sid ws_onboarding_referral_source) (\<lambda>d.
           acc_bind (or_from_session (ps_referral_source_other s) sid ws_onboarding_referral_source_other) (\<lambda>e.
             acc_ok (Some (s\<lparr>ps_use_case := a, ps_job_title := b, ps_company_size := c, ps_referral_source := d,
                             ps_referral_source_other := e\<rparr>))))))))"

definition clear_pending_setup :: "string \<Rightarrow> ('e, unit) acc" where
  "clear_pending_setup sid =
     acc_each (forget sid)
       [\<lambda>w. w\<lparr>ws_pending_setup := None\<rparr>, \<lambda>w. w\<lparr>ws_onboarding_step := None\<rparr>, \<lambda>w. w\<lparr>ws_onboarding_use_case := None\<rparr>,
        \<lambda>w. w\<lparr>ws_onboarding_job_title := None\<rparr>, \<lambda>w. w\<lparr>ws_onboarding_company_size := None\<rparr>,
        \<lambda>w. w\<lparr>ws_onboarding_referral_source := None\<rparr>, \<lambda>w. w\<lparr>ws_onboarding_referral_source_other := None\<rparr>]"

record OnboardingStepRequest =
  os_step :: string
  os_use_case :: "string option"
  os_job_title :: "string option"
  os_company_size :: "string option"
  os_referral_source :: "string option"
  os_referral_source_other :: "string option"

definition keep_step :: "string \<Rightarrow> string \<Rightarrow> string option \<Rightarrow> (string \<Rightarrow> WebSession \<Rightarrow> WebSession) \<Rightarrow> unit handler" where
  "keep_step sid what v g =
     (case v of
        None \<Rightarrow> acc_ok ()
      | Some x \<Rightarrow> session_failure (''Failed to save onboarding '' @ what) (session_put sid (g x)))"

definition onboarding_step :: "string \<Rightarrow> OnboardingStepRequest \<Rightarrow> unit handler" where
  "onboarding_step sid rq =
     acc_bind (keep_step sid ''step'' (Some (os_step rq)) (\<lambda>x w. w\<lparr>ws_onboarding_step := Some x\<rparr>)) (\<lambda>_.
     acc_bind (keep_step sid ''use_case'' (os_use_case rq) (\<lambda>x w. w\<lparr>ws_onboarding_use_case := Some x\<rparr>)) (\<lambda>_.
     acc_bind (keep_step sid ''job_title'' (os_job_title rq) (\<lambda>x w. w\<lparr>ws_onboarding_job_title := Some x\<rparr>)) (\<lambda>_.
     acc_bind (keep_step sid ''company_size'' (os_company_size rq) (\<lambda>x w. w\<lparr>ws_onboarding_company_size := Some x\<rparr>)) (\<lambda>_.
     acc_bind (keep_step sid ''referral_source'' (os_referral_source rq) (\<lambda>x w. w\<lparr>ws_onboarding_referral_source := Some x\<rparr>)) (\<lambda>_.
       keep_step sid ''referral_source_other'' (os_referral_source_other rq)
         (\<lambda>x w. w\<lparr>ws_onboarding_referral_source_other := Some x\<rparr>))))))"

record OnboardingState =
  on_step :: "string option"
  on_use_case :: "string option"
  on_org_name :: "string option"
  on_network :: "PendingNetworkSetup option"
  on_network_id :: "uuid option"

definition onboarding_state :: "string \<Rightarrow> OnboardingState handler" where
  "onboarding_state sid =
     acc_bind (read_or_none sid ws_onboarding_step) (\<lambda>step.
     acc_bind (read_or_none sid ws_onboarding_use_case) (\<lambda>use_case.
     acc_bind (read_or_none sid ws_pending_setup) (\<lambda>setup.
       acc_ok \<lparr>on_step = step, on_use_case = use_case, on_org_name = map_option ps_org_name setup,
               on_network = map_option ps_network setup,
               on_network_id = map_option (\<lambda>s. pn_network_id (ps_network s)) setup\<rparr>)))"

section \<open>Registration\<close>

definition email_in_use_check :: "string \<Rightarrow> unit handler" where
  "email_in_use_check email =
     acc_bind (answered (users_with_email email)) (\<lambda>us.
       if us \<noteq> [] then acc_err (api_coded 409 (UserEmailInUse email)) else acc_ok ())"

definition check_email :: "string \<Rightarrow> unit handler" where
  "check_email email = email_in_use_check email"

definition begin_session :: "string \<Rightarrow> uuid \<Rightarrow> unit handler" where
  "begin_session sid u = session_failure ''Failed to save session'' (session_put sid (\<lambda>w. w\<lparr>ws_user_id := Some u\<rparr>))"

definition registration_refused :: "LoginConfig \<Rightarrow> string \<Rightarrow> RegisterRequest \<Rightarrow> ApiFailure option" where
  "registration_refused cfg host rq =
     (if is_demo_only_host host then Some (err_forbidden ''Account creation is disabled on the demo site'')
      else if lc_disable_registration cfg then Some (err_forbidden ''User registration is disabled'')
      else if lc_billing cfg \<and> \<not> rr_terms_accepted rq
      then Some (err_bad_request ''Please accept terms and conditions to proceed'')
      else if lc_unwanted cfg (rr_email rq) \<and> lc_billing cfg
      then Some (err_conflict ''Email address uses a disposable domain. Please register with a non-disposable email address.'')
      else None)"

definition register_endpoint ::
    "LoginConfig \<Rightarrow> string \<Rightarrow> IpAddr \<Rightarrow> string option \<Rightarrow> string \<Rightarrow> RegisterRequest \<Rightarrow> User handler" where
  "register_endpoint cfg host ip agent sid rq =
     (case registration_refused cfg host rq of
        Some e \<Rightarrow> acc_err e
      | None \<Rightarrow>
          acc_bind (email_in_use_check (rr_email rq)) (\<lambda>_.
          acc_bind (process_pending_invite sid) (\<lambda>joining.
          acc_bind (if joining = None then extract_pending_setup sid else acc_ok None) (\<lambda>setup.
          acc_bind (answered (register (lc_show_errors cfg) rq
              \<lparr>lp_org_id = map_option fst joining, lp_permissions = map_option (\<lambda>j. fst (snd j)) joining, lp_ip = ip,
               lp_user_agent = agent,
               lp_network_ids = (case joining of Some j \<Rightarrow> snd (snd j) | None \<Rightarrow> [])\<rparr> setup (lc_billing cfg))) (\<lambda>u.
          acc_bind (begin_session sid (us_id u)) (\<lambda>_.
          acc_bind (case setup of
              Some s \<Rightarrow> acc_bind (lc_apply_setup cfg u s) (\<lambda>_. clear_pending_setup sid)
            | None \<Rightarrow> acc_ok ()) (\<lambda>_.
            acc_ok u)))))))"

section \<open>Login\<close>

definition demo_login_check :: "string \<Rightarrow> Organization option \<Rightarrow> ApiFailure option" where
  "demo_login_check host org =
     (case Option.bind org (\<lambda>o1. ob_plan (og_base o1)) of
        Some plan \<Rightarrow>
          if is_demo plan \<and> \<not> is_demo_host host
          then Some (err_forbidden (''You can'' @ quote @ ''t log in to the demo account on this instance.''))
          else if \<not> is_demo plan \<and> is_demo_only_host host
          then Some (err_forbidden ''You can only log in to the demo account on this instance.'')
          else None
      | None \<Rightarrow>
          if is_demo_only_host host
          then Some (err_forbidden ''You can only log in to the demo account on this instance.'')
          else None)"

definition cycle_id :: "string \<Rightarrow> string \<Rightarrow> (string, unit) acc" where
  \<comment> \<open>the session moves to a new id\<close>
  "cycle_id sid new_sid = (\<lambda>env st.
     let st1 = st\<lparr>ac_ops := Suc (ac_ops st)\<rparr> in
     case an_session_fails env (ac_ops st) of
       Some e \<Rightarrow> (Inl e, st1)
     | None \<Rightarrow> (Inr (), st1\<lparr>ac_sessions := hinsert new_sid (session_of sid st) (hremove sid (ac_sessions st))\<rparr>))"

definition login_endpoint ::
    "LoginConfig \<Rightarrow> string \<Rightarrow> IpAddr \<Rightarrow> string option \<Rightarrow> string \<Rightarrow> LoginRequest \<Rightarrow> (User \<times> string) handler" where
  \<comment> \<open>the user and the id of the session\<close>
  "login_endpoint cfg host ip agent sid rq =
     acc_bind (answered (login_service (lc_show_errors cfg) rq ip agent)) (\<lambda>u.
     acc_bind (answered (tbl_get_by_id organizations_table (ub_organization_id (us_base u)))) (\<lambda>org.
       case demo_login_check host org of
         Some e \<Rightarrow> acc_err e
       | None \<Rightarrow>
           acc_bind new_token (\<lambda>new_sid.
           acc_bind (session_failure ''Failed to cycle session'' (cycle_id sid new_sid)) (\<lambda>_.
           acc_bind (begin_session new_sid (us_id u)) (\<lambda>_. acc_ok (u, new_sid))))))"

definition session_delete :: "string \<Rightarrow> (string, unit) acc" where
  "session_delete sid = (\<lambda>env st.
     let st1 = st\<lparr>ac_ops := Suc (ac_ops st)\<rparr> in
     case an_session_fails env (ac_ops st) of
       Some e \<Rightarrow> (Inl e, st1)
     | None \<Rightarrow> (Inr (), st1\<lparr>ac_sessions := hremove sid (ac_sessions st)\<rparr>))"

definition logout_endpoint :: "IpAddr \<Rightarrow> string option \<Rightarrow> string \<Rightarrow> unit handler" where
  "logout_endpoint ip agent sid =
     acc_bind (read_or_none sid ws_user_id) (\<lambda>r.
     acc_bind (case r of Some u \<Rightarrow> answered (logout_service u ip agent) | None \<Rightarrow> acc_ok ()) (\<lambda>_.
       session_failure ''Failed to delete session'' (session_delete sid)))"

definition session_user :: "string \<Rightarrow> uuid handler" where
  "session_user sid =
     acc_bind (session_failure ''Failed to read session'' (session_get sid ws_user_id)) (\<lambda>r.
       case r of Some u \<Rightarrow> acc_ok u | None \<Rightarrow> acc_err err_not_authenticated)"

definition get_current_user :: "string \<Rightarrow> User handler" where
  "get_current_user sid =
     acc_bind (session_user sid) (\<lambda>i.
     acc_bind (answered (tbl_get_by_id users_table i)) (\<lambda>r.
       case r of Some u \<Rightarrow> acc_ok u | None \<Rightarrow> acc_err (err_entity_not_found ''User'' (uuid_display i))))"

section \<open>Password and address\<close>

definition update_password_auth ::
    "string \<Rightarrow> IpAddr \<Rightarrow> string option \<Rightarrow> AuthenticatedEntity \<Rightarrow> string option \<Rightarrow> string \<Rightarrow> User handler" where
  "update_password_auth sid ip agent auth current new_password =
     acc_bind (session_user sid) (\<lambda>i. answered (update_password i current new_password ip agent auth))"

definition request_email_change_endpoint ::
    "IpAddr \<Rightarrow> string option \<Rightarrow> AuthenticatedEntity \<Rightarrow> string option \<Rightarrow> string \<Rightarrow> unit handler" where
  "request_email_change_endpoint ip agent auth current new_email =
     acc_bind (acc_lift (require_user_id auth)) (\<lambda>i. answered (request_email_change i current new_email ip agent))"

definition forgot_password :: "IpAddr \<Rightarrow> string option \<Rightarrow> string \<Rightarrow> unit handler" where
  "forgot_password ip agent email =
     acc_bind (acc_env an_public_url) (\<lambda>url. answered (initiate_password_reset email url ip agent))"

definition reset_password :: "IpAddr \<Rightarrow> string option \<Rightarrow> string \<Rightarrow> string \<Rightarrow> string \<Rightarrow> User handler" where
  "reset_password ip agent sid token password =
     acc_bind (answered (complete_password_reset token password ip agent)) (\<lambda>u.
     acc_bind (begin_session sid (us_id u)) (\<lambda>_. acc_ok u))"

definition verify_email_endpoint :: "IpAddr \<Rightarrow> string option \<Rightarrow> string \<Rightarrow> string \<Rightarrow> User handler" where
  "verify_email_endpoint ip agent sid token =
     acc_bind (answered (verify_email token ip agent)) (\<lambda>u.
     acc_bind (begin_session sid (us_id u)) (\<lambda>_. acc_ok u))"

definition resend_verification :: "string \<Rightarrow> unit handler" where
  "resend_verification email = answered (resend_verification_email email)"

end
