(* ===== verification/Account_Logic.thy ===== *)
theory Account_Logic
  imports Auth_Endpoints
begin

text \<open>
  Facts on the calls of the account services: what a call that answered has done before
  (\<open>acc_results\<close>), what a call leaves alone (the locale \<open>view\<close>, interpreted on the tables),
  what the reads of the tables return, and a small database on which the properties are applied.
\<close>

named_theorems acc_results
named_theorems view_kept

section \<open>Results of calls\<close>

lemma acc_ok_result [acc_results]: "acc_ok x env st = r \<longleftrightarrow> r = (Inr x, st)"
  by (auto simp: acc_ok_def)

lemma acc_err_result [acc_results]: "acc_err e env st = r \<longleftrightarrow> r = (Inl e, st)"
  by (auto simp: acc_err_def)

lemma acc_bind_result [acc_results]:
  "acc_bind m f env st = (Inr y, st2) \<longleftrightarrow> (\<exists>x st1. m env st = (Inr x, st1) \<and> f x env st1 = (Inr y, st2))"
  by (auto simp: acc_bind_def split: prod.splits sum.splits)

lemma acc_try_result [acc_results]:
  "acc_try m env st = (Inr r, st1) \<longleftrightarrow> m env st = (r, st1)"
  by (auto simp: acc_try_def split: prod.splits)

lemma acc_map_err_result [acc_results]:
  "acc_map_err g m env st = (Inr x, st1) \<longleftrightarrow> m env st = (Inr x, st1)"
  by (auto simp: acc_map_err_def split: prod.splits sum.splits)

lemma acc_lift_result [acc_results]: "acc_lift r env st = (Inr x, st1) \<longleftrightarrow> r = Inr x \<and> st1 = st"
  by (auto simp: acc_lift_def)

lemma acc_env_result [acc_results]: "acc_env f env st = (Inr x, st1) \<longleftrightarrow> x = f env \<and> st1 = st"
  by (auto simp: acc_env_def)

lemma acc_get_result [acc_results]: "acc_get f env st = (Inr x, st1) \<longleftrightarrow> x = f st \<and> st1 = st"
  by (auto simp: acc_get_def)

lemma acc_put_result [acc_results]: "acc_put g env st = (Inr x, st1) \<longleftrightarrow> st1 = g st"
  by (auto simp: acc_put_def)

lemma acc_fresh_result [acc_results]:
  "acc_fresh env st = (Inr x, st1) \<longleftrightarrow> x = an_fresh env (ac_ops st) \<and> st1 = st\<lparr>ac_ops := Suc (ac_ops st)\<rparr>"
  by (auto simp: acc_fresh_def)

lemma acc_query_result [acc_results]:
  "acc_query f env st = (Inr x, st1) \<longleftrightarrow>
     an_refuse env (ac_ops st) = None \<and> st1 = st\<lparr>ac_ops := Suc (ac_ops st)\<rparr> \<and> x = f st1"
  by (auto simp: acc_query_def acc_statement_def Let_def split: option.splits)

lemma failing_as_result [acc_results]: "failing_as e m env st = (Inr x, st1) \<longleftrightarrow> m env st = (Inr x, st1)"
  by (simp add: failing_as_def acc_results)

lemma internally_result [acc_results]: "internally m env st = (Inr x, st1) \<longleftrightarrow> m env st = (Inr x, st1)"
  by (simp add: internally_def acc_results)

lemma answered_result [acc_results]: "answered m env st = (Inr x, st1) \<longleftrightarrow> m env st = (Inr x, st1)"
  by (simp add: answered_def acc_results)

lemma session_get_result [acc_results]:
  "session_get sid f env st = (Inr x, st1) \<longleftrightarrow>
     an_session_fails env (ac_ops st) = None \<and> x = f (session_of sid st) \<and> st1 = st\<lparr>ac_ops := Suc (ac_ops st)\<rparr>"
  by (auto simp: session_get_def Let_def split: option.splits)

lemma or_default_result [acc_results]:
  "or_default d m env st = (Inr x, st1) \<longleftrightarrow>
     (m env st = (Inr x, st1) \<or> (\<exists>e. m env st = (Inl e, st1) \<and> x = d))"
  by (cases "m env st"; cases "fst (m env st)") (auto simp: or_default_def acc_bind_def acc_try_def acc_ok_def)

lemma hash_password_result [acc_results]:
  "hash_password p env st = (Inr x, st1) \<longleftrightarrow>
     an_hash_error env (ac_ops st) p = None \<and> x = an_hash_password env (ac_ops st) p \<and>
     st1 = st\<lparr>ac_ops := Suc (ac_ops st)\<rparr>"
  by (auto simp: hash_password_def split: option.splits)

lemma generate_key_result [acc_results]:
  "generate_api_key_for_storage t env st = (Inr p, st1) \<longleftrightarrow>
     p = (let plain = key_prefix t @ an_random env (ac_ops st) in (plain, an_sha256 env plain)) \<and>
     st1 = st\<lparr>ac_ops := Suc (ac_ops st)\<rparr>"
  by (auto simp: generate_api_key_for_storage_def Let_def)

lemma verify_password_result [acc_results]:
  "verify_password p h env st = (Inr x, st1) \<longleftrightarrow>
     an_hash_unreadable env h = None \<and> an_verify_password env p h \<and> st1 = st"
  by (auto simp: verify_password_def acc_ok_def acc_err_def acc_bind_def acc_env_def split: option.splits)

section \<open>What a call leaves alone\<close>

definition spares :: "(Accounts \<Rightarrow> 'v) \<Rightarrow> ('e, 'a) acc \<Rightarrow> bool" where
  "spares v m \<longleftrightarrow> (\<forall>env st. v (snd (m env st)) = v st)"

lemma sparesD: "spares v m \<Longrightarrow> m env st = (r, st1) \<Longrightarrow> v st1 = v st"
  by (metis spares_def snd_conv)

lemma spares_basic [view_kept]:
  "spares v (acc_ok x)" "spares v (acc_err e)" "spares v (acc_lift r)" "spares v (acc_env f)" "spares v (acc_get g)"
  by (simp_all add: spares_def acc_ok_def acc_err_def acc_lift_def acc_env_def acc_get_def)

lemma spares_bind [view_kept]: "spares v m \<Longrightarrow> (\<And>x. spares v (f x)) \<Longrightarrow> spares v (acc_bind m f)"
  by (auto simp: spares_def acc_bind_def split: prod.splits sum.splits) (metis snd_conv)+

lemma spares_try [view_kept]: "spares v m \<Longrightarrow> spares v (acc_try m)"
  by (auto simp: spares_def acc_try_def split: prod.splits) (metis snd_conv)

lemma spares_map_err [view_kept]: "spares v m \<Longrightarrow> spares v (acc_map_err g m)"
  by (auto simp: spares_def acc_map_err_def split: prod.splits sum.splits) (metis snd_conv)+

lemma spares_when [view_kept]: "spares v m \<Longrightarrow> spares v (acc_when b m)"
  by (simp add: acc_when_def view_kept)

lemma spares_or_default [view_kept]: "spares v m \<Longrightarrow> spares v (or_default d m)"
  by (simp add: or_default_def view_kept)

lemma spares_internally [view_kept]: "spares v m \<Longrightarrow> spares v (internally m)"
  "spares v m \<Longrightarrow> spares v (answered m)" "spares v m \<Longrightarrow> spares v (failing_as e m)"
  by (simp_all add: internally_def answered_def failing_as_def view_kept)

lemma spares_map [view_kept]: "(\<And>x. spares v (f x)) \<Longrightarrow> spares v (acc_map f xs)"
  by (induction xs) (simp_all add: view_kept)

lemma spares_each [view_kept]: "(\<And>x. spares v (f x)) \<Longrightarrow> spares v (acc_each f xs)"
  by (induction xs) (simp_all add: view_kept)

lemma spares_if [view_kept]: "spares v m \<Longrightarrow> spares v n \<Longrightarrow> spares v (if b then m else n)"
  by simp

lemma spares_option [view_kept]: "spares v m \<Longrightarrow> (\<And>x. spares v (f x)) \<Longrightarrow> spares v (case r of None \<Rightarrow> m | Some x \<Rightarrow> f x)"
  by (cases r) simp_all

lemma spares_sum [view_kept]: "(\<And>x. spares v (f x)) \<Longrightarrow> (\<And>x. spares v (g x)) \<Longrightarrow> spares v (case r of Inl x \<Rightarrow> f x | Inr x \<Rightarrow> g x)"
  by (cases r) simp_all

lemma spares_prod [view_kept]: "(\<And>a b. spares v (f a b)) \<Longrightarrow> spares v (case r of (a, b) \<Rightarrow> f a b)"
  by (cases r) simp_all

text \<open>A part of the state the counter, the events and the mails are not in.\<close>

locale view =
  fixes v :: "Accounts \<Rightarrow> 'v"
  assumes v_ops: "v (st\<lparr>ac_ops := n\<rparr>) = v st"
    and v_events: "v (st\<lparr>ac_events := es\<rparr>) = v st"
    and v_mails: "v (st\<lparr>ac_mails := ms\<rparr>) = v st"
begin

lemma kept_query: "spares v (acc_query f)"
  by (simp add: spares_def acc_query_def acc_statement_def Let_def v_ops split: option.split)

lemma kept_fresh: "spares v acc_fresh"
  by (simp add: spares_def acc_fresh_def v_ops)

lemma kept_publish: "spares v (acc_publish mk)"
  by (simp add: acc_publish_def) (rule spares_bind[OF kept_fresh], simp add: spares_def v_events)

lemma kept_publish_auth: "spares v (publish_auth oper u org1 ip agent meta auth)"
  and kept_publish_telemetry: "spares v (publish_telemetry tele org2 meta auth)"
  and kept_publish_entity: "spares v (publish_entity_of T e eop meta auth)"
  and kept_publish_user: "spares v (publish_user_auth oper x ip agent meta auth)"
  by (simp_all add: publish_auth_def publish_telemetry_def publish_entity_of_def publish_user_auth_def kept_publish)

lemma kept_mail: "spares v (send_mail m)"
  by (simp add: spares_def send_mail_def v_mails split: option.split)

lemma kept_mail_if: "spares v (send_mail_if_configured m)"
  using kept_mail[of m] by (simp add: spares_def send_mail_if_configured_def)

lemma kept_hydrate: "spares v (hydrate_tags T e)"
  by (auto simp: hydrate_tags_def intro!: view_kept kept_query)

lemma kept_get: "spares v (tbl_get_by_id T i)" "spares v (tbl_get_one T sel)" "spares v (tbl_get_all T sel)"
  by (auto simp: tbl_get_by_id_def tbl_get_one_def tbl_get_all_def intro!: view_kept kept_query kept_hydrate)

lemma kept_generate: "spares v (generate_api_key_for_storage t)" "spares v (hash_password p)" "spares v (session_get sid f)"
  by (simp_all add: spares_def generate_api_key_for_storage_def hash_password_def session_get_def Let_def v_ops split: option.split)

lemmas kept = kept_query kept_fresh kept_publish kept_publish_auth kept_publish_telemetry kept_publish_entity
  kept_publish_user kept_mail kept_mail_if kept_hydrate kept_get kept_generate

end

interpretation users_view: view ac_users by unfold_locales simp_all
interpretation user_networks_view: view ac_user_networks by unfold_locales simp_all
interpretation user_keys_view: view ac_user_keys by unfold_locales simp_all
interpretation key_networks_view: view ac_key_networks by unfold_locales simp_all
interpretation daemon_keys_view: view ac_daemon_keys by unfold_locales simp_all
interpretation organizations_view: view ac_organizations by unfold_locales simp_all
interpretation networks_view: view ac_networks by unfold_locales simp_all
interpretation invites_view: view ac_invites by unfold_locales simp_all
interpretation attempts_view: view ac_login_attempts by unfold_locales simp_all
interpretation sessions_view: view ac_sessions by unfold_locales simp_all

section \<open>What the reads return\<close>

lemma user_read [acc_results]:
  "tbl_get_by_id users_table i env st = (Inr r, st1) \<longleftrightarrow>
     an_refuse env (ac_ops st) = None \<and> st1 = st\<lparr>ac_ops := Suc (ac_ops st)\<rparr> \<and> r = hget (ac_users st) i"
  by (cases "hget (ac_users st) i")
     (auto simp: tbl_get_by_id_def users_table_def hydrate_tags_def acc_results split: option.splits)

lemma organization_read [acc_results]:
  "tbl_get_by_id organizations_table i env st = (Inr r, st1) \<longleftrightarrow>
     an_refuse env (ac_ops st) = None \<and> st1 = st\<lparr>ac_ops := Suc (ac_ops st)\<rparr> \<and> r = hget (ac_organizations st) i"
  by (cases "hget (ac_organizations st) i")
     (auto simp: tbl_get_by_id_def organizations_table_def hydrate_tags_def acc_results split: option.splits)

lemma user_find [acc_results]:
  "tbl_get_one users_table sel env st = (Inr r, st1) \<longleftrightarrow>
     an_refuse env (ac_ops st) = None \<and> st1 = st\<lparr>ac_ops := Suc (ac_ops st)\<rparr> \<and> r = List.find sel (hvalues (ac_users st))"
  by (cases "List.find sel (hvalues (ac_users st))")
     (auto simp: tbl_get_one_def users_table_def hydrate_tags_def acc_results split: option.splits)

lemma daemon_key_find:
  assumes "tbl_get_one daemon_keys_table sel env st = (Inr (Some k), st1)"
  obtains stored ts where "stored \<in> set (hvalues (ac_daemon_keys st))" "sel stored"
    "k = on_daemon_key (\<lambda>b. b\<lparr>dk_tags := ts\<rparr>) stored"
proof -
  have tags: "\<exists>ts. k1 = on_daemon_key (\<lambda>b. b\<lparr>dk_tags := ts\<rparr>) k0"
    if "hydrate_tags daemon_keys_table k0 env st0 = (Inr k1, st2)" for k0 k1 st0 st2
    using that by (auto simp: hydrate_tags_def daemon_keys_table_def acc_results)
  have rows: "tb_rows daemon_keys_table = ac_daemon_keys"
    by (simp add: daemon_keys_table_def)
  from assms obtain stored st0 where
      found: "List.find sel (hvalues (ac_daemon_keys st)) = Some stored" and
      tagged: "hydrate_tags daemon_keys_table stored env st0 = (Inr k, st1)"
    unfolding tbl_get_one_def acc_bind_result acc_query_result rows
    by (clarsimp simp: acc_bind_result acc_ok_result split: option.splits)
  from find_Some_mem[OF found] tags[OF tagged] show ?thesis
    using that by blast
qed

lemma user_key_find:
  assumes "user_key_get_by_key h env st = (Inr (Some k), st1)"
  obtains stored ns ts where "stored \<in> set (hvalues (ac_user_keys st))" "uk_key (ua_base stored) = h"
    "k = on_user_key (\<lambda>b. b\<lparr>uk_network_ids := ns, uk_tags := ts\<rparr>) stored"
proof -
  have tags: "\<exists>ts. k1 = on_user_key (\<lambda>b. b\<lparr>uk_tags := ts\<rparr>) k0"
    if "hydrate_tags user_keys_table k0 env st0 = (Inr k1, st2)" for k0 k1 st0 st2
    using that by (auto simp: hydrate_tags_def user_keys_table_def acc_results)
  from assms obtain stored st0 ns where
      found: "List.find (\<lambda>k. uk_key (ua_base k) = h) (hvalues (ac_user_keys st)) = Some stored" and
      tagged: "hydrate_tags user_keys_table (on_user_key (\<lambda>b. b\<lparr>uk_network_ids := ns\<rparr>) stored) env st0 = (Inr k, st1)"
    unfolding user_key_get_by_key_def acc_bind_result acc_query_result
    by (clarsimp simp: acc_bind_result acc_ok_result split: option.splits)
  from found have "stored \<in> set (hvalues (ac_user_keys st))" "uk_key (ua_base stored) = h"
    using find_Some_mem by fastforce+
  moreover from tags[OF tagged] obtain ts where "k = on_user_key (\<lambda>b. b\<lparr>uk_network_ids := ns, uk_tags := ts\<rparr>) stored"
    by (auto simp: on_user_key_def)
  ultimately show ?thesis by (rule that)
qed

lemma publish_run:
  "acc_publish mk env st =
     (Inr (), st\<lparr>ac_ops := Suc (ac_ops st), ac_events := ac_events st @ [mk env (an_fresh env (ac_ops st))]\<rparr>)"
  by (simp add: acc_publish_def acc_bind_def acc_fresh_def)

definition acc_demo_env :: AccEnv where
  "acc_demo_env =
     \<lparr>an_now = 1000, an_instant = 100, an_fresh = \<lambda>n. 500 + of_nat n, an_random = \<lambda>_. ''0123'',
      an_refuse = \<lambda>_. None, an_tags_refused = \<lambda>_ _. None, an_hash_password = \<lambda>_ p. ''hash of '' @ p,
      an_hash_error = \<lambda>_ _. None,
      an_verify_password = \<lambda>p h. h = ''hash of '' @ p, an_hash_unreadable = \<lambda>_. None, an_sha256 = \<lambda>s. ''sha '' @ s, an_email_service = True,
      an_mail_fails = \<lambda>_. None, an_public_url = ''http://x/'', an_commercial = True, an_session_fails = \<lambda>_. None\<rparr>"

definition demo_user_base :: UserBase where
  "demo_user_base = user_base_password ''ann@x.org'' ''hash of correcthorse'' 1 Viewer [] None"

definition demo_account :: "uuid \<Rightarrow> string \<Rightarrow> uuid \<Rightarrow> UserOrgPermissions \<Rightarrow> User" where
  "demo_account i email org p =
     \<lparr>us_id = i, us_created_at = 0, us_updated_at = 0,
      us_base = demo_user_base\<lparr>ub_email := email, ub_organization_id := org, ub_permissions := p, ub_email_verified := True\<rparr>\<rparr>"

definition demo_organization :: "uuid \<Rightarrow> BillingPlan option \<Rightarrow> Organization" where
  "demo_organization i plan =
     \<lparr>og_id = i, og_created_at = 0, og_updated_at = 0,
      og_base = (first_organization True None True)\<lparr>ob_plan := plan\<rparr>\<rparr>"

definition demo_user_key :: "string \<Rightarrow> bool \<Rightarrow> UserApiKey" where
  "demo_user_key hash enabled =
     \<lparr>ua_id = 30, ua_created_at = 0, ua_updated_at = 0,
      ua_base = \<lparr>uk_key = hash, uk_name = ''ci'', uk_user_id = 7, uk_organization_id = 1, uk_permissions = Viewer,
        uk_last_used = None, uk_expires_at = None, uk_is_enabled = enabled, uk_tags = [], uk_network_ids = []\<rparr>\<rparr>"

definition demo_invite :: Invite where
  "demo_invite = invite_with_expiration 40 0 1 ''http://x/'' 7 168 Member [21] None"

definition demo_visitor :: WebSession where
  "demo_visitor = empty_session\<lparr>ws_user_id := Some 7\<rparr>"

definition demo_accounts :: Accounts where
  \<comment> \<open>Ann administers the organization 1, Bob is in the organization 2\<close>
  "demo_accounts =
     \<lparr>ac_users = [(7, demo_account 7 ''ann@x.org'' 1 Admin), (8, demo_account 8 ''bob@y.org'' 2 Viewer)],
      ac_user_networks = [], ac_organizations = [(1, demo_organization 1 None), (2, demo_organization 2 (Some (DemoPlan (plan_config get_free_plan))))],
      ac_networks = [(21, 1), (22, 2)], ac_user_keys = [(30, demo_user_key ''sha scp_u_new'' False)], ac_key_networks = [],
      ac_daemon_keys = [], ac_daemons = [], ac_invites = [], ac_entity_tags = [], ac_login_attempts = [],
      ac_resend_cooldown = [], ac_sessions = [(''s1'', demo_visitor)], ac_events = [], ac_mails = [], ac_jobs = [], ac_ops = 0\<rparr>"

definition demo_server_config :: ServerConfig where
  "demo_server_config =
     \<lparr>sc_metrics_token = None, sc_allowed_ips = [], sc_stripe_secret = Some ''sk'', sc_enforce_billing = False,
      sc_parse_cidr = \<lambda>_. None, sc_parse_ip = \<lambda>_. None, sc_parse_uuid = \<lambda>_. None, sc_wait = \<lambda>_ _. None\<rparr>"

definition demo_request :: Request where
  "demo_request =
     \<lparr>rq_path = ''/api/v1/hosts'', rq_safe = False, rq_client_ip = None, rq_authorization = None, rq_service_name = None,
      rq_daemon_header = None, rq_user_agent = None, rq_session = Some ''s1'', rq_extracted = None,
      rq_organization = None, rq_network = None\<rparr>"

lemmas demo_account_defs = acc_demo_env_def demo_user_base_def demo_account_def demo_organization_def demo_user_key_def
  demo_invite_def demo_visitor_def demo_accounts_def demo_server_config_def demo_request_def
  user_base_password_def empty_session_def first_organization_def invite_with_expiration_def

text \<open>The calls, to be run on the demonstration data.\<close>

lemmas acc_run = acc_bind_def acc_ok_def acc_err_def acc_lift_def acc_env_def acc_get_def acc_put_def acc_try_def acc_map_err_def
  acc_when_def acc_fresh_def acc_query_def acc_execute_def acc_statement_def publish_run publish_auth_def publish_telemetry_def
  publish_entity_of_def publish_user_auth_def or_default_def failing_as_def internally_def answered_def hydrate_tags_def
  store_tags_def tbl_get_by_id_def tbl_get_one_def tbl_get_all_def tbl_create_def tbl_update_def row_insert_def row_update_def
  first_clash_def hvalues_def hget_def hash_password_def generate_api_key_for_storage_def session_get_def session_put_def
  session_of_def Let_def

end
