(* ===== verification/Account_Claims.thy ===== *)
theory Account_Claims
  imports Account_Logic
begin

text \<open>
  What the account services may and may not change: API keys and invites never grant more than
  their creator has; the tokens of a password reset and of a verification; the edits of an admin;
  the spawned updates of a key; an invite that was revoked after its link was opened.
\<close>

section \<open>Writes\<close>

lemma statement_runs:
  "(\<And>n. an_refuse env n = None) \<Longrightarrow> acc_statement q env st =
     (case q (st\<lparr>ac_ops := Suc (ac_ops st)\<rparr>) of Inl e \<Rightarrow> (Inl e, st\<lparr>ac_ops := Suc (ac_ops st)\<rparr>) | Inr (x, st2) \<Rightarrow> (Inr x, st2))"
  by (simp add: acc_statement_def Let_def)

lemma row_update_result:
  assumes "row_update T e env st = (Inr x, st1)"
  shows "hget (tb_rows T (st\<lparr>ac_ops := Suc (ac_ops st)\<rparr>)) (tb_id T e) = None \<and> st1 = st\<lparr>ac_ops := Suc (ac_ops st)\<rparr> \<or>
    st1 = tb_put T e (st\<lparr>ac_ops := Suc (ac_ops st)\<rparr>)"
  using assms by (auto simp: row_update_def acc_statement_def Let_def split: option.splits if_splits)

lemma user_update_result:
  assumes "tbl_update users_table u auth env st = (Inr x, st1)"
  shows "x = u \<and> hget (ac_users st) (us_id u) \<noteq> None \<and> ac_users st1 = hinsert (us_id u) (user_row u) (ac_users st)"
proof -
  have simps: "tb_id users_table = us_id" "tb_rows users_table = ac_users" "tb_taggable users_table = None"
      "tb_put users_table = (\<lambda>u st. st\<lparr>ac_users := hinsert (us_id u) (user_row u) (ac_users st)\<rparr>)"
    by (simp_all add: users_table_def)
  from assms obtain current st2 st3 where
      found: "hget (ac_users st) (us_id u) = Some current" and st2: "st2 = st\<lparr>ac_ops := Suc (ac_ops st)\<rparr>" and
      put: "row_update users_table u env st2 = (Inr (), st3)" and
      pub: "publish_entity_of users_table u Updated (service_metadata (tb_suppress users_table (Some current) (Some u))) auth
              env st3 = (Inr () :: AnyError + unit, st1)" and x: "x = u"
    by (auto simp: tbl_update_def simps store_tags_def acc_bind_result user_read acc_ok_result acc_err_result split: option.splits)
  from row_update_result[OF put] found st2 have "ac_users st3 = hinsert (us_id u) (user_row u) (ac_users st)"
    by (auto simp: simps)
  with found x sparesD[OF users_view.kept_publish_entity pub] show ?thesis by simp
qed

section \<open>Keys and invites grant no more than their creator has\<close>

text \<open>C16: A user API key is created with a hash of the plaintext that is handed out, for the caller
  and its organization, with permissions that do not exceed the caller's and only networks the
  caller has access to, whatever owner, hash and organization the request named.\<close>

theorem created_key_within_creator:
  assumes "create_user_api_key auth k env st = (Inr (plain, created), st1)"
  shows "\<exists>p. auth_permissions auth = Some p \<and> uk_permissions (ua_base created) \<le> p \<and>
    set (uk_network_ids (ua_base created)) \<subseteq> set (auth_network_ids auth) \<and>
    Some (uk_user_id (ua_base created)) = auth_user_id auth \<and>
    Some (uk_organization_id (ua_base created)) = auth_organization_id auth \<and>
    uk_key (ua_base created) = an_sha256 env plain \<and> starts_with plain ''scp_u_''"
proof -
  have create: "ua_base x = ua_base k1" if "tbl_create user_keys_table k1 auth env st0 = (Inr x, st2)" for k1 x st0 st2
    using that by (auto simp: tbl_create_def user_keys_table_def acc_bind_result acc_ok_result Let_def split: if_splits)
  have nets: "set ns \<subseteq> set ms" if "key_validate_network_access ns ms = Inr ()" for ns ms
    using that by (auto simp: key_validate_network_access_def find_None_iff split: option.splits)
  have plain: "starts_with (''scp_u_'' @ s) ''scp_u_''" for s by simp
  from assms obtain u org p st2 st3 where
      u: "auth_user_id auth = Some u" "auth_organization_id auth = Some org" "auth_permissions auth = Some p" and
      perm: "key_validate_permissions (uk_permissions (ua_base k)) p = Inr ()" and
      acc: "key_validate_network_access (uk_network_ids (ua_base k)) (auth_network_ids auth) = Inr ()" and
      gen: "plain = ''scp_u_'' @ an_random env (ac_ops st)" and
      made: "create_with_networks (on_user_key (\<lambda>b. b\<lparr>uk_user_id := u, uk_organization_id := org, uk_key := an_sha256 env plain\<rparr>) k)
               (uk_network_ids (ua_base k)) auth env st2 = (Inr created, st3)"
    by (auto simp: create_user_api_key_def acc_bind_result acc_lift_result require_user_id_def require_organization_id_def
        require_permissions_def refused_if_def acc_err_result acc_ok_result internally_result generate_key_result Let_def
        on_user_key_def split: option.splits sum.splits)
  from made obtain x st4 st5 where
      "tbl_create user_keys_table (on_user_key (\<lambda>b. b\<lparr>uk_user_id := u, uk_organization_id := org, uk_key := an_sha256 env plain\<rparr>) k) auth env st2 = (Inr x, st4)"
      "created = on_user_key (\<lambda>b. b\<lparr>uk_network_ids := uk_network_ids (ua_base k)\<rparr>) x"
    by (auto simp: create_with_networks_def acc_bind_result acc_ok_result)
  with create have "ua_base created = (ua_base k)\<lparr>uk_user_id := u, uk_organization_id := org, uk_key := an_sha256 env plain\<rparr>"
    by (fastforce simp: on_user_key_def)
  with u perm nets[OF acc] gen plain show ?thesis
    by (auto simp: key_validate_permissions_def split: if_splits)
qed

text \<open>C17: An invite is created only with permissions and networks its creator has, and in the
  creator's name for the creator's organization.\<close>

theorem created_invite_within_creator:
  assumes "create_invite auth plan rq env st = (Inr v, st1)"
  shows "\<exists>p. auth_permissions auth = Some p \<and> ib_permissions (iv_base v) \<le> p \<and>
    set (ib_network_ids (iv_base v)) \<subseteq> set (auth_network_ids auth) \<and>
    Some (ib_organization_id (iv_base v)) = auth_organization_id auth \<and>
    Some (ib_created_by (iv_base v)) = auth_user_id auth"
proof -
  have create: "iv_base x = iv_base v1" if "tbl_create invites_table v1 auth env st0 = (Inr x, st2)" for v1 x st0 st2
    using that by (auto simp: tbl_create_def invites_table_def acc_bind_result acc_ok_result Let_def split: if_splits)
  from assms show ?thesis
    by (auto simp: create_invite_def required_organization_def required_user_def caller_permissions_def acc_bind_result
        acc_ok_result acc_err_result internally_result acc_env_result acc_fresh_result Let_def invite_with_expiration_def
        list_ex_iff dest!: create split: option.splits if_splits)
qed

theorem created_key_within_creator_witness:
  "\<exists>plain created st1. create_user_api_key (AuthUser 7 1 Admin [21] ''ann@x.org'' True)
     (demo_user_key ''forged'' True\<lparr>ua_id := uuid_nil\<rparr>) acc_demo_env demo_accounts = (Inr (plain, created), st1) \<and>
     uk_key (ua_base created) = an_sha256 acc_demo_env plain"
proof -
  have "\<exists>plain created st1. create_user_api_key (AuthUser 7 1 Admin [21] ''ann@x.org'' True)
      (demo_user_key ''forged'' True\<lparr>ua_id := uuid_nil\<rparr>) acc_demo_env demo_accounts = (Inr (plain, created), st1)"
    by (simp add: create_user_api_key_def require_user_id_def require_organization_id_def require_permissions_def refused_if_def
        key_validate_permissions_def key_validate_network_access_def create_with_networks_def first_time_def acc_run
        user_keys_table_def organizations_table_def on_user_key_def demo_account_defs permission_order not_onboarded_def)
  then show ?thesis using created_key_within_creator by blast
qed

theorem created_invite_within_creator_witness:
  "\<exists>v st1. create_invite (AuthUser 7 1 Admin [21] ''ann@x.org'' True) get_commercial_self_hosted_plan
     \<lparr>ci_expiration_hours = None, ci_permissions = Member, ci_network_ids = [21], ci_send_to = None\<rparr> acc_demo_env demo_accounts =
       (Inr v, st1) \<and> ib_permissions (iv_base v) \<le> Admin"
proof -
  have "\<exists>v st1. create_invite (AuthUser 7 1 Admin [21] ''ann@x.org'' True) get_commercial_self_hosted_plan
     \<lparr>ci_expiration_hours = None, ci_permissions = Member, ci_network_ids = [21], ci_send_to = None\<rparr> acc_demo_env demo_accounts =
       (Inr v, st1)"
    by (simp add: create_invite_def required_organization_def required_user_def caller_permissions_def seat_check_def
        has_account_check_def mail_invite_def first_time_def get_commercial_self_hosted_plan_def acc_run invites_table_def organizations_table_def demo_account_defs
        permission_order not_onboarded_def uuid_nil_def)
  then show ?thesis using created_invite_within_creator by fastforce
qed

section \<open>Spawned updates of a key\<close>

text \<open>C34: The task that records when a key was last used writes back the whole key it captured: when
  it runs, the stored row is the captured one again, whatever a rotation, an edit or a disabling
  has made of it in between.\<close>

theorem stale_key_update_wins:
  assumes "\<And>n. an_refuse env n = None" and "hget (ac_user_keys st) (ua_id k) = Some current"
    and "first_clash user_keys_table k st = None" and "tb_refs user_keys_table k st"
  shows "hget (ac_user_keys (snd (run_job (UpdateUserKeyJob k) env st))) (ua_id k) = Some (user_key_row k)"
proof -
  have simps: "tb_id user_keys_table = ua_id" "tb_rows user_keys_table = ac_user_keys" "tb_taggable user_keys_table = Some D_UserApiKey"
      "tb_put user_keys_table = (\<lambda>k st. st\<lparr>ac_user_keys := hinsert (ua_id k) (user_key_row k) (ac_user_keys st)\<rparr>)"
      "tb_tags user_keys_table = (\<lambda>k. Some (uk_tags (ua_base k)))"
    by (simp_all add: user_keys_table_def)
  have clash: "first_clash user_keys_table k (st\<lparr>ac_ops := n\<rparr>) = first_clash user_keys_table k st"
    "tb_refs user_keys_table k (st\<lparr>ac_ops := n\<rparr>) = tb_refs user_keys_table k st" for n
    by (simp_all add: first_clash_def simps) (simp add: user_keys_table_def)
  show ?thesis
    using assms by (simp add: tbl_update_def tbl_get_by_id_def hydrate_tags_def simps acc_bind_def acc_query_def
        statement_runs[OF assms(1)] acc_ok_def acc_try_def row_update_def clash store_tags_def publish_entity_of_def
        publish_run Let_def lookup_simps)
qed

theorem stale_key_update_wins_witness:
  \<comment> \<open>the key was rotated and disabled; the task brings the old, enabled one back\<close>
  "hget (ac_user_keys demo_accounts) 30 = Some (demo_user_key ''sha scp_u_new'' False) \<and>
   hget (ac_user_keys (snd (run_job (UpdateUserKeyJob (demo_user_key ''sha scp_u_old'' True)) acc_demo_env demo_accounts))) 30 =
     Some (demo_user_key ''sha scp_u_old'' True)"
  using stale_key_update_wins[of acc_demo_env demo_accounts "demo_user_key ''sha scp_u_old'' True" "demo_user_key ''sha scp_u_new'' False"]
  by (simp add: demo_account_defs hget_def first_clash_def user_keys_table_def hvalues_def user_key_row_def on_user_key_def)

section \<open>Edits of an admin\<close>

text \<open>C33: The admin's edit of a user does not look at organizations: an admin or owner of any
  organization changes the permissions of a user of any other one, as long as the user's present
  permissions are lower than the admin's and an admin who is no owner grants less than its own, and
  gives the user access to any networks that exist, whether or not the admin can reach them.\<close>

theorem admin_edits_foreign_user:
  assumes ok: "\<And>n. an_refuse env n = None" and target: "hget (ac_users st) i = Some existing" "us_id body = i" "admin \<noteq> i"
    and levels: "ub_permissions (us_base existing) < p" "p = Owner \<or> ub_permissions (us_base body) < p"
    and org: "ub_organization_id (us_base body) = ub_organization_id (us_base existing)"
    and db: "first_clash users_table (kept_by_edit existing (user_of_body body)) st = None"
      "hget (ac_organizations st) (ub_organization_id (us_base existing)) \<noteq> None"
    and nets: "distinct (ub_network_ids (us_base body))" "\<forall>n \<in> set (ub_network_ids (us_base body)). hget (ac_networks st) n \<noteq> None"
  shows "\<exists>updated st1 stored.
    admin_update_user (AuthUser admin admins_org p reach email verified) i body env st = (Inr updated, st1) \<and>
    hget (ac_users st1) i = Some stored \<and> ub_permissions (us_base stored) = ub_permissions (us_base body) \<and>
    networks_of i (ac_user_networks st1) = ub_network_ids (us_base body)"
proof -
  let ?u = "kept_by_edit existing (user_of_body body)"
  have simps: "tb_id users_table = us_id" "tb_rows users_table = ac_users" "tb_taggable users_table = None"
      "tb_put users_table = (\<lambda>u st. st\<lparr>ac_users := hinsert (us_id u) (user_row u) (ac_users st)\<rparr>)"
      "tb_refs users_table = (\<lambda>u st. hget (ac_organizations st) (ub_organization_id (us_base u)) \<noteq> None)"
      "tb_kind users_table = ''User''"
    by (simp_all add: users_table_def)
  have u: "us_id ?u = i" "ub_permissions (us_base ?u) = ub_permissions (us_base body)"
      "ub_organization_id (us_base ?u) = ub_organization_id (us_base existing)"
    using target org by (simp_all add: kept_by_edit_def user_of_body_def on_user_def Let_def)
  have clash: "first_clash users_table ?u (st\<lparr>ac_ops := n\<rparr>) = None" for n
    using db(1) by (simp add: first_clash_def simps)
  have body: "ub_network_ids (us_base (user_of_body body)) = ub_network_ids (us_base body)"
      "ub_permissions (us_base (user_of_body body)) = ub_permissions (us_base body)"
      "ub_organization_id (us_base (user_of_body body)) = ub_organization_id (us_base existing)"
    using org by (simp_all add: user_of_body_def on_user_def)
  have nets_ok: "\<not> list_ex (\<lambda>n. hget (ac_networks st) n = None) (ub_network_ids (us_base body))"
    using nets(2) by (auto simp: list_ex_iff)
  have levels': "\<not> p \<le> ub_permissions (us_base existing)" "\<not> (p \<noteq> Owner \<and> p \<le> ub_permissions (us_base body))"
    using levels by auto
  define st2 where "st2 = snd (tbl_update users_table ?u (AuthUser admin admins_org p reach email verified) env (st\<lparr>ac_ops := Suc (ac_ops st)\<rparr>))"
  have upd: "tbl_update users_table ?u (AuthUser admin admins_org p reach email verified) env (st\<lparr>ac_ops := Suc (ac_ops st)\<rparr>) = (Inr ?u, st2)"
      and st2: "ac_users st2 = hinsert i (user_row ?u) (ac_users st)" "ac_networks st2 = ac_networks st"
        "ac_user_networks st2 = ac_user_networks st"
    unfolding st2_def using target db(2)
    by (simp_all add: tbl_update_def tbl_get_by_id_def hydrate_tags_def simps acc_bind_def acc_query_def
        statement_runs[OF ok] acc_ok_def row_update_def clash u store_tags_def publish_entity_of_def publish_run Let_def)
  have nets_of: "networks_of i (filter (\<lambda>(k, _). k \<noteq> i) rows @ map (\<lambda>n. (i, n)) ns) = ns" for rows ns
    by (induction rows) (auto simp: networks_of_def filter_map comp_def)
  have "admin_update_user (AuthUser admin admins_org p reach email verified) i body env st =
      (Inr ?u, st2\<lparr>ac_ops := Suc (ac_ops st2), ac_user_networks :=
         filter (\<lambda>(k, _). k \<noteq> i) (ac_user_networks st2) @ map (\<lambda>n. (i, n)) (ub_network_ids (us_base body))\<rparr>)"
    using target(1,3) levels' nets(1) nets_ok st2
    by (simp add: admin_update_user_def required_user_def caller_permissions_def found_def tbl_get_by_id_def hydrate_tags_def
        simps acc_bind_def acc_ok_def acc_query_def statement_runs[OF ok] internally_def acc_map_err_def body upd
        user_set_network_ids_def replace_networks_def lookup_simps Let_def) blast
  then show ?thesis using st2(1) u(2) nets_of by (auto simp: lookup_simps user_row_def on_user_def)
qed

theorem admin_edits_foreign_user_witness:
  \<comment> \<open>Ann, admin of organization 1, makes Bob of organization 2 a member with access to network 21\<close>
  "\<exists>updated st1 stored.
    admin_update_user (AuthUser 7 1 Admin [21] ''ann@x.org'' True) 8
      (on_user (\<lambda>b. b\<lparr>ub_network_ids := [21]\<rparr>) (demo_account 8 ''bob@y.org'' 2 Member)) acc_demo_env demo_accounts = (Inr updated, st1) \<and>
    hget (ac_users st1) 8 = Some stored \<and> ub_permissions (us_base stored) = Member \<and> networks_of 8 (ac_user_networks st1) = [21]"
proof -
  let ?body = "on_user (\<lambda>b. b\<lparr>ub_network_ids := [21]\<rparr>) (demo_account 8 ''bob@y.org'' 2 Member)"
  have "first_clash users_table (kept_by_edit (demo_account 8 ''bob@y.org'' 2 Viewer) (user_of_body ?body)) demo_accounts = None"
    by (simp add: first_clash_def users_table_def hvalues_def kept_by_edit_def user_of_body_def on_user_def demo_account_defs user_clash_def
        to_lowercase_def char_lower_def Let_def)
  then show ?thesis
    using admin_edits_foreign_user[of acc_demo_env demo_accounts 8 "demo_account 8 ''bob@y.org'' 2 Viewer" ?body 7 Admin]
    by (simp add: demo_account_defs hget_def on_user_def permission_order)
qed

section \<open>An invite after its link was opened\<close>

text \<open>Calls that answer: the call ends with an answer, and the answer and the state are such.\<close>

definition ends :: "('a \<Rightarrow> Accounts \<Rightarrow> bool) \<Rightarrow> ('e, 'a) acc \<Rightarrow> AccEnv \<Rightarrow> Accounts \<Rightarrow> bool" where
  "ends Q m env st \<longleftrightarrow> (\<exists>x st1. m env st = (Inr x, st1) \<and> Q x st1)"

lemma ends_simps:
  "ends Q (acc_ok x) env st = Q x st" "ends P (acc_env f) env st = P (f env) st"
  "ends R acc_fresh env st = R (an_fresh env (ac_ops st)) (st\<lparr>ac_ops := Suc (ac_ops st)\<rparr>)"
  "ends S (acc_try m2) env st = S (fst (m2 env st)) (snd (m2 env st))"
  by (simp_all add: ends_def acc_ok_def acc_env_def acc_fresh_def acc_try_def case_prod_beta)

lemma ends_bind: "ends Q (acc_bind m f) env st = ends (\<lambda>x s. ends Q (f x) env s) m env st"
  by (auto simp: ends_def acc_bind_def split: prod.splits sum.splits)

lemma ends_map_err: "ends Q (acc_map_err g m) env st = ends Q m env st"
  by (auto simp: ends_def acc_map_err_def split: prod.splits sum.splits)

lemma ends_then:
  "ends P m env st \<Longrightarrow> (\<And>x s. P x s \<Longrightarrow> ends Q (f x) env s) \<Longrightarrow> ends Q (acc_bind m f) env st"
  by (auto simp: ends_def acc_bind_def)

lemma ends_mono: "ends P m env st \<Longrightarrow> (\<And>x s. P x s \<Longrightarrow> Q x s) \<Longrightarrow> ends Q m env st"
  by (auto simp: ends_def)

text \<open>The tables a registration reads and writes.\<close>

definition tables ::
    "Accounts \<Rightarrow> (uuid, User) HashMap \<times> (uuid \<times> uuid) list \<times> (uuid, Organization) HashMap \<times> (uuid, uuid) HashMap" where
  "tables st = (ac_users st, ac_user_networks st, ac_organizations st, ac_networks st)"

interpretation tables_view: view tables by unfold_locales (simp_all add: tables_def)

lemma invite_spared: "spares tables (use_invite i)" "spares tables (clear_pending_invite sid)"
proof -
  have "spares tables (acc_execute (drop_invites is))" for "is"
    by (auto simp: spares_def acc_execute_def acc_statement_def drop_invites_def tables_def Let_def split: option.split)
  then show "spares tables (use_invite i)"
    unfolding use_invite_def by (auto intro!: view_kept tables_view.kept split: option.split)
  have "spares tables (session_put sid g)" for g
    by (auto simp: spares_def session_put_def tables_def Let_def split: option.split)
  then have "spares tables (forget sid g :: ('e, unit) acc)" for g
    unfolding forget_def by (auto intro!: view_kept)
  then show "spares tables (clear_pending_invite sid)"
    unfolding clear_pending_invite_def by (intro view_kept)
qed

lemma read_spared: "spares tables (read_or_none sid f)"
  unfolding read_or_none_def by (intro view_kept tables_view.kept)

lemma answers_then:
  "\<exists>x st1. m env st = (Inr x, st1) \<Longrightarrow> (\<And>x st1. fst (f x env st1) = Inr y) \<Longrightarrow> fst (acc_bind m f env st) = Inr y"
  by (auto simp: acc_bind_def)

lemma answers:
  "\<exists>x st1. acc_try m env st = (Inr x, st1)"
  "\<exists>x st1. or_default d m2 env st = (Inr x, st1)"
  "\<exists>x st1. acc_ok a env st = (Inr x, st1)"
  "\<exists>x st1. publish_telemetry t org2 meta auth env st = (Inr x, st1)"
  "\<exists>x st1. forget sid g env st = (Inr x, st1)"
  by (auto simp: acc_try_def or_default_def acc_bind_def acc_ok_def publish_telemetry_def publish_run forget_def
      split: prod.splits sum.splits)

lemma clear_answers: "\<exists>x st1. clear_pending_invite sid env st = (Inr x, st1)"
  by (auto simp: clear_pending_invite_def forget_def acc_bind_def acc_try_def acc_ok_def split: prod.splits sum.splits)

text \<open>What the link of an invite has put into a visitor's session.\<close>

definition opened_link :: "string \<Rightarrow> uuid \<Rightarrow> UserOrgPermissions \<Rightarrow> uuid list \<Rightarrow> Accounts \<Rightarrow> bool" where
  "opened_link sid org p networks st \<longleftrightarrow>
     ws_pending_org_invite (session_of sid st) = Some org \<and> ws_pending_invite_id (session_of sid st) \<noteq> None \<and>
     ws_pending_invite_permissions (session_of sid st) = Some p \<and> ws_pending_network_ids (session_of sid st) = Some networks"

lemma pending_invite_ends:
  assumes "\<And>n. an_session_fails env n = None" and "opened_link sid org p networks st"
  shows "ends (\<lambda>j s. j = Some (org, p, networks) \<and> tables s = tables st) (process_pending_invite sid) env st"
proof -
  obtain i where w: "ws_pending_org_invite (session_of sid st) = Some org" "ws_pending_invite_id (session_of sid st) = Some i"
    "ws_pending_invite_permissions (session_of sid st) = Some p" "ws_pending_network_ids (session_of sid st) = Some networks"
    using assms(2) by (auto simp: opened_link_def)
  have read: "acc_bind (read_or_none sid f) h env st1 = h (f (session_of sid st1)) env (st1\<lparr>ac_ops := Suc (ac_ops st1)\<rparr>)"
    for f :: "WebSession \<Rightarrow> 'v option" and h :: "'v option \<Rightarrow> ('e, Joining option) acc" and st1
    by (simp add: read_or_none_def acc_bind_def acc_try_def session_get_def assms(1) acc_ok_def Let_def)
  have sess: "session_of sid (st1\<lparr>ac_ops := n\<rparr>) = session_of sid st1" for st1 n by (simp add: session_of_def)
  have "fst (process_pending_invite sid env st) = (Inr (Some (org, p, networks)) :: 'e + Joining option)"
    unfolding process_pending_invite_def read sess w option.case
    by (intro answers_then answers clear_answers) (auto simp: publish_telemetry_def publish_run acc_ok_def split: option.split)
  moreover have "spares tables (process_pending_invite sid :: ('e, Joining option) acc)"
    unfolding process_pending_invite_def
    by (intro view_kept tables_view.kept invite_spared read_spared)
  ultimately show ?thesis
    unfolding ends_def spares_def by (metis prod.collapse)
qed

text \<open>A user of the organization with these permissions and networks is stored.\<close>

definition member_of :: "uuid \<Rightarrow> UserOrgPermissions \<Rightarrow> uuid list \<Rightarrow> uuid \<Rightarrow> Accounts \<Rightarrow> bool" where
  "member_of org p networks i st \<longleftrightarrow>
     (\<exists>stored. hget (ac_users st) i = Some stored \<and> ub_organization_id (us_base stored) = org \<and>
        ub_permissions (us_base stored) = p) \<and>
     networks_of i (ac_user_networks st) = networks"

text \<open>The database lets the visitor in: the address is new, the rows referred to are there.\<close>

definition admissible :: "string \<Rightarrow> uuid \<Rightarrow> uuid list \<Rightarrow> AccEnv \<Rightarrow> Accounts \<Rightarrow> bool" where
  "admissible email org networks env st \<longleftrightarrow>
     (\<forall>u \<in> set (hvalues (ac_users st)). to_lowercase (ub_email (us_base u)) \<noteq> to_lowercase email) \<and>
     (\<forall>n. hget (ac_users st) (an_fresh env n) = None) \<and>
     (\<forall>(k, n) \<in> set (ac_user_networks st). hget (ac_users st) k \<noteq> None) \<and>
     hget (ac_organizations st) org \<noteq> None \<and>
     distinct networks \<and> (\<forall>n \<in> set networks. hget (ac_networks st) n \<noteq> None)"

lemma admissible_tables: "tables s = tables st \<Longrightarrow> admissible email org networks env s = admissible email org networks env st"
  by (simp add: tables_def admissible_def)

lemma ends_statement:
  assumes "\<And>n. an_refuse env n = None"
  shows "ends Q (acc_statement q) env st =
    (case q (st\<lparr>ac_ops := Suc (ac_ops st)\<rparr>) of Inl e \<Rightarrow> False | Inr (x, s) \<Rightarrow> Q x s)"
    and "ends Q (acc_query f) env st = Q (f (st\<lparr>ac_ops := Suc (ac_ops st)\<rparr>)) (st\<lparr>ac_ops := Suc (ac_ops st)\<rparr>)"
  using assms by (auto simp: ends_def acc_query_def acc_statement_def Let_def split: sum.splits prod.splits)

lemma ends_publish:
  "ends Q (acc_publish mk) env st =
     Q () (st\<lparr>ac_ops := Suc (ac_ops st), ac_events := ac_events st @ [mk env (an_fresh env (ac_ops st))]\<rparr>)"
  by (simp add: acc_publish_def ends_bind ends_simps) (simp add: ends_def)

lemma users_simps:
  "tb_id users_table = us_id" "tb_rows users_table = ac_users" "tb_taggable users_table = None"
  "tb_put users_table = (\<lambda>u st. st\<lparr>ac_users := hinsert (us_id u) (user_row u) (ac_users st)\<rparr>)"
  "tb_clash users_table = user_clash"
  "tb_refs users_table = (\<lambda>u st. hget (ac_organizations st) (ub_organization_id (us_base u)) \<noteq> None)"
  by (simp_all add: users_table_def)

lemma no_user_with_email:
  assumes "\<And>n. an_refuse env n = None" and "admissible email org networks env st"
  shows "ends (\<lambda>us s. us = [] \<and> tables s = tables st) (users_with_email email) env st"
proof -
  have "filter (\<lambda>u. ub_email (us_base u) = email) (hvalues (ac_users st)) = []"
    using assms(2) by (auto simp: admissible_def filter_empty_conv)
  then show ?thesis
    by (simp add: users_with_email_def tbl_get_all_def ends_bind ends_statement[OF assms(1)] select_rows_def rows_where_def
        users_simps hydrate_tags_def ends_simps tables_def)
qed

lemma values_insert: "x \<in> set (hvalues (hinsert k v m)) \<Longrightarrow> x = v \<or> x \<in> set (hvalues m)"
  by (induction m) (auto simp: hvalues_def hinsert_def split: if_splits)

lemma no_clash:
  assumes "\<forall>r \<in> set (hvalues (ac_users st)). us_id r \<noteq> us_id u \<longrightarrow>
      to_lowercase (ub_email (us_base u)) \<noteq> to_lowercase (ub_email (us_base r))"
    and "ub_oidc_provider (us_base u) = None"
  shows "first_clash users_table u st = None"
proof -
  have "List.find (\<lambda>r. us_id r \<noteq> us_id u \<and> user_clash u r \<noteq> None) (hvalues (ac_users st)) = None"
    using assms by (auto simp: user_clash_def find_None_iff)
  then show ?thesis by (simp add: first_clash_def users_simps)
qed

lemma user_create_ends:
  assumes ok: "\<And>n. an_refuse env n = None" and adm: "admissible (ub_email b) (ub_organization_id b) (ub_network_ids b) env st"
    and "ub_oidc_provider b = None" and u: "us_base u = b" "hget (ac_users st) (us_id u) = None"
  shows "ends (\<lambda>u1 s. us_base u1 = b \<and> hget (ac_users st) (us_id u1) = None \<and>
      ac_users s = hinsert (us_id u1) (user_row u1) (ac_users st) \<and> ac_organizations s = ac_organizations st \<and>
      networks_of (us_id u1) (ac_user_networks s) = ub_network_ids b) (user_create u auth) env st"
proof -
  have fresh: "List.find (\<lambda>r. ub_email (us_base r) = ub_email b) (hvalues (ac_users st)) = None"
    using adm by (auto simp: admissible_def find_None_iff)
  have none: "networks_of i (ac_user_networks st) = []" if "hget (ac_users st) i = None" for i
    using adm that by (auto simp: admissible_def networks_of_def filter_empty_conv)
  have own: "networks_of i (filter (\<lambda>(k, _). k \<noteq> i) rows @ map (\<lambda>n. (i, n)) ns) = ns" for i rows and ns :: "uuid list"
    by (induction rows) (auto simp: networks_of_def filter_map comp_def)
  have clash: "first_clash users_table u1 (st\<lparr>ac_ops := n\<rparr>) = None" if "us_base u1 = b" for u1 n
    using adm assms(3) that by (intro no_clash) (auto simp: admissible_def)
  have nets: "\<not> list_ex (\<lambda>n. hget (ac_networks st) n = None) (ub_network_ids b)" "distinct (ub_network_ids b)"
    using adm by (auto simp: admissible_def list_ex_iff)
  have org: "hget (ac_organizations st) (ub_organization_id b) \<noteq> None" using adm by (simp add: admissible_def)
  have run: "ends (\<lambda>u1 s. us_base u1 = b \<and> hget (ac_users st) (us_id u1) = None \<and>
      ac_users s = hinsert (us_id u1) (user_row u1) (ac_users st) \<and> ac_organizations s = ac_organizations st \<and>
      networks_of (us_id u1) (ac_user_networks s) = ub_network_ids b)
     (acc_bind (row_insert users_table u1) (\<lambda>_.
         acc_bind (acc_when (ub_network_ids b \<noteq> []) (user_set_network_ids (us_id u1) (ub_network_ids b))) (\<lambda>_.
         acc_bind (publish_entity_of users_table u1 Created meta auth) (\<lambda>_. acc_ok u1)))) env (st\<lparr>ac_ops := n\<rparr>)"
    if u1: "us_base u1 = b" "hget (ac_users st) (us_id u1) = None" for u1 n meta
    using none[OF u1(2)] own[of "us_id u1"] nets org u1
    by (auto simp: ends_bind row_insert_def ends_statement[OF ok] users_simps clash[OF u1(1)] acc_when_def ends_simps
        user_set_network_ids_def replace_networks_def publish_entity_of_def ends_publish lookup_simps)
  have "hget (ac_users st) (an_fresh env n) = None" for n using adm by (simp add: admissible_def)
  then show ?thesis
    using run[of "if us_id u = uuid_nil then user_new (an_fresh env (Suc (ac_ops st))) (an_now env) b else u" _ "Suc (Suc (ac_ops st))"] u
    by (auto simp: user_create_def ends_bind ends_statement(2)[OF ok] fresh ends_simps Let_def user_new_def split: if_splits)
qed

lemma save_user_keeps:
  "ac_user_networks (snd (save_user u env st)) = ac_user_networks st"
  "ac_users (snd (save_user u env st)) = ac_users st \<or>
   ac_users (snd (save_user u env st)) = hinsert (us_id u) (user_row u) (ac_users st)"
  by (auto simp: save_user_def tbl_update_def tbl_get_by_id_def hydrate_tags_def acc_bind_def acc_query_def acc_statement_def
      row_update_def users_simps store_tags_def publish_entity_of_def publish_run acc_ok_def acc_err_def Let_def
      split: option.split prod.split)

lemma member_saved:
  assumes "hget (ac_users st) i = Some stored" "us_id u = i" "ub_organization_id (us_base u) = org" "ub_permissions (us_base u) = p"
    and "member_of org p networks i st"
  shows "member_of org p networks i (snd (save_user u env st))"
  using save_user_keeps[of u env st] assms
  by (auto simp: member_of_def lookup_simps user_row_def on_user_def)

lemma save_user_answers:
  assumes ok: "\<And>n. an_refuse env n = None" and "hget (ac_users st) (us_id u) \<noteq> None" "ub_oidc_provider (us_base u) = None"
    and "hget (ac_organizations st) (ub_organization_id (us_base u)) \<noteq> None"
    and others: "\<forall>r \<in> set (hvalues (ac_users st)). us_id r \<noteq> us_id u \<longrightarrow>
      to_lowercase (ub_email (us_base u)) \<noteq> to_lowercase (ub_email (us_base r))"
  shows "ends (\<lambda>_ s. s = snd (save_user u env st)) (save_user u) env st"
proof -
  have clash: "first_clash users_table u (st\<lparr>ac_ops := n\<rparr>) = None" for n
    using others assms(3) by (intro no_clash) simp_all
  have "ends (\<lambda>_ _. True) (save_user u) env st"
    using assms(2,4)
    by (auto simp: save_user_def tbl_update_def tbl_get_by_id_def ends_bind ends_statement[OF ok] users_simps hydrate_tags_def
        ends_simps row_update_def clash store_tags_def publish_entity_of_def ends_publish split: option.split)
  then show ?thesis by (auto simp: ends_def)
qed

definition joining_params :: "uuid \<Rightarrow> UserOrgPermissions \<Rightarrow> uuid list \<Rightarrow> IpAddr \<Rightarrow> string option \<Rightarrow> LoginRegisterParams" where
  "joining_params org p networks ip agent =
     \<lparr>lp_org_id = Some org, lp_permissions = Some p, lp_ip = ip, lp_user_agent = agent, lp_network_ids = networks\<rparr>"

lemma provision_joins:
  assumes ok: "\<And>n. an_refuse env n = None" and adm: "admissible email org networks env st"
  shows "ends (\<lambda>u s. ub_organization_id (us_base u) = org \<and> ub_permissions (us_base u) = p \<and> ub_email (us_base u) = email \<and>
      ub_oidc_provider (us_base u) = None \<and> hget (ac_users st) (us_id u) = None \<and>
      ac_users s = hinsert (us_id u) (user_row u) (ac_users st) \<and> ac_organizations s = ac_organizations st \<and>
      networks_of (us_id u) (ac_user_networks s) = networks)
    (provision_user \<lparr>pu_email = email, pu_password_hash = Some hash, pu_oidc_subject = None, pu_oidc_provider = None,
       pu_org_id = Some org, pu_permissions = Some p, pu_network_ids = networks, pu_terms_accepted_at = terms,
       pu_billing_enabled = billing, pu_marketing_opt_in = opt_in\<rparr> None) env st"
proof -
  let ?b = "user_base_password email hash org p networks terms"
  let ?st = "st\<lparr>ac_ops := Suc (ac_ops st)\<rparr>"
  have b: "ub_email ?b = email" "ub_organization_id ?b = org" "ub_permissions ?b = p" "ub_network_ids ?b = networks"
    "ub_oidc_provider ?b = None" by (simp_all add: user_base_password_def)
  have "admissible (ub_email ?b) (ub_organization_id ?b) (ub_network_ids ?b) env ?st"
    using adm unfolding b by (subst admissible_tables[of ?st st]) (simp_all add: tables_def)
  moreover have "hget (ac_users ?st) (us_id (user_new (an_fresh env (ac_ops st)) (an_now env) ?b)) = None"
    using adm by (simp add: admissible_def user_new_def)
  ultimately have "ends (\<lambda>u1 s. us_base u1 = ?b \<and> hget (ac_users st) (us_id u1) = None \<and>
      ac_users s = hinsert (us_id u1) (user_row u1) (ac_users st) \<and> ac_organizations s = ac_organizations st \<and>
      networks_of (us_id u1) (ac_user_networks s) = networks)
    (user_create (user_new (an_fresh env (ac_ops st)) (an_now env) ?b) AuthSystem) env ?st"
    using user_create_ends[OF ok, of ?b ?st] by (simp add: b user_new_def)
  then show ?thesis
    unfolding provision_user_def
    by (simp add: ends_bind ends_simps Let_def acc_when_def) (erule ends_mono, auto simp: b)
qed

lemma register_joins:
  assumes ok: "\<And>n. an_refuse env n = None" and hashes: "\<And>n. an_hash_error env n (rr_password rq) = None"
    and adm: "admissible (rr_email rq) org networks env st" and valid: "validate_register_request rq = []"
  shows "ends (\<lambda>u s. member_of org p networks (us_id u) s)
    (register show_errors rq (joining_params org p networks ip agent) None billing) env st"
proof -
  let ?Q = "\<lambda>u s. member_of org p networks (us_id u) s"
  have hash: "ends Q (hash_password (rr_password rq)) env s =
      Q (an_hash_password env (ac_ops s) (rr_password rq)) (s\<lparr>ac_ops := Suc (ac_ops s)\<rparr>)" for Q s
    by (simp add: ends_def hash_password_def hashes)
  have publish: "ends Q (publish_user_auth oper u ip agent meta auth) env s \<longleftrightarrow>
      Q () (s\<lparr>ac_ops := Suc (ac_ops s), ac_events := ac_events s @ [AuthEv \<lparr>ae_id = an_fresh env (ac_ops s),
        ae_user_id = Some (us_id u), ae_organization_id = Some (ub_organization_id (us_base u)), ae_operation = oper,
        ae_timestamp = an_now env, ae_ip_address = ip, ae_user_agent = agent, ae_metadata = meta, ae_authentication = auth\<rparr>]\<rparr>)"
    for Q oper u meta auth s by (simp add: publish_user_auth_def publish_auth_def ends_publish)
  have members: "member_of org p networks i (s\<lparr>ac_ops := n, ac_events := es\<rparr>) = member_of org p networks i s" for i s n es
    by (simp add: member_of_def)
  \<comment> \<open>the mail with the token, and the verified address where no mail is configured\<close>
  have verification: "ends (\<lambda>u1 s1. us_id u1 = us_id u \<and> member_of org p networks (us_id u) s1)
      (acc_bind (acc_env an_email_service) (\<lambda>has_email_service.
         if has_email_service then acc_bind (send_verification_email_internal u) (\<lambda>(r, u1). acc_ok u1)
         else let u1 = on_user (\<lambda>b. b\<lparr>ub_email_verified := True\<rparr>) u in acc_bind (save_user u1) (\<lambda>_. acc_ok u1))) env s"
    if u: "ub_organization_id (us_base u) = org" "ub_permissions (us_base u) = p" "ub_email (us_base u) = rr_email rq"
        "ub_oidc_provider (us_base u) = None" "hget (ac_users st) (us_id u) = None"
        "ac_users s = hinsert (us_id u) (user_row u) (ac_users st)" "ac_organizations s = ac_organizations st"
        "networks_of (us_id u) (ac_user_networks s) = networks" for u and s :: Accounts
  proof (cases "an_email_service env")
    case True
    have member: "member_of org p networks (us_id u) (s\<lparr>ac_ops := n\<rparr>)" for n
      using u by (auto simp: member_of_def lookup_simps user_row_def on_user_def)
    have mails: "member_of org p networks i (snd (send_mail m env s2)) = member_of org p networks i s2" for m s2 i
      by (auto simp: send_mail_def member_of_def split: option.split)
    have sent: "member_of org p networks (us_id u) (snd (acc_bind (save_user u1) (\<lambda>_. send_mail m) env (s\<lparr>ac_ops := n\<rparr>)))"
      if "us_id u1 = us_id u" "ub_organization_id (us_base u1) = org" "ub_permissions (us_base u1) = p" for u1 m n
    proof -
      have "member_of org p networks (us_id u) (snd (save_user u1 env (s\<lparr>ac_ops := n\<rparr>)))"
        using member that u(6) by (intro member_saved[where stored = "user_row u"]) (simp_all add: lookup_simps)
      then show ?thesis
        using mails[of "us_id u" m "snd (save_user u1 env (s\<lparr>ac_ops := n\<rparr>))"]
        by (auto simp: acc_bind_def split: prod.split sum.split)
    qed
    from True show ?thesis
      by (simp add: send_verification_email_internal_def new_token_def ends_bind ends_simps Let_def)
         (intro conjI sent, simp_all add: set_verification_token_def on_user_def u)
  next
    case False
    let ?u = "on_user (\<lambda>b. b\<lparr>ub_email_verified := True\<rparr>) u"
    have member: "member_of org p networks (us_id u) s"
      using u by (auto simp: member_of_def lookup_simps user_row_def on_user_def)
    have others: "\<forall>r \<in> set (hvalues (ac_users s)). us_id r \<noteq> us_id ?u \<longrightarrow>
        to_lowercase (ub_email (us_base ?u)) \<noteq> to_lowercase (ub_email (us_base r))"
      using adm values_insert[of _ "us_id u" "user_row u" "ac_users st"] u(3,6)
      by (fastforce simp: admissible_def on_user_def user_row_def)
    have "ends (\<lambda>_ s1. s1 = snd (save_user ?u env s)) (save_user ?u) env s"
      using adm u others by (intro save_user_answers ok) (simp_all add: on_user_def lookup_simps admissible_def)
    moreover have "member_of org p networks (us_id u) (snd (save_user ?u env s))"
      using member u by (intro member_saved[where stored = "user_row u"]) (simp_all add: lookup_simps on_user_def)
    ultimately show ?thesis
      using False by (simp add: ends_bind ends_simps Let_def) (erule ends_mono, simp add: on_user_def)
  qed
  have provisioned: "ends (\<lambda>u s. ends ?Q (acc_bind (acc_env an_email_service) (\<lambda>has_email_service.
        acc_bind (if has_email_service then acc_bind (send_verification_email_internal u) (\<lambda>(r, u1). acc_ok u1)
          else let u1 = on_user (\<lambda>b. b\<lparr>ub_email_verified := True\<rparr>) u in acc_bind (save_user u1) (\<lambda>_. acc_ok u1)) (\<lambda>u1.
        acc_bind (publish_user_auth Register u1 ip agent (meta u1) (entity_of_user u1)) (\<lambda>_. acc_ok u1)))) env s)
      (provision_user \<lparr>pu_email = rr_email rq, pu_password_hash = Some h, pu_oidc_subject = None, pu_oidc_provider = None,
         pu_org_id = Some org, pu_permissions = Some p, pu_network_ids = networks, pu_terms_accepted_at = terms,
         pu_billing_enabled = billing, pu_marketing_opt_in = rr_marketing_opt_in rq\<rparr> None) env s0"
    if s0: "tables s0 = tables st" for h terms meta s0
  proof -
    have "admissible (rr_email rq) org networks env s0" using adm admissible_tables[OF s0] by simp
    from provision_joins[OF ok this, of p h terms billing "rr_marketing_opt_in rq"] show ?thesis
    proof (rule ends_mono)
      fix u :: User and s :: Accounts
      assume "ub_organization_id (us_base u) = org \<and> ub_permissions (us_base u) = p \<and> ub_email (us_base u) = rr_email rq \<and>
        ub_oidc_provider (us_base u) = None \<and> hget (ac_users s0) (us_id u) = None \<and>
        ac_users s = hinsert (us_id u) (user_row u) (ac_users s0) \<and> ac_organizations s = ac_organizations s0 \<and>
        networks_of (us_id u) (ac_user_networks s) = networks"
      then have "ends (\<lambda>u1 s1. us_id u1 = us_id u \<and> member_of org p networks (us_id u) s1)
        (acc_bind (acc_env an_email_service) (\<lambda>has_email_service.
           if has_email_service then acc_bind (send_verification_email_internal u) (\<lambda>(r, u1). acc_ok u1)
           else let u1 = on_user (\<lambda>b. b\<lparr>ub_email_verified := True\<rparr>) u in acc_bind (save_user u1) (\<lambda>_. acc_ok u1))) env s"
        using s0 by (intro verification) (simp_all add: tables_def)
      then show "ends ?Q (acc_bind (acc_env an_email_service) (\<lambda>has_email_service.
        acc_bind (if has_email_service then acc_bind (send_verification_email_internal u) (\<lambda>(r, u1). acc_ok u1)
          else let u1 = on_user (\<lambda>b. b\<lparr>ub_email_verified := True\<rparr>) u in acc_bind (save_user u1) (\<lambda>_. acc_ok u1)) (\<lambda>u1.
        acc_bind (publish_user_auth Register u1 ip agent (meta u1) (entity_of_user u1)) (\<lambda>_. acc_ok u1)))) env s"
        unfolding ends_bind ends_simps publish members by (rule ends_mono) simp
    qed
  qed
  have bind_ok: "acc_bind (acc_ok x) f = f x" for x :: 'x and f :: "'x \<Rightarrow> (AnyError, 'y) acc"
    by (simp add: acc_bind_def acc_ok_def)
  show ?thesis
    unfolding register_def validated_def joining_params_def LoginRegisterParams.simps valid simp_thms if_True bind_ok
    by (rule ends_then[OF no_user_with_email[OF ok adm]], elim conjE, hypsubst, simp only: simp_thms if_False,
        simp only: ends_bind ends_simps hash, rule provisioned[unfolded ends_bind ends_simps], simp add: tables_def)
qed

text \<open>C32: Once a visitor's session holds what the link of an invite has put there, registering in this
  session makes the visitor a user of the inviting organization with the permissions and networks
  of that moment, and logs it in, whatever has become of the invite: nothing is asked of the
  table of invites, so that revoking the invite, its expiry or its use by somebody else do not stop
  the registration. It goes through whenever the address is new and allowed, the password valid,
  and the organization and the networks are still there.\<close>

theorem opened_invite_survives_revocation:
  assumes "\<And>n. an_refuse env n = None" and "\<And>n. an_session_fails env n = None"
    and "\<And>n. an_hash_error env n (rr_password rq) = None"
    and "registration_refused cfg host rq = None" and "validate_register_request rq = []"
    and "opened_link sid org p networks st" and "admissible (rr_email rq) org networks env st"
  shows "\<exists>u st1. register_endpoint cfg host ip agent sid rq env st = (Inr u, st1) \<and>
    member_of org p networks (us_id u) st1 \<and> ws_user_id (session_of sid st1) = Some (us_id u)"
proof -
  let ?Q = "\<lambda>u st1. member_of org p networks (us_id u) st1 \<and> ws_user_id (session_of sid st1) = Some (us_id u)"
  have session: "ends Q (begin_session sid i) env s =
      Q () (s\<lparr>ac_ops := Suc (ac_ops s), ac_sessions := hinsert sid ((session_of sid s)\<lparr>ws_user_id := Some i\<rparr>) (ac_sessions s)\<rparr>)"
    for Q i s
    by (simp add: begin_session_def session_failure_def ends_map_err) (simp add: ends_def session_put_def assms(2) Let_def)
  have sessions: "ac_sessions s = ac_sessions st" if "users_with_email email env st = (Inr us, s)" for email us s
    using sessions_view.kept_get(3)[of users_table "\<lambda>u. ub_email (us_base u) = email"] that
    unfolding users_with_email_def by (rule sparesD)
  from no_user_with_email[OF assms(1,7)] obtain s0 where s0:
      "users_with_email (rr_email rq) env st = (Inr [], s0)" "tables s0 = tables st"
    by (auto simp: ends_def)
  with sessions have link: "opened_link sid org p networks s0"
    using assms(6) by (simp add: opened_link_def session_of_def)
  have registered: "ends ?Q (acc_bind (answered (register (lc_show_errors cfg) rq (joining_params org p networks ip agent) None (lc_billing cfg)))
      (\<lambda>u. acc_bind (begin_session sid (us_id u)) (\<lambda>_. acc_ok u))) env s1" if "tables s1 = tables st" for s1
  proof (rule ends_then)
    show "ends (\<lambda>u s. member_of org p networks (us_id u) s)
        (answered (register (lc_show_errors cfg) rq (joining_params org p networks ip agent) None (lc_billing cfg))) env s1"
      unfolding answered_def ends_map_err
      using assms(7) admissible_tables[OF that] by (intro register_joins assms) simp_all
  qed (simp add: ends_bind session ends_simps member_of_def session_of_def lookup_simps)
  have bind_ok: "acc_bind (acc_ok x) f = f x" for x :: 'x and f :: "'x \<Rightarrow> 'y handler"
    by (simp add: acc_bind_def acc_ok_def)
  have free: "ends (\<lambda>_ s. s = s0) (email_in_use_check (rr_email rq)) env st"
    using s0(1) by (simp add: email_in_use_check_def answered_def ends_bind ends_map_err) (simp add: ends_def acc_ok_def)
  have "ends ?Q (register_endpoint cfg host ip agent sid rq) env st"
    unfolding register_endpoint_def assms(4) option.case
  proof (rule ends_then[OF free], clarify, rule ends_then[OF pending_invite_ends[OF assms(2) link]], elim conjE)
    fix j and s :: Accounts assume "j = Some (org, p, networks)" "tables s = tables s0"
    with s0(2) registered[of s] show "ends ?Q (acc_bind (if j = None then extract_pending_setup sid else acc_ok None) (\<lambda>setup.
        acc_bind (answered (register (lc_show_errors cfg) rq
            \<lparr>lp_org_id = map_option fst j, lp_permissions = map_option (\<lambda>j. fst (snd j)) j, lp_ip = ip, lp_user_agent = agent,
             lp_network_ids = (case j of Some j \<Rightarrow> snd (snd j) | None \<Rightarrow> [])\<rparr> setup (lc_billing cfg))) (\<lambda>u.
        acc_bind (begin_session sid (us_id u)) (\<lambda>_.
        acc_bind (case setup of Some s \<Rightarrow> acc_bind (lc_apply_setup cfg u s) (\<lambda>_. clear_pending_setup sid) | None \<Rightarrow> acc_ok ()) (\<lambda>_.
          acc_ok u))))) env s"
      by (simp add: bind_ok joining_params_def)
  qed
  then show ?thesis by (simp add: ends_def)
qed

definition demo_guest :: Accounts where
  \<comment> \<open>the visitor has opened the link of the invite 40, which is not in the table any more\<close>
  "demo_guest = demo_accounts\<lparr>ac_sessions := [(''s2'', empty_session\<lparr>ws_pending_org_invite := Some 1, ws_pending_invite_id := Some 40,
     ws_pending_invite_permissions := Some Admin, ws_pending_network_ids := Some [21]\<rparr>)]\<rparr>"

theorem opened_invite_survives_revocation_witness:
  "hget (ac_invites demo_guest) 40 = None \<and>
   (\<exists>u st1. register_endpoint \<lparr>lc_disable_registration = False, lc_billing = False, lc_unwanted = \<lambda>_. False, lc_show_errors = concat,
        lc_apply_setup = \<lambda>_ _. acc_ok ()\<rparr> ''localhost'' (V4 0) None ''s2''
      \<lparr>rr_email = ''eve@z.org'', rr_password = ''Correcthorse1'', rr_terms_accepted = True, rr_marketing_opt_in = False\<rparr>
      (acc_demo_env\<lparr>an_fresh := \<lambda>_. 99\<rparr>) demo_guest = (Inr u, st1) \<and>
    member_of 1 Admin [21] (us_id u) st1)"
proof -
  let ?rq = "\<lparr>rr_email = ''eve@z.org'', rr_password = ''Correcthorse1'', rr_terms_accepted = True, rr_marketing_opt_in = False\<rparr>"
  let ?env = "acc_demo_env\<lparr>an_fresh := \<lambda>_. 99\<rparr>"
  have valid: "validate_register_request ?rq = []" by code_simp
  have link: "opened_link ''s2'' 1 Admin [21] demo_guest"
    by (simp add: opened_link_def demo_guest_def demo_account_defs session_of_def hget_def)
  have adm: "admissible ''eve@z.org'' 1 [21] ?env demo_guest"
    by (simp add: admissible_def demo_guest_def demo_account_defs hvalues_def hget_def to_lowercase_def char_lower_def)
  have "hget (ac_invites demo_guest) 40 = None" by (simp add: demo_guest_def demo_account_defs hget_def)
  moreover have "registration_refused \<lparr>lc_disable_registration = False, lc_billing = False, lc_unwanted = \<lambda>_. False, lc_show_errors = concat,
        lc_apply_setup = \<lambda>_ _. acc_ok ()\<rparr> ''localhost'' ?rq = None"
    by (simp add: registration_refused_def is_demo_only_host_def demo_only_host_def hostname_of_def)
  ultimately show ?thesis
    using opened_invite_survives_revocation[of ?env ?rq _ "''localhost''" "''s2''" 1 Admin "[21]" demo_guest "V4 0" None, OF _ _ _ _ valid link]
      adm by (simp add: demo_account_defs) blast
qed

section \<open>Tokens\<close>

text \<open>C18: A password is reset only with the token stored for a user and before it expires; then the
  user's stored row has the hash of the new password and no token any more.\<close>

theorem password_reset_sound:
  assumes "complete_password_reset token pw ip agent env st = (Inr u, st1)"
  shows "\<exists>before expires n. before \<in> set (hvalues (ac_users st)) \<and> ub_password_reset_token (us_base before) = Some token \<and>
    ub_password_reset_expires (us_base before) = Some expires \<and> an_now env \<le> expires \<and> us_id u = us_id before \<and>
    ac_users st1 = hinsert (us_id u) (user_row u) (ac_users st) \<and> ub_password_reset_token (us_base u) = None \<and>
    ub_password_hash (us_base u) = Some (an_hash_password env n pw)"
proof -
  from assms obtain before expires st2 st3 st4 where
      found: "List.find (\<lambda>u. ub_password_reset_token (us_base u) = Some token) (hvalues (ac_users st)) = Some before" and
      expires: "ub_password_reset_expires (us_base before) = Some expires" "an_now env \<le> expires" and
      st2: "st2 = st\<lparr>ac_ops := Suc (ac_ops st)\<rparr>" and
      pub: "publish_user_auth PasswordResetCompleted before ip agent (JObj []) (entity_of_user before) env st2 = (Inr () :: AnyError + unit, st3)" and
      u: "u = without_reset_token (set_password (an_now env) (an_hash_password env (ac_ops st3) pw) before)" and
      st4: "st4 = st3\<lparr>ac_ops := Suc (ac_ops st3)\<rparr>" and
      saved: "\<exists>x. tbl_update users_table u AuthSystem env st4 = (Inr x, st1)"
    by (auto simp: complete_password_reset_def save_user_def acc_bind_result acc_env_result acc_ok_result acc_err_result user_find
        hash_password_result Let_def split: option.splits if_splits)
  from sparesD[OF users_view.kept_publish_user pub] st2 st4 have "ac_users st4 = ac_users st" by simp
  with saved user_update_result have "ac_users st1 = hinsert (us_id u) (user_row u) (ac_users st)" by metis
  moreover have "us_id u = us_id before" "ub_password_reset_token (us_base u) = None"
      "ub_password_hash (us_base u) = Some (an_hash_password env (ac_ops st3) pw)"
    by (simp_all add: u without_reset_token_def set_password_def on_user_def)
  moreover note expires find_Some_mem[OF found]
  ultimately show ?thesis by blast
qed

definition demo_forgetful :: User where
  "demo_forgetful = on_user (\<lambda>b. b\<lparr>ub_password_reset_token := Some ''t1'', ub_password_reset_expires := Some 2000,
     ub_email_verification_token := Some ''t2'', ub_email_verification_expires := Some 2000, ub_pending_email := Some ''new@x.org''\<rparr>)
     (demo_account 7 ''ann@x.org'' 1 Admin)"

theorem password_reset_sound_witness:
  "\<exists>u st1. complete_password_reset ''t1'' ''secretsecret'' (V4 0) None acc_demo_env (demo_accounts\<lparr>ac_users := [(7, demo_forgetful)]\<rparr>) =
     (Inr u, st1) \<and> ub_password_reset_token (us_base u) = None"
proof -
  have "\<exists>u st1. complete_password_reset ''t1'' ''secretsecret'' (V4 0) None acc_demo_env (demo_accounts\<lparr>ac_users := [(7, demo_forgetful)]\<rparr>) =
     (Inr u, st1)"
    by (simp add: complete_password_reset_def save_user_def demo_forgetful_def demo_account_defs on_user_def acc_run users_table_def
        without_reset_token_def set_password_def)
  then show ?thesis using password_reset_sound by blast
qed

text \<open>C19: An address is verified only with the token stored for a user and before it expires; the user
  then has the address it asked for, or keeps its own when it asked for none, the address counts as
  verified, and neither the token nor the wish is kept.\<close>

theorem verify_email_sound:
  assumes "verify_email token ip agent env st = (Inr u, st1)"
  shows "\<exists>before expires. before \<in> set (hvalues (ac_users st)) \<and> ub_email_verification_token (us_base before) = Some token \<and>
    ub_email_verification_expires (us_base before) = Some expires \<and> an_now env \<le> expires \<and>
    u = verified_user (case ub_pending_email (us_base before) of Some e \<Rightarrow> e | None \<Rightarrow> ub_email (us_base before)) before \<and>
    ac_users st1 = hinsert (us_id before) (user_row u) (ac_users st)"
proof -
  have same: "us_id (verified_user e x) = us_id x" for e x by (simp add: verified_user_def on_user_def)
  from assms obtain before expires st2 where
      found: "List.find (\<lambda>u. ub_email_verification_token (us_base u) = Some token) (hvalues (ac_users st)) = Some before" and
      expires: "ub_email_verification_expires (us_base before) = Some expires" "an_now env \<le> expires" and
      u: "u = verified_user (case ub_pending_email (us_base before) of Some e \<Rightarrow> e | None \<Rightarrow> ub_email (us_base before)) before" and
      saved: "\<exists>x. tbl_update users_table u AuthSystem env (st\<lparr>ac_ops := Suc (ac_ops st)\<rparr>) = (Inr x, st2)" and
      rest: "ac_users st1 = ac_users st2"
    by (auto simp: verify_email_def save_user_def acc_bind_result acc_env_result acc_ok_result acc_err_result user_find Let_def
        dest!: sparesD[OF users_view.kept_publish_user] sparesD[OF users_view.kept_mail_if]
        split: option.splits if_splits)
  from saved user_update_result rest same u have "ac_users st1 = hinsert (us_id before) (user_row u) (ac_users st)" by fastforce
  with found expires u show ?thesis using find_Some_mem by fastforce
qed

theorem verify_email_sound_witness:
  "\<exists>u st1. verify_email ''t2'' (V4 0) None acc_demo_env (demo_accounts\<lparr>ac_users := [(7, demo_forgetful)]\<rparr>) = (Inr u, st1) \<and>
     (\<exists>before. u = verified_user (case ub_pending_email (us_base before) of Some e \<Rightarrow> e | None \<Rightarrow> ub_email (us_base before)) before)"
proof -
  have "\<exists>u st1. verify_email ''t2'' (V4 0) None acc_demo_env (demo_accounts\<lparr>ac_users := [(7, demo_forgetful)]\<rparr>) = (Inr u, st1)"
    by (simp add: verify_email_def save_user_def demo_forgetful_def demo_account_defs on_user_def acc_run users_table_def
        verified_user_def send_mail_if_configured_def)
  then show ?thesis using verify_email_sound by metis
qed

text \<open>The present password of a user may be changed to one the login form refuses: when a change to
  a password of fewer than ten characters has succeeded, every later login with it fails, in every
  state of the database, before the password is looked at.\<close>

theorem short_password_locks_out:
  assumes "update_password i current pw ip agent auth env st = (Inr u, st1)" and "length pw < 10"
  shows "(\<exists>n. ub_password_hash (us_base u) = Some (an_hash_password env n pw)) \<and>
    (\<forall>texts email ip2 agent2 env2 st2.
      login_service texts \<lparr>lr_email = email, lr_password = pw\<rparr> ip2 agent2 env2 st2 =
        (Inl (OtherErr (''Validation failed: '' @ texts [''Password must be at least 10 characters''])), st2))"
proof -
  from assms(1) have "\<exists>n. ub_password_hash (us_base u) = Some (an_hash_password env n pw)"
    by (auto simp: update_password_def acc_bind_result acc_env_result acc_ok_result hash_password_result Let_def
        set_password_def on_user_def dest!: user_update_result)
  with assms(2) show ?thesis
    by (simp add: login_service_def validated_def validate_login_request_def password_too_short_def acc_bind_def acc_err_def)
qed

theorem short_password_locks_out_witness:
  "\<exists>u st1. update_password 7 (Some ''correcthorse'') ''Abc1'' (V4 0) None AuthSystem acc_demo_env demo_accounts = (Inr u, st1) \<and>
     fst (login_service concat \<lparr>lr_email = ''ann@x.org'', lr_password = ''Abc1''\<rparr> (V4 0) None acc_demo_env st1) =
       Inl (OtherErr ''Validation failed: Password must be at least 10 characters'')"
proof -
  have "\<exists>u st1. update_password 7 (Some ''correcthorse'') ''Abc1'' (V4 0) None AuthSystem acc_demo_env demo_accounts = (Inr u, st1)"
    by (simp add: update_password_def user_required_def verify_password_def demo_account_defs on_user_def acc_run users_table_def
        set_password_def send_mail_if_configured_def send_mail_def user_clash_def to_lowercase_def char_lower_def)
  then obtain u st1 where "update_password 7 (Some ''correcthorse'') ''Abc1'' (V4 0) None AuthSystem acc_demo_env demo_accounts = (Inr u, st1)"
    by blast
  with short_password_locks_out[OF this] show ?thesis by auto
qed

section \<open>The middlewares on the plan\<close>

lemma extracted_request:
  "rq_extracted rq = Some r \<Longrightarrow> from_request_parts cfg rq env st = (Inr (r, rq), st)"
  by (simp add: from_request_parts_def acc_ok_def)

lemma organization_loaded:
  assumes "rq_organization rq = None" "an_refuse env (ac_ops st) = None" "hget (ac_organizations st) i = Some o1"
  shows "acc_try (cached_organization rq i) env st = (Inr (Inr (o1, rq\<lparr>rq_organization := Some o1\<rparr>)), st\<lparr>ac_ops := Suc (ac_ops st)\<rparr>)"
  using assms by (simp add: cached_organization_def acc_try_def acc_bind_def failing_as_def acc_map_err_def tbl_get_by_id_def
      organizations_table_def hydrate_tags_def acc_query_def acc_statement_def acc_ok_def Let_def)

text \<open>With billing on, a user or API key of an organization that has not selected a plan passes the
  billing middleware, whatever the subscription: the missing plan counts as the default plan of
  the build, which is exempt, so the demand to select a plan is never made.\<close>

theorem no_plan_is_not_billed:
  assumes "rq_extracted rq = Some (Inr e)" "auth_organization_id e = Some i" "rq_organization rq = None"
    and "an_refuse env (ac_ops st) = None" "hget (ac_organizations st) i = Some o1" "ob_plan (og_base o1) = None"
    and "sc_stripe_secret cfg \<noteq> None"
  shows "require_billing_for_users cfg next_step rq env st =
    next_step (rq\<lparr>rq_organization := Some o1\<rparr>) env (st\<lparr>ac_ops := Suc (ac_ops st)\<rparr>)"
proof -
  have act: "acting_organization rq (Inr e) env st = (Inr (Some i, rq), st)"
    using assms(2) by (cases e) (auto simp: acting_organization_def acc_ok_def)
  have exempt: "billing_verdict (default_plan c) s = None" for c s
    by (simp add: billing_verdict_def default_plan_def get_commercial_self_hosted_plan_def get_community_plan_def)
  show ?thesis
    using assms(6,7) by (auto simp: require_billing_for_users_def acc_bind_def extracted_request[OF assms(1)] act
        organization_loaded[OF assms(3,4,5)] plan_of_def acc_env_def exempt)
qed

theorem no_plan_is_not_billed_witness:
  "require_billing_for_users demo_server_config (\<lambda>rq. acc_ok (failure_response err_not_authenticated))
     (demo_request\<lparr>rq_extracted := Some (Inr (AuthUser 7 1 Admin [21] ''ann@x.org'' True))\<rparr>) acc_demo_env demo_accounts =
   (Inr (failure_response err_not_authenticated), demo_accounts\<lparr>ac_ops := 1\<rparr>)"
  by (subst no_plan_is_not_billed[of _ "AuthUser 7 1 Admin [21] ''ann@x.org'' True" 1 _ _ "demo_organization 1 None"])
     (simp_all add: demo_account_defs hget_def acc_ok_def)

text \<open>C31: In a demo organization nothing is changed by anybody but an owner: a request with an unsafe
  method outside the login pages, made by a user or API key that is not an owner, is answered with
  the refusal, and nothing behind the middleware runs.\<close>

theorem demo_changes_refused:
  assumes "\<not> rq_safe rq" "\<not> starts_with (rq_path rq) ''/api/auth/''"
    and "rq_extracted rq = Some (Inr e)" "auth_organization_id e = Some i" "auth_permissions e \<noteq> Some Owner"
    and "rq_organization rq = None" "an_refuse env (ac_ops st) = None" "hget (ac_organizations st) i = Some o1"
    and "ob_plan (og_base o1) = Some (DemoPlan pc)"
  shows "demo_mode_middleware cfg next_step rq env st =
    (Inr (failure_response err_demo_mode_blocked), st\<lparr>ac_ops := Suc (ac_ops st)\<rparr>)"
proof -
  have act: "acting_organization rq (Inr e) env st = (Inr (Some i, rq), st)"
    using assms(4) by (cases e) (auto simp: acting_organization_def acc_ok_def)
  show ?thesis
    using assms(1,2,5,9) by (simp add: demo_mode_middleware_def acc_bind_def extracted_request[OF assms(3)] act
        organization_loaded[OF assms(6,7,8)] plan_of_def acc_env_def acc_ok_def acting_permissions_def)
qed

theorem demo_changes_refused_witness:
  "demo_mode_middleware demo_server_config (\<lambda>rq. acc_err err_not_authenticated)
     (demo_request\<lparr>rq_extracted := Some (Inr (AuthUser 8 2 Viewer [] ''bob@y.org'' True))\<rparr>) acc_demo_env demo_accounts =
   (Inr (failure_response err_demo_mode_blocked), demo_accounts\<lparr>ac_ops := 1\<rparr>)"
  by (subst demo_changes_refused[of _ "AuthUser 8 2 Viewer [] ''bob@y.org'' True" 2 _ _
        "demo_organization 2 (Some (DemoPlan (plan_config get_free_plan)))" "plan_config get_free_plan"])
     (simp_all add: demo_account_defs hget_def)

end
