(* ===== verification/Auth_Claims.thy ===== *)
theory Auth_Claims
  imports Account_Logic
begin

text \<open>
  Who a request can be: the entity the middleware extracts is backed by a credential that is
  stored and valid. Who can log in, and when guessing a password is stopped.
\<close>

section \<open>Credentials\<close>

definition key_presented :: "AccEnv \<Rightarrow> Request \<Rightarrow> ApiKeyType \<Rightarrow> string \<Rightarrow> timestamp option \<Rightarrow> bool \<Rightarrow> bool" where
  \<comment> \<open>the request carries the key with this hash, which is enabled and has not expired\<close>
  "key_presented env rq t hash expires enabled \<longleftrightarrow>
     (\<exists>raw. bearer_token rq = Some raw \<and> fst (api_key_from_key raw) = t \<and> hash = an_sha256 env raw) \<and>
     key_is_valid (an_now env) expires enabled"

definition networks_reached :: "User \<Rightarrow> Accounts \<Rightarrow> uuid list" where
  \<comment> \<open>all of the organization's for owners and admins\<close>
  "networks_reached u st =
     (if ub_permissions (us_base u) = Owner \<or> ub_permissions (us_base u) = Admin
      then keys_where (\<lambda>org. org = ub_organization_id (us_base u)) (ac_networks st)
      else networks_of (us_id u) (ac_user_networks st))"

fun vouched_for :: "ServerConfig \<Rightarrow> AccEnv \<Rightarrow> Request \<Rightarrow> Accounts \<Rightarrow> AuthenticatedEntity \<Rightarrow> bool" where
  "vouched_for cfg env rq st (AuthExternal name) \<longleftrightarrow>
     (\<exists>raw. bearer_token rq = Some raw \<and> is_metrics_token cfg raw) \<and>
     (\<forall>allowed. hget (sc_allowed_ips cfg) name = Some allowed \<longrightarrow> is_ip_allowed cfg (client_ip rq) allowed)"
| "vouched_for cfg env rq st (AuthApiKey i u org p ns) \<longleftrightarrow>
     (\<exists>k \<in> set (hvalues (ac_user_keys st)).
        key_presented env rq UserKey (uk_key (ua_base k)) (uk_expires_at (ua_base k)) (uk_is_enabled (ua_base k)) \<and>
        i = ua_id k \<and> u = uk_user_id (ua_base k) \<and> org = uk_organization_id (ua_base k) \<and>
        p = uk_permissions (ua_base k) \<and> (ns = networks_of i (ac_key_networks st) \<or> ns = []) \<and>
        has_api_access (hget (ac_organizations st) org))"
| "vouched_for cfg env rq st (AuthDaemon n i d) \<longleftrightarrow>
     (\<exists>k \<in> set (hvalues (ac_daemon_keys st)).
        key_presented env rq DaemonKey (dk_key (da_base k)) (dk_expires_at (da_base k)) (dk_is_enabled (da_base k)) \<and>
        n = dk_network_id (da_base k) \<and> i = da_id k \<and> Option.bind (rq_daemon_header rq) (sc_parse_uuid cfg) = Some d)"
| "vouched_for cfg env rq st (AuthUser i org p ns email verified) \<longleftrightarrow>
     bearer_token rq = None \<and>
     (\<exists>sid logged_in u. rq_session rq = Some sid \<and> ws_user_id (session_of sid st) = Some logged_in \<and>
        hget (ac_users st) logged_in = Some u \<and> i = us_id u \<and> org = ub_organization_id (us_base u) \<and>
        p = ub_permissions (us_base u) \<and> ns = networks_reached u st \<and> email = ub_email (us_base u) \<and>
        verified = ub_email_verified (us_base u))"
| "vouched_for cfg env rq st _ \<longleftrightarrow> False"

lemma validity_result:
  "check_key_validity t now expires enabled = Inr () \<longleftrightarrow> key_is_valid now expires enabled"
  by (auto simp: check_key_validity_def key_is_valid_def)

lemma refuse_key_result: "refuse_key rq t raw expires j e env st \<noteq> (Inr x, st1)"
  by (auto simp: refuse_key_def acc_results)

lemma read_kept:
  "or_default None (user_key_get_by_key h) env st = (r, st1) \<Longrightarrow>
   ac_organizations st1 = ac_organizations st \<and> ac_key_networks st1 = ac_key_networks st"
proof -
  assume a: "or_default None (user_key_get_by_key h) env st = (r, st1)"
  have 1: "spares ac_organizations (user_key_get_by_key h)"
    by (auto simp: user_key_get_by_key_def key_get_network_ids_def intro!: view_kept organizations_view.kept)
  have 2: "spares ac_key_networks (user_key_get_by_key h)"
    by (auto simp: user_key_get_by_key_def key_get_network_ids_def intro!: view_kept key_networks_view.kept)
  show ?thesis
    using sparesD[OF spares_or_default[OF 1] a] sparesD[OF spares_or_default[OF 2] a] by simp
qed

lemma external_login_vouched:
  assumes "bearer_token rq = Some raw" "is_metrics_token cfg raw" "external_login cfg rq env st = (Inr e, st1)"
  shows "vouched_for cfg env rq st e"
  using assms by (auto simp: external_login_def Let_def acc_results split: option.splits if_splits)

lemma user_key_found_result:
  assumes "user_key_found rq raw now k env st = (Inr e, st1)"
  obtains org networks where "key_is_valid now (uk_expires_at (ua_base k)) (uk_is_enabled (ua_base k))"
    "has_api_access (hget (ac_organizations st) (uk_organization_id (ua_base k)))"
    "networks = networks_of (ua_id k) (ac_key_networks st) \<or> networks = []"
    "e = AuthApiKey (ua_id k) (uk_user_id (ua_base k)) (uk_organization_id (ua_base k)) (uk_permissions (ua_base k)) networks"
proof -
  from assms have valid: "check_key_validity UserKey now (uk_expires_at (ua_base k)) (uk_is_enabled (ua_base k)) = Inr ()"
    by (cases "check_key_validity UserKey now (uk_expires_at (ua_base k)) (uk_is_enabled (ua_base k))")
       (simp_all add: user_key_found_def refuse_key_result)
  from assms[unfolded user_key_found_def valid sum.case]
  obtain org networks st2 st3 where
      org: "or_default None (tbl_get_by_id organizations_table (uk_organization_id (ua_base k))) env st = (Inr org :: ApiFailure + _, st2)" and
      access: "has_api_access org" and
      nets: "or_default [] (key_get_network_ids (ua_id k)) env st2 = (Inr networks :: ApiFailure + _, st3)" and
      e: "e = AuthApiKey (ua_id k) (uk_user_id (ua_base k)) (uk_organization_id (ua_base k)) (uk_permissions (ua_base k)) networks"
    by (clarsimp simp: acc_bind_result acc_ok_result acc_err_result split: if_splits)
  from access have "org \<noteq> None" by (cases org) (simp_all add: has_api_access_def)
  with org have org1: "org = hget (ac_organizations st) (uk_organization_id (ua_base k))" "st2 = st\<lparr>ac_ops := Suc (ac_ops st)\<rparr>"
    by (auto simp: or_default_result organization_read)
  from nets org1(2) have "networks = networks_of (ua_id k) (ac_key_networks st) \<or> networks = []"
    by (auto simp: or_default_result key_get_network_ids_def acc_query_result)
  with e access org1 valid show ?thesis
    using that by (simp add: validity_result)
qed

lemma user_key_login_vouched:
  assumes "bearer_token rq = Some raw" "fst (api_key_from_key raw) = UserKey"
    and "user_key_login rq raw env st = (Inr e, st1)"
  shows "vouched_for cfg env rq st e"
proof -
  from assms(3) obtain k st2 where
      got: "or_default None (user_key_get_by_key (an_sha256 env raw)) env st = (Inr (Some k) :: ApiFailure + _, st2)" and
      went: "user_key_found rq raw (an_now env) k env st2 = (Inr e, st1)"
    by (clarsimp simp: user_key_login_def acc_bind_result acc_env_result acc_err_result split: option.splits)
  from got[unfolded or_default_result] have "user_key_get_by_key (an_sha256 env raw) env st = (Inr (Some k), st2)"
    by simp
  then obtain stored ns ts where k: "stored \<in> set (hvalues (ac_user_keys st))" "uk_key (ua_base stored) = an_sha256 env raw"
      "k = on_user_key (\<lambda>b. b\<lparr>uk_network_ids := ns, uk_tags := ts\<rparr>) stored"
    by (rule user_key_find)
  from user_key_found_result[OF went] obtain networks where
      "key_is_valid (an_now env) (uk_expires_at (ua_base k)) (uk_is_enabled (ua_base k))"
      "has_api_access (hget (ac_organizations st2) (uk_organization_id (ua_base k)))"
      "networks = networks_of (ua_id k) (ac_key_networks st2) \<or> networks = []"
      "e = AuthApiKey (ua_id k) (uk_user_id (ua_base k)) (uk_organization_id (ua_base k)) (uk_permissions (ua_base k)) networks"
    by metis
  with k assms(1,2) read_kept[OF got] show ?thesis
    by (auto simp: on_user_key_def key_presented_def intro!: bexI[of _ stored])
qed

lemma daemon_key_login_vouched:
  assumes "bearer_token rq = Some raw" "fst (api_key_from_key raw) = DaemonKey"
    and "daemon_key_login cfg rq raw env st = (Inr e, st1)"
  shows "vouched_for cfg env rq st e"
proof -
  have unknown: "daemon_key_unknown rq raw d env st0 \<noteq> (Inr e, st1)" for d st0
    by (simp add: daemon_key_unknown_def acc_bind_result acc_err_result)
  from assms(3) obtain d k st2 where d: "Option.bind (rq_daemon_header rq) (sc_parse_uuid cfg) = Some d" and
      got: "or_default None (tbl_get_one daemon_keys_table (\<lambda>k. dk_key (da_base k) = an_sha256 env raw)) env st = (Inr (Some k) :: ApiFailure + _, st2)" and
      went: "daemon_key_found rq raw (an_now env) d k env st2 = (Inr e, st1)"
    by (clarsimp simp: daemon_key_login_def acc_bind_result acc_env_result acc_err_result unknown split: option.splits)
  from got[unfolded or_default_result]
  have "tbl_get_one daemon_keys_table (\<lambda>k. dk_key (da_base k) = an_sha256 env raw) env st = (Inr (Some k), st2)"
    by simp
  then obtain stored ts where k: "stored \<in> set (hvalues (ac_daemon_keys st))" "dk_key (da_base stored) = an_sha256 env raw"
      "k = on_daemon_key (\<lambda>b. b\<lparr>dk_tags := ts\<rparr>) stored"
    by (rule daemon_key_find)
  from went have valid: "check_key_validity DaemonKey (an_now env) (dk_expires_at (da_base k)) (dk_is_enabled (da_base k)) = Inr ()"
    by (cases "check_key_validity DaemonKey (an_now env) (dk_expires_at (da_base k)) (dk_is_enabled (da_base k))")
       (simp_all add: daemon_key_found_def refuse_key_result)
  from went[unfolded daemon_key_found_def valid sum.case] have "e = AuthDaemon (dk_network_id (da_base k)) (da_id k) d"
    by (clarsimp simp: acc_bind_result acc_ok_result)
  with k valid assms(1,2) d show ?thesis
    by (auto simp: on_daemon_key_def key_presented_def validity_result intro!: bexI[of _ stored])
qed

lemma session_login_vouched:
  assumes "bearer_token rq = None" "session_login rq env st = (Inr e, st1)"
  shows "vouched_for cfg env rq st e"
  using assms
  by (auto simp: session_login_def acc_results networks_reached_def user_get_network_ids_def split: option.splits if_splits)

text \<open>C4: Whatever the request, the entity the middleware extracts is backed by a valid
  credential: an external service by the configured metrics token and an allowed address; an API
  key or a daemon by a stored key whose hash is the one of the token presented, which is enabled
  and has not expired, with the owner, organization, permissions and network stored with it (and
  for API keys an organization whose plan includes API access, and no network beyond the key's
  own); a user by a session of that user and no token, with the permissions stored and exactly the
  networks of its role. The system and the anonymous entity are never extracted.\<close>

theorem extract_auth_sound:
  "extract_auth cfg rq env st = (Inr entity, st1) \<Longrightarrow> vouched_for cfg env rq st entity"
  using external_login_vouched user_key_login_vouched daemon_key_login_vouched session_login_vouched
  by (auto simp: extract_auth_def split: option.splits if_splits ApiKeyType.splits)

theorem extract_auth_sound_witness:
  "vouched_for demo_server_config acc_demo_env demo_request demo_accounts (AuthUser 7 1 Admin [21] ''ann@x.org'' True)"
  by (rule extract_auth_sound[of _ _ _ _ _ "demo_accounts\<lparr>ac_ops := 3\<rparr>"])
     (simp add: demo_account_defs extract_auth_def bearer_token_def session_login_def acc_bind_def session_get_def session_of_def
       hget_def acc_map_err_def acc_ok_def failing_as_def tbl_get_by_id_def users_table_def hydrate_tags_def acc_query_def
       acc_statement_def keys_where_def Let_def)

section \<open>Logging in\<close>

definition locked :: "AccEnv \<Rightarrow> string \<Rightarrow> Accounts \<Rightarrow> bool" where
  \<comment> \<open>five failures, the last one less than fifteen minutes ago\<close>
  "locked env email st \<longleftrightarrow>
     (\<exists>n since. hget (ac_login_attempts st) email = Some (n, since) \<and> 5 \<le> n \<and> an_instant env - since < 900)"

lemma lockout_result:
  "fst (check_login_lockout email env st) = Inr () \<longleftrightarrow> \<not> locked env email st"
  "snd (check_login_lockout email env st) = st"
  by (auto simp: check_login_lockout_def locked_def acc_bind_def acc_get_def elapsed_def acc_env_def acc_ok_def acc_err_def
      max_login_attempts_def lockout_duration_secs_def split: option.splits)

lemma try_login_result:
  assumes "try_login rq env st = (Inr u, st1)"
  shows "u \<in> set (hvalues (ac_users st)) \<and> ub_email (us_base u) = lr_email rq \<and> ub_email_verified (us_base u) \<and>
    (\<exists>h. ub_password_hash (us_base u) = Some h \<and> an_verify_password env (lr_password rq) h)"
proof -
  from assms obtain h where "List.find (\<lambda>u. ub_email (us_base u) = lr_email rq) (hvalues (ac_users st)) = Some u"
      "ub_password_hash (us_base u) = Some h" "an_verify_password env (lr_password rq) h" "ub_email_verified (us_base u)"
    by (auto simp: try_login_def user_with_email_def acc_results split: option.splits if_splits)
  then show ?thesis
    using find_Some_mem by fastforce
qed

text \<open>C8: A login succeeds only for a stored user with this e-mail address, whose address is
  verified and whose stored hash the password verifies against, when the address is not locked; the
  failures counted for the address are then forgotten.\<close>

theorem login_sound:
  assumes "login_service texts rq ip agent env st = (Inr u, st1)"
  shows "u \<in> set (hvalues (ac_users st)) \<and> ub_email (us_base u) = lr_email rq \<and> ub_email_verified (us_base u) \<and>
    (\<exists>h. ub_password_hash (us_base u) = Some h \<and> an_verify_password env (lr_password rq) h) \<and>
    \<not> locked env (lr_email rq) st \<and> 10 \<le> length (lr_password rq) \<and>
    hget (ac_login_attempts st1) (lr_email rq) = None"
proof -
  have long: "10 \<le> length (lr_password rq)"
    using assms by (auto simp: login_service_def acc_results validated_def validate_login_request_def password_too_short_def split: if_splits)
  with assms obtain st2 r st3 where
      free: "check_login_lockout (lr_email rq) env st = (Inr (), st2)" and
      tried: "try_login rq env st2 = (r, st3)" and
      rest: "(case r of
         Inr u \<Rightarrow>
           acc_bind (acc_put (\<lambda>st. st\<lparr>ac_login_attempts := hremove (lr_email rq) (ac_login_attempts st)\<rparr>)) (\<lambda>_.
           acc_bind (publish_user_auth LoginSuccess u ip agent (JObj [(''method'', JStr ''password'')]) (entity_of_user u)) (\<lambda>_.
             acc_ok u))
       | Inl e \<Rightarrow>
           acc_bind (publish_auth LoginFailed None None ip agent
               (JObj [(''method'', JStr ''password''), (''email'', JStr (lr_email rq))]) AuthAnonymous) (\<lambda>_.
           acc_bind (acc_env an_instant) (\<lambda>now.
           acc_bind (acc_put (record_failure now (lr_email rq))) (\<lambda>_. acc_err e)))) env st3 = (Inr u, st1)"
    by (auto simp: login_service_def acc_bind_result acc_try_result acc_ok_result validated_def validate_login_request_def password_too_short_def)
  from free have st2: "st2 = st" "\<not> locked env (lr_email rq) st"
    using lockout_result[of "lr_email rq" env st] by simp_all
  from rest obtain u1 where r: "r = Inr u1"
    by (cases r) (auto simp: acc_bind_result acc_err_result)
  with rest have u1: "u1 = u" and after: "publish_user_auth LoginSuccess u ip agent (JObj [(''method'', JStr ''password'')]) (entity_of_user u)
      env (st3\<lparr>ac_login_attempts := hremove (lr_email rq) (ac_login_attempts st3)\<rparr>) = (Inr () :: AnyError + unit, st1)"
    by (auto simp: acc_bind_result acc_put_result acc_ok_result)
  from after have "ac_login_attempts st1 = hremove (lr_email rq) (ac_login_attempts st3)"
    using sparesD[OF attempts_view.kept_publish_user] by fastforce
  then have "hget (ac_login_attempts st1) (lr_email rq) = None" by (simp add: lookup_simps)
  with try_login_result[of rq env st u st3] tried r u1 st2 long show ?thesis by simp
qed

theorem login_sound_witness:
  "ub_email (us_base (demo_account 7 ''ann@x.org'' 1 Admin)) = ''ann@x.org'' \<and> \<not> locked acc_demo_env ''ann@x.org'' demo_accounts"
proof -
  let ?rq = "\<lparr>lr_email = ''ann@x.org'', lr_password = ''correcthorse''\<rparr>"
  have "\<exists>st1. login_service concat ?rq (V4 0) None acc_demo_env demo_accounts = (Inr (demo_account 7 ''ann@x.org'' 1 Admin), st1)"
    by (simp add: demo_account_defs login_service_def validated_def validate_login_request_def password_too_short_def acc_bind_def
       check_login_lockout_def acc_get_def hget_def acc_ok_def acc_try_def try_login_def user_with_email_def tbl_get_one_def
       users_table_def hydrate_tags_def acc_query_def acc_statement_def hvalues_def verify_password_def acc_env_def acc_put_def
       publish_user_auth_def publish_auth_def publish_run Let_def)
  then show ?thesis using login_sound[where rq = ?rq] by auto
qed

section \<open>Guessing\<close>

fun guess_all :: "(string list \<Rightarrow> string) \<Rightarrow> string \<Rightarrow> IpAddr \<Rightarrow> (AccEnv \<times> string) list \<Rightarrow> Accounts \<Rightarrow> Accounts" where
  "guess_all texts email ip [] st = st"
| "guess_all texts email ip ((env, pw) # guesses) st =
     guess_all texts email ip guesses
       (snd (login_service texts \<lparr>lr_email = email, lr_password = pw\<rparr> ip None env st))"

lemma locked_login:
  assumes "locked env (lr_email rq) st"
  shows "\<exists>m. login_service texts rq ip agent env st = (Inl (OtherErr m), st)"
proof -
  have "\<exists>m. check_login_lockout (lr_email rq) env st = (Inl (OtherErr m), st)"
    using assms by (auto simp: check_login_lockout_def locked_def acc_bind_def acc_get_def elapsed_def acc_env_def acc_err_def
        max_login_attempts_def lockout_duration_secs_def)
  then show ?thesis
    by (auto simp: login_service_def acc_bind_def validated_def acc_ok_def acc_err_def)
qed

lemma wrong_guess_fails:
  assumes "\<And>h. \<not> an_verify_password env (lr_password rq) h"
  obtains e st1 where "try_login rq env st = (Inl e, st1)" "ac_login_attempts st1 = ac_login_attempts st"
proof -
  obtain r st1 where r: "try_login rq env st = (r, st1)" by fastforce
  with try_login_result assms obtain e where "r = Inl e" by (cases r) blast+
  moreover have "spares ac_login_attempts (try_login rq)"
    by (auto simp: try_login_def user_with_email_def verify_password_def intro!: view_kept attempts_view.kept)
  ultimately show ?thesis using that r sparesD by blast
qed

lemma wrong_guess_counted:
  assumes "\<And>h. \<not> an_verify_password env pw h" "10 \<le> length pw" "\<not> locked env email st"
  shows "hget (ac_login_attempts (snd (login_service texts \<lparr>lr_email = email, lr_password = pw\<rparr> ip agent env st))) email =
    Some (Suc (case hget (ac_login_attempts st) email of Some (n, _) \<Rightarrow> n | None \<Rightarrow> 0), an_instant env)"
proof -
  let ?rq = "\<lparr>lr_email = email, lr_password = pw\<rparr>"
  from wrong_guess_fails[of env ?rq st] assms(1) obtain e st1 where
      t: "try_login ?rq env st = (Inl e, st1)" "ac_login_attempts st1 = ac_login_attempts st" by auto
  have "check_login_lockout email env st = (Inr (), st)"
    using lockout_result[of email env st] assms(3) by (metis prod.collapse)
  with t assms(2) show ?thesis
    by (simp add: login_service_def validated_def validate_login_request_def password_too_short_def acc_bind_def acc_ok_def
        acc_try_def publish_auth_def publish_run acc_env_def acc_put_def acc_err_def record_failure_def lookup_simps)
qed

definition counted :: "string \<Rightarrow> nat \<Rightarrow> nat \<Rightarrow> Accounts \<Rightarrow> bool" where
  \<comment> \<open>at least k failures, or five, and the last one not before \<open>t0\<close>\<close>
  "counted email t0 k st \<longleftrightarrow>
     (case hget (ac_login_attempts st) email of None \<Rightarrow> k = 0 | Some (n, since) \<Rightarrow> t0 \<le> since \<and> min 5 k \<le> n)"

lemma guess_counted:
  assumes "10 \<le> length pw" "\<And>h. \<not> an_verify_password env pw h" "t0 \<le> an_instant env" "counted email t0 k st"
  shows "counted email t0 (Suc k) (snd (login_service texts \<lparr>lr_email = email, lr_password = pw\<rparr> ip agent env st))"
proof (cases "locked env email st")
  case True
  with locked_login[of env "\<lparr>lr_email = email, lr_password = pw\<rparr>" st texts ip agent]
  have "snd (login_service texts \<lparr>lr_email = email, lr_password = pw\<rparr> ip agent env st) = st" by auto
  with True assms(4) show ?thesis by (auto simp: locked_def counted_def)
next
  case False
  from assms(4) show ?thesis
    using wrong_guess_counted[OF assms(2,1) False, of texts ip agent] assms(3)
    by (auto simp: counted_def split: option.splits)
qed

lemma guesses_counted:
  assumes "\<forall>(env, pw) \<in> set guesses. 10 \<le> length pw \<and> (\<forall>h. \<not> an_verify_password env pw h) \<and> t0 \<le> an_instant env"
    and "counted email t0 k st"
  shows "counted email t0 (k + length guesses) (guess_all texts email ip guesses st)"
  using assms
proof (induction guesses arbitrary: st k)
  case (Cons g guesses)
  obtain env pw where g: "g = (env, pw)" by force
  with Cons.prems(1) have "10 \<le> length pw" "\<And>h. \<not> an_verify_password env pw h" "t0 \<le> an_instant env" by auto
  note step = guess_counted[OF this Cons.prems(2), of texts ip None]
  from Cons.prems(1) Cons.IH[OF _ step] g show ?case by simp
qed simp

text \<open>C9: Five wrong passwords lock an address: when no failure before the time \<open>t0\<close> is counted and
  at least five logins with wrong passwords are tried from \<open>t0\<close> on, no login with the address,
  whatever its password, succeeds until fifteen minutes after \<open>t0\<close>, and the refused attempt leaves
  the state as it is, so that the count and its time stay.\<close>

theorem guessing_locks_out:
  assumes "5 \<le> length guesses"
    and "\<forall>(env, pw) \<in> set guesses. 10 \<le> length pw \<and> (\<forall>h. \<not> an_verify_password env pw h) \<and> t0 \<le> an_instant env"
    and "case hget (ac_login_attempts st) email of None \<Rightarrow> True | Some (n, since) \<Rightarrow> t0 \<le> since"
    and "an_instant env < t0 + 900" and "lr_email rq = email"
  shows "\<exists>m. login_service texts rq ip agent env (guess_all texts email ip guesses st) =
    (Inl (OtherErr m), guess_all texts email ip guesses st)"
proof (rule locked_login)
  have "counted email t0 0 st" using assms(3) by (auto simp: counted_def split: option.splits)
  from guesses_counted[OF assms(2) this, of texts ip] assms(1)
  have "counted email t0 (length guesses) (guess_all texts email ip guesses st)" by simp
  with assms(1,4,5) show "locked env (lr_email rq) (guess_all texts email ip guesses st)"
    by (auto simp: counted_def locked_def split: option.splits)
qed

theorem guessing_locks_out_witness:
  "\<exists>m. fst (login_service concat \<lparr>lr_email = ''ann@x.org'', lr_password = ''correcthorse''\<rparr> (V4 0) None acc_demo_env
     (guess_all concat ''ann@x.org'' (V4 0) (replicate 5 (acc_demo_env\<lparr>an_verify_password := \<lambda>_ _. False\<rparr>, ''wronghorse1''))
       demo_accounts)) = Inl (OtherErr m)"
  using guessing_locks_out[of "replicate 5 (acc_demo_env\<lparr>an_verify_password := \<lambda>_ _. False\<rparr>, ''wronghorse1'')" 100 demo_accounts
      "''ann@x.org''" acc_demo_env "\<lparr>lr_email = ''ann@x.org'', lr_password = ''correcthorse''\<rparr>" concat "V4 0" None]
  by (auto simp: acc_demo_env_def demo_accounts_def hget_def)

section \<open>What a failed login answers\<close>

lemma try_login_error: "try_login rq env st = (Inl e, st1) \<Longrightarrow> \<exists>m. e = OtherErr m"
  by (auto simp: try_login_def user_with_email_def tbl_get_one_def hydrate_tags_def users_table_def acc_query_def acc_statement_def
      acc_bind_def acc_ok_def acc_err_def verify_password_def acc_env_def Let_def
      split: prod.splits sum.splits option.splits if_splits)

text \<open>A login with a wrong password is answered with status 500, internal server error, and not with
  the 401 the endpoint's documentation names.\<close>

theorem wrong_password_is_internal_error:
  assumes "\<And>h. \<not> an_verify_password env (lr_password rq) h" and "10 \<le> length (lr_password rq)"
    and "\<not> locked env (lr_email rq) st"
  shows "\<exists>e st1. login_endpoint cfg host ip agent sid rq env st = (Inl e, st1) \<and> af_status e = 500"
proof -
  from wrong_guess_fails[OF assms(1)] obtain e st1 where t: "try_login rq env st = (Inl e, st1)" by metis
  from try_login_error[OF t] obtain m where m: "e = OtherErr m" by blast
  have "check_login_lockout (lr_email rq) env st = (Inr (), st)"
    using lockout_result[of "lr_email rq" env st] assms(3) by (metis prod.collapse)
  with t m assms(2) show ?thesis
    by (simp add: login_endpoint_def login_service_def validated_def validate_login_request_def password_too_short_def acc_bind_def
        acc_ok_def acc_try_def publish_auth_def publish_run acc_env_def acc_put_def acc_err_def answered_def acc_map_err_def
        err_internal_def api_new_def)
qed

theorem wrong_password_is_internal_error_witness:
  "\<exists>e st1. login_endpoint \<lparr>lc_disable_registration = False, lc_billing = False, lc_unwanted = \<lambda>_. False, lc_show_errors = concat,
      lc_apply_setup = \<lambda>_ _. acc_ok ()\<rparr> ''localhost'' (V4 0) None ''s2''
      \<lparr>lr_email = ''ann@x.org'', lr_password = ''wronghorse1''\<rparr> (acc_demo_env\<lparr>an_verify_password := \<lambda>_ _. False\<rparr>) demo_accounts =
    (Inl e, st1) \<and> af_status e = 500"
  by (rule wrong_password_is_internal_error) (simp_all add: locked_def demo_accounts_def hget_def)

end
